(* ===== verification/Prelude.thy ===== *)
theory Prelude
  imports Main "HOL-Library.AList"
begin

text \<open>
  Shared vocabulary of the development: the machine arithmetic the Rust sources use
  (saturating, wrapping and clamping operations at a stated width), the byte-string
  operations of \<open>str\<close> (a Rust \<open>String\<close> is the list of its UTF-8 bytes, one \<open>char\<close> per
  byte, so \<open>len()\<close> is \<open>length\<close>), and \<open>HashMap\<close> as an association list whose order stands
  for the map's unspecified iteration order.  The collections \<open>wf_intros\<close> and
  \<open>frame_simps\<close> gather, over all components, the facts that an operation keeps its
  component's invariant and the facts that it leaves a field alone.
\<close>

named_theorems wf_intros "an operation keeps its component's invariant"
named_theorems frame_simps "a field or observation that an operation leaves unchanged"

section \<open>Integers at their width\<close>

text \<open>Unsigned integers are \<open>nat\<close>; each operation writes out what happens at the bound.\<close>

definition sat_add :: "nat \<Rightarrow> nat \<Rightarrow> nat \<Rightarrow> nat" where
  "sat_add w a b = min (a + b) (2 ^ w - 1)"

definition sat_mul :: "nat \<Rightarrow> nat \<Rightarrow> nat \<Rightarrow> nat" where
  "sat_mul w a b = min (a * b) (2 ^ w - 1)"

definition wrap_add :: "nat \<Rightarrow> nat \<Rightarrow> nat \<Rightarrow> nat" where
  "wrap_add w a b = (a + b) mod 2 ^ w"

definition wrap_mul :: "nat \<Rightarrow> nat \<Rightarrow> nat \<Rightarrow> nat" where
  "wrap_mul w a b = (a * b) mod 2 ^ w"

text \<open>\<open>i64\<close> addition wraps in a release build; \<open>i64::saturating_sub\<close> stops at \<open>i64::MIN\<close>.\<close>

definition i64_wrap :: "int \<Rightarrow> int" where
  "i64_wrap x = (x + 2 ^ 63) mod 2 ^ 64 - 2 ^ 63"

definition i64_sat_sub :: "int \<Rightarrow> int \<Rightarrow> int" where
  "i64_sat_sub a b = min (max (a - b) (- (2 ^ 63))) (2 ^ 63 - 1)"

text \<open>\<open>Ord::clamp\<close> (its panic for \<open>lo > hi\<close> is excluded by every caller) and \<open>div_ceil\<close>.\<close>

definition clamp :: "nat \<Rightarrow> nat \<Rightarrow> nat \<Rightarrow> nat" where
  "clamp x lo hi = (if x < lo then lo else if hi < x then hi else x)"

definition div_ceil :: "nat \<Rightarrow> nat \<Rightarrow> nat" where
  "div_ceil a b = (if a mod b = 0 then a div b else a div b + 1)"

text \<open>For evaluation the bound is computed as an \<open>int\<close>, whose numerals are binary.\<close>

lemma sat_add_code [code]: "sat_add w a b = nat (min (int a + int b) (2 ^ w - 1))"
proof -
  have "(1::nat) \<le> 2 ^ w" by simp
  then have "int (2 ^ w - 1) = 2 ^ w - 1" by (subst of_nat_diff) simp_all
  then have "int (sat_add w a b) = min (int a + int b) (2 ^ w - 1)"
    by (simp add: sat_add_def of_nat_min)
  then show ?thesis by (metis nat_int)
qed

lemma sat_mul_code [code]: "sat_mul w a b = nat (min (int a * int b) (2 ^ w - 1))"
proof -
  have "(1::nat) \<le> 2 ^ w" by simp
  then have "int (2 ^ w - 1) = 2 ^ w - 1" by (subst of_nat_diff) simp_all
  then have "int (sat_mul w a b) = min (int a * int b) (2 ^ w - 1)"
    by (simp add: sat_mul_def of_nat_min)
  then show ?thesis by (metis nat_int)
qed

lemma sat_add_exact: "a + b < 2 ^ w \<Longrightarrow> sat_add w a b = a + b"
  by (simp add: sat_add_def)

lemma sat_add_bound [simp]: "sat_add w a b \<le> 2 ^ w - 1"
  by (simp add: sat_add_def)

lemma sat_add_le: "sat_add w a b \<le> a + b"
  by (simp add: sat_add_def)

lemma sat_add_ge: "a \<le> 2 ^ w - 1 \<Longrightarrow> a \<le> sat_add w a b"
  by (simp add: sat_add_def)

lemma sat_add_pos: "0 < b \<Longrightarrow> 0 < w \<Longrightarrow> 0 < sat_add w a b"
proof -
  assume "0 < b" "0 < w"
  then have "(1::nat) < 2 ^ w" by (intro one_less_power) simp_all
  with \<open>0 < b\<close> show ?thesis by (simp add: sat_add_def)
qed

lemma i64_wrap_id: "- (2 ^ 63) \<le> x \<Longrightarrow> x < 2 ^ 63 \<Longrightarrow> i64_wrap x = x"
  by (simp add: i64_wrap_def)

lemma clamp_bounds: "lo \<le> hi \<Longrightarrow> lo \<le> clamp x lo hi \<and> clamp x lo hi \<le> hi"
  by (simp add: clamp_def)

lemma div_ceil_lower: "0 < b \<Longrightarrow> a \<le> div_ceil a b * b"
proof -
  assume b: "0 < b"
  have "a = a div b * b + a mod b" by simp
  moreover have "a mod b < b" using b by simp
  ultimately have "a \<le> b + a div b * b" by linarith
  then show ?thesis by (auto simp: div_ceil_def)
qed

section \<open>Byte strings\<close>

abbreviation byte_of :: "char \<Rightarrow> nat" where
  "byte_of \<equiv> of_char"

fun starts_with :: "string \<Rightarrow> string \<Rightarrow> bool" where
  "starts_with s [] = True"
| "starts_with [] (p # ps) = False"
| "starts_with (c # s) (p # ps) = (c = p \<and> starts_with s ps)"

definition strip_prefix :: "string \<Rightarrow> string \<Rightarrow> string option" where
  "strip_prefix s p = (if starts_with s p then Some (drop (length p) s) else None)"

definition ends_with :: "string \<Rightarrow> string \<Rightarrow> bool" where
  "ends_with s p = starts_with (rev s) (rev p)"

definition strip_suffix :: "string \<Rightarrow> string \<Rightarrow> string option" where
  "strip_suffix s p =
     (if ends_with s p then Some (take (length s - length p) s) else None)"

text \<open>\<open>str::contains\<close>.\<close>

fun contains_str :: "string \<Rightarrow> string \<Rightarrow> bool" where
  "contains_str [] p = (p = [])"
| "contains_str (c # s) p = (starts_with (c # s) p \<or> contains_str s p)"

definition ascii_lower :: "char \<Rightarrow> char" where
  "ascii_lower c =
     (if 65 \<le> byte_of c \<and> byte_of c \<le> 90 then char_of (byte_of c + 32) else c)"

definition to_ascii_lowercase :: "string \<Rightarrow> string" where
  "to_ascii_lowercase s = map ascii_lower s"

text \<open>
  \<open>str::trim\<close> removes leading and trailing characters with Unicode's White\_Space
  property.  \<open>ws_len\<close> is the number of bytes of such a character at the front of a
  UTF-8 byte sequence (0 for none); \<open>ws_len_rev\<close> reads the sequence backwards.
\<close>

fun ws3 :: "nat \<Rightarrow> nat \<Rightarrow> nat \<Rightarrow> bool" where
  "ws3 a b c =
     ((a = 225 \<and> b = 154 \<and> c = 128) \<or>
      (a = 226 \<and> b = 128 \<and> ((128 \<le> c \<and> c \<le> 138) \<or> c = 168 \<or> c = 169 \<or> c = 175)) \<or>
      (a = 226 \<and> b = 129 \<and> c = 159) \<or>
      (a = 227 \<and> b = 128 \<and> c = 128))"

definition ws1 :: "nat \<Rightarrow> bool" where
  "ws1 a = ((9 \<le> a \<and> a \<le> 13) \<or> a = 32)"

definition ws2 :: "nat \<Rightarrow> nat \<Rightarrow> bool" where
  "ws2 a b = (a = 194 \<and> (b = 133 \<or> b = 160))"

fun ws_len :: "nat list \<Rightarrow> nat" where
  "ws_len [] = 0"
| "ws_len [a] = (if ws1 a then 1 else 0)"
| "ws_len [a, b] = (if ws1 a then 1 else if ws2 a b then 2 else 0)"
| "ws_len (a # b # c # _) =
     (if ws1 a then 1 else if ws2 a b then 2 else if ws3 a b c then 3 else 0)"

fun ws_len_rev :: "nat list \<Rightarrow> nat" where
  "ws_len_rev [] = 0"
| "ws_len_rev [a] = (if ws1 a then 1 else 0)"
| "ws_len_rev [a, b] = (if ws1 a then 1 else if ws2 b a then 2 else 0)"
| "ws_len_rev (a # b # c # _) =
     (if ws1 a then 1 else if ws2 b a then 2 else if ws3 c b a then 3 else 0)"

lemma ws_len_le: "ws_len xs \<le> length xs"
  by (cases xs rule: ws_len.cases) auto

lemma ws_len_rev_le: "ws_len_rev xs \<le> length xs"
  by (cases xs rule: ws_len_rev.cases) auto

function drop_ws :: "(nat list \<Rightarrow> nat) \<Rightarrow> string \<Rightarrow> string" where
  "drop_ws f s =
     (let n = f (map of_char (take 3 s))
      in if n = 0 \<or> s = [] then s else drop_ws f (drop n s))"
  by pat_completeness auto
termination
  by (relation "measure (\<lambda>(f, s). length s)") (auto simp: Let_def)

declare drop_ws.simps [simp del]

definition trim_start :: "string \<Rightarrow> string" where
  "trim_start s = drop_ws ws_len s"

definition trim_end :: "string \<Rightarrow> string" where
  "trim_end s = rev (drop_ws ws_len_rev (rev s))"

definition trim :: "string \<Rightarrow> string" where
  "trim s = trim_end (trim_start s)"

lemma drop_ws_Nil [simp]: "drop_ws f [] = []"
  by (subst drop_ws.simps) (simp add: Let_def)

lemma trim_Nil [simp]: "trim [] = []"
  by (simp add: trim_def trim_start_def trim_end_def)

text \<open>Decimal rendering of an unsigned integer, and \<open>[String]::join\<close>.\<close>

fun show_nat :: "nat \<Rightarrow> string" where
  "show_nat n =
     (if n < 10 then [char_of (48 + n)]
      else show_nat (n div 10) @ [char_of (48 + n mod 10)])"

declare show_nat.simps [simp del]

fun join_with :: "string \<Rightarrow> string list \<Rightarrow> string" where
  "join_with sep [] = []"
| "join_with sep [s] = s"
| "join_with sep (s # t # ss) = s @ sep @ join_with sep (t # ss)"

lemma starts_with_append [simp]: "starts_with (p @ s) p"
  by (induction p) auto

lemma starts_with_iff: "starts_with s p \<longleftrightarrow> (\<exists>r. s = p @ r)"
  by (induction s p rule: starts_with.induct) auto

lemma strip_prefix_Some_iff: "strip_prefix s p = Some r \<longleftrightarrow> s = p @ r"
  by (auto simp: strip_prefix_def starts_with_iff)

lemma ends_with_iff: "ends_with s p \<longleftrightarrow> (\<exists>r. s = r @ p)"
proof
  assume "ends_with s p"
  then obtain r where "rev s = rev p @ r" by (auto simp: ends_with_def starts_with_iff)
  then have "rev (rev s) = rev (rev p @ r)" by (rule arg_cong)
  then show "\<exists>r. s = r @ p" by auto
qed (auto simp: ends_with_def)

lemma strip_suffix_Some_iff: "strip_suffix s p = Some r \<longleftrightarrow> s = r @ p"
  by (auto simp: strip_suffix_def ends_with_iff)

section \<open>Hash maps\<close>

text \<open>
  \<open>HashMap<K, V>\<close>: \<open>get\<close> is \<open>map_of\<close>, \<open>insert\<close> is \<open>AList.update\<close>, \<open>remove\<close> is
  \<open>AList.delete\<close>.  The locale states what a client of a map relies on.
\<close>

type_synonym ('k, 'v) hashmap = "('k \<times> 'v) list"

definition hm_keys :: "('k, 'v) hashmap \<Rightarrow> 'k set" where
  "hm_keys m = fst ` set m"

locale kv_store =
  fixes get :: "'m \<Rightarrow> 'k \<Rightarrow> 'v option"
    and put :: "'k \<Rightarrow> 'v \<Rightarrow> 'm \<Rightarrow> 'm"
    and del :: "'k \<Rightarrow> 'm \<Rightarrow> 'm"
    and keys :: "'m \<Rightarrow> 'k set"
  assumes get_put: "get (put k v m) j = (if j = k then Some v else get m j)"
    and get_del: "get (del k m) j = (if j = k then None else get m j)"
    and keys_get: "k \<in> keys m \<longleftrightarrow> get m k \<noteq> None"
begin

lemma get_put_same [simp]: "get (put k v m) k = Some v"
  by (simp add: get_put)

lemma keys_put: "keys (put k v m) = insert k (keys m)"
  by (auto simp: keys_get get_put split: if_splits)

lemma keys_del: "keys (del k m) = keys m - {k}"
  by (auto simp: keys_get get_del split: if_splits)

lemma get_del_put: "get (del k (put k v m)) j = get (del k m) j"
  by (simp add: get_del get_put)

end

lemma hm_keys_map_of: "k \<in> hm_keys m \<longleftrightarrow> map_of m k \<noteq> None"
  by (simp add: hm_keys_def map_of_eq_None_iff)

interpretation hm: kv_store map_of AList.update AList.delete hm_keys
  by unfold_locales (auto simp: AList.update_conv' AList.delete_conv' hm_keys_map_of)

lemma hm_keys_Nil [simp]: "hm_keys [] = {}"
  by (simp add: hm_keys_def)

lemma length_distinct_keys: "distinct (map fst m) \<Longrightarrow> length m = card (hm_keys m)"
  by (metis distinct_card hm_keys_def length_map list.set_map)

lemmas distinct_hm [wf_intros] = AList.distinct_update AList.distinct_delete

lemma set_hm_insert: "set (AList.update k v m) \<subseteq> insert (k, v) (set m)"
  by (induction m) auto

lemma set_hm_remove: "set (AList.delete k m) \<subseteq> set m"
  by (auto simp: AList.delete_eq)

text \<open>A generic fact on in-place updates by index of a list.\<close>

lemma sum_list_update_nat:
  "i < length xs \<Longrightarrow> sum_list (map f (xs[i := x])) + f (xs ! i) = sum_list (map f xs) + (f x :: nat)"
proof (induction xs arbitrary: i)
  case Nil
  then show ?case by simp
next
  case (Cons a xs)
  then show ?case by (cases i) auto
qed

end
