(* ===== verification/PoolTypes.thy ===== *)
theory PoolTypes
  imports Prelude
begin

text \<open>
  The shared types of the node pools (\<open>zen-proxy-rs/src/pool/mod.rs\<close>): node references,
  the outcome of a request, the request metadata and its size buckets, and the
  contract of the \<open>Pool\<close>, \<open>DeadPool\<close> and \<open>RateLimitedPool\<close> traits as locales that each
  pool interprets and the pool manager relies on.
\<close>

section \<open>Types\<close>

type_synonym node_id = string

record node_ref =
  nr_id :: node_id
  nr_url :: string

text \<open>
  The crates \<open>sha2\<close> and \<open>hex\<close> are not part of the repository: they are the parameter
  \<open>crypto\<close> (the digest of a byte string, and the rendering of bytes).
\<close>

record crypto =
  sha256 :: "string \<Rightarrow> string"
  hex_encode :: "string \<Rightarrow> string"

definition sha256_first8 :: "crypto \<Rightarrow> string \<Rightarrow> string" where
  "sha256_first8 C s = hex_encode C (take 4 (sha256 C s))"

definition NodeRef_new :: "crypto \<Rightarrow> string \<Rightarrow> node_ref" where
  "NodeRef_new C url = \<lparr>nr_id = sha256_first8 C url, nr_url = url\<rparr>"

datatype error_kind =
  Timeout | ConnectionRefused | DnsFailure | SocksHandshake | Upstream5xx | OtherError

datatype result_kind =
  Success nat | RateLimited | EmptyOutput | ClientGone
| SoftFailure error_kind | ErrorResult error_kind

datatype dispatch_error = NoResource | CircuitOpen | RequestTooLarge

record request_meta =
  rm_model :: string
  rm_upstream_model :: string
  rm_session_id :: string
  rm_stream :: bool
  rm_body_size :: nat
  rm_affinity_key :: string
  rm_allow_direct_fallback :: bool

section \<open>Size accounting\<close>

definition estimated_input_tokens :: "request_meta \<Rightarrow> nat" where
  "estimated_input_tokens m = max (rm_body_size m div 4) 1"

definition request_kb :: "request_meta \<Rightarrow> nat" where
  "request_kb m = max (div_ceil (rm_body_size m) 1024) 1"

definition body_size_bucket :: "nat \<Rightarrow> string" where
  "body_size_bucket n =
     (if n \<le> 131071 then ''tiny''
      else if n \<le> 262143 then ''small''
      else if n \<le> 524287 then ''medium''
      else if n \<le> 1048575 then ''large''
      else ''huge'')"

definition token_bucket :: "nat \<Rightarrow> string" where
  "token_bucket n =
     (if n \<le> 49999 then ''under_50k''
      else if n \<le> 99999 then ''50k_100k''
      else if n \<le> 199999 then ''100k_200k''
      else if n \<le> 399999 then ''200k_400k''
      else ''400k_plus'')"

definition meta_token_bucket :: "request_meta \<Rightarrow> string" where
  "meta_token_bucket m = token_bucket (estimated_input_tokens m)"

definition meta_body_size_bucket :: "request_meta \<Rightarrow> string" where
  "meta_body_size_bucket m = body_size_bucket (rm_body_size m)"

lemma estimated_input_tokens_pos: "0 < estimated_input_tokens m"
  by (simp add: estimated_input_tokens_def)

lemma request_kb_pos: "0 < request_kb m"
  by (simp add: request_kb_def)

lemma request_kb_covers: "rm_body_size m \<le> 1024 * request_kb m"
proof -
  have "rm_body_size m \<le> div_ceil (rm_body_size m) 1024 * 1024"
    by (rule div_ceil_lower) simp
  also have "\<dots> \<le> request_kb m * 1024" by (simp add: request_kb_def)
  finally show ?thesis by (simp add: mult.commute)
qed

section \<open>The pool contracts\<close>

text \<open>
  What a client of the \<open>Pool\<close> trait relies on: \<open>add\<close> puts the node's id into the pool,
  \<open>remove\<close> takes it out, \<open>release\<close> changes no membership, and each keeps the pool's own
  invariant.
\<close>

locale node_pool =
  fixes ids :: "'p \<Rightarrow> node_id set"
    and wf :: "'p \<Rightarrow> bool"
    and add :: "node_ref \<Rightarrow> 'p \<Rightarrow> 'p"
    and remove :: "node_id \<Rightarrow> 'p \<Rightarrow> 'p"
    and release :: "node_id \<Rightarrow> result_kind \<Rightarrow> 'p \<Rightarrow> 'p"
  assumes wf_add: "wf p \<Longrightarrow> wf (add n p)"
    and wf_remove: "wf p \<Longrightarrow> wf (remove i p)"
    and wf_release: "wf p \<Longrightarrow> wf (release i r p)"
    and ids_add: "wf p \<Longrightarrow> ids (add n p) = insert (nr_id n) (ids p)"
    and ids_remove: "wf p \<Longrightarrow> ids (remove i p) = ids p - {i}"
    and ids_release: "wf p \<Longrightarrow> ids (release i r p) = ids p"
begin

lemma release_then_remove: "wf p \<Longrightarrow> ids (remove i (release i r p)) = ids p - {i}"
  by (simp add: ids_remove ids_release wf_release)

lemma add_then_release: "wf p \<Longrightarrow> ids (release i r (add n p)) = insert (nr_id n) (ids p)"
  by (simp add: ids_add ids_release wf_add)

lemma wf_remove_all: "wf p \<Longrightarrow> wf (fold remove is p)"
  by (induction "is" arbitrary: p) (simp_all add: wf_remove)

lemma ids_remove_all: "wf p \<Longrightarrow> ids (fold remove is p) = ids p - set is"
  by (induction "is" arbitrary: p) (auto simp: ids_remove wf_remove)

lemma wf_add_all: "wf p \<Longrightarrow> wf (fold add ns p)"
  by (induction ns arbitrary: p) (simp_all add: wf_add)

lemma ids_add_all: "wf p \<Longrightarrow> ids (fold add ns p) = nr_id ` set ns \<union> ids p"
  by (induction ns arbitrary: p) (auto simp: ids_add wf_add)

end

text \<open>
  The pools that hold nodes out of service extend it: \<open>hold\<close> (\<open>DeadPool::bury\<close>,
  \<open>RateLimitedPool::quarantine\<close>) takes an id in whether or not it was added before,
  \<open>recover\<close> lets it go.
\<close>

locale holding_pool = node_pool +
  fixes hold :: "node_id \<Rightarrow> 'a \<Rightarrow> 'a"
    and recover :: "node_id \<Rightarrow> 'a \<Rightarrow> 'a"
  assumes wf_hold: "wf p \<Longrightarrow> wf (hold i p)"
    and wf_recover: "wf p \<Longrightarrow> wf (recover i p)"
    and ids_hold: "wf p \<Longrightarrow> ids (hold i p) = insert i (ids p)"
    and ids_recover: "wf p \<Longrightarrow> ids (recover i p) = ids p - {i}"
begin

lemma wf_hold_all: "wf p \<Longrightarrow> wf (fold hold is p)"
  by (induction "is" arbitrary: p) (simp_all add: wf_hold)

lemma ids_hold_all: "wf p \<Longrightarrow> ids (fold hold is p) = set is \<union> ids p"
  by (induction "is" arbitrary: p) (auto simp: ids_hold wf_hold)

lemma recover_hold: "wf p \<Longrightarrow> ids (recover i (hold i p)) = ids p - {i}"
  by (simp add: ids_recover ids_hold wf_hold)

end

end
