(* ===== verification/NodeRegistry.thy ===== *)
theory NodeRegistry
  imports PoolTypes
begin

text \<open>
  \<open>zen-proxy-rs/src/pool/node_registry.rs\<close>, \<open>pool/transport.rs\<close> and
  \<open>pool/session_pin.rs\<close>: the nodes the proxy knows, the HTTP clients it keeps per node,
  and the pins that keep a session on the node that served it.
\<close>

section \<open>The registry of known nodes\<close>

type_synonym node_registry = "(node_id, node_ref) hashmap"

definition registry_insert :: "node_ref \<Rightarrow> node_registry \<Rightarrow> node_registry" where
  "registry_insert n m = AList.update (nr_id n) n m"

definition registry_get :: "node_id \<Rightarrow> node_registry \<Rightarrow> node_ref option" where
  "registry_get i m = map_of m i"

definition registry_remove :: "node_id \<Rightarrow> node_registry \<Rightarrow> node_registry" where
  "registry_remove i m = AList.delete i m"

definition registry_ids :: "node_registry \<Rightarrow> node_id list" where
  "registry_ids m = map fst m"

definition registry_len :: "node_registry \<Rightarrow> nat" where
  "registry_len m = length m"

text \<open>Every node is registered once, under its own id.\<close>

definition registry_wf :: "node_registry \<Rightarrow> bool" where
  "registry_wf m \<longleftrightarrow> distinct (map fst m) \<and> (\<forall>(i, n) \<in> set m. nr_id n = i)"

lemma registry_wf_insert [wf_intros]: "registry_wf m \<Longrightarrow> registry_wf (registry_insert n m)"
  using set_hm_insert [of "nr_id n" n m]
  by (fastforce simp: registry_wf_def registry_insert_def intro: AList.distinct_update)

lemma registry_wf_remove [wf_intros]: "registry_wf m \<Longrightarrow> registry_wf (registry_remove i m)"
  using set_hm_remove [of i m]
  by (auto simp: registry_wf_def registry_remove_def intro: AList.distinct_delete)

lemma registry_get_id: "registry_wf m \<Longrightarrow> registry_get i m = Some n \<Longrightarrow> nr_id n = i"
  by (auto simp: registry_wf_def registry_get_def dest!: map_of_SomeD)

lemma registry_keys:
  "hm_keys (registry_insert n m) = insert (nr_id n) (hm_keys m)"
  "hm_keys (registry_remove i m) = hm_keys m - {i}"
  by (simp_all add: registry_insert_def registry_remove_def hm.keys_put hm.keys_del)

lemma set_registry_ids: "set (registry_ids m) = hm_keys m"
  by (simp add: registry_ids_def hm_keys_def)

lemma registry_get_iff: "(\<exists>n. registry_get i m = Some n) \<longleftrightarrow> i \<in> hm_keys m"
  by (simp add: registry_get_def hm_keys_map_of)

section \<open>HTTP clients per node\<close>

text \<open>
  \<open>reqwest::Client\<close> is not part of the repository; a client is named by the proxy URL it
  was built with (\<open>None\<close> for the direct client).  What matters is which client a node gets.
\<close>

datatype http_client = SocksClient string nat nat | DirectClient nat nat

record transport_registry =
  tr_clients :: "(node_id, http_client) hashmap"
  tr_direct_client :: "http_client option"
  tr_connect_timeout :: nat
  tr_request_timeout :: nat

definition transport_new :: "nat \<Rightarrow> nat \<Rightarrow> transport_registry" where
  "transport_new ct rt =
     \<lparr>tr_clients = [], tr_direct_client = None, tr_connect_timeout = ct, tr_request_timeout = rt\<rparr>"

definition client_for_node :: "node_ref \<Rightarrow> transport_registry \<Rightarrow> http_client \<times> transport_registry" where
  "client_for_node n t =
     (case map_of (tr_clients t) (nr_id n) of
        Some c \<Rightarrow> (c, t)
      | None \<Rightarrow>
          (let c = SocksClient (nr_url n) (tr_connect_timeout t) (tr_request_timeout t)
           in (c, t\<lparr>tr_clients := AList.update (nr_id n) c (tr_clients t)\<rparr>)))"

definition direct_client :: "transport_registry \<Rightarrow> http_client \<times> transport_registry" where
  "direct_client t =
     (case tr_direct_client t of
        Some c \<Rightarrow> (c, t)
      | None \<Rightarrow>
          (let c = DirectClient (tr_connect_timeout t) (tr_request_timeout t)
           in (c, t\<lparr>tr_direct_client := Some c\<rparr>)))"

definition remove_client :: "node_id \<Rightarrow> transport_registry \<Rightarrow> bool \<times> transport_registry" where
  "remove_client i t =
     (map_of (tr_clients t) i \<noteq> None, t\<lparr>tr_clients := AList.delete i (tr_clients t)\<rparr>)"

lemma client_for_node_stable:
  "client_for_node n t = (c, t') \<Longrightarrow> client_for_node n t' = (c, t')"
  by (auto simp: client_for_node_def Let_def split: option.splits)

section \<open>The environment's answers\<close>

text \<open>
  Random draws (the crate \<open>fastrand\<close>), Redis replies and the shared budget's answers come
  from outside the repository.  They are an argument of the operations that use them: an
  \<open>env\<close> holds the values the environment will return, in the order they are asked
  for.  Theorems quantify over all environments, that is over every behaviour of these
  services; an empty tape answers 0, or an error.
\<close>

datatype redis_reply = RedisErr | RedisNil | RedisStr string | RedisInt nat

datatype global_reply = GlobalOk | GlobalErr string

record env =
  ev_rand :: "nat list"
  ev_global :: "global_reply list"
  ev_redis :: "redis_reply list"

definition next_usize :: "nat \<Rightarrow> env \<Rightarrow> nat \<times> env" where
  "next_usize n ev =
     (case ev_rand ev of
        [] \<Rightarrow> (0, ev)
      | x # xs \<Rightarrow> (x mod n, ev\<lparr>ev_rand := xs\<rparr>))"

definition next_global :: "env \<Rightarrow> global_reply \<times> env" where
  "next_global ev =
     (case ev_global ev of
        [] \<Rightarrow> (GlobalErr ''unknown'', ev)
      | x # xs \<Rightarrow> (x, ev\<lparr>ev_global := xs\<rparr>))"

definition next_redis :: "env \<Rightarrow> redis_reply \<times> env" where
  "next_redis ev =
     (case ev_redis ev of
        [] \<Rightarrow> (RedisErr, ev)
      | x # xs \<Rightarrow> (x, ev\<lparr>ev_redis := xs\<rparr>))"

lemma next_usize_less: "0 < n \<Longrightarrow> fst (next_usize n ev) < n"
  by (simp add: next_usize_def split: list.splits)

section \<open>Session pins\<close>

record pin_store =
  ps_redis :: bool
  ps_memory :: "(string, node_id) hashmap"

definition pin_key :: "string \<Rightarrow> string \<Rightarrow> string" where
  "pin_key model session = ''zprs:pin:'' @ model @ '':'' @ session"

definition is_blank :: "string \<Rightarrow> bool" where
  "is_blank s \<longleftrightarrow> trim s = []"

definition redis_lookup :: "pin_store \<Rightarrow> env \<Rightarrow> node_id option \<times> env" where
  "redis_lookup ps ev =
     (if \<not> ps_redis ps then (None, ev)
      else
        let (r, ev) = next_redis ev
        in (case r of RedisStr s \<Rightarrow> if is_blank s then None else Some s | _ \<Rightarrow> None, ev))"

definition redis_record :: "pin_store \<Rightarrow> env \<Rightarrow> bool \<times> env" where
  "redis_record ps ev =
     (if \<not> ps_redis ps then (False, ev)
      else let (r, ev) = next_redis ev in (r \<noteq> RedisErr, ev))"

definition redis_clear :: "pin_store \<Rightarrow> env \<Rightarrow> bool \<times> env" where
  "redis_clear ps ev =
     (if \<not> ps_redis ps then (False, ev)
      else
        let (r, ev) = next_redis ev
        in (case r of RedisInt n \<Rightarrow> 0 < n | _ \<Rightarrow> False, ev))"

definition pin_lookup ::
  "string \<Rightarrow> string \<Rightarrow> pin_store \<Rightarrow> env \<Rightarrow> node_id option \<times> env" where
  "pin_lookup model session ps ev =
     (if is_blank session \<or> is_blank model then (None, ev)
      else
        let key = pin_key model session; (r, ev) = redis_lookup ps ev
        in case r of
             Some i \<Rightarrow> (Some i, ev)
           | None \<Rightarrow> (map_of (ps_memory ps) key, ev))"

definition pin_record ::
  "string \<Rightarrow> string \<Rightarrow> node_id \<Rightarrow> pin_store \<Rightarrow> env \<Rightarrow> pin_store \<times> env" where
  "pin_record model session i ps ev =
     (if is_blank session \<or> is_blank model \<or> is_blank i then (ps, ev)
      else
        let key = pin_key model session; (ok, ev) = redis_record ps ev
        in if ok then (ps, ev)
           else (ps\<lparr>ps_memory := AList.update key i (ps_memory ps)\<rparr>, ev))"

definition pin_clear ::
  "string \<Rightarrow> string \<Rightarrow> pin_store \<Rightarrow> env \<Rightarrow> bool \<times> pin_store \<times> env" where
  "pin_clear model session ps ev =
     (if is_blank session \<or> is_blank model then (False, ps, ev)
      else
        let key = pin_key model session; (cleared, ev) = redis_clear ps ev
        in (cleared \<or> map_of (ps_memory ps) key \<noteq> None,
            ps\<lparr>ps_memory := AList.delete key (ps_memory ps)\<rparr>, ev))"

definition is_mimo_family :: "string \<Rightarrow> bool" where
  "is_mimo_family model = contains_str (to_ascii_lowercase (trim model)) ''mimo''"

text \<open>The key separates the pins of models whose name has no colon.\<close>

lemma append_colon_inj:
  "CHR '':'' \<notin> set a \<Longrightarrow> CHR '':'' \<notin> set b \<Longrightarrow> a @ CHR '':'' # s = b @ CHR '':'' # t \<Longrightarrow>
     a = b \<and> s = t"
proof (induction a arbitrary: b)
  case Nil
  then show ?case by (cases b) auto
next
  case (Cons x a)
  then show ?case by (cases b) auto
qed

lemma pin_key_inj:
  assumes "CHR '':'' \<notin> set m" and "CHR '':'' \<notin> set m'"
    and "pin_key m s = pin_key m' s'"
  shows "m = m' \<and> s = s'"
  using assms(3) append_colon_inj [OF assms(1,2)] by (simp add: pin_key_def)

lemma pin_lookup_memory:
  "\<not> ps_redis ps \<Longrightarrow>
     pin_lookup m s ps ev =
       (if is_blank s \<or> is_blank m then None else map_of (ps_memory ps) (pin_key m s), ev)"
  by (simp add: pin_lookup_def redis_lookup_def)

lemma pin_record_memory:
  "\<not> ps_redis ps \<Longrightarrow> \<not> is_blank s \<Longrightarrow> \<not> is_blank m \<Longrightarrow> \<not> is_blank i \<Longrightarrow>
     pin_record m s i ps ev =
       (ps\<lparr>ps_memory := AList.update (pin_key m s) i (ps_memory ps)\<rparr>, ev)"
  by (simp add: pin_record_def redis_record_def)

lemma pin_record_redis_flag [frame_simps]: "ps_redis (fst (pin_record m s i ps ev)) = ps_redis ps"
  by (auto simp: pin_record_def Let_def split: prod.splits)

end
