(* ===== verification/NodeBudget.thy ===== *)
theory NodeBudget
  imports NodeRegistry Complex_Main
begin

text \<open>
  The first half of \<open>zen-proxy-rs/src/pool/dispatch.rs\<close>: the per-node budget
  (\<open>NodeBudget\<close>), the pool node with its score, latency averages, AIMD concurrency limit
  and leases (\<open>PoolNode\<close>), and the admission and release of one request on one node.
  Locks and atomics make each operation one step here; \<open>now\<close> is the Unix time in seconds
  an operation reads.
\<close>

section \<open>Configuration\<close>

record aimd_config =
  aimd_min_concurrent :: nat
  aimd_max_concurrent :: nat
  aimd_success_step :: nat
  aimd_failure_percent :: nat
  aimd_slow_latency_ms :: nat

definition default_aimd :: aimd_config where
  "default_aimd =
     \<lparr>aimd_min_concurrent = 1, aimd_max_concurrent = 16, aimd_success_step = 1,
      aimd_failure_percent = 50, aimd_slow_latency_ms = 30000\<rparr>"

record node_budget_limits =
  nbl_max_calls :: nat
  nbl_max_tokens :: nat
  nbl_max_kb :: nat
  nbl_cooldown_secs :: int

definition default_limits :: node_budget_limits where
  "default_limits =
     \<lparr>nbl_max_calls = 100, nbl_max_tokens = 10000000, nbl_max_kb = 64 * 1024,
      nbl_cooldown_secs = 60\<rparr>"

section \<open>The budget of a node\<close>

record node_budget =
  nb_calls :: nat
  nb_tokens :: nat
  nb_kb :: nat
  nb_max_calls :: nat
  nb_max_tokens :: nat
  nb_max_kb :: nat
  nb_cooldown_secs :: int
  nb_cooldown_until :: "int option"
  nb_hit_reason :: "string option"

definition NodeBudget_from :: "node_budget_limits \<Rightarrow> node_budget" where
  "NodeBudget_from L =
     \<lparr>nb_calls = 0, nb_tokens = 0, nb_kb = 0,
      nb_max_calls = nbl_max_calls L, nb_max_tokens = nbl_max_tokens L,
      nb_max_kb = nbl_max_kb L, nb_cooldown_secs = nbl_cooldown_secs L,
      nb_cooldown_until = None, nb_hit_reason = None\<rparr>"

definition can_admit ::
  "node_budget \<Rightarrow> request_meta \<Rightarrow> int \<Rightarrow> nat \<Rightarrow> nat \<Rightarrow> string + unit" where
  "can_admit b m now concurrent_now max_concurrent =
     (if (case nb_cooldown_until b of Some until \<Rightarrow> until > now | None \<Rightarrow> False)
        then Inl ''cooldown''
      else if concurrent_now \<ge> max_concurrent then Inl ''max_concurrent''
      else if sat_add 64 (nb_calls b) 1 > nb_max_calls b then Inl ''max_calls''
      else if sat_add 64 (nb_tokens b) (estimated_input_tokens m) > nb_max_tokens b
        then Inl ''max_tokens''
      else if sat_add 64 (nb_kb b) (request_kb m) > nb_max_kb b then Inl ''max_kb''
      else Inr ())"

definition budget_admit :: "request_meta \<Rightarrow> node_budget \<Rightarrow> node_budget" where
  "budget_admit m b =
     b\<lparr>nb_calls := sat_add 64 (nb_calls b) 1,
       nb_tokens := sat_add 64 (nb_tokens b) (estimated_input_tokens m),
       nb_kb := sat_add 64 (nb_kb b) (request_kb m),
       nb_hit_reason := None\<rparr>"

definition rollback_admit :: "request_meta \<Rightarrow> node_budget \<Rightarrow> node_budget" where
  "rollback_admit m b =
     b\<lparr>nb_calls := nb_calls b - 1,
       nb_tokens := nb_tokens b - estimated_input_tokens m,
       nb_kb := nb_kb b - request_kb m\<rparr>"

definition cooldown :: "int \<Rightarrow> string \<Rightarrow> node_budget \<Rightarrow> node_budget" where
  "cooldown now reason b =
     b\<lparr>nb_cooldown_until := Some (i64_wrap (now + nb_cooldown_secs b)),
       nb_hit_reason := Some reason\<rparr>"

definition clear_expired_cooldown :: "int \<Rightarrow> node_budget \<Rightarrow> node_budget" where
  "clear_expired_cooldown now b =
     (if (case nb_cooldown_until b of Some until \<Rightarrow> until \<le> now | None \<Rightarrow> False)
      then b\<lparr>nb_cooldown_until := None, nb_hit_reason := None\<rparr> else b)"

section \<open>The pool node\<close>

record pool_node =
  pn_node :: node_ref
  pn_base_score :: nat
  pn_consecutive_successes :: nat
  pn_recent_results :: "bool list"
  pn_avg_latency_ms :: nat
  pn_bucket_latency_ms :: "nat list"
  pn_token_completion_latency_ms :: "nat list"
  pn_body_ttft_latency_ms :: "nat list"
  pn_token_ttft_latency_ms :: "nat list"
  pn_idle_since :: int
  pn_max_concurrent :: nat
  pn_active_leases :: nat
  pn_active_requests :: "request_meta list"
  pn_budget :: node_budget

abbreviation pn_id :: "pool_node \<Rightarrow> node_id" where
  "pn_id p \<equiv> nr_id (pn_node p)"

definition PoolNode_new :: "int \<Rightarrow> node_ref \<Rightarrow> node_budget_limits \<Rightarrow> aimd_config \<Rightarrow> pool_node" where
  "PoolNode_new now n L A =
     \<lparr>pn_node = n, pn_base_score = 20 * 100, pn_consecutive_successes = 0,
      pn_recent_results = [], pn_avg_latency_ms = 0,
      pn_bucket_latency_ms = replicate 5 0, pn_token_completion_latency_ms = replicate 5 0,
      pn_body_ttft_latency_ms = replicate 5 0, pn_token_ttft_latency_ms = replicate 5 0,
      pn_idle_since = now,
      pn_max_concurrent =
        clamp 5 (max (aimd_min_concurrent A) 1)
          (max (aimd_max_concurrent A) (max (aimd_min_concurrent A) 1)),
      pn_active_leases = 0, pn_active_requests = [], pn_budget = NodeBudget_from L\<rparr>"

definition bucket_index :: "string \<Rightarrow> nat" where
  "bucket_index b =
     (if b = ''tiny'' then 0 else if b = ''small'' then 1 else if b = ''medium'' then 2
      else if b = ''large'' then 3 else if b = ''huge'' then 4 else 0)"

definition token_bucket_index :: "string \<Rightarrow> nat" where
  "token_bucket_index b =
     (if b = ''under_50k'' then 0 else if b = ''50k_100k'' then 1 else if b = ''100k_200k'' then 2
      else if b = ''200k_400k'' then 3 else if b = ''400k_plus'' then 4 else 0)"

lemma bucket_index_less: "bucket_index b < 5"
  by (simp add: bucket_index_def)

lemma token_bucket_index_less: "token_bucket_index b < 5"
  by (simp add: token_bucket_index_def)

subsection \<open>Latency averages\<close>

definition ewma :: "nat \<Rightarrow> nat \<Rightarrow> nat" where
  "ewma current latency =
     (if current = 0 then latency else sat_add 64 (sat_mul 64 current 3) latency div 4)"

definition record_latency :: "nat \<Rightarrow> pool_node \<Rightarrow> pool_node" where
  "record_latency l p =
     (if l = 0 then p else p\<lparr>pn_avg_latency_ms := ewma (pn_avg_latency_ms p) l\<rparr>)"

definition record_bucket_latency :: "string \<Rightarrow> nat \<Rightarrow> pool_node \<Rightarrow> pool_node" where
  "record_bucket_latency bucket l p =
     (if l = 0 then p
      else
        let p = record_latency l p; i = bucket_index bucket; xs = pn_bucket_latency_ms p
        in p\<lparr>pn_bucket_latency_ms := xs[i := ewma (xs ! i) l]\<rparr>)"

definition record_completion_latency_for_meta :: "request_meta \<Rightarrow> nat \<Rightarrow> pool_node \<Rightarrow> pool_node" where
  "record_completion_latency_for_meta m l p =
     (if l = 0 then p
      else
        let p = record_bucket_latency (meta_body_size_bucket m) l p;
            i = token_bucket_index (meta_token_bucket m);
            xs = pn_token_completion_latency_ms p
        in p\<lparr>pn_token_completion_latency_ms := xs[i := ewma (xs ! i) l]\<rparr>)"

definition peek_single_active_meta :: "pool_node \<Rightarrow> request_meta option" where
  "peek_single_active_meta p =
     (case pn_active_requests p of [m] \<Rightarrow> Some m | _ \<Rightarrow> None)"

definition record_ttft_latency :: "string \<Rightarrow> nat \<Rightarrow> pool_node \<Rightarrow> pool_node" where
  "record_ttft_latency bucket l p =
     (if l = 0 then p
      else
        let p = record_latency l p;
            i = bucket_index bucket; xs = pn_body_ttft_latency_ms p;
            p = p\<lparr>pn_body_ttft_latency_ms := xs[i := ewma (xs ! i) l]\<rparr>
        in case peek_single_active_meta p of
             None \<Rightarrow> p
           | Some m \<Rightarrow>
               (let j = token_bucket_index (meta_token_bucket m);
                    ys = pn_token_ttft_latency_ms p
                in p\<lparr>pn_token_ttft_latency_ms := ys[j := ewma (ys ! j) l]\<rparr>))"

fun first_positive :: "nat list \<Rightarrow> nat" where
  "first_positive [] = 0"
| "first_positive (v # vs) = (if v > 0 then v else first_positive vs)"

definition latency_for_meta :: "pool_node \<Rightarrow> request_meta \<Rightarrow> nat" where
  "latency_for_meta p m =
     (let b = bucket_index (meta_body_size_bucket m);
          t = token_bucket_index (meta_token_bucket m)
      in first_positive
           [pn_token_ttft_latency_ms p ! t, pn_body_ttft_latency_ms p ! b,
            pn_token_completion_latency_ms p ! t, pn_bucket_latency_ms p ! b,
            pn_avg_latency_ms p])"

subsection \<open>Score\<close>

text \<open>
  The source computes the score in \<open>f64\<close>; the model computes the same expression in exact
  rationals, so it differs from the code by rounding only.
\<close>

definition score_for :: "int \<Rightarrow> pool_node \<Rightarrow> request_meta option \<Rightarrow> rat" where
  "score_for now p meta =
     (let large = (case meta of None \<Rightarrow> False
                   | Some m \<Rightarrow> rm_stream m \<and> rm_body_size m \<ge> 128 * 1024);
          very_large = (case meta of None \<Rightarrow> False
                        | Some m \<Rightarrow> rm_stream m \<and> rm_body_size m \<ge> 512 * 1024);
          health_weight = (if very_large then 30 / 100 else if large then 35 / 100 else 50 / 100);
          success_weight = 20 / 100;
          idle_weight = (if large then 10 / 100 else 15 / 100);
          latency_weight = (if very_large then 30 / 100 else if large then 25 / 100 else 10 / 100);
          momentum_weight = (if large then 10 / 100 else 5 / 100);
          base_pct = of_nat (pn_base_score p) / 100;
          health = min (max (base_pct / 100) 0) 1 * health_weight;
          total = length (pn_recent_results p);
          successes = length (filter (\<lambda>r. r) (pn_recent_results p));
          success_rate = (if total > 0 then of_nat successes / of_nat total * success_weight else 0);
          idle_secs = now - pn_idle_since p;
          idle_factor = min (of_int idle_secs / 60) 1 * idle_weight;
          avg_lat = of_nat (case meta of None \<Rightarrow> pn_avg_latency_ms p
                            | Some m \<Rightarrow> latency_for_meta p m);
          latency_factor = max (1 - min (avg_lat / 5000) 1) 0 * latency_weight;
          consec = of_nat (pn_consecutive_successes p);
          momentum = min (consec / 10) 1 * momentum_weight
      in health + success_rate + idle_factor + latency_factor + momentum)"

definition recent_success_rate :: "pool_node \<Rightarrow> rat" where
  "recent_success_rate p =
     (if pn_recent_results p = [] then 0
      else of_nat (length (filter (\<lambda>r. r) (pn_recent_results p)))
           / of_nat (length (pn_recent_results p)))"

subsection \<open>AIMD\<close>

definition raise_base_score :: "pool_node \<Rightarrow> pool_node" where
  "raise_base_score p =
     p\<lparr>pn_base_score := min (sat_add 64 (pn_base_score p) (25 * 100)) (100 * 100)\<rparr>"

definition lower_base_score :: "pool_node \<Rightarrow> pool_node" where
  "lower_base_score p = p\<lparr>pn_base_score := pn_base_score p - 60 * 100\<rparr>"

definition reduce_concurrency :: "aimd_config \<Rightarrow> pool_node \<Rightarrow> pool_node" where
  "reduce_concurrency A p =
     p\<lparr>pn_max_concurrent :=
         max (sat_mul 32 (pn_max_concurrent p) (clamp (aimd_failure_percent A) 1 99) div 100)
             (max (aimd_min_concurrent A) 1)\<rparr>"

definition push_recent :: "bool \<Rightarrow> bool list \<Rightarrow> bool list" where
  "push_recent r xs = (let ys = xs @ [r] in drop (length ys - 20) ys)"

definition record_result :: "bool \<Rightarrow> nat \<Rightarrow> aimd_config \<Rightarrow> pool_node \<Rightarrow> pool_node" where
  "record_result success l A p =
     (let p = p\<lparr>pn_recent_results := push_recent success (pn_recent_results p)\<rparr>;
          p = record_latency l p
      in if success then
           let p = raise_base_score p;
               prev = pn_consecutive_successes p;
               p = p\<lparr>pn_consecutive_successes := wrap_add 32 prev 1\<rparr>;
               p = (if sat_add 32 prev 1 mod 3 = 0
                    then p\<lparr>pn_max_concurrent :=
                             min (sat_add 32 (pn_max_concurrent p) (max (aimd_success_step A) 1))
                                 (max (aimd_max_concurrent A) (aimd_min_concurrent A))\<rparr>
                    else p)
           in if l \<ge> aimd_slow_latency_ms A \<and> aimd_slow_latency_ms A > 0
              then reduce_concurrency A p else p
         else
           reduce_concurrency A (lower_base_score (p\<lparr>pn_consecutive_successes := 0\<rparr>)))"

subsection \<open>Admission\<close>

definition remember_admit :: "request_meta \<Rightarrow> pool_node \<Rightarrow> pool_node" where
  "remember_admit m p =
     (let xs = pn_active_requests p @ [m]
      in p\<lparr>pn_active_requests := drop (length xs - pn_active_leases p) xs\<rparr>)"

definition take_admitted_meta :: "pool_node \<Rightarrow> request_meta option \<times> pool_node" where
  "take_admitted_meta p =
     (case pn_active_requests p of
        [] \<Rightarrow> (None, p)
      | m # ms \<Rightarrow> (Some m, p\<lparr>pn_active_requests := ms\<rparr>))"

definition try_admit :: "request_meta \<Rightarrow> int \<Rightarrow> pool_node \<Rightarrow> bool \<times> pool_node" where
  "try_admit m now p =
     (let concurrent_now = pn_active_leases p;
          max_concurrent = pn_max_concurrent p;
          b = clear_expired_cooldown now (pn_budget p)
      in case can_admit b m now concurrent_now max_concurrent of
           Inr _ \<Rightarrow>
             (True, p\<lparr>pn_budget := budget_admit m b,
                      pn_active_leases := wrap_add 32 (pn_active_leases p) 1\<rparr>)
         | Inl reason \<Rightarrow>
             (False,
              if reason \<in> {''max_calls'', ''max_tokens'', ''max_kb''}
              then p\<lparr>pn_budget := cooldown now reason b\<rparr>
              else p\<lparr>pn_budget := b\<lparr>nb_hit_reason := Some reason\<rparr>\<rparr>))"

definition release_lease :: "pool_node \<Rightarrow> pool_node" where
  "release_lease p = p\<lparr>pn_active_leases := pn_active_leases p - 1\<rparr>"

definition rollback_local_admit :: "request_meta \<Rightarrow> pool_node \<Rightarrow> pool_node" where
  "rollback_local_admit m p =
     (let p = release_lease p in p\<lparr>pn_budget := rollback_admit m (pn_budget p)\<rparr>)"

text \<open>
  The shared budget in Redis answers through the environment.  \<open>enabled\<close> says whether a
  registry is configured, \<open>fail_open\<close> what to do when it fails rather than refuses.
\<close>

definition is_global_budget_rejection :: "string \<Rightarrow> bool" where
  "is_global_budget_rejection r \<longleftrightarrow>
     r \<in> {''max_calls'', ''max_tokens'', ''max_kb'', ''cooldown'', ''max_concurrent''}"

definition global_admit ::
  "bool \<Rightarrow> bool \<Rightarrow> int \<Rightarrow> pool_node \<Rightarrow> env \<Rightarrow> bool \<times> pool_node \<times> env" where
  "global_admit enabled fail_open now p ev =
     (if \<not> enabled then (True, p, ev)
      else
        let (reply, ev) = next_global ev
        in case reply of
             GlobalOk \<Rightarrow> (True, p, ev)
           | GlobalErr reason \<Rightarrow>
               if is_global_budget_rejection reason
               then (False, p\<lparr>pn_budget := cooldown now (''global_'' @ reason) (pn_budget p)\<rparr>, ev)
               else (fail_open,
                     p\<lparr>pn_budget := (pn_budget p)\<lparr>nb_hit_reason := Some (''global_'' @ reason)\<rparr>\<rparr>,
                     ev))"

text \<open>
  The sequence the three acquisition paths share: admit locally, ask the shared budget,
  remember the request, and roll the local admission back when the shared budget refuses.
\<close>

definition admit_node ::
  "bool \<Rightarrow> bool \<Rightarrow> request_meta \<Rightarrow> int \<Rightarrow> pool_node \<Rightarrow> env \<Rightarrow> bool \<times> pool_node \<times> env" where
  "admit_node enabled fail_open m now p ev =
     (let (ok, p) = try_admit m now p
      in if \<not> ok then (False, p, ev)
         else
           let (gok, p, ev) = global_admit enabled fail_open now p ev
           in if gok then (True, remember_admit m p, ev)
              else (False, rollback_local_admit m p, ev))"

subsection \<open>Release\<close>

definition release_node :: "result_kind \<Rightarrow> nat \<Rightarrow> int \<Rightarrow> aimd_config \<Rightarrow> pool_node \<Rightarrow> pool_node" where
  "release_node r l now A p =
     (let p = release_lease p; (taken, p) = take_admitted_meta p
      in if taken \<noteq> None \<and> r = ClientGone then p
         else
           let p = (case taken of None \<Rightarrow> p
                    | Some m \<Rightarrow> record_completion_latency_for_meta m l p)
           in case r of
                Success _ \<Rightarrow> (record_result True l A p)\<lparr>pn_idle_since := now\<rparr>
              | ClientGone \<Rightarrow> p
              | _ \<Rightarrow> record_result False l A p)"

definition node_state :: "int \<Rightarrow> pool_node \<Rightarrow> string" where
  "node_state now p =
     (if (case nb_cooldown_until (pn_budget p) of Some until \<Rightarrow> until > now | None \<Rightarrow> False)
      then ''cooldown'' else ''dispatch'')"

section \<open>Invariants\<close>

text \<open>
  The counters of a budget never exceed its limits, and the limits are those the pool was
  configured with.
\<close>

definition budget_wf :: "node_budget_limits \<Rightarrow> node_budget \<Rightarrow> bool" where
  "budget_wf L b \<longleftrightarrow>
     nb_max_calls b = nbl_max_calls L \<and> nb_max_tokens b = nbl_max_tokens L \<and>
     nb_max_kb b = nbl_max_kb L \<and> nb_cooldown_secs b = nbl_cooldown_secs L \<and>
     nb_calls b \<le> nb_max_calls b \<and> nb_tokens b \<le> nb_max_tokens b \<and> nb_kb b \<le> nb_max_kb b"

definition aimd_wf :: "aimd_config \<Rightarrow> bool" where
  "aimd_wf A \<longleftrightarrow> aimd_min_concurrent A < 2 ^ 32 \<and> aimd_max_concurrent A < 2 ^ 32"

definition pn_wf :: "node_budget_limits \<Rightarrow> pool_node \<Rightarrow> bool" where
  "pn_wf L p \<longleftrightarrow>
     pn_base_score p \<le> 10000 \<and>
     length (pn_recent_results p) \<le> 20 \<and>
     length (pn_bucket_latency_ms p) = 5 \<and> length (pn_token_completion_latency_ms p) = 5 \<and>
     length (pn_body_ttft_latency_ms p) = 5 \<and> length (pn_token_ttft_latency_ms p) = 5 \<and>
     pn_consecutive_successes p < 2 ^ 32 \<and>
     pn_max_concurrent p < 2 ^ 32 \<and> pn_active_leases p < 2 ^ 32 \<and>
     length (pn_active_requests p) \<le> pn_active_leases p \<and>
     budget_wf L (pn_budget p)"

lemma can_admit_Inr_iff:
  "can_admit b m now c k = Inr () \<longleftrightarrow>
     (\<forall>u. nb_cooldown_until b = Some u \<longrightarrow> u \<le> now) \<and> c < k \<and>
     sat_add 64 (nb_calls b) 1 \<le> nb_max_calls b \<and>
     sat_add 64 (nb_tokens b) (estimated_input_tokens m) \<le> nb_max_tokens b \<and>
     sat_add 64 (nb_kb b) (request_kb m) \<le> nb_max_kb b"
  by (auto simp: can_admit_def split: option.splits)

lemma clear_expired_fields [simp]:
  "nb_calls (clear_expired_cooldown now b) = nb_calls b"
  "nb_tokens (clear_expired_cooldown now b) = nb_tokens b"
  "nb_kb (clear_expired_cooldown now b) = nb_kb b"
  "nb_max_calls (clear_expired_cooldown now b) = nb_max_calls b"
  "nb_max_tokens (clear_expired_cooldown now b) = nb_max_tokens b"
  "nb_max_kb (clear_expired_cooldown now b) = nb_max_kb b"
  "nb_cooldown_secs (clear_expired_cooldown now b) = nb_cooldown_secs b"
  by (simp_all add: clear_expired_cooldown_def)

text \<open>Clearing an expired cooldown changes no admission decision.\<close>

lemma can_admit_clear [simp]:
  "can_admit (clear_expired_cooldown now b) m now c k = can_admit b m now c k"
  by (auto simp: can_admit_def clear_expired_cooldown_def split: option.splits)

lemma budget_wf_ops [wf_intros]:
  "budget_wf L (NodeBudget_from L)"
  "budget_wf L b \<Longrightarrow> budget_wf L (clear_expired_cooldown now b)"
  "budget_wf L b \<Longrightarrow> budget_wf L (cooldown now r b)"
  "budget_wf L b \<Longrightarrow> budget_wf L (rollback_admit m b)"
  "budget_wf L b \<Longrightarrow> budget_wf L (b\<lparr>nb_hit_reason := h\<rparr>)"
  by (auto simp: budget_wf_def NodeBudget_from_def cooldown_def rollback_admit_def)

lemma budget_admit_wf [wf_intros]:
  "budget_wf L b \<Longrightarrow> can_admit b m now c k = Inr () \<Longrightarrow> budget_wf L (budget_admit m b)"
  by (auto simp: budget_wf_def budget_admit_def can_admit_Inr_iff)

lemma PoolNode_new_wf [wf_intros]: "aimd_wf A \<Longrightarrow> pn_wf L (PoolNode_new now n L A)"
  by (auto simp: pn_wf_def PoolNode_new_def aimd_wf_def clamp_def budget_wf_ops)

lemma latency_ops_wf [wf_intros]:
  "pn_wf L p \<Longrightarrow> pn_wf L (record_latency l p)"
  "pn_wf L p \<Longrightarrow> pn_wf L (record_bucket_latency b l p)"
  "pn_wf L p \<Longrightarrow> pn_wf L (record_completion_latency_for_meta m l p)"
  "pn_wf L p \<Longrightarrow> pn_wf L (record_ttft_latency b l p)"
  by (simp_all add: pn_wf_def record_latency_def record_bucket_latency_def Let_def
      record_completion_latency_for_meta_def record_ttft_latency_def split: option.splits)

text \<open>The latency operations touch the latency fields only.\<close>

lemma latency_ops_frame [frame_simps, simp]:
  "pn_node (record_latency l p) = pn_node p"
  "pn_node (record_bucket_latency b l p) = pn_node p"
  "pn_node (record_completion_latency_for_meta m l p) = pn_node p"
  "pn_node (record_ttft_latency b l p) = pn_node p"
  "pn_budget (record_latency l p) = pn_budget p"
  "pn_budget (record_bucket_latency b l p) = pn_budget p"
  "pn_budget (record_completion_latency_for_meta m l p) = pn_budget p"
  "pn_budget (record_ttft_latency b l p) = pn_budget p"
  "pn_active_leases (record_latency l p) = pn_active_leases p"
  "pn_active_leases (record_bucket_latency b l p) = pn_active_leases p"
  "pn_active_leases (record_completion_latency_for_meta m l p) = pn_active_leases p"
  "pn_active_leases (record_ttft_latency b l p) = pn_active_leases p"
  by (simp_all add: record_latency_def record_bucket_latency_def Let_def
      record_completion_latency_for_meta_def record_ttft_latency_def split: option.splits)

lemma reduce_concurrency_bounds:
  "max (aimd_min_concurrent A) 1 \<le> pn_max_concurrent (reduce_concurrency A p)"
  "aimd_wf A \<Longrightarrow> pn_max_concurrent (reduce_concurrency A p) < 2 ^ 32"
proof -
  show "max (aimd_min_concurrent A) 1 \<le> pn_max_concurrent (reduce_concurrency A p)"
    by (simp add: reduce_concurrency_def)
  have "sat_mul 32 (pn_max_concurrent p) (clamp (aimd_failure_percent A) 1 99) div 100 < 2 ^ 32"
    by (simp add: sat_mul_def)
  then show "aimd_wf A \<Longrightarrow> pn_max_concurrent (reduce_concurrency A p) < 2 ^ 32"
    by (simp add: reduce_concurrency_def aimd_wf_def)
qed

lemma reduce_concurrency_wf [wf_intros]:
  "aimd_wf A \<Longrightarrow> pn_wf L p \<Longrightarrow> pn_wf L (reduce_concurrency A p)"
  using reduce_concurrency_bounds(2) [of A p] by (simp add: pn_wf_def reduce_concurrency_def)

lemma length_push_recent: "length (push_recent r xs) \<le> 20"
  by (simp add: push_recent_def Let_def)

lemma push_recent_snoc: "length xs < 20 \<Longrightarrow> push_recent r xs = xs @ [r]"
  by (simp add: push_recent_def Let_def)


lemma record_result_wf [wf_intros]:
  assumes A: "aimd_wf A" and p: "pn_wf L p"
  shows "pn_wf L (record_result ok l A p)"
proof -
  define q where "q = record_latency l (p\<lparr>pn_recent_results := push_recent ok (pn_recent_results p)\<rparr>)"
  have q: "pn_wf L q"
    using p unfolding q_def
    by (intro latency_ops_wf) (simp add: pn_wf_def length_push_recent)
  show ?thesis
  proof (cases ok)
    case True
    let ?r = "(raise_base_score q)\<lparr>pn_consecutive_successes :=
                 wrap_add 32 (pn_consecutive_successes q) 1\<rparr>"
    have r: "pn_wf L ?r" using q by (simp add: pn_wf_def raise_base_score_def wrap_add_def)
    let ?k = "min (sat_add 32 (pn_max_concurrent q) (max (aimd_success_step A) 1))
                  (max (aimd_max_concurrent A) (aimd_min_concurrent A))"
    have "?k < 2 ^ 32" using A by (auto simp: aimd_wf_def)
    with r have s: "pn_wf L (?r\<lparr>pn_max_concurrent := ?k\<rparr>)" by (simp add: pn_wf_def)
    from True r s reduce_concurrency_wf [OF A r] reduce_concurrency_wf [OF A s] show ?thesis
      by (simp add: record_result_def Let_def q_def raise_base_score_def)
  next
    case False
    have "pn_wf L (lower_base_score (q\<lparr>pn_consecutive_successes := 0\<rparr>))"
      using q by (auto simp: pn_wf_def lower_base_score_def)
    from False reduce_concurrency_wf [OF A this] show ?thesis
      by (simp add: record_result_def Let_def q_def)
  qed
qed

lemma record_result_frame [frame_simps, simp]:
  "pn_node (record_result ok l A p) = pn_node p"
  "pn_budget (record_result ok l A p) = pn_budget p"
  "pn_active_leases (record_result ok l A p) = pn_active_leases p"
  by (simp_all add: record_result_def Let_def reduce_concurrency_def lower_base_score_def
      raise_base_score_def)

lemma release_node_frame [frame_simps, simp]:
  "pn_node (release_node r l now A p) = pn_node p"
  "pn_budget (release_node r l now A p) = pn_budget p"
  "pn_active_leases (release_node r l now A p) = pn_active_leases p - 1"
  by (auto simp: release_node_def Let_def release_lease_def take_admitted_meta_def
      split: list.splits result_kind.splits)

lemma release_node_wf [wf_intros]:
  assumes A: "aimd_wf A" and p: "pn_wf L p"
  shows "pn_wf L (release_node r l now A p)"
proof -
  obtain taken q where tq: "take_admitted_meta (release_lease p) = (taken, q)" by fastforce
  have q: "pn_wf L q"
    using p tq by (auto simp: pn_wf_def release_lease_def take_admitted_meta_def split: list.splits)
  define s where "s = (case taken of None \<Rightarrow> q | Some m \<Rightarrow> record_completion_latency_for_meta m l q)"
  have s: "pn_wf L s" using q by (auto simp: s_def intro: latency_ops_wf split: option.splits)
  have idle: "pn_wf L ((record_result True l A s)\<lparr>pn_idle_since := now\<rparr>)"
    using record_result_wf [OF A s, of True l] by (simp add: pn_wf_def)
  show ?thesis
    using q s idle record_result_wf [OF A s, of False l] tq
    by (auto simp: release_node_def Let_def s_def split: result_kind.splits)
qed

section \<open>Admission of a request\<close>

lemma try_admit_node [frame_simps, simp]: "pn_node (snd (try_admit m now p)) = pn_node p"
  by (auto simp: try_admit_def Let_def split: sum.splits)

lemma try_admit_True_iff:
  "fst (try_admit m now p) \<longleftrightarrow>
     can_admit (pn_budget p) m now (pn_active_leases p) (pn_max_concurrent p) = Inr ()"
  by (auto simp: try_admit_def Let_def split: sum.splits)

lemma try_admit_fails_leases [simp]:
  "\<not> fst (try_admit m now p) \<Longrightarrow> pn_active_leases (snd (try_admit m now p)) = pn_active_leases p"
  by (auto simp: try_admit_def Let_def split: sum.splits)

lemma try_admit_fails_counters:
  "\<not> fst (try_admit m now p) \<Longrightarrow>
     nb_calls (pn_budget (snd (try_admit m now p))) = nb_calls (pn_budget p)"
  by (auto simp: try_admit_def Let_def cooldown_def split: sum.splits)

lemma try_admit_True:
  assumes "try_admit m now p = (True, q)" and "pn_wf L p"
  shows "q = p\<lparr>pn_budget := budget_admit m (clear_expired_cooldown now (pn_budget p)),
               pn_active_leases := pn_active_leases p + 1\<rparr>"
    and "pn_active_leases p < pn_max_concurrent p"
    and "budget_wf L (pn_budget q)"
proof -
  from assms(1) have ok: "can_admit (pn_budget p) m now (pn_active_leases p) (pn_max_concurrent p) = Inr ()"
    using try_admit_True_iff [of m now p] by simp
  then show less: "pn_active_leases p < pn_max_concurrent p" by (simp add: can_admit_Inr_iff)
  with assms(2) have "wrap_add 32 (pn_active_leases p) 1 = pn_active_leases p + 1"
    by (simp add: pn_wf_def wrap_add_def)
  with assms(1) ok show q: "q = p\<lparr>pn_budget := budget_admit m (clear_expired_cooldown now (pn_budget p)),
               pn_active_leases := pn_active_leases p + 1\<rparr>"
    by (simp add: try_admit_def Let_def)
  have b: "budget_wf L (clear_expired_cooldown now (pn_budget p))"
    using assms(2) by (simp add: pn_wf_def budget_wf_ops)
  have "can_admit (clear_expired_cooldown now (pn_budget p)) m now
      (pn_active_leases p) (pn_max_concurrent p) = Inr ()" using ok by simp
  from budget_admit_wf [OF b this] show "budget_wf L (pn_budget q)"
    using q by simp
qed

lemma try_admit_wf [wf_intros]:
  assumes p: "pn_wf L p"
  shows "pn_wf L (snd (try_admit m now p))"
proof (cases "fst (try_admit m now p)")
  case True
  then obtain q where q: "try_admit m now p = (True, q)" by (metis prod.collapse)
  from try_admit_True [OF q p] p show ?thesis by (simp add: q pn_wf_def)
next
  case False
  define b where "b = clear_expired_cooldown now (pn_budget p)"
  have b: "budget_wf L b" using p by (simp add: b_def pn_wf_def budget_wf_ops)
  have "budget_wf L (cooldown now r b)" "budget_wf L (b\<lparr>nb_hit_reason := h\<rparr>)" for r h
    using b by (simp_all add: budget_wf_ops)
  with False p show ?thesis
    by (auto simp: try_admit_def Let_def pn_wf_def b_def [symmetric] split: sum.splits)
qed

lemma global_admit_frame [frame_simps]:
  assumes "global_admit en fo now p ev = (ok, q, ev')"
  shows "pn_node q = pn_node p" and "pn_active_leases q = pn_active_leases p"
    and "pn_active_requests q = pn_active_requests p"
    and "nb_calls (pn_budget q) = nb_calls (pn_budget p)"
    and "pn_max_concurrent q = pn_max_concurrent p"
  using assms
  by (auto simp: global_admit_def Let_def cooldown_def split: if_splits global_reply.splits prod.splits)

lemma global_admit_wf [wf_intros]:
  assumes "global_admit en fo now p ev = (ok, q, ev')" and "pn_wf L p"
  shows "pn_wf L q"
proof -
  have "budget_wf L (cooldown now r (pn_budget p))"
    "budget_wf L ((pn_budget p)\<lparr>nb_hit_reason := h\<rparr>)" for r h
    using assms(2) by (simp_all add: pn_wf_def budget_wf_ops)
  with assms show ?thesis
    by (auto simp: global_admit_def Let_def pn_wf_def split: if_splits global_reply.splits prod.splits)
qed

text \<open>
  One admission: the node keeps its identity and its invariant, exactly a success takes a
  lease, and a refusal by the shared budget gives the lease and the call back.
\<close>

lemma admit_node_result:
  assumes "admit_node en fo m now p ev = (ok, q, ev')" and p: "pn_wf L p"
  shows "pn_node q = pn_node p" and "pn_wf L q"
    and "pn_active_leases q = pn_active_leases p + (if ok then 1 else 0)"
    and "ok \<Longrightarrow> pn_active_leases p < pn_max_concurrent p"
    and "ok \<Longrightarrow> can_admit (pn_budget p) m now (pn_active_leases p) (pn_max_concurrent p) = Inr ()"
    and "nbl_max_calls L < 2 ^ 64 - 1 \<Longrightarrow>
           nb_calls (pn_budget q) = nb_calls (pn_budget p) + (if ok then 1 else 0)"
proof -
  consider (refused) "\<not> fst (try_admit m now p)" | (admitted) r where "try_admit m now p = (True, r)"
    by (metis prod.collapse)
  then have "pn_node q = pn_node p \<and> pn_wf L q \<and>
      pn_active_leases q = pn_active_leases p + (if ok then 1 else 0) \<and>
      (ok \<longrightarrow> pn_active_leases p < pn_max_concurrent p) \<and>
      (ok \<longrightarrow> can_admit (pn_budget p) m now (pn_active_leases p) (pn_max_concurrent p) = Inr ()) \<and>
      (nbl_max_calls L < 2 ^ 64 - 1 \<longrightarrow>
        nb_calls (pn_budget q) = nb_calls (pn_budget p) + (if ok then 1 else 0))"
  proof cases
    case refused
    with assms(1) have "ok = False" "q = snd (try_admit m now p)"
      by (auto simp: admit_node_def split: prod.splits)
    with refused p show ?thesis by (simp add: try_admit_wf try_admit_fails_counters)
  next
    case admitted
    obtain g s ev1 where g: "global_admit en fo now r ev = (g, s, ev1)" by (metis prod_cases3)
    note r = try_admit_True [OF admitted p]
    have ca: "can_admit (pn_budget p) m now (pn_active_leases p) (pn_max_concurrent p) = Inr ()"
      using try_admit_True_iff [of m now p] admitted by simp
    have wr: "pn_wf L r" using try_admit_wf [OF p, of m now] admitted by simp
    have ws: "pn_wf L s" by (rule global_admit_wf [OF g wr])
    note f = global_admit_frame [OF g]
    have node: "pn_node s = pn_node p" and leases: "pn_active_leases s = pn_active_leases p + 1"
      using f r(1) by simp_all
    have calls: "nbl_max_calls L < 2 ^ 64 - 1 \<Longrightarrow> nb_calls (pn_budget s) = nb_calls (pn_budget p) + 1"
      using f(4) r(1) ca p by (auto simp: budget_admit_def can_admit_Inr_iff pn_wf_def budget_wf_def sat_add_def)
    have reqs: "length (pn_active_requests s) \<le> pn_active_leases p"
      using f(3) r(1) p by (simp add: pn_wf_def)
    show ?thesis
    proof (cases g)
      case True
      with assms(1) admitted g have "ok" "q = remember_admit m s"
        by (auto simp: admit_node_def)
      with ws node leases calls ca r(2) show ?thesis
        by (simp add: remember_admit_def Let_def pn_wf_def)
    next
      case False
      with assms(1) admitted g have "ok = False" "q = rollback_local_admit m s"
        by (auto simp: admit_node_def)
      moreover have "budget_wf L (rollback_admit m (pn_budget s))"
        using ws by (simp add: pn_wf_def budget_wf_ops)
      ultimately show ?thesis using ws node leases calls reqs
        by (auto simp: rollback_local_admit_def release_lease_def rollback_admit_def pn_wf_def)
    qed
  qed
  then show "pn_node q = pn_node p" and "pn_wf L q"
    and "pn_active_leases q = pn_active_leases p + (if ok then 1 else 0)"
    and "ok \<Longrightarrow> pn_active_leases p < pn_max_concurrent p"
    and "ok \<Longrightarrow> can_admit (pn_budget p) m now (pn_active_leases p) (pn_max_concurrent p) = Inr ()"
    and "nbl_max_calls L < 2 ^ 64 - 1 \<Longrightarrow>
           nb_calls (pn_budget q) = nb_calls (pn_budget p) + (if ok then 1 else 0)"
    by blast+
qed

text \<open>The equations that evaluate the node operations on a concrete node.\<close>

lemmas node_ops =
  admit_node_def try_admit_def can_admit_def budget_admit_def rollback_admit_def cooldown_def
  clear_expired_cooldown_def global_admit_def remember_admit_def rollback_local_admit_def
  release_node_def release_lease_def take_admitted_meta_def record_result_def record_latency_def
  record_completion_latency_for_meta_def record_bucket_latency_def reduce_concurrency_def
  raise_base_score_def lower_base_score_def push_recent_def wrap_add_def sat_add_def sat_mul_def
  i64_wrap_def estimated_input_tokens_def request_kb_def div_ceil_def ewma_def Let_def

section \<open>A node over its lifetime\<close>

datatype node_event =
  Acquire request_meta int
| ReleaseEv result_kind nat int
| LatencyHint nat
| BucketLatencyHint string nat

fun run_node ::
  "bool \<Rightarrow> bool \<Rightarrow> aimd_config \<Rightarrow> pool_node \<Rightarrow> node_event list \<Rightarrow> env \<Rightarrow> nat \<times> pool_node \<times> env" where
  "run_node en fo A p [] ev = (0, p, ev)"
| "run_node en fo A p (Acquire m now # es) ev =
     (let (ok, p, ev) = admit_node en fo m now p ev; (n, p, ev) = run_node en fo A p es ev
      in (if ok then Suc n else n, p, ev))"
| "run_node en fo A p (ReleaseEv r l now # es) ev = run_node en fo A (release_node r l now A p) es ev"
| "run_node en fo A p (LatencyHint l # es) ev = run_node en fo A (record_latency l p) es ev"
| "run_node en fo A p (BucketLatencyHint b l # es) ev = run_node en fo A (record_ttft_latency b l p) es ev"

lemma run_node_calls:
  assumes A: "aimd_wf A" and L: "nbl_max_calls L < 2 ^ 64 - 1"
  shows "pn_wf L p \<Longrightarrow> run_node en fo A p es ev = (n, q, ev') \<Longrightarrow>
           pn_wf L q \<and> nb_calls (pn_budget q) = nb_calls (pn_budget p) + n"
proof (induction es arbitrary: p ev n)
  case Nil
  then show ?case by simp
next
  case (Cons e es)
  show ?case
  proof (cases e)
    case (Acquire m now)
    obtain ok p1 ev1 where a: "admit_node en fo m now p ev = (ok, p1, ev1)" by (metis prod_cases3)
    obtain k where r: "run_node en fo A p1 es ev1 = (k, q, ev')" and n: "n = (if ok then Suc k else k)"
      using Cons.prems(2) Acquire a by (auto split: prod.splits)
    note ar = admit_node_result [OF a Cons.prems(1)]
    from Cons.IH [OF ar(2) r] ar(6) [OF L] n show ?thesis by simp
  next
    case (ReleaseEv r l now)
    with Cons.prems have "run_node en fo A (release_node r l now A p) es ev = (n, q, ev')" by simp
    from Cons.IH [OF release_node_wf [OF A Cons.prems(1)] this] show ?thesis by simp
  next
    case (LatencyHint l)
    with Cons.prems have "run_node en fo A (record_latency l p) es ev = (n, q, ev')" by simp
    from Cons.IH [OF latency_ops_wf(1) [OF Cons.prems(1)] this] show ?thesis by simp
  next
    case (BucketLatencyHint b l)
    with Cons.prems have "run_node en fo A (record_ttft_latency b l p) es ev = (n, q, ev')" by simp
    from Cons.IH [OF latency_ops_wf(4) [OF Cons.prems(1)] this] show ?thesis by simp
  qed
qed

text \<open>
  C8: However long a node stays in the pool and whatever happens to it, the requests it
  admits, together with those already counted, never exceed \<open>max_calls_per_window\<close>: no
  operation of the pool opens a new window.
\<close>

theorem node_lifetime_admissions_bounded:
  assumes "aimd_wf A" and "nbl_max_calls L < 2 ^ 64 - 1" and "pn_wf L p"
    and "run_node en fo A p es ev = (n, q, ev')"
  shows "nb_calls (pn_budget p) + n \<le> nbl_max_calls L"
proof -
  from run_node_calls [OF assms(1,2,3,4)]
  have "pn_wf L q" and "nb_calls (pn_budget q) = nb_calls (pn_budget p) + n" by simp_all
  then show ?thesis by (simp add: pn_wf_def budget_wf_def)
qed

text \<open>A node with one call per window, which it has served, tried again days later.\<close>

definition demo_meta :: request_meta where
  "demo_meta =
     \<lparr>rm_model = ''m'', rm_upstream_model = ''u'', rm_session_id = ''s'', rm_stream = False,
      rm_body_size = 2048, rm_affinity_key = [], rm_allow_direct_fallback = False\<rparr>"

definition demo_env :: env where
  "demo_env = \<lparr>ev_rand = [], ev_global = [], ev_redis = []\<rparr>"

definition demo_limits :: node_budget_limits where
  "demo_limits =
     \<lparr>nbl_max_calls = 1, nbl_max_tokens = 10000, nbl_max_kb = 100, nbl_cooldown_secs = 60\<rparr>"

definition demo_ref :: "string \<Rightarrow> node_ref" where
  "demo_ref i = \<lparr>nr_id = i, nr_url = ''socks5://h''\<rparr>"

definition demo_node :: pool_node where
  "demo_node = PoolNode_new 0 (demo_ref ''a'') demo_limits default_aimd"

lemma default_aimd_wf: "aimd_wf default_aimd"
  by (simp add: aimd_wf_def default_aimd_def)

lemma demo_node_wf: "pn_wf demo_limits demo_node"
  unfolding demo_node_def by (rule PoolNode_new_wf [OF default_aimd_wf])

lemma node_lifetime_admissions_bounded_witness:
  "fst (run_node False False default_aimd demo_node
     [Acquire demo_meta 0, ReleaseEv (Success 200) 0 1, Acquire demo_meta 86400,
      Acquire demo_meta 172800] demo_env) = 1 \<and>
   nb_calls (pn_budget demo_node) + 1 \<le> nbl_max_calls demo_limits"
proof -
  let ?es = "[Acquire demo_meta 0, ReleaseEv (Success 200) 0 1, Acquire demo_meta 86400,
      Acquire demo_meta 172800]"
  obtain n q ev' where r: "run_node False False default_aimd demo_node ?es demo_env = (n, q, ev')"
    by (metis prod_cases3)
  have "fst (run_node False False default_aimd demo_node ?es demo_env) = 1"
    by (simp add: demo_node_def demo_limits_def demo_env_def demo_meta_def PoolNode_new_def
        default_aimd_def clamp_def NodeBudget_from_def node_ops)
  with r have "n = 1" by simp
  moreover have "nbl_max_calls demo_limits < 2 ^ 64 - 1" by (simp add: demo_limits_def)
  ultimately show ?thesis
    using node_lifetime_admissions_bounded [OF default_aimd_wf _ demo_node_wf r] r by simp
qed

section \<open>The AIMD limit\<close>

text \<open>
  With a maximum of at least one the limit of every node stays between one and the larger
  of the configured bounds.
\<close>

definition aimd_in_range :: "aimd_config \<Rightarrow> pool_node \<Rightarrow> bool" where
  "aimd_in_range A p \<longleftrightarrow>
     1 \<le> pn_max_concurrent p \<and>
     pn_max_concurrent p \<le> max (aimd_max_concurrent A) (max (aimd_min_concurrent A) 1)"

lemma aimd_in_range_new: "aimd_in_range A (PoolNode_new now n L A)"
  by (auto simp: aimd_in_range_def PoolNode_new_def clamp_def)

lemma latency_ops_max_concurrent [frame_simps, simp]:
  "pn_max_concurrent (record_latency l p) = pn_max_concurrent p"
  "pn_max_concurrent (record_bucket_latency b l p) = pn_max_concurrent p"
  "pn_max_concurrent (record_completion_latency_for_meta m l p) = pn_max_concurrent p"
  "pn_max_concurrent (record_ttft_latency b l p) = pn_max_concurrent p"
  "pn_consecutive_successes (record_latency l p) = pn_consecutive_successes p"
  "pn_base_score (record_latency l p) = pn_base_score p"
  by (simp_all add: record_latency_def record_bucket_latency_def Let_def
      record_completion_latency_for_meta_def record_ttft_latency_def split: option.splits)

lemma scale_le: "k * clamp pct 1 99 div 100 \<le> (k::nat)"
proof -
  have "clamp pct 1 99 \<le> 100" by (simp add: clamp_def)
  then have "k * clamp pct 1 99 \<le> k * 100" by (rule mult_le_mono2)
  then have "k * clamp pct 1 99 div 100 \<le> k * 100 div 100" by (rule div_le_mono)
  then show ?thesis by simp
qed

lemma reduce_concurrency_in_range:
  assumes "aimd_in_range A p"
  shows "aimd_in_range A (reduce_concurrency A p)"
proof -
  let ?k = "pn_max_concurrent p" and ?c = "clamp (aimd_failure_percent A) 1 99"
  have "sat_mul 32 ?k ?c div 100 \<le> ?k * ?c div 100"
    by (intro div_le_mono) (simp add: sat_mul_def)
  with scale_le [of ?k "aimd_failure_percent A"] have "sat_mul 32 ?k ?c div 100 \<le> ?k"
    by (rule order_trans [rotated])
  with assms show ?thesis by (auto simp: aimd_in_range_def reduce_concurrency_def)
qed

lemma record_result_in_range:
  assumes A: "1 \<le> max (aimd_max_concurrent A) (aimd_min_concurrent A)"
    and p: "aimd_in_range A p"
  shows "aimd_in_range A (record_result ok l A p)"
proof -
  have reduce: "aimd_in_range A q \<Longrightarrow> aimd_in_range A (reduce_concurrency A q)" for q
    by (rule reduce_concurrency_in_range)
  have pos: "Suc 0 \<le> sat_add 32 k (max s (Suc 0))" for k s
    using sat_add_pos [of "max s (Suc 0)" 32 k] by (simp add: Suc_le_eq)
  have cap: "aimd_in_range A (q\<lparr>pn_max_concurrent :=
      min (sat_add 32 k (max (aimd_success_step A) (Suc 0)))
          (max (aimd_max_concurrent A) (aimd_min_concurrent A))\<rparr>)" for q k
    using A pos by (auto simp: aimd_in_range_def min_def)
  have upd: "aimd_in_range A (q\<lparr>pn_consecutive_successes := c\<rparr>) = aimd_in_range A q"
    "aimd_in_range A (q\<lparr>pn_base_score := b\<rparr>) = aimd_in_range A q"
    "aimd_in_range A (q\<lparr>pn_recent_results := r\<rparr>) = aimd_in_range A q"
    "aimd_in_range A (record_latency l q) = aimd_in_range A q" for q c b r
    by (simp_all add: aimd_in_range_def)
  show ?thesis
    unfolding record_result_def Let_def raise_base_score_def lower_base_score_def
    by (auto intro!: reduce cap simp: upd p)
qed

lemma release_node_in_range:
  assumes A: "1 \<le> max (aimd_max_concurrent A) (aimd_min_concurrent A)"
    and p: "aimd_in_range A p"
  shows "aimd_in_range A (release_node r l now A p)"
proof -
  obtain taken q where tq: "take_admitted_meta (release_lease p) = (taken, q)" by fastforce
  have q: "aimd_in_range A q"
    using p tq by (auto simp: aimd_in_range_def release_lease_def take_admitted_meta_def
        split: list.splits)
  define s where "s = (case taken of None \<Rightarrow> q | Some m \<Rightarrow> record_completion_latency_for_meta m l q)"
  have s: "aimd_in_range A s" using q by (auto simp: s_def aimd_in_range_def split: option.splits)
  have "aimd_in_range A ((record_result True l A s)\<lparr>pn_idle_since := now\<rparr>)"
    using record_result_in_range [OF A s, of True l] by (simp add: aimd_in_range_def)
  with q s record_result_in_range [OF A s, of False l] tq show ?thesis
    by (auto simp: release_node_def Let_def s_def split: result_kind.splits)
qed

lemma admit_node_max_concurrent:
  "admit_node en fo m now p ev = (ok, q, ev') \<Longrightarrow> pn_max_concurrent q = pn_max_concurrent p"
  by (auto simp: admit_node_def try_admit_def global_admit_def remember_admit_def
      rollback_local_admit_def release_lease_def Let_def
      split: prod.splits sum.splits if_splits global_reply.splits)

lemma run_node_in_range:
  assumes A: "1 \<le> max (aimd_max_concurrent A) (aimd_min_concurrent A)"
  shows "aimd_in_range A p \<Longrightarrow> run_node en fo A p es ev = (n, q, ev') \<Longrightarrow> aimd_in_range A q"
proof (induction es arbitrary: p ev n)
  case Nil
  then show ?case by simp
next
  case (Cons e es)
  show ?case
  proof (cases e)
    case (Acquire m now)
    obtain ok p1 ev1 where a: "admit_node en fo m now p ev = (ok, p1, ev1)" by (metis prod_cases3)
    obtain k where r: "run_node en fo A p1 es ev1 = (k, q, ev')"
      using Cons.prems(2) Acquire a by (auto split: prod.splits)
    have "aimd_in_range A p1"
      using Cons.prems(1) admit_node_max_concurrent [OF a] by (simp add: aimd_in_range_def)
    from Cons.IH [OF this r] show ?thesis .
  next
    case (ReleaseEv r l now)
    with Cons.prems have "run_node en fo A (release_node r l now A p) es ev = (n, q, ev')" by simp
    from Cons.IH [OF release_node_in_range [OF A Cons.prems(1)] this] show ?thesis .
  next
    case (LatencyHint l)
    with Cons.prems have "run_node en fo A (record_latency l p) es ev = (n, q, ev')" by simp
    then show ?thesis using Cons.IH [of "record_latency l p"] Cons.prems(1)
      by (simp add: aimd_in_range_def)
  next
    case (BucketLatencyHint b l)
    with Cons.prems have "run_node en fo A (record_ttft_latency b l p) es ev = (n, q, ev')" by simp
    then show ?thesis using Cons.IH [of "record_ttft_latency b l p"] Cons.prems(1)
      by (simp add: aimd_in_range_def)
  qed
qed

text \<open>
  From a fresh node on, the AIMD concurrency limit stays between one and the larger of
  the configured bounds, whatever the node serves, provided the configuration's bounds are
  not both zero.
\<close>

lemma aimd_limit_bounds:
  assumes "1 \<le> max (aimd_max_concurrent A) (aimd_min_concurrent A)"
    and "run_node en fo A (PoolNode_new t r L A) es ev = (n, q, ev')"
  shows "1 \<le> pn_max_concurrent q \<and>
         pn_max_concurrent q \<le> max (aimd_max_concurrent A) (max (aimd_min_concurrent A) 1)"
  using run_node_in_range [OF assms(1) aimd_in_range_new assms(2)]
  by (simp only: aimd_in_range_def)

lemma aimd_limit_bounds_witness:
  "pn_max_concurrent (fst (snd (run_node False False default_aimd
     (PoolNode_new 0 (demo_ref ''a'') demo_limits default_aimd)
     [ReleaseEv EmptyOutput 0 1, ReleaseEv EmptyOutput 0 1, ReleaseEv (Success 200) 0 2] demo_env))) = 1 \<and>
   pn_max_concurrent (fst (snd (run_node False False default_aimd
     (PoolNode_new 0 (demo_ref ''a'') demo_limits default_aimd)
     [ReleaseEv EmptyOutput 0 1, ReleaseEv EmptyOutput 0 1, ReleaseEv (Success 200) 0 2] demo_env))) \<le> 16"
proof -
  let ?es = "[ReleaseEv EmptyOutput 0 1, ReleaseEv EmptyOutput 0 1, ReleaseEv (Success 200) 0 2]"
  let ?p = "PoolNode_new 0 (demo_ref ''a'') demo_limits default_aimd"
  obtain n q ev' where r: "run_node False False default_aimd ?p ?es demo_env = (n, q, ev')"
    by (metis prod_cases3)
  have "pn_max_concurrent (fst (snd (run_node False False default_aimd ?p ?es demo_env))) = 1"
    by (simp add: PoolNode_new_def default_aimd_def clamp_def node_ops)
  moreover have "1 \<le> max (aimd_max_concurrent default_aimd) (aimd_min_concurrent default_aimd)"
    by (simp add: default_aimd_def)
  ultimately show ?thesis using aimd_limit_bounds [OF _ r] r by (simp add: default_aimd_def)
qed

text \<open>
  A failure halves the standing of a node: its success streak ends, its base score
  falls by 60 points (not below zero) and its concurrency limit is scaled by the configured
  percentage, but not below the configured minimum.
\<close>

lemma record_failure_effect:
  "pn_consecutive_successes (record_result False l A p) = 0 \<and>
   pn_base_score (record_result False l A p) = pn_base_score p - 6000 \<and>
   pn_max_concurrent (record_result False l A p) =
     max (sat_mul 32 (pn_max_concurrent p) (clamp (aimd_failure_percent A) 1 99) div 100)
         (max (aimd_min_concurrent A) 1) \<and>
   last (pn_recent_results (record_result False l A p)) = False"
proof -
  have [simp]: "pn_recent_results (record_latency l q) = pn_recent_results q" for q
    by (simp add: record_latency_def)
  show ?thesis
    by (simp add: record_result_def Let_def reduce_concurrency_def lower_base_score_def
        push_recent_def)
qed

text \<open>
  A node over one of its three volume limits goes into cooldown and refuses every
  request until the cooldown has run out.
\<close>

lemma cooldown_blocks_admission:
  assumes "can_admit (pn_budget p) m now (pn_active_leases p) (pn_max_concurrent p) = Inl r"
    and "r \<in> {''max_calls'', ''max_tokens'', ''max_kb''}"
    and "0 \<le> now" and "now + nb_cooldown_secs (pn_budget p) < 2 ^ 63"
    and "0 \<le> nb_cooldown_secs (pn_budget p)"
    and "now' < now + nb_cooldown_secs (pn_budget p)"
  shows "\<not> fst (try_admit m' now' (snd (try_admit m now p))) \<and>
         node_state now' (snd (try_admit m now p)) = ''cooldown''"
proof -
  let ?q = "snd (try_admit m now p)"
  have "nb_cooldown_until (pn_budget ?q) = Some (i64_wrap (now + nb_cooldown_secs (pn_budget p)))"
    using assms(1,2) by (auto simp: try_admit_def Let_def cooldown_def split: sum.splits)
  moreover have "i64_wrap (now + nb_cooldown_secs (pn_budget p)) = now + nb_cooldown_secs (pn_budget p)"
    using assms(3-5) by (intro i64_wrap_id) simp_all
  ultimately have until: "nb_cooldown_until (pn_budget ?q) = Some (now + nb_cooldown_secs (pn_budget p))"
    by simp
  with assms(6) show ?thesis
    by (simp add: try_admit_True_iff can_admit_Inr_iff node_state_def)
qed

lemma cooldown_blocks_admission_witness:
  "let p = demo_node\<lparr>pn_budget := (pn_budget demo_node)\<lparr>nb_calls := 1\<rparr>\<rparr>
   in \<not> fst (try_admit demo_meta 59 (snd (try_admit demo_meta 0 p))) \<and>
      node_state 59 (snd (try_admit demo_meta 0 p)) = ''cooldown''"
proof -
  let ?p = "demo_node\<lparr>pn_budget := (pn_budget demo_node)\<lparr>nb_calls := 1\<rparr>\<rparr>"
  have a: "can_admit (pn_budget ?p) demo_meta 0 (pn_active_leases ?p) (pn_max_concurrent ?p)
      = Inl ''max_calls''" and c: "nb_cooldown_secs (pn_budget ?p) = 60"
    by (simp_all add: demo_node_def demo_limits_def demo_meta_def PoolNode_new_def
        default_aimd_def clamp_def NodeBudget_from_def node_ops)
  show ?thesis
    unfolding Let_def
    using cooldown_blocks_admission [OF a, where now' = 59 and m' = demo_meta] c by simp
qed

end
