(* ===== verification/DispatchPool.thy ===== *)
theory DispatchPool
  imports NodeBudget
begin

text \<open>
  The second half of \<open>zen-proxy-rs/src/pool/dispatch.rs\<close>: the sharded pool of nodes in
  service, the selection of a node for a request (sampling, weighted choice, global best,
  affinity, sticky), and release, removal and insertion.  The clock is read once per
  operation (\<open>now\<close>).  Random draws and the shared budget's replies come from \<open>ev\<close>.
\<close>

record dispatch_pool =
  dp_shards :: "pool_node list list"
  dp_idle_since :: int
  dp_budget_limits :: node_budget_limits
  dp_global_budget :: bool
  dp_global_fail_open :: bool
  dp_aimd :: aimd_config
  dp_affinity :: "(string, node_id list) hashmap"

definition DispatchPool_new_with_options ::
  "int \<Rightarrow> node_budget_limits \<Rightarrow> aimd_config \<Rightarrow> nat \<Rightarrow> dispatch_pool" where
  "DispatchPool_new_with_options now L A shard_count =
     \<lparr>dp_shards = replicate (clamp shard_count 1 128) [], dp_idle_since = now,
      dp_budget_limits = L, dp_global_budget = False, dp_global_fail_open = True,
      dp_aimd = A, dp_affinity = []\<rparr>"

definition affinity_max_nodes :: "string \<Rightarrow> nat" where
  "affinity_max_nodes k =
     (let key = to_ascii_lowercase k
      in if starts_with key ''mimo-v2.5'' \<or> starts_with key ''mimo-v2.5-free'' then 2 else 4)"

definition request_exceeds_single_node_budget :: "dispatch_pool \<Rightarrow> request_meta \<Rightarrow> bool" where
  "request_exceeds_single_node_budget P m \<longleftrightarrow>
     request_kb m > nbl_max_kb (dp_budget_limits P) \<or> nbl_max_calls (dp_budget_limits P) = 0"

definition shard_index_for_id :: "nat \<Rightarrow> node_id \<Rightarrow> nat" where
  "shard_index_for_id n_shards i =
     foldl (\<lambda>h b. wrap_add 64 (wrap_mul 64 h 31) (byte_of b)) 0 i mod max n_shards 1"

abbreviation shard_of :: "dispatch_pool \<Rightarrow> node_id \<Rightarrow> nat" where
  "shard_of P i \<equiv> shard_index_for_id (length (dp_shards P)) i"

section \<open>Selection within one shard\<close>

definition eligible :: "request_meta \<Rightarrow> int \<Rightarrow> node_id list \<Rightarrow> pool_node \<Rightarrow> bool" where
  "eligible m now ex p \<longleftrightarrow>
     pn_id p \<notin> set ex \<and>
     can_admit (pn_budget p) m now (pn_active_leases p) (pn_max_concurrent p) = Inr ()"

fun sample_best ::
  "nat \<Rightarrow> pool_node list \<Rightarrow> request_meta \<Rightarrow> int \<Rightarrow> node_id list \<Rightarrow> (nat \<times> rat) option \<Rightarrow> env
     \<Rightarrow> (nat \<times> rat) option \<times> env" where
  "sample_best 0 ns m now ex best ev = (best, ev)"
| "sample_best (Suc k) ns m now ex best ev =
     (let (idx, ev) = next_usize (length ns) ev; p = ns ! idx
      in if \<not> eligible m now ex p then sample_best k ns m now ex best ev
         else
           let s = score_for now p (Some m);
               best = (if (case best of None \<Rightarrow> True | Some (_, b) \<Rightarrow> s > b) then Some (idx, s)
                       else best)
           in sample_best k ns m now ex best ev)"

definition try_sampled_acquire ::
  "bool \<Rightarrow> bool \<Rightarrow> pool_node list \<Rightarrow> request_meta \<Rightarrow> int \<Rightarrow> node_id list \<Rightarrow> env
     \<Rightarrow> node_ref option \<times> pool_node list \<times> env" where
  "try_sampled_acquire en fo ns m now ex ev =
     (let sample_count = min (length ns) 8
      in if sample_count = 0 then (None, ns, ev)
         else
           let (best, ev) = sample_best sample_count ns m now ex None ev
           in case best of
                None \<Rightarrow> (None, ns, ev)
              | Some (i, _) \<Rightarrow>
                  (let (ok, p, ev) = admit_node en fo m now (ns ! i) ev
                   in (if ok then Some (pn_node p) else None, ns[i := p], ev)))"

fun weighted_pick ::
  "bool \<Rightarrow> bool \<Rightarrow> nat list \<Rightarrow> pool_node list \<Rightarrow> request_meta \<Rightarrow> int \<Rightarrow> rat \<Rightarrow> rat \<Rightarrow> env
     \<Rightarrow> node_ref option \<times> pool_node list \<times> env" where
  "weighted_pick en fo [] ns m now threshold cumulative ev = (None, ns, ev)"
| "weighted_pick en fo (i # is) ns m now threshold cumulative ev =
     (let cumulative = cumulative + score_for now (ns ! i) (Some m)
      in if cumulative \<ge> threshold then
           let (ok, p, ev) = admit_node en fo m now (ns ! i) ev
           in if ok then (Some (pn_node p), ns[i := p], ev)
              else weighted_pick en fo is (ns[i := p]) m now threshold cumulative ev
         else weighted_pick en fo is ns m now threshold cumulative ev)"

text \<open>\<open>fastrand::f64\<close> returns a multiple of \<open>2 ^ -53\<close> in \<open>[0, 1)\<close>.\<close>

definition next_f64 :: "env \<Rightarrow> rat \<times> env" where
  "next_f64 ev = (let (x, ev) = next_usize (2 ^ 53) ev in (of_nat x / 2 ^ 53, ev))"

definition acquire_from_shard ::
  "bool \<Rightarrow> bool \<Rightarrow> pool_node list \<Rightarrow> request_meta \<Rightarrow> int \<Rightarrow> node_id list \<Rightarrow> env
     \<Rightarrow> node_ref option \<times> pool_node list \<times> env" where
  "acquire_from_shard en fo ns m now ex ev =
     (if ns = [] then (None, ns, ev)
      else
        let (r, ns, ev) = try_sampled_acquire en fo ns m now ex ev
        in case r of
             Some n \<Rightarrow> (Some n, ns, ev)
           | None \<Rightarrow>
               (let el = filter (\<lambda>i. eligible m now ex (ns ! i)) [0..<length ns]
                in if el = [] then
                     (None,
                      map (\<lambda>p. if pn_id p \<in> set ex then p else snd (try_admit m now p)) ns, ev)
                   else
                     let total = sum_list (map (\<lambda>i. score_for now (ns ! i) (Some m)) el)
                     in if total \<le> 0 then (None, ns, ev)
                        else
                          let (x, ev) = next_f64 ev
                          in weighted_pick en fo el ns m now (x * total) 0 ev))"

section \<open>Selection in the pool\<close>

fun find_idx :: "('a \<Rightarrow> bool) \<Rightarrow> 'a list \<Rightarrow> nat option" where
  "find_idx f [] = None"
| "find_idx f (x # xs) = (if f x then Some 0 else map_option Suc (find_idx f xs))"

definition set_shard :: "nat \<Rightarrow> pool_node list \<Rightarrow> dispatch_pool \<Rightarrow> dispatch_pool" where
  "set_shard k ns P = P\<lparr>dp_shards := (dp_shards P)[k := ns]\<rparr>"

definition try_acquire_sticky ::
  "dispatch_pool \<Rightarrow> request_meta \<Rightarrow> node_id \<Rightarrow> int \<Rightarrow> env
     \<Rightarrow> (dispatch_error + node_ref) \<times> dispatch_pool \<times> env" where
  "try_acquire_sticky P m i now ev =
     (if request_exceeds_single_node_budget P m then (Inl RequestTooLarge, P, ev)
      else
        let k = shard_of P i; ns = dp_shards P ! k
        in case find_idx (\<lambda>p. pn_id p = i) ns of
             None \<Rightarrow> (Inl NoResource, P, ev)
           | Some j \<Rightarrow>
               (let (ok, p, ev) = admit_node (dp_global_budget P) (dp_global_fail_open P) m now (ns ! j) ev
                in (if ok then Inr (pn_node p) else Inl NoResource,
                    set_shard k (ns[j := p]) P, ev)))"

fun acquire_scan ::
  "nat list \<Rightarrow> dispatch_pool \<Rightarrow> request_meta \<Rightarrow> int \<Rightarrow> node_id list \<Rightarrow> env
     \<Rightarrow> node_ref option \<times> dispatch_pool \<times> env" where
  "acquire_scan [] P m now ex ev = (None, P, ev)"
| "acquire_scan (k # ks) P m now ex ev =
     (let (r, ns, ev) =
            acquire_from_shard (dp_global_budget P) (dp_global_fail_open P)
              (dp_shards P ! k) m now ex ev;
          P = set_shard k ns P
      in case r of
           Some n \<Rightarrow> (Some n, P, ev)
         | None \<Rightarrow> acquire_scan ks P m now ex ev)"

fun sticky_first ::
  "node_id list \<Rightarrow> dispatch_pool \<Rightarrow> request_meta \<Rightarrow> int \<Rightarrow> env
     \<Rightarrow> node_ref option \<times> dispatch_pool \<times> env" where
  "sticky_first [] P m now ev = (None, P, ev)"
| "sticky_first (i # is) P m now ev =
     (let (r, P, ev) = try_acquire_sticky P m i now ev
      in case r of
           Inr n \<Rightarrow> (Some n, P, ev)
         | Inl _ \<Rightarrow> sticky_first is P m now ev)"

definition global_candidates ::
  "dispatch_pool \<Rightarrow> request_meta \<Rightarrow> int \<Rightarrow> node_id list \<Rightarrow> (rat \<times> node_id) list" where
  "global_candidates P m now ex =
     map (\<lambda>p. (score_for now p (Some m), pn_id p))
       (filter (eligible m now ex) (concat (dp_shards P)))"

definition acquire_best_global ::
  "dispatch_pool \<Rightarrow> request_meta \<Rightarrow> int \<Rightarrow> node_id list \<Rightarrow> env
     \<Rightarrow> node_ref option \<times> dispatch_pool \<times> env" where
  "acquire_best_global P m now ex ev =
     (let candidates = sort_key (\<lambda>c. - fst c) (global_candidates P m now ex)
      in sticky_first (map snd (take 8 candidates)) P m now ev)"

definition acquire_for_excluding ::
  "dispatch_pool \<Rightarrow> request_meta \<Rightarrow> node_id list \<Rightarrow> int \<Rightarrow> env
     \<Rightarrow> node_ref option \<times> dispatch_pool \<times> env" where
  "acquire_for_excluding P m ex now ev =
     (if request_exceeds_single_node_budget P m then (None, P, ev)
      else
        let n = length (dp_shards P);
            (start, ev) = next_usize n ev;
            (r, P, ev) = acquire_scan (map (\<lambda>offset. (start + offset) mod n) [0..<n]) P m now ex ev
        in case r of
             Some nr \<Rightarrow> (Some nr, P, ev)
           | None \<Rightarrow> acquire_best_global P m now ex ev)"

definition try_acquire_affinity_excluding ::
  "dispatch_pool \<Rightarrow> request_meta \<Rightarrow> node_id list \<Rightarrow> int \<Rightarrow> env
     \<Rightarrow> (dispatch_error + node_ref \<times> node_id) \<times> dispatch_pool \<times> env" where
  "try_acquire_affinity_excluding P m ex now ev =
     (if rm_affinity_key m = [] \<or> request_exceeds_single_node_budget P m
      then (Inl NoResource, P, ev)
      else
        let candidates = (case map_of (dp_affinity P) (rm_affinity_key m) of
                            None \<Rightarrow> [] | Some is \<Rightarrow> is);
            (r, P, ev) = sticky_first (filter (\<lambda>i. i \<notin> set ex) candidates) P m now ev
        in (case r of Some n \<Rightarrow> Inr (n, nr_id n) | None \<Rightarrow> Inl NoResource, P, ev))"

definition preflight :: "dispatch_pool \<Rightarrow> request_meta \<Rightarrow> dispatch_error + unit" where
  "preflight P m =
     (if request_exceeds_single_node_budget P m then Inl RequestTooLarge else Inr ())"

section \<open>Release, hints and membership\<close>

fun update_first :: "('a \<Rightarrow> bool) \<Rightarrow> ('a \<Rightarrow> 'a) \<Rightarrow> 'a list \<Rightarrow> 'a list" where
  "update_first f g [] = []"
| "update_first f g (x # xs) = (if f x then g x # xs else x # update_first f g xs)"

definition update_node :: "node_id \<Rightarrow> (pool_node \<Rightarrow> pool_node) \<Rightarrow> dispatch_pool \<Rightarrow> dispatch_pool" where
  "update_node i g P =
     (let k = shard_of P i
      in set_shard k (update_first (\<lambda>p. pn_id p = i) g (dp_shards P ! k)) P)"

definition dp_release_with_latency ::
  "node_id \<Rightarrow> result_kind \<Rightarrow> nat \<Rightarrow> int \<Rightarrow> dispatch_pool \<Rightarrow> dispatch_pool" where
  "dp_release_with_latency i r l now P = update_node i (release_node r l now (dp_aimd P)) P"

definition dp_release :: "int \<Rightarrow> node_id \<Rightarrow> result_kind \<Rightarrow> dispatch_pool \<Rightarrow> dispatch_pool" where
  "dp_release now i r P = dp_release_with_latency i r 0 now P"

definition dp_record_latency_hint :: "node_id \<Rightarrow> nat \<Rightarrow> dispatch_pool \<Rightarrow> dispatch_pool" where
  "dp_record_latency_hint i l P = update_node i (record_latency l) P"

definition dp_record_bucket_latency_hint ::
  "node_id \<Rightarrow> string \<Rightarrow> nat \<Rightarrow> dispatch_pool \<Rightarrow> dispatch_pool" where
  "dp_record_bucket_latency_hint i b l P = update_node i (record_ttft_latency b l) P"

definition dp_record_affinity_success :: "string \<Rightarrow> node_id \<Rightarrow> dispatch_pool \<Rightarrow> dispatch_pool" where
  "dp_record_affinity_success key i P =
     (if key = [] then P
      else
        let is = (case map_of (dp_affinity P) key of None \<Rightarrow> [] | Some is \<Rightarrow> is);
            is = i # filter (\<lambda>j. j \<noteq> i) is
        in P\<lparr>dp_affinity := AList.update key (take (affinity_max_nodes key) is) (dp_affinity P)\<rparr>)"

definition dp_remove :: "node_id \<Rightarrow> dispatch_pool \<Rightarrow> dispatch_pool" where
  "dp_remove i P =
     (let k = shard_of P i
      in set_shard k (filter (\<lambda>p. pn_id p \<noteq> i) (dp_shards P ! k)) P)"

definition dp_add :: "int \<Rightarrow> node_ref \<Rightarrow> dispatch_pool \<Rightarrow> dispatch_pool" where
  "dp_add now n P =
     (let k = shard_of P (nr_id n); ns = dp_shards P ! k
      in if \<exists>p \<in> set ns. pn_id p = nr_id n then P
         else set_shard k (ns @ [PoolNode_new now n (dp_budget_limits P) (dp_aimd P)]) P)"

definition dp_available :: "int \<Rightarrow> dispatch_pool \<Rightarrow> nat" where
  "dp_available now P =
     sum_list (map (\<lambda>ns. length (filter (\<lambda>p. node_state now p = ''dispatch'') ns)) (dp_shards P))"

definition dp_budget_counts :: "int \<Rightarrow> dispatch_pool \<Rightarrow> nat \<times> nat \<times> nat" where
  "dp_budget_counts now P =
     (let ns = concat (dp_shards P)
      in (length (filter (\<lambda>p. node_state now p = ''cooldown'') ns),
          length (filter (\<lambda>p. nb_hit_reason (pn_budget p) \<noteq> None) ns),
          sum_list (map pn_active_leases ns)))"

text \<open>\<open>acquire\<close> and \<open>acquire_for\<close> are the selection for an empty and for a given request.\<close>

definition dp_acquire ::
  "dispatch_pool \<Rightarrow> int \<Rightarrow> env \<Rightarrow> node_ref option \<times> dispatch_pool \<times> env" where
  "dp_acquire P now ev =
     acquire_for_excluding P
       \<lparr>rm_model = [], rm_upstream_model = [], rm_session_id = [], rm_stream = False,
        rm_body_size = 1, rm_affinity_key = [], rm_allow_direct_fallback = True\<rparr> [] now ev"

end
