(* ===== verification/DispatchCorrect.thy ===== *)
theory DispatchCorrect
  imports DispatchPool
begin

text \<open>
  What a selection does to the pool.  \<open>quiet\<close> relates a node before and after a step that
  granted it no lease; \<open>granted\<close> says that of a list of nodes exactly one took a lease for
  the request, and that it was neither excluded nor full.  Every acquisition path is
  proved to be quiet when it fails and to grant when it succeeds; the pool's invariant, the
  conservation of leases and the exclusion property follow.
\<close>

section \<open>Quiet steps and grants\<close>

definition quiet :: "node_budget_limits \<Rightarrow> pool_node \<Rightarrow> pool_node \<Rightarrow> bool" where
  "quiet L p q \<longleftrightarrow>
     pn_node q = pn_node p \<and> pn_max_concurrent q = pn_max_concurrent p \<and>
     pn_active_leases q = pn_active_leases p \<and> (pn_wf L p \<longrightarrow> pn_wf L q)"

abbreviation quiet_list :: "node_budget_limits \<Rightarrow> pool_node list \<Rightarrow> pool_node list \<Rightarrow> bool" where
  "quiet_list L \<equiv> list_all2 (quiet L)"

definition grants :: "node_budget_limits \<Rightarrow> node_ref \<Rightarrow> pool_node \<Rightarrow> pool_node \<Rightarrow> bool" where
  "grants L n p q \<longleftrightarrow>
     pn_node p = n \<and> pn_node q = n \<and> pn_active_leases p < pn_max_concurrent p \<and>
     pn_max_concurrent q = pn_max_concurrent p \<and>
     pn_active_leases q = pn_active_leases p + 1 \<and> pn_wf L q"

definition granted :: "node_budget_limits \<Rightarrow> node_ref \<Rightarrow> pool_node list \<Rightarrow> pool_node list \<Rightarrow> bool" where
  "granted L n ns ns' \<longleftrightarrow>
     (\<exists>xs p ys xs' q ys'. ns = xs @ p # ys \<and> ns' = xs' @ q # ys' \<and>
        quiet_list L xs xs' \<and> quiet_list L ys ys' \<and> grants L n p q)"

definition acquired :: "node_budget_limits \<Rightarrow> node_ref option \<Rightarrow> pool_node list \<Rightarrow> pool_node list \<Rightarrow> bool" where
  "acquired L r ns ns' =
     (case r of None \<Rightarrow> quiet_list L ns ns' | Some n \<Rightarrow> granted L n ns ns')"

abbreviation all_wf :: "node_budget_limits \<Rightarrow> pool_node list \<Rightarrow> bool" where
  "all_wf L ns \<equiv> \<forall>p \<in> set ns. pn_wf L p"

lemma quiet_refl [simp, intro]: "quiet L p p"
  by (simp add: quiet_def)

lemma quiet_list_refl [simp, intro]: "quiet_list L ns ns"
  by (simp add: list_all2_refl)

lemma quiet_trans: "quiet L p q \<Longrightarrow> quiet L q r \<Longrightarrow> quiet L p r"
  by (simp add: quiet_def)

lemma quiet_list_trans: "quiet_list L a b \<Longrightarrow> quiet_list L b c \<Longrightarrow> quiet_list L a c"
  by (rule list_all2_trans [of "quiet L" "quiet L"]) (auto intro: quiet_trans)

lemma quiet_list_wf: "quiet_list L ns ns' \<Longrightarrow> all_wf L ns \<Longrightarrow> all_wf L ns'"
  by (induction ns ns' rule: list_all2_induct) (auto simp: quiet_def)

lemma quiet_list_nodes: "quiet_list L ns ns' \<Longrightarrow> map pn_node ns' = map pn_node ns"
  by (induction ns ns' rule: list_all2_induct) (auto simp: quiet_def)

lemma quiet_list_leases:
  "quiet_list L ns ns' \<Longrightarrow> map pn_active_leases ns' = map pn_active_leases ns"
  by (induction ns ns' rule: list_all2_induct) (auto simp: quiet_def)

lemma quiet_list_update:
  "i < length ns \<Longrightarrow> quiet L (ns ! i) p \<Longrightarrow> quiet_list L ns (ns[i := p])"
  by (auto simp: list_all2_conv_all_nth nth_list_update)

lemma grantedI:
  "quiet_list L xs xs' \<Longrightarrow> quiet_list L ys ys' \<Longrightarrow> grants L n p q \<Longrightarrow>
     granted L n (xs @ p # ys) (xs' @ q # ys')"
  unfolding granted_def by blast

lemma grantedE:
  assumes "granted L n ns ns'"
  obtains xs p ys xs' q ys' where "ns = xs @ p # ys" and "ns' = xs' @ q # ys'"
    and "quiet_list L xs xs'" and "quiet_list L ys ys'" and "grants L n p q"
  using assms unfolding granted_def by blast

lemma granted_nodes: "granted L n ns ns' \<Longrightarrow> map pn_node ns' = map pn_node ns"
  by (erule grantedE) (simp add: grants_def quiet_list_nodes)

lemma granted_wf: "granted L n ns ns' \<Longrightarrow> all_wf L ns \<Longrightarrow> all_wf L ns'"
proof (erule grantedE)
  fix xs p ys xs' q ys'
  assume "all_wf L ns" "ns = xs @ p # ys" and ns': "ns' = xs' @ q # ys'" and "grants L n p q"
    and xs: "quiet_list L xs xs'" and ys: "quiet_list L ys ys'"
  then have "all_wf L xs" "all_wf L ys" and q: "pn_wf L q" by (simp_all add: grants_def)
  then have "all_wf L xs'" "all_wf L ys'" using quiet_list_wf [OF xs] quiet_list_wf [OF ys] by blast+
  with q show "all_wf L ns'" unfolding ns' set_append list.set by blast
qed

lemma granted_leases:
  "granted L n ns ns' \<Longrightarrow>
     sum_list (map pn_active_leases ns') = sum_list (map pn_active_leases ns) + 1"
  by (erule grantedE) (simp add: grants_def quiet_list_leases)

lemma granted_member:
  "granted L n ns ns' \<Longrightarrow> \<exists>p \<in> set ns. pn_node p = n \<and> pn_active_leases p < pn_max_concurrent p"
  by (erule grantedE) (simp add: grants_def)

lemma granted_single:
  "i < length ns \<Longrightarrow> grants L n (ns ! i) q \<Longrightarrow> granted L n ns (ns[i := q])"
  unfolding granted_def
  by (rule exI [of _ "take i ns"], rule exI [of _ "ns ! i"], rule exI [of _ "drop (Suc i) ns"],
      rule exI [of _ "take i ns"], rule exI [of _ q], rule exI [of _ "drop (Suc i) ns"])
    (simp add: id_take_nth_drop [symmetric] upd_conv_take_nth_drop)

lemma quiet_granted:
  assumes "quiet_list L a b" and "granted L n b c"
  shows "granted L n a c"
  using assms(2)
proof (cases rule: grantedE)
  case (1 xs p ys xs' q ys')
  from assms(1) 1(1) obtain us vs where a: "a = us @ vs" and u: "quiet_list L us xs"
    and "quiet_list L vs (p # ys)"
    by (auto simp only: list_all2_append2)
  then obtain v ws where vs: "vs = v # ws" and v: "quiet L v p" and w: "quiet_list L ws ys"
    by (auto simp only: list_all2_Cons2)
  from v 1(5) have "grants L n v q" by (auto simp: grants_def quiet_def)
  with quiet_list_trans [OF u 1(3)] quiet_list_trans [OF w 1(4)]
  show ?thesis unfolding a vs 1(2) by (rule grantedI)
qed

lemma granted_append1:
  assumes "granted L n a b" and "quiet_list L c d"
  shows "granted L n (a @ c) (b @ d)"
  using assms(1)
proof (cases rule: grantedE)
  case (1 xs p ys xs' q ys')
  from grantedI [OF 1(3) list_all2_appendI [OF 1(4) assms(2)] 1(5)] show ?thesis
    by (simp add: 1(1,2))
qed

lemma granted_append2:
  assumes "granted L n a b" and "quiet_list L c d"
  shows "granted L n (c @ a) (d @ b)"
  using assms(1)
proof (cases rule: grantedE)
  case (1 xs p ys xs' q ys')
  from grantedI [OF list_all2_appendI [OF assms(2) 1(3)] 1(4) 1(5)] show ?thesis
    by (simp add: 1(1,2))
qed

lemma acquired_trans: "quiet_list L a b \<Longrightarrow> acquired L r b c \<Longrightarrow> acquired L r a c"
  by (cases r) (auto simp: acquired_def dest: quiet_list_trans quiet_granted)

lemma acquired_nodes: "acquired L r ns ns' \<Longrightarrow> map pn_node ns' = map pn_node ns"
  by (auto simp: acquired_def quiet_list_nodes granted_nodes split: option.splits)

lemma acquired_wf: "acquired L r ns ns' \<Longrightarrow> all_wf L ns \<Longrightarrow> all_wf L ns'"
  by (auto simp: acquired_def split: option.splits dest: quiet_list_wf granted_wf)

lemma acquired_leases:
  "acquired L r ns ns' \<Longrightarrow>
     sum_list (map pn_active_leases ns') =
     sum_list (map pn_active_leases ns) + (if r = None then 0 else 1)"
  by (auto simp: acquired_def quiet_list_leases granted_leases split: option.splits)

section \<open>The paths within a shard\<close>

lemma try_admit_quiet:
  assumes "\<not> fst (try_admit m now p)"
  shows "quiet L p (snd (try_admit m now p))"
  using assms try_admit_wf [of L p m now]
  by (auto simp: quiet_def try_admit_def Let_def split: sum.splits)

lemma admit_node_acquired:
  assumes "admit_node en fo m now (ns ! i) ev = (ok, p, ev')" and "i < length ns" and "all_wf L ns"
  shows "acquired L (if ok then Some (pn_node p) else None) ns (ns[i := p])"
proof -
  from assms(2,3) have wf: "pn_wf L (ns ! i)" by simp
  note r = admit_node_result [OF assms(1) wf] and k = admit_node_max_concurrent [OF assms(1)]
  show ?thesis
  proof (cases ok)
    case True
    with r k have "grants L (pn_node p) (ns ! i) p" by (simp add: grants_def)
    with True assms(2) show ?thesis by (simp add: acquired_def granted_single)
  next
    case False
    with r k have "quiet L (ns ! i) p" by (simp add: quiet_def)
    with False assms(2) show ?thesis by (simp add: acquired_def quiet_list_update)
  qed
qed

lemma admit_node_id:
  "admit_node en fo m now p ev = (ok, q, ev') \<Longrightarrow> pn_wf L p \<Longrightarrow> pn_node q = pn_node p"
  by (rule admit_node_result(1))

lemma sample_best_index:
  assumes "sample_best k ns m now ex best ev = (Some (i, s), ev')"
    and "ns \<noteq> []" and "\<forall>j b. best = Some (j, b) \<longrightarrow> j < length ns \<and> eligible m now ex (ns ! j)"
  shows "i < length ns \<and> eligible m now ex (ns ! i)"
  using assms
proof (induction k arbitrary: best ev)
  case 0
  then show ?case by simp
next
  case (Suc k)
  obtain idx ev1 where d: "next_usize (length ns) ev = (idx, ev1)" by fastforce
  from Suc.prems(2) have "idx < length ns" using next_usize_less [of "length ns" ev] d by simp
  moreover from Suc.prems(1) d obtain best1 where
    "sample_best k ns m now ex best1 ev1 = (Some (i, s), ev')" and
    "best1 = best \<or> (\<exists>b. best1 = Some (idx, b)) \<and> eligible m now ex (ns ! idx)"
    by (auto simp: Let_def split: if_splits)
  ultimately show ?case using Suc.IH Suc.prems(2,3) by blast
qed

lemma try_sampled_acquire_acquired:
  assumes "try_sampled_acquire en fo ns m now ex ev = (r, ns', ev')" and "all_wf L ns"
  shows "acquired L r ns ns'" and "\<And>n. r = Some n \<Longrightarrow> nr_id n \<notin> set ex"
proof -
  have "acquired L r ns ns' \<and> (\<forall>n. r = Some n \<longrightarrow> nr_id n \<notin> set ex)"
  proof (cases "ns = []")
    case True
    with assms(1) show ?thesis by (simp add: try_sampled_acquire_def acquired_def)
  next
    case False
    then have pos: "min (length ns) 8 \<noteq> 0" by simp
    obtain best ev1 where b: "sample_best (min (length ns) 8) ns m now ex None ev = (best, ev1)"
      by fastforce
    show ?thesis
    proof (cases best)
      case None
      with assms(1) b pos have "r = None" "ns' = ns"
        unfolding try_sampled_acquire_def Let_def by (simp_all only: if_False prod.case option.case) simp_all
      then show ?thesis by (simp add: acquired_def)
    next
      case (Some c)
      then obtain i s where "best = Some (i, s)" by (cases c) auto
      with b have b': "sample_best (min (length ns) 8) ns m now ex None ev = (Some (i, s), ev1)"
        by simp
      from sample_best_index [OF b' False]
      have i: "i < length ns" "eligible m now ex (ns ! i)" by simp_all
      obtain ok p ev2 where a: "admit_node en fo m now (ns ! i) ev1 = (ok, p, ev2)"
        by (metis prod_cases3)
      from assms(1) b' a pos have r: "r = (if ok then Some (pn_node p) else None)" "ns' = ns[i := p]"
        by (auto simp: try_sampled_acquire_def)
      from assms(2) i(1) have "pn_node p = pn_node (ns ! i)"
        using admit_node_id [OF a, of L] by simp
      with r i admit_node_acquired [OF a i(1) assms(2)] show ?thesis
        by (auto simp: eligible_def)
    qed
  qed
  then show "acquired L r ns ns'" and "\<And>n. r = Some n \<Longrightarrow> nr_id n \<notin> set ex" by auto
qed

lemma weighted_pick_acquired:
  "weighted_pick en fo is ns m now t c ev = (r, ns', ev') \<Longrightarrow> all_wf L ns \<Longrightarrow>
     \<forall>i \<in> set is. i < length ns \<and> pn_id (ns ! i) \<notin> set ex \<Longrightarrow>
     acquired L r ns ns' \<and> (\<forall>n. r = Some n \<longrightarrow> nr_id n \<notin> set ex)"
proof (induction "is" arbitrary: ns c ev)
  case Nil
  then show ?case by (simp add: acquired_def)
next
  case (Cons i "is")
  let ?c = "c + score_for now (ns ! i) (Some m)"
  show ?case
  proof (cases "?c \<ge> t")
    case False
    with Cons.prems(1) have "weighted_pick en fo is ns m now t ?c ev = (r, ns', ev')"
      by (simp add: Let_def)
    from Cons.IH [OF this Cons.prems(2)] Cons.prems(3) show ?thesis by simp
  next
    case True
    obtain ok p ev2 where a: "admit_node en fo m now (ns ! i) ev = (ok, p, ev2)"
      by (metis prod_cases3)
    have i: "i < length ns" and "pn_wf L (ns ! i)" using Cons.prems(2,3) by simp_all
    then have node: "pn_node p = pn_node (ns ! i)" using admit_node_id [OF a] by blast
    note acq = admit_node_acquired [OF a i Cons.prems(2)]
    show ?thesis
    proof (cases ok)
      case True
      with \<open>?c \<ge> t\<close> a Cons.prems(1) acq node Cons.prems(3) show ?thesis by (auto simp: Let_def)
    next
      case False
      with \<open>?c \<ge> t\<close> a Cons.prems(1)
      have rest: "weighted_pick en fo is (ns[i := p]) m now t ?c ev2 = (r, ns', ev')"
        by (simp add: Let_def)
      from acq False have q: "quiet_list L ns (ns[i := p])" by (simp add: acquired_def)
      have "\<forall>j \<in> set is. j < length (ns[i := p]) \<and> pn_id (ns[i := p] ! j) \<notin> set ex"
        using Cons.prems(3) node by (auto simp: nth_list_update)
      from Cons.IH [OF rest quiet_list_wf [OF q Cons.prems(2)] this] show ?thesis
        using acquired_trans [OF q] by blast
    qed
  qed
qed

lemma cooldown_sweep_quiet:
  assumes "filter (\<lambda>i. eligible m now ex (ns ! i)) [0..<length ns] = []"
  shows "quiet_list L ns (map (\<lambda>p. if pn_id p \<in> set ex then p else snd (try_admit m now p)) ns)"
proof -
  have "quiet L p (if pn_id p \<in> set ex then p else snd (try_admit m now p))" if "p \<in> set ns" for p
  proof -
    from that obtain i where "i < length ns" "ns ! i = p" by (auto simp: in_set_conv_nth)
    with assms have "\<not> eligible m now ex p" by (auto simp: filter_empty_conv)
    then show ?thesis
      using try_admit_quiet [of m now p L] by (auto simp: eligible_def try_admit_True_iff)
  qed
  then show ?thesis by (auto simp: list_all2_conv_all_nth)
qed

lemma acquire_from_shard_acquired:
  assumes "acquire_from_shard en fo ns m now ex ev = (r, ns', ev')" and wf: "all_wf L ns"
  shows "acquired L r ns ns' \<and> (\<forall>n. r = Some n \<longrightarrow> nr_id n \<notin> set ex)"
proof (cases "ns = []")
  case True
  with assms(1) show ?thesis by (simp add: acquire_from_shard_def acquired_def)
next
  case False
  obtain r1 ns1 ev1 where s: "try_sampled_acquire en fo ns m now ex ev = (r1, ns1, ev1)"
    by (metis prod_cases3)
  note s1 = try_sampled_acquire_acquired [OF s wf]
  show ?thesis
  proof (cases r1)
    case (Some n)
    with assms(1) s s1 False show ?thesis by (auto simp: acquire_from_shard_def)
  next
    case None
    with s1(1) have q: "quiet_list L ns ns1" by (simp add: acquired_def)
    have wf1: "all_wf L ns1" by (rule quiet_list_wf [OF q wf])
    let ?el = "filter (\<lambda>i. eligible m now ex (ns1 ! i)) [0..<length ns1]"
    let ?total = "sum_list (map (\<lambda>i. score_for now (ns1 ! i) (Some m)) ?el)"
    consider (none) "?el = []" | (zero) "?el \<noteq> []" "?total \<le> 0" | (pick) "?el \<noteq> []" "\<not> ?total \<le> 0"
      by blast
    then have "acquired L r ns1 ns' \<and> (\<forall>n. r = Some n \<longrightarrow> nr_id n \<notin> set ex)"
    proof cases
      case none
      with assms(1) s None False cooldown_sweep_quiet [OF none, of L] show ?thesis
        by (auto simp: acquire_from_shard_def Let_def acquired_def)
    next
      case zero
      with assms(1) s None False show ?thesis
        by (auto simp: acquire_from_shard_def Let_def acquired_def)
    next
      case pick
      obtain x ev2 where x: "next_f64 ev1 = (x, ev2)" by fastforce
      from assms(1) s None False pick x
      have "weighted_pick en fo ?el ns1 m now (x * ?total) 0 ev2 = (r, ns', ev')"
        by (simp add: acquire_from_shard_def Let_def)
      then show ?thesis
        by (rule weighted_pick_acquired [OF _ wf1]) (auto simp: eligible_def)
    qed
    with acquired_trans [OF q] show ?thesis by blast
  qed
qed

end
