(* ===== verification/DispatchInvariant.thy ===== *)
theory DispatchInvariant
  imports DispatchCorrect
begin

text \<open>
  The dispatch pool as a whole: its invariant \<open>dp_wf\<close> (every node in the shard its id
  hashes to, once, with a well-formed budget), the effect of every acquisition path on it,
  the contract of the \<open>Pool\<close> trait (the interpretation \<open>dispatch\<close>) and the properties of
  selection: exclusion, conservation of leases, completeness, affinity.
\<close>

section \<open>The invariant\<close>

definition dp_nodes :: "dispatch_pool \<Rightarrow> pool_node list" where
  "dp_nodes P = concat (dp_shards P)"

definition dp_ids :: "dispatch_pool \<Rightarrow> node_id set" where
  "dp_ids P = pn_id ` set (dp_nodes P)"

definition dp_leases :: "dispatch_pool \<Rightarrow> nat" where
  "dp_leases P = sum_list (map pn_active_leases (dp_nodes P))"

definition shards_wf :: "node_budget_limits \<Rightarrow> pool_node list list \<Rightarrow> bool" where
  "shards_wf L S \<longleftrightarrow>
     (\<forall>k < length S. distinct (map pn_id (S ! k)) \<and>
        (\<forall>p \<in> set (S ! k). shard_index_for_id (length S) (pn_id p) = k \<and> pn_wf L p))"

definition dp_wf :: "dispatch_pool \<Rightarrow> bool" where
  "dp_wf P \<longleftrightarrow>
     aimd_wf (dp_aimd P) \<and> 1 \<le> length (dp_shards P) \<and> length (dp_shards P) \<le> 128 \<and>
     shards_wf (dp_budget_limits P) (dp_shards P)"

lemma dp_wf_new:
  "aimd_wf A \<Longrightarrow> dp_wf (DispatchPool_new_with_options now L A n)"
  by (auto simp: dp_wf_def shards_wf_def DispatchPool_new_with_options_def clamp_def)

lemma shard_index_less: "0 < n \<Longrightarrow> shard_index_for_id n i < n"
  by (simp add: shard_index_for_id_def max_absorb1)

lemma shard_of_less: "dp_wf P \<Longrightarrow> shard_of P i < length (dp_shards P)"
  by (rule shard_index_less) (auto simp: dp_wf_def)

lemma set_shard_simps [simp]:
  "dp_shards (set_shard k ns P) = (dp_shards P)[k := ns]"
  "dp_budget_limits (set_shard k ns P) = dp_budget_limits P"
  "dp_aimd (set_shard k ns P) = dp_aimd P"
  "dp_affinity (set_shard k ns P) = dp_affinity P"
  "dp_global_budget (set_shard k ns P) = dp_global_budget P"
  "dp_global_fail_open (set_shard k ns P) = dp_global_fail_open P"
  by (simp_all add: set_shard_def)

lemma set_dp_nodes: "p \<in> set (dp_nodes P) \<longleftrightarrow> (\<exists>k < length (dp_shards P). p \<in> set (dp_shards P ! k))"
  unfolding dp_nodes_def by (auto simp: in_set_conv_nth) (metis nth_mem)+

lemma all_wf_shard: "dp_wf P \<Longrightarrow> k < length (dp_shards P) \<Longrightarrow> all_wf (dp_budget_limits P) (dp_shards P ! k)"
  by (simp add: dp_wf_def shards_wf_def)

lemma all_wf_nodes: "dp_wf P \<Longrightarrow> p \<in> set (dp_nodes P) \<Longrightarrow> pn_wf (dp_budget_limits P) p"
  by (auto simp: set_dp_nodes dest: all_wf_shard)

text \<open>A node is found by its id in its own shard.\<close>

lemma dp_node_in_shard: "dp_wf P \<Longrightarrow> p \<in> set (dp_nodes P) \<Longrightarrow> p \<in> set (dp_shards P ! shard_of P (pn_id p))"
  by (auto simp: set_dp_nodes dp_wf_def shards_wf_def)

lemma dp_nodes_unique:
  assumes "dp_wf P" and "p \<in> set (dp_nodes P)" and "q \<in> set (dp_nodes P)" and "pn_id p = pn_id q"
  shows "p = q"
proof -
  from dp_node_in_shard [OF assms(1,2)] dp_node_in_shard [OF assms(1,3)] assms(4)
  have "p \<in> set (dp_shards P ! shard_of P (pn_id p))" "q \<in> set (dp_shards P ! shard_of P (pn_id p))"
    by simp_all
  moreover from assms(1) shard_of_less [OF assms(1)]
  have "inj_on pn_id (set (dp_shards P ! shard_of P (pn_id p)))"
    by (simp add: dp_wf_def shards_wf_def distinct_map)
  ultimately show ?thesis using assms(4) by (auto dest: inj_onD)
qed

lemma same_nodes_ids:
  assumes "map pn_node xs = map pn_node ys"
  shows "map pn_id xs = map pn_id ys" and "pn_id ` set xs = pn_id ` set ys"
proof -
  show m: "map pn_id xs = map pn_id ys"
    using arg_cong [OF assms, of "map nr_id"] by (simp add: comp_def)
  show "pn_id ` set xs = pn_id ` set ys"
    using arg_cong [OF m, of set] by simp
qed

text \<open>Replacing one shard by one with the same nodes in the same places.\<close>

lemma dp_wf_set_shard:
  assumes "dp_wf P" and k: "k < length (dp_shards P)"
    and "distinct (map pn_id ns)" and "all_wf (dp_budget_limits P) ns"
    and "\<forall>p \<in> set ns. shard_of P (pn_id p) = k"
  shows "dp_wf (set_shard k ns P)"
  using assms by (simp add: dp_wf_def shards_wf_def nth_list_update)

lemma dp_wf_set_shard_same:
  assumes P: "dp_wf P" and k: "k < length (dp_shards P)"
    and same: "map pn_node ns = map pn_node (dp_shards P ! k)"
    and wf: "all_wf (dp_budget_limits P) ns"
  shows "dp_wf (set_shard k ns P)"
proof (rule dp_wf_set_shard [OF P k _ wf])
  note m = same_nodes_ids [OF same]
  then show "distinct (map pn_id ns)" using P k by (simp add: dp_wf_def shards_wf_def)
  note m(2)
  moreover have "\<forall>i \<in> pn_id ` set (dp_shards P ! k). shard_of P i = k"
    using P k by (auto simp: dp_wf_def shards_wf_def)
  ultimately show "\<forall>p \<in> set ns. shard_of P (pn_id p) = k" by blast
qed

section \<open>Steps of the pool\<close>

text \<open>
  \<open>dp_step r P P'\<close>: an acquisition took the pool from \<open>P\<close> to \<open>P'\<close> and returned \<open>r\<close>.
\<close>

definition dp_step :: "node_ref option \<Rightarrow> dispatch_pool \<Rightarrow> dispatch_pool \<Rightarrow> bool" where
  "dp_step r P P' \<longleftrightarrow>
     P' = P\<lparr>dp_shards := dp_shards P'\<rparr> \<and> dp_wf P' \<and>
     length (dp_shards P') = length (dp_shards P) \<and>
     acquired (dp_budget_limits P) r (dp_nodes P) (dp_nodes P')"

lemma dp_step_frame:
  assumes "dp_step r P P'"
  shows "dp_budget_limits P' = dp_budget_limits P" and "dp_aimd P' = dp_aimd P"
    and "dp_affinity P' = dp_affinity P" and "dp_global_budget P' = dp_global_budget P"
    and "dp_global_fail_open P' = dp_global_fail_open P"
    and "length (dp_shards P') = length (dp_shards P)" and "dp_wf P'"
proof -
  from assms have P': "P' = P\<lparr>dp_shards := dp_shards P'\<rparr>" and wf: "dp_wf P'"
    and len: "length (dp_shards P') = length (dp_shards P)" by (simp_all only: dp_step_def)
  show "dp_budget_limits P' = dp_budget_limits P" by (subst P') simp
  show "dp_aimd P' = dp_aimd P" by (subst P') simp
  show "dp_affinity P' = dp_affinity P" by (subst P') simp
  show "dp_global_budget P' = dp_global_budget P" by (subst P') simp
  show "dp_global_fail_open P' = dp_global_fail_open P" by (subst P') simp
  show "length (dp_shards P') = length (dp_shards P)" by (fact len)
  show "dp_wf P'" by (fact wf)
qed

lemma dp_step_refl: "dp_wf P \<Longrightarrow> dp_step None P P"
  by (simp add: dp_step_def acquired_def)

lemma dp_step_trans:
  assumes "dp_step None P Q" and "dp_step r Q R"
  shows "dp_step r P R"
proof -
  note f = dp_step_frame [OF assms(1)]
  from assms have "Q = P\<lparr>dp_shards := dp_shards Q\<rparr>" and R: "R = Q\<lparr>dp_shards := dp_shards R\<rparr>"
    by (simp_all only: dp_step_def)
  then have "R = P\<lparr>dp_shards := dp_shards R\<rparr>"
    by (metis dispatch_pool.surjective dispatch_pool.update_convs(1))
  moreover from assms f have "acquired (dp_budget_limits P) r (dp_nodes P) (dp_nodes R)"
    by (simp add: dp_step_def acquired_def [of _ None]) (blast intro: acquired_trans)
  ultimately show ?thesis using assms f(6) by (simp add: dp_step_def)
qed

lemma quiet_concat_update:
  assumes "k < length S" and "acquired L r (S ! k) ns"
  shows "acquired L r (concat S) (concat (S[k := ns]))"
proof -
  have c: "concat S = concat (take k S) @ S ! k @ concat (drop (Suc k) S)"
    using id_take_nth_drop [OF assms(1)] by (metis concat.simps(2) concat_append)
  have d: "concat (S[k := ns]) = concat (take k S) @ ns @ concat (drop (Suc k) S)"
    using assms(1) by (simp add: upd_conv_take_nth_drop)
  show ?thesis
  proof (cases r)
    case None
    with assms(2) show ?thesis
      unfolding c d by (simp add: acquired_def list_all2_appendI)
  next
    case (Some n)
    with assms(2) show ?thesis
      unfolding c d by (simp add: acquired_def granted_append1 granted_append2)
  qed
qed

lemma dp_step_set_shard:
  assumes P: "dp_wf P" and k: "k < length (dp_shards P)"
    and a: "acquired (dp_budget_limits P) r (dp_shards P ! k) ns"
  shows "dp_step r P (set_shard k ns P)"
proof -
  have "dp_wf (set_shard k ns P)"
    using dp_wf_set_shard_same [OF P k acquired_nodes [OF a]]
      acquired_wf [OF a] all_wf_shard [OF P k] by blast
  moreover have "acquired (dp_budget_limits P) r (dp_nodes P) (dp_nodes (set_shard k ns P))"
    using quiet_concat_update [OF k a] by (simp add: dp_nodes_def)
  moreover have "set_shard k ns P = P\<lparr>dp_shards := (dp_shards P)[k := ns]\<rparr>"
    by (simp add: set_shard_def)
  ultimately show ?thesis by (simp add: dp_step_def)
qed

section \<open>Every acquisition path is a step\<close>

lemma find_idx_Some:
  "find_idx f xs = Some j \<Longrightarrow> j < length xs \<and> f (xs ! j)"
  by (induction xs arbitrary: j) (auto split: if_splits)

lemma find_idx_None: "find_idx f xs = None \<longleftrightarrow> (\<forall>x \<in> set xs. \<not> f x)"
  by (induction xs) auto

lemma try_acquire_sticky_step:
  assumes "try_acquire_sticky P m i now ev = (r, P', ev')" and P: "dp_wf P"
  shows "dp_step (case r of Inl _ \<Rightarrow> None | Inr n \<Rightarrow> Some n) P P' \<and> (\<forall>n. r = Inr n \<longrightarrow> nr_id n = i)"
proof (cases "request_exceeds_single_node_budget P m")
  case True
  with assms show ?thesis by (auto simp: try_acquire_sticky_def dp_step_refl)
next
  case False
  let ?k = "shard_of P i" and ?L = "dp_budget_limits P"
  have k: "?k < length (dp_shards P)" by (rule shard_of_less [OF P])
  show ?thesis
  proof (cases "find_idx (\<lambda>p. pn_id p = i) (dp_shards P ! ?k)")
    case None
    with assms False show ?thesis by (auto simp: try_acquire_sticky_def dp_step_refl)
  next
    case (Some j)
    from find_idx_Some [OF this]
    have j: "j < length (dp_shards P ! ?k)" and id: "pn_id (dp_shards P ! ?k ! j) = i" by simp_all
    obtain ok p ev1 where a: "admit_node (dp_global_budget P) (dp_global_fail_open P) m now
        (dp_shards P ! ?k ! j) ev = (ok, p, ev1)" by (metis prod_cases3)
    have "pn_wf ?L (dp_shards P ! ?k ! j)" using all_wf_shard [OF P k] j by simp
    from admit_node_id [OF a this] id have "pn_id p = i" by simp
    moreover from assms(1) a Some False
    have "r = (if ok then Inr (pn_node p) else Inl NoResource)" "P' = set_shard ?k ((dp_shards P ! ?k)[j := p]) P"
      by (auto simp: try_acquire_sticky_def Let_def)
    moreover note dp_step_set_shard [OF P k admit_node_acquired [OF a j all_wf_shard [OF P k]]]
    ultimately show ?thesis by auto
  qed
qed

lemma sticky_first_step:
  "sticky_first is P m now ev = (r, P', ev') \<Longrightarrow> dp_wf P \<Longrightarrow>
     dp_step r P P' \<and> (\<forall>n. r = Some n \<longrightarrow> nr_id n \<in> set is)"
proof (induction "is" arbitrary: P ev)
  case Nil
  then show ?case by (simp add: dp_step_refl)
next
  case (Cons i "is")
  obtain q Q ev1 where s: "try_acquire_sticky P m i now ev = (q, Q, ev1)" by (metis prod_cases3)
  note t = try_acquire_sticky_step [OF s Cons.prems(2)]
  show ?case
  proof (cases q)
    case (Inr n)
    with Cons.prems(1) s t show ?thesis by auto
  next
    case (Inl e)
    with t have q: "dp_step None P Q" by simp
    from Inl Cons.prems(1) s have "sticky_first is Q m now ev1 = (r, P', ev')" by simp
    from Cons.IH [OF this dp_step_frame(7) [OF q]] show ?thesis using dp_step_trans [OF q] by auto
  qed
qed

lemma acquire_scan_step:
  "acquire_scan ks P m now ex ev = (r, P', ev') \<Longrightarrow> dp_wf P \<Longrightarrow>
     \<forall>k \<in> set ks. k < length (dp_shards P) \<Longrightarrow>
     dp_step r P P' \<and> (\<forall>n. r = Some n \<longrightarrow> nr_id n \<notin> set ex)"
proof (induction ks arbitrary: P ev)
  case Nil
  then show ?case by (simp add: dp_step_refl)
next
  case (Cons k ks)
  from Cons.prems(3) have k: "k < length (dp_shards P)" by simp
  obtain q ns ev1 where s: "acquire_from_shard (dp_global_budget P) (dp_global_fail_open P)
      (dp_shards P ! k) m now ex ev = (q, ns, ev1)" by (metis prod_cases3)
  from acquire_from_shard_acquired [OF s all_wf_shard [OF Cons.prems(2) k]]
  have a: "acquired (dp_budget_limits P) q (dp_shards P ! k) ns"
    and x: "\<forall>n. q = Some n \<longrightarrow> nr_id n \<notin> set ex" by simp_all
  note t = dp_step_set_shard [OF Cons.prems(2) k a]
  show ?case
  proof (cases q)
    case (Some n)
    with Cons.prems(1) s t x show ?thesis by simp
  next
    case None
    with t have q: "dp_step None P (set_shard k ns P)" by simp
    from None Cons.prems(1) s have r: "acquire_scan ks (set_shard k ns P) m now ex ev1 = (r, P', ev')"
      by simp
    have "\<forall>k' \<in> set ks. k' < length (dp_shards (set_shard k ns P))" using Cons.prems(3) by simp
    from Cons.IH [OF r dp_step_frame(7) [OF q] this] show ?thesis using dp_step_trans [OF q] by blast
  qed
qed

lemma global_candidates_ids:
  "(s, i) \<in> set (global_candidates P m now ex) \<Longrightarrow>
     \<exists>p \<in> set (dp_nodes P). pn_id p = i \<and> eligible m now ex p"
  by (auto simp: global_candidates_def dp_nodes_def)

lemma global_candidates_not_excluded:
  "\<forall>i \<in> snd ` set (global_candidates P m now ex). i \<notin> set ex"
  by (auto simp: global_candidates_def eligible_def)

lemma acquire_best_global_step:
  assumes "acquire_best_global P m now ex ev = (r, P', ev')" and "dp_wf P"
  shows "dp_step r P P' \<and> (\<forall>n. r = Some n \<longrightarrow> nr_id n \<notin> set ex)"
proof -
  let ?is = "map snd (take 8 (sort_key (\<lambda>c. - fst c) (global_candidates P m now ex)))"
  have "set ?is \<subseteq> snd ` set (global_candidates P m now ex)"
    using set_take_subset [of 8 "sort_key (\<lambda>c. - fst c) (global_candidates P m now ex)"] by auto
  then have "\<forall>i \<in> set ?is. i \<notin> set ex"
    using global_candidates_not_excluded [of P m now ex] by blast
  moreover from assms have "sticky_first ?is P m now ev = (r, P', ev')"
    by (simp add: acquire_best_global_def Let_def)
  ultimately show ?thesis using sticky_first_step [of ?is] assms(2) by blast
qed

lemma acquire_for_excluding_step:
  assumes "acquire_for_excluding P m ex now ev = (r, P', ev')" and P: "dp_wf P"
  shows "dp_step r P P' \<and> (\<forall>n. r = Some n \<longrightarrow> nr_id n \<notin> set ex)"
proof (cases "request_exceeds_single_node_budget P m")
  case True
  with assms show ?thesis by (simp add: acquire_for_excluding_def dp_step_refl)
next
  case False
  let ?n = "length (dp_shards P)"
  obtain start ev1 where d: "next_usize ?n ev = (start, ev1)" by fastforce
  let ?ks = "map (\<lambda>offset. (start + offset) mod ?n) [0..<?n]"
  obtain q Q ev2 where s: "acquire_scan ?ks P m now ex ev1 = (q, Q, ev2)" by (metis prod_cases3)
  from P have "0 < ?n" by (auto simp: dp_wf_def)
  then have "\<forall>k \<in> set ?ks. k < ?n" by simp
  note t = acquire_scan_step [OF s P this]
  show ?thesis
  proof (cases q)
    case (Some n)
    with assms(1) d s False t show ?thesis by (simp add: acquire_for_excluding_def Let_def)
  next
    case None
    with t have q: "dp_step None P Q" by simp
    from None assms(1) d s False have "acquire_best_global Q m now ex ev2 = (r, P', ev')"
      by (simp add: acquire_for_excluding_def Let_def)
    from acquire_best_global_step [OF this dp_step_frame(7) [OF q]]
    show ?thesis using dp_step_trans [OF q] by blast
  qed
qed

lemma try_acquire_affinity_step:
  assumes "try_acquire_affinity_excluding P m ex now ev = (r, P', ev')" and P: "dp_wf P"
  shows "dp_step (case r of Inl _ \<Rightarrow> None | Inr (n, i) \<Rightarrow> Some n) P P' \<and>
         (\<forall>n i. r = Inr (n, i) \<longrightarrow> i = nr_id n \<and> i \<notin> set ex)"
proof (cases "rm_affinity_key m = [] \<or> request_exceeds_single_node_budget P m")
  case True
  with assms show ?thesis by (auto simp: try_acquire_affinity_excluding_def dp_step_refl)
next
  case False
  let ?c = "filter (\<lambda>i. i \<notin> set ex)
    (case map_of (dp_affinity P) (rm_affinity_key m) of None \<Rightarrow> [] | Some is \<Rightarrow> is)"
  obtain q Q ev1 where s: "sticky_first ?c P m now ev = (q, Q, ev1)" by (metis prod_cases3)
  with assms(1) False have "r = (case q of Some n \<Rightarrow> Inr (n, nr_id n) | None \<Rightarrow> Inl NoResource)"
    and "P' = Q"
    by (auto simp: try_acquire_affinity_excluding_def Let_def split: prod.splits)
  with sticky_first_step [OF s P] show ?thesis by (auto split: option.splits)
qed

section \<open>Membership: the contract of the Pool trait\<close>

lemma update_first_nodes:
  assumes "\<And>p. pn_node (g p) = pn_node p"
  shows "map pn_node (update_first f g ns) = map pn_node ns"
  by (induction ns) (simp_all add: assms)

lemma update_first_wf:
  "(\<And>p. pn_wf L p \<Longrightarrow> pn_wf L (g p)) \<Longrightarrow> all_wf L ns \<Longrightarrow> all_wf L (update_first f g ns)"
  by (induction ns) auto

lemma dp_ids_shards: "dp_ids P = (\<Union>k < length (dp_shards P). pn_id ` set (dp_shards P ! k))"
proof -
  have "set S = (!) S ` {..<length S}" for S :: "pool_node list list"
    by (auto simp: in_set_conv_nth)
  then show ?thesis by (simp add: dp_ids_def dp_nodes_def image_UN)
qed

lemma replace_part: "D = A \<union> R \<Longrightarrow> D' = B \<union> R \<Longrightarrow> A \<inter> R = {} \<Longrightarrow> D' = (D - A) \<union> B"
  by blast

lemma dp_ids_set_shard:
  assumes P: "dp_wf P" and k: "k < length (dp_shards P)"
  shows "dp_ids (set_shard k ns P) =
           (dp_ids P - pn_id ` set (dp_shards P ! k)) \<union> pn_id ` set ns"
proof -
  let ?n = "length (dp_shards P)" and ?U = "\<lambda>j. pn_id ` set (dp_shards P ! j)"
  let ?R = "\<Union>j \<in> {..<?n} - {k}. ?U j"
  from P have own: "\<forall>j < ?n. \<forall>p \<in> set (dp_shards P ! j). shard_of P (pn_id p) = j"
    by (simp add: dp_wf_def shards_wf_def)
  have disj: "?U k \<inter> ?R = {}"
  proof -
    have "i \<notin> ?R" if "i \<in> ?U k" for i
    proof
      assume "i \<in> ?R"
      then obtain j where j: "j \<in> {..<?n} - {k}" and "i \<in> ?U j" by (rule UN_E)
      then obtain p where p: "p \<in> set (dp_shards P ! j)" "i = pn_id p" by (elim imageE)
      from that obtain q where q: "q \<in> set (dp_shards P ! k)" "i = pn_id q" by (elim imageE)
      have "shard_of P i = j" unfolding p(2) by (rule own [rule_format]) (use j p in simp_all)
      moreover have "shard_of P i = k" unfolding q(2) by (rule own [rule_format]) (use k q in simp_all)
      ultimately show False using j by simp
    qed
    then show ?thesis by blast
  qed
  have split: "{..<?n} = insert k ({..<?n} - {k})" using k by auto
  have "dp_ids P = ?U k \<union> ?R"
    unfolding dp_ids_shards by (subst split) (simp only: UN_insert)
  moreover have "dp_ids (set_shard k ns P) = pn_id ` set ns \<union> ?R"
  proof -
    have "(\<Union>j \<in> {..<?n} - {k}. pn_id ` set ((dp_shards P)[k := ns] ! j)) = ?R"
      by (rule SUP_cong) simp_all
    then show ?thesis
      unfolding dp_ids_shards set_shard_simps length_list_update
      by (subst split) (simp only: UN_insert nth_list_update_eq [OF k])
  qed
  ultimately show ?thesis using disj by (rule replace_part)
qed

lemma update_node_wf:
  assumes P: "dp_wf P" and "\<And>p. pn_node (g p) = pn_node p"
    and g: "\<And>p. pn_wf (dp_budget_limits P) p \<Longrightarrow> pn_wf (dp_budget_limits P) (g p)"
  shows "dp_wf (update_node i g P) \<and> dp_ids (update_node i g P) = dp_ids P"
proof -
  let ?k = "shard_of P i"
  let ?ns = "update_first (\<lambda>p. pn_id p = i) g (dp_shards P ! ?k)"
  note k = shard_of_less [OF P, of i]
  have m: "map pn_node ?ns = map pn_node (dp_shards P ! ?k)" by (rule update_first_nodes [OF assms(2)])
  note same_nodes_ids(2) [OF m]
  moreover have "pn_id ` set (dp_shards P ! ?k) \<subseteq> dp_ids P"
    using k by (auto simp: dp_ids_shards)
  ultimately show ?thesis
    using dp_wf_set_shard_same [OF P k m update_first_wf [OF g all_wf_shard [OF P k]]]
      dp_ids_set_shard [OF P k, of ?ns]
    by (auto simp: update_node_def Let_def)
qed

lemma dp_remove_correct:
  assumes P: "dp_wf P"
  shows "dp_wf (dp_remove i P) \<and> dp_ids (dp_remove i P) = dp_ids P - {i}"
proof -
  let ?k = "shard_of P i"
  let ?ns = "filter (\<lambda>p. pn_id p \<noteq> i) (dp_shards P ! ?k)"
  note k = shard_of_less [OF P, of i]
  have d: "distinct (map pn_id ?ns)" and s: "\<forall>p \<in> set ?ns. shard_of P (pn_id p) = ?k"
    using P k by (auto simp: dp_wf_def shards_wf_def distinct_map_filter)
  have "all_wf (dp_budget_limits P) ?ns" using all_wf_shard [OF P k] by simp
  then have "dp_wf (set_shard ?k ?ns P)" by (rule dp_wf_set_shard [OF P k d _ s])
  moreover have "pn_id ` set (dp_shards P ! ?k) \<subseteq> dp_ids P"
    using k by (auto simp: dp_ids_shards)
  moreover have "i \<in> dp_ids P \<Longrightarrow> i \<in> pn_id ` set (dp_shards P ! ?k)"
    using dp_node_in_shard [OF P] by (auto simp: dp_ids_def)
  ultimately show ?thesis using dp_ids_set_shard [OF P k, of ?ns]
    by (auto simp: dp_remove_def Let_def)
qed

lemma PoolNode_new_id [simp]: "pn_id (PoolNode_new now n L A) = nr_id n"
  by (simp add: PoolNode_new_def)

lemma dp_add_correct:
  assumes P: "dp_wf P"
  shows "dp_wf (dp_add now n P) \<and> dp_ids (dp_add now n P) = insert (nr_id n) (dp_ids P)"
proof -
  let ?k = "shard_of P (nr_id n)"
  let ?new = "PoolNode_new now n (dp_budget_limits P) (dp_aimd P)"
  let ?ns = "dp_shards P ! ?k @ [?new]"
  note k = shard_of_less [OF P, of "nr_id n"]
  have sub: "pn_id ` set (dp_shards P ! ?k) \<subseteq> dp_ids P" using k by (auto simp: dp_ids_shards)
  show ?thesis
  proof (cases "nr_id n \<in> pn_id ` set (dp_shards P ! ?k)")
    case True
    then have "dp_add now n P = P" by (auto simp: dp_add_def Let_def)
    with P True sub show ?thesis by auto
  next
    case False
    then have "\<not> (\<exists>p \<in> set (dp_shards P ! ?k). pn_id p = nr_id n)" by (metis imageI)
    then have new: "dp_add now n P = set_shard ?k ?ns P" by (simp only: dp_add_def Let_def if_False)
    have d: "distinct (map pn_id ?ns)" and s: "\<forall>p \<in> set ?ns. shard_of P (pn_id p) = ?k"
      using P k False by (auto simp: dp_wf_def shards_wf_def)
    have "pn_wf (dp_budget_limits P) ?new" using P by (intro PoolNode_new_wf) (simp add: dp_wf_def)
    then have "all_wf (dp_budget_limits P) ?ns" using all_wf_shard [OF P k] by auto
    from dp_wf_set_shard [OF P k d this s] dp_ids_set_shard [OF P k, of ?ns] sub show ?thesis
      unfolding new by auto
  qed
qed

lemma dp_release_correct:
  assumes P: "dp_wf P"
  shows "dp_wf (dp_release_with_latency i r l now P) \<and>
         dp_ids (dp_release_with_latency i r l now P) = dp_ids P"
  unfolding dp_release_with_latency_def
  by (rule update_node_wf [OF P])
    (use P in \<open>simp_all add: dp_wf_def release_node_wf\<close>)

lemma dp_hints_correct:
  assumes P: "dp_wf P"
  shows "dp_wf (dp_record_latency_hint i l P) \<and> dp_ids (dp_record_latency_hint i l P) = dp_ids P"
    and "dp_wf (dp_record_bucket_latency_hint i b l P) \<and>
         dp_ids (dp_record_bucket_latency_hint i b l P) = dp_ids P"
    and "dp_wf (dp_record_affinity_success k i P) \<and> dp_ids (dp_record_affinity_success k i P) = dp_ids P"
  unfolding dp_record_latency_hint_def dp_record_bucket_latency_hint_def
  by (rule update_node_wf [OF P]; simp add: latency_ops_wf)+
    (use P in \<open>simp add: dp_record_affinity_success_def Let_def dp_wf_def dp_ids_def dp_nodes_def\<close>)

interpretation dispatch: node_pool dp_ids dp_wf "dp_add now" dp_remove "dp_release now"
  for now
  by unfold_locales
    (simp_all add: dp_add_correct dp_remove_correct dp_release_correct dp_release_def)

lemma dp_step_ids:
  assumes "dp_step r P P'"
  shows "dp_ids P' = dp_ids P"
proof -
  from assms have "map pn_node (dp_nodes P') = map pn_node (dp_nodes P)"
    using acquired_nodes by (auto simp: dp_step_def)
  from same_nodes_ids(2) [OF this] show ?thesis by (simp only: dp_ids_def)
qed

lemma dp_step_leases: "dp_step r P P' \<Longrightarrow> dp_leases P' = dp_leases P + (if r = None then 0 else 1)"
  using acquired_leases by (auto simp: dp_step_def dp_leases_def)

lemma dp_step_granted:
  "dp_step (Some n) P P' \<Longrightarrow>
     \<exists>p \<in> set (dp_nodes P). pn_node p = n \<and> pn_active_leases p < pn_max_concurrent p"
  by (auto simp: dp_step_def acquired_def dest: granted_member)

lemma dp_step_leased:
  assumes "dp_step (Some n) P P'"
  shows "\<exists>q \<in> set (dp_nodes P'). pn_node q = n \<and> 0 < pn_active_leases q"
proof -
  from assms have "granted (dp_budget_limits P) n (dp_nodes P) (dp_nodes P')"
    by (simp add: dp_step_def acquired_def)
  then obtain xs p ys xs' q ys' where "dp_nodes P' = xs' @ q # ys'" "grants (dp_budget_limits P) n p q"
    by (rule grantedE)
  then have "q \<in> set (dp_nodes P')" "pn_node q = n" "0 < pn_active_leases q"
    by (simp_all add: grants_def)
  then show ?thesis by blast
qed

text \<open>Releasing a lease of a node of the pool lowers the pool's leases by one.\<close>

lemma update_first_leases:
  assumes "distinct (map pn_id ns)" and "p \<in> set ns" and "pn_active_leases (g p) = pn_active_leases p - 1"
    and "0 < pn_active_leases p"
  shows "Suc (sum_list (map pn_active_leases (update_first (\<lambda>q. pn_id q = pn_id p) g ns))) =
           sum_list (map pn_active_leases ns)"
  using assms(1,2)
proof (induction ns)
  case (Cons q ns)
  show ?case
  proof (cases "q = p")
    case True
    then show ?thesis using assms(3,4) by simp
  next
    case False
    with Cons.prems have "p \<in> set ns" "pn_id q \<noteq> pn_id p" by auto
    with Cons show ?thesis by simp
  qed
qed simp

lemma dp_release_leases:
  assumes P: "dp_wf P" and p: "p \<in> set (dp_nodes P)" "0 < pn_active_leases p"
  shows "Suc (dp_leases (dp_release_with_latency (pn_id p) r l now P)) = dp_leases P"
proof -
  let ?k = "shard_of P (pn_id p)"
  let ?S = "dp_shards P"
  let ?ns = "update_first (\<lambda>q. pn_id q = pn_id p) (release_node r l now (dp_aimd P)) (?S ! ?k)"
  note k = shard_of_less [OF P, of "pn_id p"]
  have "distinct (map pn_id (?S ! ?k))" using P k by (simp add: dp_wf_def shards_wf_def)
  from update_first_leases [OF this dp_node_in_shard [OF P p(1)] _ p(2)]
  have u: "Suc (sum_list (map pn_active_leases ?ns)) = sum_list (map pn_active_leases (?S ! ?k))"
    by simp
  have c: "concat ?S = concat (take ?k ?S) @ ?S ! ?k @ concat (drop (Suc ?k) ?S)"
    using id_take_nth_drop [OF k] by (metis concat.simps(2) concat_append)
  have "dp_leases (dp_release_with_latency (pn_id p) r l now P) =
      sum_list (map pn_active_leases (concat (take ?k ?S) @ ?ns @ concat (drop (Suc ?k) ?S)))"
    using k by (simp add: dp_leases_def dp_nodes_def dp_release_with_latency_def update_node_def
        Let_def upd_conv_take_nth_drop)
  moreover have "dp_leases P =
      sum_list (map pn_active_leases (concat (take ?k ?S) @ ?S ! ?k @ concat (drop (Suc ?k) ?S)))"
    unfolding dp_leases_def dp_nodes_def using c by simp
  ultimately show ?thesis using u by simp
qed

end
