(* ===== verification/DispatchSelection.thy ===== *)
theory DispatchSelection
  imports DispatchInvariant
begin

text \<open>
  The properties of node selection: what \<open>acquire_for_excluding\<close>, the sticky and the
  affinity path promise to the pool manager.  Without a shared budget selection is
  complete: it returns a node exactly when some node that is not excluded can admit the
  request, although it samples at random.
\<close>

section \<open>Selection without a shared budget finds every eligible node\<close>

lemma admit_node_eligible:
  assumes "eligible m now ex p"
  shows "\<exists>q. admit_node False fo m now p ev = (True, q, ev)"
proof -
  have "fst (try_admit m now p)" using assms by (simp add: eligible_def try_admit_True_iff)
  then obtain q where "try_admit m now p = (True, q)" by (metis prod.collapse)
  then show ?thesis by (simp add: admit_node_def global_admit_def)
qed

text \<open>A refused node stays refused: the sweep that stamps reasons opens no node.\<close>

lemma refused_stays_refused:
  assumes "\<not> fst (try_admit m now p)"
  shows "\<not> fst (try_admit m now (snd (try_admit m now p)))"
proof -
  have c: "can_admit (cooldown now r b) m now k l = Inr () \<Longrightarrow> can_admit b m now k l = Inr ()"
    if "r = ''max_calls'' \<and> sat_add 64 (nb_calls b) 1 > nb_max_calls b \<or>
        r = ''max_tokens'' \<and> sat_add 64 (nb_tokens b) (estimated_input_tokens m) > nb_max_tokens b \<or>
        r = ''max_kb'' \<and> sat_add 64 (nb_kb b) (request_kb m) > nb_max_kb b" for r b k l
    using that by (auto simp: can_admit_Inr_iff cooldown_def)
  have h: "can_admit (b\<lparr>nb_hit_reason := x\<rparr>) m now k l = can_admit b m now k l" for b x k l
    by (simp add: can_admit_def)
  let ?b = "clear_expired_cooldown now (pn_budget p)"
  obtain r where r: "can_admit ?b m now (pn_active_leases p) (pn_max_concurrent p) = Inl r"
    using assms by (cases "can_admit ?b m now (pn_active_leases p) (pn_max_concurrent p)")
      (simp_all add: try_admit_True_iff)
  show ?thesis
  proof (cases "r \<in> {''max_calls'', ''max_tokens'', ''max_kb''}")
    case True
    with r have "r = ''max_calls'' \<and> sat_add 64 (nb_calls ?b) 1 > nb_max_calls ?b \<or>
        r = ''max_tokens'' \<and> sat_add 64 (nb_tokens ?b) (estimated_input_tokens m) > nb_max_tokens ?b \<or>
        r = ''max_kb'' \<and> sat_add 64 (nb_kb ?b) (request_kb m) > nb_max_kb ?b"
      by (auto simp: can_admit_def split: if_splits)
    from c [OF this] r True show ?thesis
      by (auto simp: try_admit_True_iff) (auto simp: try_admit_def Let_def)
  next
    case False
    with r show ?thesis by (simp add: try_admit_True_iff) (simp add: try_admit_def Let_def h)
  qed
qed

abbreviation eligibles ::
  "request_meta \<Rightarrow> int \<Rightarrow> node_id list \<Rightarrow> pool_node list \<Rightarrow> pool_node list" where
  "eligibles m now ex ns \<equiv> filter (eligible m now ex) ns"

lemma try_sampled_acquire_eq:
  assumes "ns \<noteq> []" and "sample_best (min (length ns) 8) ns m now ex None ev = (best, ev1)"
  shows "try_sampled_acquire en fo ns m now ex ev =
           (case best of
              None \<Rightarrow> (None, ns, ev1)
            | Some (i, _) \<Rightarrow>
                (let (ok, p, ev) = admit_node en fo m now (ns ! i) ev1
                 in (if ok then Some (pn_node p) else None, ns[i := p], ev)))"
proof -
  have "min (length ns) 8 \<noteq> 0" using assms(1) by simp
  then show ?thesis
    unfolding try_sampled_acquire_def Let_def assms(2) by (simp only: if_False prod.case)
qed

lemma try_sampled_acquire_None:
  assumes "try_sampled_acquire False fo ns m now ex ev = (None, ns', ev')"
  shows "ns' = ns"
proof (cases "ns = []")
  case True
  with assms show ?thesis by (simp add: try_sampled_acquire_def)
next
  case False
  obtain best ev1 where b: "sample_best (min (length ns) 8) ns m now ex None ev = (best, ev1)"
    by fastforce
  note eq = try_sampled_acquire_eq [OF False b]
  show ?thesis
  proof (cases best)
    case None
    with assms eq show ?thesis by simp
  next
    case (Some c)
    obtain i s where c: "c = (i, s)" by fastforce
    from sample_best_index [OF b [unfolded Some c] False] have "eligible m now ex (ns ! i)" by simp
    from admit_node_eligible [OF this, of fo ev1] obtain q
      where "admit_node False fo m now (ns ! i) ev1 = (True, q, ev1)" by blast
    with assms eq Some c show ?thesis by simp
  qed
qed

lemma sample_best_None:
  "eligibles m now ex ns = [] \<Longrightarrow> ns \<noteq> [] \<Longrightarrow>
     fst (sample_best k ns m now ex None ev) = None"
proof (induction k arbitrary: ev)
  case (Suc k)
  obtain idx ev1 where d: "next_usize (length ns) ev = (idx, ev1)" by fastforce
  with Suc.prems(2) have "idx < length ns" using next_usize_less [of "length ns" ev] by simp
  with Suc.prems(1) have "\<not> eligible m now ex (ns ! idx)" by (simp add: filter_empty_conv)
  with Suc d show ?case by (simp add: Let_def)
qed simp

lemma weighted_pick_False:
  "weighted_pick False fo is ns m now t c ev = (r, ns', ev') \<Longrightarrow>
     \<forall>i \<in> set is. eligible m now ex (ns ! i) \<Longrightarrow> (r = None \<longrightarrow> ns' = ns) \<and> (r \<noteq> None \<longrightarrow> is \<noteq> [])"
proof (induction "is" arbitrary: c)
  case (Cons i "is")
  from Cons.prems(2) admit_node_eligible [of m now ex "ns ! i" fo ev] obtain q
    where "admit_node False fo m now (ns ! i) ev = (True, q, ev)" by auto
  with Cons.prems Cons.IH show ?case by (auto simp: Let_def split: if_splits)
qed simp

lemma eligibles_index: "eligibles m now ex ns = [] \<longleftrightarrow> filter (\<lambda>i. eligible m now ex (ns ! i)) [0..<length ns] = []"
  by (auto simp: filter_empty_conv all_set_conv_all_nth)

lemma acquire_from_shard_False:
  assumes "acquire_from_shard False fo ns m now ex ev = (r, ns', ev')"
  shows "(r = None \<longrightarrow> eligibles m now ex ns' = eligibles m now ex ns) \<and>
         (r \<noteq> None \<longrightarrow> eligibles m now ex ns \<noteq> [])"
proof (cases "ns = []")
  case True
  with assms show ?thesis by (simp add: acquire_from_shard_def)
next
  case False
  obtain r1 ns1 ev1 where s: "try_sampled_acquire False fo ns m now ex ev = (r1, ns1, ev1)"
    by (metis prod_cases3)
  show ?thesis
  proof (cases r1)
    case (Some n)
    have "eligibles m now ex ns \<noteq> []"
    proof
      assume e: "eligibles m now ex ns = []"
      obtain best ev2 where b: "sample_best (min (length ns) 8) ns m now ex None ev = (best, ev2)"
        by fastforce
      with sample_best_None [OF e False, of "min (length ns) 8" ev] have "best = None" by simp
      with try_sampled_acquire_eq [OF False b] s Some show False by simp
    qed
    with assms s Some False show ?thesis by (auto simp: acquire_from_shard_def)
  next
    case None
    with s have ns1: "ns1 = ns" using try_sampled_acquire_None by blast
    let ?el = "filter (\<lambda>i. eligible m now ex (ns ! i)) [0..<length ns]"
    let ?total = "sum_list (map (\<lambda>i. score_for now (ns ! i) (Some m)) ?el)"
    consider (none) "?el = []" | (zero) "?el \<noteq> []" "?total \<le> 0" | (pick) "?el \<noteq> []" "\<not> ?total \<le> 0"
      by blast
    then show ?thesis
    proof cases
      case none
      with assms s None False ns1
      have r: "r = None" and ns': "ns' = map (\<lambda>p. if pn_id p \<in> set ex then p else snd (try_admit m now p)) ns"
        by (simp_all add: acquire_from_shard_def Let_def)
      from none have e: "\<forall>p \<in> set ns. \<not> eligible m now ex p"
        unfolding eligibles_index [symmetric] by (simp add: filter_empty_conv)
      have "\<not> eligible m now ex (if pn_id p \<in> set ex then p else snd (try_admit m now p))"
        if "p \<in> set ns" for p
        using e that refused_stays_refused [of m now p]
        by (auto simp: eligible_def try_admit_True_iff)
      then have "eligibles m now ex ns' = []" unfolding ns' filter_empty_conv set_map by blast
      moreover from none have "eligibles m now ex ns = []" by (simp only: eligibles_index)
      ultimately show ?thesis using r by simp
    next
      case zero
      with assms s None False ns1 have "r = None" "ns' = ns"
        by (auto simp: acquire_from_shard_def Let_def)
      then show ?thesis by simp
    next
      case pick
      obtain x ev2 where x: "next_f64 ev1 = (x, ev2)" by fastforce
      from assms s None False pick x ns1
      have "weighted_pick False fo ?el ns m now (x * ?total) 0 ev2 = (r, ns', ev')"
        by (simp add: acquire_from_shard_def Let_def)
      from weighted_pick_False [OF this] pick(1) show ?thesis by (auto simp: eligibles_index)
    qed
  qed
qed

section \<open>The whole pool\<close>

lemma eligibles_set_shard:
  assumes "k < length (dp_shards P)"
    and "eligibles m now ex ns = eligibles m now ex (dp_shards P ! k)"
  shows "eligibles m now ex (dp_nodes (set_shard k ns P)) = eligibles m now ex (dp_nodes P)"
proof -
  have c: "concat (dp_shards P) =
      concat (take k (dp_shards P)) @ dp_shards P ! k @ concat (drop (Suc k) (dp_shards P))"
    using id_take_nth_drop [OF assms(1)] by (metis concat.simps(2) concat_append)
  show ?thesis
    unfolding dp_nodes_def set_shard_simps
    by (subst c) (use assms in \<open>simp add: upd_conv_take_nth_drop\<close>)
qed

lemma eligibles_shard_empty:
  "eligibles m now ex (dp_nodes P) = [] \<Longrightarrow> k < length (dp_shards P) \<Longrightarrow>
     eligibles m now ex (dp_shards P ! k) = []"
  by (auto simp: filter_empty_conv dp_nodes_def)

lemma acquire_scan_False:
  "acquire_scan ks P m now ex ev = (r, P', ev') \<Longrightarrow> \<not> dp_global_budget P \<Longrightarrow>
     \<forall>k \<in> set ks. k < length (dp_shards P) \<Longrightarrow>
     (r = None \<longrightarrow> eligibles m now ex (dp_nodes P') = eligibles m now ex (dp_nodes P)) \<and>
     (r \<noteq> None \<longrightarrow> eligibles m now ex (dp_nodes P) \<noteq> [])"
proof (induction ks arbitrary: P ev)
  case (Cons k ks)
  from Cons.prems(3) have k: "k < length (dp_shards P)" by simp
  obtain q ns ev1 where s: "acquire_from_shard False (dp_global_fail_open P)
      (dp_shards P ! k) m now ex ev = (q, ns, ev1)" by (metis prod_cases3)
  note t = acquire_from_shard_False [OF s]
  show ?case
  proof (cases q)
    case (Some n)
    with t have "eligibles m now ex (dp_shards P ! k) \<noteq> []" by simp
    with eligibles_shard_empty [OF _ k] have "eligibles m now ex (dp_nodes P) \<noteq> []" by blast
    moreover from Some s Cons.prems(1,2) have "r = Some n" by (simp add: Let_def)
    ultimately show ?thesis by simp
  next
    case None
    with t eligibles_set_shard [OF k]
    have e: "eligibles m now ex (dp_nodes (set_shard k ns P)) = eligibles m now ex (dp_nodes P)"
      by blast
    from None s Cons.prems(1,2) have "acquire_scan ks (set_shard k ns P) m now ex ev1 = (r, P', ev')"
      by simp
    from Cons.IH [OF this] Cons.prems(2,3) e show ?thesis by simp
  qed
qed auto

lemma try_acquire_sticky_eligible:
  assumes P: "dp_wf P" "\<not> dp_global_budget P" "\<not> request_exceeds_single_node_budget P m"
    and p: "p \<in> set (dp_nodes P)" "eligible m now ex p"
  shows "\<exists>P'. try_acquire_sticky P m (pn_id p) now ev = (Inr (pn_node p), P', ev)"
proof -
  let ?ns = "dp_shards P ! shard_of P (pn_id p)"
  have "p \<in> set ?ns" by (rule dp_node_in_shard [OF P(1) p(1)])
  then obtain j where j: "find_idx (\<lambda>q. pn_id q = pn_id p) ?ns = Some j"
    using find_idx_None [of "\<lambda>q. pn_id q = pn_id p" ?ns] by (metis option.exhaust)
  from find_idx_Some [OF j] have j': "j < length ?ns" "pn_id (?ns ! j) = pn_id p" by simp_all
  then have "?ns ! j \<in> set (dp_nodes P)"
    using set_dp_nodes shard_of_less [OF P(1)] nth_mem by blast
  from dp_nodes_unique [OF P(1) this p(1) j'(2)] have eq: "?ns ! j = p" .
  obtain q where q: "admit_node False (dp_global_fail_open P) m now p ev = (True, q, ev)"
    using admit_node_eligible [OF p(2)] by blast
  have "pn_node q = pn_node p" by (rule admit_node_id [OF q all_wf_nodes [OF P(1) p(1)]])
  with j eq q P(2,3) show ?thesis by (simp add: try_acquire_sticky_def Let_def)
qed

lemma acquire_best_global_eligible:
  assumes P: "dp_wf P" "\<not> dp_global_budget P" "\<not> request_exceeds_single_node_budget P m"
  shows "fst (acquire_best_global P m now ex ev) \<noteq> None \<longleftrightarrow> eligibles m now ex (dp_nodes P) \<noteq> []"
proof -
  let ?cs = "sort_key (\<lambda>c. - fst c) (global_candidates P m now ex)"
  have len: "length ?cs = length (eligibles m now ex (dp_nodes P))"
    by (simp add: global_candidates_def dp_nodes_def)
  show ?thesis
  proof (cases ?cs)
    case Nil
    with len show ?thesis by (simp add: acquire_best_global_def Let_def)
  next
    case (Cons c cs)
    obtain s i where c: "c = (s, i)" by fastforce
    have "(s, i) \<in> set (global_candidates P m now ex)"
      using Cons c by (metis list.set_intros(1) set_sort)
    from global_candidates_ids [OF this] obtain p
      where p: "p \<in> set (dp_nodes P)" "pn_id p = i" "eligible m now ex p" by blast
    obtain P' where "try_acquire_sticky P m i now ev = (Inr (pn_node p), P', ev)"
      using try_acquire_sticky_eligible [OF P p(1,3), of ev] p(2) by blast
    with Cons c len show ?thesis by (auto simp: acquire_best_global_def Let_def)
  qed
qed

lemma acquire_for_excluding_complete:
  assumes P: "dp_wf P" and G: "\<not> dp_global_budget P"
  shows "fst (acquire_for_excluding P m ex now ev) \<noteq> None \<longleftrightarrow>
         \<not> request_exceeds_single_node_budget P m \<and>
         (\<exists>p \<in> set (dp_nodes P). eligible m now ex p)"
proof (cases "request_exceeds_single_node_budget P m")
  case True
  then show ?thesis by (simp add: acquire_for_excluding_def)
next
  case False
  let ?n = "length (dp_shards P)"
  obtain start ev1 where d: "next_usize ?n ev = (start, ev1)" by fastforce
  let ?ks = "map (\<lambda>offset. (start + offset) mod ?n) [0..<?n]"
  obtain q Q ev2 where s: "acquire_scan ?ks P m now ex ev1 = (q, Q, ev2)" by (metis prod_cases3)
  from P have "0 < ?n" by (auto simp: dp_wf_def)
  then have ks: "\<forall>k \<in> set ?ks. k < ?n" by simp
  note e = acquire_scan_False [OF s G ks] and t = acquire_scan_step [OF s P ks]
  have ex: "(\<exists>p \<in> set (dp_nodes P). eligible m now ex p) \<longleftrightarrow> eligibles m now ex (dp_nodes P) \<noteq> []"
    by (simp add: filter_empty_conv)
  show ?thesis
  proof (cases q)
    case (Some n)
    with False d s e show ?thesis unfolding ex by (simp add: acquire_for_excluding_def Let_def)
  next
    case None
    with t have q: "dp_step None P Q" by simp
    note f = dp_step_frame [OF q]
    have "\<not> dp_global_budget Q" "\<not> request_exceeds_single_node_budget Q m"
      using f G False by (simp_all add: request_exceeds_single_node_budget_def)
    from acquire_best_global_eligible [OF f(7) this, of now ex ev2] None e False d s
    show ?thesis unfolding ex by (simp add: acquire_for_excluding_def Let_def)
  qed
qed

text \<open>
  C5: Selection is complete.  When no shared budget is configured, a request that fits a
  single node's budget is given a node exactly when some node outside the exclusion list
  can admit it, whatever the random draws: the sampled path, the weighted path and the
  global fallback together miss no node.
\<close>

theorem selection_complete:
  assumes "dp_wf P" and "\<not> dp_global_budget P"
  shows "fst (acquire_for_excluding P m ex now ev) \<noteq> None \<longleftrightarrow>
         \<not> request_exceeds_single_node_budget P m \<and>
         (\<exists>p \<in> set (dp_nodes P). eligible m now ex p)"
  by (rule acquire_for_excluding_complete [OF assms])

text \<open>A pool of one shard with two nodes in service, the configuration of the examples.\<close>

definition demo_pool :: dispatch_pool where
  "demo_pool =
     dp_add 0 (demo_ref ''b'') (dp_add 0 (demo_ref ''a'')
       (DispatchPool_new_with_options 0 default_limits default_aimd 1))"

lemma demo_pool_wf: "dp_wf demo_pool"
  unfolding demo_pool_def
  by (intro dispatch.wf_add dp_wf_new default_aimd_wf)

lemmas demo_pool_eval =
  demo_pool_def dp_add_def DispatchPool_new_with_options_def shard_index_for_id_def
  set_shard_def PoolNode_new_def demo_ref_def default_limits_def default_aimd_def clamp_def
  NodeBudget_from_def

lemma demo_pool_nodes:
  "dp_nodes demo_pool =
     [PoolNode_new 0 (demo_ref ''a'') default_limits default_aimd,
      PoolNode_new 0 (demo_ref ''b'') default_limits default_aimd]"
  by (simp add: dp_nodes_def demo_pool_eval)

lemma demo_node_eligible:
  "i \<notin> set ex \<Longrightarrow> eligible demo_meta 0 ex (PoolNode_new 0 (demo_ref i) default_limits default_aimd)"
  by (simp add: eligible_def PoolNode_new_def demo_ref_def default_limits_def default_aimd_def
      demo_meta_def clamp_def NodeBudget_from_def node_ops)

lemma demo_pool_ready:
  "\<not> dp_global_budget demo_pool" "\<not> request_exceeds_single_node_budget demo_pool demo_meta"
  "\<exists>p \<in> set (dp_nodes demo_pool). eligible demo_meta 0 [''a''] p"
  using demo_node_eligible [of "''b''" "[''a'']"]
  by (simp_all add: demo_pool_nodes)
    (simp_all add: demo_pool_eval request_exceeds_single_node_budget_def demo_meta_def
      request_kb_def div_ceil_def)

lemma demo_pool_serves:
  "fst (acquire_for_excluding demo_pool demo_meta [''a''] 0 demo_env) \<noteq> None"
  using acquire_for_excluding_complete [OF demo_pool_wf demo_pool_ready(1)] demo_pool_ready(2,3)
  by blast

lemma selection_complete_witness:
  "fst (acquire_for_excluding demo_pool demo_meta [''a''] 0 demo_env) \<noteq> None"
  using selection_complete [OF demo_pool_wf demo_pool_ready(1)] demo_pool_ready(2,3) by blast

text \<open>
  A node that selection returns is not on the exclusion list, is a node of the pool,
  and had a free slot under its concurrency limit; this holds with a shared budget too.
\<close>

lemma selection_excludes:
  assumes "dp_wf P" and "acquire_for_excluding P m ex now ev = (Some n, P', ev')"
  shows "nr_id n \<notin> set ex \<and>
         (\<exists>p \<in> set (dp_nodes P). pn_node p = n \<and> pn_active_leases p < pn_max_concurrent p)"
proof -
  from acquire_for_excluding_step [OF assms(2,1)]
  have "dp_step (Some n) P P'" and "nr_id n \<notin> set ex" by simp_all
  then show ?thesis using dp_step_granted by blast
qed

lemma selection_excludes_witness:
  "\<exists>n. fst (acquire_for_excluding demo_pool demo_meta [''a''] 0 demo_env) = Some n \<and>
       nr_id n \<notin> set [''a'']"
proof -
  obtain r P' ev' where a: "acquire_for_excluding demo_pool demo_meta [''a''] 0 demo_env = (r, P', ev')"
    by (metis prod_cases3)
  with demo_pool_serves have "r \<noteq> None" by (metis fst_conv)
  then obtain n where "r = Some n" by blast
  with a selection_excludes [OF demo_pool_wf, of demo_meta "[''a'']" 0 demo_env n P' ev'] show ?thesis
    by simp
qed

text \<open>
  Leases are conserved: every path that acquires a node (selection, sticky, affinity)
  raises the number of leases of the pool by exactly one when it returns a node and by
  none when it fails, keeps the pool's invariant and changes no membership.
\<close>

lemma acquisition_conserves_leases:
  assumes "dp_wf P"
  shows "(case acquire_for_excluding P m ex now ev of (r, P', ev') \<Rightarrow>
            dp_wf P' \<and> dp_ids P' = dp_ids P \<and>
            dp_leases P' = dp_leases P + (if r = None then 0 else 1)) \<and>
         (case try_acquire_sticky P m i now ev of (r, P', ev') \<Rightarrow>
            dp_wf P' \<and> dp_ids P' = dp_ids P \<and>
            dp_leases P' = dp_leases P + (case r of Inl _ \<Rightarrow> 0 | Inr _ \<Rightarrow> 1)) \<and>
         (case try_acquire_affinity_excluding P m ex now ev of (r, P', ev') \<Rightarrow>
            dp_wf P' \<and> dp_ids P' = dp_ids P \<and>
            dp_leases P' = dp_leases P + (case r of Inl _ \<Rightarrow> 0 | Inr _ \<Rightarrow> 1))"
proof -
  have eff: "dp_wf Q \<and> dp_ids Q = dp_ids P \<and> dp_leases Q = dp_leases P + (if r = None then 0 else 1)"
    if "dp_step r P Q" for r Q
    using dp_step_frame(7) [OF that] dp_step_ids [OF that] dp_step_leases [OF that] by simp
  obtain r1 P1 e1 where 1: "acquire_for_excluding P m ex now ev = (r1, P1, e1)" by (metis prod_cases3)
  obtain r2 P2 e2 where 2: "try_acquire_sticky P m i now ev = (r2, P2, e2)" by (metis prod_cases3)
  obtain r3 P3 e3 where 3: "try_acquire_affinity_excluding P m ex now ev = (r3, P3, e3)"
    by (metis prod_cases3)
  note s1 = eff [OF conjunct1 [OF acquire_for_excluding_step [OF 1 assms]]]
    and s2 = eff [OF conjunct1 [OF try_acquire_sticky_step [OF 2 assms]]]
    and s3 = eff [OF conjunct1 [OF try_acquire_affinity_step [OF 3 assms]]]
  from s1 s2 s3 show ?thesis unfolding 1 2 3 by (auto split: sum.splits)
qed

lemma acquisition_conserves_leases_witness:
  "dp_leases (fst (snd (acquire_for_excluding demo_pool demo_meta [''a''] 0 demo_env))) = 1"
proof -
  have "dp_leases demo_pool = 0" by (simp add: dp_leases_def demo_pool_nodes PoolNode_new_def)
  moreover have "fst (acquire_for_excluding demo_pool demo_meta [''a''] 0 demo_env) \<noteq> None"
    by (rule demo_pool_serves)
  ultimately show ?thesis
    using acquisition_conserves_leases [OF demo_pool_wf, of demo_meta "[''a'']" 0 demo_env "[]"]
    by (auto split: prod.splits)
qed

text \<open>
  The affinity list of a key: after a success for node \<open>i\<close> it starts with \<open>i\<close>, names
  no node twice, holds only \<open>i\<close> and nodes it held before, and is never longer than the
  limit of the key (two nodes for the MiMo v2.5 models, four otherwise); other keys keep
  theirs, and an empty key records nothing.
\<close>

lemma affinity_success_list:
  assumes "k \<noteq> []" and "\<forall>is. map_of (dp_affinity P) k = Some is \<longrightarrow> distinct is"
  shows "\<exists>is. map_of (dp_affinity (dp_record_affinity_success k i P)) k = Some (i # is) \<and>
           distinct (i # is) \<and> length (i # is) \<le> affinity_max_nodes k \<and>
           affinity_max_nodes k \<in> {2, 4} \<and>
           set is \<subseteq> (case map_of (dp_affinity P) k of None \<Rightarrow> {} | Some js \<Rightarrow> set js) \<and>
           (\<forall>k'. k' \<noteq> k \<longrightarrow> map_of (dp_affinity (dp_record_affinity_success k i P)) k' =
                              map_of (dp_affinity P) k')"
proof -
  define old where "old = (case map_of (dp_affinity P) k of None \<Rightarrow> [] | Some is \<Rightarrow> is)"
  have max: "affinity_max_nodes k \<in> {2, 4}" by (simp add: affinity_max_nodes_def Let_def)
  then obtain c where c: "affinity_max_nodes k = Suc c" by (cases "affinity_max_nodes k") auto
  let ?is = "take c (filter (\<lambda>j. j \<noteq> i) old)"
  have d: "distinct old"
  proof (cases "map_of (dp_affinity P) k")
    case (Some js)
    with assms(2) have "distinct js" by blast
    with Some show ?thesis by (simp add: old_def)
  qed (simp add: old_def)
  have a: "dp_affinity (dp_record_affinity_success k i P) = AList.update k (i # ?is) (dp_affinity P)"
    using assms(1) c by (simp add: dp_record_affinity_success_def Let_def old_def)
  have "set ?is \<subseteq> set old" "i \<notin> set ?is" by (auto dest: in_set_takeD)
  moreover have "set old = (case map_of (dp_affinity P) k of None \<Rightarrow> {} | Some js \<Rightarrow> set js)"
    by (simp add: old_def split: option.splits)
  ultimately show ?thesis using max d c
    unfolding a by (intro exI [of _ ?is]) (simp add: hm.get_put)
qed

lemma affinity_success_list_witness:
  "\<exists>is. map_of (dp_affinity (dp_record_affinity_success ''k'' ''a'' demo_pool)) ''k'' = Some (''a'' # is) \<and>
        distinct (''a'' # is) \<and> length (''a'' # is) \<le> affinity_max_nodes ''k''"
proof -
  have "\<forall>is. map_of (dp_affinity demo_pool) ''k'' = Some is \<longrightarrow> distinct is"
    by (simp add: demo_pool_eval)
  from affinity_success_list [OF _ this, of "''a''"] show ?thesis by blast
qed

text \<open>
  The affinity path returns one of the nodes recorded for the request's key that is not
  excluded, and the id it reports is that node's; it never answers for a request without
  a key or one too large for a node.
\<close>

lemma affinity_acquire_sound:
  assumes "dp_wf P" and "try_acquire_affinity_excluding P m ex now ev = (Inr (n, i), P', ev')"
  shows "i = nr_id n \<and> i \<notin> set ex \<and> rm_affinity_key m \<noteq> [] \<and>
         (\<exists>is. map_of (dp_affinity P) (rm_affinity_key m) = Some is \<and> i \<in> set is)"
proof -
  from try_acquire_affinity_step [OF assms(2,1)] have i: "i = nr_id n" "i \<notin> set ex" by auto
  let ?c = "case map_of (dp_affinity P) (rm_affinity_key m) of None \<Rightarrow> [] | Some is \<Rightarrow> is"
  have k: "rm_affinity_key m \<noteq> []" "\<not> request_exceeds_single_node_budget P m"
    using assms(2) by (auto simp: try_acquire_affinity_excluding_def)
  obtain q Q ev1 where s: "sticky_first (filter (\<lambda>i. i \<notin> set ex) ?c) P m now ev = (q, Q, ev1)"
    by (metis prod_cases3)
  with assms(2) k have "q = Some n"
    by (auto simp: try_acquire_affinity_excluding_def Let_def split: option.splits)
  with sticky_first_step [OF s assms(1)] have "nr_id n \<in> set ?c" by simp
  with i k(1) show ?thesis by (cases "map_of (dp_affinity P) (rm_affinity_key m)") auto
qed

lemma affinity_acquire_sound_witness:
  "let P = dp_record_affinity_success ''k'' ''a'' demo_pool; m = demo_meta\<lparr>rm_affinity_key := ''k''\<rparr>
   in \<exists>n P' ev'. try_acquire_affinity_excluding P m [''b''] 0 demo_env = (Inr (n, ''a''), P', ev') \<and>
        ''a'' \<notin> set [''b'']"
proof -
  let ?P = "dp_record_affinity_success ''k'' ''a'' demo_pool"
    and ?m = "demo_meta\<lparr>rm_affinity_key := ''k''\<rparr>"
  have "\<exists>n P' ev'. try_acquire_affinity_excluding ?P ?m [''b''] 0 demo_env = (Inr (n, ''a''), P', ev')"
    by (simp add: try_acquire_affinity_excluding_def dp_record_affinity_success_def
        try_acquire_sticky_def affinity_max_nodes_def request_exceeds_single_node_budget_def
        demo_meta_def demo_pool_eval node_ops to_ascii_lowercase_def)
  then obtain n P' ev' where a:
    "try_acquire_affinity_excluding ?P ?m [''b''] 0 demo_env = (Inr (n, ''a''), P', ev')" by blast
  have "dp_wf ?P" using dp_hints_correct(3) [OF demo_pool_wf] by blast
  from affinity_acquire_sound [OF this a] a show ?thesis unfolding Let_def by blast
qed

end
