(* ===== verification/ActivePool.thy ===== *)
theory ActivePool
  imports PoolTypes
begin

text \<open>
  \<open>zen-proxy-rs/src/pool/active.rs\<close>: the nodes that are serving requests, with a signed
  64-bit count of the requests in flight and an adaptive concurrency limit per node.
\<close>

record active_entry =
  ae_node_ref :: node_ref
  ae_active_requests :: int
  ae_max_concurrent :: nat
  ae_entered_at :: nat

definition ActiveEntry_new :: "nat \<Rightarrow> node_ref \<Rightarrow> active_entry" where
  "ActiveEntry_new now n =
     \<lparr>ae_node_ref = n, ae_active_requests = 0, ae_max_concurrent = 5, ae_entered_at = now\<rparr>"

type_synonym active_pool = "(node_id, active_entry) hashmap"

text \<open>
  \<open>acquire\<close> takes the first entry of the map's iteration order with room, and returns
  the pool with that entry's counter incremented.
\<close>

fun active_acquire :: "active_pool \<Rightarrow> node_ref option \<times> active_pool" where
  "active_acquire [] = (None, [])"
| "active_acquire ((i, e) # m) =
     (if ae_active_requests e < int (ae_max_concurrent e)
      then (Some (ae_node_ref e),
            (i, e\<lparr>ae_active_requests := i64_wrap (ae_active_requests e + 1)\<rparr>) # m)
      else (let (r, m') = active_acquire m in (r, (i, e) # m')))"

definition active_release_entry :: "result_kind \<Rightarrow> active_entry \<Rightarrow> active_entry" where
  "active_release_entry r e =
     (let e = e\<lparr>ae_active_requests := i64_sat_sub (ae_active_requests e) 1\<rparr>
      in case r of
           Success _ \<Rightarrow>
             e\<lparr>ae_max_concurrent := min (sat_add 32 (ae_max_concurrent e) 1) 20\<rparr>
         | ClientGone \<Rightarrow> e
         | _ \<Rightarrow> e\<lparr>ae_max_concurrent := max (ae_max_concurrent e div 2) 1\<rparr>)"

definition active_release :: "node_id \<Rightarrow> result_kind \<Rightarrow> active_pool \<Rightarrow> active_pool" where
  "active_release i r m =
     (case map_of m i of
        None \<Rightarrow> m
      | Some e \<Rightarrow> AList.update i (active_release_entry r e) m)"

definition active_remove :: "node_id \<Rightarrow> active_pool \<Rightarrow> active_pool" where
  "active_remove i m = AList.delete i m"

definition active_add :: "nat \<Rightarrow> node_ref \<Rightarrow> active_pool \<Rightarrow> active_pool" where
  "active_add now n m =
     (let e = (case map_of m (nr_id n) of None \<Rightarrow> ActiveEntry_new now n | Some e \<Rightarrow> e)
      in AList.update (nr_id n)
           (e\<lparr>ae_active_requests := i64_wrap (ae_active_requests e + 1)\<rparr>) m)"

definition active_available :: "active_pool \<Rightarrow> nat" where
  "active_available m = sum_list (map (\<lambda>(i, e). nat (max (ae_active_requests e) 0)) m)"

section \<open>Invariant\<close>

text \<open>Every entry's limit stays between 1 and 20, and an entry is keyed once.\<close>

definition active_wf :: "active_pool \<Rightarrow> bool" where
  "active_wf m \<longleftrightarrow>
     distinct (map fst m) \<and>
     (\<forall>(i, e) \<in> set m. 1 \<le> ae_max_concurrent e \<and> ae_max_concurrent e \<le> 20)"

lemma active_wf_map_of:
  "active_wf m \<Longrightarrow> map_of m i = Some e \<Longrightarrow>
     1 \<le> ae_max_concurrent e \<and> ae_max_concurrent e \<le> 20"
  by (auto simp: active_wf_def dest!: map_of_SomeD)

lemma active_wf_update:
  assumes "active_wf m" and "1 \<le> ae_max_concurrent e \<and> ae_max_concurrent e \<le> 20"
  shows "active_wf (AList.update i e m)"
  using assms set_hm_insert [of i e m]
  by (fastforce simp: active_wf_def intro: AList.distinct_update)

lemma active_release_entry_bounds:
  "1 \<le> ae_max_concurrent e \<Longrightarrow> ae_max_concurrent e \<le> 20 \<Longrightarrow>
     1 \<le> ae_max_concurrent (active_release_entry r e) \<and>
     ae_max_concurrent (active_release_entry r e) \<le> 20"
  by (auto simp: active_release_entry_def Let_def sat_add_exact split: result_kind.splits)

lemma active_release_wf [wf_intros]: "active_wf m \<Longrightarrow> active_wf (active_release i r m)"
  by (auto simp: active_release_def split: option.splits
      intro!: active_wf_update active_release_entry_bounds dest: active_wf_map_of)

lemma active_remove_wf [wf_intros]: "active_wf m \<Longrightarrow> active_wf (active_remove i m)"
  using set_hm_remove [of i m]
  by (auto simp: active_wf_def active_remove_def intro: AList.distinct_delete)

lemma active_add_wf [wf_intros]: "active_wf m \<Longrightarrow> active_wf (active_add now n m)"
  by (auto simp: active_add_def Let_def ActiveEntry_new_def split: option.splits
      intro!: active_wf_update dest: active_wf_map_of)

lemma active_keys_release: "hm_keys (active_release i r m) = hm_keys m"
  by (auto simp: active_release_def hm.keys_put hm_keys_map_of split: option.splits)

lemma active_keys_add: "hm_keys (active_add now n m) = insert (nr_id n) (hm_keys m)"
  by (simp add: active_add_def Let_def hm.keys_put)

lemma active_keys_remove: "hm_keys (active_remove i m) = hm_keys m - {i}"
  by (simp add: active_remove_def hm.keys_del)

interpretation active: node_pool hm_keys active_wf "active_add now" active_remove active_release
  for now
  by unfold_locales
    (simp_all add: wf_intros active_keys_release active_keys_add active_keys_remove)

section \<open>Counting requests in flight\<close>

definition active_count :: "active_pool \<Rightarrow> node_id \<Rightarrow> int" where
  "active_count m i = (case map_of m i of None \<Rightarrow> 0 | Some e \<Rightarrow> ae_active_requests e)"

lemma active_count_add:
  "active_count (active_add now n m) i =
     (if i = nr_id n then i64_wrap (active_count m i + 1) else active_count m i)"
  by (auto simp: active_count_def active_add_def Let_def ActiveEntry_new_def hm.get_put
      split: option.splits)

lemma active_count_release:
  "active_count (active_release i r m) j =
     (if j = i \<and> i \<in> hm_keys m then i64_sat_sub (active_count m i) 1 else active_count m j)"
  by (auto simp: active_count_def active_release_def active_release_entry_def Let_def hm.get_put
      hm_keys_map_of split: option.splits result_kind.splits)

lemma active_acquire_Some:
  assumes "active_acquire m = (Some n, m')" and "active_wf m"
  shows "\<exists>i e. map_of m i = Some e \<and> n = ae_node_ref e \<and>
           ae_active_requests e < int (ae_max_concurrent e) \<and>
           map_of m' = (map_of m)(i \<mapsto> e\<lparr>ae_active_requests := i64_wrap (ae_active_requests e + 1)\<rparr>)"
  using assms
proof (induction m arbitrary: m')
  case Nil
  then show ?case by simp
next
  case (Cons p m)
  obtain i e where p: "p = (i, e)" by (cases p)
  show ?case
  proof (cases "ae_active_requests e < int (ae_max_concurrent e)")
    case True
    with Cons.prems p show ?thesis by (intro exI [of _ i] exI [of _ e]) auto
  next
    case False
    with Cons.prems p obtain m'' where m'': "active_acquire m = (Some n, m'')"
      and m': "m' = (i, e) # m''" by (auto split: prod.splits)
    have "active_wf m" using Cons.prems(2) by (simp add: active_wf_def)
    from Cons.IH [OF m'' this] obtain j f where j: "map_of m j = Some f" "n = ae_node_ref f"
      "ae_active_requests f < int (ae_max_concurrent f)"
      "map_of m'' = (map_of m)(j \<mapsto> f\<lparr>ae_active_requests := i64_wrap (ae_active_requests f + 1)\<rparr>)"
      by blast
    from j(1) have "j \<in> fst ` set m" by (metis domI dom_map_of_conv_image_fst)
    with Cons.prems(2) p have "j \<noteq> i" by (auto simp: active_wf_def)
    with j p m' show ?thesis by (intro exI [of _ j] exI [of _ f]) auto
  qed
qed

end
