(* ===== verification/DeadPool.thy ===== *)
theory DeadPool
  imports PoolTypes Complex_Main
begin

text \<open>
  \<open>zen-proxy-rs/src/pool/dead.rs\<close> and \<open>zen-proxy-rs/src/v4/dead_probe.rs\<close>: the nodes taken
  out of service after a hard error, and the policy that says when and how many of them
  are probed again.  \<open>Instant\<close>s are nanoseconds since an arbitrary origin; \<open>now\<close> is the
  instant an operation reads.
\<close>

section \<open>The pool\<close>

record dead_entry =
  de_node :: node_ref
  de_entered_at :: nat
  de_last_probe_at :: "nat option"
  de_consecutive_probe_successes :: nat
  de_dead_count :: nat

type_synonym dead_pool = "(node_id, dead_entry) hashmap"

definition dead_acquire :: "dead_pool \<Rightarrow> node_ref option" where
  "dead_acquire m = (case m of [] \<Rightarrow> None | (i, e) # _ \<Rightarrow> Some (de_node e))"

definition dead_release :: "node_id \<Rightarrow> result_kind \<Rightarrow> dead_pool \<Rightarrow> dead_pool" where
  "dead_release i r m = m"

definition dead_remove :: "node_id \<Rightarrow> dead_pool \<Rightarrow> dead_pool" where
  "dead_remove i m = AList.delete i m"

definition dead_add :: "nat \<Rightarrow> node_ref \<Rightarrow> dead_pool \<Rightarrow> dead_pool" where
  "dead_add now n m =
     (case map_of m (nr_id n) of
        Some _ \<Rightarrow> m
      | None \<Rightarrow>
          AList.update (nr_id n)
            \<lparr>de_node = n, de_entered_at = now, de_last_probe_at = None,
             de_consecutive_probe_successes = 0, de_dead_count = 0\<rparr> m)"

definition dead_bury :: "crypto \<Rightarrow> nat \<Rightarrow> node_id \<Rightarrow> dead_pool \<Rightarrow> dead_pool" where
  "dead_bury C now i m =
     (case map_of m i of
        Some e \<Rightarrow>
          AList.update i
            (e\<lparr>de_dead_count := wrap_add 32 (de_dead_count e) 1, de_entered_at := now,
               de_last_probe_at := None, de_consecutive_probe_successes := 0\<rparr>) m
      | None \<Rightarrow>
          AList.update i
            \<lparr>de_node = NodeRef_new C ''unknown'', de_entered_at = now, de_last_probe_at = None,
             de_consecutive_probe_successes = 0, de_dead_count = 1\<rparr> m)"

definition dead_select_all_for_probe :: "dead_pool \<Rightarrow> node_id list" where
  "dead_select_all_for_probe m = map fst m"

definition elapsed_secs :: "nat \<Rightarrow> nat \<Rightarrow> nat" where
  "elapsed_secs now t = (now - t) div 10 ^ 9"

definition dead_age_secs :: "nat \<Rightarrow> node_id \<Rightarrow> dead_pool \<Rightarrow> nat option" where
  "dead_age_secs now i m = map_option (\<lambda>e. elapsed_secs now (de_entered_at e)) (map_of m i)"

definition last_probe_age_secs :: "nat \<Rightarrow> node_id \<Rightarrow> dead_pool \<Rightarrow> nat option" where
  "last_probe_age_secs now i m =
     (case map_of m i of
        None \<Rightarrow> None
      | Some e \<Rightarrow> map_option (elapsed_secs now) (de_last_probe_at e))"

definition record_probe_result :: "nat \<Rightarrow> node_id \<Rightarrow> bool \<Rightarrow> dead_pool \<Rightarrow> nat \<times> dead_pool" where
  "record_probe_result now i ok m =
     (case map_of m i of
        None \<Rightarrow> (0, m)
      | Some e \<Rightarrow>
          (let n = (if ok then sat_add 8 (de_consecutive_probe_successes e) 1 else 0);
               e' = e\<lparr>de_last_probe_at := Some now, de_consecutive_probe_successes := n\<rparr>
           in (n, AList.update i e' m)))"

definition dead_recover :: "node_id \<Rightarrow> dead_pool \<Rightarrow> dead_pool" where
  "dead_recover i m = AList.delete i m"

definition dead_count :: "node_id \<Rightarrow> dead_pool \<Rightarrow> nat" where
  "dead_count i m = (case map_of m i of None \<Rightarrow> 0 | Some e \<Rightarrow> de_dead_count e)"

definition dead_get_node_ref :: "node_id \<Rightarrow> dead_pool \<Rightarrow> node_ref option" where
  "dead_get_node_ref i m = map_option de_node (map_of m i)"

definition dead_wf :: "dead_pool \<Rightarrow> bool" where
  "dead_wf m \<longleftrightarrow>
     distinct (map fst m) \<and> (\<forall>(i, e) \<in> set m. de_consecutive_probe_successes e \<le> 255)"

lemma dead_wf_update:
  "dead_wf m \<Longrightarrow> de_consecutive_probe_successes e \<le> 255 \<Longrightarrow> dead_wf (AList.update i e m)"
  using set_hm_insert [of i e m] by (fastforce simp: dead_wf_def intro: AList.distinct_update)

lemma dead_wf_delete: "dead_wf m \<Longrightarrow> dead_wf (AList.delete i m)"
  using set_hm_remove [of i m] by (auto simp: dead_wf_def intro: AList.distinct_delete)

lemma dead_ops_wf [wf_intros]:
  "dead_wf m \<Longrightarrow> dead_wf (dead_add now n m)"
  "dead_wf m \<Longrightarrow> dead_wf (dead_remove i m)"
  "dead_wf m \<Longrightarrow> dead_wf (dead_release i r m)"
  "dead_wf m \<Longrightarrow> dead_wf (dead_bury C now i m)"
  "dead_wf m \<Longrightarrow> dead_wf (dead_recover i m)"
  by (auto simp: dead_add_def dead_remove_def dead_release_def dead_bury_def dead_recover_def
      intro!: dead_wf_update dead_wf_delete split: option.splits)

lemma record_probe_result_wf [wf_intros]:
  "dead_wf m \<Longrightarrow> dead_wf (snd (record_probe_result now i ok m))"
  using sat_add_bound [of 8]
  by (auto simp: record_probe_result_def Let_def intro!: dead_wf_update split: option.splits)

lemma dead_keys:
  "hm_keys (dead_add now n m) = insert (nr_id n) (hm_keys m)"
  "hm_keys (dead_remove i m) = hm_keys m - {i}"
  "hm_keys (dead_release i r m) = hm_keys m"
  "hm_keys (dead_bury C now i m) = insert i (hm_keys m)"
  "hm_keys (dead_recover i m) = hm_keys m - {i}"
  "hm_keys (snd (record_probe_result now i ok m)) = hm_keys m"
  by (auto simp: dead_add_def dead_remove_def dead_release_def dead_bury_def dead_recover_def
      record_probe_result_def Let_def hm.keys_put hm.keys_del hm_keys_map_of split: option.splits)

interpretation dead: holding_pool hm_keys dead_wf "dead_add now" dead_remove dead_release
    "dead_bury C now" dead_recover
  for now C
  by unfold_locales (simp_all add: wf_intros dead_keys)

lemma set_dead_select: "set (dead_select_all_for_probe m) = hm_keys m"
  by (simp add: dead_select_all_for_probe_def hm_keys_def)

lemma record_probe_result_count:
  "dead_count j (snd (record_probe_result now i ok m)) = dead_count j m"
  by (auto simp: dead_count_def record_probe_result_def Let_def hm.get_put split: option.splits)

section \<open>The adaptive probe policy\<close>

record dead_probe_policy =
  dpp_min_delay_secs :: nat
  dpp_max_delay_secs :: nat

definition default_probe_policy :: dead_probe_policy where
  "default_probe_policy = \<lparr>dpp_min_delay_secs = 60 * 60, dpp_max_delay_secs = 120 * 60\<rparr>"

definition recovery_proven :: "nat \<Rightarrow> bool \<Rightarrow> bool" where
  "recovery_proven successes chat_success \<longleftrightarrow> chat_success \<or> 2 \<le> successes"

definition to_le_bytes8 :: "nat \<Rightarrow> string" where
  "to_le_bytes8 n = map (\<lambda>k. char_of (n div 256 ^ k mod 256)) [0..<8]"

fun from_le_bytes :: "string \<Rightarrow> nat" where
  "from_le_bytes [] = 0"
| "from_le_bytes (b # bs) = byte_of b + 256 * from_le_bytes bs"

definition stable_jitter :: "crypto \<Rightarrow> string \<Rightarrow> nat \<Rightarrow> nat" where
  "stable_jitter C i salt = from_le_bytes (take 8 (sha256 C (i @ to_le_bytes8 salt)))"

definition next_delay_secs :: "crypto \<Rightarrow> dead_probe_policy \<Rightarrow> node_id \<Rightarrow> nat \<Rightarrow> nat" where
  "next_delay_secs C P i dcount =
     (let span = dpp_max_delay_secs P - dpp_min_delay_secs P
      in if span = 0 then dpp_min_delay_secs P
         else dpp_min_delay_secs P + stable_jitter C i dcount mod (span + 1))"

text \<open>
  The source computes \<open>floor(dead_count * 0.01)\<close> and \<open>floor(dead_count * 0.10)\<close> in
  \<open>f64\<close>; both constants round upwards and the pool is far smaller than \<open>2 ^ 49\<close> nodes, so
  the floors are those of the exact quotients.  The recovery rate is an exact rational.
\<close>

definition next_batch_size :: "nat \<Rightarrow> rat \<Rightarrow> nat" where
  "next_batch_size n rate =
     (if n = 0 then 0
      else
        let minimum = max (n div 100) 1;
            cap = max (n div 10) 1;
            cap = min cap 20;
            minimum = min minimum cap
        in if rate \<ge> 3 / 10 then min (minimum * 2) cap
           else if rate < 1 / 10 then minimum
           else min minimum cap)"

lemma next_delay_bounds:
  "dpp_min_delay_secs P \<le> next_delay_secs C P i n \<and>
   next_delay_secs C P i n \<le> max (dpp_min_delay_secs P) (dpp_max_delay_secs P)"
proof (cases "dpp_max_delay_secs P - dpp_min_delay_secs P = 0")
  case True
  then show ?thesis by (simp add: next_delay_secs_def)
next
  case False
  define span where "span = dpp_max_delay_secs P - dpp_min_delay_secs P"
  define j where "j = stable_jitter C i n mod (span + 1)"
  have "j < span + 1" unfolding j_def by (rule mod_less_divisor) simp
  moreover have "next_delay_secs C P i n = dpp_min_delay_secs P + j"
    using False by (simp add: next_delay_secs_def Let_def span_def j_def)
  ultimately show ?thesis using False by (simp add: span_def max_def)
qed

lemma next_batch_size_bounds:
  "next_batch_size n rate \<le> min n 20 \<and> (0 < n \<longrightarrow> 0 < next_batch_size n rate)"
proof -
  have "n div 10 \<le> n" by simp
  then show ?thesis by (auto simp: next_batch_size_def Let_def min_def max_def)
qed

end
