(* ===== verification/RateLimitedPool.thy ===== *)
theory RateLimitedPool
  imports PoolTypes
begin

text \<open>
  \<open>zen-proxy-rs/src/pool/ratelimited.rs\<close>: the nodes quarantined after an HTTP 429.  \<open>today\<close>
  is the date an operation reads, as the source encodes it (year * 10000 + month * 100 +
  day).
\<close>

record quarantine_entry =
  qe_node :: node_ref
  qe_last_429_date :: nat
  qe_consecutive_days :: nat

type_synonym ratelimited_pool = "(node_id, quarantine_entry) hashmap"

definition ymd :: "nat \<Rightarrow> nat \<Rightarrow> nat \<Rightarrow> nat" where
  "ymd y m d = y * 10000 + m * 100 + d"

definition rl_acquire :: "ratelimited_pool \<Rightarrow> node_ref option" where
  "rl_acquire m = (case m of [] \<Rightarrow> None | (i, e) # _ \<Rightarrow> Some (qe_node e))"

definition rl_release :: "node_id \<Rightarrow> result_kind \<Rightarrow> ratelimited_pool \<Rightarrow> ratelimited_pool" where
  "rl_release i r m =
     (case map_of m i of
        None \<Rightarrow> m
      | Some e \<Rightarrow>
          (case r of
             Success _ \<Rightarrow> AList.update i (e\<lparr>qe_consecutive_days := 0\<rparr>) m
           | _ \<Rightarrow> m))"

definition rl_remove :: "node_id \<Rightarrow> ratelimited_pool \<Rightarrow> ratelimited_pool" where
  "rl_remove i m = AList.delete i m"

definition rl_add :: "node_ref \<Rightarrow> ratelimited_pool \<Rightarrow> ratelimited_pool" where
  "rl_add n m =
     (case map_of m (nr_id n) of
        Some _ \<Rightarrow> m
      | None \<Rightarrow>
          AList.update (nr_id n)
            \<lparr>qe_node = n, qe_last_429_date = 0, qe_consecutive_days = 0\<rparr> m)"

definition rl_quarantine :: "crypto \<Rightarrow> nat \<Rightarrow> node_id \<Rightarrow> ratelimited_pool \<Rightarrow> ratelimited_pool" where
  "rl_quarantine C today i m =
     (case map_of m i of
        Some e \<Rightarrow>
          AList.update i
            (e\<lparr>qe_consecutive_days :=
                 (if qe_last_429_date e = today then wrap_add 32 (qe_consecutive_days e) 1 else 1),
               qe_last_429_date := today\<rparr>) m
      | None \<Rightarrow>
          AList.update i
            \<lparr>qe_node = NodeRef_new C ''unknown'', qe_last_429_date = today,
             qe_consecutive_days = 1\<rparr> m)"

definition rl_select_for_probe :: "nat \<Rightarrow> nat \<Rightarrow> ratelimited_pool \<Rightarrow> node_id list" where
  "rl_select_for_probe today batch m =
     map fst (take batch (filter (\<lambda>(i, e). qe_last_429_date e < today) m))"

definition rl_select_all_for_probe :: "nat \<Rightarrow> ratelimited_pool \<Rightarrow> node_id list" where
  "rl_select_all_for_probe batch m = map fst (take batch m)"

definition rl_recover :: "node_id \<Rightarrow> ratelimited_pool \<Rightarrow> ratelimited_pool" where
  "rl_recover i m = AList.delete i m"

definition rl_quarantined_today :: "nat \<Rightarrow> ratelimited_pool \<Rightarrow> nat" where
  "rl_quarantined_today today m = length (filter (\<lambda>(i, e). qe_last_429_date e = today) m)"

definition rl_get_node_ref :: "node_id \<Rightarrow> ratelimited_pool \<Rightarrow> node_ref option" where
  "rl_get_node_ref i m = map_option qe_node (map_of m i)"

definition rl_wf :: "ratelimited_pool \<Rightarrow> bool" where
  "rl_wf m \<longleftrightarrow> distinct (map fst m)"

lemma rl_ops_wf [wf_intros]:
  "rl_wf m \<Longrightarrow> rl_wf (rl_add n m)"
  "rl_wf m \<Longrightarrow> rl_wf (rl_remove i m)"
  "rl_wf m \<Longrightarrow> rl_wf (rl_release i r m)"
  "rl_wf m \<Longrightarrow> rl_wf (rl_quarantine C today i m)"
  "rl_wf m \<Longrightarrow> rl_wf (rl_recover i m)"
  by (simp_all add: rl_wf_def rl_add_def rl_remove_def rl_release_def rl_quarantine_def
      rl_recover_def distinct_hm split: option.splits result_kind.splits)

lemma rl_keys:
  "hm_keys (rl_add n m) = insert (nr_id n) (hm_keys m)"
  "hm_keys (rl_remove i m) = hm_keys m - {i}"
  "hm_keys (rl_release i r m) = hm_keys m"
  "hm_keys (rl_quarantine C today i m) = insert i (hm_keys m)"
  "hm_keys (rl_recover i m) = hm_keys m - {i}"
  by (auto simp: rl_add_def rl_remove_def rl_release_def rl_quarantine_def rl_recover_def
      hm.keys_put hm.keys_del hm_keys_map_of split: option.splits result_kind.splits)

interpretation ratelimited: holding_pool hm_keys rl_wf rl_add rl_remove rl_release
    "rl_quarantine C today" rl_recover
  for today C
  by unfold_locales (simp_all add: wf_intros rl_keys)

lemma set_rl_select_all: "set (rl_select_all_for_probe (length m) m) = hm_keys m"
  by (simp add: rl_select_all_for_probe_def hm_keys_def)

lemma rl_select_for_probe_due:
  "rl_wf m \<Longrightarrow> i \<in> set (rl_select_for_probe today b m) \<Longrightarrow>
     \<exists>e. map_of m i = Some e \<and> qe_last_429_date e < today"
  unfolding rl_select_for_probe_def rl_wf_def
  by (auto dest!: in_set_takeD map_of_is_SomeI)

end
