(* ===== verification/PoolManager.thy ===== *)
theory PoolManager
  imports DispatchSelection ActivePool DeadPool RateLimitedPool NodeRegistry
begin

text \<open>
  \<open>zen-proxy-rs/src/pool/manager.rs\<close>: the manager that ties the four pools, the registry of
  known nodes, the HTTP clients, the session pins and the fuse together.  An operation takes
  the clock it reads and the environment's answers and returns the new state.  A task the
  source spawns (a probe of a node) is a job in \<open>pm_probes\<close>: the operation that spawns it
  appends the job, \<open>finish_probe\<close> is its completion, at any later time, with the outcome of
  the network probe as an argument.  Telemetry (\<open>DataCollector\<close>) is not part of the state.
\<close>

section \<open>State\<close>

record clock =
  ck_secs :: int
  ck_instant :: nat
  ck_today :: nat

datatype probe_kind = ReportProbe | PeriodicProbe | DeadProbe

record probe_job =
  pj_kind :: probe_kind
  pj_id :: node_id
  pj_node :: node_ref
  pj_fused :: bool

record pool_manager =
  pm_dispatch :: dispatch_pool
  pm_active :: active_pool
  pm_ratelimited :: ratelimited_pool
  pm_dead :: dead_pool
  pm_fuse :: bool
  pm_nodes :: node_registry
  pm_transport :: transport_registry
  pm_allow_direct_fallback :: bool
  pm_pins :: pin_store
  pm_probes :: "probe_job list"

record dispatch_result =
  dr_node :: node_ref
  dr_client :: http_client
  dr_url :: string
  dr_affinity_hit :: bool
  dr_affinity_node_id :: node_id
  dr_session_pin_hit :: bool

definition PoolManager_new ::
  "dispatch_pool \<Rightarrow> active_pool \<Rightarrow> ratelimited_pool \<Rightarrow> dead_pool \<Rightarrow> nat \<Rightarrow> nat \<Rightarrow> bool \<Rightarrow> pin_store
     \<Rightarrow> pool_manager" where
  "PoolManager_new D A R K ct rt allow pins =
     \<lparr>pm_dispatch = D, pm_active = A, pm_ratelimited = R, pm_dead = K, pm_fuse = False,
      pm_nodes = [], pm_transport = transport_new ct rt, pm_allow_direct_fallback = allow,
      pm_pins = pins, pm_probes = []\<rparr>"

definition register_known_node :: "node_ref \<Rightarrow> pool_manager \<Rightarrow> pool_manager" where
  "register_known_node n M = M\<lparr>pm_nodes := registry_insert n (pm_nodes M)\<rparr>"

section \<open>Dispatch\<close>

definition DIRECT_NODE_ID :: node_id where "DIRECT_NODE_ID = ''direct''"

definition direct_node :: node_ref where
  "direct_node = \<lparr>nr_id = DIRECT_NODE_ID, nr_url = ''direct''\<rparr>"

text \<open>The affinity path, then selection, then the direct fallback.\<close>

definition acquire_any ::
  "request_meta \<Rightarrow> node_id list \<Rightarrow> clock \<Rightarrow> pool_manager \<Rightarrow> env
     \<Rightarrow> (dispatch_error + node_ref \<times> bool \<times> node_id) \<times> dispatch_pool \<times> env" where
  "acquire_any m ex ck M ev =
     (let (r, D, ev) = try_acquire_affinity_excluding (pm_dispatch M) m ex (ck_secs ck) ev
      in case r of
           Inr (n, i) \<Rightarrow> (Inr (n, True, i), D, ev)
         | Inl _ \<Rightarrow>
             (let (r, D, ev) = acquire_for_excluding D m ex (ck_secs ck) ev
              in case r of
                   Some n \<Rightarrow> (Inr (n, False, []), D, ev)
                 | None \<Rightarrow>
                     (if pm_allow_direct_fallback M \<and> rm_allow_direct_fallback m
                      then Inr (direct_node, False, []) else Inl NoResource, D, ev)))"

definition dispatch_without_session_pin_excluding ::
  "request_meta \<Rightarrow> node_id list \<Rightarrow> clock \<Rightarrow> pool_manager \<Rightarrow> env
     \<Rightarrow> (dispatch_error + dispatch_result) \<times> pool_manager \<times> env" where
  "dispatch_without_session_pin_excluding m ex ck M ev =
     (let (r, D, ev) = acquire_any m ex ck M ev; M = M\<lparr>pm_dispatch := D\<rparr>
      in case r of
           Inl e \<Rightarrow> (Inl e, M, ev)
         | Inr (n, hit, aff) \<Rightarrow>
             (let (M, ev) =
                    (if nr_id n \<noteq> DIRECT_NODE_ID then
                       let M = M\<lparr>pm_active := active_add (ck_instant ck) n (pm_active M),
                                 pm_nodes := registry_insert n (pm_nodes M)\<rparr>
                       in if rm_session_id m \<noteq> [] \<and> rm_upstream_model m \<noteq> [] then
                            let (ps, ev) = pin_record (rm_upstream_model m) (rm_session_id m)
                                             (nr_id n) (pm_pins M) ev
                            in (M\<lparr>pm_pins := ps\<rparr>, ev)
                          else (M, ev)
                     else (M, ev));
                  (c, t) = (if nr_id n = ''direct'' then direct_client (pm_transport M)
                            else client_for_node n (pm_transport M))
              in (Inr \<lparr>dr_node = n, dr_client = c, dr_url = nr_url n, dr_affinity_hit = hit,
                       dr_affinity_node_id = aff, dr_session_pin_hit = False\<rparr>,
                  M\<lparr>pm_transport := t\<rparr>, ev)))"

definition dispatch_direct ::
  "pool_manager \<Rightarrow> (dispatch_error + dispatch_result) \<times> pool_manager" where
  "dispatch_direct M =
     (if pm_fuse M \<or> \<not> pm_allow_direct_fallback M then (Inl NoResource, M)
      else
        let (c, t) = direct_client (pm_transport M)
        in (Inr \<lparr>dr_node = direct_node, dr_client = c, dr_url = ''direct'',
                 dr_affinity_hit = False, dr_affinity_node_id = [], dr_session_pin_hit = False\<rparr>,
            M\<lparr>pm_transport := t\<rparr>))"

definition dispatch_sticky_excluding ::
  "request_meta \<Rightarrow> node_id \<Rightarrow> node_id list \<Rightarrow> clock \<Rightarrow> pool_manager \<Rightarrow> env
     \<Rightarrow> (dispatch_error + dispatch_result) \<times> pool_manager \<times> env" where
  "dispatch_sticky_excluding m i ex ck M ev =
     (if pm_fuse M then (Inl NoResource, M, ev)
      else
        case preflight (pm_dispatch M) m of
          Inl e \<Rightarrow> (Inl e, M, ev)
        | Inr _ \<Rightarrow>
            if i = DIRECT_NODE_ID then (let (r, M) = dispatch_direct M in (r, M, ev))
            else if i \<in> set ex then dispatch_without_session_pin_excluding m ex ck M ev
            else
              let (r, D, ev) = try_acquire_sticky (pm_dispatch M) m i (ck_secs ck) ev;
                  M = M\<lparr>pm_dispatch := D\<rparr>
              in case r of
                   Inl _ \<Rightarrow> dispatch_without_session_pin_excluding m ex ck M ev
                 | Inr n \<Rightarrow>
                     (let (c, t) = client_for_node n (pm_transport M)
                      in (Inr \<lparr>dr_node = n, dr_client = c, dr_url = nr_url n,
                               dr_affinity_hit = False, dr_affinity_node_id = [],
                               dr_session_pin_hit = True\<rparr>,
                          M\<lparr>pm_active := active_add (ck_instant ck) n (pm_active M),
                            pm_nodes := registry_insert n (pm_nodes M),
                            pm_transport := t\<rparr>, ev)))"

definition dispatch_excluding ::
  "request_meta \<Rightarrow> node_id list \<Rightarrow> clock \<Rightarrow> pool_manager \<Rightarrow> env
     \<Rightarrow> (dispatch_error + dispatch_result) \<times> pool_manager \<times> env" where
  "dispatch_excluding m ex ck M ev =
     (if pm_fuse M then (Inl NoResource, M, ev)
      else
        case preflight (pm_dispatch M) m of
          Inl e \<Rightarrow> (Inl e, M, ev)
        | Inr _ \<Rightarrow>
            (if rm_session_id m \<noteq> [] \<and> rm_upstream_model m \<noteq> [] then
               let (p, ev) = pin_lookup (rm_upstream_model m) (rm_session_id m) (pm_pins M) ev
               in case p of
                    None \<Rightarrow> dispatch_without_session_pin_excluding m ex ck M ev
                  | Some i \<Rightarrow>
                      if i \<in> set ex then dispatch_without_session_pin_excluding m ex ck M ev
                      else
                        let (r, M, ev) = dispatch_sticky_excluding m i ex ck M ev
                        in case r of
                             Inr d \<Rightarrow> (Inr d, M, ev)
                           | Inl _ \<Rightarrow> dispatch_without_session_pin_excluding m ex ck M ev
             else dispatch_without_session_pin_excluding m ex ck M ev))"

definition dispatch ::
  "request_meta \<Rightarrow> clock \<Rightarrow> pool_manager \<Rightarrow> env
     \<Rightarrow> (dispatch_error + dispatch_result) \<times> pool_manager \<times> env" where
  "dispatch m ck M ev = dispatch_excluding m [] ck M ev"

definition dispatch_sticky ::
  "request_meta \<Rightarrow> node_id \<Rightarrow> clock \<Rightarrow> pool_manager \<Rightarrow> env
     \<Rightarrow> (dispatch_error + dispatch_result) \<times> pool_manager \<times> env" where
  "dispatch_sticky m i ck M ev = dispatch_sticky_excluding m i [] ck M ev"

section \<open>Reports\<close>

definition release_both ::
  "node_id \<Rightarrow> result_kind \<Rightarrow> nat \<Rightarrow> clock \<Rightarrow> pool_manager \<Rightarrow> pool_manager" where
  "release_both i r l ck M =
     M\<lparr>pm_active := active_release i r (pm_active M),
       pm_dispatch := dp_release_with_latency i r l (ck_secs ck) (pm_dispatch M)\<rparr>"

definition spawn_probe :: "probe_kind \<Rightarrow> node_id \<Rightarrow> node_ref \<Rightarrow> pool_manager \<Rightarrow> pool_manager" where
  "spawn_probe k i n M =
     (let (c, t) = client_for_node n (pm_transport M)
      in M\<lparr>pm_transport := t,
           pm_probes := pm_probes M @
             [\<lparr>pj_kind = k, pj_id = i, pj_node = n, pj_fused = pm_fuse M\<rparr>]\<rparr>)"

definition report ::
  "crypto \<Rightarrow> node_id \<Rightarrow> result_kind \<Rightarrow> nat \<Rightarrow> clock \<Rightarrow> pool_manager \<Rightarrow> pool_manager" where
  "report C i r l ck M =
     (if i = DIRECT_NODE_ID then M
      else case r of
        RateLimited \<Rightarrow>
          (let M = M\<lparr>pm_ratelimited := rl_quarantine C (ck_today ck) i (pm_ratelimited M)\<rparr>;
               M = release_both i r l ck M;
               M = M\<lparr>pm_dispatch := dp_remove i (pm_dispatch M)\<rparr>
           in case registry_get i (pm_nodes M) of
                None \<Rightarrow> M
              | Some n \<Rightarrow> spawn_probe ReportProbe i n M)
      | ErrorResult _ \<Rightarrow>
          (let M = release_both i r l ck M;
               M = M\<lparr>pm_dispatch := dp_remove i (pm_dispatch M)\<rparr>;
               M = (case registry_get i (pm_nodes M) of
                      None \<Rightarrow> M
                    | Some n \<Rightarrow> M\<lparr>pm_dead := dead_add (ck_instant ck) n (pm_dead M)\<rparr>)
           in M\<lparr>pm_dead := dead_bury C (ck_instant ck) i (pm_dead M)\<rparr>)
      | _ \<Rightarrow> release_both i r l ck M)"

definition pm_record_latency_hint :: "node_id \<Rightarrow> nat \<Rightarrow> pool_manager \<Rightarrow> pool_manager" where
  "pm_record_latency_hint i l M =
     (if i = DIRECT_NODE_ID then M
      else M\<lparr>pm_dispatch := dp_record_latency_hint i l (pm_dispatch M)\<rparr>)"

definition pm_record_bucket_latency_hint ::
  "node_id \<Rightarrow> string \<Rightarrow> nat \<Rightarrow> pool_manager \<Rightarrow> pool_manager" where
  "pm_record_bucket_latency_hint i b l M =
     (if i = DIRECT_NODE_ID then M
      else M\<lparr>pm_dispatch := dp_record_bucket_latency_hint i b l (pm_dispatch M)\<rparr>)"

definition pm_record_affinity_success :: "string \<Rightarrow> node_id \<Rightarrow> pool_manager \<Rightarrow> pool_manager" where
  "pm_record_affinity_success k i M =
     (if i = DIRECT_NODE_ID then M
      else M\<lparr>pm_dispatch := dp_record_affinity_success k i (pm_dispatch M)\<rparr>)"

section \<open>Administration\<close>

definition fuse_all :: "crypto \<Rightarrow> clock \<Rightarrow> pool_manager \<Rightarrow> pool_manager" where
  "fuse_all C ck M =
     fold (\<lambda>i M. M\<lparr>pm_dispatch := dp_remove i (pm_dispatch M),
                    pm_dead := dead_bury C (ck_instant ck) i (pm_dead M)\<rparr>)
       (registry_ids (pm_nodes M)) (M\<lparr>pm_fuse := True\<rparr>)"

definition unfuse_step :: "clock \<Rightarrow> node_id \<Rightarrow> pool_manager \<Rightarrow> pool_manager" where
  "unfuse_step ck i M =
     (case registry_get i (pm_nodes M) of
        None \<Rightarrow> M
      | Some n \<Rightarrow> M\<lparr>pm_dispatch := dp_add (ck_secs ck) n (pm_dispatch M),
                    pm_dead := dead_recover i (pm_dead M)\<rparr>)"

definition unfuse_all :: "clock \<Rightarrow> pool_manager \<Rightarrow> pool_manager" where
  "unfuse_all ck M =
     fold (unfuse_step ck) (dead_select_all_for_probe (pm_dead M)) (M\<lparr>pm_fuse := False\<rparr>)"

definition add_node :: "crypto \<Rightarrow> string \<Rightarrow> clock \<Rightarrow> pool_manager \<Rightarrow> pool_manager" where
  "add_node C url ck M =
     (let n = NodeRef_new C url
      in M\<lparr>pm_dispatch := dp_add (ck_secs ck) n (pm_dispatch M),
           pm_nodes := registry_insert n (pm_nodes M)\<rparr>)"

definition remove_node :: "node_id \<Rightarrow> pool_manager \<Rightarrow> pool_manager" where
  "remove_node i M =
     M\<lparr>pm_dispatch := dp_remove i (pm_dispatch M),
       pm_active := active_remove i (pm_active M),
       pm_ratelimited := rl_remove i (pm_ratelimited M),
       pm_dead := dead_remove i (pm_dead M),
       pm_nodes := registry_remove i (pm_nodes M),
       pm_transport := snd (remove_client i (pm_transport M))\<rparr>"

definition readmit :: "clock \<Rightarrow> node_id \<Rightarrow> node_ref \<Rightarrow> pool_manager \<Rightarrow> pool_manager" where
  "readmit ck i n M =
     M\<lparr>pm_dispatch :=
         dp_release (ck_secs ck) i (Success 200) (dp_add (ck_secs ck) n (pm_dispatch M))\<rparr>"

definition recover_node :: "node_id \<Rightarrow> clock \<Rightarrow> pool_manager \<Rightarrow> pool_manager" where
  "recover_node i ck M =
     (case registry_get i (pm_nodes M) of
        None \<Rightarrow> M
      | Some n \<Rightarrow>
          (let M = M\<lparr>pm_dead := dead_recover i (pm_dead M),
                     pm_ratelimited := rl_recover i (pm_ratelimited M)\<rparr>
           in if pm_fuse M then M\<lparr>pm_dispatch := dp_remove i (pm_dispatch M)\<rparr>
              else readmit ck i n M))"

section \<open>Probes\<close>

definition spawn_known :: "probe_kind \<Rightarrow> node_id \<Rightarrow> pool_manager \<Rightarrow> pool_manager" where
  "spawn_known k i M =
     (case registry_get i (pm_nodes M) of None \<Rightarrow> M | Some n \<Rightarrow> spawn_probe k i n M)"

definition probe_ratelimited_periodic :: "pool_manager \<Rightarrow> pool_manager" where
  "probe_ratelimited_periodic M =
     (let n = length (pm_ratelimited M)
      in if n = 0 then M
         else
           fold (spawn_known PeriodicProbe) (rl_select_all_for_probe n (pm_ratelimited M)) M)"

definition dead_probe_due :: "crypto \<Rightarrow> clock \<Rightarrow> pool_manager \<Rightarrow> node_id \<Rightarrow> bool" where
  "dead_probe_due C ck M i \<longleftrightarrow>
     (let delay = next_delay_secs C default_probe_policy i (dead_count i (pm_dead M));
          dead_age = (case dead_age_secs (ck_instant ck) i (pm_dead M) of None \<Rightarrow> 0 | Some a \<Rightarrow> a);
          probe_age = last_probe_age_secs (ck_instant ck) i (pm_dead M)
      in dead_age \<ge> delay \<and> (case probe_age of None \<Rightarrow> True | Some a \<Rightarrow> a \<ge> delay))"

definition probe_dead_adaptive :: "crypto \<Rightarrow> clock \<Rightarrow> pool_manager \<Rightarrow> pool_manager" where
  "probe_dead_adaptive C ck M =
     (let is = dead_select_all_for_probe (pm_dead M);
          batch = next_batch_size (length is) 0
      in if batch = 0 then M
         else
           fold (spawn_known DeadProbe) (take batch (filter (dead_probe_due C ck M) is)) M)"

text \<open>The completion of a spawned probe; \<open>ok\<close> is the answer of the network probe.\<close>

definition run_probe :: "probe_job \<Rightarrow> bool \<Rightarrow> clock \<Rightarrow> pool_manager \<Rightarrow> pool_manager" where
  "run_probe j ok ck M =
     (let i = pj_id j; n = pj_node j
      in case pj_kind j of
           ReportProbe \<Rightarrow>
             if ok then readmit ck i (n\<lparr>nr_id := i\<rparr>)
                          (M\<lparr>pm_ratelimited := rl_recover i (pm_ratelimited M)\<rparr>)
             else M
         | PeriodicProbe \<Rightarrow>
             if ok then
               let M = M\<lparr>pm_ratelimited := rl_recover i (pm_ratelimited M)\<rparr>
               in if pj_fused j then M else readmit ck i (n\<lparr>nr_id := i\<rparr>) M
             else M
         | DeadProbe \<Rightarrow>
             (let (successes, K) = record_probe_result (ck_instant ck) i ok (pm_dead M);
                  M = M\<lparr>pm_dead := K\<rparr>
              in if recovery_proven successes False then
                   let M = M\<lparr>pm_dead := dead_recover i (pm_dead M),
                             pm_ratelimited := rl_recover i (pm_ratelimited M)\<rparr>
                   in if pj_fused j then M else readmit ck i n M
                 else M))"

text \<open>The completion of the job at position \<open>k\<close>; jobs complete in any order.\<close>

definition finish_probe :: "nat \<Rightarrow> bool \<Rightarrow> clock \<Rightarrow> pool_manager \<Rightarrow> pool_manager" where
  "finish_probe k ok ck M =
     (if k < length (pm_probes M) then
        run_probe (pm_probes M ! k) ok ck
          (M\<lparr>pm_probes := take k (pm_probes M) @ drop (Suc k) (pm_probes M)\<rparr>)
      else M)"

section \<open>Statistics\<close>

record pool_stats =
  pst_dispatch_size :: nat
  pst_active_size :: nat
  pst_ratelimited_size :: nat
  pst_dead_size :: nat
  pst_fuse :: bool
  pst_cooldown_size :: nat
  pst_budget_limited_size :: nat
  pst_leased_count :: nat

definition pool_stats_of :: "clock \<Rightarrow> pool_manager \<Rightarrow> pool_stats" where
  "pool_stats_of ck M =
     (let (cool, limited, leased) = dp_budget_counts (ck_secs ck) (pm_dispatch M)
      in \<lparr>pst_dispatch_size = dp_available (ck_secs ck) (pm_dispatch M),
          pst_active_size = active_available (pm_active M),
          pst_ratelimited_size = length (pm_ratelimited M),
          pst_dead_size = length (pm_dead M),
          pst_fuse = pm_fuse M, pst_cooldown_size = cool,
          pst_budget_limited_size = limited, pst_leased_count = leased\<rparr>)"

end
