(* ===== verification/ManagerCorrect.thy ===== *)
theory ManagerCorrect
  imports PoolManager
begin

text \<open>
  The invariant of the pool manager, its preservation by every operation and every
  completion of a spawned probe, in any order (the step relation \<open>pm_reach\<close>), and where
  each operation leaves a node.
\<close>

section \<open>Invariant\<close>

definition pm_wf :: "pool_manager \<Rightarrow> bool" where
  "pm_wf M \<longleftrightarrow>
     dp_wf (pm_dispatch M) \<and> active_wf (pm_active M) \<and> rl_wf (pm_ratelimited M) \<and>
     dead_wf (pm_dead M) \<and> registry_wf (pm_nodes M) \<and>
     (\<forall>j \<in> set (pm_probes M). nr_id (pj_node j) = pj_id j)"

abbreviation in_dispatch :: "pool_manager \<Rightarrow> node_id set" where
  "in_dispatch M \<equiv> dp_ids (pm_dispatch M)"

abbreviation in_dead :: "pool_manager \<Rightarrow> node_id set" where
  "in_dead M \<equiv> hm_keys (pm_dead M)"

abbreviation in_quarantine :: "pool_manager \<Rightarrow> node_id set" where
  "in_quarantine M \<equiv> hm_keys (pm_ratelimited M)"

abbreviation known :: "pool_manager \<Rightarrow> node_id set" where
  "known M \<equiv> hm_keys (pm_nodes M)"

lemma pm_wfD:
  assumes "pm_wf M"
  shows "dp_wf (pm_dispatch M)" and "active_wf (pm_active M)" and "rl_wf (pm_ratelimited M)"
    and "dead_wf (pm_dead M)" and "registry_wf (pm_nodes M)"
    and "j \<in> set (pm_probes M) \<Longrightarrow> nr_id (pj_node j) = pj_id j"
  using assms by (simp_all add: pm_wf_def)

lemma PoolManager_new_wf:
  "dp_wf D \<Longrightarrow> active_wf A \<Longrightarrow> rl_wf R \<Longrightarrow> dead_wf K \<Longrightarrow>
     pm_wf (PoolManager_new D A R K ct rt allow pins)"
  by (simp add: pm_wf_def PoolManager_new_def registry_wf_def)

lemma register_known_node_wf [wf_intros]: "pm_wf M \<Longrightarrow> pm_wf (register_known_node n M)"
  by (simp add: pm_wf_def register_known_node_def registry_wf_insert)

definition leased :: "node_ref \<Rightarrow> dispatch_pool \<Rightarrow> bool" where
  "leased n P \<longleftrightarrow> (\<exists>q \<in> set (dp_nodes P). pn_node q = n \<and> 0 < pn_active_leases q)"

text \<open>Every node that an acquisition returns keeps the pools well-formed.\<close>

lemma acquire_any_step:
  assumes "acquire_any m ex ck M ev = (r, D, ev')" and M: "pm_wf M"
  shows "dp_wf D \<and> dp_ids D = in_dispatch M \<and>
         (case r of
            Inl _ \<Rightarrow> dp_leases D = dp_leases (pm_dispatch M)
          | Inr (n, hit, aff) \<Rightarrow>
              n = direct_node \<and> \<not> hit \<and> dp_leases D = dp_leases (pm_dispatch M) \<and>
                pm_allow_direct_fallback M \<and> rm_allow_direct_fallback m \<or>
              nr_id n \<notin> set ex \<and> nr_id n \<in> in_dispatch M \<and> leased n D \<and>
                dp_leases D = dp_leases (pm_dispatch M) + 1)"
proof -
  note P = pm_wfD(1) [OF M]
  have eff: "dp_wf D \<and> dp_ids D = dp_ids P \<and> dp_leases D = dp_leases P + (if q = None then 0 else 1) \<and>
      (\<forall>n. q = Some n \<longrightarrow> nr_id n \<in> dp_ids P \<and> leased n D)" if "dp_step q P D" for q P D
  proof -
    have "nr_id n \<in> dp_ids P \<and> leased n D" if "q = Some n" for n
      using dp_step_granted [of n P D] dp_step_leased [of n P D] that \<open>dp_step q P D\<close>
      by (auto simp: dp_ids_def leased_def)
    then show ?thesis
      using dp_step_frame(7) [OF that] dp_step_ids [OF that] dp_step_leases [OF that] by simp
  qed
  obtain r1 D1 ev1 where a: "try_acquire_affinity_excluding (pm_dispatch M) m ex (ck_secs ck) ev
      = (r1, D1, ev1)" by (metis prod_cases3)
  note t = try_acquire_affinity_step [OF a P]
  show ?thesis
  proof (cases r1)
    case (Inr ni)
    obtain n i where ni: "ni = (n, i)" by fastforce
    from t Inr ni have s: "dp_step (Some n) (pm_dispatch M) D1" and x: "nr_id n \<notin> set ex" by auto
    from assms(1) a Inr ni have "r = Inr (n, True, i)" "D = D1"
      by (auto simp: acquire_any_def)
    with eff [OF s] x show ?thesis by simp
  next
    case (Inl e)
    with t have s: "dp_step None (pm_dispatch M) D1" by simp
    note e1 = eff [OF s]
    obtain r2 D2 ev2 where b: "acquire_for_excluding D1 m ex (ck_secs ck) ev1 = (r2, D2, ev2)"
      by (metis prod_cases3)
    from e1 have "dp_wf D1" by simp
    note t2 = acquire_for_excluding_step [OF b this]
    note e2 = eff [OF conjunct1 [OF t2]]
    from assms(1) a b Inl have D: "D = D2" and
      r: "r = (case r2 of Some n \<Rightarrow> Inr (n, False, [])
             | None \<Rightarrow> if pm_allow_direct_fallback M \<and> rm_allow_direct_fallback m
                       then Inr (direct_node, False, []) else Inl NoResource)"
      by (auto simp: acquire_any_def split: option.splits)
    show ?thesis
    proof (cases r2)
      case (Some n)
      with D r e1 e2 t2 show ?thesis by simp
    next
      case None
      with D r e1 e2 show ?thesis by simp
    qed
  qed
qed

section \<open>The effect of a dispatch\<close>

text \<open>
  \<open>dispatch_effect ex ck r M M'\<close>: a dispatch that excluded \<open>ex\<close> took the manager from \<open>M\<close>
  to \<open>M'\<close> with the result \<open>r\<close>.  A node of the pool costs one lease and one active request;
  the direct route and an error cost neither, unless a pooled node has the direct route's id.
\<close>

definition dispatch_effect ::
  "node_id list \<Rightarrow> clock \<Rightarrow> dispatch_error + dispatch_result \<Rightarrow> pool_manager \<Rightarrow> pool_manager \<Rightarrow> bool" where
  "dispatch_effect ex ck r M M' \<longleftrightarrow>
     pm_wf M' \<and> in_dispatch M' = in_dispatch M \<and> pm_fuse M' = pm_fuse M \<and>
     pm_allow_direct_fallback M' = pm_allow_direct_fallback M \<and>
     pm_ratelimited M' = pm_ratelimited M \<and> pm_dead M' = pm_dead M \<and>
     pm_probes M' = pm_probes M \<and>
     (case r of
        Inl _ \<Rightarrow> dp_leases (pm_dispatch M') = dp_leases (pm_dispatch M) \<and> pm_active M' = pm_active M
      | Inr d \<Rightarrow>
          DIRECT_NODE_ID \<in> in_dispatch M \<or>
          dr_node d = direct_node \<and> pm_allow_direct_fallback M \<and>
            dp_leases (pm_dispatch M') = dp_leases (pm_dispatch M) \<and> pm_active M' = pm_active M \<or>
          nr_id (dr_node d) \<notin> insert DIRECT_NODE_ID (set ex) \<and>
            nr_id (dr_node d) \<in> in_dispatch M \<and> nr_id (dr_node d) \<in> known M' \<and>
            leased (dr_node d) (pm_dispatch M') \<and>
            dp_leases (pm_dispatch M') = dp_leases (pm_dispatch M) + 1 \<and>
            pm_active M' = active_add (ck_instant ck) (dr_node d) (pm_active M))"

lemma dispatch_effect_refl: "pm_wf M \<Longrightarrow> dispatch_effect ex ck (Inl e) M M"
  by (simp add: dispatch_effect_def)

lemma dispatch_effect_trans:
  "dispatch_effect ex ck (Inl e) M M1 \<Longrightarrow> dispatch_effect ex ck r M1 M2 \<Longrightarrow> dispatch_effect ex ck r M M2"
  unfolding dispatch_effect_def by (cases r) simp_all

lemma dispatch_effect_wf: "dispatch_effect ex ck r M M' \<Longrightarrow> pm_wf M'"
  by (simp add: dispatch_effect_def)

lemma without_pin_effect:
  assumes "dispatch_without_session_pin_excluding m ex ck M ev = (r, M', ev')"
    and M: "pm_wf M"
  shows "dispatch_effect ex ck r M M'"
proof -
  obtain r1 D ev1 where a: "acquire_any m ex ck M ev = (r1, D, ev1)" by (metis prod_cases3)
  note t = acquire_any_step [OF a M]
  have D: "dp_wf D" "dp_ids D = in_dispatch M" using t by simp_all
  note w = pm_wfD [OF M]
  show ?thesis
  proof (cases r1)
    case (Inl e)
    with assms(1) a have "r = Inl e" "M' = M\<lparr>pm_dispatch := D\<rparr>"
      by (auto simp: dispatch_without_session_pin_excluding_def)
    with Inl t M show ?thesis by (simp add: dispatch_effect_def pm_wf_def)
  next
    case (Inr x)
    obtain n hit aff where x: "x = (n, hit, aff)" by (metis prod_cases3)
    show ?thesis
    proof (cases "nr_id n = DIRECT_NODE_ID")
      case True
      with t Inr x have n: "DIRECT_NODE_ID \<in> in_dispatch M \<or> n = direct_node \<and>
          dp_leases D = dp_leases (pm_dispatch M) \<and> pm_allow_direct_fallback M" by auto
      from assms(1) a Inr x True obtain c tr where "M' = M\<lparr>pm_dispatch := D, pm_transport := tr\<rparr>"
        "r = Inr \<lparr>dr_node = n, dr_client = c, dr_url = nr_url n, dr_affinity_hit = hit,
                  dr_affinity_node_id = aff, dr_session_pin_hit = False\<rparr>"
        by (auto simp: dispatch_without_session_pin_excluding_def Let_def split: prod.splits)
      with n D w show ?thesis by (auto simp: dispatch_effect_def pm_wf_def)
    next
      case False
      then have "n \<noteq> direct_node" by (auto simp: direct_node_def)
      with t Inr x have n: "nr_id n \<notin> set ex" "nr_id n \<in> in_dispatch M"
        "dp_leases D = dp_leases (pm_dispatch M) + 1" "leased n D" by simp_all
      obtain c tr where c: "client_for_node n (pm_transport M) = (c, tr)" by fastforce
      obtain ps ev2 where p: "pin_record (rm_upstream_model m) (rm_session_id m) (nr_id n)
          (pm_pins M) ev1 = (ps, ev2)" by fastforce
      let ?pinned = "rm_session_id m \<noteq> [] \<and> rm_upstream_model m \<noteq> []"
      from False have nd': "nr_id n \<noteq> ''direct''" by (simp add: DIRECT_NODE_ID_def)
      have "r = Inr \<lparr>dr_node = n, dr_client = c, dr_url = nr_url n, dr_affinity_hit = hit,
                  dr_affinity_node_id = aff, dr_session_pin_hit = False\<rparr> \<and>
        M' = M\<lparr>pm_dispatch := D, pm_active := active_add (ck_instant ck) n (pm_active M),
                pm_nodes := registry_insert n (pm_nodes M),
                pm_pins := (if ?pinned then ps else pm_pins M), pm_transport := tr\<rparr>"
        using assms(1) a Inr x False nd' c p
        by (cases ?pinned) (auto simp: dispatch_without_session_pin_excluding_def)
      with n D w False show ?thesis
        by (auto simp: dispatch_effect_def pm_wf_def active_add_wf registry_wf_insert registry_keys)
    qed
  qed
qed

lemma sticky_excluding_effect:
  assumes "dispatch_sticky_excluding m i ex ck M ev = (r, M', ev')"
    and M: "pm_wf M"
  shows "dispatch_effect ex ck r M M'"
proof -
  note w = pm_wfD [OF M]
  consider (refused) e where "r = Inl e" "M' = M"
    | (direct) "\<not> pm_fuse M" "dispatch_direct M = (r, M')"
    | (fallback) "dispatch_without_session_pin_excluding m ex ck M ev = (r, M', ev')"
    | (sticky) q D ev1 where "i \<notin> set ex" "i \<noteq> DIRECT_NODE_ID"
        "try_acquire_sticky (pm_dispatch M) m i (ck_secs ck) ev = (q, D, ev1)"
    using assms(1)
    by (auto simp: dispatch_sticky_excluding_def split: if_splits sum.splits prod.splits)
  then show ?thesis
  proof cases
    case refused
    with M show ?thesis by (simp add: dispatch_effect_refl)
  next
    case direct
    then show ?thesis using w
      by (auto simp: dispatch_direct_def dispatch_effect_def pm_wf_def Let_def
          split: if_splits prod.splits)
  next
    case fallback
    from without_pin_effect [OF this M] show ?thesis .
  next
    case sticky
    note t = try_acquire_sticky_step [OF sticky(3) w(1)]
    have D: "dp_wf D" "dp_ids D = in_dispatch M"
      using t dp_step_frame(7) dp_step_ids by blast+
    show ?thesis
    proof (cases "pm_fuse M \<or> (\<exists>e. preflight (pm_dispatch M) m = Inl e)")
      case True
      with assms(1) have "\<exists>e. r = Inl e" "M' = M"
        by (auto simp: dispatch_sticky_excluding_def split: if_splits)
      with M show ?thesis by (auto simp: dispatch_effect_refl)
    next
      case False
      then have f: "\<not> pm_fuse M" "\<exists>u. preflight (pm_dispatch M) m = Inr u"
        by (auto simp: preflight_def split: if_splits)
      let ?M = "M\<lparr>pm_dispatch := D\<rparr>"
      show ?thesis
      proof (cases q)
        case (Inl e)
        with t dp_step_leases have "dispatch_effect ex ck (Inl e) M ?M"
          using w D by (auto simp: dispatch_effect_def pm_wf_def)
        moreover from assms(1) sticky f Inl
        have "dispatch_without_session_pin_excluding m ex ck ?M ev1 = (r, M', ev')"
          by (auto simp: dispatch_sticky_excluding_def)
        from without_pin_effect [OF this dispatch_effect_wf [OF calculation]]
        have "dispatch_effect ex ck r ?M M'" .
        ultimately show ?thesis by (rule dispatch_effect_trans)
      next
        case (Inr n)
        with t have s: "dp_step (Some n) (pm_dispatch M) D" and id: "nr_id n = i" by simp_all
        from dp_step_granted [OF s] have "nr_id n \<in> in_dispatch M" by (auto simp: dp_ids_def)
        moreover from dp_step_leased [OF s] have "leased n D" by (simp add: leased_def)
        moreover from assms(1) sticky f Inr obtain c tr where
          "M' = M\<lparr>pm_dispatch := D, pm_active := active_add (ck_instant ck) n (pm_active M),
                  pm_nodes := registry_insert n (pm_nodes M), pm_transport := tr\<rparr>"
          "r = Inr \<lparr>dr_node = n, dr_client = c, dr_url = nr_url n, dr_affinity_hit = False,
                    dr_affinity_node_id = [], dr_session_pin_hit = True\<rparr>"
          by (auto simp: dispatch_sticky_excluding_def Let_def split: prod.splits)
        ultimately show ?thesis using w D dp_step_leases [OF s] sticky(1,2) id
          by (auto simp: dispatch_effect_def pm_wf_def active_add_wf registry_wf_insert registry_keys)
      qed
    qed
  qed
qed

lemma dispatch_excluding_effect:
  assumes "dispatch_excluding m ex ck M ev = (r, M', ev')"
    and M: "pm_wf M"
  shows "dispatch_effect ex ck r M M'"
proof -
  consider (refused) e where "r = Inl e" "M' = M"
    | (plain) ev1 where "dispatch_without_session_pin_excluding m ex ck M ev1 = (r, M', ev')"
    | (pinned) i ev1 where "dispatch_sticky_excluding m i ex ck M ev1 = (r, M', ev')"
    | (again) i e M1 ev1 ev2 where "dispatch_sticky_excluding m i ex ck M ev1 = (Inl e, M1, ev2)"
        "dispatch_without_session_pin_excluding m ex ck M1 ev2 = (r, M', ev')"
    using assms(1)
    by (auto simp: dispatch_excluding_def split: if_splits sum.splits option.splits prod.splits)
  then show ?thesis
  proof cases
    case refused
    with M show ?thesis by (simp add: dispatch_effect_refl)
  next
    case plain
    from without_pin_effect [OF this M] show ?thesis .
  next
    case pinned
    from sticky_excluding_effect [OF this M] show ?thesis .
  next
    case again
    note e = sticky_excluding_effect [OF again(1) M]
    from dispatch_effect_trans [OF e without_pin_effect [OF again(2) dispatch_effect_wf [OF e]]]
    show ?thesis .
  qed
qed

section \<open>Where the operations leave a node\<close>

lemma release_both_effect:
  assumes "pm_wf M"
  shows "pm_wf (release_both i r l ck M)" and "in_dispatch (release_both i r l ck M) = in_dispatch M"
  using dp_release_correct [OF pm_wfD(1) [OF assms]] assms
  by (simp_all add: release_both_def pm_wf_def active_release_wf)

lemma spawn_probe_effect [simp]:
  "pm_dispatch (spawn_probe k i n M) = pm_dispatch M"
  "pm_active (spawn_probe k i n M) = pm_active M"
  "pm_ratelimited (spawn_probe k i n M) = pm_ratelimited M"
  "pm_dead (spawn_probe k i n M) = pm_dead M"
  "pm_nodes (spawn_probe k i n M) = pm_nodes M"
  "pm_fuse (spawn_probe k i n M) = pm_fuse M"
  "pm_probes (spawn_probe k i n M) =
     pm_probes M @ [\<lparr>pj_kind = k, pj_id = i, pj_node = n, pj_fused = pm_fuse M\<rparr>]"
  by (simp_all add: spawn_probe_def split: prod.split)

lemma spawn_probe_wf: "pm_wf M \<Longrightarrow> nr_id n = i \<Longrightarrow> pm_wf (spawn_probe k i n M)"
  by (auto simp: pm_wf_def)

lemma dp_remove_wf_pm [wf_intros]:
  "pm_wf M \<Longrightarrow> pm_wf (M\<lparr>pm_dispatch := dp_remove i (pm_dispatch M)\<rparr>)"
  by (simp add: pm_wf_def dp_remove_correct)

lemma report_wf:
  assumes M: "pm_wf M"
  shows "pm_wf (report C i r l ck M)"
proof (cases "i = DIRECT_NODE_ID")
  case False
  show ?thesis
  proof (cases r)
    case RateLimited
    let ?M1 = "M\<lparr>pm_ratelimited := rl_quarantine C (ck_today ck) i (pm_ratelimited M)\<rparr>"
    let ?M2 = "release_both i r l ck ?M1"
    let ?M3 = "?M2\<lparr>pm_dispatch := dp_remove i (pm_dispatch ?M2)\<rparr>"
    have "pm_wf ?M1" using M by (simp add: pm_wf_def rl_ops_wf)
    then have M3: "pm_wf ?M3" by (intro dp_remove_wf_pm release_both_effect)
    have "pm_nodes ?M3 = pm_nodes M" by (simp add: release_both_def)
    then have "nr_id n = i" if "registry_get i (pm_nodes ?M3) = Some n" for n
      using that registry_get_id [OF pm_wfD(5) [OF M]] by simp
    with M3 False RateLimited show ?thesis
      by (auto simp: report_def Let_def intro: spawn_probe_wf split: option.splits)
  next
    case (ErrorResult e)
    let ?M2 = "release_both i r l ck M"
    have "pm_wf (?M2\<lparr>pm_dispatch := dp_remove i (pm_dispatch ?M2)\<rparr>)"
      using M by (intro dp_remove_wf_pm release_both_effect)
    with False ErrorResult show ?thesis
      by (auto simp: report_def Let_def pm_wf_def dead_ops_wf split: option.splits)
  qed (use False release_both_effect(1) [OF M] in \<open>simp_all add: report_def\<close>)
qed (use M in \<open>simp add: report_def\<close>)

lemma hints_wf:
  assumes "pm_wf M"
  shows "pm_wf (pm_record_latency_hint i l M)" and "pm_wf (pm_record_bucket_latency_hint i b l M)"
    and "pm_wf (pm_record_affinity_success k i M)"
  using dp_hints_correct [OF pm_wfD(1) [OF assms]] assms
  by (simp_all add: pm_record_latency_hint_def pm_record_bucket_latency_hint_def
      pm_record_affinity_success_def pm_wf_def)

lemma fuse_all_eq:
  "fuse_all C ck M =
     M\<lparr>pm_fuse := True,
       pm_dispatch := fold dp_remove (registry_ids (pm_nodes M)) (pm_dispatch M),
       pm_dead := fold (dead_bury C (ck_instant ck)) (registry_ids (pm_nodes M)) (pm_dead M)\<rparr>"
proof -
  have "fold (\<lambda>i M. M\<lparr>pm_dispatch := dp_remove i (pm_dispatch M),
                    pm_dead := dead_bury C (ck_instant ck) i (pm_dead M)\<rparr>) is N =
      N\<lparr>pm_dispatch := fold dp_remove is (pm_dispatch N),
        pm_dead := fold (dead_bury C (ck_instant ck)) is (pm_dead N)\<rparr>" for "is" and N :: pool_manager
    by (induction "is" arbitrary: N) simp_all
  then show ?thesis by (simp add: fuse_all_def)
qed

lemma fuse_all_effect:
  assumes M: "pm_wf M"
  shows "pm_wf (fuse_all C ck M)" and "in_dispatch (fuse_all C ck M) = in_dispatch M - known M"
    and "in_dead (fuse_all C ck M) = known M \<union> in_dead M"
    and "known (fuse_all C ck M) = known M"
  using dispatch.wf_remove_all dispatch.ids_remove_all dead.wf_hold_all dead.ids_hold_all M
  by (simp_all add: fuse_all_eq pm_wf_def set_registry_ids)

lemma unfuse_step_effect:
  assumes M: "pm_wf M"
  shows "pm_wf (unfuse_step ck i M)" and "pm_nodes (unfuse_step ck i M) = pm_nodes M"
    and "in_dispatch (unfuse_step ck i M) = in_dispatch M \<union> ({i} \<inter> known M)"
    and "in_dead (unfuse_step ck i M) = in_dead M - ({i} \<inter> known M)"
    and "pm_ratelimited (unfuse_step ck i M) = pm_ratelimited M"
    and "pm_fuse (unfuse_step ck i M) = pm_fuse M"
proof -
  note w = pm_wfD [OF M]
  have k: "i \<in> known M \<longleftrightarrow> registry_get i (pm_nodes M) \<noteq> None"
    by (simp add: registry_get_def hm_keys_map_of)
  have "nr_id n = i" if "registry_get i (pm_nodes M) = Some n" for n
    using registry_get_id [OF w(5) that] .
  then show "pm_wf (unfuse_step ck i M)" "pm_nodes (unfuse_step ck i M) = pm_nodes M"
    "in_dispatch (unfuse_step ck i M) = in_dispatch M \<union> ({i} \<inter> known M)"
    "in_dead (unfuse_step ck i M) = in_dead M - ({i} \<inter> known M)"
    "pm_ratelimited (unfuse_step ck i M) = pm_ratelimited M"
    "pm_fuse (unfuse_step ck i M) = pm_fuse M"
    using w k M
    by (auto simp: unfuse_step_def pm_wf_def dp_add_correct dead_ops_wf dead_keys split: option.splits)
qed

lemma unfuse_fold_effect:
  "pm_wf M \<Longrightarrow>
     pm_wf (fold (unfuse_step ck) is M) \<and> pm_nodes (fold (unfuse_step ck) is M) = pm_nodes M \<and>
     in_dispatch (fold (unfuse_step ck) is M) = in_dispatch M \<union> (set is \<inter> known M) \<and>
     in_dead (fold (unfuse_step ck) is M) = in_dead M - (set is \<inter> known M) \<and>
     pm_ratelimited (fold (unfuse_step ck) is M) = pm_ratelimited M \<and>
     pm_fuse (fold (unfuse_step ck) is M) = pm_fuse M"
proof (induction "is" arbitrary: M)
  case (Cons i "is")
  note s = unfuse_step_effect [OF Cons.prems, of ck i]
  from Cons.IH [OF s(1)] s(2-6) show ?case by auto
qed simp

lemma unfuse_all_effect:
  assumes M: "pm_wf M"
  shows "pm_wf (unfuse_all ck M)"
    and "in_dispatch (unfuse_all ck M) = in_dispatch M \<union> (in_dead M \<inter> known M)"
    and "in_dead (unfuse_all ck M) = in_dead M - known M"
    and "in_quarantine (unfuse_all ck M) = in_quarantine M" and "\<not> pm_fuse (unfuse_all ck M)"
proof -
  have "pm_wf (M\<lparr>pm_fuse := False\<rparr>)" using M by (simp add: pm_wf_def)
  note u = unfuse_fold_effect [OF this, of ck "dead_select_all_for_probe (pm_dead M)"]
  then show "pm_wf (unfuse_all ck M)"
    "in_dispatch (unfuse_all ck M) = in_dispatch M \<union> (in_dead M \<inter> known M)"
    "in_dead (unfuse_all ck M) = in_dead M - known M"
    "in_quarantine (unfuse_all ck M) = in_quarantine M" "\<not> pm_fuse (unfuse_all ck M)"
    by (auto simp: unfuse_all_def set_dead_select)
qed

lemma readmit_effect:
  assumes M: "pm_wf M"
  shows "pm_wf (readmit ck i n M)" and "in_dispatch (readmit ck i n M) = insert (nr_id n) (in_dispatch M)"
  using dp_add_correct [OF pm_wfD(1) [OF M]] dp_release_correct M
  by (simp_all add: readmit_def dp_release_def pm_wf_def)

lemma readmit_frame [simp]:
  "pm_ratelimited (readmit ck i n M) = pm_ratelimited M" "pm_dead (readmit ck i n M) = pm_dead M"
  "pm_nodes (readmit ck i n M) = pm_nodes M" "pm_fuse (readmit ck i n M) = pm_fuse M"
  "pm_active (readmit ck i n M) = pm_active M" "pm_probes (readmit ck i n M) = pm_probes M"
  by (simp_all add: readmit_def)

lemma add_node_effect:
  assumes M: "pm_wf M"
  shows "pm_wf (add_node C url ck M)"
    and "in_dispatch (add_node C url ck M) = insert (nr_id (NodeRef_new C url)) (in_dispatch M)"
    and "known (add_node C url ck M) = insert (nr_id (NodeRef_new C url)) (known M)"
  using dp_add_correct [OF pm_wfD(1) [OF M]] M
  by (simp_all add: add_node_def Let_def pm_wf_def registry_wf_insert registry_keys)

lemma remove_node_effect:
  assumes M: "pm_wf M"
  shows "pm_wf (remove_node i M)"
    and "in_dispatch (remove_node i M) = in_dispatch M - {i}"
    and "in_dead (remove_node i M) = in_dead M - {i}"
    and "in_quarantine (remove_node i M) = in_quarantine M - {i}"
    and "known (remove_node i M) = known M - {i}"
    and "hm_keys (pm_active (remove_node i M)) = hm_keys (pm_active M) - {i}"
    and "map_of (tr_clients (pm_transport (remove_node i M))) i = None"
  using dp_remove_correct [OF pm_wfD(1) [OF M]] M
  by (simp_all add: remove_node_def pm_wf_def active_remove_wf rl_ops_wf dead_ops_wf
      registry_wf_remove dead_keys rl_keys registry_keys active_keys_remove remove_client_def
      hm.get_del)

lemma recover_node_effect:
  assumes M: "pm_wf M" and i: "i \<in> known M"
  shows "pm_wf (recover_node i ck M)"
    and "in_dead (recover_node i ck M) = in_dead M - {i}"
    and "in_quarantine (recover_node i ck M) = in_quarantine M - {i}"
    and "in_dispatch (recover_node i ck M) =
           (if pm_fuse M then in_dispatch M - {i} else insert i (in_dispatch M))"
    and "pm_nodes (recover_node i ck M) = pm_nodes M" and "pm_fuse (recover_node i ck M) = pm_fuse M"
proof -
  from i obtain n where n: "registry_get i (pm_nodes M) = Some n"
    by (auto simp: registry_get_def hm_keys_map_of)
  then have id: "nr_id n = i" by (rule registry_get_id [OF pm_wfD(5) [OF M]])
  let ?M = "M\<lparr>pm_dead := dead_recover i (pm_dead M), pm_ratelimited := rl_recover i (pm_ratelimited M)\<rparr>"
  have w: "pm_wf ?M" using M by (simp add: pm_wf_def dead_ops_wf rl_ops_wf)
  show "pm_wf (recover_node i ck M)"
    using n readmit_effect(1) [OF w] dp_remove_wf_pm [OF w]
    by (simp add: recover_node_def Let_def)
  show "in_dead (recover_node i ck M) = in_dead M - {i}"
    "in_quarantine (recover_node i ck M) = in_quarantine M - {i}"
    "pm_nodes (recover_node i ck M) = pm_nodes M" "pm_fuse (recover_node i ck M) = pm_fuse M"
    using n by (simp_all add: recover_node_def dead_keys rl_keys Let_def)
  show "in_dispatch (recover_node i ck M) =
           (if pm_fuse M then in_dispatch M - {i} else insert i (in_dispatch M))"
    using n id readmit_effect(2) [OF w] dp_remove_correct [OF pm_wfD(1) [OF M]]
    by (simp add: recover_node_def Let_def)
qed

lemma recover_node_wf: "pm_wf M \<Longrightarrow> pm_wf (recover_node i ck M)"
  using recover_node_effect(1) [of M i ck]
  by (cases "i \<in> known M") (auto simp: recover_node_def registry_get_def hm_keys_map_of)

text \<open>Spawning probes for a list of nodes changes nothing but the clients and the jobs.\<close>

lemma spawn_known_effect:
  assumes M: "pm_wf M"
  shows "pm_wf (spawn_known k i M) \<and> pm_dispatch (spawn_known k i M) = pm_dispatch M \<and>
         pm_dead (spawn_known k i M) = pm_dead M \<and> pm_nodes (spawn_known k i M) = pm_nodes M \<and>
         pm_ratelimited (spawn_known k i M) = pm_ratelimited M \<and>
         (\<exists>js. pm_probes (spawn_known k i M) = pm_probes M @ js \<and> length js \<le> 1 \<and>
           (\<forall>j \<in> set js. pj_kind j = k \<and> pj_id j \<in> {i} \<inter> known M))"
proof (cases "registry_get i (pm_nodes M)")
  case None
  with M show ?thesis by (simp add: spawn_known_def)
next
  case (Some n)
  have "nr_id n = i" by (rule registry_get_id [OF pm_wfD(5) [OF M] Some])
  from spawn_probe_wf [OF M this, of k] Some show ?thesis
    by (simp add: spawn_known_def registry_get_def hm_keys_map_of)
qed

lemma spawn_all_effect:
  "pm_wf M \<Longrightarrow>
     pm_wf (fold (spawn_known k) is M) \<and> pm_dispatch (fold (spawn_known k) is M) = pm_dispatch M \<and>
     pm_dead (fold (spawn_known k) is M) = pm_dead M \<and> pm_nodes (fold (spawn_known k) is M) = pm_nodes M \<and>
     pm_ratelimited (fold (spawn_known k) is M) = pm_ratelimited M \<and>
     (\<exists>js. pm_probes (fold (spawn_known k) is M) = pm_probes M @ js \<and> length js \<le> length is \<and>
       (\<forall>j \<in> set js. pj_kind j = k \<and> pj_id j \<in> set is \<inter> known M))"
proof (induction "is" arbitrary: M)
  case (Cons i "is")
  let ?N = "spawn_known k i M"
  from spawn_known_effect [OF Cons.prems, of k i] obtain js where 1: "pm_wf ?N"
    "pm_dispatch ?N = pm_dispatch M" "pm_dead ?N = pm_dead M" "pm_nodes ?N = pm_nodes M"
    "pm_ratelimited ?N = pm_ratelimited M" "pm_probes ?N = pm_probes M @ js" "length js \<le> 1"
    "\<forall>j \<in> set js. pj_kind j = k \<and> pj_id j \<in> {i} \<inter> known M" by blast
  from Cons.IH [OF 1(1)] obtain ls where 2: "pm_probes (fold (spawn_known k) is ?N) = pm_probes ?N @ ls"
    "length ls \<le> length is" "\<forall>j \<in> set ls. pj_kind j = k \<and> pj_id j \<in> set is \<inter> known ?N" by blast
  have "pm_probes (fold (spawn_known k) (i # is) M) = pm_probes M @ (js @ ls)"
    using 1(6) 2(1) by simp
  moreover have "length (js @ ls) \<le> length (i # is)" using 1(7) 2(2) by simp
  moreover have "\<forall>j \<in> set (js @ ls). pj_kind j = k \<and> pj_id j \<in> set (i # is) \<inter> known M"
    using 1(4,8) 2(3) by auto
  ultimately show ?case using Cons.IH [OF 1(1)] 1(2-5) by auto
qed simp

lemma probe_selection_wf:
  assumes "pm_wf M"
  shows "pm_wf (probe_ratelimited_periodic M)" and "pm_wf (probe_dead_adaptive C ck M)"
  using spawn_all_effect [OF assms] assms
  by (simp_all add: probe_ratelimited_periodic_def probe_dead_adaptive_def Let_def)

lemma run_probe_wf:
  assumes M: "pm_wf M"
  shows "pm_wf (run_probe j ok ck M)"
proof -
  have r: "pm_wf (N\<lparr>pm_ratelimited := rl_recover i (pm_ratelimited N)\<rparr>)"
    "pm_wf (N\<lparr>pm_dead := dead_recover i (pm_dead N), pm_ratelimited := rl_recover i (pm_ratelimited N)\<rparr>)"
    "pm_wf (N\<lparr>pm_dead := snd (record_probe_result t i ok (pm_dead N))\<rparr>)"
    if "pm_wf N" for N i t
    using that by (simp_all add: pm_wf_def rl_ops_wf dead_ops_wf record_probe_result_wf)
  show ?thesis
  proof (cases "pj_kind j")
    case DeadProbe
    obtain s K where s: "record_probe_result (ck_instant ck) (pj_id j) ok (pm_dead M) = (s, K)"
      by fastforce
    with r(3) [OF M, of "ck_instant ck" "pj_id j"] have K: "pm_wf (M\<lparr>pm_dead := K\<rparr>)" by simp
    with DeadProbe s readmit_effect(1) [OF r(2) [OF K]] r(2) [OF K] show ?thesis
      by (simp add: run_probe_def Let_def)
  qed (use M r(1) [OF M] readmit_effect(1) [OF r(1) [OF M]] in \<open>simp_all add: run_probe_def Let_def\<close>)
qed

lemma finish_probe_wf:
  assumes "pm_wf M"
  shows "pm_wf (finish_probe k ok ck M)"
proof -
  have "set (take k (pm_probes M) @ drop (Suc k) (pm_probes M)) \<subseteq> set (pm_probes M)"
    by (auto dest: in_set_takeD in_set_dropD)
  with assms have "pm_wf (M\<lparr>pm_probes := take k (pm_probes M) @ drop (Suc k) (pm_probes M)\<rparr>)"
    by (auto simp: pm_wf_def)
  from run_probe_wf [OF this] assms show ?thesis by (simp add: finish_probe_def)
qed

section \<open>Every reachable state\<close>

datatype pm_op =
  OpDispatch request_meta "node_id list"
| OpSticky request_meta node_id "node_id list"
| OpDirect
| OpReport node_id result_kind nat
| OpLatencyHint node_id nat
| OpBucketLatencyHint node_id string nat
| OpAffinitySuccess string node_id
| OpRegister node_ref
| OpAddNode string
| OpRemoveNode node_id
| OpRecoverNode node_id
| OpFuse
| OpUnfuse
| OpProbeRateLimited
| OpProbeDead
| OpFinishProbe nat bool

fun pm_exec :: "crypto \<Rightarrow> pm_op \<Rightarrow> clock \<Rightarrow> env \<Rightarrow> pool_manager \<Rightarrow> pool_manager" where
  "pm_exec C (OpDispatch m ex) ck ev M = fst (snd (dispatch_excluding m ex ck M ev))"
| "pm_exec C (OpSticky m i ex) ck ev M = fst (snd (dispatch_sticky_excluding m i ex ck M ev))"
| "pm_exec C OpDirect ck ev M = snd (dispatch_direct M)"
| "pm_exec C (OpReport i r l) ck ev M = report C i r l ck M"
| "pm_exec C (OpLatencyHint i l) ck ev M = pm_record_latency_hint i l M"
| "pm_exec C (OpBucketLatencyHint i b l) ck ev M = pm_record_bucket_latency_hint i b l M"
| "pm_exec C (OpAffinitySuccess k i) ck ev M = pm_record_affinity_success k i M"
| "pm_exec C (OpRegister n) ck ev M = register_known_node n M"
| "pm_exec C (OpAddNode url) ck ev M = add_node C url ck M"
| "pm_exec C (OpRemoveNode i) ck ev M = remove_node i M"
| "pm_exec C (OpRecoverNode i) ck ev M = recover_node i ck M"
| "pm_exec C OpFuse ck ev M = fuse_all C ck M"
| "pm_exec C OpUnfuse ck ev M = unfuse_all ck M"
| "pm_exec C OpProbeRateLimited ck ev M = probe_ratelimited_periodic M"
| "pm_exec C OpProbeDead ck ev M = probe_dead_adaptive C ck M"
| "pm_exec C (OpFinishProbe k ok) ck ev M = finish_probe k ok ck M"

text \<open>
  Operations and probe completions in any order, each with its own clock and answers of
  the environment.
\<close>

inductive pm_reach :: "crypto \<Rightarrow> pool_manager \<Rightarrow> pool_manager \<Rightarrow> bool" for C M0 where
  pm_init: "pm_reach C M0 M0"
| pm_step: "pm_reach C M0 M \<Longrightarrow> pm_reach C M0 (pm_exec C op ck ev M)"

lemma dispatch_wf:
  assumes M: "pm_wf M"
  shows "pm_wf (fst (snd (dispatch_excluding m ex ck M ev)))"
    and "pm_wf (fst (snd (dispatch_sticky_excluding m i ex ck M ev)))"
    and "pm_wf (snd (dispatch_direct M))"
proof -
  show "pm_wf (fst (snd (dispatch_excluding m ex ck M ev)))"
    using dispatch_effect_wf [OF dispatch_excluding_effect [OF _ M]] by (metis prod.collapse)
  show "pm_wf (fst (snd (dispatch_sticky_excluding m i ex ck M ev)))"
    using dispatch_effect_wf [OF sticky_excluding_effect [OF _ M]] by (metis prod.collapse)
  show "pm_wf (snd (dispatch_direct M))"
    using M by (auto simp: dispatch_direct_def pm_wf_def split: prod.split)
qed

lemma pm_exec_wf:
  assumes "pm_wf M"
  shows "pm_wf (pm_exec C op ck ev M)"
  using assms
  by (cases op) (simp_all add: dispatch_wf report_wf hints_wf register_known_node_wf add_node_effect(1)
      remove_node_effect(1) recover_node_wf fuse_all_effect(1) unfuse_all_effect(1)
      probe_selection_wf finish_probe_wf)

lemma pm_reach_wf: "pm_reach C M0 M \<Longrightarrow> pm_wf M0 \<Longrightarrow> pm_wf M"
  by (induction rule: pm_reach.induct) (simp_all add: pm_exec_wf)

end
