(* ===== verification/ManagerTheorems.thy ===== *)
theory ManagerTheorems
  imports ManagerCorrect
begin

text \<open>
  The properties of the pool manager: which node a dispatch returns and what it costs, when
  a dispatch fails, what the fuse, the reports and the probes do to the nodes, and the cases
  in which the code loses or resurrects a node.
\<close>

section \<open>Helper lemmas\<close>

text \<open>A sticky attempt that fails leaves the set of eligible nodes alone.\<close>

lemma admit_node_refused:
  assumes "admit_node False fo m now p ev = (False, q, ev')"
  shows "\<not> eligible m now ex p" and "\<not> eligible m now ex q"
proof -
  have r: "\<not> fst (try_admit m now p)"
    using assms by (auto simp: admit_node_def global_admit_def split: prod.splits if_splits)
  then show "\<not> eligible m now ex p" by (simp add: eligible_def try_admit_True_iff)
  from r assms have "q = snd (try_admit m now p)" by (auto simp: admit_node_def split: prod.splits)
  with refused_stays_refused [OF r] show "\<not> eligible m now ex q"
    by (simp add: eligible_def try_admit_True_iff)
qed

lemma try_acquire_sticky_Inl:
  assumes "try_acquire_sticky P m i now ev = (Inl e, P', ev')" and P: "dp_wf P" "\<not> dp_global_budget P"
  shows "eligibles m now ex (dp_nodes P') = eligibles m now ex (dp_nodes P)"
proof (cases "find_idx (\<lambda>p. pn_id p = i) (dp_shards P ! shard_of P i)")
  case None
  with assms(1) show ?thesis by (auto simp: try_acquire_sticky_def split: if_splits)
next
  case (Some j)
  let ?k = "shard_of P i"
  let ?ns = "dp_shards P ! ?k"
  from find_idx_Some [OF Some] have j: "j < length ?ns" by simp
  obtain ok p ev1 where a: "admit_node False (dp_global_fail_open P) m now (?ns ! j) ev = (ok, p, ev1)"
    by (metis prod_cases3)
  show ?thesis
  proof (cases "request_exceeds_single_node_budget P m")
    case True
    with assms(1) show ?thesis by (simp add: try_acquire_sticky_def)
  next
    case False
    with assms(1) a Some P(2) have "\<not> ok" and P': "P' = set_shard ?k (?ns[j := p]) P"
      by (auto simp: try_acquire_sticky_def Let_def split: if_splits)
    with a have "admit_node False (dp_global_fail_open P) m now (?ns ! j) ev = (False, p, ev1)"
      by simp
    from admit_node_refused [OF this] have "eligibles m now ex (?ns[j := p]) = eligibles m now ex ?ns"
      using j by (subst (2) id_take_nth_drop [OF j]) (simp add: upd_conv_take_nth_drop)
    from eligibles_set_shard [OF shard_of_less [OF P(1)] this] show ?thesis by (simp add: P')
  qed
qed

lemma sticky_first_None:
  "sticky_first is P m now ev = (None, P', ev') \<Longrightarrow> dp_wf P \<Longrightarrow> \<not> dp_global_budget P \<Longrightarrow>
     eligibles m now ex (dp_nodes P') = eligibles m now ex (dp_nodes P)"
proof (induction "is" arbitrary: P ev)
  case (Cons i "is")
  obtain q Q ev1 where s: "try_acquire_sticky P m i now ev = (q, Q, ev1)" by (metis prod_cases3)
  with Cons.prems(1) obtain e where q: "q = Inl e" by (cases q) auto
  with Cons.prems(1) s have r: "sticky_first is Q m now ev1 = (None, P', ev')" by simp
  from try_acquire_sticky_step [OF s Cons.prems(2)] q have "dp_step None P Q" by simp
  note f = dp_step_frame [OF this]
  from Cons.IH [OF r f(7)] f(4) Cons.prems(3) try_acquire_sticky_Inl [OF s [unfolded q] Cons.prems(2,3)]
  show ?case by simp
qed simp

lemma acquire_any_complete:
  assumes M: "pm_wf M" "\<not> dp_global_budget (pm_dispatch M)"
    "\<not> request_exceeds_single_node_budget (pm_dispatch M) m"
    and "acquire_any m ex ck M ev = (Inl e, D, ev')"
  shows "e = NoResource \<and> \<not> (pm_allow_direct_fallback M \<and> rm_allow_direct_fallback m) \<and>
         eligibles m (ck_secs ck) ex (dp_nodes (pm_dispatch M)) = []"
proof -
  note P = pm_wfD(1) [OF M(1)]
  obtain r1 D1 ev1 where a: "try_acquire_affinity_excluding (pm_dispatch M) m ex (ck_secs ck) ev
      = (r1, D1, ev1)" by (metis prod_cases3)
  from assms(4) a obtain e1 where r1: "r1 = Inl e1"
    by (cases r1) (auto simp: acquire_any_def)
  from try_acquire_affinity_step [OF a P] r1 have "dp_step None (pm_dispatch M) D1" by simp
  note f = dp_step_frame [OF this]
  have el: "eligibles m (ck_secs ck) ex (dp_nodes D1) = eligibles m (ck_secs ck) ex (dp_nodes (pm_dispatch M))"
    using a r1 sticky_first_None [OF _ P M(2)]
    by (auto simp: try_acquire_affinity_excluding_def Let_def split: if_splits prod.splits option.splits)
  obtain r2 D2 ev2 where b: "acquire_for_excluding D1 m ex (ck_secs ck) ev1 = (r2, D2, ev2)"
    by (metis prod_cases3)
  from assms(4) a b r1 have r2: "r2 = None"
    and rest: "e = NoResource \<and> \<not> (pm_allow_direct_fallback M \<and> rm_allow_direct_fallback m)"
    by (auto simp: acquire_any_def split: option.splits if_splits)
  have "\<not> request_exceeds_single_node_budget D1 m"
    using M(3) f(1) by (simp add: request_exceeds_single_node_budget_def)
  with acquire_for_excluding_complete [OF f(7), of m ex "ck_secs ck" ev1] f(4) M(2) b r2
  have "eligibles m (ck_secs ck) ex (dp_nodes D1) = []" by (auto simp: filter_empty_conv)
  with el rest show ?thesis by simp
qed

lemma without_pin_complete:
  assumes "pm_wf M" "\<not> dp_global_budget (pm_dispatch M)"
    "\<not> request_exceeds_single_node_budget (pm_dispatch M) m"
    and "dispatch_without_session_pin_excluding m ex ck M ev = (Inl e, M', ev')"
  shows "e = NoResource \<and> \<not> (pm_allow_direct_fallback M \<and> rm_allow_direct_fallback m) \<and>
         eligibles m (ck_secs ck) ex (dp_nodes (pm_dispatch M)) = []"
proof -
  obtain r D ev1 where a: "acquire_any m ex ck M ev = (r, D, ev1)" by (metis prod_cases3)
  show ?thesis
  proof (cases r)
    case (Inl e')
    with assms(4) a have "e = e'" by (auto simp: dispatch_without_session_pin_excluding_def)
    with acquire_any_complete [OF assms(1-3) a [unfolded Inl]] show ?thesis by simp
  next
    case (Inr x)
    with assms(4) a show ?thesis
      by (cases x) (auto simp: dispatch_without_session_pin_excluding_def Let_def split: prod.splits)
  qed
qed

lemma sticky_excluding_complete:
  assumes M: "pm_wf M" "\<not> dp_global_budget (pm_dispatch M)"
    "\<not> request_exceeds_single_node_budget (pm_dispatch M) m" "\<not> pm_fuse M"
    and s: "dispatch_sticky_excluding m i ex ck M ev = (Inl e, M', ev')"
  shows "M' = M \<or>
         \<not> (pm_allow_direct_fallback M \<and> rm_allow_direct_fallback m) \<and>
         eligibles m (ck_secs ck) ex (dp_nodes (pm_dispatch M)) = []"
proof (cases "i = DIRECT_NODE_ID \<or> i \<in> set ex")
  case True
  with s M(3,4) without_pin_complete [OF M(1-3), of ex ck ev] show ?thesis
    by (auto simp: dispatch_sticky_excluding_def preflight_def dispatch_direct_def Let_def
        split: if_splits prod.splits)
next
  case False
  obtain q D ev1 where t: "try_acquire_sticky (pm_dispatch M) m i (ck_secs ck) ev = (q, D, ev1)"
    by (metis prod_cases3)
  with s False M(3,4) obtain e1 where q: "q = Inl e1"
    by (cases q) (auto simp: dispatch_sticky_excluding_def preflight_def Let_def split: prod.splits)
  let ?M = "M\<lparr>pm_dispatch := D\<rparr>"
  note P = pm_wfD(1) [OF M(1)]
  from try_acquire_sticky_step [OF t P] q have "dp_step None (pm_dispatch M) D" by simp
  note f = dp_step_frame [OF this]
  have "pm_wf ?M" "\<not> dp_global_budget (pm_dispatch ?M)"
    "\<not> request_exceeds_single_node_budget (pm_dispatch ?M) m"
    using M f by (simp_all add: pm_wf_def request_exceeds_single_node_budget_def)
  note c = without_pin_complete [OF this]
  from s t q False M(3,4)
  have "dispatch_without_session_pin_excluding m ex ck ?M ev1 = (Inl e, M', ev')"
    by (simp add: dispatch_sticky_excluding_def preflight_def)
  from c [OF this] try_acquire_sticky_Inl [OF t [unfolded q] P M(2)] show ?thesis by simp
qed

lemma dispatch_excluding_complete:
  assumes M: "pm_wf M" "\<not> dp_global_budget (pm_dispatch M)"
    "\<not> request_exceeds_single_node_budget (pm_dispatch M) m" "\<not> pm_fuse M"
    and s: "dispatch_excluding m ex ck M ev = (Inl e, M', ev')"
  shows "\<not> (pm_allow_direct_fallback M \<and> rm_allow_direct_fallback m) \<and>
         eligibles m (ck_secs ck) ex (dp_nodes (pm_dispatch M)) = []"
proof -
  consider (plain) ev1 where "dispatch_without_session_pin_excluding m ex ck M ev1 = (Inl e, M', ev')"
    | (again) i e1 M1 ev1 ev2 where "dispatch_sticky_excluding m i ex ck M ev1 = (Inl e1, M1, ev2)"
        "dispatch_without_session_pin_excluding m ex ck M1 ev2 = (Inl e, M', ev')"
    using s M(3,4)
    by (auto simp: dispatch_excluding_def preflight_def
        split: if_splits sum.splits option.splits prod.splits)
  then show ?thesis
  proof cases
    case plain
    from without_pin_complete [OF M(1-3) this] show ?thesis by simp
  next
    case again
    from sticky_excluding_complete [OF M again(1)] show ?thesis
      using without_pin_complete [OF M(1-3)] again(2) by blast
  qed
qed

section \<open>An example state\<close>

definition demo_crypto :: crypto where
  "demo_crypto = \<lparr>sha256 = (\<lambda>s. s), hex_encode = (\<lambda>s. s)\<rparr>"

definition demo_clock :: clock where
  "demo_clock = \<lparr>ck_secs = 0, ck_instant = 0, ck_today = 20250101\<rparr>"

definition demo_pm :: pool_manager where
  "demo_pm =
     register_known_node (demo_ref ''b'') (register_known_node (demo_ref ''a'')
       (PoolManager_new demo_pool [] [] [] 7 30 False \<lparr>ps_redis = False, ps_memory = []\<rparr>))"

lemma demo_pm_wf: "pm_wf demo_pm"
  unfolding demo_pm_def
  by (intro register_known_node_wf PoolManager_new_wf demo_pool_wf)
    (simp_all add: active_wf_def rl_wf_def dead_wf_def)

lemma demo_pm_fields:
  "pm_dispatch demo_pm = demo_pool" "pm_fuse demo_pm = False" "pm_dead demo_pm = []"
  "pm_ratelimited demo_pm = []" "pm_probes demo_pm = []" "pm_allow_direct_fallback demo_pm = False"
  "pm_active demo_pm = []" "known demo_pm = {''a'', ''b''}" "dp_ids demo_pool = {''a'', ''b''}"
  by (simp_all add: demo_pm_def register_known_node_def PoolManager_new_def registry_insert_def
      hm_keys_def demo_ref_def dp_ids_def demo_pool_nodes insert_commute)

section \<open>Dispatch\<close>

text \<open>
  C1: Whatever operations and probe completions run, in any order and with any answers of
  the outside services, the manager built on empty pools stays well-formed: every node of
  the dispatch pool sits once in the shard its id hashes to, budgets and limits are within
  their bounds, the maps have no duplicate keys, and every pending probe is about the node
  it carries.
\<close>

theorem manager_invariant:
  assumes "aimd_wf A"
    and "pm_reach C (PoolManager_new (DispatchPool_new_with_options t L A k) [] [] [] ct rt allow pins) M"
  shows "pm_wf M"
proof (rule pm_reach_wf [OF assms(2)])
  show "pm_wf (PoolManager_new (DispatchPool_new_with_options t L A k) [] [] [] ct rt allow pins)"
    by (intro PoolManager_new_wf dp_wf_new assms(1))
      (simp_all add: active_wf_def rl_wf_def dead_wf_def)
qed

lemma manager_invariant_witness:
  "pm_wf (pm_exec demo_crypto (OpAddNode ''socks5://h'') demo_clock demo_env
     (PoolManager_new (DispatchPool_new_with_options 0 default_limits default_aimd 4) [] [] [] 7 30
        True \<lparr>ps_redis = False, ps_memory = []\<rparr>))"
  by (rule manager_invariant [OF default_aimd_wf, of demo_crypto], rule pm_step, rule pm_init)

text \<open>
  C3: A dispatch that succeeds returns either the direct route, which it may only do when
  the manager allows it and which costs nothing, or a node of the dispatch pool that is not
  excluded: the pin, affinity and fallback paths all honour the exclusion list.  A pooled
  node costs exactly one lease and one active request and becomes known to the registry;
  the other pools, the fuse and the set of dispatched nodes stay the same.
\<close>

theorem dispatch_sound:
  assumes "pm_wf M" and nd: "DIRECT_NODE_ID \<notin> in_dispatch M"
    and d: "dispatch_excluding m ex ck M ev = (Inr d, M', ev')"
  shows "in_dispatch M' = in_dispatch M \<and> pm_dead M' = pm_dead M \<and>
         pm_ratelimited M' = pm_ratelimited M \<and> pm_fuse M' = pm_fuse M \<and>
         (dr_node d = direct_node \<and> pm_allow_direct_fallback M \<and>
            dp_leases (pm_dispatch M') = dp_leases (pm_dispatch M) \<and> pm_active M' = pm_active M \<or>
          nr_id (dr_node d) \<notin> set ex \<and> nr_id (dr_node d) \<in> in_dispatch M \<inter> known M' \<and>
            dp_leases (pm_dispatch M') = dp_leases (pm_dispatch M) + 1 \<and>
            active_count (pm_active M') (nr_id (dr_node d)) =
              i64_wrap (active_count (pm_active M) (nr_id (dr_node d)) + 1))"
proof -
  from dispatch_excluding_effect [OF d assms(1)] nd
  have "dispatch_effect ex ck (Inr d) M M'" and "DIRECT_NODE_ID \<notin> in_dispatch M" by simp_all
  then show ?thesis
    unfolding dispatch_effect_def sum.case by (elim conjE disjE) (simp_all add: active_count_add)
qed

lemma demo_dispatch:
  "\<exists>d M' ev'. dispatch_excluding demo_meta [''a''] demo_clock demo_pm demo_env = (Inr d, M', ev')"
proof -
  obtain r M' ev' where d: "dispatch_excluding demo_meta [''a''] demo_clock demo_pm demo_env = (r, M', ev')"
    by (metis prod_cases3)
  show ?thesis
  proof (cases r)
    case (Inl e)
    have "eligibles demo_meta (ck_secs demo_clock) [''a''] (dp_nodes (pm_dispatch demo_pm)) \<noteq> []"
      using demo_pool_ready(3) by (auto simp: filter_empty_conv demo_pm_fields demo_clock_def)
    with dispatch_excluding_complete [OF demo_pm_wf _ _ _ d [unfolded Inl]] demo_pool_ready(1,2)
    show ?thesis by (simp add: demo_pm_fields)
  qed (use d in blast)
qed

lemma dispatch_sound_witness:
  "\<exists>d M' ev'. dispatch_excluding demo_meta [''a''] demo_clock demo_pm demo_env = (Inr d, M', ev') \<and>
     nr_id (dr_node d) \<notin> set [''a''] \<and> dp_leases (pm_dispatch M') = dp_leases demo_pool + 1"
proof -
  obtain d M' ev' where d: "dispatch_excluding demo_meta [''a''] demo_clock demo_pm demo_env = (Inr d, M', ev')"
    using demo_dispatch by blast
  have "DIRECT_NODE_ID \<notin> in_dispatch demo_pm" by (simp add: demo_pm_fields DIRECT_NODE_ID_def)
  from dispatch_sound [OF demo_pm_wf this d] d show ?thesis by (simp add: demo_pm_fields)
qed

text \<open>
  C4: On a manager whose dispatch pool has no shared (Redis) budget configured, a dispatch fails only
  for a local reason: while the fuse is open with \<open>NoResource\<close>, for a request larger than a node's
  budget with \<open>RequestTooLarge\<close>, and otherwise only when no node outside the exclusion list can
  admit the request and the direct route is not allowed.  With a shared budget the error can also
  be that budget's refusal, of which nothing is claimed here.
\<close>

theorem dispatch_complete:
  assumes "pm_wf M" and "\<not> dp_global_budget (pm_dispatch M)"
    and "dispatch_excluding m ex ck M ev = (Inl e, M', ev')"
  shows "if pm_fuse M then e = NoResource \<and> M' = M
         else if request_exceeds_single_node_budget (pm_dispatch M) m
              then e = RequestTooLarge \<and> M' = M
         else \<not> (pm_allow_direct_fallback M \<and> rm_allow_direct_fallback m) \<and>
              (\<forall>p \<in> set (dp_nodes (pm_dispatch M)). \<not> eligible m (ck_secs ck) ex p)"
proof (cases "pm_fuse M \<or> request_exceeds_single_node_budget (pm_dispatch M) m")
  case True
  with assms(3) show ?thesis by (auto simp: dispatch_excluding_def preflight_def)
next
  case False
  with dispatch_excluding_complete [OF assms(1,2) _ _ assms(3)] show ?thesis
    by (simp add: filter_empty_conv)
qed

lemma dispatch_complete_witness:
  "\<exists>e M' ev'. dispatch_excluding demo_meta [''a'', ''b''] demo_clock demo_pm demo_env = (Inl e, M', ev') \<and>
     (\<forall>p \<in> set (dp_nodes demo_pool). \<not> eligible demo_meta 0 [''a'', ''b''] p)"
proof -
  obtain r M' ev' where d:
    "dispatch_excluding demo_meta [''a'', ''b''] demo_clock demo_pm demo_env = (r, M', ev')"
    by (metis prod_cases3)
  show ?thesis
  proof (cases r)
    case (Inl e)
    from dispatch_complete [OF demo_pm_wf _ d [unfolded Inl]] demo_pool_ready(1,2) d Inl
    show ?thesis by (simp add: demo_pm_fields demo_clock_def)
  next
    case (Inr x)
    have "DIRECT_NODE_ID \<notin> in_dispatch demo_pm" by (simp add: demo_pm_fields DIRECT_NODE_ID_def)
    with dispatch_excluding_effect [OF d demo_pm_wf] Inr show ?thesis
      by (auto simp: dispatch_effect_def demo_pm_fields)
  qed
qed

section \<open>The fuse\<close>

text \<open>
  C9: On a manager whose dispatched nodes are all registered (which fails after the race of
  C12), \<open>fuse_all\<close> opens the fuse, empties the dispatch pool and buries every registered node;
  afterwards no dispatch entry point returns a node, not even the direct route or a sticky one, and
  none changes the state.
\<close>

theorem fuse_blocks_dispatch:
  assumes "pm_wf M" and "in_dispatch M \<subseteq> known M"
  shows "let F = fuse_all C ck M in
           dispatch_excluding m ex ck' F ev = (Inl NoResource, F, ev) \<and>
           dispatch_sticky_excluding m i ex ck' F ev = (Inl NoResource, F, ev) \<and>
           dispatch_direct F = (Inl NoResource, F) \<and>
           in_dispatch F = {} \<and> in_dead F = in_dead M \<union> known M"
proof -
  have "pm_fuse (fuse_all C ck M)" by (simp add: fuse_all_eq)
  with fuse_all_effect [OF assms(1)] assms(2) show ?thesis
    by (auto simp: Let_def dispatch_excluding_def dispatch_sticky_excluding_def dispatch_direct_def)
qed

lemma demo_pm_registered: "in_dispatch demo_pm \<subseteq> known demo_pm"
  by (simp add: demo_pm_fields)

lemma fuse_blocks_dispatch_witness:
  "dispatch_excluding demo_meta [] demo_clock (fuse_all demo_crypto demo_clock demo_pm) demo_env =
     (Inl NoResource, fuse_all demo_crypto demo_clock demo_pm, demo_env) \<and>
   in_dispatch (fuse_all demo_crypto demo_clock demo_pm) = {}"
  using fuse_blocks_dispatch [OF demo_pm_wf demo_pm_registered, where ?C = demo_crypto and ?ck = demo_clock
      and ?m = demo_meta and ?ex = "[]" and ?ck' = demo_clock and ?ev = demo_env]
  by (simp add: Let_def)

text \<open>
  C10: Opening the fuse and closing it again puts every registered node into dispatch,
  including nodes that were dead before the fuse was opened and nodes that are still in
  quarantine; of the dead pool only unregistered ids stay.
\<close>

theorem fuse_unfuse_round_trip:
  assumes "pm_wf M"
  shows "let U = unfuse_all ck' (fuse_all C ck M) in
           pm_wf U \<and> \<not> pm_fuse U \<and> in_dispatch U = in_dispatch M \<union> known M \<and>
           in_dead U = in_dead M - known M \<and> in_quarantine U = in_quarantine M"
proof -
  note f = fuse_all_effect [OF assms, of C ck]
  have "in_quarantine (fuse_all C ck M) = in_quarantine M" by (simp add: fuse_all_eq)
  with unfuse_all_effect [OF f(1), of ck'] f(2-4) show ?thesis by (auto simp: Let_def)
qed

lemma fuse_unfuse_round_trip_witness:
  "let U = unfuse_all demo_clock (fuse_all demo_crypto demo_clock demo_pm) in
     in_dispatch U = {''a'', ''b''} \<and> in_dead U = {}"
  using fuse_unfuse_round_trip [OF demo_pm_wf, of demo_clock demo_crypto demo_clock]
  by (simp add: Let_def demo_pm_fields)

section \<open>Reports\<close>

text \<open>
  C7: A report about the direct route changes nothing.  A hard error takes the node out of
  dispatch and buries it, with its own reference when it is registered; a rate limit takes
  it out of dispatch into quarantine and, when it is registered, spawns exactly one probe of
  it; the four other outcomes move no node.
\<close>

theorem report_moves_nodes:
  assumes M: "pm_wf M"
  shows "let M' = report C i r l ck M in
           if i = DIRECT_NODE_ID then M' = M
           else case r of
             ErrorResult _ \<Rightarrow>
               in_dispatch M' = in_dispatch M - {i} \<and> in_dead M' = insert i (in_dead M) \<and>
               in_quarantine M' = in_quarantine M \<and> pm_probes M' = pm_probes M \<and>
               (\<forall>n. registry_get i (pm_nodes M) = Some n \<longrightarrow> i \<notin> in_dead M \<longrightarrow>
                    dead_get_node_ref i (pm_dead M') = Some n)
           | RateLimited \<Rightarrow>
               in_dispatch M' = in_dispatch M - {i} \<and> in_dead M' = in_dead M \<and>
               in_quarantine M' = insert i (in_quarantine M) \<and>
               length (pm_probes M') = length (pm_probes M) + (if i \<in> known M then 1 else 0)
           | _ \<Rightarrow>
               in_dispatch M' = in_dispatch M \<and> in_dead M' = in_dead M \<and>
               in_quarantine M' = in_quarantine M \<and> pm_probes M' = pm_probes M"
proof (cases "i = DIRECT_NODE_ID")
  case True
  then show ?thesis by (simp add: report_def)
next
  case False
  note P = dp_release_correct [OF pm_wfD(1) [OF M], of i r l "ck_secs ck"]
  then have rem: "dp_ids (dp_remove i (dp_release_with_latency i r l (ck_secs ck) (pm_dispatch M)))
      = in_dispatch M - {i}"
    by (simp add: dp_remove_correct)
  have k: "i \<in> known M \<longleftrightarrow> (\<exists>n. registry_get i (pm_nodes M) = Some n)"
    by (simp add: registry_get_def hm_keys_map_of)
  have id: "nr_id n = i" if "registry_get i (pm_nodes M) = Some n" for n
    using registry_get_id [OF pm_wfD(5) [OF M] that] .
  show ?thesis
  proof (cases r)
    case RateLimited
    with False P rem k show ?thesis
      by (cases "registry_get i (pm_nodes M)")
        (simp_all add: report_def Let_def release_both_def rl_keys)
  next
    case (ErrorResult e)
    have "dead_get_node_ref i (dead_bury C t i (dead_add t n (pm_dead M))) = Some n"
      if "nr_id n = i" "i \<notin> in_dead M" for n t
      using that by (simp add: dead_get_node_ref_def dead_bury_def dead_add_def hm_keys_map_of
          hm.get_put split: option.splits)
    with ErrorResult False P rem id show ?thesis
      by (cases "registry_get i (pm_nodes M)")
        (simp_all add: report_def Let_def release_both_def dead_keys)
  qed (use False P in \<open>simp_all add: report_def Let_def release_both_def\<close>)
qed

lemma report_moves_nodes_witness:
  "in_dispatch (report demo_crypto ''a'' (ErrorResult Timeout) 5 demo_clock demo_pm) = {''b''} \<and>
   in_dead (report demo_crypto ''a'' (ErrorResult Timeout) 5 demo_clock demo_pm) = {''a''}"
  using report_moves_nodes [OF demo_pm_wf, of demo_crypto "''a''" "ErrorResult Timeout" 5 demo_clock]
  by (simp add: Let_def DIRECT_NODE_ID_def demo_pm_fields)

lemma report_soft_leases:
  assumes "pm_wf M" and "i \<noteq> DIRECT_NODE_ID"
    and "\<not> (\<exists>e. r = ErrorResult e)" and "r \<noteq> RateLimited"
  shows "report C i r l ck M = release_both i r l ck M"
  using assms by (simp add: report_def split: result_kind.split)

text \<open>
  C6: Leases and active counts balance.  When a dispatch returned a pooled node, a report of
  any outcome that keeps the node in service gives back exactly that lease and that active
  request: the totals are those before the dispatch.
\<close>

theorem dispatch_report_balance:
  assumes "pm_wf M" and "DIRECT_NODE_ID \<notin> in_dispatch M"
    and "dispatch_excluding m ex ck M ev = (Inr d, M1, ev')" and "dr_node d \<noteq> direct_node"
    and "\<not> (\<exists>e. r = ErrorResult e)" and "r \<noteq> RateLimited"
    and "- (2 ^ 63) \<le> active_count (pm_active M) (nr_id (dr_node d))"
    and "active_count (pm_active M) (nr_id (dr_node d)) < 2 ^ 63 - 1"
  shows "let M2 = report C (nr_id (dr_node d)) r l ck' M1
         in dp_leases (pm_dispatch M1) = dp_leases (pm_dispatch M) + 1 \<and>
            dp_leases (pm_dispatch M2) = dp_leases (pm_dispatch M) \<and>
            (\<forall>j. active_count (pm_active M2) j = active_count (pm_active M) j)"
proof -
  let ?i = "nr_id (dr_node d)"
  have x: "pm_wf M1 \<and> ?i \<noteq> DIRECT_NODE_ID \<and> leased (dr_node d) (pm_dispatch M1) \<and>
    dp_leases (pm_dispatch M1) = dp_leases (pm_dispatch M) + 1 \<and>
    pm_active M1 = active_add (ck_instant ck) (dr_node d) (pm_active M)"
    using dispatch_excluding_effect [OF assms(3,1)] assms(2,4)
    unfolding dispatch_effect_def sum.case by (elim conjE disjE) simp_all
  then have e: "pm_wf M1" "?i \<noteq> DIRECT_NODE_ID" "leased (dr_node d) (pm_dispatch M1)"
    "dp_leases (pm_dispatch M1) = dp_leases (pm_dispatch M) + 1"
    "pm_active M1 = active_add (ck_instant ck) (dr_node d) (pm_active M)" by blast+
  from e(3) obtain q where q: "q \<in> set (dp_nodes (pm_dispatch M1))" "pn_node q = dr_node d"
    "0 < pn_active_leases q" by (auto simp: leased_def)
  have "Suc (dp_leases (dp_release_with_latency ?i r l (ck_secs ck') (pm_dispatch M1)))
      = dp_leases (pm_dispatch M1)"
    using dp_release_leases [OF pm_wfD(1) [OF e(1)] q(1,3)] q(2) by simp
  moreover have "?i \<in> hm_keys (pm_active M1)" by (simp add: e(5) active_keys_add)
  moreover have "i64_sat_sub (i64_wrap (active_count (pm_active M) ?i + 1)) 1 = active_count (pm_active M) ?i"
    using assms(7,8) i64_wrap_id [of "active_count (pm_active M) ?i + 1"]
    by (simp add: i64_sat_sub_def)
  ultimately show ?thesis
    using e(4) report_soft_leases [OF e(1,2) assms(5,6), of C l ck']
    by (simp add: Let_def release_both_def active_count_release) (simp add: e(5) active_count_add)
qed

lemma dispatch_report_balance_witness:
  "\<exists>d M1 ev'. dispatch_excluding demo_meta [''a''] demo_clock demo_pm demo_env = (Inr d, M1, ev') \<and>
     dp_leases (pm_dispatch (report demo_crypto (nr_id (dr_node d)) (Success 200) 9 demo_clock M1)) =
     dp_leases demo_pool"
proof -
  obtain d M1 ev' where d: "dispatch_excluding demo_meta [''a''] demo_clock demo_pm demo_env = (Inr d, M1, ev')"
    using demo_dispatch by blast
  have nd: "DIRECT_NODE_ID \<notin> in_dispatch demo_pm" by (simp add: demo_pm_fields DIRECT_NODE_ID_def)
  have "nr_id (dr_node d) \<noteq> DIRECT_NODE_ID"
    using dispatch_excluding_effect [OF d demo_pm_wf] nd
    unfolding dispatch_effect_def sum.case by (elim conjE disjE) (simp_all add: demo_pm_fields)
  then have "dr_node d \<noteq> direct_node" by (auto simp: direct_node_def)
  from dispatch_report_balance [OF demo_pm_wf nd d this, of "Success 200" demo_crypto 9 demo_clock]
  have "dp_leases (pm_dispatch (report demo_crypto (nr_id (dr_node d)) (Success 200) 9 demo_clock M1)) =
     dp_leases demo_pool"
    by (simp add: demo_pm_fields active_count_def Let_def)
  with d show ?thesis by blast
qed

section \<open>Recovery and probes\<close>

text \<open>
  Recovering a node while the fuse is open loses it: \<open>recover_node\<close> takes it out of the
  dead and the quarantine pool and keeps it out of dispatch, and closing the fuse later
  re-adds the dead nodes only, so the node is known but in none of the pools.
\<close>

lemma recover_under_fuse_loses_node:
  assumes "pm_wf M" and "i \<in> known M" and "pm_fuse M"
  shows "let U = unfuse_all ck' (recover_node i ck M) in
           i \<in> known U \<and> i \<notin> in_dispatch U \<and> i \<notin> in_dead U \<and> i \<notin> in_quarantine U"
proof -
  note r = recover_node_effect [OF assms(1,2), of ck]
  have "pm_nodes (unfuse_all ck' (recover_node i ck M)) = pm_nodes (recover_node i ck M)"
    using unfuse_fold_effect [of "(recover_node i ck M)\<lparr>pm_fuse := False\<rparr>"] r(1)
    by (simp add: unfuse_all_def pm_wf_def)
  with unfuse_all_effect [OF r(1), of ck'] r assms(2,3) show ?thesis by (simp add: Let_def)
qed

lemma recover_under_fuse_loses_node_witness:
  "let U = unfuse_all demo_clock (recover_node ''a'' demo_clock (fuse_all demo_crypto demo_clock demo_pm))
   in ''a'' \<in> known U \<and> ''a'' \<notin> in_dispatch U \<and> ''a'' \<notin> in_dead U"
proof -
  have "pm_fuse (fuse_all demo_crypto demo_clock demo_pm)" by (simp add: fuse_all_eq)
  moreover have "''a'' \<in> known (fuse_all demo_crypto demo_clock demo_pm)"
    using fuse_all_effect(4) [OF demo_pm_wf] by (simp add: demo_pm_fields)
  ultimately show ?thesis
    using recover_under_fuse_loses_node [OF fuse_all_effect(1) [OF demo_pm_wf], of "''a''"]
    by (simp add: Let_def)
qed

text \<open>
  C11: Removing a node does not cancel a probe of it: a rate limit spawns the probe, the
  removal takes the node out of every pool, the registry and the client cache, and the
  probe's success then puts the node back into dispatch although the registry no longer
  knows it.
\<close>

theorem removed_node_resurrected:
  assumes M: "pm_wf M" and "i \<in> known M" and "i \<noteq> DIRECT_NODE_ID"
  shows "let R = remove_node i (report C i RateLimited l ck M);
             F = finish_probe (length (pm_probes M)) True ck' R
         in i \<notin> in_dispatch R \<and> i \<notin> known R \<and> i \<in> in_dispatch F \<and> i \<notin> known F"
proof -
  let ?Q = "report C i RateLimited l ck M"
  let ?R = "remove_node i ?Q"
  from assms(2) obtain n where n: "registry_get i (pm_nodes M) = Some n"
    by (auto simp: registry_get_def hm_keys_map_of)
  then have q: "pm_probes ?Q = pm_probes M @
      [\<lparr>pj_kind = ReportProbe, pj_id = i, pj_node = n, pj_fused = pm_fuse M\<rparr>]"
    using assms(3) by (simp add: report_def Let_def release_both_def)
  have Q: "pm_wf ?Q" by (rule report_wf [OF M])
  note R = remove_node_effect [OF Q, of i]
  have p: "pm_probes ?R = pm_probes ?Q" by (simp add: remove_node_def)
  let ?N = "?R\<lparr>pm_probes := pm_probes M, pm_ratelimited := rl_recover i (pm_ratelimited ?R)\<rparr>"
  have N: "pm_wf ?N" using R(1) M by (simp add: pm_wf_def rl_ops_wf)
  have "finish_probe (length (pm_probes M)) True ck' ?R = readmit ck' i (n\<lparr>nr_id := i\<rparr>) ?N"
    by (simp add: finish_probe_def p q run_probe_def)
  then show ?thesis using R(2,5) readmit_effect(2) [OF N, of ck' i "n\<lparr>nr_id := i\<rparr>"]
    by (simp add: Let_def)
qed

lemma removed_node_resurrected_witness:
  "let R = remove_node ''a'' (report demo_crypto ''a'' RateLimited 1 demo_clock demo_pm);
       F = finish_probe 0 True demo_clock R
   in ''a'' \<notin> in_dispatch R \<and> ''a'' \<in> in_dispatch F \<and> ''a'' \<notin> known F"
  using removed_node_resurrected [OF demo_pm_wf, of "''a''" demo_crypto 1 demo_clock demo_clock]
  by (simp add: Let_def demo_pm_fields DIRECT_NODE_ID_def)

text \<open>
  C12: A buried node comes back exactly after two successful probes in a row.  A probe that succeeds
  after a success takes the node out of the dead pool and out of quarantine and, unless the fuse was
  open when the probe was spawned, puts it into dispatch.  Every other completion leaves the node
  buried and dispatch and quarantine as they are, and stores the count: one after a first success,
  zero after a failure, which thereby starts the count again.
\<close>

theorem dead_probe_needs_two_successes:
  assumes M: "pm_wf M" and "pj_kind j = DeadProbe" and e: "map_of (pm_dead M) (pj_id j) = Some e"
    and id: "nr_id (pj_node j) = pj_id j"
  shows "let M' = run_probe j ok ck M in
           if ok \<and> 1 \<le> de_consecutive_probe_successes e
           then in_dead M' = in_dead M - {pj_id j} \<and> in_quarantine M' = in_quarantine M - {pj_id j}
             \<and> in_dispatch M' = (if pj_fused j then in_dispatch M else insert (pj_id j) (in_dispatch M))
           else map_of (pm_dead M') = (map_of (pm_dead M))(pj_id j \<mapsto>
                  e\<lparr>de_last_probe_at := Some (ck_instant ck),
                    de_consecutive_probe_successes := if ok then 1 else 0\<rparr>)
             \<and> in_dispatch M' = in_dispatch M \<and> in_quarantine M' = in_quarantine M"
proof -
  let ?i = "pj_id j" and ?t = "ck_instant ck"
  let ?n = "if ok then sat_add 8 (de_consecutive_probe_successes e) 1 else 0"
  let ?e = "e\<lparr>de_last_probe_at := Some ?t, de_consecutive_probe_successes := ?n\<rparr>"
  have r: "record_probe_result ?t ?i ok (pm_dead M) = (?n, AList.update ?i ?e (pm_dead M))"
    using e by (simp add: record_probe_result_def Let_def)
  have two: "2 \<le> ?n \<longleftrightarrow> ok \<and> 1 \<le> de_consecutive_probe_successes e"
    by (auto simp: sat_add_def)
  let ?K = "M\<lparr>pm_dead := AList.update ?i ?e (pm_dead M)\<rparr>"
  let ?N = "?K\<lparr>pm_dead := dead_recover ?i (pm_dead ?K), pm_ratelimited := rl_recover ?i (pm_ratelimited ?K)\<rparr>"
  have run: "run_probe j ok ck M =
      (if ok \<and> 1 \<le> de_consecutive_probe_successes e
       then if pj_fused j then ?N else readmit ck ?i (pj_node j) ?N
       else ?K)"
    unfolding run_probe_def Let_def using assms(2) r two
    by (simp add: recovery_proven_def)
  show ?thesis
  proof (cases "ok \<and> 1 \<le> de_consecutive_probe_successes e")
    case True
    have "dead_wf (AList.update ?i ?e (pm_dead M))"
      using record_probe_result_wf [of "pm_dead M" ?t ?i ok] r pm_wfD(4) [OF M] by simp
    then have "pm_wf ?N" using M by (simp add: pm_wf_def dead_ops_wf rl_ops_wf)
    from readmit_effect(2) [OF this, of ck ?i "pj_node j"] id
    have d: "in_dispatch (readmit ck ?i (pj_node j) ?N) = insert ?i (in_dispatch M)" by simp
    from True d show ?thesis unfolding run Let_def
      by (auto simp: dead_keys rl_keys hm.keys_put)
  next
    case False
    then have n: "?n = (if ok then 1 else 0)" by (auto simp: sat_add_def)
    from False have "run_probe j ok ck M = ?K" by (simp only: run if_False)
    with False show ?thesis unfolding n Let_def by (simp only: if_False) (simp add: AList.update_conv')
  qed
qed

text \<open>The first success is stored, the second brings the node back into dispatch.\<close>

definition demo_dead_job :: probe_job where
  "demo_dead_job = \<lparr>pj_kind = DeadProbe, pj_id = ''a'', pj_node = demo_ref ''a'', pj_fused = False\<rparr>"

lemma dead_probe_needs_two_successes_witness:
  "let M = report demo_crypto ''a'' (ErrorResult Timeout) 5 demo_clock demo_pm;
       M1 = run_probe demo_dead_job True demo_clock M; M2 = run_probe demo_dead_job True demo_clock M1
   in ''a'' \<in> in_dead M1 \<and> ''a'' \<notin> in_dispatch M1 \<and> ''a'' \<notin> in_dead M2 \<and> ''a'' \<in> in_dispatch M2"
proof -
  let ?M = "report demo_crypto ''a'' (ErrorResult Timeout) 5 demo_clock demo_pm"
  let ?M1 = "run_probe demo_dead_job True demo_clock ?M"
  let ?e = "\<lparr>de_node = demo_ref ''a'', de_entered_at = 0, de_last_probe_at = None,
            de_consecutive_probe_successes = 0, de_dead_count = 1\<rparr>"
  have wf: "pm_wf ?M" by (rule report_wf [OF demo_pm_wf])
  have j: "pj_kind demo_dead_job = DeadProbe" "pj_id demo_dead_job = ''a''"
    "nr_id (pj_node demo_dead_job) = pj_id demo_dead_job" "\<not> pj_fused demo_dead_job"
    by (simp_all add: demo_dead_job_def demo_ref_def)
  have "map_of (pm_dead ?M) ''a'' = Some ?e"
    by (simp add: report_def DIRECT_NODE_ID_def Let_def release_both_def demo_pm_def
        register_known_node_def PoolManager_new_def registry_insert_def registry_get_def demo_ref_def
        demo_clock_def dead_add_def dead_bury_def wrap_add_def)
  then have e: "map_of (pm_dead ?M) (pj_id demo_dead_job) = Some ?e" by (simp add: j)
  have "in_dispatch ?M = in_dispatch demo_pm - {''a''}"
    using dp_release_correct [OF pm_wfD(1) [OF demo_pm_wf]] demo_pm_wf
    by (cases "registry_get ''a'' (pm_nodes demo_pm)")
      (simp_all add: report_def DIRECT_NODE_ID_def Let_def release_both_def dp_remove_correct pm_wf_def)
  then have gone: "''a'' \<notin> in_dispatch ?M" by simp
  from dead_probe_needs_two_successes [OF wf j(1) e j(3), of True demo_clock]
  have 1: "map_of (pm_dead ?M1) (pj_id demo_dead_job) = Some (?e\<lparr>de_last_probe_at := Some (ck_instant demo_clock),
      de_consecutive_probe_successes := 1\<rparr>)" "in_dispatch ?M1 = in_dispatch ?M"
    by (simp_all add: Let_def)
  have wf1: "pm_wf ?M1" by (rule run_probe_wf [OF wf])
  from dead_probe_needs_two_successes [OF wf1 j(1) 1(1) j(3), of True demo_clock] 1 gone j
  show ?thesis by (auto simp: Let_def hm_keys_map_of)
qed

text \<open>
  C13: A round of adaptive probing of the dead pool spawns at most twenty probes, only for
  buried nodes that are registered and whose burial is at least the minimum delay (an hour)
  old, and changes no pool.
\<close>

theorem dead_probe_round:
  assumes M: "pm_wf M"
  shows "let M' = probe_dead_adaptive C ck M in
           (\<forall>j \<in> set (pm_probes M'). j \<in> set (pm_probes M) \<or>
              pj_kind j = DeadProbe \<and> pj_id j \<in> in_dead M \<inter> known M \<and>
              (\<exists>e. map_of (pm_dead M) (pj_id j) = Some e \<and>
                   3600 \<le> elapsed_secs (ck_instant ck) (de_entered_at e))) \<and>
           length (pm_probes M') \<le> length (pm_probes M) + min 20 (length (pm_dead M)) \<and>
           in_dispatch M' = in_dispatch M \<and> pm_dead M' = pm_dead M"
proof -
  let ?is = "dead_select_all_for_probe (pm_dead M)"
  let ?b = "next_batch_size (length ?is) 0"
  let ?due = "take ?b (filter (dead_probe_due C ck M) ?is)"
  have b: "?b \<le> min (length (pm_dead M)) 20"
    using next_batch_size_bounds [of "length ?is" 0] by (simp add: dead_select_all_for_probe_def)
  have due: "\<exists>e. map_of (pm_dead M) i = Some e \<and> 3600 \<le> elapsed_secs (ck_instant ck) (de_entered_at e)"
    if "dead_probe_due C ck M i" for i
    using that next_delay_bounds [of default_probe_policy C i "dead_count i (pm_dead M)"]
    by (auto simp: dead_probe_due_def Let_def dead_age_secs_def default_probe_policy_def
        split: option.splits)
  show ?thesis
  proof (cases "?b = 0")
    case True
    then show ?thesis by (simp add: probe_dead_adaptive_def Let_def)
  next
    case False
    then have eq: "probe_dead_adaptive C ck M = fold (spawn_known DeadProbe) ?due M"
      by (simp add: probe_dead_adaptive_def Let_def)
    from spawn_all_effect [OF M, of DeadProbe ?due] obtain js where js:
      "pm_probes (fold (spawn_known DeadProbe) ?due M) = pm_probes M @ js" "length js \<le> length ?due"
      "\<forall>j \<in> set js. pj_kind j = DeadProbe \<and> pj_id j \<in> set ?due \<inter> known M"
      "pm_dispatch (fold (spawn_known DeadProbe) ?due M) = pm_dispatch M"
      "pm_dead (fold (spawn_known DeadProbe) ?due M) = pm_dead M" by blast
    have "pj_kind j = DeadProbe \<and> pj_id j \<in> in_dead M \<inter> known M \<and> dead_probe_due C ck M (pj_id j)"
      if "j \<in> set js" for j
    proof -
      from js(3) that have "pj_kind j = DeadProbe" "pj_id j \<in> set ?due" "pj_id j \<in> known M" by auto
      moreover from this(2) have "pj_id j \<in> set ?is" "dead_probe_due C ck M (pj_id j)"
        by (auto dest: in_set_takeD)
      ultimately show ?thesis by (simp add: set_dead_select)
    qed
    with js due b show ?thesis unfolding Let_def eq by auto
  qed
qed

lemma dead_probe_round_witness:
  "length (pm_probes (probe_dead_adaptive demo_crypto demo_clock
     (report demo_crypto ''a'' (ErrorResult Timeout) 5 demo_clock demo_pm))) \<le> 20"
  using dead_probe_round [OF report_wf [OF demo_pm_wf], of demo_crypto demo_clock
      demo_crypto "''a''" "ErrorResult Timeout" 5 demo_clock]
  by (simp add: Let_def report_def DIRECT_NODE_ID_def release_both_def demo_pm_fields
      split: option.splits)


end
