(* ===== verification/Json.thy ===== *)
theory Json
  imports Prelude Complex_Main "HOL-Library.List_Lexorder" "HOL-Library.Char_ord"
begin

text \<open>
  The JSON values of the crate \<open>serde_json\<close> as the sources use them.  An object is the
  sorted map the crate uses without its \<open>preserve_order\<close> feature: an association list whose
  keys ascend in byte order.  Parsing and rendering are the crate's: they are the parameter
  \<open>serde\<close> of the definitions that call them.
\<close>

datatype json_number = PosInt nat | NegInt int | JFloat rat

datatype json =
  JNull
| JBool bool
| JNumber json_number
| JString string
| JArray "json list"
| JObject "(string \<times> json) list"

record serde =
  from_slice :: "string \<Rightarrow> json option"
  to_string :: "json \<Rightarrow> string"

fun obj_insert :: "string \<Rightarrow> 'v \<Rightarrow> (string \<times> 'v) list \<Rightarrow> (string \<times> 'v) list" where
  "obj_insert k v [] = [(k, v)]"
| "obj_insert k v ((k', v') # m) =
     (if k = k' then (k, v) # m
      else if k < k' then (k, v) # (k', v') # m
      else (k', v') # obj_insert k v m)"

fun json_get :: "string \<Rightarrow> json \<Rightarrow> json option" where
  "json_get k (JObject m) = map_of m k"
| "json_get k _ = None"

fun as_str :: "json \<Rightarrow> string option" where
  "as_str (JString s) = Some s"
| "as_str _ = None"

fun as_bool :: "json \<Rightarrow> bool option" where
  "as_bool (JBool b) = Some b"
| "as_bool _ = None"

fun as_u64 :: "json \<Rightarrow> nat option" where
  "as_u64 (JNumber (PosInt n)) = Some n"
| "as_u64 _ = None"

fun as_array :: "json \<Rightarrow> json list option" where
  "as_array (JArray xs) = Some xs"
| "as_array _ = None"

fun as_object :: "json \<Rightarrow> (string \<times> json) list option" where
  "as_object (JObject m) = Some m"
| "as_object _ = None"

abbreviation get_str :: "string \<Rightarrow> json \<Rightarrow> string option" where
  "get_str k v \<equiv> Option.bind (json_get k v) as_str"

definition unwrap_or :: "'a \<Rightarrow> 'a option \<Rightarrow> 'a" where
  "unwrap_or d r = (case r of None \<Rightarrow> d | Some x \<Rightarrow> x)"

lemma unwrap_or_simps [simp]: "unwrap_or d None = d" "unwrap_or d (Some x) = x"
  by (simp_all add: unwrap_or_def)

lemma map_of_obj_insert: "map_of (obj_insert k v m) j = (if j = k then Some v else map_of m j)"
  by (induction k v m rule: obj_insert.induct) auto

interpretation obj: kv_store map_of obj_insert AList.delete hm_keys
  by unfold_locales (auto simp: map_of_obj_insert AList.delete_conv' hm_keys_map_of)

text \<open>Insertion keeps the keys strictly ascending.\<close>

lemma set_obj_insert: "fst ` set (obj_insert k v m) = insert k (fst ` set m)"
  by (induction k v m rule: obj_insert.induct) auto

lemma sorted_obj_insert:
  "sorted (map fst m) \<and> distinct (map fst m) \<Longrightarrow>
     sorted (map fst (obj_insert k v m)) \<and> distinct (map fst (obj_insert k v m))"
proof (induction k v m rule: obj_insert.induct)
  case (2 k v k' v' m)
  then show ?case using set_obj_insert [of k v m] by auto
qed simp

text \<open>The values inside a value are smaller.\<close>

lemma size_json_array [termination_simp]: "v \<in> set xs \<Longrightarrow> size v < Suc (size_list size xs)"
  using size_list_estimation' [of v xs "size v" size] by simp

lemma size_json_object [termination_simp]:
  "(k, v) \<in> set m \<Longrightarrow> size v < Suc (size_list (size_prod (\<lambda>_. 0) size) m)"
  using size_list_estimation' [of "(k, v)" m "size v" "size_prod (\<lambda>_. 0) size"] by simp

lemma size_map_of [termination_simp]:
  "map_of m k = Some v \<Longrightarrow> size v < Suc (size_list (size_prod (\<lambda>_. 0) size) m)"
  by (rule size_json_object [OF map_of_SomeD])

end
