(* ===== verification/ModelDiscovery.thy ===== *)
theory ModelDiscovery
  imports Json "HOL-Library.Product_Lexorder"
begin

text \<open>
  \<open>zen-proxy-rs/src/v4/model_discovery.rs\<close>: the registry of upstream models found by
  polling the provider's model list, the life cycle of each (candidate, probe pending,
  canary, active, ignored, missing, retired, quarantined), its probe and traffic statistics
  and the decision to promote it.  \<open>now\<close> is the unix time an operation reads.  A read-write
  lock guards the registry, so each operation is one atomic step, except the merge of a
  poll: it reads the models under the read lock and writes them back under the write lock
  (\<open>poll_commit\<close>).
\<close>

section \<open>Data\<close>

datatype discovered_model_state =
  Candidate | ProbePending | Canary | Active | Ignored | Missing | Retired | Quarantined

record discovered_model =
  dm_id :: string
  dm_upstream_id :: string
  dm_state :: discovered_model_state
  dm_reason :: string
  dm_first_seen_unix :: nat
  dm_last_seen_unix :: nat
  dm_probe_required :: bool
  dm_auto_promoted :: bool
  dm_public :: bool
  dm_routable :: bool
  dm_last_probe_unix :: "nat option"
  dm_last_probe_name :: "string option"
  dm_last_success_unix :: "nat option"
  dm_last_failure_unix :: "nat option"
  dm_last_failure_code :: "string option"
  dm_last_failure_message :: "string option"
  dm_probe_attempts_total :: nat
  dm_probe_success_total :: nat
  dm_probe_failure_total :: nat
  dm_consecutive_probe_successes :: nat
  dm_consecutive_probe_failures :: nat
  dm_passed_probe_names :: "string list"
  dm_missing_rounds :: nat
  dm_promotion_reason :: "string option"
  dm_rollback_reason :: "string option"
  dm_retirement_reason :: "string option"
  dm_candidate_requests_total :: nat
  dm_candidate_success_total :: nat
  dm_candidate_failure_total :: nat
  dm_canary_requests_total :: nat
  dm_canary_success_total :: nat
  dm_canary_failure_total :: nat
  dm_active_requests_total :: nat
  dm_active_success_total :: nat
  dm_active_failure_total :: nat
  dm_candidate_empty_output_total :: nat
  dm_candidate_decode_error_total :: nat
  dm_candidate_protocol_error_total :: nat
  dm_canary_empty_output_total :: nat
  dm_canary_decode_error_total :: nat
  dm_canary_protocol_error_total :: nat
  dm_active_empty_output_total :: nat
  dm_active_decode_error_total :: nat
  dm_active_protocol_error_total :: nat
  dm_traffic_empty_output_total :: nat
  dm_traffic_decode_error_total :: nat
  dm_traffic_protocol_error_total :: nat
  dm_last_traffic_unix :: "nat option"
  dm_last_traffic_status :: "nat option"
  dm_last_traffic_failure_kind :: "string option"
  dm_last_traffic_failure_message :: "string option"
  dm_claudecode_compatible :: bool
  dm_claudecode_compatibility_reason :: "string option"
  dm_claudecode_compatibility_unix :: "nat option"

record traffic_promotion_policy =
  tp_min_canary_requests :: nat
  tp_min_canary_success_rate_bps :: nat
  tp_max_canary_empty_output_failures :: nat
  tp_max_canary_decode_failures :: nat
  tp_max_canary_protocol_failures :: nat

definition default_promotion_policy :: traffic_promotion_policy where
  "default_promotion_policy =
     \<lparr>tp_min_canary_requests = 100, tp_min_canary_success_rate_bps = 9900,
      tp_max_canary_empty_output_failures = 0, tp_max_canary_decode_failures = 0,
      tp_max_canary_protocol_failures = 0\<rparr>"

record traffic_promotion_decision =
  td_eligible :: bool
  td_reason :: string
  td_missing_reasons :: "string list"
  td_policy :: traffic_promotion_policy
  td_claudecode_compatible :: bool
  td_required_claudecode_compatible :: bool
  td_canary_requests_total :: nat
  td_canary_success_total :: nat
  td_canary_failure_total :: nat
  td_canary_success_rate_bps :: nat
  td_canary_empty_output_total :: nat
  td_canary_decode_error_total :: nat
  td_canary_protocol_error_total :: nat
  td_needed_canary_requests :: nat

record model_discovery_snapshot =
  ds_enabled :: bool
  ds_source_url :: string
  ds_last_attempt_unix :: "nat option"
  ds_last_success_unix :: "nat option"
  ds_last_error :: "string option"
  ds_worker_running :: bool
  ds_discovered_total :: nat
  ds_candidate_total :: nat
  ds_ignored_total :: nat
  ds_missing_total :: nat
  ds_models :: "discovered_model list"

definition DynamicModelRegistry_new :: "bool \<Rightarrow> string \<Rightarrow> model_discovery_snapshot" where
  "DynamicModelRegistry_new enabled url =
     \<lparr>ds_enabled = enabled, ds_source_url = url, ds_last_attempt_unix = None,
      ds_last_success_unix = None, ds_last_error = None, ds_worker_running = False,
      ds_discovered_total = 0, ds_candidate_total = 0, ds_ignored_total = 0,
      ds_missing_total = 0, ds_models = []\<rparr>"

definition set_config :: "bool \<Rightarrow> string \<Rightarrow> model_discovery_snapshot \<Rightarrow> model_discovery_snapshot" where
  "set_config enabled url s = s\<lparr>ds_enabled := enabled, ds_source_url := url\<rparr>"

definition set_worker_running :: "bool \<Rightarrow> model_discovery_snapshot \<Rightarrow> model_discovery_snapshot" where
  "set_worker_running b s = s\<lparr>ds_worker_running := b\<rparr>"

definition record_attempt :: "nat \<Rightarrow> model_discovery_snapshot \<Rightarrow> model_discovery_snapshot" where
  "record_attempt now s = s\<lparr>ds_last_attempt_unix := Some now\<rparr>"

definition record_error :: "nat \<Rightarrow> string \<Rightarrow> model_discovery_snapshot \<Rightarrow> model_discovery_snapshot" where
  "record_error now e s = s\<lparr>ds_last_attempt_unix := Some now, ds_last_error := Some e\<rparr>"

section \<open>Classification and the life cycle\<close>

definition is_free_candidate :: "string \<Rightarrow> bool" where
  "is_free_candidate i \<longleftrightarrow> i = ''big-pickle'' \<or> ends_with i ''-free''"

definition is_reserved_static_upstream :: "string \<Rightarrow> bool" where
  "is_reserved_static_upstream i \<longleftrightarrow>
     i \<in> {''deepseek-v4-flash-free'', ''big-pickle'', ''mimo-v2.5-free'', ''hy3-free''}"

definition classify_model :: "string \<Rightarrow> discovered_model_state \<times> string" where
  "classify_model i =
     (if is_reserved_static_upstream i
      then (Ignored, ''reserved upstream for stable public model; not a dynamic candidate'')
      else if is_free_candidate i
      then (Candidate, ''free-looking opencode model; probe required before exposure'')
      else (Ignored, ''not a free-model candidate''))"

definition published :: "discovered_model_state \<Rightarrow> bool" where
  "published s \<longleftrightarrow> s = Canary \<or> s = Active"

definition awaiting_probe :: "discovered_model_state \<Rightarrow> bool" where
  "awaiting_probe s \<longleftrightarrow> s = Candidate \<or> s = ProbePending \<or> s = Missing"

definition clear_claudecode_compatibility :: "discovered_model \<Rightarrow> discovered_model" where
  "clear_claudecode_compatibility m =
     m\<lparr>dm_claudecode_compatible := False, dm_claudecode_compatibility_reason := None,
       dm_claudecode_compatibility_unix := None\<rparr>"

definition sync_lifecycle_flags :: "discovered_model \<Rightarrow> discovered_model" where
  "sync_lifecycle_flags m =
     (let p = published (dm_state m);
          m = m\<lparr>dm_probe_required := awaiting_probe (dm_state m), dm_auto_promoted := p,
                dm_public := p, dm_routable := p\<rparr>
      in if p then m else clear_claudecode_compatibility m)"

definition merge_seen_model_state ::
  "discovered_model_state \<Rightarrow> string \<Rightarrow> discovered_model \<Rightarrow> discovered_model" where
  "merge_seen_model_state cs cr m =
     (case cs of
        Ignored \<Rightarrow> m\<lparr>dm_state := Ignored, dm_reason := cr\<rparr>
      | Candidate \<Rightarrow>
          (case dm_state m of
             Ignored \<Rightarrow> m\<lparr>dm_state := Candidate, dm_reason := cr\<rparr>
           | Missing \<Rightarrow> m\<lparr>dm_state := Candidate, dm_reason := cr\<rparr>
           | Candidate \<Rightarrow> m\<lparr>dm_reason := cr\<rparr>
           | _ \<Rightarrow> m)
      | _ \<Rightarrow> m\<lparr>dm_state := cs, dm_reason := cr\<rparr>)"

definition DiscoveredModel_new ::
  "nat \<Rightarrow> string \<Rightarrow> discovered_model_state \<Rightarrow> string \<Rightarrow> discovered_model" where
  "DiscoveredModel_new now i state reason =
     \<lparr>dm_id = i, dm_upstream_id = i, dm_state = state, dm_reason = reason,
      dm_first_seen_unix = now, dm_last_seen_unix = now,
      dm_probe_required = (state = Candidate), dm_auto_promoted = False, dm_public = False,
      dm_routable = False, dm_last_probe_unix = None, dm_last_probe_name = None,
      dm_last_success_unix = None, dm_last_failure_unix = None, dm_last_failure_code = None,
      dm_last_failure_message = None, dm_probe_attempts_total = 0, dm_probe_success_total = 0,
      dm_probe_failure_total = 0, dm_consecutive_probe_successes = 0,
      dm_consecutive_probe_failures = 0, dm_passed_probe_names = [], dm_missing_rounds = 0,
      dm_promotion_reason = None, dm_rollback_reason = None, dm_retirement_reason = None,
      dm_candidate_requests_total = 0, dm_candidate_success_total = 0,
      dm_candidate_failure_total = 0, dm_canary_requests_total = 0,
      dm_canary_success_total = 0, dm_canary_failure_total = 0, dm_active_requests_total = 0,
      dm_active_success_total = 0, dm_active_failure_total = 0,
      dm_candidate_empty_output_total = 0, dm_candidate_decode_error_total = 0,
      dm_candidate_protocol_error_total = 0, dm_canary_empty_output_total = 0,
      dm_canary_decode_error_total = 0, dm_canary_protocol_error_total = 0,
      dm_active_empty_output_total = 0, dm_active_decode_error_total = 0,
      dm_active_protocol_error_total = 0, dm_traffic_empty_output_total = 0,
      dm_traffic_decode_error_total = 0, dm_traffic_protocol_error_total = 0,
      dm_last_traffic_unix = None, dm_last_traffic_status = None,
      dm_last_traffic_failure_kind = None, dm_last_traffic_failure_message = None,
      dm_claudecode_compatible = False, dm_claudecode_compatibility_reason = None,
      dm_claudecode_compatibility_unix = None\<rparr>"

section \<open>Discovery\<close>

definition see_model :: "nat \<Rightarrow> string \<Rightarrow> discovered_model option \<Rightarrow> discovered_model" where
  "see_model now i old =
     (let (state, reason) = classify_model i;
          m = (case old of None \<Rightarrow> DiscoveredModel_new now i state reason | Some m \<Rightarrow> m);
          m = merge_seen_model_state state reason m
      in sync_lifecycle_flags (m\<lparr>dm_last_seen_unix := now, dm_missing_rounds := 0\<rparr>))"

definition mark_missing :: "discovered_model \<Rightarrow> discovered_model" where
  "mark_missing m =
     sync_lifecycle_flags (clear_claudecode_compatibility
       (m\<lparr>dm_state := Missing,
          dm_reason := ''previously discovered model is absent from the latest upstream list'',
          dm_probe_required := True, dm_auto_promoted := False, dm_public := False,
          dm_routable := False, dm_missing_rounds := sat_add 64 (dm_missing_rounds m) 1\<rparr>))"

definition recompute_counts :: "model_discovery_snapshot \<Rightarrow> model_discovery_snapshot" where
  "recompute_counts s =
     s\<lparr>ds_discovered_total := length (ds_models s),
       ds_candidate_total := length (filter (\<lambda>m. dm_state m = Candidate) (ds_models s)),
       ds_ignored_total := length (filter (\<lambda>m. dm_state m = Ignored) (ds_models s)),
       ds_missing_total := length (filter (\<lambda>m. dm_state m = Missing) (ds_models s))\<rparr>"

text \<open>
  \<open>decode\<close> is \<open>serde_json::from_str\<close> at the response type: the ids of its models, or the
  error's text.
\<close>

definition merge_discovered ::
  "nat \<Rightarrow> string list \<Rightarrow> discovered_model list \<Rightarrow> discovered_model list" where
  "merge_discovered now ids models =
     (let merged = foldl (\<lambda>t m. obj_insert (dm_id m) m t) [] models;
          merged = foldl (\<lambda>t i. obj_insert i (see_model now i (map_of t i)) t) merged ids;
          merged = map (\<lambda>(k, m). (k, if dm_id m \<notin> set ids then mark_missing m else m)) merged
      in sort_key dm_id (map snd merged))"

text \<open>
  The write of a round: the models were merged from a copy \<open>read\<close> of the list taken before the
  write lock; when no other operation comes between, it is the list of \<open>s\<close> itself.
\<close>

definition poll_commit ::
  "nat \<Rightarrow> string list \<Rightarrow> discovered_model list \<Rightarrow> model_discovery_snapshot
     \<Rightarrow> model_discovery_snapshot" where
  "poll_commit now ids read s =
     recompute_counts
       (s\<lparr>ds_last_attempt_unix := Some now, ds_last_success_unix := Some now,
          ds_last_error := None, ds_models := merge_discovered now ids read\<rparr>)"

definition update_from_opencode_json ::
  "(string \<Rightarrow> string + string list) \<Rightarrow> nat \<Rightarrow> string \<Rightarrow> model_discovery_snapshot
     \<Rightarrow> (string + model_discovery_snapshot) \<times> model_discovery_snapshot" where
  "update_from_opencode_json decode now body s =
     (case decode body of
        Inl e \<Rightarrow> (Inl (''invalid models json: '' @ e), s)
      | Inr ids \<Rightarrow>
          if ids = [] \<and> ds_models s \<noteq> []
          then (Inl ''discovery response contains no models'', s)
          else if \<exists>i \<in> set ids. trim i = []
          then (Inl ''discovery response contains an empty model id'', s)
          else let s' = poll_commit now ids (ds_models s) s in (Inr s', s'))"

definition ds_get :: "string \<Rightarrow> model_discovery_snapshot \<Rightarrow> discovered_model option" where
  "ds_get i s = find (\<lambda>m. dm_id m = i) (ds_models s)"

section \<open>Selection of models to probe\<close>

text \<open>The order of probe candidates: the one probed longest ago first.\<close>

datatype probe_rank = ProbeRank nat nat nat string

fun rank_key :: "probe_rank \<Rightarrow> nat \<times> nat \<times> nat \<times> string" where
  "rank_key (ProbeRank a b c i) = (a, b, c, i)"

lemma rank_key_inject: "rank_key r = rank_key q \<Longrightarrow> r = q"
  by (cases r; cases q) simp

instantiation probe_rank :: linorder
begin

definition less_eq_probe_rank :: "probe_rank \<Rightarrow> probe_rank \<Rightarrow> bool" where
  "r \<le> q \<longleftrightarrow> rank_key r \<le> rank_key q"

definition less_probe_rank :: "probe_rank \<Rightarrow> probe_rank \<Rightarrow> bool" where
  "r < q \<longleftrightarrow> rank_key r < rank_key q"

instance
  by standard
    (auto simp only: less_eq_probe_rank_def less_probe_rank_def less_le_not_le
      intro: order.trans rank_key_inject order.antisym)

end

definition probe_rank_of :: "discovered_model \<Rightarrow> probe_rank" where
  "probe_rank_of m =
     ProbeRank (unwrap_or 0 (dm_last_probe_unix m)) (dm_consecutive_probe_failures m)
       (dm_first_seen_unix m) (dm_id m)"

definition is_probe_candidate :: "discovered_model \<Rightarrow> bool" where
  "is_probe_candidate m \<longleftrightarrow>
     dm_state m = Candidate \<and> dm_probe_required m \<and> \<not> dm_public m \<and> \<not> dm_routable m"

definition probe_candidates :: "nat \<Rightarrow> model_discovery_snapshot \<Rightarrow> discovered_model list" where
  "probe_candidates max_per_round s =
     (if max_per_round = 0 then []
      else take max_per_round (sort_key probe_rank_of (filter is_probe_candidate (ds_models s))))"

definition probe_published_models :: "nat \<Rightarrow> model_discovery_snapshot \<Rightarrow> discovered_model list" where
  "probe_published_models max_per_round s =
     (if max_per_round = 0 then []
      else take max_per_round
        (sort_key (\<lambda>m. (unwrap_or 0 (dm_last_probe_unix m), dm_id m))
          (filter (\<lambda>m. published (dm_state m)) (ds_models s))))"

section \<open>Updates of one model\<close>

text \<open>The frame of the update operations: find the model, change it, recount.\<close>

definition update_model ::
  "string \<Rightarrow> (discovered_model \<Rightarrow> discovered_model) \<Rightarrow> model_discovery_snapshot
     \<Rightarrow> discovered_model option \<times> model_discovery_snapshot" where
  "update_model i f s =
     (case find (\<lambda>k. dm_id (ds_models s ! k) = i) [0..<length (ds_models s)] of
        None \<Rightarrow> (None, s)
      | Some k \<Rightarrow>
          (let m = f (ds_models s ! k)
           in (Some m, recompute_counts (s\<lparr>ds_models := (ds_models s)[k := m]\<rparr>))))"

definition apply_state ::
  "nat \<Rightarrow> discovered_model_state \<Rightarrow> string \<Rightarrow> discovered_model \<Rightarrow> discovered_model" where
  "apply_state now state reason m =
     (let previous = dm_state m; p = published state;
          m = m\<lparr>dm_state := state, dm_reason := reason, dm_last_seen_unix := now,
                dm_probe_required := awaiting_probe state, dm_auto_promoted := p,
                dm_public := p, dm_routable := p\<rparr>;
          m = (if p then m else clear_claudecode_compatibility m)
      in case state of
           Canary \<Rightarrow> m\<lparr>dm_promotion_reason := Some reason\<rparr>
         | Active \<Rightarrow> m\<lparr>dm_promotion_reason := Some reason\<rparr>
         | Candidate \<Rightarrow>
             if previous \<in> {Canary, Active, Quarantined, Retired}
             then m\<lparr>dm_rollback_reason := Some reason\<rparr> else m
         | Retired \<Rightarrow> m\<lparr>dm_retirement_reason := Some reason\<rparr>
         | _ \<Rightarrow> m)"

definition set_model_state ::
  "nat \<Rightarrow> string \<Rightarrow> discovered_model_state \<Rightarrow> string \<Rightarrow> model_discovery_snapshot
     \<Rightarrow> discovered_model option \<times> model_discovery_snapshot" where
  "set_model_state now i state reason s = update_model i (apply_state now state reason) s"

definition withhold :: "discovered_model \<Rightarrow> discovered_model" where
  "withhold m =
     clear_claudecode_compatibility
       (m\<lparr>dm_probe_required := True, dm_auto_promoted := False, dm_public := False,
          dm_routable := False\<rparr>)"

definition apply_probe_start :: "nat \<Rightarrow> discovered_model \<Rightarrow> discovered_model" where
  "apply_probe_start now m =
     (let m =
        (if dm_state m = Candidate
         then withhold (m\<lparr>dm_state := ProbePending,
                          dm_reason := ''model probe started; awaiting probe result''\<rparr>)
         else m\<lparr>dm_reason := ''published model re-probe started; current route remains active''\<rparr>)
      in m\<lparr>dm_last_probe_unix := Some now, dm_last_probe_name := None, dm_last_seen_unix := now,
           dm_probe_attempts_total := sat_add 64 (dm_probe_attempts_total m) 1\<rparr>)"

definition record_probe_start ::
  "nat \<Rightarrow> string \<Rightarrow> model_discovery_snapshot \<Rightarrow> discovered_model option \<times> model_discovery_snapshot" where
  "record_probe_start now i s = update_model i (apply_probe_start now) s"

definition apply_probe_success :: "nat \<Rightarrow> string \<Rightarrow> discovered_model \<Rightarrow> discovered_model" where
  "apply_probe_success now name m =
     (let was_published = published (dm_state m);
          m = m\<lparr>dm_reason :=
                  (if was_published then ''published model probe passed: '' @ name
                   else ''probe passed: '' @ name @ ''; promotion quorum still required''),
                dm_last_probe_unix := Some now, dm_last_probe_name := Some name,
                dm_last_success_unix := Some now, dm_last_seen_unix := now,
                dm_last_failure_code := None, dm_last_failure_message := None,
                dm_probe_success_total := sat_add 64 (dm_probe_success_total m) 1,
                dm_consecutive_probe_successes := sat_add 64 (dm_consecutive_probe_successes m) 1,
                dm_consecutive_probe_failures := 0,
                dm_passed_probe_names :=
                  (if name \<in> set (dm_passed_probe_names m) then dm_passed_probe_names m
                   else sort (dm_passed_probe_names m @ [name]))\<rparr>
      in if was_published
         then m\<lparr>dm_probe_required := False, dm_auto_promoted := True, dm_public := True,
                dm_routable := True\<rparr>
         else withhold m)"

definition record_probe_success ::
  "nat \<Rightarrow> string \<Rightarrow> string \<Rightarrow> model_discovery_snapshot
     \<Rightarrow> discovered_model option \<times> model_discovery_snapshot" where
  "record_probe_success now i name s = update_model i (apply_probe_success now name) s"

definition apply_probe_failure ::
  "nat \<Rightarrow> string \<Rightarrow> string \<Rightarrow> string option \<Rightarrow> discovered_model \<Rightarrow> discovered_model" where
  "apply_probe_failure now code message name m =
     (let m = m\<lparr>dm_reason := ''probe failed: '' @ code, dm_last_probe_unix := Some now,
                dm_last_probe_name := name, dm_last_failure_unix := Some now,
                dm_last_seen_unix := now, dm_last_failure_code := Some code,
                dm_last_failure_message := Some message,
                dm_probe_failure_total := sat_add 64 (dm_probe_failure_total m) 1,
                dm_consecutive_probe_failures := sat_add 64 (dm_consecutive_probe_failures m) 1,
                dm_consecutive_probe_successes := 0\<rparr>
      in if published (dm_state m)
         then m\<lparr>dm_reason := ''published model probe failed: '' @ code\<rparr>
         else withhold m)"

definition record_probe_failure ::
  "nat \<Rightarrow> string \<Rightarrow> string \<Rightarrow> string \<Rightarrow> string option \<Rightarrow> model_discovery_snapshot
     \<Rightarrow> discovered_model option \<times> model_discovery_snapshot" where
  "record_probe_failure now i code message name s =
     update_model i (apply_probe_failure now code message name) s"

definition mark_claudecode_compatible ::
  "nat \<Rightarrow> string \<Rightarrow> string \<Rightarrow> model_discovery_snapshot
     \<Rightarrow> discovered_model option \<times> model_discovery_snapshot" where
  "mark_claudecode_compatible now i reason s =
     (case find (\<lambda>k. dm_id (ds_models s ! k) = i) [0..<length (ds_models s)] of
        None \<Rightarrow> (None, s)
      | Some k \<Rightarrow>
          (let m = ds_models s ! k
           in if \<not> published (dm_state m) then (Some m, s)
              else
                let m = m\<lparr>dm_claudecode_compatible := True,
                          dm_claudecode_compatibility_reason := Some reason,
                          dm_claudecode_compatibility_unix := Some now,
                          dm_last_seen_unix := now\<rparr>
                in (Some m, s\<lparr>ds_models := (ds_models s)[k := m]\<rparr>)))"

section \<open>Traffic\<close>

datatype traffic_failure_class = EmptyOutputFailure | DecodeFailure | ProtocolFailure | OtherFailure

definition classify_traffic_failure :: "string \<Rightarrow> string \<Rightarrow> traffic_failure_class" where
  "classify_traffic_failure kind message =
     (let material = to_ascii_lowercase (kind @ [CHR 0x0A] @ message);
          has = contains_str material
      in if has ''empty_output'' \<or> has ''no assistant content''
            \<or> has ''no assistant content or tool call'' then EmptyOutputFailure
         else if has ''decode'' \<or> has ''decoding'' \<or> has ''failed to parse json''
            \<or> has ''parse json'' \<or> has ''invalid json'' then DecodeFailure
         else if has ''provider_invalid_request'' \<or> has ''invalid_request''
            \<or> has ''missing field tool_call_id'' \<or> has ''missing field tool_use_id''
            \<or> has ''invalid assistant message'' \<or> has ''reasoning_content''
            \<or> has ''protocol'' then ProtocolFailure
         else OtherFailure)"

definition bump :: "bool \<Rightarrow> nat \<Rightarrow> nat" where
  "bump b n = (if b then sat_add 64 n 1 else n)"

text \<open>
  The counters of the model's stage; \<open>fc\<close> is the failure class, \<open>None\<close> for a success.
\<close>

definition count_stage :: "traffic_failure_class option \<Rightarrow> discovered_model \<Rightarrow> discovered_model" where
  "count_stage fc m =
     (let ok = (fc = None); e = (fc = Some EmptyOutputFailure); d = (fc = Some DecodeFailure);
          p = (fc = Some ProtocolFailure)
      in case dm_state m of
           Candidate \<Rightarrow>
             m\<lparr>dm_candidate_requests_total := sat_add 64 (dm_candidate_requests_total m) 1,
               dm_candidate_success_total := bump ok (dm_candidate_success_total m),
               dm_candidate_failure_total := bump (\<not> ok) (dm_candidate_failure_total m),
               dm_candidate_empty_output_total := bump e (dm_candidate_empty_output_total m),
               dm_candidate_decode_error_total := bump d (dm_candidate_decode_error_total m),
               dm_candidate_protocol_error_total := bump p (dm_candidate_protocol_error_total m)\<rparr>
         | Canary \<Rightarrow>
             m\<lparr>dm_canary_requests_total := sat_add 64 (dm_canary_requests_total m) 1,
               dm_canary_success_total := bump ok (dm_canary_success_total m),
               dm_canary_failure_total := bump (\<not> ok) (dm_canary_failure_total m),
               dm_canary_empty_output_total := bump e (dm_canary_empty_output_total m),
               dm_canary_decode_error_total := bump d (dm_canary_decode_error_total m),
               dm_canary_protocol_error_total := bump p (dm_canary_protocol_error_total m)\<rparr>
         | Active \<Rightarrow>
             m\<lparr>dm_active_requests_total := sat_add 64 (dm_active_requests_total m) 1,
               dm_active_success_total := bump ok (dm_active_success_total m),
               dm_active_failure_total := bump (\<not> ok) (dm_active_failure_total m),
               dm_active_empty_output_total := bump e (dm_active_empty_output_total m),
               dm_active_decode_error_total := bump d (dm_active_decode_error_total m),
               dm_active_protocol_error_total := bump p (dm_active_protocol_error_total m)\<rparr>
         | _ \<Rightarrow> m)"

definition count_traffic :: "traffic_failure_class option \<Rightarrow> discovered_model \<Rightarrow> discovered_model" where
  "count_traffic fc m =
     m\<lparr>dm_traffic_empty_output_total :=
         bump (fc = Some EmptyOutputFailure) (dm_traffic_empty_output_total m),
       dm_traffic_decode_error_total :=
         bump (fc = Some DecodeFailure) (dm_traffic_decode_error_total m),
       dm_traffic_protocol_error_total :=
         bump (fc = Some ProtocolFailure) (dm_traffic_protocol_error_total m)\<rparr>"

definition CANDIDATE_TRAFFIC_QUARANTINE_FAILURES :: nat where
  "CANDIDATE_TRAFFIC_QUARANTINE_FAILURES = 3"

definition traffic_kind :: "nat \<Rightarrow> string \<Rightarrow> string" where
  "traffic_kind status kind =
     (if trim kind = [] \<and> status \<ge> 400 then ''http_'' @ show_nat status else kind)"

definition traffic_success :: "nat \<Rightarrow> string \<Rightarrow> bool" where
  "traffic_success status kind \<longleftrightarrow> status < 400 \<and> trim kind = []"

definition note_traffic ::
  "nat \<Rightarrow> nat \<Rightarrow> string \<Rightarrow> string \<Rightarrow> discovered_model \<Rightarrow> discovered_model" where
  "note_traffic now status kind message m =
     (let success = traffic_success status kind;
          fc = (if success then None else Some (classify_traffic_failure kind message))
      in (count_traffic fc (count_stage fc m))
           \<lparr>dm_last_traffic_unix := Some now, dm_last_traffic_status := Some status,
            dm_last_traffic_failure_kind :=
              (if success then None
               else Some (if trim kind = [] then ''unknown_failure'' else kind)),
            dm_last_traffic_failure_message := (if success then None else Some message)\<rparr>)"

definition quarantine_model :: "nat \<Rightarrow> discovered_model \<Rightarrow> discovered_model" where
  "quarantine_model now m =
     clear_claudecode_compatibility
       (m\<lparr>dm_state := Quarantined,
          dm_reason :=
            ''traffic quarantine: unproven candidate reached ''
            @ show_nat CANDIDATE_TRAFFIC_QUARANTINE_FAILURES @ '' traffic failures; last_failure=''
            @ unwrap_or ''unknown_failure'' (dm_last_traffic_failure_kind m),
          dm_last_seen_unix := now, dm_probe_required := False, dm_auto_promoted := False,
          dm_public := False, dm_routable := False\<rparr>)"

definition apply_traffic_result ::
  "nat \<Rightarrow> nat \<Rightarrow> string \<Rightarrow> string \<Rightarrow> discovered_model \<Rightarrow> discovered_model" where
  "apply_traffic_result now status kind message m =
     (let kind = traffic_kind status kind;
          m' = note_traffic now status kind message m
      in if dm_state m = Candidate \<and> \<not> traffic_success status kind
            \<and> dm_candidate_success_total m' = 0
            \<and> dm_candidate_failure_total m' \<ge> CANDIDATE_TRAFFIC_QUARANTINE_FAILURES
         then quarantine_model now m' else m')"

definition takes_traffic :: "discovered_model_state \<Rightarrow> bool" where
  "takes_traffic s \<longleftrightarrow> s = Candidate \<or> s = Canary \<or> s = Active"

definition record_traffic_result ::
  "nat \<Rightarrow> string \<Rightarrow> nat \<Rightarrow> string \<Rightarrow> string \<Rightarrow> model_discovery_snapshot
     \<Rightarrow> discovered_model option \<times> model_discovery_snapshot" where
  "record_traffic_result now i status kind message s =
     (case find (\<lambda>k. dm_id (ds_models s ! k) = i) [0..<length (ds_models s)] of
        None \<Rightarrow> (None, s)
      | Some k \<Rightarrow>
          if \<not> takes_traffic (dm_state (ds_models s ! k)) then (Some (ds_models s ! k), s)
          else update_model i (apply_traffic_result now status kind message) s)"

section \<open>Promotion\<close>

definition success_rate_bps :: "nat \<Rightarrow> nat \<Rightarrow> nat" where
  "success_rate_bps ok n = (if n = 0 then 0 else sat_mul 64 ok 10000 div n)"

definition evaluate_active_promotion ::
  "discovered_model \<Rightarrow> traffic_promotion_policy \<Rightarrow> traffic_promotion_decision" where
  "evaluate_active_promotion m P =
     (let rate = success_rate_bps (dm_canary_success_total m) (dm_canary_requests_total m);
          missing =
            (if dm_state m \<noteq> Canary then [''state must be canary before active promotion''] else [])
            @ (if \<not> dm_claudecode_compatible m
               then [''claudecode_compatible must be earned by the http_bounded probe matrix before active promotion'']
               else [])
            @ (if dm_canary_requests_total m < tp_min_canary_requests P
               then [''canary_requests_total '' @ show_nat (dm_canary_requests_total m)
                     @ '' < required '' @ show_nat (tp_min_canary_requests P)] else [])
            @ (if rate < tp_min_canary_success_rate_bps P
               then [''canary_success_rate_bps '' @ show_nat rate
                     @ '' < required '' @ show_nat (tp_min_canary_success_rate_bps P)] else [])
            @ (if dm_canary_empty_output_total m > tp_max_canary_empty_output_failures P
               then [''canary_empty_output_total '' @ show_nat (dm_canary_empty_output_total m)
                     @ '' > allowed '' @ show_nat (tp_max_canary_empty_output_failures P)] else [])
            @ (if dm_canary_decode_error_total m > tp_max_canary_decode_failures P
               then [''canary_decode_error_total '' @ show_nat (dm_canary_decode_error_total m)
                     @ '' > allowed '' @ show_nat (tp_max_canary_decode_failures P)] else [])
            @ (if dm_canary_protocol_error_total m > tp_max_canary_protocol_failures P
               then [''canary_protocol_error_total '' @ show_nat (dm_canary_protocol_error_total m)
                     @ '' > allowed '' @ show_nat (tp_max_canary_protocol_failures P)] else []);
          eligible = (missing = [])
      in \<lparr>td_eligible = eligible,
          td_reason = (if eligible then ''canary traffic quorum met'' else join_with ''; '' missing),
          td_missing_reasons = missing, td_policy = P,
          td_claudecode_compatible = dm_claudecode_compatible m,
          td_required_claudecode_compatible = True,
          td_canary_requests_total = dm_canary_requests_total m,
          td_canary_success_total = dm_canary_success_total m,
          td_canary_failure_total = dm_canary_failure_total m,
          td_canary_success_rate_bps = rate,
          td_canary_empty_output_total = dm_canary_empty_output_total m,
          td_canary_decode_error_total = dm_canary_decode_error_total m,
          td_canary_protocol_error_total = dm_canary_protocol_error_total m,
          td_needed_canary_requests = tp_min_canary_requests P - dm_canary_requests_total m\<rparr>)"

end
