(* ===== verification/ModelLifecycle.thy ===== *)
theory ModelLifecycle
  imports ModelDiscovery
begin

text \<open>
  The life cycle of discovered models: the invariant of the registry, the contract of an
  update of one model (the locales \<open>model_update\<close> and \<open>unpublishing_update\<close>, interpreted for
  each operation), and the properties of discovery, probing, traffic and promotion.
\<close>

section \<open>The invariant\<close>

text \<open>
  A model is public, routable and counted as promoted exactly while it is canary or active,
  only such a model is marked compatible with Claude Code, and the names of its passed
  probes are sorted without repetition; each stage counts its successes and failures.
\<close>

definition traffic_ok :: "discovered_model \<Rightarrow> bool" where
  "traffic_ok m \<longleftrightarrow>
     dm_candidate_requests_total m
       = sat_add 64 (dm_candidate_success_total m) (dm_candidate_failure_total m) \<and>
     dm_canary_requests_total m = sat_add 64 (dm_canary_success_total m) (dm_canary_failure_total m) \<and>
     dm_active_requests_total m = sat_add 64 (dm_active_success_total m) (dm_active_failure_total m)"

definition model_wf :: "discovered_model \<Rightarrow> bool" where
  "model_wf m \<longleftrightarrow>
     dm_auto_promoted m = published (dm_state m) \<and> dm_public m = published (dm_state m) \<and>
     dm_routable m = published (dm_state m) \<and>
     (dm_claudecode_compatible m \<longrightarrow> published (dm_state m)) \<and>
     sorted (dm_passed_probe_names m) \<and> distinct (dm_passed_probe_names m) \<and> traffic_ok m"

definition counts_ok :: "model_discovery_snapshot \<Rightarrow> bool" where
  "counts_ok s \<longleftrightarrow>
     ds_discovered_total s = length (ds_models s) \<and>
     ds_candidate_total s = length (filter (\<lambda>m. dm_state m = Candidate) (ds_models s)) \<and>
     ds_ignored_total s = length (filter (\<lambda>m. dm_state m = Ignored) (ds_models s)) \<and>
     ds_missing_total s = length (filter (\<lambda>m. dm_state m = Missing) (ds_models s))"

definition ids_ok :: "discovered_model list \<Rightarrow> bool" where
  "ids_ok ms \<longleftrightarrow> sorted (map dm_id ms) \<and> distinct (map dm_id ms)"

definition ds_wf :: "model_discovery_snapshot \<Rightarrow> bool" where
  "ds_wf s \<longleftrightarrow> (\<forall>m \<in> set (ds_models s). model_wf m) \<and> ids_ok (ds_models s) \<and> counts_ok s"

lemma recompute_counts_simps [simp]:
  "ds_models (recompute_counts s) = ds_models s" "counts_ok (recompute_counts s)"
  by (simp_all add: recompute_counts_def counts_ok_def)

lemma ds_wf_new: "ds_wf (DynamicModelRegistry_new b url)"
  by (simp add: ds_wf_def DynamicModelRegistry_new_def counts_ok_def ids_ok_def)


lemma find_index_Some:
  "find (\<lambda>k. dm_id (ms ! k) = i) [0..<length ms] = Some k \<Longrightarrow> k < length ms \<and> dm_id (ms ! k) = i"
  by (auto simp: find_Some_iff)

lemma find_index_None:
  "find (\<lambda>k. dm_id (ms ! k) = i) [0..<length ms] = None \<longleftrightarrow> i \<notin> dm_id ` set ms"
proof -
  have "find (\<lambda>k. dm_id (ms ! k) = i) [0..<length ms] = None \<longleftrightarrow> (\<forall>k < length ms. dm_id (ms ! k) \<noteq> i)"
    by (auto simp: find_None_iff)
  also have "\<dots> \<longleftrightarrow> (\<forall>m \<in> set ms. dm_id m \<noteq> i)" by (simp add: all_set_conv_all_nth)
  finally show ?thesis by auto
qed

lemma find_index_get:
  "find (\<lambda>k. dm_id (ms ! k) = i) [0..<length ms] = Some k \<Longrightarrow> find (\<lambda>m. dm_id m = i) ms = Some (ms ! k)"
  by (auto simp: find_Some_iff)

lemma ds_get_Some: "ds_get i s = Some m \<Longrightarrow> m \<in> set (ds_models s) \<and> dm_id m = i"
  by (auto simp: ds_get_def find_Some_iff)

lemma ds_get_unique:
  assumes "ids_ok (ds_models s)" and "m \<in> set (ds_models s)"
  shows "ds_get (dm_id m) s = Some m"
proof -
  from assms(2) have "find (\<lambda>x. dm_id x = dm_id m) (ds_models s) \<noteq> None"
    by (auto simp: find_None_iff)
  then obtain x where x: "ds_get (dm_id m) s = Some x" by (auto simp: ds_get_def)
  from ds_get_Some [OF this] have "x \<in> set (ds_models s)" "dm_id x = dm_id m" by simp_all
  with assms have "x = m" by (auto simp: ids_ok_def distinct_map dest: inj_onD)
  with x show ?thesis by simp
qed

section \<open>Updates of one model\<close>

locale model_update =
  fixes f :: "discovered_model \<Rightarrow> discovered_model"
  assumes keeps_id: "dm_id (f m) = dm_id m"
    and keeps_wf: "model_wf m \<Longrightarrow> model_wf (f m)"
begin

lemma update_ids: "map dm_id (ds_models (snd (update_model i f s))) = map dm_id (ds_models s)"
proof (cases "find (\<lambda>k. dm_id (ds_models s ! k) = i) [0..<length (ds_models s)]")
  case None
  then show ?thesis by (simp add: update_model_def)
next
  case (Some k)
  from find_index_Some [OF this] have "k < length (ds_models s)" by simp
  with Some show ?thesis
    by (simp add: update_model_def Let_def map_update keeps_id list_update_same_conv)
qed

lemma update_wf: "ds_wf s \<Longrightarrow> ds_wf (snd (update_model i f s))"
proof -
  assume s: "ds_wf s"
  have ids: "ids_ok (ds_models (snd (update_model i f s)))"
    using s update_ids [of i s] by (simp add: ds_wf_def ids_ok_def)
  show ?thesis
  proof (cases "find (\<lambda>k. dm_id (ds_models s ! k) = i) [0..<length (ds_models s)]")
    case None
    with s show ?thesis by (simp add: update_model_def)
  next
    case (Some k)
    from find_index_Some [OF this] have k: "k < length (ds_models s)" by simp
    with s have "model_wf (f (ds_models s ! k))" by (simp add: ds_wf_def keeps_wf)
    then have "\<forall>m \<in> set ((ds_models s)[k := f (ds_models s ! k)]). model_wf m"
      using s set_update_subset_insert [of "ds_models s" k] by (auto simp: ds_wf_def)
    with ids Some show ?thesis by (simp add: ds_wf_def update_model_def Let_def)
  qed
qed

lemma update_get:
  assumes "ds_wf s"
  shows "ds_get j (snd (update_model i f s)) =
           (if j = i then map_option f (ds_get i s) else ds_get j s)"
    and "fst (update_model i f s) = map_option f (ds_get i s)"
proof -
  have "ds_get j (snd (update_model i f s)) = (if j = i then map_option f (ds_get i s) else ds_get j s) \<and>
    fst (update_model i f s) = map_option f (ds_get i s)"
  proof (cases "find (\<lambda>k. dm_id (ds_models s ! k) = i) [0..<length (ds_models s)]")
    case None
    then have "i \<notin> dm_id ` set (ds_models s)" by (simp only: find_index_None not_False_eq_True)
    then have "ds_get i s = None" by (auto simp: ds_get_def find_None_iff)
    with None show ?thesis by (auto simp: update_model_def)
  next
    case (Some k)
    let ?m = "ds_models s ! k"
    let ?s = "snd (update_model i f s)"
    from find_index_Some [OF Some] have k: "k < length (ds_models s)" "dm_id ?m = i" by simp_all
    have g: "ds_get i s = Some ?m" using find_index_get [OF Some] by (simp add: ds_get_def)
    have models: "ds_models ?s = (ds_models s)[k := f ?m]" and r: "fst (update_model i f s) = Some (f ?m)"
      using Some by (simp_all add: update_model_def Let_def)
    have ids: "ids_ok (ds_models ?s)" "ids_ok (ds_models s)"
      using assms update_ids [of i s] by (simp_all add: ds_wf_def ids_ok_def)
    have own: "ds_get i ?s = Some (f ?m)"
      using ds_get_unique [OF ids(1), of "f ?m"] k
      by (simp add: models keeps_id set_update_memI)
    have other: "ds_get j ?s = ds_get j s" if "j \<noteq> i"
    proof (cases "ds_get j s")
      case (Some x)
      from ds_get_Some [OF this] obtain l where l: "l < length (ds_models s)" "ds_models s ! l = x" "dm_id x = j"
        by (auto simp: in_set_conv_nth)
      with k that have "l \<noteq> k" by auto
      with l(1,2) have "ds_models ?s ! l = x" "l < length (ds_models ?s)" by (simp_all add: models)
      then have "x \<in> set (ds_models ?s)" by (auto simp: in_set_conv_nth)
      from ds_get_unique [OF ids(1) this] Some l(3) show ?thesis by simp
    next
      case None
      have "ds_get j ?s = None"
      proof (rule ccontr)
        assume "ds_get j ?s \<noteq> None"
        then obtain x where "x \<in> set (ds_models ?s)" "dm_id x = j" using ds_get_Some by blast
        then have "j \<in> set (map dm_id (ds_models ?s))" by auto
        then have "j \<in> set (map dm_id (ds_models s))" by (simp only: update_ids)
        then obtain y where "y \<in> set (ds_models s)" "dm_id y = j" by auto
        with ds_get_unique [OF ids(2)] None show False by auto
      qed
      with None show ?thesis by simp
    qed
    from own other g r show ?thesis by simp
  qed
  then show "ds_get j (snd (update_model i f s)) = (if j = i then map_option f (ds_get i s) else ds_get j s)"
    and "fst (update_model i f s) = map_option f (ds_get i s)" by simp_all
qed

end

text \<open>An update that publishes nothing.\<close>

locale unpublishing_update = model_update +
  assumes keeps_private: "published (dm_state (f m)) \<Longrightarrow> published (dm_state m)"
begin

lemma update_private:
  assumes "ds_wf s" and "ds_get j (snd (update_model i f s)) = Some m" and "published (dm_state m)"
  shows "\<exists>m'. ds_get j s = Some m' \<and> published (dm_state m')"
  using assms update_get(1) [OF assms(1), of j i] keeps_private by (auto split: if_splits)

end

lemmas apply_defs =
  withhold_def clear_claudecode_compatibility_def sync_lifecycle_flags_def Let_def published_def

interpretation set_state: model_update "apply_state now st r" for now st r
  by unfold_locales
    (auto simp: apply_state_def model_wf_def traffic_ok_def apply_defs split: discovered_model_state.splits)

interpretation probe_start: unpublishing_update "apply_probe_start now" for now
  by unfold_locales (auto simp: apply_probe_start_def model_wf_def traffic_ok_def apply_defs split: if_splits)

interpretation probe_failure: unpublishing_update "apply_probe_failure now c e n" for now c e n
  by unfold_locales (auto simp: apply_probe_failure_def model_wf_def traffic_ok_def apply_defs split: if_splits)

lemma count_stage_fields [simp]:
  "dm_id (count_stage fc m) = dm_id m" "dm_state (count_stage fc m) = dm_state m"
  "dm_public (count_stage fc m) = dm_public m" "dm_routable (count_stage fc m) = dm_routable m"
  "dm_auto_promoted (count_stage fc m) = dm_auto_promoted m"
  "dm_claudecode_compatible (count_stage fc m) = dm_claudecode_compatible m"
  "dm_passed_probe_names (count_stage fc m) = dm_passed_probe_names m"
  by (simp_all add: count_stage_def Let_def split: discovered_model_state.split)

interpretation probe_success: unpublishing_update "apply_probe_success now n" for now n
  by unfold_locales (auto simp: apply_probe_success_def model_wf_def traffic_ok_def apply_defs split: if_splits)

lemma sat_bump:
  "sat_add 64 (sat_add 64 a (Suc 0)) b = sat_add 64 (sat_add 64 a b) (Suc 0)"
  "sat_add 64 a (sat_add 64 b (Suc 0)) = sat_add 64 (sat_add 64 a b) (Suc 0)"
  by (simp_all add: sat_add_def min_def)

lemma sat_bump_eqs:
  "sat_add 64 (sat_add 64 a b) (Suc 0) = sat_add 64 (bump True a) (bump False b)"
  "sat_add 64 (sat_add 64 a b) (Suc 0) = sat_add 64 (bump False a) (bump True b)"
  by (simp_all add: sat_bump bump_def)

lemma count_stage_traffic: "traffic_ok m \<Longrightarrow> traffic_ok (count_stage fc m)"
proof (cases "fc = None")
  case True
  then show "traffic_ok m \<Longrightarrow> traffic_ok (count_stage fc m)"
    by (cases "dm_state m") (auto simp: count_stage_def traffic_ok_def sat_bump_eqs(1))
next
  case False
  then show "traffic_ok m \<Longrightarrow> traffic_ok (count_stage fc m)"
    by (cases "dm_state m") (auto simp: count_stage_def traffic_ok_def sat_bump_eqs(2))
qed

lemma note_traffic_fields [simp]:
  "dm_id (note_traffic now st k e m) = dm_id m" "dm_state (note_traffic now st k e m) = dm_state m"
  "model_wf (note_traffic now st k e m) = model_wf (count_stage (if traffic_success st k then None
     else Some (classify_traffic_failure k e)) m)"
  by (simp_all add: note_traffic_def count_traffic_def Let_def model_wf_def traffic_ok_def)

lemma quarantine_fields [simp]:
  "dm_id (quarantine_model now m) = dm_id m" "dm_state (quarantine_model now m) = Quarantined"
  "model_wf m \<Longrightarrow> model_wf (quarantine_model now m)"
  by (simp_all add: quarantine_model_def clear_claudecode_compatibility_def model_wf_def
      traffic_ok_def published_def)

lemma count_stage_wf [simp]: "model_wf m \<Longrightarrow> model_wf (count_stage fc m)"
  by (simp add: model_wf_def count_stage_traffic)

interpretation traffic: unpublishing_update "apply_traffic_result now st k e" for now st k e
  by unfold_locales (simp_all add: apply_traffic_result_def Let_def published_def split: if_splits)

lemma recompute_counts_ok: "counts_ok s \<Longrightarrow> recompute_counts s = s"
  by (simp add: recompute_counts_def counts_ok_def)

definition apply_mark :: "nat \<Rightarrow> string \<Rightarrow> discovered_model \<Rightarrow> discovered_model" where
  "apply_mark now reason m =
     (if published (dm_state m)
      then m\<lparr>dm_claudecode_compatible := True, dm_claudecode_compatibility_reason := Some reason,
             dm_claudecode_compatibility_unix := Some now, dm_last_seen_unix := now\<rparr>
      else m)"

interpretation mark: unpublishing_update "apply_mark now r" for now r
  by unfold_locales (auto simp: apply_mark_def model_wf_def traffic_ok_def apply_defs split: if_splits)

lemma count_states:
  "length (filter (\<lambda>m. P (dm_state m)) ms) = length (filter P (map dm_state ms))"
  by (simp add: filter_map comp_def)

lemma counts_ok_states:
  assumes "counts_ok s" and "map dm_state ms = map dm_state (ds_models s)"
  shows "counts_ok (s\<lparr>ds_models := ms\<rparr>)"
proof -
  have n: "length ms = length (ds_models s)" using assms(2) by (rule map_eq_imp_length_eq)
  have c: "length (filter (\<lambda>m. dm_state m = x) ms)
      = length (filter (\<lambda>m. dm_state m = x) (ds_models s))" for x
    using count_states [of "\<lambda>y. y = x" ms] count_states [of "\<lambda>y. y = x" "ds_models s"] assms(2)
    by (simp only:)
  show ?thesis using assms(1) by (simp add: counts_ok_def c n)
qed

lemma mark_is_update:
  assumes "ds_wf s"
  shows "mark_claudecode_compatible now i r s = update_model i (apply_mark now r) s"
proof (cases "find (\<lambda>k. dm_id (ds_models s ! k) = i) [0..<length (ds_models s)]")
  case None
  then show ?thesis by (simp add: mark_claudecode_compatible_def update_model_def)
next
  case (Some k)
  let ?m = "ds_models s ! k"
  from find_index_Some [OF Some] have k: "k < length (ds_models s)" by simp
  have "map dm_state ((ds_models s)[k := apply_mark now r ?m]) = map dm_state (ds_models s)"
    using k by (simp add: map_update apply_mark_def list_update_same_conv)
  with assms have "counts_ok (s\<lparr>ds_models := (ds_models s)[k := apply_mark now r ?m]\<rparr>)"
    by (intro counts_ok_states) (simp_all add: ds_wf_def)
  with Some k show ?thesis
    by (simp add: mark_claudecode_compatible_def update_model_def Let_def recompute_counts_ok
        apply_mark_def list_update_id)
qed

section \<open>Discovery rounds\<close>

lemma merge_seen_fields [simp]:
  "dm_id (merge_seen_model_state c r m) = dm_id m"
  "dm_passed_probe_names (merge_seen_model_state c r m) = dm_passed_probe_names m"
  by (simp_all add: merge_seen_model_state_def split: discovered_model_state.split)

lemma merge_seen_traffic [simp]:
  "traffic_ok ((merge_seen_model_state c r m)\<lparr>dm_last_seen_unix := t, dm_missing_rounds := n\<rparr>) = traffic_ok m"
  by (simp add: merge_seen_model_state_def traffic_ok_def split: discovered_model_state.split)

lemma new_traffic [simp]: "traffic_ok (DiscoveredModel_new now i st r)"
  by (simp add: DiscoveredModel_new_def traffic_ok_def sat_add_def)

lemma sync_fields [simp]:
  "dm_id (sync_lifecycle_flags m) = dm_id m" "dm_state (sync_lifecycle_flags m) = dm_state m"
  "dm_passed_probe_names (sync_lifecycle_flags m) = dm_passed_probe_names m"
  by (simp_all add: sync_lifecycle_flags_def Let_def clear_claudecode_compatibility_def)

lemma sync_wf:
  "sorted (dm_passed_probe_names m) \<Longrightarrow> distinct (dm_passed_probe_names m) \<Longrightarrow> traffic_ok m
     \<Longrightarrow> model_wf (sync_lifecycle_flags m)"
  by (simp add: model_wf_def traffic_ok_def sync_lifecycle_flags_def Let_def clear_claudecode_compatibility_def)

lemma classify_model_state: "fst (classify_model i) \<in> {Candidate, Ignored}"
  by (simp add: classify_model_def)

lemma mark_missing_wf: "model_wf m \<Longrightarrow> model_wf (mark_missing m)"
  by (simp add: mark_missing_def model_wf_def traffic_ok_def apply_defs)

lemma mark_missing_fields [simp]:
  "dm_id (mark_missing m) = dm_id m" "dm_state (mark_missing m) = Missing"
  by (simp_all add: mark_missing_def apply_defs)

lemma DiscoveredModel_new_fields [simp]:
  "dm_id (DiscoveredModel_new now i st r) = i" "dm_state (DiscoveredModel_new now i st r) = st"
  "dm_passed_probe_names (DiscoveredModel_new now i st r) = []"
  by (simp_all add: DiscoveredModel_new_def)

lemma see_model_None:
  "see_model now i None = see_model now i
     (Some (DiscoveredModel_new now i (fst (classify_model i)) (snd (classify_model i))))"
  by (simp add: see_model_def case_prod_beta)

lemma see_model_Some:
  "see_model now i (Some m) =
     sync_lifecycle_flags ((merge_seen_model_state (fst (classify_model i)) (snd (classify_model i)) m)
       \<lparr>dm_last_seen_unix := now, dm_missing_rounds := 0\<rparr>)"
  by (simp add: see_model_def case_prod_beta)

lemma see_model_id: "(\<And>m. old = Some m \<Longrightarrow> dm_id m = i) \<Longrightarrow> dm_id (see_model now i old) = i"
  by (cases old) (simp_all add: see_model_None see_model_Some)

lemma wf_names: "model_wf m \<Longrightarrow> sorted (dm_passed_probe_names m) \<and> distinct (dm_passed_probe_names m)
    \<and> traffic_ok m"
  by (simp add: model_wf_def)

lemma see_model_wf: "(\<And>m. old = Some m \<Longrightarrow> model_wf m) \<Longrightarrow> model_wf (see_model now i old)"
  by (cases old) (simp_all add: see_model_None see_model_Some sync_wf wf_names)

text \<open>Seeing a model twice in a round is seeing it once.\<close>

lemma dm_state_same: "dm_state m = st \<Longrightarrow> m\<lparr>dm_state := st\<rparr> = m"
  by (cases m) simp

lemma dm_reason_same: "dm_reason m = r \<Longrightarrow> m\<lparr>dm_reason := r\<rparr> = m"
  by (cases m) simp

lemma merge_seen_again:
  assumes "c \<in> {Candidate, Ignored}"
    and "dm_state x = dm_state (merge_seen_model_state c r m)"
    and "dm_reason x = dm_reason (merge_seen_model_state c r m)"
  shows "merge_seen_model_state c r x = x"
  using assms
  by (cases "dm_state m")
    (auto simp: merge_seen_model_state_def dm_state_same dm_reason_same)

lemma sync_reason [simp]: "dm_reason (sync_lifecycle_flags m) = dm_reason m"
  by (simp add: sync_lifecycle_flags_def Let_def clear_claudecode_compatibility_def)

lemma sync_seen_again:
  "sync_lifecycle_flags ((sync_lifecycle_flags (m\<lparr>dm_last_seen_unix := t, dm_missing_rounds := 0\<rparr>))
     \<lparr>dm_last_seen_unix := t, dm_missing_rounds := 0\<rparr>)
   = sync_lifecycle_flags (m\<lparr>dm_last_seen_unix := t, dm_missing_rounds := 0\<rparr>)"
  by (simp add: sync_lifecycle_flags_def Let_def clear_claudecode_compatibility_def)

lemma see_model_idem: "see_model now i (Some (see_model now i old)) = see_model now i old"
proof -
  have "see_model now i (Some (see_model now i (Some m))) = see_model now i (Some m)" for m
    unfolding see_model_Some
    by (subst merge_seen_again [OF classify_model_state, of _ i _ m])
      (simp_all add: sync_seen_again)
  then show ?thesis by (cases old) (simp_all add: see_model_None)
qed

text \<open>The table a round builds is keyed by the models' ids, in ascending order.\<close>

definition table_ok :: "(string \<times> discovered_model) list \<Rightarrow> bool" where
  "table_ok t \<longleftrightarrow> sorted (map fst t) \<and> distinct (map fst t) \<and> (\<forall>(k, m) \<in> set t. dm_id m = k)"

lemma set_obj_insert_subset: "set (obj_insert k v t) \<subseteq> insert (k, v) (set t)"
  by (induction k v t rule: obj_insert.induct) auto

lemma table_insert: "table_ok t \<Longrightarrow> dm_id m = k \<Longrightarrow> table_ok (obj_insert k m t)"
  using sorted_obj_insert [of t k m] set_obj_insert_subset [of k m t]
  by (fastforce simp: table_ok_def)

lemma table_get: "table_ok t \<Longrightarrow> map_of t k = Some m \<Longrightarrow> dm_id m = k"
  by (auto simp: table_ok_def dest!: map_of_SomeD)

lemma find_id_None: "i \<notin> dm_id ` set ms \<Longrightarrow> find (\<lambda>m. dm_id m = i) ms = None"
  by (induction ms) auto

lemma load_models:
  assumes "table_ok t"
  shows "table_ok (foldl (\<lambda>t m. obj_insert (dm_id m) m t) t ms)
    \<and> (distinct (map dm_id ms) \<longrightarrow>
       map_of (foldl (\<lambda>t m. obj_insert (dm_id m) m t) t ms) k =
         (case find (\<lambda>m. dm_id m = k) ms of Some m \<Rightarrow> Some m | None \<Rightarrow> map_of t k))"
  using assms
proof (induction ms arbitrary: t)
  case (Cons m ms)
  have none: "find (\<lambda>x. dm_id x = dm_id m) ms = None" if "dm_id m \<notin> dm_id ` set ms"
    using that by (rule find_id_None)
  show ?case
    using Cons.IH [OF table_insert [OF Cons.prems refl], of m] none
    by (auto simp: map_of_obj_insert split: option.split)
qed simp

abbreviation see_all :: "nat \<Rightarrow> (string \<times> discovered_model) list \<Rightarrow> string list
     \<Rightarrow> (string \<times> discovered_model) list" where
  "see_all now \<equiv> foldl (\<lambda>t i. obj_insert i (see_model now i (map_of t i)) t)"

lemma see_all_table:
  "table_ok t \<Longrightarrow> table_ok (see_all now t ids)"
proof (induction ids arbitrary: t)
  case (Cons i ids)
  have "table_ok (obj_insert i (see_model now i (map_of t i)) t)"
    using Cons.prems by (intro table_insert see_model_id) (auto dest: table_get)
  from Cons.IH [OF this] show ?case by simp
qed simp

lemma see_all_get:
  "map_of (see_all now t ids) k =
     (if k \<in> set ids then Some (see_model now k (map_of t k)) else map_of t k)"
proof (induction ids arbitrary: t)
  case (Cons i ids)
  then show ?case by (simp add: map_of_obj_insert see_model_idem)
qed simp

lemma table_models:
  assumes "table_ok t"
  shows "ids_ok (map snd t)" and "find (\<lambda>m. dm_id m = k) (map snd t) = map_of t k"
    and "sort_key dm_id (map snd t) = map snd t"
proof -
  have ids: "map dm_id (map snd t) = map fst t" using assms by (auto simp: table_ok_def)
  with assms show "ids_ok (map snd t)" by (simp only: ids_ok_def table_ok_def)
  have "sorted (map dm_id (map snd t))" using assms by (simp only: ids table_ok_def)
  then show "sort_key dm_id (map snd t) = map snd t" by (rule sort_key_id_if_sorted)
  show "find (\<lambda>m. dm_id m = k) (map snd t) = map_of t k"
    using assms by (induction t) (auto simp: table_ok_def)
qed

lemma table_map:
  assumes "table_ok t" and "\<And>m. dm_id (f m) = dm_id m"
  shows "table_ok (map (\<lambda>(k, m). (k, f m)) t)"
    and "map_of (map (\<lambda>(k, m). (k, f m)) t) k = map_option f (map_of t k)"
proof -
  have "map fst (map (\<lambda>(k, m). (k, f m)) t) = map fst t" by auto
  moreover have "\<forall>(k, m) \<in> set (map (\<lambda>(k, m). (k, f m)) t). dm_id m = k"
    using assms by (auto simp: table_ok_def)
  ultimately show "table_ok (map (\<lambda>(k, m). (k, f m)) t)"
    using assms(1) by (simp only: table_ok_def simp_thms)
  show "map_of (map (\<lambda>(k, m). (k, f m)) t) k = map_option f (map_of t k)"
    by (induction t) auto
qed

definition after_round :: "nat \<Rightarrow> string list \<Rightarrow> string \<Rightarrow> discovered_model option
     \<Rightarrow> discovered_model option" where
  "after_round now ids i old =
     (if i \<in> set ids then Some (see_model now i old) else map_option mark_missing old)"

lemma merge_discovered_spec:
  assumes "ids_ok ms"
  shows "ids_ok (merge_discovered now ids ms)"
    and "find (\<lambda>m. dm_id m = k) (merge_discovered now ids ms)
           = after_round now ids k (find (\<lambda>m. dm_id m = k) ms)"
proof -
  define t1 where "t1 = foldl (\<lambda>t m. obj_insert (dm_id m) m t) [] ms"
  define t2 where "t2 = see_all now t1 ids"
  define f where "f m = (if dm_id m \<notin> set ids then mark_missing m else m)" for m
  define t3 where "t3 = map (\<lambda>(k, m). (k, f m)) t2"
  have merged: "merge_discovered now ids ms = sort_key dm_id (map snd t3)"
    by (simp add: merge_discovered_def Let_def t1_def t2_def t3_def f_def)
  have "table_ok []" by (simp add: table_ok_def)
  from load_models [OF this, of ms k] assms
  have t1: "table_ok t1" "map_of t1 k = find (\<lambda>m. dm_id m = k) ms"
    by (simp_all add: t1_def ids_ok_def split: option.split)
  then have t2: "table_ok t2" unfolding t2_def by (intro see_all_table)
  have f: "dm_id (f m) = dm_id m" for m by (simp add: f_def)
  have t3: "table_ok t3" "map_of t3 k = map_option f (map_of t2 k)"
    unfolding t3_def using table_map [of t2 f, OF t2 f] by auto
  have m: "merge_discovered now ids ms = map snd t3" using merged table_models [OF t3(1)] by simp
  show "ids_ok (merge_discovered now ids ms)" unfolding m by (rule table_models [OF t3(1)])
  have "map_of t3 k = after_round now ids k (map_of t1 k)"
  proof (cases "map_of t2 k")
    case None
    then show ?thesis using t3(2) see_all_get [of now t1 ids k]
      by (simp add: t2_def after_round_def split: if_splits)
  next
    case (Some x)
    with table_get [OF t2] have "dm_id x = k" by blast
    with Some show ?thesis using t3(2) see_all_get [of now t1 ids k]
      by (auto simp: t2_def after_round_def f_def split: if_splits)
  qed
  with t1 m table_models(2) [OF t3(1), of k]
  show "find (\<lambda>m. dm_id m = k) (merge_discovered now ids ms)
          = after_round now ids k (find (\<lambda>m. dm_id m = k) ms)"
    by simp
qed

lemma after_round_wf:
  "(\<And>m. old = Some m \<Longrightarrow> model_wf m) \<Longrightarrow> after_round now ids i old = Some m \<Longrightarrow> model_wf m"
  by (cases old) (auto simp: after_round_def intro: see_model_wf mark_missing_wf split: if_splits)

lemma merge_discovered_wf:
  assumes "ids_ok ms" and "\<forall>m \<in> set ms. model_wf m"
  shows "\<forall>m \<in> set (merge_discovered now ids ms). model_wf m"
proof
  fix m
  assume m: "m \<in> set (merge_discovered now ids ms)"
  let ?s = "\<lparr>ds_enabled = True, ds_source_url = [], ds_last_attempt_unix = None,
    ds_last_success_unix = None, ds_last_error = None, ds_worker_running = True,
    ds_discovered_total = 0, ds_candidate_total = 0, ds_ignored_total = 0,
    ds_missing_total = 0, ds_models = merge_discovered now ids ms\<rparr>"
  have "find (\<lambda>x. dm_id x = dm_id m) (merge_discovered now ids ms) = Some m"
    using ds_get_unique [of ?s m] m merge_discovered_spec(1) [OF assms(1)] by (simp add: ds_get_def)
  with merge_discovered_spec(2) [OF assms(1)]
  have "after_round now ids (dm_id m) (find (\<lambda>x. dm_id x = dm_id m) ms) = Some m" by simp
  moreover have "x \<in> set ms" if "find (\<lambda>x. dm_id x = dm_id m) ms = Some x" for x
    using that by (auto simp: find_Some_iff)
  ultimately show "model_wf m" using assms(2) after_round_wf by blast
qed

section \<open>Operations and reachable registries\<close>

text \<open>One call of a mutating operation of the registry, with the time it reads.\<close>

datatype disc_op =
    SetConfig bool string
  | SetWorker bool
  | Attempt
  | PollError string
  | Poll string
  | SetState string discovered_model_state string
  | ProbeStart string
  | ProbeSuccess string string
  | ProbeFailure string string string "string option"
  | Traffic string nat string string
  | MarkCompatible string string

fun disc_exec :: "(string \<Rightarrow> string + string list) \<Rightarrow> nat \<Rightarrow> disc_op \<Rightarrow> model_discovery_snapshot
     \<Rightarrow> model_discovery_snapshot" where
  "disc_exec decode now (SetConfig b url) s = set_config b url s"
| "disc_exec decode now (SetWorker b) s = set_worker_running b s"
| "disc_exec decode now Attempt s = record_attempt now s"
| "disc_exec decode now (PollError e) s = record_error now e s"
| "disc_exec decode now (Poll body) s = snd (update_from_opencode_json decode now body s)"
| "disc_exec decode now (SetState i st r) s = snd (set_model_state now i st r s)"
| "disc_exec decode now (ProbeStart i) s = snd (record_probe_start now i s)"
| "disc_exec decode now (ProbeSuccess i n) s = snd (record_probe_success now i n s)"
| "disc_exec decode now (ProbeFailure i c e n) s = snd (record_probe_failure now i c e n s)"
| "disc_exec decode now (Traffic i st k e) s = snd (record_traffic_result now i st k e s)"
| "disc_exec decode now (MarkCompatible i r) s = snd (mark_claudecode_compatible now i r s)"

text \<open>
  A poll holds no lock between its steps: it checks the response (for an empty one it looks whether
  any model is known), copies the models under the read lock, merges them, and overwrites the list
  under the write lock.  Any number of polls can be in flight, each on its way between two of these
  steps, and any other operation can come in between.  \<open>Poll\<close> is a poll nothing comes between.
\<close>

datatype pending_poll = Checked nat "string list" | Fetched nat "string list" "discovered_model list"

type_synonym disc_world = "model_discovery_snapshot \<times> pending_poll list"

datatype disc_event = Exec nat disc_op | PollCheck nat string | PollRead nat | PollWrite nat

fun disc_apply :: "(string \<Rightarrow> string + string list) \<Rightarrow> disc_event \<Rightarrow> disc_world \<Rightarrow> disc_world" where
  "disc_apply decode (Exec now op) (s, P) = (disc_exec decode now op s, P)"
| "disc_apply decode (PollCheck now body) (s, P) =
     (case decode body of
        Inl e \<Rightarrow> (s, P)
      | Inr ids \<Rightarrow>
          if (ids = [] \<and> ds_models s \<noteq> []) \<or> (\<exists>i \<in> set ids. trim i = []) then (s, P)
          else (s, P @ [Checked now ids]))"
| "disc_apply decode (PollRead k) (s, P) =
     (if k < length P
      then case P ! k of
             Checked now ids \<Rightarrow> (s, P[k := Fetched now ids (ds_models s)])
           | Fetched _ _ _ \<Rightarrow> (s, P)
      else (s, P))"
| "disc_apply decode (PollWrite k) (s, P) =
     (if k < length P
      then case P ! k of
             Checked _ _ \<Rightarrow> (s, P)
           | Fetched now ids read \<Rightarrow> (poll_commit now ids read s, take k P @ drop (Suc k) P)
      else (s, P))"

inductive disc_run :: "(string \<Rightarrow> string + string list) \<Rightarrow> disc_event list \<Rightarrow> disc_world \<Rightarrow> bool"
  for decode where
  start: "disc_run decode [] (DynamicModelRegistry_new b url, [])"
| event: "disc_run decode evs w \<Longrightarrow> disc_run decode (evs @ [ev]) (disc_apply decode ev w)"

definition disc_reach ::
  "(string \<Rightarrow> string + string list) \<Rightarrow> model_discovery_snapshot \<Rightarrow> bool" where
  "disc_reach decode s \<longleftrightarrow> (\<exists>evs P. disc_run decode evs (s, P))"

lemma disc_reach_start: "disc_reach decode (DynamicModelRegistry_new b url)"
  unfolding disc_reach_def using disc_run.start by blast

lemma disc_reach_step: "disc_reach decode s \<Longrightarrow> disc_reach decode (disc_exec decode now op s)"
  unfolding disc_reach_def using disc_run.event [of decode _ "(s, _)" "Exec now op"] by force

lemmas disc_reach_intros = disc_reach_start disc_reach_step

text \<open>A poll that nothing comes between is its check, its read and its write in a row.\<close>

lemma poll_in_a_row:
  "disc_exec decode now (Poll body) s
     = fst (disc_apply decode (PollWrite 0) (disc_apply decode (PollRead 0)
         (disc_apply decode (PollCheck now body) (s, []))))"
  by (simp add: update_from_opencode_json_def Let_def split: sum.split)

lemma traffic_cases:
  "record_traffic_result now i st k e s =
     (if (\<exists>m. ds_get i s = Some m \<and> takes_traffic (dm_state m))
      then update_model i (apply_traffic_result now st k e) s else (ds_get i s, s))"
proof (cases "find (\<lambda>k. dm_id (ds_models s ! k) = i) [0..<length (ds_models s)]")
  case None
  then have "i \<notin> dm_id ` set (ds_models s)" by (simp only: find_index_None not_False_eq_True)
  with None show ?thesis by (simp add: record_traffic_result_def ds_get_def find_id_None)
next
  case (Some k)
  from find_index_get [OF this] Some show ?thesis
    by (simp add: record_traffic_result_def ds_get_def)
qed

lemma poll_cases:
  assumes "ds_wf s"
  shows "snd (update_from_opencode_json decode now body s) = s \<or>
    (\<exists>ids. decode body = Inr ids \<and> ds_wf (snd (update_from_opencode_json decode now body s)) \<and>
       (\<forall>i. ds_get i (snd (update_from_opencode_json decode now body s))
              = after_round now ids i (ds_get i s)))"
proof -
  have "ids_ok (ds_models s)" "\<forall>m \<in> set (ds_models s). model_wf m" using assms by (simp_all add: ds_wf_def)
  then show ?thesis
    by (auto simp: update_from_opencode_json_def poll_commit_def Let_def ds_get_def ds_wf_def
        merge_discovered_spec merge_discovered_wf split: sum.split)
qed

lemma config_wf [simp]:
  "ds_wf (set_config b url s) = ds_wf s" "ds_wf (set_worker_running b s) = ds_wf s"
  "ds_wf (record_attempt now s) = ds_wf s" "ds_wf (record_error now e s) = ds_wf s"
  by (simp_all add: ds_wf_def counts_ok_def set_config_def set_worker_running_def
      record_attempt_def record_error_def)

lemma config_get [simp]:
  "ds_get i (set_config b url s) = ds_get i s" "ds_get i (set_worker_running b s) = ds_get i s"
  "ds_get i (record_attempt now s) = ds_get i s" "ds_get i (record_error now e s) = ds_get i s"
  by (simp_all add: ds_get_def set_config_def set_worker_running_def record_attempt_def
      record_error_def)

lemmas update_ops = set_model_state_def record_probe_start_def record_probe_success_def
  record_probe_failure_def traffic_cases mark_is_update

lemma disc_exec_wf: "ds_wf s \<Longrightarrow> ds_wf (disc_exec decode now op s)"
proof (cases op)
  case (Poll body)
  then show "ds_wf s \<Longrightarrow> ds_wf (disc_exec decode now op s)"
    using poll_cases [of s decode now body] by auto
qed (simp_all add: update_ops set_state.update_wf probe_start.update_wf probe_success.update_wf
    probe_failure.update_wf traffic.update_wf mark.update_wf)

text \<open>Every reachable registry is well-formed, and so is every list a pending poll has read.\<close>

fun pending_wf :: "pending_poll \<Rightarrow> bool" where
  "pending_wf (Checked _ _) = True"
| "pending_wf (Fetched _ _ read) = ((\<forall>m \<in> set read. model_wf m) \<and> ids_ok read)"

lemma poll_commit_wf:
  "\<forall>m \<in> set read. model_wf m \<Longrightarrow> ids_ok read \<Longrightarrow> ds_wf (poll_commit now ids read s)"
  by (simp add: poll_commit_def ds_wf_def merge_discovered_wf merge_discovered_spec)

lemma disc_apply_wf:
  assumes "ds_wf (fst w)" and "\<forall>p \<in> set (snd w). pending_wf p"
  shows "ds_wf (fst (disc_apply decode ev w)) \<and> (\<forall>p \<in> set (snd (disc_apply decode ev w)). pending_wf p)"
proof -
  obtain s P where w: "w = (s, P)" by (cases w)
  show ?thesis
  proof (cases ev)
    case (Exec now op)
    with w assms show ?thesis by (simp add: disc_exec_wf)
  next
    case (PollCheck now body)
    with w assms show ?thesis by (auto split: sum.split)
  next
    case (PollRead k)
    with w assms show ?thesis
      by (auto simp: ds_wf_def split: pending_poll.split dest!: set_update_subset_insert [THEN subsetD])
  next
    case (PollWrite k)
    show ?thesis
    proof (cases "k < length P")
      case True
      with w assms(2) have "pending_wf (P ! k)" by simp
      with PollWrite w True assms show ?thesis
        by (cases "P ! k") (auto simp: poll_commit_wf dest: in_set_takeD in_set_dropD)
    qed (use PollWrite w assms in simp)
  qed
qed

lemma disc_run_wf:
  "disc_run decode evs w \<Longrightarrow> ds_wf (fst w) \<and> (\<forall>p \<in> set (snd w). pending_wf p)"
proof (induction rule: disc_run.induct)
  case (event evs w ev)
  then show ?case using disc_apply_wf by blast
qed (simp add: ds_wf_new)

lemma disc_reach_wf: "disc_reach decode s \<Longrightarrow> ds_wf s"
  using disc_run_wf unfolding disc_reach_def by fastforce

end
