(* ===== verification/LifecycleTheorems.thy ===== *)
theory LifecycleTheorems
  imports ModelLifecycle
begin

text \<open>
  The properties of the discovery registry: the invariant of every reachable registry, who
  can publish a model, what a discovery round does to every model, when traffic quarantines
  a candidate, which models a probe round takes, and when a canary may become active.
\<close>

section \<open>Traffic on one model\<close>

type_synonym traffic_result = "nat \<times> nat \<times> string \<times> string"

definition failing :: "traffic_result \<Rightarrow> bool" where
  "failing r = (case r of (now, status, kind, message) \<Rightarrow>
     \<not> traffic_success status (traffic_kind status kind))"

definition take_traffic :: "traffic_result \<Rightarrow> discovered_model \<Rightarrow> discovered_model" where
  "take_traffic r m = (case r of (now, status, kind, message) \<Rightarrow>
     if takes_traffic (dm_state m) then apply_traffic_result now status kind message m else m)"

definition traffic_run ::
  "string \<Rightarrow> traffic_result list \<Rightarrow> model_discovery_snapshot \<Rightarrow> model_discovery_snapshot" where
  "traffic_run i = fold (\<lambda>(now, status, kind, message) s.
     snd (record_traffic_result now i status kind message s))"

lemma take_traffic_wf:
  assumes "ds_wf s"
  shows "ds_get j (snd (record_traffic_result now i st k e s)) =
      (if j = i then map_option (take_traffic (now, st, k, e)) (ds_get i s) else ds_get j s)"
    and "ds_wf (snd (record_traffic_result now i st k e s))"
  using assms traffic.update_get(1) [OF assms, of j i now st k e] traffic.update_wf [OF assms]
  by (cases "ds_get i s"; auto simp: traffic_cases take_traffic_def)+

lemma traffic_run_get:
  "ds_wf s \<Longrightarrow> ds_wf (traffic_run i rs s) \<and>
     ds_get i (traffic_run i rs s) = map_option (fold take_traffic rs) (ds_get i s)"
proof (induction rs arbitrary: s)
  case Nil
  then show ?case by (simp add: traffic_run_def option.map_id0 [unfolded id_def] option.map_ident)
next
  case (Cons r rs)
  obtain now st k e where r: "r = (now, st, k, e)" by (cases r) auto
  from Cons.IH [OF take_traffic_wf(2) [OF Cons.prems, of now i st k e]] r
  show ?case
    by (auto simp: traffic_run_def take_traffic_wf(1) [OF Cons.prems] option.map_comp comp_def)
qed

lemma candidate_success:
  assumes "dm_state m = Candidate" "\<not> failing r"
  shows "dm_state (take_traffic r m) = Candidate" "0 < dm_candidate_success_total (take_traffic r m)"
  using assms
  by (auto simp: failing_def take_traffic_def takes_traffic_def apply_traffic_result_def Let_def
      note_traffic_def count_traffic_def count_stage_def bump_def sat_add_pos split: prod.splits)

lemma candidate_failure:
  assumes "dm_state m = Candidate" "failing r"
  shows "dm_candidate_success_total (take_traffic r m) = dm_candidate_success_total m"
    and "dm_candidate_failure_total (take_traffic r m) = sat_add 64 (dm_candidate_failure_total m) 1"
    and "dm_state (take_traffic r m) =
      (if dm_candidate_success_total m = 0 \<and> 3 \<le> sat_add 64 (dm_candidate_failure_total m) 1
       then Quarantined else Candidate)"
  using assms
  by (auto simp: failing_def take_traffic_def takes_traffic_def apply_traffic_result_def Let_def
      note_traffic_def count_traffic_def count_stage_def bump_def quarantine_model_def
      clear_claudecode_compatibility_def CANDIDATE_TRAFFIC_QUARANTINE_FAILURES_def
      split: prod.splits)

lemma quarantined_stays: "dm_state m = Quarantined \<Longrightarrow> fold take_traffic rs m = m"
  by (induction rs) (auto simp: take_traffic_def takes_traffic_def split: prod.split)

lemma proven_stays:
  "dm_state m = Candidate \<Longrightarrow> 0 < dm_candidate_success_total m
     \<Longrightarrow> dm_state (fold take_traffic rs m) = Candidate"
proof (induction rs arbitrary: m)
  case (Cons r rs)
  have "dm_state (take_traffic r m) = Candidate \<and> 0 < dm_candidate_success_total (take_traffic r m)"
    using Cons.prems candidate_success [of m r] candidate_failure [of m r] by (cases "failing r") auto
  then show ?case using Cons.IH by simp
qed simp

lemma unproven_run:
  assumes "dm_state m = Candidate" "dm_candidate_success_total m = 0"
    and "dm_candidate_failure_total m + n = 3" "0 < n"
  shows "dm_state (fold take_traffic rs m) =
    (if n \<le> length rs \<and> list_all failing (take n rs) then Quarantined else Candidate)"
  using assms
proof (induction rs arbitrary: m n)
  case (Cons r rs)
  show ?case
  proof (cases "failing r")
    case False
    then show ?thesis
      using Cons.prems candidate_success [of m r] proven_stays [of "take_traffic r m" rs]
      by (cases n) auto
  next
    case True
    note f = candidate_failure [OF Cons.prems(1) True]
    have s: "sat_add 64 (dm_candidate_failure_total m) 1 = dm_candidate_failure_total m + 1"
      using Cons.prems(3) by (simp add: sat_add_exact)
    show ?thesis
    proof (cases "n = 1")
      case True
      with f s Cons.prems have "dm_state (take_traffic r m) = Quarantined" by simp
      with True \<open>failing r\<close> show ?thesis by (simp add: quarantined_stays)
    next
      case False
      with f s Cons.prems have "dm_state (take_traffic r m) = Candidate" by simp
      with False Cons.IH [of "take_traffic r m" "n - 1"] f s Cons.prems \<open>failing r\<close> show ?thesis
        by (cases n) auto
    qed
  qed
qed auto

section \<open>Publication\<close>

lemma apply_state_state: "dm_state (apply_state now st r m) = st"
  by (simp add: apply_state_def Let_def clear_claudecode_compatibility_def
      split: discovered_model_state.split)

lemma after_round_private:
  assumes "after_round now ids i old = Some m" "published (dm_state m)"
  shows "\<exists>m'. old = Some m' \<and> published (dm_state m')"
proof -
  have *: "published (dm_state x)" if "published (dm_state (see_model now i (Some x)))" for x
    using that classify_model_state [of i]
    by (auto simp: see_model_Some merge_seen_model_state_def published_def
        split: discovered_model_state.splits)
  have "\<not> published (dm_state (see_model now i None))"
    using classify_model_state [of i]
    by (auto simp: see_model_None see_model_Some merge_seen_model_state_def published_def)
  with assms * show ?thesis
    by (cases old) (auto simp: after_round_def published_def split: if_splits)
qed

lemma disc_exec_private:
  assumes "ds_wf s" "ds_get i (disc_exec decode now op s) = Some m" "published (dm_state m)"
    and "\<forall>st r. op = SetState i st r \<longrightarrow> \<not> published st"
  shows "\<exists>m'. ds_get i s = Some m' \<and> published (dm_state m')"
proof (cases op)
  case (Poll body)
  with poll_cases [OF assms(1), of decode now body] assms(2,3) after_round_private show ?thesis
    by (metis disc_exec.simps(5))
next
  case (SetState j st r)
  with assms show ?thesis
    by (auto simp: set_model_state_def set_state.update_get apply_state_state split: if_splits)
next
  case (Traffic j st k e)
  with assms show ?thesis
    using traffic.update_private [OF assms(1), of i j now st k e m]
    by (auto simp: traffic_cases split: if_splits)
qed (use assms in \<open>auto simp: record_probe_start_def record_probe_success_def
    record_probe_failure_def mark_is_update dest: probe_start.update_private
    probe_success.update_private probe_failure.update_private mark.update_private\<close>)

lemma poll_get:
  assumes "ds_wf s" and "decode body = Inr ids" and "ids \<noteq> []" and "\<forall>j \<in> set ids. trim j \<noteq> []"
  shows "ds_get i (disc_exec decode now (Poll body) s) = after_round now ids i (ds_get i s)"
proof -
  have "ids_ok (ds_models s)" using assms(1) by (simp add: ds_wf_def)
  from merge_discovered_spec(2) [OF this, of i now ids] assms(2-4) show ?thesis
    by (auto simp: update_from_opencode_json_def poll_commit_def Let_def ds_get_def)
qed

lemma taken_are_least:
  assumes "m \<in> set l" and "m \<notin> set (take n l)" and "sorted (map f l)"
  shows "length (take n l) = n \<and> (\<forall>q \<in> set (take n l). f q \<le> f m)"
proof -
  have "m \<in> set (drop n l)" using assms(1,2) by (metis UnE append_take_drop_id set_append)
  moreover have "sorted (map f (take n l) @ map f (drop n l))"
    using assms(3) by (simp flip: map_append)
  moreover have "n < length l" using calculation(1) by (cases "n < length l") auto
  ultimately show ?thesis by (auto simp: sorted_append)
qed

section \<open>Properties\<close>

text \<open>
  C30: In every registry that the operations reach, with polls in flight and other operations
  between the steps of a poll, a model is public, routable and counted as promoted exactly while it
  is canary or active, only such a model is marked compatible with Claude Code, and each of the
  request counters of a model (candidate, canary and active) is the saturated sum of its successes
  and failures; the ids are sorted and unique, and the four totals count the models: all of them,
  the candidates, the ignored and the missing.
\<close>

theorem lifecycle_invariant:
  assumes "disc_reach decode s"
  shows "(\<forall>m \<in> set (ds_models s).
      dm_public m = (dm_state m = Canary \<or> dm_state m = Active) \<and>
      dm_routable m = dm_public m \<and> dm_auto_promoted m = dm_public m \<and>
      (dm_claudecode_compatible m \<longrightarrow> dm_public m) \<and>
      dm_candidate_requests_total m
        = sat_add 64 (dm_candidate_success_total m) (dm_candidate_failure_total m) \<and>
      dm_canary_requests_total m = sat_add 64 (dm_canary_success_total m) (dm_canary_failure_total m) \<and>
      dm_active_requests_total m = sat_add 64 (dm_active_success_total m) (dm_active_failure_total m)) \<and>
    sorted (map dm_id (ds_models s)) \<and> distinct (map dm_id (ds_models s)) \<and>
    ds_discovered_total s = length (ds_models s) \<and>
    ds_candidate_total s = length (filter (\<lambda>x. dm_state x = Candidate) (ds_models s)) \<and>
    ds_ignored_total s = length (filter (\<lambda>x. dm_state x = Ignored) (ds_models s)) \<and>
    ds_missing_total s = length (filter (\<lambda>x. dm_state x = Missing) (ds_models s))"
  using disc_reach_wf [OF assms]
  by (auto simp: ds_wf_def model_wf_def ids_ok_def counts_ok_def traffic_ok_def published_def)

text \<open>A decoder of lines of ids, and a registry that has polled one free model.\<close>

definition demo_decode :: "string \<Rightarrow> string + string list" where
  "demo_decode body = (if body = ''bad'' then Inl ''bad'' else if body = [] then Inr [] else Inr [body])"

definition demo_registry :: model_discovery_snapshot where
  "demo_registry = disc_exec demo_decode 5 (Poll ''x-free'')
     (DynamicModelRegistry_new True ''u'')"

definition demo_decode2 :: "string \<Rightarrow> string + string list" where
  "demo_decode2 body = (if body = ''y'' then Inr [''y''] else Inr [''x-free'', ''y''])"

definition demo_registry2 :: model_discovery_snapshot where
  "demo_registry2 = disc_exec demo_decode2 5 (Poll ''xy'') (DynamicModelRegistry_new True ''u'')"

lemma demo_reach: "disc_reach demo_decode demo_registry"
  unfolding demo_registry_def by (intro disc_reach_intros)

lemmas demo_defs = demo_registry_def demo_decode_def DynamicModelRegistry_new_def
  update_from_opencode_json_def poll_commit_def merge_discovered_def recompute_counts_def ds_get_def

lemma demo_model_fields:
  "dm_id (see_model 5 ''x-free'' None) = ''x-free''"
  "dm_state (see_model 5 ''x-free'' None) = Candidate"
  "dm_candidate_success_total (see_model 5 ''x-free'' None) = 0"
  "dm_candidate_failure_total (see_model 5 ''x-free'' None) = 0"
  "\<not> dm_public (see_model 5 ''x-free'' None)" "dm_probe_required (see_model 5 ''x-free'' None)"
  by (simp_all add: see_model_def classify_model_def is_reserved_static_upstream_def
      is_free_candidate_def ends_with_def DiscoveredModel_new_def merge_seen_model_state_def
      sync_lifecycle_flags_def published_def clear_claudecode_compatibility_def awaiting_probe_def)

lemma demo_trim: "trim ''x-free'' \<noteq> []"
  by code_simp

lemma demo_models:
  "ds_models demo_registry = [see_model 5 ''x-free'' None]"
  using demo_trim by (simp add: demo_defs sort_key_def Let_def demo_model_fields)

lemma demo_get: "ds_get ''x-free'' demo_registry = Some (see_model 5 ''x-free'' None)"
  by (simp add: ds_get_def demo_models demo_model_fields)

lemma lifecycle_invariant_witness:
  "\<not> dm_routable (see_model 5 ''x-free'' None) \<and> ds_missing_total demo_registry = 0"
  using lifecycle_invariant [OF demo_reach] by (simp add: demo_models demo_model_fields)

text \<open>The identifiers that \<open>set_model_state\<close> has made canary or active during a run.\<close>

definition set_public :: "disc_event list \<Rightarrow> string \<Rightarrow> bool" where
  "set_public evs i \<longleftrightarrow> (\<exists>now st r. Exec now (SetState i st r) \<in> set evs \<and> published st)"

text \<open>A model is public after an event because of one of three things.\<close>

definition publication_cause ::
  "disc_event \<Rightarrow> model_discovery_snapshot \<Rightarrow> pending_poll list \<Rightarrow> string \<Rightarrow> bool" where
  "publication_cause ev s P i \<longleftrightarrow>
     (\<exists>now st r. ev = Exec now (SetState i st r) \<and> (st = Canary \<or> st = Active))
     \<or> (\<exists>m. ds_get i s = Some m \<and> dm_public m)
     \<or> (\<exists>k now ids read. ev = PollWrite k \<and> k < length P \<and> P ! k = Fetched now ids read
          \<and> i \<in> set ids \<and> (\<exists>m \<in> set read. dm_id m = i \<and> dm_public m))"

lemma public_published: "ds_wf s \<Longrightarrow> ds_get i s = Some m \<Longrightarrow> dm_public m = published (dm_state m)"
  using ds_get_Some [of i s m] by (simp add: ds_wf_def model_wf_def)

lemma event_publication:
  assumes run: "disc_run decode evs (s, P)" and m: "ds_get i (fst (disc_apply decode ev (s, P))) = Some m"
    and "dm_public m"
  shows "publication_cause ev s P i"
proof -
  have wf: "ds_wf s" "\<forall>p \<in> set P. pending_wf p" using disc_run_wf [OF run] by simp_all
  have wf': "ds_wf (fst (disc_apply decode ev (s, P)))" using disc_apply_wf [of "(s, P)"] wf by simp
  with m assms(3) have pub: "published (dm_state m)" by (simp add: public_published)
  show ?thesis
  proof (cases ev)
    case (Exec now op)
    show ?thesis
    proof (cases "\<exists>st r. op = SetState i st r \<and> published st")
      case False
      then have "\<exists>m'. ds_get i s = Some m' \<and> published (dm_state m')"
        using disc_exec_private [OF wf(1), of i decode now op m] m pub Exec by auto
      with wf(1) show ?thesis by (auto simp: publication_cause_def public_published)
    qed (use Exec in \<open>auto simp: publication_cause_def published_def\<close>)
  next
    case (PollCheck now body)
    with m assms(3) show ?thesis by (auto simp: publication_cause_def split: sum.splits if_splits)
  next
    case (PollRead k)
    with m assms(3) show ?thesis
      by (auto simp: publication_cause_def split: pending_poll.splits if_splits)
  next
    case (PollWrite k)
    show ?thesis
    proof (cases "\<exists>now ids read. k < length P \<and> P ! k = Fetched now ids read")
      case True
      then obtain now ids read where k: "k < length P" "P ! k = Fetched now ids read" by blast
      with wf(2) have "pending_wf (Fetched now ids read)" by (metis nth_mem)
      then have r: "\<forall>x \<in> set read. model_wf x" "ids_ok read" by simp_all
      have "after_round now ids i (find (\<lambda>x. dm_id x = i) read) = Some m"
        using m PollWrite k merge_discovered_spec(2) [OF r(2), of i now ids]
        by (simp add: poll_commit_def ds_get_def)
      from after_round_private [OF this pub] this pub
      obtain x where x: "find (\<lambda>x. dm_id x = i) read = Some x" "published (dm_state x)" "i \<in> set ids"
        by (auto simp: after_round_def published_def split: if_splits)
      from x(1) have "x \<in> set read" "dm_id x = i" by (auto simp: find_Some_iff)
      moreover from this x(2) r(1) have "dm_public x" by (simp add: model_wf_def)
      moreover note x(3)
      ultimately show ?thesis using k PollWrite by (auto simp: publication_cause_def)
    qed (use m assms(3) PollWrite in \<open>auto simp: publication_cause_def split: pending_poll.splits if_splits\<close>)
  qed
qed

fun pending_public :: "disc_event list \<Rightarrow> pending_poll \<Rightarrow> bool" where
  "pending_public evs (Checked _ _) = True"
| "pending_public evs (Fetched _ _ read) = (\<forall>m \<in> set read. dm_public m \<longrightarrow> set_public evs (dm_id m))"

lemma set_public_more: "set_public evs i \<Longrightarrow> set_public (evs @ [ev]) i"
  by (auto simp: set_public_def)

lemma pending_public_more: "pending_public evs p \<Longrightarrow> pending_public (evs @ [ev]) p"
  by (cases p) (auto simp: set_public_more)

lemma disc_run_published:
  "disc_run decode evs w \<Longrightarrow>
     (\<forall>i m. ds_get i (fst w) = Some m \<longrightarrow> dm_public m \<longrightarrow> set_public evs i)
     \<and> (\<forall>p \<in> set (snd w). pending_public evs p)"
proof (induction rule: disc_run.induct)
  case (start b url)
  then show ?case by (simp add: ds_get_def DynamicModelRegistry_new_def)
next
  case (event evs w ev)
  obtain s P where w: "w = (s, P)" by (cases w)
  note run = event.hyps [unfolded w]
  have 1: "set_public (evs @ [ev]) i"
    if "ds_get i (fst (disc_apply decode ev w)) = Some m" "dm_public m" for i m
  proof -
    from event_publication [OF run] that w have "publication_cause ev s P i" by simp
    then consider now st r where "ev = Exec now (SetState i st r)" "published st"
      | x where "ds_get i s = Some x" "dm_public x"
      | k now ids read x where "k < length P" "P ! k = Fetched now ids read" "x \<in> set read"
          "dm_id x = i" "dm_public x"
      unfolding publication_cause_def published_def by blast
    then show ?thesis
    proof cases
      case (3 k now ids read x)
      then have "Fetched now ids read \<in> set P" by (metis nth_mem)
      with event.IH w 3(3-5) have "set_public evs i" by auto
      then show ?thesis by (rule set_public_more)
    qed (use event.IH w set_public_more in \<open>auto simp: set_public_def\<close>)
  qed
  have s: "\<forall>m \<in> set (ds_models s). dm_public m \<longrightarrow> set_public evs (dm_id m)"
  proof (intro ballI impI)
    fix m assume m: "m \<in> set (ds_models s)" "dm_public m"
    have "ds_get (dm_id m) s = Some m"
      using ds_get_unique [OF _ m(1)] disc_run_wf [OF run] by (simp add: ds_wf_def)
    with event.IH w m(2) show "set_public evs (dm_id m)" by auto
  qed
  have "pending_public (evs @ [ev]) p" if "p \<in> set (snd (disc_apply decode ev w))" for p
  proof -
    have "p \<in> set P \<or> (\<exists>now ids. p = Checked now ids) \<or> (\<exists>now ids. p = Fetched now ids (ds_models s))"
      using that w by (cases ev)
        (auto split: sum.splits if_splits pending_poll.splits
          dest: in_set_takeD in_set_dropD set_update_subset_insert [THEN subsetD])
    with event.IH w s show ?thesis
      by (auto intro: pending_public_more simp: set_public_more)
  qed
  with 1 show ?case by blast
qed

text \<open>
  C31: Publication has one source, \<open>set_model_state\<close>, whatever polls and other operations
  interleave.  A model that is public after an event was made canary or active by this event, or was
  public before it, or the event is the write of a poll that lists the model and had read it while it
  was public (which is how a poll takes back a quarantine that came between its read and its write).
  So in every run a model that is public was made canary or active by a \<open>set_model_state\<close> of the run.
\<close>

theorem only_set_state_publishes:
  assumes "disc_run decode evs (s, P)" and "disc_apply decode ev (s, P) = (s', P')"
    and "ds_get i s' = Some m" and "dm_public m"
  shows "((\<exists>now st r. ev = Exec now (SetState i st r) \<and> (st = Canary \<or> st = Active))
      \<or> (\<exists>m'. ds_get i s = Some m' \<and> dm_public m')
      \<or> (\<exists>k now ids read. ev = PollWrite k \<and> k < length P \<and> P ! k = Fetched now ids read
           \<and> i \<in> set ids \<and> (\<exists>m' \<in> set read. dm_id m' = i \<and> dm_public m')))
    \<and> (\<exists>now st r. Exec now (SetState i st r) \<in> set (evs @ [ev]) \<and> (st = Canary \<or> st = Active))"
proof
  have s': "ds_get i (fst (disc_apply decode ev (s, P))) = Some m" using assms(2,3) by simp
  from event_publication [OF assms(1) s' assms(4)]
  show "(\<exists>now st r. ev = Exec now (SetState i st r) \<and> (st = Canary \<or> st = Active))
      \<or> (\<exists>m'. ds_get i s = Some m' \<and> dm_public m')
      \<or> (\<exists>k now ids read. ev = PollWrite k \<and> k < length P \<and> P ! k = Fetched now ids read
           \<and> i \<in> set ids \<and> (\<exists>m' \<in> set read. dm_id m' = i \<and> dm_public m'))"
    unfolding publication_cause_def .
  from disc_run_published [OF disc_run.event [OF assms(1), of ev]] s' assms(4)
  have "set_public (evs @ [ev]) i" by blast
  then show "\<exists>now st r. Exec now (SetState i st r) \<in> set (evs @ [ev]) \<and> (st = Canary \<or> st = Active)"
    unfolding set_public_def published_def by blast
qed

lemma demo_published:
  "disc_reach demo_decode (disc_exec demo_decode 6 (SetState ''x-free'' Canary ''ok'') demo_registry)"
  by (intro disc_reach_intros demo_reach)

lemma demo_wf: "ds_wf demo_registry"
  using disc_reach_wf [OF demo_reach] .

text \<open>A poll reads a public model, the model is quarantined, and the write makes it public again.\<close>

definition demo_events :: "disc_event list" where
  "demo_events = [Exec 5 (Poll ''x-free''), Exec 6 (SetState ''x-free'' Canary ''ok''),
     PollCheck 7 ''x-free'', PollRead 0, Exec 8 (SetState ''x-free'' Quarantined ''bad'')]"

lemma demo_events_run:
  "disc_run demo_decode demo_events
     (fold (disc_apply demo_decode) demo_events (DynamicModelRegistry_new True ''u'', []))"
proof -
  have "disc_run demo_decode evs (fold (disc_apply demo_decode) evs (DynamicModelRegistry_new True ''u'', []))"
    for evs
    by (induction evs rule: rev_induct) (auto intro: disc_run.intros)
  then show ?thesis .
qed

text \<open>
  C34: A successful poll replaces the registry by one in which exactly the listed models are
  seen (each with the classification of its id, whatever its multiplicity in the response),
  every other known model is marked missing, and unknown models stay unknown.
\<close>

theorem discovery_round:
  assumes "disc_reach decode s" and "decode body = Inr ids"
    and "ids \<noteq> []" and "\<forall>i \<in> set ids. trim i \<noteq> []"
  shows "\<exists>s'. update_from_opencode_json decode now body s = (Inr s', s') \<and>
    ds_last_success_unix s' = Some now \<and> ds_last_error s' = None \<and>
    (\<forall>i. ds_get i s' =
      (if i \<in> set ids then Some (see_model now i (ds_get i s))
       else map_option mark_missing (ds_get i s)))"
proof -
  have "ids_ok (ds_models s)" using disc_reach_wf [OF assms(1)] by (simp add: ds_wf_def)
  from merge_discovered_spec(2) [OF this, of _ now ids] assms(2-4) show ?thesis
    by (auto simp: update_from_opencode_json_def poll_commit_def Let_def ds_get_def after_round_def
        recompute_counts_def)
qed

lemma discovery_round_witness:
  "\<exists>s'. update_from_opencode_json demo_decode 9 ''y-free'' demo_registry = (Inr s', s') \<and>
    ds_get ''x-free'' s' = Some (mark_missing (see_model 5 ''x-free'' None)) \<and>
    ds_get ''y-free'' s' = Some (see_model 9 ''y-free'' None)"
proof -
  have t: "trim ''y-free'' \<noteq> []" by code_simp
  have "ds_get ''y-free'' demo_registry = None"
    by (simp add: ds_get_def demo_models demo_model_fields)
  with discovery_round [OF demo_reach, of "''y-free''" "[''y-free'']" 9] t show ?thesis
    by (auto simp: demo_decode_def demo_get)
qed

text \<open>
  C39: A candidate without traffic is quarantined by exactly the results of its first three
  requests: if all three fail it is quarantined, and no later result brings it back, and one success
  among them keeps it a candidate whatever results follow.  (A run of results, with no other
  operation on the registry in between.)
\<close>

theorem traffic_quarantine_exact:
  assumes "disc_reach decode s" and "ds_get i s = Some m" and "dm_state m = Candidate"
    and "dm_candidate_success_total m = 0" and "dm_candidate_failure_total m = 0"
  shows "map_option dm_state (ds_get i (traffic_run i rs s)) =
    Some (if 3 \<le> length rs \<and> list_all failing (take 3 rs) then Quarantined else Candidate)"
  using traffic_run_get [OF disc_reach_wf [OF assms(1)], of i rs] assms(2-5)
    unproven_run [of m 3 rs]
  by simp

lemma demo_failure_kind: "trim ''empty_output'' \<noteq> []"
  by code_simp

lemma traffic_quarantine_exact_witness:
  "map_option dm_state (ds_get ''x-free'' (traffic_run ''x-free''
     [(6, 500, [], []), (7, 500, [], []), (8, 200, ''empty_output'', [])] demo_registry))
   = Some Quarantined"
  using demo_failure_kind traffic_quarantine_exact
    [OF demo_reach demo_get, of "[(6, 500, [], []), (7, 500, [], []), (8, 200, ''empty_output'', [])]"]
  by (simp add: demo_model_fields failing_def traffic_success_def traffic_kind_def)

text \<open>
  Quarantine and retirement do not last: a free-looking model in either state that one
  poll misses and the next one lists is a probe candidate again.
\<close>

lemma absent_round_readmits:
  assumes "disc_reach decode s" and "ds_get i s = Some m"
    and "dm_state m = Quarantined \<or> dm_state m = Retired"
    and "is_free_candidate i" and "\<not> is_reserved_static_upstream i"
    and "decode b1 = Inr ids" and "ids \<noteq> []" and "\<forall>j \<in> set ids. trim j \<noteq> []" and "i \<notin> set ids"
    and "decode b2 = Inr (i # ids)" and "trim i \<noteq> []"
  shows "\<exists>m'. ds_get i (disc_exec decode t2 (Poll b2) (disc_exec decode t1 (Poll b1) s)) = Some m' \<and>
    is_probe_candidate m'"
proof -
  let ?s1 = "disc_exec decode t1 (Poll b1) s"
  have wf: "ds_wf s" using disc_reach_wf [OF assms(1)] .
  have wf1: "ds_wf ?s1" using disc_exec_wf [OF wf] .
  have g1: "ds_get i ?s1 = Some (mark_missing m)"
    using poll_get [where decode = decode and body = b1, OF wf assms(6-8), of i t1] assms(2,9) by (simp add: after_round_def)
  have "ds_get i (disc_exec decode t2 (Poll b2) ?s1) = Some (see_model t2 i (Some (mark_missing m)))"
    using poll_get [where decode = decode and body = b2, OF wf1 assms(10), of i t2]
      assms(8,11) g1
    by (simp add: after_round_def del: disc_exec.simps)
  moreover have "is_probe_candidate (see_model t2 i (Some (mark_missing m)))"
    using assms(4,5)
    by (simp add: see_model_Some classify_model_def merge_seen_model_state_def is_probe_candidate_def
        sync_lifecycle_flags_def clear_claudecode_compatibility_def published_def awaiting_probe_def)
  ultimately show ?thesis by blast
qed

lemma absent_round_readmits_witness:
  "\<exists>m'. ds_get ''x-free'' (disc_exec demo_decode2 9 (Poll ''xy'') (disc_exec demo_decode2 8 (Poll ''y'')
      (disc_exec demo_decode2 7 (SetState ''x-free'' Retired ''r'') demo_registry2))) = Some m' \<and>
    is_probe_candidate m'"
proof -
  have t: "trim ''x-free'' \<noteq> []" "trim ''y'' \<noteq> []" by code_simp+
  have r: "disc_reach demo_decode2
      (disc_exec demo_decode2 7 (SetState ''x-free'' Retired ''r'') demo_registry2)"
    unfolding demo_registry2_def by (intro disc_reach_intros)
  have wf: "ds_wf demo_registry2" unfolding demo_registry2_def by (intro disc_exec_wf ds_wf_new)
  have "ds_get ''x-free'' demo_registry2 = Some (see_model 5 ''x-free'' None)"
    unfolding demo_registry2_def
    using poll_get [where decode = demo_decode2 and body = "''xy''" and now = 5 and i = "''x-free''",
      OF ds_wf_new [of True "''u''"], of "[''x-free'', ''y'']"] t
    by (simp add: demo_decode2_def after_round_def ds_get_def DynamicModelRegistry_new_def)
  then have "ds_get ''x-free'' (disc_exec demo_decode2 7 (SetState ''x-free'' Retired ''r'') demo_registry2)
      = Some (apply_state 7 Retired ''r'' (see_model 5 ''x-free'' None))"
    by (simp add: set_model_state_def set_state.update_get [OF wf])
  from absent_round_readmits [OF r this, of "''y''" "[''y'']" "''xy''" 9 8] t
  show ?thesis
    by (simp add: demo_decode2_def apply_state_state is_free_candidate_def ends_with_def
        is_reserved_static_upstream_def)
qed

text \<open>
  A probe round takes at most the allowed number of models, all of them hidden
  candidates, each at most once, and no candidate it leaves out was probed longer ago than
  one it takes.
\<close>

lemma probe_candidates_oldest_first:
  assumes "disc_reach decode s"
  shows "length (probe_candidates n s) \<le> n \<and> distinct (map dm_id (probe_candidates n s)) \<and>
    (\<forall>m \<in> set (probe_candidates n s). m \<in> set (ds_models s) \<and> dm_state m = Candidate \<and>
       \<not> dm_public m \<and> \<not> dm_routable m) \<and>
    (\<forall>m \<in> set (ds_models s). is_probe_candidate m \<and> m \<notin> set (probe_candidates n s)
       \<longrightarrow> length (probe_candidates n s) = n \<and>
           (\<forall>q \<in> set (probe_candidates n s). probe_rank_of q \<le> probe_rank_of m))"
proof -
  let ?c = "filter is_probe_candidate (ds_models s)"
  let ?l = "sort_key probe_rank_of ?c"
  have pc: "probe_candidates n s = take n ?l" by (simp add: probe_candidates_def)
  have "distinct (map dm_id (ds_models s))"
    using disc_reach_wf [OF assms] by (simp add: ds_wf_def ids_ok_def)
  then have "distinct (map dm_id ?c)" by (rule distinct_map_filter)
  then have "distinct (map dm_id ?l)" by (simp add: distinct_map)
  then have d: "distinct (map dm_id (take n ?l))" by (simp add: take_map [symmetric])
  have sub: "set (take n ?l) \<subseteq> set ?c" using set_take_subset [of n ?l] by simp
  have left: "length (take n ?l) = n \<and> (\<forall>q \<in> set (take n ?l). probe_rank_of q \<le> probe_rank_of m)"
    if "m \<in> set ?c" "m \<notin> set (take n ?l)" for m
    using that taken_are_least [of m ?l n probe_rank_of] by simp
  show ?thesis unfolding pc using d sub left by (auto simp: is_probe_candidate_def)
qed

lemma probe_candidates_oldest_first_witness:
  "length (probe_candidates 1 demo_registry) \<le> 1"
  using probe_candidates_oldest_first [OF demo_reach, of 1] by blast

text \<open>
  A model may become active exactly when it is a canary marked compatible with Claude
  Code, with enough canary requests, a success rate of at least the policy's basis points
  and no more empty, undecodable or protocol failures than the policy allows; the reported
  rate is at most 10000 basis points on every reachable model.
\<close>

lemma active_promotion_criteria:
  assumes "disc_reach decode s" and "m \<in> set (ds_models s)"
    and "dm_canary_requests_total m * 10000 < 2 ^ 64" and "0 < tp_min_canary_requests P"
  shows "td_eligible (evaluate_active_promotion m P) =
     (dm_state m = Canary \<and> dm_claudecode_compatible m \<and>
      tp_min_canary_requests P \<le> dm_canary_requests_total m \<and>
      tp_min_canary_success_rate_bps P * dm_canary_requests_total m
        \<le> 10000 * dm_canary_success_total m \<and>
      dm_canary_empty_output_total m \<le> tp_max_canary_empty_output_failures P \<and>
      dm_canary_decode_error_total m \<le> tp_max_canary_decode_failures P \<and>
      dm_canary_protocol_error_total m \<le> tp_max_canary_protocol_failures P) \<and>
    td_canary_success_rate_bps (evaluate_active_promotion m P) \<le> 10000"
proof -
  let ?n = "dm_canary_requests_total m" and ?k = "dm_canary_success_total m"
  have "model_wf m" using disc_reach_wf [OF assms(1)] assms(2) by (simp add: ds_wf_def)
  then have "?n = min (?k + dm_canary_failure_total m) (2 ^ 64 - 1)"
    by (simp add: model_wf_def traffic_ok_def sat_add_def)
  then have kn: "?k \<le> ?n" using assms(3) by (auto simp: min_def split: if_splits)
  then have exact: "sat_mul 64 ?k 10000 = ?k * 10000" using assms(3) by (simp add: sat_mul_def)
  have rate: "success_rate_bps ?k ?n \<le> 10000"
    using kn div_le_mono [of "?k * 10000" "?n * 10000" ?n] by (auto simp: success_rate_bps_def exact)
  have cmp: "tp_min_canary_success_rate_bps P \<le> success_rate_bps ?k ?n \<longleftrightarrow>
      tp_min_canary_success_rate_bps P * ?n \<le> 10000 * ?k" if "0 < ?n"
    using that by (simp add: success_rate_bps_def exact less_eq_div_iff_mult_less_eq mult.commute)
  have el: "td_eligible (evaluate_active_promotion m P) =
     (dm_state m = Canary \<and> dm_claudecode_compatible m \<and> tp_min_canary_requests P \<le> ?n \<and>
      tp_min_canary_success_rate_bps P \<le> success_rate_bps ?k ?n \<and>
      dm_canary_empty_output_total m \<le> tp_max_canary_empty_output_failures P \<and>
      dm_canary_decode_error_total m \<le> tp_max_canary_decode_failures P \<and>
      dm_canary_protocol_error_total m \<le> tp_max_canary_protocol_failures P)"
    by (simp add: evaluate_active_promotion_def Let_def not_less)
  show ?thesis
    using el cmp rate assms(4) by (auto simp: evaluate_active_promotion_def Let_def)
qed

lemma active_promotion_criteria_witness:
  "\<not> td_eligible (evaluate_active_promotion (see_model 5 ''x-free'' None) default_promotion_policy)"
proof -
  have n: "dm_canary_requests_total (see_model 5 ''x-free'' None) = 0"
    by (simp add: see_model_None see_model_Some DiscoveredModel_new_def sync_lifecycle_flags_def
        Let_def clear_claudecode_compatibility_def merge_seen_model_state_def classify_model_def
        is_reserved_static_upstream_def is_free_candidate_def ends_with_def)
  have "see_model 5 ''x-free'' None \<in> set (ds_models demo_registry)" by (simp add: demo_models)
  from active_promotion_criteria [OF demo_reach this, of default_promotion_policy] n show ?thesis
    by (simp add: demo_model_fields default_promotion_policy_def)
qed

text \<open>
  A poll that reads the registry before another operation and writes after it undoes that
  operation: a public model that is quarantined between the read and the write of a poll
  that lists it is public again.
\<close>

lemma poll_undoes_concurrent_quarantine:
  assumes "disc_reach decode s" and "ds_get i s = Some m" and "dm_public m" and "i \<in> set ids"
    and "is_free_candidate i" and "\<not> is_reserved_static_upstream i"
  shows "(\<exists>m1. ds_get i (disc_exec decode t1 (SetState i Quarantined r) s) = Some m1
        \<and> dm_state m1 = Quarantined \<and> \<not> dm_public m1) \<and>
    (\<exists>m2. ds_get i (poll_commit t2 ids (ds_models s)
            (disc_exec decode t1 (SetState i Quarantined r) s)) = Some m2
        \<and> dm_state m2 = dm_state m \<and> dm_public m2)"
proof -
  have wf: "ds_wf s" using disc_reach_wf [OF assms(1)] .
  then have ids: "ids_ok (ds_models s)" by (simp add: ds_wf_def)
  have pub: "published (dm_state m)"
    using ds_get_Some [OF assms(2)] wf assms(3) by (simp add: ds_wf_def model_wf_def)
  have q: "ds_get i (disc_exec decode t1 (SetState i Quarantined r) s)
      = Some (apply_state t1 Quarantined r m)"
    by (simp add: set_model_state_def set_state.update_get [OF wf] assms(2))
  have "ds_get i (poll_commit t2 ids (ds_models s) x) = Some (see_model t2 i (Some m))" for x
    using merge_discovered_spec(2) [OF ids, of i t2 ids] assms(2,4)
    by (simp add: poll_commit_def ds_get_def after_round_def)
  moreover have "dm_state (see_model t2 i (Some m)) = dm_state m \<and> dm_public (see_model t2 i (Some m))"
    using pub assms(5,6)
    by (auto simp: see_model_Some classify_model_def merge_seen_model_state_def
        sync_lifecycle_flags_def Let_def published_def)
  ultimately show ?thesis
    using q by (simp add: apply_state_def Let_def published_def clear_claudecode_compatibility_def)
qed

lemma poll_undoes_concurrent_quarantine_witness:
  "\<exists>m2. ds_get ''x-free'' (poll_commit 8 [''x-free'']
        (ds_models (disc_exec demo_decode 6 (SetState ''x-free'' Canary ''ok'') demo_registry))
        (disc_exec demo_decode 7 (SetState ''x-free'' Quarantined ''bad'')
          (disc_exec demo_decode 6 (SetState ''x-free'' Canary ''ok'') demo_registry))) = Some m2
     \<and> dm_public m2"
proof -
  have "ds_get ''x-free'' (disc_exec demo_decode 6 (SetState ''x-free'' Canary ''ok'') demo_registry)
      = Some (apply_state 6 Canary ''ok'' (see_model 5 ''x-free'' None))"
    by (simp add: set_model_state_def set_state.update_get [OF demo_wf] demo_get)
  from poll_undoes_concurrent_quarantine [OF demo_published this, of "[''x-free'']" 7 "''bad''" 8]
  show ?thesis
    by (auto simp: apply_state_def Let_def published_def is_free_candidate_def ends_with_def
        is_reserved_static_upstream_def)
qed

lemma demo_run_state:
  defines "r1 \<equiv> disc_exec demo_decode 6 (SetState ''x-free'' Canary ''ok'') demo_registry"
  shows "fold (disc_apply demo_decode) demo_events (DynamicModelRegistry_new True ''u'', [])
    = (disc_exec demo_decode 8 (SetState ''x-free'' Quarantined ''bad'') r1,
       [Fetched 7 [''x-free''] (ds_models r1)])"
  by (simp add: r1_def demo_events_def demo_registry_def demo_decode_def demo_trim)

lemma only_set_state_publishes_witness:
  "\<exists>now ids read m'. snd (fold (disc_apply demo_decode) demo_events (DynamicModelRegistry_new True ''u'', [])) ! 0
       = Fetched now ids read
     \<and> m' \<in> set read \<and> dm_id m' = ''x-free'' \<and> dm_public m'"
proof -
  let ?r1 = "disc_exec demo_decode 6 (SetState ''x-free'' Canary ''ok'') demo_registry"
  let ?r2 = "disc_exec demo_decode 8 (SetState ''x-free'' Quarantined ''bad'') ?r1"
  let ?P = "[Fetched 7 [''x-free''] (ds_models ?r1)]"
  have g: "ds_get ''x-free'' ?r1 = Some (apply_state 6 Canary ''ok'' (see_model 5 ''x-free'' None))"
    by (simp add: set_model_state_def set_state.update_get [OF demo_wf] demo_get)
  from poll_undoes_concurrent_quarantine [OF demo_published g, of "[''x-free'']" 8 "''bad''" 7]
  obtain m1 m2 where m: "ds_get ''x-free'' ?r2 = Some m1" "\<not> dm_public m1"
      "ds_get ''x-free'' (poll_commit 7 [''x-free''] (ds_models ?r1) ?r2) = Some m2" "dm_public m2"
    by (auto simp: apply_state_def Let_def published_def is_free_candidate_def ends_with_def
        is_reserved_static_upstream_def simp del: disc_exec.simps)
  have run: "disc_run demo_decode demo_events (?r2, ?P)" using demo_events_run demo_run_state by metis
  have w: "disc_apply demo_decode (PollWrite 0) (?r2, ?P)
      = (poll_commit 7 [''x-free''] (ds_models ?r1) ?r2, [])" by simp
  from only_set_state_publishes [OF run w m(3,4)] m(1,2)
  show ?thesis unfolding demo_run_state by (auto simp del: disc_exec.simps)
qed

end
