(* ===== verification/ModelRegistry.thy ===== *)
theory ModelRegistry
  imports LifecycleTheorems
begin

text \<open>
  \<open>zen-proxy-rs/src/v4/model.rs\<close>: the models a client may ask for.  The static registry is a
  table; the effective registry adds the discovered models that the public mode exposes and
  the allow list names.  A registry is what its clients rely on: a listed model resolves to
  the upstream it is listed with (the locale \<open>model_registry\<close>).
\<close>

section \<open>Data\<close>

datatype model_compatibility_profile =
    StaticFlash | StaticFlashLite | StaticMimo | StaticGeneric
  | DynamicGeneric | DynamicClaudeCodeCompatible | DynamicRestricted

datatype dynamic_model_public_mode =
  StaticOnly | CandidateCanaryOrActive | CanaryOrActive | ActiveOnly

record model_info =
  mi_id :: string
  mi_upstream_id :: string
  mi_profile :: model_compatibility_profile

record model_resolution =
  mr_public_model :: string
  mr_upstream_model :: string
  mr_profile :: model_compatibility_profile

datatype model_error = UnknownModel string

definition for_static :: "string \<Rightarrow> model_compatibility_profile option" where
  "for_static = map_of
     [(''deepseek'', StaticFlash), (''deepseek-v4-flash'', StaticFlash),
      (''bigpickle'', StaticFlashLite), (''big-pickle'', StaticFlashLite),
      (''mimo'', StaticMimo), (''mimo-v2.5'', StaticMimo), (''hy3'', StaticGeneric),
      (''nemotron-3-ultra'', StaticGeneric), (''nemotron-3.5-lightning'', StaticGeneric),
      (''ling-3.0-flash-fin'', StaticGeneric), (''claude-haiku-4-5'', StaticFlash)]"

definition for_dynamic :: "discovered_model \<Rightarrow> model_compatibility_profile" where
  "for_dynamic m =
     (if dm_state m = Quarantined \<or> dm_state m = Retired then DynamicRestricted
      else if dm_claudecode_compatible m then DynamicClaudeCodeCompatible
      else DynamicGeneric)"

fun profile_as_str :: "model_compatibility_profile \<Rightarrow> string" where
  "profile_as_str StaticFlash = ''static_flash''"
| "profile_as_str StaticFlashLite = ''static_flash_lite''"
| "profile_as_str StaticMimo = ''static_mimo''"
| "profile_as_str StaticGeneric = ''static_generic''"
| "profile_as_str DynamicGeneric = ''dynamic_generic''"
| "profile_as_str DynamicClaudeCodeCompatible = ''dynamic_claudecode_compatible''"
| "profile_as_str DynamicRestricted = ''dynamic_restricted''"

section \<open>The static registry\<close>

definition MODELS :: "(string \<times> string) list" where
  "MODELS =
     [(''deepseek-v4-flash'', ''deepseek-v4-flash-free''), (''big-pickle'', ''big-pickle''),
      (''mimo-v2.5'', ''mimo-v2.5-free''), (''hy3'', ''hy3-free''),
      (''nemotron-3-ultra'', ''nemotron-3-ultra-free''),
      (''nemotron-3.5-lightning'', ''nemotron-3.5-lightning-free''),
      (''ling-3.0-flash-fin'', ''ling-3.0-flash-fin-free'')]"

definition REQUEST_ALIASES :: "(string \<times> string \<times> string) list" where
  "REQUEST_ALIASES =
     [(''deepseek'', ''deepseek'', ''deepseek-v4-flash-free''),
      (''bigpickle'', ''bigpickle'', ''big-pickle''), (''mimo'', ''mimo'', ''mimo-v2.5-free''),
      (''hy3free'', ''hy3'', ''hy3-free'')]"

definition HIDDEN_HELPER_MODELS :: "(string \<times> string) list" where
  "HIDDEN_HELPER_MODELS = [(''claude-haiku-4-5'', ''deepseek-v4-flash-free'')]"

definition is_reserved_public_or_upstream :: "string \<Rightarrow> bool" where
  "is_reserved_public_or_upstream i \<longleftrightarrow>
     list_ex (\<lambda>(public, upstream). public = i \<or> upstream = i)
       (MODELS @ HIDDEN_HELPER_MODELS @ map (\<lambda>(alias, _, upstream). (alias, upstream)) REQUEST_ALIASES)"

text \<open>\<open>the\<close> stands for \<open>expect\<close>, which panics on \<open>None\<close>; \<open>static_profiles_total\<close> excludes it.\<close>

definition static_public_models :: "model_info list" where
  "static_public_models =
     map (\<lambda>(public, upstream).
       \<lparr>mi_id = public, mi_upstream_id = upstream, mi_profile = the (for_static public)\<rparr>) MODELS"

definition static_resolve :: "string \<Rightarrow> model_error + model_resolution" where
  "static_resolve p =
     (case find (\<lambda>(public, _). public = p) (MODELS @ HIDDEN_HELPER_MODELS) of
        Some (public, upstream) \<Rightarrow>
          Inr \<lparr>mr_public_model = public, mr_upstream_model = upstream,
               mr_profile = the (for_static public)\<rparr>
      | None \<Rightarrow>
          (case find (\<lambda>(alias, _, _). alias = p) REQUEST_ALIASES of
             Some (_, public, upstream) \<Rightarrow>
               Inr \<lparr>mr_public_model = public, mr_upstream_model = upstream,
                    mr_profile = the (for_static public)\<rparr>
           | None \<Rightarrow> Inl (UnknownModel p)))"

section \<open>The effective registry\<close>

record effective_model_registry =
  er_public_mode :: dynamic_model_public_mode
  er_discovery :: model_discovery_snapshot
  er_public_allowlist :: "string list"
  er_compat_allowlist :: "string list"

definition dynamic_public_alias :: "string \<Rightarrow> string option" where
  "dynamic_public_alias i =
     (case strip_suffix i ''-free'' of
        Some a \<Rightarrow> if a \<noteq> [] then Some a else None
      | None \<Rightarrow> None)"

definition dedupe_allowlist :: "string list \<Rightarrow> string list" where
  "dedupe_allowlist items =
     foldl (\<lambda>deduped item. if item \<noteq> [] \<and> item \<notin> set deduped then deduped @ [item] else deduped)
       [] (map trim items)"

definition explicit_allowlist_allows ::
  "string list \<Rightarrow> discovered_model \<Rightarrow> string \<Rightarrow> bool" where
  "explicit_allowlist_allows l m alias \<longleftrightarrow>
     l \<noteq> [] \<and>
     list_ex (\<lambda>a. a = alias \<or> a = dm_id m \<or> a = dm_upstream_id m
                   \<or> dynamic_public_alias a = Some alias) l"

definition allowlist_allows :: "string list \<Rightarrow> discovered_model \<Rightarrow> string \<Rightarrow> bool" where
  "allowlist_allows l m alias \<longleftrightarrow> l = [] \<or> explicit_allowlist_allows l m alias"

definition with_dynamic_allowlists ::
  "dynamic_model_public_mode \<Rightarrow> model_discovery_snapshot \<Rightarrow> string list \<Rightarrow> string list
     \<Rightarrow> effective_model_registry" where
  "with_dynamic_allowlists mode discovery public claudecode =
     \<lparr>er_public_mode = mode, er_discovery = discovery,
      er_public_allowlist = dedupe_allowlist public,
      er_compat_allowlist = dedupe_allowlist claudecode\<rparr>"

definition is_dynamic_routable :: "effective_model_registry \<Rightarrow> discovered_model \<Rightarrow> bool" where
  "is_dynamic_routable r m =
     (if dynamic_public_alias (dm_id m) = None then False
      else if is_reserved_public_or_upstream (dm_id m)
              \<or> is_reserved_public_or_upstream (dm_upstream_id m) then False
      else
        (case er_public_mode r of
           StaticOnly \<Rightarrow> False
         | CandidateCanaryOrActive \<Rightarrow> dm_state m = Candidate \<or> dm_state m = Canary \<or> dm_state m = Active
         | CanaryOrActive \<Rightarrow> dm_state m = Canary \<or> dm_state m = Active
         | ActiveOnly \<Rightarrow> dm_state m = Active))"

definition is_dynamic_public :: "effective_model_registry \<Rightarrow> discovered_model \<Rightarrow> bool" where
  "is_dynamic_public r m =
     (case dynamic_public_alias (dm_id m) of
        None \<Rightarrow> False
      | Some alias \<Rightarrow>
          is_dynamic_routable r m \<and> allowlist_allows (er_public_allowlist r) m alias)"

definition public_dynamic_models :: "effective_model_registry \<Rightarrow> discovered_model list" where
  "public_dynamic_models r = filter (is_dynamic_public r) (ds_models (er_discovery r))"

definition resolve_dynamic_model ::
  "effective_model_registry \<Rightarrow> string \<Rightarrow> discovered_model option" where
  "resolve_dynamic_model r p =
     find (\<lambda>m. dynamic_public_alias (dm_id m) = Some p)
       (filter (is_dynamic_routable r) (ds_models (er_discovery r)))"

definition compatibility_profile_for_dynamic ::
  "effective_model_registry \<Rightarrow> discovered_model \<Rightarrow> string \<Rightarrow> model_compatibility_profile" where
  "compatibility_profile_for_dynamic r m alias =
     (if for_dynamic m = DynamicGeneric \<and> explicit_allowlist_allows (er_compat_allowlist r) m alias
      then DynamicClaudeCodeCompatible else for_dynamic m)"

definition effective_public_models :: "effective_model_registry \<Rightarrow> model_info list" where
  "effective_public_models r =
     foldl (\<lambda>models m.
         case dynamic_public_alias (dm_id m) of
           None \<Rightarrow> models
         | Some public \<Rightarrow>
             if public \<in> mi_id ` set models then models
             else models @ [\<lparr>mi_id = public, mi_upstream_id = dm_upstream_id m,
                             mi_profile = compatibility_profile_for_dynamic r m public\<rparr>])
       static_public_models (public_dynamic_models r)"

definition effective_resolve ::
  "effective_model_registry \<Rightarrow> string \<Rightarrow> model_error + model_resolution" where
  "effective_resolve r p =
     (case static_resolve p of
        Inr x \<Rightarrow> Inr x
      | Inl _ \<Rightarrow>
          (case resolve_dynamic_model r p of
             Some m \<Rightarrow>
               (let alias = the (dynamic_public_alias (dm_id m))
                in Inr \<lparr>mr_public_model = alias, mr_upstream_model = dm_upstream_id m,
                        mr_profile = compatibility_profile_for_dynamic r m alias\<rparr>)
           | None \<Rightarrow> Inl (UnknownModel p)))"

section \<open>The contract of a registry\<close>

text \<open>
  What a client relies on: in a registry state that is \<open>ok\<close>, every listed model that is not
  shadowed resolves to the upstream and the profile it is listed with.
\<close>

locale model_registry =
  fixes ok :: "'r \<Rightarrow> bool"
    and public_models :: "'r \<Rightarrow> model_info list"
    and resolve :: "'r \<Rightarrow> string \<Rightarrow> model_error + model_resolution"
    and shadowed :: "string \<Rightarrow> bool"
  assumes listed_resolves:
    "ok r \<Longrightarrow> x \<in> set (public_models r) \<Longrightarrow> \<not> shadowed (mi_id x) \<Longrightarrow>
       resolve r (mi_id x) = Inr \<lparr>mr_public_model = mi_id x, mr_upstream_model = mi_upstream_id x,
                                mr_profile = mi_profile x\<rparr>"
begin

lemma listed_unique:
  assumes "ok r" "x \<in> set (public_models r)" "y \<in> set (public_models r)"
    and "mi_id x = mi_id y" "\<not> shadowed (mi_id x)"
  shows "x = y"
  using listed_resolves [OF assms(1,2,5)] listed_resolves [OF assms(1,3)] assms(4,5)
  by (cases x; cases y) auto

end

lemma static_profiles_total:
  "(\<forall>(public, upstream) \<in> set (MODELS @ HIDDEN_HELPER_MODELS). for_static public \<noteq> None) \<and>
   (\<forall>(alias, public, upstream) \<in> set REQUEST_ALIASES. for_static public \<noteq> None)"
  by (simp add: MODELS_def HIDDEN_HELPER_MODELS_def REQUEST_ALIASES_def for_static_def)

lemma static_resolve_list:
  "list_all (\<lambda>x. static_resolve (mi_id x) = Inr \<lparr>mr_public_model = mi_id x,
     mr_upstream_model = mi_upstream_id x, mr_profile = mi_profile x\<rparr>) static_public_models"
  by code_simp

lemma static_listed_resolves:
  "x \<in> set static_public_models \<Longrightarrow>
     static_resolve (mi_id x) = Inr \<lparr>mr_public_model = mi_id x, mr_upstream_model = mi_upstream_id x,
       mr_profile = mi_profile x\<rparr>"
  using static_resolve_list by (simp add: list_all_iff)

interpretation static: model_registry "\<lambda>_::unit. True" "\<lambda>_. static_public_models"
    "\<lambda>_. static_resolve" "\<lambda>_. False"
  by unfold_locales (simp add: static_listed_resolves)

text \<open>The names a static resolution takes although the static list does not contain them.\<close>

definition shadow_names :: "string list" where
  "shadow_names = [''deepseek'', ''bigpickle'', ''mimo'', ''hy3free'', ''claude-haiku-4-5'']"

lemma find_set_P: "find P xs = Some x \<Longrightarrow> x \<in> set xs \<and> P x"
  by (auto simp: find_Some_iff)

lemma static_resolve_unknown:
  assumes "p \<notin> set (map fst (MODELS @ HIDDEN_HELPER_MODELS))" "p \<notin> set (map fst REQUEST_ALIASES)"
  shows "static_resolve p = Inl (UnknownModel p)"
proof -
  have "find (\<lambda>(public, _). public = p) (MODELS @ HIDDEN_HELPER_MODELS) = None"
    unfolding find_None_iff using assms(1) by force
  moreover have "find (\<lambda>(alias, _, _). alias = p) REQUEST_ALIASES = None"
    unfolding find_None_iff using assms(2) by force
  ultimately show ?thesis by (simp only: static_resolve_def option.case)
qed

lemma static_names:
  "list_all (\<lambda>p. p \<in> set (map mi_id static_public_models @ shadow_names))
     (map fst (MODELS @ HIDDEN_HELPER_MODELS) @ map fst REQUEST_ALIASES)"
  by code_simp

lemma static_resolve_names:
  "static_resolve p = Inl (UnknownModel p) \<or> p \<in> mi_id ` set static_public_models \<or> p \<in> set shadow_names"
proof (rule disjCI)
  assume "\<not> (p \<in> mi_id ` set static_public_models \<or> p \<in> set shadow_names)"
  then have "p \<notin> set (map mi_id static_public_models @ shadow_names)" by (simp only: set_append set_map Un_iff simp_thms)
  then have "p \<notin> set (map fst (MODELS @ HIDDEN_HELPER_MODELS) @ map fst REQUEST_ALIASES)"
    using static_names unfolding list_all_iff by blast
  then show "static_resolve p = Inl (UnknownModel p)"
    using static_resolve_unknown [of p] by (simp only: set_append Un_iff de_Morgan_disj simp_thms)
qed

lemma static_resolve_error: "static_resolve p = Inl e \<Longrightarrow> e = UnknownModel p"
  by (auto simp: static_resolve_def split: option.splits)

lemma alias_iff: "dynamic_public_alias i = Some a \<longleftrightarrow> i = a @ ''-free'' \<and> a \<noteq> []"
  using strip_suffix_Some_iff [of i "''-free''"]
  by (cases "strip_suffix i ''-free''") (auto simp: dynamic_public_alias_def)

lemma resolve_dynamic_iff:
  assumes "ids_ok (ds_models (er_discovery r))"
  shows "resolve_dynamic_model r p = Some m \<longleftrightarrow>
    m \<in> set (ds_models (er_discovery r)) \<and> is_dynamic_routable r m \<and> dynamic_public_alias (dm_id m) = Some p"
proof
  assume "resolve_dynamic_model r p = Some m"
  then show "m \<in> set (ds_models (er_discovery r)) \<and> is_dynamic_routable r m \<and> dynamic_public_alias (dm_id m) = Some p"
    using find_set_P [of _ "filter (is_dynamic_routable r) (ds_models (er_discovery r))" m]
    by (auto simp: resolve_dynamic_model_def)
next
  assume m: "m \<in> set (ds_models (er_discovery r)) \<and> is_dynamic_routable r m \<and> dynamic_public_alias (dm_id m) = Some p"
  let ?l = "filter (is_dynamic_routable r) (ds_models (er_discovery r))"
  have "find (\<lambda>x. dynamic_public_alias (dm_id x) = Some p) ?l \<noteq> None"
    using m by (auto simp: find_None_iff)
  then obtain x where x: "find (\<lambda>x. dynamic_public_alias (dm_id x) = Some p) ?l = Some x" by auto
  from find_set_P [OF this] have "x \<in> set (ds_models (er_discovery r))" "dm_id x = dm_id m"
    using m by (auto simp: alias_iff)
  with m assms have "x = m" by (auto simp: ids_ok_def distinct_map dest: inj_onD)
  with x show "resolve_dynamic_model r p = Some m" by (simp add: resolve_dynamic_model_def)
qed

lemma public_models_shape:
  assumes "x \<in> set (effective_public_models r)"
  shows "x \<in> set static_public_models \<or>
    mi_id x \<notin> mi_id ` set static_public_models \<and>
    (\<exists>m. m \<in> set (ds_models (er_discovery r)) \<and> is_dynamic_public r m \<and>
      dynamic_public_alias (dm_id m) = Some (mi_id x) \<and> mi_upstream_id x = dm_upstream_id m \<and>
      mi_profile x = compatibility_profile_for_dynamic r m (mi_id x))"
proof -
  define step where "step = (\<lambda>models m. case dynamic_public_alias (dm_id m) of
           None \<Rightarrow> models
         | Some public \<Rightarrow>
             if public \<in> mi_id ` set models then models
             else models @ [\<lparr>mi_id = public, mi_upstream_id = dm_upstream_id m,
                             mi_profile = compatibility_profile_for_dynamic r m public\<rparr>])"
  define good where "good x \<longleftrightarrow> x \<in> set static_public_models \<or>
    mi_id x \<notin> mi_id ` set static_public_models \<and>
    (\<exists>m. m \<in> set (ds_models (er_discovery r)) \<and> is_dynamic_public r m \<and>
      dynamic_public_alias (dm_id m) = Some (mi_id x) \<and> mi_upstream_id x = dm_upstream_id m \<and>
      mi_profile x = compatibility_profile_for_dynamic r m (mi_id x))" for x
  have "\<forall>x \<in> set (foldl step acc ms). good x"
    if "\<forall>x \<in> set acc. good x" "set ms \<subseteq> set (public_dynamic_models r)"
       "set static_public_models \<subseteq> set acc" for acc ms
    using that
  proof (induction ms arbitrary: acc)
    case (Cons m ms)
    have m: "m \<in> set (ds_models (er_discovery r))" "is_dynamic_public r m"
      using Cons.prems(2) by (auto simp: public_dynamic_models_def)
    have "\<forall>x \<in> set (step acc m). good x"
    proof (cases "dynamic_public_alias (dm_id m)")
      case None
      with Cons.prems(1) show ?thesis by (simp add: step_def)
    next
      case (Some a)
      with m Cons.prems show ?thesis
        by (auto simp: step_def good_def)
    qed
    moreover have "set static_public_models \<subseteq> set (step acc m)"
      using Cons.prems(3) by (auto simp: step_def split: option.split)
    ultimately show ?case using Cons.IH [of "step acc m"] Cons.prems(2) by simp
  qed simp
  from this [of static_public_models "public_dynamic_models r"] assms
  have "good x" by (simp add: effective_public_models_def step_def good_def)
  then show ?thesis by (simp only: good_def)
qed

lemma effective_listed_resolves:
  assumes "ids_ok (ds_models (er_discovery r))" and "x \<in> set (effective_public_models r)"
    and "mi_id x \<notin> set shadow_names"
  shows "effective_resolve r (mi_id x) = Inr \<lparr>mr_public_model = mi_id x,
    mr_upstream_model = mi_upstream_id x, mr_profile = mi_profile x\<rparr>"
  using public_models_shape [OF assms(2)]
proof (elim disjE conjE exE)
  assume "x \<in> set static_public_models"
  then show ?thesis by (simp add: effective_resolve_def static_listed_resolves)
next
  fix m
  assume new: "mi_id x \<notin> mi_id ` set static_public_models"
    and m: "m \<in> set (ds_models (er_discovery r))" "is_dynamic_public r m"
    "dynamic_public_alias (dm_id m) = Some (mi_id x)" "mi_upstream_id x = dm_upstream_id m"
    "mi_profile x = compatibility_profile_for_dynamic r m (mi_id x)"
  have "static_resolve (mi_id x) = Inl (UnknownModel (mi_id x))"
    using static_resolve_names [of "mi_id x"] new assms(3) by blast
  moreover have "is_dynamic_routable r m" using m(2,3) by (simp add: is_dynamic_public_def)
  then have "resolve_dynamic_model r (mi_id x) = Some m"
    using m resolve_dynamic_iff [OF assms(1)] by blast
  ultimately show ?thesis using m by (simp add: effective_resolve_def Let_def)
qed

interpretation effective: model_registry "\<lambda>r. ids_ok (ds_models (er_discovery r))"
    effective_public_models effective_resolve "\<lambda>p. p \<in> set shadow_names"
  by unfold_locales (rule effective_listed_resolves)

lemma listed_alias:
  assumes "m \<in> set ms" and "dynamic_public_alias (dm_id m) = Some a"
  shows "a \<in> mi_id ` set (foldl (\<lambda>models m.
         case dynamic_public_alias (dm_id m) of
           None \<Rightarrow> models
         | Some public \<Rightarrow>
             if public \<in> mi_id ` set models then models
             else models @ [\<lparr>mi_id = public, mi_upstream_id = dm_upstream_id m,
                             mi_profile = compatibility_profile_for_dynamic r m public\<rparr>]) acc ms)"
    (is "a \<in> mi_id ` set (foldl ?f acc ms)")
proof -
  have keep: "a \<in> mi_id ` set acc \<Longrightarrow> a \<in> mi_id ` set (foldl ?f acc l)" for acc l
    by (induction l arbitrary: acc) (auto split: option.split)
  show ?thesis
    using assms(1)
  proof (induction ms arbitrary: acc)
    case (Cons x ms)
    show ?case
    proof (cases "x = m")
      case True
      then have "a \<in> mi_id ` set (?f acc x)" using assms(2) by (simp add: image_Un)
      from keep [OF this, of ms] show ?thesis by simp
    next
      case False
      with Cons show ?thesis by simp
    qed
  qed simp
qed

section \<open>Properties\<close>

text \<open>
  C33: Over every reachable discovery registry, a model that the effective registry lists
  resolves, under the name it is listed with, to the upstream and the profile it is listed
  with, unless its name is one of the five that only a static resolution knows; and no two
  such entries share a name.
\<close>

theorem listed_models_resolve:
  assumes "disc_reach decode (er_discovery r)" and "x \<in> set (effective_public_models r)"
    and "mi_id x \<notin> set shadow_names"
  shows "effective_resolve r (mi_id x) = Inr \<lparr>mr_public_model = mi_id x,
      mr_upstream_model = mi_upstream_id x, mr_profile = mi_profile x\<rparr> \<and>
    (\<forall>y \<in> set (effective_public_models r). mi_id y = mi_id x \<longrightarrow> y = x)"
proof -
  have ok: "ids_ok (ds_models (er_discovery r))"
    using disc_reach_wf [OF assms(1)] by (simp add: ds_wf_def)
  show ?thesis
    using effective.listed_resolves [OF ok assms(2,3)] effective.listed_unique [OF ok _ assms(2)] assms(3)
    by auto
qed

definition demo_effective :: "dynamic_model_public_mode \<Rightarrow> effective_model_registry" where
  "demo_effective mode = with_dynamic_allowlists mode demo_registry [] []"

lemma demo_effective_discovery: "er_discovery (demo_effective mode) = demo_registry"
  by (simp add: demo_effective_def with_dynamic_allowlists_def)

lemma demo_alias: "dynamic_public_alias ''x-free'' = Some ''x''"
  by (simp add: alias_iff)

lemma demo_upstream: "dm_upstream_id (see_model 5 ''x-free'' None) = ''x-free''"
  by (simp add: see_model_def classify_model_def is_reserved_static_upstream_def
      is_free_candidate_def ends_with_def DiscoveredModel_new_def merge_seen_model_state_def
      sync_lifecycle_flags_def published_def clear_claudecode_compatibility_def)

lemma demo_not_reserved: "\<not> is_reserved_public_or_upstream ''x-free''"
  by code_simp

lemma demo_public: "public_dynamic_models (demo_effective CandidateCanaryOrActive) = [see_model 5 ''x-free'' None]"
  by (simp add: public_dynamic_models_def demo_effective_discovery demo_models is_dynamic_public_def
      demo_model_fields demo_alias is_dynamic_routable_def demo_upstream demo_not_reserved
      allowlist_allows_def)
    (simp add: demo_effective_def with_dynamic_allowlists_def dedupe_allowlist_def demo_model_fields)

lemma demo_listed:
  "\<exists>x \<in> set (effective_public_models (demo_effective CandidateCanaryOrActive)). mi_id x = ''x''"
proof -
  have "''x'' \<notin> mi_id ` set static_public_models" by code_simp
  then show ?thesis
    by (simp add: effective_public_models_def demo_public demo_model_fields demo_alias)
qed

lemma listed_models_resolve_witness:
  "\<exists>res. effective_resolve (demo_effective CandidateCanaryOrActive) ''x'' = Inr res"
proof -
  obtain x where x: "x \<in> set (effective_public_models (demo_effective CandidateCanaryOrActive))" "mi_id x = ''x''"
    using demo_listed by blast
  have "disc_reach demo_decode (er_discovery (demo_effective CandidateCanaryOrActive))"
    using demo_reach by (simp add: demo_effective_discovery)
  from listed_models_resolve [OF this x(1)] x(2) show ?thesis by (simp add: shadow_names_def)
qed

text \<open>
  C32: Discovery never changes what a static name means and never exposes a hidden model: a
  name that resolves statically resolves the same way in every effective registry; any other
  name resolves only to a discovered model with that name and the free suffix, in a
  state the public mode allows, never quarantined, retired, missing or awaiting its probe
  result, and never under the static-only mode; and it is unknown only when no routable
  discovered model has it.
\<close>

theorem resolution_is_safe:
  "case static_resolve p of
     Inr y \<Rightarrow> effective_resolve r p = Inr y
   | Inl _ \<Rightarrow>
       (case effective_resolve r p of
          Inr x \<Rightarrow>
            \<exists>m \<in> set (ds_models (er_discovery r)).
              dm_id m = p @ ''-free'' \<and> mr_public_model x = p \<and> mr_upstream_model x = dm_upstream_id m \<and>
              er_public_mode r \<noteq> StaticOnly \<and>
              (dm_state m = Active \<or>
               dm_state m = Canary \<and> er_public_mode r \<noteq> ActiveOnly \<or>
               dm_state m = Candidate \<and> er_public_mode r = CandidateCanaryOrActive) \<and>
              mr_profile x \<noteq> DynamicRestricted
        | Inl e \<Rightarrow>
            e = UnknownModel p \<and>
            (p = [] \<or> \<not> (\<exists>m \<in> set (ds_models (er_discovery r)).
                             dm_id m = p @ ''-free'' \<and> is_dynamic_routable r m)))"
proof (cases "static_resolve p")
  case (Inr y)
  then show ?thesis by (simp add: effective_resolve_def)
next
  case (Inl e)
  show ?thesis
  proof (cases "resolve_dynamic_model r p")
    case None
    then have "\<not> (\<exists>m \<in> set (ds_models (er_discovery r)).
        dynamic_public_alias (dm_id m) = Some p \<and> is_dynamic_routable r m)"
      by (auto simp: resolve_dynamic_model_def find_None_iff)
    with Inl None show ?thesis by (auto simp: effective_resolve_def alias_iff)
  next
    case (Some m)
    let ?x = "\<lparr>mr_public_model = the (dynamic_public_alias (dm_id m)), mr_upstream_model = dm_upstream_id m,
      mr_profile = compatibility_profile_for_dynamic r m (the (dynamic_public_alias (dm_id m)))\<rparr>"
    have x: "effective_resolve r p = Inr ?x" using Inl Some by (simp add: effective_resolve_def Let_def)
    from find_set_P [OF Some [unfolded resolve_dynamic_model_def]]
    have m: "m \<in> set (ds_models (er_discovery r))" "is_dynamic_routable r m"
      "dynamic_public_alias (dm_id m) = Some p" by auto
    then have st: "er_public_mode r \<noteq> StaticOnly \<and>
         (dm_state m = Active \<or> dm_state m = Canary \<and> er_public_mode r \<noteq> ActiveOnly \<or>
          dm_state m = Candidate \<and> er_public_mode r = CandidateCanaryOrActive)"
      by (auto simp: is_dynamic_routable_def split: if_splits dynamic_model_public_mode.splits)
    then have "for_dynamic m \<noteq> DynamicRestricted" by (auto simp: for_dynamic_def)
    then have "mr_profile ?x \<noteq> DynamicRestricted" by (simp add: compatibility_profile_for_dynamic_def)
    moreover have "dm_id m = p @ ''-free''" using m(3) by (simp add: alias_iff)
    ultimately show ?thesis using m st Inl x by (auto intro!: bexI [of _ m])
  qed
qed

lemma resolution_is_safe_witness:
  "\<exists>m \<in> set (ds_models demo_registry). dm_id m = ''x-free'' \<and> dm_state m = Candidate"
proof -
  have unknown: "static_resolve ''x'' = Inl (UnknownModel ''x'')" by code_simp
  obtain res where res: "effective_resolve (demo_effective CandidateCanaryOrActive) ''x'' = Inr res"
  proof -
    obtain x where x: "x \<in> set (effective_public_models (demo_effective CandidateCanaryOrActive))"
      "mi_id x = ''x''" using demo_listed by blast
    have "ids_ok (ds_models (er_discovery (demo_effective CandidateCanaryOrActive)))"
      using demo_wf by (simp add: demo_effective_discovery ds_wf_def)
    from effective_listed_resolves [OF this x(1)] x(2) that show thesis
      by (simp add: shadow_names_def)
  qed
  from resolution_is_safe [of "''x''" "demo_effective CandidateCanaryOrActive"] res unknown show ?thesis
    by (auto simp: demo_effective_discovery demo_models demo_model_fields)
qed

text \<open>
  The reservation of names looks at ids, not at aliases: with a free model whose alias is
  a request alias of a static model, the list shows that model, but asking for the listed
  name reaches the static model's upstream.
\<close>

lemma shadowed_alias_misroutes:
  assumes "m \<in> set (ds_models (er_discovery r))" and "dm_id m = ''mimo-free''"
    and "dm_upstream_id m = ''mimo-free''" and "dm_state m = Active"
    and "er_public_mode r \<noteq> StaticOnly" and "er_public_allowlist r = []"
  shows "''mimo'' \<in> mi_id ` set (effective_public_models r) \<and>
    effective_resolve r ''mimo'' = Inr \<lparr>mr_public_model = ''mimo'',
      mr_upstream_model = ''mimo-v2.5-free'', mr_profile = StaticMimo\<rparr>"
proof -
  have a: "dynamic_public_alias ''mimo-free'' = Some ''mimo''" by (simp add: alias_iff)
  have "\<not> is_reserved_public_or_upstream ''mimo-free''" by code_simp
  then have "is_dynamic_public r m"
    using assms a by (cases "er_public_mode r")
      (simp_all add: is_dynamic_public_def is_dynamic_routable_def allowlist_allows_def)
  then have "m \<in> set (public_dynamic_models r)" using assms(1) by (simp add: public_dynamic_models_def)
  then have "''mimo'' \<in> mi_id ` set (effective_public_models r)"
    unfolding effective_public_models_def
    by (rule listed_alias) (simp add: assms(2) a)
  moreover have "static_resolve ''mimo'' = Inr \<lparr>mr_public_model = ''mimo'',
      mr_upstream_model = ''mimo-v2.5-free'', mr_profile = StaticMimo\<rparr>" by code_simp
  ultimately show ?thesis by (simp add: effective_resolve_def)
qed

definition mimo_registry :: effective_model_registry where
  "mimo_registry = with_dynamic_allowlists ActiveOnly
     ((DynamicModelRegistry_new True ''u'')
        \<lparr>ds_models := [DiscoveredModel_new 1 ''mimo-free'' Active ''r'']\<rparr>) [] []"

lemma shadowed_alias_misroutes_witness:
  "''mimo'' \<in> mi_id ` set (effective_public_models mimo_registry)"
proof -
  have "dm_upstream_id (DiscoveredModel_new 1 ''mimo-free'' Active ''r'') = ''mimo-free''"
    by (simp add: DiscoveredModel_new_def)
  with shadowed_alias_misroutes [of "DiscoveredModel_new 1 ''mimo-free'' Active ''r''" mimo_registry]
  show ?thesis
    by (simp add: mimo_registry_def with_dynamic_allowlists_def dedupe_allowlist_def)
qed

end
