(* ===== verification/Lanes.thy ===== *)
theory Lanes
  imports Json
begin

text \<open>
  \<open>zen-proxy-rs/src/lanes.rs\<close>: requests are classified into lanes by their size and shape,
  each lane admits a bounded number of them, and a request that finds its lane full polls
  until a timeout.  The counter of a lane is shared by all requests: its compare-and-swap
  loop is a step relation over any number of threads.
\<close>

section \<open>Classification\<close>

datatype lane_kind =
  ShortNonStream | NormalStream | LargeContext | HugeContext | LongNonStream | LongOutput | ToolHeavy

record lane_config =
  lc_v43_lanes_enabled :: bool
  lc_v43_short_nonstream_concurrency :: nat
  lc_v1_max_concurrent_requests :: nat
  lc_v43_stream_concurrency :: nat
  lc_v43_large_context_concurrency :: nat
  lc_v43_huge_context_concurrency :: nat
  lc_v46_long_nonstream_concurrency :: nat
  lc_v46_long_output_concurrency :: nat
  lc_v46_tool_heavy_concurrency :: nat
  lc_v43_lane_wait_timeout_ms :: nat
  lc_v43_huge_context_body_mb :: nat
  lc_v45_huge_context_tokens :: nat
  lc_v43_large_context_body_mb :: nat
  lc_v45_large_context_tokens :: nat
  lc_v46_long_output_tokens :: nat
  lc_v46_long_nonstream_tokens :: nat

definition counted_key :: "string \<Rightarrow> bool" where
  "counted_key k \<longleftrightarrow>
     k \<in> {''content'', ''messages'', ''system'', ''prompt'', ''tools'', ''tool_calls''}"

fun estimate_value_tokens :: "json \<Rightarrow> nat"
  and estimate_items :: "json list \<Rightarrow> nat"
  and estimate_fields :: "(string \<times> json) list \<Rightarrow> nat" where
  "estimate_value_tokens (JString s) = max (length s div 4) 1"
| "estimate_value_tokens (JArray xs) = estimate_items xs"
| "estimate_value_tokens (JObject m) = estimate_fields m"
| "estimate_value_tokens JNull = 0"
| "estimate_value_tokens (JBool b) = 0"
| "estimate_value_tokens (JNumber n) = 0"
| "estimate_items [] = 0"
| "estimate_items (v # vs) = estimate_value_tokens v + estimate_items vs"
| "estimate_fields [] = 0"
| "estimate_fields ((k, v) # m) =
     (if counted_key k then estimate_value_tokens v else 0) + estimate_fields m"

definition is_tool_marker :: "(string \<times> json) list \<Rightarrow> bool" where
  "is_tool_marker m \<longleftrightarrow>
     Option.bind (map_of m ''role'') as_str = Some ''tool'' \<or>
     map_of m ''tool_calls'' \<noteq> None \<or> map_of m ''tool_call_id'' \<noteq> None \<or>
     Option.bind (map_of m ''type'') as_str = Some ''tool_result'' \<or>
     Option.bind (map_of m ''type'') as_str = Some ''tool_use''"

fun count_tool_markers :: "json \<Rightarrow> nat"
  and count_items :: "json list \<Rightarrow> nat"
  and count_fields :: "(string \<times> json) list \<Rightarrow> nat" where
  "count_tool_markers (JArray xs) = count_items xs"
| "count_tool_markers (JObject m) = (if is_tool_marker m then 1 else 0) + count_fields m"
| "count_tool_markers (JString s) = 0"
| "count_tool_markers JNull = 0"
| "count_tool_markers (JBool b) = 0"
| "count_tool_markers (JNumber n) = 0"
| "count_items [] = 0"
| "count_items (v # vs) = count_tool_markers v + count_items vs"
| "count_fields [] = 0"
| "count_fields ((k, v) # m) = count_tool_markers v + count_fields m"

definition estimate_request_tokens :: "serde \<Rightarrow> string \<Rightarrow> nat" where
  "estimate_request_tokens S body =
     (if body = [] then 0
      else case from_slice S body of
             Some v \<Rightarrow> estimate_value_tokens v
           | None \<Rightarrow> max (length body div 4) 1)"

record request_profile =
  rp_streaming :: bool
  rp_max_tokens :: nat
  rp_tool_heavy :: bool

definition request_profile_of :: "serde \<Rightarrow> string \<Rightarrow> request_profile" where
  "request_profile_of S body =
     (case from_slice S body of
        None \<Rightarrow> \<lparr>rp_streaming = False, rp_max_tokens = 0, rp_tool_heavy = False\<rparr>
      | Some v \<Rightarrow>
          (let max_tokens = (case json_get ''max_tokens'' v of
                               Some t \<Rightarrow> Some t
                             | None \<Rightarrow> json_get ''max_completion_tokens'' v);
               tools_count = (case Option.bind (json_get ''tools'' v) as_array of
                                None \<Rightarrow> 0 | Some ts \<Rightarrow> length ts);
               tool_markers = count_tool_markers v
           in \<lparr>rp_streaming = unwrap_or False (Option.bind (json_get ''stream'' v) as_bool),
               rp_max_tokens = unwrap_or 0 (Option.bind max_tokens as_u64),
               rp_tool_heavy = tools_count \<ge> 8 \<or> tool_markers \<ge> 6\<rparr>))"

definition classify_lane :: "serde \<Rightarrow> lane_config \<Rightarrow> string \<Rightarrow> string \<Rightarrow> lane_kind" where
  "classify_lane S c path body =
     (let body_mb = div_ceil (length body) (1024 * 1024);
          estimated_tokens = estimate_request_tokens S body
      in if body_mb \<ge> max (lc_v43_huge_context_body_mb c) 1
            \<or> estimated_tokens \<ge> max (lc_v45_huge_context_tokens c) 1 then HugeContext
         else if body_mb \<ge> max (lc_v43_large_context_body_mb c) 1
            \<or> estimated_tokens \<ge> max (lc_v45_large_context_tokens c) 1 then LargeContext
         else
           let profile = request_profile_of S body
           in if path \<notin> {''chat/completions'', ''messages''} then ShortNonStream
              else if rp_tool_heavy profile then ToolHeavy
              else if \<not> rp_streaming profile
                    \<and> rp_max_tokens profile > max (lc_v46_long_output_tokens c) 1 then LongOutput
              else if \<not> rp_streaming profile
                    \<and> estimated_tokens \<ge> max (lc_v46_long_nonstream_tokens c) 1 then LongNonStream
              else if rp_streaming profile then NormalStream else ShortNonStream)"

fun lane_name :: "lane_kind \<Rightarrow> string" where
  "lane_name ShortNonStream = ''short_nonstream''"
| "lane_name NormalStream = ''normal_stream''"
| "lane_name LargeContext = ''large_context''"
| "lane_name HugeContext = ''huge_context''"
| "lane_name LongNonStream = ''long_nonstream''"
| "lane_name LongOutput = ''long_output''"
| "lane_name ToolHeavy = ''tool_heavy''"

section \<open>The limiter\<close>

record lane_state =
  ls_max :: nat
  ls_in_flight :: nat

definition LaneState_new :: "nat \<Rightarrow> lane_state" where
  "LaneState_new m = \<lparr>ls_max = max m 1, ls_in_flight = 0\<rparr>"

record lane_limiter =
  ll_enabled :: bool
  ll_short_nonstream :: lane_state
  ll_normal_stream :: lane_state
  ll_large_context :: lane_state
  ll_huge_context :: lane_state
  ll_long_nonstream :: lane_state
  ll_long_output :: lane_state
  ll_tool_heavy :: lane_state

definition LaneLimiter_from_config :: "lane_config \<Rightarrow> lane_limiter" where
  "LaneLimiter_from_config c =
     \<lparr>ll_enabled = lc_v43_lanes_enabled c,
      ll_short_nonstream = LaneState_new
        (if lc_v43_lanes_enabled c then lc_v43_short_nonstream_concurrency c
         else lc_v1_max_concurrent_requests c),
      ll_normal_stream = LaneState_new (lc_v43_stream_concurrency c),
      ll_large_context = LaneState_new (lc_v43_large_context_concurrency c),
      ll_huge_context = LaneState_new (lc_v43_huge_context_concurrency c),
      ll_long_nonstream = LaneState_new (lc_v46_long_nonstream_concurrency c),
      ll_long_output = LaneState_new (lc_v46_long_output_concurrency c),
      ll_tool_heavy = LaneState_new (lc_v46_tool_heavy_concurrency c)\<rparr>"

fun state_for :: "lane_kind \<Rightarrow> lane_limiter \<Rightarrow> lane_state" where
  "state_for ShortNonStream l = ll_short_nonstream l"
| "state_for NormalStream l = ll_normal_stream l"
| "state_for LargeContext l = ll_large_context l"
| "state_for HugeContext l = ll_huge_context l"
| "state_for LongNonStream l = ll_long_nonstream l"
| "state_for LongOutput l = ll_long_output l"
| "state_for ToolHeavy l = ll_tool_heavy l"

text \<open>
  The polling loop of \<open>acquire\<close>.  \<open>polls\<close> are the answers of the successive
  \<open>try_acquire\<close> calls; the loop sleeps 10 ms between two of them.  The result is the
  waited time with the outcome, \<open>None\<close> when the polls run out before the loop ends.
\<close>

fun lane_wait :: "nat \<Rightarrow> nat \<Rightarrow> bool list \<Rightarrow> (nat + nat) option" where
  "lane_wait timeout waited [] = None"
| "lane_wait timeout waited (ok # polls) =
     (if ok then Some (Inr waited)
      else if waited \<ge> timeout then Some (Inl waited)
      else lane_wait timeout (sat_add 64 waited 10) polls)"

definition lane_acquire ::
  "serde \<Rightarrow> lane_config \<Rightarrow> lane_limiter \<Rightarrow> string \<Rightarrow> string \<Rightarrow> bool list
     \<Rightarrow> lane_kind \<times> (nat + nat) option" where
  "lane_acquire S c l path body polls =
     (let kind = (if ll_enabled l then classify_lane S c path body else ShortNonStream)
      in (kind, lane_wait (lc_v43_lane_wait_timeout_ms c) 0 polls))"

section \<open>The shared counter\<close>

text \<open>
  A thread is idle, has loaded the counter and is about to compare it, or holds a permit
  with a number of clones.  \<open>try_acquire\<close> is a load, then a compare-and-swap that may also
  fail spuriously (\<open>compare_exchange_weak\<close>), in which case it retries with the value it
  read; dropping the last clone gives the slot back.
\<close>

datatype lane_thread = Idle | Loaded nat | Holding nat

type_synonym lane_world = "lane_state \<times> lane_thread list"

inductive lane_step :: "lane_world \<Rightarrow> lane_world \<Rightarrow> bool" where
  lane_load: "t < length ts \<Longrightarrow> ts ! t = Idle \<Longrightarrow>
     lane_step (s, ts) (s, ts[t := Loaded (ls_in_flight s)])"
| lane_full: "t < length ts \<Longrightarrow> ts ! t = Loaded c \<Longrightarrow> c \<ge> ls_max s \<Longrightarrow>
     lane_step (s, ts) (s, ts[t := Idle])"
| lane_swap: "t < length ts \<Longrightarrow> ts ! t = Loaded c \<Longrightarrow> c < ls_max s \<Longrightarrow> ls_in_flight s = c \<Longrightarrow>
     lane_step (s, ts) (s\<lparr>ls_in_flight := c + 1\<rparr>, ts[t := Holding 1])"
| lane_retry: "t < length ts \<Longrightarrow> ts ! t = Loaded c \<Longrightarrow> c < ls_max s \<Longrightarrow>
     lane_step (s, ts) (s, ts[t := Loaded (ls_in_flight s)])"
| lane_clone: "t < length ts \<Longrightarrow> ts ! t = Holding k \<Longrightarrow>
     lane_step (s, ts) (s, ts[t := Holding (k + 1)])"
| lane_drop: "t < length ts \<Longrightarrow> ts ! t = Holding (k + 2) \<Longrightarrow>
     lane_step (s, ts) (s, ts[t := Holding (k + 1)])"
| lane_release: "t < length ts \<Longrightarrow> ts ! t = Holding 1 \<Longrightarrow>
     lane_step (s, ts) (s\<lparr>ls_in_flight := ls_in_flight s - 1\<rparr>, ts[t := Idle])"

inductive lane_reach :: "nat \<Rightarrow> nat \<Rightarrow> lane_world \<Rightarrow> bool" for m n where
  lane_init: "lane_reach m n (LaneState_new m, replicate n Idle)"
| lane_next: "lane_reach m n w \<Longrightarrow> lane_step w w' \<Longrightarrow> lane_reach m n w'"

fun holds :: "lane_thread \<Rightarrow> bool" where
  "holds (Holding k) = True"
| "holds _ = False"

definition holders :: "lane_thread list \<Rightarrow> nat" where
  "holders ts = length (filter holds ts)"

lemma holders_update:
  "t < length ts \<Longrightarrow>
     holders (ts[t := x]) + (if holds (ts ! t) then 1 else 0) = holders ts + (if holds x then 1 else 0)"
proof -
  assume t: "t < length ts"
  have "holders ts = holders (take t ts) + ((if holds (ts ! t) then 1 else 0) + holders (drop (Suc t) ts))"
    by (subst (1) id_take_nth_drop [OF t]) (simp add: holders_def)
  then show ?thesis using t by (simp add: holders_def upd_conv_take_nth_drop)
qed

lemma lane_invariant:
  "lane_reach m n w \<Longrightarrow>
     ls_max (fst w) = max m 1 \<and> length (snd w) = n \<and>
     ls_in_flight (fst w) = holders (snd w) \<and> holders (snd w) \<le> ls_max (fst w)"
proof (induction rule: lane_reach.induct)
  case lane_init
  then show ?case by (simp add: LaneState_new_def holders_def)
next
  case (lane_next w w')
  from lane_next.hyps(2) lane_next.IH show ?case
  proof (cases rule: lane_step.cases)
    case (lane_swap t ts c s)
    then show ?thesis using lane_next.IH holders_update [OF lane_swap(3), of "Holding 1"] by simp
  next
    case (lane_release t ts s)
    then show ?thesis using lane_next.IH holders_update [OF lane_release(3), of Idle] by simp
  next
    case (lane_load t ts s)
    then show ?thesis using lane_next.IH holders_update [OF lane_load(3), of "Loaded (ls_in_flight s)"] by simp
  next
    case (lane_full t ts c s)
    then show ?thesis using lane_next.IH holders_update [OF lane_full(3), of Idle] by simp
  next
    case (lane_retry t ts c s)
    then show ?thesis using lane_next.IH holders_update [OF lane_retry(3), of "Loaded (ls_in_flight s)"] by simp
  next
    case (lane_clone t ts k s)
    then show ?thesis using lane_next.IH holders_update [OF lane_clone(3), of "Holding (k + 1)"] by simp
  next
    case (lane_drop t ts k s)
    then show ?thesis using lane_next.IH holders_update [OF lane_drop(3), of "Holding (k + 1)"] by simp
  qed
qed

section \<open>Properties\<close>

text \<open>
  C37: A lane is never oversubscribed: in every interleaving of loads, compare-and-swaps
  (which may fail spuriously), clones and drops by any number of threads, the counter is the
  number of threads that hold a permit and never exceeds the lane's limit; when every
  thread is idle again no slot has leaked.
\<close>

theorem lane_never_oversubscribed:
  assumes "lane_reach m n (s, ts)"
  shows "ls_in_flight s = holders ts \<and> ls_in_flight s \<le> max m 1 \<and>
         ((\<forall>t \<in> set ts. t = Idle) \<longrightarrow> ls_in_flight s = 0)"
proof -
  have "holders ts = 0" if "\<forall>t \<in> set ts. t = Idle"
    using that by (auto simp: holders_def filter_empty_conv)
  with lane_invariant [OF assms] show ?thesis by simp
qed

lemma lane_never_oversubscribed_witness:
  "lane_reach 1 2 (\<lparr>ls_max = 1, ls_in_flight = 1\<rparr>, [Holding 1, Loaded 0]) \<and>
   ls_in_flight \<lparr>ls_max = 1, ls_in_flight = 1\<rparr> = holders [Holding 1, Loaded 0]"
proof -
  let ?s = "LaneState_new 1"
  have "lane_reach 1 2 (?s, [Idle, Idle])"
    using lane_init [of 1 2] by (simp add: numeral_2_eq_2)
  from lane_next [OF this lane_load [of 0]] have "lane_reach 1 2 (?s, [Loaded 0, Idle])"
    by (simp add: LaneState_new_def)
  from lane_next [OF this lane_load [of 1]] have "lane_reach 1 2 (?s, [Loaded 0, Loaded 0])"
    by (simp add: LaneState_new_def)
  from lane_next [OF this lane_swap [of 0 _ 0]]
  have r: "lane_reach 1 2 (\<lparr>ls_max = 1, ls_in_flight = 1\<rparr>, [Holding 1, Loaded 0])"
    by (simp add: LaneState_new_def)
  from r lane_never_oversubscribed [OF r] show ?thesis by blast
qed

lemma lane_step_at:
  assumes "lane_step w w'" and "t < length (snd w)"
  shows "snd w ! t = Idle \<Longrightarrow> snd w' ! t = Loaded c \<Longrightarrow> c = ls_in_flight (fst w)"
    and "snd w ! t = Loaded b \<Longrightarrow> snd w' ! t = Loaded c \<Longrightarrow> c = b \<or> c = ls_in_flight (fst w)"
    and "snd w ! t = Loaded b \<Longrightarrow> snd w' ! t = Idle \<Longrightarrow> ls_max (fst w) \<le> b"
  using assms by (auto elim!: lane_step.cases simp: nth_list_update split: if_splits)

text \<open>The value an attempt compares is the counter of a moment since the attempt began.\<close>

lemma lane_attempt_value:
  "lane_reach m n w \<Longrightarrow> t < n \<Longrightarrow> snd w ! t = Idle \<Longrightarrow> successively lane_step (w # ws) \<Longrightarrow>
     \<forall>x \<in> set ws. \<exists>c. snd x ! t = Loaded c \<Longrightarrow> ws \<noteq> [] \<Longrightarrow>
     lane_reach m n (last ws) \<and>
     (\<exists>x \<in> set (w # ws). lane_reach m n x \<and> snd (last ws) ! t = Loaded (ls_in_flight (fst x)))"
proof (induction ws rule: rev_induct)
  case (snoc y ws)
  from snoc.prems(5) obtain c where c: "snd y ! t = Loaded c" by auto
  show ?case
  proof (cases "ws = []")
    case True
    with snoc.prems have st: "lane_step w y" by simp
    have "t < length (snd w)" using lane_invariant [OF snoc.prems(1)] snoc.prems(2) by simp
    from lane_step_at(1) [OF st this snoc.prems(3) c] c True lane_next [OF snoc.prems(1) st]
      snoc.prems(1) show ?thesis by simp
  next
    case False
    with snoc.prems have st: "lane_step (last ws) y" "successively lane_step (w # ws)"
      by (simp_all add: successively_append_iff successively_Cons split: if_splits)
    have "\<forall>x \<in> set ws. \<exists>c. snd x ! t = Loaded c" using snoc.prems(5) by simp
    from snoc.IH [OF snoc.prems(1-3) st(2) this False]
    obtain x where x: "x \<in> set (w # ws)" "lane_reach m n x" "lane_reach m n (last ws)"
      "snd (last ws) ! t = Loaded (ls_in_flight (fst x))" by blast
    have "t < length (snd (last ws))" using lane_invariant [OF x(3)] snoc.prems(2) by simp
    from lane_step_at(2) [OF st(1) this x(4) c] x c lane_next [OF x(3) st(1)] False
    show ?thesis by (auto intro: last_in_set)
  qed
qed simp

text \<open>
  C21: A request is turned away only by a full lane: when an attempt of a thread, from the load
  through any number of failed compare-and-swaps (spurious ones included) interleaved with the
  steps of the other threads, ends without a permit, then at some moment of this attempt the lane
  held as many permits as its limit.  A lost race alone never refuses a request.
\<close>

theorem lane_refusal_is_justified:
  assumes "lane_reach m n w" and "t < n" and "snd w ! t = Idle"
    and "successively lane_step (w # ws @ [w'])" and "ws \<noteq> []"
    and "\<forall>x \<in> set ws. \<exists>c. snd x ! t = Loaded c" and "snd w' ! t = Idle"
  shows "\<exists>x \<in> set (w # ws). holders (snd x) = max m 1"
proof -
  have ws: "successively lane_step (w # ws)" and st: "lane_step (last ws) w'"
    using assms(4,5) successively_append_iff [of lane_step "w # ws" "[w']"] by simp_all
  from lane_attempt_value [OF assms(1-3) ws assms(6,5)]
  obtain x where x: "x \<in> set (w # ws)" "lane_reach m n x" "lane_reach m n (last ws)"
    "snd (last ws) ! t = Loaded (ls_in_flight (fst x))" by blast
  have "t < length (snd (last ws))" using lane_invariant [OF x(3)] assms(2) by simp
  from lane_step_at(3) [OF st this x(4) assms(7)] lane_invariant [OF x(2)] lane_invariant [OF x(3)]
  have "holders (snd x) = max m 1" by linarith
  with x(1) show ?thesis by blast
qed

lemma lane_refusal_is_justified_witness:
  "\<exists>x \<in> {(\<lparr>ls_max = 1, ls_in_flight = 1\<rparr>, [Holding 1, Idle]),
           (\<lparr>ls_max = 1, ls_in_flight = 1\<rparr>, [Holding 1, Loaded 1])}. holders (snd x) = 1"
proof -
  let ?s = "\<lparr>ls_max = 1, ls_in_flight = 1\<rparr>"
  have i: "lane_reach 1 2 (LaneState_new 1, [Idle, Idle])"
    using lane_init [of 1 2] by (simp add: numeral_2_eq_2)
  from lane_next [OF i lane_load [of 0]] have "lane_reach 1 2 (LaneState_new 1, [Loaded 0, Idle])"
    by (simp add: LaneState_new_def)
  from lane_next [OF this lane_swap [of 0 _ 0]] have r: "lane_reach 1 2 (?s, [Holding 1, Idle])"
    by (simp add: LaneState_new_def)
  have l: "lane_step (?s, [Holding 1, Idle]) (?s, [Holding 1, Loaded 1])"
    using lane_load [of 1 "[Holding 1, Idle]" ?s] by simp
  have f: "lane_step (?s, [Holding 1, Loaded 1]) (?s, [Holding 1, Idle])"
    using lane_full [of 1 "[Holding 1, Loaded 1]" 1 ?s] by simp
  from lane_refusal_is_justified [OF r, of 1 "[(?s, [Holding 1, Loaded 1])]" "(?s, [Holding 1, Idle])"] l f
  show ?thesis by simp
qed

lemma lane_wait_from:
  assumes "timeout < 2 ^ 64 - 10"
  shows "waited < timeout + 10 \<Longrightarrow> timeout + 10 \<le> waited + 10 * length polls \<Longrightarrow>
     \<exists>r. lane_wait timeout waited polls = Some r \<and>
       (case r of
          Inr w \<Rightarrow> w < timeout + 10 \<and>
            (\<exists>k < length polls. w = waited + 10 * k \<and> polls ! k \<and> (\<forall>j < k. \<not> polls ! j))
        | Inl w \<Rightarrow> timeout \<le> w \<and> w < timeout + 10 \<and>
            (\<exists>k < length polls. w = waited + 10 * k \<and> (\<forall>j \<le> k. \<not> polls ! j)))"
proof (induction polls arbitrary: waited)
  case (Cons ok polls)
  show ?case
  proof (cases "ok \<or> waited \<ge> timeout")
    case True
    with Cons.prems show ?thesis by (auto intro: exI [of _ 0])
  next
    case False
    with assms have w: "sat_add 64 waited 10 = waited + 10" by (simp add: sat_add_def)
    have "waited + 10 < timeout + 10" "timeout + 10 \<le> waited + 10 + 10 * length polls"
      using False Cons.prems(2) by simp_all
    from Cons.IH [OF this] obtain r where r: "lane_wait timeout (waited + 10) polls = Some r" and
      c: "case r of
          Inr w \<Rightarrow> w < timeout + 10 \<and>
            (\<exists>k < length polls. w = waited + 10 + 10 * k \<and> polls ! k \<and> (\<forall>j < k. \<not> polls ! j))
        | Inl w \<Rightarrow> timeout \<le> w \<and> w < timeout + 10 \<and>
            (\<exists>k < length polls. w = waited + 10 + 10 * k \<and> (\<forall>j \<le> k. \<not> polls ! j))" by blast
    have shift: "(\<forall>j < k. \<not> polls ! j) \<Longrightarrow> \<forall>j < Suc k. \<not> (ok # polls) ! j" for k
      using False by (auto simp: less_Suc_eq_0_disj)
    show ?thesis
    proof (cases r)
      case (Inr v)
      with c obtain k where "k < length polls" "v = waited + 10 + 10 * k" "polls ! k"
        "\<forall>j < k. \<not> polls ! j" "v < timeout + 10" by auto
      with shift [of k] False w r Inr show ?thesis
        by (intro exI [of _ r]) (auto intro!: exI [of _ "Suc k"])
    next
      case (Inl v)
      with c obtain k where k: "k < length polls" "v = waited + 10 + 10 * k"
        "\<forall>j \<le> k. \<not> polls ! j" "timeout \<le> v" "v < timeout + 10" by auto
      then have "\<forall>j < Suc k. \<not> polls ! j" by (simp add: less_Suc_eq_le)
      from shift [OF this] have "\<forall>j \<le> Suc k. \<not> (ok # polls) ! j" by (simp add: less_Suc_eq_le)
      with k False w r Inl show ?thesis
        by (intro exI [of _ r]) (auto intro!: exI [of _ "Suc k"])
    qed
  qed
qed simp

text \<open>
  C38: The wait for a lane ends: within \<open>timeout / 10 + 2\<close> polls the loop returns, with a
  permit at the first poll that found a slot, or with an error once the timeout has passed
  (by less than one poll interval) and no poll until then succeeded.
\<close>

theorem lane_wait_terminates:
  assumes "lc_v43_lane_wait_timeout_ms c < 2 ^ 64 - 10"
    and "lc_v43_lane_wait_timeout_ms c div 10 + 2 \<le> length polls"
  shows "\<exists>r. snd (lane_acquire S c l path body polls) = Some r \<and>
           (case r of
              Inr w \<Rightarrow> w < lc_v43_lane_wait_timeout_ms c + 10 \<and>
                (\<exists>k < length polls. w = 10 * k \<and> polls ! k \<and> (\<forall>j < k. \<not> polls ! j))
            | Inl w \<Rightarrow> lc_v43_lane_wait_timeout_ms c \<le> w \<and> w < lc_v43_lane_wait_timeout_ms c + 10 \<and>
                (\<exists>k < length polls. w = 10 * k \<and> (\<forall>j \<le> k. \<not> polls ! j)))"
proof -
  have "lc_v43_lane_wait_timeout_ms c + 10 \<le> 0 + 10 * length polls" using assms(2) by presburger
  from lane_wait_from [OF assms(1) _ this] show ?thesis
    unfolding lane_acquire_def Let_def snd_conv add_0 by simp
qed

definition demo_lane_config :: lane_config where
  "demo_lane_config =
     \<lparr>lc_v43_lanes_enabled = True, lc_v43_short_nonstream_concurrency = 4,
      lc_v1_max_concurrent_requests = 4, lc_v43_stream_concurrency = 4,
      lc_v43_large_context_concurrency = 2, lc_v43_huge_context_concurrency = 1,
      lc_v46_long_nonstream_concurrency = 2, lc_v46_long_output_concurrency = 2,
      lc_v46_tool_heavy_concurrency = 2, lc_v43_lane_wait_timeout_ms = 20,
      lc_v43_huge_context_body_mb = 32, lc_v45_huge_context_tokens = 500000,
      lc_v43_large_context_body_mb = 8, lc_v45_large_context_tokens = 200000,
      lc_v46_long_output_tokens = 4096, lc_v46_long_nonstream_tokens = 10000\<rparr>"

definition demo_serde :: "json \<Rightarrow> serde" where
  "demo_serde v = \<lparr>from_slice = (\<lambda>_. Some v), to_string = (\<lambda>_. [])\<rparr>"

lemma lane_wait_terminates_witness:
  "snd (lane_acquire (demo_serde JNull) demo_lane_config (LaneLimiter_from_config demo_lane_config)
     ''messages'' ''{}'' [False, False, False, False]) = Some (Inl 20)"
proof -
  let ?r = "snd (lane_acquire (demo_serde JNull) demo_lane_config
     (LaneLimiter_from_config demo_lane_config) ''messages'' ''{}'' [False, False, False, False])"
  have "lc_v43_lane_wait_timeout_ms demo_lane_config = 20" by (simp add: demo_lane_config_def)
  with lane_wait_terminates [of demo_lane_config "[False, False, False, False]" "demo_serde JNull"
      "LaneLimiter_from_config demo_lane_config" "''messages''" "''{}''"]
  obtain r where "?r = Some r" by auto
  moreover have "?r = Some (Inl 20)"
    by (simp add: lane_acquire_def Let_def demo_lane_config_def sat_add_def)
  ultimately show ?thesis by simp
qed

text \<open>
  Where a request goes: a request whose body or token estimate reaches the huge
  threshold goes to the huge lane and nowhere else does a request go there; only chat paths
  reach the tool, long-output, long-nonstream and stream lanes; the stream lane takes
  streaming requests only and the two long lanes non-streaming ones only.
\<close>

lemma classify_lane_sound:
  "(classify_lane S c path body = HugeContext \<longleftrightarrow>
      div_ceil (length body) (1024 * 1024) \<ge> max (lc_v43_huge_context_body_mb c) 1 \<or>
      estimate_request_tokens S body \<ge> max (lc_v45_huge_context_tokens c) 1) \<and>
   (path \<notin> {''chat/completions'', ''messages''} \<longrightarrow>
      classify_lane S c path body \<in> {HugeContext, LargeContext, ShortNonStream}) \<and>
   (classify_lane S c path body = NormalStream \<longrightarrow> rp_streaming (request_profile_of S body)) \<and>
   (classify_lane S c path body \<in> {LongOutput, LongNonStream} \<longrightarrow>
      \<not> rp_streaming (request_profile_of S body)) \<and>
   (classify_lane S c path body = ToolHeavy \<longleftrightarrow>
      classify_lane S c path body \<notin> {HugeContext, LargeContext} \<and>
      path \<in> {''chat/completions'', ''messages''} \<and> rp_tool_heavy (request_profile_of S body))"
  unfolding classify_lane_def Let_def by (intro conjI) (simp_all (no_asm_simp))

lemma classify_lane_sound_witness:
  "classify_lane (demo_serde JNull) demo_lane_config ''models'' ''{}''
     \<in> {HugeContext, LargeContext, ShortNonStream}"
proof -
  have "''models'' \<notin> {''chat/completions'', ''messages''}" by simp
  with classify_lane_sound [of "demo_serde JNull" demo_lane_config "''models''" "''{}''"]
  show ?thesis by blast
qed

text \<open>
  The token estimate ignores content blocks.  A message whose content is a list of text
  blocks, the form in which Anthropic clients send it, counts no token at all, so whatever
  its length such a request reaches the large and huge lanes through its body size only.
\<close>

lemma content_blocks_not_counted:
  assumes "body \<noteq> []"
    and "from_slice S body = Some (JObject [(''messages'', JArray (map (\<lambda>ts. JObject
           [(''content'', JArray (map (\<lambda>t. JObject [(''text'', JString t), (''type'', JString ''text'')]) ts)),
            (''role'', JString ''user'')]) msgs))])"
    and "div_ceil (length body) (1024 * 1024) < max (lc_v43_large_context_body_mb c) 1"
    and "div_ceil (length body) (1024 * 1024) < max (lc_v43_huge_context_body_mb c) 1"
  shows "estimate_request_tokens S body = 0 \<and>
         classify_lane S c path body \<notin> {HugeContext, LargeContext, LongNonStream}"
proof -
  have b: "estimate_items (map (\<lambda>t. JObject [(''text'', JString t), (''type'', JString ''text'')]) ts) = 0" for ts
    by (induction ts) (simp_all add: counted_key_def)
  have "estimate_items (map (\<lambda>ts. JObject
           [(''content'', JArray (map (\<lambda>t. JObject [(''text'', JString t), (''type'', JString ''text'')]) ts)),
            (''role'', JString ''user'')]) msgs) = 0"
    by (induction msgs) (simp_all add: b counted_key_def)
  then have e: "estimate_request_tokens S body = 0"
    using assms(1,2) by (simp add: estimate_request_tokens_def counted_key_def)
  with assms(3,4) show ?thesis by (auto simp: classify_lane_def Let_def)
qed

definition demo_blocks :: json where
  "demo_blocks = JObject [(''messages'', JArray [JObject
     [(''content'', JArray [JObject [(''text'', JString (replicate 100 (CHR ''x''))), (''type'', JString ''text'')]]),
      (''role'', JString ''user'')]])]"

lemma content_blocks_not_counted_witness:
  "estimate_request_tokens (demo_serde demo_blocks) ''{}'' = 0 \<and>
   estimate_request_tokens (demo_serde (JObject [(''messages'', JArray [JObject
     [(''content'', JString (replicate 100 (CHR ''x''))), (''role'', JString ''user'')]])])) ''{}'' = 25"
proof -
  have "from_slice (demo_serde demo_blocks) ''{}'' = Some (JObject [(''messages'', JArray (map (\<lambda>ts. JObject
           [(''content'', JArray (map (\<lambda>t. JObject [(''text'', JString t), (''type'', JString ''text'')]) ts)),
            (''role'', JString ''user'')]) [[replicate 100 (CHR ''x'')]]))])"
    by (simp add: demo_serde_def demo_blocks_def)
  from content_blocks_not_counted [OF _ this, of demo_lane_config] show ?thesis
    by (simp add: div_ceil_def demo_lane_config_def estimate_request_tokens_def demo_serde_def
        counted_key_def)
qed

end
