(* ===== verification/Health.thy ===== *)
theory Health
  imports Prelude Complex_Main
begin

text \<open>
  \<open>zen-proxy-rs/src/health.rs\<close>: the health record of the upstream (a window of the last
  status codes and two backoff deadlines) and the detector of a global 429.  Instants and
  deadlines are nanoseconds since the process's epoch; \<open>now\<close> is the instant an operation
  reads.
\<close>

section \<open>Upstream health\<close>

record upstream_health =
  uh_timestamps :: "(nat \<times> nat) list"
  uh_backoff_until :: nat
  uh_soft_backoff_until :: nat
  uh_window_size :: nat

definition UpstreamHealth_new :: "nat \<Rightarrow> upstream_health" where
  "UpstreamHealth_new w =
     \<lparr>uh_timestamps = [], uh_backoff_until = 0, uh_soft_backoff_until = 0, uh_window_size = w\<rparr>"

definition consecutive_429 :: "upstream_health \<Rightarrow> nat" where
  "consecutive_429 h = length (takeWhile (\<lambda>e. snd e = 429) (rev (uh_timestamps h)))"

definition backoff_ms :: "nat \<Rightarrow> nat" where
  "backoff_ms consecutive = 1000 * 2 ^ (min consecutive 10 - 5)"

definition health_record :: "nat \<Rightarrow> nat \<Rightarrow> upstream_health \<Rightarrow> upstream_health" where
  "health_record now status h =
     (let ts = uh_timestamps h @ [(now, status)];
          h = h\<lparr>uh_timestamps := drop (length ts - uh_window_size h) ts\<rparr>
      in if status = 429
         then h\<lparr>uh_backoff_until := now + backoff_ms (consecutive_429 h) * 1000000\<rparr>
         else h)"

definition is_backoff :: "nat \<Rightarrow> upstream_health \<Rightarrow> bool" where
  "is_backoff now h \<longleftrightarrow>
     uh_backoff_until h > 0 \<and> now < uh_backoff_until h \<or>
     uh_soft_backoff_until h > 0 \<and> now < uh_soft_backoff_until h"

text \<open>\<open>Instant::now() - 60s\<close>; instants are later than the cutoff's epoch underflow.\<close>

definition window_stats :: "nat \<Rightarrow> upstream_health \<Rightarrow> nat \<times> nat" where
  "window_stats now h =
     (let recent = filter (\<lambda>(t, s). int t > int now - 60 * 10 ^ 9) (uh_timestamps h)
      in (length recent, length (filter (\<lambda>(t, s). s = 429) recent)))"

record upstream_stats =
  us_backoff :: bool
  us_rate_429 :: rat
  us_total_requests :: nat
  us_success_rate :: rat

definition health_stats :: "nat \<Rightarrow> upstream_health \<Rightarrow> upstream_stats" where
  "health_stats now h =
     (let (total, count_429) = window_stats now h
      in \<lparr>us_backoff = is_backoff now h,
          us_rate_429 = (if total = 0 then 0 else of_nat count_429 / of_nat total),
          us_total_requests = total,
          us_success_rate =
            (if total = 0 then 100 else of_nat (total - count_429) / of_nat total * 100)\<rparr>)"

section \<open>The detector of a global 429\<close>

datatype global_429_state = Normal | Suspected | Confirmed

text \<open>
  \<open>cap\<close> is the capacity of the \<open>VecDeque\<close> after a push, a function of the number of
  elements; the standard library guarantees that it is at least that number.
\<close>

record global_429_detector =
  gd_state :: global_429_state
  gd_window :: "(nat \<times> bool) list"

definition Global429Detector_new :: global_429_detector where
  "Global429Detector_new = \<lparr>gd_state = Normal, gd_window = []\<rparr>"

definition update_state :: "global_429_detector \<Rightarrow> global_429_detector" where
  "update_state d =
     (let total = length (gd_window d)
      in if total = 0 then d
         else
           let rate = (of_nat (length (filter snd (gd_window d))) / of_nat total :: rat)
           in d\<lparr>gd_state := (if rate > 70 / 100 then Confirmed
                            else if rate > 40 / 100 then Suspected else Normal)\<rparr>)"

definition detector_record ::
  "(nat \<Rightarrow> nat) \<Rightarrow> nat \<Rightarrow> bool \<Rightarrow> global_429_detector \<Rightarrow> global_429_detector" where
  "detector_record cap now is_429 d =
     (let w = gd_window d @ [(now, is_429)]
      in update_state (d\<lparr>gd_window := drop (length w - cap (length w)) w\<rparr>))"

definition is_global_backoff :: "global_429_detector \<Rightarrow> bool" where
  "is_global_backoff d \<longleftrightarrow> gd_state d = Confirmed"

section \<open>Properties\<close>

lemma consecutive_429_le: "consecutive_429 h \<le> length (uh_timestamps h)"
  unfolding consecutive_429_def by (metis length_rev length_takeWhile_le)

lemma backoff_ms_bounds: "1000 \<le> backoff_ms n \<and> backoff_ms n \<le> 32000"
proof -
  have "(2::nat) ^ (min n 10 - 5) \<le> 2 ^ 5" by (rule power_increasing) simp_all
  then show ?thesis by (simp add: backoff_ms_def)
qed

fun run_health :: "(nat \<times> nat) list \<Rightarrow> upstream_health \<Rightarrow> upstream_health" where
  "run_health [] h = h"
| "run_health ((now, status) # es) h = run_health es (health_record now status h)"

lemma health_record_fields:
  "uh_window_size (health_record now s h) = uh_window_size h"
  "uh_soft_backoff_until (health_record now s h) = uh_soft_backoff_until h"
  "length (uh_timestamps (health_record now s h)) \<le> uh_window_size h"
  by (simp_all add: health_record_def Let_def)

lemma run_health_window:
  "length (uh_timestamps h) \<le> uh_window_size h \<Longrightarrow>
     uh_window_size (run_health es h) = uh_window_size h \<and>
     length (uh_timestamps (run_health es h)) \<le> uh_window_size h"
  by (induction es h rule: run_health.induct) (simp_all add: health_record_fields)

lemma run_health_soft: "uh_soft_backoff_until (run_health es h) = uh_soft_backoff_until h"
  by (induction es h rule: run_health.induct) (simp_all add: health_record_fields)

text \<open>
  The window keeps at most the configured number of status codes, and a 429 opens a
  backoff of between 1 and 32 seconds: at every instant before its end the upstream counts as
  backed off, and none later does; a status other than 429 changes no
  deadline.
\<close>

lemma health_backoff:
  "let h0 = run_health es (UpstreamHealth_new w); h = health_record now status h0
   in length (uh_timestamps h) \<le> w \<and>
      (if status = 429 then
         \<exists>d. 1000 * 10 ^ 6 \<le> d \<and> d \<le> 32000 * 10 ^ 6 \<and>
             (\<forall>t. is_backoff t h \<longleftrightarrow> t < now + d)
       else \<forall>t. is_backoff t h = is_backoff t h0)"
proof -
  define h0 where "h0 = run_health es (UpstreamHealth_new w)"
  define h where "h = health_record now status h0"
  have w: "uh_window_size h0 = w" and soft: "uh_soft_backoff_until h0 = 0"
    using run_health_window [of "UpstreamHealth_new w" es] run_health_soft [of es "UpstreamHealth_new w"]
    by (simp_all add: h0_def UpstreamHealth_new_def)
  have "length (uh_timestamps h) \<le> w"
    using health_record_fields(3) [of now status h0] w by (simp add: h_def)
  moreover have "is_backoff t h = is_backoff t h0" if "status \<noteq> 429" for t
    using that by (simp add: h_def health_record_def Let_def is_backoff_def)
  moreover have "\<exists>d. 1000 * 10 ^ 6 \<le> d \<and> d \<le> 32000 * 10 ^ 6 \<and> (\<forall>t. is_backoff t h \<longleftrightarrow> t < now + d)"
    if "status = 429"
  proof -
    have "\<exists>n. uh_backoff_until h = now + backoff_ms n * 1000000"
      unfolding h_def health_record_def Let_def using that by simp blast
    then obtain n where n: "uh_backoff_until h = now + backoff_ms n * 1000000" by blast
    have "uh_soft_backoff_until h = 0" by (simp add: h_def health_record_fields soft)
    with n backoff_ms_bounds [of n] show ?thesis
      by (intro exI [of _ "backoff_ms n * 1000000"]) (auto simp: is_backoff_def)
  qed
  ultimately show ?thesis unfolding Let_def h0_def [symmetric] h_def [symmetric] by auto
qed

lemma window_stats_le: "snd (window_stats now h) \<le> fst (window_stats now h)"
  by (simp add: window_stats_def Let_def del: filter_filter)

text \<open>
  The reported statistics are consistent: the rate of 429s lies between 0 and 1, the
  success rate between 0 and 100, and together they account for every request of the last
  minute.
\<close>

lemma health_stats_consistent:
  "0 \<le> us_rate_429 (health_stats now h) \<and> us_rate_429 (health_stats now h) \<le> 1 \<and>
   us_success_rate (health_stats now h) = 100 * (1 - us_rate_429 (health_stats now h)) \<and>
   us_total_requests (health_stats now h) \<le> length (uh_timestamps h)"
proof -
  obtain t c where tc: "window_stats now h = (t, c)" by fastforce
  with window_stats_le [of now h] have le: "c \<le> t" by simp
  have "t \<le> length (uh_timestamps h)"
    using tc by (auto simp: window_stats_def Let_def)
  with le show ?thesis
    by (cases "t = 0") (auto simp: health_stats_def tc of_nat_diff field_simps)
qed

fun run_detector :: "(nat \<Rightarrow> nat) \<Rightarrow> (nat \<times> bool) list \<Rightarrow> global_429_detector \<Rightarrow> global_429_detector" where
  "run_detector cap [] d = d"
| "run_detector cap ((now, b) # es) d = run_detector cap es (detector_record cap now b d)"

lemma run_detector_snoc:
  "run_detector cap (es @ [(now, b)]) d = detector_record cap now b (run_detector cap es d)"
  by (induction cap es d rule: run_detector.induct) simp_all

lemma detector_record_window:
  "(\<And>n. n \<le> cap n) \<Longrightarrow> gd_window (detector_record cap now b d) = gd_window d @ [(now, b)]"
  by (simp add: detector_record_def update_state_def Let_def)

lemma run_detector_window:
  "(\<And>n. n \<le> cap n) \<Longrightarrow> gd_window (run_detector cap es d) = gd_window d @ es"
  by (induction cap es d rule: run_detector.induct) (simp_all add: detector_record_window)

text \<open>
  The window of the global 429 detector is never trimmed, whatever size it was created
  with: its bound is the capacity of the queue, which the queue raises before it is
  exceeded.  So the detector's state is decided by every answer since the start, and it
  confirms a global 429 exactly when more than 70 percent of all answers were 429s.
\<close>

lemma global_429_window_unbounded:
  assumes "\<And>n. n \<le> cap n" and "es \<noteq> []"
  shows "let d = run_detector cap es Global429Detector_new in
           gd_window d = es \<and>
           (is_global_backoff d \<longleftrightarrow> 10 * length (filter snd es) > 7 * length es)"
proof -
  from assms(2) obtain es' now b where es: "es = es' @ [(now, b)]"
    by (metis prod.collapse rev_exhaust)
  define d where "d = run_detector cap es' Global429Detector_new"
  have r: "run_detector cap es Global429Detector_new = detector_record cap now b d"
    unfolding es d_def by (rule run_detector_snoc)
  have w: "gd_window d = es'"
    using run_detector_window [OF assms(1), of es' Global429Detector_new]
    by (simp add: d_def Global429Detector_new_def)
  have "gd_window (detector_record cap now b d) = es"
    using detector_record_window [OF assms(1)] w es by simp
  moreover have "detector_record cap now b d = update_state (d\<lparr>gd_window := es\<rparr>)"
    using assms(1) w es by (simp add: detector_record_def Let_def)
  moreover have "is_global_backoff (update_state (d\<lparr>gd_window := es\<rparr>)) \<longleftrightarrow>
      10 * length (filter snd es) > 7 * length es"
  proof -
    have pos: "0 < length es" using assms(2) by simp
    have "(70 / 100 :: rat) < of_nat (length (filter snd es)) / of_nat (length es) \<longleftrightarrow>
        7 * (of_nat (length es) :: rat) < 10 * of_nat (length (filter snd es))"
      using pos by (simp add: field_simps)
    also have "\<dots> \<longleftrightarrow> (of_nat (7 * length es) :: rat) < of_nat (10 * length (filter snd es))" by simp
    also have "\<dots> \<longleftrightarrow> 7 * length es < 10 * length (filter snd es)" by (simp only: of_nat_less_iff)
    finally show ?thesis using pos
      by (simp add: is_global_backoff_def update_state_def Let_def)
  qed
  ultimately show ?thesis unfolding Let_def r by simp
qed

lemma global_429_window_unbounded_witness:
  "gd_window (run_detector (\<lambda>n. max 1 (2 * n)) [(1, True), (2, True), (3, False)] Global429Detector_new) =
     [(1, True), (2, True), (3, False)] \<and>
   \<not> is_global_backoff (run_detector (\<lambda>n. max 1 (2 * n)) [(1, True), (2, True), (3, False)] Global429Detector_new)"
proof -
  have "\<And>n::nat. n \<le> max 1 (2 * n)" by simp
  from global_429_window_unbounded [OF this, of "[(1, True), (2, True), (3, False)]"]
  show ?thesis by (simp add: Let_def)
qed

end
