(* ===== verification/SseBuffer.thy ===== *)
theory SseBuffer
  imports Json
begin

text \<open>
  \<open>zen-proxy-rs/src/sse.rs\<close>: the buffer that cuts an upstream event stream into lines and
  patches each data line, so that a reply whose text is only in \<open>reasoning_content\<close> gets
  that text as its \<open>content\<close>.
\<close>

abbreviation LF :: char where "LF \<equiv> CHR 0x0A"

abbreviation CR :: char where "CR \<equiv> CHR 0x0D"

section \<open>Patching a line\<close>

definition patch_delta :: "(string \<times> json) list \<Rightarrow> (string \<times> json) list" where
  "patch_delta d =
     (let content = Option.bind (map_of d ''content'') as_str;
          reasoning = Option.bind (map_of d ''reasoning_content'') as_str
      in case reasoning of
           None \<Rightarrow> d
         | Some rc \<Rightarrow>
             if rc \<noteq> [] \<and> (content = None \<or> content = Some [])
             then obj_insert ''content'' (JString rc) d else d)"

definition patch_choice :: "json \<Rightarrow> json" where
  "patch_choice c =
     (case c of
        JObject m \<Rightarrow>
          (let k = (if map_of m ''delta'' \<noteq> None then ''delta'' else ''message'')
           in case map_of m k of
                Some (JObject d) \<Rightarrow> JObject (AList.update k (JObject (patch_delta d)) m)
              | _ \<Rightarrow> c)
      | _ \<Rightarrow> c)"

definition patch_value :: "json \<Rightarrow> json" where
  "patch_value v =
     (case v of
        JObject m \<Rightarrow>
          (case map_of m ''choices'' of
             Some (JArray cs) \<Rightarrow> JObject (AList.update ''choices'' (JArray (map patch_choice cs)) m)
           | _ \<Rightarrow> v)
      | _ \<Rightarrow> v)"

definition patch_sse_line :: "serde \<Rightarrow> string \<Rightarrow> string" where
  "patch_sse_line S line =
     (if line = [] \<or> starts_with line '':'' then line
      else if \<not> starts_with line ''data'' then line
      else if line = ''data: [DONE]'' \<or> line = ''data:[DONE]'' then ''data: [DONE]''
      else
        let emit = (\<lambda>payload prefix.
              if payload = [] then line
              else case from_slice S payload of
                     None \<Rightarrow> line
                   | Some v \<Rightarrow> prefix @ to_string S (patch_value v))
        in if starts_with line ''data: '' then emit (drop 6 line) ''data: ''
           else if starts_with line ''data:'' then emit (drop 5 line) ''data:''
           else line)"

section \<open>The buffer\<close>

record sse_buffer =
  sb_buf :: string
  sb_done :: bool

definition SseBuffer_new :: sse_buffer where
  "SseBuffer_new = \<lparr>sb_buf = [], sb_done = False\<rparr>"

text \<open>
  The loop of \<open>push_bytes\<close>: the \<open>done\<close> flag, the line being collected and the bytes still in
  the buffer; the result is the flag and the emitted lines.
\<close>

definition emit_line :: "serde \<Rightarrow> string \<Rightarrow> string list" where
  "emit_line S line =
     (if line = [] then [[LF]]
      else let p = patch_sse_line S line in if p = [] then [] else [p @ [LF]])"

text \<open>A line feed right after a carriage return belongs to it.\<close>

definition skip_lf :: "char \<Rightarrow> string \<Rightarrow> string" where
  "skip_lf b buf =
     (case buf of [] \<Rightarrow> [] | c # rest \<Rightarrow> if b = CR \<and> c = LF then rest else buf)"

lemma length_skip_lf [termination_simp]: "length (skip_lf b buf) < Suc (length buf)"
  by (simp add: skip_lf_def split: list.split)

fun push_loop :: "serde \<Rightarrow> bool \<Rightarrow> string \<Rightarrow> string \<Rightarrow> bool \<times> string list" where
  "push_loop S d line [] = (d, [])"
| "push_loop S d line (b # buf) =
     (if b = LF \<or> b = CR then
        if d then push_loop S d [] (skip_lf b buf)
        else if line = ''data: [DONE]'' \<or> line = ''data:[DONE]'' then
          let (d, ls) = push_loop S True [] (skip_lf b buf)
          in (d, (''data: [DONE]'' @ [LF]) # ls)
        else
          let (d, ls) = push_loop S d [] (skip_lf b buf) in (d, emit_line S line @ ls)
      else push_loop S d (line @ [b]) buf)"

definition push_bytes :: "serde \<Rightarrow> string \<Rightarrow> sse_buffer \<Rightarrow> string list \<times> sse_buffer" where
  "push_bytes S chunk b =
     (let (d, lines) = push_loop S (sb_done b) [] (sb_buf b @ chunk)
      in (lines, \<lparr>sb_buf = [], sb_done = d\<rparr>))"

section \<open>Properties of the patch\<close>

definition has_content :: "(string \<times> json) list \<Rightarrow> bool" where
  "has_content d \<longleftrightarrow> (\<exists>s. map_of d ''content'' = Some (JString s) \<and> s \<noteq> [])"

lemma bind_as_str_Some: "Option.bind r as_str = Some s \<longleftrightarrow> r = Some (JString s)"
  by (cases r) (auto elim: as_str.elims)

lemma patch_delta_content:
  "map_of (patch_delta d) k =
     (if k = ''content'' \<and> \<not> has_content d \<and>
         (\<exists>rc. map_of d ''reasoning_content'' = Some (JString rc) \<and> rc \<noteq> [])
      then map_of d ''reasoning_content'' else map_of d k)"
proof (cases "Option.bind (map_of d ''reasoning_content'') as_str")
  case None
  then have "\<nexists>rc. map_of d ''reasoning_content'' = Some (JString rc)" by auto
  with None show ?thesis by (simp add: patch_delta_def)
next
  case (Some rc)
  then have r: "map_of d ''reasoning_content'' = Some (JString rc)" by (simp add: bind_as_str_Some)
  have c: "has_content d \<longleftrightarrow> \<not> (Option.bind (map_of d ''content'') as_str = None \<or>
      Option.bind (map_of d ''content'') as_str = Some [])"
    unfolding has_content_def
    by (cases "Option.bind (map_of d ''content'') as_str") (auto simp: bind_as_str_Some)
  show ?thesis using Some r by (auto simp: patch_delta_def Let_def c map_of_obj_insert)
qed

text \<open>
  Patching a choice touches its \<open>content\<close> only, and only when it has no text of its own
  but a non-empty \<open>reasoning_content\<close>, which it then receives; every other field of the
  choice and of its delta keeps its value.
\<close>

lemma patch_choice_fields:
  assumes "map_of m k = Some (JObject d)"
    and "k = (if map_of m ''delta'' \<noteq> None then ''delta'' else ''message'')"
  shows "\<exists>d' m'. patch_choice (JObject m) = JObject m' \<and> map_of m' k = Some (JObject d') \<and>
           (\<forall>j. j \<noteq> k \<longrightarrow> map_of m' j = map_of m j) \<and>
           (\<forall>j. map_of d' j =
              (if j = ''content'' \<and> \<not> has_content d \<and>
                  (\<exists>rc. map_of d ''reasoning_content'' = Some (JString rc) \<and> rc \<noteq> [])
               then map_of d ''reasoning_content'' else map_of d j))"
proof -
  have "patch_choice (JObject m) = JObject (AList.update k (JObject (patch_delta d)) m)"
    using assms(1) unfolding patch_choice_def json.case Let_def assms(2) [symmetric] by simp
  moreover have "map_of (AList.update k (JObject (patch_delta d)) m) k = Some (JObject (patch_delta d))"
    "\<forall>j. j \<noteq> k \<longrightarrow> map_of (AList.update k (JObject (patch_delta d)) m) j = map_of m j"
    by (simp_all add: hm.get_put)
  ultimately show ?thesis
    by (intro exI [of _ "patch_delta d"] exI [of _ "AList.update k (JObject (patch_delta d)) m"])
      (simp only: patch_delta_content simp_thms)
qed

definition demo_delta :: "(string \<times> json) list" where
  "demo_delta = [(''content'', JNull), (''reasoning_content'', JString ''hello'')]"

lemma patch_choice_fields_witness:
  "\<exists>d' m'. patch_choice (JObject [(''delta'', JObject demo_delta)]) = JObject m' \<and>
     map_of m' ''delta'' = Some (JObject d') \<and> map_of d' ''content'' = Some (JString ''hello'')"
proof -
  have h: "\<not> has_content demo_delta" "map_of demo_delta ''reasoning_content'' = Some (JString ''hello'')"
    by (simp_all add: has_content_def demo_delta_def)
  have "map_of [(''delta'', JObject demo_delta)] ''delta'' = Some (JObject demo_delta)"
    and "''delta'' = (if map_of [(''delta'', JObject demo_delta)] ''delta'' \<noteq> None
                    then ''delta'' else ''message'')" by simp_all
  from patch_choice_fields [OF this] obtain d' m' where
    p: "patch_choice (JObject [(''delta'', JObject demo_delta)]) = JObject m'"
      "map_of m' ''delta'' = Some (JObject d')" and
    "map_of d' ''content'' =
      (if ''content'' = ''content'' \<and> \<not> has_content demo_delta \<and>
          (\<exists>rc. map_of demo_delta ''reasoning_content'' = Some (JString rc) \<and> rc \<noteq> [])
       then map_of demo_delta ''reasoning_content'' else map_of demo_delta ''content'')"
    by blast
  with h have "map_of d' ''content'' = Some (JString ''hello'')" by simp
  with p show ?thesis by blast
qed

section \<open>Properties of the buffer\<close>

lemma push_loop_no_newline:
  "LF \<notin> set buf \<Longrightarrow> CR \<notin> set buf \<Longrightarrow> push_loop S d line buf = (d, [])"
proof (induction buf arbitrary: line)
  case (Cons c buf)
  then have "\<not> (c = LF \<or> c = CR)" by auto
  with Cons show ?case by simp
qed simp

text \<open>
  A partial line is lost.  A chunk that contains no end of line emits nothing and leaves
  the buffer empty: the bytes are gone, and the next chunk starts a new line, although the
  buffer exists to join the halves of a line that was split between two chunks.
\<close>

lemma partial_line_is_lost:
  assumes "LF \<notin> set chunk" and "CR \<notin> set chunk" and "sb_buf b = []"
  shows "push_bytes S chunk b = ([], b) \<and>
         push_bytes S rest (snd (push_bytes S chunk b)) = push_bytes S rest b"
proof -
  have "push_bytes S chunk b = ([], b)"
    using push_loop_no_newline [OF assms(1,2)] assms(3) by (simp add: push_bytes_def)
  then show ?thesis by simp
qed

lemma partial_line_is_lost_witness:
  "fst (push_bytes (\<lparr>from_slice = (\<lambda>_. None), to_string = (\<lambda>_. [])\<rparr>) (''lo'' @ [LF])
     (snd (push_bytes (\<lparr>from_slice = (\<lambda>_. None), to_string = (\<lambda>_. [])\<rparr>) '': hel'' SseBuffer_new))) =
   [''lo'' @ [LF]]"
proof -
  let ?S = "\<lparr>from_slice = (\<lambda>_. None), to_string = (\<lambda>_. [])\<rparr>"
  have "fst (push_bytes ?S (''lo'' @ [LF]) SseBuffer_new) = [''lo'' @ [LF]]"
    by (simp add: push_bytes_def SseBuffer_new_def emit_line_def patch_sse_line_def skip_lf_def)
  moreover from partial_line_is_lost [of "'': hel''" SseBuffer_new ?S "''lo'' @ [LF]"]
  have "push_bytes ?S (''lo'' @ [LF]) (snd (push_bytes ?S '': hel'' SseBuffer_new)) =
      push_bytes ?S (''lo'' @ [LF]) SseBuffer_new"
    by (simp add: SseBuffer_new_def)
  ultimately show ?thesis by simp
qed

lemma push_loop_done: "push_loop S True line buf = (True, [])"
proof (induction S True line buf rule: push_loop.induct)
  case (2 S line b buf)
  then show ?case by (cases "b = LF \<or> b = CR") auto
qed simp

lemma push_loop_append_line:
  assumes "LF \<notin> set l" "CR \<notin> set l"
  shows "push_loop S d line (l @ buf) = push_loop S d (line @ l) buf"
  using assms
proof (induction l arbitrary: line)
  case (Cons c l)
  then have "\<not> (c = LF \<or> c = CR)" by auto
  with Cons show ?case by simp
qed simp

definition text_line :: "string \<Rightarrow> bool" where
  "text_line l \<longleftrightarrow> LF \<notin> set l \<and> CR \<notin> set l \<and> l \<noteq> ''data: [DONE]'' \<and> l \<noteq> ''data:[DONE]''"

lemma push_loop_lines:
  "\<forall>l \<in> set ls. text_line l \<Longrightarrow>
     push_loop S False [] (concat (map (\<lambda>l. l @ [LF]) ls) @ buf) =
       (let (d, out) = push_loop S False [] buf in (d, concat (map (emit_line S) ls) @ out))"
proof (induction ls)
  case (Cons l ls)
  then have l: "LF \<notin> set l" "CR \<notin> set l" "l \<noteq> ''data: [DONE]''" "l \<noteq> ''data:[DONE]''"
    by (simp_all add: text_line_def)
  from Cons have IH: "push_loop S False [] (concat (map (\<lambda>l. l @ [LF]) ls) @ buf) =
       (let (d, out) = push_loop S False [] buf in (d, concat (map (emit_line S) ls) @ out))" by simp
  have "push_loop S False [] (l @ LF # concat (map (\<lambda>l. l @ [LF]) ls) @ buf) =
      push_loop S False l (LF # concat (map (\<lambda>l. l @ [LF]) ls) @ buf)"
    using push_loop_append_line [OF l(1,2), of S False "[]"] by simp
  then show ?case using l IH by (simp add: skip_lf_def split: prod.splits list.splits)
qed simp

text \<open>
  On chunks of whole lines the buffer is the line-by-line patch: it emits, in order, an
  empty line as a bare newline and every other line patched with its newline; a terminator
  is emitted once and nothing after it, in the same chunk or in a later one.
\<close>

lemma push_whole_lines:
  assumes "\<forall>l \<in> set ls. text_line l" and "term \<in> {''data: [DONE]'', ''data:[DONE]''}"
    and "sb_buf b = []" and "\<not> sb_done b"
  shows "push_bytes S (concat (map (\<lambda>l. l @ [LF]) ls)) b = (concat (map (emit_line S) ls), b) \<and>
         (let (out, b') = push_bytes S (concat (map (\<lambda>l. l @ [LF]) ls) @ term @ [LF] @ tail) b
          in out = concat (map (emit_line S) ls) @ [''data: [DONE]'' @ [LF]] \<and>
             (\<forall>chunk. fst (push_bytes S chunk b') = []))"
proof -
  have t: "LF \<notin> set term" "CR \<notin> set term" "term = ''data: [DONE]'' \<or> term = ''data:[DONE]''"
    using assms(2) by auto
  have "push_loop S False [] (term @ LF # tail) = push_loop S False term (LF # tail)"
    using push_loop_append_line [OF t(1,2), of S False "[]"] by simp
  also have "\<dots> = (True, [''data: [DONE]'' @ [LF]])"
    using t(3) push_loop_done [of S "[]"] by simp
  finally have 1: "push_loop S False [] (term @ LF # tail) = (True, [''data: [DONE]'' @ [LF]])" .
  show ?thesis
    using push_loop_lines [OF assms(1), of S "[]"] push_loop_lines [OF assms(1), of S "term @ LF # tail"]
      1 assms(3,4) push_loop_done
    by (simp add: push_bytes_def)
qed

lemma push_whole_lines_witness:
  "fst (push_bytes (\<lparr>from_slice = (\<lambda>_. None), to_string = (\<lambda>_. [])\<rparr>)
     (concat (map (\<lambda>l. l @ [LF]) ['': ping'', []])) SseBuffer_new) = ['': ping'' @ [LF], [LF]]"
proof -
  let ?S = "\<lparr>from_slice = (\<lambda>_. None), to_string = (\<lambda>_. [])\<rparr>"
  have "\<forall>l \<in> set ['': ping'', []]. text_line l" by (simp add: text_line_def)
  moreover have "concat (map (emit_line ?S) ['': ping'', []]) = ['': ping'' @ [LF], [LF]]"
    by (simp add: emit_line_def patch_sse_line_def)
  ultimately show ?thesis
    using push_whole_lines [of "['': ping'', []]" "''data: [DONE]''" SseBuffer_new ?S "[]"]
    by (simp add: SseBuffer_new_def)
qed

end
