(* ===== verification/TextLib.thy ===== *)
theory TextLib
  imports Json
begin

text \<open>
  The parts of Rust's \<open>str\<close> and of \<open>serde_json\<close> that the probing and the request-repair code
  share: lines, ASCII classes, the lower case as far as ASCII patterns see it, JSON pointers
  and object literals.
\<close>

abbreviation NL :: char where "NL \<equiv> CHR 0x0A"

definition strip_cr :: "string \<Rightarrow> string" where
  "strip_cr l = (if l \<noteq> [] \<and> last l = CHR 0x0D then butlast l else l)"

text \<open>
  \<open>str::lines\<close>: split after every line feed; the line feed and one carriage return before it
  are removed; text after the last line feed is a line when it is not empty.
\<close>

fun lines_from :: "string \<Rightarrow> string \<Rightarrow> string list" where
  "lines_from acc [] = (if acc = [] then [] else [acc])"
| "lines_from acc (c # cs) =
     (if c = NL then strip_cr acc # lines_from [] cs else lines_from (acc @ [c]) cs)"

definition str_lines :: "string \<Rightarrow> string list" where
  "str_lines s = lines_from [] s"

text \<open>
  \<open>str::to_lowercase\<close> as far as a search for an ASCII pattern can tell: the only characters
  outside ASCII whose lower case contains an ASCII character are the Kelvin sign (E2 84 AA,
  lower case k) and the capital I with a dot (C4 B0, lower case i and a combining dot).
\<close>

fun to_lowercase :: "string \<Rightarrow> string" where
  "to_lowercase (a # b # c # s) =
     (if a = CHR 0xE2 \<and> b = CHR 0x84 \<and> c = CHR 0xAA then CHR ''k'' # to_lowercase s
      else if a = CHR 0xC4 \<and> b = CHR 0xB0
        then CHR ''i'' # CHR 0xCC # CHR 0x87 # to_lowercase (c # s)
      else ascii_lower a # to_lowercase (b # c # s))"
| "to_lowercase [a, b] =
     (if a = CHR 0xC4 \<and> b = CHR 0xB0 then [CHR ''i'', CHR 0xCC, CHR 0x87]
      else [ascii_lower a, ascii_lower b])"
| "to_lowercase [a] = [ascii_lower a]"
| "to_lowercase [] = []"

text \<open>\<open>Value::pointer\<close> for reference tokens that are not array indices.\<close>

fun json_pointer :: "string list \<Rightarrow> json \<Rightarrow> json option" where
  "json_pointer [] v = Some v"
| "json_pointer (k # ks) v = Option.bind (json_get k v) (json_pointer ks)"

text \<open>The macro \<open>json!\<close> at an object.\<close>

definition json_object :: "(string \<times> json) list \<Rightarrow> json" where
  "json_object kvs = JObject (foldl (\<lambda>m (k, v). obj_insert k v m) [] kvs)"

abbreviation json_nat :: "nat \<Rightarrow> json" where
  "json_nat n \<equiv> JNumber (PosInt n)"

definition trim_end_char :: "char \<Rightarrow> string \<Rightarrow> string" where
  "trim_end_char c s = rev (dropWhile (\<lambda>x. x = c) (rev s))"

lemma trim_end_char_last: "trim_end_char c s = [] \<or> last (trim_end_char c s) \<noteq> c"
  unfolding trim_end_char_def last_rev rev_is_Nil_conv
  using hd_dropWhile [of "\<lambda>x. x = c" "rev s"] by blast

end
