(* ===== verification/ModelProbe.thy ===== *)
theory ModelProbe
  imports LifecycleTheorems TextLib
begin

text \<open>
  \<open>zen-proxy-rs/src/v4/model_probe.rs\<close>: the probe engine, which runs the probe matrix on a
  model and promotes, keeps or quarantines it, and the HTTP probe adapter, which builds each
  probe's request and classifies its response.  The HTTP transport is the parameter \<open>send\<close>
  and \<open>serde_json\<close> the parameter \<open>serde\<close>; \<open>parse\<close> is its parser with the error's text.
\<close>

section \<open>Data\<close>

definition REQUIRED_PROBE_NAMES :: "string list" where
  "REQUIRED_PROBE_NAMES =
     [''metadata'', ''openai_nonstream_minimal'', ''openai_stream_minimal'',
      ''anthropic_nonstream_minimal'', ''anthropic_stream_minimal'', ''tool_history_minimal'',
      ''claudecode_anthropic_forced_tool'', ''empty_output_guard'', ''format_guard'']"

record model_probe_config =
  pc_success_quorum :: nat
  pc_failure_quarantine_threshold :: nat
  pc_required_probe_names :: "string list"

definition default_probe_config :: model_probe_config where
  "default_probe_config =
     \<lparr>pc_success_quorum = 2, pc_failure_quarantine_threshold = 3,
      pc_required_probe_names = REQUIRED_PROBE_NAMES\<rparr>"

datatype model_probe_error =
    ModelNotFound string
  | ModelNotProbeable string discovered_model_state

record model_probe_failure =
  mf_probe_name :: "string option"
  mf_code :: string
  mf_message :: string
  mf_hard_protocol_failure :: bool

definition soft_failure :: "string \<Rightarrow> string \<Rightarrow> model_probe_failure" where
  "soft_failure code message =
     \<lparr>mf_probe_name = None, mf_code = code, mf_message = message,
      mf_hard_protocol_failure = False\<rparr>"

definition hard_protocol_failure :: "string \<Rightarrow> string \<Rightarrow> model_probe_failure" where
  "hard_protocol_failure code message =
     \<lparr>mf_probe_name = None, mf_code = code, mf_message = message,
      mf_hard_protocol_failure = True\<rparr>"

definition for_probe :: "string \<Rightarrow> model_probe_failure \<Rightarrow> model_probe_failure" where
  "for_probe name f = f\<lparr>mf_probe_name := Some name\<rparr>"

datatype model_probe_outcome = Passed | Failed model_probe_failure

type_synonym probe_adapter = "discovered_model \<Rightarrow> string \<Rightarrow> model_probe_outcome"

definition all_pass_adapter :: probe_adapter where
  "all_pass_adapter m name = Passed"

record model_probe_run_summary =
  rs_model_id :: string
  rs_attempted_probe_names :: "string list"
  rs_passed_probe_names :: "string list"
  rs_failed_probe_name :: "string option"
  rs_final_state :: discovered_model_state

section \<open>The engine\<close>

definition ensure_probeable ::
  "string \<Rightarrow> model_discovery_snapshot \<Rightarrow> model_probe_error + unit" where
  "ensure_probeable i s =
     (case ds_get i s of
        None \<Rightarrow> Inl (ModelNotFound i)
      | Some m \<Rightarrow>
          if dm_state m = Candidate \<or> dm_state m = ProbePending \<or> dm_state m = Canary
             \<or> dm_state m = Active
          then Inr () else Inl (ModelNotProbeable i (dm_state m)))"

definition ok_or_not_found ::
  "string \<Rightarrow> discovered_model option \<times> model_discovery_snapshot
     \<Rightarrow> (model_probe_error + discovered_model) \<times> model_discovery_snapshot" where
  "ok_or_not_found i r =
     (case r of (None, s) \<Rightarrow> (Inl (ModelNotFound i), s) | (Some m, s) \<Rightarrow> (Inr m, s))"

definition start_probe ::
  "nat \<Rightarrow> string \<Rightarrow> model_discovery_snapshot
     \<Rightarrow> (model_probe_error + discovered_model) \<times> model_discovery_snapshot" where
  "start_probe now i s =
     (case ensure_probeable i s of
        Inl e \<Rightarrow> (Inl e, s)
      | Inr _ \<Rightarrow> ok_or_not_found i (record_probe_start now i s))"

definition required_probes_passed :: "model_probe_config \<Rightarrow> discovered_model \<Rightarrow> bool" where
  "required_probes_passed c m \<longleftrightarrow>
     list_all (\<lambda>r. r \<in> set (dm_passed_probe_names m)) (pc_required_probe_names c)"

definition missing_required_probe_names :: "model_probe_config \<Rightarrow> discovered_model \<Rightarrow> string list" where
  "missing_required_probe_names c m =
     filter (\<lambda>r. r \<notin> set (dm_passed_probe_names m)) (pc_required_probe_names c)"

definition record_success ::
  "model_probe_config \<Rightarrow> nat \<Rightarrow> string \<Rightarrow> string \<Rightarrow> model_discovery_snapshot
     \<Rightarrow> (model_probe_error + discovered_model) \<times> model_discovery_snapshot" where
  "record_success c now i name s =
     (case ensure_probeable i s of
        Inl e \<Rightarrow> (Inl e, s)
      | Inr _ \<Rightarrow>
          (case record_probe_success now i name s of
             (None, s) \<Rightarrow> (Inl (ModelNotFound i), s)
           | (Some probed, s) \<Rightarrow>
               if \<not> published (dm_state probed)
                  \<and> dm_consecutive_probe_successes probed \<ge> pc_success_quorum c
                  \<and> required_probes_passed c probed
               then ok_or_not_found i
                 (set_model_state now i Canary
                   (''probe matrix passed: '' @ show_nat (length (pc_required_probe_names c))
                    @ '' required probes, ''
                    @ show_nat (dm_consecutive_probe_successes probed)
                    @ '' consecutive successes'') s)
               else (Inr probed, s)))"

definition record_failure ::
  "model_probe_config \<Rightarrow> nat \<Rightarrow> string \<Rightarrow> model_probe_failure \<Rightarrow> model_discovery_snapshot
     \<Rightarrow> (model_probe_error + discovered_model) \<times> model_discovery_snapshot" where
  "record_failure c now i f s =
     (case ensure_probeable i s of
        Inl e \<Rightarrow> (Inl e, s)
      | Inr _ \<Rightarrow>
          (case record_probe_failure now i (mf_code f) (mf_message f) (mf_probe_name f) s of
             (None, s) \<Rightarrow> (Inl (ModelNotFound i), s)
           | (Some probed, s) \<Rightarrow>
               if mf_hard_protocol_failure f
                  \<or> dm_consecutive_probe_failures probed \<ge> pc_failure_quarantine_threshold c
               then ok_or_not_found i
                 (set_model_state now i Quarantined
                   (''probe quarantine: code='' @ mf_code f @ '', consecutive_failures=''
                    @ show_nat (dm_consecutive_probe_failures probed)) s)
               else if dm_state probed = ProbePending
               then ok_or_not_found i
                 (set_model_state now i Candidate (''probe retry scheduled: code='' @ mf_code f) s)
               else (Inr probed, s)))"

definition AVAILABILITY_PROBE :: string where
  "AVAILABILITY_PROBE = ''openai_nonstream_minimal''"

definition availability_passed ::
  "nat \<Rightarrow> string \<Rightarrow> discovered_model_state \<Rightarrow> model_discovery_snapshot
     \<Rightarrow> (model_probe_error + model_probe_run_summary) \<times> model_discovery_snapshot" where
  "availability_passed now i original s =
     (case record_probe_success now i AVAILABILITY_PROBE s of
        (None, s) \<Rightarrow> (Inl (ModelNotFound i), s)
      | (Some _, s) \<Rightarrow>
          (case set_model_state now i original ''published model availability check passed'' s of
             (None, s) \<Rightarrow> (Inl (ModelNotFound i), s)
           | (Some m, s) \<Rightarrow>
               (let s = (if dm_claudecode_compatible m
                         then snd (mark_claudecode_compatible now i
                                ''published model passed an availability re-check'' s)
                         else s)
                in (Inr \<lparr>rs_model_id = dm_id m,
                         rs_attempted_probe_names = [AVAILABILITY_PROBE],
                         rs_passed_probe_names = [AVAILABILITY_PROBE],
                         rs_failed_probe_name = None, rs_final_state = dm_state m\<rparr>, s))))"

definition run_availability_check ::
  "model_probe_config \<Rightarrow> nat \<Rightarrow> probe_adapter \<Rightarrow> string \<Rightarrow> model_discovery_snapshot
     \<Rightarrow> (model_probe_error + model_probe_run_summary) \<times> model_discovery_snapshot" where
  "run_availability_check c now adapter i s =
     (case ds_get i s of
        None \<Rightarrow> (Inl (ModelNotFound i), s)
      | Some m \<Rightarrow>
          if \<not> published (dm_state m) then (Inl (ModelNotProbeable i (dm_state m)), s)
          else
            (case start_probe now i s of
               (Inl e, s) \<Rightarrow> (Inl e, s)
             | (Inr started, s) \<Rightarrow>
                 (case adapter started AVAILABILITY_PROBE of
                    Passed \<Rightarrow> availability_passed now i (dm_state m) s
                  | Failed f \<Rightarrow>
                      (case record_failure c now i (for_probe AVAILABILITY_PROBE f) s of
                         (Inl e, s) \<Rightarrow> (Inl e, s)
                       | (Inr m, s) \<Rightarrow>
                           (Inr \<lparr>rs_model_id = dm_id m,
                                 rs_attempted_probe_names = [AVAILABILITY_PROBE],
                                 rs_passed_probe_names = dm_passed_probe_names m,
                                 rs_failed_probe_name = Some AVAILABILITY_PROBE,
                                 rs_final_state = dm_state m\<rparr>, s)))))"

definition summary_of ::
  "discovered_model \<Rightarrow> string list \<Rightarrow> string option \<Rightarrow> model_probe_run_summary" where
  "summary_of m attempted failed =
     \<lparr>rs_model_id = dm_id m, rs_attempted_probe_names = attempted,
      rs_passed_probe_names = dm_passed_probe_names m, rs_failed_probe_name = failed,
      rs_final_state = dm_state m\<rparr>"

fun run_probes ::
  "model_probe_config \<Rightarrow> nat \<Rightarrow> probe_adapter \<Rightarrow> string \<Rightarrow> string list \<Rightarrow> string list
     \<Rightarrow> model_discovery_snapshot
     \<Rightarrow> (model_probe_error + model_probe_run_summary) \<times> model_discovery_snapshot" where
  "run_probes c now adapter i attempted [] s =
     (case ds_get i s of
        None \<Rightarrow> (Inl (ModelNotFound i), s)
      | Some m \<Rightarrow> (Inr (summary_of m attempted None), s))"
| "run_probes c now adapter i attempted (name # names) s =
     (case start_probe now i s of
        (Inl e, s) \<Rightarrow> (Inl e, s)
      | (Inr started, s) \<Rightarrow>
          (case adapter started name of
             Passed \<Rightarrow>
               (case record_success c now i name s of
                  (Inl e, s) \<Rightarrow> (Inl e, s)
                | (Inr m, s) \<Rightarrow>
                    if published (dm_state m) \<and> dm_public m
                    then (Inr (summary_of m (attempted @ [name]) None), s)
                    else run_probes c now adapter i (attempted @ [name]) names s)
           | Failed f \<Rightarrow>
               (case record_failure c now i (for_probe name f) s of
                  (Inl e, s) \<Rightarrow> (Inl e, s)
                | (Inr m, s) \<Rightarrow>
                    (Inr (summary_of m (attempted @ [name])
                       (case mf_probe_name f of None \<Rightarrow> Some name | Some n \<Rightarrow> Some n)), s))))"

definition run_required_probes ::
  "model_probe_config \<Rightarrow> nat \<Rightarrow> probe_adapter \<Rightarrow> string \<Rightarrow> model_discovery_snapshot
     \<Rightarrow> (model_probe_error + model_probe_run_summary) \<times> model_discovery_snapshot" where
  "run_required_probes c now adapter i s =
     run_probes c now adapter i [] (pc_required_probe_names c) s"

end
