(* ===== verification/ProbeAdapter.thy ===== *)
theory ProbeAdapter
  imports ModelProbe
begin

text \<open>
  The HTTP probe adapter of \<open>zen-proxy-rs/src/v4/model_probe.rs\<close>: the request of each probe,
  the classification of its response, and the adapter that combines them with a transport.
  \<open>probe_json\<close> is \<open>serde_json\<close>: its parser, with the text of an error, and its printer.
\<close>

record probe_json =
  pj_parse :: "string \<Rightarrow> string + json"
  pj_print :: "json \<Rightarrow> string"

record http_probe_config =
  hp_base_url :: string
  hp_api_key :: "string option"
  hp_timeout_secs :: nat
  hp_max_response_bytes :: nat

record probe_http_request =
  pr_method :: string
  pr_url :: string
  pr_headers :: "(string \<times> string) list"
  pr_body :: string
  pr_timeout_secs :: nat
  pr_max_response_bytes :: nat

record probe_http_response =
  pp_status :: nat
  pp_content_type :: "string option"
  pp_body :: string

section \<open>Requests\<close>

definition normalized_base_url :: "http_probe_config \<Rightarrow> model_probe_failure + string" where
  "normalized_base_url c =
     (let url = trim_end_char (CHR ''/'') (trim (hp_base_url c))
      in if url = [] then
           Inl (soft_failure ''probe_http_base_url_missing''
             ''DYNAMIC_MODEL_PROBE_BASE_URL is required for http_bounded probes'')
         else if \<not> (starts_with url ''http://'' \<or> starts_with url ''https://'') then
           Inl (soft_failure ''probe_http_base_url_invalid''
             ''DYNAMIC_MODEL_PROBE_BASE_URL must start with http:// or https://'')
         else Inr url)"

definition openai_guard_body :: "string \<Rightarrow> string \<Rightarrow> bool \<Rightarrow> json" where
  "openai_guard_body model prompt stream =
     json_object [(''model'', JString model), (''stream'', JBool stream),
       (''max_tokens'', json_nat 16), (''temperature'', json_nat 0),
       (''messages'', JArray
         [json_object [(''role'', JString ''user''), (''content'', JString prompt)]])]"

definition openai_minimal_body :: "string \<Rightarrow> bool \<Rightarrow> json" where
  "openai_minimal_body model stream =
     openai_guard_body model ''Reply with exactly: probe-ok'' stream"

definition anthropic_minimal_body :: "string \<Rightarrow> bool \<Rightarrow> json" where
  "anthropic_minimal_body model stream =
     json_object [(''model'', JString model), (''stream'', JBool stream),
       (''max_tokens'', json_nat 16), (''temperature'', json_nat 0),
       (''messages'', JArray
         [json_object [(''role'', JString ''user''),
            (''content'', JString ''Reply with exactly: probe-ok'')]])]"

definition PROBE_OK_ARGS :: string where
  "PROBE_OK_ARGS = [CHR ''{'', CHR 0x22] @ ''value'' @ [CHR 0x22, CHR '':'', CHR 0x22]
     @ ''probe-ok'' @ [CHR 0x22, CHR ''}'']"

definition openai_tool_history_body :: "string \<Rightarrow> json" where
  "openai_tool_history_body model =
     json_object [(''model'', JString model), (''stream'', JBool False),
       (''max_tokens'', json_nat 32), (''temperature'', json_nat 0),
       (''messages'', JArray
         [json_object [(''role'', JString ''user''), (''content'',
            JString ''Use the existing tool result and answer with probe-ok.'')],
          json_object [(''role'', JString ''assistant''), (''content'', JNull),
            (''tool_calls'', JArray
              [json_object [(''id'', JString ''call_probe_1''), (''type'', JString ''function''),
                 (''function'', json_object [(''name'', JString ''probe_lookup''),
                    (''arguments'', JString PROBE_OK_ARGS)])]])],
          json_object [(''role'', JString ''tool''), (''tool_call_id'', JString ''call_probe_1''),
            (''content'', JString PROBE_OK_ARGS)],
          json_object [(''role'', JString ''user''),
            (''content'', JString ''Return the tool value only.'')]]),
       (''tools'', JArray
         [json_object [(''type'', JString ''function''),
            (''function'', json_object [(''name'', JString ''probe_lookup''),
               (''description'', JString ''Returns a fixed probe value.''),
               (''parameters'', json_object [(''type'', JString ''object''),
                  (''properties'', json_object [(''value'',
                     json_object [(''type'', JString ''string'')])]),
                  (''required'', JArray [JString ''value''])])])]])]"

definition anthropic_forced_bash_tool_body :: "string \<Rightarrow> json" where
  "anthropic_forced_bash_tool_body model =
     json_object [(''model'', JString model), (''stream'', JBool False),
       (''max_tokens'', json_nat 128), (''temperature'', json_nat 0),
       (''messages'', JArray
         [json_object [(''role'', JString ''user''),
            (''content'', JString ''Use the Bash tool to run exactly: printf PROBE_TOOL_OK'')]]),
       (''tools'', JArray
         [json_object [(''name'', JString ''Bash''),
            (''description'', JString ''Run a shell command.''),
            (''input_schema'', json_object [(''type'', JString ''object''),
               (''properties'', json_object
                 [(''command'', json_object [(''type'', JString ''string'')]),
                  (''description'', json_object [(''type'', JString ''string'')])]),
               (''required'', JArray [JString ''command''])])]]),
       (''tool_choice'', json_object [(''type'', JString ''tool''), (''name'', JString ''Bash'')])]"

text \<open>The path, the headers added to the common ones and the body of a probe.\<close>

definition probe_payload ::
  "string \<Rightarrow> string \<Rightarrow> (string \<times> (string \<times> string) list \<times> json) option" where
  "probe_payload model name =
     (let openai = ''/v1/chat/completions''; anthropic = ''/v1/messages'';
          version = (''anthropic-version'', ''2023-06-01'');
          client = (''x-fmc-client'', ''claude-code'')
      in if name = ''openai_nonstream_minimal''
           then Some (openai, [], openai_minimal_body model False)
         else if name = ''openai_stream_minimal''
           then Some (openai, [], openai_minimal_body model True)
         else if name = ''anthropic_nonstream_minimal''
           then Some (anthropic, [version], anthropic_minimal_body model False)
         else if name = ''anthropic_stream_minimal''
           then Some (anthropic, [version], anthropic_minimal_body model True)
         else if name = ''tool_history_minimal''
           then Some (openai, [client], openai_tool_history_body model)
         else if name = ''claudecode_anthropic_forced_tool''
           then Some (anthropic, [version, client], anthropic_forced_bash_tool_body model)
         else if name = ''empty_output_guard''
           then Some (openai, [],
             openai_guard_body model ''Reply with exactly: probe-output-present'' False)
         else if name = ''format_guard''
           then Some (openai, [],
             openai_guard_body model
               (''Reply with valid JSON: {'' @ [CHR 0x22] @ ''ok'' @ [CHR 0x22] @ '':true}'') False)
         else None)"

definition unknown_probe :: "string \<Rightarrow> model_probe_failure" where
  "unknown_probe name = soft_failure ''probe_unknown_name'' (''unknown probe name: '' @ name)"

definition build_probe_request ::
  "probe_json \<Rightarrow> discovered_model \<Rightarrow> string \<Rightarrow> http_probe_config
     \<Rightarrow> model_probe_failure + probe_http_request option" where
  "build_probe_request J m name c =
     (if name = ''metadata'' then
        if is_free_candidate (dm_upstream_id m) \<and> is_free_candidate (dm_id m) then Inr None
        else Inl (hard_protocol_failure ''probe_metadata_rejected''
               ''model id is not a free-model candidate'')
      else
        case normalized_base_url c of
          Inl f \<Rightarrow> Inl f
        | Inr base \<Rightarrow>
            (case probe_payload (dm_upstream_id m) name of
               None \<Rightarrow> Inl (unknown_probe name)
             | Some (path, extra, body) \<Rightarrow>
                 Inr (Some
                   \<lparr>pr_method = ''POST'', pr_url = base @ path,
                    pr_headers =
                      [(''content-type'', ''application/json''),
                       (''user-agent'', ''zen-proxy-rs-model-probe/4.109''),
                       (''x-zen-model-probe'', name)]
                      @ (case hp_api_key c of
                           Some key \<Rightarrow>
                             if key \<noteq> [] then [(''authorization'', ''Bearer '' @ key), (''x-api-key'', key)]
                             else []
                         | None \<Rightarrow> [])
                      @ extra,
                    pr_body = pj_print J body,
                    pr_timeout_secs = max (hp_timeout_secs c) 1,
                    pr_max_response_bytes = max (hp_max_response_bytes c) 1024\<rparr>)))"

section \<open>Responses\<close>

definition has_non_empty_string :: "json option \<Rightarrow> bool" where
  "has_non_empty_string v =
     (case Option.bind v as_str of None \<Rightarrow> False | Some t \<Rightarrow> trim t \<noteq> [])"

definition non_empty_array :: "json option \<Rightarrow> bool" where
  "non_empty_array v =
     (case Option.bind v as_array of None \<Rightarrow> False | Some items \<Rightarrow> items \<noteq> [])"

definition any_item :: "(json \<Rightarrow> bool) \<Rightarrow> json option \<Rightarrow> bool" where
  "any_item P v =
     (case Option.bind v as_array of None \<Rightarrow> False | Some items \<Rightarrow> list_ex P items)"

definition extract_error_message :: "probe_json \<Rightarrow> string \<Rightarrow> string option" where
  "extract_error_message J body =
     (case pj_parse J body of
        Inl _ \<Rightarrow> None
      | Inr v \<Rightarrow>
          (case Option.bind (json_pointer [''error'', ''message''] v) as_str of
             Some s \<Rightarrow> Some s
           | None \<Rightarrow> get_str ''message'' v))"

definition classify_http_error :: "probe_json \<Rightarrow> probe_http_response \<Rightarrow> model_probe_failure" where
  "classify_http_error J r =
     (let message =
            unwrap_or (''probe upstream returned HTTP '' @ show_nat (pp_status r) @ '' with ''
                       @ show_nat (length (pp_body r)) @ '' bytes'')
              (extract_error_message J (pp_body r));
          has = contains_str (to_lowercase message)
      in if has ''missing field tool_call_id'' \<or> has ''missing field tool_use_id''
            \<or> has ''invalid assistant message'' \<or> has ''reasoning_content''
            \<or> has ''deserialize'' \<or> has ''failed to parse json''
         then hard_protocol_failure ''probe_hard_protocol_error'' message
         else if has ''no assistant content or tool call'' \<or> has ''empty assistant''
            \<or> has ''empty output''
         then soft_failure ''provider_empty_output'' message
         else if pp_status r = 400 \<or> pp_status r = 422
         then hard_protocol_failure ''probe_invalid_request'' message
         else soft_failure (''probe_http_status_'' @ show_nat (pp_status r)) message)"

definition openai_choice_content :: "json \<Rightarrow> bool" where
  "openai_choice_content choice =
     (let message = unwrap_or choice (json_get ''message'' choice)
      in has_non_empty_string (json_get ''content'' message)
         \<or> non_empty_array (json_get ''tool_calls'' message)
         \<or> has_non_empty_string (json_pointer [''delta'', ''content''] choice)
         \<or> non_empty_array (json_pointer [''delta'', ''tool_calls''] choice))"

definition classify_openai_json_body :: "probe_json \<Rightarrow> string \<Rightarrow> model_probe_failure + unit" where
  "classify_openai_json_body J body =
     (case pj_parse J body of
        Inl e \<Rightarrow> Inl (hard_protocol_failure ''probe_invalid_openai_json''
                    (''invalid OpenAI JSON response: '' @ e))
      | Inr v \<Rightarrow>
          if any_item openai_choice_content (json_get ''choices'' v) then Inr ()
          else Inl (soft_failure ''provider_empty_output''
                 ''OpenAI response had no assistant content or tool call''))"

definition classify_anthropic_json_body :: "probe_json \<Rightarrow> string \<Rightarrow> model_probe_failure + unit" where
  "classify_anthropic_json_body J body =
     (case pj_parse J body of
        Inl e \<Rightarrow> Inl (hard_protocol_failure ''probe_invalid_anthropic_json''
                    (''invalid Anthropic JSON response: '' @ e))
      | Inr v \<Rightarrow>
          if any_item (\<lambda>item. has_non_empty_string (json_get ''text'' item)
                            \<or> get_str ''type'' item = Some ''tool_use'') (json_get ''content'' v)
          then Inr ()
          else Inl (soft_failure ''provider_empty_output''
                 ''Anthropic response had no content block''))"

definition classify_anthropic_forced_tool_body ::
  "probe_json \<Rightarrow> string \<Rightarrow> model_probe_failure + unit" where
  "classify_anthropic_forced_tool_body J body =
     (case pj_parse J body of
        Inl e \<Rightarrow> Inl (hard_protocol_failure ''probe_invalid_anthropic_json''
                    (''invalid Anthropic JSON response: '' @ e))
      | Inr v \<Rightarrow>
          (case Option.bind (Option.bind (json_get ''content'' v) as_array)
                  (find (\<lambda>item. get_str ''type'' item = Some ''tool_use''
                               \<and> get_str ''name'' item = Some ''Bash'')) of
             None \<Rightarrow> Inl (hard_protocol_failure ''provider_missing_forced_tool_use''
                   ''Anthropic ClaudeCode forced Bash probe did not return Bash tool_use'')
           | Some tool_use \<Rightarrow>
               if has_non_empty_string (json_pointer [''input'', ''command''] tool_use) then Inr ()
               else Inl (hard_protocol_failure ''provider_incomplete_forced_tool_input''
                   ''Anthropic ClaudeCode forced Bash probe returned missing or empty command'')))"

definition stream_value_has_openai_content :: "json \<Rightarrow> bool" where
  "stream_value_has_openai_content v =
     any_item (\<lambda>choice. has_non_empty_string (json_pointer [''delta'', ''content''] choice)
                     \<or> non_empty_array (json_pointer [''delta'', ''tool_calls''] choice)
                     \<or> has_non_empty_string (json_pointer [''message'', ''content''] choice))
       (json_get ''choices'' v)"

fun openai_stream_loop ::
  "probe_json \<Rightarrow> bool \<Rightarrow> string list \<Rightarrow> model_probe_failure + unit" where
  "openai_stream_loop J saw [] =
     Inl (soft_failure ''provider_empty_output''
       (if saw then ''OpenAI stream ended without content or tool call''
        else ''OpenAI stream had no SSE data chunks''))"
| "openai_stream_loop J saw (line # ls) =
     (case strip_prefix (trim line) ''data:'' of
        None \<Rightarrow> openai_stream_loop J saw ls
      | Some data \<Rightarrow>
          if trim data = ''[DONE]'' then openai_stream_loop J saw ls
          else
            case pj_parse J (trim data) of
              Inl e \<Rightarrow> Inl (hard_protocol_failure ''probe_invalid_openai_sse''
                          (''invalid OpenAI SSE JSON chunk: '' @ e))
            | Inr v \<Rightarrow>
                if stream_value_has_openai_content v then Inr ()
                else openai_stream_loop J True ls)"

definition classify_openai_stream_body :: "probe_json \<Rightarrow> string \<Rightarrow> model_probe_failure + unit" where
  "classify_openai_stream_body J body = openai_stream_loop J False (str_lines body)"

definition anthropic_chunk_content :: "json \<Rightarrow> bool" where
  "anthropic_chunk_content v \<longleftrightarrow>
     has_non_empty_string (json_pointer [''delta'', ''text''] v)
     \<or> Option.bind (json_pointer [''content_block'', ''type''] v) as_str = Some ''tool_use''"

fun anthropic_stream_loop ::
  "probe_json \<Rightarrow> bool \<Rightarrow> string list \<Rightarrow> model_probe_failure + unit" where
  "anthropic_stream_loop J saw [] =
     Inl (soft_failure ''provider_empty_output''
       (if saw then ''Anthropic stream ended without content or tool call''
        else ''Anthropic stream had no SSE data chunks''))"
| "anthropic_stream_loop J saw (line # ls) =
     (case strip_prefix (trim line) ''data:'' of
        None \<Rightarrow> anthropic_stream_loop J saw ls
      | Some data \<Rightarrow>
          if trim data = ''[DONE]'' \<or> trim data = [] then anthropic_stream_loop J saw ls
          else
            case pj_parse J (trim data) of
              Inl e \<Rightarrow> Inl (hard_protocol_failure ''probe_invalid_anthropic_sse''
                          (''invalid Anthropic SSE JSON chunk: '' @ e))
            | Inr v \<Rightarrow>
                if anthropic_chunk_content v then Inr ()
                else anthropic_stream_loop J True ls)"

definition classify_anthropic_stream_body :: "probe_json \<Rightarrow> string \<Rightarrow> model_probe_failure + unit" where
  "classify_anthropic_stream_body J body = anthropic_stream_loop J False (str_lines body)"

definition classify_body :: "probe_json \<Rightarrow> string \<Rightarrow> string \<Rightarrow> model_probe_failure + unit" where
  "classify_body J name body =
     (if name = ''openai_stream_minimal'' then classify_openai_stream_body J body
      else if name = ''anthropic_stream_minimal'' then classify_anthropic_stream_body J body
      else if name = ''claudecode_anthropic_forced_tool''
        then classify_anthropic_forced_tool_body J body
      else if name = ''anthropic_nonstream_minimal'' then classify_anthropic_json_body J body
      else if name \<in> {''openai_nonstream_minimal'', ''tool_history_minimal'',
                      ''empty_output_guard'', ''format_guard''}
        then classify_openai_json_body J body
      else Inl (unknown_probe name))"

definition classify_probe_response ::
  "probe_json \<Rightarrow> string \<Rightarrow> probe_http_response \<Rightarrow> model_probe_outcome" where
  "classify_probe_response J name r =
     (if \<not> (200 \<le> pp_status r \<and> pp_status r < 300)
      then Failed (for_probe name (classify_http_error J r))
      else
        case classify_body J name (pp_body r) of
          Inr _ \<Rightarrow> Passed
        | Inl f \<Rightarrow> Failed (for_probe name f))"

text \<open>\<open>BoundedHttpProbeAdapter::run_probe\<close>; \<open>send\<close> is its transport.\<close>

definition http_adapter ::
  "probe_json \<Rightarrow> (probe_http_request \<Rightarrow> model_probe_failure + probe_http_response)
     \<Rightarrow> http_probe_config \<Rightarrow> probe_adapter" where
  "http_adapter J send c m name =
     (case build_probe_request J m name c of
        Inr None \<Rightarrow> Passed
      | Inr (Some request) \<Rightarrow>
          (case send request of
             Inr response \<Rightarrow> classify_probe_response J name response
           | Inl f \<Rightarrow> Failed (for_probe name f))
      | Inl f \<Rightarrow> Failed (for_probe name f))"

section \<open>The runner\<close>

text \<open>
  \<open>v4/model_probe_runner.rs\<close>.  The blocking task runs to completion; when the runtime cancels
  it the caller sees \<open>WorkerJoin\<close>, which no path of the code itself produces.
\<close>

datatype probe_adapter_mode = Disabled | HarnessAllPass | HttpBounded

datatype dynamic_model_probe_run_error =
    AdapterDisabled
  | HttpBaseUrlMissing
  | ModelError model_probe_error
  | WorkerJoin string

record probe_runner_config =
  pu_adapter_mode :: probe_adapter_mode
  pu_success_quorum :: nat
  pu_failure_quarantine_threshold :: nat
  pu_timeout_secs :: nat
  pu_base_url :: string
  pu_upstream_base :: string
  pu_api_key :: "string option"
  pu_upstream_api_key :: string
  pu_max_response_bytes :: nat

definition http_probe_earned_claudecode_profile :: "model_probe_run_summary \<Rightarrow> bool" where
  "http_probe_earned_claudecode_profile r \<longleftrightarrow>
     published (rs_final_state r) \<and>
     list_all (\<lambda>n. n \<in> set (rs_passed_probe_names r))
       [''tool_history_minimal'', ''claudecode_anthropic_forced_tool'', ''openai_stream_minimal'',
        ''format_guard'']"

definition runner_probe_config :: "probe_runner_config \<Rightarrow> model_probe_config" where
  "runner_probe_config g =
     default_probe_config\<lparr>pc_success_quorum := pu_success_quorum g,
       pc_failure_quarantine_threshold := pu_failure_quarantine_threshold g\<rparr>"

definition runner_http_config :: "probe_runner_config \<Rightarrow> http_probe_config" where
  "runner_http_config g =
     \<lparr>hp_base_url = (if trim (pu_base_url g) = [] then pu_upstream_base g else pu_base_url g),
      hp_api_key = (case pu_api_key g of None \<Rightarrow> Some (pu_upstream_api_key g) | Some k \<Rightarrow> Some k),
      hp_timeout_secs = pu_timeout_secs g,
      hp_max_response_bytes = pu_max_response_bytes g\<rparr>"

definition run_dynamic_model_probe ::
  "probe_json \<Rightarrow> (probe_http_request \<Rightarrow> model_probe_failure + probe_http_response)
     \<Rightarrow> probe_runner_config \<Rightarrow> nat \<Rightarrow> string \<Rightarrow> bool \<Rightarrow> model_discovery_snapshot
     \<Rightarrow> (dynamic_model_probe_run_error + model_probe_run_summary) \<times> model_discovery_snapshot" where
  "run_dynamic_model_probe J send g now i availability s =
     (let c = runner_probe_config g; h = runner_http_config g
      in case pu_adapter_mode g of
           Disabled \<Rightarrow> (Inl AdapterDisabled, s)
         | HarnessAllPass \<Rightarrow>
             (case run_required_probes c now all_pass_adapter i s of
                (Inl e, s) \<Rightarrow> (Inl (ModelError e), s)
              | (Inr r, s) \<Rightarrow> (Inr r, s))
         | HttpBounded \<Rightarrow>
             if trim (hp_base_url h) = [] then (Inl HttpBaseUrlMissing, s)
             else
               case (if availability then run_availability_check c now (http_adapter J send h) i s
                     else run_required_probes c now (http_adapter J send h) i s) of
                 (Inl e, s) \<Rightarrow> (Inl (ModelError e), s)
               | (Inr r, s) \<Rightarrow>
                   (let s = (if http_probe_earned_claudecode_profile r
                             then snd (mark_claudecode_compatible now i
                               ''http_bounded probe matrix passed ClaudeCode tool, stream, and format requirements'' s)
                             else s)
                    in (Inr r, s)))"

fun probe_error_http_status :: "dynamic_model_probe_run_error \<Rightarrow> nat" where
  "probe_error_http_status AdapterDisabled = 422"
| "probe_error_http_status HttpBaseUrlMissing = 422"
| "probe_error_http_status (ModelError (ModelNotFound _)) = 404"
| "probe_error_http_status (ModelError (ModelNotProbeable _ _)) = 409"
| "probe_error_http_status (WorkerJoin _) = 500"

fun state_name :: "discovered_model_state \<Rightarrow> string" where
  "state_name Candidate = ''candidate''"
| "state_name ProbePending = ''probe_pending''"
| "state_name Canary = ''canary''"
| "state_name Active = ''active''"
| "state_name Ignored = ''ignored''"
| "state_name Missing = ''missing''"
| "state_name Retired = ''retired''"
| "state_name Quarantined = ''quarantined''"

fun probe_error_message :: "dynamic_model_probe_run_error \<Rightarrow> string" where
  "probe_error_message AdapterDisabled = ''dynamic model probe adapter is disabled''"
| "probe_error_message HttpBaseUrlMissing =
     ''DYNAMIC_MODEL_PROBE_BASE_URL is required for http_bounded manual probes''"
| "probe_error_message (ModelError (ModelNotFound i)) = ''dynamic model not found: '' @ i"
| "probe_error_message (ModelError (ModelNotProbeable i st)) =
     ''dynamic model is not probeable in state '' @ state_name st @ '': '' @ i"
| "probe_error_message (WorkerJoin msg) = ''dynamic model probe worker failed: '' @ msg"

end
