(* ===== verification/ProbeTheorems.thy ===== *)
theory ProbeTheorems
  imports ProbeAdapter
begin

text \<open>
  The properties of the probe engine over well-formed registries: each engine step as a
  function of the probed model, the outcome of a whole probe matrix, what promotes a model,
  and how the stream classifiers read a response.
\<close>

section \<open>Steps of the engine\<close>

lemma update_eq:
  assumes "model_update f" "ds_wf s" "ds_get i s = Some m"
  obtains s' where "update_model i f s = (Some (f m), s')" "ds_wf s'" "ds_get i s' = Some (f m)"
proof
  note u = model_update.update_get [OF assms(1,2)]
  show "update_model i f s = (Some (f m), snd (update_model i f s))"
    using u(2) [of i] assms(3) by (cases "update_model i f s") simp
  show "ds_wf (snd (update_model i f s))" using model_update.update_wf [OF assms(1,2)] .
  show "ds_get i (snd (update_model i f s)) = Some (f m)" using u(1) [of i i] assms(3) by simp
qed

definition probeable :: "discovered_model \<Rightarrow> bool" where
  "probeable m \<longleftrightarrow> dm_state m = Candidate \<or> dm_state m = ProbePending \<or> published (dm_state m)"

lemma ensure_probeable_Inr:
  "ds_get i s = Some m \<Longrightarrow> probeable m \<Longrightarrow> ensure_probeable i s = Inr ()"
  by (simp add: ensure_probeable_def probeable_def published_def)

lemma start_probe_eq:
  assumes "ds_wf s" "ds_get i s = Some m" "probeable m"
  obtains s' where "start_probe now i s = (Inr (apply_probe_start now m), s')" "ds_wf s'"
    "ds_get i s' = Some (apply_probe_start now m)"
  using update_eq [OF probe_start.model_update_axioms assms(1,2), of now]
  by (metis (no_types, lifting) assms(2,3) ensure_probeable_Inr ok_or_not_found_def old.sum.simps(6)
      option.simps(5) record_probe_start_def split_conv start_probe_def)

definition promotes :: "model_probe_config \<Rightarrow> discovered_model \<Rightarrow> bool" where
  "promotes c m \<longleftrightarrow> \<not> published (dm_state m) \<and>
     pc_success_quorum c \<le> dm_consecutive_probe_successes m \<and> required_probes_passed c m"

lemma record_success_eq:
  assumes "ds_wf s" "ds_get i s = Some m" "probeable m"
  obtains r s' where
    "record_success c now i name s =
       (Inr (if promotes c (apply_probe_success now name m)
             then apply_state now Canary r (apply_probe_success now name m)
             else apply_probe_success now name m), s')"
    "ds_wf s'"
    "ds_get i s' = Some (if promotes c (apply_probe_success now name m)
             then apply_state now Canary r (apply_probe_success now name m)
             else apply_probe_success now name m)"
proof -
  let ?p = "apply_probe_success now name m"
  obtain s1 where s1: "record_probe_success now i name s = (Some ?p, s1)" "ds_wf s1" "ds_get i s1 = Some ?p"
    using update_eq [OF probe_success.model_update_axioms assms(1,2), of now name]
    unfolding record_probe_success_def by blast
  define r where "r = ''probe matrix passed: '' @ show_nat (length (pc_required_probe_names c))
                    @ '' required probes, '' @ show_nat (dm_consecutive_probe_successes ?p)
                    @ '' consecutive successes''"
  obtain s2 where s2: "set_model_state now i Canary r s1 = (Some (apply_state now Canary r ?p), s2)"
    "ds_wf s2" "ds_get i s2 = Some (apply_state now Canary r ?p)"
    using update_eq [OF set_state.model_update_axioms s1(2,3), of now Canary r]
    unfolding set_model_state_def by blast
  show thesis
  proof (cases "promotes c ?p")
    case True
    with s1 s2 ensure_probeable_Inr [OF assms(2,3)] show thesis
      by (intro that [of r s2])
        (simp_all add: record_success_def promotes_def ok_or_not_found_def r_def)
  next
    case False
    with s1 ensure_probeable_Inr [OF assms(2,3)] show thesis
      by (intro that [of r s1]) (auto simp: record_success_def promotes_def)
  qed
qed

definition quarantines :: "model_probe_config \<Rightarrow> model_probe_failure \<Rightarrow> discovered_model \<Rightarrow> bool" where
  "quarantines c f m \<longleftrightarrow>
     mf_hard_protocol_failure f \<or> pc_failure_quarantine_threshold c \<le> dm_consecutive_probe_failures m"

definition after_failure ::
  "model_probe_config \<Rightarrow> nat \<Rightarrow> model_probe_failure \<Rightarrow> string \<Rightarrow> discovered_model \<Rightarrow> discovered_model" where
  "after_failure c now f r p =
     (if quarantines c f p then apply_state now Quarantined r p
      else if dm_state p = ProbePending then apply_state now Candidate r p else p)"

lemma record_failure_eq:
  assumes "ds_wf s" "ds_get i s = Some m" "probeable m"
  obtains r s' where
    "record_failure c now i f s = (Inr (after_failure c now f r
       (apply_probe_failure now (mf_code f) (mf_message f) (mf_probe_name f) m)), s')"
    "ds_wf s'"
    "ds_get i s' = Some (after_failure c now f r
       (apply_probe_failure now (mf_code f) (mf_message f) (mf_probe_name f) m))"
proof -
  let ?p = "apply_probe_failure now (mf_code f) (mf_message f) (mf_probe_name f) m"
  obtain s1 where s1: "record_probe_failure now i (mf_code f) (mf_message f) (mf_probe_name f) s
      = (Some ?p, s1)" "ds_wf s1" "ds_get i s1 = Some ?p"
    using update_eq [OF probe_failure.model_update_axioms assms(1,2)]
    unfolding record_probe_failure_def by blast
  have set: "\<exists>s2. set_model_state now i st r s1 = (Some (apply_state now st r ?p), s2) \<and>
    ds_wf s2 \<and> ds_get i s2 = Some (apply_state now st r ?p)" for st r
    using update_eq [OF set_state.model_update_axioms s1(2,3), of now st r]
    unfolding set_model_state_def by blast
  define rq where "rq = ''probe quarantine: code='' @ mf_code f @ '', consecutive_failures=''
                    @ show_nat (dm_consecutive_probe_failures ?p)"
  define rc where "rc = ''probe retry scheduled: code='' @ mf_code f"
  note [simp] = record_failure_def ensure_probeable_Inr [OF assms(2,3)] ok_or_not_found_def
  consider (q) "quarantines c f ?p" | (c) "\<not> quarantines c f ?p" "dm_state ?p = ProbePending"
    | (n) "\<not> quarantines c f ?p" "dm_state ?p \<noteq> ProbePending" by blast
  then show thesis
  proof cases
    case q
    obtain s2 where "set_model_state now i Quarantined rq s1 = (Some (apply_state now Quarantined rq ?p), s2)"
      "ds_wf s2" "ds_get i s2 = Some (apply_state now Quarantined rq ?p)" using set by blast
    with q s1 show thesis
      by (intro that [of rq s2]) (simp_all add: after_failure_def quarantines_def rq_def)
  next
    case c
    obtain s2 where "set_model_state now i Candidate rc s1 = (Some (apply_state now Candidate rc ?p), s2)"
      "ds_wf s2" "ds_get i s2 = Some (apply_state now Candidate rc ?p)" using set by blast
    with c s1 show thesis
      by (intro that [of rc s2]) (simp_all add: after_failure_def quarantines_def rc_def)
  next
    case n
    with s1 show thesis
      by (intro that [of rc s1]) (simp_all add: after_failure_def quarantines_def)
  qed
qed

section \<open>Fields after a step\<close>

lemma start_fields [simp]:
  "dm_state (apply_probe_start now m) = (if dm_state m = Candidate then ProbePending else dm_state m)"
  "dm_passed_probe_names (apply_probe_start now m) = dm_passed_probe_names m"
  "dm_consecutive_probe_successes (apply_probe_start now m) = dm_consecutive_probe_successes m"
  "dm_consecutive_probe_failures (apply_probe_start now m) = dm_consecutive_probe_failures m"
  "dm_id (apply_probe_start now m) = dm_id m" "dm_upstream_id (apply_probe_start now m) = dm_upstream_id m"
  by (simp_all add: apply_probe_start_def Let_def withhold_def clear_claudecode_compatibility_def)

lemma success_fields [simp]:
  "dm_state (apply_probe_success now n m) = dm_state m"
  "set (dm_passed_probe_names (apply_probe_success now n m)) = insert n (set (dm_passed_probe_names m))"
  "dm_consecutive_probe_successes (apply_probe_success now n m)
     = sat_add 64 (dm_consecutive_probe_successes m) 1"
  "dm_consecutive_probe_failures (apply_probe_success now n m) = 0"
  "dm_id (apply_probe_success now n m) = dm_id m"
  by (auto simp: apply_probe_success_def Let_def withhold_def clear_claudecode_compatibility_def)

lemma failure_fields [simp]:
  "dm_state (apply_probe_failure now c e n m) = dm_state m"
  "dm_consecutive_probe_failures (apply_probe_failure now c e n m)
     = sat_add 64 (dm_consecutive_probe_failures m) 1"
  "dm_id (apply_probe_failure now c e n m) = dm_id m"
  by (simp_all add: apply_probe_failure_def Let_def withhold_def clear_claudecode_compatibility_def)

lemma apply_state_fields [simp]:
  "dm_state (apply_state now st r m) = st" "dm_id (apply_state now st r m) = dm_id m"
  "dm_public (apply_state now st r m) = published st"
  "dm_passed_probe_names (apply_state now st r m) = dm_passed_probe_names m"
  "dm_consecutive_probe_successes (apply_state now st r m) = dm_consecutive_probe_successes m"
  by (simp_all add: apply_state_def Let_def clear_claudecode_compatibility_def
      split: discovered_model_state.split)

lemma after_failure_fields [simp]:
  "dm_state (after_failure c now f r p) =
     (if quarantines c f p then Quarantined
      else if dm_state p = ProbePending then Candidate else dm_state p)"
  "dm_id (after_failure c now f r p) = dm_id p"
  by (simp_all add: after_failure_def)

section \<open>The probe matrix\<close>

text \<open>
  What a matrix run does to a model that has passed exactly the probes \<open>done\<close>: \<open>names\<close> are
  the probes still to run, \<open>v\<close> the verdicts.
\<close>

definition matrix_goal ::
  "model_probe_config \<Rightarrow> (string \<Rightarrow> model_probe_outcome) \<Rightarrow> string list \<Rightarrow> string list
     \<Rightarrow> model_probe_run_summary \<Rightarrow> discovered_model \<Rightarrow> bool" where
  "matrix_goal c v attempted names r m' \<longleftrightarrow>
     rs_final_state r = dm_state m' \<and>
     (let passed = takeWhile (\<lambda>n. v n = Passed) names
      in if passed = names
         then rs_attempted_probe_names r = attempted @ names \<and> dm_state m' = Canary
         else rs_attempted_probe_names r = attempted @ take (Suc (length passed)) names \<and>
              (\<exists>f. v (names ! length passed) = Failed f \<and>
                 dm_state m' = (if mf_hard_protocol_failure f \<or> pc_failure_quarantine_threshold c \<le> 1
                                then Quarantined else Candidate)))"

lemma run_probes_matrix:
  assumes "ds_wf s" "ds_get i s = Some m" "dm_state m = Candidate \<or> dm_state m = ProbePending"
    and "set (dm_passed_probe_names m) = set attempted"
    and "dm_consecutive_probe_successes m = length attempted" "dm_consecutive_probe_failures m = 0"
    and "pc_required_probe_names c = attempted @ names" "distinct (pc_required_probe_names c)"
    and "names \<noteq> []" "pc_success_quorum c \<le> length (pc_required_probe_names c)"
    and "length (pc_required_probe_names c) < 2 ^ 64" "\<And>x n. adapter x n = v n"
  shows "\<exists>r s' m'. run_probes c now adapter i attempted names s = (Inr r, s') \<and>
    ds_wf s' \<and> ds_get i s' = Some m' \<and> matrix_goal c v attempted names r m'"
  using assms(1-10)
proof (induction names arbitrary: s m attempted)
  case (Cons n names)
  obtain s1 where s1: "start_probe now i s = (Inr (apply_probe_start now m), s1)" "ds_wf s1"
      "ds_get i s1 = Some (apply_probe_start now m)"
    using start_probe_eq [OF Cons.prems(1,2)] Cons.prems(3) unfolding probeable_def by blast
  define m1 where "m1 = apply_probe_start now m"
  have m1: "dm_state m1 = ProbePending" "probeable m1" "set (dm_passed_probe_names m1) = set attempted"
    "dm_consecutive_probe_successes m1 = length attempted" "dm_consecutive_probe_failures m1 = 0"
    using Cons.prems(3-6) by (auto simp: m1_def probeable_def)
  note s1 = s1 [folded m1_def]
  show ?case
  proof (cases "v n")
    case (Failed f)
    let ?f = "for_probe n f"
    obtain r s2 where s2: "record_failure c now i ?f s1 = (Inr (after_failure c now ?f r
         (apply_probe_failure now (mf_code ?f) (mf_message ?f) (mf_probe_name ?f) m1)), s2)" "ds_wf s2"
      "ds_get i s2 = Some (after_failure c now ?f r
         (apply_probe_failure now (mf_code ?f) (mf_message ?f) (mf_probe_name ?f) m1))"
      using record_failure_eq [OF s1(2,3) m1(2)] by blast
    have "sat_add 64 0 (Suc 0) = Suc 0" by (simp add: sat_add_def)
    with s1 s2 m1 Failed assms(12) show ?thesis
      by (auto simp: matrix_goal_def summary_of_def quarantines_def for_probe_def)
  next
    case Passed
    let ?p = "apply_probe_success now n m1"
    obtain r s2 where s2: "record_success c now i n s1 = (Inr (if promotes c ?p
             then apply_state now Canary r ?p else ?p), s2)" "ds_wf s2"
      "ds_get i s2 = Some (if promotes c ?p then apply_state now Canary r ?p else ?p)"
      using record_success_eq [OF s1(2,3) m1(2)] by blast
    have len: "sat_add 64 (length attempted) 1 = Suc (length attempted)"
      using assms(11) Cons.prems(7) by (simp add: sat_add_def)
    have p: "dm_state ?p = ProbePending" "set (dm_passed_probe_names ?p) = set (attempted @ [n])"
      "dm_consecutive_probe_successes ?p = length (attempted @ [n])" "dm_consecutive_probe_failures ?p = 0"
      using m1 len by auto
    show ?thesis
    proof (cases "names = []")
      case True
      with p Cons.prems(7,10) have "promotes c ?p"
        by (auto simp: promotes_def published_def required_probes_passed_def list_all_iff)
      with s1 s2 Passed True assms(12) show ?thesis
        by (auto simp: matrix_goal_def summary_of_def published_def)
    next
      case False
      then obtain x where "x \<in> set names" by (cases names) auto
      with Cons.prems(7,8) p(2) have np: "\<not> promotes c ?p"
        by (auto simp: promotes_def required_probes_passed_def list_all_iff)
      have "\<exists>r s' m'. run_probes c now adapter i (attempted @ [n]) names s2 = (Inr r, s') \<and>
          ds_wf s' \<and> ds_get i s' = Some m' \<and> matrix_goal c v (attempted @ [n]) names r m'"
        using s2 np p Cons.prems(7-10) False by (intro Cons.IH [of s2 ?p]) auto
      then obtain r s' m' where rest: "run_probes c now adapter i (attempted @ [n]) names s2 = (Inr r, s')"
        "ds_wf s'" "ds_get i s' = Some m'" "matrix_goal c v (attempted @ [n]) names r m'" by blast
      have "run_probes c now adapter i attempted (n # names) s = (Inr r, s')"
        using s1 s2 np p(1) Passed assms(12) rest(1) by (simp add: published_def)
      moreover have "matrix_goal c v attempted (n # names) r m'"
        using rest(4) Passed
        by (cases "takeWhile (\<lambda>n. v n = Passed) names = names")
          (simp_all add: matrix_goal_def Let_def del: takeWhile_eq_all_conv)
      ultimately show ?thesis using rest(2,3) by blast
    qed
  qed
qed simp

section \<open>Promotion by any adapter\<close>

definition earned :: "model_probe_config \<Rightarrow> discovered_model \<Rightarrow> bool" where
  "earned c m \<longleftrightarrow> (published (dm_state m) \<longrightarrow>
     required_probes_passed c m \<and> pc_success_quorum c \<le> dm_consecutive_probe_successes m)"

lemma not_published_simps [simp]:
  "\<not> published ProbePending" "\<not> published Candidate" "\<not> published Quarantined" "published Canary"
  by (simp_all add: published_def)

lemma required_cong:
  "set (dm_passed_probe_names x) = set (dm_passed_probe_names y) \<Longrightarrow>
     required_probes_passed c x = required_probes_passed c y"
  by (simp add: required_probes_passed_def)

lemma run_probes_earned:
  assumes "ds_wf s" "ds_get i s = Some m" "dm_state m = Candidate \<or> dm_state m = ProbePending"
  shows "\<exists>r s' m'. run_probes c now adapter i attempted names s = (Inr r, s') \<and>
    ds_get i s' = Some m' \<and> earned c m' \<and> rs_final_state r = dm_state m'"
  using assms
proof (induction names arbitrary: s m attempted)
  case Nil
  then show ?case by (auto simp: earned_def summary_of_def)
next
  case (Cons n names)
  obtain s1 where s1: "start_probe now i s = (Inr (apply_probe_start now m), s1)" "ds_wf s1"
      "ds_get i s1 = Some (apply_probe_start now m)"
    using start_probe_eq [OF Cons.prems(1,2)] Cons.prems(3) unfolding probeable_def by blast
  define m1 where "m1 = apply_probe_start now m"
  have m1: "dm_state m1 = ProbePending" "probeable m1"
    using Cons.prems(3) by (auto simp: m1_def probeable_def)
  note s1 = s1 [folded m1_def]
  show ?case
  proof (cases "adapter m1 n")
    case (Failed f)
    let ?f = "for_probe n f"
    obtain r s2 where "record_failure c now i ?f s1 = (Inr (after_failure c now ?f r
         (apply_probe_failure now (mf_code ?f) (mf_message ?f) (mf_probe_name ?f) m1)), s2)"
      "ds_get i s2 = Some (after_failure c now ?f r
         (apply_probe_failure now (mf_code ?f) (mf_message ?f) (mf_probe_name ?f) m1))"
      using record_failure_eq [OF s1(2,3) m1(2)] by blast
    with s1 m1 Failed show ?thesis by (auto simp: summary_of_def earned_def)
  next
    case Passed
    let ?p = "apply_probe_success now n m1"
    obtain r s2 where s2: "record_success c now i n s1 = (Inr (if promotes c ?p
             then apply_state now Canary r ?p else ?p), s2)" "ds_wf s2"
      "ds_get i s2 = Some (if promotes c ?p then apply_state now Canary r ?p else ?p)"
      using record_success_eq [OF s1(2,3) m1(2)] by blast
    show ?thesis
    proof (cases "promotes c ?p")
      case True
      then have "earned c (apply_state now Canary r ?p)"
        by (auto simp: earned_def promotes_def required_probes_passed_def)
      with True s1 s2 Passed show ?thesis by (auto simp: summary_of_def)
    next
      case False
      obtain r' s' m' where "run_probes c now adapter i (attempted @ [n]) names s2 = (Inr r', s')"
        "ds_get i s' = Some m'" "earned c m'" "rs_final_state r' = dm_state m'"
        using Cons.IH [of s2 ?p "attempted @ [n]"] s2 False m1(1) by auto
      with False s1 s2 Passed m1(1) show ?thesis by auto
    qed
  qed
qed

section \<open>Stream classification\<close>

definition data_chunks :: "string list \<Rightarrow> string list" where
  "data_chunks ls =
     filter (\<lambda>d. d \<noteq> ''[DONE]'')
       (concat (map (\<lambda>l. case strip_prefix (trim l) ''data:'' of None \<Rightarrow> [] | Some d \<Rightarrow> [trim d]) ls))"

definition first_content ::
  "probe_json \<Rightarrow> (json \<Rightarrow> bool) \<Rightarrow> string list \<Rightarrow> bool" where
  "first_content J P cs \<longleftrightarrow>
     (\<exists>pre c post v. cs = pre @ c # post \<and> (\<forall>x \<in> set pre. \<exists>w. pj_parse J x = Inr w) \<and>
        pj_parse J c = Inr v \<and> P v)"

lemma first_content_Nil [simp]: "\<not> first_content J P []"
  by (simp add: first_content_def)

lemma first_content_Cons [simp]:
  "first_content J P (c # cs) \<longleftrightarrow> (\<exists>v. pj_parse J c = Inr v \<and> (P v \<or> first_content J P cs))"
  (is "?l \<longleftrightarrow> ?r")
proof
  assume ?l
  then obtain pre x post v where *: "c # cs = pre @ x # post" "\<forall>y \<in> set pre. \<exists>w. pj_parse J y = Inr w"
    "pj_parse J x = Inr v" "P v" by (auto simp: first_content_def)
  then show ?r by (cases pre) (auto simp: first_content_def)
next
  assume ?r
  then obtain v where v: "pj_parse J c = Inr v" "P v \<or> first_content J P cs" by blast
  from v(2) show ?l
  proof
    assume "P v"
    with v(1) show ?l unfolding first_content_def by (intro exI [of _ "[]"] exI [of _ c] exI [of _ cs]) auto
  next
    assume "first_content J P cs"
    then obtain pre x post w where "cs = pre @ x # post" "\<forall>y \<in> set pre. \<exists>w. pj_parse J y = Inr w"
      "pj_parse J x = Inr w" "P w" by (auto simp: first_content_def)
    with v(1) show ?l
      unfolding first_content_def by (intro exI [of _ "c # pre"] exI [of _ x] exI [of _ post]) auto
  qed
qed

lemma openai_loop_iff:
  "openai_stream_loop J saw ls = Inr () \<longleftrightarrow>
     first_content J stream_value_has_openai_content (data_chunks ls)"
  by (induction J saw ls rule: openai_stream_loop.induct)
    (auto simp: data_chunks_def split: option.split sum.split)

lemma anthropic_loop_iff:
  "anthropic_stream_loop J saw ls = Inr () \<longleftrightarrow>
     first_content J anthropic_chunk_content (filter (\<lambda>d. d \<noteq> []) (data_chunks ls))"
  by (induction J saw ls rule: anthropic_stream_loop.induct)
    (auto simp: data_chunks_def split: option.split sum.split)

section \<open>Properties\<close>

text \<open>
  C35: The probe matrix decides, when the configured quorum is at most the number of required
  probes: run on a candidate that has passed nothing yet and has no probe streak, it runs the
  required probes (distinct names, at least one) in order up to the first failure.  If none fails
  the model becomes a canary; otherwise a hard protocol failure quarantines it (as does a soft one
  under a threshold of one) and a soft failure makes it a candidate again.  Under a larger quorum
  a model that passes every probe stays pending.
\<close>

theorem probe_matrix_decides:
  assumes "disc_reach decode s" and "ds_get i s = Some m" and "dm_state m = Candidate"
    and "dm_passed_probe_names m = []" and "dm_consecutive_probe_successes m = 0"
    and "dm_consecutive_probe_failures m = 0"
    and "distinct (pc_required_probe_names c)" and "pc_required_probe_names c \<noteq> []"
    and "pc_success_quorum c \<le> length (pc_required_probe_names c)"
    and "length (pc_required_probe_names c) < 2 ^ 64"
    and "\<And>x n. adapter x n = v n"
  shows "\<exists>r s' m'. run_required_probes c now adapter i s = (Inr r, s') \<and> ds_get i s' = Some m' \<and>
    rs_final_state r = dm_state m' \<and>
    (let required = pc_required_probe_names c; passed = takeWhile (\<lambda>n. v n = Passed) required
     in if passed = required
        then rs_attempted_probe_names r = required \<and> dm_state m' = Canary
        else rs_attempted_probe_names r = take (Suc (length passed)) required \<and>
             (\<exists>f. v (required ! length passed) = Failed f \<and>
                dm_state m' = (if mf_hard_protocol_failure f \<or> pc_failure_quarantine_threshold c \<le> 1
                               then Quarantined else Candidate)))"
proof -
  have "\<exists>r s' m'. run_probes c now adapter i [] (pc_required_probe_names c) s = (Inr r, s') \<and>
    ds_wf s' \<and> ds_get i s' = Some m' \<and> matrix_goal c v [] (pc_required_probe_names c) r m'"
    using disc_reach_wf [OF assms(1)] assms(2-11) by (intro run_probes_matrix [of s i m]) simp_all
  then show ?thesis
    unfolding run_required_probes_def matrix_goal_def append_Nil Let_def by blast
qed

definition demo_verdict :: "string \<Rightarrow> model_probe_outcome" where
  "demo_verdict n = (if n = ''format_guard'' then Failed (soft_failure ''c'' ''m'') else Passed)"

lemma demo_probe_fields:
  "dm_passed_probe_names (see_model 5 ''x-free'' None) = []"
  "dm_consecutive_probe_successes (see_model 5 ''x-free'' None) = 0"
  "dm_consecutive_probe_failures (see_model 5 ''x-free'' None) = 0"
  "dm_upstream_id (see_model 5 ''x-free'' None) = ''x-free''"
  by (simp_all add: see_model_def classify_model_def is_reserved_static_upstream_def
      is_free_candidate_def ends_with_def DiscoveredModel_new_def merge_seen_model_state_def
      sync_lifecycle_flags_def published_def clear_claudecode_compatibility_def)

lemma probe_matrix_decides_witness:
  "\<exists>r s'. run_required_probes default_probe_config 9 (\<lambda>_. demo_verdict) ''x-free'' demo_registry = (Inr r, s') \<and>
     rs_final_state r = Candidate \<and> rs_attempted_probe_names r = REQUIRED_PROBE_NAMES"
proof -
  have p: "takeWhile (\<lambda>n. demo_verdict n = Passed) REQUIRED_PROBE_NAMES = take 8 REQUIRED_PROBE_NAMES"
    by (simp add: REQUIRED_PROBE_NAMES_def demo_verdict_def)
  have "distinct REQUIRED_PROBE_NAMES" "length REQUIRED_PROBE_NAMES = 9"
    by (simp_all add: REQUIRED_PROBE_NAMES_def)
  with probe_matrix_decides [OF demo_reach demo_get, of default_probe_config "\<lambda>_. demo_verdict" demo_verdict 9] p
  show ?thesis
    by (auto simp: demo_model_fields demo_probe_fields default_probe_config_def Let_def
        REQUIRED_PROBE_NAMES_def demo_verdict_def soft_failure_def)
qed

text \<open>
  Whatever the adapter answers, a matrix run on a candidate returns without an error and
  leaves the model public only if it has passed every required probe and the quorum of
  consecutive successes.
\<close>

lemma probe_promotion_is_earned:
  assumes "disc_reach decode s" and "ds_get i s = Some m" and "dm_state m = Candidate"
  shows "\<exists>r s' m'. run_required_probes c now adapter i s = (Inr r, s') \<and> ds_get i s' = Some m' \<and>
    rs_final_state r = dm_state m' \<and>
    (published (dm_state m') \<longrightarrow> set (pc_required_probe_names c) \<subseteq> set (dm_passed_probe_names m') \<and>
       pc_success_quorum c \<le> dm_consecutive_probe_successes m')"
  using run_probes_earned [OF disc_reach_wf [OF assms(1)] assms(2), of c now adapter "[]"
      "pc_required_probe_names c"] assms(3)
  unfolding run_required_probes_def earned_def required_probes_passed_def list_all_iff by blast

lemma probe_promotion_is_earned_witness:
  "\<exists>r s'. run_required_probes default_probe_config 9 (\<lambda>_ _. Passed) ''x-free'' demo_registry = (Inr r, s')"
  using probe_promotion_is_earned [OF demo_reach demo_get demo_model_fields(2),
      of default_probe_config 9 "\<lambda>_ _. Passed"] by (elim exE conjE) (intro exI)

definition demo_probe_json :: probe_json where
  "demo_probe_json = \<lparr>pj_parse = (\<lambda>_. Inl ''expected value''), pj_print = (\<lambda>_. ''{}'')\<rparr>"

definition demo_http :: http_probe_config where
  "demo_http = \<lparr>hp_base_url = ''https://up'', hp_api_key = None, hp_timeout_secs = 5, hp_max_response_bytes = 100\<rparr>"

text \<open>
  A rolled-back model comes back without a single request: when an operator returns a
  published model that passed its matrix to candidate, the next matrix run of the HTTP
  adapter promotes it after the metadata probe, whatever the transport would answer.
\<close>

lemma rollback_repromoted_without_request:
  assumes "disc_reach decode s" and "ds_get i s = Some m" and "published (dm_state m)"
    and "required_probes_passed c m" and "pc_required_probe_names c = ''metadata'' # names"
    and "pc_success_quorum c \<le> dm_consecutive_probe_successes m"
    and "dm_consecutive_probe_successes m < 2 ^ 64"
    and "is_free_candidate i" and "is_free_candidate (dm_upstream_id m)"
  shows "\<exists>r s' m'. run_required_probes c now (http_adapter J send h) i
      (disc_exec decode t (SetState i Candidate reason) s) = (Inr r, s') \<and>
    rs_attempted_probe_names r = [''metadata''] \<and> ds_get i s' = Some m' \<and> dm_state m' = Canary \<and> dm_public m'"
proof -
  define m0 where "m0 = apply_state t Candidate reason m"
  have wf: "ds_wf s" using disc_reach_wf [OF assms(1)] .
  have id: "dm_id m = i" using ds_get_Some [OF assms(2)] by simp
  obtain s0 where u: "update_model i (apply_state t Candidate reason) s = (Some m0, s0)"
    and s0': "ds_wf s0" "ds_get i s0 = Some m0"
    using update_eq [OF set_state.model_update_axioms wf assms(2), of t Candidate reason]
    unfolding m0_def by blast
  then have s0: "disc_exec decode t (SetState i Candidate reason) s = s0" "ds_wf s0" "ds_get i s0 = Some m0"
    by (simp_all add: set_model_state_def)
  have m0: "dm_state m0 = Candidate" "probeable m0" "dm_id m0 = i" "dm_upstream_id m0 = dm_upstream_id m"
    by (auto simp: m0_def probeable_def id)
      (simp add: apply_state_def Let_def clear_claudecode_compatibility_def)
  define m1 where "m1 = apply_probe_start now m0"
  obtain s1 where s1: "start_probe now i s0 = (Inr m1, s1)" "ds_wf s1" "ds_get i s1 = Some m1"
    using start_probe_eq [OF s0(2,3) m0(2)] unfolding m1_def by blast
  have m1: "dm_state m1 = ProbePending" "probeable m1"
    "set (dm_passed_probe_names m1) = set (dm_passed_probe_names m)"
    "dm_consecutive_probe_successes m1 = dm_consecutive_probe_successes m"
    using m0 by (auto simp: m1_def m0_def probeable_def)
  have pass: "http_adapter J send h m1 ''metadata'' = Passed"
    using m0 assms(8,9) by (simp add: http_adapter_def build_probe_request_def m1_def)
  let ?p = "apply_probe_success now ''metadata'' m1"
  obtain r s2 where s2: "record_success c now i ''metadata'' s1 = (Inr (if promotes c ?p
           then apply_state now Canary r ?p else ?p), s2)"
    "ds_get i s2 = Some (if promotes c ?p then apply_state now Canary r ?p else ?p)"
    using record_success_eq [OF s1(2,3) m1(2)] by blast
  have "dm_consecutive_probe_successes m \<le> sat_add 64 (dm_consecutive_probe_successes m) 1"
    using assms(7) by (intro sat_add_ge) simp
  then have "promotes c ?p"
    using m1 assms(4,6) by (auto simp: promotes_def required_probes_passed_def list_all_iff)
  with s1 s2 pass show ?thesis
    unfolding run_required_probes_def assms(5) s0(1) by (auto simp: summary_of_def)
qed

definition small_probe_config :: model_probe_config where
  "small_probe_config = \<lparr>pc_success_quorum = 2, pc_failure_quarantine_threshold = 3,
     pc_required_probe_names = [''metadata'', ''format_guard'']\<rparr>"

definition demo_probed :: model_discovery_snapshot where
  "demo_probed = disc_exec demo_decode 8 (SetState ''x-free'' Canary ''ok'')
     (disc_exec demo_decode 7 (ProbeSuccess ''x-free'' ''format_guard'')
       (disc_exec demo_decode 6 (ProbeSuccess ''x-free'' ''metadata'') demo_registry))"

definition demo_probed_model :: discovered_model where
  "demo_probed_model = apply_state 8 Canary ''ok'' (apply_probe_success 7 ''format_guard''
     (apply_probe_success 6 ''metadata'' (see_model 5 ''x-free'' None)))"

lemma probe_success_get:
  "ds_wf s \<Longrightarrow> ds_get i (disc_exec decode now (ProbeSuccess i n) s)
     = map_option (apply_probe_success now n) (ds_get i s)"
  by (simp add: record_probe_success_def probe_success.update_get)

lemma set_state_get:
  "ds_wf s \<Longrightarrow> ds_get i (disc_exec decode now (SetState i st r) s)
     = map_option (apply_state now st r) (ds_get i s)"
  by (simp add: set_model_state_def set_state.update_get)

lemma demo_probed_reach: "disc_reach demo_decode demo_probed"
  unfolding demo_probed_def by (intro disc_reach_step demo_reach)

lemma demo_probed_get: "ds_get ''x-free'' demo_probed = Some demo_probed_model"
  unfolding demo_probed_def demo_probed_model_def
  by (simp only: set_state_get probe_success_get disc_exec_wf demo_wf demo_get option.map)

lemma demo_probed_fields:
  "published (dm_state demo_probed_model)" "required_probes_passed small_probe_config demo_probed_model"
  "dm_consecutive_probe_successes demo_probed_model = 2" "dm_upstream_id demo_probed_model = ''x-free''"
proof -
  show "published (dm_state demo_probed_model)" by (simp add: demo_probed_model_def)
  show "required_probes_passed small_probe_config demo_probed_model"
    by (simp add: demo_probed_model_def required_probes_passed_def small_probe_config_def)
  show "dm_consecutive_probe_successes demo_probed_model = 2"
    by (simp add: demo_probed_model_def demo_probe_fields sat_add_def)
  show "dm_upstream_id demo_probed_model = ''x-free''"
    by (simp add: demo_probed_model_def apply_state_def apply_probe_success_def Let_def withhold_def
        clear_claudecode_compatibility_def demo_probe_fields)
qed

lemma rollback_repromoted_without_request_witness:
  "\<exists>r s'. run_required_probes small_probe_config 10
      (http_adapter demo_probe_json (\<lambda>_. Inl (soft_failure ''down'' ''unreachable'')) demo_http) ''x-free''
      (disc_exec demo_decode 9 (SetState ''x-free'' Candidate ''rollback'') demo_probed) = (Inr r, s') \<and>
    rs_attempted_probe_names r = [''metadata'']"
proof -
  have f: "is_free_candidate ''x-free''" by code_simp
  from rollback_repromoted_without_request [OF demo_probed_reach demo_probed_get demo_probed_fields(1,2),
      of "[''format_guard'']" 10 demo_probe_json "\<lambda>_. Inl (soft_failure ''down'' ''unreachable'')" demo_http 9 "''rollback''"]
    f demo_probed_fields
  show ?thesis by (auto simp: small_probe_config_def)
qed

text \<open>
  An availability check of a published model runs one probe.  If it passes, the model
  keeps its state and stays public; if it fails, a hard protocol failure, or a soft one that
  reaches the threshold of consecutive failures, quarantines the model, and any other
  failure leaves its state and publication as they were.
\<close>

lemma availability_check_outcome:
  assumes "disc_reach decode s" and "ds_get i s = Some m" and "published (dm_state m)"
  shows "\<exists>r s' m'. run_availability_check c now adapter i s = (Inr r, s') \<and> ds_get i s' = Some m' \<and>
    rs_final_state r = dm_state m' \<and> rs_attempted_probe_names r = [AVAILABILITY_PROBE] \<and>
    (case adapter (apply_probe_start now m) AVAILABILITY_PROBE of
       Passed \<Rightarrow> dm_state m' = dm_state m \<and> dm_public m'
     | Failed f \<Rightarrow>
         dm_state m' =
           (if mf_hard_protocol_failure f
               \<or> pc_failure_quarantine_threshold c \<le> sat_add 64 (dm_consecutive_probe_failures m) 1
            then Quarantined else dm_state m) \<and>
         dm_public m' = published (dm_state m'))"
proof -
  have wf: "ds_wf s" using disc_reach_wf [OF assms(1)] .
  have pb: "probeable m" using assms(3) by (simp add: probeable_def)
  define m1 where "m1 = apply_probe_start now m"
  obtain s1 where s1: "start_probe now i s = (Inr m1, s1)" "ds_wf s1" "ds_get i s1 = Some m1"
    using start_probe_eq [OF wf assms(2) pb] unfolding m1_def by blast
  have m1: "dm_state m1 = dm_state m" "probeable m1"
    "dm_consecutive_probe_failures m1 = dm_consecutive_probe_failures m"
    using assms(3) by (auto simp: m1_def probeable_def published_def)
  show ?thesis
  proof (cases "adapter m1 AVAILABILITY_PROBE")
    case (Failed f)
    let ?f = "for_probe AVAILABILITY_PROBE f"
    let ?p = "apply_probe_failure now (mf_code ?f) (mf_message ?f) (mf_probe_name ?f) m1"
    obtain r s2 where s2: "record_failure c now i ?f s1 = (Inr (after_failure c now ?f r ?p), s2)"
      "ds_wf s2" "ds_get i s2 = Some (after_failure c now ?f r ?p)"
      using record_failure_eq [OF s1(2,3) m1(2)] by blast
    have pub: "dm_public (after_failure c now ?f r ?p) = published (dm_state (after_failure c now ?f r ?p))"
      using ds_get_Some [OF s2(3)] s2(2) by (simp only: ds_wf_def model_wf_def)
    have st: "dm_state m \<noteq> ProbePending" using assms(3) by (auto simp: published_def)
    have "run_availability_check c now adapter i s = (Inr \<lparr>rs_model_id = dm_id (after_failure c now ?f r ?p),
        rs_attempted_probe_names = [AVAILABILITY_PROBE],
        rs_passed_probe_names = dm_passed_probe_names (after_failure c now ?f r ?p),
        rs_failed_probe_name = Some AVAILABILITY_PROBE,
        rs_final_state = dm_state (after_failure c now ?f r ?p)\<rparr>, s2)"
      using assms(2,3) s1 s2(1) Failed by (simp add: run_availability_check_def)
    then show ?thesis
      using s2(3) pub st m1 Failed [unfolded m1_def]
      by (auto simp: quarantines_def for_probe_def)
  next
    case Passed
    obtain s2 where s2: "record_probe_success now i AVAILABILITY_PROBE s1
        = (Some (apply_probe_success now AVAILABILITY_PROBE m1), s2)" "ds_wf s2"
      "ds_get i s2 = Some (apply_probe_success now AVAILABILITY_PROBE m1)"
      using update_eq [OF probe_success.model_update_axioms s1(2,3), of now AVAILABILITY_PROBE]
      unfolding record_probe_success_def by blast
    let ?r = "''published model availability check passed''"
    define m3 where "m3 = apply_state now (dm_state m) ?r (apply_probe_success now AVAILABILITY_PROBE m1)"
    obtain s3 where s3: "set_model_state now i (dm_state m) ?r s2 = (Some m3, s3)" "ds_wf s3"
      "ds_get i s3 = Some m3"
      using update_eq [OF set_state.model_update_axioms s2(2,3), of now "dm_state m" ?r]
      unfolding set_model_state_def m3_def by blast
    have m3: "dm_state m3 = dm_state m" "dm_public m3" using assms(3) by (simp_all add: m3_def)
    define s4 where "s4 = (if dm_claudecode_compatible m3 then snd (mark_claudecode_compatible now i
                                ''published model passed an availability re-check'' s3) else s3)"
    have "\<exists>m4. ds_get i s4 = Some m4 \<and> dm_state m4 = dm_state m \<and> dm_public m4"
      using s3 m3 mark.update_get(1) [OF s3(2), of i i]
      by (auto simp: s4_def mark_is_update apply_mark_def)
    then obtain m4 where m4: "ds_get i s4 = Some m4" "dm_state m4 = dm_state m" "dm_public m4" by blast
    have "run_availability_check c now adapter i s = (Inr \<lparr>rs_model_id = dm_id m3,
        rs_attempted_probe_names = [AVAILABILITY_PROBE], rs_passed_probe_names = [AVAILABILITY_PROBE],
        rs_failed_probe_name = None, rs_final_state = dm_state m3\<rparr>, s4)"
      using assms(2,3) s1 s2(1) s3(1) Passed
      by (simp add: run_availability_check_def availability_passed_def s4_def)
    with m4 m3 Passed [unfolded m1_def] show ?thesis by auto
  qed
qed

lemma availability_check_outcome_witness:
  "\<exists>r s'. run_availability_check small_probe_config 9
       (\<lambda>_ _. Failed (hard_protocol_failure ''c'' ''m'')) ''x-free'' demo_probed = (Inr r, s')
     \<and> rs_final_state r = Quarantined"
  using availability_check_outcome [OF demo_probed_reach demo_probed_get demo_probed_fields(1),
      of small_probe_config 9 "\<lambda>_ _. Failed (hard_protocol_failure ''c'' ''m'')"]
  by (auto simp: hard_protocol_failure_def)

text \<open>
  A stream probe passes exactly when some data chunk of the response carries content or a
  tool call and every chunk before it is valid JSON.  The two formats differ in what a chunk
  is: the OpenAI classifier also counts empty data lines, which are not valid JSON, so one
  such line before the content is a hard protocol failure there.
\<close>

lemma stream_probe_passes_iff:
  "(classify_openai_stream_body J body = Inr () \<longleftrightarrow>
      first_content J stream_value_has_openai_content (data_chunks (str_lines body))) \<and>
   (classify_anthropic_stream_body J body = Inr () \<longleftrightarrow>
      first_content J anthropic_chunk_content
        (filter (\<lambda>d. d \<noteq> []) (data_chunks (str_lines body))))"
  by (simp add: classify_openai_stream_body_def classify_anthropic_stream_body_def
      openai_loop_iff anthropic_loop_iff)

end
