(* ===== verification/StrSearch.thy ===== *)
theory StrSearch
  imports TextLib "HOL-Library.Sublist"
begin

text \<open>
  Searching and slicing of \<open>str\<close> for the stream guards and repairs of the client: first and
  last occurrences, character boundaries and the shape of UTF-8, the number of characters,
  and a value that tells a panic of the code from its result.
\<close>

text \<open>\<open>str::find\<close>: the position of the first occurrence.\<close>

fun str_find :: "string \<Rightarrow> string \<Rightarrow> nat option" where
  "str_find [] p = (if p = [] then Some 0 else None)"
| "str_find (c # s) p =
     (if starts_with (c # s) p then Some 0 else map_option Suc (str_find s p))"

text \<open>\<open>str::rfind\<close>: the position of the last occurrence.\<close>

fun str_rfind :: "string \<Rightarrow> string \<Rightarrow> nat option" where
  "str_rfind [] p = (if p = [] then Some 0 else None)"
| "str_rfind (c # s) p =
     (case str_rfind s p of
        Some n \<Rightarrow> Some (Suc n)
      | None \<Rightarrow> if starts_with (c # s) p then Some 0 else None)"

text \<open>\<open>str::is_char_boundary\<close>: the end, or a byte that does not continue a character.\<close>

definition is_char_boundary :: "string \<Rightarrow> nat \<Rightarrow> bool" where
  "is_char_boundary s i \<longleftrightarrow>
     i = length s \<or> (i < length s \<and> \<not> (128 \<le> byte_of (s ! i) \<and> byte_of (s ! i) < 192))"

text \<open>A byte that continues a character of more than one byte.\<close>

definition is_cont :: "char \<Rightarrow> bool" where
  "is_cont c \<longleftrightarrow> 128 \<le> byte_of c \<and> byte_of c < 192"

text \<open>\<open>s.chars().count()\<close>.\<close>

definition char_count :: "string \<Rightarrow> nat" where
  "char_count s = length (filter (\<lambda>c. \<not> is_cont c) s)"

text \<open>
  The shape every \<open>String\<close> of Rust has: characters of one to four bytes, as the first byte
  says.
\<close>

fun utf8_from :: "nat \<Rightarrow> string \<Rightarrow> bool" where
  "utf8_from n [] = (n = 0)"
| "utf8_from 0 (a # s) =
     (if byte_of a < 128 then utf8_from 0 s
      else if byte_of a < 192 then False
      else if byte_of a < 224 then utf8_from 1 s
      else if byte_of a < 240 then utf8_from 2 s
      else utf8_from 3 s)"
| "utf8_from (Suc n) (a # s) = (is_cont a \<and> utf8_from n s)"

abbreviation utf8_ok :: "string \<Rightarrow> bool" where
  "utf8_ok \<equiv> utf8_from 0"

text \<open>The result of code that may panic.\<close>

datatype 'a outcome = Panic | Done 'a

lemma starts_with_prefix: "starts_with s p \<longleftrightarrow> prefix p s"
  by (auto simp: starts_with_iff prefix_def)

lemma contains_str_sublist: "contains_str s p \<longleftrightarrow> sublist p s"
  by (induction s) (auto simp: starts_with_prefix sublist_Cons_right)

lemma str_rfind_Some: "str_rfind s p = Some n \<Longrightarrow> n \<le> length s \<and> starts_with (drop n s) p"
  by (induction s arbitrary: n) (auto split: option.splits if_splits)

lemma suffix_drop_iff: "suffix p s \<longleftrightarrow> length p \<le> length s \<and> drop (length s - length p) s = p"
  by (auto simp: suffix_def) (metis append_take_drop_id)

lemma find_SomeD: "find P xs = Some x \<Longrightarrow> x \<in> set xs \<and> P x"
  by (auto simp: find_Some_iff)

lemma str_find_Some:
  "str_find s p = Some n \<Longrightarrow> n + length p \<le> length s \<and> starts_with (drop n s) p"
proof (induction s arbitrary: n)
  case (Cons a s)
  show ?case
  proof (cases "starts_with (a # s) p")
    case True
    then have "length p \<le> length (a # s)" by (metis starts_with_iff length_append le_add1)
    with True Cons.prems show ?thesis by simp
  qed (use Cons in auto)
qed (auto split: if_splits)

lemma str_find_split: "str_find s p = Some n \<Longrightarrow> s = take n s @ p @ drop (n + length p) s"
  using str_find_Some [of s p n]
  by (auto simp: starts_with_iff)  (metis add.commute append_eq_conv_conj append_take_drop_id drop_drop)

lemma str_find_None_iff: "str_find s p = None \<longleftrightarrow> \<not> sublist p s"
  by (induction s) (auto simp: starts_with_prefix sublist_Cons_right)

lemma utf8_ok_not_cont: "utf8_ok (c # s) \<Longrightarrow> \<not> is_cont c"
  by (auto simp: is_cont_def split: if_splits)

text \<open>Behind an ASCII character a new character begins.\<close>

lemma utf8_from_after_ascii: "utf8_from n (a @ c # b) \<Longrightarrow> byte_of c < 128 \<Longrightarrow> utf8_ok b"
proof (induction a arbitrary: n)
  case Nil
  then show ?case by (cases n) (auto simp: is_cont_def)
next
  case (Cons x a)
  then show ?case by (cases n) (auto split: if_splits)
qed

definition is_ascii_alphanumeric :: "char \<Rightarrow> bool" where
  "is_ascii_alphanumeric c \<longleftrightarrow>
     48 \<le> byte_of c \<and> byte_of c \<le> 57 \<or> 65 \<le> byte_of c \<and> byte_of c \<le> 90
     \<or> 97 \<le> byte_of c \<and> byte_of c \<le> 122"

section \<open>Decimal numbers\<close>

lemma show_nat_digits: "list_all is_ascii_alphanumeric (show_nat n) \<and> show_nat n \<noteq> []"
proof (induction n rule: show_nat.induct)
  case (1 n)
  have "is_ascii_alphanumeric (char_of (48 + d))" if "d < 10" for d :: nat
    using that by (simp add: is_ascii_alphanumeric_def)
  moreover have "n mod 10 < 10" by simp
  ultimately show ?case using 1 by (subst (1 2) show_nat.simps) auto
qed

lemma show_nat_length: "n < 10 ^ Suc k \<Longrightarrow> length (show_nat n) \<le> Suc k"
proof (induction k arbitrary: n)
  case 0
  then show ?case by (simp add: show_nat.simps [of n])
next
  case (Suc k)
  have "n div 10 < 10 ^ Suc k" using Suc.prems by (simp add: less_mult_imp_div_less)
  from Suc.IH [OF this] show ?case by (subst show_nat.simps) simp
qed

lemma show_nat_inj: "show_nat a = show_nat b \<Longrightarrow> a = b"
proof (induction a arbitrary: b rule: show_nat.induct)
  case (1 a)
  have digit: "d = e" if "char_of (48 + d) = (char_of (48 + e) :: char)" "d < 10" "e < 10" for d e :: nat
  proof -
    have "of_char (char_of (48 + d) :: char) = (of_char (char_of (48 + e) :: char) :: nat)"
      using that(1) by simp
    then show ?thesis using that(2,3) by simp
  qed
  show ?case
  proof (cases "a < 10 \<or> b < 10")
    case True
    have "length (show_nat a) = length (show_nat b)" using 1(2) by simp
    moreover have "show_nat (b div 10) \<noteq> []" "show_nat (a div 10) \<noteq> []"
      using show_nat_digits by blast+
    ultimately have "a < 10 \<and> b < 10"
      using True by (auto simp: show_nat.simps [of a] show_nat.simps [of b] split: if_splits)
    with 1(2) digit [of a b] show ?thesis by (simp add: show_nat.simps [of a] show_nat.simps [of b])
  next
    case False
    then have "show_nat (a div 10) = show_nat (b div 10)"
      "(char_of (48 + a mod 10) :: char) = char_of (48 + b mod 10)"
      using 1(2) by (simp_all add: show_nat.simps [of a] show_nat.simps [of b])
    with 1(1) [of "b div 10"] False digit [of "a mod 10" "b mod 10"] show ?thesis
      by (metis div_mult_mod_eq mod_less_divisor zero_less_numeral not_less)
  qed
qed

lemma no_underscore_in_digits: "CHR ''_'' \<notin> set (show_nat n)"
  using show_nat_digits [of n] by (auto simp: list_all_iff is_ascii_alphanumeric_def)

text \<open>A decimal number ends at the first character that is no digit.\<close>

lemma show_nat_delimited:
  assumes "show_nat a @ CHR ''_'' # x = show_nat b @ CHR ''_'' # y"
  shows "a = b \<and> x = y"
proof -
  have t: "takeWhile (\<lambda>c. c \<noteq> CHR ''_'') (show_nat n @ CHR ''_'' # z) = show_nat n" for n z
    using no_underscore_in_digits [of n] by (subst takeWhile_append2) auto
  have "show_nat a = show_nat b" using t [of a x] t [of b y] assms by simp
  with assms show ?thesis using show_nat_inj by auto
qed

section \<open>Trimming\<close>

lemma length_trim_start: "length (trim_start s) \<le> length s"
proof -
  have "length (drop_ws f s) \<le> length s" for f s
  proof (induction f s rule: drop_ws.induct)
    case (1 f s)
    then show ?case by (subst drop_ws.simps) (fastforce simp: Let_def)
  qed
  then show ?thesis by (simp add: trim_start_def)
qed

lemma trim_start_no_ws: "ws_len (map of_char (take 3 s)) = 0 \<Longrightarrow> trim_start s = s"
  by (simp add: trim_start_def drop_ws.simps [of _ s])

lemma ws_len_take [simp]: "ws_len (map of_char (take 3 s)) = ws_len (map of_char s)"
  by (cases "map of_char s :: nat list" rule: ws_len.cases)
    (auto simp: map_eq_Cons_conv take_Cons' split: if_splits)

lemma ws_len_append: "0 < ws_len xs \<Longrightarrow> 0 < ws_len (xs @ ys)"
  by (cases xs rule: ws_len.cases; cases ys rule: ws_len.cases) (auto split: if_splits)

lemma ws_len_of_rev:
  assumes "ws_len_rev (map of_char (take 3 r)) = length r" and "r \<noteq> []"
  shows "0 < ws_len (map of_char (rev r))"
proof -
  have "ws_len_rev (map of_char (take 3 r)) \<le> 3"
    by (cases "map of_char (take 3 r) :: nat list" rule: ws_len_rev.cases) auto
  moreover have "0 < length r" using assms(2) by simp
  ultimately have "length r = 1 \<or> length r = 2 \<or> length r = 3" unfolding assms(1) by linarith
  then consider a where "r = [a]" | a b where "r = [a, b]" | a b c where "r = [a, b, c]"
    by (auto simp: length_Suc_conv numeral_2_eq_2 numeral_3_eq_3)
  then show ?thesis using assms(1) by cases (auto split: if_splits)
qed

lemma drop_ws_rev_Nil:
  "drop_ws ws_len_rev r = [] \<Longrightarrow> r \<noteq> [] \<Longrightarrow> 0 < ws_len (map of_char (rev r))"
proof (induction r rule: length_induct)
  case (1 r)
  define n where "n = ws_len_rev (map of_char (take 3 r))"
  have n: "n \<noteq> 0" "drop_ws ws_len_rev (drop n r) = []" "n \<le> length r"
    using 1(2,3) ws_len_rev_le [of "map of_char (take 3 r)"]
    by (auto simp: n_def drop_ws.simps [of _ r] Let_def split: if_splits)
  show ?case
  proof (cases "drop n r = []")
    case True
    with n(3) have "n = length r" by simp
    with 1(3) show ?thesis by (intro ws_len_of_rev) (simp_all add: n_def)
  next
    case False
    moreover have "length (drop n r) < length r" using n(1) 1(3) by (cases r) auto
    ultimately have "0 < ws_len (map of_char (rev (drop n r)))" using 1(1) n(2) by blast
    moreover have "rev r = rev (drop n r) @ rev (take n r)" by (simp flip: rev_append)
    ultimately show ?thesis by (metis map_append ws_len_append)
  qed
qed

lemma trim_no_ws: "ws_len (map of_char s) = 0 \<Longrightarrow> s \<noteq> [] \<Longrightarrow> trim s \<noteq> []"
  using drop_ws_rev_Nil [of "rev s"] by (auto simp: trim_def trim_end_def trim_start_no_ws)

lemma trim_unchanged:
  assumes "ws_len (map of_char s) = 0" and "ws_len_rev (map of_char (take 3 (rev s))) = 0"
  shows "trim s = s"
  using assms by (simp add: trim_def trim_end_def trim_start_no_ws drop_ws.simps [of _ "rev s"])

end
