(* ===== verification/RequestRepair.thy ===== *)
theory RequestRepair
  imports StrSearch "HOL-Library.AList"
begin

text \<open>
  \<open>zen-proxy-rs/src/v4/request_repair.rs\<close>: tools of an Anthropic request that have neither a
  name nor a function get a synthesised, sanitised and unique name.  Strings are their UTF-8
  bytes; a character outside ASCII is a run of bytes that are no name characters, so the
  loops over characters and over bytes agree.
\<close>

section \<open>Names\<close>

fun sanitize_loop :: "bool \<Rightarrow> string \<Rightarrow> string \<Rightarrow> string" where
  "sanitize_loop pending out [] = out"
| "sanitize_loop pending out (c # cs) =
     (if is_ascii_alphanumeric c \<or> c = CHR ''-''
      then sanitize_loop False (out @ (if pending then [CHR ''_''] else []) @ [c]) cs
      else sanitize_loop True out cs)"

definition trim_marks :: "string \<Rightarrow> string" where
  "trim_marks s =
     (let mark = (\<lambda>c. c = CHR ''_'' \<or> c = CHR ''-'')
      in rev (dropWhile mark (rev (dropWhile mark s))))"

definition sanitize_to_name :: "string \<Rightarrow> string option" where
  "sanitize_to_name raw =
     (let trimmed = trim_marks (sanitize_loop False [] raw)
      in if trimmed = [] then None
         else let result = take 64 trimmed in if result = [] then None else Some result)"

definition is_ascii_whitespace :: "char \<Rightarrow> bool" where
  "is_ascii_whitespace c \<longleftrightarrow> byte_of c \<in> {32, 9, 10, 12, 13}"

fun first_atx_heading :: "string list \<Rightarrow> string option" where
  "first_atx_heading [] = None"
| "first_atx_heading (line # ls) =
     (let stripped = trim_start line;
          hash_count = length (takeWhile (\<lambda>c. c = CHR ''#'') stripped);
          after = drop hash_count stripped;
          text = trim after
      in if hash_count = 0 \<or> hash_count > 6 then first_atx_heading ls
         else if after = [] \<or> \<not> is_ascii_whitespace (hd after) then first_atx_heading ls
         else if text \<noteq> [] then Some text
         else first_atx_heading ls)"

text \<open>The rules of a name, in order; each falls through when it yields no name.\<close>

definition heading_name :: "string \<Rightarrow> string option" where
  "heading_name description =
     Option.bind (first_atx_heading (str_lines description)) sanitize_to_name"

definition title_name :: "json option \<Rightarrow> string option" where
  "title_name input_schema =
     (case Option.bind input_schema (get_str ''title'') of
        Some title \<Rightarrow> if title \<noteq> [] then sanitize_to_name title else None
      | None \<Rightarrow> None)"

definition line_name :: "string \<Rightarrow> string option" where
  "line_name description =
     Option.bind (find (\<lambda>s. s \<noteq> []) (map trim (str_lines description))) sanitize_to_name"

definition derive_tool_name :: "string \<Rightarrow> json option \<Rightarrow> nat \<Rightarrow> string" where
  "derive_tool_name description input_schema index =
     (case heading_name description of
        Some n \<Rightarrow> n
      | None \<Rightarrow>
          (case title_name input_schema of
             Some n \<Rightarrow> n
           | None \<Rightarrow>
               (case line_name description of
                  Some n \<Rightarrow> n
                | None \<Rightarrow> ''tool_'' @ show_nat index)))"

section \<open>Uniqueness\<close>

definition unique_candidate :: "string \<Rightarrow> nat \<Rightarrow> string" where
  "unique_candidate base n =
     (let suffix = ''_'' @ show_nat n in take (64 - length suffix) base @ suffix)"

text \<open>
  The loop \<open>for n in 2u32..\<close>.  The fuel is one more than the number of used names;
  \<open>make_unique_total\<close> shows that it is enough.
\<close>

fun unique_from :: "nat \<Rightarrow> nat \<Rightarrow> string \<Rightarrow> string list \<Rightarrow> string option" where
  "unique_from 0 n base used = None"
| "unique_from (Suc fuel) n base used =
     (let candidate = unique_candidate base n
      in if candidate \<notin> set used then Some candidate
         else unique_from fuel (n + 1) base used)"

definition make_unique :: "string \<Rightarrow> string list \<Rightarrow> string option" where
  "make_unique base used =
     (if base \<notin> set used then Some base else unique_from (length used + 1) 2 base used)"

section \<open>The repair\<close>

record repair_report =
  rr_repaired_tool_names :: "(nat \<times> string) list"
  rr_missing_messages :: bool
  rr_top_level_keys :: "string list"

definition default_report :: repair_report where
  "default_report =
     \<lparr>rr_repaired_tool_names = [], rr_missing_messages = False, rr_top_level_keys = []\<rparr>"

definition is_noop :: "repair_report \<Rightarrow> bool" where
  "is_noop r \<longleftrightarrow> rr_repaired_tool_names r = [] \<and> \<not> rr_missing_messages r"

definition show_bool :: "bool \<Rightarrow> string" where
  "show_bool b = (if b then ''true'' else ''false'')"

definition report_summary :: "repair_report \<Rightarrow> string option" where
  "report_summary r =
     (if is_noop r then None
      else
        let pairs = join_with '','' (map (\<lambda>(i, n). show_nat i @ '':'' @ n) (rr_repaired_tool_names r));
            keys = join_with '','' (rr_top_level_keys r)
        in Some (''repaired_tool_names='' @ show_nat (length (rr_repaired_tool_names r)) @ ''[''
                 @ pairs @ ''] missing_messages='' @ show_bool (rr_missing_messages r)
                 @ '' keys=['' @ keys @ '']''))"

definition existing_names :: "json list \<Rightarrow> string list" where
  "existing_names tools =
     concat (map (\<lambda>t. case get_str ''name'' t of
                        Some s \<Rightarrow> if s \<noteq> [] then [s] else []
                      | None \<Rightarrow> []) tools)"

definition has_name :: "(string \<times> json) list \<Rightarrow> bool" where
  "has_name tool =
     (case Option.bind (map_of tool ''name'') as_str of None \<Rightarrow> False | Some s \<Rightarrow> s \<noteq> [])"

definition needs_name :: "(string \<times> json) list \<Rightarrow> bool" where
  "needs_name tool \<longleftrightarrow> \<not> (has_name tool \<or> map_of tool ''function'' \<noteq> None)"

text \<open>
  The second pass over the tools, with the index of the next tool and the used names.  The
  last case of \<open>make_unique\<close> is the code's \<open>unreachable!\<close>; \<open>make_unique_total\<close> excludes it.
\<close>

fun repair_tools ::
  "nat \<Rightarrow> string list \<Rightarrow> json list \<Rightarrow> json list \<times> (nat \<times> string) list" where
  "repair_tools idx used [] = ([], [])"
| "repair_tools idx used (JObject tool # tools) =
     (if \<not> needs_name tool then
        let (ts, rs) = repair_tools (idx + 1) used tools in (JObject tool # ts, rs)
      else
        let description = unwrap_or [] (Option.bind (map_of tool ''description'') as_str);
            base = derive_tool_name description (map_of tool ''input_schema'') idx
        in case make_unique base used of
             None \<Rightarrow> (JObject tool # tools, [])
           | Some name \<Rightarrow>
               (let (ts, rs) = repair_tools (idx + 1) (name # used) tools
                in (JObject (obj_insert ''name'' (JString name) tool) # ts, (idx, name) # rs)))"
| "repair_tools idx used (t # tools) =
     (let (ts, rs) = repair_tools (idx + 1) used tools in (t # ts, rs))"

definition missing_messages :: "(string \<times> json) list \<Rightarrow> bool" where
  "missing_messages m =
     (case map_of m ''messages'' of
        None \<Rightarrow> True
      | Some JNull \<Rightarrow> True
      | Some v \<Rightarrow> as_array v = None)"

fun repair_anthropic_request :: "json \<Rightarrow> json \<times> repair_report" where
  "repair_anthropic_request (JObject m) =
     (let keys = sort (map fst m);
          (m', repaired) =
            (case map_of m ''tools'' of
               Some (JArray tools) \<Rightarrow>
                 (let (ts, rs) = repair_tools 0 (existing_names tools) tools
                  in (AList.update ''tools'' (JArray ts) m, rs))
             | _ \<Rightarrow> (m, []))
      in (JObject m', \<lparr>rr_repaired_tool_names = repaired, rr_missing_messages = missing_messages m,
                     rr_top_level_keys = keys\<rparr>))"
| "repair_anthropic_request v = (v, default_report)"

section \<open>Lemmas\<close>

definition name_char :: "char \<Rightarrow> bool" where
  "name_char c \<longleftrightarrow> is_ascii_alphanumeric c \<or> c = CHR ''-'' \<or> c = CHR ''_''"

definition valid_name :: "string \<Rightarrow> bool" where
  "valid_name n \<longleftrightarrow> n \<noteq> [] \<and> length n \<le> 64 \<and> list_all name_char n"

lemma sanitize_loop_chars:
  "list_all name_char out \<Longrightarrow> list_all name_char (sanitize_loop p out raw)"
  by (induction p out raw rule: sanitize_loop.induct) (auto simp: name_char_def)

lemma set_trim_marks: "set (trim_marks s) \<subseteq> set s"
  by (auto simp: trim_marks_def Let_def dest!: set_dropWhileD)

lemma sanitize_valid: "sanitize_to_name raw = Some n \<Longrightarrow> valid_name n"
proof -
  assume n: "sanitize_to_name raw = Some n"
  have "list_all name_char (sanitize_loop False [] raw)" by (rule sanitize_loop_chars) simp
  then have "list_all name_char (trim_marks (sanitize_loop False [] raw))"
    using set_trim_marks [of "sanitize_loop False [] raw"] by (auto simp: list_all_iff)
  with n show "valid_name n"
    by (auto simp: sanitize_to_name_def Let_def valid_name_def list_all_iff split: if_splits
        dest: in_set_takeD)
qed

lemma unique_candidate_inj: "unique_candidate base a = unique_candidate base b \<Longrightarrow> a = b"
proof -
  have suffix: "rev (takeWhile (\<lambda>c. c \<noteq> CHR ''_'') (rev (unique_candidate base n))) = show_nat n" for n
  proof -
    have "takeWhile (\<lambda>c. c \<noteq> CHR ''_'') (rev (show_nat n) @ CHR ''_'' # xs) = rev (show_nat n)" for xs
      using no_underscore_in_digits [of n] by (subst takeWhile_append2) auto
    then show ?thesis by (simp add: unique_candidate_def Let_def)
  qed
  assume "unique_candidate base a = unique_candidate base b"
  then show "a = b" using suffix [of a] suffix [of b] by (intro show_nat_inj) simp
qed

lemma unique_from_None:
  "unique_from fuel n base used = None \<Longrightarrow> unique_candidate base ` {n..<n + fuel} \<subseteq> set used"
proof (induction fuel n base used rule: unique_from.induct)
  case (2 fuel n base used)
  then have "unique_candidate base n \<in> set used"
    "unique_candidate base ` {n + 1..<n + 1 + fuel} \<subseteq> set used"
    by (auto simp: Let_def split: if_splits)
  moreover have "{n..<n + Suc fuel} = insert n {n + 1..<n + 1 + fuel}" by auto
  ultimately show ?case by simp
qed simp

lemma unique_from_Some:
  "unique_from fuel n base used = Some c \<Longrightarrow> c \<notin> set used \<and> (\<exists>k. k < n + fuel \<and> c = unique_candidate base k)"
proof (induction fuel n base used rule: unique_from.induct)
  case (2 fuel n base used)
  show ?case
  proof (cases "unique_candidate base n \<in> set used")
    case True
    with "2.prems" have "unique_from fuel (n + 1) base used = Some c" by (simp add: Let_def)
    from "2.IH" [OF refl _ this] True show ?thesis by auto
  next
    case False
    with "2.prems" show ?thesis by (auto simp: Let_def intro: exI [of _ n])
  qed
qed simp

lemma unique_candidate_valid:
  assumes "list_all name_char base" "k < 10 ^ 60"
  shows "valid_name (unique_candidate base k)"
proof -
  have l: "length (show_nat k) \<le> 60" using show_nat_length [of k 59] assms(2) by simp
  have c: "list_all name_char (show_nat k)"
    using show_nat_digits [of k] by (auto simp: list_all_iff name_char_def)
  show ?thesis
    using l c assms(1)
    by (auto simp: unique_candidate_def Let_def valid_name_def list_all_iff name_char_def
        dest: in_set_takeD)
qed

lemma make_unique_total:
  assumes "valid_name base" "length used < 10 ^ 59"
  obtains n where "make_unique base used = Some n" "n \<notin> set used" "valid_name n"
proof (cases "base \<in> set used")
  case False
  with assms(1) that show thesis by (simp add: make_unique_def)
next
  case True
  have "unique_from (length used + 1) 2 base used \<noteq> None"
  proof
    assume "unique_from (length used + 1) 2 base used = None"
    then have "unique_candidate base ` {2..<2 + (length used + 1)} \<subseteq> set used" by (rule unique_from_None)
    then have "card (unique_candidate base ` {2..<2 + (length used + 1)}) \<le> card (set used)"
      by (intro card_mono) simp_all
    moreover have "card (unique_candidate base ` {2..<2 + (length used + 1)}) = length used + 1"
      by (subst card_image) (auto intro: inj_onI unique_candidate_inj)
    ultimately show False using card_length [of used] by simp
  qed
  then obtain c where c: "unique_from (length used + 1) 2 base used = Some c" by blast
  from unique_from_Some [OF c] obtain k where k: "c \<notin> set used" "k < length used + 3" "c = unique_candidate base k"
    by auto
  have "valid_name c"
    unfolding k(3) using assms k(2) by (intro unique_candidate_valid) (simp_all add: valid_name_def)
  with that c k(1) True show thesis by (simp add: make_unique_def)
qed

lemma derive_valid: "index < 10 ^ 20 \<Longrightarrow> valid_name (derive_tool_name d schema index)"
proof -
  assume i: "index < 10 ^ 20"
  have "length (show_nat index) \<le> 20" using show_nat_length [of index 19] i by simp
  moreover have "list_all name_char (show_nat index)"
    using show_nat_digits [of index] by (auto simp: list_all_iff name_char_def)
  ultimately have "valid_name (''tool_'' @ show_nat index)"
    by (simp add: valid_name_def name_char_def is_ascii_alphanumeric_def)
  then show ?thesis
    by (auto simp: derive_tool_name_def heading_name_def title_name_def line_name_def
        bind_eq_Some_conv sanitize_valid split: option.splits if_splits)
qed

text \<open>
  The result of the second pass: every tool that needs a name gets a valid one, the others
  stay, and the assigned names differ from each other and from the used ones.
\<close>

definition repaired_tool :: "string set \<Rightarrow> json \<Rightarrow> json \<Rightarrow> bool" where
  "repaired_tool N t t' =
     (case t of
        JObject tool \<Rightarrow>
          if needs_name tool
          then \<exists>n \<in> N. t' = JObject (obj_insert ''name'' (JString n) tool)
          else t' = t
      | _ \<Rightarrow> t' = t)"

lemma repaired_tool_object:
  "repaired_tool N (JObject tool) t' \<longleftrightarrow>
     (if needs_name tool then \<exists>n \<in> N. t' = JObject (obj_insert ''name'' (JString n) tool)
      else t' = JObject tool)"
  by (simp add: repaired_tool_def)

lemma repaired_tool_other:
  "as_object t = None \<Longrightarrow> repaired_tool N t t' \<longleftrightarrow> t' = t"
  by (cases t) (simp_all add: repaired_tool_def)

lemma repaired_tool_mono: "repaired_tool N t t' \<Longrightarrow> N \<subseteq> M \<Longrightarrow> repaired_tool M t t'"
  by (auto simp: repaired_tool_def split: json.splits if_splits)

lemma repair_tools_spec:
  assumes "repair_tools idx used tools = (ts, rs)"
    and "idx + length tools < 10 ^ 20" "length used + length tools < 10 ^ 59"
  shows "list_all2 (repaired_tool (snd ` set rs)) tools ts \<and>
         (\<forall>n \<in> snd ` set rs. valid_name n) \<and> distinct (map snd rs) \<and> snd ` set rs \<inter> set used = {}"
  using assms
proof (induction idx used tools arbitrary: ts rs rule: repair_tools.induct)
  case (2 idx used tool tools)
  show ?case
  proof (cases "needs_name tool")
    case False
    obtain ts' rs' where r: "repair_tools (idx + 1) used tools = (ts', rs')" by fastforce
    with "2.prems"(1) False have eq: "ts = JObject tool # ts'" "rs = rs'" by simp_all
    have "idx + 1 + length tools < 10 ^ 20" "length used + length tools < 10 ^ 59"
      using "2.prems"(2,3) by simp_all
    from "2.IH"(1) [OF _ r this] False eq show ?thesis by (simp add: repaired_tool_object)
  next
    case True
    define base where "base = derive_tool_name
      (unwrap_or [] (Option.bind (map_of tool ''description'') as_str)) (map_of tool ''input_schema'') idx"
    have "valid_name base" unfolding base_def using "2.prems"(2) by (intro derive_valid) simp
    then obtain n where n: "make_unique base used = Some n" "n \<notin> set used" "valid_name n"
      using "2.prems"(3) make_unique_total [of base used] by auto
    obtain ts' rs' where r: "repair_tools (idx + 1) (n # used) tools = (ts', rs')" by fastforce
    with "2.prems"(1) True n(1) have eq: "ts = JObject (obj_insert ''name'' (JString n) tool) # ts'"
      "rs = (idx, n) # rs'" by (simp_all add: base_def)
    have b: "idx + 1 + length tools < 10 ^ 20" "length (n # used) + length tools < 10 ^ 59"
      using "2.prems"(2,3) by simp_all
    note IH = "2.IH"(2) [OF _ refl refl n(1) [unfolded base_def] r b]
    have ih: "list_all2 (repaired_tool (snd ` set rs')) tools ts' \<and>
         (\<forall>n \<in> snd ` set rs'. valid_name n) \<and> distinct (map snd rs') \<and> snd ` set rs' \<inter> set (n # used) = {}"
      using IH True by simp
    then have "list_all2 (repaired_tool (snd ` set rs)) tools ts'"
      by (elim conjE, elim list_all2_mono) (auto simp: eq(2) intro: repaired_tool_mono)
    with ih n True show ?thesis by (auto simp: eq repaired_tool_object)
  qed
qed (auto simp: repaired_tool_other split: prod.splits)

text \<open>A tool that needs a name, and what it looks like once it has one.\<close>

definition nameless :: "json \<Rightarrow> bool" where
  "nameless t \<longleftrightarrow> (case t of JObject tool \<Rightarrow> needs_name tool | _ \<Rightarrow> False)"

definition give_name :: "string \<Rightarrow> json \<Rightarrow> json" where
  "give_name n t = (case t of JObject tool \<Rightarrow> JObject (obj_insert ''name'' (JString n) tool) | _ \<Rightarrow> t)"

definition named_by :: "(nat \<times> string) list \<Rightarrow> nat \<times> json \<Rightarrow> json" where
  "named_by names p = (case map_of names (fst p) of Some n \<Rightarrow> give_name n (snd p) | None \<Rightarrow> snd p)"

lemma named_by_later:
  assumes "\<forall>k \<in> fst ` set rs. Suc idx \<le> k"
  shows "named_by rs (idx, t) = t"
    and "map (named_by ((idx, n) # rs)) (enumerate (Suc idx) tools) = map (named_by rs) (enumerate (Suc idx) tools)"
proof -
  have "map_of rs idx = None" using assms by (force simp: map_of_eq_None_iff)
  then show "named_by rs (idx, t) = t" by (simp add: named_by_def)
  show "map (named_by ((idx, n) # rs)) (enumerate (Suc idx) tools) = map (named_by rs) (enumerate (Suc idx) tools)"
    by (rule map_cong [OF refl]) (auto simp: named_by_def in_set_enumerate_eq)
qed

lemma repair_tools_exact:
  assumes "repair_tools idx used tools = (ts, rs)"
    and "idx + length tools < 10 ^ 20" "length used + length tools < 10 ^ 59"
  shows "map fst rs = map fst (filter (\<lambda>p. nameless (snd p)) (enumerate idx tools))
    \<and> ts = map (named_by rs) (enumerate idx tools)"
  using assms
proof (induction tools arbitrary: idx used ts rs)
  case (Cons t tools)
  have later: "\<forall>k \<in> fst ` set rs'. Suc idx \<le> k"
    if "map fst rs' = map fst (filter (\<lambda>p. nameless (snd p)) (enumerate (Suc idx) tools))" for rs' :: "(nat \<times> string) list"
  proof -
    from that have "fst ` set rs' = fst ` set (filter (\<lambda>p. nameless (snd p)) (enumerate (Suc idx) tools))"
      by (metis list.set_map)
    then show ?thesis by (auto simp: in_set_enumerate_eq)
  qed
  show ?case
  proof (cases "nameless t")
    case False
    obtain ts' rs' where r: "repair_tools (Suc idx) used tools = (ts', rs')" by fastforce
    have eq: "ts = t # ts'" "rs = rs'"
      using Cons.prems(1) False r by (cases t; simp add: nameless_def)+
    have "map fst rs' = map fst (filter (\<lambda>p. nameless (snd p)) (enumerate (Suc idx) tools))
        \<and> ts' = map (named_by rs') (enumerate (Suc idx) tools)"
      by (rule Cons.IH [OF r]) (use Cons.prems(2,3) in simp_all)
    with False eq named_by_later(1) [OF later] show ?thesis by simp
  next
    case True
    then obtain tool where t: "t = JObject tool" "needs_name tool"
      by (cases t) (auto simp: nameless_def)
    define base where "base = derive_tool_name
      (unwrap_or [] (Option.bind (map_of tool ''description'') as_str)) (map_of tool ''input_schema'') idx"
    have "valid_name base" unfolding base_def using Cons.prems(2) by (intro derive_valid) simp
    then obtain n where n: "make_unique base used = Some n"
      using Cons.prems(3) make_unique_total [of base used] by auto
    obtain ts' rs' where r: "repair_tools (Suc idx) (n # used) tools = (ts', rs')" by fastforce
    with Cons.prems(1) t n have eq: "ts = give_name n t # ts'" "rs = (idx, n) # rs'"
      by (simp_all add: base_def give_name_def)
    have ih: "map fst rs' = map fst (filter (\<lambda>p. nameless (snd p)) (enumerate (Suc idx) tools))
        \<and> ts' = map (named_by rs') (enumerate (Suc idx) tools)"
      by (rule Cons.IH [OF r]) (use Cons.prems(2,3) in simp_all)
    with True eq named_by_later(2) [OF later, of rs' n tools] show ?thesis
      by (simp add: named_by_def [of _ "(idx, t)"])
  qed
qed simp

lemma existing_names_length: "length (existing_names tools) \<le> length tools"
  by (induction tools) (auto simp: existing_names_def split: option.split)

lemma update_same: "map_of m k = Some v \<Longrightarrow> AList.update k v m = m"
  by (induction m) auto

lemma repair_tools_noop:
  "\<forall>tool. JObject tool \<in> set tools \<longrightarrow> \<not> needs_name tool \<Longrightarrow> repair_tools idx used tools = (tools, [])"
proof (induction tools arbitrary: idx)
  case (Cons t tools)
  then have "repair_tools (idx + 1) used tools = (tools, [])" by simp
  moreover have "\<not> needs_name x" if "t = JObject x" for x using Cons.prems that by simp
  ultimately show ?case by (cases t) simp_all
qed simp

lemma named_tool: "\<not> needs_name (obj_insert ''name'' (JString n) tool)" if "n \<noteq> []"
  using that by (simp add: needs_name_def has_name_def map_of_obj_insert)

lemma repaired_needs_none:
  assumes "list_all2 (repaired_tool N) tools ts" "\<forall>n \<in> N. n \<noteq> []" "JObject tool \<in> set ts"
  shows "\<not> needs_name tool"
proof -
  obtain i where "i < length ts" "ts ! i = JObject tool" using assms(3) by (auto simp: in_set_conv_nth)
  then obtain t where "repaired_tool N t (JObject tool)"
    using assms(1) by (metis list_all2_conv_all_nth)
  with assms(2) show ?thesis
    by (auto simp: repaired_tool_def named_tool split: json.splits if_splits)
qed

section \<open>Properties\<close>

text \<open>
  C36: The repair of a request changes nothing but its tools, and of these exactly the objects
  that have neither a non-empty name of their own nor a function: the report lists their positions in
  order, each with the name it was given, and each of them gets exactly this one field and nothing
  else.  A name has one to 64 characters out of letters, digits, underscore and hyphen, no two tools
  are given the same name, and none is given a name that a tool of the request carries as its own
  field.  (The names of tools in the shape of the OpenAI protocol, which lie inside their function,
  are not among those: see \<open>repaired_name_clashes_with_function\<close>.)
\<close>

theorem repair_assigns_fresh_valid_names:
  assumes "map_of m ''tools'' = Some (JArray tools)" and "length tools < 2 ^ 64"
  shows "\<exists>names. repair_anthropic_request (JObject m) =
      (JObject (AList.update ''tools'' (JArray (map (named_by names) (enumerate 0 tools))) m),
       \<lparr>rr_repaired_tool_names = names, rr_missing_messages = missing_messages m,
        rr_top_level_keys = sort (map fst m)\<rparr>) \<and>
    map fst names = map fst (filter (\<lambda>p. nameless (snd p)) (enumerate 0 tools)) \<and>
    (\<forall>n \<in> snd ` set names. valid_name n) \<and>
    distinct (map snd names) \<and>
    snd ` set names \<inter> set (existing_names tools) = {}"
proof -
  obtain ts rs where r: "repair_tools 0 (existing_names tools) tools = (ts, rs)" by fastforce
  have "length (existing_names tools) \<le> length tools" by (rule existing_names_length)
  then have l: "length (existing_names tools) + length tools < 10 ^ 59" using assms(2) by simp
  with repair_tools_spec [OF r _ l] repair_tools_exact [OF r _ l] assms(2)
  have "map fst rs = map fst (filter (\<lambda>p. nameless (snd p)) (enumerate 0 tools)) \<and>
    ts = map (named_by rs) (enumerate 0 tools) \<and> (\<forall>n \<in> snd ` set rs. valid_name n) \<and>
    distinct (map snd rs) \<and> snd ` set rs \<inter> set (existing_names tools) = {}" by simp
  then show ?thesis
    using assms(1) r by (intro exI [of _ rs]) (simp add: Let_def)
qed

definition demo_request :: "(string \<times> json) list" where
  "demo_request =
     [(''model'', JString ''m''),
      (''tools'', JArray
        [JObject [(''name'', JString ''Read'')],
         JObject [(''description'', JString (''# Read'' @ [NL] @ ''text''))],
         JObject [(''description'', JString ''# Read'')]])]"

text \<open>Both tools without a name are headed like the one that has one; they get different names.\<close>

lemma repair_assigns_fresh_valid_names_witness:
  "\<exists>n1 n2. rr_repaired_tool_names (snd (repair_anthropic_request (JObject demo_request))) = [(1, n1), (2, n2)]
     \<and> n1 \<noteq> n2 \<and> n1 \<noteq> ''Read'' \<and> n2 \<noteq> ''Read''"
proof -
  let ?tools = "[JObject [(''name'', JString ''Read'')],
      JObject [(''description'', JString (''# Read'' @ [NL] @ ''text''))],
      JObject [(''description'', JString ''# Read'')]]"
  have t: "map_of demo_request ''tools'' = Some (JArray ?tools)" by (simp add: demo_request_def)
  have "map fst (filter (\<lambda>p. nameless (snd p)) (enumerate 0 ?tools)) = [1, 2]"
    "existing_names ?tools = [''Read'']" by code_simp+
  with repair_assigns_fresh_valid_names [OF t] obtain names where n:
    "rr_repaired_tool_names (snd (repair_anthropic_request (JObject demo_request))) = names"
    "map fst names = [1, 2]" "distinct (map snd names)" "''Read'' \<notin> snd ` set names" by auto
  then obtain a b where "names = [(1, a), (2, b)]" by (auto simp: map_eq_Cons_conv)
  with n show ?thesis by auto
qed

text \<open>
  Repair is complete and idempotent: afterwards no tool needs a name, and repairing the
  result again changes nothing and reports no assigned name.
\<close>

lemma repair_is_idempotent:
  assumes "\<forall>tools. json_get ''tools'' body = Some (JArray tools) \<longrightarrow> length tools < 2 ^ 64"
  shows "let v = fst (repair_anthropic_request body)
    in (\<forall>tools tool. json_get ''tools'' v = Some (JArray tools) \<longrightarrow> JObject tool \<in> set tools
          \<longrightarrow> \<not> needs_name tool) \<and>
       fst (repair_anthropic_request v) = v \<and>
       rr_repaired_tool_names (snd (repair_anthropic_request v)) = []"
proof (cases body)
  case (JObject m)
  show ?thesis
  proof (cases "\<exists>tools. map_of m ''tools'' = Some (JArray tools)")
    case True
    then obtain tools where t: "map_of m ''tools'' = Some (JArray tools)" by blast
    obtain ts rs where r: "repair_tools 0 (existing_names tools) tools = (ts, rs)" by fastforce
    have "length tools < 2 ^ 64" using assms t JObject by simp
    moreover have "length (existing_names tools) \<le> length tools" by (rule existing_names_length)
    ultimately have "list_all2 (repaired_tool (snd ` set rs)) tools ts \<and> (\<forall>n \<in> snd ` set rs. valid_name n)"
      using repair_tools_spec [OF r] by simp
    then have none: "\<forall>tool. JObject tool \<in> set ts \<longrightarrow> \<not> needs_name tool"
      using repaired_needs_none [of "snd ` set rs" tools ts] by (simp add: valid_name_def)
    let ?m = "AList.update ''tools'' (JArray ts) m"
    have v: "fst (repair_anthropic_request body) = JObject ?m" using JObject t r by simp
    have g: "map_of ?m ''tools'' = Some (JArray ts)" by (simp add: update_conv)
    show ?thesis
      unfolding v Let_def using g none
      by (simp add: repair_tools_noop [OF none] update_same [OF g])
  next
    case False
    then have "(case map_of m ''tools'' of
               Some (JArray tools) \<Rightarrow>
                 (let (ts, rs) = repair_tools 0 (existing_names tools) tools
                  in (AList.update ''tools'' (JArray ts) m, rs))
             | _ \<Rightarrow> (m, [])) = (m, [])"
      by (auto split: option.split json.split)
    with False JObject show ?thesis by (simp add: Let_def)
  qed
qed (simp_all add: default_report_def)

lemma repair_is_idempotent_witness:
  "let v = fst (repair_anthropic_request (JObject demo_request))
   in fst (repair_anthropic_request v) = v"
proof -
  have "\<forall>tools. json_get ''tools'' (JObject demo_request) = Some (JArray tools) \<longrightarrow> length tools < 2 ^ 64"
    by (auto simp: demo_request_def)
  from repair_is_idempotent [OF this] show ?thesis by (simp only: Let_def)
qed

text \<open>
  The freshness of an assigned name ignores the names of tools in OpenAI shape: a tool whose
  description is headed like the function of such a tool gets the same name.
\<close>

lemma repaired_name_clashes_with_function:
  "rr_repaired_tool_names (snd (repair_anthropic_request (JObject
      [(''tools'', JArray
         [JObject [(''function'', JObject [(''name'', JString ''Read'')])],
          JObject [(''description'', JString ''# Read'')]])]))) = [(1, ''Read'')]"
  by code_simp

end
