(* ===== verification/StreamGuard.thy ===== *)
theory StreamGuard
  imports StrSearch
begin

text \<open>
  The guard of \<open>proxy/dsml_guard.rs\<close> against tool markup that leaks into the text of an
  assistant: the markers, the hold-back of a stream's possibly unfinished marker, and its
  release.  A string is the list of its UTF-8 bytes; a \<open>holdback\<close> is passed and returned.
  The theorems show that the guard loses and reorders nothing, that it stays silent once a
  leak is seen, which markers it finds however the stream is cut into chunks, and that it
  misses all the others.
\<close>

section \<open>Markers\<close>

text \<open>The fullwidth vertical line U+FF5C.\<close>

definition FW :: string where
  "FW = [CHR 0xEF, CHR 0xBD, CHR 0x9C]"

definition DSML_MARKERS :: "string list" where
  "DSML_MARKERS =
     [''DSML|tool_calls'',
      ''DSML'' @ FW @ ''tool_calls'',
      FW @ ''DSML'' @ FW,
      ''|DSML|'',
      ''<'' @ FW @ ''DSML'' @ FW,
      ''<|DSML|'',
      ''</'' @ FW @ ''DSML'' @ FW,
      ''</|DSML|'',
      ''invoke name='',
      ''<invoke name'',
      ''</invoke>'',
      ''<parameter name='',
      ''</parameter>'']"

definition DSML_PREFIX_MARKERS :: "string list" where
  "DSML_PREFIX_MARKERS =
     [''<'' @ FW @ ''DSML'' @ FW,
      ''<|DSML|'',
      ''</'' @ FW @ ''DSML'' @ FW,
      ''</|DSML|'',
      ''<invoke'',
      ''invoke name='',
      ''</invoke>'',
      ''<parameter'',
      ''</parameter'',
      ''DSML|'',
      ''DSML'' @ FW,
      FW @ ''DSML'' @ FW,
      ''|DSML|'']"

definition MAX_PARTIAL_SUFFIX_HOLD :: nat where
  "MAX_PARTIAL_SUFFIX_HOLD = 16"

definition contains_dsml_tool_leak :: "string \<Rightarrow> bool" where
  "contains_dsml_tool_leak text = (text \<noteq> [] \<and> list_ex (contains_str text) DSML_MARKERS)"

definition dsml_source_blob :: "string \<Rightarrow> string \<Rightarrow> string" where
  "dsml_source_blob reasoning text =
     (if reasoning = [] then text
      else if text = [] then reasoning
      else reasoning @ [NL] @ text)"

section \<open>Hold-back\<close>

definition open_tag_hold :: "string \<Rightarrow> string \<Rightarrow> string \<Rightarrow> string \<Rightarrow> nat option" where
  "open_tag_hold opening name_seen closing text =
     (case str_rfind text opening of
        None \<Rightarrow> None
      | Some pos \<Rightarrow>
          (let tail = drop pos text
           in if \<not> contains_str tail name_seen \<and> \<not> contains_str tail closing
              then Some (length text - pos) else None))"

definition holds_suffix :: "string \<Rightarrow> nat \<Rightarrow> bool" where
  "holds_suffix text hold =
     (let start = length text - hold; suffix = drop start text
      in is_char_boundary text start
         \<and> (list_ex (\<lambda>marker. starts_with marker suffix \<and> length suffix < length marker)
              DSML_PREFIX_MARKERS
            \<or> suffix = ''<''))"

definition partial_dsml_suffix_hold_len :: "string \<Rightarrow> nat" where
  "partial_dsml_suffix_hold_len text =
     (if text = [] then 0
      else
        case open_tag_hold ''<invoke'' ''invoke name'' ''</invoke>'' text of
          Some n \<Rightarrow> n
        | None \<Rightarrow>
            (case open_tag_hold ''<parameter'' ''parameter name'' ''</parameter>'' text of
               Some n \<Rightarrow> n
             | None \<Rightarrow>
                 (case find (holds_suffix text) [1..<min MAX_PARTIAL_SUFFIX_HOLD (length text) + 1] of
                    Some hold \<Rightarrow> hold
                  | None \<Rightarrow> 0)))"

text \<open>The result is the text to emit, whether a leak was seen, and the new hold-back.\<close>

definition take_emittable_text :: "string \<Rightarrow> string \<Rightarrow> (string option \<times> bool) \<times> string" where
  "take_emittable_text holdback chunk =
     (if chunk = [] then ((None, False), holdback)
      else
        let holdback = holdback @ chunk
        in if contains_dsml_tool_leak holdback then ((None, True), holdback)
           else
             let hold = partial_dsml_suffix_hold_len holdback
             in if hold > 0 then
                  let emit_len = length holdback - hold
                  in if emit_len = 0 then ((None, False), holdback)
                     else ((Some (take emit_len holdback), False), drop emit_len holdback)
                else ((Some holdback, False), []))"

definition flush_holdback :: "string \<Rightarrow> (string option \<times> bool) \<times> string" where
  "flush_holdback holdback =
     (if holdback = [] then ((None, False), holdback)
      else if contains_dsml_tool_leak holdback then ((None, True), holdback)
      else ((Some holdback, False), []))"

definition raw_tool_format_label :: "nat \<Rightarrow> bool \<Rightarrow> string" where
  "raw_tool_format_label tool_use_chunks dsml_leak =
     (if tool_use_chunks > 0 then ''anthropic'' else if dsml_leak then ''dsml'' else '''')"

section \<open>A stream through the guard\<close>

text \<open>
  The stream loops of \<open>proxy/anthropic.rs\<close> push every chunk of a channel through
  \<open>take_emittable_text\<close> with one hold-back, keep the emitted texts, remember a leak, and
  release the hold-back at the end.
\<close>

fun guard_chunks :: "string \<Rightarrow> string list \<Rightarrow> string \<times> bool \<times> string" where
  "guard_chunks holdback [] = ([], False, holdback)"
| "guard_chunks holdback (chunk # chunks) =
     (let ((emit, leaked), holdback) = take_emittable_text holdback chunk;
          (out, leak, holdback) = guard_chunks holdback chunks
      in (unwrap_or [] emit @ out, leaked \<or> leak, holdback))"

definition guard_stream :: "string list \<Rightarrow> string \<times> bool" where
  "guard_stream chunks =
     (let (out, leak, holdback) = guard_chunks [] chunks;
          ((emit, leaked), holdback) = flush_holdback holdback
      in (out @ unwrap_or [] emit, leak \<or> leaked))"

lemma open_tag_hold_le: "open_tag_hold a b c text = Some n \<Longrightarrow> n \<le> length text"
  by (auto simp: open_tag_hold_def Let_def split: option.splits if_splits)

lemma find_hold_le:
  assumes "find (holds_suffix text) [1..<min MAX_PARTIAL_SUFFIX_HOLD (length text) + 1] = Some h"
  shows "h \<le> length text"
proof -
  from find_SomeD [OF assms] have "h < min MAX_PARTIAL_SUFFIX_HOLD (length text) + 1"
    unfolding set_upt by simp
  then show ?thesis by simp
qed

lemma first_of_three_le:
  assumes "\<And>n. a = Some n \<Longrightarrow> n \<le> l" and "\<And>n. b = Some n \<Longrightarrow> n \<le> l" and "\<And>n. c = Some n \<Longrightarrow> n \<le> l"
  shows "(if e then 0 else case a of Some n \<Rightarrow> n
      | None \<Rightarrow> (case b of Some n \<Rightarrow> n | None \<Rightarrow> (case c of Some n \<Rightarrow> n | None \<Rightarrow> 0))) \<le> (l::nat)"
  using assms by (simp split: option.split)

lemma partial_hold_le: "partial_dsml_suffix_hold_len text \<le> length text"
  unfolding partial_dsml_suffix_hold_len_def
  by (rule first_of_three_le) (erule open_tag_hold_le open_tag_hold_le find_hold_le)+

text \<open>One step: what is emitted and what is held are together what was held and the chunk.\<close>

lemma take_emittable_conserves:
  "take_emittable_text h c = ((e, l), h') \<Longrightarrow> h @ c = unwrap_or [] e @ h'"
  by (auto simp: take_emittable_text_def Let_def simp del: take_append drop_append split: if_splits)

lemma take_emittable_leak:
  "take_emittable_text h c = ((e, l), h') \<Longrightarrow>
     l \<longleftrightarrow> c \<noteq> [] \<and> contains_dsml_tool_leak (h @ c)"
  "take_emittable_text h c = ((e, True), h') \<Longrightarrow> e = None \<and> h' = h @ c"
  by (auto simp: take_emittable_text_def Let_def split: if_splits)

lemma guard_chunks_conserves:
  "guard_chunks h cs = (out, leak, h') \<Longrightarrow> h @ concat cs = out @ h'"
proof (induction h cs arbitrary: out leak rule: guard_chunks.induct)
  case (2 h c cs)
  obtain e l h1 where s: "take_emittable_text h c = ((e, l), h1)" by (metis prod.exhaust)
  obtain out1 leak1 where r: "guard_chunks h1 cs = (out1, leak1, h')"
    using 2(2) by (auto simp: s split: prod.splits)
  have "h1 @ concat cs = out1 @ h'" by (rule 2(1) [OF s [symmetric] refl refl r])
  then have "h @ c @ concat cs = unwrap_or [] e @ out1 @ h'"
    using take_emittable_conserves [OF s] by (metis append.assoc)
  then show ?case using 2(2) by (auto simp: s r)
qed simp

section \<open>Which markers survive any cut\<close>

lemma leak_iff: "contains_dsml_tool_leak s \<longleftrightarrow> (\<exists>m \<in> set DSML_MARKERS. sublist m s)"
  by (auto simp: contains_dsml_tool_leak_def contains_str_sublist list_ex_iff DSML_MARKERS_def)

lemma leak_mono: "contains_dsml_tool_leak s \<Longrightarrow> contains_dsml_tool_leak (s @ t)"
  by (auto simp: leak_iff sublist_append)

lemma guard_chunks_stuck:
  "contains_dsml_tool_leak h \<Longrightarrow>
     guard_chunks h cs = ([], list_ex (\<lambda>c. c \<noteq> []) cs, h @ concat cs)"
  by (induction cs arbitrary: h)
    (auto simp: take_emittable_text_def leak_mono unwrap_or_def split: prod.splits)

text \<open>
  A proper prefix of \<open>m\<close> at the end of the text is held back as a whole: then no cut of the
  stream separates the parts of \<open>m\<close>.
\<close>

definition held_whole :: "string \<Rightarrow> bool" where
  "held_whole m \<longleftrightarrow>
     (\<forall>text p. suffix p text \<longrightarrow> strict_prefix p m \<longrightarrow> p \<noteq> [] \<longrightarrow>
        length p \<le> partial_dsml_suffix_hold_len text)"

definition cut_free :: "string \<Rightarrow> string \<Rightarrow> string \<Rightarrow> bool" where
  "cut_free m e h \<longleftrightarrow> \<not> sublist m (e @ h) \<and>
     (\<forall>p. suffix p (e @ h) \<longrightarrow> strict_prefix p m \<longrightarrow> p \<noteq> [] \<longrightarrow> length p \<le> length h)"

lemma overhang:
  assumes "cut_free m e h" and "suffix p (e @ h @ c)" and "prefix p m"
    and "length (h @ c) < length p" and "c \<noteq> []"
  shows False
proof -
  define q where "q = take (length p - length c) p"
  have p: "p = q @ c"
    using assms(2,4) suffix_length_suffix [of c "e @ h @ c" p]
    by (auto simp: q_def suffix_def)
  with assms(2) have "suffix q (e @ h)" by (auto simp: suffix_def)
  moreover have "strict_prefix q m" using assms(3,5) by (auto simp: p strict_prefix_def prefix_def)
  moreover have "length h < length q" using assms(4) by (simp add: p)
  ultimately show False using assms(1) by (fastforce simp: cut_free_def)
qed

lemma cut_free_sublist:
  assumes "cut_free m e h" and "sublist m (e @ h @ c)" and "c \<noteq> []"
  shows "sublist m (h @ c)"
proof -
  from assms(2) obtain a b where ab: "e @ h @ c = a @ m @ b" by (auto simp: sublist_def)
  show ?thesis
  proof (cases "length e \<le> length a")
    case True
    with ab obtain a' where "a = e @ a'"
      by (metis append_eq_append_conv_if append_take_drop_id)
    with ab show ?thesis by (auto simp: sublist_def)
  next
    case False
    define q where "q = drop (length a) (e @ h)"
    have "length a \<le> length (e @ h)" using False by simp
    have "drop (length a) ((e @ h) @ c) = m @ b" using ab by simp
    then have eq: "q @ c = m @ b" using False by (simp add: q_def)
    have q: "suffix q (e @ h)" "length h < length q" using False by (auto simp: q_def suffix_drop)
    from eq consider us where "q = m @ us" | us where "m = q @ us" "us \<noteq> []"
      unfolding append_eq_append_conv2 by (metis append_Nil2)
    then show ?thesis
    proof cases
      case 1
      then have "sublist m (e @ h)" using q(1) by (auto simp: suffix_def sublist_def)
      with assms(1) show ?thesis by (simp add: cut_free_def)
    next
      case 2
      then have "strict_prefix q m" by (auto simp: strict_prefix_def)
      moreover have "q \<noteq> []" using q(2) by auto
      ultimately have "length q \<le> length h" using assms(1) q(1) by (auto simp: cut_free_def)
      with q(2) show ?thesis by simp
    qed
  qed
qed

lemma cut_free_step:
  assumes cf: "cut_free m e h" and hw: "held_whole m" and m: "m \<in> set DSML_MARKERS"
    and t: "take_emittable_text h c = ((x, False), h')"
  shows "cut_free m (e @ unwrap_or [] x) h'"
proof (cases "c = []")
  case True
  with t cf show ?thesis by (auto simp: take_emittable_text_def)
next
  case False
  have all: "(e @ unwrap_or [] x) @ h' = e @ h @ c" using take_emittable_conserves [OF t] by simp
  have noleak: "\<not> sublist m (h @ c)" using take_emittable_leak(1) [OF t] False m by (auto simp: leak_iff)
  then have "\<not> sublist m (e @ h @ c)" using cut_free_sublist [OF cf _ False] by blast
  moreover have "length p \<le> length h'"
    if p: "suffix p (e @ h @ c)" "strict_prefix p m" "p \<noteq> []" for p
  proof -
    have "length p \<le> length (h @ c)" using overhang [OF cf p(1) _ _ False] p(2)
      by (meson linorder_not_less strict_prefix_def)
    then have "suffix p (h @ c)" using p(1) by (meson suffixI suffix_length_suffix)
    then have "length p \<le> partial_dsml_suffix_hold_len (h @ c)"
      using hw p(2,3) by (simp add: held_whole_def)
    moreover have "partial_dsml_suffix_hold_len (h @ c) \<le> length h'"
      using t False partial_hold_le [of "h @ c"]
      by (auto simp: take_emittable_text_def Let_def simp del: drop_append split: if_splits)
    ultimately show ?thesis by simp
  qed
  ultimately show ?thesis unfolding cut_free_def all by blast
qed

lemma guard_chunks_cut_free:
  assumes "held_whole m" and "m \<in> set DSML_MARKERS"
  shows "cut_free m e h \<Longrightarrow> guard_chunks h cs = (out, False, h') \<Longrightarrow> cut_free m (e @ out) h'"
proof (induction h cs arbitrary: e out rule: guard_chunks.induct)
  case (2 h c cs)
  obtain x l h1 where s: "take_emittable_text h c = ((x, l), h1)" by (metis prod.exhaust)
  with 2(3) obtain out1 where r: "\<not> l" "guard_chunks h1 cs = (out1, False, h')" "out = unwrap_or [] x @ out1"
    by (auto split: prod.splits)
  have "cut_free m ((e @ unwrap_or [] x) @ out1) h'"
    using 2(1) [OF s [symmetric] refl refl cut_free_step [OF 2(2) assms, of c x h1] r(2)] s r(1) by simp
  then show ?case by (simp add: r(3))
qed simp

lemma guard_stream_finds:
  assumes "held_whole m" and "m \<in> set DSML_MARKERS" and "m \<noteq> []" and "sublist m (concat cs)"
  shows "snd (guard_stream cs)"
proof -
  obtain out leak h where g: "guard_chunks [] cs = (out, leak, h)" by (metis prod.exhaust)
  show ?thesis
  proof (cases leak)
    case False
    have "cut_free m [] []" using assms(3) by (auto simp: cut_free_def)
    from guard_chunks_cut_free [OF assms(1,2) this, of cs out h] g False
    have "\<not> sublist m (out @ h)" by (auto simp: cut_free_def)
    with guard_chunks_conserves [OF g] assms(4) show ?thesis by simp
  qed (simp add: guard_stream_def g split: prod.splits)
qed

section \<open>The one marker that is held back as a whole\<close>

abbreviation INVOKE_NAME :: string where
  "INVOKE_NAME \<equiv> ''invoke name=''"

text \<open>Every proper suffix of a prefix is neither a beginning of a marker nor a single bracket.\<close>

definition hold_misses :: "string \<Rightarrow> bool" where
  "hold_misses s \<longleftrightarrow>
     \<not> (list_ex (\<lambda>marker. starts_with marker s \<and> length s < length marker) DSML_PREFIX_MARKERS \<or> s = ''<'')"

lemma invoke_name_table:
  "list_all (\<lambda>k. list_all (\<lambda>j. hold_misses (drop j (take k INVOKE_NAME))) [1..<k]
      \<and> \<not> hold_misses (take k INVOKE_NAME)) [1..<12]"
  by code_simp

lemma strict_prefix_take:
  "strict_prefix p m \<Longrightarrow> p \<noteq> [] \<Longrightarrow> \<exists>k. p = take k m \<and> 1 \<le> k \<and> k < length m"
  by (auto simp: strict_prefix_def prefix_def Suc_le_eq intro!: exI [of _ "length p"])

lemma invoke_name_prefix:
  assumes "strict_prefix p INVOKE_NAME" and "p \<noteq> []"
  shows "\<not> hold_misses p" "\<And>j. 1 \<le> j \<Longrightarrow> j < length p \<Longrightarrow> hold_misses (drop j p)"
    "length p \<le> 11" "CHR ''<'' \<notin> set p" "hd p = CHR ''i''"
proof -
  obtain k where p: "p = take k INVOKE_NAME" and k: "1 \<le> k" "k < 12"
    using strict_prefix_take [OF assms] by auto
  then have "k \<in> set [1..<12]" by simp
  with invoke_name_table have t: "list_all (\<lambda>j. hold_misses (drop j p)) [1..<k] \<and> \<not> hold_misses p"
    unfolding p list_all_iff by blast
  then show "\<not> hold_misses p" by blast
  have len: "length p = k" using k by (simp add: p)
  show "length p \<le> 11" using k len by simp
  show "hold_misses (drop j p)" if "1 \<le> j" "j < length p" for j
    using t that by (simp add: list_all_iff len)
  have "CHR ''<'' \<notin> set INVOKE_NAME" by code_simp
  then show "CHR ''<'' \<notin> set p" unfolding p using set_take_subset by fastforce
  show "hd p = CHR ''i''" unfolding p using k by (cases k) simp_all
qed

lemma open_tag_hold_covers:
  assumes "open_tag_hold (CHR ''<'' # r) x y text = Some n" and "suffix p text" and "CHR ''<'' \<notin> set p"
  shows "length p \<le> n"
proof (rule ccontr)
  assume less: "\<not> length p \<le> n"
  from assms(1) obtain pos where pos: "str_rfind text (CHR ''<'' # r) = Some pos" "n = length text - pos"
    by (auto simp: open_tag_hold_def Let_def split: option.splits if_splits)
  with str_rfind_Some [OF pos(1)] obtain t where t: "drop pos text = CHR ''<'' # t" "pos \<le> length text"
    by (auto simp: starts_with_iff)
  from assms(2) obtain a where a: "text = a @ p" by (auto simp: suffix_def)
  with less pos(2) t(2) have "length a \<le> pos" by auto
  with t(1) have "drop (pos - length a) p = CHR ''<'' # t" by (simp add: a)
  then have "CHR ''<'' \<in> set (drop (pos - length a) p)" by simp
  with assms(3) show False using set_drop_subset by fast
qed

lemma holds_suffix_misses: "holds_suffix text h \<Longrightarrow> \<not> hold_misses (drop (length text - h) text)"
  by (simp only: holds_suffix_def hold_misses_def Let_def) simp

lemma suffix_find_hold:
  assumes p: "suffix p text" "strict_prefix p INVOKE_NAME" "p \<noteq> []"
  shows "\<exists>h. find (holds_suffix text) [1..<min MAX_PARTIAL_SUFFIX_HOLD (length text) + 1] = Some h \<and> length p \<le> h"
proof -
  let ?l = "[1..<min MAX_PARTIAL_SUFFIX_HOLD (length text) + 1]"
  note pre = invoke_name_prefix [OF p(2,3)]
  from p(1) have drop: "drop (length text - length p) text = p" and le: "length p \<le> length text"
    by (simp_all add: suffix_drop_iff)
  have "text ! (length text - length p) = CHR ''i''"
    using drop le pre(5) p(3) by (metis diff_less hd_drop_conv_nth length_greater_0_conv order_less_le_trans)
  moreover have "length text - length p < length text" using le p(3) by (cases p) auto
  ultimately have "is_char_boundary text (length text - length p)"
    by (simp add: is_char_boundary_def)
  with pre(1) have "holds_suffix text (length p)"
    by (simp only: holds_suffix_def hold_misses_def Let_def drop) blast
  moreover have "length p \<in> set ?l"
    using le pre(3) p(3) unfolding set_upt by (simp add: MAX_PARTIAL_SUFFIX_HOLD_def Suc_le_eq)
  ultimately have "find (holds_suffix text) ?l \<noteq> None" unfolding find_None_iff by blast
  then obtain h where h: "find (holds_suffix text) ?l = Some h" by blast
  have h1: "1 \<le> h" "holds_suffix text h" using find_SomeD [OF h] unfolding set_upt by simp_all
  have "length p \<le> h"
  proof (rule ccontr)
    assume less: "\<not> length p \<le> h"
    from p(1) obtain a where a: "text = a @ p" by (auto simp: suffix_def)
    have "length text - h = length a + (length p - h)" using less by (simp add: a)
    then have "drop (length text - h) text = drop (length p - h) p" by (simp add: a)
    moreover have "hold_misses (drop (length p - h) p)" using pre(2) [of "length p - h"] less h1(1) by simp
    ultimately show False using holds_suffix_misses [OF h1(2)] by simp
  qed
  with h show ?thesis by blast
qed

lemma first_of_three_ge:
  assumes "\<And>n. a = Some n \<Longrightarrow> l \<le> n" and "\<And>n. b = Some n \<Longrightarrow> l \<le> n" and "\<exists>n. c = Some n \<and> l \<le> n" and "\<not> e"
  shows "l \<le> (if e then 0 else case a of Some n \<Rightarrow> n
      | None \<Rightarrow> (case b of Some n \<Rightarrow> n | None \<Rightarrow> (case c of Some n \<Rightarrow> n | None \<Rightarrow> (0::nat))))"
  using assms by (auto split: option.split)

lemma held_whole_invoke_name: "held_whole INVOKE_NAME"
  unfolding held_whole_def
proof (intro allI impI)
  fix s p assume p: "suffix p s" "strict_prefix p INVOKE_NAME" "p \<noteq> []"
  note free = invoke_name_prefix(4) [OF p(2,3)]
  show "length p \<le> partial_dsml_suffix_hold_len s"
    unfolding partial_dsml_suffix_hold_len_def
  proof (rule first_of_three_ge)
    show "\<exists>n. find (holds_suffix s) [1..<min MAX_PARTIAL_SUFFIX_HOLD (length s) + 1] = Some n \<and> length p \<le> n"
      by (rule suffix_find_hold [OF p])
    show "s \<noteq> []" using p by (auto simp: suffix_def)
  qed (erule open_tag_hold_covers [OF _ p(1) free])+
qed

section \<open>Theorems\<close>

text \<open>
  C0: The guard neither loses nor reorders text, and never lets a whole marker through in one
  piece: without a leak the emitted text of a stream is exactly the text of its chunks and
  holds ... 
\<close>

section \<open>Theorems\<close>

definition splits_marker :: "string \<Rightarrow> string list \<Rightarrow> bool" where
  "splits_marker m cs \<longleftrightarrow> concat cs = m \<and> guard_stream cs = (m, False)"

definition missed_cuts :: "(string \<times> string list) list" where
  "missed_cuts =
     [(''DSML|tool_calls'', [''DSML|'', ''tool_calls'']),
      (''DSML'' @ FW @ ''tool_calls'', [''DSML'' @ FW, ''tool_calls'']),
      (FW @ ''DSML'' @ FW, [FW @ ''D'', ''SML'' @ FW]),
      (''|DSML|'', [''|D'', ''SML|'']),
      (''<'' @ FW @ ''DSML'' @ FW, [''<'' @ FW @ ''D'', ''SML'' @ FW]),
      (''<|DSML|'', [''<|D'', ''SML|'']),
      (''</'' @ FW @ ''DSML'' @ FW, [''</'' @ FW @ ''D'', ''SML'' @ FW]),
      (''</|DSML|'', [''</|D'', ''SML|'']),
      (''<invoke name'', [''<i'', ''nvoke name'']),
      (''</invoke>'', [''</i'', ''nvoke>'']),
      (''<parameter name='', [''<parameter name'', ''='']),
      (''</parameter>'', [''</parameter'', ''>''])]"

lemma missed_cuts_ok: "list_all (\<lambda>(m, cs). splits_marker m cs) missed_cuts"
  by code_simp

lemma markers_split: "list_all (\<lambda>m. m = INVOKE_NAME \<or> m \<in> set (map fst missed_cuts)) DSML_MARKERS"
  by code_simp

lemma guard_chunks_leak: "guard_chunks h cs = (out, True, h') \<Longrightarrow> contains_dsml_tool_leak h'"
proof (induction h cs arbitrary: out rule: guard_chunks.induct)
  case (2 h c cs)
  obtain x l h1 where s: "take_emittable_text h c = ((x, l), h1)" by (metis prod.exhaust)
  obtain out1 leak1 where r: "guard_chunks h1 cs = (out1, leak1, h')" "l \<or> leak1"
    using 2(2) by (auto simp: s split: prod.splits)
  show ?case
  proof (cases leak1)
    case True
    with 2(1) [OF s [symmetric] refl refl] r(1) show ?thesis by simp
  next
    case False
    with r(2) s have l: "take_emittable_text h c = ((x, True), h1)" by simp
    then have "contains_dsml_tool_leak h1" using take_emittable_leak(1) [OF l] take_emittable_leak(2) [OF l] by simp
    with guard_chunks_stuck [OF this, of cs] r(1) show ?thesis by (auto intro: leak_mono)
  qed
qed simp

lemma flush_exact:
  "flush_holdback h = (if contains_dsml_tool_leak h then ((None, True), h)
     else ((if h = [] then None else Some h, False), []))"
  by (auto simp: flush_holdback_def contains_dsml_tool_leak_def)

text \<open>
  C27: The guard neither loses nor reorders text.  However a stream is cut into chunks,
  if the guard reports no leak the emitted text is exactly the text of the stream; if it
  reports one, the emitted text is a beginning of the stream, and what is withheld contains
  a marker.
\<close>

theorem guard_stream_exact:
  "if snd (guard_stream cs)
   then \<exists>withheld. concat cs = fst (guard_stream cs) @ withheld \<and> contains_dsml_tool_leak withheld
   else fst (guard_stream cs) = concat cs"
proof -
  obtain out leak h where g: "guard_chunks [] cs = (out, leak, h)" by (metis prod.exhaust)
  from guard_chunks_conserves [OF g] have c: "concat cs = out @ h" by simp
  show ?thesis
  proof (cases "contains_dsml_tool_leak h")
    case True
    with c show ?thesis by (simp add: guard_stream_def g flush_exact)
  next
    case False
    with guard_chunks_leak [of "[]" cs out h] g have "\<not> leak" by (cases leak) auto
    with False c show ?thesis by (simp add: guard_stream_def g flush_exact)
  qed
qed

text \<open>
  C40: Of the thirteen markers the guard looks for, exactly one, the text "invoke name=", is
  found in every stream that contains it, however the stream is cut into chunks.  Each of
  the others passes the guard unseen when a chunk ends inside it at the right place: the
  shortest ending that can begin a marker is held back, and the rest of the longer one is
  emitted.
\<close>

theorem marker_found_iff:
  assumes "m \<in> set DSML_MARKERS"
  shows "(\<forall>cs. contains_str (concat cs) m \<longrightarrow> snd (guard_stream cs)) \<longleftrightarrow> m = INVOKE_NAME"
proof
  assume m: "m = INVOKE_NAME"
  then have "m \<noteq> []" by simp
  with m assms show "\<forall>cs. contains_str (concat cs) m \<longrightarrow> snd (guard_stream cs)"
    using guard_stream_finds [OF held_whole_invoke_name] by (auto simp only: contains_str_sublist)
next
  assume all: "\<forall>cs. contains_str (concat cs) m \<longrightarrow> snd (guard_stream cs)"
  show "m = INVOKE_NAME"
  proof (rule ccontr)
    assume "m \<noteq> INVOKE_NAME"
    with markers_split assms have "m \<in> set (map fst missed_cuts)" by (auto simp only: list_all_iff)
    then obtain cs where "(m, cs) \<in> set missed_cuts" by auto
    with missed_cuts_ok have "splits_marker m cs" by (auto simp only: list_all_iff)
    then have "contains_str (concat cs) m \<and> \<not> snd (guard_stream cs)"
      by (simp add: splits_marker_def contains_str_sublist)
    with all show False by blast
  qed
qed

lemma marker_found_iff_witness:
  "\<not> (\<forall>cs. contains_str (concat cs) ''</invoke>'' \<longrightarrow> snd (guard_stream cs))"
proof -
  have "''</invoke>'' \<in> set DSML_MARKERS" and "''</invoke>'' \<noteq> INVOKE_NAME" by code_simp+
  with marker_found_iff [of "''</invoke>''"] show ?thesis by blast
qed

end
