(* ===== verification/DsmlRepair.thy ===== *)
theory DsmlRepair
  imports StrSearch
begin

text \<open>
  \<open>proxy/dsml_repair.rs\<close>: turning leaked tool markup back into a tool call.  Positions of the
  code are represented by the text that follows them: \<open>text[from..]\<close> is the argument of the
  loop.  A Rust string is valid UTF-8, so a slice that starts behind an ASCII character or at
  one cannot panic; the one slice of the code for which this is not clear, the loop's
  \<open>lower[from..]\<close> after \<open>from = name_at + 1\<close>, has its panic in the model.
  The theorems: rendered markup is read back exactly, and the only panics are those caused by
  a wide white space after \<open>parameter name=\<close>.
\<close>

definition HTML_PARAM_TAGS :: "string list" where
  "HTML_PARAM_TAGS =
     [''command'', ''description'', ''prompt'', ''subagent_type'', ''file_path'', ''content'',
      ''path'', ''query'', ''url'', ''pattern'', ''old_string'', ''new_string'']"

text \<open>
  \<open>rest.find(|c| c.is_whitespace() || c == '>' || c == '|')\<close>, the end of the string if there
  is none.
\<close>

fun bare_end :: "string \<Rightarrow> nat" where
  "bare_end [] = 0"
| "bare_end (c # s) =
     (if ws_len (map of_char (take 3 (c # s))) > 0 \<or> c = CHR ''>'' \<or> c = CHR ''|'' then 0
      else Suc (bare_end s))"

definition quoted_value :: "string \<Rightarrow> string \<Rightarrow> (string \<times> nat) option" where
  "quoted_value q inner =
     (case str_find inner q of
        None \<Rightarrow> None
      | Some end_pos \<Rightarrow> Some (trim (take end_pos inner), end_pos + 2))"

definition parse_attr_value :: "string \<Rightarrow> (string \<times> nat) option" where
  "parse_attr_value rest =
     (if rest = [] then None
      else if starts_with rest [CHR 0x22] then quoted_value [CHR 0x22] (drop 1 rest)
      else if starts_with rest [CHR 0x27] then quoted_value [CHR 0x27] (drop 1 rest)
      else
        let end_pos = bare_end rest; name = trim (take end_pos rest)
        in if name = [] then None else Some (name, end_pos))"

definition extract_invoke_name :: "string \<Rightarrow> string option" where
  "extract_invoke_name text =
     (case str_find (to_ascii_lowercase text) ''invoke name='' of
        None \<Rightarrow> None
      | Some idx \<Rightarrow>
          (let rest = trim_start (drop (idx + 12) text)
           in case parse_attr_value rest of
                None \<Rightarrow> None
              | Some (name, _) \<Rightarrow> if name = [] then None else Some name))"

definition min_found :: "nat option \<Rightarrow> nat option \<Rightarrow> nat option" where
  "min_found found new =
     (case new of
        None \<Rightarrow> found
      | Some idx \<Rightarrow> Some (case found of None \<Rightarrow> idx | Some cur \<Rightarrow> min cur idx))"

definition FULLWIDTH_BAR :: string where
  "FULLWIDTH_BAR = [CHR 0xEF, CHR 0xBD, CHR 0x9C]"

definition parameter_close_offset :: "string \<Rightarrow> nat option" where
  "parameter_close_offset tail =
     (let lower = to_ascii_lowercase tail;
          found = foldl (\<lambda>found marker. min_found found (str_find lower marker)) None
            [''</'' @ FULLWIDTH_BAR @ ''dsml'' @ FULLWIDTH_BAR @ ''parameter>'',
             ''</|dsml|parameter>'', ''</parameter>'']
      in foldl (\<lambda>found marker. min_found found (str_find tail marker)) found
           [''</'' @ FULLWIDTH_BAR @ ''DSML'' @ FULLWIDTH_BAR @ ''parameter>'', ''</|DSML|parameter>''])"

lemma shorter_behind_trim:
  assumes "s \<noteq> []" shows "length (trim_start (drop k s)) - Suc m < length s"
proof -
  have "length (trim_start (drop k s)) \<le> length s" using length_trim_start [of "drop k s"] by simp
  with assms show ?thesis by (cases s) auto
qed

text \<open>
  One turn of the loop of \<open>extract_named_parameters\<close>: it ends, goes on from a later position, or
  takes a parameter and goes on.
\<close>

datatype scan = Stop | Skip string | Take string string string

definition parameter_value :: "string \<Rightarrow> string \<Rightarrow> scan" where
  "parameter_value name after_name =
     (case str_find after_name ''>'' of
        None \<Rightarrow> Stop
      | Some gt \<Rightarrow>
          (let body = drop (gt + 1) after_name
           in if body \<noteq> [] \<and> is_cont (hd body) then Stop
              else
                case parameter_close_offset body of
                  None \<Rightarrow> Skip body
                | Some close_len \<Rightarrow> Take name (trim (take close_len body)) (drop (close_len + 1) body)))"

definition parameter_scan :: "string \<Rightarrow> scan" where
  "parameter_scan tail =
     (case str_find (to_ascii_lowercase tail) ''parameter name='' of
        None \<Rightarrow> Stop
      | Some rel \<Rightarrow>
          (let at_name = drop (rel + 15) tail
           in if at_name = [] \<or> is_cont (hd at_name) then Stop
              else
                let rest = trim_start at_name
                in case parse_attr_value rest of
                     None \<Rightarrow> Skip (drop 1 at_name)
                   | Some (name, consumed) \<Rightarrow>
                       if name = [] then Skip (drop 1 at_name)
                       else parameter_value name (drop consumed rest)))"

lemma parameter_scan_shorter:
  assumes "tail \<noteq> []"
  shows "parameter_scan tail = Skip next_tail \<Longrightarrow> length next_tail < length tail"
    and "parameter_scan tail = Take name content next_tail \<Longrightarrow> length next_tail < length tail"
  using assms
  by (auto simp: parameter_scan_def parameter_value_def Let_def intro!: shorter_behind_trim
      split: option.splits if_splits)

function named_parameters :: "string \<Rightarrow> (string \<times> json) list \<Rightarrow> (string \<times> json) list outcome" where
  "named_parameters tail input =
     (if tail = [] then Done input
      else if is_cont (hd tail) then Panic
      else
        case parameter_scan tail of
          Stop \<Rightarrow> Done input
        | Skip next_tail \<Rightarrow> named_parameters next_tail input
        | Take name content next_tail \<Rightarrow>
            named_parameters next_tail
              (if content \<noteq> [] then obj_insert name (JString content) input else input))"
  by pat_completeness auto
termination
  by (relation "measure (length \<circ> fst)") (simp_all add: parameter_scan_shorter)

declare named_parameters.simps [simp del]

definition extract_named_parameters :: "string \<Rightarrow> (string \<times> json) list outcome" where
  "extract_named_parameters text = named_parameters text []"

definition extract_element_content :: "string \<Rightarrow> string \<Rightarrow> string option" where
  "extract_element_content text tag =
     (case str_find (to_ascii_lowercase text) (''<'' @ tag) of
        None \<Rightarrow> None
      | Some open_idx \<Rightarrow>
          (let after_open = drop open_idx text
           in case str_find after_open ''>'' of
                None \<Rightarrow> None
              | Some gt \<Rightarrow>
                  (let tail = drop (gt + 1) after_open
                   in case str_find (to_ascii_lowercase tail) (to_ascii_lowercase (''</'' @ tag @ ''>'')) of
                        None \<Rightarrow> None
                      | Some close_idx \<Rightarrow>
                          (let content = trim (take close_idx tail)
                           in if content = [] then None else Some content))))"

definition add_element :: "string \<Rightarrow> (string \<times> json) list \<Rightarrow> string \<Rightarrow> (string \<times> json) list" where
  "add_element text input tag =
     (if map_of input tag \<noteq> None then input
      else
        case extract_element_content text tag of
          None \<Rightarrow> input
        | Some value \<Rightarrow> obj_insert tag (JString value) input)"

definition repair_invoke_leak :: "serde \<Rightarrow> string \<Rightarrow> (string \<times> string) option outcome" where
  "repair_invoke_leak S text =
     (case extract_invoke_name text of
        None \<Rightarrow> Done None
      | Some invoke_name \<Rightarrow>
          (case extract_named_parameters text of
             Panic \<Rightarrow> Panic
           | Done input \<Rightarrow>
               (let input = foldl (add_element text) input HTML_PARAM_TAGS
                in if input = [] then Done None
                   else Done (Some (invoke_name, to_string S (JObject input))))))"

section \<open>Panics\<close>

definition wide_space :: "string \<Rightarrow> bool" where
  "wide_space s \<longleftrightarrow> 2 \<le> ws_len (map of_char (take 3 s))"

text \<open>A white space of more than one byte follows \<open>parameter name=\<close>.\<close>

definition wide_after_name :: "string \<Rightarrow> bool" where
  "wide_after_name s \<longleftrightarrow>
     (\<exists>a b. s = a @ b \<and> suffix ''parameter name='' (to_ascii_lowercase a) \<and> wide_space b)"

lemma wide_after_name_suffix: "suffix s t \<Longrightarrow> wide_after_name s \<Longrightarrow> wide_after_name t"
  unfolding wide_after_name_def suffix_def to_ascii_lowercase_def by (metis append.assoc map_append)

lemma suffix_trim_start: "suffix (trim_start s) s"
proof -
  have "suffix (drop_ws f s) s" for f s
  proof (induction f s rule: drop_ws.induct)
    case (1 f s)
    then show ?case by (subst drop_ws.simps) (auto simp: Let_def intro: suffix_order.trans suffix_drop)
  qed
  then show ?thesis by (simp add: trim_start_def)
qed

text \<open>An attribute that begins with a character outside ASCII that is no white space has a value.\<close>

lemma parse_attr_value_wide:
  assumes "128 \<le> byte_of c" and "ws_len (map of_char (c # s)) = 0"
  shows "\<exists>name n. parse_attr_value (c # s) = Some (name, n) \<and> name \<noteq> []"
proof -
  have c: "c \<noteq> CHR ''>''" "c \<noteq> CHR ''|''" "c \<noteq> CHR 0x22" "c \<noteq> CHR 0x27" using assms(1) by auto
  define n where "n = bare_end (c # s)"
  have n: "n = Suc (bare_end s)" unfolding n_def bare_end.simps ws_len_take using assms(2) c by simp
  have "ws_len (map of_char (take n (c # s))) = 0"
    using assms(2) ws_len_append [of "map of_char (take n (c # s))" "map of_char (drop n (c # s))"]
    unfolding map_append [symmetric] append_take_drop_id by linarith
  then have "trim (take n (c # s)) \<noteq> []" by (rule trim_no_ws) (simp add: n)
  with c have "parse_attr_value (c # s) = Some (trim (take n (c # s)), n)"
    unfolding parse_attr_value_def n_def [symmetric] Let_def
    by (simp only: starts_with.simps list.distinct if_False simp_thms)
  with \<open>trim (take n (c # s)) \<noteq> []\<close> show ?thesis by blast
qed

lemma byte_of_lower:
  "byte_of (ascii_lower c) = (if 65 \<le> byte_of c \<and> byte_of c \<le> 90 then byte_of c + 32 else byte_of c)"
proof (cases "65 \<le> byte_of c \<and> byte_of c \<le> 90")
  case True
  then have "byte_of (char_of (byte_of c + 32)) = byte_of c + 32"
    unfolding of_char_of by (intro mod_less) simp
  with True show ?thesis by (simp add: ascii_lower_def)
qed (auto simp: ascii_lower_def)

lemma byte_lower_less: "byte_of (ascii_lower c) < 128 \<Longrightarrow> byte_of c < 128"
  unfolding byte_of_lower by (auto split: if_splits)

lemma lower_is_mark: "ascii_lower c = d \<Longrightarrow> byte_of d < 65 \<Longrightarrow> c = d"
  using byte_of_lower [of c] by (auto split: if_splits)

lemma lower_find_split:
  assumes "str_find (to_ascii_lowercase s) p = Some n"
  shows "s = take (n + length p) s @ drop (n + length p) s"
    and "suffix p (to_ascii_lowercase (take (n + length p) s))"
    and "length (take (n + length p) s) = n + length p"
proof -
  have le: "n + length p \<le> length s" using str_find_Some [OF assms] by (simp add: to_ascii_lowercase_def)
  then show "length (take (n + length p) s) = n + length p" by simp
  have "to_ascii_lowercase (take (n + length p) s) = take (n + length p) (to_ascii_lowercase s)"
    by (simp add: to_ascii_lowercase_def take_map)
  also have "\<dots> = take n (to_ascii_lowercase s) @ p"
    using str_find_Some [OF assms] by (auto simp: starts_with_iff take_add)
  finally show "suffix p (to_ascii_lowercase (take (n + length p) s))" by (simp add: suffix_def)
qed simp

lemma utf8_behind_lower:
  assumes "str_find (to_ascii_lowercase s) (p @ [d]) = Some n" and "byte_of d < 128" and "utf8_ok s"
  shows "utf8_ok (drop (n + length p + 1) s)"
proof -
  note f = lower_find_split [OF assms(1)]
  from f(2) obtain x where x: "to_ascii_lowercase (take (n + length (p @ [d])) s) = x @ p @ [d]"
    by (auto simp: suffix_def)
  define l where "l = take (n + length (p @ [d])) s"
  have l: "map ascii_lower l = (x @ p) @ [d]" using x by (simp add: l_def to_ascii_lowercase_def)
  then have "l \<noteq> []" by auto
  then obtain y c where "l = y @ [c]" by (metis append_butlast_last_id)
  with l have y: "take (n + length (p @ [d])) s = y @ [c]" "ascii_lower c = d" by (simp_all add: l_def)
  then have "byte_of c < (128::nat)" using assms(2) byte_lower_less by blast
  moreover have "s = y @ c # drop (n + length p + 1) s" using f(1) y(1) by (metis append.assoc append_Cons append_Nil length_append_singleton add.assoc Suc_eq_plus1)
  ultimately show ?thesis using assms(3) by (metis utf8_from_after_ascii)
qed

lemma utf8_behind_find:
  assumes "str_find s [c] = Some n" and "byte_of c < 128" and "suffix s t" and "utf8_ok t"
  shows "utf8_ok (drop (n + 1) s)" "suffix (drop (n + 1) s) t"
proof -
  have "s = take n s @ c # drop (n + 1) s" using str_find_split [OF assms(1)] by simp
  with assms(3) have "\<exists>x. t = x @ c # drop (n + 1) s" by (metis append.assoc suffix_def)
  then show "utf8_ok (drop (n + 1) s)" using assms(2,4) by (metis utf8_from_after_ascii)
  show "suffix (drop (n + 1) s) t" using assms(3) suffix_drop suffix_order.trans by blast
qed

text \<open>All closing markers begin with a bracket.\<close>

lemma min_found_Some: "min_found a b = Some n \<Longrightarrow> a = Some n \<or> b = Some n"
  by (auto simp: min_found_def min_def split: option.splits if_splits)

lemma find_first_char: "str_find s (c # p) = Some n \<Longrightarrow> \<exists>r. drop n s = c # r"
  by (drule str_find_Some) (auto simp: starts_with_iff)

lemma close_offset_bracket:
  assumes "parameter_close_offset s = Some n"
  shows "\<exists>t. drop n s = CHR ''<'' # t"
proof -
  have "\<exists>p. str_find (to_ascii_lowercase s) (CHR ''<'' # p) = Some n \<or> str_find s (CHR ''<'' # p) = Some n"
    using assms unfolding parameter_close_offset_def Let_def foldl.simps append_Cons
    by (blast dest: min_found_Some elim: option.distinct [THEN notE])
  then obtain p r where "drop n (to_ascii_lowercase s) = CHR ''<'' # r \<or> drop n s = CHR ''<'' # r"
    using find_first_char by blast
  moreover have "ascii_lower c = CHR ''<'' \<Longrightarrow> c = CHR ''<''" for c
    using lower_is_mark [of c "CHR ''<''"] by simp
  ultimately show ?thesis by (auto simp: to_ascii_lowercase_def drop_map map_eq_Cons_conv)
qed

lemma parse_attr_value_wide_start:
  assumes "utf8_ok s" and "s \<noteq> []" and "128 \<le> byte_of (hd s)"
    and "parse_attr_value (trim_start s) = None \<or> (\<exists>n. parse_attr_value (trim_start s) = Some ([], n))"
  shows "wide_space s"
proof -
  obtain c t where s: "s = c # t" using assms(2) by (cases s) auto
  have "ws_len (map of_char s) \<noteq> 0"
  proof
    assume z: "ws_len (map of_char s) = 0"
    then have "trim_start s = s" by (simp add: trim_start_no_ws)
    with parse_attr_value_wide [of c t] z assms(3,4) show False by (auto simp: s simp del: ws_len.simps)
  qed
  moreover have "ws_len (map of_char s) \<noteq> 1"
    using assms(3) by (cases t; cases "tl t") (auto simp: s ws1_def)
  ultimately show ?thesis unfolding wide_space_def ws_len_take by linarith
qed

lemma parameter_value_suffix:
  assumes "suffix after_name tail" and "utf8_ok tail"
  shows "parameter_value name after_name = Skip t \<Longrightarrow> suffix t tail \<and> utf8_ok t"
    and "parameter_value name after_name = Take n v t \<Longrightarrow> suffix t tail \<and> utf8_ok t"
proof -
  have body: "suffix (drop (gt + 1) after_name) tail \<and> utf8_ok (drop (gt + 1) after_name)"
    if "str_find after_name ''>'' = Some gt" for gt
    using utf8_behind_find [OF that _ assms] by simp
  show "parameter_value name after_name = Skip t \<Longrightarrow> suffix t tail \<and> utf8_ok t"
    using body by (auto simp: parameter_value_def Let_def split: option.splits if_splits)
  assume "parameter_value name after_name = Take n v t"
  then obtain gt m where gt: "str_find after_name ''>'' = Some gt"
    and m: "parameter_close_offset (drop (gt + 1) after_name) = Some m" "t = drop (m + 1) (drop (gt + 1) after_name)"
    by (auto simp: parameter_value_def Let_def split: option.splits if_splits)
  let ?b = "drop (gt + 1) after_name"
  obtain r where "drop m ?b = CHR ''<'' # r" using close_offset_bracket [OF m(1)] by blast
  then have "?b = take m ?b @ CHR ''<'' # t"
    using m(2) by (metis append_take_drop_id drop_drop drop_Suc_Cons drop_0 add.commute One_nat_def)
  then have "utf8_ok t" using body [OF gt] utf8_from_after_ascii [of 0 "take m ?b" "CHR ''<''" t] by simp
  moreover have "suffix t tail" using body [OF gt] m(2) by (metis suffix_drop suffix_order.trans)
  ultimately show "suffix t tail \<and> utf8_ok t" by blast
qed

lemma parameter_scan_suffix:
  assumes ok: "utf8_ok tail"
    and scan: "parameter_scan tail = Skip t \<or> parameter_scan tail = Take n v t"
  shows "suffix t tail \<and> (utf8_ok t \<or> wide_after_name tail)"
proof -
  from scan obtain rel where rel: "str_find (to_ascii_lowercase tail) ''parameter name='' = Some rel"
    by (auto simp: parameter_scan_def split: option.splits)
  define at_name where "at_name = drop (rel + 15) tail"
  note find = lower_find_split [OF rel]
  have aok: "utf8_ok at_name"
    using utf8_behind_lower [of tail "''parameter name''" "CHR ''=''" rel] rel ok by (simp add: at_name_def eval_nat_numeral)
  have suf: "suffix at_name tail" by (simp add: at_name_def suffix_drop)
  have rsuf: "suffix (drop k (trim_start at_name)) tail" for k
    using suf suffix_trim_start [of at_name] by (meson suffix_drop suffix_order.trans)
  have at: "at_name \<noteq> []"
    using scan by (auto simp: parameter_scan_def rel at_name_def Let_def split: if_splits)
  let ?bad = "parse_attr_value (trim_start at_name) = None \<or> (\<exists>n. parse_attr_value (trim_start at_name) = Some ([], n))"
  show ?thesis
  proof (cases ?bad)
    case True
    with scan have t: "t = drop 1 at_name"
      by (auto simp: parameter_scan_def rel at_name_def [symmetric] Let_def split: if_splits)
    have "utf8_ok t \<or> wide_after_name tail"
    proof (cases "byte_of (hd at_name) < (128::nat)")
      case True
      then show ?thesis using aok at t by (cases at_name) auto
    next
      case False
      then have "wide_space at_name" using parse_attr_value_wide_start [OF aok at] True by auto
      moreover have "suffix ''parameter name='' (to_ascii_lowercase (take (rel + 15) tail))"
        using find(2) by (simp add: eval_nat_numeral)
      ultimately show ?thesis
        unfolding wide_after_name_def at_name_def by (metis append_take_drop_id)
    qed
    then show ?thesis using suf t by (metis suffix_drop suffix_order.trans)
  next
    case False
    then obtain name k where "parse_attr_value (trim_start at_name) = Some (name, k)" "name \<noteq> []" by auto
    with scan have "parameter_value name (drop k (trim_start at_name)) = Skip t
        \<or> parameter_value name (drop k (trim_start at_name)) = Take n v t"
      by (auto simp: parameter_scan_def rel at_name_def [symmetric] Let_def split: if_splits)
    then show ?thesis using parameter_value_suffix [OF rsuf ok] by blast
  qed
qed

lemma named_parameters_panic:
  "named_parameters tail input = Panic \<Longrightarrow> utf8_ok tail \<Longrightarrow> wide_after_name tail"
proof (induction tail input rule: named_parameters.induct)
  case (1 tail input)
  have hd: "tail \<noteq> [] \<Longrightarrow> \<not> is_cont (hd tail)" using 1(4) utf8_ok_not_cont by (cases tail) auto
  with 1(3) have ne: "tail \<noteq> []" by (auto simp: named_parameters.simps [of tail])
  from 1(3) hd [OF ne] ne consider
      t where "parameter_scan tail = Skip t" "named_parameters t input = Panic"
    | n v t where "parameter_scan tail = Take n v t"
        "named_parameters t (if v \<noteq> [] then obj_insert n (JString v) input else input) = Panic"
    by (auto simp: named_parameters.simps [of tail] split: scan.splits)
  then show ?case
  proof cases
    case 1
    with "1.IH"(1) [OF ne hd [OF ne] 1(1)] parameter_scan_suffix [OF "1.prems"(2)] show ?thesis
      by (blast intro: wide_after_name_suffix)
  next
    case 2
    with "1.IH"(2) [OF ne hd [OF ne] 2(1)] parameter_scan_suffix [OF "1.prems"(2)] show ?thesis
      by (blast intro: wide_after_name_suffix)
  qed
qed

definition demo_wide_leak :: string where
  "demo_wide_leak =
     ''<invoke name=Bash><parameter name='' @ [CHR 0xE3, CHR 0x80, CHR 0x80] @ [CHR 0x22]"

lemma demo_wide_leak_panics: "utf8_ok demo_wide_leak \<and> extract_named_parameters demo_wide_leak = Panic
    \<and> extract_invoke_name demo_wide_leak = Some ''Bash''"
  by code_simp

text \<open>
  C29: The repair of leaked markup panics on a Rust string only when a white space of more
  than one byte (such as U+3000) follows "parameter name=": the loop then goes on from the
  middle of that character.  Not every such white space makes it panic, but one inside a
  parameter tag that is not closed does.
\<close>

theorem repair_panics_only_on_wide_space:
  assumes "utf8_ok t" and "repair_invoke_leak S t = Panic"
  shows "wide_after_name t \<and> repair_invoke_leak S demo_wide_leak = Panic \<and> utf8_ok demo_wide_leak"
proof -
  have "extract_named_parameters t = Panic"
    using assms(2) by (auto simp: repair_invoke_leak_def Let_def split: option.splits outcome.splits if_splits)
  then show ?thesis using named_parameters_panic assms(1) demo_wide_leak_panics
    by (simp add: extract_named_parameters_def repair_invoke_leak_def)
qed

lemma repair_panics_only_on_wide_space_witness:
  "repair_invoke_leak \<lparr>from_slice = \<lambda>_. None, to_string = \<lambda>_. []\<rparr> demo_wide_leak = Panic \<and>
    wide_after_name demo_wide_leak"
proof -
  have p: "repair_invoke_leak \<lparr>from_slice = \<lambda>_. None, to_string = \<lambda>_. []\<rparr> demo_wide_leak = Panic"
    using demo_wide_leak_panics by (simp add: repair_invoke_leak_def)
  with repair_panics_only_on_wide_space [OF _ p] demo_wide_leak_panics show ?thesis by blast
qed

section \<open>Reading rendered markup back\<close>

abbreviation DQ :: char where "DQ \<equiv> CHR 0x22"

definition render_parameter :: "string \<times> string \<Rightarrow> string" where
  "render_parameter kv =
     ''<parameter name='' @ [DQ] @ fst kv @ [DQ] @ ''>'' @ snd kv @ ''</parameter>''"

definition render_invoke :: "string \<Rightarrow> (string \<times> string) list \<Rightarrow> string" where
  "render_invoke name ps =
     ''<invoke name='' @ [DQ] @ name @ [DQ] @ ''>'' @ concat (map render_parameter ps) @ ''</invoke>''"

definition clean_name :: "string \<Rightarrow> bool" where
  "clean_name s \<longleftrightarrow> s \<noteq> [] \<and> trim s = s \<and> list_all (\<lambda>c. c \<noteq> DQ \<and> c \<noteq> CHR ''<'' \<and> c \<noteq> CHR ''='') s"

definition clean_value :: "string \<Rightarrow> bool" where
  "clean_value v \<longleftrightarrow> v \<noteq> [] \<and> trim v = v \<and> \<not> is_cont (hd v) \<and> list_all (\<lambda>c. c \<noteq> CHR ''<'') v"

lemma str_find_eqI:
  "starts_with (drop n s) p \<Longrightarrow> n \<le> length s \<Longrightarrow> (\<And>m. m < n \<Longrightarrow> \<not> starts_with (drop m s) p) \<Longrightarrow>
     str_find s p = Some n"
proof (induction s arbitrary: n)
  case Nil
  then show ?case by (cases p) auto
next
  case (Cons c s)
  show ?case
  proof (cases n)
    case 0
    with Cons.prems show ?thesis by simp
  next
    case (Suc k)
    have "\<not> starts_with (c # s) p" using Cons.prems(3) [of 0] Suc by simp
    moreover have "str_find s p = Some k"
      using Cons.prems Suc Cons.prems(3) [of "Suc m" for m] by (intro Cons.IH) fastforce+
    ultimately show ?thesis using Suc by simp
  qed
qed

text \<open>A pattern whose last character marks its place.\<close>

lemma starts_with_mark: "starts_with (drop m s) (q @ [d]) \<Longrightarrow> m + length q < length s \<and> s ! (m + length q) = d"
proof -
  assume "starts_with (drop m s) (q @ [d])"
  then obtain r where r: "drop m s = q @ d # r" by (auto simp: starts_with_iff)
  then have "length s - m = length q + Suc (length r)" by (metis length_append length_Cons length_drop)
  moreover have "drop m s ! length q = d" by (simp add: r)
  ultimately show ?thesis by (simp add: nth_drop)
qed

lemma find_marked:
  assumes "\<And>i. i < length a \<Longrightarrow> a ! i = d \<Longrightarrow> i < length q" and "d \<notin> set q"
  shows "str_find (a @ q @ d # b) (q @ [d]) = Some (length a)"
proof (rule str_find_eqI)
  fix m assume m: "m < length a"
  show "\<not> starts_with (drop m (a @ q @ d # b)) (q @ [d])"
  proof
    assume "starts_with (drop m (a @ q @ d # b)) (q @ [d])"
    from starts_with_mark [OF this] have at: "(a @ q @ d # b) ! (m + length q) = d" by simp
    show False
    proof (cases "m + length q < length a")
      case True
      with at assms(1) [of "m + length q"] show False by (simp add: nth_append)
    next
      case False
      with m have "m + length q - length a < length q" by simp
      with at False assms(2) show False by (auto simp: nth_append)
    qed
  qed
qed (simp_all add: starts_with_iff)

lemma find_marked_None:
  assumes "\<And>i. i < length s \<Longrightarrow> s ! i = d \<Longrightarrow> i < length q"
  shows "str_find s (q @ [d]) = None"
proof (rule ccontr)
  assume "str_find s (q @ [d]) \<noteq> None"
  then obtain n where "str_find s (q @ [d]) = Some n" by auto
  from starts_with_mark [of n s q d] str_find_Some [OF this] assms [of "n + length q"] show False by simp
qed

lemma find_skip: "c \<notin> set a \<Longrightarrow> str_find (a @ s) (c # p) = map_option ((+) (length a)) (str_find s (c # p))"
  by (induction a; cases "str_find s (c # p)") auto

lemma find_here: "c \<notin> set a \<Longrightarrow> str_find (a @ c # s) [c] = Some (length a)"
  by (simp add: find_skip)

lemma lower_append [simp]:
  "to_ascii_lowercase (a @ b) = to_ascii_lowercase a @ to_ascii_lowercase b"
  "length (to_ascii_lowercase a) = length a"
  by (simp_all add: to_ascii_lowercase_def)

lemma lower_mark_notin: "byte_of d < 65 \<Longrightarrow> d \<notin> set a \<Longrightarrow> d \<notin> set (to_ascii_lowercase a)"
  by (auto simp: to_ascii_lowercase_def) (metis lower_is_mark)

lemma close_offset_clean:
  assumes "CHR ''<'' \<notin> set v"
  shows "parameter_close_offset (v @ ''</parameter>'' @ r) = Some (length v)"
proof -
  let ?s = "v @ ''</parameter>'' @ r"
  have v: "CHR ''<'' \<notin> set (to_ascii_lowercase v)" using assms by (intro lower_mark_notin) simp_all
  have lower: "str_find (to_ascii_lowercase ?s) (CHR ''<'' # p)
      = map_option ((+) (length v)) (str_find (''</parameter>'' @ to_ascii_lowercase r) (CHR ''<'' # p))" for p
    using find_skip [OF v, of "''</parameter>'' @ to_ascii_lowercase r" p]
    by (simp add: to_ascii_lowercase_def ascii_lower_def)
  have direct: "str_find ?s (CHR ''<'' # p) = map_option ((+) (length v)) (str_find (''</parameter>'' @ r) (CHR ''<'' # p))" for p
    by (rule find_skip [OF assms])
  have le: "min_found (Some n) (map_option ((+) n) x) = Some n" for n x
    by (cases x) (simp_all add: min_found_def)
  have le0: "min_found (min_found None (map_option ((+) n) x)) (Some n) = Some n" for n x
    by (cases x) (simp_all add: min_found_def)
  have le1: "min_found (min_found (min_found None (map_option ((+) n) x)) (map_option ((+) n) y)) (Some n) = Some n" for n x y
    by (cases x; cases y) (simp_all add: min_found_def)
  have here: "map_option ((+) (length v)) (str_find (''</parameter>'' @ t) ''</parameter>'') = Some (length v)" for t
    by simp
  show ?thesis
    unfolding parameter_close_offset_def Let_def foldl.simps append_Cons append_Nil
    unfolding lower [unfolded append_Cons append_Nil] direct [unfolded append_Cons append_Nil]
      here [unfolded append_Cons append_Nil] le1 le ..
qed

lemma parse_quoted:
  assumes "clean_name k"
  shows "parse_attr_value (trim_start (DQ # k @ DQ # r)) = Some (k, length k + 2)"
proof -
  have "DQ \<notin> set k" "trim k = k" using assms by (auto simp: clean_name_def list_all_iff)
  moreover have "trim_start (DQ # k @ DQ # r) = DQ # k @ DQ # r"
    by (rule trim_start_no_ws) (cases k; cases "tl k"; cases r; simp add: ws1_def ws2_def)
  ultimately show ?thesis
    by (simp add: parse_attr_value_def quoted_value_def find_here)
qed

lemma parameter_value_clean:
  assumes "clean_value v"
  shows "parameter_value k (''>'' @ v @ ''</parameter>'' @ r) = Take k v (''/parameter>'' @ r)"
proof -
  from assms have v: "v \<noteq> []" "trim v = v" "\<not> is_cont (hd v)" "CHR ''<'' \<notin> set v"
    by (auto simp: clean_value_def list_all_iff)
  then have "\<not> is_cont (hd (v @ ''</parameter>'' @ r))" by simp
  moreover have "parameter_close_offset (v @ ''</parameter>'' @ r) = Some (length v)"
    by (rule close_offset_clean [OF v(4)])
  ultimately show ?thesis using v(2) by (simp add: parameter_value_def)
qed

definition marks_early :: "string \<Rightarrow> bool" where
  "marks_early a \<longleftrightarrow> (\<forall>i < length a. a ! i = CHR ''='' \<longrightarrow> i < 14)"

lemma marks_early_append: "length a \<le> 14 \<Longrightarrow> CHR ''='' \<notin> set b \<Longrightarrow> marks_early (a @ b)"
  by (auto simp: marks_early_def nth_append in_set_conv_nth)

lemma marks_early_lower: "marks_early a \<Longrightarrow> marks_early (to_ascii_lowercase a)"
  using lower_is_mark [of _ "CHR ''=''"] by (auto simp: marks_early_def to_ascii_lowercase_def)

lemma parameter_scan_rendered:
  assumes "marks_early (a @ ''<'')" and k: "clean_name (fst kv)" and v: "clean_value (snd kv)"
  shows "parameter_scan (a @ render_parameter kv @ r) = Take (fst kv) (snd kv) (''/parameter>'' @ r)"
proof -
  let ?rest = "[DQ] @ fst kv @ [DQ] @ ''>'' @ snd kv @ ''</parameter>'' @ r"
  let ?a = "to_ascii_lowercase (a @ ''<'')"
  have eq: "a @ render_parameter kv @ r = (a @ ''<'') @ ''parameter name='' @ ?rest"
    by (simp add: render_parameter_def)
  have "str_find (?a @ ''parameter name'' @ CHR ''='' # to_ascii_lowercase ?rest) (''parameter name'' @ ''='') = Some (length ?a)"
    using marks_early_lower [OF assms(1)] by (intro find_marked) (auto simp: marks_early_def)
  then have find: "str_find (to_ascii_lowercase (a @ render_parameter kv @ r)) ''parameter name='' = Some (length (a @ ''<''))"
    unfolding eq lower_append by (simp add: to_ascii_lowercase_def ascii_lower_def)
  have "drop (length (a @ ''<'') + 15) (a @ render_parameter kv @ r) = ?rest"
    unfolding eq by simp
  moreover have "\<not> is_cont (hd ?rest)" by (simp add: is_cont_def)
  moreover have "parse_attr_value (trim_start ?rest) = Some (fst kv, length (fst kv) + 2)"
    using parse_quoted [OF k, of "''>'' @ snd kv @ ''</parameter>'' @ r"] by simp
  moreover have "trim_start ?rest = ?rest"
    by (rule trim_start_no_ws) (cases "fst kv"; cases "tl (fst kv)"; simp add: ws1_def ws2_def)
  moreover have "drop (length (fst kv) + 2) ?rest = ''>'' @ snd kv @ ''</parameter>'' @ r" by simp
  moreover have "fst kv \<noteq> []" using k by (simp add: clean_name_def)
  ultimately show ?thesis
    using parameter_value_clean [OF v, of "fst kv" r] find
    unfolding parameter_scan_def by (simp only: option.case prod.case Let_def if_False simp_thms append_is_Nil_conv list.distinct)
qed

definition insert_parameter :: "(string \<times> json) list \<Rightarrow> string \<times> string \<Rightarrow> (string \<times> json) list" where
  "insert_parameter input kv = obj_insert (fst kv) (JString (snd kv)) input"

definition clean_parameter :: "string \<times> string \<Rightarrow> bool" where
  "clean_parameter kv \<longleftrightarrow> clean_name (fst kv) \<and> clean_value (snd kv)"

lemma named_parameters_rendered:
  assumes "list_all clean_parameter ps" and "marks_early (a @ ''<'')" and "a \<noteq> []" and "\<not> is_cont (hd a)"
  shows "named_parameters (a @ concat (map render_parameter ps) @ ''</invoke>'') input =
     Done (foldl insert_parameter input ps)"
  using assms
proof (induction ps arbitrary: a input)
  case Nil
  have "marks_early (to_ascii_lowercase (a @ ''</invoke>''))"
    using Nil.prems(2) by (intro marks_early_lower) (auto simp: marks_early_def nth_append nth_Cons' split: if_splits)
  then have "str_find (to_ascii_lowercase (a @ ''</invoke>'')) (''parameter name'' @ ''='') = None"
    by (intro find_marked_None) (auto simp: marks_early_def)
  then have "parameter_scan (a @ ''</invoke>'') = Stop" by (simp add: parameter_scan_def)
  then show ?case using Nil.prems(3,4) by (simp add: named_parameters.simps)
next
  case (Cons kv ps)
  let ?rest = "concat (map render_parameter ps) @ ''</invoke>''"
  have kv: "clean_name (fst kv)" "clean_value (snd kv)" "snd kv \<noteq> []"
    using Cons.prems(1) by (auto simp: clean_parameter_def clean_value_def)
  have scan: "parameter_scan (a @ render_parameter kv @ ?rest) = Take (fst kv) (snd kv) (''/parameter>'' @ ?rest)"
    by (rule parameter_scan_rendered [OF Cons.prems(2) kv(1,2)])
  have "\<not> is_cont (hd (a @ render_parameter kv @ ?rest))" using Cons.prems(3,4) by simp
  then have "named_parameters (a @ render_parameter kv @ ?rest) input
      = named_parameters (''/parameter>'' @ ?rest) (insert_parameter input kv)"
    using Cons.prems(3) kv(3)
    by (simp add: named_parameters.simps [of "a @ render_parameter kv @ ?rest"] scan insert_parameter_def del: append_assoc)
  also have "\<dots> = Done (foldl insert_parameter (insert_parameter input kv) ps)"
    using Cons.prems(1)
    by (intro Cons.IH) (auto simp: marks_early_def is_cont_def)
  finally show ?case by simp
qed

lemma invoke_name_rendered:
  assumes "clean_name name"
  shows "extract_invoke_name (render_invoke name ps) = Some name"
proof -
  let ?r = "''>'' @ concat (map render_parameter ps) @ ''</invoke>''"
  have "str_find (to_ascii_lowercase (render_invoke name ps)) ''invoke name='' = Some 1"
    by (simp add: render_invoke_def to_ascii_lowercase_def ascii_lower_def)
  moreover have "drop (1 + 12) (render_invoke name ps) = DQ # name @ DQ # ?r"
    by (simp add: render_invoke_def)
  moreover have "parse_attr_value (trim_start (DQ # name @ DQ # ?r)) = Some (name, length name + 2)"
    by (rule parse_quoted [OF assms])
  moreover have "name \<noteq> []" using assms by (simp add: clean_name_def)
  ultimately show ?thesis
    unfolding extract_invoke_name_def by (simp only: option.case prod.case Let_def if_False simp_thms)
qed

text \<open>No tag of \<open>HTML_PARAM_TAGS\<close> opens an element of rendered markup.\<close>

definition lacks_tags :: "string \<Rightarrow> bool" where
  "lacks_tags s \<longleftrightarrow> list_all (\<lambda>tag. str_find s (''<'' @ tag) = None) HTML_PARAM_TAGS"

lemma lacks_tags_skip: "CHR ''<'' \<notin> set a \<Longrightarrow> lacks_tags (a @ s) = lacks_tags s"
  by (simp add: lacks_tags_def find_skip)

lemma lacks_tags_tag:
  assumes "lacks_tags s"
  shows "lacks_tags (''<parameter name='' @ s)" "lacks_tags (''</parameter>'' @ s)" "lacks_tags (''<invoke name='' @ s)"
    "lacks_tags ''</invoke>''"
  using assms by (simp_all add: lacks_tags_def HTML_PARAM_TAGS_def)

lemma lower_tags:
  "to_ascii_lowercase ''<parameter name='' = ''<parameter name=''" "to_ascii_lowercase ''</parameter>'' = ''</parameter>''"
  "to_ascii_lowercase ''<invoke name='' = ''<invoke name=''" "to_ascii_lowercase ''</invoke>'' = ''</invoke>''"
  by code_simp+

lemma clean_no_bracket:
  "clean_parameter kv \<Longrightarrow> CHR ''<'' \<notin> set (fst kv) \<and> CHR ''<'' \<notin> set (snd kv)"
  unfolding clean_parameter_def clean_name_def clean_value_def list_all_iff by blast

lemma lacks_tags_rendered:
  assumes "clean_name name" and "list_all clean_parameter ps"
  shows "lacks_tags (to_ascii_lowercase (render_invoke name ps))"
proof -
  have body: "lacks_tags (to_ascii_lowercase (concat (map render_parameter ps) @ ''</invoke>''))"
    using assms(2)
  proof (induction ps)
    case Nil
    then show ?case using lacks_tags_tag(4) [of "[]"]
      by (simp add: lower_tags lacks_tags_def HTML_PARAM_TAGS_def)
  next
    case (Cons kv ps)
    let ?r = "to_ascii_lowercase (concat (map render_parameter ps) @ ''</invoke>'')"
    let ?q = "[DQ] @ fst kv @ [DQ] @ ''>'' @ snd kv"
    have "clean_parameter kv" using Cons.prems by simp
    then have "CHR ''<'' \<notin> set ?q" using clean_no_bracket by simp
    then have q: "CHR ''<'' \<notin> set (to_ascii_lowercase ?q)" by (intro lower_mark_notin) simp_all
    have "to_ascii_lowercase (concat (map render_parameter (kv # ps)) @ ''</invoke>'')
        = ''<parameter name='' @ to_ascii_lowercase ?q @ ''</parameter>'' @ ?r"
      by (simp only: list.map concat.simps render_parameter_def lower_append append_assoc lower_tags)
    moreover have "lacks_tags ?r" using Cons by simp
    ultimately show ?case using lacks_tags_skip [OF q] lacks_tags_tag by metis
  qed
  let ?q = "[DQ] @ name @ [DQ] @ ''>''"
  have "CHR ''<'' \<notin> set ?q" using assms(1) by (auto simp: clean_name_def list_all_iff)
  then have q: "CHR ''<'' \<notin> set (to_ascii_lowercase ?q)" by (intro lower_mark_notin) simp_all
  have eq: "to_ascii_lowercase (render_invoke name ps)
      = ''<invoke name='' @ to_ascii_lowercase ?q @ to_ascii_lowercase (concat (map render_parameter ps) @ ''</invoke>'')"
    by (simp only: render_invoke_def lower_append append_assoc lower_tags)
  have "lacks_tags (to_ascii_lowercase ?q @ to_ascii_lowercase (concat (map render_parameter ps) @ ''</invoke>''))"
    unfolding lacks_tags_skip [OF q] by (rule body)
  then show ?thesis unfolding eq by (rule lacks_tags_tag(3))
qed

lemma elements_rendered:
  assumes "lacks_tags (to_ascii_lowercase t)"
  shows "foldl (add_element t) input HTML_PARAM_TAGS = input"
proof -
  have "add_element t m tag = m" if "tag \<in> set HTML_PARAM_TAGS" for m tag
  proof -
    have "str_find (to_ascii_lowercase t) (''<'' @ tag) = None"
      using assms that unfolding lacks_tags_def list_all_iff by blast
    then show ?thesis by (simp add: add_element_def extract_element_content_def)
  qed
  then have "set tags \<subseteq> set HTML_PARAM_TAGS \<Longrightarrow> foldl (add_element t) input tags = input" for tags
    by (induction tags) auto
  then show ?thesis by blast
qed

lemma insert_parameters_nonempty: "ps \<noteq> [] \<Longrightarrow> foldl insert_parameter m ps \<noteq> []"
proof -
  have ne: "obj_insert k v m' \<noteq> []" for k and v :: json and m' by (cases m') (auto split: if_splits)
  have "m' \<noteq> [] \<Longrightarrow> foldl insert_parameter m' qs \<noteq> []" for m' qs
    by (induction qs arbitrary: m') (auto simp: insert_parameter_def ne)
  moreover assume "ps \<noteq> []"
  ultimately show ?thesis by (cases ps) (auto simp: insert_parameter_def ne)
qed

text \<open>
  C28: Markup written in the standard form is read back exactly, when its texts survive the
  reading: a rendered invocation with at least one parameter, whose tool and parameter names are
  non-empty, trimmed and free of quotes, opening brackets and equal signs, and whose values are
  non-empty, trimmed and free of opening brackets, is repaired to its name and the object of its
  parameters, a later parameter of the same name replacing an earlier one.  Outside these
  conditions the code does not promise it: values are trimmed, empty ones are dropped, and markup
  inside a value is read as further parameters.
\<close>

theorem rendered_invoke_is_repaired:
  assumes "clean_name name" and "list_all clean_parameter ps" and "ps \<noteq> []"
  shows "repair_invoke_leak S (render_invoke name ps) =
    Done (Some (name, to_string S (JObject (foldl insert_parameter [] ps))))"
proof -
  let ?a = "''<invoke name='' @ [DQ] @ name @ [DQ] @ ''>''"
  have "CHR ''='' \<notin> set name" using assms(1) by (auto simp: clean_name_def list_all_iff)
  then have "CHR ''='' \<notin> set ([DQ] @ name @ [DQ] @ ''>'' @ ''<'')" by simp
  then have "marks_early (?a @ ''<'')"
    using marks_early_append [of "''<invoke name=''"] by simp
  moreover have "\<not> is_cont (hd ?a)" "?a \<noteq> []" by (simp_all add: is_cont_def)
  ultimately have "named_parameters (?a @ concat (map render_parameter ps) @ ''</invoke>'') [] = Done (foldl insert_parameter [] ps)"
    using named_parameters_rendered [OF assms(2)] by blast
  then have "extract_named_parameters (render_invoke name ps) = Done (foldl insert_parameter [] ps)"
    by (simp add: extract_named_parameters_def render_invoke_def)
  moreover have "foldl insert_parameter [] ps \<noteq> []" by (rule insert_parameters_nonempty [OF assms(3)])
  ultimately show ?thesis
    using invoke_name_rendered [OF assms(1)] elements_rendered [OF lacks_tags_rendered [OF assms(1,2)]]
    by (simp add: repair_invoke_leak_def)
qed

lemma rendered_invoke_is_repaired_witness:
  "repair_invoke_leak \<lparr>from_slice = \<lambda>_. None, to_string = \<lambda>_. ''{}''\<rparr> (render_invoke ''Bash'' [(''command'', ''ls -l'')])
     = Done (Some (''Bash'', ''{}''))"
proof -
  have "clean_name ''Bash''" "list_all clean_parameter [(''command'', ''ls -l'')]" by code_simp+
  from rendered_invoke_is_repaired [OF this] show ?thesis by simp
qed

end
