(* ===== verification/MarkdownGuard.thy ===== *)
theory MarkdownGuard
  imports StrSearch
begin

text \<open>
  \<open>proxy/markdown.rs\<close>: the guard that closes Markdown code fences a model leaves open.  The
  state is the record \<open>fence_guard\<close>; \<open>push\<close> and \<open>finish\<close> return the new state and the text.
  A fence of the source is written with back ticks or tildes.
\<close>

datatype fence_marker = Backtick | Tilde

record fence_guard =
  fg_inside :: "fence_marker option"
  fg_at_line_start :: bool
  fg_lines_inside_fence :: nat

definition MarkdownFenceGuard_new :: fence_guard where
  "MarkdownFenceGuard_new =
     \<lparr>fg_inside = None, fg_at_line_start = True, fg_lines_inside_fence = 0\<rparr>"

abbreviation TICK :: char where "TICK \<equiv> CHR 0x60"
abbreviation TILDE :: char where "TILDE \<equiv> CHR 0x7E"

fun as_fence :: "fence_marker \<Rightarrow> string" where
  "as_fence Backtick = [TICK, TICK, TICK]"
| "as_fence Tilde = [TILDE, TILDE, TILDE]"

text \<open>\<open>split_inclusive_newline\<close>: every line with its line feed.\<close>

fun split_segments :: "string \<Rightarrow> string \<Rightarrow> string list" where
  "split_segments acc [] = (if acc = [] then [] else [acc])"
| "split_segments acc (c # s) =
     (if c = NL then (acc @ [c]) # split_segments [] s else split_segments (acc @ [c]) s)"

definition split_inclusive_newline :: "string \<Rightarrow> string list" where
  "split_inclusive_newline s = split_segments [] s"

definition is_fence_info_char :: "char \<Rightarrow> bool" where
  "is_fence_info_char c \<longleftrightarrow>
     is_ascii_alphanumeric c \<or> c \<in> {CHR ''_'', CHR ''-'', CHR ''.'', CHR ''+'', CHR ''#''}"

definition trim_start_char :: "char \<Rightarrow> string \<Rightarrow> string" where
  "trim_start_char c s = dropWhile (\<lambda>x. x = c) s"

definition fence_info_ok :: "char \<Rightarrow> string \<Rightarrow> bool" where
  "fence_info_ok c trimmed \<longleftrightarrow> list_all is_fence_info_char (trim (trim_start_char c trimmed))"

definition independent_fence_marker :: "string \<Rightarrow> fence_marker option" where
  "independent_fence_marker line =
     (let trimmed = trim line
      in if starts_with trimmed (as_fence Backtick) \<and> fence_info_ok TICK trimmed then Some Backtick
         else if starts_with trimmed (as_fence Tilde) \<and> fence_info_ok TILDE trimmed then Some Tilde
         else None)"

definition split_trailing_inline_fence ::
  "string \<Rightarrow> fence_marker option \<Rightarrow> (string \<times> fence_marker) option" where
  "split_trailing_inline_fence line inside =
     (case inside of
        None \<Rightarrow> None
      | Some marker \<Rightarrow>
          (let fence = as_fence marker; trimmed_end = trim_end line
           in if \<not> ends_with trimmed_end fence then None
              else
                case str_rfind trimmed_end fence of
                  None \<Rightarrow> None
                | Some pos \<Rightarrow>
                    if pos = 0 then None
                    else if trim (take pos line) = [] then None
                    else Some (trim_end (take pos line), marker)))"

definition looks_like_document_boundary :: "string \<Rightarrow> bool" where
  "looks_like_document_boundary line \<longleftrightarrow>
     list_ex (starts_with (trim_start line))
       [''# '', ''## '', ''### '', ''#### '', ''- '', ''1. '', ''| '']
     \<or> trim_start line = ''---''"

definition looks_like_code_line :: "string \<Rightarrow> bool" where
  "looks_like_code_line line \<longleftrightarrow>
     (let trimmed = trim_start line
      in (starts_with trimmed ''#'' \<and> \<not> starts_with trimmed ''# '' \<and> \<not> starts_with trimmed ''## '')
         \<or> list_ex (starts_with trimmed)
             [''//'', ''{'', ''}'', ''let '', ''const '', ''fn '', ''def '', ''class '', ''import '', ''from '']
         \<or> contains_str trimmed ''();'' \<or> contains_str trimmed '' = '')"

definition segment_line :: "string \<Rightarrow> string" where
  "segment_line segment = unwrap_or segment (strip_suffix segment [NL])"

definition observe_segment :: "string \<Rightarrow> fence_guard \<Rightarrow> fence_guard" where
  "observe_segment segment g =
     (let line = segment_line segment;
          g = (if fg_at_line_start g
               then
                 case independent_fence_marker line of
                   Some marker \<Rightarrow>
                     if fg_inside g = Some marker
                     then g\<lparr>fg_inside := None, fg_lines_inside_fence := 0\<rparr>
                     else if fg_inside g = None
                     then g\<lparr>fg_inside := Some marker, fg_lines_inside_fence := 0\<rparr>
                     else g
                 | None \<Rightarrow>
                     if fg_inside g \<noteq> None \<and> trim line \<noteq> []
                     then g\<lparr>fg_lines_inside_fence := sat_add 64 (fg_lines_inside_fence g) 1\<rparr>
                     else g
               else g)
      in g\<lparr>fg_at_line_start := ends_with segment [NL]\<rparr>)"

definition close_before_boundary :: "string \<Rightarrow> fence_guard \<Rightarrow> string \<times> fence_guard" where
  "close_before_boundary line g =
     (case fg_inside g of
        Some marker \<Rightarrow>
          if fg_at_line_start g \<and> fg_lines_inside_fence g > 0
             \<and> looks_like_document_boundary line \<and> \<not> looks_like_code_line line
          then (as_fence marker @ [NL], g\<lparr>fg_inside := None, fg_lines_inside_fence := 0\<rparr>)
          else ([], g)
      | None \<Rightarrow> ([], g))"

definition repair_segment :: "string \<Rightarrow> fence_guard \<Rightarrow> string \<times> fence_guard" where
  "repair_segment segment g =
     (let line = segment_line segment;
          (output, g) = close_before_boundary line g
      in case split_trailing_inline_fence line (fg_inside g) of
           Some (before, marker) \<Rightarrow>
             (output @ before @ [NL] @ as_fence marker @ (if ends_with segment [NL] then [NL] else []),
              g\<lparr>fg_inside := None, fg_at_line_start := ends_with segment [NL],
                fg_lines_inside_fence := 0\<rparr>)
         | None \<Rightarrow> (output @ segment, observe_segment segment g))"

fun repair_segments :: "string list \<Rightarrow> fence_guard \<Rightarrow> string \<times> fence_guard" where
  "repair_segments [] g = ([], g)"
| "repair_segments (segment # segments) g =
     (let (a, g) = repair_segment segment g; (b, g) = repair_segments segments g in (a @ b, g))"

definition fence_push :: "string \<Rightarrow> fence_guard \<Rightarrow> string \<times> fence_guard" where
  "fence_push s g =
     (if s = [] then ([], g) else repair_segments (split_inclusive_newline s) g)"

definition fence_finish :: "fence_guard \<Rightarrow> string \<times> fence_guard" where
  "fence_finish g =
     (case fg_inside g of
        Some marker \<Rightarrow>
          ([NL] @ as_fence marker @ [NL],
           g\<lparr>fg_inside := None, fg_at_line_start := True, fg_lines_inside_fence := 0\<rparr>)
      | None \<Rightarrow> ([], g))"

definition repair_text :: "string \<Rightarrow> string" where
  "repair_text s =
     (let (repaired, g) = fence_push s MarkdownFenceGuard_new; (last_part, g) = fence_finish g
      in repaired @ last_part)"

section \<open>Segments\<close>

lemma concat_split_segments: "concat (split_segments acc s) = acc @ s"
  by (induction s arbitrary: acc) auto

lemma split_segments_line:
  "NL \<notin> set l \<Longrightarrow> split_segments acc (l @ NL # s) = (acc @ l @ [NL]) # split_segments [] s"
  by (induction l arbitrary: acc) auto

lemma split_segments_append:
  "split_segments acc (a @ [NL] @ b) = split_segments acc (a @ [NL]) @ split_segments [] b"
  by (induction a arbitrary: acc) auto

lemma repair_segments_append:
  "repair_segments (xs @ ys) g =
     (let (a, g) = repair_segments xs g; (b, g) = repair_segments ys g in (a @ b, g))"
  by (induction xs arbitrary: g) (auto split: prod.splits)

text \<open>A chunk that ends with a line feed can be pushed apart from what follows.\<close>

lemma fence_push_append:
  "fence_push ((a @ [NL]) @ b) g =
     (let (x, g) = fence_push (a @ [NL]) g; (y, g) = fence_push b g in (x @ y, g))"
proof (cases "b = []")
  case True
  then show ?thesis by (simp add: fence_push_def split: prod.splits)
next
  case False
  then show ?thesis
    using split_segments_append [of "[]" a b]
    by (simp add: fence_push_def split_inclusive_newline_def repair_segments_append)
qed

section \<open>Visible text\<close>

text \<open>
  \<open>kept s t\<close>: \<open>t\<close> has all characters of \<open>s\<close> in their order, except that white-space
  characters may be missing, and possibly more.
\<close>

inductive kept :: "string \<Rightarrow> string \<Rightarrow> bool" where
  Nil: "kept [] []"
| more: "kept s t \<Longrightarrow> kept s (c # t)"
| same: "kept s t \<Longrightarrow> kept (c # s) (c # t)"
| space: "kept s t \<Longrightarrow> w \<noteq> [] \<Longrightarrow> ws_len (map of_char w) = length w \<Longrightarrow> kept (w @ s) t"

lemma kept_refl [simp]: "kept s s"
  by (induction s) (auto intro: kept.intros)

lemma kept_more: "kept s t \<Longrightarrow> kept s (u @ t)"
  by (induction u) (auto intro: kept.intros)

lemma kept_append: "kept a b \<Longrightarrow> kept c d \<Longrightarrow> kept (a @ c) (b @ d)"
  by (induction rule: kept.induct) (auto intro: kept.intros)

lemma kept_extra: "kept a b \<Longrightarrow> kept a (b @ u)"
  using kept_append [of a b "[]" u] kept_more [of "[]" "[]" u] kept.Nil by simp

lemma ws_len_rev_cases:
  "ws_len_rev (a # xs) = Suc 0 \<Longrightarrow> ws1 a"
  "ws_len_rev (a # b # xs) = Suc (Suc 0) \<Longrightarrow> ws2 b a"
  "ws_len_rev (a # b # c # xs) = Suc (Suc (Suc 0)) \<Longrightarrow> ws3 c b a"
  by (cases xs; cases "tl xs"; simp split: if_splits)+

lemma ws_len_whole:
  assumes "ws_len_rev (map of_char (take 3 r)) = n" and "0 < n"
  shows "ws_len (map of_char (rev (take n r))) = n"
proof -
  have "n \<le> 3" using assms(1) by (cases "map of_char (take 3 r) :: nat list" rule: ws_len_rev.cases) auto
  moreover have "n \<le> length r" using assms(1) ws_len_rev_le [of "map of_char (take 3 r)"] by simp
  ultimately consider a t where "r = a # t" "n = 1" | a b t where "r = a # b # t" "n = 2"
    | a b c t where "r = a # b # c # t" "n = 3"
    using assms(2) by (cases r; cases "tl r"; cases "tl (tl r)") (auto, linarith+)
  then show ?thesis
    using assms(1)
    by cases (auto dest!: ws_len_rev_cases simp: ws1_def ws2_def numeral_2_eq_2 numeral_3_eq_3 split: if_splits)
qed

lemma trim_end_split: "\<exists>w. s = trim_end s @ w \<and> kept w []"
proof -
  have "\<exists>w. rev r = rev (drop_ws ws_len_rev r) @ w \<and> kept w []" for r
  proof (induction r rule: length_induct)
    case (1 r)
    define n where "n = ws_len_rev (map of_char (take 3 r))"
    show ?case
    proof (cases "n = 0 \<or> r = []")
      case True
      then show ?thesis by (auto simp: drop_ws.simps [of _ r] n_def)
    next
      case False
      then have "length (drop n r) < length r" by (cases r) auto
      with 1 obtain w where w: "rev (drop n r) = rev (drop_ws ws_len_rev (drop n r)) @ w" "kept w []" by blast
      have "ws_len (map of_char (rev (take n r))) = n"
        using False by (intro ws_len_whole) (simp_all add: n_def)
      moreover have "length (rev (take n r)) = n"
        using ws_len_rev_le [of "map of_char (take 3 r)"] by (simp add: n_def)
      ultimately have "kept (rev (take n r)) []"
        using kept.space [OF kept.Nil, of "rev (take n r)"] False by (cases n) auto
      with w(2) have "kept (w @ rev (take n r)) []" using kept_append by fastforce
      moreover have "rev r = rev (drop n r) @ rev (take n r)" by (simp flip: rev_append)
      ultimately show ?thesis
        using False w(1) by (simp add: drop_ws.simps [of _ r] n_def Let_def)
    qed
  qed
  from this [of "rev s"] show ?thesis by (simp add: trim_end_def)
qed

lemma kept_trim_end: "kept s (trim_end s)"
  using trim_end_split [of s] kept_append [of "trim_end s" "trim_end s" _ "[]"] by force

lemma str_rfind_suffix:
  assumes "p \<noteq> []"
  shows "str_rfind (a @ p) p = Some (length a)"
proof -
  have short: "length s < length p \<Longrightarrow> str_rfind s p = None" for s
    using str_rfind_Some [of s p] assms
    by (cases "str_rfind s p") (auto simp: starts_with_iff dest!: arg_cong [where f = length])
  have "str_rfind p p = Some 0"
    using short [of "tl p"] assms starts_with_append [of p "[]"] by (cases p) auto
  then show ?thesis by (induction a) auto
qed

lemma trailing_fence_line:
  assumes "split_trailing_inline_fence line inside = Some (p, m)"
  shows "kept line (p @ [NL] @ as_fence m)"
proof -
  obtain a where a: "trim_end line = a @ as_fence m" "p = trim_end (take (length a) line)"
  proof -
    have m: "inside = Some m" "ends_with (trim_end line) (as_fence m)"
      using assms by (auto simp: split_trailing_inline_fence_def Let_def split: option.splits if_splits)
    then obtain a where a: "trim_end line = a @ as_fence m" by (auto simp: ends_with_iff)
    moreover have "as_fence m \<noteq> []" by (cases m) auto
    ultimately have "str_rfind (trim_end line) (as_fence m) = Some (length a)" by (simp add: str_rfind_suffix)
    with assms m have "p = trim_end (take (length a) line)"
      by (auto simp: split_trailing_inline_fence_def Let_def split: if_splits)
    with a show thesis by (rule that)
  qed
  obtain w where w: "line = trim_end line @ w" "kept w []" using trim_end_split by blast
  then have "take (length a) line = a" by (metis a(1) append.assoc append_eq_conv_conj)
  with a(2) have "kept a p" using kept_trim_end by simp
  moreover have "kept (as_fence m) ([NL] @ as_fence m)" by (rule kept_more) simp
  ultimately have "kept (trim_end line) (p @ [NL] @ as_fence m)"
    unfolding a(1) by (rule kept_append)
  from kept_append [OF this w(2)] w(1) show ?thesis by simp
qed

lemma segment_line: "segment = segment_line segment @ (if ends_with segment [NL] then [NL] else [])"
  by (auto simp: segment_line_def strip_suffix_def ends_with_iff)

lemma repair_segment_kept: "kept segment (fst (repair_segment segment g))"
proof -
  let ?line = "segment_line segment"
  obtain out g1 where c: "close_before_boundary ?line g = (out, g1)" by (metis prod.exhaust)
  show ?thesis
  proof (cases "split_trailing_inline_fence ?line (fg_inside g1)")
    case None
    then show ?thesis by (simp add: repair_segment_def c Let_def kept_more)
  next
    case (Some pm)
    obtain p m where pm: "pm = (p, m)" by (metis prod.exhaust)
    let ?nl = "if ends_with segment [NL] then [NL] else []"
    have "kept (?line @ ?nl) ((p @ [NL] @ as_fence m) @ ?nl)"
      using trailing_fence_line Some pm by (intro kept_append) auto
    then have "kept segment (p @ [NL] @ as_fence m @ ?nl)" using segment_line [of segment] by simp
    then show ?thesis using Some pm by (simp add: repair_segment_def c Let_def kept_more)
  qed
qed

lemma repair_segments_kept: "kept (concat segments) (fst (repair_segments segments g))"
proof (induction segments arbitrary: g)
  case (Cons segment segments)
  then show ?case using repair_segment_kept [of segment g]
    by (auto intro: kept_append split: prod.splits) (metis fst_conv kept_append)
qed (simp add: kept.Nil)

lemma fence_push_kept: "kept s (fst (fence_push s g))"
  using repair_segments_kept [of "split_inclusive_newline s" g] concat_split_segments [of "[]" s]
  by (auto simp: fence_push_def split_inclusive_newline_def)

section \<open>A stream through the guard\<close>

text \<open>The stream handlers push every chunk and finish the guard at the end of the stream.\<close>

fun fence_chunks :: "string list \<Rightarrow> fence_guard \<Rightarrow> string \<times> fence_guard" where
  "fence_chunks [] g = ([], g)"
| "fence_chunks (c # cs) g =
     (let (a, g) = fence_push c g; (b, g) = fence_chunks cs g in (a @ b, g))"

definition repair_stream :: "string list \<Rightarrow> string" where
  "repair_stream cs =
     (let (a, g) = fence_chunks cs MarkdownFenceGuard_new; (b, g) = fence_finish g in a @ b)"

lemma fence_chunks_kept: "kept (concat cs) (fst (fence_chunks cs g))"
proof (induction cs arbitrary: g)
  case (Cons c cs)
  then show ?case using fence_push_kept [of c g]
    by (auto split: prod.splits) (metis fst_conv kept_append)
qed (simp add: kept.Nil)

lemma fence_chunks_whole:
  "list_all (\<lambda>c. ends_with c [NL]) (butlast cs) \<Longrightarrow> fence_chunks cs g = fence_push (concat cs) g"
proof (induction cs arbitrary: g)
  case Nil
  then show ?case by (simp add: fence_push_def)
next
  case (Cons c cs)
  show ?case
  proof (cases "cs = []")
    case True
    then show ?thesis by (simp split: prod.splits)
  next
    case False
    with Cons.prems obtain a where "c = a @ [NL]" "list_all (\<lambda>c. ends_with c [NL]) (butlast cs)"
      by (auto simp: ends_with_iff)
    then show ?thesis using Cons.IH fence_push_append [of a "concat cs" g] by (simp split: prod.splits)
  qed
qed

text \<open>
  The fence guard never loses visible text: however a stream is cut into chunks, every
  character of it that is not white space is in the repaired stream, in the same order; the
  guard only adds closing fences and line feeds and drops white space at line ends.
\<close>

lemma fence_repair_keeps_text: "kept (concat cs) (repair_stream cs)"
  using kept_extra [OF fence_chunks_kept [of cs MarkdownFenceGuard_new]]
  by (simp add: repair_stream_def split: prod.splits) (metis fst_conv)

text \<open>
  Repairing a stream chunk by chunk gives the repair of its whole text when every chunk
  but the last ends with a line feed.
\<close>

lemma fence_chunks_agree:
  assumes "list_all (\<lambda>c. ends_with c [NL]) (butlast cs)"
  shows "repair_stream cs = repair_text (concat cs)"
  using fence_chunks_whole [OF assms] by (simp add: repair_stream_def repair_text_def)

lemma fence_chunks_agree_witness:
  "repair_stream [[TICK, TICK, TICK, NL], ''x'' @ [NL], ''y''] = [TICK, TICK, TICK, NL] @ ''x'' @ [NL] @ ''y'' @ [NL, TICK, TICK, TICK, NL]"
proof -
  have "list_all (\<lambda>c. ends_with c [NL]) (butlast [[TICK, TICK, TICK, NL], ''x'' @ [NL], ''y''])" by code_simp
  from fence_chunks_agree [OF this]
  show ?thesis by (rule trans) code_simp
qed

text \<open>A fence cut in two is not seen: the stream is left without its closing fence.\<close>

lemma split_fence_not_closed:
  "repair_stream [[TICK, TICK], [TICK, NL] @ ''x''] = [TICK, TICK, TICK, NL] @ ''x''"
  "repair_text ([TICK, TICK, TICK, NL] @ ''x'') = [TICK, TICK, TICK, NL] @ ''x'' @ [NL, TICK, TICK, TICK, NL]"
  by code_simp+

end
