(* ===== verification/ClientTypes.thy ===== *)
theory ClientTypes
  imports StrSearch "HOL-Library.Word"
begin

unbundle bit_operations_syntax

text \<open>
  The data of the client (\<open>free-model-client-rs\<close>): the chat protocol's messages, tools and
  requests of \<open>protocol/types.rs\<close>, and the 64-bit FNV-1a hash with its hexadecimal rendering
  that the client uses for identities.  An \<open>f64\<close> is a rational.
\<close>

section \<open>Messages and requests\<close>

record tool_function =
  tf_name :: string
  tf_arguments :: string

record tool_call =
  tc_id :: "string option"
  tc_call_type :: string
  tc_function :: tool_function
  tc_index :: "int option"

record message =
  ms_role :: string
  ms_content :: json
  ms_tool_calls :: "tool_call list option"
  ms_tool_call_id :: "string option"
  ms_reasoning_content :: "string option"

record openai_tool_function =
  of_name :: string
  of_description :: "string option"
  of_parameters :: "json option"

record openai_tool =
  ot_tool_type :: string
  ot_function :: openai_tool_function

record chat_request =
  cr_model :: string
  cr_messages :: "message list"
  cr_stream :: "bool option"
  cr_max_tokens :: "nat option"
  cr_temperature :: "rat option"
  cr_top_p :: "rat option"
  cr_tools :: "openai_tool list option"
  cr_tool_choice :: "json option"

record tool_input_schema =
  is_schema_type :: string
  is_required :: "string list option"
  is_properties :: "json option"

record tool_def =
  td_name :: string
  td_description :: string
  td_input_schema :: tool_input_schema

record anthropic_message =
  am_role :: string
  am_content :: json

record anthropic_request =
  ar_model :: string
  ar_messages :: "anthropic_message list"
  ar_stream :: "bool option"
  ar_max_tokens :: "nat option"
  ar_temperature :: "rat option"
  ar_system :: "json option"
  ar_tools :: "tool_def list option"
  ar_tool_choice :: "json option"

text \<open>\<open>ToolInputSchema::from_openai_parameters\<close>.\<close>

definition from_openai_parameters :: "json option \<Rightarrow> tool_input_schema" where
  "from_openai_parameters params =
     (case params of
        None \<Rightarrow>
          \<lparr>is_schema_type = ''object'', is_required = None, is_properties = Some (JObject [])\<rparr>
      | Some p \<Rightarrow>
          \<lparr>is_schema_type = unwrap_or ''object'' (get_str ''type'' p),
           is_required =
             map_option (List.map_filter as_str) (Option.bind (json_get ''required'' p) as_array),
           is_properties =
             (case json_get ''properties'' p of None \<Rightarrow> Some (JObject []) | Some v \<Rightarrow> Some v)\<rparr>)"

text \<open>The derived serialisation of a list of tool calls: an absent option is left out.\<close>

definition opt_field :: "string \<Rightarrow> json option \<Rightarrow> (string \<times> json) list" where
  "opt_field k v = (case v of None \<Rightarrow> [] | Some x \<Rightarrow> [(k, x)])"

definition json_int :: "int \<Rightarrow> json" where
  "json_int i = JNumber (if 0 \<le> i then PosInt (nat i) else NegInt i)"

definition tool_call_json :: "tool_call \<Rightarrow> json" where
  "tool_call_json c = json_object
     (opt_field ''id'' (map_option JString (tc_id c))
      @ [(''type'', JString (tc_call_type c)),
         (''function'', json_object
            [(''name'', JString (tf_name (tc_function c))),
             (''arguments'', JString (tf_arguments (tc_function c)))])]
      @ opt_field ''index'' (map_option json_int (tc_index c)))"

section \<open>The stable hash\<close>

definition stable_hash64_update :: "64 word \<Rightarrow> string \<Rightarrow> 64 word" where
  "stable_hash64_update h bytes =
     foldl (\<lambda>h c. (h XOR of_nat (byte_of c)) * 0x100000001b3) h bytes"

definition stable_hash64 :: "string \<Rightarrow> 64 word" where
  "stable_hash64 s = stable_hash64_update 0xcbf29ce484222325 s"

text \<open>The format \<open>{:016x}\<close>.\<close>

definition hex_digit :: "nat \<Rightarrow> char" where
  "hex_digit d = char_of (if d < 10 then 48 + d else 87 + d)"

fun hex_digits :: "nat \<Rightarrow> int \<Rightarrow> string" where
  "hex_digits 0 v = []"
| "hex_digits (Suc n) v = hex_digits n (v div 16) @ [hex_digit (nat (v mod 16))]"

definition hex16 :: "64 word \<Rightarrow> string" where
  "hex16 w = hex_digits 16 (uint w)"

lemma length_hex16 [simp]: "length (hex16 w) = 16"
proof -
  have "length (hex_digits n v) = n" for n v by (induction n arbitrary: v) auto
  then show ?thesis by (simp add: hex16_def)
qed

lemma byte_of_char_of: "n < 256 \<Longrightarrow> byte_of (char_of n) = n"
  unfolding of_char_of by (rule mod_less)

lemma byte_of_hex_digit: "d < 16 \<Longrightarrow> byte_of (hex_digit d) = (if d < 10 then 48 + d else 87 + d)"
  unfolding hex_digit_def by (rule byte_of_char_of) simp

lemma hex_digits_chars:
  "c \<in> set (hex_digits n v) \<Longrightarrow> (48 \<le> byte_of c \<and> byte_of c \<le> 57) \<or> (97 \<le> byte_of c \<and> byte_of c \<le> 102)"
proof (induction n arbitrary: v)
  case (Suc n)
  have d: "nat (v mod 16) < 16" by simp
  from Suc.prems consider "c \<in> set (hex_digits n (v div 16))" | "c = hex_digit (nat (v mod 16))" by auto
  then show ?case
  proof cases
    case 2
    show ?thesis unfolding 2 byte_of_hex_digit [OF d] using d by (simp split: if_split)
  qed (rule Suc.IH)
qed simp

text \<open>The hash continues: the hash of a concatenation is the hash of the rest from the first's.\<close>

lemma stable_hash64_update_append:
  "stable_hash64_update h (a @ b) = stable_hash64_update (stable_hash64_update h a) b"
  by (simp add: stable_hash64_update_def)

end
