(* ===== verification/ToolHistory.thy ===== *)
theory ToolHistory
  imports ClientTypes
begin

text \<open>
  The canonical tool history of \<open>protocol/translate.rs\<close>: every tool call of an assistant gets
  an identifier, every tool result is paired with a call, what cannot be paired is turned
  into plain text, and finally all identifiers are replaced by ones that depend only on the
  place and the content of the call.  The loops over indices update the list of messages in
  place as the code does.
\<close>

record tool_history_repair =
  hr_synthetic_tool_ids :: nat
  hr_paired_tool_results :: nat
  hr_downgraded_tool_results :: nat
  hr_downgraded_assistant_calls :: nat
  hr_stabilized_tool_call_ids :: nat

definition default_repair :: tool_history_repair where
  "default_repair =
     \<lparr>hr_synthetic_tool_ids = 0, hr_paired_tool_results = 0, hr_downgraded_tool_results = 0,
      hr_downgraded_assistant_calls = 0, hr_stabilized_tool_call_ids = 0\<rparr>"

record pending_tool_call =
  pd_id :: string
  pd_message_index :: nat
  pd_used :: bool

datatype tool_history_policy = Strict | Compat

section \<open>Identifiers\<close>

definition synthetic_tool_id :: "nat \<Rightarrow> nat \<Rightarrow> tool_call \<Rightarrow> string" where
  "synthetic_tool_id message_index tool_index call =
     (let hash = stable_hash64
        (show_nat message_index @ '':'' @ show_nat tool_index @ '':''
         @ tf_name (tc_function call) @ '':'' @ tf_arguments (tc_function call))
      in ''call_fmc_'' @ show_nat message_index @ ''_'' @ show_nat tool_index @ ''_'' @ hex16 hash)"

definition blank_id :: "string option \<Rightarrow> bool" where
  "blank_id i = (case i of None \<Rightarrow> True | Some s \<Rightarrow> trim s = [])"

text \<open>The loop over the calls of an assistant: the calls, the new pending entries, the count.\<close>

fun fill_calls ::
  "nat \<Rightarrow> nat \<Rightarrow> tool_call list \<Rightarrow> tool_call list \<times> pending_tool_call list \<times> nat" where
  "fill_calls mi ti [] = ([], [], 0)"
| "fill_calls mi ti (call # calls) =
     (let (call, n) =
            (if blank_id (tc_id call)
             then (call\<lparr>tc_id := Some (synthetic_tool_id mi ti call)\<rparr>, 1) else (call, 0));
          new =
            (case tc_id call of
               Some i \<Rightarrow>
                 if trim i \<noteq> [] then [\<lparr>pd_id = i, pd_message_index = mi, pd_used = False\<rparr>] else []
             | None \<Rightarrow> []);
          (calls, pending, k) = fill_calls mi (ti + 1) calls
      in (call # calls, new @ pending, n + k))"

section \<open>Pending calls\<close>

fun mark_first :: "(pending_tool_call \<Rightarrow> bool) \<Rightarrow> pending_tool_call list
    \<Rightarrow> string option \<times> pending_tool_call list" where
  "mark_first P [] = (None, [])"
| "mark_first P (p # ps) =
     (if P p then (Some (pd_id p), p\<lparr>pd_used := True\<rparr> # ps)
      else let (r, ps) = mark_first P ps in (r, p # ps))"

definition mark_pending_used :: "pending_tool_call list \<Rightarrow> string \<Rightarrow> string option \<times> pending_tool_call list" where
  "mark_pending_used pending i = mark_first (\<lambda>p. pd_id p = i \<and> \<not> pd_used p) pending"

definition consume_next_pending :: "pending_tool_call list \<Rightarrow> string option \<times> pending_tool_call list" where
  "consume_next_pending pending = mark_first (\<lambda>p. \<not> pd_used p) pending"

definition COMPAT_CALL_TEXT :: string where
  "COMPAT_CALL_TEXT = ''[Tool call recovered as plain context: matching tool result missing]''"

definition COMPAT_RESULT_TEXT :: string where
  "COMPAT_RESULT_TEXT =
     ''[Tool result recovered as plain context: original tool_call_id missing or invalid]''"

definition blank_content :: "json \<Rightarrow> bool" where
  "blank_content c \<longleftrightarrow> c = JNull \<or> (case as_str c of Some s \<Rightarrow> trim s = [] | None \<Rightarrow> False)"

text \<open>One unresolved call leaves its message, which turns into plain text when it was the last.\<close>

definition drop_call ::
  "tool_history_policy \<Rightarrow> nat \<times> string \<Rightarrow> message list \<times> tool_history_repair
     \<Rightarrow> message list \<times> tool_history_repair" where
  "drop_call policy = (\<lambda>(mi, i) (ms, r).
     if mi \<ge> length ms then (ms, r)
     else
       case ms_tool_calls (ms ! mi) of
         None \<Rightarrow> (ms, r)
       | Some calls \<Rightarrow>
           (let kept = filter (\<lambda>c. tc_id c \<noteq> Some i) calls;
                removed = length calls - length kept;
                m = ms ! mi;
                m = (if kept = []
                     then m\<lparr>ms_tool_calls := None,
                       ms_content :=
                         (if blank_content (ms_content m)
                          then JString (case policy of Compat \<Rightarrow> COMPAT_CALL_TEXT | Strict \<Rightarrow> [])
                          else ms_content m)\<rparr>
                     else m\<lparr>ms_tool_calls := Some kept\<rparr>)
            in (ms[mi := m],
                r\<lparr>hr_downgraded_assistant_calls := hr_downgraded_assistant_calls r + removed\<rparr>)))"

definition unresolved :: "pending_tool_call list \<Rightarrow> (nat \<times> string) list" where
  "unresolved pending =
     map (\<lambda>p. (pd_message_index p, pd_id p)) (filter (\<lambda>p. \<not> pd_used p) pending)"

text \<open>The pending list is cleared by the caller's result.\<close>

definition downgrade_unresolved_pending ::
  "tool_history_policy \<Rightarrow> message list \<Rightarrow> pending_tool_call list \<Rightarrow> tool_history_repair
     \<Rightarrow> message list \<times> pending_tool_call list \<times> tool_history_repair" where
  "downgrade_unresolved_pending policy ms pending r =
     (let (ms, r) = fold (drop_call policy) (unresolved pending) (ms, r) in (ms, [], r))"

definition downgrade_tool_message :: "serde \<Rightarrow> tool_history_policy \<Rightarrow> message \<Rightarrow> message" where
  "downgrade_tool_message S policy m =
     (let preview = (case as_str (ms_content m) of Some s \<Rightarrow> s | None \<Rightarrow> to_string S (ms_content m))
      in m\<lparr>ms_role := ''user'', ms_tool_call_id := None, ms_tool_calls := None,
           ms_content :=
             (case policy of
                Compat \<Rightarrow> JString (COMPAT_RESULT_TEXT @ [NL] @ preview)
              | Strict \<Rightarrow> JString preview)\<rparr>)"

section \<open>The pass over the messages\<close>

type_synonym history_state = "message list \<times> pending_tool_call list \<times> tool_history_repair"

definition assistant_step :: "nat \<Rightarrow> history_state \<Rightarrow> history_state" where
  "assistant_step i = (\<lambda>(ms, pending, r).
     case ms_tool_calls (ms ! i) of
       None \<Rightarrow> (ms, pending, r)
     | Some calls \<Rightarrow>
         (let (calls, new, n) = fill_calls i 0 calls
          in (ms[i := (ms ! i)\<lparr>ms_tool_calls := Some calls\<rparr>], pending @ new,
              r\<lparr>hr_synthetic_tool_ids := hr_synthetic_tool_ids r + n\<rparr>)))"

definition match_result :: "string option \<Rightarrow> pending_tool_call list
    \<Rightarrow> string option \<times> pending_tool_call list" where
  "match_result tool_call_id pending =
     (case tool_call_id of
        None \<Rightarrow> consume_next_pending pending
      | Some i \<Rightarrow>
          if trim i = [] then consume_next_pending pending
          else
            case mark_pending_used pending i of
              (Some j, pending) \<Rightarrow> (Some j, pending)
            | (None, pending) \<Rightarrow> consume_next_pending pending)"

definition original_id :: "string option \<Rightarrow> string option" where
  "original_id tool_call_id =
     (case map_option trim tool_call_id of
        Some i \<Rightarrow> if i \<noteq> [] then Some i else None
      | None \<Rightarrow> None)"

definition tool_step :: "serde \<Rightarrow> tool_history_policy \<Rightarrow> nat \<Rightarrow> history_state \<Rightarrow> history_state" where
  "tool_step S policy i = (\<lambda>(ms, pending, r).
     let m = ms ! i; (matched, pending) = match_result (ms_tool_call_id m) pending
     in case matched of
          Some j \<Rightarrow>
            if original_id (ms_tool_call_id m) \<noteq> Some j
            then (ms[i := m\<lparr>ms_tool_call_id := Some j\<rparr>], pending,
                  r\<lparr>hr_paired_tool_results := hr_paired_tool_results r + 1\<rparr>)
            else (ms, pending, r)
        | None \<Rightarrow>
            (ms[i := downgrade_tool_message S policy m], pending,
             r\<lparr>hr_downgraded_tool_results := hr_downgraded_tool_results r + 1\<rparr>))"

definition history_step :: "serde \<Rightarrow> tool_history_policy \<Rightarrow> nat \<Rightarrow> history_state \<Rightarrow> history_state" where
  "history_step S policy i = (\<lambda>(ms, pending, r).
     let role = ms_role (ms ! i);
         st = (if role \<noteq> ''tool'' \<and> \<not> list_all pd_used pending
               then downgrade_unresolved_pending policy ms pending r else (ms, pending, r))
     in if role = ''assistant'' then assistant_step i st
        else if role = ''tool'' then tool_step S policy i st
        else st)"

section \<open>Stable identifiers\<close>

type_synonym id_map = "(string, string) hashmap"

fun stabilize_calls ::
  "nat \<Rightarrow> nat \<Rightarrow> tool_call list \<Rightarrow> id_map \<Rightarrow> tool_call list \<times> id_map \<times> nat" where
  "stabilize_calls mi ti [] id_map = ([], id_map, 0)"
| "stabilize_calls mi ti (call # calls) id_map =
     (let stable_id = synthetic_tool_id mi ti call;
          id_map =
            (case tc_id call of
               Some old_id \<Rightarrow> if trim old_id \<noteq> [] then AList.update old_id stable_id id_map else id_map
             | None \<Rightarrow> id_map);
          (call, n) =
            (if tc_id call \<noteq> Some stable_id then (call\<lparr>tc_id := Some stable_id\<rparr>, 1) else (call, 0));
          (calls, id_map, k) = stabilize_calls mi (ti + 1) calls id_map
      in (call # calls, id_map, n + k))"

definition stabilize_own_calls :: "nat \<Rightarrow> message \<Rightarrow> id_map \<Rightarrow> message \<times> id_map \<times> nat" where
  "stabilize_own_calls mi m id_map =
     (case ms_tool_calls m of
        None \<Rightarrow> (m, id_map, 0)
      | Some calls \<Rightarrow>
          (let (calls, id_map, a) = stabilize_calls mi 0 calls id_map
           in (m\<lparr>ms_tool_calls := Some calls\<rparr>, id_map, a)))"

definition stabilize_result :: "message \<Rightarrow> id_map \<Rightarrow> message \<times> nat" where
  "stabilize_result m id_map =
     (if ms_role m = ''tool''
      then
        case ms_tool_call_id m of
          None \<Rightarrow> (m, 0)
        | Some old_id \<Rightarrow>
            (case map_of id_map old_id of
               None \<Rightarrow> (m, 0)
             | Some stable_id \<Rightarrow>
                 if old_id \<noteq> stable_id then (m\<lparr>ms_tool_call_id := Some stable_id\<rparr>, 1) else (m, 0))
      else (m, 0))"

fun stabilize_messages :: "nat \<Rightarrow> message list \<Rightarrow> id_map \<Rightarrow> message list \<times> nat" where
  "stabilize_messages mi [] id_map = ([], 0)"
| "stabilize_messages mi (m # ms) id_map =
     (let (m, id_map, a) = stabilize_own_calls mi m id_map;
          (m, b) = stabilize_result m id_map;
          (ms, c) = stabilize_messages (mi + 1) ms id_map
      in (m # ms, a + b + c))"

definition stabilize_tool_call_ids :: "message list \<Rightarrow> message list \<times> nat" where
  "stabilize_tool_call_ids ms = stabilize_messages 0 ms []"

definition canonicalize_openai_tool_history_with_policy ::
  "serde \<Rightarrow> tool_history_policy \<Rightarrow> message list \<Rightarrow> message list \<times> tool_history_repair" where
  "canonicalize_openai_tool_history_with_policy S policy ms =
     (let (ms, pending, r) = fold (history_step S policy) [0..<length ms] (ms, [], default_repair);
          (ms, pending, r) = downgrade_unresolved_pending policy ms pending r;
          (ms, n) = stabilize_tool_call_ids ms
      in (ms, r\<lparr>hr_stabilized_tool_call_ids := hr_stabilized_tool_call_ids r + n\<rparr>))"

definition canonicalize_openai_tool_history ::
  "serde \<Rightarrow> message list \<Rightarrow> message list \<times> tool_history_repair" where
  "canonicalize_openai_tool_history S ms = canonicalize_openai_tool_history_with_policy S Compat ms"

end
