(* ===== verification/ToolHistoryCorrect.thy ===== *)
theory ToolHistoryCorrect
  imports ToolHistory
begin

text \<open>
  What the canonical tool history promises: every group of tool results directly follows the
  assistant message with the calls, answers each of its calls exactly once, and every call
  has its own identifier.  \<open>scan_history\<close> is this contract as a scan over the messages: its
  state is the set of unanswered identifiers.
\<close>

definition the_calls :: "message \<Rightarrow> tool_call list" where
  "the_calls m = (case ms_tool_calls m of None \<Rightarrow> [] | Some cs \<Rightarrow> cs)"

definition valid_ids :: "tool_call list \<Rightarrow> bool" where
  "valid_ids cs \<longleftrightarrow> list_all (\<lambda>c. \<not> blank_id (tc_id c)) cs \<and> distinct (map tc_id cs)"

fun scan_history :: "string set \<Rightarrow> message list \<Rightarrow> string set option" where
  "scan_history open_ids [] = Some open_ids"
| "scan_history open_ids (m # ms) =
     (if ms_role m = ''tool''
      then
        case ms_tool_call_id m of
          None \<Rightarrow> None
        | Some i \<Rightarrow>
            if i \<in> open_ids \<and> ms_tool_calls m = None then scan_history (open_ids - {i}) ms else None
      else if open_ids \<noteq> {} then None
      else if ms_role m = ''assistant''
      then
        if valid_ids (the_calls m) then scan_history (set (List.map_filter tc_id (the_calls m))) ms else None
      else scan_history {} ms)"

definition paired_history :: "message list \<Rightarrow> bool" where
  "paired_history ms \<longleftrightarrow> scan_history {} ms = Some {}"

lemma scan_append:
  "scan_history os (a @ b) = Option.bind (scan_history os a) (\<lambda>os'. scan_history os' b)"
  by (induction os a rule: scan_history.induct) (auto split: option.splits)

definition is_result :: "message \<Rightarrow> bool" where
  "is_result t \<longleftrightarrow> ms_role t = ''tool'' \<and> ms_tool_calls t = None"

lemma scan_results:
  "list_all is_result ts \<Longrightarrow> map ms_tool_call_id ts = map Some ids \<Longrightarrow> distinct ids
     \<Longrightarrow> set ids \<subseteq> os \<Longrightarrow> scan_history os ts = Some (os - set ids)"
proof (induction ts arbitrary: ids os)
  case (Cons t ts)
  then obtain i js where "ids = i # js" "ms_tool_call_id t = Some i" "map ms_tool_call_id ts = map Some js"
    by (cases ids) auto
  with Cons.prems Cons.IH [of js "os - {i}"] show ?case by (auto simp: is_result_def set_diff_eq subset_iff)
qed simp

section \<open>Synthetic identifiers\<close>

lemma synthetic_inj:
  assumes "synthetic_tool_id mi a c = synthetic_tool_id mj b d" shows "mi = mj \<and> a = b"
proof -
  from assms obtain x y where "show_nat mi @ CHR ''_'' # (show_nat a @ CHR ''_'' # x)
      = show_nat mj @ CHR ''_'' # (show_nat b @ CHR ''_'' # y)"
    unfolding synthetic_tool_id_def Let_def by (simp only: append_Cons append_Nil list.inject) blast
  from show_nat_delimited [OF this] show_nat_delimited [of a x b y] show ?thesis by blast
qed

lemma synthetic_trim: "trim (synthetic_tool_id mi ti c) = synthetic_tool_id mi ti c"
proof (rule trim_unchanged)
  obtain h where s: "synthetic_tool_id mi ti c = ''call_fmc_'' @ show_nat mi @ ''_'' @ show_nat ti @ ''_'' @ hex16 h"
    by (simp add: synthetic_tool_id_def Let_def)
  show "ws_len (map of_char (synthetic_tool_id mi ti c)) = 0" by (simp add: s ws1_def ws2_def)
  obtain d r where d: "rev (hex16 h) = d # r" by (cases "rev (hex16 h)") (use length_hex16 [of h] in auto)
  then have "d \<in> set (hex_digits 16 (uint h))" unfolding hex16_def by (metis list.set_intros(1) set_rev)
  from hex_digits_chars [OF this] have b: "48 \<le> byte_of d" "byte_of d \<le> 102" by auto
  have "ws_len_rev (byte_of d # xs) = 0" for xs
    using b by (cases xs; cases "tl xs") (auto simp: ws1_def ws2_def)
  then show "ws_len_rev (map of_char (take 3 (rev (synthetic_tool_id mi ti c)))) = 0"
    unfolding s by (simp add: d take_Cons')
qed

lemma synthetic_valid [simp]: "\<not> blank_id (Some (synthetic_tool_id mi ti c))"
  by (simp add: blank_id_def synthetic_trim) (simp add: synthetic_tool_id_def Let_def)

lemma synthetic_of_id [simp]: "synthetic_tool_id mi ti (c\<lparr>tc_id := i\<rparr>) = synthetic_tool_id mi ti c"
  by (simp add: synthetic_tool_id_def)

section \<open>Filling in identifiers\<close>

lemma fill_calls_ids:
  "fill_calls mi ti cs = (cs', new, n) \<Longrightarrow>
     map tc_id cs' = map (Some \<circ> pd_id) new \<and> list_all (\<lambda>c. \<not> blank_id (tc_id c)) cs' \<and>
     list_all (\<lambda>p. pd_message_index p = mi \<and> \<not> pd_used p) new"
proof (induction cs arbitrary: ti cs' new n)
  case (Cons call calls)
  define c where "c = (if blank_id (tc_id call) then call\<lparr>tc_id := Some (synthetic_tool_id mi ti call)\<rparr> else call)"
  obtain ds ps k where r: "fill_calls mi (ti + 1) calls = (ds, ps, k)" by (metis prod.exhaust)
  have c: "\<not> blank_id (tc_id c)" by (simp add: c_def)
  then obtain i where i: "tc_id c = Some i" "trim i \<noteq> []" by (auto simp: blank_id_def split: option.splits)
  have "cs' = c # ds" "new = \<lparr>pd_id = i, pd_message_index = mi, pd_used = False\<rparr> # ps"
    using Cons.prems i r by (auto simp: c_def Let_def split: if_splits)
  with Cons.IH [OF r] c i show ?case by auto
qed simp

lemma fill_calls_id:
  "list_all (\<lambda>c. \<not> blank_id (tc_id c)) cs \<Longrightarrow>
     fill_calls mi ti cs = (cs, map (\<lambda>c. \<lparr>pd_id = the (tc_id c), pd_message_index = mi, pd_used = False\<rparr>) cs, 0)"
proof (induction cs arbitrary: ti)
  case (Cons c cs)
  then show ?case by (auto simp: blank_id_def split: option.splits)
qed simp

section \<open>Pending calls\<close>

lemma mark_first_None: "mark_first P ps = (None, qs) \<Longrightarrow> qs = ps \<and> (\<forall>p \<in> set ps. \<not> P p)"
  by (induction ps arbitrary: qs) (auto split: if_splits prod.splits)

lemma mark_first_Some:
  "mark_first P ps = (Some i, qs) \<Longrightarrow>
     \<exists>xs p ys. ps = xs @ p # ys \<and> P p \<and> i = pd_id p \<and> qs = xs @ p\<lparr>pd_used := True\<rparr> # ys"
proof (induction ps arbitrary: qs)
  case (Cons p ps)
  show ?case
  proof (cases "P p")
    case True
    then have "p # ps = [] @ p # ps \<and> P p \<and> i = pd_id p \<and> qs = [] @ p\<lparr>pd_used := True\<rparr> # ps"
      using Cons.prems by simp
    then show ?thesis by blast
  next
    case False
    then obtain rs where r: "mark_first P ps = (Some i, rs)" "qs = p # rs"
      using Cons.prems by (auto split: prod.splits)
    then obtain xs q ys where "ps = xs @ q # ys \<and> P q \<and> i = pd_id q \<and> rs = xs @ q\<lparr>pd_used := True\<rparr> # ys"
      using Cons.IH by blast
    then have "p # ps = (p # xs) @ q # ys \<and> P q \<and> i = pd_id q \<and> qs = (p # xs) @ q\<lparr>pd_used := True\<rparr> # ys"
      using r(2) by simp
    then show ?thesis by blast
  qed
qed simp

lemma match_result_cases:
  assumes "match_result t ps = (r, qs)"
  shows "(r = None \<and> qs = ps \<and> list_all pd_used ps) \<or>
    (\<exists>xs p ys. r = Some (pd_id p) \<and> ps = xs @ p # ys \<and> \<not> pd_used p \<and> qs = xs @ p\<lparr>pd_used := True\<rparr> # ys)"
proof -
  have next_case: ?thesis if "consume_next_pending ps = (r, qs)"
  proof (cases r)
    case None
    with that show ?thesis using mark_first_None [of _ ps qs]
      by (auto simp: consume_next_pending_def list_all_iff)
  next
    case (Some i)
    with that have "mark_first (\<lambda>p. \<not> pd_used p) ps = (Some i, qs)" by (simp add: consume_next_pending_def)
    from mark_first_Some [OF this] Some show ?thesis by blast
  qed
  have same: "rs = ps" if "mark_pending_used ps i = (None, rs)" for i rs
    using that mark_first_None by (auto simp: mark_pending_used_def)
  show ?thesis
  proof (cases "consume_next_pending ps = (r, qs)")
    case False
    then obtain i j where "t = Some i" "mark_pending_used ps i = (Some j, qs)" "r = Some j"
      using assms same by (fastforce simp: match_result_def split: option.splits if_splits prod.splits)
    then have "mark_first (\<lambda>p. pd_id p = i \<and> \<not> pd_used p) ps = (Some j, qs)"
      by (simp add: mark_pending_used_def)
    from mark_first_Some [OF this] \<open>r = Some j\<close> show ?thesis by blast
  qed (rule next_case)
qed

section \<open>Dropping unresolved calls\<close>

text \<open>What dropping calls leaves of the message they were in.\<close>

definition reduced :: "message \<Rightarrow> string set \<Rightarrow> message \<Rightarrow> bool" where
  "reduced m drops m' \<longleftrightarrow>
     ms_role m' = ms_role m \<and> the_calls m' = filter (\<lambda>c. \<forall>i \<in> drops. tc_id c \<noteq> Some i) (the_calls m)"

lemma reduced_refl [simp]: "reduced m {} m"
  by (simp add: reduced_def)

lemma reduced_trans: "reduced m A m' \<Longrightarrow> reduced m' B m'' \<Longrightarrow> reduced m (A \<union> B) m''"
  by (auto simp: reduced_def intro!: filter_cong)

lemma drop_call_reduced:
  assumes "n < length ms"
  shows "\<exists>m' r'. drop_call policy (n, i) (ms, r) = (ms[n := m'], r') \<and> reduced (ms ! n) {i} m'"
proof (cases "ms_tool_calls (ms ! n)")
  case None
  then have "drop_call policy (n, i) (ms, r) = (ms[n := ms ! n], r) \<and> reduced (ms ! n) {i} (ms ! n)"
    using assms by (simp add: drop_call_def reduced_def the_calls_def)
  then show ?thesis by blast
next
  case (Some cs)
  then show ?thesis using assms
    by (auto simp: drop_call_def reduced_def the_calls_def Let_def)
qed

lemma drop_calls_reduced:
  "n < length ms \<Longrightarrow>
     \<exists>m' r'. fold (drop_call policy) (map (\<lambda>i. (n, i)) js) (ms, r) = (ms[n := m'], r') \<and> reduced (ms ! n) (set js) m'"
proof (induction js arbitrary: ms r)
  case Nil
  then have "fold (drop_call policy) (map (\<lambda>i. (n, i)) []) (ms, r) = (ms[n := ms ! n], r) \<and> reduced (ms ! n) (set []) (ms ! n)"
    by simp
  then show ?case by blast
next
  case (Cons i js)
  obtain m1 r1 where s: "drop_call policy (n, i) (ms, r) = (ms[n := m1], r1)" "reduced (ms ! n) {i} m1"
    using drop_call_reduced [OF Cons.prems] by blast
  obtain m2 r2 where t: "fold (drop_call policy) (map (\<lambda>i. (n, i)) js) (ms[n := m1], r1) = ((ms[n := m1])[n := m2], r2)"
    "reduced ((ms[n := m1]) ! n) (set js) m2"
    using Cons.IH [of "ms[n := m1]" r1] Cons.prems by auto
  have "fold (drop_call policy) (map (\<lambda>i. (n, i)) (i # js)) (ms, r) = (ms[n := m2], r2)" using s(1) t(1) by simp
  moreover have "reduced (ms ! n) (set (i # js)) m2"
    using reduced_trans [OF s(2), of "set js" m2] t(2) Cons.prems by simp
  ultimately show ?case by blast
qed

section \<open>The invariant of the pass\<close>

definition group_state :: "message list \<Rightarrow> pending_tool_call list \<Rightarrow> bool" where
  "group_state P pending \<longleftrightarrow>
     (\<exists>A m ts old cur ids. P = A @ m # ts \<and> pending = old @ cur \<and> list_all pd_used old \<and>
        scan_history {} A = Some {} \<and> ms_role m = ''assistant'' \<and> valid_ids (the_calls m) \<and>
        map tc_id (the_calls m) = map (Some \<circ> pd_id) cur \<and>
        list_all (\<lambda>p. pd_message_index p = length A) cur \<and>
        list_all is_result ts \<and> map ms_tool_call_id ts = map Some ids \<and> distinct ids \<and>
        set ids = pd_id ` {p \<in> set cur. pd_used p})"

definition step_inv :: "message list \<Rightarrow> pending_tool_call list \<Rightarrow> bool" where
  "step_inv P pending \<longleftrightarrow>
     (scan_history {} P = Some {} \<and> list_all pd_used pending) \<or> group_state P pending"

lemma map_filter_Some: "map f xs = map (Some \<circ> g) ys \<Longrightarrow> List.map_filter f xs = map g ys"
  by (induction xs arbitrary: ys) (auto simp: map_filter_simps)

lemma scan_group:
  assumes "scan_history {} A = Some {}" and "ms_role m = ''assistant''" and "valid_ids (the_calls m)"
    and "set (List.map_filter tc_id (the_calls m)) = set ids"
    and "list_all is_result ts" and "map ms_tool_call_id ts = map Some ids" and "distinct ids"
  shows "scan_history {} (A @ m # ts) = Some {}"
  using assms scan_results [OF assms(5-7) subset_refl] by (simp add: scan_append)

lemma group_distinct:
  assumes "valid_ids cs" and "map tc_id cs = map (Some \<circ> pd_id) cur"
  shows "distinct (map pd_id cur)"
  using assms by (auto simp: valid_ids_def distinct_map comp_def inj_on_def)

lemma group_closed:
  assumes "group_state P pending" and "list_all pd_used pending"
  shows "scan_history {} P = Some {}"
proof -
  obtain A m ts old cur ids where g: "P = A @ m # ts" "pending = old @ cur"
    "scan_history {} A = Some {}" "ms_role m = ''assistant''" "valid_ids (the_calls m)"
    "map tc_id (the_calls m) = map (Some \<circ> pd_id) cur"
    "list_all is_result ts" "map ms_tool_call_id ts = map Some ids" "distinct ids"
    "set ids = pd_id ` {p \<in> set cur. pd_used p}"
    using assms(1) unfolding group_state_def by blast
  have "{p \<in> set cur. pd_used p} = set cur" using assms(2) g(2) by (auto simp: list_all_iff)
  then have "set (List.map_filter tc_id (the_calls m)) = set ids"
    using map_filter_Some [OF g(6)] g(10) by simp
  from scan_group [OF g(3-5) this g(7-9)] show ?thesis by (simp add: g(1))
qed

lemma downgrade_group:
  assumes "group_state P pending"
  shows "\<exists>P' r'. downgrade_unresolved_pending policy (P @ R) pending r = (P' @ R, [], r') \<and>
    length P' = length P \<and> scan_history {} P' = Some {}"
proof -
  obtain A m ts old cur ids where g: "P = A @ m # ts" "pending = old @ cur" "list_all pd_used old"
    "scan_history {} A = Some {}" "ms_role m = ''assistant''" "valid_ids (the_calls m)"
    "map tc_id (the_calls m) = map (Some \<circ> pd_id) cur"
    "list_all (\<lambda>p. pd_message_index p = length A) cur"
    "list_all is_result ts" "map ms_tool_call_id ts = map Some ids" "distinct ids"
    "set ids = pd_id ` {p \<in> set cur. pd_used p}"
    using assms unfolding group_state_def by blast
  define us where "us = map pd_id (filter (\<lambda>p. \<not> pd_used p) cur)"
  have "filter (\<lambda>p. \<not> pd_used p) old = []" using g(3) by (auto simp: list_all_iff filter_empty_conv)
  then have un: "unresolved pending = map (\<lambda>i. (length A, i)) us"
    using g(8) by (auto simp: unresolved_def g(2) us_def list_all_iff comp_def)
  obtain m' r' where d: "fold (drop_call policy) (unresolved pending) (P @ R, r) = ((P @ R)[length A := m'], r')"
    "reduced m (set us) m'"
    using drop_calls_reduced [of "length A" "P @ R" policy us r] unfolding un by (auto simp: g(1))
  let ?kept = "filter (\<lambda>c. \<forall>i \<in> set us. tc_id c \<noteq> Some i) (the_calls m)"
  have m': "ms_role m' = ''assistant''" "the_calls m' = ?kept" using d(2) g(5) by (simp_all add: reduced_def)
  have "valid_ids ?kept" using g(6) by (auto simp: valid_ids_def list_all_iff distinct_map inj_on_def)
  moreover have "set (List.map_filter tc_id ?kept) = set ids"
  proof -
    have dist: "distinct (map pd_id cur)" by (rule group_distinct [OF g(6,7)])
    have "set (List.map_filter tc_id ?kept) = set (List.map_filter tc_id (the_calls m)) - set us"
      by (auto simp: map_filter_def) 
    also have "\<dots> = pd_id ` set cur - set us" using map_filter_Some [OF g(7)] by simp
    also have "\<dots> = pd_id ` {p \<in> set cur. pd_used p}"
      using dist by (auto simp: us_def distinct_map inj_on_def)
    finally show ?thesis using g(12) by simp
  qed
  ultimately have "scan_history {} (A @ m' # ts) = Some {}"
    using m' by (intro scan_group [OF g(4) _ _ _ g(9-11)]) simp_all
  moreover have "(P @ R)[length A := m'] = (A @ m' # ts) @ R" by (simp add: g(1))
  ultimately show ?thesis using d(1) by (auto simp: downgrade_unresolved_pending_def g(1))
qed

lemma downgrade_inv:
  assumes "step_inv P pending"
  shows "\<exists>P' r'. downgrade_unresolved_pending policy (P @ R) pending r = (P' @ R, [], r') \<and>
    length P' = length P \<and> scan_history {} P' = Some {}"
  using assms unfolding step_inv_def
proof
  assume c: "scan_history {} P = Some {} \<and> list_all pd_used pending"
  then have "unresolved pending = []" by (auto simp: unresolved_def list_all_iff filter_empty_conv)
  with c show ?thesis by (auto simp: downgrade_unresolved_pending_def)
qed (rule downgrade_group)

text \<open>
  The hypothesis on the messages that come in: the identifiers of one assistant message are
  distinct once the missing ones are filled in, results carry no calls, and their
  identifiers carry no white space around them.
\<close>

definition tidy_message :: "nat \<Rightarrow> message \<Rightarrow> bool" where
  "tidy_message k m \<longleftrightarrow>
     (if ms_role m = ''tool''
      then ms_tool_calls m = None \<and>
           (case ms_tool_call_id m of None \<Rightarrow> True | Some i \<Rightarrow> trim i = i)
      else ms_role m = ''assistant'' \<longrightarrow>
           (case ms_tool_calls m of None \<Rightarrow> True
            | Some cs \<Rightarrow> distinct (map tc_id (fst (fill_calls k 0 cs)))))"

fun tidy_from :: "nat \<Rightarrow> message list \<Rightarrow> bool" where
  "tidy_from k [] = True"
| "tidy_from k (m # ms) = (tidy_message k m \<and> tidy_from (k + 1) ms)"

definition tidy_history :: "message list \<Rightarrow> bool" where
  "tidy_history ms = tidy_from 0 ms"

lemma assistant_step_inv:
  assumes "scan_history {} P = Some {}" and "list_all pd_used pending" and "ms_role m = ''assistant''"
    and "tidy_message (length P) m"
  shows "\<exists>m' pending' r'. assistant_step (length P) (P @ m # R, pending, r) = (P @ m' # R, pending', r') \<and>
    step_inv (P @ [m']) pending'"
proof (cases "ms_tool_calls m")
  case None
  then have "assistant_step (length P) (P @ m # R, pending, r) = (P @ m # R, pending, r)"
    by (simp add: assistant_step_def)
  moreover have "step_inv (P @ [m]) pending"
    using assms None by (simp add: step_inv_def scan_append the_calls_def valid_ids_def)
  ultimately show ?thesis by blast
next
  case (Some cs)
  obtain cs' new n where f: "fill_calls (length P) 0 cs = (cs', new, n)" by (metis prod.exhaust)
  let ?m = "m\<lparr>ms_tool_calls := Some cs'\<rparr>"
  have "assistant_step (length P) (P @ m # R, pending, r)
      = (P @ ?m # R, pending @ new, r\<lparr>hr_synthetic_tool_ids := hr_synthetic_tool_ids r + n\<rparr>)"
    using Some f by (simp add: assistant_step_def)
  moreover have "group_state (P @ [?m]) (pending @ new)"
    unfolding group_state_def
  proof (intro exI conjI)
    have ids: "map tc_id cs' = map (Some \<circ> pd_id) new" "list_all (\<lambda>c. \<not> blank_id (tc_id c)) cs'"
      "list_all (\<lambda>p. pd_message_index p = length P \<and> \<not> pd_used p) new"
      using fill_calls_ids [OF f] by auto
    show "P @ [?m] = P @ ?m # []" "pending @ new = pending @ new" by simp_all
    show "list_all pd_used pending" "scan_history {} P = Some {}" "ms_role ?m = ''assistant''" using assms by simp_all
    show "map tc_id (the_calls ?m) = map (Some \<circ> pd_id) new" using ids(1) by (simp add: the_calls_def)
    have "distinct (map tc_id cs')" using assms(3,4) Some f by (simp add: tidy_message_def)
    with ids(2) show "valid_ids (the_calls ?m)" by (simp add: valid_ids_def the_calls_def)
    show "list_all (\<lambda>p. pd_message_index p = length P) new" using ids(3) by (simp add: list_all_iff)
    show "set [] = pd_id ` {p \<in> set new. pd_used p}" using ids(3) by (auto simp: list_all_iff)
  qed simp_all
  ultimately show ?thesis by (auto simp: step_inv_def)
qed

lemma group_result:
  assumes "group_state P (xs @ p # ys)" and "\<not> pd_used p" and "ms_role t = ''tool''" and "ms_tool_calls t = None"
    and "ms_tool_call_id t = Some (pd_id p)"
  shows "group_state (P @ [t]) (xs @ p\<lparr>pd_used := True\<rparr> # ys)"
proof -
  obtain A m ts old cur ids where g: "P = A @ m # ts" "xs @ p # ys = old @ cur" "list_all pd_used old"
    "scan_history {} A = Some {}" "ms_role m = ''assistant''" "valid_ids (the_calls m)"
    "map tc_id (the_calls m) = map (Some \<circ> pd_id) cur"
    "list_all (\<lambda>p. pd_message_index p = length A) cur"
    "list_all is_result ts" "map ms_tool_call_id ts = map Some ids" "distinct ids"
    "set ids = pd_id ` {p \<in> set cur. pd_used p}"
    using assms(1) unfolding group_state_def by blast
  have "length old \<le> length xs"
  proof (rule ccontr)
    assume "\<not> length old \<le> length xs"
    then have "length xs < length old" by simp
    then have "old ! length xs = (old @ cur) ! length xs" by (simp add: nth_append)
    also have "\<dots> = p" by (metis g(2) nth_append_length)
    finally have "p \<in> set old" using \<open>length xs < length old\<close> by (metis nth_mem)
    with g(3) assms(2) show False by (auto simp: list_all_iff)
  qed
  then obtain zs where zs: "xs = old @ zs" "cur = zs @ p # ys"
    using g(2) by (metis append_eq_append_conv_if append_take_drop_id append_eq_append_conv same_append_eq append.assoc)
  let ?p = "p\<lparr>pd_used := True\<rparr>"
  let ?cur = "zs @ ?p # ys"
  have dist: "distinct (map pd_id cur)" by (rule group_distinct [OF g(6,7)])
  then have fresh: "pd_id p \<notin> pd_id ` {q \<in> set cur. pd_used q}"
    using assms(2) by (auto simp: zs(2) image_iff)
  show ?thesis
    unfolding group_state_def
  proof (intro exI conjI)
    show "P @ [t] = A @ m # (ts @ [t])" by (simp add: g(1))
    show "xs @ ?p # ys = old @ ?cur" by (simp add: zs(1))
    show "map tc_id (the_calls m) = map (Some \<circ> pd_id) ?cur" using g(7) by (simp add: zs(2))
    show "list_all (\<lambda>p. pd_message_index p = length A) ?cur" using g(8) by (simp add: zs(2))
    show "list_all is_result (ts @ [t])" using g(9) assms(3,4) by (simp add: is_result_def)
    show "map ms_tool_call_id (ts @ [t]) = map Some (ids @ [pd_id p])" using g(10) assms(5) by simp
    show "distinct (ids @ [pd_id p])" using g(11,12) fresh by simp
    have "{q \<in> set ?cur. pd_used q} = insert ?p {q \<in> set cur. pd_used q}"
      using assms(2) by (auto simp: zs(2))
    then show "set (ids @ [pd_id p]) = pd_id ` {q \<in> set ?cur. pd_used q}" using g(12) by auto
  qed (use g in auto)
qed

lemma step_inv_unused:
  "step_inv P pending \<Longrightarrow> \<not> list_all pd_used pending \<Longrightarrow> group_state P pending"
  by (simp add: step_inv_def)

lemma step_inv_used:
  "step_inv P pending \<Longrightarrow> list_all pd_used pending \<Longrightarrow> scan_history {} P = Some {}"
  using group_closed by (auto simp: step_inv_def)

lemma downgraded_role [simp]: "ms_role (downgrade_tool_message S policy m) = ''user''"
  by (simp add: downgrade_tool_message_def Let_def)

lemma tool_step_inv:
  assumes inv: "step_inv P pending" and m: "ms_role m = ''tool''" and tidy: "tidy_message (length P) m"
  shows "\<exists>m' pending' r'. tool_step S policy (length P) (P @ m # R, pending, r) = (P @ m' # R, pending', r') \<and>
    step_inv (P @ [m']) pending'"
proof -
  obtain matched pending' where match: "match_result (ms_tool_call_id m) pending = (matched, pending')"
    by (metis prod.exhaust)
  from match_result_cases [OF match] show ?thesis
  proof
    assume none: "matched = None \<and> pending' = pending \<and> list_all pd_used pending"
    let ?m = "downgrade_tool_message S policy m"
    have "scan_history {} (P @ [?m]) = Some {}"
      using step_inv_used [OF inv] none by (simp add: scan_append)
    with none show ?thesis by (auto simp: tool_step_def match Let_def step_inv_def)
  next
    assume "\<exists>xs p ys. matched = Some (pd_id p) \<and> pending = xs @ p # ys \<and> \<not> pd_used p \<and>
      pending' = xs @ p\<lparr>pd_used := True\<rparr> # ys"
    then obtain xs p ys where p: "matched = Some (pd_id p)" "pending = xs @ p # ys" "\<not> pd_used p"
      "pending' = xs @ p\<lparr>pd_used := True\<rparr> # ys" by blast
    then have g: "group_state P (xs @ p # ys)" using step_inv_unused [OF inv] by simp
    let ?t = "m\<lparr>ms_tool_call_id := Some (pd_id p)\<rparr>"
    have calls: "ms_tool_calls m = None" using tidy m by (simp add: tidy_message_def)
    have st: "step_inv (P @ [?t]) pending'"
      unfolding step_inv_def p(4) using group_result [OF g p(3), of ?t] m calls by simp
    have same: "ms_tool_call_id m = Some (pd_id p)" if "original_id (ms_tool_call_id m) = Some (pd_id p)"
      using that tidy m by (auto simp: original_id_def tidy_message_def split: option.splits if_splits)
    have "tool_step S policy (length P) (P @ m # R, pending, r) =
        (P @ ?t # R, pending', if original_id (ms_tool_call_id m) = Some (pd_id p) then r
          else r\<lparr>hr_paired_tool_results := hr_paired_tool_results r + 1\<rparr>)"
      using same by (simp add: tool_step_def match p(1) Let_def)
    with st show ?thesis by blast
  qed
qed

lemma history_step_inv:
  assumes inv: "step_inv P pending" and tidy: "tidy_message (length P) m"
  shows "\<exists>P' m' pending' r'. history_step S policy (length P) (P @ m # R, pending, r) = (P' @ m' # R, pending', r') \<and>
    length P' = length P \<and> step_inv (P' @ [m']) pending'"
proof (cases "ms_role m = ''tool''")
  case True
  then have "history_step S policy (length P) (P @ m # R, pending, r) = tool_step S policy (length P) (P @ m # R, pending, r)"
    by (simp add: history_step_def Let_def)
  with tool_step_inv [OF inv True tidy, of S policy R r] show ?thesis by metis
next
  case False
  obtain P1 pending1 r1 where st: "(if \<not> list_all pd_used pending
      then downgrade_unresolved_pending policy (P @ m # R) pending r else (P @ m # R, pending, r)) = (P1 @ m # R, pending1, r1)"
    and len: "length P1 = length P" and closed: "scan_history {} P1 = Some {}" "list_all pd_used pending1"
  proof (cases "list_all pd_used pending")
    case True
    then show thesis using that [of P pending r] step_inv_used [OF inv] by simp
  next
    case unused: False
    with downgrade_inv [OF inv, of policy "m # R" r] that [of _ "[]"] show thesis by auto
  qed
  have step: "history_step S policy (length P) (P @ m # R, pending, r) =
      (if ms_role m = ''assistant'' then assistant_step (length P) (P1 @ m # R, pending1, r1) else (P1 @ m # R, pending1, r1))"
    using False st by (simp add: history_step_def Let_def)
  show ?thesis
  proof (cases "ms_role m = ''assistant''")
    case True
    with assistant_step_inv [OF closed True, of R r1] tidy step len show ?thesis by fastforce
  next
    case other: False
    then have "step_inv (P1 @ [m]) pending1" using closed False by (simp add: step_inv_def scan_append)
    with step other len show ?thesis by auto
  qed
qed

lemma history_fold_inv:
  "step_inv P pending \<Longrightarrow> tidy_from (length P) R \<Longrightarrow>
     \<exists>P' pending' r'. fold (history_step S policy) [length P..<length P + length R] (P @ R, pending, r) = (P', pending', r') \<and>
       length P' = length P + length R \<and> step_inv P' pending'"
proof (induction R arbitrary: P pending r)
  case (Cons m R)
  obtain P1 m1 pending1 r1 where s: "history_step S policy (length P) (P @ m # R, pending, r) = (P1 @ m1 # R, pending1, r1)"
    "length P1 = length P" "step_inv (P1 @ [m1]) pending1"
    using history_step_inv [OF Cons.prems(1)] Cons.prems(2) by fastforce
  have "tidy_from (length (P1 @ [m1])) R" using Cons.prems(2) s(2) by simp
  from Cons.IH [OF s(3) this, of r1] s(2)
  obtain P' pending' r' where t: "fold (history_step S policy) [Suc (length P)..<Suc (length P) + length R] (P1 @ m1 # R, pending1, r1) = (P', pending', r')"
    "length P' = Suc (length P) + length R" "step_inv P' pending'" by auto
  have "[length P..<length P + length (m # R)] = length P # [Suc (length P)..<Suc (length P) + length R]"
    using upt_conv_Cons [of "length P" "length P + length (m # R)"] by (simp del: upt_Suc)
  then have "fold (history_step S policy) [length P..<length P + length (m # R)] (P @ m # R, pending, r) = (P', pending', r')"
    using s(1) t(1) by simp
  with t(2,3) show ?case by (metis add_Suc add_Suc_right length_Cons)
qed simp

text \<open>Before the identifiers are stabilised the history is paired.\<close>

lemma pass_paired:
  assumes "tidy_history ms"
  shows "\<exists>ms1 pending r1 ms2 r2. fold (history_step S policy) [0..<length ms] (ms, [], default_repair) = (ms1, pending, r1) \<and>
    downgrade_unresolved_pending policy ms1 pending r1 = (ms2, [], r2) \<and> length ms2 = length ms \<and> paired_history ms2"
proof -
  have "step_inv [] []" by (simp add: step_inv_def)
  from history_fold_inv [OF this, of ms S policy default_repair] assms
  obtain ms1 pending r1 where f: "fold (history_step S policy) [0..<length ms] (ms, [], default_repair) = (ms1, pending, r1)"
    "length ms1 = length ms" "step_inv ms1 pending" by (auto simp: tidy_history_def)
  from downgrade_inv [OF f(3), of policy "[]" r1] f show ?thesis by (auto simp: paired_history_def)
qed

section \<open>Stable identifiers\<close>

fun stable_calls :: "nat \<Rightarrow> nat \<Rightarrow> tool_call list \<Rightarrow> bool" where
  "stable_calls mi ti [] = True"
| "stable_calls mi ti (c # cs) =
     (tc_id c = Some (synthetic_tool_id mi ti c) \<and> stable_calls mi (ti + 1) cs)"

fun stable_history :: "nat \<Rightarrow> message list \<Rightarrow> bool" where
  "stable_history mi [] = True"
| "stable_history mi (m # ms) = (stable_calls mi 0 (the_calls m) \<and> stable_history (mi + 1) ms)"

text \<open>The new identifiers of a list of calls, and the map the code builds from the old ones.\<close>

fun new_ids :: "nat \<Rightarrow> nat \<Rightarrow> tool_call list \<Rightarrow> string list" where
  "new_ids mi ti [] = []"
| "new_ids mi ti (c # cs) = synthetic_tool_id mi ti c # new_ids mi (ti + 1) cs"

lemma stabilize_calls_ids:
  assumes "stabilize_calls mi ti cs im = (cs', im', n)"
  shows "map tc_id cs' = map Some (new_ids mi ti cs) \<and> stable_calls mi ti cs' \<and> (n = 0 \<longleftrightarrow> cs' = cs)"
  using assms
proof (induction cs arbitrary: ti im cs' im' n)
  case (Cons c cs)
  let ?s = "synthetic_tool_id mi ti c"
  define im1 where "im1 = (case tc_id c of Some i \<Rightarrow> if trim i \<noteq> [] then AList.update i ?s im else im | None \<Rightarrow> im)"
  obtain ds im2 k where r: "stabilize_calls mi (ti + 1) cs im1 = (ds, im2, k)" by (metis prod.exhaust)
  have e: "cs' = (if tc_id c \<noteq> Some ?s then c\<lparr>tc_id := Some ?s\<rparr> else c) # ds"
    "n = (if tc_id c \<noteq> Some ?s then 1 else 0) + k"
    using Cons.prems r by (auto simp: im1_def [symmetric] Let_def split: if_splits)
  have "c\<lparr>tc_id := Some ?s\<rparr> = c \<Longrightarrow> tc_id c = Some ?s" by (metis tool_call.select_convs(1) tool_call.surjective tool_call.update_convs(1))
  with Cons.IH [OF r] show ?case by (auto simp: e)
qed simp

lemma stabilize_calls_map:
  "stabilize_calls mi ti cs im = (cs', im', n) \<Longrightarrow>
     (\<forall>i. i \<notin> set (List.map_filter tc_id cs) \<longrightarrow> map_of im' i = map_of im i) \<and>
     (valid_ids cs \<longrightarrow> map (map_of im') (List.map_filter tc_id cs) = map Some (new_ids mi ti cs))"
proof (induction cs arbitrary: ti im cs' im' n)
  case (Cons c cs)
  let ?s = "synthetic_tool_id mi ti c"
  define im1 where "im1 = (case tc_id c of Some i \<Rightarrow> if trim i \<noteq> [] then AList.update i ?s im else im | None \<Rightarrow> im)"
  obtain ds im2 k where r: "stabilize_calls mi (ti + 1) cs im1 = (ds, im2, k)" by (metis prod.exhaust)
  have e: "im' = im2" using Cons.prems r by (auto simp: im1_def [symmetric] Let_def split: if_splits)
  note IH = Cons.IH [OF r]
  have "map_of im' i = map_of im i" if "i \<notin> set (List.map_filter tc_id (c # cs))" for i
  proof -
    have "map_of im1 i = map_of im i" "i \<notin> set (List.map_filter tc_id cs)"
      using that by (auto simp: im1_def map_filter_simps AList.update_conv' split: option.splits)
    with IH e show ?thesis by simp
  qed
  moreover have "map (map_of im') (List.map_filter tc_id (c # cs)) = map Some (new_ids mi ti (c # cs))" if v: "valid_ids (c # cs)"
  proof -
    obtain j where j: "tc_id c = Some j" "trim j \<noteq> []"
      using v by (auto simp: valid_ids_def blank_id_def split: option.splits)
    have v: "valid_ids cs" "Some j \<notin> set (map tc_id cs)" using v j by (auto simp: valid_ids_def)
    then have "j \<notin> set (List.map_filter tc_id cs)" by (force simp: map_filter_def)
    then have "map_of im2 j = Some ?s" using IH j by (simp add: im1_def AList.update_conv')
    with IH v(1) e j show ?thesis by (simp add: map_filter_simps)
  qed
  ultimately show ?case by blast
qed (simp add: map_filter_simps)

lemma new_ids_props:
  "distinct (new_ids mi ti cs)" "i \<in> set (new_ids mi ti cs) \<Longrightarrow> \<not> blank_id (Some i) \<and> trim i = i"
proof -
  have later: "i \<in> set (new_ids mi ti cs) \<Longrightarrow> \<exists>tj c. ti \<le> tj \<and> i = synthetic_tool_id mi tj c" for i ti cs
    by (induction cs arbitrary: ti) (auto, metis Suc_leD)
  show "distinct (new_ids mi ti cs)"
  proof (induction cs arbitrary: ti)
    case (Cons c cs)
    have "synthetic_tool_id mi ti c \<notin> set (new_ids mi (ti + 1) cs)"
    proof
      assume "synthetic_tool_id mi ti c \<in> set (new_ids mi (ti + 1) cs)"
      then obtain tj d where "ti + 1 \<le> tj" "synthetic_tool_id mi ti c = synthetic_tool_id mi tj d"
        using later by blast
      with synthetic_inj show False by fastforce
    qed
    with Cons.IH show ?case by simp
  qed simp
  show "i \<in> set (new_ids mi ti cs) \<Longrightarrow> \<not> blank_id (Some i) \<and> trim i = i"
    using later [of i ti cs] by (auto simp: synthetic_trim)
qed

lemma valid_new_calls:
  assumes "map tc_id cs = map Some (new_ids mi ti ds)"
  shows "valid_ids cs" "List.map_filter tc_id cs = new_ids mi ti ds"
proof -
  have "c \<in> set cs \<Longrightarrow> \<not> blank_id (tc_id c)" for c
    using assms new_ids_props(2) [of _ mi ti ds] by (metis (no_types, lifting) imageE image_eqI list.set_map)
  then show "valid_ids cs" using new_ids_props(1) by (simp add: valid_ids_def list_all_iff assms distinct_map)
  show "List.map_filter tc_id cs = new_ids mi ti ds"
    using map_filter_Some [of tc_id cs id "new_ids mi ti ds"] assms by simp
qed

lemma own_calls:
  assumes "stabilize_own_calls mi m im = (m', im', a)"
  shows "\<exists>cs'. stabilize_calls mi 0 (the_calls m) im = (cs', im', a) \<and> the_calls m' = cs'"
    and "ms_role m' = ms_role m" and "ms_tool_call_id m' = ms_tool_call_id m"
    and "ms_tool_calls m' = None \<longleftrightarrow> ms_tool_calls m = None" and "a = 0 \<Longrightarrow> m' = m"
proof -
  have same: "ms_tool_calls m = Some cs \<Longrightarrow> m\<lparr>ms_tool_calls := Some cs\<rparr> = m" for cs by simp
  have zero: "stabilize_calls mi 0 cs im = (cs', im', 0) \<Longrightarrow> cs' = cs" for cs cs'
    using stabilize_calls_ids by blast
  show "\<exists>cs'. stabilize_calls mi 0 (the_calls m) im = (cs', im', a) \<and> the_calls m' = cs'"
    "ms_role m' = ms_role m" "ms_tool_call_id m' = ms_tool_call_id m"
    "ms_tool_calls m' = None \<longleftrightarrow> ms_tool_calls m = None" "a = 0 \<Longrightarrow> m' = m"
    using assms same
    by (auto dest: zero simp: stabilize_own_calls_def the_calls_def split: option.splits prod.splits)
qed

lemma stabilize_paired:
  "scan_history os ms = Some {} \<Longrightarrow> \<forall>i \<in> os. map_of im i \<noteq> None \<Longrightarrow> inj_on (map_of im) os \<Longrightarrow>
     stabilize_messages mi ms im = (ms', n) \<Longrightarrow> scan_history ((the \<circ> map_of im) ` os) ms' = Some {}"
proof (induction ms arbitrary: os im mi ms' n)
  case (Cons m ms)
  obtain m1 im' a where own: "stabilize_own_calls mi m im = (m1, im', a)" by (metis prod.exhaust)
  note m1 = own_calls(2-4) [OF own]
  obtain cs' where c: "stabilize_calls mi 0 (the_calls m) im = (cs', im', a)" and cs': "the_calls m1 = cs'"
    using own_calls(1) [OF own] by blast
  obtain m2 b where m2: "stabilize_result m1 im' = (m2, b)" by (metis prod.exhaust)
  obtain ms2 d where r: "stabilize_messages (mi + 1) ms im' = (ms2, d)" by (metis prod.exhaust)
  have ms': "ms' = m2 # ms2" using Cons.prems(4) own m2 r by simp
  show ?case
  proof (cases "ms_role m = ''tool''")
    case True
    obtain i where i: "ms_tool_call_id m = Some i" "i \<in> os" "ms_tool_calls m = None"
      and s: "scan_history (os - {i}) ms = Some {}"
      using Cons.prems(1) True by (auto split: option.splits if_splits)
    have im: "im' = im" using c i(3) by (simp add: the_calls_def)
    obtain j where j: "map_of im i = Some j" using Cons.prems(2) i(2) by blast
    have tool: "ms_role m1 = ''tool''" "ms_tool_call_id m1 = Some i" "ms_tool_calls m1 = None"
      using m1 True i by auto
    have "m2 = (if i = j then m1 else m1\<lparr>ms_tool_call_id := Some j\<rparr>)"
      using m2 tool im j by (simp add: stabilize_result_def split: if_splits)
    then have "ms_role m2 = ''tool''" "ms_tool_call_id m2 = Some j" "ms_tool_calls m2 = None" using tool by simp_all
    moreover have inj: "inj_on (the \<circ> map_of im) os"
    proof (rule inj_onI)
      fix x y assume xy: "x \<in> os" "y \<in> os" "(the \<circ> map_of im) x = (the \<circ> map_of im) y"
      obtain a b where "map_of im x = Some a" "map_of im y = Some b" using xy(1,2) Cons.prems(2) by blast
      with xy(3) have "map_of im x = map_of im y" by simp
      with xy Cons.prems(3) show "x = y" by (simp add: inj_on_def)
    qed
    then have "(the \<circ> map_of im) ` (os - {i}) = (the \<circ> map_of im) ` os - {j}"
      using i(2) j by (subst inj_on_image_set_diff [of _ os]) auto
    moreover have "scan_history ((the \<circ> map_of im) ` (os - {i})) ms2 = Some {}"
      using Cons.IH [OF s _ _ r [unfolded im]] Cons.prems(2,3) by (auto intro: inj_on_subset)
    moreover have "j \<in> (the \<circ> map_of im) ` os" using i(2) j by force
    ultimately show ?thesis by (simp add: ms')
  next
    case False
    then have os: "os = {}" using Cons.prems(1) by (auto split: if_splits)
    have m2: "m2 = m1" using m2 False m1(1) by (simp add: stabilize_result_def)
    show ?thesis
    proof (cases "ms_role m = ''assistant''")
      case True
      then have v: "valid_ids (the_calls m)" and s: "scan_history (set (List.map_filter tc_id (the_calls m))) ms = Some {}"
        using Cons.prems(1) by (auto simp: os split: if_splits)
      define ids where "ids = List.map_filter tc_id (the_calls m)"
      have news: "map (map_of im') ids = map Some (new_ids mi 0 (the_calls m))"
        using stabilize_calls_map [OF c] v by (simp add: ids_def)
      have v': "valid_ids cs'" "List.map_filter tc_id cs' = new_ids mi 0 (the_calls m)"
        using valid_new_calls [of cs' mi 0 "the_calls m"] stabilize_calls_ids [OF c] by auto
      have dom: "\<forall>i \<in> set ids. map_of im' i \<noteq> None" using news by (metis imageI imageE list.set_map option.distinct(1))
      have "distinct (map (map_of im') ids)" unfolding news using new_ids_props(1) by (simp add: distinct_map)
      then have inj: "inj_on (map_of im') (set ids)" by (simp add: distinct_map)
      have "map (the \<circ> map_of im') ids = new_ids mi 0 (the_calls m)"
        using arg_cong [OF news, of "map the"] by (simp add: comp_def)
      then have img: "(the \<circ> map_of im') ` set ids = set (new_ids mi 0 (the_calls m))" by (metis list.set_map)
      have "scan_history (set (new_ids mi 0 (the_calls m))) ms2 = Some {}"
        using Cons.IH [OF s [folded ids_def] dom inj r] by (simp only: img)
      then show ?thesis using True v' by (simp add: ms' m2 m1 cs' os)
    next
      case other: False
      then have "scan_history {} ms = Some {}" using Cons.prems(1) False by (auto simp: os)
      from Cons.IH [OF this _ _ r] show ?thesis using False other by (simp add: ms' m2 m1 os)
    qed
  qed
qed simp

lemma stable_by_ids:
  "map tc_id cs = map Some (new_ids mi ti ds) \<Longrightarrow> map tc_function cs = map tc_function ds \<Longrightarrow> stable_calls mi ti cs"
  by (induction cs arbitrary: ti ds) (auto simp: synthetic_tool_id_def Cons_eq_map_conv)

lemma stabilize_stable:
  "stabilize_messages mi ms im = (ms', n) \<Longrightarrow> stable_history mi ms'"
proof (induction ms arbitrary: mi im ms' n)
  case (Cons m ms)
  obtain m1 im' a where own: "stabilize_own_calls mi m im = (m1, im', a)" by (metis prod.exhaust)
  obtain m2 b where m2: "stabilize_result m1 im' = (m2, b)" by (metis prod.exhaust)
  obtain ms2 d where r: "stabilize_messages (mi + 1) ms im' = (ms2, d)" by (metis prod.exhaust)
  have "stable_calls mi 0 (the_calls m1)" using own_calls(1) [OF own] stabilize_calls_ids by blast
  moreover have "the_calls m2 = the_calls m1"
    using m2 by (auto simp: stabilize_result_def the_calls_def split: if_splits option.splits)
  ultimately show ?case using Cons.prems own m2 r Cons.IH [OF r] by auto
qed simp

text \<open>Stabilising stable identifiers changes nothing.\<close>

definition identity_map :: "id_map \<Rightarrow> bool" where
  "identity_map im \<longleftrightarrow> (\<forall>i j. map_of im i = Some j \<longrightarrow> j = i)"

lemma stabilize_calls_stable:
  "stable_calls mi ti cs \<Longrightarrow> identity_map im \<Longrightarrow>
     \<exists>im'. stabilize_calls mi ti cs im = (cs, im', 0) \<and> identity_map im'"
proof (induction cs arbitrary: ti im)
  case (Cons c cs)
  let ?s = "synthetic_tool_id mi ti c"
  have "identity_map (AList.update ?s ?s im)" using Cons.prems(2) by (simp add: identity_map_def AList.update_conv')
  then obtain im' where "stabilize_calls mi (ti + 1) cs (AList.update ?s ?s im) = (cs, im', 0)" "identity_map im'"
    using Cons by fastforce
  moreover have "trim ?s \<noteq> []" using synthetic_valid [of mi ti c] by (simp add: blank_id_def)
  ultimately show ?case using Cons.prems(1) by (simp add: Let_def)
qed simp

lemma stabilize_identity:
  "stable_history mi ms \<Longrightarrow> identity_map im \<Longrightarrow> stabilize_messages mi ms im = (ms, 0)"
proof (induction ms arbitrary: mi im)
  case (Cons m ms)
  obtain m1 im' a where own: "stabilize_own_calls mi m im = (m1, im', a)" by (metis prod.exhaust)
  from stabilize_calls_stable [of mi 0 "the_calls m" im] Cons.prems
  obtain im2 where "stabilize_calls mi 0 (the_calls m) im = (the_calls m, im2, 0)" "identity_map im2" by auto
  with own_calls(1,5) [OF own] have m1: "m1 = m" "a = 0" "identity_map im'" by auto
  then have "stabilize_result m im' = (m, 0)"
    by (auto simp: stabilize_result_def identity_map_def split: option.splits)
  with Cons own m1 show ?case by simp
qed simp

text \<open>The pass over a paired history with stable identifiers changes nothing either.\<close>

definition settled :: "message list \<Rightarrow> pending_tool_call list \<Rightarrow> bool" where
  "settled P pending \<longleftrightarrow>
     scan_history {} P = Some {i. \<exists>p \<in> set pending. \<not> pd_used p \<and> pd_id p = i} \<and>
     distinct (map pd_id (filter (\<lambda>p. \<not> pd_used p) pending)) \<and>
     (\<forall>p \<in> set pending. \<not> pd_used p \<longrightarrow> \<not> blank_id (Some (pd_id p)) \<and> trim (pd_id p) = pd_id p)"

lemma mark_first_hit:
  "p \<in> set ps \<Longrightarrow> P p \<Longrightarrow> \<exists>q qs. mark_first P ps = (Some (pd_id q), qs) \<and> P q"
  by (induction ps) (auto split: prod.splits)

lemma stable_calls_ids:
  "stable_calls mi ti cs \<Longrightarrow> c \<in> set cs \<Longrightarrow> \<exists>i. tc_id c = Some i \<and> \<not> blank_id (Some i) \<and> trim i = i"
  by (induction cs arbitrary: ti) (auto simp: synthetic_trim)

abbreviation open_ids_of :: "pending_tool_call list \<Rightarrow> string set" where
  "open_ids_of pending \<equiv> {i. \<exists>p \<in> set pending. \<not> pd_used p \<and> pd_id p = i}"

lemma settled_result:
  assumes s: "settled P pending" and i: "i \<in> open_ids_of pending"
  shows "\<exists>pending'. match_result (Some i) pending = (Some i, pending') \<and> original_id (Some i) = Some i \<and>
    open_ids_of pending' = open_ids_of pending - {i} \<and> set (filter (\<lambda>p. \<not> pd_used p) pending') \<subseteq> set pending \<and>
    distinct (map pd_id (filter (\<lambda>p. \<not> pd_used p) pending'))"
proof -
  from i s have id: "trim i = i" "i \<noteq> []" by (auto simp: settled_def blank_id_def)
  obtain p where "p \<in> set pending" "pd_id p = i \<and> \<not> pd_used p" using i by blast
  then obtain qs where q: "mark_first (\<lambda>p. pd_id p = i \<and> \<not> pd_used p) pending = (Some i, qs)"
    using mark_first_hit [of p pending "\<lambda>p. pd_id p = i \<and> \<not> pd_used p"] by auto
  from mark_first_Some [OF q] obtain xs p ys where p: "pending = xs @ p # ys" "pd_id p = i" "\<not> pd_used p"
    "qs = xs @ p\<lparr>pd_used := True\<rparr> # ys" by blast
  have "match_result (Some i) pending = (Some i, qs)" using q id by (simp add: match_result_def mark_pending_used_def)
  moreover have "original_id (Some i) = Some i" using id by (simp add: original_id_def)
  moreover have dist: "distinct (map pd_id (filter (\<lambda>p. \<not> pd_used p) pending))" using s by (simp add: settled_def)
  then have "i \<notin> open_ids_of xs" "i \<notin> open_ids_of ys" using p(2,3) by (auto simp: p(1) image_iff)
  then have "open_ids_of qs = open_ids_of pending - {i}" using p(2,3) by (auto simp: p(1,4))
  moreover have "set (filter (\<lambda>p. \<not> pd_used p) qs) \<subseteq> set pending" by (auto simp: p(1,4))
  moreover have "distinct (map pd_id (filter (\<lambda>p. \<not> pd_used p) qs))" using dist p(3) by (auto simp: p(1,4))
  ultimately show ?thesis by blast
qed

lemma settled_step:
  assumes s: "settled P pending" and scan: "scan_history {} (P @ m # R) = Some {}"
    and stable: "stable_calls (length P) 0 (the_calls m)"
  shows "\<exists>pending'. history_step S policy (length P) (P @ m # R, pending, r) = (P @ m # R, pending', r) \<and>
    settled (P @ [m]) pending'"
proof (cases "ms_role m = ''tool''")
  case True
  have "scan_history (open_ids_of pending) (m # R) = Some {}" using scan s by (simp add: scan_append settled_def)
  then obtain i where i: "ms_tool_call_id m = Some i" "i \<in> open_ids_of pending" "ms_tool_calls m = None"
    using True by (auto split: option.splits if_splits)
  obtain qs where q: "match_result (Some i) pending = (Some i, qs)" "original_id (Some i) = Some i"
    "open_ids_of qs = open_ids_of pending - {i}" "set (filter (\<lambda>p. \<not> pd_used p) qs) \<subseteq> set pending"
    "distinct (map pd_id (filter (\<lambda>p. \<not> pd_used p) qs))" using settled_result [OF s i(2)] by blast
  have "history_step S policy (length P) (P @ m # R, pending, r) = (P @ m # R, qs, r)"
    using True i(1) q(1,2) by (simp add: history_step_def tool_step_def)
  moreover have "settled (P @ [m]) qs"
    using s True i q(3-5) by (auto simp: settled_def scan_append)
  ultimately show ?thesis by blast
next
  case False
  have "scan_history (open_ids_of pending) (m # R) = Some {}" using scan s by (simp add: scan_append settled_def)
  then have none: "open_ids_of pending = {}" using False by (auto split: if_splits)
  then have used: "list_all pd_used pending" by (auto simp: list_all_iff)
  show ?thesis
  proof (cases "ms_role m = ''assistant'' \<and> ms_tool_calls m \<noteq> None")
    case True
    then obtain cs where cs: "ms_tool_calls m = Some cs" by auto
    have v: "valid_ids cs" using scan s True none by (auto simp: scan_append settled_def the_calls_def cs split: if_splits)
    then have f: "fill_calls (length P) 0 cs = (cs, map (\<lambda>c. \<lparr>pd_id = the (tc_id c), pd_message_index = length P, pd_used = False\<rparr>) cs, 0)"
      by (intro fill_calls_id) (simp add: valid_ids_def)
    let ?new = "map (\<lambda>c. \<lparr>pd_id = the (tc_id c), pd_message_index = length P, pd_used = False\<rparr>) cs"
    have same: "m\<lparr>ms_tool_calls := Some cs\<rparr> = m" using cs by simp
    have "history_step S policy (length P) (P @ m # R, pending, r) = (P @ m # R, pending @ ?new, r)"
      using True False used cs f same by (simp add: history_step_def assistant_step_def)
    moreover have "settled (P @ [m]) (pending @ ?new)"
    proof -
      have ids: "\<exists>i. tc_id c = Some i \<and> \<not> blank_id (Some i) \<and> trim i = i" if "c \<in> set cs" for c
        using stable_calls_ids [OF stable] that by (simp add: the_calls_def cs)
      have open_new: "open_ids_of (pending @ ?new) = set (List.map_filter tc_id cs)"
      proof -
        have "map tc_id cs = map (Some \<circ> (\<lambda>c. the (tc_id c))) cs"
          using ids by (intro map_cong) fastforce+
        then have mf: "List.map_filter tc_id cs = map (\<lambda>c. the (tc_id c)) cs" by (rule map_filter_Some)
        have "open_ids_of ?new = (\<lambda>c. the (tc_id c)) ` set cs" by auto
        moreover have "open_ids_of (pending @ ?new) = open_ids_of pending \<union> open_ids_of ?new"
          unfolding set_append bex_Un by blast
        then have "open_ids_of (pending @ ?new) = open_ids_of ?new" unfolding none by simp
        ultimately show ?thesis unfolding mf by simp
      qed
      have "filter (\<lambda>p. \<not> pd_used p) (pending @ ?new) = ?new"
        using used by (auto simp: list_all_iff filter_empty_conv)
      moreover have "distinct (map (\<lambda>c. the (tc_id c)) cs)"
        using v ids by (auto simp: valid_ids_def distinct_map inj_on_def) (metis option.sel)
      ultimately have "distinct (map pd_id (filter (\<lambda>p. \<not> pd_used p) (pending @ ?new)))" by (simp add: comp_def)
      moreover have "scan_history {} (P @ [m]) = Some (open_ids_of (pending @ ?new))"
        using s none True v False unfolding open_new by (simp add: scan_append settled_def the_calls_def cs)
      ultimately show ?thesis using used ids by (fastforce simp: settled_def list_all_iff)
    qed
    ultimately show ?thesis by blast
  next
    case other: False
    then have "history_step S policy (length P) (P @ m # R, pending, r) = (P @ m # R, pending, r)"
      using False used other by (auto simp: history_step_def assistant_step_def Let_def)
    moreover have "settled (P @ [m]) pending"
      using s none False other by (auto simp: settled_def scan_append the_calls_def valid_ids_def)
    ultimately show ?thesis by blast
  qed
qed

lemma settled_fold:
  "settled P pending \<Longrightarrow> scan_history {} (P @ R) = Some {} \<Longrightarrow> stable_history (length P) R \<Longrightarrow>
     \<exists>pending'. fold (history_step S policy) [length P..<length P + length R] (P @ R, pending, r) = (P @ R, pending', r) \<and>
       settled (P @ R) pending'"
proof (induction R arbitrary: P pending)
  case (Cons m R)
  obtain q where q: "history_step S policy (length P) (P @ m # R, pending, r) = (P @ m # R, q, r)" "settled (P @ [m]) q"
    using settled_step [OF Cons.prems(1,2), of S policy r] Cons.prems(3) by auto
  have "scan_history {} ((P @ [m]) @ R) = Some {}" "stable_history (length (P @ [m])) R" using Cons.prems(2,3) by simp_all
  from Cons.IH [OF q(2) this]
  obtain q' where q': "fold (history_step S policy) [Suc (length P)..<Suc (length P) + length R] (P @ m # R, q, r) = (P @ m # R, q', r)"
    "settled (P @ m # R) q'" by auto
  have "[length P..<length P + length (m # R)] = length P # [Suc (length P)..<Suc (length P) + length R]"
    using upt_conv_Cons [of "length P" "length P + length (m # R)"] by (simp del: upt_Suc)
  then have "fold (history_step S policy) [length P..<length P + length (m # R)] (P @ m # R, pending, r) = (P @ m # R, q', r)"
    using q(1) q'(1) by simp
  with q'(2) show ?case by blast
qed auto

lemma canonical_fixpoint:
  assumes "paired_history ms" and "stable_history 0 ms"
  shows "canonicalize_openai_tool_history_with_policy S policy ms = (ms, default_repair)"
proof -
  have "settled [] []" by (simp add: settled_def)
  from settled_fold [OF this, of ms S policy default_repair] assms
  obtain q where q: "fold (history_step S policy) [0..<length ms] (ms, [], default_repair) = (ms, q, default_repair)"
    "settled ms q" by (auto simp: paired_history_def)
  have "open_ids_of q = {}" using q(2) assms(1) by (simp add: settled_def paired_history_def)
  then have "unresolved q = []" by (auto simp: unresolved_def filter_empty_conv)
  then have "downgrade_unresolved_pending policy ms q default_repair = (ms, [], default_repair)"
    by (simp add: downgrade_unresolved_pending_def)
  moreover have "stabilize_tool_call_ids ms = (ms, 0)"
    unfolding stabilize_tool_call_ids_def by (rule stabilize_identity [OF assms(2)]) (simp add: identity_map_def)
  ultimately show ?thesis using q(1) by (simp add: canonicalize_openai_tool_history_with_policy_def)
qed

lemma canonical_paired_stable:
  assumes "tidy_history ms"
  shows "paired_history (fst (canonicalize_openai_tool_history_with_policy S policy ms))"
    and "stable_history 0 (fst (canonicalize_openai_tool_history_with_policy S policy ms))"
proof -
  obtain ms1 q r1 ms2 r2 where p: "fold (history_step S policy) [0..<length ms] (ms, [], default_repair) = (ms1, q, r1)"
    "downgrade_unresolved_pending policy ms1 q r1 = (ms2, [], r2)" "paired_history ms2"
    using pass_paired [OF assms] by blast
  obtain ms3 n where s: "stabilize_messages 0 ms2 [] = (ms3, n)" by (metis prod.exhaust)
  have e: "fst (canonicalize_openai_tool_history_with_policy S policy ms) = ms3"
    using p(1,2) s by (simp add: canonicalize_openai_tool_history_with_policy_def stabilize_tool_call_ids_def)
  have "scan_history {} ms3 = Some {}"
    using stabilize_paired [of "{}" ms2 "[]" 0 ms3 n] s p(3) by (simp add: paired_history_def)
  then show "paired_history (fst (canonicalize_openai_tool_history_with_policy S policy ms))"
    by (simp add: e paired_history_def)
  show "stable_history 0 (fst (canonicalize_openai_tool_history_with_policy S policy ms))"
    unfolding e by (rule stabilize_stable [OF s])
qed

section \<open>Theorems\<close>

text \<open>A history with a missing identifier, a result that names no call, and a call without a result.\<close>

definition demo_call :: "string option \<Rightarrow> string \<Rightarrow> tool_call" where
  "demo_call i name = \<lparr>tc_id = i, tc_call_type = ''function'',
     tc_function = \<lparr>tf_name = name, tf_arguments = ''{}''\<rparr>, tc_index = None\<rparr>"

definition demo_message :: "string \<Rightarrow> tool_call list option \<Rightarrow> string option \<Rightarrow> message" where
  "demo_message role calls i = \<lparr>ms_role = role, ms_content = JString ''x'', ms_tool_calls = calls,
     ms_tool_call_id = i, ms_reasoning_content = None\<rparr>"

definition demo_serde :: serde where
  "demo_serde = \<lparr>from_slice = \<lambda>_. None, to_string = \<lambda>_. ''{}''\<rparr>"

definition demo_history :: "message list" where
  "demo_history =
     [demo_message ''user'' None None,
      demo_message ''assistant'' (Some [demo_call (Some ''a'') ''read'', demo_call (Some ''b'') ''bash'']) None,
      demo_message ''tool'' None (Some ''c''), demo_message ''user'' None None]"

lemma demo_history_tidy: "tidy_history demo_history"
  by code_simp

text \<open>
  C22: Canonicalising a tidy history establishes the contract of the upstream protocol:
  afterwards every tool result directly follows the assistant message that made the call,
  every call is answered exactly once before anything else is said, and the identifiers of
  a message are distinct; whatever results were missing, unknown or misplaced.  A history is
  tidy when, the missing identifiers of calls filled in, those of one assistant message are
  distinct, results carry no calls, and the identifiers of results have no white space around
  them; without this the contract can fail, see \<open>duplicate_ids_leave_dangling_result\<close>.
\<close>

theorem canonical_history_is_paired:
  assumes "tidy_history ms"
  shows "paired_history (fst (canonicalize_openai_tool_history_with_policy S policy ms))"
  by (rule canonical_paired_stable(1) [OF assms])

lemma canonical_history_is_paired_witness:
  "paired_history (fst (canonicalize_openai_tool_history_with_policy demo_serde Compat demo_history))
    \<and> \<not> paired_history demo_history"
  using canonical_history_is_paired [OF demo_history_tidy, of demo_serde Compat]
  by (simp add: demo_history_def demo_message_def demo_call_def paired_history_def valid_ids_def
      the_calls_def map_filter_simps)

text \<open>
  C23: Canonicalising is idempotent on tidy histories (in the sense of C24): run on its own
  result it changes nothing and counts no repair, as the upstream's prompt cache needs.  With
  duplicate identifiers a result can be left dangling by the first run and be downgraded by
  the second.
\<close>

theorem canonical_history_is_stable:
  assumes "tidy_history ms" and "canonicalize_openai_tool_history_with_policy S policy ms = (ms', r)"
  shows "canonicalize_openai_tool_history_with_policy S policy ms' = (ms', default_repair)"
  using canonical_fixpoint canonical_paired_stable [OF assms(1), of S policy] assms(2) by simp

lemma canonical_history_is_stable_witness:
  "\<exists>ms' r. canonicalize_openai_tool_history_with_policy demo_serde Compat demo_history = (ms', r) \<and>
     canonicalize_openai_tool_history_with_policy demo_serde Compat ms' = (ms', default_repair)"
proof -
  obtain ms' r where e: "canonicalize_openai_tool_history_with_policy demo_serde Compat demo_history = (ms', r)"
    by (metis prod.exhaust)
  with canonical_history_is_stable [OF demo_history_tidy e] show ?thesis by blast
qed

text \<open>
  The hypothesis is needed.  Two calls with one identifier and one result: both calls are
  dropped and the result stays, with nothing to answer.  An identifier with a blank around
  it: the result counts as matched by its trimmed identifier but keeps the other one.
\<close>

definition canonical_ok :: "message list \<Rightarrow> bool" where
  "canonical_ok ms = paired_history (fst (canonicalize_openai_tool_history_with_policy demo_serde Compat ms))"

lemma duplicate_ids_leave_dangling_result:
  "\<not> canonical_ok
     [demo_message ''assistant'' (Some [demo_call (Some ''a'') ''read'', demo_call (Some ''a'') ''bash'']) None,
      demo_message ''tool'' None (Some ''a'')]"
  by code_simp

lemma blank_around_id_leaves_dangling_result:
  "\<not> canonical_ok
     [demo_message ''assistant'' (Some [demo_call (Some ''a'') ''read'']) None,
      demo_message ''tool'' None (Some '' a '')]"
  by code_simp

end
