(* ===== verification/Utf8Chars.thy ===== *)
theory Utf8Chars
  imports StrSearch
begin

text \<open>
  Strings as sequences of characters: the encoding of code points, for the literals of the
  sources outside ASCII, and the characters of a string, for the code that counts, takes and
  trims characters instead of bytes.
\<close>

section \<open>Evaluation\<close>

text \<open>The bits of a byte decide, so evaluation need not count to its value.\<close>

lemma is_cont_code [code]: "is_cont (Char b0 b1 b2 b3 b4 b5 b6 b7) \<longleftrightarrow> b7 \<and> \<not> b6"
  by (simp add: is_cont_def of_char_Char split: if_splits)

lemma ascii_lower_code [code]:
  "ascii_lower (Char b0 b1 b2 b3 b4 b5 b6 b7) =
     (if \<not> b7 \<and> b6 \<and> \<not> b5 \<and> (b0 \<or> b1 \<or> b2 \<or> b3 \<or> b4) \<and> \<not> (b4 \<and> b3 \<and> (b2 \<or> b1 \<and> b0))
      then Char b0 b1 b2 b3 b4 True b6 b7 else Char b0 b1 b2 b3 b4 b5 b6 b7)"
  by (cases b0; cases b1; cases b2; cases b3; cases b4; cases b5; cases b6; cases b7)
    (simp_all add: ascii_lower_def char_of_def bit_0)

section \<open>Literals\<close>

text \<open>The UTF-8 encoding of a code point, and of a literal given by its code points.\<close>

definition utf8_char :: "int \<Rightarrow> string" where
  "utf8_char n =
     map char_of
       (if n < 0x80 then [n]
        else if n < 0x800 then [0xC0 + n div 64, 0x80 + n mod 64]
        else if n < 0x10000 then [0xE0 + n div 4096, 0x80 + n div 64 mod 64, 0x80 + n mod 64]
        else [0xF0 + n div 262144, 0x80 + n div 4096 mod 64, 0x80 + n div 64 mod 64, 0x80 + n mod 64])"

definition utf8 :: "int list \<Rightarrow> string" where
  "utf8 ns = concat (map utf8_char ns)"

section \<open>The characters of a string\<close>

lemma length_dropWhile_le [termination_simp]: "length (dropWhile P s) < Suc (length s)"
  by (simp add: le_imp_less_Suc length_dropWhile_le)

text \<open>\<open>str::chars\<close>, each character by its bytes.\<close>

fun chars_of :: "string \<Rightarrow> string list" where
  "chars_of [] = []"
| "chars_of (c # s) = (c # takeWhile is_cont s) # chars_of (dropWhile is_cont s)"

definition take_chars :: "nat \<Rightarrow> string \<Rightarrow> string" where
  "take_chars n s = concat (take n (chars_of s))"

definition take_tail_chars :: "nat \<Rightarrow> string \<Rightarrow> string" where
  "take_tail_chars n s = concat (rev (take n (rev (chars_of s))))"

text \<open>\<open>char::is_whitespace\<close> and \<open>char::is_control\<close>.\<close>

definition char_is_ws :: "string \<Rightarrow> bool" where
  "char_is_ws c \<longleftrightarrow> c \<noteq> [] \<and> ws_len (map of_char c) = length c"

definition char_is_control :: "string \<Rightarrow> bool" where
  "char_is_control c \<longleftrightarrow>
     (case c of
        [a] \<Rightarrow> byte_of a < 32 \<or> byte_of a = 127
      | [a, b] \<Rightarrow> byte_of a = 0xC2 \<and> 0x80 \<le> byte_of b \<and> byte_of b < 0xA0
      | _ \<Rightarrow> False)"

text \<open>\<open>s.split_whitespace().count()\<close>: the runs of characters that are no white space.\<close>

fun count_words :: "bool \<Rightarrow> string list \<Rightarrow> nat" where
  "count_words inside [] = 0"
| "count_words inside (c # cs) =
     (if char_is_ws c then count_words False cs
      else (if inside then 0 else 1) + count_words True cs)"

text \<open>\<open>str::trim_matches\<close> with a predicate on characters.\<close>

definition trim_matches :: "(string \<Rightarrow> bool) \<Rightarrow> string \<Rightarrow> string" where
  "trim_matches P s = concat (rev (dropWhile P (rev (dropWhile P (chars_of s)))))"

section \<open>Facts\<close>

lemma concat_chars_of [simp]: "concat (chars_of s) = s"
  by (induction s rule: chars_of.induct) auto

lemma length_take_chars: "length (take_chars n s) \<le> length s"
proof -
  have "length (concat (take n cs)) \<le> length (concat cs)" for cs :: "string list"
    by (metis append_take_drop_id concat_append length_append le_add1)
  then show ?thesis by (metis concat_chars_of take_chars_def)
qed

lemma char_count_chars_of: "s = [] \<or> \<not> is_cont (hd s) \<Longrightarrow> length (chars_of s) = char_count s"
proof (induction s rule: chars_of.induct)
  case (2 c s)
  have "filter (\<lambda>c. \<not> is_cont c) s = filter (\<lambda>c. \<not> is_cont c) (dropWhile is_cont s)"
    by (induction s) auto
  moreover have "dropWhile is_cont s = [] \<or> \<not> is_cont (hd (dropWhile is_cont s))"
    using hd_dropWhile by blast
  ultimately show ?case using 2 by (simp add: char_count_def)
qed (simp add: char_count_def)

end
