(* ===== verification/ZenStream.thy ===== *)
theory ZenStream
  imports Utf8Chars
begin

text \<open>
  The event stream of the upstream in \<open>zen/client.rs\<close>: bytes are buffered until a blank line ends
  a frame, frames are parsed into fields, and the events they carry are collected into one
  answer.  \<open>decode\<close> is \<open>serde_json::from_str\<close> at the type of an event, which fails with a message.
  A stream is the list of its chunks, each of which may be an error of the transport.
\<close>

section \<open>Events\<close>

record zen_function_delta =
  fd_name :: "string option"
  fd_arguments :: "string option"

record zen_tool_call_delta =
  td_index :: "int option"
  td_id :: "string option"
  td_call_type :: "string option"
  td_function :: "zen_function_delta option"

record zen_delta =
  zd_content :: "string option"
  zd_reasoning_content :: "string option"
  zd_tool_calls :: "zen_tool_call_delta list option"

record zen_choice =
  zc_index :: "nat option"
  zc_delta :: "zen_delta option"
  zc_finish_reason :: "string option"

record zen_usage =
  zu_prompt_tokens :: "nat option"
  zu_completion_tokens :: "nat option"
  zu_total_tokens :: "nat option"
  zu_prompt_tokens_details :: "json option"
  zu_cache_creation_input_tokens :: "nat option"
  zu_cache_read_input_tokens :: "nat option"
  zu_cache_miss_input_tokens :: "nat option"
  zu_prompt_cache_hit_tokens :: "nat option"
  zu_prompt_cache_miss_tokens :: "nat option"

record zen_sse_event =
  ze_id :: "string option"
  ze_object :: "string option"
  ze_created :: "nat option"
  ze_model :: "string option"
  ze_choices :: "zen_choice list option"
  ze_usage :: "zen_usage option"

record sse_frame =
  sf_event :: "string option"
  sf_id :: "string option"
  sf_retry :: "nat option"
  sf_data :: string

text \<open>All are bad gateways; the messages of the transport, of UTF-8 and of JSON are not part of the code.\<close>

datatype stream_error = TransportError string | Utf8Error | ParseError string | TruncatedStream

type_synonym decoder = "string \<Rightarrow> string + zen_sse_event"

section \<open>UTF-8\<close>

text \<open>\<open>std::str::from_utf8\<close> accepts exactly the sequences of the Unicode standard's table.\<close>

fun valid_utf8 :: "string \<Rightarrow> bool" where
  "valid_utf8 [] = True"
| "valid_utf8 (a # s) =
     (let n = byte_of a
      in if n < 0x80 then valid_utf8 s
         else
           case s of
             [] \<Rightarrow> False
           | b # s2 \<Rightarrow>
               if 0xC2 \<le> n \<and> n \<le> 0xDF then is_cont b \<and> valid_utf8 s2
               else
                 case s2 of
                   [] \<Rightarrow> False
                 | c # s3 \<Rightarrow>
                     if 0xE0 \<le> n \<and> n \<le> 0xEF
                     then is_cont b \<and> is_cont c
                       \<and> (n = 0xE0 \<longrightarrow> 0xA0 \<le> byte_of b) \<and> (n = 0xED \<longrightarrow> byte_of b \<le> 0x9F)
                       \<and> valid_utf8 s3
                     else
                       case s3 of
                         [] \<Rightarrow> False
                       | d # s4 \<Rightarrow>
                           0xF0 \<le> n \<and> n \<le> 0xF4 \<and> is_cont b \<and> is_cont c \<and> is_cont d
                           \<and> (n = 0xF0 \<longrightarrow> 0x90 \<le> byte_of b) \<and> (n = 0xF4 \<longrightarrow> byte_of b \<le> 0x8F)
                           \<and> valid_utf8 s4)"

section \<open>Frames\<close>

definition CRLF :: string where
  "CRLF = [CHR 0x0D, CHR 0x0A]"

definition next_sse_delimiter :: "string \<Rightarrow> (nat \<times> nat) option" where
  "next_sse_delimiter buffer =
     (case (str_find buffer [NL, NL], str_find buffer (CRLF @ CRLF)) of
        (Some l, Some r) \<Rightarrow> if l \<le> r then Some (l, 2) else Some (r, 4)
      | (Some l, None) \<Rightarrow> Some (l, 2)
      | (None, Some r) \<Rightarrow> Some (r, 4)
      | (None, None) \<Rightarrow> None)"

text \<open>\<open>str::parse::<u64>\<close>: digits with an optional plus sign, below the bound of the type.\<close>

definition is_digit :: "char \<Rightarrow> bool" where
  "is_digit c \<longleftrightarrow> 48 \<le> byte_of c \<and> byte_of c \<le> 57"

definition parse_u64 :: "string \<Rightarrow> nat option" where
  "parse_u64 s =
     (let digits = (case s of c # rest \<Rightarrow> if c = CHR ''+'' then rest else s | [] \<Rightarrow> s);
          n = foldl (\<lambda>n c. 10 * n + (byte_of c - 48)) 0 digits
      in if digits = [] \<or> \<not> list_all is_digit digits \<or> n \<ge> 2 ^ 64 then None else Some n)"

text \<open>\<open>split_once(':')\<close>.\<close>

definition split_once_colon :: "string \<Rightarrow> (string \<times> string) option" where
  "split_once_colon line =
     (if CHR '':'' \<in> set line
      then Some (takeWhile (\<lambda>c. c \<noteq> CHR '':'') line, tl (dropWhile (\<lambda>c. c \<noteq> CHR '':'') line))
      else None)"

definition frame_line :: "sse_frame \<times> string list \<Rightarrow> string \<Rightarrow> sse_frame \<times> string list" where
  "frame_line = (\<lambda>(frame, data_lines) raw_line.
     let line = strip_cr raw_line
     in if line = [] \<or> starts_with line '':'' then (frame, data_lines)
        else
          let (field, val) =
                (case split_once_colon line of
                   Some (field, v) \<Rightarrow> (field, unwrap_or v (strip_prefix v '' ''))
                 | None \<Rightarrow> (line, []))
          in if field = ''data'' then (frame, data_lines @ [val])
             else if field = ''event'' then (frame\<lparr>sf_event := Some val\<rparr>, data_lines)
             else if field = ''id'' then (frame\<lparr>sf_id := Some val\<rparr>, data_lines)
             else if field = ''retry'' then (frame\<lparr>sf_retry := parse_u64 val\<rparr>, data_lines)
             else (frame, data_lines))"

definition empty_frame :: sse_frame where
  "empty_frame = \<lparr>sf_event = None, sf_id = None, sf_retry = None, sf_data = []\<rparr>"

definition parse_sse_frame :: "string \<Rightarrow> stream_error + sse_frame" where
  "parse_sse_frame bytes =
     (if \<not> valid_utf8 bytes then Inl Utf8Error
      else
        let (frame, data_lines) = foldl frame_line (empty_frame, []) (str_lines bytes)
        in Inr (frame\<lparr>sf_data := join_with [NL] data_lines\<rparr>))"

text \<open>\<open>SseParser\<close> is its buffer: a frame and the rest, an error, or nothing yet.\<close>

definition next_frame :: "string \<Rightarrow> stream_error + (sse_frame \<times> string) option" where
  "next_frame buffer =
     (case next_sse_delimiter buffer of
        None \<Rightarrow> Inr None
      | Some (pos, delimiter_len) \<Rightarrow>
          (case parse_sse_frame (take pos buffer) of
             Inl e \<Rightarrow> Inl e
           | Inr frame \<Rightarrow> Inr (Some (frame, drop (pos + delimiter_len) buffer))))"

definition is_ascii_ws :: "char \<Rightarrow> bool" where
  "is_ascii_ws c \<longleftrightarrow> byte_of c \<in> {32, 9, 10, 12, 13}"

definition parser_finish :: "string \<Rightarrow> stream_error + unit" where
  "parser_finish buffer = (if list_all is_ascii_ws buffer then Inr () else Inl TruncatedStream)"

section \<open>Events of a frame\<close>

datatype parsed_zen_frame = ParsedDone | ParsedEvent zen_sse_event

definition parse_zen_frame :: "decoder \<Rightarrow> sse_frame \<Rightarrow> stream_error + parsed_zen_frame option" where
  "parse_zen_frame decode frame =
     (if sf_data frame = [] then Inr None
      else if trim (sf_data frame) = ''[DONE]'' then Inr (Some ParsedDone)
      else
        case decode (sf_data frame) of
          Inl msg \<Rightarrow> Inl (ParseError msg)
        | Inr event \<Rightarrow> Inr (Some (ParsedEvent event)))"

definition event_has_finish_reason :: "zen_sse_event \<Rightarrow> bool" where
  "event_has_finish_reason event \<longleftrightarrow>
     (case ze_choices event of
        Some choices \<Rightarrow> list_ex (\<lambda>c. zc_finish_reason c \<noteq> None) choices
      | None \<Rightarrow> False)"

definition delta_has_output :: "zen_delta \<Rightarrow> bool" where
  "delta_has_output d \<longleftrightarrow>
     (case zd_content d of Some t \<Rightarrow> t \<noteq> [] | None \<Rightarrow> False)
     \<or> (case zd_reasoning_content d of Some t \<Rightarrow> trim t \<noteq> [] | None \<Rightarrow> False)
     \<or> (case zd_tool_calls d of Some items \<Rightarrow> items \<noteq> [] | None \<Rightarrow> False)"

definition event_has_output_signal :: "zen_sse_event \<Rightarrow> bool" where
  "event_has_output_signal event \<longleftrightarrow>
     (case ze_choices event of
        Some choices \<Rightarrow>
          list_ex (\<lambda>c. case zc_delta c of Some d \<Rightarrow> delta_has_output d | None \<Rightarrow> False) choices
      | None \<Rightarrow> False)"

section \<open>Collecting an answer\<close>

record collected_tool_call =
  ct_index :: int
  ct_id :: "string option"
  ct_name :: string
  ct_arguments :: string

record collected_stream =
  co_content :: string
  co_reasoning :: string
  co_usage :: "zen_usage option"
  co_tool_calls :: "collected_tool_call list"
  co_saw_done :: bool
  co_finish_reason :: "string option"

definition empty_collection :: collected_stream where
  "empty_collection =
     \<lparr>co_content = [], co_reasoning = [], co_usage = None, co_tool_calls = [],
      co_saw_done = False, co_finish_reason = None\<rparr>"

definition merge_into :: "zen_tool_call_delta \<Rightarrow> collected_tool_call \<Rightarrow> collected_tool_call" where
  "merge_into tc item =
     (let item = (if ct_id item = None then item\<lparr>ct_id := td_id tc\<rparr> else item)
      in case td_function tc of
           None \<Rightarrow> item
         | Some func \<Rightarrow>
             (let item =
                    (case fd_name func of
                       Some name \<Rightarrow> if name \<noteq> [] then item\<lparr>ct_name := name\<rparr> else item
                     | None \<Rightarrow> item)
              in case fd_arguments func of
                   Some arguments \<Rightarrow> item\<lparr>ct_arguments := ct_arguments item @ arguments\<rparr>
                 | None \<Rightarrow> item))"

fun update_first :: "('a \<Rightarrow> bool) \<Rightarrow> ('a \<Rightarrow> 'a) \<Rightarrow> 'a list \<Rightarrow> 'a list option" where
  "update_first P f [] = None"
| "update_first P f (x # xs) =
     (if P x then Some (f x # xs) else map_option (Cons x) (update_first P f xs))"

definition merge_collected_tool_delta ::
  "collected_tool_call list \<Rightarrow> zen_tool_call_delta \<Rightarrow> collected_tool_call list" where
  "merge_collected_tool_delta calls tc =
     (let index = unwrap_or 0 (td_index tc)
      in case update_first (\<lambda>item. ct_index item = index) (merge_into tc) calls of
           Some calls \<Rightarrow> calls
         | None \<Rightarrow>
             calls @ [merge_into tc
               \<lparr>ct_index = index, ct_id = td_id tc, ct_name = [], ct_arguments = []\<rparr>])"

definition merge_collected_tool_deltas ::
  "collected_tool_call list \<Rightarrow> zen_tool_call_delta list \<Rightarrow> collected_tool_call list" where
  "merge_collected_tool_deltas calls deltas = foldl merge_collected_tool_delta calls deltas"

definition collect_delta :: "zen_delta \<Rightarrow> collected_stream \<Rightarrow> collected_stream" where
  "collect_delta d c =
     (let c = (case zd_content d of
                 Some t \<Rightarrow> c\<lparr>co_content := co_content c @ t\<rparr> | None \<Rightarrow> c);
          c = (case zd_reasoning_content d of
                 Some t \<Rightarrow> c\<lparr>co_reasoning := co_reasoning c @ t\<rparr> | None \<Rightarrow> c)
      in case zd_tool_calls d of
           Some deltas \<Rightarrow> c\<lparr>co_tool_calls := merge_collected_tool_deltas (co_tool_calls c) deltas\<rparr>
         | None \<Rightarrow> c)"

definition collect_choice :: "collected_stream \<Rightarrow> zen_choice \<Rightarrow> collected_stream" where
  "collect_choice c choice =
     (let c = (case zc_finish_reason choice of
                 Some r \<Rightarrow> c\<lparr>co_finish_reason := Some r\<rparr> | None \<Rightarrow> c)
      in case zc_delta choice of Some d \<Rightarrow> collect_delta d c | None \<Rightarrow> c)"

definition collect_event :: "zen_sse_event \<Rightarrow> collected_stream \<Rightarrow> collected_stream" where
  "collect_event event c =
     (let c = (if ze_usage event \<noteq> None then c\<lparr>co_usage := ze_usage event\<rparr> else c)
      in case ze_choices event of Some choices \<Rightarrow> foldl collect_choice c choices | None \<Rightarrow> c)"

definition apply_sse_frame_to_collection ::
  "decoder \<Rightarrow> sse_frame \<Rightarrow> collected_stream \<Rightarrow> stream_error + collected_stream" where
  "apply_sse_frame_to_collection decode frame c =
     (case parse_zen_frame decode frame of
        Inl e \<Rightarrow> Inl e
      | Inr None \<Rightarrow> Inr c
      | Inr (Some ParsedDone) \<Rightarrow> Inr (c\<lparr>co_saw_done := True\<rparr>)
      | Inr (Some (ParsedEvent event)) \<Rightarrow> Inr (collect_event event c))"

section \<open>The stream\<close>

lemma next_sse_delimiter_bounds:
  "next_sse_delimiter b = Some (p, n) \<Longrightarrow> p + n \<le> length b \<and> 2 \<le> n"
  by (auto simp: next_sse_delimiter_def CRLF_def dest!: str_find_Some split: option.splits if_splits)

lemma next_frame_shorter [termination_simp]:
  "next_frame b = Inr (Some (fr, rest)) \<Longrightarrow> length rest < length b"
  by (auto simp: next_frame_def dest!: next_sse_delimiter_bounds split: option.splits sum.splits)

text \<open>The inner loop: all complete frames of the buffer; the state is the collection and the buffer.\<close>

function drain_frames ::
  "decoder \<Rightarrow> string \<Rightarrow> collected_stream \<Rightarrow> stream_error + (collected_stream \<times> string)" where
  "drain_frames decode buffer c =
     (case next_frame buffer of
        Inl e \<Rightarrow> Inl e
      | Inr None \<Rightarrow> Inr (c, buffer)
      | Inr (Some (frame, rest)) \<Rightarrow>
          (case apply_sse_frame_to_collection decode frame c of
             Inl e \<Rightarrow> Inl e
           | Inr c \<Rightarrow> drain_frames decode rest c))"
  by pat_completeness auto
termination
  by (relation "measure (\<lambda>(d, b, c). length b)") (auto simp: next_frame_shorter)

declare drain_frames.simps [simp del]

fun collect_chunks ::
  "decoder \<Rightarrow> (string + string) list \<Rightarrow> string \<Rightarrow> collected_stream
     \<Rightarrow> stream_error + (collected_stream \<times> string)" where
  "collect_chunks decode [] buffer c = Inr (c, buffer)"
| "collect_chunks decode (Inl msg # chunks) buffer c = Inl (TransportError msg)"
| "collect_chunks decode (Inr bytes # chunks) buffer c =
     (case drain_frames decode (buffer @ bytes) c of
        Inl e \<Rightarrow> Inl e
      | Inr (c, buffer) \<Rightarrow> collect_chunks decode chunks buffer c)"

definition has_collected_output_signal :: "collected_stream \<Rightarrow> bool" where
  "has_collected_output_signal c \<longleftrightarrow>
     trim (co_content c) \<noteq> [] \<or> trim (co_reasoning c) \<noteq> [] \<or> co_tool_calls c \<noteq> []"

definition collect_stream_parts ::
  "decoder \<Rightarrow> (string + string) list \<Rightarrow> stream_error + collected_stream" where
  "collect_stream_parts decode chunks =
     (case collect_chunks decode chunks [] empty_collection of
        Inl e \<Rightarrow> Inl e
      | Inr (c, buffer) \<Rightarrow>
          (case parser_finish buffer of
             Inl e \<Rightarrow> if \<not> has_collected_output_signal c then Inl e else Inr c
           | Inr _ \<Rightarrow>
               if \<not> co_saw_done c \<and> co_finish_reason c = None \<and> \<not> has_collected_output_signal c
               then Inl TruncatedStream else Inr c))"

definition collect_stream_text ::
  "decoder \<Rightarrow> (string + string) list \<Rightarrow> stream_error + string \<times> string \<times> zen_usage option" where
  "collect_stream_text decode chunks =
     (case collect_stream_parts decode chunks of
        Inl e \<Rightarrow> Inl e
      | Inr c \<Rightarrow> Inr (co_content c, co_reasoning c, co_usage c))"

text \<open>
  \<open>stream_sse_events\<close>: the items it yields.  The state is whether the stream is complete and
  whether an event with output was seen; after an error the stream ends.
\<close>

type_synonym zen_item = "stream_error + zen_sse_event"

function drain_events ::
  "decoder \<Rightarrow> string \<Rightarrow> bool \<Rightarrow> bool \<Rightarrow> zen_item list \<times> (string \<times> bool \<times> bool) option" where
  "drain_events decode buffer fin saw =
     (case next_frame buffer of
        Inl e \<Rightarrow> ([Inl e], None)
      | Inr None \<Rightarrow> ([], Some (buffer, fin, saw))
      | Inr (Some (frame, rest)) \<Rightarrow>
          (case parse_zen_frame decode frame of
             Inl e \<Rightarrow> ([Inl e], None)
           | Inr None \<Rightarrow> drain_events decode rest fin saw
           | Inr (Some ParsedDone) \<Rightarrow> drain_events decode rest True saw
           | Inr (Some (ParsedEvent event)) \<Rightarrow>
               (let (items, st) = drain_events decode rest
                      (fin \<or> event_has_finish_reason event)
                      (saw \<or> event_has_output_signal event)
                in (Inr event # items, st))))"
  by pat_completeness auto
termination
  by (relation "measure (\<lambda>(d, b, c, s). length b)") (auto simp: next_frame_shorter)

declare drain_events.simps [simp del]

fun stream_events ::
  "decoder \<Rightarrow> (string + string) list \<Rightarrow> string \<Rightarrow> bool \<Rightarrow> bool \<Rightarrow> zen_item list" where
  "stream_events decode [] buffer fin saw =
     (case parser_finish buffer of
        Inl e \<Rightarrow> if \<not> saw then [Inl e] else []
      | Inr _ \<Rightarrow> if fin \<or> saw then [] else [Inl TruncatedStream])"
| "stream_events decode (Inl msg # chunks) buffer fin saw = [Inl (TransportError msg)]"
| "stream_events decode (Inr bytes # chunks) buffer fin saw =
     (case drain_events decode (buffer @ bytes) fin saw of
        (items, None) \<Rightarrow> items
      | (items, Some (buffer, fin, saw)) \<Rightarrow>
          items @ stream_events decode chunks buffer fin saw)"

definition stream_sse_events :: "decoder \<Rightarrow> (string + string) list \<Rightarrow> zen_item list" where
  "stream_sse_events decode chunks = stream_events decode chunks [] False False"

end
