(* ===== verification/ZenStreamCorrect.thy ===== *)
theory ZenStreamCorrect
  imports ZenStream
begin

text \<open>
  What the collection of a stream promises: the answer does not depend on how the bytes are cut
  into chunks, a stream of rendered events is collected back, and the fragments of a tool call
  are put together in order.
\<close>

section \<open>Chunks\<close>

lemma starts_with_extend: "starts_with s p \<Longrightarrow> starts_with (s @ x) p"
  by (auto simp: starts_with_iff)

lemma str_find_extend: "str_find b p = Some n \<Longrightarrow> str_find (b @ x) p = Some n"
proof (induction b arbitrary: n)
  case Nil
  then show ?case by (cases x) (auto split: if_splits)
next
  case (Cons a b)
  show ?case
  proof (cases "starts_with (a # b) p")
    case True
    with Cons.prems show ?thesis using starts_with_extend [of "a # b" p x] by simp
  next
    case False
    then obtain k where k: "str_find b p = Some k" "n = Suc k" using Cons.prems by auto
    have "length p \<le> length b" using str_find_Some [OF k(1)] by simp
    then have "\<not> starts_with (a # b @ x) p"
      using False by (auto simp: starts_with_iff) (metis append_Cons append_eq_append_conv_if append_take_drop_id le_SucI length_Cons take_all_iff)
    with Cons.IH [OF k(1)] k(2) show ?thesis by simp
  qed
qed

lemma str_find_nth:
  assumes "str_find s p = Some n" and "i < length p"
  shows "s ! (n + i) = p ! i"
proof -
  from str_find_Some [OF assms(1)] obtain r where "drop n s = p @ r" "n \<le> length s"
    by (auto simp: starts_with_iff)
  then have "s = take n s @ p @ r" by (metis append_take_drop_id)
  then show ?thesis using assms(2) \<open>n \<le> length s\<close>
    by (metis (no_types, lifting) append_assoc length_take min.absorb2 nth_append nth_append_length_plus)
qed

lemma str_find_new:
  assumes "str_find b p = None" and "str_find (b @ x) p = Some n"
  shows "length b < n + length p"
proof (rule ccontr)
  assume "\<not> length b < n + length p"
  then have le: "n + length p \<le> length b" by simp
  from str_find_split [OF assms(2)]
  have "b @ x = take n (b @ x) @ p @ drop (n + length p) (b @ x)" .
  then have "take (n + length p) (b @ x) = take n (b @ x) @ p"
    using le by (metis append_assoc append_eq_conv_conj length_append length_take min.absorb2
        add_leD1 length_append trans_le_add1)
  then have "take (n + length p) b = take n b @ p" using le by simp
  then have "b = take n b @ p @ drop (n + length p) b" by (metis append_assoc append_take_drop_id)
  then have "sublist p b" by (metis sublist_appendI)
  with assms(1) show False by (simp add: str_find_None_iff)
qed

text \<open>More bytes do not move a delimiter that has been found.\<close>

lemma next_sse_delimiter_extend:
  assumes "next_sse_delimiter b = Some d"
  shows "next_sse_delimiter (b @ x) = Some d"
proof -
  let ?L = "[NL, NL]" and ?R = "CRLF @ CRLF"
  consider (both) l r where "str_find b ?L = Some l" "str_find b ?R = Some r"
    | (lf) l where "str_find b ?L = Some l" "str_find b ?R = None"
    | (crlf) r where "str_find b ?L = None" "str_find b ?R = Some r"
    using assms by (cases "str_find b ?L"; cases "str_find b ?R") (auto simp: next_sse_delimiter_def)
  then show ?thesis
  proof cases
    case both
    then show ?thesis using assms by (simp add: next_sse_delimiter_def str_find_extend)
  next
    case lf
    have "l \<le> r" if r: "str_find (b @ x) ?R = Some r" for r
    proof (rule ccontr)
      assume "\<not> l \<le> r"
      moreover have "length b < r + 4" using str_find_new [OF lf(2) r] by (simp add: CRLF_def)
      moreover have "l + 2 \<le> length b" using str_find_Some [OF lf(1)] by simp
      ultimately have lr: "l + 1 = r + 2" by linarith
      have "(b @ x) ! (l + 1) = NL"
        using str_find_nth [OF str_find_extend [OF lf(1)], of 1] by simp
      moreover have "(b @ x) ! (r + 2) = CHR 0x0D"
        using str_find_nth [OF r, of 2] by (simp add: CRLF_def)
      ultimately show False unfolding lr by simp
    qed
    then show ?thesis using assms lf str_find_extend [OF lf(1), of x]
      by (auto simp: next_sse_delimiter_def split: option.split)
  next
    case crlf
    have "r < l" if l: "str_find (b @ x) ?L = Some l" for l
      using str_find_new [OF crlf(1) l] str_find_Some [OF crlf(2)] by (simp add: CRLF_def)
    then show ?thesis using assms crlf str_find_extend [OF crlf(2), of x]
      by (fastforce simp: next_sse_delimiter_def split: option.split)
  qed
qed

lemma next_frame_extend:
  assumes "next_frame b = r" and "r \<noteq> Inr None"
  shows "next_frame (b @ x) = (case r of Inr (Some (fr, rest)) \<Rightarrow> Inr (Some (fr, rest @ x)) | _ \<Rightarrow> r)"
proof (cases "next_sse_delimiter b")
  case None
  with assms show ?thesis by (simp add: next_frame_def)
next
  case (Some d)
  obtain p n where d: "d = (p, n)" by fastforce
  have "p + n \<le> length b" using next_sse_delimiter_bounds Some d by blast
  moreover have "next_sse_delimiter (b @ x) = Some (p, n)"
    using next_sse_delimiter_extend Some d by blast
  ultimately show ?thesis using Some d assms(1)
    by (auto simp: next_frame_def split: sum.splits)
qed

lemma drain_frames_extend:
  "drain_frames decode (b @ x) c =
     (case drain_frames decode b c of
        Inl e \<Rightarrow> Inl e
      | Inr (c', rest) \<Rightarrow> drain_frames decode (rest @ x) c')"
proof (induction decode b c rule: drain_frames.induct)
  case (1 decode b c)
  show ?case
  proof (cases "next_frame b")
    case (Inl e)
    with next_frame_extend [OF Inl, of x] show ?thesis
      by (subst (1 2) drain_frames.simps) simp
  next
    case (Inr r)
    show ?thesis
    proof (cases r)
      case None
      then show ?thesis using Inr by (subst (2) drain_frames.simps) simp
    next
      case (Some fr_rest)
      obtain fr rest where fr: "fr_rest = (fr, rest)" by fastforce
      note nf = Inr [unfolded Some fr]
      have nf': "next_frame (b @ x) = Inr (Some (fr, rest @ x))" using next_frame_extend [OF nf, of x] by simp
      show ?thesis
      proof (cases "apply_sse_frame_to_collection decode fr c")
        case (Inl e)
        then show ?thesis by (subst (1 2) drain_frames.simps) (simp add: nf nf')
      next
        case (Inr c')
        have "drain_frames decode (b @ x) c = drain_frames decode (rest @ x) c'"
          by (subst drain_frames.simps) (simp add: nf' Inr)
        moreover have "drain_frames decode b c = drain_frames decode rest c'"
          by (subst drain_frames.simps) (simp add: nf Inr)
        ultimately show ?thesis using 1 [OF nf refl refl Inr] by simp
      qed
    qed
  qed
qed

text \<open>What is left after draining has no complete frame, so draining again changes nothing.\<close>

lemma drain_frames_idle:
  "drain_frames decode b c = Inr (c', rest) \<Longrightarrow> drain_frames decode rest c' = Inr (c', rest)"
  using drain_frames_extend [of decode b "[]" c] by auto

lemma collect_chunks_concat:
  assumes "drain_frames decode b c = Inr (c, b)"
  shows "collect_chunks decode (map Inr bs) b c = drain_frames decode (b @ concat bs) c"
  using assms
proof (induction bs arbitrary: b c)
  case (Cons x bs)
  show ?case
  proof (cases "drain_frames decode (b @ x) c")
    case (Inl e)
    then show ?thesis using drain_frames_extend [of decode "b @ x" "concat bs" c] by simp
  next
    case (Inr r)
    obtain c' rest where r: "r = (c', rest)" by fastforce
    have "drain_frames decode (b @ x @ concat bs) c = drain_frames decode (rest @ concat bs) c'"
      using drain_frames_extend [of decode "b @ x" "concat bs" c] Inr r by simp
    with Cons.IH [OF drain_frames_idle] Inr r show ?thesis by simp
  qed
qed simp

lemma drain_frames_empty: "drain_frames decode [] c = Inr (c, [])"
  by (subst drain_frames.simps) (simp add: next_frame_def next_sse_delimiter_def CRLF_def)

text \<open>
  C24: The answer collected from a stream does not depend on how the transport cuts its bytes
  into chunks.
\<close>

theorem chunking_is_irrelevant:
  assumes "concat bs = concat bs'"
  shows "collect_stream_parts decode (map Inr bs) = collect_stream_parts decode (map Inr bs')"
  using assms
  by (simp add: collect_stream_parts_def collect_chunks_concat [OF drain_frames_empty])

lemma chunking_is_irrelevant_witness:
  "concat [''data: [DO'', ''NE]'' @ [NL], [NL]] = concat [''data: [DONE]'' @ [NL, NL]]
   \<and> collect_stream_parts (\<lambda>_. Inl []) (map Inr [''data: [DO'', ''NE]'' @ [NL], [NL]])
     = collect_stream_parts (\<lambda>_. Inl []) (map Inr [''data: [DONE]'' @ [NL, NL]])"
  using chunking_is_irrelevant [of "[''data: [DO'', ''NE]'' @ [NL], [NL]]"
      "[''data: [DONE]'' @ [NL, NL]]" "\<lambda>_. Inl []"] by simp

section \<open>The items of a stream\<close>

lemma drain_events_extend:
  "drain_events decode (b @ x) fin saw =
     (case drain_events decode b fin saw of
        (items, None) \<Rightarrow> (items, None)
      | (items, Some (rest, fin', saw')) \<Rightarrow>
          (let (more, st) = drain_events decode (rest @ x) fin' saw' in (items @ more, st)))"
proof (induction decode b fin saw rule: drain_events.induct)
  case (1 decode b fin saw)
  note IH = "1.IH"
  show ?case
  proof (cases "next_frame b")
    case (Inl e)
    with next_frame_extend [OF Inl, of x] show ?thesis
      by (subst (1 2) drain_events.simps) simp
  next
    case (Inr r)
    show ?thesis
    proof (cases r)
      case None
      then show ?thesis using Inr by (subst (2) drain_events.simps) (simp add: case_prod_beta)
    next
      case (Some fr_rest)
      obtain fr rest where fr: "fr_rest = (fr, rest)" by fastforce
      note nf = Inr [unfolded Some fr]
      have nf': "next_frame (b @ x) = Inr (Some (fr, rest @ x))"
        using next_frame_extend [OF nf, of x] by simp
      note eqs = drain_events.simps [of decode b fin saw, unfolded nf]
        drain_events.simps [of decode "b @ x" fin saw, unfolded nf']
      consider (err) e where "parse_zen_frame decode fr = Inl e"
        | (skip) "parse_zen_frame decode fr = Inr None"
        | (fin) "parse_zen_frame decode fr = Inr (Some ParsedDone)"
        | (event) ev where "parse_zen_frame decode fr = Inr (Some (ParsedEvent ev))"
        by (metis option.exhaust parsed_zen_frame.exhaust sum.exhaust)
      then show ?thesis
      proof cases
        case err
        then show ?thesis using eqs by simp
      next
        case skip
        then show ?thesis using IH(1) [OF nf refl refl skip refl] eqs by simp
      next
        case fin
        then show ?thesis using IH(2) [OF nf refl refl fin refl refl] eqs by simp
      next
        case event
        then show ?thesis using IH(3) [OF nf refl refl event refl refl] eqs
          by (simp add: Let_def case_prod_beta split: option.split)
      qed
    qed
  qed
qed

lemma drain_events_idle:
  assumes "drain_events decode b fin saw = (items, Some (rest, fin', saw'))"
  shows "drain_events decode rest fin' saw' = ([], Some (rest, fin', saw'))"
  using drain_events_extend [of decode b "[]" fin saw] assms
  by (cases "drain_events decode rest fin' saw'") auto

lemma stream_events_concat:
  assumes "drain_events decode b fin saw = ([], Some (b, fin, saw))"
  shows "stream_events decode (map Inr bs) b fin saw =
     (case drain_events decode (b @ concat bs) fin saw of
        (items, None) \<Rightarrow> items
      | (items, Some (rest, fin, saw)) \<Rightarrow> items @ stream_events decode [] rest fin saw)"
  using assms
proof (induction bs arbitrary: b fin saw)
  case (Cons x bs)
  obtain items st where d: "drain_events decode (b @ x) fin saw = (items, st)" by fastforce
  note e = drain_events_extend [of decode "b @ x" "concat bs" fin saw]
  show ?case
  proof (cases st)
    case None
    with d e show ?thesis by simp
  next
    case (Some r)
    obtain rest f s where r: "r = (rest, f, s)" by (metis prod_cases3)
    note d' = d [unfolded Some r]
    have "stream_events decode (map Inr bs) rest f s =
        (case drain_events decode (rest @ concat bs) f s of
           (items, None) \<Rightarrow> items
         | (items, Some (rest, fin, saw)) \<Rightarrow> items @ stream_events decode [] rest fin saw)"
      by (rule Cons.IH [OF drain_events_idle [OF d']])
    moreover have "drain_events decode (b @ x @ concat bs) fin saw =
        (let (more, st) = drain_events decode (rest @ concat bs) f s in (items @ more, st))"
      using e d' by simp
    ultimately show ?thesis using d'
      by (simp add: Let_def case_prod_beta split: option.split)
  qed
qed simp

lemma drain_events_empty: "drain_events decode [] fin saw = ([], Some ([], fin, saw))"
  by (subst drain_events.simps) (simp add: next_frame_def next_sse_delimiter_def CRLF_def)

lemma streaming_is_chunking_invariant:
  "concat bs = concat bs' \<Longrightarrow>
     stream_sse_events decode (map Inr bs) = stream_sse_events decode (map Inr bs')"
  by (simp add: stream_sse_events_def stream_events_concat [OF drain_events_empty])

section \<open>Tool calls\<close>

text \<open>The argument fragments for one index, in the order they came.\<close>

definition fragments_for :: "int \<Rightarrow> zen_tool_call_delta list \<Rightarrow> string list" where
  "fragments_for i deltas =
     map (\<lambda>d. unwrap_or [] (Option.bind (td_function d) fd_arguments))
       (filter (\<lambda>d. unwrap_or 0 (td_index d) = i) deltas)"

definition call_at :: "int \<Rightarrow> collected_tool_call list \<Rightarrow> collected_tool_call option" where
  "call_at i calls = find (\<lambda>c. ct_index c = i) calls"

lemma merge_into_arguments:
  "ct_arguments (merge_into d c) =
     ct_arguments c @ unwrap_or [] (Option.bind (td_function d) fd_arguments)"
  "ct_index (merge_into d c) = ct_index c"
  by (auto simp: merge_into_def Let_def unwrap_or_def split: option.split)

lemma update_first_None_iff: "update_first P f xs = None \<longleftrightarrow> (\<forall>x \<in> set xs. \<not> P x)"
  by (induction xs) auto

lemma update_first_index:
  assumes "\<And>x. ct_index (f x) = ct_index x" and "update_first (\<lambda>c. ct_index c = i) f xs = Some ys"
  shows "map ct_index ys = map ct_index xs
    \<and> call_at j ys = (if j = i then map_option f (call_at i xs) else call_at j xs)"
  using assms(2)
proof (induction xs arbitrary: ys)
  case (Cons x xs)
  then show ?case using assms(1)
    by (cases "ct_index x = i") (auto simp: call_at_def split: if_splits)
qed simp

lemma merge_delta_facts:
  fixes d calls
  defines "i \<equiv> unwrap_or 0 (td_index d)" and "calls' \<equiv> merge_collected_tool_delta calls d"
  shows "map ct_index calls' =
      map ct_index calls @ (if i \<in> set (map ct_index calls) then [] else [i])"
    and "map_option ct_arguments (call_at j calls') =
      (if j = i
       then Some (unwrap_or [] (map_option ct_arguments (call_at i calls))
         @ unwrap_or [] (Option.bind (td_function d) fd_arguments))
       else map_option ct_arguments (call_at j calls))"
proof -
  let ?new = "\<lparr>ct_index = i, ct_id = td_id d, ct_name = [], ct_arguments = []\<rparr>"
  have none: "call_at i calls = None \<longleftrightarrow> i \<notin> set (map ct_index calls)"
    by (auto simp: call_at_def find_None_iff)
  have "map ct_index calls' =
        map ct_index calls @ (if i \<in> set (map ct_index calls) then [] else [i])
      \<and> map_option ct_arguments (call_at j calls') =
        (if j = i
         then Some (unwrap_or [] (map_option ct_arguments (call_at i calls))
           @ unwrap_or [] (Option.bind (td_function d) fd_arguments))
         else map_option ct_arguments (call_at j calls))"
  proof (cases "update_first (\<lambda>item. ct_index item = i) (merge_into d) calls")
    case None
    then have n: "i \<notin> set (map ct_index calls)" by (auto simp: update_first_None_iff)
    have c: "calls' = calls @ [merge_into d ?new]"
      using None unfolding calls'_def merge_collected_tool_delta_def i_def by (simp add: Let_def)
    have "call_at k (calls @ [z]) =
        (case call_at k calls of Some y \<Rightarrow> Some y | None \<Rightarrow> if ct_index z = k then Some z else None)"
      for k z
      unfolding call_at_def by (induction calls) auto
    then show ?thesis using n none c
      by (auto simp: merge_into_arguments split: option.split)
  next
    case (Some ys)
    then have "i \<in> set (map ct_index calls)"
      using update_first_None_iff [of "\<lambda>item. ct_index item = i" "merge_into d" calls] by auto
    moreover have "calls' = ys"
      using Some unfolding calls'_def merge_collected_tool_delta_def i_def by (simp add: Let_def)
    ultimately show ?thesis
      using update_first_index [of "merge_into d" i calls ys j, OF merge_into_arguments(2) Some] none
      by (cases "call_at i calls") (auto simp: merge_into_arguments)
  qed
  then show "map ct_index calls' =
      map ct_index calls @ (if i \<in> set (map ct_index calls) then [] else [i])"
    and "map_option ct_arguments (call_at j calls') =
      (if j = i
       then Some (unwrap_or [] (map_option ct_arguments (call_at i calls))
         @ unwrap_or [] (Option.bind (td_function d) fd_arguments))
       else map_option ct_arguments (call_at j calls))" by blast+
qed

text \<open>
  The tool calls of a stream are put together from their fragments: there is one call per
  index, in the order the indices first came (a fragment without an index belongs to index
  zero), and its arguments are its fragments one after the other.
\<close>

lemma tool_fragments_assembled:
  "map ct_index (merge_collected_tool_deltas [] deltas)
       = rev (remdups (rev (map (\<lambda>d. unwrap_or 0 (td_index d)) deltas)))
   \<and> map_option ct_arguments (call_at i (merge_collected_tool_deltas [] deltas)) =
       (if fragments_for i deltas = [] then None else Some (concat (fragments_for i deltas)))"
proof (induction deltas rule: rev_induct)
  case (snoc d deltas)
  let ?calls = "merge_collected_tool_deltas [] deltas" and ?i = "unwrap_or 0 (td_index d)"
  have s: "merge_collected_tool_deltas [] (deltas @ [d]) = merge_collected_tool_delta ?calls d"
    by (simp add: merge_collected_tool_deltas_def)
  have keys: "set (map ct_index ?calls) = set (map (\<lambda>d. unwrap_or 0 (td_index d)) deltas)"
    using snoc by (metis set_remdups set_rev)
  have first: "rev (remdups (rev (xs @ [x]))) = rev (remdups (rev xs)) @ (if x \<in> set xs then [] else [x])"
    for xs :: "int list" and x
    by simp
  have frag: "fragments_for j (deltas @ [d]) = fragments_for j deltas
      @ (if j = ?i then [unwrap_or [] (Option.bind (td_function d) fd_arguments)] else [])" for j
    by (simp add: fragments_for_def)
  have mine: "unwrap_or [] (map_option ct_arguments (call_at ?i ?calls)) = concat (fragments_for ?i deltas)"
    if "i = ?i"
    using conjunct2 [OF snoc] unfolding that by simp
  have "map ct_index (merge_collected_tool_delta ?calls d)
      = rev (remdups (rev (map (\<lambda>d. unwrap_or 0 (td_index d)) (deltas @ [d]))))"
    unfolding merge_delta_facts(1) map_append list.map first keys [symmetric]
      conjunct1 [OF snoc] by simp
  moreover have "map_option ct_arguments (call_at i (merge_collected_tool_delta ?calls d)) =
      (if fragments_for i (deltas @ [d]) = [] then None
       else Some (concat (fragments_for i (deltas @ [d]))))"
    unfolding merge_delta_facts(2) frag using mine conjunct2 [OF snoc] by simp
  ultimately show ?case unfolding s by blast
qed (simp add: merge_collected_tool_deltas_def fragments_for_def call_at_def)

section \<open>Rendered events\<close>

definition render_event :: "string \<Rightarrow> string" where
  "render_event payload = ''data: '' @ payload @ [NL, NL]"

definition one_line :: "string \<Rightarrow> bool" where
  "one_line t \<longleftrightarrow> t \<noteq> [] \<and> NL \<notin> set t \<and> CHR 0x0D \<notin> set t \<and> valid_utf8 t"

lemma str_find_newlines: "NL \<notin> set a \<Longrightarrow> str_find (a @ NL # NL # r) [NL, NL] = Some (length a)"
  by (induction a) auto

lemma lines_from_one: "NL \<notin> set t \<Longrightarrow> lines_from acc t = (if acc @ t = [] then [] else [acc @ t])"
  by (induction t arbitrary: acc) auto

lemma next_delimiter_rendered:
  assumes "NL \<notin> set a" and "CHR 0x0D \<notin> set a"
  shows "next_sse_delimiter (a @ NL # NL # r) = Some (length a, 2)"
proof -
  have "length a \<le> k" if "str_find (a @ NL # NL # r) (CRLF @ CRLF) = Some k" for k
  proof (rule ccontr)
    assume "\<not> length a \<le> k"
    then have "(a @ NL # NL # r) ! k \<in> set a" by (simp add: nth_append)
    moreover have "(a @ NL # NL # r) ! k = CHR 0x0D"
      using str_find_nth [OF that, of 0] by (simp add: CRLF_def)
    ultimately show False using assms(2) by simp
  qed
  then show ?thesis using str_find_newlines [OF assms(1)]
    by (auto simp: next_sse_delimiter_def split: option.split)
qed

lemma parse_rendered:
  assumes "one_line t"
  shows "parse_sse_frame (''data: '' @ t) = Inr (empty_frame\<lparr>sf_data := t\<rparr>)"
proof -
  have "strip_cr (''data: '' @ t) = ''data: '' @ t"
    using assms by (metis append_is_Nil_conv last_appendR last_in_set one_line_def strip_cr_def)
  moreover have "valid_utf8 (''data: '' @ t)" using assms by (simp add: one_line_def)
  moreover have "str_lines (''data: '' @ t) = [''data: '' @ t]"
    using assms unfolding str_lines_def by (subst lines_from_one) (auto simp: one_line_def)
  moreover have "split_once_colon (''data: '' @ t) = Some (''data'', CHR 0x20 # t)"
    by (simp add: split_once_colon_def)
  moreover have "strip_prefix (CHR 0x20 # t) '' '' = Some t" by (simp add: strip_prefix_def)
  ultimately have "frame_line (empty_frame, []) (''data: '' @ t) = (empty_frame, [t])"
    by (simp add: frame_line_def)
  with \<open>valid_utf8 (''data: '' @ t)\<close> \<open>str_lines (''data: '' @ t) = [''data: '' @ t]\<close>
  show ?thesis unfolding parse_sse_frame_def by (simp only: not_True_eq_False if_False foldl.simps Let_def prod.case join_with.simps)
qed

lemma next_frame_rendered:
  assumes "one_line t"
  shows "next_frame (render_event t @ rest) = Inr (Some (empty_frame\<lparr>sf_data := t\<rparr>, rest))"
proof -
  have e: "render_event t @ rest = (''data: '' @ t) @ NL # NL # rest" by (simp add: render_event_def)
  have "next_sse_delimiter ((''data: '' @ t) @ NL # NL # rest) = Some (length (''data: '' @ t), 2)"
    using assms by (intro next_delimiter_rendered) (auto simp: one_line_def)
  then show ?thesis unfolding e next_frame_def by (simp add: parse_rendered [OF assms, simplified])
qed

definition sends_event :: "decoder \<Rightarrow> string \<Rightarrow> zen_sse_event \<Rightarrow> bool" where
  "sends_event decode payload event \<longleftrightarrow>
     one_line payload \<and> trim payload \<noteq> ''[DONE]'' \<and> decode payload = Inr event"

lemma drain_rendered:
  assumes "list_all2 (sends_event decode) payloads events"
  shows "drain_frames decode (concat (map render_event payloads) @ rest) c
    = drain_frames decode rest (foldl (\<lambda>c e. collect_event e c) c events)"
  using assms
proof (induction payloads events arbitrary: c rule: list_all2_induct)
  case (Cons t ts e es)
  have "one_line t" using Cons.hyps(1) by (simp add: sends_event_def)
  note nf = next_frame_rendered [OF this]
  have "apply_sse_frame_to_collection decode (empty_frame\<lparr>sf_data := t\<rparr>) c = Inr (collect_event e c)"
    using Cons.hyps(1)
    by (auto simp: apply_sse_frame_to_collection_def parse_zen_frame_def sends_event_def one_line_def)
  with Cons.IH show ?case by (subst drain_frames.simps) (simp add: nf)
qed simp

text \<open>
  C25: A stream of rendered events that ends with its terminal marker is collected to exactly the
  answer of its events, however it is cut into chunks.
\<close>

theorem rendered_stream_is_collected:
  assumes "list_all2 (sends_event decode) payloads events"
    and "concat chunks = concat (map render_event (payloads @ [''[DONE]'']))"
  shows "collect_stream_parts decode (map Inr chunks)
    = Inr ((foldl (\<lambda>c e. collect_event e c) empty_collection events)\<lparr>co_saw_done := True\<rparr>)"
proof -
  let ?c = "foldl (\<lambda>c e. collect_event e c) empty_collection events"
  have marker: "one_line ''[DONE]''" by (simp add: one_line_def)
  have trim: "trim ''[DONE]'' = ''[DONE]''" by code_simp
  have "drain_frames decode (render_event ''[DONE]'' @ []) ?c = Inr (?c\<lparr>co_saw_done := True\<rparr>, [])"
    by (subst drain_frames.simps)
      (simp add: next_frame_rendered [OF marker] apply_sse_frame_to_collection_def
        parse_zen_frame_def trim drain_frames_empty del: append_Nil2)
  then have "drain_frames decode (concat chunks) empty_collection
      = Inr (?c\<lparr>co_saw_done := True\<rparr>, [])"
    using drain_rendered [OF assms(1), of "render_event ''[DONE]''" empty_collection] assms(2)
    by simp
  then show ?thesis
    by (simp add: collect_stream_parts_def collect_chunks_concat [OF drain_frames_empty]
        parser_finish_def)
qed

definition demo_event :: zen_sse_event where
  "demo_event =
     \<lparr>ze_id = None, ze_object = None, ze_created = None, ze_model = None,
      ze_choices = Some [\<lparr>zc_index = Some 0, zc_delta = Some
        \<lparr>zd_content = Some ''hi'', zd_reasoning_content = None, zd_tool_calls = None\<rparr>,
        zc_finish_reason = None\<rparr>],
      ze_usage = None\<rparr>"

lemma rendered_stream_is_collected_witness:
  "concat [''data: {}'' @ [NL], [NL] @ ''data: [DO'', ''NE]'' @ [NL, NL]]
     = concat (map render_event ([''{}''] @ [''[DONE]'']))
   \<and> collect_stream_parts (\<lambda>_. Inr demo_event)
       (map Inr [''data: {}'' @ [NL], [NL] @ ''data: [DO'', ''NE]'' @ [NL, NL]])
     = Inr ((foldl (\<lambda>c e. collect_event e c) empty_collection [demo_event])\<lparr>co_saw_done := True\<rparr>)"
proof -
  have "trim ''{}'' = ''{}''" by code_simp
  then have s: "list_all2 (sends_event (\<lambda>_. Inr demo_event)) [''{}''] [demo_event]"
    by (simp add: sends_event_def one_line_def)
  have c: "concat [''data: {}'' @ [NL], [NL] @ ''data: [DO'', ''NE]'' @ [NL, NL]]
     = concat (map render_event ([''{}''] @ [''[DONE]'']))"
    by (simp add: render_event_def)
  show ?thesis using rendered_stream_is_collected [OF s c] c by blast
qed

end
