(* ===== verification/ClientProfile.thy ===== *)
theory ClientProfile
  imports ClientTypes
begin

text \<open>
  \<open>client_profile.rs\<close>: which client sent a request, read off its headers, its texts or the names
  of its tools, and what the profile means for the rest of the client.  \<open>headers\<close> looks up a
  header whose value is text.
\<close>

datatype client_kind =
  ClaudeCode
| Hermes
| OpenClaw
| CherryStudio
| OpenAiSdk
| AnthropicSdk
| UnknownClient

datatype client_profile_source = FromHeader | FromUserAgent | FromBody | FromNowhere

record client_profile =
  cp_kind :: client_kind
  cp_source :: client_profile_source

definition profile_new :: "client_kind \<Rightarrow> client_profile_source \<Rightarrow> client_profile" where
  "profile_new kind source = \<lparr>cp_kind = kind, cp_source = source\<rparr>"

definition unknown_profile :: client_profile where
  "unknown_profile = profile_new UnknownClient FromNowhere"

definition disables_thinking_for_tool_use :: "client_profile \<Rightarrow> bool" where
  "disables_thinking_for_tool_use p \<longleftrightarrow> cp_kind p \<in> set [Hermes, OpenClaw]"

definition preserves_stream_whitespace :: "client_profile \<Rightarrow> bool" where
  "preserves_stream_whitespace p \<longleftrightarrow> cp_kind p = ClaudeCode"

definition preserves_model_text_exactly :: "client_profile \<Rightarrow> bool" where
  "preserves_model_text_exactly p \<longleftrightarrow> cp_kind p = ClaudeCode"

definition uses_compat_tool_history :: "client_profile \<Rightarrow> bool" where
  "uses_compat_tool_history p \<longleftrightarrow> cp_kind p \<in> set [Hermes, OpenClaw, ClaudeCode]"

definition protects_recovery_safe_markers :: "client_profile \<Rightarrow> bool" where
  "protects_recovery_safe_markers p \<longleftrightarrow> cp_kind p \<in> set [Hermes, OpenClaw]"

text \<open>The letters and digits of ASCII, in lower case.\<close>

definition normalize_client :: "string \<Rightarrow> string" where
  "normalize_client value = to_ascii_lowercase (filter is_ascii_alphanumeric value)"

definition effective_for_model :: "string \<Rightarrow> client_profile \<Rightarrow> client_profile" where
  "effective_for_model model p =
     (let normalized = normalize_client model; kind = cp_kind p
      in if normalized \<in> set [''deepseekv4flash'', ''deepseekv4flashfree''] then p
         else if normalized \<in> set [''mimov25'', ''mimov25free'', ''northminicode'',
             ''northminicodefree'', ''nemotron3ultra'', ''nemotron3ultrafree'']
           then if kind \<in> set [Hermes, OpenClaw] then unknown_profile else p
         else if normalized = ''deepseekv4flashlite''
           then if kind = ClaudeCode then unknown_profile else p
         else if normalized = ''bigpickle'' then p
         else if normalized \<in> set [''hy3'', ''hy3free'']
           then if kind \<in> set [Hermes, OpenClaw] then unknown_profile else p
         else if normalized \<in> set [''minimaxm3'', ''minimaxm3free'', ''qwen36plus'', ''qwen36plusfree'']
           then if kind \<in> set [ClaudeCode, Hermes, OpenClaw] then unknown_profile else p
         else p)"

definition parse_client_kind :: "string \<Rightarrow> client_kind option" where
  "parse_client_kind value =
     (let normalized = normalize_client value
      in if normalized \<in> set [''claudecode'', ''claudecodecli''] then Some ClaudeCode
         else if normalized = ''hermes'' then Some Hermes
         else if normalized = ''openclaw'' then Some OpenClaw
         else if normalized \<in> set [''cherrystudio'', ''cherry''] then Some CherryStudio
         else if normalized \<in> set [''openaisdk'', ''openai''] then Some OpenAiSdk
         else if normalized \<in> set [''anthropicsdk'', ''anthropic''] then Some AnthropicSdk
         else if normalized = ''unknown'' then Some UnknownClient
         else None)"

definition infer_client_kind_from_text :: "string \<Rightarrow> client_kind option" where
  "infer_client_kind_from_text value =
     (let normalized = normalize_client value
      in if contains_str normalized ''claudecode'' then Some ClaudeCode
         else if contains_str normalized ''hermes'' then Some Hermes
         else if contains_str normalized ''openclaw'' then Some OpenClaw
         else if contains_str normalized ''cherrystudio'' then Some CherryStudio
         else if contains_str normalized ''anthropic'' then Some AnthropicSdk
         else if contains_str normalized ''openai'' then Some OpenAiSdk
         else None)"

fun first_kind :: "(string \<Rightarrow> string option) \<Rightarrow> string list \<Rightarrow> client_kind option" where
  "first_kind headers [] = None"
| "first_kind headers (h # hs) =
     (case Option.bind (headers h) infer_client_kind_from_text of
        Some kind \<Rightarrow> Some kind
      | None \<Rightarrow> first_kind headers hs)"

definition profile_from_headers :: "(string \<Rightarrow> string option) \<Rightarrow> client_profile option" where
  "profile_from_headers headers =
     (case Option.bind (headers ''x-fmc-client'') parse_client_kind of
        Some kind \<Rightarrow> Some (profile_new kind FromHeader)
      | None \<Rightarrow>
          map_option (\<lambda>kind. profile_new kind FromUserAgent)
            (first_kind headers [''user-agent'', ''x-client-name'', ''anthropic-client'',
               ''x-stainless-package-version'']))"

section \<open>Inference from the body\<close>

function client_value_to_text :: "json \<Rightarrow> string" where
  "client_value_to_text (JString t) = t"
| "client_value_to_text (JArray items) = join_with [NL] (map client_value_to_text items)"
| "client_value_to_text (JObject m) = join_with [NL] (map (\<lambda>kv. client_value_to_text (snd kv)) m)"
| "client_value_to_text JNull = []"
| "client_value_to_text (JBool b) = []"
| "client_value_to_text (JNumber n) = []"
  by pat_completeness auto
termination
  by (relation "measure size") (auto simp: termination_simp)

definition contains_strong_openclaw_marker :: "string \<Rightarrow> bool" where
  "contains_strong_openclaw_marker lower \<longleftrightarrow>
     list_ex (contains_str lower)
       [''running inside openclaw'', ''openclaw cli'', ''openclaw agent'', ''openclaw_config'',
        ''openclaw-config'']"

definition contains_strong_hermes_marker :: "string \<Rightarrow> bool" where
  "contains_strong_hermes_marker lower \<longleftrightarrow>
     list_ex (contains_str lower)
       [''running inside hermes'', ''hermes cli'', ''hermes agent'', ''hermes_config'',
        ''hermes-config'']"

definition infer_client_kind_from_body_text :: "string \<Rightarrow> client_kind option" where
  "infer_client_kind_from_body_text value =
     (let lower = to_ascii_lowercase value
      in if contains_strong_openclaw_marker lower then Some OpenClaw
         else if contains_strong_hermes_marker lower then Some Hermes
         else None)"

fun infer_from_message_values :: "json list \<Rightarrow> client_profile option" where
  "infer_from_message_values [] = None"
| "infer_from_message_values (v # vs) =
     (let t = client_value_to_text v
      in if infer_client_kind_from_body_text t = Some OpenClaw
           then Some (profile_new OpenClaw FromBody)
         else if infer_client_kind_from_body_text t = Some Hermes
           then Some (profile_new Hermes FromBody)
         else infer_from_message_values vs)"

definition is_openclaw_strong_tool_name :: "string \<Rightarrow> bool" where
  "is_openclaw_strong_tool_name name \<longleftrightarrow>
     name \<in> set [''subagents'', ''sessionsspawn'', ''sessionssend'', ''sessionsyield'',
       ''sessionstatus'', ''sessionsstatus'', ''sessionshistory'', ''sessionslist'', ''memoryget'',
       ''memorysearch'']
     \<or> contains_str name ''openclaw''"

definition claude_code_tool_names :: "string list" where
  "claude_code_tool_names =
     [''task'', ''bash'', ''read'', ''edit'', ''multiedit'', ''write'', ''todowrite'', ''grep'',
      ''glob'', ''ls'']"

definition infer_from_tool_names :: "string list \<Rightarrow> client_profile option" where
  "infer_from_tool_names tool_names =
     (let names = map normalize_client tool_names
      in if list_ex is_openclaw_strong_tool_name names then Some (profile_new OpenClaw FromBody)
         else if list_ex (\<lambda>n. contains_str n ''hermes'') names
           then Some (profile_new Hermes FromBody)
         else if list_ex (\<lambda>n. n \<in> set claude_code_tool_names) names
           then Some (profile_new ClaudeCode FromBody)
         else None)"

definition infer_openai_from_body :: "chat_request \<Rightarrow> client_profile option" where
  "infer_openai_from_body request =
     (case infer_from_message_values (map ms_content (cr_messages request)) of
        Some p \<Rightarrow> Some p
      | None \<Rightarrow>
          Option.bind (cr_tools request) (\<lambda>tools.
            infer_from_tool_names (map (\<lambda>t. of_name (ot_function t)) tools)))"

definition infer_anthropic_from_body :: "anthropic_request \<Rightarrow> client_profile option" where
  "infer_anthropic_from_body request =
     (case infer_from_message_values
         ((case ar_system request of Some s \<Rightarrow> [s] | None \<Rightarrow> [])
          @ map am_content (ar_messages request)) of
        Some p \<Rightarrow> Some p
      | None \<Rightarrow>
          Option.bind (ar_tools request) (\<lambda>tools. infer_from_tool_names (map td_name tools)))"

definition profile_from_openai ::
  "(string \<Rightarrow> string option) \<Rightarrow> chat_request \<Rightarrow> client_profile" where
  "profile_from_openai headers request =
     unwrap_or (unwrap_or unknown_profile (infer_openai_from_body request))
       (profile_from_headers headers)"

definition profile_from_anthropic ::
  "(string \<Rightarrow> string option) \<Rightarrow> anthropic_request \<Rightarrow> client_profile" where
  "profile_from_anthropic headers request =
     unwrap_or (unwrap_or unknown_profile (infer_anthropic_from_body request))
       (profile_from_headers headers)"

end
