(* ===== verification/UnfinishedIntent.thy ===== *)
theory UnfinishedIntent
  imports ClientProfile Utf8Chars
begin

text \<open>
  \<open>proxy/unfinished_intent.rs\<close>: a short announcement of the model that it will check or wait next
  is held back until it is clear that an answer follows.
\<close>

definition PENDING_ZH :: "string list" where
  "PENDING_ZH =
     [utf8 [0x547D, 0x4EE4, 0x8D85, 0x65F6], utf8 [0x68C0, 0x67E5, 0x8F93, 0x51FA], utf8 [0x68C0, 0x67E5, 0x6587, 0x4EF6], utf8 [0x662F, 0x5426, 0x5DF2, 0x751F, 0x6210], utf8 [0x518D, 0x7B49], utf8 [0x4E00, 0x4F1A, 0x513F, 0x53D6], utf8 [0x6211, 0x53BB, 0x770B], utf8 [0x6211, 0x53BB, 0x67E5],
      utf8 [0x6211, 0x53BB, 0x68C0, 0x67E5], utf8 [0x8BA9, 0x6211, 0x68C0, 0x67E5], utf8 [0x8BA9, 0x6211, 0x770B], utf8 [0x7A0D, 0x540E, 0x68C0, 0x67E5], utf8 [0x770B, 0x4E00, 0x4E0B, 0x8F93, 0x51FA], utf8 [0x5148, 0x770B, 0x4E00, 0x4E0B], utf8 [0x7EE7, 0x7EED, 0x7B49], utf8 [0x7EE7, 0x7EED, 0x68C0, 0x67E5]]"

definition PENDING_EN :: "string list" where
  "PENDING_EN =
     [''let me check'', ''let me look'', ''i'' @ [CHR 0x27] @ ''ll check'', ''i will check'',
      ''i'' @ [CHR 0x27] @ ''ll look'', ''checking the'', ''check if the'', ''check whether'',
      ''command timed out'', ''timed out'', ''wait and check'']"

definition DONE_ZH :: "string list" where
  "DONE_ZH = [utf8 [0x5982, 0x4E0B], utf8 [0x6C47, 0x603B], utf8 [0x7ED3, 0x8BBA], utf8 [0x5DF2, 0x5B8C, 0x6210], utf8 [0x5DF2, 0x5220, 0x9664], utf8 [0x68C0, 0x67E5, 0x5B8C, 0x6210], utf8 [0x7ED3, 0x679C, 0x5982, 0x4E0B]]"

definition DONE_EN :: "string list" where
  "DONE_EN = [''here is'', ''summary:'', ''completed'', ''already done'']"

definition request_offers_tools :: "chat_request \<Rightarrow> bool" where
  "request_offers_tools request \<longleftrightarrow>
     (case cr_tools request of Some tools \<Rightarrow> tools \<noteq> [] | None \<Rightarrow> False)"

definition has_any :: "string \<Rightarrow> string list \<Rightarrow> bool" where
  "has_any t needles \<longleftrightarrow> list_ex (contains_str t) needles"

definition has_any_ascii :: "string \<Rightarrow> string list \<Rightarrow> bool" where
  "has_any_ascii t needles \<longleftrightarrow> list_ex (contains_str (to_ascii_lowercase t)) needles"

definition looks_like_unfinished_tool_intent :: "string \<Rightarrow> bool" where
  "looks_like_unfinished_tool_intent t =
     (let trimmed = trim t
      in if trimmed = [] then False
         else if char_count trimmed > 64 then False
         else if has_any trimmed DONE_ZH \<or> has_any_ascii trimmed DONE_EN then False
         else has_any trimmed PENDING_ZH \<or> has_any_ascii trimmed PENDING_EN)"

definition should_hold_unfinished_tool_intent ::
  "client_profile \<Rightarrow> chat_request \<Rightarrow> string \<Rightarrow> bool \<Rightarrow> bool" where
  "should_hold_unfinished_tool_intent p request accumulated tool_calls_empty \<longleftrightarrow>
     cp_kind p = ClaudeCode \<and> tool_calls_empty \<and> request_offers_tools request
     \<and> looks_like_unfinished_tool_intent accumulated"

definition should_retry_unfinished_tool_intent ::
  "client_profile \<Rightarrow> nat \<Rightarrow> nat \<Rightarrow> string \<Rightarrow> bool \<Rightarrow> chat_request \<Rightarrow> bool" where
  "should_retry_unfinished_tool_intent p attempt max_attempts t tool_calls_empty request \<longleftrightarrow>
     cp_kind p = ClaudeCode \<and> attempt + 1 < max_attempts \<and> tool_calls_empty
     \<and> request_offers_tools request \<and> looks_like_unfinished_tool_intent t"

text \<open>The text that may be emitted now, and what is held from here on.\<close>

definition push_visible_chunk ::
  "string \<Rightarrow> string \<Rightarrow> string \<Rightarrow> client_profile \<Rightarrow> chat_request \<Rightarrow> bool
     \<Rightarrow> string option \<times> string" where
  "push_visible_chunk held emitted chunk p request tool_calls_empty =
     (if chunk = [] then (None, held)
      else if should_hold_unfinished_tool_intent p request (emitted @ held @ chunk) tool_calls_empty
        then (None, held @ chunk)
      else (Some (held @ chunk), []))"

definition progress_text :: "string \<Rightarrow> string \<Rightarrow> string" where
  "progress_text emitted held = (if trim emitted = [] then held else emitted)"

definition combined_visible_text :: "string \<Rightarrow> string \<Rightarrow> string" where
  "combined_visible_text emitted held =
     (if held = [] then emitted else if emitted = [] then held else emitted @ held)"

text \<open>
  The chunks of a stream as the handlers push them, each with the answer whether no tool call has
  been seen yet: what was emitted and what is held.
\<close>

fun push_visible_chunks ::
  "string \<Rightarrow> string \<Rightarrow> (string \<times> bool) list \<Rightarrow> client_profile \<Rightarrow> chat_request
     \<Rightarrow> string \<times> string" where
  "push_visible_chunks held emitted [] p request = (emitted, held)"
| "push_visible_chunks held emitted ((chunk, e) # chunks) p request =
     (let (flush, held) = push_visible_chunk held emitted chunk p request e
      in push_visible_chunks held (emitted @ unwrap_or [] flush) chunks p request)"

lemma push_visible_chunk_keeps:
  assumes "push_visible_chunk h em c p request e = (fl, h')"
    and "h = [] \<or> looks_like_unfinished_tool_intent (em @ h)"
  shows "(em @ unwrap_or [] fl) @ h' = em @ h @ c"
    and "h' = [] \<or> looks_like_unfinished_tool_intent ((em @ unwrap_or [] fl) @ h')"
  using assms
  by (auto simp: push_visible_chunk_def should_hold_unfinished_tool_intent_def split: if_splits)

text \<open>
  No text is lost or reordered: what has been emitted and what is held are together the
  chunks pushed so far, and what is held is empty or the whole text so far is an unfinished
  announcement, of at most 64 characters.
\<close>

lemma held_intent_keeps_text:
  assumes "push_visible_chunks [] [] chunks p request = (emitted, held)"
  shows "emitted @ held = concat (map fst chunks)
    \<and> (held = [] \<or> looks_like_unfinished_tool_intent (emitted @ held)
        \<and> char_count (trim (emitted @ held)) \<le> 64)"
proof -
  have "h = [] \<or> looks_like_unfinished_tool_intent (em @ h) \<Longrightarrow>
      push_visible_chunks h em cs p request = (emitted, held) \<Longrightarrow>
      emitted @ held = em @ h @ concat (map fst cs)
      \<and> (held = [] \<or> looks_like_unfinished_tool_intent (emitted @ held))" for cs h em
  proof (induction cs arbitrary: h em)
    case (Cons ce cs)
    obtain c e where ce: "ce = (c, e)" by fastforce
    obtain fl h' where p: "push_visible_chunk h em c p request e = (fl, h')" by fastforce
    note k = push_visible_chunk_keeps [OF p Cons.prems(1)]
    have "push_visible_chunks h' (em @ unwrap_or [] fl) cs p request = (emitted, held)"
      using Cons.prems(2) p ce by simp
    from Cons.IH [OF k(2) this]
    have r: "emitted @ held = (em @ unwrap_or [] fl) @ h' @ concat (map fst cs)"
      "held = [] \<or> looks_like_unfinished_tool_intent (emitted @ held)" by blast+
    have "(em @ unwrap_or [] fl) @ h' @ concat (map fst cs) = em @ h @ concat (map fst (ce # cs))"
      using k(1) unfolding ce by (metis append.assoc concat.simps(2) fst_conv list.simps(9))
    with r show ?case by metis
  qed simp
  from this [OF disjI1 [OF refl] assms]
  have r: "emitted @ held = concat (map fst chunks)"
    "held = [] \<or> looks_like_unfinished_tool_intent (emitted @ held)"
    unfolding append_Nil by blast+
  have "looks_like_unfinished_tool_intent t \<Longrightarrow> char_count (trim t) \<le> 64" for t
    by (simp add: looks_like_unfinished_tool_intent_def Let_def split: if_splits)
  with r show ?thesis by metis
qed

lemma held_intent_keeps_text_witness:
  "\<exists>p request. push_visible_chunks [] [] [(''timed '', True), (''out'', True)] p request
       = (''timed out'', [])
     \<and> ''timed out'' @ [] = concat (map fst [(''timed '', True), (''out'', True)])"
proof -
  let ?p = "profile_new OpenAiSdk FromHeader"
  let ?r = "\<lparr>cr_model = ''m'', cr_messages = [], cr_stream = None, cr_max_tokens = None,
      cr_temperature = None, cr_top_p = None, cr_tools = None, cr_tool_choice = None\<rparr>"
  have e: "push_visible_chunks [] [] [(''timed '', True), (''out'', True)] ?p ?r = (''timed out'', [])"
    by (simp add: push_visible_chunk_def should_hold_unfinished_tool_intent_def profile_new_def)
  from held_intent_keeps_text [OF e] e show ?thesis by blast
qed

end
