(* ===== verification/RequestShape.thy ===== *)
theory RequestShape
  imports ToolHistory Utf8Chars
begin

text \<open>
  The second part of \<open>protocol/translate.rs\<close>: the shape of a request (token estimates, hashes of
  the prompt and of the material that identifies it in the caches), the classification of short
  requests and probes, and the policy on output budgets.  \<open>f64\<close> is exact on the lengths of
  strings, so the estimate of tokens is a division rounded up.
\<close>

section \<open>Names and texts\<close>

definition normalize_model :: "string \<Rightarrow> string" where
  "normalize_model model = to_lowercase (unwrap_or model (strip_prefix model ''opencode/''))"

definition map_upstream_model :: "string \<Rightarrow> (string \<times> string) list \<Rightarrow> string" where
  "map_upstream_model model mappings =
     (case find (\<lambda>(public, _). public = model) mappings of
        Some (_, upstream) \<Rightarrow> upstream
      | None \<Rightarrow> model)"

definition estimate_tokens :: "string \<Rightarrow> nat" where
  "estimate_tokens text = div_ceil (length text) 4"

definition build_prompt_text :: "message list \<Rightarrow> string" where
  "build_prompt_text ms = join_with [NL] (List.map_filter (\<lambda>m. as_str (ms_content m)) ms)"

definition has_tools :: "chat_request \<Rightarrow> bool" where
  "has_tools body \<longleftrightarrow> (case cr_tools body of Some t \<Rightarrow> t \<noteq> [] | None \<Rightarrow> False)"

definition value_shape_tokens :: "serde \<Rightarrow> json \<Rightarrow> nat" where
  "value_shape_tokens S v =
     (case v of
        JString text \<Rightarrow> estimate_tokens text
      | JNull \<Rightarrow> 0
      | other \<Rightarrow> estimate_tokens (to_string S other))"

text \<open>\<open>str::replace\<close> of single characters.\<close>

definition underscored :: "string \<Rightarrow> string" where
  "underscored s = map (\<lambda>c. if c = CHR ''-'' \<or> c = CHR ''.'' then CHR ''_'' else c) s"

definition tool_name_class :: "string \<Rightarrow> string" where
  "tool_name_class name =
     (let normalized = underscored (to_ascii_lowercase (trim name))
      in if normalized \<in> set [''web_search'', ''websearch'', ''web'', ''search''] then ''web_search''
         else if normalized \<in> set [''web_fetch'', ''webfetch'', ''fetch'', ''fetch_url'']
           then ''web_fetch''
         else if normalized \<in> set [''task'', ''subagent'', ''sub_agent''] then ''task''
         else if normalized \<in> set [''bash'', ''shell'', ''exec'', ''execute'', ''run_command'']
           then ''shell''
         else if normalized \<in> set [''read'', ''write'', ''edit'', ''multiedit'', ''read_file'',
             ''write_file'', ''edit_file''] then ''file''
         else if normalized \<in> set [''todowrite'', ''todo_write'', ''todo''] then ''todo''
         else if normalized \<in> set [''memorysearch'', ''memory_search'', ''memoryread'',
             ''memory_read''] then ''memory''
         else if normalized \<in> set [''mcp__cherryhub__list'', ''mcp__cherryhub__inspect'',
             ''mcp__cherryhub__invoke'', ''mcp__cherryhub__exec''] then ''mcp''
         else if starts_with normalized ''mcp__'' then ''mcp''
         else if contains_str normalized ''web_search'' then ''web_search''
         else if contains_str normalized ''web_fetch'' then ''web_fetch''
         else ''other'')"

section \<open>What is serialised\<close>

text \<open>
  A derived \<open>Serialize\<close> writes the fields of a struct in the order of their declaration, so these
  objects are not sorted.
\<close>

definition ser_tool_call :: "tool_call \<Rightarrow> json" where
  "ser_tool_call c = JObject
     (opt_field ''id'' (map_option JString (tc_id c))
      @ [(''type'', JString (tc_call_type c)),
         (''function'', JObject
            [(''name'', JString (tf_name (tc_function c))),
             (''arguments'', JString (tf_arguments (tc_function c)))])]
      @ opt_field ''index'' (map_option json_int (tc_index c)))"

definition ser_message :: "message \<Rightarrow> json" where
  "ser_message m = JObject
     ([(''role'', JString (ms_role m)), (''content'', ms_content m)]
      @ opt_field ''tool_calls'' (map_option (\<lambda>cs. JArray (map ser_tool_call cs)) (ms_tool_calls m))
      @ opt_field ''tool_call_id'' (map_option JString (ms_tool_call_id m))
      @ opt_field ''reasoning_content'' (map_option JString (ms_reasoning_content m)))"

definition json_option :: "json option \<Rightarrow> json" where
  "json_option v = unwrap_or JNull v"

definition ser_tool :: "openai_tool \<Rightarrow> json" where
  "ser_tool t = JObject
     [(''type'', JString (ot_tool_type t)),
      (''function'', JObject
         [(''name'', JString (of_name (ot_function t))),
          (''description'', json_option (map_option JString (of_description (ot_function t)))),
          (''parameters'', json_option (of_parameters (ot_function t)))])]"

definition ser_tools :: "openai_tool list \<Rightarrow> json" where
  "ser_tools ts = JArray (map ser_tool ts)"

section \<open>Hashes and cache material\<close>

definition prompt_hash_message :: "serde \<Rightarrow> 64 word \<Rightarrow> message \<Rightarrow> 64 word" where
  "prompt_hash_message S hash m =
     (let hash = stable_hash64_update hash [CHR 0x1E];
          hash = stable_hash64_update hash (ms_role m);
          hash = stable_hash64_update hash [CHR 0x1F]
      in case ms_content m of
           JString text \<Rightarrow> stable_hash64_update hash text
         | other \<Rightarrow> stable_hash64_update hash (to_string S other))"

definition request_prompt_hash :: "serde \<Rightarrow> chat_request \<Rightarrow> nat \<Rightarrow> 64 word" where
  "request_prompt_hash S body tool_count =
     (let hash = 0xcbf29ce484222325;
          hash = stable_hash64_update hash (cr_model body);
          hash = stable_hash64_update hash [CHR 0x1F];
          stream_label = (if unwrap_or False (cr_stream body) then ''stream'' else ''nonstream'');
          hash = stable_hash64_update hash stream_label;
          hash = stable_hash64_update hash [CHR 0x1F];
          hash = stable_hash64_update hash (show_nat tool_count)
      in foldl (prompt_hash_message S) hash (cr_messages body))"

definition cache_identity_message :: "nat \<Rightarrow> message \<Rightarrow> message" where
  "cache_identity_message message_index m =
     (if ms_role m = ''tool''
      then
        \<lparr>ms_role = ms_role m, ms_content = JString ''[tool_result]'', ms_tool_calls = None,
         ms_tool_call_id = None, ms_reasoning_content = None\<rparr>
      else
        m\<lparr>ms_reasoning_content := None,
          ms_tool_calls :=
            map_option (\<lambda>calls. map (\<lambda>(tool_index, call).
                call\<lparr>tc_id := Some (synthetic_tool_id message_index tool_index call)\<rparr>)
              (enumerate 0 calls)) (ms_tool_calls m)\<rparr>)"

definition request_cache_material :: "serde \<Rightarrow> chat_request \<Rightarrow> string" where
  "request_cache_material S body =
     ''model='' @ cr_model body @ [NL]
     @ ''messages='' @ to_string S (JArray (map (\<lambda>(i, m). ser_message (cache_identity_message i m))
         (enumerate 0 (cr_messages body)))) @ [NL]
     @ ''tools='' @ to_string S (json_option (map_option ser_tools (cr_tools body))) @ [NL]
     @ ''tool_choice='' @ to_string S (json_option (cr_tool_choice body))"

definition request_static_cache_material :: "serde \<Rightarrow> chat_request \<Rightarrow> string" where
  "request_static_cache_material S body =
     ''model='' @ cr_model body @ [NL]
     @ ''messages='' @ to_string S (JArray (map (\<lambda>(i, m). ser_message (cache_identity_message i m))
         (enumerate 0 (cr_messages body)))) @ [NL]
     @ ''tools='' @ to_string S (json_option (map_option ser_tools (cr_tools body))) @ [NL]
     @ ''tool_choice='' @ to_string S (json_option (cr_tool_choice body))"

definition dynamic_material_of :: "serde \<Rightarrow> message \<Rightarrow> string" where
  "dynamic_material_of S m =
     (if ms_role m = ''tool'' then ''tool_result='' @ to_string S (ms_content m) @ [NL] else [])
     @ (if ms_role m = ''user'' then ''user='' @ to_string S (ms_content m) @ [NL] else [])
     @ (case ms_reasoning_content m of
          Some reasoning \<Rightarrow> if reasoning \<noteq> [] then ''reasoning='' @ reasoning @ [NL] else []
        | None \<Rightarrow> [])"

definition request_dynamic_cache_material :: "serde \<Rightarrow> chat_request \<Rightarrow> string" where
  "request_dynamic_cache_material S body = concat (map (dynamic_material_of S) (cr_messages body))"

definition request_cache_prefix_hash :: "string \<Rightarrow> nat \<Rightarrow> 64 word" where
  "request_cache_prefix_hash material prefix_bytes =
     stable_hash64_update 0xcbf29ce484222325 (take (min (length material) prefix_bytes) material)"

record cache_material_split =
  cm_static_material_bytes :: nat
  cm_dynamic_material_bytes :: nat
  cm_raw_cacheable_segment_hash :: "64 word"

definition request_cache_material_split :: "serde \<Rightarrow> chat_request \<Rightarrow> cache_material_split" where
  "request_cache_material_split S body =
     (let static_material = request_static_cache_material S body;
          dynamic_material = request_dynamic_cache_material S body
      in \<lparr>cm_static_material_bytes = length static_material,
          cm_dynamic_material_bytes = length dynamic_material,
          cm_raw_cacheable_segment_hash =
            request_cache_prefix_hash static_material (32 * 1024)\<rparr>)"

section \<open>The shape of a request\<close>

record request_shape =
  rs_system_tokens :: nat
  rs_messages_tokens :: nat
  rs_tools_tokens :: nat
  rs_tool_count :: nat
  rs_tool_name_classes :: "string list"
  rs_message_count :: nat
  rs_largest_message_tokens :: nat
  rs_last_user_tokens :: nat
  rs_estimated_total_tokens :: nat
  rs_stream :: bool
  rs_max_tokens :: "nat option"
  rs_tool_choice_present :: bool
  rs_prompt_hash :: "64 word"
  rs_prefix_4k_hash :: "64 word"
  rs_prefix_32k_hash :: "64 word"
  rs_prefix_128k_hash :: "64 word"
  rs_prefix_256k_hash :: "64 word"
  rs_cache_material_bytes :: nat

text \<open>The loop over the messages: system, other and largest tokens, and the last user's.\<close>

definition count_message ::
  "serde \<Rightarrow> nat \<times> nat \<times> nat \<times> nat \<Rightarrow> message \<Rightarrow> nat \<times> nat \<times> nat \<times> nat" where
  "count_message S = (\<lambda>(system, other, largest, last_user) m.
     let tokens = value_shape_tokens S (ms_content m)
     in (if ms_role m = ''system'' then sat_add 64 system tokens else system,
         if ms_role m = ''system'' then other else sat_add 64 other tokens,
         max largest tokens,
         if ms_role m = ''user'' then tokens else last_user))"

definition tools_shape :: "serde \<Rightarrow> openai_tool list option \<Rightarrow> nat \<times> nat \<times> string list" where
  "tools_shape S tools =
     (case tools of
        None \<Rightarrow> (0, 0, [])
      | Some ts \<Rightarrow>
          (length ts, estimate_tokens (to_string S (ser_tools ts)),
           remdups_adj (sort (map (\<lambda>t. tool_name_class (of_name (ot_function t))) ts))))"

definition request_shape_of :: "serde \<Rightarrow> chat_request \<Rightarrow> request_shape" where
  "request_shape_of S body =
     (let (system_tokens, messages_tokens, largest, last_user) =
            foldl (count_message S) (0, 0, 0, 0) (cr_messages body);
          (tool_count, tools_tokens, classes) = tools_shape S (cr_tools body);
          material = request_cache_material S body
      in \<lparr>rs_system_tokens = system_tokens, rs_messages_tokens = messages_tokens,
          rs_tools_tokens = tools_tokens, rs_tool_count = tool_count,
          rs_tool_name_classes = classes, rs_message_count = length (cr_messages body),
          rs_largest_message_tokens = largest, rs_last_user_tokens = last_user,
          rs_estimated_total_tokens =
            sat_add 64 (sat_add 64 system_tokens messages_tokens) tools_tokens,
          rs_stream = unwrap_or False (cr_stream body), rs_max_tokens = cr_max_tokens body,
          rs_tool_choice_present = (cr_tool_choice body \<noteq> None),
          rs_prompt_hash = request_prompt_hash S body tool_count,
          rs_prefix_4k_hash = request_cache_prefix_hash material (4 * 1024),
          rs_prefix_32k_hash = request_cache_prefix_hash material (32 * 1024),
          rs_prefix_128k_hash = request_cache_prefix_hash material (128 * 1024),
          rs_prefix_256k_hash = request_cache_prefix_hash material (256 * 1024),
          rs_cache_material_bytes = length material\<rparr>)"

end
