(* ===== verification/CacheIdentity.thy ===== *)
theory CacheIdentity
  imports RequestShape
begin

text \<open>
  \<open>ccp/mod.rs\<close>: the identity under which a request is cached by the provider.  The scope groups
  requests, the key \<open>usk\<close> hashes it together with the caller and the model, and the session
  identifier is derived from the key.  The flags come from the environment variables \<open>env\<close>.
\<close>

record ccp_flags =
  cf_icp_enabled :: bool
  cf_prompt_cache_key :: bool
  cf_anthropic_breakpoints :: bool
  cf_reasoning_sidecar :: bool
  cf_trf_strict :: bool

definition env_flag :: "(string \<Rightarrow> string option) \<Rightarrow> string \<Rightarrow> bool \<Rightarrow> bool" where
  "env_flag env name dflt =
     (case env name of
        Some v \<Rightarrow> v \<in> set [''1'', ''true'', ''yes'', ''on'']
      | None \<Rightarrow> dflt)"

definition ccp_flags_from_env :: "(string \<Rightarrow> string option) \<Rightarrow> ccp_flags" where
  "ccp_flags_from_env env =
     \<lparr>cf_icp_enabled = env_flag env ''CCP_ICP_ENABLED'' True,
      cf_prompt_cache_key = env_flag env ''CCP_PROMPT_CACHE_KEY'' True,
      cf_anthropic_breakpoints = env_flag env ''CCP_ANTHROPIC_BP'' True,
      cf_reasoning_sidecar = env_flag env ''CCP_REASONING_SIDECAR'' True,
      cf_trf_strict = env_flag env ''CCP_TRF_STRICT'' True\<rparr>"

record usk_context =
  uc_api_key_id :: string
  uc_public_model :: string
  uc_upstream_model :: string
  uc_source_client :: string

record icp_identity =
  ii_usk :: string
  ii_icp_scope :: string
  ii_prefix_4k_hash :: "64 word"
  ii_prefix_32k_hash :: "64 word"
  ii_tools_epoch_id :: string
  ii_affinity_routing_key :: string
  ii_zen_session_id :: string

definition short_hash16 :: "string \<Rightarrow> string" where
  "short_hash16 input =
     hex16 (foldl (\<lambda>hash c. (hash XOR of_nat (byte_of c)) * 0x100000001b3) 0xcbf29ce484222325 input)"

definition icp_scope_for_request :: "nat \<Rightarrow> 64 word \<Rightarrow> 64 word \<Rightarrow> string" where
  "icp_scope_for_request estimated_tokens prompt_hash prefix_32k_hash =
     (if estimated_tokens < 10000 then ''icp:normal''
      else ''icp:p32k:'' @ hex16 prefix_32k_hash)"

definition normalize_bucket :: "string \<Rightarrow> string" where
  "normalize_bucket source_client =
     (let trimmed = trim source_client in if trimmed = [] then ''unknown'' else trimmed)"

definition OC_CHARS :: string where
  "OC_CHARS = ''0123456789ABCDEFGHIJKLMNOPQRSTUVWXYZabcdefghijklmnopqrstuvwxyz''"

definition next_seed :: "64 word \<Rightarrow> 64 word" where
  "next_seed s = s * 6364136223846793005 + 1442695040888963407"

text \<open>The loop that draws the characters of the session identifier.\<close>

fun seed_chars :: "nat \<Rightarrow> 64 word \<Rightarrow> string" where
  "seed_chars 0 s = []"
| "seed_chars (Suc n) s =
     (let s = next_seed s in OC_CHARS ! unat (drop_bit 33 s mod 62) # seed_chars n s)"

text \<open>The format \<open>{:0<12}\<close>.\<close>

definition pad_zeros :: "nat \<Rightarrow> string \<Rightarrow> string" where
  "pad_zeros n s = s @ replicate (n - char_count s) (CHR ''0'')"

definition zen_session_id_of :: "string \<Rightarrow> string" where
  "zen_session_id_of usk =
     (let usk_seed = short_hash16 usk;
          seed_hex = pad_zeros 12 (take (min 12 (length usk_seed)) usk_seed)
      in ''ses_'' @ seed_hex @ seed_chars 14 (stable_hash64 usk))"

definition compute_icp_identity :: "serde \<Rightarrow> chat_request \<Rightarrow> usk_context \<Rightarrow> icp_identity" where
  "compute_icp_identity S request ctx =
     (let shape = request_shape_of S request;
          icp_scope = icp_scope_for_request (rs_estimated_total_tokens shape)
            (rs_prompt_hash shape) (rs_prefix_32k_hash shape);
          usk = ''usk_v1:'' @ short_hash16
            (uc_api_key_id ctx @ '':'' @ uc_upstream_model ctx @ '':'' @ uc_public_model ctx @ '':''
             @ uc_source_client ctx @ '':'' @ icp_scope);
          affinity_routing_key =
            uc_upstream_model ctx @ '':'' @ uc_public_model ctx @ '':''
            @ normalize_bucket (uc_source_client ctx) @ '':'' @ short_hash16 usk;
          tools_epoch_id = short_hash16
            (cr_model request @ '':''
             @ (case cr_tools request of Some ts \<Rightarrow> to_string S (ser_tools ts) | None \<Rightarrow> []))
      in \<lparr>ii_usk = usk, ii_icp_scope = icp_scope,
          ii_prefix_4k_hash = rs_prefix_4k_hash shape,
          ii_prefix_32k_hash = rs_prefix_32k_hash shape,
          ii_tools_epoch_id = tools_epoch_id,
          ii_affinity_routing_key = affinity_routing_key,
          ii_zen_session_id = zen_session_id_of usk\<rparr>)"

definition api_key_id_for_cache :: "string \<Rightarrow> string" where
  "api_key_id_for_cache api_key = short_hash16 api_key"

definition affinity_key_from_identity :: "icp_identity \<Rightarrow> string \<Rightarrow> string \<Rightarrow> string" where
  "affinity_key_from_identity identity path client_bucket =
     ii_affinity_routing_key identity @ '':'' @ path @ '':'' @ client_bucket"

definition apply_prompt_cache_key :: "icp_identity \<Rightarrow> ccp_flags \<Rightarrow> json \<Rightarrow> json" where
  "apply_prompt_cache_key identity flags body =
     (if \<not> cf_prompt_cache_key flags then body
      else
        case body of
          JObject m \<Rightarrow> JObject (obj_insert ''prompt_cache_key'' (JString (ii_usk identity)) m)
        | _ \<Rightarrow> body)"

end
