(* ===== verification/Canonical.thy ===== *)
theory Canonical
  imports CacheIdentity ClientProfile
begin

text \<open>
  The first part of \<open>canonical/mod.rs\<close> and \<open>session/reasoning_store.rs\<close>: the tools frozen per
  session, the upstream form of the messages, and the reasoning replayed into them.  The two
  global stores are the state \<open>client_state\<close>.  \<open>remote\<close> is what Redis answers to \<open>GET\<close> (none
  when there is no client or it fails); what is written to Redis is not modelled.
\<close>

record client_state =
  cs_tools_epoch :: "(string, json) hashmap"
  cs_reasoning :: "(string, string) hashmap"

section \<open>Derived deserialisation\<close>

text \<open>
  A derived \<open>Deserialize\<close> of a struct takes an object, whose other keys it ignores, or an array
  with one element per field.  An optional field may be absent or null.
\<close>

definition struct_fields :: "string list \<Rightarrow> json \<Rightarrow> (string \<Rightarrow> json option) option" where
  "struct_fields keys v =
     (case v of
        JObject m \<Rightarrow> Some (map_of m)
      | JArray vs \<Rightarrow> if length vs = length keys then Some (map_of (zip keys vs)) else None
      | _ \<Rightarrow> None)"

definition optional :: "(json \<Rightarrow> 'a option) \<Rightarrow> json option \<Rightarrow> 'a option option" where
  "optional de v =
     (case v of
        None \<Rightarrow> Some None
      | Some JNull \<Rightarrow> Some None
      | Some x \<Rightarrow> map_option Some (de x))"

fun all_some :: "'a option list \<Rightarrow> 'a list option" where
  "all_some [] = Some []"
| "all_some (x # xs) = Option.bind x (\<lambda>y. map_option (Cons y) (all_some xs))"

definition de_list :: "(json \<Rightarrow> 'a option) \<Rightarrow> json \<Rightarrow> 'a list option" where
  "de_list de v = (case v of JArray vs \<Rightarrow> all_some (map de vs) | _ \<Rightarrow> None)"

definition de_i64 :: "json \<Rightarrow> int option" where
  "de_i64 v =
     (case v of
        JNumber (PosInt n) \<Rightarrow> if n < 2 ^ 63 then Some (int n) else None
      | JNumber (NegInt i) \<Rightarrow> Some i
      | _ \<Rightarrow> None)"

definition de_tool_function :: "json \<Rightarrow> tool_function option" where
  "de_tool_function v =
     Option.bind (struct_fields [''name'', ''arguments''] v) (\<lambda>f.
     Option.bind (Option.bind (f ''name'') as_str) (\<lambda>name.
     Option.bind (Option.bind (f ''arguments'') as_str) (\<lambda>arguments.
       Some \<lparr>tf_name = name, tf_arguments = arguments\<rparr>)))"

definition de_tool_call :: "json \<Rightarrow> tool_call option" where
  "de_tool_call v =
     Option.bind (struct_fields [''id'', ''type'', ''function'', ''index''] v) (\<lambda>f.
     Option.bind (optional as_str (f ''id'')) (\<lambda>i.
     Option.bind (Option.bind (f ''type'') as_str) (\<lambda>call_type.
     Option.bind (Option.bind (f ''function'') de_tool_function) (\<lambda>func.
     Option.bind (optional de_i64 (f ''index'')) (\<lambda>index.
       Some \<lparr>tc_id = i, tc_call_type = call_type, tc_function = func, tc_index = index\<rparr>)))))"

definition de_message :: "json \<Rightarrow> message option" where
  "de_message v =
     Option.bind (struct_fields
       [''role'', ''content'', ''tool_calls'', ''tool_call_id'', ''reasoning_content''] v) (\<lambda>f.
     Option.bind (Option.bind (f ''role'') as_str) (\<lambda>role.
     Option.bind (f ''content'') (\<lambda>content.
     Option.bind (optional (de_list de_tool_call) (f ''tool_calls'')) (\<lambda>calls.
     Option.bind (optional as_str (f ''tool_call_id'')) (\<lambda>call_id.
     Option.bind (optional as_str (f ''reasoning_content'')) (\<lambda>reasoning.
       Some \<lparr>ms_role = role, ms_content = content, ms_tool_calls = calls,
             ms_tool_call_id = call_id, ms_reasoning_content = reasoning\<rparr>))))))"

definition de_openai_tool_function :: "json \<Rightarrow> openai_tool_function option" where
  "de_openai_tool_function v =
     Option.bind (struct_fields [''name'', ''description'', ''parameters''] v) (\<lambda>f.
     Option.bind (Option.bind (f ''name'') as_str) (\<lambda>name.
     Option.bind (optional as_str (f ''description'')) (\<lambda>description.
     Option.bind (optional Some (f ''parameters'')) (\<lambda>parameters.
       Some \<lparr>of_name = name, of_description = description, of_parameters = parameters\<rparr>))))"

definition de_openai_tool :: "json \<Rightarrow> openai_tool option" where
  "de_openai_tool v =
     Option.bind (struct_fields [''type'', ''function''] v) (\<lambda>f.
     Option.bind (Option.bind (f ''type'') as_str) (\<lambda>tool_type.
     Option.bind (Option.bind (f ''function'') de_openai_tool_function) (\<lambda>func.
       Some \<lparr>ot_tool_type = tool_type, ot_function = func\<rparr>)))"

section \<open>Sorted JSON\<close>

function sort_json_value :: "json \<Rightarrow> json" where
  "sort_json_value (JObject m) =
     JObject (foldl (\<lambda>acc k.
       case map_of (map (\<lambda>kv. (fst kv, sort_json_value (snd kv))) m) k of
         Some child \<Rightarrow> obj_insert k child acc
       | None \<Rightarrow> acc) [] (sort (map fst m)))"
| "sort_json_value (JArray items) = JArray (map sort_json_value items)"
| "sort_json_value JNull = JNull"
| "sort_json_value (JBool b) = JBool b"
| "sort_json_value (JNumber n) = JNumber n"
| "sort_json_value (JString s) = JString s"
  by pat_completeness auto
termination
  by (relation "measure size") (auto simp: termination_simp)

section \<open>The tools of a session\<close>

definition tools_epoch_key :: "string \<Rightarrow> string \<Rightarrow> string" where
  "tools_epoch_key model session_scope = model @ '':'' @ session_scope"

definition canonical_tool :: "openai_tool \<Rightarrow> json" where
  "canonical_tool t =
     (let func = json_object
        ([(''name'', JString (of_name (ot_function t)))]
         @ opt_field ''description'' (map_option JString (of_description (ot_function t)))
         @ opt_field ''parameters'' (map_option sort_json_value (of_parameters (ot_function t))))
      in json_object [(''type'', JString (ot_tool_type t)), (''function'', func)])"

definition canonical_tools_value :: "openai_tool list \<Rightarrow> json" where
  "canonical_tools_value tools = JArray (map canonical_tool tools)"

definition tools_from_canonical_value :: "json \<Rightarrow> openai_tool list" where
  "tools_from_canonical_value v = unwrap_or [] (de_list de_openai_tool v)"

definition tools_semantically_compatible :: "openai_tool list \<Rightarrow> json \<Rightarrow> bool" where
  "tools_semantically_compatible current frozen \<longleftrightarrow> canonical_tools_value current = frozen"

definition is_trf_transient_tool_name :: "string \<Rightarrow> bool" where
  "is_trf_transient_tool_name name \<longleftrightarrow>
     to_ascii_lowercase (trim name) \<in> set [''toolsearch'', ''websearch'', ''webfetch'']"

definition lower_names :: "openai_tool list \<Rightarrow> string set" where
  "lower_names tools = set (map (\<lambda>t. to_ascii_lowercase (of_name (ot_function t))) tools)"

definition trf_transient_tools_only_drift :: "openai_tool list \<Rightarrow> json \<Rightarrow> bool" where
  "trf_transient_tools_only_drift current frozen =
     (let frozen_tools = tools_from_canonical_value frozen;
          frozen_names = lower_names frozen_tools;
          current_names = lower_names current
      in if frozen_tools = [] then False
         else if frozen_names = current_names then False
         else if \<not> frozen_names \<subseteq> current_names then False
         else \<forall>name \<in> current_names - frozen_names. is_trf_transient_tool_name name)"

definition freeze_tools_epoch ::
  "string \<Rightarrow> string \<Rightarrow> openai_tool list \<Rightarrow> client_state \<Rightarrow> json \<times> client_state" where
  "freeze_tools_epoch model scope tools s =
     (let key = tools_epoch_key model scope; canonical = canonical_tools_value tools
      in case map_of (cs_tools_epoch s) key of
           Some frozen \<Rightarrow> (frozen, s)
         | None \<Rightarrow>
             (canonical, s\<lparr>cs_tools_epoch := AList.update key canonical (cs_tools_epoch s)\<rparr>))"

definition apply_tools_epoch ::
  "string \<Rightarrow> string \<Rightarrow> openai_tool list \<Rightarrow> client_state \<Rightarrow> json \<times> client_state" where
  "apply_tools_epoch model scope tools s =
     (if tools = [] then (JNull, s)
      else
        let key = tools_epoch_key model scope; canonical = canonical_tools_value tools;
            insert_it =
              (canonical, s\<lparr>cs_tools_epoch := AList.update key canonical (cs_tools_epoch s)\<rparr>)
        in case map_of (cs_tools_epoch s) key of
             Some frozen \<Rightarrow>
               if tools_semantically_compatible tools frozen
                  \<or> trf_transient_tools_only_drift tools frozen
               then (frozen, s) else insert_it
           | None \<Rightarrow> insert_it)"

section \<open>The upstream form of the messages\<close>

definition message_to_cache_upstream_json :: "message \<Rightarrow> json" where
  "message_to_cache_upstream_json m = json_object
     ([(''role'', JString (ms_role m)), (''content'', ms_content m)]
      @ opt_field ''tool_calls''
          (map_option (\<lambda>cs. JArray (map tool_call_json cs)) (ms_tool_calls m))
      @ opt_field ''tool_call_id'' (map_option JString (ms_tool_call_id m)))"

definition message_to_upstream_json :: "message \<Rightarrow> json" where
  "message_to_upstream_json m = json_object
     ([(''role'', JString (ms_role m)), (''content'', ms_content m)]
      @ opt_field ''tool_calls''
          (map_option (\<lambda>cs. JArray (map tool_call_json cs)) (ms_tool_calls m))
      @ opt_field ''tool_call_id'' (map_option JString (ms_tool_call_id m))
      @ opt_field ''reasoning_content''
          (case ms_reasoning_content m of
             Some reasoning \<Rightarrow> if reasoning \<noteq> [] then Some (JString reasoning) else None
           | None \<Rightarrow> None))"

definition build_upstream_messages_json :: "message list \<Rightarrow> json" where
  "build_upstream_messages_json ms = JArray (map message_to_upstream_json ms)"

definition build_cache_upstream_messages_json :: "message list \<Rightarrow> json" where
  "build_cache_upstream_messages_json ms = JArray (map message_to_cache_upstream_json ms)"

section \<open>Stored reasoning\<close>

definition assistant_reasoning_key :: "string \<Rightarrow> nat \<Rightarrow> string" where
  "assistant_reasoning_key scope message_index = scope @ '':assistant:'' @ show_nat message_index"

definition session_scope_from_model :: "string \<Rightarrow> string" where
  "session_scope_from_model model = ''model:'' @ model"

definition redis_key :: "string \<Rightarrow> string" where
  "redis_key key = ''fmc:reasoning:'' @ key"

definition put_reasoning :: "string \<Rightarrow> string \<Rightarrow> client_state \<Rightarrow> client_state" where
  "put_reasoning key reasoning s =
     (if trim reasoning = [] then s
      else s\<lparr>cs_reasoning := AList.update key reasoning (cs_reasoning s)\<rparr>)"

definition redis_get :: "(string \<Rightarrow> string option) \<Rightarrow> string \<Rightarrow> string option" where
  "redis_get remote key =
     (case remote (redis_key key) of
        Some value \<Rightarrow> if trim value \<noteq> [] then Some value else None
      | None \<Rightarrow> None)"

definition get_reasoning ::
  "(string \<Rightarrow> string option) \<Rightarrow> string \<Rightarrow> client_state \<Rightarrow> string option \<times> client_state" where
  "get_reasoning remote key s =
     (case map_of (cs_reasoning s) key of
        Some reasoning \<Rightarrow> (Some reasoning, s)
      | None \<Rightarrow>
          case redis_get remote key of
            None \<Rightarrow> (None, s)
          | Some reasoning \<Rightarrow>
              (Some reasoning, s\<lparr>cs_reasoning := AList.update key reasoning (cs_reasoning s)\<rparr>))"

definition has_reasoning :: "message \<Rightarrow> bool" where
  "has_reasoning m \<longleftrightarrow> (case ms_reasoning_content m of Some t \<Rightarrow> trim t \<noteq> [] | None \<Rightarrow> False)"

datatype reasoning_enrich_mode = CacheBody | CurrentTurnOnly | AllHistorical

text \<open>A message, the number of enriched messages it counts for, and the state.\<close>

definition enrich_at ::
  "(string \<Rightarrow> string option) \<Rightarrow> string \<Rightarrow> nat \<Rightarrow> message \<Rightarrow> client_state
     \<Rightarrow> message \<times> nat \<times> client_state" where
  "enrich_at remote scope index m s =
     (case get_reasoning remote (assistant_reasoning_key scope index) s of
        (Some reasoning, s) \<Rightarrow> (m\<lparr>ms_reasoning_content := Some reasoning\<rparr>, 1, s)
      | (None, s) \<Rightarrow> (m, 0, s))"

fun enrich_all_from ::
  "(string \<Rightarrow> string option) \<Rightarrow> string \<Rightarrow> nat \<Rightarrow> message list \<Rightarrow> client_state
     \<Rightarrow> message list \<times> nat \<times> client_state" where
  "enrich_all_from remote scope index [] s = ([], 0, s)"
| "enrich_all_from remote scope index (m # ms) s =
     (let (m, k, s) =
            (if ms_role m \<noteq> ''assistant'' \<or> has_reasoning m then (m, 0, s)
             else enrich_at remote scope index m s);
          (ms, n, s) = enrich_all_from remote scope (index + 1) ms s
      in (m # ms, k + n, s))"

definition enrich_all_assistant_reasoning ::
  "(string \<Rightarrow> string option) \<Rightarrow> string \<Rightarrow> message list \<Rightarrow> client_state
     \<Rightarrow> message list \<times> nat \<times> client_state" where
  "enrich_all_assistant_reasoning remote scope ms s = enrich_all_from remote scope 0 ms s"

definition enrich_last_assistant_reasoning ::
  "(string \<Rightarrow> string option) \<Rightarrow> string \<Rightarrow> message list \<Rightarrow> client_state
     \<Rightarrow> message list \<times> nat \<times> client_state" where
  "enrich_last_assistant_reasoning remote scope ms s =
     (case find (\<lambda>i. ms_role (ms ! i) = ''assistant'') (rev [0..<length ms]) of
        None \<Rightarrow> (ms, 0, s)
      | Some index \<Rightarrow>
          if has_reasoning (ms ! index) then (ms, 0, s)
          else
            let (m, k, s) = enrich_at remote scope index (ms ! index) s
            in (ms[index := m], k, s))"

definition enrich_messages_with_reasoning_mode ::
  "(string \<Rightarrow> string option) \<Rightarrow> string \<Rightarrow> reasoning_enrich_mode \<Rightarrow> message list \<Rightarrow> client_state
     \<Rightarrow> message list \<times> nat \<times> client_state" where
  "enrich_messages_with_reasoning_mode remote scope mode ms s =
     (case mode of
        CacheBody \<Rightarrow> (ms, 0, s)
      | CurrentTurnOnly \<Rightarrow> enrich_last_assistant_reasoning remote scope ms s
      | AllHistorical \<Rightarrow> enrich_all_assistant_reasoning remote scope ms s)"

definition enrich_messages_with_reasoning ::
  "(string \<Rightarrow> string option) \<Rightarrow> string \<Rightarrow> message list \<Rightarrow> client_state
     \<Rightarrow> message list \<times> nat \<times> client_state" where
  "enrich_messages_with_reasoning remote scope ms s =
     enrich_messages_with_reasoning_mode remote scope AllHistorical ms s"

definition record_collected_reasoning ::
  "string \<Rightarrow> nat \<Rightarrow> string \<Rightarrow> client_state \<Rightarrow> client_state" where
  "record_collected_reasoning scope assistant_message_index reasoning s =
     put_reasoning (assistant_reasoning_key scope assistant_message_index) reasoning s"

section \<open>Reasoning of tool calls\<close>

definition canonical_tool_arguments :: "serde \<Rightarrow> string \<Rightarrow> string" where
  "canonical_tool_arguments S arguments =
     (let trimmed = trim arguments
      in if trimmed = [] then ''{}''
         else
           case from_slice S trimmed of
             Some v \<Rightarrow> to_string S (sort_json_value v)
           | None \<Rightarrow> trimmed)"

definition stable_tool_call_reasoning_replay :: "string \<Rightarrow> string" where
  "stable_tool_call_reasoning_replay tool_name =
     (let name = to_ascii_lowercase (trim tool_name)
      in if name = [] then ''Tool call reasoning replayed.''
         else ''Tool call reasoning replayed for '' @ name @ ''.'')"

definition tool_call_reasoning_key :: "serde \<Rightarrow> string \<Rightarrow> string \<Rightarrow> string \<Rightarrow> string option" where
  "tool_call_reasoning_key S session_scope tool_name tool_arguments =
     (let scope = trim session_scope; name = to_ascii_lowercase (trim tool_name)
      in if scope = [] \<or> name = [] then None
         else Some (scope @ '':tool_call_reasoning:'' @ name @ '':''
           @ canonical_tool_arguments S tool_arguments))"

definition TOOL_REASONING_GLOBAL_SCOPE :: string where
  "TOOL_REASONING_GLOBAL_SCOPE = ''__fmc_tool_call_reasoning_global_v1''"

definition record_tool_call_reasoning ::
  "serde \<Rightarrow> string \<Rightarrow> string \<Rightarrow> string \<Rightarrow> string \<Rightarrow> client_state \<Rightarrow> client_state" where
  "record_tool_call_reasoning S scope tool_name tool_arguments reasoning s =
     (if trim reasoning = [] then s
      else
        let stable_reasoning = stable_tool_call_reasoning_replay tool_name
        in case tool_call_reasoning_key S scope tool_name tool_arguments of
             None \<Rightarrow> s
           | Some key \<Rightarrow>
               (let s = put_reasoning key stable_reasoning s
                in case tool_call_reasoning_key S TOOL_REASONING_GLOBAL_SCOPE tool_name
                     tool_arguments of
                     Some global_key \<Rightarrow> put_reasoning global_key stable_reasoning s
                   | None \<Rightarrow> s))"

text \<open>The reasoning of the first call that has one.\<close>

fun reasoning_of_calls ::
  "serde \<Rightarrow> (string \<Rightarrow> string option) \<Rightarrow> string \<Rightarrow> tool_call list \<Rightarrow> client_state
     \<Rightarrow> string option \<times> client_state" where
  "reasoning_of_calls S remote scope [] s = (None, s)"
| "reasoning_of_calls S remote scope (call # calls) s =
     (let name = tf_name (tc_function call); arguments = tf_arguments (tc_function call)
      in case tool_call_reasoning_key S scope name arguments of
           None \<Rightarrow> reasoning_of_calls S remote scope calls s
         | Some key \<Rightarrow>
             (case get_reasoning remote key s of
                (Some reasoning, s) \<Rightarrow> (Some reasoning, s)
              | (None, s) \<Rightarrow>
                  (case tool_call_reasoning_key S TOOL_REASONING_GLOBAL_SCOPE name arguments of
                     None \<Rightarrow> reasoning_of_calls S remote scope calls s
                   | Some global_key \<Rightarrow>
                       (case get_reasoning remote global_key s of
                          (Some reasoning, s) \<Rightarrow> (Some reasoning, s)
                        | (None, s) \<Rightarrow> reasoning_of_calls S remote scope calls s))))"

definition enrich_tool_message ::
  "serde \<Rightarrow> (string \<Rightarrow> string option) \<Rightarrow> string \<Rightarrow> message \<Rightarrow> client_state
     \<Rightarrow> message \<times> nat \<times> client_state" where
  "enrich_tool_message S remote scope m s =
     (if ms_role m \<noteq> ''assistant'' \<or> has_reasoning m then (m, 0, s)
      else
        case ms_tool_calls m of
          None \<Rightarrow> (m, 0, s)
        | Some calls \<Rightarrow>
            (case reasoning_of_calls S remote scope calls s of
               (Some reasoning, s) \<Rightarrow> (m\<lparr>ms_reasoning_content := Some reasoning\<rparr>, 1, s)
             | (None, s) \<Rightarrow> (m, 0, s)))"

fun enrich_tool_messages ::
  "serde \<Rightarrow> (string \<Rightarrow> string option) \<Rightarrow> string \<Rightarrow> message list \<Rightarrow> client_state
     \<Rightarrow> message list \<times> nat \<times> client_state" where
  "enrich_tool_messages S remote scope [] s = ([], 0, s)"
| "enrich_tool_messages S remote scope (m # ms) s =
     (let (m, k, s) = enrich_tool_message S remote scope m s;
          (ms, n, s) = enrich_tool_messages S remote scope ms s
      in (m # ms, k + n, s))"

definition enrich_messages_with_tool_call_reasoning ::
  "serde \<Rightarrow> (string \<Rightarrow> string option) \<Rightarrow> string \<Rightarrow> message list \<Rightarrow> client_state
     \<Rightarrow> message list \<times> nat \<times> client_state" where
  "enrich_messages_with_tool_call_reasoning S remote scope ms s =
     (if trim scope = [] then (ms, 0, s) else enrich_tool_messages S remote scope ms s)"

definition prefix_drift_bytes :: "64 word \<Rightarrow> 64 word \<Rightarrow> bool" where
  "prefix_drift_bytes previous_hash current_hash \<longleftrightarrow>
     previous_hash \<noteq> 0 \<and> current_hash \<noteq> previous_hash"

end
