(* ===== verification/CacheControl.thy ===== *)
theory CacheControl
  imports Canonical
begin

text \<open>
  The second part of \<open>canonical/mod.rs\<close>: the \<open>cache_control\<close> markers put into the body of a
  request, and the body itself.  The code mutates the JSON value in place and says whether it
  did; here the operations return the value and the answer.
\<close>

definition EPHEMERAL :: json where
  "EPHEMERAL = json_object [(''type'', JString ''ephemeral'')]"

definition text_block :: "string \<Rightarrow> bool \<Rightarrow> json" where
  "text_block t marked = json_object
     ([(''type'', JString ''text''), (''text'', JString t)]
      @ (if marked then [(''cache_control'', EPHEMERAL)] else []))"

type_synonym json_object_map = "(string \<times> json) list"

section \<open>One marker\<close>

definition add_cache_control :: "json_object_map \<Rightarrow> json_object_map \<times> bool" where
  "add_cache_control m =
     (if map_of m ''cache_control'' \<noteq> None then (m, False)
      else (obj_insert ''cache_control'' EPHEMERAL m, True))"

definition is_json_object :: "json \<Rightarrow> bool" where
  "is_json_object v \<longleftrightarrow> as_object v \<noteq> None"

definition rposition :: "('a \<Rightarrow> bool) \<Rightarrow> 'a list \<Rightarrow> nat option" where
  "rposition P xs = find (\<lambda>i. P (xs ! i)) (rev [0..<length xs])"

text \<open>\<open>as_object_mut\<close> at a place of a list, and the operation on that object.\<close>

definition at_object ::
  "(json_object_map \<Rightarrow> json_object_map \<times> bool) \<Rightarrow> json list \<Rightarrow> nat \<Rightarrow> json list \<times> bool" where
  "at_object f items i =
     (case items ! i of
        JObject m \<Rightarrow> (let (m, done) = f m in (items[i := JObject m], done))
      | _ \<Rightarrow> (items, False))"

definition add_cache_control_to_last_object :: "json list \<Rightarrow> json list \<times> bool" where
  "add_cache_control_to_last_object items =
     (case rposition is_json_object items of
        None \<Rightarrow> (items, False)
      | Some i \<Rightarrow> at_object add_cache_control items i)"

definition add_cache_control_to_content :: "json \<Rightarrow> json \<times> bool" where
  "add_cache_control_to_content content =
     (case content of
        JArray items \<Rightarrow>
          (let (items, done) = add_cache_control_to_last_object items in (JArray items, done))
      | JString t \<Rightarrow> (JArray [text_block t True], True)
      | JObject m \<Rightarrow> (let (m, done) = add_cache_control m in (JObject m, done))
      | _ \<Rightarrow> (content, False))"

text \<open>\<open>get_mut("content")\<close> and the operation on the content.\<close>

definition on_content :: "(json \<Rightarrow> json \<times> bool) \<Rightarrow> json_object_map \<Rightarrow> json_object_map \<times> bool" where
  "on_content f m =
     (case map_of m ''content'' of
        None \<Rightarrow> (m, False)
      | Some content \<Rightarrow>
          (let (content, done) = f content in (obj_insert ''content'' content m, done)))"

definition add_cache_control_to_message :: "json_object_map \<Rightarrow> json_object_map \<times> bool" where
  "add_cache_control_to_message m =
     (let (m, done) = on_content add_cache_control_to_content m
      in if done then (m, True) else add_cache_control m)"

definition has_role :: "string \<Rightarrow> json \<Rightarrow> bool" where
  "has_role r v \<longleftrightarrow> get_str ''role'' v = Some r"

definition add_cache_control_to_last_role :: "string \<Rightarrow> json list \<Rightarrow> json list \<times> bool" where
  "add_cache_control_to_last_role r messages =
     (case rposition (has_role r) messages of
        None \<Rightarrow> (messages, False)
      | Some i \<Rightarrow> at_object add_cache_control_to_message messages i)"

section \<open>Splitting a user's text\<close>

definition RUST_FENCE :: string where
  "RUST_FENCE = ''```rust''"

definition newline_run :: "string \<Rightarrow> nat" where
  "newline_run s = length (takeWhile (\<lambda>c. c = CHR 0x0A \<or> c = CHR 0x0D) s)"

definition find_rust_codeblock_tail_split :: "string \<Rightarrow> nat option" where
  "find_rust_codeblock_tail_split t =
     Option.bind (str_find t RUST_FENCE) (\<lambda>start.
       let after_open = start + 7
       in Option.bind (if is_char_boundary t after_open then Some (drop after_open t) else None)
            (\<lambda>rest.
          Option.bind (str_find rest (NL # ''```'')) (\<lambda>close_rel.
            let idx = after_open + close_rel + 4; idx = idx + newline_run (drop idx t)
            in if idx > start \<and> idx < length t then Some idx else None)))"

fun boundary_below :: "string \<Rightarrow> nat \<Rightarrow> nat" where
  "boundary_below t 0 = 0"
| "boundary_below t (Suc n) =
     (if is_char_boundary t (Suc n) then Suc n else boundary_below t n)"

definition find_utf8_byte_split_index :: "string \<Rightarrow> nat \<Rightarrow> nat" where
  "find_utf8_byte_split_index t target_bytes =
     (if length t \<le> target_bytes then length t
      else boundary_below t (min target_bytes (length t)))"

text \<open>
  The slices \<open>text[..i]\<close> and \<open>text[i..]\<close> would panic inside a character; both places of a split
  are the beginnings of characters (\<open>split_at_character\<close>).
\<close>

definition split_by_size :: "string \<Rightarrow> string \<times> string option" where
  "split_by_size t =
     (if length t < 65536 then (t, None)
      else
        let split_idx = find_utf8_byte_split_index t 131072
        in if split_idx < length t \<and> drop split_idx t \<noteq> []
           then (take split_idx t, Some (drop split_idx t)) else (t, None))"

definition split_user_text_stable_tail :: "string \<Rightarrow> string \<times> string option" where
  "split_user_text_stable_tail t =
     (case find_rust_codeblock_tail_split t of
        None \<Rightarrow> split_by_size t
      | Some split_at \<Rightarrow>
          if drop split_at t \<noteq> [] \<and> length (take split_at t) \<ge> 1024
          then (take split_at t, Some (drop split_at t))
          else split_by_size t)"

definition write_chunked_user_text_content :: "string \<Rightarrow> json" where
  "write_chunked_user_text_content t =
     (case split_user_text_stable_tail t of
        (head_text, Some tail) \<Rightarrow> JArray [text_block head_text True, text_block tail False]
      | (head_text, None) \<Rightarrow> JArray [text_block head_text True])"

definition add_cache_control_to_user_content_with_chunking :: "json \<Rightarrow> json \<times> bool" where
  "add_cache_control_to_user_content_with_chunking content =
     (case content of
        JString t \<Rightarrow> (write_chunked_user_text_content t, True)
      | JArray items \<Rightarrow>
          (let (items, done) = add_cache_control_to_last_object items in (JArray items, done))
      | JObject m \<Rightarrow> (let (m, done) = add_cache_control m in (JObject m, done))
      | _ \<Rightarrow> (content, False))"

definition add_cache_control_to_user_message_with_chunking ::
  "json_object_map \<Rightarrow> json_object_map \<times> bool" where
  "add_cache_control_to_user_message_with_chunking m =
     (let (m, done) = on_content add_cache_control_to_user_content_with_chunking m
      in if done then (m, True) else add_cache_control m)"

section \<open>Removing markers\<close>

fun strip_marker :: "json \<Rightarrow> json" where
  "strip_marker (JObject m) = JObject (AList.delete ''cache_control'' m)"
| "strip_marker v = v"

definition strip_cache_control_from_content :: "json \<Rightarrow> json" where
  "strip_cache_control_from_content content =
     (case content of
        JArray items \<Rightarrow> JArray (map strip_marker items)
      | JObject m \<Rightarrow> JObject (AList.delete ''cache_control'' m)
      | _ \<Rightarrow> content)"

definition strip_cache_control_from_message_object :: "json_object_map \<Rightarrow> json_object_map" where
  "strip_cache_control_from_message_object m =
     fst (on_content (\<lambda>c. (strip_cache_control_from_content c, True))
       (AList.delete ''cache_control'' m))"

section \<open>Places for markers\<close>

definition user_indices :: "json list \<Rightarrow> nat list" where
  "user_indices messages = filter (\<lambda>i. has_role ''user'' (messages ! i)) [0..<length messages]"

definition find_last_conversation_anchor_before :: "json list \<Rightarrow> nat \<Rightarrow> nat option" where
  "find_last_conversation_anchor_before messages before_idx =
     rposition (\<lambda>m. has_role ''assistant'' m \<or> has_role ''tool'' m) (take before_idx messages)"

fun block_text_len :: "json \<Rightarrow> nat" where
  "block_text_len v = (case get_str ''text'' v of Some t \<Rightarrow> length t | None \<Rightarrow> 0)"

function content_byte_len :: "json \<Rightarrow> nat" where
  "content_byte_len (JString t) = length t"
| "content_byte_len (JArray items) = sum_list (map content_byte_len items)"
| "content_byte_len (JObject m) = block_text_len (JObject m)"
| "content_byte_len JNull = 0"
| "content_byte_len (JBool b) = 0"
| "content_byte_len (JNumber n) = 0"
  by pat_completeness auto
termination
  by (relation "measure size") (auto simp: termination_simp)

definition user_message_byte_len :: "json \<Rightarrow> nat" where
  "user_message_byte_len message =
     (case json_get ''content'' message of Some c \<Rightarrow> content_byte_len c | None \<Rightarrow> 0)"

definition user_message_has_bulk_fixture :: "json \<Rightarrow> bool" where
  "user_message_has_bulk_fixture message =
     (case json_get ''content'' message of
        Some (JString t) \<Rightarrow> contains_str t RUST_FENCE
      | Some (JArray items) \<Rightarrow>
          list_ex (\<lambda>item. case get_str ''text'' item of
              Some t \<Rightarrow> contains_str t RUST_FENCE
            | None \<Rightarrow> False) items
      | _ \<Rightarrow> False)"

text \<open>\<open>max_by_key\<close>: the last of the longest.\<close>

fun last_longest :: "(nat \<Rightarrow> nat) \<Rightarrow> nat \<Rightarrow> nat list \<Rightarrow> nat" where
  "last_longest f best [] = best"
| "last_longest f best (i # is) = last_longest f (if f best \<le> f i then i else best) is"

section \<open>DeepSeek\<close>

text \<open>A step that may use one of the remaining markers: the messages, those applied and left.\<close>

definition marker_step ::
  "bool \<Rightarrow> (json list \<Rightarrow> json list \<times> bool) \<Rightarrow> json list \<times> nat \<times> nat \<Rightarrow> json list \<times> nat \<times> nat" where
  "marker_step enabled f = (\<lambda>(messages, applied, remaining).
     if enabled \<and> remaining > 0
     then
       let (messages, done) = f messages
       in (messages, if done then applied + 1 else applied, if done then remaining - 1 else remaining)
     else (messages, applied, remaining))"

definition mark_anchor_before :: "nat \<Rightarrow> json list \<Rightarrow> json list \<times> bool" where
  "mark_anchor_before before_idx messages =
     (case find_last_conversation_anchor_before messages before_idx of
        Some i \<Rightarrow> at_object add_cache_control_to_message messages i
      | None \<Rightarrow> (messages, False))"

definition strip_message_at :: "nat \<Rightarrow> json list \<Rightarrow> json list" where
  "strip_message_at i messages =
     fst (at_object (\<lambda>m. (strip_cache_control_from_message_object m, True)) messages i)"

definition apply_deepseek_user_cache_breakpoints_on_messages ::
  "json list \<Rightarrow> nat \<Rightarrow> json list \<times> nat" where
  "apply_deepseek_user_cache_breakpoints_on_messages messages remaining =
     (let users = user_indices messages
      in if users = [] \<or> remaining = 0 then (messages, 0)
         else
           let primary = last_longest (\<lambda>i. user_message_byte_len (messages ! i)) (hd users) (tl users);
               last_user = last users;
               multi_turn = (length users > 1);
               first_user = hd users;
               short_followup =
                 (multi_turn
                  \<and> user_message_byte_len (messages ! last_user) \<le> 8192
                  \<and> \<not> user_message_has_bulk_fixture (messages ! primary)
                  \<and> \<not> user_message_has_bulk_fixture (messages ! last_user));
               st = marker_step (multi_turn \<and> first_user \<noteq> last_user)
                 (\<lambda>ms. at_object add_cache_control_to_user_message_with_chunking ms first_user)
                 (messages, 0, remaining);
               st = (let (ms, applied, left) = st
                     in if multi_turn \<and> short_followup \<and> left > 0
                        then marker_step True
                          (\<lambda>ms. at_object add_cache_control_to_message ms last_user) st
                        else if multi_turn \<and> left > 0
                        then
                          let (ms, applied, left) =
                                marker_step True (mark_anchor_before last_user) st
                          in (strip_message_at last_user ms, applied, left)
                        else st);
               (ms, applied, _) =
                 marker_step
                   (\<not> multi_turn
                    \<or> (primary \<noteq> last_user \<and> primary \<noteq> first_user \<and> \<not> short_followup))
                   (\<lambda>ms. at_object add_cache_control_to_user_message_with_chunking ms primary) st
           in (ms, applied))"

definition alphanumeric_lower :: "string \<Rightarrow> string" where
  "alphanumeric_lower s = map ascii_lower (filter is_ascii_alphanumeric s)"

definition model_is_deepseek_flash :: "string \<Rightarrow> bool" where
  "model_is_deepseek_flash model \<longleftrightarrow>
     alphanumeric_lower model \<in> set [''deepseekv4flash'', ''deepseekv4flashfree'']"

definition model_supports_anthropic_breakpoints :: "string \<Rightarrow> bool" where
  "model_supports_anthropic_breakpoints model \<longleftrightarrow>
     alphanumeric_lower model \<in> set [''bigpickle'', ''mimov25'', ''mimov25free'']"

text \<open>\<open>body.get_mut(k).and_then(as_array_mut)\<close>.\<close>

definition body_array :: "string \<Rightarrow> json \<Rightarrow> json list option" where
  "body_array k body = Option.bind (json_get k body) as_array"

definition set_array :: "string \<Rightarrow> json list \<Rightarrow> json \<Rightarrow> json" where
  "set_array k xs body =
     (case body of JObject m \<Rightarrow> JObject (obj_insert k (JArray xs) m) | _ \<Rightarrow> body)"

definition mark_tools :: "json \<Rightarrow> json \<times> bool" where
  "mark_tools body =
     (case body_array ''tools'' body of
        None \<Rightarrow> (body, False)
      | Some tools \<Rightarrow>
          (let (tools, done) = add_cache_control_to_last_object tools
           in (set_array ''tools'' tools body, done)))"

definition apply_deepseek_stable_cache_breakpoints :: "chat_request \<Rightarrow> json \<Rightarrow> json \<times> nat" where
  "apply_deepseek_stable_cache_breakpoints request body =
     (if \<not> model_is_deepseek_flash (cr_model request) then (body, 0)
      else
        let (body, done) = mark_tools body;
            applied = (if done then 1 else 0); remaining = 4 - applied
        in case body_array ''messages'' body of
             None \<Rightarrow> (body, applied)
           | Some messages \<Rightarrow>
               (let (messages, applied, remaining) =
                      marker_step True (add_cache_control_to_last_role ''system'')
                        (messages, applied, remaining);
                    (messages, n) =
                      (if remaining > 0
                       then apply_deepseek_user_cache_breakpoints_on_messages messages remaining
                       else (messages, 0))
                in (set_array ''messages'' messages body, applied + n)))"

section \<open>Anthropic\<close>

definition apply_anthropic_cache_breakpoints :: "chat_request \<Rightarrow> ccp_flags \<Rightarrow> json \<Rightarrow> json" where
  "apply_anthropic_cache_breakpoints request flags body =
     (if \<not> cf_anthropic_breakpoints flags
         \<or> \<not> model_supports_anthropic_breakpoints (cr_model request) then body
      else
        let (body, done) = mark_tools body;
            applied = (if done then 1 else 0); remaining = 4 - applied
        in case body_array ''messages'' body of
             None \<Rightarrow> body
           | Some messages \<Rightarrow>
               (let st = marker_step True (add_cache_control_to_last_role ''system'')
                      (messages, applied, remaining);
                    users = user_indices (fst st);
                    st = marker_step (length users > 1) (mark_anchor_before (last users)) st;
                    (messages, _, _) =
                      marker_step True (add_cache_control_to_last_role ''user'') st
                in set_array ''messages'' messages body))"

section \<open>The body of a request\<close>

record icp_upstream_package =
  ip_messages :: "message list"
  ip_body :: json
  ip_identity :: icp_identity

definition json_f64 :: "rat option \<Rightarrow> json" where
  "json_f64 v = (case v of None \<Rightarrow> JNull | Some q \<Rightarrow> JNumber (JFloat q))"

definition prepare_icp_upstream_request ::
  "serde \<Rightarrow> (string \<Rightarrow> string option) \<Rightarrow> chat_request \<Rightarrow> string \<Rightarrow> string \<Rightarrow> usk_context
     \<Rightarrow> ccp_flags \<Rightarrow> client_state \<Rightarrow> icp_upstream_package \<times> client_state" where
  "prepare_icp_upstream_request S remote request session_scope upstream_model ctx flags s =
     (let identity = compute_icp_identity S request ctx;
          icp_scope = (if cf_icp_enabled flags then ii_icp_scope identity else session_scope);
          (messages, _, s) =
            (if cf_reasoning_sidecar flags
             then enrich_messages_with_reasoning_mode remote session_scope CacheBody
               (cr_messages request) s
             else enrich_messages_with_reasoning remote session_scope (cr_messages request) s);
          (tools_value, s) =
            (case cr_tools request of
               Some tools \<Rightarrow> apply_tools_epoch (cr_model request) icp_scope tools s
             | None \<Rightarrow> (JNull, s));
          messages_json =
            (if cf_icp_enabled flags then build_cache_upstream_messages_json messages
             else build_upstream_messages_json messages);
          body = json_object
            ([(''model'', JString upstream_model), (''messages'', messages_json),
              (''stream'', JBool (unwrap_or False (cr_stream request))),
              (''temperature'', json_f64 (cr_temperature request)),
              (''tools'', tools_value),
              (''tool_choice'', json_option (cr_tool_choice request))]
             @ opt_field ''max_tokens'' (map_option json_nat (cr_max_tokens request)));
          body = apply_prompt_cache_key identity flags body;
          body = apply_anthropic_cache_breakpoints request flags body
      in (\<lparr>ip_messages = messages, ip_body = body, ip_identity = identity\<rparr>, s))"

definition prepare_upstream_request ::
  "serde \<Rightarrow> (string \<Rightarrow> string option) \<Rightarrow> (string \<Rightarrow> string option) \<Rightarrow> chat_request \<Rightarrow> string
     \<Rightarrow> string \<Rightarrow> client_state \<Rightarrow> (message list \<times> json) \<times> client_state" where
  "prepare_upstream_request S remote env request session_scope upstream_model s =
     (let (p, s) = prepare_icp_upstream_request S remote request session_scope upstream_model
            \<lparr>uc_api_key_id = session_scope, uc_public_model = cr_model request,
             uc_upstream_model = upstream_model, uc_source_client = ''unknown''\<rparr>
            (ccp_flags_from_env env) s
      in ((ip_messages p, ip_body p), s))"

end
