(* ===== verification/ChatTranslate.thy ===== *)
theory ChatTranslate
  imports ClientProfile RequestShape
begin

text \<open>
  The translation of Anthropic requests into the chat protocol of \<open>protocol/translate.rs\<close>:
  messages with their blocks, tools and the choice of a tool, and the flag that turns thinking
  off.  \<open>redact\<close> is \<open>redact_text\<close> of \<open>redact.rs\<close>, whose patterns the crate \<open>regex\<close> matches.
\<close>

section \<open>Texts\<close>

definition block_type :: "json \<Rightarrow> string option" where
  "block_type b = get_str ''type'' b"

lemma json_get_smaller: "json_get k v = Some w \<Longrightarrow> size w < size v"
proof (cases v)
  case (JObject m)
  assume "json_get k v = Some w"
  with JObject have "(k, w) \<in> set m" by (auto dest: map_of_SomeD)
  with JObject show ?thesis by (simp add: size_json_object)
qed auto

function anthropic_content_to_text :: "serde \<Rightarrow> json \<Rightarrow> string" where
  "anthropic_content_to_text S content =
     (case content of
        JString s \<Rightarrow> s
      | JArray blocks \<Rightarrow>
          join_with [NL] (map (\<lambda>b.
            if block_type b = Some ''text'' then unwrap_or [] (get_str ''text'' b)
            else if block_type b = Some ''tool_use'' then []
            else if block_type b = Some ''tool_result''
              then ''Tool result:'' @ [NL]
                @ (case json_get ''content'' b of
                     Some v \<Rightarrow> anthropic_content_to_text S v
                   | None \<Rightarrow> to_string S JNull)
            else []) blocks)
      | other \<Rightarrow> to_string S other)"
  by pat_completeness auto
termination
proof (relation "measure (\<lambda>(S, v). size v)", simp, unfold in_measure prod.case)
  fix content :: json and blocks b v
  assume h: "content = JArray blocks" "b \<in> set blocks" "json_get ''content'' b = Some v"
  have "size v < size b" using h(3) by (rule json_get_smaller)
  also have "\<dots> < size content" using h(1,2) by (simp add: size_json_array)
  finally show "size v < size content" .
qed

declare anthropic_content_to_text.simps [simp del]

definition strip_anthropic_billing_header_lines :: "string \<Rightarrow> string" where
  "strip_anthropic_billing_header_lines t =
     join_with [NL] (filter (\<lambda>line.
       \<not> starts_with (trim_start line) ''x-anthropic-billing-header:'') (str_lines t))"

definition anthropic_system_to_openai_text :: "serde \<Rightarrow> json \<Rightarrow> string" where
  "anthropic_system_to_openai_text S content =
     strip_anthropic_billing_header_lines (anthropic_content_to_text S content)"

section \<open>Messages\<close>

definition plain_message :: "string \<Rightarrow> json \<Rightarrow> message" where
  "plain_message role content =
     \<lparr>ms_role = role, ms_content = content, ms_tool_calls = None, ms_tool_call_id = None,
      ms_reasoning_content = None\<rparr>"

text \<open>The texts, the reasoning and the tool calls collected from the blocks of an assistant.\<close>

type_synonym assistant_parts = "string list \<times> string list \<times> tool_call list"

definition push_nonempty :: "string option \<Rightarrow> string list \<Rightarrow> string list" where
  "push_nonempty t parts = (case t of Some s \<Rightarrow> if s \<noteq> [] then parts @ [s] else parts | None \<Rightarrow> parts)"

definition tool_use_call :: "serde \<Rightarrow> json \<Rightarrow> string \<Rightarrow> nat \<Rightarrow> tool_call" where
  "tool_use_call S block name index =
     \<lparr>tc_id = get_str ''id'' block, tc_call_type = ''function'',
      tc_function =
        \<lparr>tf_name = name,
         tf_arguments = to_string S (unwrap_or JNull (json_get ''input'' block))\<rparr>,
      tc_index = Some (int index)\<rparr>"

definition assistant_block :: "serde \<Rightarrow> assistant_parts \<Rightarrow> json \<Rightarrow> assistant_parts" where
  "assistant_block S = (\<lambda>(texts, reasoning, calls) block.
     if block_type block = Some ''text''
       then (push_nonempty (get_str ''text'' block) texts, reasoning, calls)
     else if block_type block = Some ''thinking''
       then
         (texts,
          push_nonempty
            (case get_str ''thinking'' block of
               Some t \<Rightarrow> Some t
             | None \<Rightarrow> get_str ''text'' block) reasoning,
          calls)
     else if block_type block = Some ''tool_use''
       then
         (case get_str ''name'' block of
            Some name \<Rightarrow> (texts, reasoning, calls @ [tool_use_call S block name (length calls)])
          | None \<Rightarrow> (texts, reasoning, calls))
     else (texts, reasoning, calls))"

definition assistant_parts_of :: "serde \<Rightarrow> json \<Rightarrow> assistant_parts" where
  "assistant_parts_of S content =
     (case content of
        JArray blocks \<Rightarrow> foldl (assistant_block S) ([], [], []) blocks
      | _ \<Rightarrow> ([anthropic_content_to_text S content], [], []))"

definition anthropic_assistant_to_openai_message :: "serde \<Rightarrow> json \<Rightarrow> message" where
  "anthropic_assistant_to_openai_message S content =
     (let (texts, reasoning, calls) = assistant_parts_of S content
      in \<lparr>ms_role = ''assistant'',
          ms_content = (if texts = [] then JNull else JString (join_with [NL] texts)),
          ms_tool_calls = (if calls = [] then None else Some calls),
          ms_tool_call_id = None,
          ms_reasoning_content =
            (if reasoning = [] then None else Some (join_with [NL] reasoning))\<rparr>)"

definition tool_result_message :: "serde \<Rightarrow> (string \<Rightarrow> string) \<Rightarrow> json \<Rightarrow> message" where
  "tool_result_message S redact block =
     \<lparr>ms_role = ''tool'',
      ms_content = JString (redact
        (anthropic_content_to_text S (unwrap_or JNull (json_get ''content'' block)))),
      ms_tool_calls = None, ms_tool_call_id = get_str ''tool_use_id'' block,
      ms_reasoning_content = None\<rparr>"

definition user_block ::
  "serde \<Rightarrow> (string \<Rightarrow> string) \<Rightarrow> message list \<times> string list \<Rightarrow> json \<Rightarrow> message list \<times> string list" where
  "user_block S redact = (\<lambda>(tools, texts) block.
     if block_type block = Some ''text'' then (tools, push_nonempty (get_str ''text'' block) texts)
     else if block_type block = Some ''tool_result''
       then (tools @ [tool_result_message S redact block], texts)
     else (tools, texts))"

definition anthropic_user_to_openai_messages ::
  "serde \<Rightarrow> (string \<Rightarrow> string) \<Rightarrow> json \<Rightarrow> message list" where
  "anthropic_user_to_openai_messages S redact content =
     (case content of
        JArray blocks \<Rightarrow>
          (let (tools, texts) = foldl (user_block S redact) ([], []) blocks
           in tools
              @ (if texts \<noteq> [] then [plain_message ''user'' (JString (join_with [NL] texts))]
                 else []))
      | _ \<Rightarrow> [plain_message ''user'' (JString (anthropic_content_to_text S content))])"

definition anthropic_message_to_openai_messages ::
  "serde \<Rightarrow> (string \<Rightarrow> string) \<Rightarrow> anthropic_message \<Rightarrow> message list" where
  "anthropic_message_to_openai_messages S redact m =
     (if am_role m = ''assistant''
        then [anthropic_assistant_to_openai_message S (am_content m)]
      else if am_role m = ''user'' then anthropic_user_to_openai_messages S redact (am_content m)
      else [plain_message (am_role m) (JString (anthropic_content_to_text S (am_content m)))])"

definition anthropic_to_openai_messages ::
  "serde \<Rightarrow> (string \<Rightarrow> string) \<Rightarrow> anthropic_request \<Rightarrow> message list" where
  "anthropic_to_openai_messages S redact req =
     (case ar_system req of
        None \<Rightarrow> []
      | Some sys \<Rightarrow>
          (let system_text = anthropic_system_to_openai_text S sys
           in if trim system_text \<noteq> [] then [plain_message ''system'' (JString system_text)] else []))
     @ concat (map (anthropic_message_to_openai_messages S redact) (ar_messages req))"

section \<open>Tools\<close>

definition anthropic_tool_to_openai :: "tool_def \<Rightarrow> openai_tool" where
  "anthropic_tool_to_openai t =
     \<lparr>ot_tool_type = ''function'',
      ot_function =
        \<lparr>of_name = td_name t, of_description = Some (td_description t),
         of_parameters = Some (json_object
           [(''type'', JString (is_schema_type (td_input_schema t))),
            (''required'', JArray (map JString (unwrap_or [] (is_required (td_input_schema t))))),
            (''properties'', unwrap_or (JObject []) (is_properties (td_input_schema t)))])\<rparr>\<rparr>"

definition anthropic_tools_to_openai :: "tool_def list \<Rightarrow> openai_tool list" where
  "anthropic_tools_to_openai tools = map anthropic_tool_to_openai tools"

definition anthropic_tool_choice_to_openai :: "json \<Rightarrow> json" where
  "anthropic_tool_choice_to_openai choice =
     (if get_str ''type'' choice = Some ''auto'' then JString ''auto''
      else if get_str ''type'' choice = Some ''any'' then JString ''required''
      else if get_str ''type'' choice = Some ''tool''
        then
          case get_str ''name'' choice of
            Some name \<Rightarrow> json_object
              [(''type'', JString ''function''),
               (''function'', json_object [(''name'', JString name)])]
          | None \<Rightarrow> JString ''required''
      else choice)"

section \<open>Thinking\<close>

text \<open>
  \<open>body["thinking"] = v\<close> on an object, the only bodies the code builds; it panics on a number,
  a string or an array.
\<close>

fun set_key :: "string \<Rightarrow> json \<Rightarrow> json \<Rightarrow> json" where
  "set_key k v (JObject m) = JObject (obj_insert k v m)"
| "set_key k v JNull = JObject [(k, v)]"
| "set_key k v other = other"

definition set_thinking_disabled_if_absent :: "json \<Rightarrow> json \<times> bool" where
  "set_thinking_disabled_if_absent body =
     (if json_get ''thinking'' body \<noteq> None then (body, False)
      else (set_key ''thinking'' (json_object [(''type'', JString ''disabled'')]) body, True))"

definition disable_thinking_for_tool_use :: "json \<Rightarrow> json \<times> bool" where
  "disable_thinking_for_tool_use body =
     (if json_get ''thinking'' body \<noteq> None then (body, False)
      else
        let has_tools =
              (case Option.bind (json_get ''tools'' body) as_array of
                 Some tools \<Rightarrow> tools \<noteq> []
               | None \<Rightarrow> False);
            has_tool_choice =
              (case json_get ''tool_choice'' body of Some c \<Rightarrow> c \<noteq> JNull | None \<Rightarrow> False)
        in if has_tools \<or> has_tool_choice then set_thinking_disabled_if_absent body
           else (body, False))"

section \<open>Redaction\<close>

function redact_value :: "(string \<Rightarrow> string) \<Rightarrow> json \<Rightarrow> json" where
  "redact_value redact (JString t) = JString (redact t)"
| "redact_value redact (JArray items) = JArray (map (redact_value redact) items)"
| "redact_value redact (JObject m) = JObject (map (\<lambda>kv. (fst kv, redact_value redact (snd kv))) m)"
| "redact_value redact JNull = JNull"
| "redact_value redact (JBool b) = JBool b"
| "redact_value redact (JNumber n) = JNumber n"
  by pat_completeness auto
termination
  by (relation "measure (\<lambda>(r, v). size v)") (auto simp: termination_simp)

end
