(* ===== verification/RequestProbes.thy ===== *)
theory RequestProbes
  imports RequestShape
begin

text \<open>
  The classification of short requests of \<open>protocol/translate.rs\<close>: health probes, channel tests
  and the low-budget probes of ClaudeCode, the answers they fall back on, and the limits put on
  the output budget of a request.
\<close>

section \<open>Requests without tools\<close>

text \<open>
  Texts are compared with ASCII patterns after \<open>trim\<close>; the loop's early returns are the order of
  the conditions.
\<close>

definition users_of :: "chat_request \<Rightarrow> message list" where
  "users_of body = filter (\<lambda>m. ms_role m = ''user'') (cr_messages body)"

definition has_assistant :: "chat_request \<Rightarrow> bool" where
  "has_assistant body \<longleftrightarrow> list_ex (\<lambda>m. ms_role m = ''assistant'') (cr_messages body)"

definition health_words :: "string list" where
  "health_words =
     [''ping'', ''health'', ''healthcheck'', ''health_check'', ''/health'', ''__health__'',
      ''__zen_health__'', ''__fmc_health__'', ''zen_health'', ''fmc_health'']"

definition is_short_no_tool_health_request :: "chat_request \<Rightarrow> bool" where
  "is_short_no_tool_health_request body =
     (if has_tools body \<or> cr_tool_choice body \<noteq> None then False
      else if list_all (\<lambda>m. case as_str (ms_content m) of None \<Rightarrow> True | Some t \<Rightarrow> trim t = [])
          (cr_messages body) then True
      else if length (users_of body) \<noteq> 1 \<or> has_assistant body then False
      else
        case as_str (ms_content (hd (users_of body))) of
          None \<Rightarrow> False
        | Some text \<Rightarrow>
            (let trimmed = trim text
             in to_ascii_lowercase trimmed \<in> set health_words
                \<or> trimmed = utf8 [0x5065, 0x5EB7, 0x68C0, 0x67E5]
                \<or> trimmed = utf8 [0x5065, 0x5EB7, 0x6D4B, 0x8BD5]))"

definition channel_test_words :: "string list" where
  "channel_test_words = [''hi'', ''hello'', ''test'', ''echo hi'', ''echo hello'', ''echo test'']"

definition short_no_tool_empty_fallback_text :: "chat_request \<Rightarrow> string option" where
  "short_no_tool_empty_fallback_text body =
     (if has_tools body \<or> cr_tool_choice body \<noteq> None
         \<or> (case cr_max_tokens body of None \<Rightarrow> True | Some n \<Rightarrow> n > 64) then None
      else if length (users_of body) \<noteq> 1
         \<or> list_ex (\<lambda>m. ms_role m = ''assistant''
               \<or> (ms_role m \<noteq> ''user''
                  \<and> (case as_str (ms_content m) of Some t \<Rightarrow> trim t \<noteq> [] | None \<Rightarrow> False)))
             (cr_messages body) then None
      else
        case as_str (ms_content (hd (users_of body))) of
          None \<Rightarrow> None
        | Some text \<Rightarrow>
            (let trimmed = trim text; lower = to_ascii_lowercase trimmed
             in if lower \<in> set channel_test_words \<or> trimmed = utf8 [0x6D4B, 0x8BD5]
                   \<or> trimmed = utf8 [0x6E2C, 0x8A66] then Some ''ok''
                else if list_ex (contains_str lower)
                    [''reply pong only'', ''answer pong only'', ''pong only'', ''respond pong'']
                  then Some ''PONG''
                else if list_ex (contains_str lower)
                    [''strict smoke'', ''chain smoke'', ''reply pass'', ''answer pass'',
                     ''pass only'', ''respond pass'']
                  then Some ''PASS''
                else if list_ex (contains_str lower)
                    [''reply ok'', ''answer ok'', ''exactly ok'', ''ok only'', ''respond ok'']
                  then Some ''ok''
                else None))"

definition is_short_no_tool_channel_test_probe :: "chat_request \<Rightarrow> bool" where
  "is_short_no_tool_channel_test_probe body \<longleftrightarrow>
     (case short_no_tool_empty_fallback_text body of Some text \<Rightarrow> text = ''ok'' | None \<Rightarrow> False)"

section \<open>Low-budget probes of ClaudeCode\<close>

definition is_claude_code_low_budget_tool_probe_shape ::
  "chat_request \<Rightarrow> request_shape \<Rightarrow> bool \<Rightarrow> bool" where
  "is_claude_code_low_budget_tool_probe_shape body shape is_claude_code =
     (if \<not> is_claude_code then False
      else
        case cr_max_tokens body of
          None \<Rightarrow> False
        | Some max_tokens \<Rightarrow>
            if max_tokens > 32 then False
            else if \<not> (1 \<le> rs_tool_count shape \<and> rs_tool_count shape \<le> 2)
                \<or> rs_tool_choice_present shape then False
            else if unwrap_or False (cr_stream body)
              then rs_message_count shape \<ge> 1 \<and> rs_last_user_tokens shape \<le> 256
            else rs_message_count shape \<le> 2 \<and> rs_last_user_tokens shape \<le> 64
              \<and> rs_estimated_total_tokens shape \<le> 2048)"

definition is_claude_code_low_budget_no_tool_probe_shape ::
  "chat_request \<Rightarrow> request_shape \<Rightarrow> bool \<Rightarrow> bool" where
  "is_claude_code_low_budget_no_tool_probe_shape body shape is_claude_code =
     (if \<not> is_claude_code then False
      else
        case cr_max_tokens body of
          None \<Rightarrow> False
        | Some max_tokens \<Rightarrow>
            if max_tokens > 32 then False
            else if rs_tool_count shape \<noteq> 0 \<or> rs_tool_choice_present shape then False
            else if unwrap_or False (cr_stream body) then rs_last_user_tokens shape \<le> 64
            else rs_message_count shape \<le> 2 \<and> rs_last_user_tokens shape \<le> 64
              \<and> rs_estimated_total_tokens shape \<le> 2048)"

definition is_claude_code_low_budget_tool_probe :: "serde \<Rightarrow> chat_request \<Rightarrow> bool \<Rightarrow> bool" where
  "is_claude_code_low_budget_tool_probe S body is_claude_code =
     is_claude_code_low_budget_tool_probe_shape body (request_shape_of S body) is_claude_code"

definition is_claude_code_low_budget_no_tool_probe :: "serde \<Rightarrow> chat_request \<Rightarrow> bool \<Rightarrow> bool" where
  "is_claude_code_low_budget_no_tool_probe S body is_claude_code =
     is_claude_code_low_budget_no_tool_probe_shape body (request_shape_of S body) is_claude_code"

definition is_claude_code_stream_low_budget_probe :: "serde \<Rightarrow> chat_request \<Rightarrow> bool \<Rightarrow> bool" where
  "is_claude_code_stream_low_budget_probe S body is_claude_code =
     (if \<not> unwrap_or False (cr_stream body) \<or> \<not> is_claude_code then False
      else is_claude_code_low_budget_tool_probe_shape body (request_shape_of S body) is_claude_code
        \<or> is_claude_code_low_budget_no_tool_probe_shape body (request_shape_of S body)
            is_claude_code)"

definition claude_code_low_budget_tool_probe_max_tokens ::
  "serde \<Rightarrow> chat_request \<Rightarrow> bool \<Rightarrow> nat option" where
  "claude_code_low_budget_tool_probe_max_tokens S body is_claude_code =
     (if is_claude_code_low_budget_tool_probe S body is_claude_code
      then map_option (\<lambda>n. max n 64) (cr_max_tokens body)
      else cr_max_tokens body)"

definition claude_code_low_budget_probe_max_tokens ::
  "serde \<Rightarrow> chat_request \<Rightarrow> bool \<Rightarrow> nat option" where
  "claude_code_low_budget_probe_max_tokens S body is_claude_code =
     (let shape = request_shape_of S body
      in if is_claude_code_low_budget_tool_probe_shape body shape is_claude_code
            \<or> is_claude_code_low_budget_no_tool_probe_shape body shape is_claude_code
         then map_option (\<lambda>n. max n 64) (cr_max_tokens body)
         else cr_max_tokens body)"

definition claude_code_low_budget_empty_fallback_text ::
  "serde \<Rightarrow> chat_request \<Rightarrow> bool \<Rightarrow> string option" where
  "claude_code_low_budget_empty_fallback_text S body is_claude_code =
     (if \<not> is_claude_code then None
      else if short_no_tool_empty_fallback_text body \<noteq> None
        then short_no_tool_empty_fallback_text body
      else if is_claude_code_low_budget_tool_probe S body is_claude_code
          \<or> is_claude_code_low_budget_no_tool_probe S body is_claude_code
        then Some ''ok''
      else None)"

datatype short_non_stream_request_kind =
  NotShortNonStream
| HealthProbe
| ChannelTest
| InternalClaudeCodeProbe
| UserShortRequest
| UnknownShortNonStream

fun short_kind_as_str :: "short_non_stream_request_kind \<Rightarrow> string" where
  "short_kind_as_str NotShortNonStream = ''not_short_nonstream''"
| "short_kind_as_str HealthProbe = ''health_probe''"
| "short_kind_as_str ChannelTest = ''channel_test''"
| "short_kind_as_str InternalClaudeCodeProbe = ''internal_claude_code_probe''"
| "short_kind_as_str UserShortRequest = ''user_short_request''"
| "short_kind_as_str UnknownShortNonStream = ''unknown_short_nonstream''"

definition classify_short_non_stream_request ::
  "serde \<Rightarrow> chat_request \<Rightarrow> bool \<Rightarrow> short_non_stream_request_kind" where
  "classify_short_non_stream_request S body is_claude_code =
     (if unwrap_or False (cr_stream body) then NotShortNonStream
      else
        let shape = request_shape_of S body
        in if is_claude_code_low_budget_tool_probe_shape body shape is_claude_code
             then InternalClaudeCodeProbe
           else if rs_tool_count shape > 0 \<or> rs_tool_choice_present shape then NotShortNonStream
           else if is_short_no_tool_health_request body then HealthProbe
           else if is_short_no_tool_channel_test_probe body then ChannelTest
           else if rs_message_count shape > 4 \<or> rs_estimated_total_tokens shape > 256
             then NotShortNonStream
           else if is_claude_code \<and> rs_message_count shape \<le> 2 \<and> rs_last_user_tokens shape \<le> 64
             then InternalClaudeCodeProbe
           else if length (users_of body) = 1 \<and> \<not> has_assistant body then UserShortRequest
           else UnknownShortNonStream)"

section \<open>Output budgets\<close>

record output_policy =
  op_prompt_tokens :: nat
  op_requested_max_tokens :: "nat option"
  op_effective_max_tokens :: "nat option"
  op_capped :: bool

definition UPSTREAM_MAX_OUTPUT_TOKENS :: nat where
  "UPSTREAM_MAX_OUTPUT_TOKENS = 131072"

definition clamp_upstream_max_tokens :: "nat option \<Rightarrow> nat option \<times> bool" where
  "clamp_upstream_max_tokens requested =
     (case requested of
        Some n \<Rightarrow>
          if n > UPSTREAM_MAX_OUTPUT_TOKENS then (Some UPSTREAM_MAX_OUTPUT_TOKENS, True)
          else (requested, False)
      | None \<Rightarrow> (requested, False))"

definition non_stream_output_policy_for_prompt_tokens :: "nat \<Rightarrow> nat option \<Rightarrow> output_policy" where
  "non_stream_output_policy_for_prompt_tokens prompt_tokens requested =
     (let (effective, capped) = clamp_upstream_max_tokens requested
      in \<lparr>op_prompt_tokens = prompt_tokens, op_requested_max_tokens = requested,
          op_effective_max_tokens = effective, op_capped = capped\<rparr>)"

definition non_stream_output_policy :: "message list \<Rightarrow> nat option \<Rightarrow> output_policy" where
  "non_stream_output_policy ms requested =
     non_stream_output_policy_for_prompt_tokens (estimate_tokens (build_prompt_text ms)) requested"

definition stream_output_max_tokens :: "nat option \<Rightarrow> nat option" where
  "stream_output_max_tokens requested = fst (clamp_upstream_max_tokens requested)"

definition stream_output_policy_for_prompt_tokens :: "nat \<Rightarrow> nat option \<Rightarrow> output_policy" where
  "stream_output_policy_for_prompt_tokens prompt_tokens requested =
     (let (effective, capped) = clamp_upstream_max_tokens requested
      in \<lparr>op_prompt_tokens = prompt_tokens, op_requested_max_tokens = requested,
          op_effective_max_tokens = effective, op_capped = capped\<rparr>)"

definition stream_output_policy :: "message list \<Rightarrow> nat option \<Rightarrow> output_policy" where
  "stream_output_policy ms requested =
     stream_output_policy_for_prompt_tokens (estimate_tokens (build_prompt_text ms)) requested"

end
