(* ===== verification/RetryBody.thy ===== *)
theory RetryBody
  imports CacheControl ChatTranslate RequestProbes StreamGuard ZenStream
begin

text \<open>
  \<open>error.rs\<close>, \<open>thinking_manifest.rs\<close> and the first part of \<open>proxy/mod.rs\<close>: how an upstream error
  is classified, what becomes of the model's thinking, and the bodies with which a request is
  tried again.  \<open>fingerprint\<close> is the hash of \<open>std\<close>'s \<open>DefaultHasher\<close> of a text.
\<close>

section \<open>Upstream errors\<close>

datatype upstream_error_kind =
  MissingReasoningContent
| ThinkingToolChoiceUnsupported
| RateLimitedError
| ProviderInvalidRequest
| ProviderError

fun public_code :: "upstream_error_kind \<Rightarrow> string" where
  "public_code MissingReasoningContent = ''provider_missing_reasoning_content''"
| "public_code ThinkingToolChoiceUnsupported = ''provider_thinking_tool_choice_unsupported''"
| "public_code RateLimitedError = ''provider_rate_limited''"
| "public_code ProviderInvalidRequest = ''provider_invalid_request''"
| "public_code ProviderError = ''provider_error''"

record app_error =
  ae_status :: nat
  ae_message :: string
  ae_upstream_headers :: "(string \<times> string) list option"
  ae_upstream_error_kind :: "upstream_error_kind option"

definition app_error_new :: "nat \<Rightarrow> string \<Rightarrow> app_error" where
  "app_error_new status message =
     \<lparr>ae_status = status, ae_message = message, ae_upstream_headers = None,
      ae_upstream_error_kind = None\<rparr>"

definition classify_upstream_error :: "nat \<Rightarrow> string \<Rightarrow> upstream_error_kind" where
  "classify_upstream_error status body_text =
     (let lower = to_ascii_lowercase body_text
      in if status = 429 then RateLimitedError
         else if contains_str lower ''reasoning_content''
             \<and> contains_str lower ''must be passed back'' then MissingReasoningContent
         else if contains_str lower ''thinking mode does not support this tool_choice''
           then ThinkingToolChoiceUnsupported
         else if 400 \<le> status \<and> status < 500 then ProviderInvalidRequest
         else ProviderError)"

definition error_field :: "string \<Rightarrow> json \<Rightarrow> json option" where
  "error_field k parsed = Option.bind (json_get ''error'' parsed) (json_get k)"

definition provider_error_message_summary ::
  "serde \<Rightarrow> (string \<Rightarrow> string) \<Rightarrow> string \<Rightarrow> string option" where
  "provider_error_message_summary S redact body_text =
     Option.bind (from_slice S body_text) (\<lambda>parsed.
     Option.bind (map_option trim (Option.bind (error_field ''message'' parsed) as_str)) (\<lambda>message.
       if message = [] then None
       else
         let normalized = to_ascii_lowercase message
         in if list_ex (contains_str normalized)
                [''opencode'', ''zen'', ''internal proxy'', ''proxy route'']
               \<or> contains_str normalized ''no proxy resources''
               \<or> contains_str normalized ''circuit open''
               \<or> contains_str normalized ''proxy node budget''
            then None
            else
              let redacted = redact message
              in Some (take_chars 160 redacted
                   @ (if char_count redacted > 160 then utf8 [0x2026] else []))))"

definition provider_error_code :: "serde \<Rightarrow> string \<Rightarrow> string option" where
  "provider_error_code S body_text =
     Option.bind (from_slice S body_text) (\<lambda>parsed.
     Option.bind (Option.bind
         (case error_field ''code'' parsed of
            Some c \<Rightarrow> Some c
          | None \<Rightarrow> error_field ''type'' parsed) as_str) (\<lambda>v.
       if trim v \<noteq> [] then Some v else None))"

definition public_upstream_message ::
  "serde \<Rightarrow> (string \<Rightarrow> string) \<Rightarrow> nat \<Rightarrow> string \<Rightarrow> upstream_error_kind \<Rightarrow> string" where
  "public_upstream_message S redact status body_text kind =
     (let lower = to_ascii_lowercase body_text
      in if contains_str lower ''no proxy resources available''
           then ''upstream proxy pool temporarily unavailable (code=proxy_pool_exhausted)''
         else if contains_str lower ''circuit open''
           then ''upstream proxy circuit open due to rate limiting (code=proxy_circuit_open)''
         else if contains_str lower ''service temporarily unavailable''
           then ''upstream proxy temporarily unavailable (status='' @ show_nat status
             @ '', code=proxy_unavailable)''
         else
           case kind of
             MissingReasoningContent \<Rightarrow>
               ''upstream provider rejected transformed tool-history request (code=provider_missing_reasoning_content)''
           | ThinkingToolChoiceUnsupported \<Rightarrow>
               ''upstream provider rejected thinking with forced tool choice (code=provider_thinking_tool_choice_unsupported)''
           | RateLimitedError \<Rightarrow> ''upstream provider rate limited the request''
           | _ \<Rightarrow>
               ''upstream provider error (status='' @ show_nat status
               @ (case provider_error_code S body_text of
                    Some code \<Rightarrow> '', code='' @ code
                  | None \<Rightarrow> [])
               @ (case provider_error_message_summary S redact body_text of
                    Some detail \<Rightarrow> '', detail='' @ detail
                  | None \<Rightarrow> [])
               @ '')'')"

text \<open>A status outside 100 to 999 is no status code and becomes a bad gateway.\<close>

definition app_error_upstream ::
  "serde \<Rightarrow> (string \<Rightarrow> string) \<Rightarrow> nat \<Rightarrow> string \<Rightarrow> string option \<Rightarrow> app_error" where
  "app_error_upstream S redact status body_text retry_after =
     (let kind = classify_upstream_error status body_text
      in \<lparr>ae_status = (if 100 \<le> status \<and> status \<le> 999 then status else 502),
          ae_message = public_upstream_message S redact status body_text kind,
          ae_upstream_headers =
            Some (case retry_after of Some ra \<Rightarrow> [(''retry-after'', ra)] | None \<Rightarrow> []),
          ae_upstream_error_kind = Some kind\<rparr>)"

definition is_missing_reasoning_content :: "app_error \<Rightarrow> bool" where
  "is_missing_reasoning_content e \<longleftrightarrow> ae_upstream_error_kind e = Some MissingReasoningContent"

definition is_provider_invalid_request :: "app_error \<Rightarrow> bool" where
  "is_provider_invalid_request e \<longleftrightarrow> ae_upstream_error_kind e = Some ProviderInvalidRequest"

definition is_rate_limited :: "app_error \<Rightarrow> bool" where
  "is_rate_limited e \<longleftrightarrow>
     ae_status e = 429 \<or> ae_upstream_error_kind e = Some RateLimitedError"

section \<open>Thinking\<close>

definition preserves_thinking_for_cache_model :: "string \<Rightarrow> bool" where
  "preserves_thinking_for_cache_model model \<longleftrightarrow>
     normalize_model model \<in> set [''deepseek-v4-flash'', ''deepseek-v4-flash-free'', ''big-pickle'']"

definition apply_claude_code_production_thinking :: "json \<Rightarrow> string" where
  "apply_claude_code_production_thinking body =
     (if json_get ''thinking'' body \<noteq> None then ''claude_code_production_keep_existing''
      else ''claude_code_production_default_enabled'')"

definition is_probe_kind :: "short_non_stream_request_kind \<Rightarrow> bool" where
  "is_probe_kind k \<longleftrightarrow> k \<in> set [HealthProbe, ChannelTest, InternalClaudeCodeProbe]"

definition is_production_claude_code_request ::
  "serde \<Rightarrow> chat_request \<Rightarrow> client_profile \<Rightarrow> bool" where
  "is_production_claude_code_request S request p =
     (if cp_kind p \<noteq> ClaudeCode then False
      else \<not> is_probe_kind (classify_short_non_stream_request S request True))"

definition no_tools_at_all :: "chat_request \<Rightarrow> bool" where
  "no_tools_at_all request \<longleftrightarrow>
     \<not> has_tools request
     \<and> (case cr_tool_choice request of None \<Rightarrow> True | Some c \<Rightarrow> c = JNull)"

definition apply_thinking_manifest ::
  "serde \<Rightarrow> chat_request \<Rightarrow> client_profile \<Rightarrow> json \<Rightarrow> json \<times> string" where
  "apply_thinking_manifest S request p body =
     (if cp_kind p = ClaudeCode \<and> is_production_claude_code_request S request p
        then (body, apply_claude_code_production_thinking body)
      else if disables_thinking_for_tool_use p
          \<and> \<not> preserves_thinking_for_cache_model (cr_model request)
        then
          (let (body, done) = disable_thinking_for_tool_use body
           in (body, if done then ''compat_tool_use_disabled'' else ''compat_tool_use_keep_existing''))
      else
        let short_kind =
              classify_short_non_stream_request S request (cp_kind p = ClaudeCode);
            low_output_budget =
              (case cr_max_tokens request of Some n \<Rightarrow> n \<le> 512 | None \<Rightarrow> False);
            no_tools = no_tools_at_all request;
            tiny_prompt = (rs_estimated_total_tokens (request_shape_of S request) \<le> 512);
            probe_only =
              (no_tools \<and> low_output_budget \<and> is_probe_kind short_kind
               \<or> unwrap_or False (cr_stream request) \<and> cp_kind p = ClaudeCode \<and> tiny_prompt
                 \<and> no_tools);
            (body, done) =
              (if probe_only then set_thinking_disabled_if_absent body else (body, False))
        in (body,
            if done then ''probe_only_disabled''
            else if json_get ''thinking'' body \<noteq> None then ''keep_existing''
            else ''keep_default''))"

definition preserves_thinking_on_retry :: "client_profile \<Rightarrow> bool" where
  "preserves_thinking_on_retry p \<longleftrightarrow> cp_kind p = ClaudeCode"

text \<open>The messages of a body that parse, after an operation on them, in their upstream form.\<close>

definition on_typed_messages ::
  "(message list \<Rightarrow> client_state \<Rightarrow> message list \<times> client_state) \<Rightarrow> json \<Rightarrow> client_state
     \<Rightarrow> json \<times> client_state" where
  "on_typed_messages f body s =
     (case body_array ''messages'' body of
        None \<Rightarrow> (body, s)
      | Some messages \<Rightarrow>
          (let (typed, s) = f (List.map_filter de_message messages) s
           in (set_array ''messages'' (map message_to_upstream_json typed) body, s)))"

definition reasoning_enriched_retry_body ::
  "(string \<Rightarrow> string option) \<Rightarrow> json \<Rightarrow> client_state \<Rightarrow> json \<times> client_state" where
  "reasoning_enriched_retry_body remote body s =
     (let scope = tools_epoch_key (unwrap_or ''unknown'' (get_str ''model'' body)) ''retry''
      in on_typed_messages (\<lambda>ms s.
           let (ms, _, s) = enrich_messages_with_reasoning_mode remote scope CurrentTurnOnly ms s
           in (ms, s)) body s)"

section \<open>What a stream collected\<close>

datatype output_class = ValidOutput | EmptyOutput | NoForwardable | ReasoningOnly | ReasoningOnlyLength

fun output_class_as_str :: "output_class \<Rightarrow> string" where
  "output_class_as_str ValidOutput = ''valid''"
| "output_class_as_str EmptyOutput = ''empty_output''"
| "output_class_as_str NoForwardable = ''no_forwardable_output''"
| "output_class_as_str ReasoningOnly = ''reasoning_only''"
| "output_class_as_str ReasoningOnlyLength = ''reasoning_only_length''"

definition should_retry_with_enriched_reasoning :: "output_class \<Rightarrow> client_profile \<Rightarrow> bool" where
  "should_retry_with_enriched_reasoning c p \<longleftrightarrow>
     preserves_thinking_on_retry p \<and> c \<in> set [ReasoningOnly, ReasoningOnlyLength]"

definition classify_collected_output :: "collected_stream \<Rightarrow> string \<Rightarrow> output_class" where
  "classify_collected_output c rendered_content =
     (if trim rendered_content \<noteq> [] \<or> co_tool_calls c \<noteq> [] then ValidOutput
      else if trim (co_reasoning c) \<noteq> []
        then if co_finish_reason c = Some ''length'' then ReasoningOnlyLength else ReasoningOnly
      else EmptyOutput)"

definition collected_visible_text :: "collected_stream \<Rightarrow> string" where
  "collected_visible_text c =
     (if trim (co_content c) \<noteq> [] \<and> \<not> contains_dsml_tool_leak (co_content c) then co_content c
      else if co_tool_calls c = [] \<and> trim (co_reasoning c) \<noteq> []
          \<and> \<not> contains_dsml_tool_leak (co_reasoning c) then co_reasoning c
      else if trim (co_content c) = [] \<or> contains_dsml_tool_leak (co_content c) then []
      else co_content c)"

definition stream_reasoning_visible_text_bridge :: "string \<Rightarrow> string \<Rightarrow> nat \<Rightarrow> string option" where
  "stream_reasoning_visible_text_bridge txt reasoning tool_call_count =
     (if tool_call_count > 0 then None
      else if contains_dsml_tool_leak txt \<or> contains_dsml_tool_leak reasoning then None
      else if trim reasoning = [] then None
      else if trim txt = [] then Some (trim reasoning)
      else if length (trim reasoning) > 300 \<and> length (trim txt) * 5 < length (trim reasoning)
        then
          if contains_str (trim txt) (trim reasoning) \<or> contains_str (trim reasoning) (trim txt)
          then None else Some (trim reasoning)
      else None)"

section \<open>The body of the first attempt\<close>

definition prune_null_optional_upstream_fields :: "json \<Rightarrow> json" where
  "prune_null_optional_upstream_fields body =
     (case body of
        JObject m \<Rightarrow>
          JObject (foldl (\<lambda>m k. if map_of m k = Some JNull then AList.delete k m else m) m
            [''tools'', ''tool_choice''])
      | _ \<Rightarrow> body)"

definition forced_tool_choice :: "json \<Rightarrow> bool" where
  "forced_tool_choice choice \<longleftrightarrow>
     (case choice of
        JString v \<Rightarrow> v \<in> set [''required'', ''any'']
      | JObject m \<Rightarrow>
          (case get_str ''type'' choice of
             Some kind \<Rightarrow> kind \<in> set [''function'', ''tool'', ''required'', ''any'']
           | None \<Rightarrow> False)
      | _ \<Rightarrow> False)"

definition downgrade_claude_code_forced_tool_choice_for_upstream_model ::
  "client_profile \<Rightarrow> string \<Rightarrow> json \<times> chat_request \<Rightarrow> (json \<times> chat_request) \<times> string option" where
  "downgrade_claude_code_forced_tool_choice_for_upstream_model p upstream_model = (\<lambda>(body, request).
     if cp_kind p \<noteq> ClaudeCode \<or> alphanumeric_lower upstream_model \<notin> set [''hy3'', ''hy3free'']
     then ((body, request), None)
     else if (case json_get ''tool_choice'' body of Some c \<Rightarrow> \<not> forced_tool_choice c | None \<Rightarrow> True)
     then ((body, request), None)
     else
       ((set_key ''tool_choice'' (JString ''auto'') body,
         request\<lparr>cr_tool_choice := Some (JString ''auto'')\<rparr>),
        Some ''hy3_forced_tool_choice_downgraded_to_auto''))"

fun client_kind_label_of :: "client_kind \<Rightarrow> string" where
  "client_kind_label_of ClaudeCode = ''claude-code''"
| "client_kind_label_of Hermes = ''hermes''"
| "client_kind_label_of OpenClaw = ''openclaw''"
| "client_kind_label_of CherryStudio = ''cherrystudio''"
| "client_kind_label_of AnthropicSdk = ''anthropic-sdk''"
| "client_kind_label_of OpenAiSdk = ''openai-sdk''"
| "client_kind_label_of UnknownClient = ''unknown''"

definition session_scope_for_request :: "serde \<Rightarrow> chat_request \<Rightarrow> string" where
  "session_scope_for_request S request =
     cr_model request @ '':'' @ hex16 (rs_prompt_hash (request_shape_of S request))"

definition build_icp_upstream_package ::
  "serde \<Rightarrow> (string \<Rightarrow> string option) \<Rightarrow> (string \<Rightarrow> string option) \<Rightarrow> chat_request \<Rightarrow> string
     \<Rightarrow> client_profile \<Rightarrow> string \<Rightarrow> client_state \<Rightarrow> icp_upstream_package \<times> client_state" where
  "build_icp_upstream_package S remote env request upstream_model p api_key s =
     prepare_icp_upstream_request S remote request (session_scope_for_request S request)
       upstream_model
       \<lparr>uc_api_key_id = api_key_id_for_cache api_key, uc_public_model = cr_model request,
        uc_upstream_model = upstream_model, uc_source_client = client_kind_label_of (cp_kind p)\<rparr>
       (ccp_flags_from_env env) s"

definition zen_session_headers :: "icp_identity \<Rightarrow> (string \<times> string) list" where
  "zen_session_headers identity =
     [(''x-opencode-session'', ii_zen_session_id identity), (''x-opencode-project'', ''global'')]"

definition session_scope_from_upstream_body :: "serde \<Rightarrow> json \<Rightarrow> string" where
  "session_scope_from_upstream_body S body =
     unwrap_or ''unknown'' (get_str ''model'' body) @ '':''
     @ short_hash16 (case json_get ''messages'' body of Some v \<Rightarrow> to_string S v | None \<Rightarrow> [])"

definition reasoning_scope_from_upstream_body :: "serde \<Rightarrow> json \<Rightarrow> string" where
  "reasoning_scope_from_upstream_body S body =
     (case map_option trim (get_str ''prompt_cache_key'' body) of
        Some k \<Rightarrow> if k \<noteq> [] then k else session_scope_from_upstream_body S body
      | None \<Rightarrow> session_scope_from_upstream_body S body)"

definition record_collected_reasoning_for_request ::
  "serde \<Rightarrow> chat_request \<Rightarrow> string \<Rightarrow> client_state \<Rightarrow> client_state" where
  "record_collected_reasoning_for_request S request reasoning s =
     (if trim reasoning = [] then s
      else record_collected_reasoning (session_scope_for_request S request)
        (length (filter (\<lambda>m. ms_role m = ''assistant'') (cr_messages request))) reasoning s)"

section \<open>Bodies for another attempt\<close>

definition thinking_disabled_retry_body :: "json \<Rightarrow> json" where
  "thinking_disabled_retry_body body =
     set_key ''thinking'' (json_object [(''type'', JString ''disabled'')]) body"

definition scope_or_body :: "serde \<Rightarrow> string \<Rightarrow> json \<Rightarrow> string" where
  "scope_or_body S reasoning_scope body =
     (if trim reasoning_scope = [] then reasoning_scope_from_upstream_body S body
      else reasoning_scope)"

definition reasoning_retry_body_with_scope ::
  "serde \<Rightarrow> (string \<Rightarrow> string option) \<Rightarrow> json \<Rightarrow> client_profile \<Rightarrow> string \<Rightarrow> client_state
     \<Rightarrow> json \<times> client_state" where
  "reasoning_retry_body_with_scope S remote body p reasoning_scope s =
     (if preserves_thinking_on_retry p
      then
        let scope = scope_or_body S reasoning_scope body
        in on_typed_messages (\<lambda>ms s.
             let (ms, _, s) = enrich_messages_with_tool_call_reasoning S remote scope ms s;
                 (ms, _, s) = enrich_messages_with_reasoning_mode remote scope CurrentTurnOnly ms s
             in (ms, s)) body s
      else reasoning_enriched_retry_body remote body s)"

definition reasoning_retry_body ::
  "serde \<Rightarrow> (string \<Rightarrow> string option) \<Rightarrow> json \<Rightarrow> client_profile \<Rightarrow> client_state
     \<Rightarrow> json \<times> client_state" where
  "reasoning_retry_body S remote body p s = reasoning_retry_body_with_scope S remote body p [] s"

definition enrich_tool_call_reasoning_body ::
  "serde \<Rightarrow> (string \<Rightarrow> string option) \<Rightarrow> client_profile \<Rightarrow> string \<Rightarrow> json \<Rightarrow> client_state
     \<Rightarrow> (json \<times> nat) \<times> client_state" where
  "enrich_tool_call_reasoning_body S remote p reasoning_scope body s =
     (if \<not> preserves_thinking_on_retry p then ((body, 0), s)
      else
        case body_array ''messages'' body of
          None \<Rightarrow> ((body, 0), s)
        | Some messages \<Rightarrow>
            (let scope = scope_or_body S reasoning_scope body;
                 typed = List.map_filter de_message messages;
                 (typed, enriched, s) =
                   enrich_messages_with_tool_call_reasoning S remote scope typed s;
                 (typed, s) =
                   (if cp_kind p = ClaudeCode
                    then
                      let (typed, _, s) =
                            enrich_messages_with_reasoning_mode remote scope AllHistorical typed s
                      in (typed, s)
                    else (typed, s))
             in (if enriched > 0 \<or> cp_kind p = ClaudeCode
                 then (set_array ''messages'' (map message_to_upstream_json typed) body, enriched)
                 else (body, enriched), s)))"

definition compat_tool_use_retry_body ::
  "serde \<Rightarrow> (string \<Rightarrow> string option) \<Rightarrow> json \<Rightarrow> client_state \<Rightarrow> json \<times> client_state" where
  "compat_tool_use_retry_body S remote body s =
     (let retry = fst (disable_thinking_for_tool_use body);
          scope = reasoning_scope_from_upstream_body S retry
      in on_typed_messages (\<lambda>ms s.
           let (ms, _, s) = enrich_messages_with_tool_call_reasoning S remote scope ms s;
               (ms, _, s) = enrich_messages_with_reasoning_mode remote scope AllHistorical ms s;
               (ms, _) = canonicalize_openai_tool_history_with_policy S Compat ms
           in (ms, s)) retry s)"

datatype provider_invalid_retry_mode = EnrichReasoning | CompatToolUse | TextOnly

definition strips_tools :: "provider_invalid_retry_mode \<Rightarrow> bool" where
  "strips_tools mode \<longleftrightarrow> mode = TextOnly"

fun retry_mode_as_str :: "provider_invalid_retry_mode \<Rightarrow> string" where
  "retry_mode_as_str EnrichReasoning = ''enrich_reasoning''"
| "retry_mode_as_str CompatToolUse = ''compat_tool_use''"
| "retry_mode_as_str TextOnly = ''text_only''"

record provider_invalid_retry_stats =
  pi_sanitized_tools :: nat
  pi_compacted_user_messages :: nat
  pi_flattened_tool_history_messages :: nat
  pi_stripped_tools :: bool

definition has_visible_tool_history :: "chat_request \<Rightarrow> bool" where
  "has_visible_tool_history request \<longleftrightarrow>
     list_ex (\<lambda>m. ms_role m = ''tool'' \<or> ms_tool_call_id m \<noteq> None
         \<or> (case ms_tool_calls m of Some cs \<Rightarrow> cs \<noteq> [] | None \<Rightarrow> False))
       (cr_messages request)"

definition risky_schema :: "openai_tool \<Rightarrow> bool" where
  "risky_schema t \<longleftrightarrow>
     (case of_parameters (ot_function t) of
        None \<Rightarrow> False
      | Some parameters \<Rightarrow>
          if \<not> is_json_object parameters then True
          else
            get_str ''type'' parameters \<noteq> Some ''object''
            \<or> (case json_get ''properties'' parameters of
                 Some v \<Rightarrow> \<not> is_json_object v | None \<Rightarrow> True)
            \<or> (case json_get ''required'' parameters of
                 None \<Rightarrow> False
               | Some required \<Rightarrow>
                   (case as_array required of
                      Some items \<Rightarrow> \<not> list_all (\<lambda>v. as_str v \<noteq> None) items
                    | None \<Rightarrow> True)))"

definition has_risky_tool_schema :: "chat_request \<Rightarrow> bool" where
  "has_risky_tool_schema request \<longleftrightarrow>
     (case cr_tools request of Some ts \<Rightarrow> list_ex risky_schema ts | None \<Rightarrow> False)"

definition is_risky_claude_code_tool_history_request ::
  "chat_request \<Rightarrow> client_profile \<Rightarrow> tool_history_repair \<Rightarrow> bool \<Rightarrow> bool" where
  "is_risky_claude_code_tool_history_request request p repair missing_reasoning =
     (if cp_kind p \<noteq> ClaudeCode \<or> \<not> has_tools request then False
      else if hr_downgraded_tool_results repair > 0 \<or> hr_downgraded_assistant_calls repair > 0
        then True
      else if missing_reasoning then True
      else if has_visible_tool_history request then True
      else has_risky_tool_schema request)"

definition provider_invalid_tool_history_retry_mode ::
  "app_error \<Rightarrow> chat_request \<Rightarrow> client_profile \<Rightarrow> tool_history_repair \<Rightarrow> bool \<Rightarrow> bool \<Rightarrow> bool
     \<Rightarrow> provider_invalid_retry_mode option" where
  "provider_invalid_tool_history_retry_mode err request p repair used_enriched used_compat used_text =
     (let missing_reasoning = is_missing_reasoning_content err;
          invalid_tool_history = is_provider_invalid_request err
      in if \<not> (invalid_tool_history \<or> missing_reasoning) then None
         else if \<not> is_risky_claude_code_tool_history_request request p repair missing_reasoning
           then None
         else if missing_reasoning \<and> \<not> used_enriched then Some EnrichReasoning
         else if \<not> used_compat then Some CompatToolUse
         else if \<not> used_text then Some TextOnly
         else None)"

definition should_retry_missing_reasoning_content :: "app_error \<Rightarrow> bool \<Rightarrow> bool" where
  "should_retry_missing_reasoning_content err used_reasoning_retry \<longleftrightarrow>
     is_missing_reasoning_content err \<and> \<not> used_reasoning_retry"

end
