(* ===== verification/RetrySanitize.thy ===== *)
theory RetrySanitize
  imports RetryBody
begin

text \<open>
  The rest of the retry bodies of \<open>proxy/mod.rs\<close>: the schemas of the tools are made valid, long
  texts of the user are cut, and for the last attempt the tool history is flattened into text.
  Each operation returns the changed value and the number of changes it reports.
\<close>

section \<open>Tool schemas\<close>

definition empty_schema :: json where
  "empty_schema =
     json_object [(''type'', JString ''object''), (''properties'', JObject [])]"

text \<open>The entries of \<open>required\<close> that are strings and known properties.\<close>

definition known_required :: "json_object_map \<Rightarrow> json list \<Rightarrow> json list" where
  "known_required params items =
     (let keys = (case map_of params ''properties'' of Some (JObject ps) \<Rightarrow> map fst ps | _ \<Rightarrow> [])
      in filter (\<lambda>item. case as_str item of Some k \<Rightarrow> k \<in> set keys | None \<Rightarrow> False) items)"

definition sanitize_required :: "json_object_map \<Rightarrow> json_object_map \<times> nat" where
  "sanitize_required params =
     (case map_of params ''required'' of
        None \<Rightarrow> (params, 0)
      | Some (JArray items) \<Rightarrow>
          (let kept = known_required params items
           in (obj_insert ''required'' (JArray kept) params,
               if length kept \<noteq> length items then 1 else 0))
      | Some _ \<Rightarrow> (obj_insert ''required'' (JArray []) params, 1))"

definition sanitize_params :: "json \<Rightarrow> json \<times> nat" where
  "sanitize_params params =
     (case params of
        JObject m \<Rightarrow>
          (let (m, a) = (if get_str ''type'' (JObject m) \<noteq> Some ''object''
                 then (obj_insert ''type'' (JString ''object'') m, 1) else (m, 0));
               (m, b) = (if (case map_of m ''properties'' of Some v \<Rightarrow> is_json_object v | None \<Rightarrow> False)
                 then (m, 0) else (obj_insert ''properties'' (JObject []) m, 1));
               (m, c) = sanitize_required m
           in (JObject m, a + b + c))
      | _ \<Rightarrow> (empty_schema, 1))"

text \<open>\<open>entry("parameters").or_insert_with\<close> does not count as a change.\<close>

definition sanitize_tool :: "json \<Rightarrow> json \<times> nat" where
  "sanitize_tool tool =
     (case tool of
        JObject t \<Rightarrow>
          (case map_of t ''function'' of
             Some (JObject func) \<Rightarrow>
               (let params = (case map_of func ''parameters'' of
                      Some v \<Rightarrow> v | None \<Rightarrow> empty_schema);
                    (params, n) = sanitize_params params
                in (JObject (obj_insert ''function''
                      (JObject (obj_insert ''parameters'' params func)) t), n))
           | _ \<Rightarrow> (tool, 0))
      | _ \<Rightarrow> (tool, 0))"

definition map_array_counted ::
  "string \<Rightarrow> (json \<Rightarrow> json \<times> nat) \<Rightarrow> json \<Rightarrow> json \<times> nat" where
  "map_array_counted k f body =
     (case body_array k body of
        None \<Rightarrow> (body, 0)
      | Some items \<Rightarrow>
          (set_array k (map (\<lambda>x. fst (f x)) items) body, sum_list (map (\<lambda>x. snd (f x)) items)))"

definition sanitize_upstream_tools :: "json \<Rightarrow> json \<times> nat" where
  "sanitize_upstream_tools body = map_array_counted ''tools'' sanitize_tool body"

section \<open>Long texts of the user\<close>

definition compact_text_for_provider_invalid_retry :: "(string \<Rightarrow> 64 word) \<Rightarrow> string \<Rightarrow> string" where
  "compact_text_for_provider_invalid_retry fingerprint t =
     take_chars (6 * 1024) t @ [NL] @ ''[context trimmed; original_bytes='' @ show_nat (length t)
     @ '' id='' @ hex16 (fingerprint t) @ '']'' @ [NL] @ take_tail_chars (2 * 1024) t"

definition compact_large_user_message :: "(string \<Rightarrow> 64 word) \<Rightarrow> json \<Rightarrow> json \<times> nat" where
  "compact_large_user_message fingerprint m =
     (if get_str ''role'' m \<noteq> Some ''user'' then (m, 0)
      else
        case get_str ''content'' m of
          None \<Rightarrow> (m, 0)
        | Some t \<Rightarrow>
            if length t \<le> 12 * 1024 then (m, 0)
            else (set_key ''content''
                (JString (compact_text_for_provider_invalid_retry fingerprint t)) m, 1))"

definition compact_large_user_messages_for_retry ::
  "(string \<Rightarrow> 64 word) \<Rightarrow> json \<Rightarrow> json \<times> nat" where
  "compact_large_user_messages_for_retry fingerprint body =
     map_array_counted ''messages'' (compact_large_user_message fingerprint) body"

section \<open>Tool history as text\<close>

definition part_text :: "json \<Rightarrow> string option" where
  "part_text part =
     (case get_str ''text'' part of Some t \<Rightarrow> Some t | None \<Rightarrow> get_str ''content'' part)"

definition retry_value_to_text :: "json \<Rightarrow> string option" where
  "retry_value_to_text v =
     (case v of
        JString t \<Rightarrow> Some t
      | JNull \<Rightarrow> Some []
      | JArray parts \<Rightarrow> Some (join_with [NL] (List.map_filter part_text parts))
      | _ \<Rightarrow> None)"

definition summarize_tool_calls_for_text_only_retry :: "json \<Rightarrow> string" where
  "summarize_tool_calls_for_text_only_retry tool_calls =
     (case as_array tool_calls of
        None \<Rightarrow> []
      | Some calls \<Rightarrow>
          join_with '', '' (List.map_filter
            (\<lambda>call. Option.bind (json_get ''function'' call) (get_str ''name'')) calls))"

definition preview_text :: "string \<Rightarrow> nat \<Rightarrow> string" where
  "preview_text t max_chars =
     (let trimmed = trim t
      in if trimmed = [] then []
         else if char_count trimmed \<le> max_chars then trimmed
         else take_chars max_chars trimmed @ utf8 [0x2026])"

definition summarize_tool_result_for_text_only_retry :: "string \<Rightarrow> string" where
  "summarize_tool_result_for_text_only_retry content = preview_text content 512"

definition content_text :: "json_object_map \<Rightarrow> string" where
  "content_text m = unwrap_or [] (Option.bind (map_of m ''content'') retry_value_to_text)"

definition flatten_assistant :: "json_object_map \<Rightarrow> json \<Rightarrow> json_object_map" where
  "flatten_assistant m calls =
     (let content = content_text m;
          tool_summary = summarize_tool_calls_for_text_only_retry calls;
          flattened =
            (if trim content = [] then tool_summary
             else if trim tool_summary = [] then content
             else content @ [NL] @ tool_summary)
      in AList.delete ''function_call'' (AList.delete ''tool_calls''
           (obj_insert ''content'' (JString flattened) m)))"

definition flatten_tool :: "json_object_map \<Rightarrow> json_object_map" where
  "flatten_tool m =
     (let content = content_text m
      in AList.delete ''name'' (AList.delete ''tool_call_id''
           (obj_insert ''content'' (JString (summarize_tool_result_for_text_only_retry content))
             (obj_insert ''role'' (JString ''user'') m))))"

definition flatten_message :: "json \<Rightarrow> json \<times> nat" where
  "flatten_message message =
     (case message of
        JObject m \<Rightarrow>
          (let role = unwrap_or [] (get_str ''role'' message)
           in if role = ''assistant''
              then
                case map_of m ''tool_calls'' of
                  None \<Rightarrow> (message, 0)
                | Some calls \<Rightarrow>
                    if calls = JNull then (message, 0)
                    else (JObject (flatten_assistant m calls), 1)
              else if role = ''tool'' then (JObject (flatten_tool m), 1)
              else (message, 0))
      | _ \<Rightarrow> (message, 0))"

definition flatten_tool_history_for_text_only_retry :: "json \<Rightarrow> json \<times> nat" where
  "flatten_tool_history_for_text_only_retry body =
     map_array_counted ''messages'' flatten_message body"

section \<open>The retry body\<close>

definition provider_invalid_tool_history_retry_body ::
  "serde \<Rightarrow> (string \<Rightarrow> string option) \<Rightarrow> (string \<Rightarrow> 64 word) \<Rightarrow> json
     \<Rightarrow> provider_invalid_retry_mode \<Rightarrow> client_state
     \<Rightarrow> (json \<times> provider_invalid_retry_stats) \<times> client_state" where
  "provider_invalid_tool_history_retry_body S remote fingerprint body mode s =
     (let (retry, s) =
            (case mode of
               EnrichReasoning \<Rightarrow>
                 reasoning_retry_body S remote body (profile_new ClaudeCode FromNowhere) s
             | CompatToolUse \<Rightarrow> compat_tool_use_retry_body S remote body s
             | TextOnly \<Rightarrow> (body, s));
          (retry, sanitized) = sanitize_upstream_tools retry;
          (retry, compacted) = compact_large_user_messages_for_retry fingerprint retry
      in if strips_tools mode
         then
           let (retry, flattened) = flatten_tool_history_for_text_only_retry retry;
               retry = set_key ''tools'' JNull retry;
               retry = set_key ''tool_choice'' JNull retry
           in ((retry,
                \<lparr>pi_sanitized_tools = sanitized, pi_compacted_user_messages = compacted,
                 pi_flattened_tool_history_messages = flattened, pi_stripped_tools = True\<rparr>), s)
         else
           ((retry,
             \<lparr>pi_sanitized_tools = sanitized, pi_compacted_user_messages = compacted,
              pi_flattened_tool_history_messages = 0, pi_stripped_tools = strips_tools mode\<rparr>), s))"

end
