(* ===== verification/Anchors.thy ===== *)
theory Anchors
  imports RequestShape
begin

text \<open>
  The texts \<open>protocol/translate.rs\<close> looks for in the messages of a conversation: the latest
  request of the user, literals the user wants back unchanged, and the traces of a session that
  is being resumed.
\<close>

section \<open>Markers\<close>

text \<open>\<open>str::get(i..)\<close>.\<close>

definition str_from :: "nat \<Rightarrow> string \<Rightarrow> string option" where
  "str_from i s = (if i \<le> length s \<and> is_char_boundary s i then Some (drop i s) else None)"

definition str_upto :: "nat \<Rightarrow> string \<Rightarrow> string option" where
  "str_upto i s = (if i \<le> length s \<and> is_char_boundary s i then Some (take i s) else None)"

definition max_option :: "nat list \<Rightarrow> nat option" where
  "max_option ns = (if ns = [] then None else Some (foldl max 0 ns))"

definition ascii_anchor_markers :: "string list" where
  "ascii_anchor_markers =
     [''final question:'', ''final request:'', ''final instruction:'', ''latest user request:'',
      ''my request for codex:'', ''my request:'', ''current request:'', ''current task:'', ''now:'']"

definition unicode_anchor_markers :: "string list" where
  "unicode_anchor_markers =
     [utf8 [0x6700, 0x7EC8, 0x95EE, 0x9898], utf8 [0x6700, 0x540E, 0x95EE, 0x9898],
      utf8 [0x6700, 0x7EC8, 0x8981, 0x6C42], utf8 [0x6700, 0x540E, 0x8981, 0x6C42],
      utf8 [0x5F53, 0x524D, 0x8981, 0x6C42], utf8 [0x5F53, 0x524D, 0x4EFB, 0x52A1],
      utf8 [0x73B0, 0x5728, 0x8981, 0x6C42],
      utf8 [0x73B0, 0x5728, 0x7684, 0x8981, 0x6C42],
      utf8 [0x53EA, 0x8F93, 0x51FA]]"

text \<open>The last occurrence of any marker; the lower case of ASCII keeps the positions.\<close>

definition latest_anchor_marker_start :: "string \<Rightarrow> nat option" where
  "latest_anchor_marker_start txt =
     (let ascii_lower_text = to_ascii_lowercase txt
      in max_option
           (List.map_filter (str_rfind ascii_lower_text) ascii_anchor_markers
            @ List.map_filter (str_rfind txt) unicode_anchor_markers))"

definition has_exact_reply_instruction :: "string \<Rightarrow> bool" where
  "has_exact_reply_instruction txt \<longleftrightarrow>
     (let lower = to_ascii_lowercase txt
      in contains_str lower ''reply exactly''
         \<or> contains_str lower ''output ''
           \<and> (contains_str lower '' only'' \<or> contains_str lower ''exactly'')
         \<or> contains_str lower ''return exactly''
         \<or> contains_str txt (utf8 [0x53EA, 0x8F93, 0x51FA])
         \<or> contains_str txt (utf8 [0x53EA, 0x56DE, 0x590D]))"

definition has_explicit_user_anchor :: "string \<Rightarrow> bool" where
  "has_explicit_user_anchor txt \<longleftrightarrow>
     latest_anchor_marker_start txt \<noteq> None \<or> has_exact_reply_instruction txt"

definition resume_pressure_needles :: "string list" where
  "resume_pressure_needles =
     [''.claude/projects'', ''.jsonl'', ''pick up where we left off'', ''where we left off'',
      ''read the transcript'', ''read transcript'', ''latest transcript'',
      ''conversation transcript'', ''summary file'', ''git status'', ''git diff'', ''git log'',
      ''git log --oneline'', ''recent git'', ''current workspace state'', ''workspace-state'',
      ''workspace state'', ''understand current state'', ''understand the current state'',
      ''continue previous conversation'', ''continue the previous conversation'',
      ''compacted conversation'', ''ready for the next instruction'',
      ''ready for next instruction'', ''next instruction'', ''project files'',
      ''session history'', ''full context'', ''reviewed the full context'',
      ''session is complete'', ''the session is complete'', ''working tree has'',
      ''summary of what'' @ [CHR 0x27] @ ''s in the working tree'', ''uncommitted changes'',
      ''tests pass'', ''tests with no warnings'']"

definition is_claude_code_resume_pressure :: "string \<Rightarrow> bool" where
  "is_claude_code_resume_pressure txt \<longleftrightarrow>
     (let lower = to_ascii_lowercase txt in list_ex (contains_str lower) resume_pressure_needles)"

section \<open>Anchors\<close>

text \<open>The loop over the lines from the last one up: the lines kept and their characters.\<close>

fun tail_lines_loop :: "nat \<Rightarrow> string list \<Rightarrow> nat \<Rightarrow> string list \<Rightarrow> string list" where
  "tail_lines_loop max_chars kept chars [] = kept"
| "tail_lines_loop max_chars kept chars (line # ls) =
     (let trimmed = trim line; line_chars = char_count trimmed;
          chars' = sat_add 64 (sat_add 64 chars line_chars) 1
      in if trimmed = [] then tail_lines_loop max_chars kept chars ls
         else if kept \<noteq> [] \<and> sat_add 64 chars line_chars > max_chars then kept
         else if chars' \<ge> max_chars then kept @ [trimmed]
         else tail_lines_loop max_chars (kept @ [trimmed]) chars' ls)"

definition last_non_empty_tail_lines :: "string \<Rightarrow> nat \<Rightarrow> string" where
  "last_non_empty_tail_lines txt max_chars =
     (let kept = rev (tail_lines_loop max_chars [] 0 (rev (str_lines txt)));
          joined = join_with [NL] kept
      in if char_count joined \<le> max_chars then joined else take_tail_chars max_chars joined)"

definition extract_latest_user_anchor :: "string \<Rightarrow> nat \<Rightarrow> string" where
  "extract_latest_user_anchor txt max_chars =
     (let max_chars = max max_chars 1;
          window = take_tail_chars (sat_mul 64 max_chars 8) txt;
          marked = map_option trim
            (Option.bind (latest_anchor_marker_start window) (\<lambda>idx. str_from idx window));
          anchor =
            (case marked of
               Some v \<Rightarrow>
                 if v \<noteq> [] then take_chars max_chars v
                 else last_non_empty_tail_lines window max_chars
             | None \<Rightarrow> last_non_empty_tail_lines window max_chars)
      in trim anchor)"

text \<open>The texts of the user's messages, the latest first.\<close>

definition user_texts_rev :: "message list \<Rightarrow> string list" where
  "user_texts_rev ms =
     List.map_filter (\<lambda>m. as_str (ms_content m)) (filter (\<lambda>m. ms_role m = ''user'') (rev ms))"

fun select_anchor :: "nat \<Rightarrow> string option \<Rightarrow> string list \<Rightarrow> string option" where
  "select_anchor max_chars fallback [] = fallback"
| "select_anchor max_chars fallback (t # ts) =
     (let anchor = extract_latest_user_anchor t max_chars
      in if trim anchor = [] then select_anchor max_chars fallback ts
         else if is_claude_code_resume_pressure anchor \<and> \<not> has_explicit_user_anchor t
           then select_anchor max_chars fallback ts
         else if has_explicit_user_anchor t \<or> has_exact_reply_instruction anchor then Some anchor
         else if fallback = None \<and> \<not> is_claude_code_resume_pressure anchor
           then select_anchor max_chars (Some anchor) ts
         else select_anchor max_chars fallback ts)"

definition select_active_user_anchor :: "message list \<Rightarrow> nat \<Rightarrow> string option" where
  "select_active_user_anchor ms max_chars = select_anchor max_chars None (user_texts_rev ms)"

section \<open>Literals to be returned unchanged\<close>

definition literal_punctuation :: "string list" where
  "literal_punctuation =
     [[CHR 0x22], [CHR 0x27], '':'', utf8 [0xFF1A], ''.'', utf8 [0x3002], ''!'', utf8 [0xFF01],
      '','', utf8 [0xFF0C], '';'', utf8 [0xFF1B]]"

definition normalize_exact_output_literal :: "string \<Rightarrow> string option" where
  "normalize_exact_output_literal raw =
     (case str_lines raw of
        [] \<Rightarrow> None
      | first_line # _ \<Rightarrow>
          (let literal =
             trim (trim_matches (\<lambda>c. char_is_ws c \<or> c \<in> set literal_punctuation)
               (trim first_line))
           in if literal = [] \<or> char_count literal > 80
                 \<or> count_words False (chars_of literal) > 1
                 \<or> list_ex char_is_control (chars_of literal)
              then None else Some literal))"

definition extract_after_ascii_marker :: "string \<Rightarrow> string \<Rightarrow> string \<Rightarrow> string option" where
  "extract_after_ascii_marker txt lower marker =
     Option.bind (str_rfind lower marker) (\<lambda>idx.
       Option.bind (str_from (idx + length marker) txt) normalize_exact_output_literal)"

definition extract_after_unicode_marker :: "string \<Rightarrow> string \<Rightarrow> string option" where
  "extract_after_unicode_marker txt marker =
     Option.bind (str_rfind txt marker) (\<lambda>idx.
       Option.bind (str_from (idx + length marker) txt) normalize_exact_output_literal)"

definition extract_output_only_literal :: "string \<Rightarrow> string \<Rightarrow> string option" where
  "extract_output_only_literal txt lower =
     Option.bind (str_rfind lower ''output '') (\<lambda>idx.
     Option.bind (str_from (idx + 7) txt) (\<lambda>raw.
     Option.bind (str_from (idx + 7) lower) (\<lambda>raw_lower.
     Option.bind (str_find raw_lower '' only'') (\<lambda>end_pos.
     Option.bind (str_upto end_pos raw) normalize_exact_output_literal))))"

definition multiline_markers :: "string list" where
  "multiline_markers =
     [utf8 [0x53EA, 0x8F93, 0x51FA, 0x4EE5, 0x4E0B], utf8 [0x53EA, 0x8F93, 0x51FA, 0x4E0B, 0x9762],
      utf8 [0x53EA, 0x56DE, 0x590D, 0x4EE5, 0x4E0B], utf8 [0x53EA, 0x56DE, 0x590D, 0x4E0B, 0x9762],
      utf8 [0x539F, 0x6837, 0x8F93, 0x51FA, 0x4EE5, 0x4E0B], utf8 [0x539F, 0x6837, 0x8F93, 0x51FA, 0x4E0B, 0x9762],
      ''output the following'', ''return the following'', ''reply with the following'']"

definition extract_multiline_literal :: "string \<Rightarrow> string option" where
  "extract_multiline_literal txt =
     (let lower = to_ascii_lowercase txt
      in Option.bind
           (max_option (List.map_filter
             (\<lambda>marker. if list_all (\<lambda>c. byte_of c < 128) marker then str_rfind lower marker
                else str_rfind txt marker) multiline_markers)) (\<lambda>idx.
         Option.bind (str_from idx txt) (\<lambda>tail.
         Option.bind (str_find tail [NL]) (\<lambda>newline.
         Option.bind (str_from (newline + 1) tail) (\<lambda>body.
           let literal = trim body
           in if literal = [] \<or> char_count literal > 8 * 1024 \<or> CHR 0x00 \<in> set literal
              then None else Some literal)))))"

definition exact_output_literal_from_text :: "string \<Rightarrow> string option" where
  "exact_output_literal_from_text txt =
     (let lower = to_ascii_lowercase txt
      in case extract_multiline_literal txt of
           Some l \<Rightarrow> Some l
         | None \<Rightarrow>
             case extract_after_ascii_marker txt lower ''reply exactly'' of
               Some l \<Rightarrow> Some l
             | None \<Rightarrow>
                 case extract_after_ascii_marker txt lower ''return exactly'' of
                   Some l \<Rightarrow> Some l
                 | None \<Rightarrow>
                     case extract_output_only_literal txt lower of
                       Some l \<Rightarrow> Some l
                     | None \<Rightarrow>
                         case extract_after_unicode_marker txt (utf8 [0x53EA, 0x8F93, 0x51FA]) of
                           Some l \<Rightarrow> Some l
                         | None \<Rightarrow> extract_after_unicode_marker txt (utf8 [0x53EA, 0x56DE, 0x590D]))"

fun exact_output_literal_from_texts :: "string list \<Rightarrow> string option" where
  "exact_output_literal_from_texts [] = None"
| "exact_output_literal_from_texts (t # ts) =
     (case exact_output_literal_from_text (extract_latest_user_anchor t (2 * 1024)) of
        Some l \<Rightarrow> Some l
      | None \<Rightarrow>
          case exact_output_literal_from_text t of
            Some l \<Rightarrow> Some l
          | None \<Rightarrow> exact_output_literal_from_texts ts)"

definition exact_output_literal_from_messages :: "message list \<Rightarrow> string option" where
  "exact_output_literal_from_messages ms = exact_output_literal_from_texts (user_texts_rev ms)"

section \<open>Recovery markers\<close>

text \<open>
  \<open>str::split\<close> at every character that is no letter, digit or underscore; a character of several
  bytes gives some more empty tokens here, which the search skips.
\<close>

fun split_tokens :: "string \<Rightarrow> string \<Rightarrow> string list" where
  "split_tokens acc [] = [acc]"
| "split_tokens acc (c # s) =
     (if is_ascii_alphanumeric c \<or> c = CHR ''_'' then split_tokens (acc @ [c]) s
      else acc # split_tokens [] s)"

definition safe_marker :: "string \<Rightarrow> bool" where
  "safe_marker token \<longleftrightarrow>
     token \<noteq> [] \<and> char_count token \<le> 80 \<and> ends_with token ''_OK''
     \<and> list_all (\<lambda>c. 65 \<le> byte_of c \<and> byte_of c \<le> 90 \<or> 48 \<le> byte_of c \<and> byte_of c \<le> 57
           \<or> c = CHR ''_'') token"

definition safe_marker_literal_from_text :: "string \<Rightarrow> string option" where
  "safe_marker_literal_from_text txt = find safe_marker (rev (split_tokens [] txt))"

definition is_claude_code_recovery_pressure_messages :: "message list \<Rightarrow> bool" where
  "is_claude_code_recovery_pressure_messages ms \<longleftrightarrow>
     is_claude_code_resume_pressure (build_prompt_text ms)"

definition claude_code_recovery_literal_from_messages :: "message list \<Rightarrow> string option" where
  "claude_code_recovery_literal_from_messages ms =
     (let prompt = build_prompt_text ms
      in if \<not> is_claude_code_resume_pressure prompt then None
         else safe_marker_literal_from_text prompt)"

section \<open>State signals\<close>

definition state_signal_needles :: "string list" where
  "state_signal_needles =
     [''running'', ''completed'', ''status:'', ''502'', ''timeout'', ''interrupted'',
      ''invalid tool parameters'', ''failed to parse json'', ''qce'', ''napcat'', ''qq:'',
      ''api not ready'', ''not ready'', ''killed'', ''cancelled'',
      utf8 [0x4E8C, 0x7EF4, 0x7801], utf8 [0x626B, 0x7801], utf8 [0x767B, 0x5F55],
      utf8 [0x91CD, 0x542F], utf8 [0x5BFC, 0x51FA]]"

definition is_claude_code_state_signal :: "string \<Rightarrow> bool" where
  "is_claude_code_state_signal txt \<longleftrightarrow>
     (let lower = to_ascii_lowercase txt in list_ex (contains_str lower) state_signal_needles)"

definition push_signal :: "(string \<Rightarrow> string) \<Rightarrow> string list \<Rightarrow> string \<Rightarrow> string list" where
  "push_signal redact signals txt =
     (let excerpt = take_chars 240 (redact txt)
      in if excerpt \<in> set signals then signals else signals @ [excerpt])"

fun signal_lines ::
  "(string \<Rightarrow> string) \<Rightarrow> nat \<Rightarrow> string list \<Rightarrow> string list \<Rightarrow> string list" where
  "signal_lines redact limit signals [] = signals"
| "signal_lines redact limit signals (line # ls) =
     (if length signals \<ge> limit then signals
      else
        let trimmed = trim line
        in if trimmed = [] \<or> \<not> is_claude_code_state_signal trimmed
           then signal_lines redact limit signals ls
           else signal_lines redact limit (push_signal redact signals trimmed) ls)"

fun state_signals ::
  "serde \<Rightarrow> (string \<Rightarrow> string) \<Rightarrow> nat \<Rightarrow> string list \<Rightarrow> message list \<Rightarrow> string list" where
  "state_signals S redact limit signals [] = signals"
| "state_signals S redact limit signals (m # ms) =
     (let t = (case as_str (ms_content m) of Some t \<Rightarrow> t | None \<Rightarrow> to_string S (ms_content m));
          signals = signal_lines redact limit signals (rev (str_lines t))
      in if length signals \<ge> limit then signals
         else if length (str_lines t) \<le> 1 \<and> is_claude_code_state_signal t
           then state_signals S redact limit (push_signal redact signals (trim t)) ms
         else state_signals S redact limit signals ms)"

definition collect_claude_code_state_signals ::
  "serde \<Rightarrow> (string \<Rightarrow> string) \<Rightarrow> message list \<Rightarrow> nat \<Rightarrow> string list" where
  "collect_claude_code_state_signals S redact ms limit =
     state_signals S redact limit [] (rev ms)"

end
