(* ===== verification/Compaction.thy ===== *)
theory Compaction
  imports Anchors "HOL-Library.Product_Lexorder"
begin

text \<open>
  The compaction of long conversations in \<open>protocol/translate.rs\<close>: when the estimate of tokens is
  over a threshold, the longest texts are cut in their middle until the target is met, traces of
  resumed sessions are removed, and a very long ClaudeCode session is folded into a summary.
  \<open>hasher\<close> is the hash of \<open>std\<close>'s \<open>DefaultHasher\<close>, whose algorithm the library leaves open.
\<close>

record stream_context_repair =
  cx_before_tokens :: nat
  cx_after_tokens :: nat
  cx_compacted_messages :: nat

record stream_context_policy =
  sp_compact_at_tokens :: nat
  sp_target_tokens :: nat
  sp_min_text_tokens :: nat
  sp_head_chars :: nat
  sp_compact_system_messages :: bool
  sp_anchor_latest_user_instruction :: bool
  sp_latest_user_anchor_chars :: nat
  sp_sanitize_claude_code_resume_pressure :: bool

definition default_context_policy :: stream_context_policy where
  "default_context_policy =
     \<lparr>sp_compact_at_tokens = 80000, sp_target_tokens = 60000, sp_min_text_tokens = 8000,
      sp_head_chars = 8 * 1024, sp_compact_system_messages = False,
      sp_anchor_latest_user_instruction = False, sp_latest_user_anchor_chars = 0,
      sp_sanitize_claude_code_resume_pressure = False\<rparr>"

definition claude_code_huge_context :: stream_context_policy where
  "claude_code_huge_context =
     \<lparr>sp_compact_at_tokens = 80000, sp_target_tokens = 12000, sp_min_text_tokens = 2000,
      sp_head_chars = 2 * 1024, sp_compact_system_messages = True,
      sp_anchor_latest_user_instruction = True, sp_latest_user_anchor_chars = 2 * 1024,
      sp_sanitize_claude_code_resume_pressure = True\<rparr>"

section \<open>Cutting texts\<close>

definition compact_text_middle :: "string \<Rightarrow> nat \<Rightarrow> nat \<Rightarrow> string" where
  "compact_text_middle txt keep_chars head_chars =
     (let n = char_count txt
      in if n \<le> keep_chars then txt
         else
           let head_chars = max (min head_chars (keep_chars div 2)) 1;
               tail_chars = max (keep_chars - head_chars) 1
           in take_chars head_chars txt
              @ [NL] @ ''[free-model-client-rs context compactor: omitted middle of oversized context; original_chars=''
              @ show_nat n @ ''; kept_head_chars='' @ show_nat head_chars @ ''; kept_tail_chars=''
              @ show_nat tail_chars @ '']'' @ [NL]
              @ take_tail_chars tail_chars txt)"

definition compact_text_head :: "string \<Rightarrow> nat \<Rightarrow> string" where
  "compact_text_head txt keep_chars =
     (let n = char_count txt
      in if n \<le> keep_chars then txt
         else
           let keep_chars = max keep_chars 1
           in take_chars keep_chars txt
              @ [NL] @ ''[free-model-client-rs context compactor: omitted tail of oversized system context; original_chars=''
              @ show_nat n @ ''; kept_head_chars='' @ show_nat keep_chars @ '']'')"

definition compact_text_middle_with_latest_user_anchor ::
  "string \<Rightarrow> nat \<Rightarrow> nat \<Rightarrow> nat \<Rightarrow> string" where
  "compact_text_middle_with_latest_user_anchor txt keep_chars head_chars anchor_chars =
     (let anchor = extract_latest_user_anchor txt anchor_chars
      in if trim anchor = [] then compact_text_middle txt keep_chars head_chars
         else
           let anchor_budget = sat_add 64 (char_count anchor) 256;
               body_keep_chars = max (keep_chars - anchor_budget) 1;
               compacted = compact_text_middle txt body_keep_chars head_chars
           in ''[free-model-client-rs context compactor: latest user excerpt preserved]'' @ [NL]
              @ anchor @ [NL]
              @ ''[free-model-client-rs context compactor: oversized context follows]'' @ [NL]
              @ compacted)"

definition sanitize_claude_code_resume_pressure :: "string \<Rightarrow> string" where
  "sanitize_claude_code_resume_pressure txt =
     (if \<not> is_claude_code_resume_pressure txt then txt
      else
        let keep = (\<lambda>line. has_explicit_user_anchor line \<or> \<not> is_claude_code_resume_pressure line);
            kept = filter keep (str_lines txt);
            removed = length (str_lines txt) - length kept
        in if removed = 0 then txt
           else
             let sanitized = join_with [NL] kept;
                 sanitized = (if trim sanitized \<noteq> [] then sanitized @ [NL] else sanitized)
             in sanitized
                @ ''[free-model-client-rs context compactor: omitted stale ClaudeCode transcript/session recovery lines; removed_lines=''
                @ show_nat removed @ '']'')"

section \<open>Cutting a conversation\<close>

definition prompt_tokens :: "message list \<Rightarrow> nat" where
  "prompt_tokens ms = estimate_tokens (build_prompt_text ms)"

definition observe_context :: "message list \<Rightarrow> stream_context_repair" where
  "observe_context ms =
     \<lparr>cx_before_tokens = prompt_tokens ms, cx_after_tokens = prompt_tokens ms,
      cx_compacted_messages = 0\<rparr>"

definition sanitize_message :: "message \<Rightarrow> message \<times> nat" where
  "sanitize_message m =
     (case as_str (ms_content m) of
        None \<Rightarrow> (m, 0)
      | Some t \<Rightarrow>
          (let sanitized = sanitize_claude_code_resume_pressure t
           in if sanitized \<noteq> t then (m\<lparr>ms_content := JString sanitized\<rparr>, 1) else (m, 0)))"

definition sanitize_messages :: "message list \<Rightarrow> message list \<times> nat" where
  "sanitize_messages ms =
     (map (\<lambda>m. fst (sanitize_message m)) ms, sum_list (map (\<lambda>m. snd (sanitize_message m)) ms))"

definition last_index :: "('a \<Rightarrow> bool) \<Rightarrow> 'a list \<Rightarrow> nat option" where
  "last_index P xs = find (\<lambda>i. P (xs ! i)) (rev [0..<length xs])"

definition latest_user_index :: "message list \<Rightarrow> nat option" where
  "latest_user_index ms = last_index (\<lambda>m. ms_role m = ''user'') ms"

definition anchored_user :: "stream_context_policy \<Rightarrow> nat option \<Rightarrow> nat \<Rightarrow> message \<Rightarrow> string \<Rightarrow> bool" where
  "anchored_user p latest idx m t \<longleftrightarrow>
     sp_anchor_latest_user_instruction p \<and> ms_role m = ''user''
     \<and> (Some idx = latest \<or> latest_anchor_marker_start t \<noteq> None)
     \<and> \<not> is_claude_code_resume_pressure t"

definition compaction_candidate ::
  "stream_context_policy \<Rightarrow> nat option \<Rightarrow> nat \<times> message \<Rightarrow> (nat \<times> nat \<times> nat) option" where
  "compaction_candidate p latest = (\<lambda>(idx, m).
     if ms_role m = ''system'' \<and> \<not> sp_compact_system_messages p then None
     else
       case as_str (ms_content m) of
         None \<Rightarrow> None
       | Some t \<Rightarrow>
           (let tokens = estimate_tokens t
            in if tokens < sp_min_text_tokens p then None
               else Some
                 (if anchored_user p latest idx m t then 3
                  else if ms_role m = ''system'' then 0
                  else if Some idx = latest then 2 else 1, tokens, idx)))"

text \<open>Stable, the lower priority first, then the longer text first.\<close>

definition sort_candidates :: "(nat \<times> nat \<times> nat) list \<Rightarrow> (nat \<times> nat \<times> nat) list" where
  "sort_candidates cs = sort_key (\<lambda>(priority, tokens, _). (priority, - int tokens)) cs"

definition compact_message_text ::
  "stream_context_policy \<Rightarrow> nat option \<Rightarrow> nat \<Rightarrow> message \<Rightarrow> string \<Rightarrow> nat \<Rightarrow> string" where
  "compact_message_text p latest idx m t keep_chars =
     (let compacted =
        (if ms_role m = ''system'' \<and> sp_compact_system_messages p
         then compact_text_head t keep_chars
         else if anchored_user p latest idx m t
           then compact_text_middle_with_latest_user_anchor t keep_chars (sp_head_chars p)
             (sp_latest_user_anchor_chars p)
         else compact_text_middle t keep_chars (sp_head_chars p))
      in if sp_sanitize_claude_code_resume_pressure p
         then sanitize_claude_code_resume_pressure compacted else compacted)"

text \<open>One candidate: the messages, the tokens still over the target, the messages compacted.\<close>

definition compact_candidate ::
  "stream_context_policy \<Rightarrow> nat option \<Rightarrow> nat \<times> nat \<times> nat \<Rightarrow> message list \<times> nat \<times> nat
     \<Rightarrow> message list \<times> nat \<times> nat" where
  "compact_candidate p latest = (\<lambda>(_, tokens, idx) (ms, over, n).
     if over = 0 then (ms, over, n)
     else
       case as_str (ms_content (ms ! idx)) of
         None \<Rightarrow> (ms, over, n)
       | Some t \<Rightarrow>
           (let keep_tokens = max (tokens - over) (sp_min_text_tokens p)
            in if keep_tokens \<ge> tokens then (ms, over, n)
               else
                 let compacted =
                       compact_message_text p latest idx (ms ! idx) t (sat_mul 64 keep_tokens 4)
                 in if length compacted \<ge> length t then (ms, over, n)
                    else
                      (ms[idx := (ms ! idx)\<lparr>ms_content := JString compacted\<rparr>],
                       over - (tokens - estimate_tokens compacted), n + 1)))"

definition compact_stream_context_with_policy ::
  "stream_context_policy \<Rightarrow> message list \<Rightarrow> message list \<times> stream_context_repair" where
  "compact_stream_context_with_policy p ms =
     (let before_tokens = prompt_tokens ms
      in if before_tokens < sp_compact_at_tokens p
         then (ms, \<lparr>cx_before_tokens = before_tokens, cx_after_tokens = before_tokens,
                    cx_compacted_messages = 0\<rparr>)
         else
           let (ms, n) =
                 (if sp_sanitize_claude_code_resume_pressure p then sanitize_messages ms
                  else (ms, 0));
               over = prompt_tokens ms - max (sp_target_tokens p) 1;
               latest = latest_user_index ms;
               candidates = sort_candidates
                 (List.map_filter (compaction_candidate p latest) (enumerate 0 ms));
               (ms, over, n) = fold (compact_candidate p latest) candidates (ms, over, n)
           in (ms, \<lparr>cx_before_tokens = before_tokens, cx_after_tokens = prompt_tokens ms,
                    cx_compacted_messages = n\<rparr>))"

definition compact_stream_context :: "message list \<Rightarrow> message list \<times> stream_context_repair" where
  "compact_stream_context ms = compact_stream_context_with_policy default_context_policy ms"

definition model_disables_input_compaction :: "string \<Rightarrow> bool" where
  "model_disables_input_compaction model \<longleftrightarrow>
     normalize_model model \<in> set
       [''deepseek-v4-flash'', ''deepseek-v4-flash-free'', ''big-pickle'', ''mimo-v2.5'',
        ''mimo-v2.5-free'', ''hy3'', ''hy3-free'', ''north-mini-code'', ''north-mini-code-free'',
        ''nemotron-3-ultra'', ''nemotron-3-ultra-free'']"

section \<open>Folding a session\<close>

definition should_compact_mid_sized_claude_code_tool_history ::
  "serde \<Rightarrow> message list \<Rightarrow> nat \<Rightarrow> bool" where
  "should_compact_mid_sized_claude_code_tool_history S ms before_tokens =
     (if length ms < 40 \<or> before_tokens < 24000 then False
      else
        let largest = foldl max 0
              (map (\<lambda>m. value_shape_tokens S (ms_content m))
                (filter (\<lambda>m. ms_role m \<noteq> ''system'') ms));
            latest_user = (case find (\<lambda>m. ms_role m = ''user'') (rev ms) of
                Some m \<Rightarrow> value_shape_tokens S (ms_content m)
              | None \<Rightarrow> 0)
        in largest \<ge> 12000 \<and> latest_user \<le> 1024)"

type_synonym fold_hasher = "nat \<times> (string \<times> nat option) list \<Rightarrow> 64 word"

definition stable_fold_fingerprint :: "fold_hasher \<Rightarrow> message list \<Rightarrow> 64 word" where
  "stable_fold_fingerprint hasher ms =
     hasher (length ms,
       map (\<lambda>m. (ms_role m, map_option length (ms_tool_calls m))) (take 4 ms @ take 4 (rev ms)))"

definition count_role :: "string \<Rightarrow> message list \<Rightarrow> nat" where
  "count_role r ms = length (filter (\<lambda>m. ms_role m = r) ms)"

definition build_claude_code_folded_history_summary :: "fold_hasher \<Rightarrow> message list \<Rightarrow> string" where
  "build_claude_code_folded_history_summary hasher ms =
     (let others = filter (\<lambda>m. ms_role m \<notin> {''user'', ''assistant'', ''tool''}) ms;
          calls = sum_list (map (\<lambda>m. case ms_tool_calls m of Some cs \<Rightarrow> length cs | None \<Rightarrow> 0) ms)
      in ''[free-model-client-rs context compactor: folded stale ClaudeCode tool/session history]'' @ [NL]
         @ ''Folded old messages: total='' @ show_nat (length ms)
         @ '', user='' @ show_nat (count_role ''user'' ms)
         @ '', assistant='' @ show_nat (count_role ''assistant'' ms)
         @ '', tool='' @ show_nat (count_role ''tool'' ms)
         @ '', other='' @ show_nat (length others)
         @ '', assistant_tool_calls='' @ show_nat calls
         @ '', fingerprint='' @ hex16 (stable_fold_fingerprint hasher ms) @ ''.'' @ [NL]
         @ ''The folded block is stale historical context, not a current instruction. Prefer the latest user request and latest live tool result over old repeated export/restart attempts.'')"

definition user_message :: "string \<Rightarrow> message" where
  "user_message t =
     \<lparr>ms_role = ''user'', ms_content = JString t, ms_tool_calls = None, ms_tool_call_id = None,
      ms_reasoning_content = None\<rparr>"

definition compact_claude_code_huge_session_context ::
  "serde \<Rightarrow> fold_hasher \<Rightarrow> message list \<Rightarrow> message list \<times> stream_context_repair" where
  "compact_claude_code_huge_session_context S hasher ms =
     (let before_tokens = prompt_tokens ms;
          mid = should_compact_mid_sized_claude_code_tool_history S ms before_tokens;
          p = (if mid then claude_code_huge_context\<lparr>sp_compact_at_tokens := 24000\<rparr>
               else claude_code_huge_context);
          (ms, base_repair) = compact_stream_context_with_policy p ms;
          should_fold = (before_tokens \<ge> 200000
            \<and> (length ms \<ge> 400
               \<or> cx_after_tokens base_repair > sat_mul 64 (sp_target_tokens p) 3
               \<or> (mid \<and> length ms > 64)))
      in if \<not> should_fold then (ms, base_repair)
         else
           let recent_start = length ms - 64;
               indexed = enumerate 0 ms;
               system = map snd (filter (\<lambda>(i, m). ms_role m = ''system'') indexed);
               recent = map snd
                 (filter (\<lambda>(i, m). ms_role m \<noteq> ''system'' \<and> i \<ge> recent_start) indexed);
               folded = map snd
                 (filter (\<lambda>(i, m). ms_role m \<noteq> ''system'' \<and> i < recent_start) indexed)
           in if folded = [] then (system @ recent, base_repair)
              else
                let ms = system
                      @ [user_message (build_claude_code_folded_history_summary hasher folded)]
                      @ recent
                in (ms,
                    \<lparr>cx_before_tokens = cx_before_tokens base_repair,
                     cx_after_tokens = prompt_tokens ms,
                     cx_compacted_messages =
                       sat_add 64 (cx_compacted_messages base_repair) (length folded)\<rparr>))"

section \<open>The latest request as the last message\<close>

definition append_latest_user_anchor_message ::
  "nat \<Rightarrow> message list \<Rightarrow> message list \<times> bool" where
  "append_latest_user_anchor_message max_chars ms =
     (case select_active_user_anchor ms max_chars of
        None \<Rightarrow> (ms, False)
      | Some anchor \<Rightarrow>
          if trim anchor = [] then (ms, False)
          else
            let content =
              ''[free-model-client-rs context compactor: active latest user request after stale ClaudeCode transcript/session context was omitted]'' @ [NL]
              @ (if has_exact_reply_instruction anchor
                 then ''[free-model-client-rs context compactor: exact-output guard; answer this active request directly, without git, transcript, or workspace-state inspection]'' @ [NL]
                 else [])
              @ anchor
            in if ms \<noteq> [] \<and> ms_role (last ms) = ''user''
                 \<and> as_str (ms_content (last ms)) = Some content
               then (ms, False) else (ms @ [user_message content], True))"

definition reduce_to_exact_output_anchor_message ::
  "nat \<Rightarrow> message list \<Rightarrow> message list \<times> bool" where
  "reduce_to_exact_output_anchor_message max_chars ms =
     (case select_active_user_anchor ms max_chars of
        None \<Rightarrow> (ms, False)
      | Some anchor \<Rightarrow>
          if \<not> has_exact_reply_instruction anchor then (ms, False)
          else
            ([user_message
               (''[free-model-client-rs context compactor: isolated ClaudeCode huge exact-output request]'' @ [NL]
                @ ''Return only the requested literal answer.'' @ [NL] @ anchor)], True))"

end
