(* ===== verification/CompactionCorrect.thy ===== *)
theory CompactionCorrect
  imports Compaction
begin

text \<open>
  What the compaction of a conversation may do to it: only the texts of messages change, each to
  a shorter one, messages of the system only when the policy says so, and the estimate of tokens
  never grows; and what it does when it also removes the traces of a resumed session.
\<close>

text \<open>One message before and after.\<close>

definition cut_message :: "stream_context_policy \<Rightarrow> message \<Rightarrow> message \<Rightarrow> bool" where
  "cut_message p m m' \<longleftrightarrow>
     m' = m
     \<or> (\<exists>t t'. ms_content m = JString t \<and> m' = m\<lparr>ms_content := JString t'\<rparr>
          \<and> length t' < length t
          \<and> (ms_role m = ''system'' \<longrightarrow> sp_compact_system_messages p))"

abbreviation cut_messages :: "stream_context_policy \<Rightarrow> message list \<Rightarrow> message list \<Rightarrow> bool" where
  "cut_messages p \<equiv> list_all2 (cut_message p)"

lemma cut_message_refl [simp]: "cut_message p m m"
  by (simp add: cut_message_def)

lemma cut_message_trans:
  assumes "cut_message p a b" and "cut_message p b c"
  shows "cut_message p a c"
proof (cases "b = a \<or> c = b")
  case False
  then obtain t t' u u' where b: "ms_content a = JString t" "b = a\<lparr>ms_content := JString t'\<rparr>"
      "length t' < length t" "ms_role a = ''system'' \<longrightarrow> sp_compact_system_messages p"
    and c: "ms_content b = JString u" "c = b\<lparr>ms_content := JString u'\<rparr>" "length u' < length u"
    using assms unfolding cut_message_def by metis
  then have "c = a\<lparr>ms_content := JString u'\<rparr>" "length u' < length t" by simp_all
  with b show ?thesis unfolding cut_message_def by blast
qed (use assms in auto)

lemma cut_messages_refl: "cut_messages p ms ms"
  by (simp add: list_all2_refl)

lemma cut_messages_trans: "cut_messages p a b \<Longrightarrow> cut_messages p b c \<Longrightarrow> cut_messages p a c"
  by (rule list_all2_trans [where ?P2.0 = "cut_message p"]) (auto intro: cut_message_trans)

lemma cut_messages_update:
  "i < length ms \<Longrightarrow> cut_message p (ms ! i) m \<Longrightarrow> cut_messages p ms (ms[i := m])"
  by (auto simp: list_all2_conv_all_nth nth_list_update)

lemma as_str_eq: "as_str v = Some t \<longleftrightarrow> v = JString t"
  by (cases v) auto

text \<open>The candidates are places of texts, and of the system's only when the policy says so.\<close>

definition candidate_place :: "stream_context_policy \<Rightarrow> message list \<Rightarrow> nat \<Rightarrow> bool" where
  "candidate_place p ms i \<longleftrightarrow>
     i < length ms \<and> (ms_role (ms ! i) = ''system'' \<longrightarrow> sp_compact_system_messages p)"

lemma candidate_places:
  assumes "(a, t, i) \<in> set (sort_candidates (List.map_filter (compaction_candidate p latest) (enumerate 0 ms)))"
  shows "candidate_place p ms i"
proof -
  from assms obtain j m where j: "(j, m) \<in> set (enumerate 0 ms)"
    and c: "compaction_candidate p latest (j, m) = Some (a, t, i)"
    by (auto simp: sort_candidates_def map_filter_def)
  from j have "j < length ms" "m = ms ! j" by (auto simp: in_set_enumerate_eq)
  moreover from c have "i = j" "ms_role m = ''system'' \<longrightarrow> sp_compact_system_messages p"
    by (auto simp: compaction_candidate_def Let_def split: if_splits option.splits)
  ultimately show ?thesis by (simp add: candidate_place_def)
qed

lemma compact_candidate_cuts:
  assumes "candidate_place p ms i" and "compact_candidate p latest (a, t, i) (ms, ov, n) = (ms', ov', n')"
  shows "cut_messages p ms ms' \<and> (n' = n \<and> ms' = ms \<or> n' = n + 1)"
proof (cases "ov = 0 \<or> as_str (ms_content (ms ! i)) = None")
  case True
  then have "compact_candidate p latest (a, t, i) (ms, ov, n) = (ms, ov, n)"
    unfolding compact_candidate_def prod.case by (elim disjE) simp_all
  then have "(ms', n') = (ms, n)" using assms(2) by simp
  then show ?thesis by (simp add: cut_messages_refl)
next
  case False
  then obtain u where u: "ms_content (ms ! i) = JString u" by (auto simp: as_str_eq)
  from False have ov: "ov \<noteq> 0" by (rule contrapos_nn) simp
  define keep where "keep = max (t - ov) (sp_min_text_tokens p)"
  define c where "c = compact_message_text p latest i (ms ! i) u (sat_mul 64 keep 4)"
  have e: "compact_candidate p latest (a, t, i) (ms, ov, n) =
      (if keep \<ge> t then (ms, ov, n)
       else if length c \<ge> length u then (ms, ov, n)
       else (ms[i := (ms ! i)\<lparr>ms_content := JString c\<rparr>], ov - (t - estimate_tokens c), n + 1))"
    unfolding compact_candidate_def keep_def c_def prod.case u as_str.simps option.case Let_def
    by (rule if_not_P [OF ov])
  show ?thesis
  proof (cases "keep \<ge> t \<or> length c \<ge> length u")
    case True
    then have "compact_candidate p latest (a, t, i) (ms, ov, n) = (ms, ov, n)"
      unfolding e by (elim disjE) simp_all
    then have "(ms', n') = (ms, n)" using assms(2) by simp
    then show ?thesis by (simp add: cut_messages_refl)
  next
    case False
    then have r: "ms' = ms[i := (ms ! i)\<lparr>ms_content := JString c\<rparr>]" "n' = n + 1"
      using assms(2) e by auto
    have "cut_message p (ms ! i) ((ms ! i)\<lparr>ms_content := JString c\<rparr>)"
      using u False assms(1) unfolding cut_message_def candidate_place_def
      by (intro disjI2 exI [of _ u] exI [of _ c]) auto
    then show ?thesis using r assms(1)
      by (auto intro!: cut_messages_update simp: candidate_place_def)
  qed
qed

lemma candidate_place_cut: "cut_messages p ms ms' \<Longrightarrow> candidate_place p ms i \<Longrightarrow> candidate_place p ms' i"
proof -
  assume c: "cut_messages p ms ms'" and i: "candidate_place p ms i"
  then have "cut_message p (ms ! i) (ms' ! i)" "length ms' = length ms"
    by (auto simp: candidate_place_def list_all2_conv_all_nth)
  moreover from this(1) have "ms_role (ms' ! i) = ms_role (ms ! i)"
    by (auto simp: cut_message_def)
  ultimately show ?thesis using i by (simp add: candidate_place_def)
qed

lemma compact_candidates_cut:
  "\<forall>(a, t, i) \<in> set cs. candidate_place p ms i \<Longrightarrow>
     fold (compact_candidate p latest) cs (ms, ov, n) = (ms', ov', n') \<Longrightarrow>
     cut_messages p ms ms' \<and> n \<le> n' \<and> (n' = n \<longrightarrow> ms' = ms)"
proof (induction cs arbitrary: ms ov n)
  case Nil
  then show ?case by (simp add: cut_messages_refl)
next
  case (Cons c cs)
  obtain a t i where c: "c = (a, t, i)" by (metis prod_cases3)
  obtain ms1 ov1 n1 where s: "compact_candidate p latest c (ms, ov, n) = (ms1, ov1, n1)"
    by (metis prod_cases3)
  have step: "cut_messages p ms ms1 \<and> (n1 = n \<and> ms1 = ms \<or> n1 = n + 1)"
    using compact_candidate_cuts Cons.prems(1) s unfolding c by fastforce
  then have "\<forall>(a, t, i) \<in> set cs. candidate_place p ms1 i"
    using Cons.prems(1) candidate_place_cut by fastforce
  moreover have "fold (compact_candidate p latest) cs (ms1, ov1, n1) = (ms', ov', n')"
    using Cons.prems(2) s by simp
  ultimately have "cut_messages p ms1 ms' \<and> n1 \<le> n' \<and> (n' = n1 \<longrightarrow> ms' = ms1)"
    by (rule Cons.IH)
  with step show ?case using cut_messages_trans [of p ms ms1 ms'] by auto
qed

section \<open>Tokens\<close>

lemma length_join_mono:
  "list_all2 (\<lambda>a b. length b \<le> length a) as bs \<Longrightarrow>
     length (join_with sep bs) \<le> length (join_with sep as)"
proof (induction as bs rule: list_all2_induct)
  case (Cons a as b bs)
  then show ?case by (cases as; cases bs) auto
qed simp

lemma div_ceil_mono: "a \<le> b \<Longrightarrow> 0 < k \<Longrightarrow> div_ceil a k \<le> div_ceil b k"
proof -
  assume ab: "a \<le> b" and k: "0 < k"
  then have d: "a div k \<le> b div k" by (simp add: div_le_mono)
  show ?thesis
  proof (cases "a div k = b div k")
    case True
    have "a = k * (a div k) + a mod k" "b = k * (b div k) + b mod k" by simp_all
    with ab True have "a mod k \<le> b mod k" by (metis add_le_cancel_left)
    with True show ?thesis by (simp add: div_ceil_def)
  next
    case False
    with d have "a div k + 1 \<le> b div k" by simp
    then show ?thesis by (simp add: div_ceil_def)
  qed
qed

lemma cut_messages_texts:
  "cut_messages p ms ms' \<Longrightarrow>
     list_all2 (\<lambda>a b. length b \<le> length a)
       (List.map_filter (\<lambda>m. as_str (ms_content m)) ms) (List.map_filter (\<lambda>m. as_str (ms_content m)) ms')"
proof (induction ms ms' rule: list_all2_induct)
  case (Cons m ms m' ms')
  from Cons.hyps(1) consider "m' = m" | t t' where "ms_content m = JString t"
    "ms_content m' = JString t'" "length t' \<le> length t"
    unfolding cut_message_def by fastforce
  then show ?case using Cons.IH
    by cases (auto simp: map_filter_simps split: option.split)
qed (simp add: map_filter_simps)

lemma cut_messages_tokens: "cut_messages p ms ms' \<Longrightarrow> prompt_tokens ms' \<le> prompt_tokens ms"
  unfolding prompt_tokens_def estimate_tokens_def build_prompt_text_def
  by (rule div_ceil_mono) (auto intro: length_join_mono cut_messages_texts)

text \<open>
  C26: Under a policy that does not remove traces of a resumed session, compacting a conversation
  keeps its messages, their roles, calls and identifiers, and only shortens texts, those of the
  system only when the policy says so.  The estimates before and after are those of the two
  conversations, the second is no larger, and when no message is reported nothing has
  changed.
\<close>

theorem compaction_only_shortens:
  assumes "\<not> sp_sanitize_claude_code_resume_pressure p"
    and "compact_stream_context_with_policy p ms = (ms', r)"
  shows "cut_messages p ms ms'
    \<and> cx_before_tokens r = prompt_tokens ms \<and> cx_after_tokens r = prompt_tokens ms'
    \<and> cx_after_tokens r \<le> cx_before_tokens r
    \<and> (cx_compacted_messages r = 0 \<longrightarrow> ms' = ms)"
proof (cases "prompt_tokens ms < sp_compact_at_tokens p")
  case True
  with assms show ?thesis
    by (auto simp: compact_stream_context_with_policy_def Let_def cut_messages_refl)
next
  case False
  let ?latest = "latest_user_index ms"
  let ?cs = "sort_candidates (List.map_filter (compaction_candidate p ?latest) (enumerate 0 ms))"
  obtain ms1 ov n where f: "fold (compact_candidate p ?latest) ?cs
      (ms, prompt_tokens ms - max (sp_target_tokens p) 1, 0) = (ms1, ov, n)"
    by (metis prod_cases3)
  have "\<forall>(a, t, i) \<in> set ?cs. candidate_place p ms i" using candidate_places by blast
  from compact_candidates_cut [OF this f]
  have c: "cut_messages p ms ms1" "n = 0 \<longrightarrow> ms1 = ms" by auto
  have "ms' = ms1" "r = \<lparr>cx_before_tokens = prompt_tokens ms, cx_after_tokens = prompt_tokens ms1,
      cx_compacted_messages = n\<rparr>"
    using assms f False by (auto simp: compact_stream_context_with_policy_def Let_def)
  with c cut_messages_tokens [OF c(1)] show ?thesis by simp
qed

definition demo_policy :: stream_context_policy where
  "demo_policy =
     \<lparr>sp_compact_at_tokens = 0, sp_target_tokens = 1, sp_min_text_tokens = 1, sp_head_chars = 2,
      sp_compact_system_messages = False, sp_anchor_latest_user_instruction = False,
      sp_latest_user_anchor_chars = 0, sp_sanitize_claude_code_resume_pressure = False\<rparr>"

definition demo_conversation :: "message list" where
  "demo_conversation =
     [user_message ''hi'', user_message (replicate 300 (CHR ''a''))\<lparr>ms_role := ''assistant''\<rparr>]"

lemma compaction_only_shortens_witness:
  "\<exists>ms' r. compact_stream_context_with_policy demo_policy demo_conversation = (ms', r)
     \<and> cut_messages demo_policy demo_conversation ms' \<and> cx_compacted_messages r = 1"
proof -
  obtain ms' r where e: "compact_stream_context_with_policy demo_policy demo_conversation = (ms', r)"
    by fastforce
  have "cx_compacted_messages (snd (compact_stream_context_with_policy demo_policy demo_conversation)) = 1"
    by code_simp
  moreover have "\<not> sp_sanitize_claude_code_resume_pressure demo_policy" by code_simp
  ultimately show ?thesis using compaction_only_shortens [OF _ e] e by auto
qed

text \<open>Removing the traces of a resumed session may make a text longer.\<close>

lemma sanitizing_may_grow:
  "length (sanitize_claude_code_resume_pressure ''git log'') > length ''git log''"
  by code_simp

end
