(* ===== verification/ProxyConfig.thy ===== *)
theory ProxyConfig
  imports ModelRegistry ProbeAdapter StrSearch
begin

text \<open>
  The configuration of the proxy (\<open>zen-proxy-rs/src/config.rs\<close>): its modes and their names, the
  record \<open>Config\<close> with the values read from the environment, and the parsers of the lists of
  nodes.  The environment (variables, process number, a fresh UUID, the parser of floating-point
  numbers, the files) is an argument.  The first half of the struct is the record
  \<open>server_config\<close>, the field \<open>cf_server\<close> of \<open>config\<close>.
\<close>

section \<open>Modes\<close>

datatype provider_mode = Legacy | FreeModelKernel

definition provider_mode_as_str :: "provider_mode \<Rightarrow> string" where
  "provider_mode_as_str m =
     (case m of provider_mode.Legacy \<Rightarrow> ''legacy''
      | provider_mode.FreeModelKernel \<Rightarrow> ''free_model_kernel'')"

definition parse_provider_mode :: "string \<Rightarrow> provider_mode option" where
  "parse_provider_mode s =
     (if s \<in> {''legacy''} 
        then Some provider_mode.Legacy
      else if s \<in> {''free_model_kernel'', ''free-model-kernel''} 
        then Some provider_mode.FreeModelKernel
      else None)"

definition dynamic_model_public_mode_as_str :: "dynamic_model_public_mode \<Rightarrow> string" where
  "dynamic_model_public_mode_as_str m =
     (case m of dynamic_model_public_mode.StaticOnly \<Rightarrow> ''static_only''
      | dynamic_model_public_mode.CandidateCanaryOrActive \<Rightarrow>
            ''candidate_canary_or_active''
      | dynamic_model_public_mode.CanaryOrActive \<Rightarrow> ''canary_or_active''
      | dynamic_model_public_mode.ActiveOnly \<Rightarrow> ''active_only'')"

definition parse_dynamic_model_public_mode :: "string \<Rightarrow> dynamic_model_public_mode option" where
  "parse_dynamic_model_public_mode s =
     (if s \<in> {''static_only'', ''static-only'', ''static''} 
        then Some dynamic_model_public_mode.StaticOnly
      else if s \<in> {''candidate_canary_or_active'', ''candidate-canary-or-active'',
            ''candidate'', ''candidates'', ''self_use'', ''self-use'', ''self_use_candidates'',
            ''self-use-candidates'', ''test_channel'', ''test-channel''}
        then Some dynamic_model_public_mode.CandidateCanaryOrActive
      else if s \<in> {''canary_or_active'', ''canary-or-active'', ''canary''} 
        then Some dynamic_model_public_mode.CanaryOrActive
      else if s \<in> {''active_only'', ''active-only'', ''active''} 
        then Some dynamic_model_public_mode.ActiveOnly
      else None)"

definition probe_adapter_mode_as_str :: "probe_adapter_mode \<Rightarrow> string" where
  "probe_adapter_mode_as_str m =
     (case m of probe_adapter_mode.Disabled \<Rightarrow> ''disabled''
      | probe_adapter_mode.HarnessAllPass \<Rightarrow> ''harness_all_pass''
      | probe_adapter_mode.HttpBounded \<Rightarrow> ''http_bounded'')"

definition parse_probe_adapter_mode :: "string \<Rightarrow> probe_adapter_mode option" where
  "parse_probe_adapter_mode s =
     (if s \<in> {''disabled'', ''off''} 
        then Some probe_adapter_mode.Disabled
      else if s \<in> {''harness_all_pass'', ''harness-all-pass'', ''synthetic_all_pass''} 
        then Some probe_adapter_mode.HarnessAllPass
      else if s \<in> {''http_bounded'', ''http-bounded'', ''real_http_bounded'',
            ''real-http-bounded''}
        then Some probe_adapter_mode.HttpBounded
      else None)"

datatype compactor_mode = Off | Observe | Enforce

definition compactor_mode_as_str :: "compactor_mode \<Rightarrow> string" where
  "compactor_mode_as_str m =
     (case m of compactor_mode.Off \<Rightarrow> ''off''
      | compactor_mode.Observe \<Rightarrow> ''observe''
      | compactor_mode.Enforce \<Rightarrow> ''enforce'')"

definition parse_compactor_mode :: "string \<Rightarrow> compactor_mode option" where
  "parse_compactor_mode s =
     (if s \<in> {''off''} 
        then Some compactor_mode.Off
      else if s \<in> {''observe'', ''observe_only'', ''observe-only''} 
        then Some compactor_mode.Observe
      else if s \<in> {''enforce'', ''on''} 
        then Some compactor_mode.Enforce
      else None)"

datatype artifact_cache_mode = Off | Metadata | Full

definition artifact_cache_mode_as_str :: "artifact_cache_mode \<Rightarrow> string" where
  "artifact_cache_mode_as_str m =
     (case m of artifact_cache_mode.Off \<Rightarrow> ''off''
      | artifact_cache_mode.Metadata \<Rightarrow> ''metadata''
      | artifact_cache_mode.Full \<Rightarrow> ''full'')"

definition parse_artifact_cache_mode :: "string \<Rightarrow> artifact_cache_mode option" where
  "parse_artifact_cache_mode s =
     (if s \<in> {''off''} 
        then Some artifact_cache_mode.Off
      else if s \<in> {''metadata'', ''meta''} 
        then Some artifact_cache_mode.Metadata
      else if s \<in> {''full'', ''on''} 
        then Some artifact_cache_mode.Full
      else None)"

datatype protocol_guard_mode = Off | Observe | Repair | Strict | RepairShadow

definition protocol_guard_mode_as_str :: "protocol_guard_mode \<Rightarrow> string" where
  "protocol_guard_mode_as_str m =
     (case m of protocol_guard_mode.Off \<Rightarrow> ''off''
      | protocol_guard_mode.Observe \<Rightarrow> ''observe''
      | protocol_guard_mode.Repair \<Rightarrow> ''repair''
      | protocol_guard_mode.Strict \<Rightarrow> ''strict''
      | protocol_guard_mode.RepairShadow \<Rightarrow> ''repair_shadow'')"

definition parse_protocol_guard_mode :: "string \<Rightarrow> protocol_guard_mode option" where
  "parse_protocol_guard_mode s =
     (if s \<in> {''off''} 
        then Some protocol_guard_mode.Off
      else if s \<in> {''observe'', ''observe_only'', ''observe-only''} 
        then Some protocol_guard_mode.Observe
      else if s \<in> {''repair'', ''on''} 
        then Some protocol_guard_mode.Repair
      else if s \<in> {''strict''} 
        then Some protocol_guard_mode.Strict
      else if s \<in> {''repair_shadow'', ''repair-shadow'', ''shadow''} 
        then Some protocol_guard_mode.RepairShadow
      else None)"

datatype orphan_policy = Downgrade | Reject

definition orphan_policy_as_str :: "orphan_policy \<Rightarrow> string" where
  "orphan_policy_as_str m =
     (case m of orphan_policy.Downgrade \<Rightarrow> ''downgrade''
      | orphan_policy.Reject \<Rightarrow> ''reject'')"

definition parse_orphan_policy :: "string \<Rightarrow> orphan_policy option" where
  "parse_orphan_policy s =
     (if s \<in> {''downgrade'', ''recover''} 
        then Some orphan_policy.Downgrade
      else if s \<in> {''reject'', ''error''} 
        then Some orphan_policy.Reject
      else None)"

datatype global_budget_mode = Off | SyncRedis

definition global_budget_mode_as_str :: "global_budget_mode \<Rightarrow> string" where
  "global_budget_mode_as_str m =
     (case m of global_budget_mode.Off \<Rightarrow> ''off''
      | global_budget_mode.SyncRedis \<Rightarrow> ''sync_redis'')"

definition parse_global_budget_mode :: "string \<Rightarrow> global_budget_mode option" where
  "parse_global_budget_mode s =
     (if s \<in> {''off'', ''local'', ''none''} 
        then Some global_budget_mode.Off
      else if s \<in> {''sync_redis'', ''redis'', ''on''} 
        then Some global_budget_mode.SyncRedis
      else None)"

definition exposes_candidates :: "dynamic_model_public_mode \<Rightarrow> bool" where
  "exposes_candidates m \<longleftrightarrow> m = CandidateCanaryOrActive"

section \<open>The configuration\<close>

record server_config =
  cf_port :: nat
  cf_bind_address :: string
  cf_upstream_base :: string
  cf_chat_target :: string
  cf_model_target :: string
  cf_admin_api_key :: "string option"
  cf_proxy_error_threshold :: nat
  cf_proxy_cooldown_seconds :: nat
  cf_proxy_recovery_interval :: nat
  cf_pool_max_retries :: nat
  cf_v4_empty_upstream_max_retries :: nat
  cf_v4_retry_budget_ms :: nat
  cf_pool_max_size :: nat
  cf_connect_timeout_secs :: nat
  cf_request_timeout_secs :: nat
  cf_probe_timeout_secs :: nat
  cf_probe_connect_timeout_secs :: nat
  cf_pool_warm_interval_secs :: nat
  cf_ratelimited_probe_interval_secs :: nat
  cf_probe_batch_size :: nat
  cf_dispatch_capacity :: nat
  cf_active_capacity :: nat
  cf_ratelimited_capacity :: nat
  cf_dead_capacity :: nat
  cf_model_override :: "string option"
  cf_model_mapping :: "(string, string) hashmap"
  cf_allow_direct_fallback :: bool
  cf_benchmark_mode :: bool
  cf_log_level :: string
  cf_sticky_ttl_secs :: rat
  cf_proxy_api_key :: "string option"
  cf_upstream_api_key :: string
  cf_opencode_headers_enabled :: bool
  cf_opencode_user_agent_version :: string
  cf_opencode_client_name :: string
  cf_opencode_project_seed :: string
  cf_opencode_session_ttl_secs :: nat
  cf_pool_starvation_retry_after_secs :: nat
  cf_global_backoff_cooldown_secs :: nat
  cf_nodes_file :: string
  cf_preferred_proxy_urls :: "string list"
  cf_ledger_events_path :: string
  cf_audit_log_enabled :: bool
  cf_audit_log_dir :: string
  cf_zen_provider_mode :: provider_mode
  cf_free_model_true_first_token_frt :: bool
  cf_free_model_claude_code_stream_initial_fetch_timeout_secs :: nat
  cf_free_model_claude_code_stream_slow_guard_min_input_tokens :: nat
  cf_free_model_claude_code_stream_no_forwardable_retry_secs :: nat
  cf_v4_model_registry_enabled :: bool
  cf_dynamic_model_discovery_enabled :: bool
  cf_dynamic_model_discovery_url :: string
  cf_dynamic_model_discovery_interval_secs :: nat
  cf_dynamic_model_public_mode :: dynamic_model_public_mode
  cf_dynamic_model_public_allowlist :: "string list"
  cf_dynamic_model_claudecode_compat_allowlist :: "string list"
  cf_dynamic_model_allow_direct_fallback :: bool
  cf_live_probe_interval_secs :: "nat option"
  cf_live_probe_fail_threshold :: nat
  cf_dynamic_model_probe_enabled :: bool
  cf_dynamic_model_probe_adapter_mode :: probe_adapter_mode
  cf_dynamic_model_probe_max_concurrent :: nat
  cf_dynamic_model_probe_max_per_round :: nat
  cf_dynamic_model_probe_requests_per_interval :: nat
  cf_dynamic_model_probe_success_quorum :: nat
  cf_dynamic_model_probe_failure_quarantine_threshold :: nat
  cf_dynamic_model_probe_timeout_secs :: nat
  cf_dynamic_model_probe_base_url :: string
  cf_dynamic_model_probe_api_key :: "string option"
  cf_dynamic_model_probe_max_response_bytes :: nat
  cf_dynamic_model_active_min_canary_requests :: nat
  cf_dynamic_model_active_min_success_rate_bps :: nat
  cf_dynamic_model_active_max_empty_output_failures :: nat
  cf_dynamic_model_active_max_decode_failures :: nat
  cf_dynamic_model_active_max_protocol_failures :: nat

record config =
  cf_server :: server_config
  cf_node_max_calls_per_window :: nat
  cf_node_max_tokens_per_window :: nat
  cf_node_max_kb_per_window :: nat
  cf_node_budget_cooldown_secs :: int
  cf_node_budget_window_secs :: nat
  cf_node_lease_ttl_secs :: nat
  cf_global_budget_redis_url :: "string option"
  cf_instance_id :: string
  cf_request_body_limit_mb :: nat
  cf_v1_max_concurrent_requests :: nat
  cf_context_warn_body_mb :: nat
  cf_context_compact_body_mb :: nat
  cf_context_target_body_mb :: nat
  cf_context_upstream_body_limit_mb :: nat
  cf_context_token_warn :: nat
  cf_context_token_compact :: nat
  cf_context_token_target :: nat
  cf_context_large_chunk_bytes :: nat
  cf_context_preserve_recent_messages :: nat
  cf_zen_compactor_mode :: compactor_mode
  cf_zen_artifact_cache_mode :: artifact_cache_mode
  cf_artifact_cache_dir :: string
  cf_artifact_cache_max_mb :: nat
  cf_artifact_cache_ttl_hours :: nat
  cf_protocol_guard_mode :: protocol_guard_mode
  cf_protocol_guard_orphan_policy :: orphan_policy
  cf_protocol_guard_synthetic_ids :: bool
  cf_protocol_guard_log_sample_rate :: rat
  cf_protocol_guard_max_ms :: nat
  cf_protocol_guard_max_graph_messages :: nat
  cf_protocol_guard_max_repair_actions :: nat
  cf_v43_lanes_enabled :: bool
  cf_v43_short_nonstream_concurrency :: nat
  cf_v43_stream_concurrency :: nat
  cf_v43_large_context_concurrency :: nat
  cf_v43_huge_context_concurrency :: nat
  cf_v43_large_context_body_mb :: nat
  cf_v43_huge_context_body_mb :: nat
  cf_v45_large_context_tokens :: nat
  cf_v45_huge_context_tokens :: nat
  cf_v45_ttft_slow_ms :: nat
  cf_v45_ttft_bad_ms :: nat
  cf_v46_long_nonstream_concurrency :: nat
  cf_v46_long_output_concurrency :: nat
  cf_v46_tool_heavy_concurrency :: nat
  cf_v46_long_nonstream_tokens :: nat
  cf_v46_long_output_tokens :: nat
  cf_v43_lane_wait_timeout_ms :: nat
  cf_v43_async_collector_enabled :: bool
  cf_v43_collector_queue_capacity :: nat
  cf_v43_dispatch_shards :: nat
  cf_v43_node_min_concurrency :: nat
  cf_v43_node_max_concurrency :: nat
  cf_v43_aimd_success_step :: nat
  cf_v43_aimd_failure_percent :: nat
  cf_v43_aimd_slow_latency_ms :: nat
  cf_v43_global_budget_mode :: global_budget_mode
  cf_v43_global_budget_fail_open :: bool

section \<open>Reading the environment\<close>

record environment =
  env_var :: "string \<Rightarrow> string option"
  parse_f64 :: "string \<Rightarrow> rat option"
  process_id :: nat
  new_uuid :: string
  read_file :: "string \<Rightarrow> string option"

text \<open>\<open>FromStr\<close> of the integers and of \<open>bool\<close>.\<close>

definition parse_uint :: "nat \<Rightarrow> string \<Rightarrow> nat option" where
  "parse_uint w s =
     (let digits = (case s of c # rest \<Rightarrow> if c = CHR ''+'' then rest else s | [] \<Rightarrow> s);
          n = foldl (\<lambda>n c. 10 * n + (byte_of c - 48)) 0 digits
      in if digits = [] \<or> \<not> list_all (\<lambda>c. 48 \<le> byte_of c \<and> byte_of c \<le> 57) digits \<or> 2 ^ w \<le> n
         then None else Some n)"

definition parse_i64 :: "string \<Rightarrow> int option" where
  "parse_i64 s =
     (case s of
        c # rest \<Rightarrow>
          if c = CHR ''-''
          then (case rest of
                  d # ds \<Rightarrow> if d = CHR ''+'' then None
                     else (case parse_uint 64 rest of
                             Some n \<Rightarrow> if n \<le> 2 ^ 63 then Some (- int n) else None
                           | None \<Rightarrow> None)
                | [] \<Rightarrow> None)
          else map_option int (parse_uint 63 s)
      | [] \<Rightarrow> None)"

definition parse_bool :: "string \<Rightarrow> bool option" where
  "parse_bool s = (if s = ''true'' then Some True else if s = ''false'' then Some False else None)"

definition load_env_var :: "environment \<Rightarrow> (string \<Rightarrow> 'a option) \<Rightarrow> string \<Rightarrow> 'a \<Rightarrow> 'a" where
  "load_env_var E from_str key dflt =
     (case env_var E key of
        Some raw \<Rightarrow> if raw \<noteq> [] then unwrap_or dflt (from_str raw) else dflt
      | None \<Rightarrow> dflt)"

definition env_nonempty :: "environment \<Rightarrow> string \<Rightarrow> string option" where
  "env_nonempty E key =
     (case env_var E key of Some v \<Rightarrow> if v \<noteq> [] then Some v else None | None \<Rightarrow> None)"

text \<open>\<open>split\<close> at a character.\<close>

fun split_from :: "char \<Rightarrow> string \<Rightarrow> string \<Rightarrow> string list" where
  "split_from d acc [] = [acc]"
| "split_from d acc (c # s) =
     (if c = d then acc # split_from d [] s else split_from d (acc @ [c]) s)"

abbreviation split_char :: "char \<Rightarrow> string \<Rightarrow> string list" where
  "split_char d \<equiv> split_from d []"

definition dedupe_preserving_order :: "string list \<Rightarrow> string list" where
  "dedupe_preserving_order items =
     rev (snd (fold (\<lambda>item (seen, deduped).
         if item \<in> seen then (seen, deduped) else (insert item seen, item # deduped))
       items ({}, [])))"

definition parse_proxy_line :: "string \<Rightarrow> string + string" where
  "parse_proxy_line line =
     (if contains_str line ''://'' then Inr line
      else
        (case split_char CHR '':'' line of
           [host, port, user, pass] \<Rightarrow>
             if host \<noteq> [] \<and> port \<noteq> []
             then Inr (''http://'' @ user @ '':'' @ pass @ ''@'' @ host @ '':'' @ port)
             else Inl (''unsupported proxy line format: '' @ line)
         | [host, port] \<Rightarrow>
             if host \<noteq> [] \<and> port \<noteq> [] then Inr (''http://'' @ host @ '':'' @ port)
             else Inl (''unsupported proxy line format: '' @ line)
         | _ \<Rightarrow> Inl (''unsupported proxy line format: '' @ line)))"

definition parse_proxy_list_env :: "environment \<Rightarrow> string \<Rightarrow> string list" where
  "parse_proxy_list_env E key =
     (case env_var E key of
        Some raw \<Rightarrow>
          List.map_filter
            (\<lambda>item. case parse_proxy_line item of Inr url \<Rightarrow> Some url | Inl _ \<Rightarrow> None)
            (filter (\<lambda>item. item \<noteq> []) (map trim (split_char CHR '','' raw)))
      | None \<Rightarrow> [])"

definition parse_csv_list_env :: "environment \<Rightarrow> string \<Rightarrow> string list" where
  "parse_csv_list_env E key =
     (case env_var E key of
        Some raw \<Rightarrow>
          dedupe_preserving_order
            (filter (\<lambda>item. item \<noteq> []) (map trim (split_char CHR '','' raw)))
      | None \<Rightarrow> [])"

definition split_once_char :: "char \<Rightarrow> string \<Rightarrow> (string \<times> string) option" where
  "split_once_char d s =
     (if d \<in> set s then Some (takeWhile (\<lambda>c. c \<noteq> d) s, tl (dropWhile (\<lambda>c. c \<noteq> d) s)) else None)"

definition default_model_mapping :: "environment \<Rightarrow> (string, string) hashmap" where
  "default_model_mapping E =
     (let m = [(''deepseek-v4-flash'', ''deepseek-v4-flash-free''),
               (''big-pickle'', ''big-pickle''),
               (''mimo-v2.5'', ''mimo-v2.5-free''),
               (''hy3'', ''hy3-free''),
               (''nemotron-3-ultra'', ''nemotron-3-ultra-free''),
               (''nemotron-3.5-lightning'', ''nemotron-3.5-lightning-free''),
               (''ling-3.0-flash-fin'', ''ling-3.0-flash-fin-free'')]
      in case env_var E ''MODEL_MAPPING'' of
           Some raw \<Rightarrow>
             foldl (\<lambda>m pair.
                 case split_once_char CHR '':'' (trim pair) of
                   Some (pub_name, up_name) \<Rightarrow>
                     if trim pub_name \<noteq> [] \<and> trim up_name \<noteq> []
                     then AList.update (trim pub_name) (trim up_name) m else m
                 | None \<Rightarrow> m)
               m (split_char CHR '','' raw)
         | None \<Rightarrow> m)"

definition default_upstream_base :: string where
  "default_upstream_base = ''https://opencode.ai/zen''"

definition zen_provider_mode_from_env :: "environment \<Rightarrow> provider_mode" where
  "zen_provider_mode_from_env E =
     load_env_var E parse_provider_mode ''ZEN_PROVIDER_MODE'' FreeModelKernel"

definition protocol_guard_synthetic_ids_from_env :: "environment \<Rightarrow> bool" where
  "protocol_guard_synthetic_ids_from_env E =
     (if zen_provider_mode_from_env E = FreeModelKernel then False
      else load_env_var E parse_bool ''PROTOCOL_GUARD_SYNTHETIC_IDS'' True)"

definition server_config_from_env :: "environment \<Rightarrow> server_config" where
  "server_config_from_env E =
     \<lparr>cf_port = load_env_var E (parse_uint 16) ''PORT'' 4000,
      cf_bind_address = load_env_var E Some ''BIND_ADDRESS'' ''127.0.0.1'',
      cf_upstream_base = load_env_var E Some ''UPSTREAM_BASE'' ''https://opencode.ai/zen'',
      cf_chat_target = load_env_var E Some ''CHAT_TARGET'' ''/v1/chat/completions'',
      cf_model_target = load_env_var E Some ''MODEL_TARGET'' ''/v1/models'',
      cf_admin_api_key = env_nonempty E ''ADMIN_API_KEY'',
      cf_proxy_error_threshold = load_env_var E (parse_uint 32) ''PROXY_ERROR_THRESHOLD'' 5,
      cf_proxy_cooldown_seconds = load_env_var E (parse_uint 64) ''PROXY_COOLDOWN_SECONDS'' 60,
      cf_proxy_recovery_interval = load_env_var E (parse_uint 64) ''PROXY_RECOVERY_INTERVAL'' 30,
      cf_pool_max_retries = load_env_var E (parse_uint 32) ''POOL_MAX_RETRIES'' 3,
      cf_v4_empty_upstream_max_retries =
         load_env_var E (parse_uint 32) ''V4_EMPTY_UPSTREAM_MAX_RETRIES'' 12,
      cf_v4_retry_budget_ms = load_env_var E (parse_uint 64) ''V4_RETRY_BUDGET_MS'' 45000,
      cf_pool_max_size = load_env_var E (parse_uint 32) ''POOL_MAX_SIZE'' 128,
      cf_connect_timeout_secs = load_env_var E (parse_uint 64) ''CONNECT_TIMEOUT_SECS'' 5,
      cf_request_timeout_secs = load_env_var E (parse_uint 64) ''REQUEST_TIMEOUT_SECS'' 120,
      cf_probe_timeout_secs = load_env_var E (parse_uint 64) ''PROBE_TIMEOUT_SECS'' 30,
      cf_probe_connect_timeout_secs =
         load_env_var E (parse_uint 64) ''PROBE_CONNECT_TIMEOUT_SECS'' 10,
      cf_pool_warm_interval_secs = load_env_var E (parse_uint 64) ''POOL_WARM_INTERVAL_SECS'' 10,
      cf_ratelimited_probe_interval_secs =
         load_env_var E (parse_uint 64) ''RATELIMITED_PROBE_INTERVAL_SECS'' 60,
      cf_probe_batch_size = load_env_var E (parse_uint 64) ''PROBE_BATCH_SIZE'' 5,
      cf_dispatch_capacity = load_env_var E (parse_uint 64) ''DISPATCH_CAPACITY'' 100,
      cf_active_capacity = load_env_var E (parse_uint 64) ''ACTIVE_CAPACITY'' 100,
      cf_ratelimited_capacity = load_env_var E (parse_uint 64) ''RATELIMITED_CAPACITY'' 100,
      cf_dead_capacity = load_env_var E (parse_uint 64) ''DEAD_CAPACITY'' 100,
      cf_model_override = env_nonempty E ''MODEL_OVERRIDE'',
      cf_model_mapping = default_model_mapping E,
      cf_allow_direct_fallback = load_env_var E parse_bool ''ALLOW_DIRECT_FALLBACK'' False,
      cf_benchmark_mode = load_env_var E parse_bool ''BENCHMARK_MODE'' False,
      cf_log_level = load_env_var E Some ''LOG_LEVEL'' ''info'',
      cf_sticky_ttl_secs = load_env_var E (parse_f64 E) ''STICKY_TTL_SECS'' 180,
      cf_proxy_api_key = env_nonempty E ''PROXY_API_KEY'',
      cf_upstream_api_key = unwrap_or ''public'' (env_var E ''UPSTREAM_API_KEY''),
      cf_opencode_headers_enabled = load_env_var E parse_bool ''OPENCODE_HEADERS_ENABLED'' True,
      cf_opencode_user_agent_version =
         load_env_var E Some ''OPENCODE_USER_AGENT_VERSION'' ''0.0.0'',
      cf_opencode_client_name = load_env_var E Some ''OPENCODE_CLIENT_NAME'' ''cli'',
      cf_opencode_project_seed = load_env_var E Some ''OPENCODE_PROJECT_SEED'' ''zen-proxy-rs'',
      cf_opencode_session_ttl_secs =
         load_env_var E (parse_uint 64) ''OPENCODE_SESSION_TTL_SECS'' 1800,
      cf_pool_starvation_retry_after_secs =
         load_env_var E (parse_uint 64) ''POOL_STARVATION_RETRY_AFTER_SECS'' 5,
      cf_global_backoff_cooldown_secs =
         load_env_var E (parse_uint 64) ''GLOBAL_BACKOFF_COOLDOWN_SECS'' 30,
      cf_nodes_file = unwrap_or ''/etc/zen-proxy/nodes.json'' (env_var E ''NODES_FILE''),
      cf_preferred_proxy_urls = parse_proxy_list_env E ''PREFERRED_PROXY_URLS'',
      cf_ledger_events_path =
         unwrap_or ''/tmp/zen-proxy-ledger-events.jsonl'' (env_var E ''LEDGER_EVENTS_PATH''),
      cf_audit_log_enabled = load_env_var E parse_bool ''AUDIT_LOG_ENABLED'' True,
      cf_audit_log_dir = unwrap_or ''/tmp/zen-proxy-audit'' (env_var E ''AUDIT_LOG_DIR''),
      cf_zen_provider_mode = zen_provider_mode_from_env E,
      cf_free_model_true_first_token_frt =
         load_env_var E parse_bool ''FREE_MODEL_TRUE_FIRST_TOKEN_FRT'' True,
      cf_free_model_claude_code_stream_initial_fetch_timeout_secs =
         load_env_var E (parse_uint 64)
           ''FREE_MODEL_CLAUDE_CODE_STREAM_INITIAL_FETCH_TIMEOUT_SECS'' 30,
      cf_free_model_claude_code_stream_slow_guard_min_input_tokens =
         load_env_var E (parse_uint 64)
           ''FREE_MODEL_CLAUDE_CODE_STREAM_SLOW_GUARD_MIN_INPUT_TOKENS'' 150000,
      cf_free_model_claude_code_stream_no_forwardable_retry_secs =
         max (load_env_var E (parse_uint 64)
           ''FREE_MODEL_CLAUDE_CODE_STREAM_NO_FORWARDABLE_RETRY_SECS'' 45) 1,
      cf_v4_model_registry_enabled =
         load_env_var E parse_bool ''V4_MODEL_REGISTRY_ENABLED'' False,
      cf_dynamic_model_discovery_enabled =
         load_env_var E parse_bool ''DYNAMIC_MODEL_DISCOVERY_ENABLED'' True,
      cf_dynamic_model_discovery_url =
         unwrap_or (default_upstream_base @ ''/v1/models'') (env_var E
           ''DYNAMIC_MODEL_DISCOVERY_URL''),
      cf_dynamic_model_discovery_interval_secs =
         max (load_env_var E (parse_uint 64) ''DYNAMIC_MODEL_DISCOVERY_INTERVAL_SECS'' 1800) 60,
      cf_dynamic_model_public_mode =
         load_env_var E parse_dynamic_model_public_mode
           ''DYNAMIC_MODEL_PUBLIC_MODE'' dynamic_model_public_mode.CanaryOrActive,
      cf_dynamic_model_public_allowlist =
         parse_csv_list_env E ''DYNAMIC_MODEL_PUBLIC_ALLOWLIST'',
      cf_dynamic_model_claudecode_compat_allowlist =
         parse_csv_list_env E ''DYNAMIC_MODEL_CLAUDECODE_COMPAT_ALLOWLIST'',
      cf_dynamic_model_allow_direct_fallback =
         load_env_var E parse_bool ''DYNAMIC_MODEL_ALLOW_DIRECT_FALLBACK'' False,
      cf_live_probe_interval_secs = (case env_var E ''LIVE_PROBE_INTERVAL_SECS'' of
           Some v \<Rightarrow> if v \<noteq> [] \<and> v \<noteq> ''0'' then parse_uint 64 v else None
         | None \<Rightarrow> None),
      cf_live_probe_fail_threshold =
         load_env_var E (parse_uint 32) ''LIVE_PROBE_FAIL_THRESHOLD'' 2,
      cf_dynamic_model_probe_enabled =
         load_env_var E parse_bool ''DYNAMIC_MODEL_PROBE_ENABLED'' True,
      cf_dynamic_model_probe_adapter_mode =
         load_env_var E parse_probe_adapter_mode
           ''DYNAMIC_MODEL_PROBE_ADAPTER'' probe_adapter_mode.HttpBounded,
      cf_dynamic_model_probe_max_concurrent =
         max (load_env_var E (parse_uint 64) ''DYNAMIC_MODEL_PROBE_MAX_CONCURRENT'' 1) 1,
      cf_dynamic_model_probe_max_per_round =
         max (load_env_var E (parse_uint 64) ''DYNAMIC_MODEL_PROBE_MAX_PER_ROUND'' 3) 1,
      cf_dynamic_model_probe_requests_per_interval =
         max (load_env_var E (parse_uint 64) ''DYNAMIC_MODEL_PROBE_REQUESTS_PER_INTERVAL'' 20) 1,
      cf_dynamic_model_probe_success_quorum =
         max (load_env_var E (parse_uint 64) ''DYNAMIC_MODEL_PROBE_SUCCESS_QUORUM'' 2) 1,
      cf_dynamic_model_probe_failure_quarantine_threshold =
         max (load_env_var E (parse_uint 64)
           ''DYNAMIC_MODEL_PROBE_FAILURE_QUARANTINE_THRESHOLD'' 3) 1,
      cf_dynamic_model_probe_timeout_secs =
         max (load_env_var E (parse_uint 64) ''DYNAMIC_MODEL_PROBE_TIMEOUT_SECS'' 30) 1,
      cf_dynamic_model_probe_base_url =
         unwrap_or [] (env_var E ''DYNAMIC_MODEL_PROBE_BASE_URL''),
      cf_dynamic_model_probe_api_key = env_nonempty E ''DYNAMIC_MODEL_PROBE_API_KEY'',
      cf_dynamic_model_probe_max_response_bytes =
         max (load_env_var E (parse_uint 64)
           ''DYNAMIC_MODEL_PROBE_MAX_RESPONSE_BYTES'' (64 * 1024)) 1024,
      cf_dynamic_model_active_min_canary_requests =
         max (load_env_var E (parse_uint 64) ''DYNAMIC_MODEL_ACTIVE_MIN_CANARY_REQUESTS'' 100) 1,
      cf_dynamic_model_active_min_success_rate_bps =
         min (load_env_var E (parse_uint 64)
           ''DYNAMIC_MODEL_ACTIVE_MIN_SUCCESS_RATE_BPS'' 9900) 10000,
      cf_dynamic_model_active_max_empty_output_failures =
         load_env_var E (parse_uint 64) ''DYNAMIC_MODEL_ACTIVE_MAX_EMPTY_OUTPUT_FAILURES'' 0,
      cf_dynamic_model_active_max_decode_failures =
         load_env_var E (parse_uint 64) ''DYNAMIC_MODEL_ACTIVE_MAX_DECODE_FAILURES'' 0,
      cf_dynamic_model_active_max_protocol_failures =
         load_env_var E (parse_uint 64) ''DYNAMIC_MODEL_ACTIVE_MAX_PROTOCOL_FAILURES'' 0\<rparr>"

definition config_from_env :: "environment \<Rightarrow> config" where
  "config_from_env E =
     \<lparr>cf_server = server_config_from_env E,
      cf_node_max_calls_per_window =
         load_env_var E (parse_uint 64) ''NODE_MAX_CALLS_PER_WINDOW'' 100,
      cf_node_max_tokens_per_window =
         load_env_var E (parse_uint 64) ''NODE_MAX_TOKENS_PER_WINDOW'' 10000000,
      cf_node_max_kb_per_window =
         load_env_var E (parse_uint 64) ''NODE_MAX_KB_PER_WINDOW'' (64 * 1024),
      cf_node_budget_cooldown_secs = load_env_var E parse_i64 ''NODE_BUDGET_COOLDOWN_SECS'' 60,
      cf_node_budget_window_secs =
         load_env_var E (parse_uint 64) ''NODE_BUDGET_WINDOW_SECS'' 3600,
      cf_node_lease_ttl_secs = load_env_var E (parse_uint 64) ''NODE_LEASE_TTL_SECS'' 180,
      cf_global_budget_redis_url = env_nonempty E ''GLOBAL_BUDGET_REDIS_URL'',
      cf_instance_id = unwrap_or (''zen-'' @ show_nat (process_id E) @ ''-'' @ new_uuid E)
         (env_var E ''INSTANCE_ID''),
      cf_request_body_limit_mb = load_env_var E (parse_uint 64) ''REQUEST_BODY_LIMIT_MB'' 64,
      cf_v1_max_concurrent_requests =
         load_env_var E (parse_uint 64) ''V1_MAX_CONCURRENT_REQUESTS'' 32,
      cf_context_warn_body_mb = load_env_var E (parse_uint 64) ''CONTEXT_WARN_BODY_MB'' 24,
      cf_context_compact_body_mb = load_env_var E (parse_uint 64) ''CONTEXT_COMPACT_BODY_MB'' 30,
      cf_context_target_body_mb = load_env_var E (parse_uint 64) ''CONTEXT_TARGET_BODY_MB'' 26,
      cf_context_upstream_body_limit_mb =
         load_env_var E (parse_uint 64) ''CONTEXT_UPSTREAM_BODY_LIMIT_MB'' 32,
      cf_context_token_warn = load_env_var E (parse_uint 64) ''CONTEXT_TOKEN_WARN'' 600000,
      cf_context_token_compact = load_env_var E (parse_uint 64) ''CONTEXT_TOKEN_COMPACT'' 850000,
      cf_context_token_target = load_env_var E (parse_uint 64) ''CONTEXT_TOKEN_TARGET'' 750000,
      cf_context_large_chunk_bytes =
         load_env_var E (parse_uint 64) ''CONTEXT_LARGE_CHUNK_BYTES'' (256 * 1024),
      cf_context_preserve_recent_messages =
         load_env_var E (parse_uint 64) ''CONTEXT_PRESERVE_RECENT_MESSAGES'' 8,
      cf_zen_compactor_mode =
         load_env_var E parse_compactor_mode ''ZEN_COMPACTOR_MODE'' compactor_mode.Observe,
      cf_zen_artifact_cache_mode =
         load_env_var E parse_artifact_cache_mode
           ''ZEN_ARTIFACT_CACHE_MODE'' artifact_cache_mode.Metadata,
      cf_artifact_cache_dir =
         unwrap_or ''/tmp/zen-proxy-artifacts'' (env_var E ''ARTIFACT_CACHE_DIR''),
      cf_artifact_cache_max_mb = load_env_var E (parse_uint 64) ''ARTIFACT_CACHE_MAX_MB'' 2048,
      cf_artifact_cache_ttl_hours =
         load_env_var E (parse_uint 64) ''ARTIFACT_CACHE_TTL_HOURS'' 24,
      cf_protocol_guard_mode =
         load_env_var E parse_protocol_guard_mode
           ''PROTOCOL_GUARD_MODE'' protocol_guard_mode.Repair,
      cf_protocol_guard_orphan_policy =
         load_env_var E parse_orphan_policy
           ''PROTOCOL_GUARD_ORPHAN_POLICY'' orphan_policy.Downgrade,
      cf_protocol_guard_synthetic_ids = protocol_guard_synthetic_ids_from_env E,
      cf_protocol_guard_log_sample_rate =
         load_env_var E (parse_f64 E) ''PROTOCOL_GUARD_LOG_SAMPLE_RATE'' 1,
      cf_protocol_guard_max_ms = load_env_var E (parse_uint 64) ''PROTOCOL_GUARD_MAX_MS'' 30,
      cf_protocol_guard_max_graph_messages =
         load_env_var E (parse_uint 64) ''PROTOCOL_GUARD_MAX_GRAPH_MESSAGES'' 2000,
      cf_protocol_guard_max_repair_actions =
         load_env_var E (parse_uint 64) ''PROTOCOL_GUARD_MAX_REPAIR_ACTIONS'' 200,
      cf_v43_lanes_enabled = load_env_var E parse_bool ''V43_LANES_ENABLED'' False,
      cf_v43_short_nonstream_concurrency =
         load_env_var E (parse_uint 64) ''V43_SHORT_NONSTREAM_CONCURRENCY'' 32,
      cf_v43_stream_concurrency = load_env_var E (parse_uint 64) ''V43_STREAM_CONCURRENCY'' 96,
      cf_v43_large_context_concurrency =
         load_env_var E (parse_uint 64) ''V43_LARGE_CONTEXT_CONCURRENCY'' 16,
      cf_v43_huge_context_concurrency =
         load_env_var E (parse_uint 64) ''V43_HUGE_CONTEXT_CONCURRENCY'' 2,
      cf_v43_large_context_body_mb =
         load_env_var E (parse_uint 64) ''V43_LARGE_CONTEXT_BODY_MB'' 8,
      cf_v43_huge_context_body_mb =
         load_env_var E (parse_uint 64) ''V43_HUGE_CONTEXT_BODY_MB'' 32,
      cf_v45_large_context_tokens =
         load_env_var E (parse_uint 64) ''V45_LARGE_CONTEXT_TOKENS'' 80000,
      cf_v45_huge_context_tokens =
         load_env_var E (parse_uint 64) ''V45_HUGE_CONTEXT_TOKENS'' 180000,
      cf_v45_ttft_slow_ms = load_env_var E (parse_uint 64) ''V45_TTFT_SLOW_MS'' 4000,
      cf_v45_ttft_bad_ms = load_env_var E (parse_uint 64) ''V45_TTFT_BAD_MS'' 8000,
      cf_v46_long_nonstream_concurrency =
         load_env_var E (parse_uint 64) ''V46_LONG_NONSTREAM_CONCURRENCY'' 4,
      cf_v46_long_output_concurrency =
         load_env_var E (parse_uint 64) ''V46_LONG_OUTPUT_CONCURRENCY'' 4,
      cf_v46_tool_heavy_concurrency =
         load_env_var E (parse_uint 64) ''V46_TOOL_HEAVY_CONCURRENCY'' 16,
      cf_v46_long_nonstream_tokens =
         load_env_var E (parse_uint 64) ''V46_LONG_NONSTREAM_TOKENS'' 10000,
      cf_v46_long_output_tokens = load_env_var E (parse_uint 64) ''V46_LONG_OUTPUT_TOKENS'' 4096,
      cf_v43_lane_wait_timeout_ms =
         load_env_var E (parse_uint 64) ''V43_LANE_WAIT_TIMEOUT_MS'' 1000,
      cf_v43_async_collector_enabled =
         load_env_var E parse_bool ''V43_ASYNC_COLLECTOR_ENABLED'' False,
      cf_v43_collector_queue_capacity =
         load_env_var E (parse_uint 64) ''V43_COLLECTOR_QUEUE_CAPACITY'' 8192,
      cf_v43_dispatch_shards = load_env_var E (parse_uint 64) ''V43_DISPATCH_SHARDS'' 16,
      cf_v43_node_min_concurrency =
         load_env_var E (parse_uint 32) ''V43_NODE_MIN_CONCURRENCY'' 1,
      cf_v43_node_max_concurrency =
         load_env_var E (parse_uint 32) ''V43_NODE_MAX_CONCURRENCY'' 16,
      cf_v43_aimd_success_step = load_env_var E (parse_uint 32) ''V43_AIMD_SUCCESS_STEP'' 1,
      cf_v43_aimd_failure_percent =
         load_env_var E (parse_uint 32) ''V43_AIMD_FAILURE_PERCENT'' 50,
      cf_v43_aimd_slow_latency_ms =
         load_env_var E (parse_uint 64) ''V43_AIMD_SLOW_LATENCY_MS'' 30000,
      cf_v43_global_budget_mode =
         load_env_var E parse_global_budget_mode
           ''V43_GLOBAL_BUDGET_MODE'' global_budget_mode.SyncRedis,
      cf_v43_global_budget_fail_open =
         load_env_var E parse_bool ''V43_GLOBAL_BUDGET_FAIL_OPEN'' True\<rparr>"

definition reload :: "environment \<Rightarrow> config \<Rightarrow> config" where
  "reload E c = config_from_env E"

section \<open>Derived values\<close>

definition bind_addr :: "config \<Rightarrow> string" where
  "bind_addr c = cf_bind_address (cf_server c) @ '':'' @ show_nat (cf_port (cf_server c))"

definition chat_url :: "config \<Rightarrow> string" where
  "chat_url c = cf_upstream_base (cf_server c) @ cf_chat_target (cf_server c)"

definition model_url :: "config \<Rightarrow> string" where
  "model_url c = cf_upstream_base (cf_server c) @ cf_model_target (cf_server c)"

text \<open>Durations are seconds.\<close>

definition connect_timeout :: "config \<Rightarrow> nat" where
  "connect_timeout c = cf_connect_timeout_secs (cf_server c)"

definition request_timeout :: "config \<Rightarrow> nat" where
  "request_timeout c = cf_request_timeout_secs (cf_server c)"

definition probe_timeout :: "config \<Rightarrow> nat" where
  "probe_timeout c = cf_probe_timeout_secs (cf_server c)"

definition probe_connect_timeout :: "config \<Rightarrow> nat" where
  "probe_connect_timeout c = cf_probe_connect_timeout_secs (cf_server c)"

definition pool_warm_interval :: "config \<Rightarrow> nat" where
  "pool_warm_interval c = cf_pool_warm_interval_secs (cf_server c)"

definition ratelimited_probe_interval :: "config \<Rightarrow> nat" where
  "ratelimited_probe_interval c = max (cf_ratelimited_probe_interval_secs (cf_server c)) 30"

text \<open>\<open>Duration::from_secs_f64\<close> panics on a negative number and on one of \<open>2\<^sup>6\<^sup>4\<close> or more.\<close>

definition sticky_ttl :: "config \<Rightarrow> rat outcome" where
  "sticky_ttl c =
     (let s = cf_sticky_ttl_secs (cf_server c) in if s < 0 \<or> 2 ^ 64 \<le> s then Panic else Done s)"

fun collect_results :: "('e + 'a) list \<Rightarrow> 'e + 'a list" where
  "collect_results [] = Inr []"
| "collect_results (Inl e # xs) = Inl e"
| "collect_results (Inr x # xs) =
     (case collect_results xs of Inl e \<Rightarrow> Inl e | Inr ys \<Rightarrow> Inr (x # ys))"

text \<open>\<open>serde_json::from_str::<Vec<String>>\<close>: an array of strings.\<close>

fun string_array :: "json \<Rightarrow> string list option" where
  "string_array (JArray vs) =
     (if list_all (\<lambda>v. as_str v \<noteq> None) vs then Some (List.map_filter as_str vs) else None)"
| "string_array _ = None"

definition parse_nodes_file :: "serde \<Rightarrow> string \<Rightarrow> string + string list" where
  "parse_nodes_file S contents =
     (case Option.bind (from_slice S contents) string_array of
        Some nodes \<Rightarrow> Inr nodes
      | None \<Rightarrow>
          collect_results
            (map parse_proxy_line
              (filter (\<lambda>line. line \<noteq> [] \<and> \<not> starts_with line ''#'')
                (map trim (str_lines contents)))))"

definition load_nodes :: "serde \<Rightarrow> environment \<Rightarrow> config \<Rightarrow> string list" where
  "load_nodes S E c =
     (let file_nodes =
            (case read_file E (cf_nodes_file (cf_server c)) of
               Some contents \<Rightarrow>
                 (case parse_nodes_file S contents of Inr nodes \<Rightarrow> nodes | Inl _ \<Rightarrow> [])
             | None \<Rightarrow> [])
      in dedupe_preserving_order (cf_preferred_proxy_urls (cf_server c) @ file_nodes))"

definition proxy_auth_required :: "config \<Rightarrow> bool" where
  "proxy_auth_required c \<longleftrightarrow> cf_proxy_api_key (cf_server c) \<noteq> None"

definition v4_model_registry_active :: "config \<Rightarrow> bool" where
  "v4_model_registry_active c \<longleftrightarrow>
     cf_v4_model_registry_enabled (cf_server c)
     \<or> cf_zen_provider_mode (cf_server c) = FreeModelKernel"

section \<open>What the configuration promises\<close>

text \<open>Deduplication keeps the first of equal items, in order.\<close>

lemma dedupe_snoc:
  "dedupe_preserving_order (items @ [x]) =
     (if x \<in> set items then dedupe_preserving_order items
      else dedupe_preserving_order items @ [x])"
proof -
  have "fst (fold (\<lambda>item (seen, deduped).
       if item \<in> seen then (seen, deduped) else (insert item seen, item # deduped)) items (S, D))
     = S \<union> set items" for S :: "string set" and D
    by (induction items arbitrary: S D) auto
  then show ?thesis
    by (auto simp: dedupe_preserving_order_def split: prod.splits)
       (metis (no_types, lifting) Un_iff empty_iff fst_conv)+
qed

lemma set_dedupe [simp]: "set (dedupe_preserving_order items) = set items"
  by (induction items rule: rev_induct) (auto simp: dedupe_snoc, simp add: dedupe_preserving_order_def)

lemma distinct_dedupe [simp]: "distinct (dedupe_preserving_order items)"
  by (induction items rule: rev_induct) (auto simp: dedupe_snoc, simp add: dedupe_preserving_order_def)

text \<open>A value that is read satisfies what its parser and its default guarantee.\<close>

lemma load_env_var_cases:
  "P dflt \<Longrightarrow> (\<And>s x. from_str s = Some x \<Longrightarrow> P x) \<Longrightarrow> P (load_env_var E from_str key dflt)"
  by (cases "env_var E key"; cases "from_str (the (env_var E key))") (auto simp: load_env_var_def)

lemma parse_uint_bound: "parse_uint w s = Some n \<Longrightarrow> n < 2 ^ w"
  by (auto simp: parse_uint_def Let_def split: if_splits)

lemma load_uint_bound: "dflt < 2 ^ w \<Longrightarrow> load_env_var E (parse_uint w) key dflt < 2 ^ w"
  by (rule load_env_var_cases [where P = "\<lambda>x. x < 2 ^ w"]) (auto dest: parse_uint_bound)

lemmas load_u16_bound = load_uint_bound [where w = 16, simplified]
  and load_u32_bound = load_uint_bound [where w = 32, simplified]

lemma parse_i64_bound: "parse_i64 s = Some n \<Longrightarrow> - (2 ^ 63) \<le> n \<and> n < 2 ^ 63"
  by (force simp: parse_i64_def split: list.splits if_splits option.splits dest: parse_uint_bound)

text \<open>
  The name under which a mode is printed is one that its parser reads back as the same mode,
  for each of the eight modes of the configuration.
\<close>

lemma mode_names_round_trip:
  "parse_provider_mode (provider_mode_as_str m1) = Some m1
    \<and> parse_dynamic_model_public_mode (dynamic_model_public_mode_as_str m2) = Some m2
    \<and> parse_probe_adapter_mode (probe_adapter_mode_as_str m3) = Some m3
    \<and> parse_compactor_mode (compactor_mode_as_str m4) = Some m4
    \<and> parse_artifact_cache_mode (artifact_cache_mode_as_str m5) = Some m5
    \<and> parse_protocol_guard_mode (protocol_guard_mode_as_str m6) = Some m6
    \<and> parse_orphan_policy (orphan_policy_as_str m7) = Some m7
    \<and> parse_global_budget_mode (global_budget_mode_as_str m8) = Some m8"
  apply (intro conjI)
  subgoal by (cases m1; simp add: parse_provider_mode_def provider_mode_as_str_def)
  subgoal by (cases m2; simp add: parse_dynamic_model_public_mode_def dynamic_model_public_mode_as_str_def)
  subgoal by (cases m3; simp add: parse_probe_adapter_mode_def probe_adapter_mode_as_str_def)
  subgoal by (cases m4; simp add: parse_compactor_mode_def compactor_mode_as_str_def)
  subgoal by (cases m5; simp add: parse_artifact_cache_mode_def artifact_cache_mode_as_str_def)
  subgoal by (cases m6; simp add: parse_protocol_guard_mode_def protocol_guard_mode_as_str_def)
  subgoal by (cases m7; simp add: parse_orphan_policy_def orphan_policy_as_str_def)
  subgoal by (cases m8; simp add: parse_global_budget_mode_def global_budget_mode_as_str_def)
  done

text \<open>
  Whatever the environment holds, the configuration is one the components can run on: the
  port fits, the intervals, quorums and limits of discovery and probing are at least their
  minimum, the success rate is at most all of ten thousand, the lists of models have no
  duplicates, and with the kernel as provider the guard makes no identifiers up.
\<close>

lemma configuration_in_range:
  "let c = config_from_env E; s = cf_server c in
    cf_port s < 2 ^ 16
    \<and> 60 \<le> cf_dynamic_model_discovery_interval_secs s
    \<and> 1 \<le> cf_dynamic_model_probe_max_concurrent s
    \<and> 1 \<le> cf_dynamic_model_probe_max_per_round s
    \<and> 1 \<le> cf_dynamic_model_probe_success_quorum s
    \<and> 1 \<le> cf_dynamic_model_probe_failure_quarantine_threshold s
    \<and> 1 \<le> cf_dynamic_model_probe_timeout_secs s
    \<and> 1024 \<le> cf_dynamic_model_probe_max_response_bytes s
    \<and> 1 \<le> cf_dynamic_model_active_min_canary_requests s
    \<and> cf_dynamic_model_active_min_success_rate_bps s \<le> 10000
    \<and> distinct (cf_dynamic_model_public_allowlist s)
    \<and> distinct (cf_dynamic_model_claudecode_compat_allowlist s)
    \<and> cf_v43_node_max_concurrency c < 2 ^ 32
    \<and> 30 \<le> ratelimited_probe_interval c
    \<and> cf_protocol_guard_synthetic_ids c
        = (cf_zen_provider_mode s = Legacy
           \<and> load_env_var E parse_bool ''PROTOCOL_GUARD_SYNTHETIC_IDS'' True)"
proof -
  have "distinct (parse_csv_list_env E key)" for key
    by (simp add: parse_csv_list_env_def split: option.splits)
  moreover have "zen_provider_mode_from_env E = Legacy \<or> zen_provider_mode_from_env E = FreeModelKernel"
    by (metis provider_mode.exhaust)
  ultimately show ?thesis
    by (auto simp: Let_def config_from_env_def server_config_from_env_def load_u16_bound load_u32_bound
          ratelimited_probe_interval_def protocol_guard_synthetic_ids_from_env_def)
qed

end
