(* ===== verification/ProtocolGuard.thy ===== *)
theory ProtocolGuard
  imports PoolTypes ProxyConfig Utf8Chars
begin

text \<open>
  The protocol guard of the proxy (\<open>zen-proxy-rs/src/v4/protocol_guard.rs\<close>): before a request
  goes upstream, its tool history is checked and, in the repairing mode, rewritten so that every
  tool result answers an open call and every call is answered.  Both protocols are modelled, the
  messages of OpenAI (calls in \<open>tool_calls\<close>, results in messages of the role \<open>tool\<close>) and those
  of Anthropic (both are blocks of the content).  Assigning to a key of a value that is neither
  an object nor null panics in \<open>serde_json\<close>; the model has that panic.
\<close>

section \<open>Data\<close>

definition PREVIEW_CHARS :: nat where
  "PREVIEW_CHARS = 2048"

record protocol_guard_reject =
  pj_status :: nat
  pj_message :: string

datatype guard_phase = PreCompact | PostCompact

record pending_call =
  pc_id :: string
  pc_message_index :: nat
  pc_used :: bool

record protocol_guard_telemetry =
  gt_mode :: string
  gt_source_client :: string
  gt_applied :: bool
  gt_pre_invalid :: bool
  gt_post_valid :: bool
  gt_missing_tool_call_id_count :: nat
  gt_missing_tool_use_id_count :: nat
  gt_synthetic_tool_id_count :: nat
  gt_paired_tool_result_count :: nat
  gt_orphan_tool_result_count :: nat
  gt_downgraded_tool_result_count :: nat
  gt_orphan_assistant_call_count :: nat
  gt_message_count_before :: nat
  gt_message_count_after :: nat
  gt_quality_risk :: string
  gt_scan_ms :: nat
  gt_repair_ms :: nat
  gt_validate_ms :: nat
  gt_total_ms :: nat

abbreviation inc32 :: "nat \<Rightarrow> nat" where
  "inc32 n \<equiv> sat_add 32 n 1"

definition guard_telemetry_default :: protocol_guard_telemetry where
  "guard_telemetry_default =
     \<lparr>gt_mode = [], gt_source_client = [], gt_applied = False, gt_pre_invalid = False,
      gt_post_valid = False, gt_missing_tool_call_id_count = 0, gt_missing_tool_use_id_count = 0,
      gt_synthetic_tool_id_count = 0, gt_paired_tool_result_count = 0,
      gt_orphan_tool_result_count = 0, gt_downgraded_tool_result_count = 0,
      gt_orphan_assistant_call_count = 0, gt_message_count_before = 0,
      gt_message_count_after = 0, gt_quality_risk = [], gt_scan_ms = 0, gt_repair_ms = 0,
      gt_validate_ms = 0, gt_total_ms = 0\<rparr>"

definition risk_rank :: "string \<Rightarrow> nat" where
  "risk_rank v =
     (if v = ''critical'' then 4 else if v = ''high'' then 3
      else if v = ''medium'' then 2 else if v = ''low'' then 1 else 0)"

definition raise_risk :: "string \<Rightarrow> protocol_guard_telemetry \<Rightarrow> protocol_guard_telemetry" where
  "raise_risk risk t =
     (if risk_rank risk > risk_rank (gt_quality_risk t) then t\<lparr>gt_quality_risk := risk\<rparr> else t)"

definition max_quality_risk :: "string \<Rightarrow> string \<Rightarrow> string" where
  "max_quality_risk left right = (if risk_rank right > risk_rank left then right else left)"

definition telemetry_merge ::
    "protocol_guard_telemetry \<Rightarrow> protocol_guard_telemetry \<Rightarrow> protocol_guard_telemetry" where
  "telemetry_merge s q =
     \<lparr>gt_mode = (if gt_mode s = [] then gt_mode q else gt_mode s),
      gt_source_client =
        (if gt_source_client s = [] then gt_source_client q else gt_source_client s),
      gt_applied = (gt_applied s \<or> gt_applied q),
      gt_pre_invalid = (gt_pre_invalid s \<or> gt_pre_invalid q),
      gt_post_valid = (gt_post_valid s \<and> gt_post_valid q),
      gt_missing_tool_call_id_count =
        sat_add 32 (gt_missing_tool_call_id_count s) (gt_missing_tool_call_id_count q),
      gt_missing_tool_use_id_count =
        sat_add 32 (gt_missing_tool_use_id_count s) (gt_missing_tool_use_id_count q),
      gt_synthetic_tool_id_count =
        sat_add 32 (gt_synthetic_tool_id_count s) (gt_synthetic_tool_id_count q),
      gt_paired_tool_result_count =
        sat_add 32 (gt_paired_tool_result_count s) (gt_paired_tool_result_count q),
      gt_orphan_tool_result_count =
        sat_add 32 (gt_orphan_tool_result_count s) (gt_orphan_tool_result_count q),
      gt_downgraded_tool_result_count =
        sat_add 32 (gt_downgraded_tool_result_count s) (gt_downgraded_tool_result_count q),
      gt_orphan_assistant_call_count =
        sat_add 32 (gt_orphan_assistant_call_count s) (gt_orphan_assistant_call_count q),
      gt_message_count_before = max (gt_message_count_before s) (gt_message_count_before q),
      gt_message_count_after = max (gt_message_count_after q) (gt_message_count_after s),
      gt_quality_risk = max_quality_risk (gt_quality_risk s) (gt_quality_risk q),
      gt_scan_ms = sat_add 64 (gt_scan_ms s) (gt_scan_ms q),
      gt_repair_ms = sat_add 64 (gt_repair_ms s) (gt_repair_ms q),
      gt_validate_ms = sat_add 64 (gt_validate_ms s) (gt_validate_ms q),
      gt_total_ms = sat_add 64 (gt_total_ms s) (gt_total_ms q)\<rparr>"

section \<open>Reading values\<close>

text \<open>\<open>raw_body_has_tool_markers\<close>; a body that is not UTF-8 counts as having them.\<close>

definition raw_body_has_tool_markers :: "string \<Rightarrow> bool" where
  "raw_body_has_tool_markers body =
     (\<not> utf8_ok body
      \<or> list_ex (contains_str body)
          [''tool_calls'', ''tool_call_id'', ''tool_use'', ''tool_result'', ''tool_use_id'',
           ''input_schema'', [CHR 0x22] @ ''tools'' @ [CHR 0x22],
           [CHR 0x22] @ ''role'' @ [CHR 0x22, CHR '':'', CHR 0x22] @ ''tool'' @ [CHR 0x22],
           [CHR 0x22] @ ''role'' @ [CHR 0x22, CHR '':'', CHR '' '', CHR 0x22] @ ''tool''
             @ [CHR 0x22]])"

definition content_blocks :: "json \<Rightarrow> json list option" where
  "content_blocks message = Option.bind (json_get ''content'' message) as_array"

definition non_empty_str :: "json option \<Rightarrow> string option" where
  "non_empty_str v =
     (case Option.bind v as_str of
        Some s \<Rightarrow> if trim s \<noteq> [] then Some (trim s) else None
      | None \<Rightarrow> None)"

definition messages_of :: "json \<Rightarrow> json list option" where
  "messages_of body = Option.bind (json_get ''messages'' body) as_array"

definition message_count :: "json \<Rightarrow> nat" where
  "message_count body = unwrap_or 0 (map_option (\<lambda>ms. length ms mod 2 ^ 32) (messages_of body))"

definition take_preview :: "string \<Rightarrow> string" where
  "take_preview s =
     take_chars PREVIEW_CHARS s
     @ (if length (chars_of s) > PREVIEW_CHARS then NL # ''[truncated]'' else [])"

fun value_preview :: "serde \<Rightarrow> json \<Rightarrow> string" where
  "value_preview S (JString s) = take_preview s"
| "value_preview S (JArray items) =
     join_with [NL] (filter (\<lambda>item. item \<noteq> []) (map (value_preview S) items))"
| "value_preview S (JObject m) = take_preview (to_string S (JObject m))"
| "value_preview S JNull = []"
| "value_preview S v = to_string S v"

definition guard_short_hash :: "crypto \<Rightarrow> string \<Rightarrow> string" where
  "guard_short_hash C bytes = take 12 (hex_encode C (sha256 C bytes))"

definition synthetic_openai_tool_id :: "crypto \<Rightarrow> serde \<Rightarrow> nat \<Rightarrow> nat \<Rightarrow> json \<Rightarrow> string" where
  "synthetic_openai_tool_id C S message_idx tool_idx call =
     (let f = json_get ''function'' call;
          name = unwrap_or ''unknown_tool'' (Option.bind (Option.bind f (json_get ''name'')) as_str);
          args = unwrap_or [] (map_option (value_preview S) (Option.bind f (json_get ''arguments'')))
      in ''call_zen_'' @ show_nat message_idx @ ''_'' @ show_nat tool_idx @ ''_''
         @ guard_short_hash C name @ ''_'' @ guard_short_hash C args)"

definition synthetic_anthropic_tool_id :: "crypto \<Rightarrow> serde \<Rightarrow> nat \<Rightarrow> nat \<Rightarrow> json \<Rightarrow> string" where
  "synthetic_anthropic_tool_id C S message_idx block_idx block =
     (let name = unwrap_or ''unknown_tool'' (get_str ''name'' block);
          input = unwrap_or [] (map_option (value_preview S) (json_get ''input'' block))
      in ''toolu_zen_'' @ show_nat message_idx @ ''_'' @ show_nat block_idx @ ''_''
         @ guard_short_hash C name @ ''_'' @ guard_short_hash C input)"

text \<open>\<open>value[key] = v\<close>, and the removal of a key.\<close>

fun index_set :: "string \<Rightarrow> json \<Rightarrow> json \<Rightarrow> json outcome" where
  "index_set k v (JObject m) = Done (JObject (obj_insert k v m))"
| "index_set k v JNull = Done (JObject [(k, v)])"
| "index_set k v _ = Panic"

fun and_then :: "'a outcome \<Rightarrow> ('a \<Rightarrow> 'b outcome) \<Rightarrow> 'b outcome" where
  "and_then Panic f = Panic"
| "and_then (Done x) f = f x"

fun obj_update :: "((string \<times> json) list \<Rightarrow> (string \<times> json) list) \<Rightarrow> json \<Rightarrow> json" where
  "obj_update f (JObject m) = JObject (f m)"
| "obj_update f v = v"

section \<open>Counting violations\<close>

abbreviation unresolved :: "pending_call list \<Rightarrow> nat" where
  "unresolved pending \<equiv> length (filter (\<lambda>p. \<not> pc_used p) pending)"

definition new_pending :: "nat \<Rightarrow> string \<Rightarrow> pending_call" where
  "new_pending idx i = \<lparr>pc_id = i, pc_message_index = idx, pc_used = False\<rparr>"

text \<open>The first open call with the given identifier becomes used.\<close>

fun mark_pending_used :: "string \<Rightarrow> pending_call list \<Rightarrow> (string \<times> pending_call list) option" where
  "mark_pending_used i [] = None"
| "mark_pending_used i (p # ps) =
     (if pc_id p = i \<and> \<not> pc_used p then Some (pc_id p, p\<lparr>pc_used := True\<rparr> # ps)
      else map_option (\<lambda>(j, ps'). (j, p # ps')) (mark_pending_used i ps))"

fun consume_next_pending :: "pending_call list \<Rightarrow> (string \<times> pending_call list) option" where
  "consume_next_pending [] = None"
| "consume_next_pending (p # ps) =
     (if \<not> pc_used p then Some (pc_id p, p\<lparr>pc_used := True\<rparr> # ps)
      else map_option (\<lambda>(j, ps'). (j, p # ps')) (consume_next_pending ps))"

definition count_result :: "string option \<Rightarrow> nat \<times> pending_call list \<Rightarrow> nat \<times> pending_call list" where
  "count_result i = (\<lambda>(invalid, pending).
     case i of
       None \<Rightarrow> (inc32 invalid, pending)
     | Some j \<Rightarrow>
         (case mark_pending_used j pending of
            Some (_, pending') \<Rightarrow> (invalid, pending')
          | None \<Rightarrow> (inc32 invalid, pending)))"

definition count_call :: "nat \<Rightarrow> string option \<Rightarrow> nat \<times> pending_call list \<Rightarrow> nat \<times> pending_call list" where
  "count_call idx i = (\<lambda>(invalid, pending).
     case i of
       Some j \<Rightarrow> (invalid, pending @ [new_pending idx j])
     | None \<Rightarrow> (inc32 invalid, pending))"

definition count_openai_message ::
    "nat \<times> json \<Rightarrow> nat \<times> pending_call list \<Rightarrow> nat \<times> pending_call list" where
  "count_openai_message = (\<lambda>(idx, message) (invalid, pending).
     let role = get_str ''role'' message;
         (invalid, pending) =
           (if role \<noteq> Some ''tool'' \<and> \<not> list_all pc_used pending
            then (sat_add 32 invalid (unresolved pending mod 2 ^ 32), [])
            else (invalid, pending))
     in if role = Some ''assistant''
        then (case Option.bind (json_get ''tool_calls'' message) as_array of
                Some calls \<Rightarrow>
                  fold (\<lambda>call. count_call idx (non_empty_str (json_get ''id'' call))) calls
                    (invalid, pending)
              | None \<Rightarrow> (invalid, pending))
        else if role = Some ''tool''
        then count_result (non_empty_str (json_get ''tool_call_id'' message)) (invalid, pending)
        else (invalid, pending))"

definition count_invalid_openai :: "json \<Rightarrow> nat" where
  "count_invalid_openai body =
     (case messages_of body of
        None \<Rightarrow> 0
      | Some messages \<Rightarrow>
          let (invalid, pending) = fold count_openai_message (enumerate 0 messages) (0, [])
          in sat_add 32 invalid (unresolved pending mod 2 ^ 32))"

definition count_invalid_anthropic_tools :: "json \<Rightarrow> nat" where
  "count_invalid_anthropic_tools body =
     (case Option.bind (json_get ''tools'' body) as_array of
        None \<Rightarrow> 0
      | Some tools \<Rightarrow>
          length (filter (\<lambda>tool.
              case json_get ''input_schema'' tool of
                None \<Rightarrow> True
              | Some schema \<Rightarrow>
                  as_object schema = None
                  \<or> get_str ''type'' schema \<noteq> Some ''object''
                  \<or> Option.bind (json_get ''properties'' schema) as_object = None)
            tools) mod 2 ^ 32)"

definition count_anthropic_block ::
    "nat \<Rightarrow> json \<Rightarrow> nat \<times> pending_call list \<Rightarrow> nat \<times> pending_call list" where
  "count_anthropic_block idx block st =
     (if get_str ''type'' block = Some ''tool_use''
      then count_call idx (non_empty_str (json_get ''id'' block)) st
      else if get_str ''type'' block = Some ''tool_result''
      then count_result (non_empty_str (json_get ''tool_use_id'' block)) st
      else st)"

definition count_invalid_anthropic :: "json \<Rightarrow> nat" where
  "count_invalid_anthropic body =
     (let invalid = count_invalid_anthropic_tools body
      in case messages_of body of
           None \<Rightarrow> invalid
         | Some messages \<Rightarrow>
             let (invalid, pending) =
                   fold (\<lambda>(idx, message) st.
                       case content_blocks message of
                         None \<Rightarrow> st
                       | Some blocks \<Rightarrow> fold (count_anthropic_block idx) blocks st)
                     (enumerate 0 messages) (invalid, [])
             in sat_add 32 invalid (unresolved pending mod 2 ^ 32))"

definition count_invalid :: "string \<Rightarrow> json \<Rightarrow> nat" where
  "count_invalid path body =
     (if path = ''messages'' then count_invalid_anthropic body else count_invalid_openai body)"

definition body_has_tool_shape :: "string \<Rightarrow> json \<Rightarrow> bool" where
  "body_has_tool_shape path body =
     (case messages_of body of
        None \<Rightarrow> False
      | Some messages \<Rightarrow>
          if path = ''messages''
          then (case Option.bind (json_get ''tools'' body) as_array of
                  Some tools \<Rightarrow> tools \<noteq> [] | None \<Rightarrow> False)
               \<or> list_ex (\<lambda>message. case content_blocks message of
                     Some blocks \<Rightarrow>
                       list_ex (\<lambda>block. get_str ''type'' block
                           \<in> {Some ''tool_use'', Some ''tool_result''}) blocks
                   | None \<Rightarrow> False) messages
          else list_ex (\<lambda>message. get_str ''role'' message = Some ''tool''
                   \<or> json_get ''tool_calls'' message \<noteq> None) messages)"

section \<open>Repairing an OpenAI history\<close>

definition ensure_openai_function :: "serde \<Rightarrow> json \<Rightarrow> json outcome" where
  "ensure_openai_function S f =
     and_then
       (if non_empty_str (json_get ''name'' f) = None
        then index_set ''name'' (JString ''unknown_tool'') f else Done f) (\<lambda>f.
     case json_get ''arguments'' f of
       None \<Rightarrow> index_set ''arguments'' (JString ''{}'') f
     | Some a \<Rightarrow>
         if as_str a = None then index_set ''arguments'' (JString (to_string S a)) f
         else Done f)"

definition ensure_openai_call_kind :: "serde \<Rightarrow> json \<Rightarrow> json outcome" where
  "ensure_openai_call_kind S call =
     and_then
       (if json_get ''type'' call = None then index_set ''type'' (JString ''function'') call
        else Done call) (\<lambda>call.
     and_then
       (if Option.bind (json_get ''function'' call) as_object = None
        then index_set ''function''
               (json_object [(''name'', JString ''unknown_tool''), (''arguments'', JString ''{}'')])
               call
        else Done call) (\<lambda>call.
     and_then (ensure_openai_function S (unwrap_or JNull (json_get ''function'' call))) (\<lambda>f.
     if json_get ''function'' call = Some f then Done call else index_set ''function'' f call)))"

definition ensure_openai_tool_call_shape ::
    "crypto \<Rightarrow> serde \<Rightarrow> config \<Rightarrow> nat \<Rightarrow> nat \<Rightarrow> json \<times> protocol_guard_telemetry
     \<Rightarrow> (json \<times> protocol_guard_telemetry) outcome" where
  "ensure_openai_tool_call_shape C S conf message_idx tool_idx = (\<lambda>(call, t).
     and_then
       (if non_empty_str (json_get ''id'' call) = None \<and> cf_protocol_guard_synthetic_ids conf
        then and_then
               (index_set ''id''
                 (JString (synthetic_openai_tool_id C S message_idx tool_idx call)) call)
               (\<lambda>call. Done (call, raise_risk ''low''
                 (t\<lparr>gt_synthetic_tool_id_count := inc32 (gt_synthetic_tool_id_count t)\<rparr>)))
        else Done (call, t)) (\<lambda>(call, t).
     and_then (ensure_openai_call_kind S call) (\<lambda>call. Done (call, t))))"

fun ensure_openai_tool_calls ::
    "crypto \<Rightarrow> serde \<Rightarrow> config \<Rightarrow> nat \<Rightarrow> nat \<Rightarrow> json list \<Rightarrow> pending_call list
     \<Rightarrow> protocol_guard_telemetry
     \<Rightarrow> (json list \<times> pending_call list \<times> protocol_guard_telemetry) outcome" where
  "ensure_openai_tool_calls C S conf idx tool_idx [] pending t = Done ([], pending, t)"
| "ensure_openai_tool_calls C S conf idx tool_idx (call # calls) pending t =
     and_then (ensure_openai_tool_call_shape C S conf idx tool_idx (call, t)) (\<lambda>(call, t).
     let pending =
           (case non_empty_str (json_get ''id'' call) of
              Some i \<Rightarrow> pending @ [new_pending idx i]
            | None \<Rightarrow> pending)
     in and_then (ensure_openai_tool_calls C S conf idx (Suc tool_idx) calls pending t)
          (\<lambda>(calls, pending, t). Done (call # calls, pending, t)))"

text \<open>
  The calls left open, by the message they stand in.  The order in which the code visits the
  messages is that of a \<open>HashMap\<close>; each message is visited once and independently.
\<close>

definition unresolved_indices :: "pending_call list \<Rightarrow> nat list" where
  "unresolved_indices pending =
     remdups (map pc_message_index (filter (\<lambda>p. \<not> pc_used p) pending))"

definition unresolved_ids :: "pending_call list \<Rightarrow> nat \<Rightarrow> string set" where
  "unresolved_ids pending idx =
     set (map pc_id (filter (\<lambda>p. \<not> pc_used p \<and> pc_message_index p = idx) pending))"

definition RECOVERED_CALL :: string where
  "RECOVERED_CALL = ''[Tool call recovered as plain context: matching tool result missing]''"

definition drop_open_calls ::
    "string set \<Rightarrow> json \<Rightarrow> protocol_guard_telemetry \<Rightarrow> json \<times> protocol_guard_telemetry" where
  "drop_open_calls ids message t =
     (case Option.bind (json_get ''tool_calls'' message) as_array of
        None \<Rightarrow> (message, t)
      | Some calls \<Rightarrow>
          let calls' = filter (\<lambda>call. case non_empty_str (json_get ''id'' call) of
                  Some i \<Rightarrow> i \<notin> ids | None \<Rightarrow> False) calls;
              removed = length calls - length calls';
              t = (if removed > 0
                   then raise_risk ''high''
                     (t\<lparr>gt_orphan_assistant_call_count :=
                          sat_add 32 (gt_orphan_assistant_call_count t) (removed mod 2 ^ 32)\<rparr>)
                   else t)
          in (if calls' = []
              then obj_update (\<lambda>m.
                     let m = AList.delete ''tool_calls'' m
                     in if map_of m ''content'' \<in> {None, Some JNull, Some (JString [])}
                        then obj_insert ''content'' (JString RECOVERED_CALL) m else m) message
              else obj_update (obj_insert ''tool_calls'' (JArray calls')) message,
              t))"

definition downgrade_unresolved_openai_tool_calls ::
    "pending_call list \<Rightarrow> json list \<times> protocol_guard_telemetry
     \<Rightarrow> json list \<times> protocol_guard_telemetry" where
  "downgrade_unresolved_openai_tool_calls pending st =
     fold (\<lambda>idx (messages, t).
         if idx < length messages
         then let (message, t) = drop_open_calls (unresolved_ids pending idx) (messages ! idx) t
              in (messages[idx := message], t)
         else (messages, t))
       (unresolved_indices pending) st"

definition RECOVERED_RESULT :: string where
  "RECOVERED_RESULT =
     ''[Tool result recovered as plain context: original tool_call_id missing or invalid]''"

definition downgrade_openai_tool_message :: "serde \<Rightarrow> json \<Rightarrow> json" where
  "downgrade_openai_tool_message S message =
     (let preview = value_preview S (unwrap_or JNull (json_get ''content'' message))
      in obj_update (\<lambda>m.
           obj_insert ''content'' (JString (RECOVERED_RESULT @ [NL] @ preview))
             (AList.delete ''tool_calls''
               (AList.delete ''tool_call_id''
                 (obj_insert ''role'' (JString ''user'') m)))) message)"

definition repair_openai_result ::
    "serde \<Rightarrow> config \<Rightarrow> json \<Rightarrow> pending_call list \<Rightarrow> protocol_guard_telemetry
     \<Rightarrow> json \<times> pending_call list \<times> protocol_guard_telemetry" where
  "repair_openai_result S conf message pending t =
     (case (case non_empty_str (json_get ''tool_call_id'' message) of
              Some i \<Rightarrow> mark_pending_used i pending
            | None \<Rightarrow> consume_next_pending pending) of
        Some (i, pending) \<Rightarrow>
          let (message, t) =
                (if non_empty_str (json_get ''tool_call_id'' message) = None
                 then (obj_update (obj_insert ''tool_call_id'' (JString i)) message,
                       t\<lparr>gt_missing_tool_call_id_count := inc32 (gt_missing_tool_call_id_count t)\<rparr>)
                 else (message, t));
              t = t\<lparr>gt_paired_tool_result_count := inc32 (gt_paired_tool_result_count t)\<rparr>
          in (message, pending,
              if unresolved pending > 1 then raise_risk ''medium'' t else raise_risk ''low'' t)
      | None \<Rightarrow>
          let t = t\<lparr>gt_orphan_tool_result_count := inc32 (gt_orphan_tool_result_count t)\<rparr>
          in if cf_protocol_guard_orphan_policy conf = Reject
             then (message, pending, raise_risk ''critical'' t)
             else (downgrade_openai_tool_message S message, pending,
                   raise_risk ''high''
                     (t\<lparr>gt_downgraded_tool_result_count :=
                          inc32 (gt_downgraded_tool_result_count t)\<rparr>)))"

text \<open>The loop over the messages; \<open>earlier\<close> are those already visited.\<close>

fun repair_openai_loop ::
    "crypto \<Rightarrow> serde \<Rightarrow> config \<Rightarrow> json list \<Rightarrow> pending_call list \<Rightarrow> protocol_guard_telemetry
     \<Rightarrow> json list \<Rightarrow> (json list \<times> protocol_guard_telemetry) outcome" where
  "repair_openai_loop C S conf earlier pending t [] =
     Done (downgrade_unresolved_openai_tool_calls pending (earlier, t))"
| "repair_openai_loop C S conf earlier pending t (message # later) =
     (let role = get_str ''role'' message;
          (earlier, pending, t) =
            (if role \<noteq> Some ''tool'' \<and> \<not> list_all pc_used pending
             then let (earlier, t) = downgrade_unresolved_openai_tool_calls pending (earlier, t)
                  in (earlier, [], t)
             else (earlier, pending, t))
      in if role = Some ''assistant''
         then
           let (message, t) =
                 (if json_get ''content'' message = None
                  then (obj_update (obj_insert ''content'' JNull) message,
                        raise_risk ''low'' (t\<lparr>gt_applied := True\<rparr>))
                  else (message, t))
           in case Option.bind (json_get ''tool_calls'' message) as_array of
                None \<Rightarrow> repair_openai_loop C S conf (earlier @ [message]) pending t later
              | Some calls \<Rightarrow>
                  and_then
                    (ensure_openai_tool_calls C S conf (length earlier) 0 calls pending t)
                    (\<lambda>(calls, pending, t).
                       repair_openai_loop C S conf
                         (earlier @ [obj_update (obj_insert ''tool_calls'' (JArray calls)) message])
                         pending t later)
         else if role = Some ''tool''
         then
           let (message, pending, t) = repair_openai_result S conf message pending t
           in repair_openai_loop C S conf (earlier @ [message]) pending t later
         else repair_openai_loop C S conf (earlier @ [message]) pending t later)"

definition repair_openai ::
    "crypto \<Rightarrow> serde \<Rightarrow> config \<Rightarrow> json \<Rightarrow> protocol_guard_telemetry
     \<Rightarrow> (json \<times> protocol_guard_telemetry) outcome" where
  "repair_openai C S conf body t =
     (case messages_of body of
        None \<Rightarrow> Done (body, t)
      | Some messages \<Rightarrow>
          let t = (if length messages > cf_protocol_guard_max_graph_messages conf
                   then raise_risk ''high'' t else t)
          in and_then (repair_openai_loop C S conf [] [] t messages)
               (\<lambda>(messages, t). Done (obj_update (obj_insert ''messages'' (JArray messages)) body, t)))"

section \<open>Repairing an Anthropic history\<close>

definition repair_anthropic_tool ::
    "json \<times> protocol_guard_telemetry \<Rightarrow> (json \<times> protocol_guard_telemetry) outcome" where
  "repair_anthropic_tool = (\<lambda>(tool, t).
     case Option.bind (json_get ''input_schema'' tool) as_object of
       None \<Rightarrow>
         and_then
           (index_set ''input_schema''
             (json_object [(''type'', JString ''object''), (''properties'', JObject [])]) tool)
           (\<lambda>tool. Done (tool, raise_risk ''low'' (t\<lparr>gt_applied := True\<rparr>)))
     | Some schema \<Rightarrow>
         let (schema1, t) =
               (if get_str ''type'' (JObject schema) \<noteq> Some ''object''
                then (obj_insert ''type'' (JString ''object'') schema,
                      raise_risk ''low'' (t\<lparr>gt_applied := True\<rparr>))
                else (schema, t));
             (schema2, t) =
               (if Option.bind (json_get ''properties'' (JObject schema1)) as_object = None
                then (obj_insert ''properties'' (JObject []) schema1,
                      raise_risk ''low'' (t\<lparr>gt_applied := True\<rparr>))
                else (schema1, t))
         in Done (if schema2 = schema then tool
                  else obj_update (obj_insert ''input_schema'' (JObject schema2)) tool, t))"

fun repair_anthropic_tool_list ::
    "json list \<Rightarrow> protocol_guard_telemetry \<Rightarrow> (json list \<times> protocol_guard_telemetry) outcome"
where
  "repair_anthropic_tool_list [] t = Done ([], t)"
| "repair_anthropic_tool_list (tool # tools) t =
     and_then (repair_anthropic_tool (tool, t)) (\<lambda>(tool, t).
     and_then (repair_anthropic_tool_list tools t) (\<lambda>(tools, t). Done (tool # tools, t)))"

definition repair_anthropic_tools ::
    "json \<Rightarrow> protocol_guard_telemetry \<Rightarrow> (json \<times> protocol_guard_telemetry) outcome" where
  "repair_anthropic_tools body t =
     (case Option.bind (json_get ''tools'' body) as_array of
        None \<Rightarrow> Done (body, t)
      | Some tools \<Rightarrow>
          and_then (repair_anthropic_tool_list tools t) (\<lambda>(tools, t).
            Done (obj_update (obj_insert ''tools'' (JArray tools)) body, t)))"

definition text_block :: "string \<Rightarrow> json" where
  "text_block s = json_object [(''type'', JString ''text''), (''text'', JString s)]"

definition RECOVERED_USE :: string where
  "RECOVERED_USE = ''[Tool use recovered as plain context: matching tool result missing]''"

definition RECOVERED_USE_RESULT :: string where
  "RECOVERED_USE_RESULT =
     ''[Tool result recovered as plain context: original tool_use_id missing or invalid]''"

definition downgrade_anthropic_tool_result :: "serde \<Rightarrow> json \<Rightarrow> json" where
  "downgrade_anthropic_tool_result S block =
     text_block (RECOVERED_USE_RESULT @ [NL]
       @ value_preview S (unwrap_or JNull (json_get ''content'' block)))"

fun drop_open_uses ::
    "string set \<Rightarrow> json list \<Rightarrow> protocol_guard_telemetry \<Rightarrow> json list \<times> protocol_guard_telemetry"
where
  "drop_open_uses ids [] t = ([], t)"
| "drop_open_uses ids (block # blocks) t =
     (let (block, t) =
            (if get_str ''type'' block = Some ''tool_use''
                \<and> (case non_empty_str (json_get ''id'' block) of
                     Some i \<Rightarrow> i \<in> ids | None \<Rightarrow> False)
             then (text_block RECOVERED_USE,
                   raise_risk ''high''
                     (t\<lparr>gt_orphan_assistant_call_count :=
                          inc32 (gt_orphan_assistant_call_count t)\<rparr>))
             else (block, t));
          (blocks, t) = drop_open_uses ids blocks t
      in (block # blocks, t))"

definition downgrade_unresolved_anthropic_tool_uses ::
    "pending_call list \<Rightarrow> json list \<times> protocol_guard_telemetry
     \<Rightarrow> json list \<times> protocol_guard_telemetry" where
  "downgrade_unresolved_anthropic_tool_uses pending st =
     fold (\<lambda>idx (messages, t).
         case if idx < length messages then content_blocks (messages ! idx) else None of
           None \<Rightarrow> (messages, t)
         | Some blocks \<Rightarrow>
             let (blocks, t) = drop_open_uses (unresolved_ids pending idx) blocks t
             in (messages[idx := obj_update (obj_insert ''content'' (JArray blocks)) (messages ! idx)],
                 t))
       (unresolved_indices pending) st"

definition repair_anthropic_use ::
    "crypto \<Rightarrow> serde \<Rightarrow> config \<Rightarrow> nat \<Rightarrow> nat \<Rightarrow> json \<Rightarrow> pending_call list \<Rightarrow> protocol_guard_telemetry
     \<Rightarrow> json \<times> pending_call list \<times> protocol_guard_telemetry" where
  "repair_anthropic_use C S conf idx block_idx block pending t =
     (let (block, t) =
            (if non_empty_str (json_get ''id'' block) = None \<and> cf_protocol_guard_synthetic_ids conf
             then (obj_update
                     (obj_insert ''id''
                       (JString (synthetic_anthropic_tool_id C S idx block_idx block))) block,
                   raise_risk ''low''
                     (t\<lparr>gt_synthetic_tool_id_count := inc32 (gt_synthetic_tool_id_count t)\<rparr>))
             else (block, t))
      in (block,
          (case non_empty_str (json_get ''id'' block) of
             Some i \<Rightarrow> pending @ [new_pending idx i] | None \<Rightarrow> pending),
          t))"

definition repair_anthropic_result ::
    "serde \<Rightarrow> config \<Rightarrow> json \<Rightarrow> pending_call list \<Rightarrow> protocol_guard_telemetry
     \<Rightarrow> json \<times> pending_call list \<times> protocol_guard_telemetry" where
  "repair_anthropic_result S conf block pending t =
     (case (case non_empty_str (json_get ''tool_use_id'' block) of
              Some i \<Rightarrow> mark_pending_used i pending
            | None \<Rightarrow> consume_next_pending pending) of
        Some (i, pending) \<Rightarrow>
          let (block, t) =
                (if non_empty_str (json_get ''tool_use_id'' block) = None
                 then (obj_update (obj_insert ''tool_use_id'' (JString i)) block,
                       t\<lparr>gt_missing_tool_use_id_count := inc32 (gt_missing_tool_use_id_count t)\<rparr>)
                 else (block, t));
              t = t\<lparr>gt_paired_tool_result_count := inc32 (gt_paired_tool_result_count t)\<rparr>
          in (block, pending, raise_risk ''low'' t)
      | None \<Rightarrow>
          let t = t\<lparr>gt_orphan_tool_result_count := inc32 (gt_orphan_tool_result_count t)\<rparr>
          in if cf_protocol_guard_orphan_policy conf = Reject
             then (block, pending, raise_risk ''critical'' t)
             else (downgrade_anthropic_tool_result S block, pending,
                   raise_risk ''high''
                     (t\<lparr>gt_downgraded_tool_result_count :=
                          inc32 (gt_downgraded_tool_result_count t)\<rparr>)))"

fun repair_anthropic_blocks ::
    "crypto \<Rightarrow> serde \<Rightarrow> config \<Rightarrow> nat \<Rightarrow> nat \<Rightarrow> json list \<Rightarrow> pending_call list
     \<Rightarrow> protocol_guard_telemetry \<Rightarrow> json list \<times> pending_call list \<times> protocol_guard_telemetry"
where
  "repair_anthropic_blocks C S conf idx block_idx [] pending t = ([], pending, t)"
| "repair_anthropic_blocks C S conf idx block_idx (block # blocks) pending t =
     (let (block, pending, t) =
            (if get_str ''type'' block = Some ''tool_use''
             then repair_anthropic_use C S conf idx block_idx block pending t
             else if get_str ''type'' block = Some ''tool_result''
             then repair_anthropic_result S conf block pending t
             else (block, pending, t));
          (blocks, pending, t) =
            repair_anthropic_blocks C S conf idx (Suc block_idx) blocks pending t
      in (block # blocks, pending, t))"

fun repair_anthropic_loop ::
    "crypto \<Rightarrow> serde \<Rightarrow> config \<Rightarrow> nat \<Rightarrow> json list \<Rightarrow> pending_call list
     \<Rightarrow> protocol_guard_telemetry
     \<Rightarrow> (json list \<times> pending_call list \<times> protocol_guard_telemetry) outcome" where
  "repair_anthropic_loop C S conf idx [] pending t = Done ([], pending, t)"
| "repair_anthropic_loop C S conf idx (message # messages) pending t =
     and_then
       (if json_get ''content'' message = None
        then and_then (index_set ''content'' (JArray []) message)
               (\<lambda>message. Done (message, raise_risk ''low'' (t\<lparr>gt_applied := True\<rparr>)))
        else Done (message, t)) (\<lambda>(message, t).
     let (message, pending, t) =
           (case content_blocks message of
              None \<Rightarrow> (message, pending, t)
            | Some blocks \<Rightarrow>
                let (blocks, pending, t) =
                      repair_anthropic_blocks C S conf idx 0 blocks pending t
                in (obj_update (obj_insert ''content'' (JArray blocks)) message, pending, t))
     in and_then (repair_anthropic_loop C S conf (Suc idx) messages pending t)
          (\<lambda>(messages, pending, t). Done (message # messages, pending, t)))"

definition repair_anthropic ::
    "crypto \<Rightarrow> serde \<Rightarrow> config \<Rightarrow> json \<Rightarrow> protocol_guard_telemetry
     \<Rightarrow> (json \<times> protocol_guard_telemetry) outcome" where
  "repair_anthropic C S conf body t =
     and_then (repair_anthropic_tools body t) (\<lambda>(body, t).
     case messages_of body of
       None \<Rightarrow> Done (body, t)
     | Some messages \<Rightarrow>
         let t = (if length messages > cf_protocol_guard_max_graph_messages conf
                  then raise_risk ''high'' t else t)
         in and_then (repair_anthropic_loop C S conf 0 messages [] t)
              (\<lambda>(messages, pending, t).
                 let (messages, t) = downgrade_unresolved_anthropic_tool_uses pending (messages, t)
                 in Done (obj_update (obj_insert ''messages'' (JArray messages)) body, t)))"

section \<open>The guard\<close>

text \<open>The durations of the three phases and of the whole, as measured, in milliseconds.\<close>

record guard_times =
  tm_scan :: nat
  tm_repair :: nat
  tm_validate :: nat
  tm_total :: nat

definition should_repair :: "protocol_guard_mode \<Rightarrow> bool" where
  "should_repair mode \<longleftrightarrow> mode = Repair"

definition BAD_REQUEST :: nat where
  "BAD_REQUEST = 400"

text \<open>The verdict and the body, which is changed in place.\<close>

definition guard_body ::
    "crypto \<Rightarrow> serde \<Rightarrow> config \<Rightarrow> guard_times \<Rightarrow> string \<Rightarrow> json \<Rightarrow> string \<Rightarrow> guard_phase \<Rightarrow> bool
     \<Rightarrow> ((protocol_guard_reject + protocol_guard_telemetry) \<times> json) outcome" where
  "guard_body C S conf T path body source_client phase force_scan =
     (let t = guard_telemetry_default
                \<lparr>gt_mode := protocol_guard_mode_as_str (cf_protocol_guard_mode conf),
                 gt_source_client := source_client, gt_post_valid := True,
                 gt_quality_risk := ''none''\<rparr>
      in if cf_protocol_guard_mode conf = protocol_guard_mode.Off then Done (Inr t, body)
      else if \<not> force_scan \<and> \<not> body_has_tool_shape path body then Done (Inr t, body)
      else
        let pre_invalid = (count_invalid path body > 0);
            t = t\<lparr>gt_scan_ms := tm_scan T, gt_pre_invalid := pre_invalid,
                  gt_applied := pre_invalid \<or> force_scan,
                  gt_message_count_before := message_count body\<rparr>
        in and_then
             (if should_repair (cf_protocol_guard_mode conf)
              then and_then
                     (if path = ''messages'' then repair_anthropic C S conf body t
                      else repair_openai C S conf body t)
                     (\<lambda>(body, t). Done (body, t\<lparr>gt_repair_ms := tm_repair T\<rparr>))
              else Done (body, t)) (\<lambda>(body, t).
           let t = t\<lparr>gt_validate_ms := tm_validate T,
                     gt_post_valid := (count_invalid path body = 0),
                     gt_message_count_after := message_count body,
                     gt_total_ms := tm_total T\<rparr>;
               t = (if gt_total_ms t > cf_protocol_guard_max_ms conf then raise_risk ''high'' t
                    else t)
           in Done
             (if phase = PostCompact \<and> \<not> gt_post_valid t
                 \<and> cf_protocol_guard_mode conf \<in> {Repair, Strict}
              then Inl \<lparr>pj_status = BAD_REQUEST, pj_message =
                     ''request contains unrecoverable tool-call history after protocol guard''\<rparr>
              else if cf_protocol_guard_mode conf = Strict \<and> gt_pre_invalid t
              then Inl \<lparr>pj_status = BAD_REQUEST,
                        pj_message = ''request contains invalid tool-call history''\<rparr>
              else Inr t, body)))"

end
