(* ===== verification/ContextGovernor.thy ===== *)
theory ContextGovernor
  imports ProtocolGuard
begin

text \<open>
  The context governor of the proxy (\<open>zen-proxy-rs/src/v4/context.rs\<close>): it measures a request
  and, when it is too large, replaces old tool results and long texts by placeholders and then
  collapses the oldest messages, never separating a tool result from its call.  The artifact
  files it writes are collected in \<open>gv_spawned\<close>; whether an artifact exists on disk is an
  argument.  Sizes are those of the rendered JSON (\<open>serde\<close>).
\<close>

section \<open>Data\<close>

definition MIB :: nat where "MIB = 1024 * 1024"

definition PLACEHOLDER_HEAD_CHARS :: nat where "PLACEHOLDER_HEAD_CHARS = 2048"

definition PLACEHOLDER_TAIL_CHARS :: nat where "PLACEHOLDER_TAIL_CHARS = 1024"

definition MAX_TRACE_ITEMS :: nat where "MAX_TRACE_ITEMS = 24"

record context_profile =
  xp_body_bytes :: nat
  xp_estimated_prompt_tokens :: nat
  xp_message_count :: nat
  xp_tools_count :: nat
  xp_largest_message_bytes :: nat
  xp_tool_result_bytes :: nat

datatype context_action = Pass | Warn | ObserveCompact | Compact | CompactPartial

definition context_action_as_str :: "context_action \<Rightarrow> string" where
  "context_action_as_str a =
     (case a of Pass \<Rightarrow> ''pass'' | Warn \<Rightarrow> ''warn'' | ObserveCompact \<Rightarrow> ''observe_compact''
      | Compact \<Rightarrow> ''compact'' | CompactPartial \<Rightarrow> ''compact_partial'')"

record context_reject =
  cj_status :: nat
  cj_message :: string

record artifact_cache_stats =
  ac_mode :: artifact_cache_mode
  ac_hits :: nat
  ac_writes :: nat

definition ArtifactCacheStats_new :: "artifact_cache_mode \<Rightarrow> artifact_cache_stats" where
  "ArtifactCacheStats_new mode = \<lparr>ac_mode = mode, ac_hits = 0, ac_writes = 0\<rparr>"

record artifact_write =
  aw_dir :: string
  aw_hash :: string
  aw_kind :: string
  aw_path :: string
  aw_bytes :: nat
  aw_content :: "string option"
  aw_max_bytes :: nat
  aw_ttl :: nat

record context_plan =
  cp_body :: json
  cp_before :: context_profile
  cp_after :: context_profile
  cp_mode :: compactor_mode
  cp_action :: context_action
  cp_cache :: artifact_cache_stats
  cp_trace :: "string list"

record context_telemetry =
  ct_original_body_bytes :: nat
  ct_effective_body_bytes :: nat
  ct_estimated_prompt_tokens :: nat
  ct_message_count :: nat
  ct_tools_count :: nat
  ct_largest_message_bytes :: nat
  ct_tool_result_bytes :: nat
  ct_mode :: string
  ct_action :: string
  ct_trimmed :: bool
  ct_trimmed_bytes :: nat
  ct_artifact_cache_mode :: string
  ct_artifact_cache_hits :: nat
  ct_artifact_cache_writes :: nat
  ct_trace :: "string list"

definition plan_telemetry :: "context_plan \<Rightarrow> context_telemetry" where
  "plan_telemetry p =
     \<lparr>ct_original_body_bytes = xp_body_bytes (cp_before p),
      ct_effective_body_bytes = xp_body_bytes (cp_after p),
      ct_estimated_prompt_tokens = xp_estimated_prompt_tokens (cp_after p),
      ct_message_count = xp_message_count (cp_before p),
      ct_tools_count = xp_tools_count (cp_before p),
      ct_largest_message_bytes = xp_largest_message_bytes (cp_before p),
      ct_tool_result_bytes = xp_tool_result_bytes (cp_before p),
      ct_mode = compactor_mode_as_str (cp_mode p),
      ct_action = context_action_as_str (cp_action p),
      ct_trimmed = (xp_body_bytes (cp_after p) < xp_body_bytes (cp_before p)),
      ct_trimmed_bytes = xp_body_bytes (cp_before p) - xp_body_bytes (cp_after p),
      ct_artifact_cache_mode = artifact_cache_mode_as_str (ac_mode (cp_cache p)),
      ct_artifact_cache_hits = ac_hits (cp_cache p),
      ct_artifact_cache_writes = ac_writes (cp_cache p),
      ct_trace = cp_trace p\<rparr>"

text \<open>What the steps of the governor change besides the body.\<close>

record governor_state =
  gv_cache :: artifact_cache_stats
  gv_trace :: "string list"
  gv_spawned :: "artifact_write list"

definition push_trace :: "string \<Rightarrow> governor_state \<Rightarrow> governor_state" where
  "push_trace item s =
     (if length (gv_trace s) < MAX_TRACE_ITEMS then s\<lparr>gv_trace := gv_trace s @ [item]\<rparr> else s)"

section \<open>Measuring\<close>

definition serialized_len :: "serde \<Rightarrow> json \<Rightarrow> nat" where
  "serialized_len S v = length (to_string S v)"

definition mb_to_bytes :: "nat \<Rightarrow> nat" where
  "mb_to_bytes mb = sat_mul 64 mb MIB"

definition sha256_hex :: "crypto \<Rightarrow> string \<Rightarrow> string" where
  "sha256_hex C bytes = hex_encode C (sha256 C bytes)"

definition artifact_short_hash :: "string \<Rightarrow> string" where
  "artifact_short_hash h = take 12 h"

definition estimate_text_tokens :: "string \<Rightarrow> nat" where
  "estimate_text_tokens s = max (count_words False (chars_of s)) (div_ceil (length (chars_of s)) 4)"

function context_value_tokens :: "json \<Rightarrow> nat" where
  "context_value_tokens (JString s) = estimate_text_tokens s"
| "context_value_tokens (JArray items) =
     sum_list (map (\<lambda>item. case item of
         JObject m \<Rightarrow>
           (case map_of m ''text'' of Some v \<Rightarrow> context_value_tokens v | None \<Rightarrow> 0)
           + (case map_of m ''content'' of Some v \<Rightarrow> context_value_tokens v | None \<Rightarrow> 0)
           + (case map_of m ''input'' of Some v \<Rightarrow> context_value_tokens v | None \<Rightarrow> 0)
       | _ \<Rightarrow> 0) items)"
| "context_value_tokens (JObject m) = sum_list (map (\<lambda>kv. context_value_tokens (snd kv)) m)"
| "context_value_tokens JNull = 0"
| "context_value_tokens (JBool b) = 0"
| "context_value_tokens (JNumber n) = 0"
  by pat_completeness auto
termination
proof (relation "measure size", goal_cases)
  case (2 items item m v)
  then show ?case using size_json_array [of item items] size_map_of [of m "''text''" v] by auto
next
  case (3 items item m v)
  then show ?case using size_json_array [of item items] size_map_of [of m "''content''" v] by auto
next
  case (4 items item m v)
  then show ?case using size_json_array [of item items] size_map_of [of m "''input''" v] by auto
next
  case (5 m kv)
  then show ?case using size_json_object [of "fst kv" "snd kv" m] by auto
qed simp

abbreviation option_tokens :: "json option \<Rightarrow> nat" where
  "option_tokens v \<equiv> (case v of Some v \<Rightarrow> context_value_tokens v | None \<Rightarrow> 0)"

function value_text_bytes :: "json \<Rightarrow> nat" where
  "value_text_bytes (JString s) = length s"
| "value_text_bytes (JArray items) = sum_list (map value_text_bytes items)"
| "value_text_bytes (JObject m) = sum_list (map (\<lambda>kv. value_text_bytes (snd kv)) m)"
| "value_text_bytes JNull = 0"
| "value_text_bytes (JBool b) = 0"
| "value_text_bytes (JNumber n) = 0"
  by pat_completeness auto
termination
  by (relation "measure size") (auto simp: termination_simp)

definition is_system_like_message :: "json \<Rightarrow> bool" where
  "is_system_like_message m \<longleftrightarrow>
     get_str ''role'' m = Some ''system'' \<or> get_str ''role'' m = Some ''developer''"

definition tool_result_bytes_in_message :: "json \<Rightarrow> nat" where
  "tool_result_bytes_in_message m =
     (case json_get ''content'' m of
        None \<Rightarrow> 0
      | Some content \<Rightarrow>
          if get_str ''role'' m = Some ''tool'' then value_text_bytes content
          else (case content of
                  JArray parts \<Rightarrow>
                    sum_list (map (\<lambda>part.
                        value_text_bytes (unwrap_or JNull (json_get ''content'' part)))
                      (filter (\<lambda>part. get_str ''type'' part = Some ''tool_result'') parts))
                | _ \<Rightarrow> 0))"

definition latest_user_message_index :: "json \<Rightarrow> nat option" where
  "latest_user_message_index body =
     Option.bind (messages_of body) (\<lambda>ms.
       find (\<lambda>i. get_str ''role'' (ms ! i) = Some ''user'') (rev [0..<length ms]))"

definition profile_request :: "serde \<Rightarrow> string \<Rightarrow> json \<Rightarrow> nat \<Rightarrow> context_profile" where
  "profile_request S path body body_bytes =
     (let messages = messages_of body;
          n = length (unwrap_or [] messages) mod 2 ^ 32;
          tools_count =
            length (unwrap_or [] (Option.bind (json_get ''tools'' body) as_array)) mod 2 ^ 32;
          largest = fold max (map (serialized_len S) (unwrap_or [] messages)) 0;
          result_bytes = sum_list (map tool_result_bytes_in_message (unwrap_or [] messages));
          tokens = option_tokens (json_get ''system'' body)
            + sum_list (map (\<lambda>m. option_tokens (json_get ''content'' m)) (unwrap_or [] messages))
            + (case json_get ''tools'' body of
                 Some tools \<Rightarrow> div_ceil (serialized_len S tools) 4 | None \<Rightarrow> 0)
            + (if path = ''messages'' then sat_mul 64 n 4 else 0)
      in \<lparr>xp_body_bytes = body_bytes, xp_estimated_prompt_tokens = tokens,
          xp_message_count = n, xp_tools_count = tools_count,
          xp_largest_message_bytes = largest, xp_tool_result_bytes = result_bytes\<rparr>)"

definition should_warn :: "config \<Rightarrow> context_profile \<Rightarrow> bool" where
  "should_warn conf p \<longleftrightarrow>
     xp_body_bytes p \<ge> mb_to_bytes (cf_context_warn_body_mb conf)
     \<or> xp_estimated_prompt_tokens p \<ge> cf_context_token_warn conf"

definition should_compact :: "config \<Rightarrow> context_profile \<Rightarrow> bool" where
  "should_compact conf p \<longleftrightarrow>
     xp_body_bytes p \<ge> mb_to_bytes (cf_context_compact_body_mb conf)
     \<or> xp_estimated_prompt_tokens p \<ge> cf_context_token_compact conf"

definition body_disables_input_compaction :: "json \<Rightarrow> bool" where
  "body_disables_input_compaction body \<longleftrightarrow>
     get_str ''model'' body \<in> Some ` {''deepseek-v4-flash'', ''deepseek-v4-flash-free'',
       ''big-pickle'', ''mimo-v2.5'', ''mimo-v2.5-free''}"

definition target_body_bytes :: "config \<Rightarrow> nat" where
  "target_body_bytes conf =
     (let target = mb_to_bytes (max (cf_context_target_body_mb conf) 1);
          upstream = mb_to_bytes (max (cf_context_upstream_body_limit_mb conf) 1)
      in min target (max (upstream - 512 * 1024) (512 * 1024)))"

section \<open>Placeholders\<close>

definition take_head :: "string \<Rightarrow> nat \<Rightarrow> string" where
  "take_head s n = take_chars n s"

definition take_tail :: "string \<Rightarrow> nat \<Rightarrow> string" where
  "take_tail s n = take_tail_chars n s"

fun neutralize_markdown_fences :: "string \<Rightarrow> string" where
  "neutralize_markdown_fences [] = []"
| "neutralize_markdown_fences (ch # s) =
     (if ch \<noteq> CHR 0x60 \<and> ch \<noteq> CHR ''~'' then ch # neutralize_markdown_fences s
      else
        let run_len = Suc (length (takeWhile (\<lambda>c. c = ch) s));
            marker = (if ch = CHR 0x60 then ''backticks'' else ''tildes'')
        in (if run_len \<ge> 3 then ''[markdown fence '' @ marker @ '' x'' @ show_nat run_len @ '']''
            else replicate run_len ch)
           @ neutralize_markdown_fences (dropWhile (\<lambda>c. c = ch) s))"

definition maybe_store_artifact ::
    "(string \<Rightarrow> string \<Rightarrow> bool) \<Rightarrow> config \<Rightarrow> string \<Rightarrow> string \<Rightarrow> string \<Rightarrow> string \<Rightarrow> governor_state
     \<Rightarrow> string \<times> governor_state" where
  "maybe_store_artifact exists conf path kind h original s =
     (let mode = cf_zen_artifact_cache_mode conf; cache = gv_cache s
      in if mode = artifact_cache_mode.Off then (''off'', s)
         else if exists (cf_artifact_cache_dir conf) (h @ ''.json'')
         then (''hit'', s\<lparr>gv_cache := cache\<lparr>ac_hits := sat_add 32 (ac_hits cache) 1\<rparr>\<rparr>)
         else (''write'',
               s\<lparr>gv_cache := cache\<lparr>ac_writes := sat_add 32 (ac_writes cache) 1\<rparr>,
                 gv_spawned := gv_spawned s @
                   [\<lparr>aw_dir = cf_artifact_cache_dir conf, aw_hash = h, aw_kind = kind,
                     aw_path = path, aw_bytes = length original,
                     aw_content = (if mode = Full then Some original else None),
                     aw_max_bytes = sat_mul 64 (cf_artifact_cache_max_mb conf) (1024 * 1024),
                     aw_ttl = sat_mul 64 (cf_artifact_cache_ttl_hours conf) 3600\<rparr>]\<rparr>))"

definition replacement_text ::
    "crypto \<Rightarrow> (string \<Rightarrow> string \<Rightarrow> bool) \<Rightarrow> config \<Rightarrow> string \<Rightarrow> string \<Rightarrow> string \<Rightarrow> governor_state
     \<Rightarrow> string \<times> governor_state" where
  "replacement_text C exists conf path kind original s =
     (let h = sha256_hex C original;
          (cache_status, s) = maybe_store_artifact exists conf path kind h original s;
          head = neutralize_markdown_fences (take_head original PLACEHOLDER_HEAD_CHARS);
          tail = neutralize_markdown_fences (take_tail original PLACEHOLDER_TAIL_CHARS);
          s = push_trace (''trimmed kind='' @ kind @ '' bytes='' @ show_nat (length original)
                @ '' sha256='' @ artifact_short_hash h @ '' cache='' @ cache_status) s
      in (''[context compacted: omitted old '' @ kind @ ''; bytes='' @ show_nat (length original)
          @ ''; id='' @ artifact_short_hash h @ ''; cache='' @ cache_status @ '']'' @ [NL]
          @ head @ [NL] @ ''...'' @ [NL] @ tail, s))"

text \<open>What the steps read besides the body.\<close>

record governor_env =
  ge_crypto :: crypto
  ge_serde :: serde
  ge_exists :: "string \<Rightarrow> string \<Rightarrow> bool"
  ge_config :: config
  ge_path :: string

abbreviation replace_text :: "governor_env \<Rightarrow> string \<Rightarrow> string \<Rightarrow> governor_state
    \<Rightarrow> string \<times> governor_state" where
  "replace_text G kind \<equiv>
     replacement_text (ge_crypto G) (ge_exists G) (ge_config G) (ge_path G) kind"

section \<open>Trimming\<close>

text \<open>The value of the key \<open>text\<close> of a part is replaced when it is a long string.\<close>

definition trim_part_text ::
    "governor_env \<Rightarrow> nat \<Rightarrow> string \<Rightarrow> json \<Rightarrow> governor_state \<Rightarrow> json \<times> governor_state" where
  "trim_part_text G threshold kind part s =
     (case json_get ''text'' part of
        Some (JString t) \<Rightarrow>
          if length t > threshold
          then let (r, s) = replace_text G kind t s
               in (obj_update (obj_insert ''text'' (JString r)) part, s)
          else (part, s)
      | _ \<Rightarrow> (part, s))"

function trim_large_text_value ::
    "governor_env \<Rightarrow> nat \<Rightarrow> string \<Rightarrow> json \<Rightarrow> governor_state \<Rightarrow> json \<times> governor_state"
  and trim_parts ::
    "governor_env \<Rightarrow> nat \<Rightarrow> string \<Rightarrow> json list \<Rightarrow> governor_state \<Rightarrow> json list \<times> governor_state"
where
  "trim_large_text_value G threshold kind (JString t) s =
     (if length t > threshold
      then let (r, s) = replace_text G kind t s in (JString r, s)
      else (JString t, s))"
| "trim_large_text_value G threshold kind (JArray parts) s =
     (let (parts, s) = trim_parts G threshold kind parts s in (JArray parts, s))"
| "trim_large_text_value G threshold kind JNull s = (JNull, s)"
| "trim_large_text_value G threshold kind (JBool b) s = (JBool b, s)"
| "trim_large_text_value G threshold kind (JNumber n) s = (JNumber n, s)"
| "trim_large_text_value G threshold kind (JObject m) s = (JObject m, s)"
| "trim_parts G threshold kind [] s = ([], s)"
| "trim_parts G threshold kind (part # parts) s =
     (let (part', s) = trim_part_text G threshold kind part s;
          (part', s) =
            (case part of
               JObject m \<Rightarrow>
                 (case map_of m ''content'' of
                    Some content \<Rightarrow>
                      let (content, s) = trim_large_text_value G threshold kind content s
                      in (obj_update (obj_insert ''content'' content) part', s)
                  | None \<Rightarrow> (part', s))
             | _ \<Rightarrow> (part', s));
          (parts', s) = trim_parts G threshold kind parts s
      in (part' # parts', s))"
  by pat_completeness auto
termination
  by (relation "measure (\<lambda>x. case x of Inl (G, thr, kind, v, s) \<Rightarrow> size v
        | Inr (G, thr, kind, parts, s) \<Rightarrow> size_list size parts)")
     (auto simp: less_Suc_eq_le dest!: size_map_of)

definition trim_content_value ::
    "governor_env \<Rightarrow> string \<Rightarrow> json \<Rightarrow> governor_state \<Rightarrow> json \<times> governor_state" where
  "trim_content_value G kind v s =
     trim_large_text_value G (max (cf_context_large_chunk_bytes (ge_config G)) 1024) kind v s"

fun trim_result_parts ::
    "governor_env \<Rightarrow> json list \<Rightarrow> governor_state \<Rightarrow> json list \<times> governor_state" where
  "trim_result_parts G [] s = ([], s)"
| "trim_result_parts G (part # parts) s =
     (let (part, s) =
            (if get_str ''type'' part = Some ''tool_result''
             then (case json_get ''content'' part of
                     Some v \<Rightarrow>
                       let (v, s) = trim_content_value G ''anthropic_tool_result'' v s
                       in (obj_update (obj_insert ''content'' v) part, s)
                   | None \<Rightarrow> (part, s))
             else (part, s));
          (parts, s) = trim_result_parts G parts s
      in (part # parts, s))"

fun trim_tool_result_blocks ::
    "governor_env \<Rightarrow> json \<Rightarrow> governor_state \<Rightarrow> json \<times> governor_state" where
  "trim_tool_result_blocks G (JArray parts) s =
     (let (parts, s) = trim_result_parts G parts s in (JArray parts, s))"
| "trim_tool_result_blocks G v s = (v, s)"

text \<open>
  The loop of both trimming steps: \<open>f\<close> rewrites the content of every message before the latest
  one of the user that is not the system's.
\<close>

fun rewrite_old_contents ::
    "(json \<Rightarrow> json \<Rightarrow> governor_state \<Rightarrow> json \<times> governor_state) \<Rightarrow> nat option \<Rightarrow> nat \<Rightarrow> json list
     \<Rightarrow> governor_state \<Rightarrow> json list \<times> governor_state" where
  "rewrite_old_contents f latest idx [] s = ([], s)"
| "rewrite_old_contents f latest idx (m # ms) s =
     (let (m, s) =
            (if (case latest of Some l \<Rightarrow> idx \<ge> l | None \<Rightarrow> False) \<or> is_system_like_message m
             then (m, s)
             else (case json_get ''content'' m of
                     Some content \<Rightarrow>
                       let (content, s) = f m content s
                       in (obj_update (obj_insert ''content'' content) m, s)
                   | None \<Rightarrow> (m, s)));
          (ms, s) = rewrite_old_contents f latest (Suc idx) ms s
      in (m # ms, s))"

definition rewrite_messages ::
    "(json \<Rightarrow> json \<Rightarrow> governor_state \<Rightarrow> json \<times> governor_state) \<Rightarrow> json \<Rightarrow> governor_state
     \<Rightarrow> json \<times> governor_state" where
  "rewrite_messages f body s =
     (case messages_of body of
        None \<Rightarrow> (body, s)
      | Some ms \<Rightarrow>
          let (ms, s) = rewrite_old_contents f (latest_user_message_index body) 0 ms s
          in (obj_update (obj_insert ''messages'' (JArray ms)) body, s))"

definition compact_old_tool_results ::
    "governor_env \<Rightarrow> json \<Rightarrow> governor_state \<Rightarrow> json \<times> governor_state" where
  "compact_old_tool_results G =
     rewrite_messages (\<lambda>m content s.
       if get_str ''role'' m = Some ''tool''
       then trim_content_value G ''openai_tool_message'' content s
       else trim_tool_result_blocks G content s)"

definition compact_old_large_text ::
    "governor_env \<Rightarrow> json \<Rightarrow> governor_state \<Rightarrow> json \<times> governor_state" where
  "compact_old_large_text G =
     (let threshold =
            max (sat_mul 64 (cf_context_large_chunk_bytes (ge_config G)) 2) (64 * 1024)
      in rewrite_messages (\<lambda>m. trim_large_text_value G threshold ''old_message_text''))"

section \<open>Collapsing the oldest messages\<close>

definition trimmed_id :: "string \<Rightarrow> json \<Rightarrow> string option" where
  "trimmed_id k v = map_option trim (get_str k v)"

definition non_empty_id :: "string \<Rightarrow> json \<Rightarrow> string option" where
  "non_empty_id k v =
     (case trimmed_id k v of Some i \<Rightarrow> if i \<noteq> [] then Some i else None | None \<Rightarrow> None)"

text \<open>The first message before \<open>split_at\<close> with the property, or \<open>split_at\<close>.\<close>

definition first_before :: "(json \<Rightarrow> bool) \<Rightarrow> json list \<Rightarrow> nat \<Rightarrow> nat" where
  "first_before P messages split_at =
     fold (\<lambda>(idx, m) adjusted. if P m then min adjusted idx else adjusted)
       (enumerate 0 (take split_at messages)) split_at"

definition recent_openai_ids :: "json list \<Rightarrow> string list" where
  "recent_openai_ids messages =
     List.map_filter (\<lambda>m.
         if get_str ''role'' m = Some ''tool'' then non_empty_id ''tool_call_id'' m else None)
       messages"

definition has_recent_call :: "string list \<Rightarrow> json \<Rightarrow> bool" where
  "has_recent_call recent m =
     (case Option.bind (json_get ''tool_calls'' m) as_array of
        None \<Rightarrow> False
      | Some calls \<Rightarrow>
          list_ex (\<lambda>call. case trimmed_id ''id'' call of
              Some i \<Rightarrow> i \<in> set recent | None \<Rightarrow> False) calls)"

definition openai_pair_aware_split_at :: "json list \<Rightarrow> nat \<Rightarrow> nat" where
  "openai_pair_aware_split_at messages split_at =
     (let recent = recent_openai_ids (drop split_at messages)
      in if recent = [] then split_at
         else first_before (has_recent_call recent) messages split_at)"

definition recent_anthropic_ids :: "json list \<Rightarrow> string list" where
  "recent_anthropic_ids messages =
     List.map_filter (\<lambda>block.
         if get_str ''type'' block = Some ''tool_result''
         then non_empty_id ''tool_use_id'' block else None)
       (concat (map (\<lambda>m. unwrap_or [] (content_blocks m)) messages))"

definition has_recent_use :: "string list \<Rightarrow> json \<Rightarrow> bool" where
  "has_recent_use recent m =
     list_ex (\<lambda>block.
         get_str ''type'' block = Some ''tool_use''
         \<and> (case trimmed_id ''id'' block of Some i \<Rightarrow> i \<in> set recent | None \<Rightarrow> False))
       (unwrap_or [] (content_blocks m))"

definition anthropic_pair_aware_split_at :: "json list \<Rightarrow> nat \<Rightarrow> nat" where
  "anthropic_pair_aware_split_at messages split_at =
     (let recent = recent_anthropic_ids (drop split_at messages)
      in if recent = [] then split_at
         else first_before (has_recent_use recent) messages split_at)"

definition pair_aware_split_at :: "json list \<Rightarrow> nat \<Rightarrow> nat" where
  "pair_aware_split_at messages split_at =
     (let adjusted = min split_at (length messages);
          adjusted = min adjusted (openai_pair_aware_split_at messages adjusted)
      in min adjusted (anthropic_pair_aware_split_at messages adjusted))"

definition collapse_old_prefix ::
    "governor_env \<Rightarrow> json \<Rightarrow> governor_state \<Rightarrow> json \<times> governor_state" where
  "collapse_old_prefix G body s =
     (case messages_of body of
        None \<Rightarrow> (body, s)
      | Some messages \<Rightarrow>
          let preserve_recent = max (cf_context_preserve_recent_messages (ge_config G)) 1
          in if length messages \<le> wrap_add 64 preserve_recent 2 then (body, s)
             else
               let split_at = pair_aware_split_at messages (length messages - preserve_recent)
               in if split_at = 0
                  then (body, push_trace
                     ''collapsed old prefix skipped: tool-call pair crossed preserve boundary'' s)
                  else
                    let old_prefix = take split_at messages;
                        old_bytes = serialized_len (ge_serde G) (JArray old_prefix);
                        old_hash = sha256_hex (ge_crypto G)
                          (to_string (ge_serde G) (JArray old_prefix));
                        kept = filter is_system_like_message old_prefix;
                        omitted_count = length old_prefix - length kept;
                        placeholder =
                          (if omitted_count > 0
                           then [json_object
                             [(''role'', JString ''user''),
                              (''content'', JString (''[context compacted: omitted ''
                                 @ show_nat omitted_count @ '' older messages; bytes=''
                                 @ show_nat old_bytes @ ''; id=''
                                 @ artifact_short_hash old_hash @ '']''))]]
                           else [])
                    in (obj_update (obj_insert ''messages''
                          (JArray (kept @ placeholder @ drop split_at messages))) body,
                        push_trace (''collapsed old prefix omitted_messages=''
                          @ show_nat omitted_count @ '' old_bytes='' @ show_nat old_bytes) s))"

section \<open>The governor\<close>

definition PAYLOAD_TOO_LARGE :: nat where "PAYLOAD_TOO_LARGE = 413"

text \<open>The plan, and the artifacts to write.\<close>

definition govern_request ::
    "governor_env \<Rightarrow> json \<Rightarrow> nat \<Rightarrow> context_reject + (context_plan \<times> artifact_write list)" where
  "govern_request G body original_body_bytes =
     (let conf = ge_config G; S = ge_serde G; path = ge_path G;
          before = profile_request S path body original_body_bytes;
          mode = cf_zen_compactor_mode conf;
          s = \<lparr>gv_cache = ArtifactCacheStats_new (cf_zen_artifact_cache_mode conf), gv_trace = [],
               gv_spawned = []\<rparr>;
          s = push_trace (''profile body='' @ show_nat (xp_body_bytes before)
                @ '' tokens='' @ show_nat (xp_estimated_prompt_tokens before)
                @ '' messages='' @ show_nat (xp_message_count before)
                @ '' tools='' @ show_nat (xp_tools_count before)
                @ '' tool_result_bytes='' @ show_nat (xp_tool_result_bytes before)) s;
          unchanged = (\<lambda>action s.
            Inr (\<lparr>cp_body = body, cp_before = before, cp_after = before, cp_mode = mode,
                  cp_action = action, cp_cache = gv_cache s, cp_trace = gv_trace s\<rparr>, gv_spawned s));
          quiet = (if should_warn conf before then Warn else Pass)
      in if mode = compactor_mode.Off then unchanged quiet s
         else if \<not> should_compact conf before then unchanged quiet s
         else if body_disables_input_compaction body
         then unchanged Warn (push_trace
           ''model disables ZenProxy input compaction/token wall; body left unchanged'' s)
         else if mode = compactor_mode.Observe
         then unchanged ObserveCompact (push_trace
           ''observe mode: request would be compacted, body left unchanged'' s)
         else
           let target_bytes = target_body_bytes conf;
               target_tokens = max (cf_context_token_target conf) 1;
               measure_body = (\<lambda>b. profile_request S path b (serialized_len S b));
               (compacted, s) = compact_old_tool_results G body s;
               current = measure_body compacted;
               (compacted, s) =
                 (if xp_body_bytes current > target_bytes
                     \<or> xp_estimated_prompt_tokens current > target_tokens
                  then compact_old_large_text G compacted s else (compacted, s));
               current = measure_body compacted;
               (compacted, s) =
                 (if xp_body_bytes current > target_bytes
                  then collapse_old_prefix G compacted s else (compacted, s));
               current = measure_body compacted;
               upstream_limit = mb_to_bytes (max (cf_context_upstream_body_limit_mb conf) 1)
           in if xp_body_bytes current > upstream_limit
              then Inl \<lparr>cj_status = PAYLOAD_TOO_LARGE, cj_message =
                ''request is too large after safe compaction: original=''
                @ show_nat (xp_body_bytes before) @ '' effective=''
                @ show_nat (xp_body_bytes current) @ '' upstream_limit='' @ show_nat upstream_limit\<rparr>
              else if xp_estimated_prompt_tokens current > target_tokens
              then Inl \<lparr>cj_status = PAYLOAD_TOO_LARGE, cj_message =
                ''request is too large after safe compaction: original_tokens=''
                @ show_nat (xp_estimated_prompt_tokens before) @ '' effective_tokens=''
                @ show_nat (xp_estimated_prompt_tokens current) @ '' token_target=''
                @ show_nat target_tokens\<rparr>
              else
                let s = push_trace (''compaction result body='' @ show_nat (xp_body_bytes current)
                      @ '' tokens='' @ show_nat (xp_estimated_prompt_tokens current)
                      @ '' trimmed='' @ show_nat (xp_body_bytes before - xp_body_bytes current)) s
                in Inr (\<lparr>cp_body = compacted, cp_before = before, cp_after = current,
                         cp_mode = mode,
                         cp_action = (if xp_body_bytes current \<le> target_bytes then Compact
                                      else CompactPartial),
                         cp_cache = gv_cache s, cp_trace = gv_trace s\<rparr>, gv_spawned s))"

section \<open>The cache directory\<close>

text \<open>
  The directory after one write: files older than the time to live go, then the oldest until the
  rest fits.  Each file has a name, the time of its last change and a size; \<open>removable\<close> says
  whether the file system lets it be removed.
\<close>

record cached_file =
  ca_name :: string
  ca_modified :: nat
  ca_size :: nat

definition expired :: "nat \<Rightarrow> nat \<Rightarrow> cached_file \<Rightarrow> bool" where
  "expired now ttl f \<longleftrightarrow> ca_modified f \<le> now \<and> now - ca_modified f > ttl \<and> ttl > 0"

fun evict :: "(cached_file \<Rightarrow> bool) \<Rightarrow> nat \<Rightarrow> nat \<Rightarrow> cached_file list \<Rightarrow> cached_file list" where
  "evict removable max_bytes sum_bytes [] = []"
| "evict removable max_bytes sum_bytes (f # fs) =
     (if sum_bytes \<le> max_bytes then f # fs
      else if removable f then evict removable max_bytes (sum_bytes - ca_size f) fs
      else f # evict removable max_bytes sum_bytes fs)"

definition cleanup_cache_dir ::
    "(cached_file \<Rightarrow> bool) \<Rightarrow> nat \<Rightarrow> cached_file list \<Rightarrow> nat \<Rightarrow> nat \<Rightarrow> cached_file list" where
  "cleanup_cache_dir removable now entries max_bytes ttl =
     (let stuck = filter (\<lambda>f. expired now ttl f \<and> \<not> removable f) entries;
          files = filter (\<lambda>f. \<not> expired now ttl f) entries;
          sum_bytes = foldl (sat_add 64) 0 (map ca_size files)
      in if max_bytes = 0 \<or> sum_bytes \<le> max_bytes then stuck @ files
         else stuck @ evict removable max_bytes sum_bytes (sort_key ca_modified files))"

end
