(* ===== verification/ProtocolGuardCorrect.thy ===== *)
theory ProtocolGuardCorrect
  imports ProtocolGuard
begin

text \<open>
  What the protocol guard achieves: the histories it accepts, that one pass repairs a history
  whose stray results come after the calls before them are answered, and that two passes, which
  the proxy runs, repair any history whose calls carry identifiers that are distinct per message.
\<close>

section \<open>Trimming is idempotent\<close>

lemma drop_ws_done: "f (map of_char (take 3 (drop_ws f s))) = 0"
  if "f [] = 0" for f :: "nat list \<Rightarrow> nat"
  using that
proof (induction f s rule: drop_ws.induct)
  case (1 f s)
  then show ?case
    by (subst drop_ws.simps) (cases "s = []"; simp add: Let_def)
qed

lemma drop_ws_suffix: "suffix (drop_ws f s) s"
proof (induction f s rule: drop_ws.induct)
  case (1 f s)
  then show ?case
    by (subst drop_ws.simps) (auto simp: Let_def intro: suffix_order.trans suffix_drop)
qed

lemma trim_trim [simp]: "trim (trim s) = trim s"
proof -
  let ?t = "trim_start s"
  have "ws_len (map of_char ?t) = 0"
    using drop_ws_done [of ws_len s] by (simp add: trim_start_def)
  moreover obtain y where "?t = trim_end ?t @ y"
    using drop_ws_suffix [of ws_len_rev "rev ?t"]
    by (metis rev_append rev_rev_ident suffix_def trim_end_def)
  ultimately have "ws_len (map of_char (trim s)) = 0"
    using ws_len_append [of "map of_char (trim s)"] by (metis map_append not_gr0 trim_def)
  moreover have "ws_len_rev (map of_char (take 3 (rev (trim s)))) = 0"
    using drop_ws_done [of ws_len_rev "rev ?t"] by (simp add: trim_def trim_end_def)
  ultimately show ?thesis by (rule trim_unchanged)
qed

section \<open>The contract of a history\<close>

text \<open>
  The identifiers a message opens and the one it answers.  An identifier may be missing.
\<close>

abbreviation role :: "json \<Rightarrow> string option" where
  "role \<equiv> get_str ''role''"

definition calls_of :: "json \<Rightarrow> json list option" where
  "calls_of m = Option.bind (json_get ''tool_calls'' m) as_array"

definition call_id :: "json \<Rightarrow> string option" where
  "call_id call = non_empty_str (json_get ''id'' call)"

definition result_id :: "json \<Rightarrow> string option" where
  "result_id m = non_empty_str (json_get ''tool_call_id'' m)"

definition opened :: "json \<Rightarrow> string option list" where
  "opened m = (case calls_of m of Some calls \<Rightarrow> map call_id calls | None \<Rightarrow> [])"

text \<open>
  The contract of the upstream protocol: a result answers an open call, and only results stand
  between calls and their results.  The value is the list of calls left open.
\<close>

fun answers :: "string list \<Rightarrow> json list \<Rightarrow> string list option" where
  "answers u [] = Some u"
| "answers u (m # ms) =
     (if role m = Some ''tool''
      then (case result_id m of
              Some i \<Rightarrow> if i \<in> set u then answers (remove1 i u) ms else None
            | None \<Rightarrow> None)
      else if u \<noteq> [] then None
      else if role m = Some ''assistant''
      then (if None \<notin> set (opened m) then answers (map the (opened m)) ms else None)
      else answers [] ms)"

lemma answers_append:
  "answers u (a @ b) = Option.bind (answers u a) (\<lambda>v. answers v b)"
  by (induction u a rule: answers.induct) (auto split: option.splits)

lemma non_empty_str_trimmed: "non_empty_str v = Some i \<Longrightarrow> trim i = i \<and> i \<noteq> []"
  by (auto simp: non_empty_str_def split: option.splits if_splits)

lemma non_empty_str_None [simp]: "non_empty_str None = None"
  by (simp add: non_empty_str_def)

lemma non_empty_str_self: "trim i = i \<Longrightarrow> i \<noteq> [] \<Longrightarrow> non_empty_str (Some (JString i)) = Some i"
  by (simp add: non_empty_str_def)

section \<open>Open calls\<close>

text \<open>The unused entries of \<open>pending\<close> are calls of message \<open>k\<close> with these identifiers.\<close>

abbreviation opens :: "pending_call list \<Rightarrow> nat \<Rightarrow> string list \<Rightarrow> bool" where
  "opens P k ids \<equiv> filter (\<lambda>p. \<not> pc_used p) P = map (new_pending k) ids"

lemma new_pending_simps [simp]:
  "pc_id (new_pending k i) = i" "pc_message_index (new_pending k i) = k"
  "pc_used (new_pending k i) = False"
  by (simp_all add: new_pending_def)

lemma opens_Nil: "opens P k [] \<longleftrightarrow> list_all pc_used P"
  by (auto simp: filter_empty_conv list_all_iff)

lemma opens_unresolved: "opens P k ids \<Longrightarrow> unresolved P = length ids"
  by simp

lemma opens_none: "opens P k ids \<Longrightarrow> (\<not> list_all pc_used P) = (ids \<noteq> [])"
  by (metis filter_empty_conv list_all_iff map_is_Nil_conv)

lemma new_pending_inj: "new_pending k i = new_pending k j \<longleftrightarrow> i = j"
  by (simp add: new_pending_def)

lemma mark_pending_used_opens:
  "opens P k ids \<Longrightarrow>
     (case mark_pending_used i P of
        Some (j, P') \<Rightarrow> j = i \<and> i \<in> set ids \<and> opens P' k (remove1 i ids)
      | None \<Rightarrow> i \<notin> set ids)"
proof (induction P arbitrary: ids)
  case (Cons p P)
  show ?case
  proof (cases "pc_used p")
    case True
    with Cons show ?thesis by (force split: option.splits)
  next
    case False
    then obtain j ids' where ids: "ids = j # ids'" "p = new_pending k j" "opens P k ids'"
      using Cons.prems by (cases ids) auto
    from Cons.IH [OF ids(3)] ids show ?thesis by (force split: option.splits)
  qed
qed simp

lemma consume_next_pending_opens:
  "opens P k ids \<Longrightarrow>
     (case consume_next_pending P of
        Some (j, P') \<Rightarrow> ids \<noteq> [] \<and> j = hd ids \<and> opens P' k (tl ids)
      | None \<Rightarrow> ids = [])"
proof (induction P arbitrary: ids)
  case (Cons p P)
  show ?case
  proof (cases "pc_used p")
    case True
    with Cons show ?thesis by (force split: option.splits)
  next
    case False
    then obtain j ids' where "ids = j # ids'" "p = new_pending k j" "opens P k ids'"
      using Cons.prems by (cases ids) auto
    then show ?thesis by simp
  qed
qed simp

section \<open>The count accepts every history of the contract\<close>

lemma count_calls_present:
  "None \<notin> set (map call_id calls) \<Longrightarrow>
     fold (\<lambda>call. count_call n (non_empty_str (json_get ''id'' call))) calls (k, P)
     = (k, P @ map (new_pending n) (map (the \<circ> call_id) calls))"
proof (induction calls arbitrary: P)
  case (Cons call calls)
  then obtain i where "non_empty_str (json_get ''id'' call) = Some i"
    by (cases "call_id call") (auto simp: call_id_def)
  with Cons show ?case by (simp add: count_call_def call_id_def)
qed simp

lemma count_answers:
  "opens P k u \<Longrightarrow> answers u ms = Some v \<Longrightarrow>
     \<exists>P' k'. fold count_openai_message (enumerate n ms) (0, P) = (0, P') \<and> opens P' k' v"
proof (induction u ms arbitrary: P k n rule: answers.induct)
  case (1 u)
  then show ?case by auto
next
  case (2 u m ms)
  show ?case
  proof (cases "role m = Some ''tool''")
    case True
    with 2(5) obtain i where i: "result_id m = Some i" "i \<in> set u" "answers (remove1 i u) ms = Some v"
      by (auto split: option.splits if_splits)
    with mark_pending_used_opens [OF 2(4), of i]
    obtain P' where "mark_pending_used i P = Some (i, P')" "opens P' k (remove1 i u)"
      by (auto split: option.splits)
    with 2(1) [OF True i(1,2)] i True show ?thesis
      by (simp add: count_openai_message_def count_result_def result_id_def)
  next
    case nt: False
    with 2(5) have u: "u = []" by (auto split: if_splits)
    with 2(4) have used: "list_all pc_used P" using opens_Nil by metis
    show ?thesis
    proof (cases "role m = Some ''assistant''")
      case True
      with 2(5) u have a: "None \<notin> set (opened m)" "answers (map the (opened m)) ms = Some v"
        by (auto split: if_splits)
      show ?thesis
      proof (cases "calls_of m")
        case None
        with 2(2) [OF nt _ True a(1), of P k] 2(4) u a(2) nt True used show ?thesis
          by (simp add: count_openai_message_def opened_def calls_of_def)
      next
        case (Some calls)
        let ?ids = "map (the \<circ> call_id) calls"
        from a(1) Some have "None \<notin> set (map call_id calls)" by (simp add: opened_def)
        from count_calls_present [OF this]
        have step: "count_openai_message (n, m) (0, P) = (0, P @ map (new_pending n) ?ids)"
          using True used Some by (simp add: count_openai_message_def calls_of_def)
        have "opens (P @ map (new_pending n) ?ids) n (map the (opened m))"
          using used Some by (auto simp: opened_def filter_empty_conv list_all_iff)
        then obtain P' k' where "fold count_openai_message (enumerate (Suc n) ms)
            (0, P @ map (new_pending n) ?ids) = (0, P')" "opens P' k' v"
          using 2(2) [OF nt _ True a(1) _ a(2)] u by blast
        with step show ?thesis by auto
      qed
    next
      case False
      with 2(3) [OF nt _ False] 2(4,5) u nt used show ?thesis
        by (simp add: count_openai_message_def)
    qed
  qed
qed

lemma answered_is_valid:
  assumes "messages_of body = Some ms" and "answers [] ms = Some []"
  shows "count_invalid_openai body = 0"
proof -
  obtain P k where "fold count_openai_message (enumerate 0 ms) (0, []) = (0, P)" "opens P k []"
    using count_answers [of "[]" 0 "[]" ms "[]" 0] assms(2) by auto
  with assms(1) show ?thesis
    by (simp add: count_invalid_openai_def sat_add_def)
qed

section \<open>Dropping the calls left open\<close>

lemma get_str_obj_insert:
  "get_str k (JObject (obj_insert k' v m)) = (if k = k' then as_str v else get_str k (JObject m))"
  by (simp add: map_of_obj_insert)

lemma remdups_const: "remdups (map (\<lambda>x. k) xs) = (if xs = [] then [] else [k])"
  by (induction xs) (auto simp: image_constant_conv)

lemma opens_indices:
  assumes "opens P k ids"
  shows "unresolved_indices P = (if ids = [] then [] else [k])"
    and "unresolved_ids P k = set ids"
proof -
  have "unresolved_indices P = remdups (map (\<lambda>x. k) ids)"
    using arg_cong [OF assms, of "map pc_message_index"] by (simp add: unresolved_indices_def o_def)
  then show "unresolved_indices P = (if ids = [] then [] else [k])" by (simp add: remdups_const)
  have "unresolved_ids P k = pc_id ` {p \<in> set (filter (\<lambda>p. \<not> pc_used p) P). pc_message_index p = k}"
    by (auto simp: unresolved_ids_def)
  also have "{p \<in> set (filter (\<lambda>p. \<not> pc_used p) P). pc_message_index p = k}
      = new_pending k ` set ids" unfolding assms by auto
  also have "pc_id ` \<dots> = set ids" by (simp add: image_image)
  finally show "unresolved_ids P k = set ids" .
qed

lemma filter_calls_ids:
  "map call_id calls = map Some ids \<Longrightarrow>
     map call_id (filter (\<lambda>call. case call_id call of Some i \<Rightarrow> i \<notin> U | None \<Rightarrow> False) calls)
     = map Some (filter (\<lambda>i. i \<notin> U) ids)"
proof (induction calls arbitrary: ids)
  case (Cons call calls)
  then obtain i ids' where "ids = i # ids'" "call_id call = Some i" "map call_id calls = map Some ids'"
    by (cases ids) auto
  with Cons.IH show ?case by auto
qed simp

lemma calls_of_Some:
  assumes "calls_of m = Some calls"
  obtains obj where "m = JObject obj" "map_of obj ''tool_calls'' = Some (JArray calls)"
proof -
  obtain v where v: "json_get ''tool_calls'' m = Some v" "as_array v = Some calls"
    using assms by (auto simp: calls_of_def bind_eq_Some_conv)
  moreover from v(2) have "v = JArray calls" by (cases v) auto
  moreover from v(1) obtain obj where "m = JObject obj" by (cases m) auto
  ultimately show ?thesis using that by auto
qed

lemma drop_open_calls_opened:
  assumes "calls_of m = Some calls" and "opened m = map Some ids"
    and "m' = fst (drop_open_calls U m t)"
  shows "role m' = role m \<and> opened m' = map Some (filter (\<lambda>i. i \<notin> U) ids)
    \<and> set (unwrap_or [] (calls_of m')) \<subseteq> set calls"
proof -
  obtain obj where m: "m = JObject obj" "map_of obj ''tool_calls'' = Some (JArray calls)"
    by (rule calls_of_Some [OF assms(1)])
  let ?cs = "filter (\<lambda>call. case call_id call of Some i \<Rightarrow> i \<notin> U | None \<Rightarrow> False) calls"
  have ids: "map call_id ?cs = map Some (filter (\<lambda>i. i \<notin> U) ids)"
    using assms(1,2) by (intro filter_calls_ids) (simp add: opened_def)
  have m': "m' = (if ?cs = []
      then obj_update (\<lambda>m. let m = AList.delete ''tool_calls'' m
             in if map_of m ''content'' \<in> {None, Some JNull, Some (JString [])}
                then obj_insert ''content'' (JString RECOVERED_CALL) m else m) m
      else obj_update (obj_insert ''tool_calls'' (JArray ?cs)) m)"
    using assms(1) by (simp add: assms(3) drop_open_calls_def call_id_def calls_of_def Let_def)
  show ?thesis
  proof (cases "?cs = []")
    case True
    with ids have "filter (\<lambda>i. i \<notin> U) ids = []" by auto
    with True m' m show ?thesis
      by (simp add: opened_def calls_of_def Let_def map_of_obj_insert AList.delete_conv')
  next
    case False
    with ids m' m show ?thesis
      by (auto simp: opened_def calls_of_def map_of_obj_insert)
  qed
qed

lemma downgrade_none:
  "opens P k [] \<Longrightarrow> downgrade_unresolved_openai_tool_calls P st = st"
  by (simp add: downgrade_unresolved_openai_tool_calls_def opens_indices [of P k "[]", simplified])

lemma downgrade_at:
  assumes "opens P (length a) ids" and "ids \<noteq> []"
  shows "fst (downgrade_unresolved_openai_tool_calls P (a @ m # b, t))
    = a @ fst (drop_open_calls (set ids) m t) # b"
  using assms opens_indices [OF assms(1)]
  by (simp add: downgrade_unresolved_openai_tool_calls_def split: prod.splits)

section \<open>The shape of calls\<close>

text \<open>The identifier a call has after its shape was ensured.\<close>

definition effective_id :: "crypto \<Rightarrow> serde \<Rightarrow> config \<Rightarrow> nat \<Rightarrow> nat \<Rightarrow> json \<Rightarrow> string option" where
  "effective_id C S conf idx j call =
     (case call_id call of
        Some i \<Rightarrow> Some i
      | None \<Rightarrow>
          if cf_protocol_guard_synthetic_ids conf
          then non_empty_str (Some (JString (synthetic_openai_tool_id C S idx j call))) else None)"

definition callable :: "json \<Rightarrow> bool" where
  "callable call \<longleftrightarrow> call = JNull \<or> as_object call \<noteq> None"

lemma as_object_Some [simp]: "as_object v = Some obj \<longleftrightarrow> v = JObject obj"
  by (cases v) auto

lemma ensure_openai_function_done:
  "\<exists>obj'. ensure_openai_function S (JObject obj) = Done (JObject obj')"
  by (auto simp: ensure_openai_function_def split: option.splits)

lemma ensure_openai_call_kind_done:
  "\<exists>obj'. ensure_openai_call_kind S (JObject obj) = Done (JObject obj')
     \<and> map_of obj' ''id'' = map_of obj ''id''"
proof -
  obtain obj1 where 1: "(if json_get ''type'' (JObject obj) = None
      then index_set ''type'' (JString ''function'') (JObject obj) else Done (JObject obj))
      = Done (JObject obj1)" "map_of obj1 ''id'' = map_of obj ''id''"
    by (cases "map_of obj ''type''") (auto simp: map_of_obj_insert)
  obtain obj2 f where 2: "(if Option.bind (json_get ''function'' (JObject obj1)) as_object = None
      then index_set ''function''
        (json_object [(''name'', JString ''unknown_tool''), (''arguments'', JString ''{}'')])
        (JObject obj1) else Done (JObject obj1)) = Done (JObject obj2)"
      "map_of obj2 ''function'' = Some (JObject f)" "map_of obj2 ''id'' = map_of obj1 ''id''"
    by (cases "Option.bind (map_of obj1 ''function'') as_object")
       (auto simp: map_of_obj_insert json_object_def bind_eq_Some_conv)
  obtain f' where "ensure_openai_function S (JObject f) = Done (JObject f')"
    using ensure_openai_function_done by blast
  with 1 2 show ?thesis
    by (auto simp: ensure_openai_call_kind_def map_of_obj_insert)
qed

lemma ensure_shape_done:
  assumes "callable call" and "effective_id C S conf idx j call = Some i"
  shows "\<exists>obj t'. ensure_openai_tool_call_shape C S conf idx j (call, t) = Done (JObject obj, t')
    \<and> call_id (JObject obj) = Some i"
proof -
  obtain obj t1 where 1: "(if non_empty_str (json_get ''id'' call) = None
        \<and> cf_protocol_guard_synthetic_ids conf
      then and_then
             (index_set ''id'' (JString (synthetic_openai_tool_id C S idx j call)) call)
             (\<lambda>call. Done (call, raise_risk ''low''
               (t\<lparr>gt_synthetic_tool_id_count := inc32 (gt_synthetic_tool_id_count t)\<rparr>)))
      else Done (call, t)) = Done (JObject obj, t1)"
      "non_empty_str (map_of obj ''id'') = Some i"
    using assms
    by (auto simp: callable_def effective_id_def call_id_def map_of_obj_insert
             split: option.splits if_splits)
  obtain obj' where "ensure_openai_call_kind S (JObject obj) = Done (JObject obj')"
      "map_of obj' ''id'' = map_of obj ''id''"
    using ensure_openai_call_kind_done by blast
  with 1 show ?thesis by (simp add: ensure_openai_tool_call_shape_def call_id_def)
qed

fun effective_ids :: "crypto \<Rightarrow> serde \<Rightarrow> config \<Rightarrow> nat \<Rightarrow> nat \<Rightarrow> json list \<Rightarrow> string option list" where
  "effective_ids C S conf idx j [] = []"
| "effective_ids C S conf idx j (call # calls) =
     effective_id C S conf idx j call # effective_ids C S conf idx (Suc j) calls"

lemma ensure_calls_done:
  "list_all callable calls \<Longrightarrow> effective_ids C S conf idx j calls = map Some ids \<Longrightarrow>
     \<exists>calls' t'. ensure_openai_tool_calls C S conf idx j calls P t
         = Done (calls', P @ map (new_pending idx) ids, t')
       \<and> map call_id calls' = map Some ids \<and> list_all callable calls'"
proof (induction calls arbitrary: j P t ids)
  case (Cons call calls)
  then obtain i ids' where i: "ids = i # ids'" "effective_id C S conf idx j call = Some i"
      "effective_ids C S conf idx (Suc j) calls = map Some ids'"
    by (cases ids) auto
  obtain obj t1 where 1: "ensure_openai_tool_call_shape C S conf idx j (call, t) = Done (JObject obj, t1)"
      "call_id (JObject obj) = Some i"
    using ensure_shape_done [OF _ i(2)] Cons.prems(1) by fastforce
  obtain calls' t2 where "ensure_openai_tool_calls C S conf idx (Suc j) calls
        (P @ [new_pending idx i]) t1 = Done (calls', (P @ [new_pending idx i]) @ map (new_pending idx) ids', t2)"
      "map call_id calls' = map Some ids'" "list_all callable calls'"
    using Cons.IH [OF _ i(3)] Cons.prems(1) by fastforce
  with 1 i(1) show ?case
    by (simp add: call_id_def [of "JObject obj"] callable_def [of "JObject obj"])
qed simp

section \<open>One step of the repair\<close>

abbreviation trimmed :: "string list \<Rightarrow> bool" where
  "trimmed u \<equiv> \<forall>i \<in> set u. trim i = i \<and> i \<noteq> []"

lemma opened_trimmed: "opened m = map Some ids \<Longrightarrow> trimmed ids"
proof
  fix i assume "opened m = map Some ids" "i \<in> set ids"
  then have "Some i \<in> set (opened m)" by simp
  then obtain call where "call_id call = Some i"
    by (auto simp: opened_def split: option.splits)
  then show "trim i = i \<and> i \<noteq> []" using non_empty_str_trimmed by (simp add: call_id_def)
qed

definition dropped :: "string set \<Rightarrow> json \<Rightarrow> json" where
  "dropped U m = fst (drop_open_calls U m guard_telemetry_default)"

lemma dropped_eq: "fst (drop_open_calls U m t) = dropped U m"
  by (simp add: dropped_def drop_open_calls_def Let_def split: option.splits)

text \<open>The messages after the open calls \<open>u\<close> of message \<open>k\<close> were dropped.\<close>

definition close_calls :: "nat \<Rightarrow> string list \<Rightarrow> json list \<Rightarrow> json list" where
  "close_calls k u ms = (if u = [] then ms else ms[k := dropped (set u) (ms ! k)])"

lemma length_close_calls [simp]: "length (close_calls k u ms) = length ms"
  by (simp add: close_calls_def)

lemma downgrade_close:
  assumes "opens P k u" and "u = [] \<or> k < length earlier"
  obtains t' where "downgrade_unresolved_openai_tool_calls P (earlier, t) = (close_calls k u earlier, t')"
proof -
  have "fst (downgrade_unresolved_openai_tool_calls P (earlier, t)) = close_calls k u earlier"
  proof (cases "u = []")
    case True
    then show ?thesis using assms(1) downgrade_none [of P k] by (simp add: close_calls_def)
  next
    case False
    with assms opens_indices [OF assms(1)] show ?thesis
      by (simp add: downgrade_unresolved_openai_tool_calls_def close_calls_def dropped_eq
            split: prod.splits) (metis dropped_eq fst_conv)
  qed
  then show ?thesis using that by (metis prod.collapse)
qed

text \<open>Before a message that is not a result, the open calls are dropped.\<close>

lemma close_before:
  assumes "opens P k u" and "u = [] \<or> k < length earlier"
  obtains P' t' where "opens P' k []"
    and "(if \<not> list_all pc_used P
          then let (earlier, t) = downgrade_unresolved_openai_tool_calls P (earlier, t)
               in (earlier, [], t)
          else (earlier, P, t)) = (close_calls k u earlier, P', t')"
proof (cases "u = []")
  case True
  then show ?thesis using that [of P t] assms(1) opens_none [OF assms(1)]
    by (simp add: close_calls_def)
next
  case False
  obtain t' where "downgrade_unresolved_openai_tool_calls P (earlier, t) = (close_calls k u earlier, t')"
    by (rule downgrade_close [OF assms])
  then show ?thesis using that [of "[]" t'] opens_none [OF assms(1)] False by simp
qed

lemma loop_end:
  assumes "opens P k u" and "u = [] \<or> k < length earlier"
  shows "\<exists>t'. repair_openai_loop C S conf earlier P t [] = Done (close_calls k u earlier, t')"
proof -
  obtain t' where "downgrade_unresolved_openai_tool_calls P (earlier, t) = (close_calls k u earlier, t')"
    by (rule downgrade_close [OF assms])
  then show ?thesis by simp
qed

lemma loop_other:
  assumes "opens P k u" and "u = [] \<or> k < length earlier"
    and "role m \<noteq> Some ''tool''" and "role m \<noteq> Some ''assistant''"
  shows "\<exists>P' t'. opens P' k [] \<and>
    repair_openai_loop C S conf earlier P t (m # ms)
    = repair_openai_loop C S conf (close_calls k u earlier @ [m]) P' t' ms"
proof -
  obtain P' t' where "opens P' k []" "(if \<not> list_all pc_used P
          then let (earlier, t) = downgrade_unresolved_openai_tool_calls P (earlier, t)
               in (earlier, [], t)
          else (earlier, P, t)) = (close_calls k u earlier, P', t')"
    by (rule close_before [OF assms(1,2)])
  with assms(3,4) show ?thesis by (intro exI [of _ P'] exI [of _ t']) simp
qed

definition eff :: "crypto \<Rightarrow> serde \<Rightarrow> config \<Rightarrow> nat \<Rightarrow> json \<Rightarrow> string option list" where
  "eff C S conf n m =
     (case calls_of m of Some calls \<Rightarrow> effective_ids C S conf n 0 calls | None \<Rightarrow> [])"

definition good_calls :: "json \<Rightarrow> string list \<Rightarrow> bool" where
  "good_calls m ids \<longleftrightarrow>
     opened m = map Some ids \<and> distinct ids \<and> list_all callable (unwrap_or [] (calls_of m))"

lemma content_null:
  "calls_of (obj_update (obj_insert ''content'' JNull) m) = calls_of m"
  "role (obj_update (obj_insert ''content'' JNull) m) = role m"
  by (cases m; simp add: calls_of_def map_of_obj_insert)+

lemma loop_assistant:
  assumes "opens P k u" and "u = [] \<or> k < length earlier"
    and "role m = Some ''assistant''"
    and "list_all callable (unwrap_or [] (calls_of m))"
    and "eff C S conf (length earlier) m = map Some ids" and "distinct ids"
  shows "\<exists>m' P' t'. role m' = Some ''assistant'' \<and> good_calls m' ids
    \<and> opens P' (length earlier) ids
    \<and> repair_openai_loop C S conf earlier P t (m # ms)
      = repair_openai_loop C S conf (close_calls k u earlier @ [m']) P' t' ms"
proof -
  obtain P0 t0 where 0: "opens P0 k []" "(if \<not> list_all pc_used P
          then let (earlier, t) = downgrade_unresolved_openai_tool_calls P (earlier, t)
               in (earlier, [], t)
          else (earlier, P, t)) = (close_calls k u earlier, P0, t0)"
    by (rule close_before [OF assms(1,2)])
  obtain m1 t1 where 1: "(if json_get ''content'' m = None
      then (obj_update (obj_insert ''content'' JNull) m, raise_risk ''low'' (t0\<lparr>gt_applied := True\<rparr>))
      else (m, t0)) = (m1, t1)" "calls_of m1 = calls_of m" "role m1 = role m"
    using content_null by (cases "json_get ''content'' m = None") auto
  show ?thesis
  proof (cases "calls_of m")
    case None
    with assms(5) have "ids = []" by (simp add: eff_def)
    moreover from this None 1(2) have "good_calls m1 ids" by (simp add: good_calls_def opened_def)
    moreover have "repair_openai_loop C S conf earlier P t (m # ms)
      = repair_openai_loop C S conf (close_calls k u earlier @ [m1]) P0 t1 ms"
      using 0(2) 1 None assms(3) by (simp add: calls_of_def)
    ultimately show ?thesis using 0(1) 1(3) assms(3) by auto
  next
    case (Some calls)
    obtain calls' t2 where 2: "ensure_openai_tool_calls C S conf (length earlier) 0 calls P0 t1
        = Done (calls', P0 @ map (new_pending (length earlier)) ids, t2)"
        "map call_id calls' = map Some ids" "list_all callable calls'"
      using ensure_calls_done [of calls C S conf "length earlier" 0 ids P0 t1] assms(4,5) Some
      by (auto simp: eff_def)
    let ?m = "obj_update (obj_insert ''tool_calls'' (JArray calls')) m1"
    obtain obj where "m1 = JObject obj"
      using calls_of_Some [of m1 calls] 1(2) Some by metis
    then have m: "calls_of ?m = Some calls'" "role ?m = role m1"
      by (simp_all add: calls_of_def map_of_obj_insert)
    then have "good_calls ?m ids" using 2(2,3) assms(6) by (simp add: good_calls_def opened_def)
    moreover have "opens (P0 @ map (new_pending (length earlier)) ids) (length earlier) ids"
      using 0(1) by (simp add: filter_empty_conv)
    moreover have "repair_openai_loop C S conf earlier P t (m # ms)
      = repair_openai_loop C S conf (close_calls k u earlier @ [?m])
          (P0 @ map (new_pending (length earlier)) ids) t2 ms"
      using 0(2) 1 2(1) Some assms(3) by (simp add: calls_of_def)
    moreover have "role ?m = Some ''assistant''" using m(2) 1(3) assms(3) by simp
    ultimately show ?thesis by blast
  qed
qed

lemma role_downgraded: "role (downgrade_openai_tool_message S m) = Some ''user''"
  if "role m = Some ''tool''"
  using that
  by (cases m) (auto simp: downgrade_openai_tool_message_def map_of_obj_insert AList.delete_conv')

definition matched :: "string list \<Rightarrow> json \<Rightarrow> string option" where
  "matched u m =
     (case result_id m of
        Some i \<Rightarrow> if i \<in> set u then Some i else None
      | None \<Rightarrow> (case u of [] \<Rightarrow> None | i # _ \<Rightarrow> Some i))"

lemma loop_tool:
  assumes "opens P k u" and "trimmed u" and "role m = Some ''tool''"
    and "cf_protocol_guard_orphan_policy conf = Downgrade"
  shows "\<exists>m' P' u' t'. opens P' k u'
    \<and> repair_openai_loop C S conf earlier P t (m # ms)
      = repair_openai_loop C S conf (earlier @ [m']) P' t' ms
    \<and> (case matched u m of
         Some i \<Rightarrow> i \<in> set u \<and> role m' = Some ''tool'' \<and> result_id m' = Some i \<and> u' = remove1 i u
       | None \<Rightarrow> role m' = Some ''user'' \<and> u' = u)"
proof -
  obtain m' P' t' where r: "repair_openai_result S conf m P t = (m', P', t')"
    by (metis prod_cases3)
  have "\<exists>u'. opens P' k u'
    \<and> (case matched u m of
         Some i \<Rightarrow> i \<in> set u \<and> role m' = Some ''tool'' \<and> result_id m' = Some i \<and> u' = remove1 i u
       | None \<Rightarrow> role m' = Some ''user'' \<and> u' = u)"
  proof (cases "matched u m")
    case None
    then have "(case result_id m of Some i \<Rightarrow> mark_pending_used i P | None \<Rightarrow> consume_next_pending P) = None"
      using mark_pending_used_opens [OF assms(1), of "the (result_id m)"]
        consume_next_pending_opens [OF assms(1)]
      by (cases "result_id m") (auto simp: matched_def split: option.splits list.splits if_splits)
    with r assms(1,3,4) None show ?thesis
      by (auto simp: repair_openai_result_def result_id_def Let_def role_downgraded)
  next
    case (Some i)
    obtain Q where Q: "(case result_id m of Some i \<Rightarrow> mark_pending_used i P
        | None \<Rightarrow> consume_next_pending P) = Some (i, Q)" "opens Q k (remove1 i u)" "i \<in> set u"
    proof (cases "result_id m")
      case None
      with Some consume_next_pending_opens [OF assms(1)] that show ?thesis
        by (auto simp: matched_def split: option.splits list.splits)
    next
      case (Some j)
      with \<open>matched u m = Some i\<close> mark_pending_used_opens [OF assms(1), of i] that show ?thesis
        by (auto simp: matched_def split: option.splits if_splits)
    qed
    obtain obj where m: "m = JObject obj" using assms(3) by (cases m) auto
    have "non_empty_str (Some (JString i)) = Some i"
      using Q(3) assms(2) by (intro non_empty_str_self) auto
    with m Some have "role m' = Some ''tool'' \<and> result_id m' = Some i \<and> P' = Q"
      using r Q(1) assms(3)
      by (auto simp: repair_openai_result_def result_id_def Let_def map_of_obj_insert matched_def
               split: if_splits option.splits)
    with Q(2,3) Some show ?thesis by auto
  qed
  moreover have "repair_openai_loop C S conf earlier P t (m # ms)
      = repair_openai_loop C S conf (earlier @ [m']) P' t' ms"
    using assms(3) r by simp
  ultimately show ?thesis by blast
qed

section \<open>One pass repairs an orderly history\<close>

text \<open>Every call has an identifier, or gets one, and those of a message are distinct.\<close>

definition well_called :: "crypto \<Rightarrow> serde \<Rightarrow> config \<Rightarrow> nat \<Rightarrow> json \<Rightarrow> bool" where
  "well_called C S conf n m \<longleftrightarrow>
     (role m = Some ''assistant'' \<longrightarrow>
        list_all callable (unwrap_or [] (calls_of m))
        \<and> None \<notin> set (eff C S conf n m) \<and> distinct (eff C S conf n m))"

text \<open>
  The calls left open by a history in which a result that answers nothing comes only when
  nothing is open; \<open>None\<close> when such a result comes earlier.
\<close>

fun settle ::
    "(nat \<Rightarrow> json \<Rightarrow> string option list) \<Rightarrow> string list \<Rightarrow> nat \<Rightarrow> json list \<Rightarrow> string list option"
where
  "settle e u n [] = Some u"
| "settle e u n (m # ms) =
     (if role m = Some ''tool''
      then (case matched u m of
              Some i \<Rightarrow> settle e (remove1 i u) (Suc n) ms
            | None \<Rightarrow> if u = [] then settle e [] (Suc n) ms else None)
      else if role m = Some ''assistant'' then settle e (map the (e n m)) (Suc n) ms
      else settle e [] (Suc n) ms)"

lemma settle_append:
  "settle e u n (a @ b) = Option.bind (settle e u n a) (\<lambda>v. settle e v (n + length a) b)"
  by (induction e u n a rule: settle.induct) (auto split: option.splits)

lemma map_the_Some: "None \<notin> set xs \<Longrightarrow> map Some (map the xs) = xs"
  by (induction xs) auto

lemma answers_filter:
  "distinct ids \<Longrightarrow> answers ids tools = Some w \<Longrightarrow> list_all (\<lambda>m. role m = Some ''tool'') tools
   \<Longrightarrow> U \<subseteq> set w \<Longrightarrow>
     answers (filter (\<lambda>i. i \<notin> U) ids) tools = Some (filter (\<lambda>i. i \<notin> U) w)
     \<and> set w \<subseteq> set ids \<and> distinct w"
proof (induction tools arbitrary: ids)
  case (Cons m tools)
  then obtain i where i: "result_id m = Some i" "i \<in> set ids" "answers (remove1 i ids) tools = Some w"
    by (auto split: option.splits if_splits)
  from Cons.prems(1,3,4) have "distinct (remove1 i ids)" "list_all (\<lambda>m. role m = Some ''tool'') tools"
    "U \<subseteq> set w" by simp_all
  with Cons.IH [OF _ i(3)] have IH: "answers (filter (\<lambda>i. i \<notin> U) (remove1 i ids)) tools
      = Some (filter (\<lambda>i. i \<notin> U) w)" "set w \<subseteq> set (remove1 i ids)" "distinct w" by simp_all
  with \<open>U \<subseteq> set w\<close> have "i \<notin> U" using Cons.prems(1) by auto
  moreover have "filter (\<lambda>i. i \<notin> U) (remove1 i ids) = remove1 i (filter (\<lambda>i. i \<notin> U) ids)"
    by (induction ids) auto
  ultimately show ?case using IH i Cons.prems(1,3) by (auto dest: notin_set_remove1)
qed auto

definition one_segment :: "json list \<Rightarrow> nat \<Rightarrow> string list \<Rightarrow> bool" where
  "one_segment earlier k u \<longleftrightarrow>
     (u = [] \<and> answers [] earlier = Some [])
     \<or> (\<exists>a m tools ids. earlier = a @ m # tools \<and> k = length a \<and> answers [] a = Some []
          \<and> role m = Some ''assistant'' \<and> good_calls m ids \<and> answers ids tools = Some u
          \<and> list_all (\<lambda>m. role m = Some ''tool'') tools)"

lemma dropped_calls:
  assumes "good_calls m ids" and "ids \<noteq> []"
  shows "role (dropped U m) = role m \<and> good_calls (dropped U m) (filter (\<lambda>i. i \<notin> U) ids)"
proof -
  obtain calls where calls: "calls_of m = Some calls"
    using assms by (cases "calls_of m") (auto simp: good_calls_def opened_def)
  from assms(1) have o: "opened m = map Some ids" by (simp add: good_calls_def)
  note d = drop_open_calls_opened [OF calls o dropped_def]
  with assms(1) calls have "list_all callable (unwrap_or [] (calls_of (dropped U m)))"
    by (auto simp: good_calls_def list_all_iff)
  with d assms(1) show ?thesis by (simp add: good_calls_def)
qed

lemma answers_good:
  "good_calls m ids \<Longrightarrow> role m = Some ''assistant'' \<Longrightarrow> answers [] (m # ms) = answers ids ms"
  by (auto simp: good_calls_def comp_def)

lemma one_segment_bound: "one_segment earlier k u \<Longrightarrow> u = [] \<or> k < length earlier"
  by (auto simp: one_segment_def)

lemma one_segment_close:
  assumes "one_segment earlier k u"
  shows "answers [] (close_calls k u earlier) = Some []"
proof (cases "u = []")
  case True
  from assms have "answers [] earlier = Some u"
    unfolding one_segment_def by (auto simp: answers_append answers_good simp del: answers.simps(2))
  with True show ?thesis by (simp add: close_calls_def)
next
  case False
  with assms obtain a m tools ids where s: "earlier = a @ m # tools" "k = length a"
      "answers [] a = Some []" "role m = Some ''assistant''" "good_calls m ids"
      "answers ids tools = Some u" "list_all (\<lambda>m. role m = Some ''tool'') tools"
    by (auto simp: one_segment_def)
  then have d: "distinct ids" by (simp add: good_calls_def)
  have f: "answers (filter (\<lambda>i. i \<notin> set u) ids) tools = Some []" "set u \<subseteq> set ids"
    using answers_filter [OF d s(6,7), of "set u"] by simp_all
  with False have "ids \<noteq> []" by auto
  from dropped_calls [OF s(5) this, of "set u"] s(4)
  have "good_calls (dropped (set u) m) (filter (\<lambda>i. i \<notin> set u) ids)"
    "role (dropped (set u) m) = Some ''assistant''" by simp_all
  from answers_good [OF this, of tools] f(1)
  have "answers [] (dropped (set u) m # tools) = Some []" by (rule trans)
  with s(1-3) False show ?thesis
    by (simp add: close_calls_def answers_append del: answers.simps(2))
qed

lemma one_pass_loop:
  assumes "cf_protocol_guard_orphan_policy conf = Downgrade"
  shows "\<lbrakk>one_segment earlier k u; opens P k u; trimmed u;
      \<forall>(n, m) \<in> set (enumerate (length earlier) ms). well_called C S conf n m;
      settle (eff C S conf) u (length earlier) ms \<noteq> None\<rbrakk>
    \<Longrightarrow> \<exists>ms' t'. repair_openai_loop C S conf earlier P t ms = Done (ms', t')
        \<and> answers [] ms' = Some []"
proof (induction ms arbitrary: earlier k u P t)
  case Nil
  from loop_end [OF Nil.prems(2) one_segment_bound [OF Nil.prems(1)]] one_segment_close [OF Nil.prems(1)]
  show ?case by fastforce
next
  case (Cons m ms)
  note b = one_segment_bound [OF Cons.prems(1)]
  have closed: "answers [] (close_calls k u earlier) = Some []"
    by (rule one_segment_close [OF Cons.prems(1)])
  show ?case
  proof (cases "role m = Some ''tool''")
    case True
    obtain m' P' u' t' where s: "opens P' k u'"
        "repair_openai_loop C S conf earlier P t (m # ms)
         = repair_openai_loop C S conf (earlier @ [m']) P' t' ms"
        "case matched u m of
           Some i \<Rightarrow> i \<in> set u \<and> role m' = Some ''tool'' \<and> result_id m' = Some i \<and> u' = remove1 i u
         | None \<Rightarrow> role m' = Some ''user'' \<and> u' = u"
      using loop_tool [OF Cons.prems(2,3) True assms] by blast
    have "one_segment (earlier @ [m']) k u' \<and> trimmed u' \<and>
        settle (eff C S conf) u' (length (earlier @ [m'])) ms \<noteq> None"
    proof (cases "matched u m")
      case None
      with Cons.prems(5) True have "u = []" by (auto split: if_splits)
      with None s(3) Cons.prems(1,5) True closed show ?thesis
        by (simp add: one_segment_def close_calls_def answers_append)
    next
      case (Some i)
      with s(3) have i: "i \<in> set u" "role m' = Some ''tool''" "result_id m' = Some i" "u' = remove1 i u"
        by simp_all
      from i(1) Cons.prems(1) obtain a x tools ids where "earlier = a @ x # tools" "k = length a"
          "answers [] a = Some []" "role x = Some ''assistant''" "good_calls x ids"
          "answers ids tools = Some u" "list_all (\<lambda>m. role m = Some ''tool'') tools"
        by (auto simp: one_segment_def)
      then have "one_segment (earlier @ [m']) k u'" unfolding one_segment_def using i
        by (intro disjI2 exI [of _ a] exI [of _ x] exI [of _ "tools @ [m']"] exI [of _ ids])
           (simp add: answers_append)
      moreover have "trimmed u'" using Cons.prems(3) i(4) by (auto dest: notin_set_remove1)
      ultimately show ?thesis using Cons.prems(5) True Some i(4) by simp
    qed
    with Cons.IH [OF _ s(1), where t = t'] Cons.prems(4) s(2) show ?thesis by simp
  next
    case nt: False
    show ?thesis
    proof (cases "role m = Some ''assistant''")
      case True
      let ?ids = "map the (eff C S conf (length earlier) m)"
      from Cons.prems(4) True have w: "list_all callable (unwrap_or [] (calls_of m))"
          "None \<notin> set (eff C S conf (length earlier) m)" "distinct (eff C S conf (length earlier) m)"
        by (auto simp: well_called_def)
      then have ids: "eff C S conf (length earlier) m = map Some ?ids" by (metis map_the_Some)
      with w(3) have "distinct ?ids" by (metis distinct_map)
      from loop_assistant [OF Cons.prems(2) b True w(1) ids this, where t = t and ms = ms]
      obtain m' P' t' where s: "role m' = Some ''assistant''" "good_calls m' ?ids"
          "opens P' (length earlier) ?ids" "repair_openai_loop C S conf earlier P t (m # ms)
           = repair_openai_loop C S conf (close_calls k u earlier @ [m']) P' t' ms" by blast
      have "one_segment (close_calls k u earlier @ [m']) (length earlier) ?ids"
        unfolding one_segment_def using s(1,2) closed
        by (intro disjI2 exI [of _ "close_calls k u earlier"] exI [of _ m'] exI [of _ "[]"]
              exI [of _ ?ids]) simp
      moreover have "trimmed ?ids"
        using opened_trimmed [of m' ?ids] s(2) unfolding good_calls_def by blast
      moreover have "settle (eff C S conf) ?ids (length (close_calls k u earlier @ [m'])) ms \<noteq> None"
        using Cons.prems(5) True by simp
      ultimately show ?thesis using Cons.IH [OF _ s(3), where t = t'] Cons.prems(4) s(4) by simp
    next
      case False
      obtain P' t' where s: "opens P' k []" "repair_openai_loop C S conf earlier P t (m # ms)
          = repair_openai_loop C S conf (close_calls k u earlier @ [m]) P' t' ms"
        using loop_other [OF Cons.prems(2) b nt False] by blast
      have "one_segment (close_calls k u earlier @ [m]) k []"
        using closed nt False by (simp add: one_segment_def answers_append)
      moreover have "settle (eff C S conf) [] (length (close_calls k u earlier @ [m])) ms \<noteq> None"
        using Cons.prems(5) nt False by simp
      ultimately show ?thesis using Cons.IH [OF _ s(1), where t = t'] Cons.prems(4) s(2) by simp
    qed
  qed
qed

section \<open>One pass makes any history orderly\<close>

lemma effective_ids_known:
  "None \<notin> set (map call_id calls) \<Longrightarrow> effective_ids C S conf n j calls = map call_id calls"
  by (induction calls arbitrary: j) (auto simp: effective_id_def split: option.splits)

lemma eff_good:
  assumes "good_calls m ids"
  shows "eff C S conf n m = map Some ids"
proof (cases "calls_of m")
  case (Some calls)
  with assms have "map call_id calls = map Some ids" by (simp add: good_calls_def opened_def)
  moreover from this have "None \<notin> set (map call_id calls)" by simp
  from effective_ids_known [OF this]
  have "effective_ids C S conf n 0 calls = map call_id calls" .
  ultimately show ?thesis using Some by (simp add: eff_def)
qed (use assms in \<open>simp add: good_calls_def opened_def eff_def\<close>)

text \<open>A message of the repaired history.\<close>

definition tidy :: "json \<Rightarrow> bool" where
  "tidy m \<longleftrightarrow>
     (role m = Some ''assistant'' \<longrightarrow> (\<exists>ids. good_calls m ids))
     \<and> (role m = Some ''tool'' \<longrightarrow> result_id m \<noteq> None)"

lemma tidy_well_called: "tidy m \<Longrightarrow> well_called C S conf n m"
  using eff_good [of m _ C S conf n]
  by (auto simp: tidy_def well_called_def good_calls_def distinct_map)

lemma settle_answered:
  "answers u tools = Some w \<Longrightarrow> list_all (\<lambda>m. role m = Some ''tool'') tools \<Longrightarrow>
     settle e u n tools = Some w"
  by (induction u tools arbitrary: n rule: answers.induct)
     (auto simp: matched_def split: option.splits if_splits)

lemma settle_idle:
  "list_all (\<lambda>m. tidy m \<and> role m \<noteq> Some ''assistant'') ms \<Longrightarrow> settle e [] n ms = Some []"
  by (induction ms arbitrary: n) (auto simp: matched_def tidy_def split: option.splits)

lemma settle_rest:
  assumes "list_all (\<lambda>m. tidy m \<and> role m \<noteq> Some ''assistant'') rest"
    and "rest \<noteq> [] \<longrightarrow> role (hd rest) \<noteq> Some ''tool''"
  shows "settle e v n rest \<noteq> None"
proof (cases rest)
  case (Cons r rest')
  with assms have "role r \<noteq> Some ''tool''" "role r \<noteq> Some ''assistant''"
    "settle e [] (Suc n) rest' = Some []" using settle_idle by auto
  with Cons show ?thesis by simp
qed simp

text \<open>
  The history repaired so far: the open calls \<open>u\<close> are calls of message \<open>k\<close>, after which come
  results that answer its calls and then, from the first stray result on, other messages.
\<close>

definition orderly_so_far ::
    "(nat \<Rightarrow> json \<Rightarrow> string option list) \<Rightarrow> json list \<Rightarrow> nat \<Rightarrow> string list \<Rightarrow> bool" where
  "orderly_so_far e earlier k u \<longleftrightarrow>
     list_all tidy earlier
     \<and> ((u = [] \<and> settle e [] 0 earlier \<noteq> None)
        \<or> (\<exists>a m tools rest ids w. earlier = a @ m # tools @ rest \<and> k = length a
             \<and> settle e [] 0 a \<noteq> None \<and> role m = Some ''assistant'' \<and> good_calls m ids
             \<and> answers ids tools = Some w \<and> list_all (\<lambda>m. role m = Some ''tool'') tools
             \<and> set u \<subseteq> set w \<and> (rest = [] \<longrightarrow> u = w)
             \<and> list_all (\<lambda>m. tidy m \<and> role m \<noteq> Some ''assistant'') rest
             \<and> (rest \<noteq> [] \<longrightarrow> role (hd rest) \<noteq> Some ''tool'')))"

lemma orderly_bound: "orderly_so_far e earlier k u \<Longrightarrow> u = [] \<or> k < length earlier"
  by (auto simp: orderly_so_far_def)

lemma settle_segment:
  assumes "settle (eff C S conf) [] 0 a \<noteq> None" and "role m = Some ''assistant''"
    and "good_calls m ids" and "answers ids tools = Some w"
    and "list_all (\<lambda>m. role m = Some ''tool'') tools"
    and "list_all (\<lambda>m. tidy m \<and> role m \<noteq> Some ''assistant'') rest"
    and "rest \<noteq> [] \<longrightarrow> role (hd rest) \<noteq> Some ''tool''"
  shows "settle (eff C S conf) [] 0 (a @ m # tools @ rest) \<noteq> None"
proof -
  obtain v where v: "settle (eff C S conf) [] 0 a = Some v" using assms(1) by blast
  have "settle (eff C S conf) v n (m # tools @ rest) \<noteq> None" for n
    using assms(2) eff_good [OF assms(3)] settle_answered [OF assms(4,5)] settle_rest [OF assms(6,7)]
    by (simp add: settle_append comp_def)
  with v show ?thesis by (simp add: settle_append del: settle.simps(2))
qed

lemma orderly_close:
  assumes "orderly_so_far (eff C S conf) earlier k u"
  shows "list_all tidy (close_calls k u earlier)
    \<and> settle (eff C S conf) [] 0 (close_calls k u earlier) \<noteq> None"
proof -
  have tidy: "list_all tidy earlier" using assms by (simp add: orderly_so_far_def)
  show ?thesis
  proof (cases "u = [] \<and> settle (eff C S conf) [] 0 earlier \<noteq> None")
    case True
    with tidy show ?thesis by (simp add: close_calls_def)
  next
    case False
    with assms obtain a m tools rest ids w where s: "earlier = a @ m # tools @ rest" "k = length a"
        "settle (eff C S conf) [] 0 a \<noteq> None" "role m = Some ''assistant''" "good_calls m ids"
        "answers ids tools = Some w" "list_all (\<lambda>m. role m = Some ''tool'') tools"
        "set u \<subseteq> set w" "list_all (\<lambda>m. tidy m \<and> role m \<noteq> Some ''assistant'') rest"
        "rest \<noteq> [] \<longrightarrow> role (hd rest) \<noteq> Some ''tool''"
      unfolding orderly_so_far_def by blast
    show ?thesis
    proof (cases "u = []")
      case True
      with tidy s(1) settle_segment [OF s(3-7,9,10)] show ?thesis by (simp add: close_calls_def)
    next
      case ne: False
      have d: "distinct ids" using s(5) by (simp add: good_calls_def)
      have f: "answers (filter (\<lambda>i. i \<notin> set u) ids) tools = Some (filter (\<lambda>i. i \<notin> set u) w)"
          "set w \<subseteq> set ids"
        using answers_filter [OF d s(6,7,8)] by simp_all
      with ne s(8) have "ids \<noteq> []" by auto
      from dropped_calls [OF s(5) this, of "set u"] s(4)
      have g: "role (dropped (set u) m) = Some ''assistant''"
          "good_calls (dropped (set u) m) (filter (\<lambda>i. i \<notin> set u) ids)" by simp_all
      have "close_calls k u earlier = a @ dropped (set u) m # tools @ rest"
        using ne s(1,2) by (simp add: close_calls_def)
      with settle_segment [OF s(3) g f(1) s(7,9,10)] tidy s(1) g show ?thesis
        by (auto simp: tidy_def)
    qed
  qed
qed

lemma tidy_user: "role m \<noteq> Some ''tool'' \<Longrightarrow> role m \<noteq> Some ''assistant'' \<Longrightarrow> tidy m"
  by (simp add: tidy_def)

lemma orderly_idle:
  assumes "list_all tidy earlier" and "settle e [] 0 earlier \<noteq> None"
    and "role m \<noteq> Some ''tool''" and "role m \<noteq> Some ''assistant''"
  shows "orderly_so_far e (earlier @ [m]) k []"
  using assms tidy_user by (auto simp: orderly_so_far_def settle_append)

lemma orderly_tool:
  assumes "orderly_so_far e earlier k u"
    and "case matched u m of
           Some i \<Rightarrow> i \<in> set u \<and> role m' = Some ''tool'' \<and> result_id m' = Some i \<and> u' = remove1 i u
         | None \<Rightarrow> role m' = Some ''user'' \<and> u' = u"
  shows "orderly_so_far e (earlier @ [m']) k u'"
proof (cases "u = [] \<and> settle e [] 0 earlier \<noteq> None")
  case True
  with assms have "role m' = Some ''user''" "u' = []" "list_all tidy earlier"
    by (auto simp: orderly_so_far_def split: option.splits)
  with True orderly_idle [of earlier e m' k] show ?thesis by simp
next
  case False
  with assms(1) obtain a x tools rest ids w where s: "earlier = a @ x # tools @ rest" "k = length a"
      "settle e [] 0 a \<noteq> None" "role x = Some ''assistant''" "good_calls x ids"
      "answers ids tools = Some w" "list_all (\<lambda>m. role m = Some ''tool'') tools"
      "set u \<subseteq> set w" "rest = [] \<longrightarrow> u = w"
      "list_all (\<lambda>m. tidy m \<and> role m \<noteq> Some ''assistant'') rest"
      "rest \<noteq> [] \<longrightarrow> role (hd rest) \<noteq> Some ''tool''"
    and t: "list_all tidy earlier"
    unfolding orderly_so_far_def by blast
  have m': "tidy m'" "role m' \<noteq> Some ''assistant''" "set u' \<subseteq> set u"
    using assms(2) set_remove1_subset by (fastforce simp: tidy_def split: option.splits)+
  show ?thesis
  proof (cases "rest = [] \<and> matched u m \<noteq> None")
    case True
    then obtain i where i: "matched u m = Some i" by blast
    with assms(2) True s(6,7,9) have "answers ids (tools @ [m']) = Some u'"
        "list_all (\<lambda>m. role m = Some ''tool'') (tools @ [m'])"
      by (simp_all add: answers_append)
    with s t m' True show ?thesis unfolding orderly_so_far_def
      by (intro conjI disjI2 exI [of _ a] exI [of _ x] exI [of _ "tools @ [m']"] exI [of _ "[]"]
            exI [of _ ids] exI [of _ u']) simp_all
  next
    case F: False
    have "rest = [] \<longrightarrow> role m' \<noteq> Some ''tool''" using F assms(2) by (auto split: option.splits)
    with s(11) have h: "role (hd (rest @ [m'])) \<noteq> Some ''tool''" by (cases rest) simp_all
    have r: "list_all (\<lambda>m. tidy m \<and> role m \<noteq> Some ''assistant'') (rest @ [m'])"
      using s(10) m' by simp
    have w: "set u' \<subseteq> set w" using s(8) m'(3) by blast
    have e: "earlier @ [m'] = a @ x # tools @ rest @ [m']" using s(1) by simp
    have "list_all tidy (earlier @ [m'])" using t m'(1) by simp
    moreover have "\<exists>a x tools rest ids w. earlier @ [m'] = a @ x # tools @ rest \<and> k = length a
        \<and> settle e [] 0 a \<noteq> None \<and> role x = Some ''assistant'' \<and> good_calls x ids
        \<and> answers ids tools = Some w \<and> list_all (\<lambda>m. role m = Some ''tool'') tools
        \<and> set u' \<subseteq> set w \<and> (rest = [] \<longrightarrow> u' = w)
        \<and> list_all (\<lambda>m. tidy m \<and> role m \<noteq> Some ''assistant'') rest
        \<and> (rest \<noteq> [] \<longrightarrow> role (hd rest) \<noteq> Some ''tool'')"
      by (intro exI [of _ a] exI [of _ x] exI [of _ tools] exI [of _ "rest @ [m']"]
            exI [of _ ids] exI [of _ w] conjI e s(2-7) w r) (use h in simp_all)
    ultimately show ?thesis unfolding orderly_so_far_def by blast
  qed
qed

lemma tidy_loop:
  assumes "cf_protocol_guard_orphan_policy conf = Downgrade"
  shows "\<lbrakk>orderly_so_far (eff C S conf) earlier k u; opens P k u; trimmed u;
      \<forall>(n, m) \<in> set (enumerate (length earlier) ms). well_called C S conf n m\<rbrakk>
    \<Longrightarrow> \<exists>ms' t'. repair_openai_loop C S conf earlier P t ms = Done (ms', t')
        \<and> list_all tidy ms' \<and> settle (eff C S conf) [] 0 ms' \<noteq> None"
proof (induction ms arbitrary: earlier k u P t)
  case Nil
  from loop_end [OF Nil.prems(2) orderly_bound [OF Nil.prems(1)]] orderly_close [OF Nil.prems(1)]
  show ?case by fastforce
next
  case (Cons m ms)
  note b = orderly_bound [OF Cons.prems(1)]
  note closed = orderly_close [OF Cons.prems(1)]
  show ?case
  proof (cases "role m = Some ''tool''")
    case True
    obtain m' P' u' t' where s: "opens P' k u'"
        "repair_openai_loop C S conf earlier P t (m # ms)
         = repair_openai_loop C S conf (earlier @ [m']) P' t' ms"
        "case matched u m of
           Some i \<Rightarrow> i \<in> set u \<and> role m' = Some ''tool'' \<and> result_id m' = Some i \<and> u' = remove1 i u
         | None \<Rightarrow> role m' = Some ''user'' \<and> u' = u"
      using loop_tool [OF Cons.prems(2,3) True assms] by blast
    have "trimmed u'"
      using s(3) Cons.prems(3) set_remove1_subset by (fastforce split: option.splits)
    with Cons.IH [OF orderly_tool [OF Cons.prems(1) s(3)] s(1), where t = t'] Cons.prems(4) s(2)
    show ?thesis by simp
  next
    case nt: False
    show ?thesis
    proof (cases "role m = Some ''assistant''")
      case True
      let ?ids = "map the (eff C S conf (length earlier) m)"
      from Cons.prems(4) True have w: "list_all callable (unwrap_or [] (calls_of m))"
          "None \<notin> set (eff C S conf (length earlier) m)" "distinct (eff C S conf (length earlier) m)"
        by (auto simp: well_called_def)
      then have ids: "eff C S conf (length earlier) m = map Some ?ids" by (metis map_the_Some)
      with w(3) have "distinct ?ids" by (metis distinct_map)
      from loop_assistant [OF Cons.prems(2) b True w(1) ids this, where t = t and ms = ms]
      obtain m' P' t' where s: "role m' = Some ''assistant''" "good_calls m' ?ids"
          "opens P' (length earlier) ?ids" "repair_openai_loop C S conf earlier P t (m # ms)
           = repair_openai_loop C S conf (close_calls k u earlier @ [m']) P' t' ms" by blast
      have "orderly_so_far (eff C S conf) (close_calls k u earlier @ [m']) (length earlier) ?ids"
        unfolding orderly_so_far_def using s(1,2) closed
        by (intro conjI disjI2 exI [of _ "close_calls k u earlier"] exI [of _ m']
              exI [of _ "[]"] exI [of _ ?ids]) (auto simp: tidy_def)
      moreover have "trimmed ?ids"
        using opened_trimmed [of m' ?ids] s(2) unfolding good_calls_def by blast
      ultimately show ?thesis using Cons.IH [OF _ s(3), where t = t'] Cons.prems(4) s(4) by simp
    next
      case False
      obtain P' t' where s: "opens P' k []" "repair_openai_loop C S conf earlier P t (m # ms)
          = repair_openai_loop C S conf (close_calls k u earlier @ [m]) P' t' ms"
        using loop_other [OF Cons.prems(2) b nt False] by blast
      have "orderly_so_far (eff C S conf) (close_calls k u earlier @ [m]) k []"
        using orderly_idle closed nt False by blast
      then show ?thesis using Cons.IH [OF _ s(1), where t = t'] Cons.prems(4) s(2) by simp
    qed
  qed
qed

section \<open>The guard runs twice\<close>

definition all_well_called :: "crypto \<Rightarrow> serde \<Rightarrow> config \<Rightarrow> json \<Rightarrow> bool" where
  "all_well_called C S conf body \<longleftrightarrow>
     (\<forall>(n, m) \<in> set (enumerate 0 (unwrap_or [] (messages_of body))). well_called C S conf n m)"

definition all_orderly :: "crypto \<Rightarrow> serde \<Rightarrow> config \<Rightarrow> json \<Rightarrow> bool" where
  "all_orderly C S conf body \<longleftrightarrow>
     settle (eff C S conf) [] 0 (unwrap_or [] (messages_of body)) \<noteq> None"

lemma messages_of_Some:
  assumes "messages_of body = Some ms"
  obtains obj where "body = JObject obj"
    "\<And>ms'. messages_of (obj_update (obj_insert ''messages'' (JArray ms')) body) = Some ms'"
  using assms that by (cases body) (auto simp: messages_of_def map_of_obj_insert)

lemma tidy_all_well_called:
  assumes "messages_of b = Some ms" and "list_all tidy ms"
  shows "all_well_called C S conf b"
proof -
  have "well_called C S conf n m" if "(n, m) \<in> set (enumerate 0 ms)" for n m
    using that assms(2) tidy_well_called [of m C S conf n]
    by (auto simp: in_set_enumerate_eq list_all_iff)
  with assms(1) show ?thesis by (auto simp: all_well_called_def)
qed

lemma repair_openai_tidy:
  assumes "cf_protocol_guard_orphan_policy conf = Downgrade" and "all_well_called C S conf body"
  shows "\<exists>b t'. repair_openai C S conf body t = Done (b, t')
    \<and> all_well_called C S conf b \<and> all_orderly C S conf b"
proof (cases "messages_of body")
  case None
  with assms show ?thesis by (simp add: repair_openai_def all_orderly_def)
next
  case (Some ms)
  let ?t = "if length ms > cf_protocol_guard_max_graph_messages conf then raise_risk ''high'' t else t"
  have "orderly_so_far (eff C S conf) [] 0 []" by (simp add: orderly_so_far_def)
  moreover have "\<forall>(n, m) \<in> set (enumerate (length []) ms). well_called C S conf n m"
    using assms(2) Some by (simp add: all_well_called_def)
  ultimately obtain ms' t' where r: "repair_openai_loop C S conf [] [] ?t ms = Done (ms', t')"
      "list_all tidy ms'" "settle (eff C S conf) [] 0 ms' \<noteq> None"
    using tidy_loop [OF assms(1), of C S "[]" 0 "[]" "[]" ms ?t] by auto
  let ?b = "obj_update (obj_insert ''messages'' (JArray ms')) body"
  have b: "messages_of ?b = Some ms'" by (rule messages_of_Some [OF Some])
  have "repair_openai C S conf body t = Done (?b, t')"
    using Some r(1) by (simp add: repair_openai_def)
  with tidy_all_well_called [OF b r(2)] b r(3) show ?thesis by (simp add: all_orderly_def)
qed

lemma repair_openai_valid:
  assumes "cf_protocol_guard_orphan_policy conf = Downgrade"
    and "all_well_called C S conf body" and "all_orderly C S conf body"
  shows "\<exists>b t'. repair_openai C S conf body t = Done (b, t') \<and> count_invalid_openai b = 0"
proof (cases "messages_of body")
  case None
  then show ?thesis by (simp add: repair_openai_def count_invalid_openai_def)
next
  case (Some ms)
  let ?t = "if length ms > cf_protocol_guard_max_graph_messages conf then raise_risk ''high'' t else t"
  have "one_segment [] 0 []" by (simp add: one_segment_def)
  moreover have "\<forall>(n, m) \<in> set (enumerate (length []) ms). well_called C S conf n m"
      "settle (eff C S conf) [] (length []) ms \<noteq> None"
    using assms(2,3) Some by (simp_all add: all_well_called_def all_orderly_def)
  ultimately obtain ms' t' where r: "repair_openai_loop C S conf [] [] ?t ms = Done (ms', t')"
      "answers [] ms' = Some []"
    using one_pass_loop [OF assms(1), of "[]" 0 "[]" "[]" ms C S ?t] by auto
  let ?b = "obj_update (obj_insert ''messages'' (JArray ms')) body"
  have b: "messages_of ?b = Some ms'" by (rule messages_of_Some [OF Some])
  have "repair_openai C S conf body t = Done (?b, t')"
    using Some r(1) by (simp add: repair_openai_def)
  with answered_is_valid [OF b r(2)] show ?thesis by simp
qed

text \<open>A body without the shape of tools is left alone, and has nothing to repair.\<close>

lemma shapeless:
  "list_all (\<lambda>m. role m \<noteq> Some ''tool'' \<and> json_get ''tool_calls'' m = None) ms \<Longrightarrow>
     answers [] ms = Some [] \<and> settle e u n ms \<noteq> None"
  by (induction ms arbitrary: u n) (auto simp: opened_def calls_of_def)

lemma no_tool_shape:
  assumes "path \<noteq> ''messages''" and "\<not> body_has_tool_shape path body"
  shows "count_invalid_openai body = 0 \<and> all_orderly C S conf body"
proof (cases "messages_of body")
  case None
  then show ?thesis by (simp add: count_invalid_openai_def all_orderly_def)
next
  case (Some ms)
  with assms have "list_all (\<lambda>m. role m \<noteq> Some ''tool'' \<and> json_get ''tool_calls'' m = None) ms"
    by (auto simp: body_has_tool_shape_def list_ex_iff list_all_iff)
  from shapeless [OF this] Some answered_is_valid [OF Some] show ?thesis
    by (simp add: all_orderly_def)
qed

lemma guard_repair_mode:
  assumes "cf_protocol_guard_mode conf = Repair" and "path \<noteq> ''messages''"
    and "force_scan \<or> body_has_tool_shape path body"
    and "\<And>t. \<exists>b t'. repair_openai C S conf body t = Done (b, t') \<and> Q b"
  shows "\<exists>b t. Q b \<and> (gt_post_valid t \<longleftrightarrow> count_invalid_openai b = 0)
    \<and> guard_body C S conf T path body src phase force_scan
      = Done (if phase = PostCompact \<and> count_invalid_openai b \<noteq> 0
              then Inl \<lparr>pj_status = BAD_REQUEST, pj_message =
                     ''request contains unrecoverable tool-call history after protocol guard''\<rparr>
              else Inr t, b)"
proof -
  let ?t = "guard_telemetry_default
      \<lparr>gt_mode := protocol_guard_mode_as_str (cf_protocol_guard_mode conf),
       gt_source_client := src, gt_post_valid := True, gt_quality_risk := ''none'',
       gt_scan_ms := tm_scan T, gt_pre_invalid := count_invalid path body > 0,
       gt_applied := count_invalid path body > 0 \<or> force_scan,
       gt_message_count_before := message_count body\<rparr>"
  obtain b t' where r: "repair_openai C S conf body ?t = Done (b, t')" "Q b" using assms(4) by blast
  let ?u = "t'\<lparr>gt_repair_ms := tm_repair T, gt_validate_ms := tm_validate T,
      gt_post_valid := count_invalid_openai b = 0, gt_message_count_after := message_count b,
      gt_total_ms := tm_total T\<rparr>"
  let ?v = "if tm_total T > cf_protocol_guard_max_ms conf then raise_risk ''high'' ?u else ?u"
  have v: "gt_post_valid ?v \<longleftrightarrow> count_invalid_openai b = 0" by (simp add: raise_risk_def)
  have n: "(\<not> force_scan \<and> \<not> body_has_tool_shape path body) = False" using assms(3) by blast
  have "guard_body C S conf T path body src phase force_scan
      = Done (if phase = PostCompact \<and> count_invalid_openai b \<noteq> 0
              then Inl \<lparr>pj_status = BAD_REQUEST, pj_message =
                     ''request contains unrecoverable tool-call history after protocol guard''\<rparr>
              else Inr ?v, b)"
    unfolding guard_body_def n using assms(1,2) r(1) v by (simp add: should_repair_def count_invalid_def Let_def)
  with r(2) v show ?thesis by (intro exI [of _ b] exI [of _ ?v] conjI)
qed

text \<open>
  C14: With the guard's mode set to repair and its orphan policy to downgrade, the two passes of the
  guard that a request runs through, the first before and the second after the compaction, together
  accept every request on a path of the OpenAI protocol in which each call of an assistant message
  is an object with an identifier, or gets one, and the identifiers of one message are distinct:
  neither pass panics or rejects, and after the second every result answers an open call and every
  call is answered before the next message that is not a result.  Under the policy reject, and in
  the modes off and observe, nothing of the kind holds.
\<close>

theorem guard_pair_repairs:
  assumes "cf_protocol_guard_mode conf = Repair" and "path \<noteq> ''messages''"
    and "cf_protocol_guard_orphan_policy conf = Downgrade" and "all_well_called C S conf body"
  shows "\<exists>b1 t1 b2 t2.
    guard_body C S conf T1 path body src PreCompact f1 = Done (Inr t1, b1)
    \<and> guard_body C S conf T2 path b1 src PostCompact f2 = Done (Inr t2, b2)
    \<and> gt_post_valid t2 \<and> count_invalid path b2 = 0"
proof -
  have "\<exists>b1 t1. guard_body C S conf T1 path body src PreCompact f1 = Done (Inr t1, b1)
      \<and> all_well_called C S conf b1 \<and> all_orderly C S conf b1"
  proof (cases "f1 \<or> body_has_tool_shape path body")
    case True
    from guard_repair_mode [OF assms(1,2) this repair_openai_tidy [OF assms(3,4)],
        where T = T1 and src = src and phase = PreCompact] show ?thesis by fastforce
  next
    case False
    with no_tool_shape [OF assms(2)] assms(1,4) show ?thesis
      by (simp add: guard_body_def Let_def)
  qed
  then obtain b1 t1 where 1: "guard_body C S conf T1 path body src PreCompact f1 = Done (Inr t1, b1)"
      "all_well_called C S conf b1" "all_orderly C S conf b1" by blast
  have "\<exists>b2 t2. guard_body C S conf T2 path b1 src PostCompact f2 = Done (Inr t2, b2)
      \<and> gt_post_valid t2 \<and> count_invalid_openai b2 = 0"
  proof (cases "f2 \<or> body_has_tool_shape path b1")
    case True
    from guard_repair_mode [OF assms(1,2) this repair_openai_valid [OF assms(3) 1(2,3)],
        where T = T2 and src = src and phase = PostCompact] show ?thesis by fastforce
  next
    case False
    with no_tool_shape [OF assms(2)] assms(1) show ?thesis
      by (simp add: guard_body_def Let_def)
  qed
  with 1(1) assms(2) show ?thesis by (auto simp: count_invalid_def)
qed

text \<open>The configuration read from an empty environment, and a history with a stray result.\<close>

definition empty_environment :: environment where
  "empty_environment =
     \<lparr>env_var = (\<lambda>k. None), parse_f64 = (\<lambda>s. None), process_id = 1, new_uuid = ''u'',
      read_file = (\<lambda>p. None)\<rparr>"

abbreviation default_config :: config where
  "default_config \<equiv> config_from_env empty_environment"

lemma default_guard_config:
  "cf_protocol_guard_mode default_config = Repair"
  "cf_protocol_guard_orphan_policy default_config = Downgrade"
  "\<not> cf_protocol_guard_synthetic_ids default_config"
  "cf_protocol_guard_max_ms default_config = 30"
  "cf_protocol_guard_max_graph_messages default_config = 2000"
  by (simp_all add: config_from_env_def empty_environment_def load_env_var_def
        protocol_guard_synthetic_ids_from_env_def zen_provider_mode_from_env_def)

definition demo_call :: "string \<Rightarrow> json" where
  "demo_call i = JObject [(''id'', JString i)]"

definition demo_history :: "json list \<Rightarrow> json" where
  "demo_history ms = JObject [(''messages'', JArray ms)]"

definition demo_assistant :: "json list \<Rightarrow> json" where
  "demo_assistant calls =
     JObject [(''content'', JNull), (''role'', JString ''assistant''), (''tool_calls'', JArray calls)]"

definition demo_result :: "string \<Rightarrow> json" where
  "demo_result i = JObject [(''content'', JString ''ok''), (''role'', JString ''tool''),
     (''tool_call_id'', JString i)]"

definition stray_history :: json where
  "stray_history = demo_history [demo_assistant [demo_call ''a''], demo_result ''x'', demo_result ''a'']"

lemma guard_pair_repairs_witness:
  "\<forall>C S T1 T2 src f1 f2. \<exists>b1 t1 b2 t2.
    guard_body C S default_config T1 ''chat/completions'' stray_history src PreCompact f1
      = Done (Inr t1, b1)
    \<and> guard_body C S default_config T2 ''chat/completions'' b1 src PostCompact f2
      = Done (Inr t2, b2)
    \<and> gt_post_valid t2 \<and> count_invalid ''chat/completions'' b2 = 0"
proof (intro allI, rule guard_pair_repairs)
  fix C S
  have "call_id (demo_call ''a'') = Some ''a''" by code_simp
  then show "all_well_called C S default_config stray_history"
    by (simp add: all_well_called_def stray_history_def demo_history_def messages_of_def
          well_called_def demo_assistant_def demo_result_def calls_of_def eff_def effective_id_def
          callable_def demo_call_def)
qed (simp_all add: default_guard_config)

text \<open>
  One pass is not enough, a stray result between a call and its result is turned into a message
  that separates them; identifiers that are not distinct defeat both passes; and a message or a
  call that is a string is a panic, not a rejection.
\<close>

lemmas guard_eval =
  repair_openai_def messages_of_def default_guard_config ensure_openai_tool_call_shape_def
  ensure_openai_call_kind_def ensure_openai_function_def json_object_def repair_openai_result_def
  downgrade_unresolved_openai_tool_calls_def unresolved_indices_def unresolved_ids_def
  drop_open_calls_def downgrade_openai_tool_message_def new_pending_def Let_def
  count_invalid_openai_def count_openai_message_def count_result_def count_call_def sat_add_def
  demo_history_def demo_assistant_def demo_result_def demo_call_def

lemma demo_ids:
  "non_empty_str (Some (JString ''a'')) = Some ''a''"
  "non_empty_str (Some (JString ''b'')) = Some ''b''"
  "non_empty_str (Some (JString ''x'')) = Some ''x''"
  "non_empty_str (Some (JString ''unknown_tool'')) = Some ''unknown_tool''"
  by code_simp+

lemma single_pass_rejects_stray_result:
  "\<exists>b t'. repair_openai C S default_config stray_history t = Done (b, t')
     \<and> count_invalid_openai b = 2"
  by (simp add: guard_eval demo_ids stray_history_def)

lemma repeated_ids_defeat_both_passes:
  "\<exists>b1 t1 b2 t2. repair_openai C S default_config
       (demo_history [demo_assistant [demo_call ''a'', demo_call ''a'', demo_call ''b''],
          demo_result ''a'', demo_result ''b'']) t = Done (b1, t1)
     \<and> repair_openai C S default_config b1 t' = Done (b2, t2) \<and> count_invalid_openai b2 = 2"
  by (simp add: guard_eval demo_ids)

lemma scalar_message_panics:
  "guard_body C S default_config T ''messages''
     (JObject [(''messages'', JArray [JString ''hi'']), (''tools'', JArray [demo_call ''a''])])
     src PreCompact False = Panic"
  by (simp add: guard_body_def default_guard_config should_repair_def repair_anthropic_def
        repair_anthropic_tools_def repair_anthropic_tool_def messages_of_def Let_def
        body_has_tool_shape_def demo_call_def json_object_def)

lemma scalar_call_panics:
  "guard_body C S default_config T ''chat/completions''
     (demo_history [demo_assistant [JString ''a'']]) src PreCompact False = Panic"
  by (simp add: guard_body_def default_guard_config should_repair_def repair_openai_def
        messages_of_def Let_def body_has_tool_shape_def demo_history_def demo_assistant_def
        ensure_openai_tool_call_shape_def ensure_openai_call_kind_def)

end
