(* ===== verification/ContextCorrect.thy ===== *)
theory ContextCorrect
  imports ContextGovernor ProtocolGuardCorrect
begin

text \<open>
  What the context governor keeps: the messages of the system stay as they are, and a history
  that fulfils the contract of the upstream protocol (\<open>answers\<close>) still does when its old tool
  results were replaced, its long texts shortened and its oldest messages collapsed.
\<close>

section \<open>Rewriting contents\<close>

definition block_types :: "json option \<Rightarrow> string option list" where
  "block_types v = (case v of Some (JArray parts) \<Rightarrow> map (get_str ''type'') parts | _ \<Rightarrow> [])"

text \<open>The parts of a message the contract and the collapse look at.\<close>

definition same_shape :: "json \<Rightarrow> json \<Rightarrow> bool" where
  "same_shape m m' \<longleftrightarrow>
     role m' = role m \<and> calls_of m' = calls_of m \<and> result_id m' = result_id m
     \<and> block_types (json_get ''content'' m') = block_types (json_get ''content'' m)"

lemma same_shape_refl [simp]: "same_shape m m"
  by (simp add: same_shape_def)

lemma answers_same_shape:
  "list_all2 same_shape ms ms' \<Longrightarrow> answers u ms' = answers u ms"
proof (induction ms ms' arbitrary: u rule: list_all2_induct)
  case (Cons m ms m' ms')
  then show ?case by (simp add: same_shape_def opened_def split: option.splits)
qed simp

lemma same_shape_content:
  assumes "json_get ''content'' m = Some c"
    and "block_types (Some c') = block_types (Some c)"
  shows "same_shape m (obj_update (obj_insert ''content'' c') m)"
  using assms by (cases m) (simp_all add: same_shape_def calls_of_def result_id_def map_of_obj_insert)

lemma trim_part_text_type:
  "trim_part_text G thr kind p s = (p', s') \<Longrightarrow> get_str ''type'' p' = get_str ''type'' p"
  by (cases p) (auto simp: trim_part_text_def map_of_obj_insert split: option.splits json.splits
      if_splits prod.splits)

lemma content_type:
  "get_str ''type'' (obj_update (obj_insert ''content'' c) p) = get_str ''type'' p"
  by (cases p) (simp_all add: map_of_obj_insert)

lemma trim_parts_types:
  "map (get_str ''type'') (fst (trim_parts G thr kind parts s)) = map (get_str ''type'') parts"
proof (induction parts arbitrary: s)
  case (Cons part parts)
  obtain p1 s1 where 1: "trim_part_text G thr kind part s = (p1, s1)" by fastforce
  obtain p2 s2 where 2: "(case part of
      JObject m \<Rightarrow>
        (case map_of m ''content'' of
           Some content \<Rightarrow>
             let (content, s) = trim_large_text_value G thr kind content s1
             in (obj_update (obj_insert ''content'' content) p1, s)
         | None \<Rightarrow> (p1, s1))
    | _ \<Rightarrow> (p1, s1)) = (p2, s2)" by fastforce
  have "get_str ''type'' p2 = get_str ''type'' part"
    using 2 trim_part_text_type [OF 1]
    by (auto simp: content_type split: json.splits option.splits prod.splits)
  with 1 2 Cons.IH [of s2] show ?case
    by (cases "trim_parts G thr kind parts s2") simp
qed simp

lemma trim_block_types:
  "block_types (Some (fst (trim_large_text_value G thr kind v s))) = block_types (Some v)"
  by (cases v) (auto simp: block_types_def case_prod_beta trim_parts_types)

lemma trim_result_types:
  "map (get_str ''type'') (fst (trim_result_parts G parts s)) = map (get_str ''type'') parts"
  by (induction G parts s rule: trim_result_parts.induct)
     (auto simp: content_type split: prod.splits option.splits if_splits)

lemma trim_blocks_types:
  "block_types (Some (fst (trim_tool_result_blocks G v s))) = block_types (Some v)"
  by (cases v) (auto simp: block_types_def case_prod_beta trim_result_types)

lemma rewrite_old_shape:
  assumes "\<And>m c s. block_types (Some (fst (f m c s))) = block_types (Some c)"
  shows "list_all2 same_shape ms (fst (rewrite_old_contents f latest idx ms s))"
proof (induction ms arbitrary: idx s)
  case (Cons m ms)
  define r where "r = (if (case latest of Some l \<Rightarrow> idx \<ge> l | None \<Rightarrow> False) \<or> is_system_like_message m
      then (m, s)
      else (case json_get ''content'' m of
              Some content \<Rightarrow>
                let (content, s) = f m content s
                in (obj_update (obj_insert ''content'' content) m, s)
            | None \<Rightarrow> (m, s)))"
  have "same_shape m (fst r)"
    using assms same_shape_content by (auto simp: r_def case_prod_beta split: option.splits)
  moreover have "fst (rewrite_old_contents f latest idx (m # ms) s)
      = fst r # fst (rewrite_old_contents f latest (Suc idx) ms (snd r))"
    by (simp add: case_prod_beta r_def)
  ultimately show ?case using Cons.IH by simp
qed simp

text \<open>Messages that are the system's are not rewritten.\<close>

lemma role_content: "get_str ''role'' (obj_update (obj_insert ''content'' c) m) = get_str ''role'' m"
  by (cases m) (simp_all add: map_of_obj_insert)

lemma rewrite_old_system:
  "filter is_system_like_message (fst (rewrite_old_contents f latest idx ms s))
   = filter is_system_like_message ms"
proof (induction ms arbitrary: idx s)
  case (Cons m ms)
  have "is_system_like_message (obj_update (obj_insert ''content'' c) m) = is_system_like_message m" for c
    by (simp add: is_system_like_message_def role_content)
  with Cons show ?case by (auto simp: case_prod_beta split: option.splits)
qed simp

definition messages_list :: "json \<Rightarrow> json list" where
  "messages_list body = unwrap_or [] (messages_of body)"

text \<open>What every step of the governor guarantees of the messages.\<close>

definition keeps_shape :: "json \<Rightarrow> json \<Rightarrow> bool" where
  "keeps_shape b b' \<longleftrightarrow>
     list_all2 same_shape (messages_list b) (messages_list b')
     \<and> filter is_system_like_message (messages_list b')
       = filter is_system_like_message (messages_list b)"

lemma rewrite_messages_shape:
  assumes "\<And>m c s. block_types (Some (fst (f m c s))) = block_types (Some c)"
  shows "keeps_shape b (fst (rewrite_messages f b s))"
proof (cases "messages_of b")
  case None
  then show ?thesis
    by (simp add: rewrite_messages_def keeps_shape_def messages_list_def list_all2_refl)
next
  case (Some ms)
  show ?thesis
  proof (rule messages_of_Some [OF Some])
    fix obj
    assume "\<And>ms'. messages_of (obj_update (obj_insert ''messages'' (JArray ms')) b) = Some ms'"
    with Some rewrite_old_shape [OF assms] rewrite_old_system show ?thesis
      by (simp add: rewrite_messages_def keeps_shape_def messages_list_def case_prod_beta)
  qed
qed

lemma compact_steps_shape:
  "keeps_shape b (fst (compact_old_tool_results G b s))"
  "keeps_shape b (fst (compact_old_large_text G b s))"
proof -
  show "keeps_shape b (fst (compact_old_tool_results G b s))"
    unfolding compact_old_tool_results_def
    by (rule rewrite_messages_shape)
       (simp add: trim_block_types trim_blocks_types trim_content_value_def)
  show "keeps_shape b (fst (compact_old_large_text G b s))"
    unfolding compact_old_large_text_def Let_def
    by (rule rewrite_messages_shape) (simp add: trim_block_types)
qed

section \<open>Collapsing at a boundary\<close>

lemma first_before_spec:
  "fold (\<lambda>(i, m) r. if P m then min r i else r) (enumerate n ms) a \<le> a"
  "i < length ms \<Longrightarrow> P (ms ! i) \<Longrightarrow>
     fold (\<lambda>(i, m) r. if P m then min r i else r) (enumerate n ms) a \<le> n + i"
  "fold (\<lambda>(i, m) r. if P m then min r i else r) (enumerate n ms) a = a
   \<or> (\<exists>i < length ms. P (ms ! i)
        \<and> fold (\<lambda>(i, m) r. if P m then min r i else r) (enumerate n ms) a = n + i)"
proof (induction ms arbitrary: n a i)
  case (Cons m ms)
  {
    case 1
    show ?case using Cons.IH(1) [of "Suc n"] by (auto intro: order_trans [OF Cons.IH(1)])
  next
    case 2
    then show ?case
      using Cons.IH(1) [of "Suc n" "min a n"] Cons.IH(2) [of "i - 1" "Suc n"] by (cases i) auto
  next
    case 3
    show ?case using Cons.IH(3) [of "Suc n" "if P m then min a n else a"]
      by (auto simp: min_def intro: exI [of _ 0] exI [of _ "Suc _"] split: if_splits)
  }
qed simp_all

lemma first_before_cases:
  "first_before P ms s \<le> s"
  "j < s \<Longrightarrow> j < length ms \<Longrightarrow> P (ms ! j) \<Longrightarrow> first_before P ms s \<le> j"
  "first_before P ms s = s \<or> (first_before P ms s < length ms \<and> P (ms ! first_before P ms s))"
  using first_before_spec(1) [where ms = "take s ms" and n = 0 and a = s and P = P]
    first_before_spec(2) [where ms = "take s ms" and n = 0 and a = s and P = P and i = j]
    first_before_spec(3) [where ms = "take s ms" and n = 0 and a = s and P = P]
  by (auto simp: first_before_def)

text \<open>Messages of the role \<open>tool\<close> carry no calls of their own, in either protocol.\<close>

definition plain_result :: "json \<Rightarrow> bool" where
  "plain_result m \<longleftrightarrow>
     (role m = Some ''tool'' \<longrightarrow>
        calls_of m = None \<and> Some ''tool_use'' \<notin> set (block_types (json_get ''content'' m)))"

lemma plain_same_shape:
  "list_all2 same_shape ms ms' \<Longrightarrow> list_all plain_result ms \<Longrightarrow> list_all plain_result ms'"
  by (induction rule: list_all2_induct) (auto simp: same_shape_def plain_result_def)

lemma boundary:
  assumes "answers [] ms = Some []" and "i < length ms" and "role (ms ! i) \<noteq> Some ''tool''"
  shows "answers [] (take i ms) = Some []"
proof -
  have "answers [] (take i ms @ ms ! i # drop (Suc i) ms) = Some []"
    using assms(1,2) by (simp add: id_take_nth_drop [symmetric])
  then show ?thesis using assms(3) by (auto simp: answers_append bind_eq_Some_conv split: if_splits)
qed

lemma opened_somewhere:
  "answers u ms = Some v \<Longrightarrow> i \<in> set v \<Longrightarrow>
     i \<in> set u \<or> (\<exists>m \<in> set ms. role m = Some ''assistant'' \<and> Some i \<in> set (opened m))"
proof (induction u ms rule: answers.induct)
  case (2 u m ms)
  show ?case
  proof (cases "role m = Some ''assistant''")
    case True
    with 2(4) have p: "None \<notin> set (opened m)" "answers (map the (opened m)) ms = Some v" "u = []"
      by (simp_all split: if_splits)
    with 2(2) [OF _ _ True p(1,2) 2(5)] True
    have "i \<in> set (map the (opened m))
        \<or> (\<exists>m \<in> set ms. role m = Some ''assistant'' \<and> Some i \<in> set (opened m))" by simp
    moreover have "Some i \<in> set (opened m)" if i: "i \<in> set (map the (opened m))"
    proof -
      from i have "Some i \<in> set (map Some (map the (opened m)))" by (simp only: set_map image_eqI)
      then show ?thesis by (simp only: map_the_Some [OF p(1)])
    qed
    ultimately show ?thesis using True by (metis list.set_intros)
  next
    case False
    with 2 show ?thesis
      by (auto split: if_splits option.splits dest: notin_set_remove1)
  qed
qed simp

lemma answered_first:
  assumes "answers u ms = Some []" and "u \<noteq> []"
  obtains m ms' i where "ms = m # ms'" "role m = Some ''tool''" "result_id m = Some i" "i \<in> set u"
  using assms by (cases ms) (auto split: if_splits option.splits)

lemma non_empty_id_result: "non_empty_id ''tool_call_id'' m = result_id m"
  by (auto simp: non_empty_id_def trimmed_id_def result_id_def non_empty_str_def split: option.splits)

lemma trimmed_id_call: "call_id c = Some i \<Longrightarrow> trimmed_id ''id'' c = Some i"
  by (auto simp: trimmed_id_def call_id_def non_empty_str_def split: option.splits if_splits)

lemma openai_split_boundary:
  assumes ok: "answers [] ms = Some []" and plain: "list_all plain_result ms"
    and s: "s \<le> length ms"
  shows "answers [] (take (min s (openai_pair_aware_split_at ms s)) ms) = Some []"
proof -
  let ?recent = "recent_openai_ids (drop s ms)"
  let ?P = "has_recent_call ?recent"
  let ?r = "openai_pair_aware_split_at ms s"
  have r: "?r = (if ?recent = [] then s else first_before ?P ms s)"
    by (simp add: openai_pair_aware_split_at_def Let_def)
  obtain u where u: "answers [] (take s ms) = Some u" "answers u (drop s ms) = Some []"
    using ok answers_append [of "[]" "take s ms" "drop s ms"]
    by (cases "answers [] (take s ms)") auto
  show ?thesis
  proof (cases "?r < s")
    case True
    with r have "?r < length ms" "?P (ms ! ?r)"
      using first_before_cases(3) [of ?P ms s] s by (auto split: if_splits)
    moreover from this plain have "role (ms ! ?r) \<noteq> Some ''tool''"
      by (auto simp: list_all_length plain_result_def calls_of_def has_recent_call_def)
    ultimately show ?thesis using boundary [OF ok] True by simp
  next
    case False
    have "u = []"
    proof (rule ccontr)
      assume "u \<noteq> []"
      from answered_first [OF u(2) this] obtain m ms' i where m: "drop s ms = m # ms'"
          "role m = Some ''tool''" "result_id m = Some i" "i \<in> set u" by blast
      then have i: "i \<in> set ?recent"
        by (simp add: recent_openai_ids_def List.map_filter_simps non_empty_id_result)
      from opened_somewhere [OF u(1) m(4)] obtain x where x: "x \<in> set (take s ms)"
          "role x = Some ''assistant''" "Some i \<in> set (opened x)" by auto
      then obtain j where j: "j < s" "j < length ms" "x = ms ! j" by (auto simp: in_set_conv_nth)
      from x(3) obtain calls call where c: "calls_of x = Some calls" "call \<in> set calls"
          "call_id call = Some i" by (force simp: opened_def split: option.splits)
      then have "?P x" using i trimmed_id_call [OF c(3)]
        by (auto simp: has_recent_call_def calls_of_def list_ex_iff intro!: bexI [of _ call])
      with j first_before_cases(2) [of j s ms ?P] have "first_before ?P ms s \<le> j" by simp
      with r i j(1) False show False by (auto split: if_splits)
    qed
    with u(1) False show ?thesis by (simp add: min_def)
  qed
qed

lemma anthropic_split_cases:
  "anthropic_pair_aware_split_at ms a = a
   \<or> (anthropic_pair_aware_split_at ms a < length ms
      \<and> Some ''tool_use'' \<in> set (block_types
          (json_get ''content'' (ms ! anthropic_pair_aware_split_at ms a))))"
proof -
  define P where "P = has_recent_use (recent_anthropic_ids (drop a ms))"
  have r: "anthropic_pair_aware_split_at ms a
      = (if recent_anthropic_ids (drop a ms) = [] then a else first_before P ms a)"
    by (simp add: anthropic_pair_aware_split_at_def P_def)
  have P: "Some ''tool_use'' \<in> set (block_types (json_get ''content'' m))" if m: "P m" for m
  proof -
    obtain blocks block where b: "content_blocks m = Some blocks"
        "block \<in> set blocks" "get_str ''type'' block = Some ''tool_use''"
      using m unfolding P_def has_recent_use_def
      by (cases "content_blocks m") (auto simp: list_ex_iff)
    from b(1) have "json_get ''content'' m = Some (JArray blocks)"
      by (cases "json_get ''content'' m"; cases "the (json_get ''content'' m)")
         (simp_all add: content_blocks_def)
    then have "block_types (json_get ''content'' m) = map (get_str ''type'') blocks"
      by (simp add: block_types_def)
    moreover have "get_str ''type'' block \<in> set (map (get_str ''type'') blocks)"
      unfolding set_map using b(2) by (rule imageI)
    ultimately show ?thesis unfolding b(3) by simp
  qed
  show ?thesis
  proof (cases "recent_anthropic_ids (drop a ms) = []")
    case True
    with r show ?thesis by simp
  next
    case False
    with r have "anthropic_pair_aware_split_at ms a = first_before P ms a" by simp
    with first_before_cases(3) [of P ms a] P show ?thesis by metis
  qed
qed

lemma split_boundary:
  assumes ok: "answers [] ms = Some []" and plain: "list_all plain_result ms"
  shows "answers [] (take (pair_aware_split_at ms n) ms) = Some []"
proof -
  let ?s = "min n (length ms)"
  define a where "a = min ?s (openai_pair_aware_split_at ms ?s)"
  let ?r = "anthropic_pair_aware_split_at ms a"
  have a: "answers [] (take a ms) = Some []"
    unfolding a_def by (rule openai_split_boundary [OF ok plain]) simp
  have p: "pair_aware_split_at ms n = min a ?r"
    by (simp add: pair_aware_split_at_def Let_def a_def)
  show ?thesis
  proof (cases "?r < a")
    case False
    with a p show ?thesis by (simp add: min_absorb1)
  next
    case True
    with anthropic_split_cases [of ms a] have r: "?r < length ms"
        "Some ''tool_use'' \<in> set (block_types (json_get ''content'' (ms ! ?r)))" by simp_all
    with plain have "role (ms ! ?r) \<noteq> Some ''tool''"
      by (auto simp: list_all_length plain_result_def)
    from boundary [OF ok r(1) this] True p show ?thesis by (simp add: min_absorb2)
  qed
qed

lemma answers_no_calls:
  "list_all (\<lambda>m. role m \<noteq> Some ''tool'' \<and> role m \<noteq> Some ''assistant'') ms \<Longrightarrow>
     answers [] ms = Some []"
  by (induction ms) auto

lemma collapse_messages:
  assumes "messages_list b = ms" and "answers [] ms = Some []" and "list_all plain_result ms"
    and ms'_def: "ms' = messages_list (fst (collapse_old_prefix G b s))"
  shows "answers [] ms' = Some [] \<and>
    filter is_system_like_message ms' = filter is_system_like_message ms"
proof (cases "ms' = ms")
  case False
  then obtain ms0 where m: "messages_of b = Some ms0"
    by (cases "messages_of b") (auto simp: ms'_def assms(1) [symmetric] collapse_old_prefix_def)
  then have ms0: "ms0 = ms" using assms(1) by (simp add: messages_list_def)
  let ?n = "length ms - max (cf_context_preserve_recent_messages (ge_config G)) 1"
  let ?k = "pair_aware_split_at ms ?n"
  let ?kept = "filter is_system_like_message (take ?k ms)"
  have upd: "messages_list (obj_update (obj_insert ''messages'' (JArray xs)) b) = xs" for xs
    using messages_of_Some [OF m] by (metis messages_list_def unwrap_or_simps(2))
  have "\<exists>p. ms' = ?kept @ p @ drop ?k ms
      \<and> list_all (\<lambda>m. role m = Some ''user'') p"
    using False m ms0 assms(1) unfolding ms'_def collapse_old_prefix_def
    by (auto simp: Let_def upd json_object_def split: if_splits)
  then obtain p where p: "ms' = ?kept @ p @ drop ?k ms" "list_all (\<lambda>m. role m = Some ''user'') p"
    by blast
  have "answers [] ?kept = Some []" "answers [] p = Some []"
    using p(2) by (auto intro!: answers_no_calls simp: list_all_iff is_system_like_message_def)
  moreover have "answers [] (drop ?k ms) = Some []"
    using assms(2) split_boundary [OF assms(2,3), of ?n]
      answers_append [of "[]" "take ?k ms" "drop ?k ms"] by simp
  moreover have "filter is_system_like_message p = []"
    using p(2) by (auto simp: filter_empty_conv list_all_iff is_system_like_message_def)
  moreover have "filter is_system_like_message (take ?k ms) @ filter is_system_like_message (drop ?k ms)
      = filter is_system_like_message ms"
    by (metis append_take_drop_id filter_append)
  ultimately show ?thesis using p(1) by (simp add: answers_append)
qed (use assms in simp)

text \<open>What one step, and so a sequence of steps, keeps.\<close>

definition keeps_contract :: "json \<Rightarrow> json \<Rightarrow> bool" where
  "keeps_contract b b' \<longleftrightarrow>
     answers [] (messages_list b') = Some []
     \<and> filter is_system_like_message (messages_list b')
       = filter is_system_like_message (messages_list b)"

lemma keeps_shape_trans: "keeps_shape a b \<Longrightarrow> keeps_shape b c \<Longrightarrow> keeps_shape a c"
  unfolding keeps_shape_def
  by (auto intro: list_all2_trans [where ?P1.0 = same_shape and ?P2.0 = same_shape]
      simp: same_shape_def)

lemma keeps_shape_contract:
  assumes "keeps_shape a b" and "answers [] (messages_list a) = Some []"
    and "list_all plain_result (messages_list a)"
  shows "keeps_contract a b \<and> list_all plain_result (messages_list b)"
  using assms answers_same_shape plain_same_shape by (auto simp: keeps_shape_def keeps_contract_def)

lemma collapse_keeps_contract:
  assumes "keeps_contract a b" and "list_all plain_result (messages_list b)"
  shows "keeps_contract a (fst (collapse_old_prefix G b s))"
  using collapse_messages [OF refl _ assms(2) refl, of G s] assms(1)
  by (simp add: keeps_contract_def)

text \<open>
  C15: Whatever the governor does to a request, a history that fulfils the contract of the
  upstream protocol, with results that carry no calls of their own, still fulfils it, and the messages of the system and of the developer stay as
  they are: trimming changes only contents, and the collapse cuts the history at a boundary
  between calls with their results.  A request it lets through compacted is within the upstream's
  limit and the target of tokens.
\<close>

theorem governor_keeps_contract:
  assumes "govern_request G body n = Inr (p, w)"
    and "answers [] (messages_list body) = Some []"
    and "list_all plain_result (messages_list body)"
  shows "keeps_contract body (cp_body p)
    \<and> (cp_body p = body
       \<or> xp_body_bytes (cp_after p)
             \<le> mb_to_bytes (max (cf_context_upstream_body_limit_mb (ge_config G)) 1)
         \<and> xp_estimated_prompt_tokens (cp_after p)
             \<le> max (cf_context_token_target (ge_config G)) 1)"
proof (cases "cp_body p = body")
  case True
  with assms(2) show ?thesis by (simp add: keeps_contract_def)
next
  case False
  let ?S = "ge_serde G"
  let ?measure = "\<lambda>b. profile_request ?S (ge_path G) b (serialized_len ?S b)"
  define target where "target = target_body_bytes (ge_config G)"
  define tokens where "tokens = max (cf_context_token_target (ge_config G)) 1"
  obtain s0 b1 s1 where 1: "compact_old_tool_results G body s0 = (b1, s1)"
    and g: "(let current = ?measure b1;
          (b2, s2) = (if xp_body_bytes current > target \<or> xp_estimated_prompt_tokens current > tokens
                      then compact_old_large_text G b1 s1 else (b1, s1));
          current = ?measure b2;
          (b3, s3) = (if xp_body_bytes current > target
                      then collapse_old_prefix G b2 s2 else (b2, s2))
        in cp_body p = b3 \<and> cp_after p = ?measure b3
           \<and> xp_body_bytes (?measure b3)
               \<le> mb_to_bytes (max (cf_context_upstream_body_limit_mb (ge_config G)) 1)
           \<and> xp_estimated_prompt_tokens (?measure b3) \<le> tokens)"
    using assms(1) False unfolding govern_request_def target_def tokens_def
    by (auto simp: Let_def split: if_splits prod.splits)
  have k1: "keeps_shape body b1" using compact_steps_shape(1) [of body G s0] 1 by simp
  obtain b2 s2 where 2: "(if xp_body_bytes (?measure b1) > target
          \<or> xp_estimated_prompt_tokens (?measure b1) > tokens
        then compact_old_large_text G b1 s1 else (b1, s1)) = (b2, s2)" by fastforce
  have "keeps_shape b1 b1"
    by (simp add: keeps_shape_def list_all2_refl)
  with 2 compact_steps_shape(2) [of b1 G s1] have "keeps_shape b1 b2" by (auto split: if_splits)
  with k1 have "keeps_shape body b2" by (rule keeps_shape_trans)
  note k2 = keeps_shape_contract [OF this assms(2,3)]
  obtain b3 s3 where 3: "(if xp_body_bytes (?measure b2) > target
        then collapse_old_prefix G b2 s2 else (b2, s2)) = (b3, s3)" by fastforce
  have "keeps_contract body b3"
    using 3 k2 collapse_keeps_contract [of body b2 G s2] by (auto split: if_splits)
  with g 2 3 show ?thesis by (simp add: Let_def tokens_def)
qed

definition demo_governor :: "nat \<Rightarrow> governor_env" where
  "demo_governor preserve =
     \<lparr>ge_crypto = \<lparr>sha256 = (\<lambda>s. s), hex_encode = (\<lambda>s. s)\<rparr>,
      ge_serde = \<lparr>from_slice = (\<lambda>s. None), to_string = (\<lambda>v. [])\<rparr>,
      ge_exists = (\<lambda>d f. False),
      ge_config = default_config\<lparr>cf_zen_compactor_mode := Enforce, cf_context_token_compact := 0,
        cf_context_preserve_recent_messages := preserve\<rparr>,
      ge_path = ''chat/completions''\<rparr>"

lemma default_context_config:
  "cf_context_large_chunk_bytes default_config = 256 * 1024"
  "cf_context_warn_body_mb default_config = 24"
  "cf_context_compact_body_mb default_config = 30"
  "cf_context_target_body_mb default_config = 26"
  "cf_context_upstream_body_limit_mb default_config = 32"
  "cf_context_token_target default_config = 750000"
  "cf_zen_artifact_cache_mode default_config = Metadata"
  by (simp_all add: config_from_env_def empty_environment_def load_env_var_def)

definition answered_history :: json where
  "answered_history = demo_history [demo_assistant [demo_call ''a''], demo_result ''a'']"

lemma governor_keeps_contract_witness:
  "\<exists>p w. govern_request (demo_governor 8) answered_history 100 = Inr (p, w)
     \<and> cp_action p = Compact \<and> keeps_contract answered_history (cp_body p)"
proof -
  have t: "estimate_text_tokens ''ok'' = 1" by code_simp
  have m: "messages_list answered_history = [demo_assistant [demo_call ''a''], demo_result ''a'']"
    by (simp add: messages_list_def messages_of_def answered_history_def demo_history_def)
  have tool: "compact_old_tool_results (demo_governor 8) answered_history s = (answered_history, s)" for s
    by (simp add: compact_old_tool_results_def rewrite_messages_def answered_history_def
          demo_history_def demo_assistant_def demo_result_def messages_of_def
          latest_user_message_index_def is_system_like_message_def trim_content_value_def
          demo_governor_def default_context_config)
  have prof: "profile_request S ''chat/completions'' answered_history n
      = \<lparr>xp_body_bytes = n, xp_estimated_prompt_tokens = 1, xp_message_count = 2,
         xp_tools_count = 0,
         xp_largest_message_bytes = fold max (map (serialized_len S)
           [demo_assistant [demo_call ''a''], demo_result ''a'']) 0,
         xp_tool_result_bytes = 2\<rparr>" for S n
    by (simp add: profile_request_def answered_history_def demo_history_def messages_of_def
          demo_assistant_def demo_result_def tool_result_bytes_in_message_def t)
  have path: "ge_path (demo_governor n) = ''chat/completions''"
    and len: "serialized_len (ge_serde (demo_governor n)) v = 0"
    and cfg: "ge_config (demo_governor n) = default_config\<lparr>cf_zen_compactor_mode := Enforce,
      cf_context_token_compact := 0, cf_context_preserve_recent_messages := n\<rparr>" for n v
    by (simp_all add: demo_governor_def serialized_len_def)
  have off: "\<not> body_disables_input_compaction answered_history"
    by (simp add: body_disables_input_compaction_def answered_history_def demo_history_def)
  have "\<exists>p w. govern_request (demo_governor 8) answered_history 100 = Inr (p, w)
      \<and> cp_action p = Compact"
    by (simp add: govern_request_def prof tool path len cfg off Let_def should_compact_def
          default_context_config mb_to_bytes_def MIB_def sat_mul_def target_body_bytes_def)
  then obtain p w where g: "govern_request (demo_governor 8) answered_history 100 = Inr (p, w)"
    and a: "cp_action p = Compact" by blast
  have "call_id (demo_call ''a'') = Some ''a''" "result_id (demo_result ''a'') = Some ''a''"
    by code_simp+
  then have "answers [] (messages_list answered_history) = Some []"
    by (simp add: m demo_assistant_def demo_result_def opened_def calls_of_def)
  moreover have "list_all plain_result (messages_list answered_history)"
    by (simp add: m demo_assistant_def demo_result_def plain_result_def calls_of_def block_types_def)
  ultimately show ?thesis using governor_keeps_contract [OF g] g a by blast
qed

text \<open>
  The latest message of the user, which trimming leaves alone, is collapsed away when more
  messages than the preserved ones follow it.
\<close>

lemma latest_user_message_collapsed:
  "messages_list (fst (collapse_old_prefix (demo_governor 1)
      (demo_history [JObject [(''content'', JString ''task''), (''role'', JString ''user'')],
         demo_assistant [], demo_assistant [], demo_assistant []]) s))
   = [json_object [(''role'', JString ''user''), (''content'', JString
        ''[context compacted: omitted 3 older messages; bytes=0; id=]'')], demo_assistant []]"
proof -
  let ?ms = "[JObject [(''content'', JString ''task''), (''role'', JString ''user'')],
    demo_assistant [], demo_assistant [], demo_assistant []]"
  have split: "pair_aware_split_at ?ms (Suc (Suc (Suc 0))) = 3" by code_simp
  have "show_nat (Suc (Suc (Suc 0))) = ''3''" "show_nat 0 = ''0''" by code_simp+
  with split show ?thesis
    by (simp add: collapse_old_prefix_def demo_history_def messages_of_def messages_list_def
          demo_governor_def serialized_len_def wrap_add_def sha256_hex_def
          artifact_short_hash_def)
      (simp add: is_system_like_message_def demo_assistant_def json_object_def)
qed

text \<open>
  Replacing a text makes it longer when it has no more characters than the head of the
  placeholder keeps, as a threshold of 1024 bytes allows.
\<close>

lemma neutralize_plain:
  "CHR 0x60 \<notin> set s \<Longrightarrow> CHR ''~'' \<notin> set s \<Longrightarrow> neutralize_markdown_fences s = s"
  by (induction s rule: neutralize_markdown_fences.induct) auto

lemma short_text_grows:
  assumes "CHR 0x60 \<notin> set t" and "CHR ''~'' \<notin> set t"
    and "length (chars_of t) \<le> PLACEHOLDER_HEAD_CHARS"
  shows "length t < length (fst (replacement_text C exists conf path kind t s))"
proof -
  have "neutralize_markdown_fences (take_head t PLACEHOLDER_HEAD_CHARS) = t"
    using assms by (simp add: take_head_def take_chars_def neutralize_plain)
  then show ?thesis by (simp add: replacement_text_def Let_def case_prod_beta)
qed

end
