(* ===== verification/ToolSynthesis.thy ===== *)
theory ToolSynthesis
  imports ClientTypes Utf8Chars TextLib
begin

text \<open>
  The tool calls and texts the client makes up (\<open>synthesis/tool.rs\<close>, \<open>synthesis/text.rs\<close>): a call
  is renamed to the tool it means and completed with the required arguments it lacks, inferred
  from the user's prompt.  The regular expressions of the crate \<open>regex\<close>, serde_json, the full
  Unicode table of \<open>str::to_lowercase\<close> and the random identifier are parameters.
\<close>

section \<open>Parameters\<close>

text \<open>The first capture of each pattern, and whether the keyword pattern matches.\<close>

record synthesis_env =
  sy_serde :: serde
  sy_lowercase :: "string \<Rightarrow> string"
  sy_read_quoted :: "string \<Rightarrow> string option"
  sy_read_word :: "string \<Rightarrow> string option"
  sy_run_quoted :: "string \<Rightarrow> string option"
  sy_run_unquoted :: "string \<Rightarrow> string option"
  sy_reply_exactly :: "string \<Rightarrow> string option"
  sy_keyword :: "string \<Rightarrow> bool"

section \<open>The prompt\<close>

text \<open>\<open>rand_id\<close>: the random number is an argument.\<close>

definition rand_id :: "64 word \<Rightarrow> string" where
  "rand_id n = ''call_'' @ hex16 n"

definition extract_text_content :: "json \<Rightarrow> string option" where
  "extract_text_content content =
     (case content of
        JString s \<Rightarrow> if s = [] then None else Some s
      | JArray arr \<Rightarrow>
          (let texts = filter (\<lambda>s. s \<noteq> []) (List.map_filter (get_str ''text'') arr)
           in if texts = [] then None else Some (join_with [NL] texts))
      | _ \<Rightarrow> None)"

definition get_user_prompt :: "chat_request \<Rightarrow> string option" where
  "get_user_prompt body =
     Option.bind (find (\<lambda>m. ms_role m = ''user'') (rev (cr_messages body)))
       (\<lambda>m. extract_text_content (ms_content m))"

section \<open>Inference\<close>

definition infer_file_path :: "synthesis_env \<Rightarrow> string \<Rightarrow> string" where
  "infer_file_path Y prompt =
     (case sy_read_quoted Y prompt of
        Some c \<Rightarrow> c
      | None \<Rightarrow> unwrap_or ''package.json'' (sy_read_word Y prompt))"

definition infer_command :: "synthesis_env \<Rightarrow> string \<Rightarrow> string" where
  "infer_command Y prompt =
     (case sy_run_quoted Y prompt of
        Some c \<Rightarrow> c
      | None \<Rightarrow>
          (case sy_run_unquoted Y prompt of
             Some c \<Rightarrow> if trim c \<noteq> [] then trim c else ''pwd''
           | None \<Rightarrow> ''pwd''))"

definition infer_agent_type :: "string \<Rightarrow> string" where
  "infer_agent_type prompt = ''general-purpose''"

definition infer_description :: "string \<Rightarrow> string" where
  "infer_description prompt =
     (let first_line = trim (case str_lines prompt of [] \<Rightarrow> [] | l # _ \<Rightarrow> l)
      in if 5 < length first_line then first_line else ''Execute task from user request'')"

definition infer_prompt :: "string \<Rightarrow> string" where
  "infer_prompt prompt = (if prompt = [] then ''Complete the assigned task'' else prompt)"

definition infer_value :: "synthesis_env \<Rightarrow> string \<Rightarrow> string \<Rightarrow> string" where
  "infer_value Y key prompt =
     (if key = ''file_path'' then infer_file_path Y prompt
      else if key = ''command'' then infer_command Y prompt
      else if key = ''subagent_type'' then infer_agent_type prompt
      else if key = ''description'' then infer_description prompt
      else if key = ''prompt'' then infer_prompt prompt
      else prompt)"

section \<open>Tools\<close>

definition normalize_tool_name :: "string \<Rightarrow> string" where
  "normalize_tool_name name = map ascii_lower (filter is_ascii_alphanumeric name)"

definition canonical_tool_name :: "openai_tool list option \<Rightarrow> string \<Rightarrow> string option" where
  "canonical_tool_name tools name =
     (case tools of
        None \<Rightarrow> None
      | Some ts \<Rightarrow>
          map_option (\<lambda>t. of_name (ot_function t))
            (find (\<lambda>t. normalize_tool_name (of_name (ot_function t)) = normalize_tool_name name)
               ts))"

definition canonicalize_tool_call_name :: "tool_call \<Rightarrow> chat_request \<Rightarrow> tool_call" where
  "canonicalize_tool_call_name call body =
     (case canonical_tool_name (cr_tools body) (tf_name (tc_function call)) of
        None \<Rightarrow> call
      | Some name \<Rightarrow> call\<lparr>tc_function := (tc_function call)\<lparr>tf_name := name\<rparr>\<rparr>)"

definition choose_requested_tool ::
  "synthesis_env \<Rightarrow> openai_tool list \<Rightarrow> string \<Rightarrow> openai_tool option" where
  "choose_requested_tool Y tools prompt =
     (case find (\<lambda>t. contains_str (sy_lowercase Y prompt)
                        (sy_lowercase Y (of_name (ot_function t)))) tools of
        Some t \<Rightarrow> Some t
      | None \<Rightarrow> (case tools of [] \<Rightarrow> None | t # _ \<Rightarrow> Some t))"

definition string_property :: "string \<Rightarrow> string \<Rightarrow> string \<times> json" where
  "string_property name description =
     (name, json_object [(''type'', JString ''string''), (''description'', JString description)])"

definition default_schema_for_name :: "string \<Rightarrow> json" where
  "default_schema_for_name name =
     (if name = ''read'' then json_object
        [(''type'', JString ''object''),
         (''properties'', json_object [string_property ''file_path'' ''The path to the file to read'']),
         (''required'', JArray [JString ''file_path''])]
      else if name = ''bash'' then json_object
        [(''type'', JString ''object''),
         (''properties'', json_object [string_property ''command'' ''The command to execute'']),
         (''required'', JArray [JString ''command''])]
      else if name = ''task'' then json_object
        [(''type'', JString ''object''),
         (''properties'', json_object
            [string_property ''description'' ''Short description of the task'',
             string_property ''prompt'' ''The prompt for the subtask'',
             string_property ''subagent_type'' ''Type of subagent'']),
         (''required'',
            JArray [JString ''description'', JString ''prompt'', JString ''subagent_type''])]
      else json_object [(''type'', JString ''object''), (''properties'', json_object [])])"

fun tool_schema_for_call :: "synthesis_env \<Rightarrow> openai_tool list \<Rightarrow> string \<Rightarrow> json" where
  "tool_schema_for_call Y [] name = default_schema_for_name (sy_lowercase Y name)"
| "tool_schema_for_call Y (t # ts) name =
     (if sy_lowercase Y (of_name (ot_function t)) = sy_lowercase Y name
         \<and> of_parameters (ot_function t) \<noteq> None
      then the (of_parameters (ot_function t))
      else tool_schema_for_call Y ts name)"

text \<open>The strings of the member \<open>required\<close> of a schema.\<close>

definition schema_required :: "json \<Rightarrow> string list" where
  "schema_required schema =
     (case Option.bind (json_get ''required'' schema) as_array of
        None \<Rightarrow> []
      | Some items \<Rightarrow> List.map_filter as_str items)"

section \<open>Calls\<close>

definition synthesize_tool_input :: "synthesis_env \<Rightarrow> openai_tool_function \<Rightarrow> string \<Rightarrow> json" where
  "synthesize_tool_input Y func prompt =
     (let schema = (case of_parameters func of
                      Some p \<Rightarrow> p
                    | None \<Rightarrow> default_schema_for_name (sy_lowercase Y (of_name func)))
      in JObject (foldl (\<lambda>input key. obj_insert key (JString (infer_value Y key prompt)) input) []
                    (schema_required schema)))"

definition synthesize_tool_call :: "synthesis_env \<Rightarrow> 64 word \<Rightarrow> chat_request \<Rightarrow> tool_call option" where
  "synthesize_tool_call Y rnd body =
     Option.bind (get_user_prompt body) (\<lambda>prompt.
     Option.bind (cr_tools body) (\<lambda>tools.
     Option.bind (choose_requested_tool Y tools prompt) (\<lambda>tool.
       Some \<lparr>tc_id = Some (rand_id rnd), tc_call_type = ''function'',
             tc_function = \<lparr>tf_name = of_name (ot_function tool),
                            tf_arguments = to_string (sy_serde Y)
                              (synthesize_tool_input Y (ot_function tool) prompt)\<rparr>,
             tc_index = Some 0\<rparr>)))"

text \<open>The arguments of a call, when they are a JSON object.\<close>

definition parse_arguments :: "serde \<Rightarrow> string \<Rightarrow> (string \<times> json) list" where
  "parse_arguments S args = unwrap_or [] (Option.bind (from_slice S args) as_object)"

definition complete_args ::
  "synthesis_env \<Rightarrow> string \<Rightarrow> string list \<Rightarrow> (string \<times> json) list \<Rightarrow> (string \<times> json) list" where
  "complete_args Y prompt required args =
     foldl (\<lambda>args key.
              if map_of args key \<noteq> None then args
              else obj_insert key (JString (infer_value Y key prompt)) args) args required"

definition complete_tool_call :: "synthesis_env \<Rightarrow> tool_call \<Rightarrow> chat_request \<Rightarrow> tool_call" where
  "complete_tool_call Y call body =
     (let call = canonicalize_tool_call_name call body;
          prompt = unwrap_or [] (get_user_prompt body);
          args = parse_arguments (sy_serde Y) (tf_arguments (tc_function call));
          schema = tool_schema_for_call Y (unwrap_or [] (cr_tools body)) (tf_name (tc_function call));
          args = complete_args Y prompt (schema_required schema) args
      in \<lparr>tc_id = tc_id call, tc_call_type = tc_call_type call,
          tc_function = \<lparr>tf_name = tf_name (tc_function call),
                         tf_arguments = to_string (sy_serde Y) (JObject args)\<rparr>,
          tc_index = tc_index call\<rparr>)"

definition synthesize_text_fallback :: "synthesis_env \<Rightarrow> string \<Rightarrow> string" where
  "synthesize_text_fallback Y prompt =
     (case sy_reply_exactly Y prompt of
        Some c \<Rightarrow> trim c
      | None \<Rightarrow> if sy_keyword Y prompt then ''PASS'' else ''NO_TOOL_CALL'')"

section \<open>Facts\<close>

text \<open>Completion keeps the arguments there are and adds every required one.\<close>

lemma complete_args_map_of:
  "map_of (complete_args Y prompt required args) key =
     (case map_of args key of
        Some v \<Rightarrow> Some v
      | None \<Rightarrow> if key \<in> set required then Some (JString (infer_value Y key prompt)) else None)"
proof (induction required arbitrary: args)
  case Nil
  then show ?case by (simp add: complete_args_def split: option.split)
next
  case (Cons k ks)
  have "complete_args Y prompt (k # ks) args =
      complete_args Y prompt ks
        (if map_of args k \<noteq> None then args else obj_insert k (JString (infer_value Y k prompt)) args)"
    by (simp add: complete_args_def)
  then show ?case by (auto simp: Cons.IH map_of_obj_insert split: option.splits)
qed

lemma canonical_name_id [simp]: "tc_id (canonicalize_tool_call_name call body) = tc_id call"
  "tc_index (canonicalize_tool_call_name call body) = tc_index call"
  "tf_arguments (tc_function (canonicalize_tool_call_name call body)) = tf_arguments (tc_function call)"
  by (simp_all add: canonicalize_tool_call_name_def split: option.split)

end
