(* ===== verification/ToolGate.thy ===== *)
theory ToolGate
  imports ToolSynthesis ZenStream ClientProfile StreamGuard DsmlRepair RetryBody
begin

text \<open>
  The gate before a tool call is sent to an Anthropic client (\<open>proxy/anthropic.rs\<close>): its
  identity, the required arguments, the rules and repairs for the client ClaudeCode, the pieces
  in which its arguments are sent, and the predicates that decide whether an attempt at the
  upstream is abandoned and repeated.
\<close>

section \<open>Constants\<close>

definition CLAUDE_CODE_STREAM_GUARD_ATTEMPTS :: nat where
  "CLAUDE_CODE_STREAM_GUARD_ATTEMPTS = 3"

definition ANTHROPIC_TOOL_JSON_DELTA_CHUNK_BYTES :: nat where
  "ANTHROPIC_TOOL_JSON_DELTA_CHUNK_BYTES = 4 * 1024"

section \<open>The pieces of the arguments\<close>

text \<open>The last boundary of a character at or before \<open>end\<close> and not before \<open>start\<close>.\<close>

fun boundary_down :: "string \<Rightarrow> nat \<Rightarrow> nat \<Rightarrow> nat" where
  "boundary_down s start 0 = 0"
| "boundary_down s start (Suc e) =
     (if start < Suc e \<and> \<not> is_char_boundary s (Suc e) then boundary_down s start e else Suc e)"

lemma boundary_down_bounds: "boundary_down s start e \<le> e \<and> (start \<le> e \<longrightarrow> start \<le> boundary_down s start e)"
  by (induction s start e rule: boundary_down.induct) auto

definition chunk_end :: "nat \<Rightarrow> string \<Rightarrow> nat \<Rightarrow> nat" where
  "chunk_end k s start =
     (let e = boundary_down s start (min (start + k) (length s))
      in if e = start
         then (case chars_of (drop start s) of [] \<Rightarrow> length s | c # _ \<Rightarrow> start + length c)
         else e)"

lemma chars_of_nonempty: "c \<in> set (chars_of s) \<Longrightarrow> c \<noteq> []"
  by (induction s rule: chars_of.induct) auto

lemma chunk_end_advances: "start < length s \<Longrightarrow> start < chunk_end k s start"
  using boundary_down_bounds [of s start "min (start + k) (length s)"]
    chars_of_nonempty [of "hd (chars_of (drop start s))" "drop start s"]
  by (cases "chars_of (drop start s)") (auto simp: chunk_end_def Let_def)

function chunks_from :: "nat \<Rightarrow> string \<Rightarrow> nat \<Rightarrow> string list" where
  "chunks_from k s start =
     (if start < length s
      then take (chunk_end k s start - start) (drop start s) # chunks_from k s (chunk_end k s start)
      else [])"
  by pat_completeness auto
termination
  by (relation "measure (\<lambda>(k, s, start). length s - start)") (use chunk_end_advances in \<open>auto intro: diff_less_mono2\<close>)

declare chunks_from.simps [simp del]

definition anthropic_tool_json_delta_chunks :: "string \<Rightarrow> string list" where
  "anthropic_tool_json_delta_chunks input =
     (if input = [] then [] else chunks_from ANTHROPIC_TOOL_JSON_DELTA_CHUNK_BYTES input 0)"

section \<open>Required arguments\<close>

definition input_gate_for_tool :: "synthesis_env \<Rightarrow> chat_request \<Rightarrow> string \<Rightarrow> string list" where
  "input_gate_for_tool Y body name =
     (case cr_tools body of
        None \<Rightarrow> []
      | Some tools \<Rightarrow>
          (case Option.bind (find (\<lambda>t. sy_lowercase Y (of_name (ot_function t)) = sy_lowercase Y name)
                               tools) (\<lambda>t. of_parameters (ot_function t)) of
             None \<Rightarrow> []
           | Some parameters \<Rightarrow> schema_required parameters))"

definition fallback_required_fields_for_claude_code_tool :: "string \<Rightarrow> string list" where
  "fallback_required_fields_for_claude_code_tool name =
     unwrap_or [] (map_of
       [(''bash'', [''command'']),
        (''bashoutput'', [''bash_id'']),
        (''agent'', [''description'', ''prompt'']),
        (''edit'', [''file_path'', ''old_string'', ''new_string'']),
        (''glob'', [''pattern'']),
        (''grep'', [''pattern'']),
        (''killbash'', [''shell_id'']),
        (''ls'', [''path'']),
        (''multiedit'', [''file_path'', ''edits'']),
        (''notebookedit'', [''notebook_path'', ''cell_id'', ''new_source'']),
        (''notebookread'', [''notebook_path'']),
        (''read'', [''file_path'']),
        (''sendmessage'', [''to'', ''message'']),
        (''task'', [''description'', ''prompt'', ''subagent_type'']),
        (''todowrite'', [''todos'']),
        (''toolsearch'', [''query'']),
        (''webfetch'', [''url'']),
        (''websearch'', [''query'']),
        (''write'', [''file_path'', ''content''])] (to_ascii_lowercase name))"

definition required_fields_for_tool ::
  "synthesis_env \<Rightarrow> chat_request \<Rightarrow> string \<Rightarrow> client_profile \<Rightarrow> string list" where
  "required_fields_for_tool Y body name profile =
     (if input_gate_for_tool Y body name \<noteq> [] then input_gate_for_tool Y body name
      else if cp_kind profile = ClaudeCode then fallback_required_fields_for_claude_code_tool name
      else [])"

definition json_object_is_empty :: "json \<Rightarrow> bool" where
  "json_object_is_empty input \<longleftrightarrow> input = JObject []"

definition tool_input_has_required_fields :: "json \<Rightarrow> string list \<Rightarrow> bool" where
  "tool_input_has_required_fields input required \<longleftrightarrow>
     required = []
     \<or> (case input of
          JObject m \<Rightarrow>
            list_all (\<lambda>f. case map_of m f of None \<Rightarrow> False | Some v \<Rightarrow> v \<noteq> JNull) required
        | _ \<Rightarrow> False)"

definition schema_allows_empty_tool_input ::
  "synthesis_env \<Rightarrow> chat_request \<Rightarrow> string \<Rightarrow> client_profile \<Rightarrow> bool" where
  "schema_allows_empty_tool_input Y body name profile \<longleftrightarrow>
     required_fields_for_tool Y body name profile = []"

section \<open>Rules of the client ClaudeCode\<close>

definition json_string_field_is_non_empty :: "json \<Rightarrow> string \<Rightarrow> bool" where
  "json_string_field_is_non_empty input field \<longleftrightarrow>
     (case get_str field input of None \<Rightarrow> False | Some v \<Rightarrow> trim v \<noteq> [])"

definition claude_code_send_message_input_satisfies_local_rules :: "json \<Rightarrow> bool" where
  "claude_code_send_message_input_satisfies_local_rules input \<longleftrightarrow>
     (case as_object input of
        None \<Rightarrow> False
      | Some m \<Rightarrow>
          (case map_option trim (Option.bind (map_of m ''to'') as_str) of
             None \<Rightarrow> False
           | Some to \<Rightarrow>
               if to = [] \<or> CHR ''@'' \<in> set to then False
               else
                 (case map_of m ''message'' of
                    None \<Rightarrow> False
                  | Some (JString s) \<Rightarrow>
                      (case Option.bind (map_of m ''summary'') as_str of
                         None \<Rightarrow> False
                       | Some summary \<Rightarrow> trim summary \<noteq> [])
                  | Some message \<Rightarrow> if to = ''*'' then False else as_object message \<noteq> None)))"

definition claude_code_tool_input_satisfies_local_rules :: "string \<Rightarrow> json \<Rightarrow> bool" where
  "claude_code_tool_input_satisfies_local_rules tool_name input =
     (let tool = to_ascii_lowercase tool_name
      in if tool = ''bash'' then json_string_field_is_non_empty input ''command''
         else if tool = ''bashoutput'' then json_string_field_is_non_empty input ''bash_id''
         else if tool = ''glob'' then json_string_field_is_non_empty input ''pattern''
         else if tool = ''grep'' then json_string_field_is_non_empty input ''pattern''
         else if tool = ''killbash'' then json_string_field_is_non_empty input ''shell_id''
         else if tool = ''ls'' then json_string_field_is_non_empty input ''path''
         else if tool \<in> set [''toolsearch'', ''websearch'']
           then json_string_field_is_non_empty input ''query''
         else if tool = ''webfetch'' then json_string_field_is_non_empty input ''url''
         else if tool = ''sendmessage''
           then claude_code_send_message_input_satisfies_local_rules input
         else True)"

definition claude_code_required_field_needs_repair :: "string \<Rightarrow> string \<Rightarrow> json \<Rightarrow> bool" where
  "claude_code_required_field_needs_repair tool_name field v =
     (let tool = to_ascii_lowercase tool_name
      in if field \<in> set [''file_path'', ''notebook_path'']
            \<and> tool \<in> set [''read'', ''write'', ''edit'', ''multiedit'', ''notebookread'', ''notebookedit'']
         then (case as_str v of None \<Rightarrow> True | Some p \<Rightarrow> trim p \<in> set [[], ''.'', ''/'', [CHR 0x5C]])
         else if tool \<in> set [''bash'', ''toolsearch'', ''websearch'']
                 \<and> field \<in> set [''command'', ''query'']
         then (case as_str v of None \<Rightarrow> True | Some t \<Rightarrow> trim t = [])
         else False)"

definition claude_code_tool_input_has_repairable_required_fields ::
  "string \<Rightarrow> json \<Rightarrow> string list \<Rightarrow> bool" where
  "claude_code_tool_input_has_repairable_required_fields tool_name input required \<longleftrightarrow>
     (case as_object input of
        None \<Rightarrow> False
      | Some m \<Rightarrow>
          list_ex (\<lambda>f. case map_of m f of None \<Rightarrow> False
                        | Some v \<Rightarrow> claude_code_required_field_needs_repair tool_name f v) required)"

text \<open>\<open>str::split_whitespace\<close>.\<close>

fun words_from :: "string \<Rightarrow> string list \<Rightarrow> string list" where
  "words_from w [] = (if w = [] then [] else [w])"
| "words_from w (c # cs) =
     (if char_is_ws c then (if w = [] then words_from [] cs else w # words_from [] cs)
      else words_from (w @ c) cs)"

definition split_whitespace :: "string \<Rightarrow> string list" where
  "split_whitespace s = words_from [] (chars_of s)"

definition send_message_summary_from_message :: "string \<Rightarrow> string" where
  "send_message_summary_from_message message =
     (let summary = join_with '' '' (take 12 (split_whitespace message));
          summary = (if summary = [] then ''Message teammate'' else summary)
      in take_chars 96 summary)"

definition repair_claude_code_conditional_tool_input :: "string \<Rightarrow> json \<Rightarrow> json option" where
  "repair_claude_code_conditional_tool_input tool_name input =
     (if to_ascii_lowercase tool_name \<noteq> ''sendmessage'' then None
      else
        Option.bind (as_object input) (\<lambda>m.
        Option.bind (Option.bind (map_of m ''message'') as_str) (\<lambda>message.
          if (case Option.bind (map_of m ''summary'') as_str of
                None \<Rightarrow> False | Some s \<Rightarrow> trim s \<noteq> []) then None
          else Some (JObject (obj_insert ''summary''
                 (JString (send_message_summary_from_message message)) m)))))"

section \<open>The gate\<close>

definition show_int :: "int \<Rightarrow> string" where
  "show_int i = (if i < 0 then CHR ''-'' # show_nat (nat (- i)) else show_nat (nat i))"

definition anthropic_tool_call_identity :: "collected_tool_call \<Rightarrow> chat_request \<Rightarrow> tool_call option" where
  "anthropic_tool_call_identity tool body =
     (let clean_id = (case ct_id tool of
                        Some i \<Rightarrow> if i \<noteq> [] then i else ''call_'' @ show_int (ct_index tool)
                      | None \<Rightarrow> ''call_'' @ show_int (ct_index tool));
          clean_id = (case str_find clean_id ''{'' of Some pos \<Rightarrow> take pos clean_id | None \<Rightarrow> clean_id);
          tc = \<lparr>tc_id = Some clean_id, tc_call_type = ''function'',
                tc_function = \<lparr>tf_name = ct_name tool, tf_arguments = []\<rparr>,
                tc_index = Some (ct_index tool)\<rparr>;
          tc = canonicalize_tool_call_name tc body
      in if trim (tf_name (tc_function tc)) = [] then None else Some tc)"

text \<open>Empty arguments stand for the empty object.\<close>

definition parse_input :: "synthesis_env \<Rightarrow> string \<Rightarrow> json option" where
  "parse_input Y args = (if trim args = [] then Some (JObject []) else from_slice (sy_serde Y) args)"

definition streamable_anthropic_tool_call ::
  "synthesis_env \<Rightarrow> collected_tool_call \<Rightarrow> chat_request \<Rightarrow> client_profile \<Rightarrow>
    (tool_call \<times> json) option" where
  "streamable_anthropic_tool_call Y tool body profile =
     Option.bind (anthropic_tool_call_identity tool body) (\<lambda>tc.
       if trim (ct_arguments tool) \<noteq> [] \<and> from_slice (sy_serde Y) (ct_arguments tool) = None then None
       else
         let tc = tc\<lparr>tc_function := (tc_function tc)\<lparr>tf_arguments := ct_arguments tool\<rparr>\<rparr>;
             ct = (if uses_compat_tool_history profile then complete_tool_call Y tc body else tc);
             name = tf_name (tc_function ct);
             claude = (cp_kind profile = ClaudeCode)
         in if trim name = [] then None
            else
              let required = required_fields_for_tool Y body name profile
              in Option.bind (parse_input Y (ct_arguments tool)) (\<lambda>original_input.
                 if claude \<and> \<not> tool_input_has_required_fields original_input required then None
                 else
                   Option.bind (parse_input Y (tf_arguments (tc_function ct))) (\<lambda>input.
                     let input = (if claude
                                  then unwrap_or input
                                         (repair_claude_code_conditional_tool_input name input)
                                  else input)
                     in if \<not> tool_input_has_required_fields input required then None
                        else if claude
                             \<and> claude_code_tool_input_has_repairable_required_fields name input required
                          then None
                        else if json_object_is_empty input
                             \<and> \<not> schema_allows_empty_tool_input Y body name profile then None
                        else if claude \<and> \<not> claude_code_tool_input_satisfies_local_rules name input
                          then None
                        else Some (ct, input))))"

definition try_repair_dsml_invoke_leak ::
  "synthesis_env \<Rightarrow> string \<Rightarrow> string \<Rightarrow> collected_tool_call list \<Rightarrow> chat_request \<Rightarrow>
    client_profile \<Rightarrow> (bool \<times> collected_tool_call list) outcome" where
  "try_repair_dsml_invoke_leak Y content reasoning tool_calls body profile =
     (if tool_calls \<noteq> [] then Done (False, tool_calls)
      else
        let blob = dsml_source_blob reasoning content
        in if \<not> contains_dsml_tool_leak blob then Done (False, tool_calls)
           else
             case repair_invoke_leak (sy_serde Y) blob of
               Panic \<Rightarrow> Panic
             | Done None \<Rightarrow> Done (False, tool_calls)
             | Done (Some (name, args)) \<Rightarrow>
                 let candidate = \<lparr>ct_index = 0, ct_id = None, ct_name = name, ct_arguments = args\<rparr>
                 in if streamable_anthropic_tool_call Y candidate body profile = None
                    then Done (False, tool_calls)
                    else Done (True, tool_calls @ [candidate]))"

section \<open>When an attempt is repeated\<close>

text \<open>Durations are nanoseconds; the time since a moment is an argument.\<close>

type_synonym duration = nat

definition from_secs :: "nat \<Rightarrow> duration" where
  "from_secs s = s * 1000000000"

definition from_millis :: "nat \<Rightarrow> duration" where
  "from_millis s = s * 1000000"

definition should_retry_stream_without_forwardable_output ::
  "client_profile \<Rightarrow> nat \<Rightarrow> string \<Rightarrow> collected_tool_call list \<Rightarrow> duration \<Rightarrow> duration \<Rightarrow> nat \<Rightarrow>
    duration \<Rightarrow> duration \<Rightarrow> duration \<Rightarrow> bool" where
  "should_retry_stream_without_forwardable_output profile attempt content tool_calls elapsed
     retry_after reasoning_len since_progress stall_window max_wait =
     (if cp_kind profile \<noteq> ClaudeCode \<or> attempt + 1 \<ge> CLAUDE_CODE_STREAM_GUARD_ATTEMPTS
         \<or> trim content \<noteq> [] \<or> tool_calls \<noteq> [] then False
      else if elapsed < retry_after then False
      else
        let reasoning_alive = (0 < reasoning_len \<and> since_progress < stall_window)
        in \<not> (reasoning_alive \<and> elapsed < max_wait))"

definition should_retry_stream_completed_reasoning_only ::
  "client_profile \<Rightarrow> nat \<Rightarrow> string \<Rightarrow> collected_tool_call list \<Rightarrow> int list \<Rightarrow> string \<Rightarrow> bool" where
  "should_retry_stream_completed_reasoning_only profile attempt content tool_calls emitted reasoning \<longleftrightarrow>
     cp_kind profile = ClaudeCode \<and> attempt + 1 < CLAUDE_CODE_STREAM_GUARD_ATTEMPTS
     \<and> trim content = [] \<and> tool_calls = [] \<and> emitted = [] \<and> trim reasoning \<noteq> []"

definition should_retry_stream_error_before_output ::
  "client_profile \<Rightarrow> nat \<Rightarrow> string \<Rightarrow> collected_tool_call list \<Rightarrow> bool" where
  "should_retry_stream_error_before_output profile attempt content tool_calls \<longleftrightarrow>
     cp_kind profile = ClaudeCode \<and> attempt + 1 < CLAUDE_CODE_STREAM_GUARD_ATTEMPTS
     \<and> trim content = [] \<and> tool_calls = []"

definition thinking_text_duplicate_overlap :: "string \<Rightarrow> string \<Rightarrow> nat" where
  "thinking_text_duplicate_overlap content reasoning =
     (let trimmed = trim content
      in if length trimmed < 32 \<or> length reasoning < 32 then 0
         else if contains_str reasoning trimmed then length trimmed else 0)"

definition should_retry_dsml_tool_leak ::
  "client_profile \<Rightarrow> nat \<Rightarrow> bool \<Rightarrow> string \<Rightarrow> string \<Rightarrow> collected_tool_call list \<Rightarrow> int list \<Rightarrow> bool" where
  "should_retry_dsml_tool_leak profile attempt leak content reasoning tool_calls emitted \<longleftrightarrow>
     cp_kind profile = ClaudeCode
     \<and> (leak \<or> contains_dsml_tool_leak content \<or> contains_dsml_tool_leak reasoning)
     \<and> tool_calls = [] \<and> emitted = [] \<and> attempt + 1 < CLAUDE_CODE_STREAM_GUARD_ATTEMPTS"

definition has_unemitted_streamable_tool_call ::
  "synthesis_env \<Rightarrow> collected_tool_call list \<Rightarrow> int list \<Rightarrow> chat_request \<Rightarrow> client_profile \<Rightarrow> bool" where
  "has_unemitted_streamable_tool_call Y tool_calls emitted body profile \<longleftrightarrow>
     list_ex (\<lambda>tool. streamable_anthropic_tool_call Y tool body profile \<noteq> None)
       (filter (\<lambda>tool. ct_index tool \<notin> set emitted) tool_calls)"

definition has_forwardable_anthropic_output ::
  "synthesis_env \<Rightarrow> string \<Rightarrow> collected_tool_call list \<Rightarrow> int list \<Rightarrow> chat_request \<Rightarrow>
    client_profile \<Rightarrow> bool" where
  "has_forwardable_anthropic_output Y content tool_calls emitted body profile \<longleftrightarrow>
     trim content \<noteq> [] \<or> emitted \<noteq> []
     \<or> has_unemitted_streamable_tool_call Y tool_calls emitted body profile"

definition has_streamable_anthropic_tool_call ::
  "synthesis_env \<Rightarrow> collected_tool_call list \<Rightarrow> chat_request \<Rightarrow> client_profile \<Rightarrow> bool" where
  "has_streamable_anthropic_tool_call Y tool_calls body profile \<longleftrightarrow>
     list_ex (\<lambda>tool. streamable_anthropic_tool_call Y tool body profile \<noteq> None) tool_calls"

definition has_only_incomplete_tool_arguments ::
  "synthesis_env \<Rightarrow> string \<Rightarrow> collected_tool_call list \<Rightarrow> chat_request \<Rightarrow> client_profile \<Rightarrow> bool" where
  "has_only_incomplete_tool_arguments Y content tool_calls body profile \<longleftrightarrow>
     trim content = [] \<and> tool_calls \<noteq> []
     \<and> \<not> has_streamable_anthropic_tool_call Y tool_calls body profile"

text \<open>The signatures seen so far are a list, the newest first.\<close>

definition should_skip_duplicate_claude_code_tool_call ::
  "serde \<Rightarrow> client_profile \<Rightarrow> string list \<Rightarrow> string \<Rightarrow> json \<Rightarrow> bool \<times> string list" where
  "should_skip_duplicate_claude_code_tool_call S profile seen tool_name input =
     (if cp_kind profile \<noteq> ClaudeCode then (False, seen)
      else
        let signature = to_ascii_lowercase tool_name @ '':'' @ to_string S input
        in if signature \<in> set seen then (True, seen) else (False, signature # seen))"

definition incomplete_tool_arguments_error :: app_error where
  "incomplete_tool_arguments_error =
     app_error_new 502 ''upstream returned incomplete tool call arguments''"

definition should_apply_initial_fetch_timeout :: "client_profile \<Rightarrow> nat \<Rightarrow> nat \<Rightarrow> nat \<Rightarrow> bool" where
  "should_apply_initial_fetch_timeout profile estimated min_input timeout_secs \<longleftrightarrow>
     cp_kind profile = ClaudeCode \<and> 0 < timeout_secs \<and> min_input \<le> estimated"

definition adaptive_no_forwardable_retry_after :: "duration \<Rightarrow> nat \<Rightarrow> duration" where
  "adaptive_no_forwardable_retry_after configured estimated =
     min configured (from_secs
       (if estimated \<le> 49999 then 10
        else if estimated \<le> 99999 then 14
        else if estimated \<le> 199999 then 22
        else if estimated \<le> 399999 then 32
        else 45))"

definition claude_code_upstream_wait_interval ::
  "client_profile \<Rightarrow> nat \<Rightarrow> bool \<Rightarrow> string \<Rightarrow> collected_tool_call list \<Rightarrow> duration \<Rightarrow> duration \<Rightarrow>
    duration \<Rightarrow> nat \<Rightarrow> duration \<Rightarrow> duration \<Rightarrow> duration \<Rightarrow> duration" where
  "claude_code_upstream_wait_interval profile attempt started content tool_calls elapsed
     retry_after idle_ping reasoning_len since_progress stall_window max_wait =
     (if \<not> (cp_kind profile = ClaudeCode \<and> attempt + 1 < CLAUDE_CODE_STREAM_GUARD_ATTEMPTS
             \<and> \<not> started \<and> trim content = [] \<and> tool_calls = []) then idle_ping
      else
        let reasoning_alive = (0 < reasoning_len \<and> since_progress < stall_window);
            horizon = (if reasoning_alive then max_wait else retry_after);
            remaining = horizon - elapsed
        in min idle_ping (max remaining (from_millis 1)))"

definition anthropic_stop_reason :: "string option \<Rightarrow> bool \<Rightarrow> string" where
  "anthropic_stop_reason upstream_finish_reason has_emitted =
     (if has_emitted then ''tool_use''
      else if upstream_finish_reason = Some ''length'' then ''max_tokens''
      else if upstream_finish_reason = Some ''stop'' then ''end_turn''
      else if upstream_finish_reason \<in> {Some ''content_filter'', Some ''refusal''} then ''refusal''
      else ''end_turn'')"

text \<open>
  While nothing can be forwarded the client is never left waiting past the moment from which the
  attempt is repeated: then the wait is the shortest one.
\<close>

lemma retry_bounds_the_wait:
  assumes "should_retry_stream_without_forwardable_output profile attempt content calls elapsed
      retry_after rl since stall max_wait" and "retry_after \<le> max_wait"
  shows "claude_code_upstream_wait_interval profile attempt False content calls elapsed
      retry_after idle rl since stall max_wait \<le> from_millis 1"
  using assms by (auto simp: should_retry_stream_without_forwardable_output_def
      claude_code_upstream_wait_interval_def Let_def split: if_splits)

end
