(* ===== verification/ToolGateCorrect.thy ===== *)
theory ToolGateCorrect
  imports ToolGate
begin

text \<open>
  The pieces of a call's arguments are whole characters, small, and join to the arguments; a
  call that passes the gate is complete.
\<close>

section \<open>Boundaries\<close>

lemma utf8_split:
  "utf8_from n (a @ b) \<Longrightarrow> b = [] \<or> \<not> is_cont (hd b) \<Longrightarrow> utf8_from n a \<and> utf8_ok b"
proof (induction a arbitrary: n)
  case Nil
  then show ?case by (cases n; cases b) auto
next
  case (Cons x a)
  then show ?case by (cases n) (auto split: if_splits)
qed

lemma boundary_hd: "is_char_boundary s i \<Longrightarrow> drop i s = [] \<or> \<not> is_cont (hd (drop i s))"
  by (auto simp: is_char_boundary_def is_cont_def hd_drop_conv_nth)

lemma utf8_at_boundary:
  assumes "utf8_ok s" and "is_char_boundary s i"
  shows "utf8_ok (take i s)" and "utf8_ok (drop i s)"
  using utf8_split [of 0 "take i s" "drop i s"] boundary_hd [OF assms(2)] assms(1) by auto

lemma first_char_short:
  assumes "utf8_ok t" and "t \<noteq> []"
  shows "\<exists>j. 0 < j \<and> j \<le> 4 \<and> is_char_boundary t j"
proof -
  have *: "\<exists>j \<le> n. j \<le> length u \<and> (drop j u = [] \<or> \<not> is_cont (hd (drop j u)))"
    if "utf8_from n u" for n u
    using that
  proof (induction u arbitrary: n)
    case Nil
    then show ?case by simp
  next
    case (Cons c u)
    show ?case
    proof (cases n)
      case 0
      then show ?thesis using Cons.prems utf8_ok_not_cont by (intro exI [of _ 0]) auto
    next
      case (Suc m)
      then have "utf8_from m u" using Cons.prems by simp
      then obtain j where "j \<le> m" "j \<le> length u" "drop j u = [] \<or> \<not> is_cont (hd (drop j u))"
        using Cons.IH by blast
      then show ?thesis using Suc by (intro exI [of _ "Suc j"]) auto
    qed
  qed
  obtain a u where t: "t = a # u" using assms(2) by (cases t) auto
  have "utf8_from 0 u \<or> utf8_from 1 u \<or> utf8_from 2 u \<or> utf8_from 3 u"
    using assms(1) unfolding t by (auto split: if_splits)
  then obtain n where "n \<in> {0, 1, 2, 3}" and u: "utf8_from n u" by blast
  then have n: "n \<le> 3" "utf8_from n u" by auto
  obtain j where "j \<le> n" "j \<le> length u" "drop j u = [] \<or> \<not> is_cont (hd (drop j u))"
    using * [OF n(2)] by blast
  then show ?thesis unfolding t using n(1)
    by (intro exI [of _ "Suc j"]) (auto simp: is_char_boundary_def is_cont_def hd_drop_conv_nth)
qed

lemma boundary_shift: "start \<le> length s \<Longrightarrow> is_char_boundary (drop start s) j \<Longrightarrow> is_char_boundary s (start + j)"
  by (auto simp: is_char_boundary_def)

section \<open>The pieces\<close>

lemma boundary_down_greatest:
  "start < b \<Longrightarrow> b \<le> e \<Longrightarrow> is_char_boundary s b \<Longrightarrow> b \<le> boundary_down s start e"
  by (induction s start e rule: boundary_down.induct) (auto simp: le_Suc_eq)

lemma boundary_down_boundary:
  "start \<le> e \<Longrightarrow> is_char_boundary s start \<Longrightarrow> is_char_boundary s (boundary_down s start e)"
  by (induction s start e rule: boundary_down.induct) (auto simp: le_Suc_eq)

lemma chunk_end_props:
  assumes "utf8_ok s" and "is_char_boundary s start" and "start < length s" and "4 \<le> k"
  shows "start < chunk_end k s start" and "chunk_end k s start \<le> min (start + k) (length s)"
    and "is_char_boundary s (chunk_end k s start)"
proof -
  let ?e = "min (start + k) (length s)"
  have ok: "utf8_ok (drop start s)" by (rule utf8_at_boundary(2) [OF assms(1,2)])
  obtain j where j: "0 < j" "j \<le> 4" "is_char_boundary (drop start s) j"
    using first_char_short [OF ok] assms(3) by auto
  have b: "is_char_boundary s (start + j)" by (rule boundary_shift [OF less_imp_le [OF assms(3)] j(3)])
  then have "start + j \<le> length s" by (auto simp: is_char_boundary_def)
  then have "start + j \<le> boundary_down s start ?e"
    using boundary_down_greatest [OF _ _ b, of start ?e] j assms(4) by auto
  then have e: "chunk_end k s start = boundary_down s start ?e" "start < boundary_down s start ?e"
    using j(1) by (auto simp: chunk_end_def Let_def)
  show "start < chunk_end k s start" "chunk_end k s start \<le> ?e"
    using e boundary_down_bounds [of s start ?e] by auto
  show "is_char_boundary s (chunk_end k s start)"
    unfolding e(1) by (rule boundary_down_boundary) (use assms in auto)
qed

lemma chunks_from_props:
  assumes "utf8_ok s" and "4 \<le> k" and "is_char_boundary s start" and "start \<le> length s"
  shows "concat (chunks_from k s start) = drop start s
    \<and> (\<forall>c \<in> set (chunks_from k s start). c \<noteq> [] \<and> length c \<le> k \<and> utf8_ok c)"
  using assms
proof (induction k s start rule: chunks_from.induct)
  case (1 k s start)
  show ?case
  proof (cases "start < length s")
    case True
    let ?e = "chunk_end k s start" let ?c = "take (?e - start) (drop start s)"
    note p = chunk_end_props [OF 1(2,4) True 1(3)]
    have IH: "concat (chunks_from k s ?e) = drop ?e s
        \<and> (\<forall>c \<in> set (chunks_from k s ?e). c \<noteq> [] \<and> length c \<le> k \<and> utf8_ok c)"
      using 1(1) [OF True 1(2,3) p(3)] p(2) by simp
    have d: "drop ?e s = drop (?e - start) (drop start s)" using p(1) by simp
    have "is_char_boundary (drop start s) (?e - start)"
      using p by (auto simp: is_char_boundary_def)
    then have "utf8_ok ?c" using utf8_at_boundary(1) [OF utf8_at_boundary(2) [OF 1(2,4)]] by blast
    moreover have "?c \<noteq> []" "length ?c \<le> k" using p True by auto
    moreover have "?c @ drop ?e s = drop start s" by (simp only: d append_take_drop_id)
    ultimately show ?thesis using IH True chunks_from.simps [of k s start] by auto
  next
    case False
    then show ?thesis using chunks_from.simps [of k s start] by simp
  qed
qed

text \<open>
  C20: The pieces in which a call's arguments are streamed join to the arguments, and each of them
  is a text of whole characters, not empty and of at most 4096 bytes.
\<close>

theorem argument_pieces_rejoin:
  assumes "utf8_ok input"
  shows "concat (anthropic_tool_json_delta_chunks input) = input
    \<and> (\<forall>c \<in> set (anthropic_tool_json_delta_chunks input).
          c \<noteq> [] \<and> length c \<le> 4096 \<and> utf8_ok c)"
proof (cases "input = []")
  case False
  have "is_char_boundary input 0"
    using assms False by (cases input) (auto simp: is_char_boundary_def is_cont_def dest: utf8_ok_not_cont)
  then show ?thesis
    using chunks_from_props [of input ANTHROPIC_TOOL_JSON_DELTA_CHUNK_BYTES 0] assms False
    by (simp add: anthropic_tool_json_delta_chunks_def ANTHROPIC_TOOL_JSON_DELTA_CHUNK_BYTES_def)
qed (simp add: anthropic_tool_json_delta_chunks_def)

lemma argument_pieces_rejoin_witness:
  "concat (anthropic_tool_json_delta_chunks ''{}'') = ''{}''"
  using argument_pieces_rejoin [of "''{}''"] by (simp add: of_char_Char)

section \<open>Calls that pass\<close>

lemma find_brace_absent: "str_find s ''{'' = None \<Longrightarrow> CHR ''{'' \<notin> set s"
  unfolding str_find_None_iff sublist_def by (metis append_Cons append_Nil split_list)

lemma find_brace_before: "str_find s ''{'' = Some n \<Longrightarrow> CHR ''{'' \<notin> set (take n s)"
  by (induction s arbitrary: n) (auto split: if_splits)

text \<open>The identity of a call: an identifier without a brace and a name that is not blank.\<close>

lemma identity_clean:
  assumes "anthropic_tool_call_identity tool body = Some tc"
  shows "\<exists>i. tc_id tc = Some i \<and> CHR ''{'' \<notin> set i" and "trim (tf_name (tc_function tc)) \<noteq> []"
    and "tc_index tc = Some (ct_index tool)" and "tf_arguments (tc_function tc) = []"
  using assms unfolding anthropic_tool_call_identity_def Let_def
  by (auto split: if_splits option.splits dest: find_brace_before find_brace_absent)

text \<open>
  C19: A call that passes the gate has a name and an identifier without a brace, and each argument
  its tool requires is there and not null.  For the client ClaudeCode the model itself gave all
  of them, none was inferred, and the local rules of the tool hold.
\<close>

theorem forwarded_call_is_complete:
  assumes "streamable_anthropic_tool_call Y tool body profile = Some (ct, input)"
  defines "name \<equiv> tf_name (tc_function ct)"
  defines "required \<equiv> required_fields_for_tool Y body name profile"
  shows "trim name \<noteq> [] \<and> (\<exists>i. tc_id ct = Some i \<and> CHR ''{'' \<notin> set i)
    \<and> tc_index ct = Some (ct_index tool)
    \<and> (\<forall>f \<in> set required. \<exists>v. json_get f input = Some v \<and> v \<noteq> JNull)
    \<and> (cp_kind profile = ClaudeCode \<longrightarrow>
         (\<exists>original. parse_input Y (ct_arguments tool) = Some original
            \<and> (\<forall>f \<in> set required. \<exists>v. json_get f original = Some v \<and> v \<noteq> JNull))
         \<and> claude_code_tool_input_satisfies_local_rules name input)"
proof -
  have req: "\<exists>v. json_get f i = Some v \<and> v \<noteq> JNull"
    if "tool_input_has_required_fields i r" "f \<in> set r" for i r f
    using that by (auto simp: tool_input_has_required_fields_def list_all_iff
        split: json.splits option.splits)
  obtain tc where tc: "anthropic_tool_call_identity tool body = Some tc"
    using assms(1) by (auto simp: streamable_anthropic_tool_call_def Option.bind_eq_Some_conv)
  note i = identity_clean [OF tc]
  have ids: "tc_id ct = tc_id tc" "tc_index ct = tc_index tc"
    using assms(1) tc by (auto simp: streamable_anthropic_tool_call_def Let_def
        complete_tool_call_def Option.bind_eq_Some_conv split: if_splits)
  have "trim name \<noteq> []" "tool_input_has_required_fields input required"
    and c: "cp_kind profile = ClaudeCode \<Longrightarrow>
       claude_code_tool_input_satisfies_local_rules name input
       \<and> (\<exists>original. parse_input Y (ct_arguments tool) = Some original
            \<and> tool_input_has_required_fields original required)"
    using assms(1) tc unfolding name_def required_def
    by (auto simp: streamable_anthropic_tool_call_def Let_def Option.bind_eq_Some_conv
        split: if_splits)
  then show ?thesis using i ids req by auto
qed

text \<open>A run of the gate: a call of the shell with its command.\<close>

definition demo_synthesis :: synthesis_env where
  "demo_synthesis =
     \<lparr>sy_serde = \<lparr>from_slice = (\<lambda>s. if s = ''ls'' then Some (JObject [(''command'', JString ''ls'')]) else None),
                  to_string = (\<lambda>_. ''ls'')\<rparr>,
      sy_lowercase = to_lowercase, sy_read_quoted = (\<lambda>_. None), sy_read_word = (\<lambda>_. None),
      sy_run_quoted = (\<lambda>_. None), sy_run_unquoted = (\<lambda>_. None), sy_reply_exactly = (\<lambda>_. None),
      sy_keyword = (\<lambda>_. False)\<rparr>"

definition demo_body :: "openai_tool list option \<Rightarrow> chat_request" where
  "demo_body tools =
     \<lparr>cr_model = ''m'', cr_messages = [], cr_stream = None, cr_max_tokens = None,
      cr_temperature = None, cr_top_p = None, cr_tools = tools, cr_tool_choice = None\<rparr>"

definition demo_shell_call :: collected_tool_call where
  "demo_shell_call = \<lparr>ct_index = 0, ct_id = Some ''c1{'', ct_name = ''Bash'', ct_arguments = ''ls''\<rparr>"

lemma demo_shell_call_passes:
  "streamable_anthropic_tool_call demo_synthesis demo_shell_call (demo_body None)
     (profile_new ClaudeCode FromHeader) =
   Some (\<lparr>tc_id = Some ''c1'', tc_call_type = ''function'',
          tc_function = \<lparr>tf_name = ''Bash'', tf_arguments = ''ls''\<rparr>, tc_index = Some 0\<rparr>,
         JObject [(''command'', JString ''ls'')])"
  by code_simp

lemma forwarded_call_is_complete_witness:
  "\<exists>ct input. streamable_anthropic_tool_call demo_synthesis demo_shell_call (demo_body None)
        (profile_new ClaudeCode FromHeader) = Some (ct, input)
     \<and> claude_code_tool_input_satisfies_local_rules (tf_name (tc_function ct)) input"
  using forwarded_call_is_complete [OF demo_shell_call_passes] demo_shell_call_passes
  by (auto simp: profile_new_def)

text \<open>
  Names are compared by their letters and digits only, and the first tool in the list wins even
  over one with exactly the name of the call: the call of one tool becomes the call of another.
\<close>

definition demo_tool :: "string \<Rightarrow> openai_tool" where
  "demo_tool name = \<lparr>ot_tool_type = ''function'',
     ot_function = \<lparr>of_name = name, of_description = None, of_parameters = None\<rparr>\<rparr>"

lemma call_is_renamed_to_another_tool:
  "canonical_tool_name (Some [demo_tool ''list_all'', demo_tool ''listAll'']) ''listAll''
     = Some ''list_all''"
  by code_simp

lemma foreign_names_are_all_one:
  "list_all (\<lambda>c. \<not> is_ascii_alphanumeric c) a \<Longrightarrow> list_all (\<lambda>c. \<not> is_ascii_alphanumeric c) b \<Longrightarrow>
     canonical_tool_name (Some (demo_tool a # tools)) b = Some a"
  by (auto simp: canonical_tool_name_def normalize_tool_name_def demo_tool_def filter_empty_conv
      list_all_iff)

end
