(* ===== verification/ClientAnswers.thy ===== *)
theory ClientAnswers
  imports ToolGate RequestProbes MarkdownGuard Anchors
begin

text \<open>
  The answers of the client (\<open>proxy/anthropic.rs\<close>, \<open>proxy/openai.rs\<close>): the JSON of a message or a
  completion, the events of a stream that is known in full, the usage with its cached tokens in
  the conventions of both protocols, and the texts returned when the upstream stays empty.  The
  time stamp is an argument, the additions on \<open>u64\<close> wrap.
\<close>

section \<open>Usage\<close>

definition prompt_cached_tokens :: "zen_usage \<Rightarrow> nat option" where
  "prompt_cached_tokens u =
     (case Option.bind (Option.bind (zu_prompt_tokens_details u) (json_get ''cached_tokens'')) as_u64 of
        Some n \<Rightarrow> Some n
      | None \<Rightarrow> zu_prompt_cache_hit_tokens u)"

definition usage_cache_read_tokens :: "zen_usage \<Rightarrow> nat option" where
  "usage_cache_read_tokens u =
     (case zu_cache_read_input_tokens u of Some n \<Rightarrow> Some n | None \<Rightarrow> prompt_cached_tokens u)"

definition has_body_cache_usage_signal :: "zen_usage \<Rightarrow> bool" where
  "has_body_cache_usage_signal u \<longleftrightarrow>
     zu_cache_creation_input_tokens u \<noteq> None \<or> zu_cache_read_input_tokens u \<noteq> None
     \<or> prompt_cached_tokens u \<noteq> None \<or> zu_cache_miss_input_tokens u \<noteq> None
     \<or> zu_prompt_cache_miss_tokens u \<noteq> None"

definition cache_creation_tokens :: "zen_usage option \<Rightarrow> nat" where
  "cache_creation_tokens usage = unwrap_or 0 (Option.bind usage zu_cache_creation_input_tokens)"

definition cache_read_tokens :: "zen_usage option \<Rightarrow> nat" where
  "cache_read_tokens usage = unwrap_or 0 (Option.bind usage usage_cache_read_tokens)"

text \<open>The misses the upstream reports.\<close>

definition reported_miss :: "zen_usage \<Rightarrow> nat option" where
  "reported_miss u =
     (case zu_cache_miss_input_tokens u of Some n \<Rightarrow> Some n | None \<Rightarrow> zu_prompt_cache_miss_tokens u)"

definition cache_miss_tokens :: "zen_usage option \<Rightarrow> nat \<Rightarrow> nat option" where
  "cache_miss_tokens usage fallback_input =
     map_option (\<lambda>u. case reported_miss u of
                        Some n \<Rightarrow> n
                      | None \<Rightarrow> unwrap_or fallback_input (zu_prompt_tokens u)
                                 - unwrap_or 0 (usage_cache_read_tokens u)) usage"

definition anthropic_usage_json :: "nat \<Rightarrow> nat \<Rightarrow> zen_usage option \<Rightarrow> json" where
  "anthropic_usage_json input_tokens output_tokens usage =
     (let v = json_object
        [(''input_tokens'', json_nat input_tokens),
         (''cache_creation_input_tokens'', json_nat (cache_creation_tokens usage)),
         (''cache_read_input_tokens'', json_nat (cache_read_tokens usage)),
         (''output_tokens'', json_nat output_tokens)]
      in case cache_miss_tokens usage input_tokens of
           None \<Rightarrow> v
         | Some n \<Rightarrow> set_key ''cache_miss_input_tokens'' (json_nat n) v)"

definition anthropic_stream_delta_usage_json :: "nat \<Rightarrow> nat \<Rightarrow> nat \<Rightarrow> nat \<Rightarrow> nat option \<Rightarrow> json" where
  "anthropic_stream_delta_usage_json input_tokens output_tokens creation read miss =
     (let v = json_object
        [(''input_tokens'', json_nat input_tokens), (''output_tokens'', json_nat output_tokens),
         (''cache_creation_input_tokens'', json_nat creation),
         (''cache_read_input_tokens'', json_nat read)]
      in case miss of
           None \<Rightarrow> v
         | Some n \<Rightarrow> set_key ''cache_miss_input_tokens'' (json_nat n) v)"

text \<open>The cached tokens of a completion, rescaled to the prompt the client is charged for.\<close>

definition openai_usage_has_scale_mismatch :: "nat \<Rightarrow> nat \<Rightarrow> nat \<Rightarrow> bool" where
  "openai_usage_has_scale_mismatch prompt read creation \<longleftrightarrow>
     read \<noteq> 0
     \<and> (let billable = wrap_add 64 read creation
        in prompt > sat_add 64 billable 512 \<and> prompt > wrap_mul 64 billable 2)"

definition openai_marginal_uncached_tokens :: "nat \<Rightarrow> zen_usage \<Rightarrow> nat option" where
  "openai_marginal_uncached_tokens prompt u =
     (let read = unwrap_or 0 (usage_cache_read_tokens u);
          creation = unwrap_or 0 (zu_cache_creation_input_tokens u);
          inferred = prompt - sat_mul 64 read 2;
          from_inferred = (if 0 < inferred \<and> inferred < prompt div 4 then Some inferred else None)
      in if \<not> openai_usage_has_scale_mismatch prompt read creation then reported_miss u
         else
           case reported_miss u of
             Some miss \<Rightarrow>
               if miss < prompt - read - creation \<and> miss \<le> prompt div 4 then Some miss
               else from_inferred
           | None \<Rightarrow> from_inferred)"

definition newapi_cached_tokens_for_prompt :: "nat \<Rightarrow> zen_usage \<Rightarrow> nat option" where
  "newapi_cached_tokens_for_prompt prompt u =
     (let read = unwrap_or 0 (usage_cache_read_tokens u);
          creation = unwrap_or 0 (zu_cache_creation_input_tokens u)
      in if read = 0 then prompt_cached_tokens u
         else
           case openai_marginal_uncached_tokens prompt u of
             Some uncached \<Rightarrow> Some (prompt - uncached)
           | None \<Rightarrow>
               if \<not> openai_usage_has_scale_mismatch prompt read creation then Some read else None)"

definition append_openai_usage_metadata :: "json \<Rightarrow> zen_usage option \<Rightarrow> json" where
  "append_openai_usage_metadata usage_json usage =
     (case usage of
        None \<Rightarrow> usage_json
      | Some u \<Rightarrow>
          (let prompt = (case Option.bind (json_get ''prompt_tokens'' usage_json) as_u64 of
                           Some n \<Rightarrow> n
                         | None \<Rightarrow> unwrap_or 0 (zu_prompt_tokens u));
               v = (case zu_prompt_tokens_details u of
                      Some d \<Rightarrow> set_key ''prompt_tokens_details'' d usage_json
                    | None \<Rightarrow> usage_json)
           in case usage_cache_read_tokens u of
                None \<Rightarrow> v
              | Some read \<Rightarrow>
                  (let details = unwrap_or [] (Option.bind (json_get ''prompt_tokens_details'' v) as_object);
                       cached = unwrap_or read (newapi_cached_tokens_for_prompt prompt u)
                   in set_key ''prompt_tokens_details''
                        (JObject (obj_insert ''cached_tokens'' (json_nat cached) details)) v)))"

section \<open>Messages of the Anthropic protocol\<close>

record anthropic_content_block =
  ab_block_type :: string
  ab_text :: "string option"
  ab_id :: "string option"
  ab_name :: "string option"
  ab_input :: "json option"

definition ser_content_block :: "anthropic_content_block \<Rightarrow> json" where
  "ser_content_block b = JObject
     ([(''type'', JString (ab_block_type b))]
      @ opt_field ''text'' (map_option JString (ab_text b))
      @ opt_field ''id'' (map_option JString (ab_id b))
      @ opt_field ''name'' (map_option JString (ab_name b))
      @ opt_field ''input'' (ab_input b))"

definition text_resp_with_usage ::
  "nat \<Rightarrow> string \<Rightarrow> string \<Rightarrow> nat \<Rightarrow> nat \<Rightarrow> zen_usage option \<Rightarrow> string option \<Rightarrow> string option \<Rightarrow> json" where
  "text_resp_with_usage ts model content input_tokens output_tokens usage finish thinking =
     json_object
       [(''id'', JString (''msg_'' @ show_nat ts)), (''type'', JString ''message''),
        (''role'', JString ''assistant''), (''model'', JString model),
        (''content'', JArray
           ((case thinking of
               Some t \<Rightarrow> if trim t \<noteq> []
                 then [json_object [(''type'', JString ''thinking''), (''thinking'', JString t)]] else []
             | None \<Rightarrow> [])
            @ [json_object [(''type'', JString ''text''), (''text'', JString content)]])),
        (''stop_reason'', JString (anthropic_stop_reason finish False)),
        (''stop_sequence'', JNull),
        (''usage'', anthropic_usage_json input_tokens output_tokens usage)]"

definition text_resp :: "nat \<Rightarrow> string \<Rightarrow> string \<Rightarrow> nat \<Rightarrow> nat \<Rightarrow> json" where
  "text_resp ts model content input_tokens output_tokens =
     text_resp_with_usage ts model content input_tokens output_tokens None None None"

definition tool_resp_with_usage ::
  "nat \<Rightarrow> string \<Rightarrow> anthropic_content_block list \<Rightarrow> nat \<Rightarrow> nat \<Rightarrow> zen_usage option \<Rightarrow> json" where
  "tool_resp_with_usage ts model blocks input_tokens output_tokens usage =
     json_object
       [(''id'', JString (''msg_'' @ show_nat ts)), (''type'', JString ''message''),
        (''role'', JString ''assistant''), (''model'', JString model),
        (''content'', JArray (map ser_content_block blocks)),
        (''stop_reason'', JString ''tool_use''), (''stop_sequence'', JNull),
        (''usage'', anthropic_usage_json input_tokens output_tokens usage)]"

text \<open>An event of a stream: its name, if it has one, and its data.\<close>

type_synonym sse_event = "string option \<times> json"

definition anthropic_event :: "string \<Rightarrow> (string \<times> json) list \<Rightarrow> sse_event" where
  "anthropic_event name kvs = (Some name, json_object ((''type'', JString name) # kvs))"

definition message_start :: "nat \<Rightarrow> string \<Rightarrow> nat \<Rightarrow> sse_event" where
  "message_start ts model input_tokens = anthropic_event ''message_start''
     [(''message'', json_object
        [(''id'', JString (''msg_'' @ show_nat ts)), (''type'', JString ''message''),
         (''role'', JString ''assistant''), (''model'', JString model), (''content'', JArray []),
         (''stop_reason'', JNull), (''stop_sequence'', JNull),
         (''usage'', json_object
            [(''input_tokens'', json_nat input_tokens), (''output_tokens'', json_nat 0)])])]"

definition text_block_events :: "string \<Rightarrow> sse_event list" where
  "text_block_events content =
     [anthropic_event ''content_block_start''
        [(''index'', json_nat 0),
         (''content_block'', json_object [(''type'', JString ''text''), (''text'', JString [])])],
      anthropic_event ''content_block_delta''
        [(''index'', json_nat 0),
         (''delta'', json_object [(''type'', JString ''text_delta''), (''text'', JString content)])],
      anthropic_event ''content_block_stop'' [(''index'', json_nat 0)]]"

definition message_delta :: "string \<Rightarrow> json \<Rightarrow> sse_event" where
  "message_delta stop_reason usage = anthropic_event ''message_delta''
     [(''delta'', json_object
        [(''stop_reason'', JString stop_reason), (''stop_sequence'', JNull)]),
      (''usage'', usage)]"

definition anthropic_ok_stream_resp :: "nat \<Rightarrow> string \<Rightarrow> nat \<Rightarrow> nat \<Rightarrow> sse_event list" where
  "anthropic_ok_stream_resp ts model input_tokens output_tokens =
     [message_start ts model input_tokens] @ text_block_events ''ok''
     @ [message_delta ''end_turn'' (json_object [(''output_tokens'', json_nat output_tokens)]),
        anthropic_event ''message_stop'' []]"

text \<open>The events of one call.\<close>

definition tool_block_events :: "serde \<Rightarrow> nat \<Rightarrow> tool_call \<Rightarrow> json \<Rightarrow> sse_event list" where
  "tool_block_events S tidx ct input =
     (let js = to_string S input
      in [anthropic_event ''content_block_start''
            [(''index'', json_nat tidx),
             (''content_block'', json_object
                [(''type'', JString ''tool_use''), (''id'', json_option (map_option JString (tc_id ct))),
                 (''name'', JString (tf_name (tc_function ct))), (''input'', json_object [])])]]
         @ (if js \<noteq> ''{}''
            then map (\<lambda>chunk. anthropic_event ''content_block_delta''
                   [(''index'', json_nat tidx),
                    (''delta'', json_object
                       [(''type'', JString ''input_json_delta''), (''partial_json'', JString chunk)])])
                   (anthropic_tool_json_delta_chunks js)
            else [])
         @ [anthropic_event ''content_block_stop'' [(''index'', json_nat tidx)]])"

text \<open>The loop over the calls: how many were sent, and the signatures seen.\<close>

fun tool_blocks ::
  "synthesis_env \<Rightarrow> chat_request \<Rightarrow> client_profile \<Rightarrow> nat \<Rightarrow> nat \<Rightarrow> string list \<Rightarrow>
    collected_tool_call list \<Rightarrow> sse_event list \<times> nat" where
  "tool_blocks Y body profile base emitted seen [] = ([], emitted)"
| "tool_blocks Y body profile base emitted seen (tool # tools) =
     (case streamable_anthropic_tool_call Y tool body profile of
        None \<Rightarrow> tool_blocks Y body profile base emitted seen tools
      | Some (ct, input) \<Rightarrow>
          (case should_skip_duplicate_claude_code_tool_call (sy_serde Y) profile seen
                  (tf_name (tc_function ct)) input of
             (True, seen) \<Rightarrow> tool_blocks Y body profile base emitted seen tools
           | (False, seen) \<Rightarrow>
               (let (events, n) = tool_blocks Y body profile base (sat_add 64 emitted 1) seen tools
                in (tool_block_events (sy_serde Y) (emitted + base) ct input @ events, n))))"

definition anthropic_buffered_stream_resp ::
  "synthesis_env \<Rightarrow> nat \<Rightarrow> string \<Rightarrow> string \<Rightarrow> collected_tool_call list \<Rightarrow> nat \<Rightarrow> nat \<Rightarrow> nat \<Rightarrow> nat \<Rightarrow>
    nat option \<Rightarrow> string \<Rightarrow> chat_request \<Rightarrow> client_profile \<Rightarrow> sse_event list" where
  "anthropic_buffered_stream_resp Y ts model content tool_calls input_tokens output_tokens
     creation read miss stop_reason body profile =
     (let has_text = (trim content \<noteq> []);
          (blocks, emitted) =
            tool_blocks Y body profile (if has_text then 1 else 0) 0 [] tool_calls;
          stop = (if emitted = 0 then stop_reason else ''tool_use'')
      in [message_start ts model input_tokens]
         @ (if has_text then text_block_events content else [])
         @ blocks
         @ [message_delta stop
              (anthropic_stream_delta_usage_json input_tokens output_tokens creation read miss),
            anthropic_event ''message_stop'' []])"

section \<open>Completions of the OpenAI protocol\<close>

definition openai_finish_reason :: "string option \<Rightarrow> bool \<Rightarrow> string" where
  "openai_finish_reason upstream has_tool_calls =
     (if has_tool_calls then ''tool_calls''
      else if upstream = Some ''length'' then ''length''
      else if upstream = Some ''content_filter'' then ''content_filter''
      else ''stop'')"

definition openai_usage :: "nat \<Rightarrow> nat \<Rightarrow> nat \<Rightarrow> json" where
  "openai_usage pt ct tot = json_object
     [(''prompt_tokens'', json_nat pt), (''completion_tokens'', json_nat ct),
      (''total_tokens'', json_nat tot)]"

definition oa_completion ::
  "nat \<Rightarrow> string \<Rightarrow> json \<Rightarrow> string \<Rightarrow> nat \<Rightarrow> nat \<Rightarrow> nat \<Rightarrow> zen_usage option \<Rightarrow> json" where
  "oa_completion ts model msg finish pt ct tot usage = json_object
     [(''id'', JString (''chatcmpl_'' @ show_nat ts)), (''object'', JString ''chat.completion''),
      (''created'', json_nat ts), (''model'', JString model),
      (''choices'', JArray [json_object
         [(''index'', json_nat 0), (''message'', msg), (''finish_reason'', JString finish)]]),
      (''usage'', append_openai_usage_metadata (openai_usage pt ct tot) usage)]"

definition oa_text_resp_with_usage ::
  "nat \<Rightarrow> string \<Rightarrow> string \<Rightarrow> nat \<Rightarrow> nat \<Rightarrow> nat \<Rightarrow> zen_usage option \<Rightarrow> string option \<Rightarrow> json" where
  "oa_text_resp_with_usage ts model content pt ct tot usage finish =
     oa_completion ts model
       (json_object [(''role'', JString ''assistant''), (''content'', JString content)])
       (openai_finish_reason finish False) pt ct tot usage"

definition oa_text_resp :: "nat \<Rightarrow> string \<Rightarrow> string \<Rightarrow> nat \<Rightarrow> nat \<Rightarrow> nat \<Rightarrow> json" where
  "oa_text_resp ts model content pt ct tot =
     oa_text_resp_with_usage ts model content pt ct tot None None"

definition oa_tool_resp_with_usage ::
  "nat \<Rightarrow> string \<Rightarrow> tool_call list \<Rightarrow> nat \<Rightarrow> nat \<Rightarrow> nat \<Rightarrow> zen_usage option \<Rightarrow> json" where
  "oa_tool_resp_with_usage ts model tool_calls pt ct tot usage =
     oa_completion ts model
       (json_object [(''role'', JString ''assistant''), (''content'', JNull),
                     (''tool_calls'', JArray (map ser_tool_call tool_calls))])
       ''tool_calls'' pt ct tot usage"

text \<open>A chunk of a completion, with its usage; \<open>None\<close> is the final \<open>[DONE]\<close>.\<close>

definition oa_chunk :: "nat \<Rightarrow> string \<Rightarrow> json \<Rightarrow> json \<Rightarrow> json option \<Rightarrow> json" where
  "oa_chunk ts model delta finish usage = json_object
     ([(''id'', JString (''chatcmpl_'' @ show_nat ts)),
       (''object'', JString ''chat.completion.chunk''), (''created'', json_nat ts),
       (''model'', JString model),
       (''choices'', JArray [json_object
          [(''index'', json_nat 0), (''delta'', delta), (''finish_reason'', finish)]])]
      @ opt_field ''usage'' usage)"

definition oa_ok_stream_resp :: "nat \<Rightarrow> string \<Rightarrow> nat \<Rightarrow> nat \<Rightarrow> json option list" where
  "oa_ok_stream_resp ts model pt ct =
     [Some (oa_chunk ts model
        (json_object [(''role'', JString ''assistant''), (''content'', JString [])]) JNull None),
      Some (oa_chunk ts model (json_object [(''content'', JString ''ok'')]) JNull None),
      Some (oa_chunk ts model (json_object []) (JString ''stop'')
        (Some (openai_usage pt ct (wrap_add 64 pt ct)))),
      None]"

section \<open>Texts\<close>

definition response_text_for_profile :: "(string \<Rightarrow> string) \<Rightarrow> client_profile \<Rightarrow> string \<Rightarrow> string" where
  "response_text_for_profile redact profile t =
     (if preserves_model_text_exactly profile then t else repair_text (redact t))"

definition is_mimo_v25_model :: "string \<Rightarrow> bool" where
  "is_mimo_v25_model model \<longleftrightarrow>
     map ascii_lower (filter is_ascii_alphanumeric model) \<in> set [''mimov25'', ''mimov25free'']"

definition mimo_internal_probe_empty_fallback_text ::
  "chat_request \<Rightarrow> short_non_stream_request_kind \<Rightarrow> request_shape \<Rightarrow> string option" where
  "mimo_internal_probe_empty_fallback_text body kind shape =
     (if short_no_tool_empty_fallback_text body \<noteq> None then None
      else if is_mimo_v25_model (cr_model body) \<and> rs_tool_count shape = 0
           \<and> \<not> rs_tool_choice_present shape
           \<and> kind \<in> set [HealthProbe, ChannelTest, InternalClaudeCodeProbe]
      then Some ''ok'' else None)"

definition non_stream_empty_fallback_text ::
  "serde \<Rightarrow> chat_request \<Rightarrow> bool \<Rightarrow> short_non_stream_request_kind \<Rightarrow> request_shape \<Rightarrow> string option" where
  "non_stream_empty_fallback_text S body is_claude_code kind shape =
     (case short_no_tool_empty_fallback_text body of
        Some t \<Rightarrow> Some t
      | None \<Rightarrow>
          (case claude_code_low_budget_empty_fallback_text S body is_claude_code of
             Some t \<Rightarrow> Some t
           | None \<Rightarrow> mimo_internal_probe_empty_fallback_text body kind shape))"

definition local_non_stream_fallback_response :: "nat \<Rightarrow> chat_request \<Rightarrow> string \<Rightarrow> json" where
  "local_non_stream_fallback_response ts body fallback =
     text_resp ts (cr_model body) fallback (estimate_tokens (build_prompt_text (cr_messages body)))
       (max (estimate_tokens fallback) 1)"

datatype claude_code_buffered_stream_reason =
  TinyExactOutputNoTools
| SmallOutputHugeContextNoTools

fun buffered_reason_as_str :: "claude_code_buffered_stream_reason \<Rightarrow> string" where
  "buffered_reason_as_str TinyExactOutputNoTools = ''tiny_exact_output_no_tools''"
| "buffered_reason_as_str SmallOutputHugeContextNoTools = ''small_output_huge_context_no_tools''"

definition is_tiny_exact_output_literal :: "string \<Rightarrow> bool" where
  "is_tiny_exact_output_literal literal \<longleftrightarrow>
     (let trimmed = trim literal
      in trimmed \<noteq> [] \<and> NL \<notin> set trimmed \<and> char_count trimmed \<le> 80
         \<and> length (split_whitespace trimmed) \<le> 1)"

definition claude_code_buffered_stream_reason_of ::
  "client_profile \<Rightarrow> nat \<Rightarrow> nat option \<Rightarrow> bool \<Rightarrow> bool \<Rightarrow> string option \<Rightarrow>
    claude_code_buffered_stream_reason option" where
  "claude_code_buffered_stream_reason_of profile before_tokens max_tokens tools reduced literal =
     (if cp_kind profile \<noteq> ClaudeCode then None
      else if tools then None
      else if reduced \<or> (case literal of Some l \<Rightarrow> is_tiny_exact_output_literal l | None \<Rightarrow> False)
      then Some TinyExactOutputNoTools
      else
        case max_tokens of
          None \<Rightarrow> None
        | Some n \<Rightarrow> if n \<le> 2048 \<and> 50000 \<le> before_tokens then Some SmallOutputHugeContextNoTools
                    else None)"

end
