(* ===== verification/RequestPipeline.thy ===== *)
theory RequestPipeline
  imports ClientAnswers RetrySanitize Compaction ToolHistory UnfinishedIntent
begin

text \<open>
  The first half of both handlers (\<open>handle_anthropic_messages\<close>, \<open>handle_openai_chat\<close>): from the
  request of a client to the body sent upstream, or to an answer made without the upstream.  The
  environment of the client holds the parameters of all parts: the crates, the variables of the
  process, what Redis answers, the decoder of the upstream's events.
\<close>

section \<open>Configuration and environment\<close>

record kernel_config =
  kc_zen_chat_url :: string
  kc_zen_api_key :: string
  kc_extra_headers :: "(string \<times> string) list"
  kc_model_mappings :: "(string \<times> string) list"
  kc_true_first_token_frt :: bool
  kc_initial_fetch_timeout_secs :: nat
  kc_slow_guard_min_input_tokens :: nat
  kc_no_forwardable_retry_secs :: nat
  kc_reasoning_stall_retry_secs :: nat
  kc_reasoning_stall_window_secs :: nat
  kc_max_wait_forwardable_secs :: nat

record client_env =
  ce_synthesis :: synthesis_env
  ce_remote :: "string \<Rightarrow> string option"
  ce_variables :: "string \<Rightarrow> string option"
  ce_redact :: "string \<Rightarrow> string"
  ce_fold_hasher :: fold_hasher
  ce_fingerprint :: "string \<Rightarrow> 64 word"
  ce_decode :: decoder

abbreviation ce_serde :: "client_env \<Rightarrow> serde" where
  "ce_serde V \<equiv> sy_serde (ce_synthesis V)"

section \<open>The context of a request\<close>

definition no_context_repair :: stream_context_repair where
  "no_context_repair = \<lparr>cx_before_tokens = 0, cx_after_tokens = 0, cx_compacted_messages = 0\<rparr>"

definition repair_context ::
  "client_env \<Rightarrow> string \<Rightarrow> client_profile \<Rightarrow> bool \<Rightarrow> message list \<Rightarrow> message list \<times> stream_context_repair" where
  "repair_context V model profile stream ms =
     (if model_disables_input_compaction model then (ms, observe_context ms)
      else if cp_kind profile = ClaudeCode
        then compact_claude_code_huge_session_context (ce_serde V) (ce_fold_hasher V) ms
      else if stream then compact_stream_context_with_policy default_context_policy ms
      else (ms, no_context_repair))"

text \<open>The anchors of a compacted ClaudeCode request: reduced to its exact output, or extended.\<close>

definition anchor_context ::
  "client_profile \<Rightarrow> bool \<Rightarrow> stream_context_repair \<Rightarrow> message list \<Rightarrow> message list \<times> bool" where
  "anchor_context profile stream r ms =
     (let claude = (cp_kind profile = ClaudeCode \<and> 0 < cx_compacted_messages r);
          (ms, reduced) =
            (if stream \<and> claude then reduce_to_exact_output_anchor_message (2 * 1024) ms
             else (ms, False));
          (ms, _) =
            (if claude \<and> \<not> reduced then append_latest_user_anchor_message (2 * 1024) ms
             else (ms, False))
      in (ms, reduced))"

definition prepare_context ::
  "client_env \<Rightarrow> string \<Rightarrow> client_profile \<Rightarrow> bool \<Rightarrow> message list \<Rightarrow>
    message list \<times> stream_context_repair \<times> bool" where
  "prepare_context V model profile stream ms =
     (let (ms, r) = repair_context V model profile stream ms;
          (ms, reduced) = anchor_context profile stream r ms
      in (ms, r, reduced))"

definition history_policy :: "client_profile \<Rightarrow> tool_history_policy" where
  "history_policy profile = (if uses_compat_tool_history profile then Compat else Strict)"

definition effective_max_tokens ::
  "bool \<Rightarrow> stream_context_repair \<Rightarrow> message list \<Rightarrow> nat option \<Rightarrow> nat option" where
  "effective_max_tokens stream r ms requested =
     (let prompt = max (cx_before_tokens r) (estimate_tokens (build_prompt_text ms))
      in op_effective_max_tokens
           (if stream then stream_output_policy_for_prompt_tokens prompt requested
            else non_stream_output_policy_for_prompt_tokens prompt requested))"

section \<open>The upstream body\<close>

definition merge_extra_headers ::
  "(string \<times> string) list \<Rightarrow> (string \<times> string) list \<Rightarrow> (string \<times> string) list" where
  "merge_extra_headers base extra = base @ extra"

text \<open>The budget of a probe of ClaudeCode, in the request and in the body.\<close>

definition raise_probe_budget :: "serde \<Rightarrow> client_profile \<Rightarrow> chat_request \<times> json \<Rightarrow> chat_request \<times> json" where
  "raise_probe_budget S profile = (\<lambda>(cr, zb).
     let probe = claude_code_low_budget_probe_max_tokens S cr (cp_kind profile = ClaudeCode)
     in if probe = cr_max_tokens cr then (cr, zb)
        else (cr\<lparr>cr_max_tokens := probe\<rparr>,
              case probe of Some n \<Rightarrow> set_key ''max_tokens'' (json_nat n) zb | None \<Rightarrow> zb))"

record upstream_job =
  uj_request :: chat_request
  uj_body :: json
  uj_headers :: "(string \<times> string) list"
  uj_profile :: client_profile
  uj_stream :: bool
  uj_history_repair :: tool_history_repair
  uj_context_repair :: stream_context_repair
  uj_reduced_anchor :: bool
  uj_has_tools :: bool
  uj_reasoning_scope :: string

text \<open>From the internal request to the body, common to both handlers.\<close>

definition build_body ::
  "client_env \<Rightarrow> kernel_config \<Rightarrow> string \<Rightarrow> client_profile \<Rightarrow> chat_request \<Rightarrow> client_state \<Rightarrow>
    (chat_request \<times> json \<times> icp_identity) \<times> client_state" where
  "build_body V C upstream_model profile cr s =
     (let S = ce_serde V;
          (package, s) = build_icp_upstream_package S (ce_remote V) (ce_variables V) cr upstream_model
             profile (kc_zen_api_key C) s;
          (zb, _) = apply_deepseek_stable_cache_breakpoints cr (ip_body package);
          (zb, _) = apply_thinking_manifest S cr profile zb;
          ((zb, cr), _) =
            downgrade_claude_code_forced_tool_choice_for_upstream_model profile upstream_model (zb, cr);
          zb = prune_null_optional_upstream_fields zb;
          (cr, zb) = raise_probe_budget S profile (cr, zb)
      in ((cr, zb, ip_identity package), s))"

definition prepare_anthropic ::
  "client_env \<Rightarrow> kernel_config \<Rightarrow> anthropic_request \<Rightarrow> client_profile \<Rightarrow> client_state \<Rightarrow>
    upstream_job \<times> client_state" where
  "prepare_anthropic V C body observed s =
     (let S = ce_serde V;
          model = normalize_model (ar_model body);
          profile = effective_for_model model observed;
          upstream_model = map_upstream_model model (kc_model_mappings C);
          stream = unwrap_or False (ar_stream body);
          ms = anthropic_to_openai_messages S (ce_redact V) body;
          (ms, r, reduced) = prepare_context V model profile stream ms;
          (ms, repair) = canonicalize_openai_tool_history_with_policy S (history_policy profile) ms;
          tools = (if reduced then []
                   else unwrap_or [] (map_option anthropic_tools_to_openai (ar_tools body)));
          cr = \<lparr>cr_model = model, cr_messages = ms, cr_stream = Some stream,
                cr_max_tokens = effective_max_tokens stream r ms (ar_max_tokens body),
                cr_temperature = ar_temperature body, cr_top_p = None,
                cr_tools = (if tools = [] then None else Some tools),
                cr_tool_choice =
                  (if reduced then None
                   else map_option anthropic_tool_choice_to_openai (ar_tool_choice body))\<rparr>;
          ((cr, zb, identity), s) = build_body V C upstream_model profile cr s;
          ((zb, _), s) = enrich_tool_call_reasoning_body S (ce_remote V) profile (ii_usk identity) zb s
      in (\<lparr>uj_request = cr, uj_body = zb,
           uj_headers = merge_extra_headers (kc_extra_headers C) (zen_session_headers identity),
           uj_profile = profile, uj_stream = stream, uj_history_repair = repair,
           uj_context_repair = r, uj_reduced_anchor = reduced, uj_has_tools = (tools \<noteq> []),
           uj_reasoning_scope = ii_usk identity\<rparr>, s))"

definition prepare_openai ::
  "client_env \<Rightarrow> kernel_config \<Rightarrow> chat_request \<Rightarrow> client_profile \<Rightarrow> client_state \<Rightarrow>
    upstream_job \<times> client_state" where
  "prepare_openai V C body observed s =
     (let S = ce_serde V;
          model = normalize_model (cr_model body);
          profile = effective_for_model model observed;
          upstream_model = map_upstream_model model (kc_model_mappings C);
          stream = unwrap_or False (cr_stream body);
          (ms, r, reduced) = prepare_context V model profile stream (cr_messages body);
          body = (if reduced then body\<lparr>cr_tools := None, cr_tool_choice := None\<rparr> else body);
          max_tok = effective_max_tokens stream r ms (cr_max_tokens body);
          (ms, repair) = canonicalize_openai_tool_history_with_policy S (history_policy profile) ms;
          tools = unwrap_or [] (cr_tools body);
          cr = \<lparr>cr_model = model, cr_messages = ms, cr_stream = Some stream,
                cr_max_tokens = max_tok, cr_temperature = cr_temperature body,
                cr_top_p = cr_top_p body, cr_tools = (if tools = [] then None else Some tools),
                cr_tool_choice = cr_tool_choice body\<rparr>;
          ((cr, zb, identity), s) = build_body V C upstream_model profile cr s
      in (\<lparr>uj_request = cr, uj_body = zb,
           uj_headers = merge_extra_headers (kc_extra_headers C) (zen_session_headers identity),
           uj_profile = profile, uj_stream = stream, uj_history_repair = repair,
           uj_context_repair = r, uj_reduced_anchor = reduced, uj_has_tools = (tools \<noteq> []),
           uj_reasoning_scope = []\<rparr>, s))"

section \<open>Answers without the upstream\<close>

datatype anthropic_answer = AnthropicMessage json | AnthropicEvents "sse_event list"

datatype openai_answer = OpenAiCompletion json | OpenAiChunks "json option list"

definition prompt_estimate :: "chat_request \<Rightarrow> nat" where
  "prompt_estimate cr = estimate_tokens (build_prompt_text (cr_messages cr))"

definition anthropic_local_answer :: "client_env \<Rightarrow> nat \<Rightarrow> upstream_job \<Rightarrow> anthropic_answer option" where
  "anthropic_local_answer V ts job =
     (let cr = uj_request job;
          recovery =
            (if uj_stream job \<and> protects_recovery_safe_markers (uj_profile job)
             then claude_code_recovery_literal_from_messages (cr_messages cr) else None);
          input_tokens = max (prompt_estimate cr) 1
      in case recovery of
           Some literal \<Rightarrow>
             Some (AnthropicEvents (anthropic_buffered_stream_resp (ce_synthesis V) ts (cr_model cr)
                literal [] input_tokens (max (estimate_tokens literal) 1) 0 0 None ''end_turn'' cr
                (uj_profile job)))
         | None \<Rightarrow>
             if is_short_no_tool_health_request cr
             then Some (if uj_stream job
                        then AnthropicEvents (anthropic_ok_stream_resp ts (cr_model cr) input_tokens 1)
                        else AnthropicMessage (text_resp ts (cr_model cr) ''ok'' input_tokens 1))
             else None)"

definition openai_local_answer :: "nat \<Rightarrow> upstream_job \<Rightarrow> openai_answer option" where
  "openai_local_answer ts job =
     (let cr = uj_request job;
          prompt = max (prompt_estimate cr) 1
      in if is_short_no_tool_health_request cr
         then Some (if uj_stream job then OpenAiChunks (oa_ok_stream_resp ts (cr_model cr) prompt 1)
                    else OpenAiCompletion
                      (oa_text_resp ts (cr_model cr) ''ok'' prompt 1 (wrap_add 64 prompt 1)))
         else None)"

text \<open>Whether a stream of ClaudeCode is collected in full before it is sent.\<close>

definition buffered_stream_reason :: "upstream_job \<Rightarrow> claude_code_buffered_stream_reason option" where
  "buffered_stream_reason job =
     claude_code_buffered_stream_reason_of (uj_profile job)
       (cx_before_tokens (uj_context_repair job)) (cr_max_tokens (uj_request job))
       (uj_has_tools job) (uj_reduced_anchor job)
       (exact_output_literal_from_messages (cr_messages (uj_request job)))"

end
