(* ===== verification/PipelineCorrect.thy ===== *)
theory PipelineCorrect
  imports RequestPipeline CompactionCorrect ToolHistoryCorrect
begin

text \<open>
  The composition of translation, compaction, folding, anchors and canonicalisation: whatever is
  cut from the history of a request, the history sent upstream keeps the contract between calls
  and results.
\<close>

section \<open>Clean messages\<close>

text \<open>
  Results with a trimmed identifier, calls with distinct identifiers that are not blank: what a
  client of either protocol sends.
\<close>

definition clean_message :: "message \<Rightarrow> bool" where
  "clean_message m \<longleftrightarrow>
     (if ms_role m = ''tool''
      then ms_tool_calls m = None
           \<and> (case ms_tool_call_id m of None \<Rightarrow> True | Some i \<Rightarrow> trim i = i)
      else ms_role m = ''assistant'' \<longrightarrow>
           (case ms_tool_calls m of None \<Rightarrow> True | Some cs \<Rightarrow> valid_ids cs))"

lemma fill_calls_valid:
  "list_all (\<lambda>c. \<not> blank_id (tc_id c)) cs \<Longrightarrow> fst (fill_calls k i cs) = cs"
proof (induction cs arbitrary: i)
  case (Cons c cs)
  then have "fst (fill_calls k (i + 1) cs) = cs" by simp
  then show ?case using Cons.prems by (cases "fill_calls k (i + 1) cs") (auto simp: Let_def)
qed simp

lemma clean_is_tidy: "clean_message m \<Longrightarrow> tidy_message k m"
  by (auto simp: clean_message_def tidy_message_def valid_ids_def fill_calls_valid split: option.splits)

lemma clean_history_tidy: "list_all clean_message ms \<Longrightarrow> tidy_history ms"
proof -
  have "list_all clean_message ms \<Longrightarrow> tidy_from k ms" for k
    by (induction ms arbitrary: k) (auto simp: clean_is_tidy)
  then show "list_all clean_message ms \<Longrightarrow> tidy_history ms" by (simp add: tidy_history_def)
qed

lemma clean_content [simp]: "clean_message (m\<lparr>ms_content := c\<rparr>) = clean_message m"
  by (simp add: clean_message_def)

lemma clean_user [simp]: "clean_message (user_message t)"
  by (simp add: clean_message_def user_message_def)

section \<open>Cutting keeps a history clean\<close>

lemma clean_cut: "cut_messages p ms ms' \<Longrightarrow> list_all clean_message ms \<Longrightarrow> list_all clean_message ms'"
proof (induction rule: list_all2_induct)
  case (Cons m ms m' ms')
  then show ?case by (auto simp: cut_message_def)
qed simp

lemma clean_sanitize: "list_all clean_message ms \<Longrightarrow> list_all clean_message (fst (sanitize_messages ms))"
  by (auto simp: sanitize_messages_def sanitize_message_def list_all_iff Let_def split: option.split)

lemma clean_compact:
  assumes "list_all clean_message ms"
  shows "list_all clean_message (fst (compact_stream_context_with_policy p ms))"
proof -
  obtain ms1 n1 where 1: "(if sp_sanitize_claude_code_resume_pressure p then sanitize_messages ms
      else (ms, 0)) = (ms1, n1)" by fastforce
  have c1: "list_all clean_message ms1"
    using 1 assms clean_sanitize [of ms] by (cases "sp_sanitize_claude_code_resume_pressure p") auto
  let ?cs = "sort_candidates
      (List.map_filter (compaction_candidate p (latest_user_index ms1)) (enumerate 0 ms1))"
  obtain ms2 ov2 n2 where 2: "fold (compact_candidate p (latest_user_index ms1)) ?cs
      (ms1, prompt_tokens ms1 - max (sp_target_tokens p) 1, n1) = (ms2, ov2, n2)" by (metis prod_cases3)
  have "cut_messages p ms1 ms2"
    using compact_candidates_cut [OF _ 2] candidate_places by blast
  then have "list_all clean_message ms2" using clean_cut c1 by blast
  then show ?thesis using assms 1 2 by (simp add: compact_stream_context_with_policy_def Let_def)
qed

lemma clean_filtered:
  "list_all clean_message xs \<Longrightarrow> list_all clean_message (map snd (filter P (enumerate 0 xs)))"
  by (auto simp: list_all_iff in_set_enumerate_eq)

lemma clean_fold:
  assumes "list_all clean_message ms"
  shows "list_all clean_message (fst (compact_claude_code_huge_session_context S h ms))"
proof -
  define p where "p = (if should_compact_mid_sized_claude_code_tool_history S ms (prompt_tokens ms)
      then claude_code_huge_context\<lparr>sp_compact_at_tokens := 24000\<rparr> else claude_code_huge_context)"
  obtain ms1 r1 where 1: "compact_stream_context_with_policy p ms = (ms1, r1)" by fastforce
  then have c: "list_all clean_message ms1" using clean_compact [OF assms, of p] by simp
  note f = clean_filtered [OF c]
  show ?thesis
    unfolding compact_claude_code_huge_session_context_def Let_def p_def [symmetric] 1 prod.case
    using c by (simp add: f)
qed

lemma clean_anchor: "list_all clean_message ms \<Longrightarrow> list_all clean_message (fst (anchor_context p b r ms))"
  by (auto simp: anchor_context_def Let_def reduce_to_exact_output_anchor_message_def
      append_latest_user_anchor_message_def split: option.splits prod.splits if_splits)

lemma clean_prepare:
  assumes "list_all clean_message ms" and "prepare_context V model p b ms = (ms', r, red)"
  shows "list_all clean_message ms'"
proof -
  obtain ms1 r1 where 1: "repair_context V model p b ms = (ms1, r1)" by fastforce
  have "list_all clean_message ms1"
    using 1 assms(1) clean_fold [OF assms(1)] clean_compact [OF assms(1)]
    by (auto simp: repair_context_def split: if_splits) (metis fst_conv)+
  then show ?thesis using clean_anchor assms(2) 1
    by (auto simp: prepare_context_def split: prod.splits) (metis fst_conv)
qed

section \<open>Translation\<close>

text \<open>The identifiers of the calls of an assistant and of the results of a user.\<close>

definition content_blocks :: "json \<Rightarrow> json list" where
  "content_blocks c = unwrap_or [] (as_array c)"

definition use_ids :: "json \<Rightarrow> string option list" where
  "use_ids c = map (get_str ''id'') (filter (\<lambda>b. block_type b = Some ''tool_use''
     \<and> get_str ''name'' b \<noteq> None) (content_blocks c))"

definition clean_anthropic_message :: "anthropic_message \<Rightarrow> bool" where
  "clean_anthropic_message m \<longleftrightarrow>
     (if am_role m = ''assistant''
      then list_all (\<lambda>i. \<not> blank_id i) (use_ids (am_content m)) \<and> distinct (use_ids (am_content m))
      else am_role m = ''user'' \<longrightarrow>
        list_all (\<lambda>b. block_type b = Some ''tool_result'' \<longrightarrow>
            (case get_str ''tool_use_id'' b of None \<Rightarrow> True | Some i \<Rightarrow> trim i = i))
          (content_blocks (am_content m)))"

lemma assistant_calls:
  "map tc_id (snd (snd (foldl (assistant_block S) (a, b, calls) bs)))
     = map tc_id calls @ map (get_str ''id'') (filter (\<lambda>b. block_type b = Some ''tool_use''
         \<and> get_str ''name'' b \<noteq> None) bs)"
proof (induction bs arbitrary: a b calls)
  case (Cons x bs)
  obtain a' b' calls' where s: "assistant_block S (a, b, calls) x = (a', b', calls')" by (metis prod_cases3)
  have "map tc_id calls' = map tc_id calls @ (if block_type x = Some ''tool_use''
      \<and> get_str ''name'' x \<noteq> None then [get_str ''id'' x] else [])"
    using s by (auto simp: assistant_block_def tool_use_call_def split: if_splits option.splits)
  then show ?case using Cons.IH [of a' b' calls'] s by auto
qed simp

lemma assistant_clean:
  assumes "list_all (\<lambda>i. \<not> blank_id i) (use_ids c)" and "distinct (use_ids c)"
  shows "clean_message (anthropic_assistant_to_openai_message S c)"
proof -
  obtain a b calls where p: "assistant_parts_of S c = (a, b, calls)" by (metis prod_cases3)
  have "map tc_id calls = use_ids c"
  proof (cases c)
    case (JArray bs)
    then show ?thesis using p assistant_calls [of S "[]" "[]" "[]" bs]
      by (simp add: assistant_parts_of_def use_ids_def content_blocks_def)
  qed (use p in \<open>auto simp: assistant_parts_of_def use_ids_def content_blocks_def\<close>)
  moreover from this have "list_all (\<lambda>c. \<not> blank_id (tc_id c)) calls"
    using assms(1) by (metis (no_types, lifting) list.pred_map comp_def list.pred_cong)
  ultimately have "valid_ids calls" using assms(2) by (simp add: valid_ids_def)
  then show ?thesis using p
    by (auto simp: anthropic_assistant_to_openai_message_def clean_message_def)
qed

lemma user_blocks_clean:
  "list_all clean_message tools \<Longrightarrow>
   list_all (\<lambda>b. block_type b = Some ''tool_result'' \<longrightarrow>
      (case get_str ''tool_use_id'' b of None \<Rightarrow> True | Some i \<Rightarrow> trim i = i)) bs \<Longrightarrow>
   list_all clean_message (fst (foldl (user_block S redact) (tools, texts) bs))"
proof (induction bs arbitrary: tools texts)
  case (Cons x bs)
  obtain tools' texts' where s: "user_block S redact (tools, texts) x = (tools', texts')" by fastforce
  have "clean_message (tool_result_message S redact x)" if "block_type x = Some ''tool_result''"
    using that Cons.prems(2) by (simp add: clean_message_def tool_result_message_def)
  then have "list_all clean_message tools'"
    using s Cons.prems(1) by (auto simp: user_block_def split: if_splits)
  then show ?case using Cons s by auto
qed simp

lemma plain_clean [simp]: "clean_message (plain_message role c)"
  by (simp add: clean_message_def plain_message_def)

lemma user_clean:
  assumes "am_role m = ''user''" and "clean_anthropic_message m"
  shows "list_all clean_message (anthropic_user_to_openai_messages S redact (am_content m))"
proof (cases "am_content m")
  case (JArray bs)
  then have "list_all (\<lambda>b. block_type b = Some ''tool_result'' \<longrightarrow>
      (case get_str ''tool_use_id'' b of None \<Rightarrow> True | Some i \<Rightarrow> trim i = i)) bs"
    using assms by (simp add: clean_anthropic_message_def content_blocks_def)
  from user_blocks_clean [of "[]", OF _ this, of S redact "[]"] show ?thesis using JArray
    by (auto simp: anthropic_user_to_openai_messages_def split: prod.splits)
qed (auto simp: anthropic_user_to_openai_messages_def)

lemma message_clean:
  "clean_anthropic_message m \<Longrightarrow> list_all clean_message (anthropic_message_to_openai_messages S redact m)"
  using assistant_clean [of "am_content m" S] user_clean [of m S redact]
  by (auto simp: anthropic_message_to_openai_messages_def clean_anthropic_message_def)

lemma translation_clean:
  "list_all clean_anthropic_message (ar_messages req) \<Longrightarrow>
     list_all clean_message (anthropic_to_openai_messages S redact req)"
  using message_clean [of _ S redact]
  by (auto simp: anthropic_to_openai_messages_def Let_def list_all_iff split: option.splits)

section \<open>What is sent\<close>

text \<open>Building the body changes of the request only its budget and its choice of a tool.\<close>

lemma build_body_messages:
  "build_body V C um p cr s = ((cr', zb, i), s') \<Longrightarrow>
     cr_messages cr' = cr_messages cr \<and> cr_model cr' = cr_model cr \<and> cr_stream cr' = cr_stream cr
     \<and> cr_tools cr' = cr_tools cr"
  by (auto simp: build_body_def Let_def raise_probe_budget_def
      downgrade_claude_code_forced_tool_choice_for_upstream_model_def split: prod.splits if_splits)

lemma prepared_history_paired:
  assumes "list_all clean_message ms" and "prepare_context V model p b ms = (ms1, r, red)"
    and "canonicalize_openai_tool_history_with_policy S pol ms1 = (ms2, rep)"
  shows "paired_history ms2"
  using canonical_paired_stable(1) [OF clean_history_tidy [OF clean_prepare [OF assms(1,2)]], of S pol]
    assms(3) by simp

text \<open>
  C17: However long the conversation of an Anthropic client is and whatever is therefore cut,
  folded or replaced, the history sent upstream keeps the contract between calls and results:
  every result directly follows the message of its call and every call is answered exactly once.
  The client has to send clean messages: the calls of an assistant message carry identifiers that are
  distinct and not blank, and the results of a user message name their calls without white space
  around the name.
\<close>

theorem anthropic_history_sent_is_paired:
  assumes "list_all clean_anthropic_message (ar_messages body)"
  shows "paired_history (cr_messages (uj_request (fst (prepare_anthropic V C body profile s))))"
  unfolding prepare_anthropic_def Let_def
  using prepared_history_paired [OF translation_clean [OF assms]]
  by (auto split: prod.splits dest!: build_body_messages)

text \<open>A conversation with a call nobody answers and a result nobody asked for.\<close>

definition demo_conversation :: anthropic_request where
  "demo_conversation =
     \<lparr>ar_model = ''m'',
      ar_messages =
        [\<lparr>am_role = ''assistant'', am_content = JArray [JObject
            [(''id'', JString ''c1''), (''name'', JString ''Read''), (''type'', JString ''tool_use'')]]\<rparr>,
         \<lparr>am_role = ''user'', am_content = JArray [JObject
            [(''tool_use_id'', JString ''c9''), (''type'', JString ''tool_result'')]]\<rparr>],
      ar_stream = None, ar_max_tokens = None, ar_temperature = None, ar_system = None,
      ar_tools = None, ar_tool_choice = None\<rparr>"

lemma demo_conversation_clean: "list_all clean_anthropic_message (ar_messages demo_conversation)"
  by code_simp

lemma anthropic_history_sent_is_paired_witness:
  "\<forall>V C profile s.
     paired_history (cr_messages (uj_request (fst (prepare_anthropic V C demo_conversation profile s))))"
  using anthropic_history_sent_is_paired [OF demo_conversation_clean] by blast

text \<open>The same for a client of the OpenAI protocol.\<close>

lemma openai_history_sent_is_paired:
  assumes "list_all clean_message (cr_messages body)"
  shows "paired_history (cr_messages (uj_request (fst (prepare_openai V C body profile s))))"
  unfolding prepare_openai_def Let_def
  using prepared_history_paired [OF assms]
  by (auto split: prod.splits dest!: build_body_messages)

end
