(* ===== verification/NonStream.thy ===== *)
theory NonStream
  imports RequestPipeline
begin

text \<open>
  The second half of both handlers when the client wants one answer (\<open>handle_non_stream\<close> and
  \<open>handle_oa_non_stream\<close>): up to three attempts at the upstream, each with its own body, and the
  answer made of what an attempt collected.  What the upstream answers to an attempt is an
  argument: an error, or the pieces of its stream with the times at which its events arrive.  The
  bodies that were sent are kept in the state, the newest first.
\<close>

section \<open>The upstream\<close>

record upstream_response =
  up_chunks :: "(string + string) list"
  up_elapsed :: "nat \<Rightarrow> duration"
  up_exit_ip :: "string option"

definition NON_STREAM_EMPTY_UPSTREAM_ATTEMPTS :: nat where
  "NON_STREAM_EMPTY_UPSTREAM_ATTEMPTS = 3"

definition TRUNCATED_MESSAGE :: string where
  "TRUNCATED_MESSAGE = ''stream truncated before DONE or finish_reason''"

text \<open>The details of \<open>std\<close>'s error on invalid UTF-8 are left out of the message.\<close>

fun stream_app_error :: "stream_error \<Rightarrow> app_error" where
  "stream_app_error (TransportError e) = app_error_new 502 (''stream error: '' @ e)"
| "stream_app_error Utf8Error = app_error_new 502 ''stream utf8 error: ''"
| "stream_app_error (ParseError e) = app_error_new 502 (''stream parse error: '' @ e)"
| "stream_app_error TruncatedStream = app_error_new 502 TRUNCATED_MESSAGE"

definition is_truncated_stream_error :: "app_error \<Rightarrow> bool" where
  "is_truncated_stream_error e \<longleftrightarrow>
     ae_status e = 502 \<and> contains_str (ae_message e) TRUNCATED_MESSAGE"

definition empty_upstream_class :: "string \<Rightarrow> app_error" where
  "empty_upstream_class cls = app_error_new 502
     (''upstream returned no assistant content or tool call (class='' @ cls @ '')'')"

section \<open>Collecting under guard\<close>

datatype non_stream_collect_outcome =
  Collected collected_stream
| RetryNoForwardable collected_stream

fun guard_events ::
  "synthesis_env \<Rightarrow> chat_request \<Rightarrow> client_profile \<Rightarrow> duration \<Rightarrow> (nat \<Rightarrow> duration) \<Rightarrow> nat \<Rightarrow>
    collected_stream \<Rightarrow> zen_item list \<Rightarrow> app_error + non_stream_collect_outcome" where
  "guard_events Y body profile retry_after elapsed n c [] = Inr (Collected (c\<lparr>co_saw_done := True\<rparr>))"
| "guard_events Y body profile retry_after elapsed n c (Inl e # items) =
     (if trim (co_content c) \<noteq> [] \<and> co_tool_calls c = []
        then Inr (Collected (c\<lparr>co_finish_reason := Some ''length''\<rparr>))
      else if has_streamable_anthropic_tool_call Y (co_tool_calls c) body profile
        then Inr (Collected (c\<lparr>co_finish_reason := Some ''tool_calls''\<rparr>))
      else if is_truncated_stream_error (stream_app_error e) then Inr (RetryNoForwardable c)
      else Inl (stream_app_error e))"
| "guard_events Y body profile retry_after elapsed n c (Inr event # items) =
     (let c = collect_event event c
      in if co_finish_reason c \<noteq> None then Inr (Collected (c\<lparr>co_saw_done := True\<rparr>))
         else if trim (co_content c) \<noteq> []
             \<or> has_streamable_anthropic_tool_call Y (co_tool_calls c) body profile
           then guard_events Y body profile retry_after elapsed (n + 1) c items
         else if retry_after \<le> elapsed n then Inr (RetryNoForwardable c)
         else guard_events Y body profile retry_after elapsed (n + 1) c items)"

definition collect_anthropic_non_stream_parts_with_guard ::
  "client_env \<Rightarrow> upstream_response \<Rightarrow> chat_request \<Rightarrow> client_profile \<Rightarrow> duration \<Rightarrow>
    app_error + non_stream_collect_outcome" where
  "collect_anthropic_non_stream_parts_with_guard V resp body profile retry_after =
     (if cp_kind profile \<noteq> ClaudeCode
      then (case collect_stream_parts (ce_decode V) (up_chunks resp) of
              Inl e \<Rightarrow> Inl (stream_app_error e)
            | Inr c \<Rightarrow> Inr (Collected c))
      else guard_events (ce_synthesis V) body profile retry_after (up_elapsed resp) 0 empty_collection
             (stream_sse_events (ce_decode V) (up_chunks resp)))"

section \<open>Attempts\<close>

record attempt_state =
  as_last_empty :: bool
  as_last_class :: "output_class option"
  as_incomplete :: bool
  as_enriched :: bool
  as_thinking_disabled :: bool
  as_missing_enriched :: bool
  as_invalid_enriched :: bool
  as_invalid_compat :: bool
  as_invalid_text :: bool
  as_stream_mode :: bool
  as_body :: json
  as_exit_ip :: "string option"
  as_store :: client_state
  as_sent :: "json list"

definition first_attempt :: "json \<Rightarrow> client_state \<Rightarrow> attempt_state" where
  "first_attempt body s =
     \<lparr>as_last_empty = False, as_last_class = None, as_incomplete = False, as_enriched = False,
      as_thinking_disabled = False, as_missing_enriched = False, as_invalid_enriched = False,
      as_invalid_compat = False, as_invalid_text = False, as_stream_mode = False, as_body = body,
      as_exit_ip = None, as_store = s, as_sent = []\<rparr>"

text \<open>What an attempt leads to: another one, the end of the loop, or a result.\<close>

datatype attempt_next =
  Again
| GiveUp
| Found collected_stream string
| LocalAnswer json
| Fail app_error
| Panicked

text \<open>The body of this attempt, which is always a stream, goes out.\<close>

definition send :: "attempt_state \<Rightarrow> attempt_state" where
  "send st = (let body = set_key ''stream'' (JBool True) (as_body st)
              in st\<lparr>as_body := body, as_sent := body # as_sent st\<rparr>)"

text \<open>The upstream refused the attempt.\<close>

definition refused ::
  "client_env \<Rightarrow> upstream_job \<Rightarrow> string \<Rightarrow> app_error \<Rightarrow> attempt_state \<Rightarrow> attempt_state \<times> attempt_next" where
  "refused V job scope err st =
     (if should_retry_missing_reasoning_content err (as_missing_enriched st)
      then
        let (body, s) = reasoning_retry_body_with_scope (ce_serde V) (ce_remote V) (uj_body job)
              (uj_profile job) scope (as_store st)
        in (st\<lparr>as_missing_enriched := True, as_body := body, as_store := s\<rparr>, Again)
      else
        case provider_invalid_tool_history_retry_mode err (uj_request job) (uj_profile job)
            (uj_history_repair job) (as_invalid_enriched st \<or> as_missing_enriched st)
            (as_invalid_compat st) (as_invalid_text st) of
          None \<Rightarrow> (st, Fail err)
        | Some mode \<Rightarrow>
            (let st = (case mode of
                         EnrichReasoning \<Rightarrow> st\<lparr>as_invalid_enriched := True\<rparr>
                       | CompatToolUse \<Rightarrow> st\<lparr>as_invalid_compat := True\<rparr>
                       | TextOnly \<Rightarrow> st\<lparr>as_invalid_text := True\<rparr>);
                 ((body, stats), s) = provider_invalid_tool_history_retry_body (ce_serde V)
                   (ce_remote V) (ce_fingerprint V) (uj_body job) mode (as_store st)
             in (st\<lparr>as_body := body, as_store := s\<rparr>, Again)))"

text \<open>The body for another attempt with the reasoning put back.\<close>

definition enrich_retry :: "client_env \<Rightarrow> upstream_job \<Rightarrow> attempt_state \<Rightarrow> attempt_state" where
  "enrich_retry V job st =
     (let (body, s) = reasoning_retry_body (ce_serde V) (ce_remote V) (uj_body job) (uj_profile job)
            (as_store st)
      in st\<lparr>as_enriched := True, as_body := body, as_store := s\<rparr>)"

definition note_empty :: "output_class \<Rightarrow> attempt_state \<Rightarrow> attempt_state" where
  "note_empty cls st = st\<lparr>as_last_empty := True, as_last_class := Some cls\<rparr>"

definition unfinished_retry ::
  "client_env \<Rightarrow> upstream_job \<Rightarrow> attempt_state \<Rightarrow> attempt_state \<times> attempt_next" where
  "unfinished_retry V job st =
     (let st = note_empty NoForwardable st
      in (if \<not> as_enriched st then enrich_retry V job st else st, Again))"

definition leaks_markup :: "collected_stream \<Rightarrow> bool" where
  "leaks_markup c \<longleftrightarrow>
     contains_dsml_tool_leak (co_content c) \<or> contains_dsml_tool_leak (co_reasoning c)"

definition record_reasoning ::
  "client_env \<Rightarrow> upstream_job \<Rightarrow> collected_stream \<Rightarrow> attempt_state \<Rightarrow> attempt_state" where
  "record_reasoning V job c st = st\<lparr>as_store :=
     record_collected_reasoning_for_request (ce_serde V) (uj_request job) (co_reasoning c) (as_store st)\<rparr>"

fun attempt_loop ::
  "(nat \<Rightarrow> attempt_state \<Rightarrow> attempt_state \<times> attempt_next) \<Rightarrow> nat list \<Rightarrow> attempt_state \<Rightarrow>
    attempt_state \<times> attempt_next" where
  "attempt_loop step [] st = (st, GiveUp)"
| "attempt_loop step (n # ns) st =
     (case step n st of
        (st, Again) \<Rightarrow> attempt_loop step ns st
      | (st, r) \<Rightarrow> (st, r))"

section \<open>Judging an answer of the Anthropic handler\<close>

definition shape_of :: "client_env \<Rightarrow> upstream_job \<Rightarrow> request_shape" where
  "shape_of V job = request_shape_of (ce_serde V) (uj_request job)"

definition short_kind_of :: "client_env \<Rightarrow> upstream_job \<Rightarrow> short_non_stream_request_kind" where
  "short_kind_of V job = classify_short_non_stream_request (ce_serde V) (uj_request job)
     (cp_kind (uj_profile job) = ClaudeCode)"

definition probe_fallback :: "client_env \<Rightarrow> upstream_job \<Rightarrow> string option" where
  "probe_fallback V job =
     mimo_internal_probe_empty_fallback_text (uj_request job) (short_kind_of V job) (shape_of V job)"

text \<open>An output that is not valid.\<close>

definition invalid_output ::
  "client_env \<Rightarrow> nat \<Rightarrow> upstream_job \<Rightarrow> nat \<Rightarrow> output_class \<Rightarrow> attempt_state \<Rightarrow>
    attempt_state \<times> attempt_next" where
  "invalid_output V ts job attempt cls st =
     (let st = note_empty cls st;
          retry = should_retry_with_enriched_reasoning cls (uj_profile job)
      in if retry \<and> \<not> as_enriched st
         then (case probe_fallback V job of
                 Some t \<Rightarrow> (st, LocalAnswer (local_non_stream_fallback_response ts (uj_request job) t))
               | None \<Rightarrow> (enrich_retry V job st, Again))
         else if retry \<and> as_enriched st \<and> \<not> as_thinking_disabled st
             \<and> attempt + 1 < NON_STREAM_EMPTY_UPSTREAM_ATTEMPTS
         then (st\<lparr>as_thinking_disabled := True,
                 as_body := thinking_disabled_retry_body (as_body st)\<rparr>, Again)
         else (st, Again))"

definition judge_output ::
  "client_env \<Rightarrow> nat \<Rightarrow> upstream_job \<Rightarrow> nat \<Rightarrow> collected_stream \<Rightarrow> attempt_state \<Rightarrow>
    attempt_state \<times> attempt_next" where
  "judge_output V ts job attempt c st =
     (let cr = uj_request job; profile = uj_profile job
      in if co_tool_calls c = [] \<and> should_retry_unfinished_tool_intent profile attempt
             NON_STREAM_EMPTY_UPSTREAM_ATTEMPTS (collected_visible_text c) True cr
         then unfinished_retry V job st
         else
           let content = response_text_for_profile (ce_redact V) profile (collected_visible_text c);
               cls = classify_collected_output c content
           in if cls \<noteq> ValidOutput then invalid_output V ts job attempt cls st
              else if has_only_incomplete_tool_arguments (ce_synthesis V) content (co_tool_calls c)
                  cr profile
              then
                let st = st\<lparr>as_last_empty := True, as_incomplete := True\<rparr>
                in (if cp_kind profile = ClaudeCode \<and> \<not> as_enriched st then enrich_retry V job st
                    else st, Again)
              else (record_reasoning V job c st, Found c content))"

definition judge_collected ::
  "client_env \<Rightarrow> nat \<Rightarrow> upstream_job \<Rightarrow> nat \<Rightarrow> collected_stream \<Rightarrow> attempt_state \<Rightarrow>
    attempt_state \<times> attempt_next" where
  "judge_collected V ts job attempt c st =
     (if co_tool_calls c \<noteq> [] then judge_output V ts job attempt c st
      else
        case try_repair_dsml_invoke_leak (ce_synthesis V) (co_content c) (co_reasoning c) []
            (uj_request job) (uj_profile job) of
          Panic \<Rightarrow> (st, Panicked)
        | Done (True, calls) \<Rightarrow>
            judge_output V ts job attempt (c\<lparr>co_tool_calls := calls, co_content := []\<rparr>) st
        | Done (False, _) \<Rightarrow>
            if leaks_markup c then (note_empty EmptyOutput st, Again)
            else judge_output V ts job attempt c st)"

text \<open>Nothing could be forwarded in time.\<close>

definition no_forwardable ::
  "client_env \<Rightarrow> nat \<Rightarrow> upstream_job \<Rightarrow> nat \<Rightarrow> collected_stream \<Rightarrow> attempt_state \<Rightarrow>
    attempt_state \<times> attempt_next" where
  "no_forwardable V ts job attempt c st =
     (let rest =
        (if trim (co_reasoning c) \<noteq> [] \<and> \<not> leaks_markup c then judge_collected V ts job attempt c st
         else
           let st = note_empty NoForwardable st
           in case probe_fallback V job of
                Some t \<Rightarrow> (st, LocalAnswer (local_non_stream_fallback_response ts (uj_request job) t))
              | None \<Rightarrow>
                  if \<not> as_stream_mode st
                  then (st\<lparr>as_stream_mode := True,
                          as_body := set_key ''stream'' (JBool True) (as_body st)\<rparr>, Again)
                  else (st, GiveUp))
      in if co_tool_calls c \<noteq> [] then rest
         else
           case try_repair_dsml_invoke_leak (ce_synthesis V) (co_content c) (co_reasoning c) []
               (uj_request job) (uj_profile job) of
             Panic \<Rightarrow> (st, Panicked)
           | Done (True, calls) \<Rightarrow>
               judge_collected V ts job attempt (c\<lparr>co_tool_calls := calls, co_content := []\<rparr>) st
           | Done (False, _) \<Rightarrow> rest)"

definition anthropic_attempt ::
  "client_env \<Rightarrow> kernel_config \<Rightarrow> nat \<Rightarrow> upstream_job \<Rightarrow> (nat \<Rightarrow> app_error + upstream_response) \<Rightarrow>
    nat \<Rightarrow> attempt_state \<Rightarrow> attempt_state \<times> attempt_next" where
  "anthropic_attempt V C ts job reply attempt st =
     (let st = send st;
          retry_after = adaptive_no_forwardable_retry_after
            (from_secs (max (kc_no_forwardable_retry_secs C) 1))
            (rs_estimated_total_tokens (shape_of V job))
      in case reply attempt of
           Inl err \<Rightarrow> refused V job (uj_reasoning_scope job) err st
         | Inr resp \<Rightarrow>
             (let st = st\<lparr>as_exit_ip := up_exit_ip resp\<rparr>
              in case collect_anthropic_non_stream_parts_with_guard V resp (uj_request job)
                     (uj_profile job) retry_after of
                   Inl err \<Rightarrow> (st, Fail err)
                 | Inr (Collected c) \<Rightarrow> judge_collected V ts job attempt c st
                 | Inr (RetryNoForwardable c) \<Rightarrow> no_forwardable V ts job attempt c st))"

section \<open>The answer of the Anthropic handler\<close>

text \<open>The blocks of the calls that pass the gate, each call once; their reasoning is kept.\<close>

fun answer_blocks ::
  "client_env \<Rightarrow> upstream_job \<Rightarrow> string \<Rightarrow> string list \<Rightarrow> collected_tool_call list \<Rightarrow> client_state \<Rightarrow>
    anthropic_content_block list \<times> client_state" where
  "answer_blocks V job reasoning seen [] s = ([], s)"
| "answer_blocks V job reasoning seen (tool # tools) s =
     (case streamable_anthropic_tool_call (ce_synthesis V) tool (uj_request job) (uj_profile job) of
        None \<Rightarrow> answer_blocks V job reasoning seen tools s
      | Some (ct, input) \<Rightarrow>
          (let name = tf_name (tc_function ct)
           in case should_skip_duplicate_claude_code_tool_call (ce_serde V) (uj_profile job) seen
                  name input of
                (True, seen) \<Rightarrow> answer_blocks V job reasoning seen tools s
              | (False, seen) \<Rightarrow>
                  (let s = (if trim reasoning \<noteq> []
                            then record_tool_call_reasoning (ce_serde V) (uj_reasoning_scope job) name
                              (to_string (ce_serde V) input) reasoning s
                            else s);
                       (blocks, s) = answer_blocks V job reasoning seen tools s
                   in (\<lparr>ab_block_type = ''tool_use'', ab_text = None, ab_id = tc_id ct,
                        ab_name = Some name, ab_input = Some input\<rparr> # blocks, s))))"

definition unfinished_as_length :: "upstream_job \<Rightarrow> collected_stream \<Rightarrow> string \<Rightarrow> collected_stream" where
  "unfinished_as_length job c content =
     (if cp_kind (uj_profile job) = ClaudeCode \<and> co_tool_calls c = []
         \<and> request_offers_tools (uj_request job) \<and> looks_like_unfinished_tool_intent content
      then c\<lparr>co_finish_reason := Some ''length''\<rparr> else c)"

definition calls_text :: "(string \<times> string) list \<Rightarrow> string" where
  "calls_text calls = join_with [NL] (map (\<lambda>(name, arguments). name @ '' '' @ arguments) calls)"

definition input_tokens_of :: "upstream_job \<Rightarrow> collected_stream \<Rightarrow> nat" where
  "input_tokens_of job c =
     unwrap_or (prompt_estimate (uj_request job)) (Option.bind (co_usage c) zu_prompt_tokens)"

type_synonym non_stream_result = "(app_error + json \<times> string option) outcome"

definition anthropic_found ::
  "client_env \<Rightarrow> nat \<Rightarrow> upstream_job \<Rightarrow> collected_stream \<Rightarrow> string \<Rightarrow> attempt_state \<Rightarrow>
    non_stream_result \<times> attempt_state" where
  "anthropic_found V ts job c content st =
     (let c = unfinished_as_length job c content;
          model = cr_model (uj_request job);
          completion = Option.bind (co_usage c) zu_completion_tokens
      in if co_tool_calls c \<noteq> []
         then
           let (blocks, s) = answer_blocks V job (co_reasoning c) [] (co_tool_calls c) (as_store st);
               st = st\<lparr>as_store := s\<rparr>
           in if blocks \<noteq> []
              then
                let output_tokens = (case completion of
                      Some n \<Rightarrow> n
                    | None \<Rightarrow> max (estimate_tokens (calls_text
                        (map (\<lambda>t. (ct_name t, ct_arguments t)) (co_tool_calls c)))) 1)
                in (Done (Inr (tool_resp_with_usage ts model blocks (input_tokens_of job c)
                      output_tokens (co_usage c), as_exit_ip st)), st)
              else (Done (Inl incomplete_tool_arguments_error), st)
         else
           (Done (Inr (text_resp_with_usage ts model content (input_tokens_of job c)
                (unwrap_or (estimate_tokens content) completion) (co_usage c) (co_finish_reason c)
                (Some (co_reasoning c)), as_exit_ip st)), st))"

definition empty_class_text :: "attempt_state \<Rightarrow> string" where
  "empty_class_text st = unwrap_or ''empty_output'' (map_option output_class_as_str (as_last_class st))"

definition anthropic_given_up ::
  "client_env \<Rightarrow> nat \<Rightarrow> upstream_job \<Rightarrow> attempt_state \<Rightarrow> non_stream_result" where
  "anthropic_given_up V ts job st =
     (if as_incomplete st then Done (Inl incomplete_tool_arguments_error)
      else
        case (if as_last_empty st
              then non_stream_empty_fallback_text (ce_serde V) (uj_request job)
                (cp_kind (uj_profile job) = ClaudeCode) (short_kind_of V job) (shape_of V job)
              else None) of
          Some t \<Rightarrow> Done (Inr (text_resp ts (cr_model (uj_request job)) t (prompt_estimate (uj_request job))
                         (max (estimate_tokens t) 1), None))
        | None \<Rightarrow> Done (Inl (empty_upstream_class (empty_class_text st))))"

definition handle_non_stream ::
  "client_env \<Rightarrow> kernel_config \<Rightarrow> nat \<Rightarrow> upstream_job \<Rightarrow> (nat \<Rightarrow> app_error + upstream_response) \<Rightarrow>
    client_state \<Rightarrow> non_stream_result \<times> attempt_state" where
  "handle_non_stream V C ts job reply s =
     (case attempt_loop (anthropic_attempt V C ts job reply) [0..<NON_STREAM_EMPTY_UPSTREAM_ATTEMPTS]
             (first_attempt (uj_body job) s) of
        (st, Found c content) \<Rightarrow> anthropic_found V ts job c content st
      | (st, LocalAnswer a) \<Rightarrow> (Done (Inr (a, None)), st)
      | (st, Fail err) \<Rightarrow> (Done (Inl err), st)
      | (st, Panicked) \<Rightarrow> (Panic, st)
      | (st, GiveUp) \<Rightarrow> (anthropic_given_up V ts job st, st)
      | (st, Again) \<Rightarrow> (anthropic_given_up V ts job st, st))"

section \<open>The OpenAI handler\<close>

definition try_repair_openai_dsml_invoke_leak ::
  "serde \<Rightarrow> string \<Rightarrow> string \<Rightarrow> collected_tool_call list \<Rightarrow> (bool \<times> collected_tool_call list) outcome" where
  "try_repair_openai_dsml_invoke_leak S content reasoning tool_calls =
     (if tool_calls \<noteq> [] then Done (False, tool_calls)
      else
        let blob = dsml_source_blob reasoning content
        in if \<not> contains_dsml_tool_leak blob then Done (False, tool_calls)
           else
             case repair_invoke_leak S blob of
               Panic \<Rightarrow> Panic
             | Done None \<Rightarrow> Done (False, tool_calls)
             | Done (Some (name, arguments)) \<Rightarrow>
                 if trim name = [] \<or> from_slice S arguments = None then Done (False, tool_calls)
                 else Done (True, tool_calls
                   @ [\<lparr>ct_index = 0, ct_id = None, ct_name = name, ct_arguments = arguments\<rparr>]))"

definition oa_judge_output ::
  "client_env \<Rightarrow> upstream_job \<Rightarrow> nat \<Rightarrow> collected_stream \<Rightarrow> attempt_state \<Rightarrow>
    attempt_state \<times> attempt_next" where
  "oa_judge_output V job attempt c st =
     (let cr = uj_request job; profile = uj_profile job
      in if co_tool_calls c = [] \<and> should_retry_unfinished_tool_intent profile attempt
             NON_STREAM_EMPTY_UPSTREAM_ATTEMPTS (collected_visible_text c) True cr
         then unfinished_retry V job st
         else
           let content = response_text_for_profile (ce_redact V) profile (collected_visible_text c);
               cls = classify_collected_output c content
           in if cls \<noteq> ValidOutput
              then
                let st = note_empty cls st
                in (if should_retry_with_enriched_reasoning cls profile \<and> \<not> as_enriched st
                    then enrich_retry V job st else st, Again)
              else (record_reasoning V job c st, Found c content))"

definition oa_judge_collected ::
  "client_env \<Rightarrow> upstream_job \<Rightarrow> nat \<Rightarrow> collected_stream \<Rightarrow> attempt_state \<Rightarrow>
    attempt_state \<times> attempt_next" where
  "oa_judge_collected V job attempt c st =
     (if co_tool_calls c \<noteq> [] then oa_judge_output V job attempt c st
      else
        case try_repair_openai_dsml_invoke_leak (ce_serde V) (co_content c) (co_reasoning c) [] of
          Panic \<Rightarrow> (st, Panicked)
        | Done (True, calls) \<Rightarrow>
            oa_judge_output V job attempt (c\<lparr>co_tool_calls := calls, co_content := []\<rparr>) st
        | Done (False, _) \<Rightarrow>
            if leaks_markup c then (note_empty EmptyOutput st, Again)
            else oa_judge_output V job attempt c st)"

definition oa_attempt ::
  "client_env \<Rightarrow> upstream_job \<Rightarrow> (nat \<Rightarrow> app_error + upstream_response) \<Rightarrow> nat \<Rightarrow> attempt_state \<Rightarrow>
    attempt_state \<times> attempt_next" where
  "oa_attempt V job reply attempt st =
     (let st = send st
      in case reply attempt of
           Inl err \<Rightarrow> refused V job [] err st
         | Inr resp \<Rightarrow>
             (let st = st\<lparr>as_exit_ip := up_exit_ip resp\<rparr>
              in case collect_stream_parts (ce_decode V) (up_chunks resp) of
                   Inl e \<Rightarrow> (st, Fail (stream_app_error e))
                 | Inr c \<Rightarrow> oa_judge_collected V job attempt c st))"

definition oa_tool_call :: "chat_request \<Rightarrow> collected_tool_call \<Rightarrow> tool_call" where
  "oa_tool_call cr tool = canonicalize_tool_call_name
     \<lparr>tc_id = Some (case ct_id tool of
                      Some i \<Rightarrow> if i \<noteq> [] then i else ''call_'' @ show_int (ct_index tool)
                    | None \<Rightarrow> ''call_'' @ show_int (ct_index tool)),
      tc_call_type = ''function'',
      tc_function = \<lparr>tf_name = ct_name tool, tf_arguments = ct_arguments tool\<rparr>,
      tc_index = Some (ct_index tool)\<rparr> cr"

definition oa_found ::
  "nat \<Rightarrow> upstream_job \<Rightarrow> collected_stream \<Rightarrow> string \<Rightarrow> json" where
  "oa_found ts job c content =
     (let c = unfinished_as_length job c content;
          cr = uj_request job;
          completion = Option.bind (co_usage c) zu_completion_tokens;
          reported_total = Option.bind (co_usage c) zu_total_tokens;
          calls = map (oa_tool_call cr) (filter (\<lambda>t. ct_name t \<noteq> []) (co_tool_calls c));
          pt = input_tokens_of job c
      in if calls \<noteq> []
         then
           let ct = (case completion of
                 Some n \<Rightarrow> n
               | None \<Rightarrow> max (estimate_tokens (calls_text
                   (map (\<lambda>t. (tf_name (tc_function t), tf_arguments (tc_function t))) calls))) 1)
           in oa_tool_resp_with_usage ts (cr_model cr) calls pt ct
                (unwrap_or (wrap_add 64 pt ct) reported_total) (co_usage c)
         else
           let ct = unwrap_or (estimate_tokens content) completion
           in oa_text_resp_with_usage ts (cr_model cr) content pt ct
                (unwrap_or (wrap_add 64 pt ct) reported_total) (co_usage c) (co_finish_reason c))"

definition oa_given_up :: "nat \<Rightarrow> upstream_job \<Rightarrow> attempt_state \<Rightarrow> app_error + json \<times> string option" where
  "oa_given_up ts job st =
     (case (if as_last_empty st then short_no_tool_empty_fallback_text (uj_request job) else None) of
        Some t \<Rightarrow>
          (let pt = prompt_estimate (uj_request job); ct = max (estimate_tokens t) 1
           in Inr (oa_text_resp ts (cr_model (uj_request job)) t pt ct (wrap_add 64 pt ct), None))
      | None \<Rightarrow> Inl (empty_upstream_class (empty_class_text st)))"

definition handle_oa_non_stream ::
  "client_env \<Rightarrow> nat \<Rightarrow> upstream_job \<Rightarrow> (nat \<Rightarrow> app_error + upstream_response) \<Rightarrow> client_state \<Rightarrow>
    non_stream_result \<times> attempt_state" where
  "handle_oa_non_stream V ts job reply s =
     (case attempt_loop (oa_attempt V job reply) [0..<NON_STREAM_EMPTY_UPSTREAM_ATTEMPTS]
             (first_attempt (uj_body job) s) of
        (st, Found c content) \<Rightarrow> (Done (Inr (oa_found ts job c content, as_exit_ip st)), st)
      | (st, LocalAnswer a) \<Rightarrow> (Done (Inr (a, None)), st)
      | (st, Fail err) \<Rightarrow> (Done (Inl err), st)
      | (st, Panicked) \<Rightarrow> (Panic, st)
      | (st, GiveUp) \<Rightarrow> (Done (oa_given_up ts job st), st)
      | (st, Again) \<Rightarrow> (Done (oa_given_up ts job st), st))"

end
