(* ===== verification/NonStreamCorrect.thy ===== *)
theory NonStreamCorrect
  imports NonStream
begin

text \<open>
  The answers to a client that wants one message: each has something to show, at most three
  requests go upstream for it, and what becomes of a provider's refusals.
\<close>

lemma json_get_object: "json_get k (json_object kvs) = map_of (rev kvs) k"
proof -
  have "map_of (foldl (\<lambda>m (k, v). obj_insert k v m) m kvs) k =
      (case map_of (rev kvs) k of Some v \<Rightarrow> Some v | None \<Rightarrow> map_of m k)" for m
  proof (induction kvs arbitrary: m)
    case (Cons p kvs)
    then show ?case by (cases p) (auto simp: map_of_obj_insert map_add_Some_iff split: option.splits)
  qed simp
  from this [of "[]"] show ?thesis by (simp add: json_object_def split: option.splits)
qed

section \<open>Something to show\<close>

definition visible_block :: "json \<Rightarrow> bool" where
  "visible_block b \<longleftrightarrow>
     get_str ''type'' b = Some ''tool_use''
     \<or> get_str ''type'' b = Some ''text''
       \<and> (case get_str ''text'' b of Some t \<Rightarrow> trim t \<noteq> [] | None \<Rightarrow> False)"

definition visible_answer :: "json \<Rightarrow> bool" where
  "visible_answer a \<longleftrightarrow>
     (case json_get ''content'' a of Some (JArray bs) \<Rightarrow> list_ex visible_block bs | _ \<Rightarrow> False)"

lemma visible_text:
  "trim content \<noteq> [] \<Longrightarrow> visible_answer (text_resp_with_usage ts m content i n u f t)"
  by (simp add: visible_answer_def text_resp_with_usage_def json_get_object visible_block_def)

lemma visible_tools:
  assumes "blocks \<noteq> []" and "\<forall>b \<in> set blocks. ab_block_type b = ''tool_use''"
  shows "visible_answer (tool_resp_with_usage ts m blocks i n u)"
proof -
  obtain b where "b \<in> set blocks" using assms(1) by (cases blocks) auto
  then have "visible_block (ser_content_block b)" using assms(2)
    by (simp add: visible_block_def ser_content_block_def)
  then show ?thesis using \<open>b \<in> set blocks\<close>
    by (auto simp: visible_answer_def tool_resp_with_usage_def json_get_object list_ex_iff)
qed

lemma answer_blocks_tool_use:
  "answer_blocks V job r seen tools s = (blocks, s') \<Longrightarrow> \<forall>b \<in> set blocks. ab_block_type b = ''tool_use''"
proof (induction V job r seen tools s arbitrary: blocks s' rule: answer_blocks.induct)
  case (2 V job reasoning seen tool tools s)
  then show ?case
    by (auto simp: Let_def split: option.splits prod.splits bool.splits)
qed simp

text \<open>The texts that are answered locally.\<close>

lemma local_texts_visible: "trim ''ok'' \<noteq> []" "trim ''PONG'' \<noteq> []" "trim ''PASS'' \<noteq> []"
  by code_simp+

lemma short_fallback_visible: "short_no_tool_empty_fallback_text b = Some t \<Longrightarrow> trim t \<noteq> []"
  by (auto simp: short_no_tool_empty_fallback_text_def Let_def local_texts_visible
      split: if_splits option.splits)

lemma probe_fallback_visible: "probe_fallback V job = Some t \<Longrightarrow> trim t \<noteq> []"
  by (auto simp: probe_fallback_def mimo_internal_probe_empty_fallback_text_def local_texts_visible
      split: if_splits)

lemma fallback_visible: "non_stream_empty_fallback_text S b c k sh = Some t \<Longrightarrow> trim t \<noteq> []"
  by (auto simp: non_stream_empty_fallback_text_def claude_code_low_budget_empty_fallback_text_def
      mimo_internal_probe_empty_fallback_text_def local_texts_visible
      split: if_splits option.splits dest: short_fallback_visible)

section \<open>One attempt\<close>

text \<open>What an attempt that ends the loop found.\<close>

definition sound_next :: "attempt_next \<Rightarrow> bool" where
  "sound_next r \<longleftrightarrow>
     (case r of
        Found c content \<Rightarrow> trim content \<noteq> [] \<or> co_tool_calls c \<noteq> []
      | LocalAnswer a \<Rightarrow> visible_answer a
      | _ \<Rightarrow> True)"

lemma sound_next_simps [simp]:
  "sound_next Again" "sound_next GiveUp" "sound_next (Fail e)" "sound_next Panicked"
  "sound_next (Found c content) = (trim content \<noteq> [] \<or> co_tool_calls c \<noteq> [])"
  "sound_next (LocalAnswer a) = visible_answer a"
  by (simp_all add: sound_next_def)

lemma local_response_visible:
  "trim t \<noteq> [] \<Longrightarrow> visible_answer (local_non_stream_fallback_response ts cr t)"
  by (simp add: local_non_stream_fallback_response_def text_resp_def visible_text)

lemma probe_answer_visible:
  "probe_fallback V job = Some t \<Longrightarrow> visible_answer (local_non_stream_fallback_response ts cr t)"
  by (rule local_response_visible, rule probe_fallback_visible)

lemma fallback_answer_visible:
  "non_stream_empty_fallback_text S b c k sh = Some t \<Longrightarrow> visible_answer (text_resp ts m t i n)"
  unfolding text_resp_def by (rule visible_text, rule fallback_visible)

lemma invalid_output_sound:
  "sound_next (snd (invalid_output V ts job n cls st))"
  by (auto simp: invalid_output_def Let_def intro: probe_answer_visible split: option.split)

lemma judge_output_sound: "sound_next (snd (judge_output V ts job n c st))"
  using invalid_output_sound [of V ts job n _ st]
  by (auto simp: judge_output_def Let_def unfinished_retry_def classify_collected_output_def
      split: if_splits)

lemma judge_collected_sound: "sound_next (snd (judge_collected V ts job n c st))"
  using judge_output_sound
  by (auto simp: judge_collected_def split: outcome.split prod.split bool.split)

lemma no_forwardable_sound: "sound_next (snd (no_forwardable V ts job n c st))"
  using judge_collected_sound probe_answer_visible
  by (auto simp: no_forwardable_def Let_def split: outcome.split prod.split bool.split option.split)

lemma refused_sound: "sound_next (snd (refused V job scope e st))"
  by (auto simp: refused_def Let_def split: option.split prod.split)

lemma anthropic_attempt_sound: "sound_next (snd (anthropic_attempt V C ts job reply n st))"
  using judge_collected_sound no_forwardable_sound refused_sound
  by (auto simp: anthropic_attempt_def Let_def
      split: sum.split non_stream_collect_outcome.split)

lemma attempt_loop_sound:
  assumes "\<And>n st. sound_next (snd (step n st))"
  shows "sound_next (snd (attempt_loop step ns st))"
proof (induction ns arbitrary: st)
  case (Cons n ns)
  obtain st' r where s: "step n st = (st', r)" by fastforce
  then have "sound_next r" using assms [of n st] by simp
  then show ?case using s Cons by (auto split: attempt_next.split)
qed simp

lemma anthropic_found_visible:
  assumes "trim content \<noteq> [] \<or> co_tool_calls c \<noteq> []"
    and "anthropic_found V ts job c content st = (Done (Inr (a, ip)), st')"
  shows "visible_answer a"
proof -
  have k: "co_tool_calls (unfinished_as_length job c content) = co_tool_calls c"
    by (simp add: unfinished_as_length_def)
  show ?thesis
  proof (cases "co_tool_calls c = []")
    case True
    then show ?thesis using assms k by (auto simp: anthropic_found_def Let_def visible_text)
  next
    case False
    obtain blocks s where b: "answer_blocks V job (co_reasoning (unfinished_as_length job c content)) []
        (co_tool_calls c) (as_store st) = (blocks, s)" by fastforce
    then obtain n where "a = tool_resp_with_usage ts (cr_model (uj_request job)) blocks
        (input_tokens_of job (unfinished_as_length job c content)) n
        (co_usage (unfinished_as_length job c content))" and "blocks \<noteq> []"
      using assms(2) False k by (auto simp: anthropic_found_def Let_def split: if_splits)
    then show ?thesis using visible_tools answer_blocks_tool_use [OF b] by metis
  qed
qed

text \<open>
  C18: A single answer of the Anthropic handler is never empty: whatever the upstream sends, an
  answer that is no error has a call of a tool or a text that is not blank.
\<close>

theorem anthropic_answer_is_visible:
  assumes "fst (handle_non_stream V C ts job reply s) = Done (Inr (a, ip))"
  shows "visible_answer a"
proof -
  obtain st r where l: "attempt_loop (anthropic_attempt V C ts job reply)
      [0..<NON_STREAM_EMPTY_UPSTREAM_ATTEMPTS] (first_attempt (uj_body job) s) = (st, r)" by fastforce
  have "sound_next (snd (attempt_loop (anthropic_attempt V C ts job reply)
      [0..<NON_STREAM_EMPTY_UPSTREAM_ATTEMPTS] (first_attempt (uj_body job) s)))"
    by (rule attempt_loop_sound) (rule anthropic_attempt_sound)
  then have r: "sound_next r" using l by simp
  have g: "visible_answer a" if "anthropic_given_up V ts job st = Done (Inr (a, ip))"
    using that by (auto simp: anthropic_given_up_def intro: fallback_answer_visible
        split: if_splits option.splits)
  show ?thesis
  proof (cases r)
    case (Found c content)
    moreover obtain res st' where "anthropic_found V ts job c content st = (res, st')" by fastforce
    ultimately show ?thesis using assms l r anthropic_found_visible
      by (simp add: handle_non_stream_def)
  qed (use assms l r g in \<open>simp_all add: handle_non_stream_def\<close>)
qed

text \<open>A run: the upstream answers the first attempt with one event.\<close>

definition demo_answer_event :: zen_sse_event where
  "demo_answer_event =
     \<lparr>ze_id = None, ze_object = None, ze_created = None, ze_model = None,
      ze_choices = Some [\<lparr>zc_index = None,
        zc_delta = Some \<lparr>zd_content = Some ''hi'', zd_reasoning_content = None, zd_tool_calls = None\<rparr>,
        zc_finish_reason = Some ''stop''\<rparr>],
      ze_usage = None\<rparr>"

definition demo_response :: upstream_response where
  "demo_response =
     \<lparr>up_chunks = [Inr (''data:x'' @ [NL, NL])], up_elapsed = (\<lambda>_. 0), up_exit_ip = None\<rparr>"

definition demo_collected :: collected_stream where
  "demo_collected = empty_collection\<lparr>co_content := ''hi'', co_finish_reason := Some ''stop''\<rparr>"

lemma demo_response_collected:
  "collect_stream_parts (\<lambda>_. Inr demo_answer_event) (up_chunks demo_response) = Inr demo_collected"
  by code_simp

definition demo_env :: client_env where
  "demo_env =
     \<lparr>ce_synthesis = \<lparr>sy_serde = \<lparr>from_slice = (\<lambda>_. None), to_string = (\<lambda>_. ''x'')\<rparr>,
        sy_lowercase = to_lowercase, sy_read_quoted = (\<lambda>_. None), sy_read_word = (\<lambda>_. None),
        sy_run_quoted = (\<lambda>_. None), sy_run_unquoted = (\<lambda>_. None),
        sy_reply_exactly = (\<lambda>_. None), sy_keyword = (\<lambda>_. False)\<rparr>,
      ce_remote = (\<lambda>_. None), ce_variables = (\<lambda>_. None), ce_redact = (\<lambda>t. t),
      ce_fold_hasher = (\<lambda>_. 0), ce_fingerprint = (\<lambda>_. 0), ce_decode = (\<lambda>_. Inr demo_answer_event)\<rparr>"

definition demo_request :: chat_request where
  "demo_request =
     \<lparr>cr_model = ''m'', cr_messages = [], cr_stream = None, cr_max_tokens = None,
      cr_temperature = None, cr_top_p = None, cr_tools = None, cr_tool_choice = None\<rparr>"

definition demo_job :: upstream_job where
  "demo_job =
     \<lparr>uj_request = demo_request, uj_body = JObject [], uj_headers = [],
      uj_profile = unknown_profile, uj_stream = False, uj_history_repair = default_repair,
      uj_context_repair = no_context_repair, uj_reduced_anchor = False, uj_has_tools = False,
      uj_reasoning_scope = []\<rparr>"

lemma demo_judged: "judge_collected demo_env ts demo_job 0 demo_collected st
    = (record_reasoning demo_env demo_job demo_collected st, Found demo_collected ''hi'')"
proof -
  have c: "co_tool_calls demo_collected = []" "co_content demo_collected = ''hi''"
      "co_reasoning demo_collected = []"
    by (simp_all add: demo_collected_def empty_collection_def)
  have l: "contains_dsml_tool_leak (dsml_source_blob [] ''hi'') = False" "leaks_markup demo_collected = False"
      "collected_visible_text demo_collected = ''hi''" "repair_text ''hi'' = ''hi''" "trim ''hi'' \<noteq> []"
    by code_simp+
  have p: "uj_profile demo_job = unknown_profile" "uj_request demo_job = demo_request" "ce_redact demo_env = (\<lambda>t. t)"
    by (simp_all add: demo_job_def demo_env_def)
  have u: "cp_kind unknown_profile = UnknownClient"
    by (simp add: unknown_profile_def profile_new_def)
  show ?thesis
    using c l p u
    by (simp add: judge_collected_def try_repair_dsml_invoke_leak_def judge_output_def Let_def
        should_retry_unfinished_tool_intent_def response_text_for_profile_def
        preserves_model_text_exactly_def classify_collected_output_def
        has_only_incomplete_tool_arguments_def)
qed

lemma demo_run:
  "\<exists>a ip. fst (handle_non_stream demo_env C ts demo_job (\<lambda>_. Inr demo_response) s) = Done (Inr (a, ip))"
proof -
  have d: "ce_decode demo_env = (\<lambda>_. Inr demo_answer_event)" by (simp add: demo_env_def)
  have u: "cp_kind (uj_profile demo_job) \<noteq> ClaudeCode"
    by (simp add: demo_job_def unknown_profile_def profile_new_def)
  have a: "\<exists>st'. anthropic_attempt demo_env C ts demo_job (\<lambda>_. Inr demo_response) 0 st
      = (st', Found demo_collected ''hi'')" for st
    using u by (simp add: anthropic_attempt_def Let_def d demo_response_collected demo_judged
        collect_anthropic_non_stream_parts_with_guard_def)
  let ?step = "anthropic_attempt demo_env C ts demo_job (\<lambda>_. Inr demo_response)"
  obtain st' where st': "?step 0 (first_attempt (uj_body demo_job) s) = (st', Found demo_collected ''hi'')"
    using a by blast
  have n: "[0..<NON_STREAM_EMPTY_UPSTREAM_ATTEMPTS] = [0, 1, 2]"
    by (simp add: NON_STREAM_EMPTY_UPSTREAM_ATTEMPTS_def upt_rec)
  have l: "attempt_loop ?step [0..<NON_STREAM_EMPTY_UPSTREAM_ATTEMPTS] (first_attempt (uj_body demo_job) s)
      = (st', Found demo_collected ''hi'')"
    by (simp only: n attempt_loop.simps st' prod.case attempt_next.case)
  have e: "unfinished_as_length demo_job demo_collected ''hi'' = demo_collected"
    using u by (simp add: unfinished_as_length_def)
  have c: "co_tool_calls demo_collected = []" by (simp add: demo_collected_def empty_collection_def)
  show ?thesis
    unfolding handle_non_stream_def l prod.case attempt_next.case anthropic_found_def e Let_def c
    by auto
qed

lemma anthropic_answer_is_visible_witness:
  "\<forall>C ts s. \<exists>a ip. fst (handle_non_stream demo_env C ts demo_job (\<lambda>_. Inr demo_response) s)
      = Done (Inr (a, ip)) \<and> visible_answer a"
  using demo_run anthropic_answer_is_visible by metis

section \<open>Refusals\<close>

text \<open>The flags of the state after refusals only.\<close>

definition only_refused :: "bool \<Rightarrow> bool \<Rightarrow> bool \<Rightarrow> attempt_state \<Rightarrow> bool" where
  "only_refused miss tried plain st \<longleftrightarrow>
     as_missing_enriched st = miss \<and> as_invalid_compat st = tried \<and> as_invalid_text st = plain
     \<and> \<not> as_incomplete st \<and> \<not> as_last_empty st \<and> as_last_class st = None"

lemma only_refused_first: "only_refused False False False (first_attempt b s)"
  by (simp add: only_refused_def first_attempt_def)

lemma only_refused_send: "only_refused m c p (send st) = only_refused m c p st"
  by (simp add: only_refused_def send_def Let_def)

lemma refused_missing:
  "is_missing_reasoning_content e \<Longrightarrow> only_refused False c p st \<Longrightarrow>
     \<exists>st'. refused V job sc e st = (st', Again) \<and> only_refused True c p st'"
  by (auto simp: refused_def should_retry_missing_reasoning_content_def only_refused_def
      split: prod.split)

lemma refused_invalid:
  assumes "is_provider_invalid_request e" and "only_refused m c False st"
    and "is_risky_claude_code_tool_history_request (uj_request job) (uj_profile job)
           (uj_history_repair job) False"
  shows "\<exists>st'. refused V job sc e st = (st', Again) \<and> only_refused m True c st'"
proof -
  have "\<not> is_missing_reasoning_content e"
    using assms(1) by (auto simp: is_missing_reasoning_content_def is_provider_invalid_request_def)
  then show ?thesis using assms
    by (auto simp: refused_def should_retry_missing_reasoning_content_def only_refused_def
        provider_invalid_tool_history_retry_mode_def split: prod.split)
qed

text \<open>
  The ladder of bodies is longer than the attempts: after a refusal for missing reasoning the
  body with the history as plain text is prepared when no attempt is left, and the client is told
  that the upstream was empty instead of what the provider refused.
\<close>

lemma provider_refusal_is_masked:
  assumes "is_missing_reasoning_content e0" and "is_provider_invalid_request e1"
    and "is_provider_invalid_request e2"
    and "is_risky_claude_code_tool_history_request (uj_request job) (uj_profile job)
           (uj_history_repair job) False"
    and "reply 0 = Inl e0" and "reply 1 = Inl e1" and "reply 2 = Inl e2"
  shows "fst (handle_non_stream V C ts job reply s) = Done (Inl (empty_upstream_class ''empty_output''))"
proof -
  let ?sc = "uj_reasoning_scope job"
  let ?st0 = "first_attempt (uj_body job) s"
  have s0: "only_refused False False False (send ?st0)"
    by (simp only: only_refused_send only_refused_first)
  obtain st1 where 1: "refused V job ?sc e0 (send ?st0) = (st1, Again)" "only_refused True False False st1"
    using refused_missing [OF assms(1) s0] by blast
  have s1: "only_refused True False False (send st1)" by (simp only: only_refused_send 1)
  obtain st2 where 2: "refused V job ?sc e1 (send st1) = (st2, Again)" "only_refused True True False st2"
    using refused_invalid [OF assms(2) s1 assms(4)] by blast
  have s2: "only_refused True True False (send st2)" by (simp only: only_refused_send 2)
  obtain st3 where 3: "refused V job ?sc e2 (send st2) = (st3, Again)" "only_refused True True True st3"
    using refused_invalid [OF assms(3) s2 assms(4)] by blast
  have "attempt_loop (anthropic_attempt V C ts job reply) [0, 1, 2] ?st0 = (st3, GiveUp)"
    using 1(1) 2(1) 3(1) assms(5-7) by (simp add: anthropic_attempt_def Let_def)
  moreover have "[0..<NON_STREAM_EMPTY_UPSTREAM_ATTEMPTS] = [0, 1, 2]"
    by (simp add: NON_STREAM_EMPTY_UPSTREAM_ATTEMPTS_def upt_rec)
  ultimately show ?thesis using 3
    by (simp add: handle_non_stream_def anthropic_given_up_def empty_class_text_def only_refused_def)
qed

text \<open>
  A finish reason ends the collection for ClaudeCode at once: usage that arrives in a later event,
  as the protocol sends it, is lost.
\<close>

lemma usage_after_finish_is_lost:
  assumes "co_finish_reason (collect_event e c) \<noteq> None"
  shows "guard_events Y body profile ra el n c (Inr e # items)
       = guard_events Y body profile ra el n c [Inr e]"
  using assms by (simp add: Let_def)

text \<open>
  Calls without a name count as valid output of the OpenAI handler, but none of them is sent: the
  completion is an empty text.
\<close>

lemma nameless_calls_answer_nothing:
  assumes "co_tool_calls c \<noteq> []" and "\<forall>t \<in> set (co_tool_calls c). ct_name t = []"
    and "cp_kind (uj_profile job) \<noteq> ClaudeCode"
  shows "\<exists>pt ct tot. oa_found ts job c [] = oa_text_resp_with_usage ts (cr_model (uj_request job)) []
      pt ct tot (co_usage c) (co_finish_reason c)"
    and "classify_collected_output c [] = ValidOutput"
proof -
  have "filter (\<lambda>t. ct_name t \<noteq> []) (co_tool_calls c) = []"
    using assms(2) by (simp add: filter_empty_conv)
  then show "\<exists>pt ct tot. oa_found ts job c [] = oa_text_resp_with_usage ts (cr_model (uj_request job)) []
      pt ct tot (co_usage c) (co_finish_reason c)"
    using assms(3) by (auto simp: oa_found_def unfinished_as_length_def Let_def)
  show "classify_collected_output c [] = ValidOutput"
    using assms(1) by (simp add: classify_collected_output_def)
qed

section \<open>Three requests at most\<close>

lemma enrich_retry_sent [simp]: "as_sent (enrich_retry V job st) = as_sent st"
  by (simp add: enrich_retry_def split: prod.split)

lemma note_empty_sent [simp]: "as_sent (note_empty cls st) = as_sent st"
  by (simp add: note_empty_def)

lemma refused_sent: "as_sent (fst (refused V job sc e st)) = as_sent st"
  by (auto simp: refused_def Let_def split: prod.split option.split provider_invalid_retry_mode.split)

lemma judge_output_sent: "as_sent (fst (judge_output V ts job n c st)) = as_sent st"
  by (simp add: judge_output_def invalid_output_def unfinished_retry_def record_reasoning_def Let_def
      split: option.split)

lemma judge_collected_sent: "as_sent (fst (judge_collected V ts job n c st)) = as_sent st"
  by (simp add: judge_collected_def judge_output_sent split: outcome.split prod.split bool.split)

lemma no_forwardable_sent: "as_sent (fst (no_forwardable V ts job n c st)) = as_sent st"
  by (simp add: no_forwardable_def judge_collected_sent Let_def
      split: outcome.split prod.split bool.split option.split)

lemma anthropic_attempt_sent:
  "length (as_sent (fst (anthropic_attempt V C ts job reply n st))) = Suc (length (as_sent st))"
  by (simp add: anthropic_attempt_def send_def Let_def refused_sent judge_collected_sent
      no_forwardable_sent split: sum.split non_stream_collect_outcome.split)

lemma attempt_loop_sent:
  assumes "\<And>n st. length (as_sent (fst (step n st))) = Suc (length (as_sent st))"
  shows "length (as_sent (fst (attempt_loop step ns st))) \<le> length (as_sent st) + length ns"
proof (induction ns arbitrary: st)
  case (Cons n ns)
  obtain st' r where s: "step n st = (st', r)" by fastforce
  then have l: "length (as_sent st') = Suc (length (as_sent st))" using assms [of n st] by simp
  show ?case using s l Cons.IH [of st'] by (simp split: attempt_next.split)
qed simp

lemma at_most_three_requests:
  "length (as_sent (snd (handle_non_stream V C ts job reply s))) \<le> 3"
proof -
  obtain st r where l: "attempt_loop (anthropic_attempt V C ts job reply)
      [0..<NON_STREAM_EMPTY_UPSTREAM_ATTEMPTS] (first_attempt (uj_body job) s) = (st, r)" by fastforce
  have "length (as_sent st) \<le> 3"
    using attempt_loop_sent [of "anthropic_attempt V C ts job reply"
        "[0..<NON_STREAM_EMPTY_UPSTREAM_ATTEMPTS]" "first_attempt (uj_body job) s",
        OF anthropic_attempt_sent] l
    by (simp add: first_attempt_def NON_STREAM_EMPTY_UPSTREAM_ATTEMPTS_def)
  moreover have "as_sent (snd (anthropic_found V ts job c content st)) = as_sent st" for c content
    by (simp add: anthropic_found_def Let_def split: prod.split)
  ultimately show ?thesis using l by (simp add: handle_non_stream_def split: attempt_next.split)
qed

end
