(* ===== verification/UsageWire.thy ===== *)
theory UsageWire
  imports ToolGate ModelRegistry
begin

text \<open>
  The token usage of an answer (\<open>v4/provider.rs\<close>): how it is read from a provider's JSON, the form
  in which it is passed on, and the rewriting of the model's name in an answer and in a stream.
  Counters are \<open>u32\<close> held as naturals, with saturation, truncation and wrapping written out; a
  ratio is exact.
\<close>

section \<open>Reading usage\<close>

record usage_counts =
  uc_prompt_tokens :: nat
  uc_completion_tokens :: nat
  uc_total_tokens :: nat
  uc_cached_tokens :: nat
  uc_cache_creation_input_tokens :: nat
  uc_cache_read_input_tokens :: nat
  uc_cache_miss_input_tokens :: "nat option"

definition usage_default :: usage_counts where
  "usage_default =
     \<lparr>uc_prompt_tokens = 0, uc_completion_tokens = 0, uc_total_tokens = 0, uc_cached_tokens = 0,
      uc_cache_creation_input_tokens = 0, uc_cache_read_input_tokens = 0,
      uc_cache_miss_input_tokens = None\<rparr>"

definition cap_u32 :: "nat \<Rightarrow> nat" where
  "cap_u32 n = min n (2 ^ 32 - 1)"

definition or_else :: "'a option \<Rightarrow> 'a option \<Rightarrow> 'a option" where
  "or_else a b = (case a of Some x \<Rightarrow> Some x | None \<Rightarrow> b)"

definition usage_u32_opt :: "json \<Rightarrow> string \<Rightarrow> nat option" where
  "usage_u32_opt usage name = map_option cap_u32 (Option.bind (json_get name usage) as_u64)"

definition usage_u32 :: "json \<Rightarrow> string \<Rightarrow> nat" where
  "usage_u32 usage name = unwrap_or 0 (usage_u32_opt usage name)"

definition usage_cached_tokens_u32 :: "json \<Rightarrow> nat option" where
  "usage_cached_tokens_u32 usage =
     map_option cap_u32
       (or_else (Option.bind (Option.bind (json_get ''prompt_tokens_details'' usage)
                   (json_get ''cached_tokens'')) as_u64)
       (or_else (Option.bind (json_get ''cached_tokens'' usage) as_u64)
                (Option.bind (json_get ''prompt_cache_hit_tokens'' usage) as_u64)))"

definition usage_cache_read_u32 :: "json \<Rightarrow> nat option" where
  "usage_cache_read_u32 usage =
     or_else (usage_u32_opt usage ''cache_read_input_tokens'')
       (or_else (usage_u32_opt usage ''prompt_cache_hit_tokens'') (usage_cached_tokens_u32 usage))"

definition usage_cache_miss_u32 :: "json \<Rightarrow> nat option" where
  "usage_cache_miss_u32 usage =
     or_else (usage_u32_opt usage ''cache_miss_input_tokens'')
       (usage_u32_opt usage ''prompt_cache_miss_tokens'')"

definition max_optional_u32 :: "nat option \<Rightarrow> nat \<Rightarrow> nat option" where
  "max_optional_u32 current new = Some (max (unwrap_or 0 current) new)"

fun max_optional_usage :: "nat option \<Rightarrow> nat option \<Rightarrow> nat option" where
  "max_optional_usage (Some l) (Some r) = Some (max l r)"
| "max_optional_usage (Some v) None = Some v"
| "max_optional_usage None (Some v) = Some v"
| "max_optional_usage None None = None"

definition extract_usage_counts :: "serde \<Rightarrow> string \<Rightarrow> string \<Rightarrow> usage_counts" where
  "extract_usage_counts S path bytes =
     (case Option.bind (from_slice S bytes) (json_get ''usage'') of
        None \<Rightarrow> usage_default
      | Some usage \<Rightarrow>
          if path = ''messages'' then
            (let prompt = usage_u32 usage ''input_tokens'';
                 completion = usage_u32 usage ''output_tokens'';
                 cache_read = unwrap_or 0 (usage_cache_read_u32 usage)
             in \<lparr>uc_prompt_tokens = prompt, uc_completion_tokens = completion,
                 uc_total_tokens = sat_add 32 prompt completion, uc_cached_tokens = cache_read,
                 uc_cache_creation_input_tokens = usage_u32 usage ''cache_creation_input_tokens'',
                 uc_cache_read_input_tokens = cache_read,
                 uc_cache_miss_input_tokens = usage_cache_miss_u32 usage\<rparr>)
          else
            (let cached = unwrap_or 0 (usage_cached_tokens_u32 usage)
             in \<lparr>uc_prompt_tokens = usage_u32 usage ''prompt_tokens'',
                 uc_completion_tokens = usage_u32 usage ''completion_tokens'',
                 uc_total_tokens = usage_u32 usage ''total_tokens'', uc_cached_tokens = cached,
                 uc_cache_creation_input_tokens = usage_u32 usage ''cache_creation_input_tokens'',
                 uc_cache_read_input_tokens =
                   max (usage_u32 usage ''cache_read_input_tokens'') cached,
                 uc_cache_miss_input_tokens = usage_cache_miss_u32 usage\<rparr>))"

definition cache_miss_input_tokens :: "usage_counts \<Rightarrow> nat" where
  "cache_miss_input_tokens u =
     (case uc_cache_miss_input_tokens u of
        Some m \<Rightarrow> m
      | None \<Rightarrow> uc_prompt_tokens u - max (uc_cache_read_input_tokens u) (uc_cached_tokens u))"

definition provider_cache_observation :: "usage_counts \<Rightarrow> string" where
  "provider_cache_observation u =
     (if 0 < uc_cache_read_input_tokens u \<or> 0 < uc_cached_tokens u then ''cache_hit''
      else if 0 < uc_cache_creation_input_tokens u then ''cache_write''
      else ''no_cache_signal'')"

section \<open>Estimates\<close>

definition estimate_text_tokens_u32 :: "string \<Rightarrow> nat" where
  "estimate_text_tokens_u32 t =
     max (length (split_whitespace t) mod 2 ^ 32) (div_ceil (char_count t) 4 mod 2 ^ 32)"

definition sum_u32 :: "nat list \<Rightarrow> nat" where
  "sum_u32 ns = foldl (wrap_add 32) 0 ns"

definition estimate_message_content_tokens :: "json option \<Rightarrow> nat" where
  "estimate_message_content_tokens content =
     (case content of
        Some (JString t) \<Rightarrow> estimate_text_tokens_u32 t
      | Some (JArray parts) \<Rightarrow>
          sum_u32 (map estimate_text_tokens_u32
            (List.map_filter (\<lambda>part. or_else (get_str ''text'' part) (get_str ''content'' part)) parts))
      | _ \<Rightarrow> 0)"

definition estimate_prompt_tokens :: "string \<Rightarrow> json \<Rightarrow> nat" where
  "estimate_prompt_tokens path body =
     (case Option.bind (json_get ''messages'' body) as_array of
        None \<Rightarrow> 0
      | Some ms \<Rightarrow> sum_u32 (map (\<lambda>m. estimate_message_content_tokens (json_get ''content'' m)) ms))"

section \<open>The form passed on\<close>

definition cache_ratio :: "nat \<Rightarrow> nat \<Rightarrow> rat" where
  "cache_ratio provider_input cache_read =
     (if provider_input = 0 then 0 else of_nat cache_read / of_nat provider_input)"

definition downstream_uncached_input_tokens :: "nat \<Rightarrow> nat \<Rightarrow> nat \<Rightarrow> json \<Rightarrow> nat" where
  "downstream_uncached_input_tokens provider_input cache_read cache_creation usage =
     (case usage_cache_miss_u32 usage of
        Some m \<Rightarrow> m
      | None \<Rightarrow> provider_input - cache_read - cache_creation)"

definition openai_usage_has_scale_mismatch :: "nat \<Rightarrow> nat \<Rightarrow> nat \<Rightarrow> bool" where
  "openai_usage_has_scale_mismatch provider_prompt cache_read cache_creation \<longleftrightarrow>
     cache_read \<noteq> 0
     \<and> (let marginal = sat_add 32 cache_read cache_creation
        in sat_add 32 marginal 512 < provider_prompt \<and> wrap_mul 32 marginal 2 < provider_prompt)"

definition usage_marginal_input_tokens :: "json \<Rightarrow> nat \<Rightarrow> nat option" where
  "usage_marginal_input_tokens usage provider_prompt =
     (let from_billing = Option.bind (Option.bind (json_get ''billing_usage'' usage)
                           (json_get ''claude_usage'')) (\<lambda>c. usage_u32_opt c ''input_tokens'');
          usable = (\<lambda>n. 0 < n \<and> n < provider_prompt)
      in case from_billing of
           Some n \<Rightarrow> if usable n then Some n
                     else (case usage_u32_opt usage ''input_tokens'' of
                             Some k \<Rightarrow> if usable k then Some k else None | None \<Rightarrow> None)
         | None \<Rightarrow> (case usage_u32_opt usage ''input_tokens'' of
                      Some k \<Rightarrow> if usable k then Some k else None | None \<Rightarrow> None))"

definition openai_marginal_uncached_input_tokens :: "nat \<Rightarrow> nat \<Rightarrow> nat \<Rightarrow> json \<Rightarrow> nat" where
  "openai_marginal_uncached_input_tokens provider_prompt cache_read cache_creation usage =
     (let plain = downstream_uncached_input_tokens provider_prompt cache_read cache_creation usage
      in if \<not> openai_usage_has_scale_mismatch provider_prompt cache_read cache_creation then plain
         else
           let full_scale = provider_prompt - cache_read - cache_creation;
               rest =
                 (case usage_marginal_input_tokens usage provider_prompt of
                    Some marginal \<Rightarrow> marginal - cache_read - cache_creation
                  | None \<Rightarrow>
                      (let inferred = provider_prompt - sat_mul 32 cache_read 2
                       in if 0 < inferred \<and> inferred < provider_prompt div 4 then inferred
                          else plain))
           in case usage_cache_miss_u32 usage of
                Some miss \<Rightarrow>
                  if miss < full_scale \<and> miss \<le> provider_prompt div 4 then miss else rest
              | None \<Rightarrow> rest)"

definition openai_newapi_cached_tokens :: "nat \<Rightarrow> nat \<Rightarrow> nat \<Rightarrow> json \<Rightarrow> nat" where
  "openai_newapi_cached_tokens provider_prompt cache_read cache_creation usage =
     (if openai_usage_has_scale_mismatch provider_prompt cache_read cache_creation
      then provider_prompt
             - openai_marginal_uncached_input_tokens provider_prompt cache_read cache_creation usage
      else cache_read)"

definition newapi_complement_wire_miss_tokens :: "nat \<Rightarrow> nat \<Rightarrow> nat \<Rightarrow> json \<Rightarrow> nat" where
  "newapi_complement_wire_miss_tokens billed_input cache_read cache_creation usage =
     (if cache_read = 0 then billed_input - cache_creation
      else openai_marginal_uncached_input_tokens billed_input cache_read cache_creation usage)"

abbreviation jnat :: "nat \<Rightarrow> json" where
  "jnat n \<equiv> JNumber (PosInt n)"

text \<open>Several keys set one after the other (\<open>usage["k"] = v\<close> on an object).\<close>

definition set_keys :: "(string \<times> json) list \<Rightarrow> (string \<times> json) list \<Rightarrow> (string \<times> json) list" where
  "set_keys kvs m = foldl (\<lambda>m (k, v). obj_insert k v m) m kvs"

definition normalize_messages_usage :: "(string \<times> json) list \<Rightarrow> (string \<times> json) list" where
  "normalize_messages_usage m =
     (let usage = JObject m;
          provider_input = usage_u32 usage ''input_tokens'';
          output_tokens = usage_u32 usage ''output_tokens'';
          cache_read = unwrap_or 0 (usage_cache_read_u32 usage);
          cache_creation = usage_u32 usage ''cache_creation_input_tokens'';
          wire = newapi_complement_wire_miss_tokens provider_input cache_read cache_creation usage
      in set_keys
           [(''input_tokens'', jnat wire), (''output_tokens'', jnat output_tokens),
            (''cache_read_input_tokens'', jnat cache_read), (''cache_miss_input_tokens'', jnat wire),
            (''zenproxy_billable_input_tokens'', jnat wire),
            (''zenproxy_provider_input_tokens'', jnat provider_input),
            (''zenproxy_cache_r2_basis_tokens'', jnat provider_input),
            (''zenproxy_true_cache_read_ratio'',
               JNumber (JFloat (cache_ratio provider_input cache_read))),
            (''zenproxy_cache_contract_version'', jnat 2)] m)"

definition newapi_private_keys :: "string list" where
  "newapi_private_keys =
     [''cache_read_input_tokens'', ''cache_creation_input_tokens'', ''cache_miss_input_tokens'',
      ''input_tokens'', ''output_tokens'', ''billing_usage'', ''usage_semantic'', ''usage_source'',
      ''input_tokens_details'', ''completion_tokens_details'', ''claude_cache_creation_5_m_tokens'',
      ''claude_cache_creation_1_h_tokens'', ''zenproxy_billable_input_tokens'',
      ''zenproxy_provider_prompt_tokens'', ''zenproxy_cache_r2_basis_tokens'',
      ''zenproxy_true_cache_read_ratio'', ''zenproxy_cache_contract_version'',
      ''zenproxy_provider_input_tokens'', ''prompt_cache_hit_tokens'', ''prompt_cache_miss_tokens'',
      ''cached_tokens'']"

definition sanitize_openai_usage_for_newapi_client ::
  "(string \<times> json) list \<Rightarrow> (string \<times> json) list" where
  "sanitize_openai_usage_for_newapi_client m = filter (\<lambda>(k, v). k \<notin> set newapi_private_keys) m"

definition ensure_prompt_tokens_details_cached_tokens ::
  "(string \<times> json) list \<Rightarrow> nat \<Rightarrow> (string \<times> json) list" where
  "ensure_prompt_tokens_details_cached_tokens m cache_read =
     (let details = (case map_of m ''prompt_tokens_details'' of Some (JObject d) \<Rightarrow> d | _ \<Rightarrow> [])
      in obj_insert ''prompt_tokens_details''
           (JObject (obj_insert ''cached_tokens'' (jnat cache_read) details)) m)"

definition attach_openai_billing_usage_for_newapi_client ::
  "nat \<Rightarrow> nat \<Rightarrow> nat \<Rightarrow> (string \<times> json) list \<Rightarrow> (string \<times> json) list" where
  "attach_openai_billing_usage_for_newapi_client wire_prompt wire_cached completion m =
     set_keys
       [(''usage_semantic'', JString ''openai''), (''usage_source'', JString ''oai_chat''),
        (''billing_usage'', json_object
           [(''source'', JString ''oai_chat''), (''semantic'', JString ''openai''),
            (''openai_usage'', json_object
               [(''prompt_tokens'', jnat wire_prompt), (''completion_tokens'', jnat completion),
                (''total_tokens'', jnat (sat_add 32 wire_prompt completion)),
                (''prompt_tokens_details'', json_object [(''cached_tokens'', jnat wire_cached)])])])] m"

definition normalize_openai_usage :: "(string \<times> json) list \<Rightarrow> (string \<times> json) list \<times> bool" where
  "normalize_openai_usage m =
     (let usage = JObject m;
          provider_prompt = usage_u32 usage ''prompt_tokens'';
          completion = usage_u32 usage ''completion_tokens'';
          cache_read = unwrap_or 0 (usage_cache_read_u32 usage);
          cache_creation = usage_u32 usage ''cache_creation_input_tokens'';
          wire = newapi_complement_wire_miss_tokens provider_prompt cache_read cache_creation usage;
          m = set_keys [(''prompt_tokens'', jnat wire), (''completion_tokens'', jnat completion),
                        (''total_tokens'', jnat (sat_add 32 wire completion))] m;
          m = ensure_prompt_tokens_details_cached_tokens m cache_read;
          m = sanitize_openai_usage_for_newapi_client m;
          m = attach_openai_billing_usage_for_newapi_client wire cache_read completion m
      in (m, 0 < cache_read \<or> usage_cache_miss_u32 (JObject m) \<noteq> None))"

definition normalize_downstream_usage_object :: "string \<Rightarrow> json \<Rightarrow> json \<times> bool" where
  "normalize_downstream_usage_object path usage =
     (case usage of
        JObject m \<Rightarrow>
          if path = ''messages'' then
            (let m' = normalize_messages_usage m
             in (JObject m', 0 < unwrap_or 0 (usage_cache_read_u32 usage)
                   \<or> usage_cache_miss_u32 (JObject m') \<noteq> None))
          else (let (m', changed) = normalize_openai_usage m in (JObject m', changed))
      | _ \<Rightarrow> (usage, False))"

text \<open>\<open>get_mut\<close> of a key of an object, with what the update reports.\<close>

definition update_at :: "string \<Rightarrow> (json \<Rightarrow> json \<times> bool) \<Rightarrow> json \<Rightarrow> json \<times> bool" where
  "update_at k f v =
     (case v of
        JObject m \<Rightarrow>
          (case map_of m k of
             Some x \<Rightarrow> (let (y, changed) = f x in (JObject (obj_insert k y m), changed))
           | None \<Rightarrow> (v, False))
      | _ \<Rightarrow> (v, False))"

definition normalize_downstream_usage_value :: "string \<Rightarrow> json \<Rightarrow> json \<times> bool" where
  "normalize_downstream_usage_value path v =
     (let (v, a) = update_at ''usage'' (normalize_downstream_usage_object path) v;
          (v, b) = (if path = ''messages''
                    then update_at ''message''
                           (update_at ''usage'' (normalize_downstream_usage_object path)) v
                    else (v, False))
      in (v, a \<or> b))"

definition replace_model :: "string \<Rightarrow> json \<Rightarrow> json \<times> bool" where
  "replace_model public_model v =
     (if get_str ''model'' v \<noteq> None then (set_key ''model'' (JString public_model) v, True)
      else (v, False))"

definition rewrite_response_model_value :: "string \<Rightarrow> json \<Rightarrow> string \<Rightarrow> json \<times> bool" where
  "rewrite_response_model_value path v public_model =
     (let (v, a) = (if public_model \<noteq> [] \<and> path \<in> set [''messages'', ''chat/completions'']
                    then replace_model public_model v else (v, False));
          (v, b) = (if public_model \<noteq> [] \<and> path = ''messages''
                    then update_at ''message'' (replace_model public_model) v else (v, False));
          (v, c) = normalize_downstream_usage_value path v
      in (v, a \<or> b \<or> c))"

definition rewrite_nonstream_response_model :: "serde \<Rightarrow> string \<Rightarrow> string \<Rightarrow> string \<Rightarrow> string" where
  "rewrite_nonstream_response_model S path bytes public_model =
     (case from_slice S bytes of
        None \<Rightarrow> bytes
      | Some v \<Rightarrow>
          (let (v', changed) = rewrite_response_model_value path v public_model
           in if changed then to_string S v' else bytes))"

text \<open>One line of a chunk with its line feed; the flag tells that it was rewritten.\<close>

definition rewrite_stream_line :: "serde \<Rightarrow> string \<Rightarrow> string \<Rightarrow> string \<Rightarrow> string \<times> bool" where
  "rewrite_stream_line S path public_model full =
     (let (line, newline) = (case strip_suffix full [NL] of Some l \<Rightarrow> (l, [NL]) | None \<Rightarrow> (full, []));
          (line, carriage) = (case strip_suffix line [CHR 0x0D] of
                                Some l \<Rightarrow> (l, [CHR 0x0D]) | None \<Rightarrow> (line, []));
          leading_len = length line - length (trim_start line);
          leading = take leading_len line
      in case strip_prefix (drop leading_len line) ''data:'' of
           None \<Rightarrow> (line @ carriage @ newline, False)
         | Some data \<Rightarrow>
             (let data = trim data
              in if data = [] \<or> data = ''[DONE]'' then (line @ carriage @ newline, False)
                 else
                   case from_slice S data of
                     None \<Rightarrow> (line @ carriage @ newline, False)
                   | Some v \<Rightarrow>
                       (let (v', changed) = rewrite_response_model_value path v public_model
                        in if changed
                           then (leading @ ''data: '' @ to_string S v' @ carriage @ newline, True)
                           else (line @ carriage @ newline, False))))"

text \<open>\<open>str::split_inclusive\<close> at line feeds.\<close>

fun inclusive_lines :: "string \<Rightarrow> string \<Rightarrow> string list" where
  "inclusive_lines acc [] = (if acc = [] then [] else [acc])"
| "inclusive_lines acc (c # s) =
     (if c = NL then (acc @ [c]) # inclusive_lines [] s else inclusive_lines (acc @ [c]) s)"

definition rewrite_stream_response_model :: "serde \<Rightarrow> string \<Rightarrow> string \<Rightarrow> string \<Rightarrow> string" where
  "rewrite_stream_response_model S path bytes public_model =
     (if \<not> valid_utf8 bytes \<or> \<not> contains_str bytes ''data:'' then bytes
      else
        let ls = map (rewrite_stream_line S path public_model) (inclusive_lines [] bytes)
        in if list_ex snd ls then concat (map fst ls) else bytes)"

definition response_has_assistant_output :: "serde \<Rightarrow> string \<Rightarrow> string \<Rightarrow> bool" where
  "response_has_assistant_output S path bytes =
     (case from_slice S bytes of
        None \<Rightarrow> False
      | Some v \<Rightarrow>
          if path = ''messages'' then
            (case Option.bind (json_get ''content'' v) as_array of
               None \<Rightarrow> False
             | Some items \<Rightarrow>
                 list_ex (\<lambda>item. get_str ''type'' item = Some ''tool_use''
                   \<or> (case get_str ''text'' item of Some t \<Rightarrow> trim t \<noteq> [] | None \<Rightarrow> False)) items)
          else
            (case Option.bind (json_get ''choices'' v) as_array of
               Some (choice # _) \<Rightarrow>
                 (case json_get ''message'' choice of
                    None \<Rightarrow> False
                  | Some message \<Rightarrow>
                      (case get_str ''content'' message of Some t \<Rightarrow> trim t \<noteq> [] | None \<Rightarrow> False)
                      \<or> (case Option.bind (json_get ''tool_calls'' message) as_array of
                           Some items \<Rightarrow> items \<noteq> [] | None \<Rightarrow> False))
             | _ \<Rightarrow> False))"

end
