(* ===== verification/CallPolicy.thy ===== *)
theory CallPolicy
  imports PoolTypes RequestRepair RetryBody ModelRegistry NodeRegistry
begin

text \<open>
  The policy of the proxy's calls upstream (\<open>v4/provider.rs\<close>): which client profile a request is
  served with, how often and how long it is tried again, how an error is classified, what a
  node is told about it and whether its session pin goes.  serde's decoding of a request into the
  client's types, with the text of its error, is a parameter.
\<close>

section \<open>The profile of the client\<close>

definition normalize_source_client :: "string \<Rightarrow> string" where
  "normalize_source_client v =
     (let lower = to_ascii_lowercase v
      in if contains_str lower ''openclaw'' then ''openclaw''
         else if contains_str lower ''hermes'' then ''hermes''
         else if contains_str lower ''claude'' then ''claude-code''
         else if contains_str lower ''cherrystudio'' \<or> contains_str lower ''cherry studio''
           then ''cherrystudio''
         else if contains_str lower ''anthropic'' then ''anthropic-sdk''
         else if contains_str lower ''openai'' then ''openai-sdk''
         else ''unknown'')"

definition profile_from_source_client :: "string \<Rightarrow> client_profile option" where
  "profile_from_source_client source_client =
     map_option (\<lambda>kind. profile_new kind FromHeader)
       (map_of [(''claude-code'', ClaudeCode), (''hermes'', Hermes), (''openclaw'', OpenClaw),
                (''cherrystudio'', CherryStudio), (''anthropic-sdk'', AnthropicSdk),
                (''openai-sdk'', OpenAiSdk)] (normalize_source_client source_client))"

definition apply_model_compatibility_profile ::
  "client_profile \<Rightarrow> model_compatibility_profile \<Rightarrow> client_profile" where
  "apply_model_compatibility_profile profile compatibility =
     (case compatibility of
        StaticFlash \<Rightarrow> profile
      | StaticFlashLite \<Rightarrow> profile
      | StaticMimo \<Rightarrow> if cp_kind profile = ClaudeCode then profile else unknown_profile
      | StaticGeneric \<Rightarrow> if cp_kind profile = ClaudeCode then profile else unknown_profile
      | DynamicClaudeCodeCompatible \<Rightarrow>
          if cp_kind profile = ClaudeCode then profile else unknown_profile
      | _ \<Rightarrow> unknown_profile)"

definition profile_for_openai_request ::
  "string \<Rightarrow> chat_request \<Rightarrow> model_compatibility_profile \<Rightarrow> client_profile" where
  "profile_for_openai_request source_client request compatibility =
     (let observed = (case profile_from_source_client source_client of
                        Some p \<Rightarrow> p | None \<Rightarrow> profile_from_openai (\<lambda>_. None) request)
      in apply_model_compatibility_profile (effective_for_model (cr_model request) observed)
           compatibility)"

definition profile_for_anthropic_request ::
  "string \<Rightarrow> anthropic_request \<Rightarrow> model_compatibility_profile \<Rightarrow> client_profile" where
  "profile_for_anthropic_request source_client request compatibility =
     (let observed = (case profile_from_source_client source_client of
                        Some p \<Rightarrow> p | None \<Rightarrow> profile_from_anthropic (\<lambda>_. None) request)
      in apply_model_compatibility_profile (effective_for_model (ar_model request) observed)
           compatibility)"

section \<open>Errors of a call\<close>

record attempt_telemetry =
  ta_attempt :: nat
  ta_node_id :: node_id
  ta_node_url_redacted :: string
  ta_status :: nat
  ta_latency_ms :: nat
  ta_outcome :: string
  ta_error_type :: string

record call_error =
  ce_status :: nat
  ce_message :: string
  ce_retry_after_secs :: "nat option"
  ce_request_id :: "string option"
  ce_selected_node_id :: "node_id option"
  ce_node_url_redacted :: "string option"
  ce_upstream_model :: string
  ce_outcome :: string
  ce_retry_count :: nat
  ce_was_rate_limited :: bool
  ce_upstream_ms :: nat
  ce_failure_kind :: string
  ce_retry_chain :: "attempt_telemetry list"

definition before_dispatch_with_kind :: "nat \<Rightarrow> string \<Rightarrow> string \<Rightarrow> call_error" where
  "before_dispatch_with_kind status message failure_kind =
     \<lparr>ce_status = status, ce_message = message, ce_retry_after_secs = None, ce_request_id = None,
      ce_selected_node_id = None, ce_node_url_redacted = None, ce_upstream_model = [],
      ce_outcome = ''error'', ce_retry_count = 0, ce_was_rate_limited = False, ce_upstream_ms = 0,
      ce_failure_kind = failure_kind, ce_retry_chain = []\<rparr>"

definition before_dispatch :: "nat \<Rightarrow> string \<Rightarrow> call_error" where
  "before_dispatch status message = before_dispatch_with_kind status message []"

text \<open>\<open>LedgerEvent::redact_node_url\<close>; \<open>str::find\<close> of a character.\<close>

definition redact_node_url :: "string \<Rightarrow> string" where
  "redact_node_url url =
     (if url = ''direct'' then ''direct''
      else
        case str_find url ''@'' of
          None \<Rightarrow> url
        | Some at_pos \<Rightarrow>
            (let protocol_end = (case str_find url ''://'' of Some p \<Rightarrow> p + 3 | None \<Rightarrow> 0)
             in take protocol_end url @ ''***@'' @ drop (at_pos + 1) url))"

definition dispatch_error_to_call_error :: "dispatch_error \<Rightarrow> call_error" where
  "dispatch_error_to_call_error e =
     (case e of
        CircuitOpen \<Rightarrow> before_dispatch_with_kind 503
          ''Service temporarily unavailable due to upstream rate limiting; retry later'' ''circuit_open''
      | RequestTooLarge \<Rightarrow> before_dispatch 413 ''request exceeds proxy node budget''
      | NoResource \<Rightarrow> before_dispatch_with_kind 503
          ''Service temporarily unavailable; retry later'' ''proxy_pool_exhausted'')"

section \<open>The request\<close>

datatype prepared_request =
  PreparedOpenAi chat_request client_profile
| PreparedAnthropic anthropic_request client_profile

record request_decoders =
  rd_chat :: "json \<Rightarrow> string + chat_request"
  rd_anthropic :: "json \<Rightarrow> string + anthropic_request"

definition prepare_call_request ::
  "request_decoders \<Rightarrow> string \<Rightarrow> json \<Rightarrow> string \<Rightarrow> model_compatibility_profile \<Rightarrow>
    call_error + prepared_request" where
  "prepare_call_request R path body source_client compatibility =
     (if path = ''chat/completions'' then
        (case rd_chat R body of
           Inl err \<Rightarrow> Inl (before_dispatch 400 (''invalid OpenAI chat request: '' @ err))
         | Inr request \<Rightarrow> Inr (PreparedOpenAi request
             (profile_for_openai_request source_client request compatibility)))
      else if path = ''messages'' then
        (let (repaired, rep) = repair_anthropic_request body
         in case rd_anthropic R repaired of
              Inl err \<Rightarrow>
                (let diagnostics = (case report_summary rep of
                       Some s \<Rightarrow> '' ['' @ s @ '']'' | None \<Rightarrow> [])
                 in Inl (before_dispatch 400
                      (''invalid Anthropic messages request: '' @ err @ diagnostics)))
            | Inr request \<Rightarrow> Inr (PreparedAnthropic request
                (profile_for_anthropic_request source_client request compatibility)))
      else Inl (before_dispatch 404 (''unsupported V4 path: '' @ path)))"

section \<open>Probes\<close>

datatype stream_probe_class = NoProbe | MicroProbe | SmallProbe

definition anthropic_request_to_probe_chat_request ::
  "request_decoders \<Rightarrow> json \<Rightarrow> bool \<Rightarrow> chat_request option" where
  "anthropic_request_to_probe_chat_request R body stream =
     (case rd_anthropic R body of
        Inl _ \<Rightarrow> None
      | Inr request \<Rightarrow> Some
          \<lparr>cr_model = ar_model request,
           cr_messages = map (\<lambda>m. plain_message (am_role m) (am_content m)) (ar_messages request),
           cr_stream = Some stream, cr_max_tokens = ar_max_tokens request,
           cr_temperature = ar_temperature request, cr_top_p = None,
           cr_tools = map_option (map (\<lambda>t. \<lparr>ot_tool_type = ''function'',
             ot_function = \<lparr>of_name = td_name t, of_description = Some (td_description t),
                            of_parameters = None\<rparr>\<rparr>)) (ar_tools request),
           cr_tool_choice = ar_tool_choice request\<rparr>)"

definition chat_request_for_probe_classification ::
  "request_decoders \<Rightarrow> string \<Rightarrow> json \<Rightarrow> bool \<Rightarrow> chat_request option" where
  "chat_request_for_probe_classification R path body stream =
     (if path = ''chat/completions'' then (case rd_chat R body of Inr r \<Rightarrow> Some r | Inl _ \<Rightarrow> None)
      else if path = ''messages'' then anthropic_request_to_probe_chat_request R body stream
      else None)"

definition is_stream_micro_probe_request :: "string \<Rightarrow> request_meta \<Rightarrow> bool" where
  "is_stream_micro_probe_request path m \<longleftrightarrow>
     path = ''messages'' \<and> rm_stream m \<and> rm_body_size m \<le> 2048"

definition is_stream_small_probe_request :: "string \<Rightarrow> request_meta \<Rightarrow> bool" where
  "is_stream_small_probe_request path m \<longleftrightarrow>
     path = ''messages'' \<and> rm_stream m \<and> rm_body_size m \<le> 8192"

definition is_mimo_messages_request :: "string \<Rightarrow> request_meta \<Rightarrow> bool" where
  "is_mimo_messages_request path m \<longleftrightarrow>
     path = ''messages'' \<and> (is_mimo_family (rm_model m) \<or> is_mimo_family (rm_upstream_model m))"

definition is_claude_source :: "string \<Rightarrow> bool" where
  "is_claude_source source_client \<longleftrightarrow> normalize_source_client source_client = ''claude-code''"

definition stream_probe_class_of ::
  "serde \<Rightarrow> request_decoders \<Rightarrow> string \<Rightarrow> request_meta \<Rightarrow> json \<Rightarrow> string \<Rightarrow> stream_probe_class" where
  "stream_probe_class_of S R path m body source_client =
     (if \<not> rm_stream m then NoProbe
      else if path \<in> set [''messages'', ''chat/completions'']
          \<and> (case chat_request_for_probe_classification R path body (rm_stream m) of
               Some cr \<Rightarrow> is_claude_code_stream_low_budget_probe S cr (is_claude_source source_client)
             | None \<Rightarrow> False) then MicroProbe
      else if is_stream_micro_probe_request path m then MicroProbe
      else if is_stream_small_probe_request path m then SmallProbe
      else NoProbe)"

definition stream_probe_precheck_timeout :: "stream_probe_class \<Rightarrow> nat" where
  "stream_probe_precheck_timeout c = (if c = MicroProbe then 10 else 30)"

text \<open>Whether an empty answer to a probe is replaced by a local one.\<close>

definition stream_probe_has_local_fallback ::
  "serde \<Rightarrow> request_decoders \<Rightarrow> string \<Rightarrow> json \<Rightarrow> string \<Rightarrow> stream_probe_class \<Rightarrow> bool" where
  "stream_probe_has_local_fallback S R path body source_client c \<longleftrightarrow>
     c \<noteq> NoProbe
     \<and> (case chat_request_for_probe_classification R path body True of
          Some cr \<Rightarrow>
            claude_code_low_budget_empty_fallback_text S cr (is_claude_source source_client) \<noteq> None
            \<or> short_no_tool_empty_fallback_text cr \<noteq> None
        | None \<Rightarrow> True)
     \<and> path \<in> set [''messages'', ''chat/completions'']"

section \<open>How often, how long\<close>

definition effective_empty_upstream_max_retries ::
  "serde \<Rightarrow> request_decoders \<Rightarrow> string \<Rightarrow> request_meta \<Rightarrow> nat \<Rightarrow> json \<Rightarrow> string \<Rightarrow> nat" where
  "effective_empty_upstream_max_retries S R path m configured body source_client =
     (let c = stream_probe_class_of S R path m body source_client;
          mimo = is_mimo_messages_request path m;
          tokens = estimated_input_tokens m
      in if c = MicroProbe then min configured 2
         else if c = SmallProbe then min configured 3
         else if path = ''messages'' \<and> \<not> mimo \<and> 100000 \<le> tokens then min configured 1
         else if path = ''messages'' \<and> \<not> mimo \<and> 50000 \<le> tokens then min configured 2
         else if \<not> mimo then configured
         else if 10000 \<le> tokens then min configured 2
         else min configured 4)"

definition effective_retry_budget_ms ::
  "serde \<Rightarrow> request_decoders \<Rightarrow> string \<Rightarrow> request_meta \<Rightarrow> nat \<Rightarrow> json \<Rightarrow> string \<Rightarrow> nat" where
  "effective_retry_budget_ms S R path m configured body source_client =
     (if configured = 0 then configured
      else
        let c = stream_probe_class_of S R path m body source_client;
            mimo = is_mimo_messages_request path m;
            tokens = estimated_input_tokens m
        in if c = MicroProbe then min configured 15000
           else if c = SmallProbe then min configured 25000
           else if path = ''messages'' \<and> \<not> mimo \<and> 100000 \<le> tokens then min configured 45000
           else if path = ''messages'' \<and> \<not> mimo \<and> 50000 \<le> tokens then min configured 55000
           else if \<not> mimo then configured
           else if 50000 \<le> tokens then min configured 20000
           else if 10000 \<le> tokens then min configured 30000
           else configured)"

text \<open>The sum is a plain addition of \<open>u64\<close>, which wraps in a release build.\<close>

definition retry_chain_latency_ms :: "attempt_telemetry list \<Rightarrow> nat" where
  "retry_chain_latency_ms chain = foldl (\<lambda>n a. wrap_add 64 n (ta_latency_ms a)) 0 chain"

definition remaining_retry_budget_ms :: "nat \<Rightarrow> attempt_telemetry list \<Rightarrow> nat option" where
  "remaining_retry_budget_ms budget chain =
     (if budget = 0 then None else Some (budget - retry_chain_latency_ms chain))"

definition cap_precheck_timeout_secs :: "nat \<Rightarrow> nat \<Rightarrow> attempt_telemetry list \<Rightarrow> nat \<Rightarrow> nat" where
  "cap_precheck_timeout_secs base_timeout budget chain elapsed =
     (case remaining_retry_budget_ms budget chain of
        None \<Rightarrow> base_timeout
      | Some remaining \<Rightarrow> min base_timeout (max ((remaining - elapsed) div 1000) 1))"

definition retry_budget_message :: "nat \<Rightarrow> nat \<Rightarrow> string \<Rightarrow> attempt_telemetry list \<Rightarrow> string" where
  "retry_budget_message elapsed status category chain =
     (let last_error = (if chain \<noteq> [] \<and> ta_error_type (last chain) \<noteq> []
                        then ta_error_type (last chain) else category)
      in ''upstream retry budget exhausted after '' @ show_nat elapsed @ ''ms with status ''
         @ show_nat status @ '' ('' @ category @ ''; last_error='' @ last_error
         @ ''; attempts='' @ show_nat (length chain) @ '')'')"

definition repeated_large_session_empty_attempts :: "attempt_telemetry list \<Rightarrow> request_meta \<Rightarrow> bool" where
  "repeated_large_session_empty_attempts chain m \<longleftrightarrow>
     100000 \<le> estimated_input_tokens m
     \<and> 2 \<le> length (filter (\<lambda>a. ta_error_type a = ''empty_output'' \<or> ta_outcome a = ''empty_output'') chain)"

text \<open>\<open>smart_backoff\<close> in seconds; the jitter, below a quarter, is an argument.\<close>

definition smart_backoff :: "rat \<Rightarrow> nat \<Rightarrow> nat option \<Rightarrow> rat" where
  "smart_backoff jitter attempt status =
     (let server = (case status of Some s \<Rightarrow> 500 \<le> s \<and> s < 600 | None \<Rightarrow> False);
          base = (if status = Some 429 then 1 / 2 else if server then 1 else 1 / 5);
          delay = base * of_nat (2 ^ attempt)
      in if status = Some 429 then delay + jitter
         else if server then min delay 8
         else delay)"

section \<open>Classification\<close>

definition is_upstream_busy :: "nat \<Rightarrow> string \<Rightarrow> bool" where
  "is_upstream_busy status message \<longleftrightarrow>
     status = 503 \<and> (contains_str message ''Service is too busy''
       \<or> contains_str message ''service_unavailable_error'')"

definition is_provider_rate_limited :: "nat \<Rightarrow> string \<Rightarrow> bool" where
  "is_provider_rate_limited status message \<longleftrightarrow>
     status = 429
     \<or> (let lower = to_ascii_lowercase message
        in contains_str lower ''rate limited'' \<or> contains_str lower ''rate_limit''
           \<or> contains_str lower ''rate-limit'' \<or> contains_str lower ''too many requests'')"

definition is_empty_upstream_message :: "string \<Rightarrow> bool" where
  "is_empty_upstream_message message \<longleftrightarrow>
     contains_str message ''no assistant content or tool call''
     \<or> contains_str message ''upstream returned no assistant content''"

definition is_empty_upstream_error :: "app_error \<Rightarrow> bool" where
  "is_empty_upstream_error e \<longleftrightarrow> is_empty_upstream_message (to_ascii_lowercase (ae_message e))"

definition is_provider_invalid_request_error :: "app_error \<Rightarrow> bool" where
  "is_provider_invalid_request_error e \<longleftrightarrow> ae_upstream_error_kind e = Some ProviderInvalidRequest"

definition classify_app_error :: "app_error \<Rightarrow> error_kind \<times> string \<times> string" where
  "classify_app_error e =
     (let message = to_ascii_lowercase (ae_message e)
      in if is_provider_rate_limited (ae_status e) (ae_message e)
           then (Upstream5xx, ''rate_limited'', ''upstream_429'')
         else if is_provider_invalid_request_error e
           then (OtherError, ''upstream_error'', ''provider_invalid_request'')
         else if is_empty_upstream_message message
           then (OtherError, ''empty_output'', ''empty_output'')
         else if ae_status e = 504 \<or> contains_str message ''timeout''
           then (Timeout, ''transport_error'', ''timeout'')
         else if contains_str message ''connection refused'' \<or> contains_str message ''os error 111''
           then (ConnectionRefused, ''transport_error'', ''connection_refused'')
         else if contains_str message ''dns'' then (DnsFailure, ''transport_error'', ''dns_failure'')
         else if contains_str message ''socks'' \<or> contains_str message ''proxy''
           then (SocksHandshake, ''transport_error'', ''socks_handshake'')
         else if contains_str message ''upstream connection error''
           then (OtherError, ''transport_error'', ''network'')
         else (Upstream5xx, ''upstream_error'', ''upstream_error''))"

definition result_kind_for_classified_error :: "error_kind \<Rightarrow> string \<Rightarrow> result_kind" where
  "result_kind_for_classified_error kind error_type =
     (if error_type = ''upstream_429'' then RateLimited
      else if error_type = ''provider_invalid_request'' then Success 400
      else if error_type = ''empty_output'' then EmptyOutput
      else if error_type \<in> set [''timeout'', ''connection_refused'', ''dns_failure'', ''socks_handshake'']
        then ErrorResult kind
      else
        case kind of
          Upstream5xx \<Rightarrow> SoftFailure kind
        | OtherError \<Rightarrow> SoftFailure kind
        | _ \<Rightarrow> ErrorResult kind)"

definition result_kind_for_app_error :: "app_error \<Rightarrow> error_kind \<Rightarrow> string \<Rightarrow> result_kind" where
  "result_kind_for_app_error e kind error_type =
     (if ae_status e \<in> set [502, 504] \<and> error_type = ''upstream_error'' then ErrorResult Upstream5xx
      else result_kind_for_classified_error kind error_type)"

definition result_kind_for_status :: "nat \<Rightarrow> result_kind" where
  "result_kind_for_status status =
     (if status = 429 then RateLimited
      else if status \<in> set [502, 504] then ErrorResult Upstream5xx
      else SoftFailure Upstream5xx)"

definition should_clear_session_pin_for_failure :: "nat \<Rightarrow> string \<Rightarrow> bool" where
  "should_clear_session_pin_for_failure status error_type \<longleftrightarrow>
     (if error_type \<in> set [''upstream_429'', ''provider_invalid_request'', ''upstream_busy'', ''client_gone'']
      then False
      else if error_type \<in> set [''empty_output'', ''timeout'', ''network'', ''connection_refused'',
          ''dns_failure'', ''socks_handshake''] then True
      else status \<in> set [502, 504, 500, 503])"

definition is_transport_error_type :: "string \<Rightarrow> bool" where
  "is_transport_error_type error_type \<longleftrightarrow>
     error_type \<in> set [''timeout'', ''network'', ''connection_refused'', ''dns_failure'', ''socks_handshake'']"

definition is_direct_fallback_status :: "nat \<Rightarrow> bool" where
  "is_direct_fallback_status status \<longleftrightarrow> status \<in> set [502, 504]"

definition max_retries_for_app_error :: "app_error \<Rightarrow> nat \<Rightarrow> nat \<Rightarrow> nat" where
  "max_retries_for_app_error e base_max empty_max =
     (if is_provider_invalid_request_error e \<or> is_provider_rate_limited (ae_status e) (ae_message e)
      then 0
      else if is_empty_upstream_error e then empty_max
      else base_max)"

text \<open>
  The client words an overloaded provider as an unavailable proxy; the proxy takes the word for a
  failed handshake with the node and buries the node.
\<close>

lemma unavailable_provider_buries_node:
  "classify_app_error (app_error_upstream S redact 503 ''service temporarily unavailable'' ra)
     = (SocksHandshake, ''transport_error'', ''socks_handshake'')"
  "result_kind_for_app_error (app_error_upstream S redact 503 ''service temporarily unavailable'' ra)
     SocksHandshake ''socks_handshake'' = ErrorResult SocksHandshake"
proof -
  let ?e = "app_error_upstream S redact 503 ''service temporarily unavailable'' ra"
  have "public_upstream_message S redact 503 ''service temporarily unavailable'' ProviderError
      = ''upstream proxy temporarily unavailable (status=503, code=proxy_unavailable)''"
    unfolding public_upstream_message_def by code_simp
  moreover have "classify_upstream_error 503 ''service temporarily unavailable'' = ProviderError"
    by code_simp
  ultimately have e: "ae_status ?e = 503"
      "ae_message ?e = ''upstream proxy temporarily unavailable (status=503, code=proxy_unavailable)''"
      "ae_upstream_error_kind ?e = Some ProviderError"
    by (simp_all add: app_error_upstream_def Let_def)
  have m: "is_provider_rate_limited 503
        ''upstream proxy temporarily unavailable (status=503, code=proxy_unavailable)'' = False"
      "to_ascii_lowercase ''upstream proxy temporarily unavailable (status=503, code=proxy_unavailable)''
        = ''upstream proxy temporarily unavailable (status=503, code=proxy_unavailable)''"
      "is_empty_upstream_message
        ''upstream proxy temporarily unavailable (status=503, code=proxy_unavailable)'' = False"
      "map (contains_str ''upstream proxy temporarily unavailable (status=503, code=proxy_unavailable)'')
        [''timeout'', ''connection refused'', ''os error 111'', ''dns'', ''proxy'']
        = [False, False, False, False, True]"
    by code_simp+
  show "classify_app_error ?e = (SocksHandshake, ''transport_error'', ''socks_handshake'')"
    using m by (simp add: classify_app_error_def Let_def e is_provider_invalid_request_error_def)
  show "result_kind_for_app_error ?e SocksHandshake ''socks_handshake'' = ErrorResult SocksHandshake"
    by (simp add: result_kind_for_app_error_def result_kind_for_classified_error_def)
qed

end
