(* ===== verification/StreamMetering.thy ===== *)
theory StreamMetering
  imports UsageWire CallPolicy PoolManager
begin

text \<open>
  The stream of an answer as the proxy forwards it (\<open>v4/provider.rs\<close>): the metrics it gathers from
  the events, the check that a stream has output before it is accepted, and the task that meters a
  stream, rewrites it and reports the node's result once.  The chunks a body yields, the instants at
  which the code looks at its clock and the fate of every send are arguments.
\<close>

section \<open>Lossy decoding\<close>

text \<open>
  \<open>String::from_utf8_lossy\<close>: a maximal prefix of a character that cannot go on is one replacement
  character.  The step gives the number of bytes and whether they are a character.
\<close>

definition byte_in :: "char list \<Rightarrow> nat \<Rightarrow> nat \<Rightarrow> nat \<Rightarrow> bool" where
  "byte_in s i lo hi \<longleftrightarrow> i < length s \<and> lo \<le> byte_of (s ! i) \<and> byte_of (s ! i) \<le> hi"

definition lossy_step :: "string \<Rightarrow> nat \<times> bool" where
  "lossy_step s =
     (let n = byte_of (hd s); cont = (\<lambda>i. byte_in s i 0x80 0xBF)
      in if n < 0x80 then (1, True)
         else if 0xC2 \<le> n \<and> n \<le> 0xDF then (if cont 1 then (2, True) else (1, False))
         else if 0xE0 \<le> n \<and> n \<le> 0xEF then
           (let lo = (if n = 0xE0 then 0xA0 else 0x80); hi = (if n = 0xED then 0x9F else 0xBF)
            in if \<not> byte_in s 1 lo hi then (1, False)
               else if \<not> cont 2 then (2, False) else (3, True))
         else if 0xF0 \<le> n \<and> n \<le> 0xF4 then
           (let lo = (if n = 0xF0 then 0x90 else 0x80); hi = (if n = 0xF4 then 0x8F else 0xBF)
            in if \<not> byte_in s 1 lo hi then (1, False)
               else if \<not> cont 2 then (2, False)
               else if \<not> cont 3 then (3, False) else (4, True))
         else (1, False))"

lemma lossy_step_pos: "0 < fst (lossy_step s)"
  by (simp add: lossy_step_def Let_def)

function from_utf8_lossy :: "string \<Rightarrow> string" where
  "from_utf8_lossy s =
     (if s = [] then []
      else
        let (n, ok) = lossy_step s
        in (if ok then take n s else utf8 [0xFFFD]) @ from_utf8_lossy (drop n s))"
  by pat_completeness auto
termination
proof (relation "measure length", simp)
  fix s :: string and x n ok
  assume "s \<noteq> []" and "x = lossy_step s" and "(n, ok) = x"
  with lossy_step_pos [of s] have "0 < n" by (metis fst_conv)
  with \<open>s \<noteq> []\<close> show "(drop n s, s) \<in> measure length" by (cases s) auto
qed

declare from_utf8_lossy.simps [simp del]

section \<open>Metrics\<close>

record stream_metrics =
  sm_bytes_received :: nat
  sm_usage :: usage_counts
  sm_fallback_usage :: usage_counts
  sm_completion_text :: string
  sm_tool_output_chunks :: nat
  sm_text_output_chunks :: nat
  sm_thinking_output_chunks :: nat
  sm_rate_limited_error_chunks :: nat
  sm_reasoning_chars :: nat
  sm_text_chars :: nat
  sm_dsml_leak_detected :: bool
  sm_finish_reason :: "string option"
  sm_buffer :: string

definition metrics_new :: "usage_counts \<Rightarrow> stream_metrics" where
  "metrics_new fallback =
     \<lparr>sm_bytes_received = 0, sm_usage = usage_default, sm_fallback_usage = fallback,
      sm_completion_text = [], sm_tool_output_chunks = 0, sm_text_output_chunks = 0,
      sm_thinking_output_chunks = 0, sm_rate_limited_error_chunks = 0, sm_reasoning_chars = 0,
      sm_text_chars = 0, sm_dsml_leak_detected = False, sm_finish_reason = None, sm_buffer = []\<rparr>"

text \<open>\<open>|\<close> and its full-width form U+FF5C.\<close>

definition FULL_BAR :: string where
  "FULL_BAR = utf8 [0xFF5C]"

definition dsml_leak_markers :: "string list" where
  "dsml_leak_markers =
     [''DSML|tool_calls'', ''DSML'' @ FULL_BAR @ ''tool_calls'', FULL_BAR @ ''DSML'' @ FULL_BAR,
      ''|DSML|'', ''<'' @ FULL_BAR @ ''DSML'' @ FULL_BAR, ''<|DSML|'', ''invoke name='',
      ''</'' @ FULL_BAR @ ''DSML'' @ FULL_BAR, ''</|DSML|'']"

definition sse_text_contains_dsml_tool_leak :: "string \<Rightarrow> bool" where
  "sse_text_contains_dsml_tool_leak t = list_ex (contains_str t) dsml_leak_markers"

definition value_has_rate_limit_error :: "json \<Rightarrow> bool" where
  "value_has_rate_limit_error v =
     (case json_get ''error'' v of
        None \<Rightarrow> False
      | Some err \<Rightarrow>
          (let haystack = concat (map (\<lambda>k. case get_str k err of Some t \<Rightarrow> t @ [NL] | None \<Rightarrow> [])
                            [''type'', ''code'', ''message'']);
               lower = to_ascii_lowercase haystack
           in list_ex (contains_str lower)
                [''rate_limit'', ''rate limit'', ''rate-limited'', ''rate limited'', ''429'']))"

abbreviation inc64 :: "nat \<Rightarrow> nat" where
  "inc64 n \<equiv> sat_add 64 n 1"

definition ingest_text :: "string \<Rightarrow> stream_metrics \<Rightarrow> stream_metrics" where
  "ingest_text t m =
     m\<lparr>sm_text_chars := sat_add 64 (sm_text_chars m) (length t),
       sm_dsml_leak_detected := (sm_dsml_leak_detected m \<or> sse_text_contains_dsml_tool_leak t),
       sm_completion_text := sm_completion_text m @ t,
       sm_text_output_chunks :=
         (if trim t \<noteq> [] then inc64 (sm_text_output_chunks m) else sm_text_output_chunks m)\<rparr>"

definition ingest_tool_chunk :: "stream_metrics \<Rightarrow> stream_metrics" where
  "ingest_tool_chunk m = m\<lparr>sm_tool_output_chunks := inc64 (sm_tool_output_chunks m)\<rparr>"

definition ingest_thinking :: "string \<Rightarrow> stream_metrics \<Rightarrow> stream_metrics" where
  "ingest_thinking t m =
     (if trim t = [] then m
      else m\<lparr>sm_reasoning_chars := sat_add 64 (sm_reasoning_chars m) (length (trim t)),
             sm_thinking_output_chunks := inc64 (sm_thinking_output_chunks m)\<rparr>)"

definition ingest_anthropic_delta :: "json \<Rightarrow> stream_metrics \<Rightarrow> stream_metrics" where
  "ingest_anthropic_delta delta m =
     (let m = (case get_str ''thinking'' delta of Some t \<Rightarrow> ingest_thinking t m | None \<Rightarrow> m);
          m = (case get_str ''text'' delta of Some t \<Rightarrow> ingest_text t m | None \<Rightarrow> m)
      in case get_str ''partial_json'' delta of
           Some j \<Rightarrow> if trim j \<noteq> [] then ingest_tool_chunk m else m
         | None \<Rightarrow> m)"

definition ingest_anthropic_event :: "json \<Rightarrow> stream_metrics \<Rightarrow> stream_metrics" where
  "ingest_anthropic_event v m =
     (let kind = get_str ''type'' v
      in if kind = Some ''content_block_start''
           \<and> Option.bind (json_get ''content_block'' v) (get_str ''type'') = Some ''tool_use''
           then ingest_tool_chunk m
         else if kind = Some ''content_block_delta'' then
           (case json_get ''delta'' v of Some d \<Rightarrow> ingest_anthropic_delta d m | None \<Rightarrow> m)
         else if kind = Some ''message_delta'' then
           (case Option.bind (json_get ''delta'' v) (get_str ''stop_reason'') of
              Some r \<Rightarrow> m\<lparr>sm_finish_reason := Some r\<rparr> | None \<Rightarrow> m)
         else if kind = Some ''error'' then m\<lparr>sm_usage := (sm_usage m)\<lparr>uc_completion_tokens := 0\<rparr>\<rparr>
         else m)"

text \<open>The cache counters only grow; the first argument tells whether \<open>cached_tokens\<close> are read.\<close>

definition ingest_cache_counters :: "bool \<Rightarrow> json \<Rightarrow> usage_counts \<Rightarrow> usage_counts" where
  "ingest_cache_counters with_cached usage u =
     (let u = (case if with_cached then usage_cached_tokens_u32 usage else None of
                 Some c \<Rightarrow> u\<lparr>uc_cached_tokens := max (uc_cached_tokens u) c\<rparr> | None \<Rightarrow> u);
          u = (case usage_u32_opt usage ''cache_creation_input_tokens'' of
                 Some c \<Rightarrow> u\<lparr>uc_cache_creation_input_tokens :=
                             max (uc_cache_creation_input_tokens u) c\<rparr>
               | None \<Rightarrow> u);
          u = (case usage_cache_read_u32 usage of
                 Some c \<Rightarrow> u\<lparr>uc_cache_read_input_tokens := max (uc_cache_read_input_tokens u) c,
                             uc_cached_tokens := max (uc_cached_tokens u) c\<rparr>
               | None \<Rightarrow> u)
      in case usage_cache_miss_u32 usage of
           Some c \<Rightarrow> u\<lparr>uc_cache_miss_input_tokens :=
                       max_optional_u32 (uc_cache_miss_input_tokens u) c\<rparr>
         | None \<Rightarrow> u)"

definition ingest_anthropic_usage :: "json \<Rightarrow> usage_counts \<Rightarrow> usage_counts" where
  "ingest_anthropic_usage usage u =
     (let u = (case usage_u32_opt usage ''input_tokens'' of
                 Some n \<Rightarrow> u\<lparr>uc_prompt_tokens := n\<rparr> | None \<Rightarrow> u);
          u = (case usage_u32_opt usage ''output_tokens'' of
                 Some n \<Rightarrow> if 0 < n then u\<lparr>uc_completion_tokens := n\<rparr> else u | None \<Rightarrow> u);
          u = u\<lparr>uc_total_tokens := sat_add 32 (uc_prompt_tokens u) (uc_completion_tokens u)\<rparr>
      in ingest_cache_counters False usage u)"

definition ingest_openai_usage :: "json \<Rightarrow> usage_counts \<Rightarrow> usage_counts" where
  "ingest_openai_usage usage u =
     (let positive = (\<lambda>k. case usage_u32_opt usage k of
                            Some n \<Rightarrow> if 0 < n then Some n else None | None \<Rightarrow> None);
          u = (case positive ''prompt_tokens'' of Some n \<Rightarrow> u\<lparr>uc_prompt_tokens := n\<rparr> | None \<Rightarrow> u);
          u = (case positive ''completion_tokens'' of
                 Some n \<Rightarrow> u\<lparr>uc_completion_tokens := n\<rparr> | None \<Rightarrow> u);
          u = u\<lparr>uc_total_tokens :=
                 (case positive ''total_tokens'' of
                    Some n \<Rightarrow> n
                  | None \<Rightarrow> sat_add 32 (uc_prompt_tokens u) (uc_completion_tokens u))\<rparr>
      in ingest_cache_counters True usage u)"

definition first_choice :: "json \<Rightarrow> json option" where
  "first_choice v =
     (case Option.bind (json_get ''choices'' v) as_array of Some (c # _) \<Rightarrow> Some c | _ \<Rightarrow> None)"

definition ingest_openai_event :: "json \<Rightarrow> stream_metrics \<Rightarrow> stream_metrics" where
  "ingest_openai_event v m =
     (let choice = first_choice v;
          delta = Option.bind choice (json_get ''delta'');
          m = (case Option.bind delta (get_str ''content'') of
                 Some t \<Rightarrow> ingest_text t m | None \<Rightarrow> m);
          m = (case Option.bind delta (get_str ''reasoning_content'') of
                 Some t \<Rightarrow> if trim t = [] then m
                           else m\<lparr>sm_reasoning_chars :=
                                   sat_add 64 (sm_reasoning_chars m) (length (trim t))\<rparr>
               | None \<Rightarrow> m);
          m = (case Option.bind choice (get_str ''finish_reason'') of
                 Some r \<Rightarrow> m\<lparr>sm_finish_reason := Some r\<rparr> | None \<Rightarrow> m)
      in case Option.bind (Option.bind delta (json_get ''tool_calls'')) as_array of
           Some (_ # _) \<Rightarrow> ingest_tool_chunk m
         | _ \<Rightarrow> m)"

definition ingest_usage_value :: "string \<Rightarrow> json \<Rightarrow> stream_metrics \<Rightarrow> stream_metrics" where
  "ingest_usage_value path v m =
     (let m = (if value_has_rate_limit_error v
               then m\<lparr>sm_rate_limited_error_chunks := inc64 (sm_rate_limited_error_chunks m)\<rparr>
               else m)
      in if path = ''messages'' then
           (let m = ingest_anthropic_event v m
            in case or_else (Option.bind (json_get ''message'' v) (json_get ''usage''))
                      (json_get ''usage'' v) of
                 Some usage \<Rightarrow> m\<lparr>sm_usage := ingest_anthropic_usage usage (sm_usage m)\<rparr>
               | None \<Rightarrow> m)
         else
           (let m = ingest_openai_event v m
            in case json_get ''usage'' v of
                 Some usage \<Rightarrow> m\<lparr>sm_usage := ingest_openai_usage usage (sm_usage m)\<rparr>
               | None \<Rightarrow> m))"

definition ingest_sse_frame ::
  "serde \<Rightarrow> string \<Rightarrow> string \<Rightarrow> stream_metrics \<Rightarrow> stream_metrics" where
  "ingest_sse_frame S path frame m =
     foldl (\<lambda>m line.
       case strip_prefix (trim_start line) ''data:'' of
         None \<Rightarrow> m
       | Some data \<Rightarrow>
           (let data = trim data
            in if data = [] \<or> data = ''[DONE]'' then m
               else case from_slice S data of
                      None \<Rightarrow> m | Some v \<Rightarrow> ingest_usage_value path v m))
       m (str_lines frame)"

text \<open>The frames that end in the buffer; what is left stays there.\<close>

function drain_metric_frames ::
  "serde \<Rightarrow> string \<Rightarrow> string \<Rightarrow> stream_metrics \<Rightarrow> stream_metrics" where
  "drain_metric_frames S path buffer m =
     (case str_find buffer [NL, NL] of
        None \<Rightarrow> m\<lparr>sm_buffer := buffer\<rparr>
      | Some i \<Rightarrow>
          drain_metric_frames S path (drop (i + 2) buffer) (ingest_sse_frame S path (take i buffer) m))"
  by pat_completeness auto
termination
proof (relation "measure (\<lambda>(S, path, buffer, m). length buffer)", simp)
  fix S path buffer m i
  assume "str_find buffer [NL, NL] = Some i"
  then show "((S, path, drop (i + 2) buffer, ingest_sse_frame S path (take i buffer) m),
      S, path, buffer, m) \<in> measure (\<lambda>(S, path, buffer, m). length buffer)"
    by (cases buffer) auto
qed

declare drain_metric_frames.simps [simp del]

definition ingest :: "serde \<Rightarrow> string \<Rightarrow> string \<Rightarrow> stream_metrics \<Rightarrow> stream_metrics" where
  "ingest S path bytes m =
     (let m = m\<lparr>sm_bytes_received := sat_add 64 (sm_bytes_received m) (length bytes)\<rparr>
      in drain_metric_frames S path (sm_buffer m @ from_utf8_lossy bytes) m)"

definition final_usage :: "stream_metrics \<Rightarrow> usage_counts" where
  "final_usage m =
     (let u = sm_usage m; f = sm_fallback_usage m;
          prompt = max (uc_prompt_tokens u) (uc_prompt_tokens f);
          completion = max (uc_completion_tokens u)
            (max (max (uc_completion_tokens f) (estimate_text_tokens_u32 (sm_completion_text m)))
                 (if 0 < sm_tool_output_chunks m then 1 else 0))
      in \<lparr>uc_prompt_tokens = prompt, uc_completion_tokens = completion,
          uc_total_tokens = max (uc_total_tokens u) (sat_add 32 prompt completion),
          uc_cached_tokens = max (uc_cached_tokens u) (uc_cached_tokens f),
          uc_cache_creation_input_tokens =
            max (uc_cache_creation_input_tokens u) (uc_cache_creation_input_tokens f),
          uc_cache_read_input_tokens =
            max (uc_cache_read_input_tokens u) (uc_cache_read_input_tokens f),
          uc_cache_miss_input_tokens =
            max_optional_usage (uc_cache_miss_input_tokens u) (uc_cache_miss_input_tokens f)\<rparr>)"

definition has_content_signal :: "stream_metrics \<Rightarrow> bool" where
  "has_content_signal m \<longleftrightarrow>
     trim (sm_completion_text m) \<noteq> [] \<or> 0 < sm_text_output_chunks m
     \<or> 0 < sm_thinking_output_chunks m"

definition has_tool_signal :: "stream_metrics \<Rightarrow> bool" where
  "has_tool_signal m \<longleftrightarrow> 0 < sm_tool_output_chunks m"

definition has_rate_limited_error :: "stream_metrics \<Rightarrow> bool" where
  "has_rate_limited_error m \<longleftrightarrow> 0 < sm_rate_limited_error_chunks m"

definition has_assistant_output :: "stream_metrics \<Rightarrow> bool" where
  "has_assistant_output m \<longleftrightarrow>
     trim (sm_completion_text m) \<noteq> [] \<or> 0 < sm_text_output_chunks m
     \<or> 0 < sm_tool_output_chunks m \<or> 0 < sm_thinking_output_chunks m"

definition raw_tool_format :: "stream_metrics \<Rightarrow> string" where
  "raw_tool_format m =
     (if 0 < sm_tool_output_chunks m then ''anthropic''
      else if sm_dsml_leak_detected m then ''dsml'' else [])"

section \<open>Error frames and classes\<close>

abbreviation QUOTE :: char where "QUOTE \<equiv> CHR 0x22"

definition stream_error_frame :: "serde \<Rightarrow> string \<Rightarrow> string \<Rightarrow> string" where
  "stream_error_frame S path message =
     (let escaped = to_string S (JString message)
      in if path = ''messages'' then
           ''event: error'' @ [NL] @ ''data: {'' @ [QUOTE] @ ''type'' @ [QUOTE] @ '':'' @ [QUOTE]
             @ ''error'' @ [QUOTE] @ '','' @ [QUOTE] @ ''error'' @ [QUOTE] @ '':{'' @ [QUOTE] @ ''type''
             @ [QUOTE] @ '':'' @ [QUOTE] @ ''api_error'' @ [QUOTE] @ '','' @ [QUOTE] @ ''message''
             @ [QUOTE] @ '':'' @ escaped @ ''}}'' @ [NL, NL]
         else
           ''data: {'' @ [QUOTE] @ ''error'' @ [QUOTE] @ '':{'' @ [QUOTE] @ ''message'' @ [QUOTE] @ '':''
             @ escaped @ ''}}'' @ [NL, NL] @ ''data: [DONE]'' @ [NL, NL])"

definition classify_stream_error_message :: "string \<Rightarrow> string" where
  "classify_stream_error_message message =
     (let lower = to_ascii_lowercase message; has = contains_str lower
      in if has ''rate limit'' \<or> has ''rate_limit'' \<or> has ''429'' then ''upstream_429''
         else if has ''decode'' \<or> has ''decoding'' then ''stream_decode_error''
         else if has ''timeout'' \<or> has ''elapsed'' then ''stream_timeout''
         else if has ''connection'' \<or> has ''closed'' \<or> has ''reset'' then ''stream_connection_error''
         else ''stream_error'')"

definition classify_empty_output_class :: "bool \<Rightarrow> nat \<Rightarrow> string option \<Rightarrow> nat \<Rightarrow> string" where
  "classify_empty_output_class has_output reasoning finish completion =
     (if has_output then []
      else if 0 < reasoning then
        (if finish = Some ''length'' then ''reasoning_only_length'' else ''reasoning_only'')
      else if 0 < completion then ''reasoning_only''
      else ''empty'')"

section \<open>The check before a stream is accepted\<close>

text \<open>What a body yields.\<close>

datatype body_item = BodyChunk string | BodyError string

text \<open>
  The items that come before the timer fires; a body that ends and a timer that fires look the
  same.  The result is the buffered chunks and the items not yet read, or nothing.
\<close>

fun precheck_peek ::
  "serde \<Rightarrow> string \<Rightarrow> body_item list \<Rightarrow> stream_metrics \<Rightarrow> string list
     \<Rightarrow> (string list \<times> body_item list) option" where
  "precheck_peek S path [] m buffered =
     (if has_rate_limited_error m then Some (buffered, []) else None)"
| "precheck_peek S path (BodyError e # rest) m buffered = Some (buffered, rest)"
| "precheck_peek S path (BodyChunk b # rest) m buffered =
     (let m = ingest S path b m; buffered = buffered @ [b]
      in if has_content_signal m \<or> has_tool_signal m \<or> has_rate_limited_error m
         then Some (buffered, rest)
         else precheck_peek S path rest m buffered)"

text \<open>The task that forwards what follows; an error becomes a frame and ends the stream.\<close>

fun forward_rest :: "serde \<Rightarrow> string \<Rightarrow> body_item list \<Rightarrow> string list" where
  "forward_rest S path [] = []"
| "forward_rest S path (BodyChunk b # rest) = b # forward_rest S path rest"
| "forward_rest S path (BodyError e # rest) =
     [stream_error_frame S path (''upstream stream error: '' @ e)]"

definition precheck_stream_first_output ::
  "serde \<Rightarrow> string \<Rightarrow> body_item list \<Rightarrow> body_item list \<Rightarrow> string list option" where
  "precheck_stream_first_output S path before after =
     (case precheck_peek S path before (metrics_new usage_default) [] of
        None \<Rightarrow> None
      | Some (buffered, rest) \<Rightarrow> Some (buffered @ forward_rest S path (rest @ after)))"

end
