(* ===== verification/Telemetry.thy ===== *)
theory Telemetry
  imports CallPolicy ContextGovernor ProtocolGuard
begin

text \<open>
  The records of \<open>collector/mod.rs\<close> that the provider adapters fill in for a request.
\<close>

record request_timings =
  tm_dispatch_wait_ms :: nat
  tm_upstream_response_ms :: nat
  tm_first_chunk_ms :: nat
  tm_protocol_first_byte_ms :: nat
  tm_first_content_token_ms :: nat
  tm_first_tool_call_ms :: nat
  tm_stream_complete_ms :: nat
  tm_total_ms :: nat

definition timings_default :: request_timings where
  "timings_default =
     \<lparr>tm_dispatch_wait_ms = 0, tm_upstream_response_ms = 0, tm_first_chunk_ms = 0,
      tm_protocol_first_byte_ms = 0, tm_first_content_token_ms = 0, tm_first_tool_call_ms = 0,
      tm_stream_complete_ms = 0, tm_total_ms = 0\<rparr>"

record cache_forensics =
  cf_ccp_hash_algorithm :: string
  cf_raw_body_hash_algorithm :: string
  cf_raw_body_stage :: string
  cf_ccp_prompt_hash :: string
  cf_ccp_prefix_4k_hash :: string
  cf_ccp_prefix_32k_hash :: string
  cf_ccp_prefix_128k_hash :: string
  cf_ccp_prefix_256k_hash :: string
  cf_ccp_cache_material_bytes :: nat
  cf_raw_body_prefix_4k_hash :: string
  cf_raw_body_prefix_32k_hash :: string
  cf_raw_body_prefix_128k_hash :: string
  cf_raw_body_prefix_256k_hash :: string
  cf_raw_body_bytes :: nat
  cf_estimated_total_tokens :: nat
  cf_message_count :: nat
  cf_tool_count :: nat
  cf_tools_hash :: string
  cf_roles_hash :: string
  cf_tool_result_bytes :: nat
  cf_tool_result_count :: nat
  cf_ccp_raw_prefix_match_32k :: bool
  cf_final_provider_body_bytes :: nat
  cf_final_provider_body_prefix_32k_hash :: string
  cf_final_provider_cache_control_locations :: string
  cf_final_provider_cache_control_block_hashes :: string
  cf_final_provider_cache_policy_match :: bool
  cf_final_provider_cache_segment_hash :: string
  cf_static_cache_material_bytes :: nat
  cf_dynamic_cache_material_bytes :: nat
  cf_raw_cacheable_segment_hash :: string
  cf_fork_key :: string
  cf_fork_reason :: string

record request_telemetry =
  rt_rid :: string
  rt_ts :: int
  rt_external_request_id :: string
  rt_gateway :: string
  rt_gateway_channel_id :: string
  rt_run_id :: string
  rt_source_platform :: string
  rt_case_id :: string
  rt_runner_model :: string
  rt_provider_id :: string
  rt_turn_index :: nat
  rt_model :: string
  rt_public_model :: string
  rt_upstream_model :: string
  rt_protocol :: string
  rt_client_id :: string
  rt_path :: string
  rt_method :: string
  rt_is_streaming :: bool
  rt_node_url :: string
  rt_selected_node_id :: string
  rt_selected_node_url_redacted :: string
  rt_observed_exit_ip :: string
  rt_outcome :: string
  rt_pool :: string
  rt_exit_ip :: string
  rt_status :: nat
  rt_rate_limited :: bool
  rt_retry_count :: nat
  rt_latency_total_ms :: nat
  rt_upstream_ms :: nat
  rt_ttft_ms :: nat
  rt_timings :: request_timings
  rt_affinity_key :: string
  rt_affinity_hit :: bool
  rt_affinity_node_id :: string
  rt_body_size_bucket :: string
  rt_protocol_guard :: "protocol_guard_telemetry option"
  rt_prompt_tokens :: nat
  rt_completion_tokens :: nat
  rt_total_tokens :: nat
  rt_cached_tokens :: nat
  rt_cache_creation_input_tokens :: nat
  rt_cache_read_input_tokens :: nat
  rt_cache_miss_input_tokens :: nat
  rt_session_id :: string
  rt_usk :: string
  rt_icp_scope :: string
  rt_prefix_32k_hash :: string
  rt_cache_forensics :: "cache_forensics option"
  rt_prefix_drift :: bool
  rt_session_pin_hit :: bool
  rt_thinking_policy :: string
  rt_prompt_cache_key :: string
  rt_provider_cache_observation :: string
  rt_warmup_state :: string
  rt_bytes_sent :: nat
  rt_bytes_received :: nat
  rt_failure_kind :: string
  rt_failure_message :: string
  rt_empty_output_class :: string
  rt_raw_tool_format :: string
  rt_text_chars :: nat
  rt_reasoning_chars :: nat
  rt_retry_chain :: "attempt_telemetry list"
  rt_context :: "context_telemetry option"

end
