(* ===== verification/RequestIdentity.thy ===== *)
theory RequestIdentity
  imports Telemetry UsageWire CacheIdentity ChatTranslate
begin

text \<open>
  Who a request comes from and what it shares with earlier ones (\<open>v4/provider.rs\<close>): its headers,
  the client it is taken to come from, the key of its affinity to a node, the identity of its prompt
  cache, and the watch on prefixes and warm caches.  The process-wide maps behind the watch are
  arguments; a map that a panic has poisoned is not modelled.  A header map is a list of names in
  lower case with their values.
\<close>

section \<open>Headers\<close>

type_synonym headers = "(string \<times> string) list"

definition visible_ascii :: "string \<Rightarrow> bool" where
  "visible_ascii s \<longleftrightarrow> list_all (\<lambda>c. (32 \<le> byte_of c \<and> byte_of c < 127) \<or> byte_of c = 9) s"

definition extract_header :: "headers \<Rightarrow> string \<Rightarrow> string option" where
  "extract_header hs name =
     (case map_of hs name of
        None \<Rightarrow> None
      | Some v \<Rightarrow> if visible_ascii v \<and> trim v \<noteq> [] then Some (trim v) else None)"

definition extract_first_header :: "headers \<Rightarrow> string list \<Rightarrow> string" where
  "extract_first_header hs names =
     (case List.map_filter (extract_header hs) names of v # _ \<Rightarrow> v | [] \<Rightarrow> [])"

definition extract_external_request_id :: "headers \<Rightarrow> string" where
  "extract_external_request_id hs =
     extract_first_header hs
       [''x-newapi-request-id'', ''x-one-api-request-id'', ''x-request-id'', ''x-client-request-id'',
        ''cf-ray'']"

record run_tags =
  rg_run_id :: string
  rg_source_platform :: string
  rg_case_id :: string
  rg_runner_model :: string
  rg_provider_id :: string
  rg_turn_index :: nat

definition parse_u32_or_zero :: "string \<Rightarrow> nat" where
  "parse_u32_or_zero s =
     (case parse_u64 s of Some n \<Rightarrow> if n < 2 ^ 32 then n else 0 | None \<Rightarrow> 0)"

definition extract_run_tags :: "headers \<Rightarrow> run_tags" where
  "extract_run_tags hs =
     \<lparr>rg_run_id = extract_first_header hs [''x-zfs-run-id'', ''x-zen-run-id'', ''x-run-id''],
      rg_source_platform =
        extract_first_header hs [''x-zfs-platform'', ''x-source-platform'', ''x-run-platform''],
      rg_case_id = extract_first_header hs [''x-zfs-case'', ''x-case-id''],
      rg_runner_model =
        extract_first_header hs [''x-zfs-model'', ''x-runner-model'', ''x-claude-model''],
      rg_provider_id = extract_first_header hs [''x-zfs-provider-id'', ''x-provider-id''],
      rg_turn_index =
        parse_u32_or_zero (extract_first_header hs [''x-zfs-turn-index'', ''x-turn-index''])\<rparr>"

definition infer_gateway :: "headers \<Rightarrow> string \<Rightarrow> string" where
  "infer_gateway hs external_id =
     (case extract_header hs ''x-gateway'' of
        Some g \<Rightarrow> g
      | None \<Rightarrow>
          if map_of hs ''x-newapi-request-id'' \<noteq> None \<or> map_of hs ''x-one-api-request-id'' \<noteq> None
          then ''newapi''
          else if external_id \<noteq> [] then ''external'' else [])"

definition infer_thinking_policy :: "json \<Rightarrow> string" where
  "infer_thinking_policy body =
     (if json_get ''thinking'' body \<noteq> None
        \<or> Option.bind (json_get ''metadata'' body) (json_get ''thinking'') \<noteq> None
      then ''enabled'' else ''production_default'')"

section \<open>The client a request comes from\<close>

definition contains_strong_openclaw_marker :: "string \<Rightarrow> bool" where
  "contains_strong_openclaw_marker lower \<longleftrightarrow>
     list_ex (contains_str lower)
       [''running inside openclaw'', ''openclaw cli'', ''openclaw agent'', ''openclaw_config'',
        ''openclaw-config'']"

definition contains_strong_hermes_marker :: "string \<Rightarrow> bool" where
  "contains_strong_hermes_marker lower \<longleftrightarrow>
     list_ex (contains_str lower)
       [''running inside hermes'', ''hermes cli'', ''hermes agent'', ''hermes_config'',
        ''hermes-config'']"

definition marker_matches :: "string \<Rightarrow> string \<Rightarrow> bool" where
  "marker_matches marker t \<longleftrightarrow>
     (let lower = to_ascii_lowercase t
      in if marker = ''openclaw'' then contains_strong_openclaw_marker lower
         else if marker = ''hermes'' then contains_strong_hermes_marker lower
         else False)"

text \<open>The scan of a body; the head of the stack is its top, the bounds give up on the whole body.\<close>

function scan_markers :: "string \<Rightarrow> nat \<Rightarrow> (json \<times> nat) list \<Rightarrow> bool" where
  "scan_markers marker seen stack =
     (case stack of
        [] \<Rightarrow> False
      | (current, depth) # rest \<Rightarrow>
          if 20000 < Suc seen \<or> 128 < depth then False
          else
            case current of
              JString t \<Rightarrow> marker_matches marker t \<or> scan_markers marker (Suc seen) rest
            | JArray items \<Rightarrow>
                scan_markers marker (Suc seen) (map (\<lambda>i. (i, depth + 1)) (rev items) @ rest)
            | JObject m \<Rightarrow>
                scan_markers marker (Suc seen) (map (\<lambda>kv. (snd kv, depth + 1)) (rev m) @ rest)
            | _ \<Rightarrow> scan_markers marker (Suc seen) rest)"
  by pat_completeness auto
termination
  by (relation "measure (\<lambda>(marker, seen, stack). 20000 - seen)") auto

declare scan_markers.simps [simp del]

definition body_contains_strong_client_marker :: "json \<Rightarrow> string \<Rightarrow> bool" where
  "body_contains_strong_client_marker v marker = scan_markers marker 0 [(v, 0)]"

definition tool_name_from_value :: "json \<Rightarrow> string option" where
  "tool_name_from_value tool =
     or_else (Option.bind (json_get ''function'' tool) (get_str ''name'')) (get_str ''name'' tool)"

definition normalize_client_tool_name :: "string \<Rightarrow> string" where
  "normalize_client_tool_name v = to_ascii_lowercase (filter is_ascii_alphanumeric v)"

definition is_openclaw_strong_tool_name :: "string \<Rightarrow> bool" where
  "is_openclaw_strong_tool_name name \<longleftrightarrow>
     name \<in> set [''subagents'', ''sessionsspawn'', ''sessionssend'', ''sessionsyield'',
                 ''sessionstatus'', ''sessionsstatus'', ''sessionshistory'', ''sessionslist'',
                 ''memoryget'', ''memorysearch'']
     \<or> contains_str name ''openclaw''"

definition infer_source_client_from_body :: "json \<Rightarrow> string option" where
  "infer_source_client_from_body body =
     (if body_contains_strong_client_marker body ''openclaw'' then Some ''openclaw''
      else if body_contains_strong_client_marker body ''hermes'' then Some ''hermes''
      else
        let tools = (case Option.bind (json_get ''tools'' body) as_array of Some ts \<Rightarrow> ts | None \<Rightarrow> []);
            names = map normalize_client_tool_name (List.map_filter tool_name_from_value tools)
        in if list_ex is_openclaw_strong_tool_name names then Some ''openclaw''
           else if list_ex (\<lambda>n. contains_str n ''hermes'') names then Some ''hermes''
           else if list_ex (\<lambda>n. n \<in> set [''task'', ''bash'', ''read'', ''edit'', ''multiedit'', ''write'',
                     ''todowrite'', ''grep'', ''glob'', ''ls'']) names then Some ''claude-code''
           else None)"

definition infer_source_client :: "string \<Rightarrow> headers \<Rightarrow> json \<Rightarrow> string" where
  "infer_source_client path hs body =
     (case or_else (extract_header hs ''x-fmc-client'')
             (or_else (extract_header hs ''x-zen-source-client'') (extract_header hs ''x-client-name'')) of
        Some v \<Rightarrow> normalize_source_client v
      | None \<Rightarrow>
          (case infer_source_client_from_body body of
             Some v \<Rightarrow> v
           | None \<Rightarrow>
               (let sdk = (case extract_header hs ''x-stainless-package-version'' of
                             Some v \<Rightarrow> normalize_source_client v | None \<Rightarrow> ''unknown'');
                    agent = normalize_source_client (unwrap_or [] (extract_header hs ''user-agent''))
                in if sdk \<noteq> ''unknown'' then sdk
                   else if agent \<noteq> ''unknown'' then agent
                   else if path = ''messages'' then ''claude-code''
                   else ''unknown'')))"

section \<open>Identity of the prompt cache\<close>

definition short_hash :: "crypto \<Rightarrow> string \<Rightarrow> string" where
  "short_hash C input = hex_encode C (take 8 (sha256 C input))"

definition cache_identity_chat_request ::
  "serde \<Rightarrow> (string \<Rightarrow> string) \<Rightarrow> request_decoders \<Rightarrow> string \<Rightarrow> json \<Rightarrow> chat_request option" where
  "cache_identity_chat_request S redact R path body =
     (if path = ''chat/completions'' then
        (case rd_chat R body of Inr r \<Rightarrow> Some r | Inl _ \<Rightarrow> None)
      else if path = ''messages'' then
        (case rd_anthropic R body of
           Inl _ \<Rightarrow> None
         | Inr r \<Rightarrow> Some
             \<lparr>cr_model = ar_model r, cr_messages = anthropic_to_openai_messages S redact r,
              cr_stream = ar_stream r, cr_max_tokens = ar_max_tokens r,
              cr_temperature = ar_temperature r, cr_top_p = None,
              cr_tools = (case map_option anthropic_tools_to_openai (ar_tools r) of
                            Some ts \<Rightarrow> if ts = [] then None else Some ts | None \<Rightarrow> None),
              cr_tool_choice = map_option anthropic_tool_choice_to_openai (ar_tool_choice r)\<rparr>)
      else None)"

definition compute_cache_identity ::
  "serde \<Rightarrow> (string \<Rightarrow> string) \<Rightarrow> request_decoders \<Rightarrow> string \<Rightarrow> json \<Rightarrow> string \<Rightarrow> string \<Rightarrow> string
     \<Rightarrow> (icp_identity \<times> string) option" where
  "compute_cache_identity S redact R path body upstream_model source_client api_key_id =
     (case cache_identity_chat_request S redact R path body of
        None \<Rightarrow> None
      | Some request \<Rightarrow> Some
          (compute_icp_identity S request
             \<lparr>uc_api_key_id = api_key_id, uc_public_model = cr_model request,
              uc_upstream_model = upstream_model, uc_source_client = source_client\<rparr>,
           cr_model request))"

definition client_bucket_of :: "crypto \<Rightarrow> string \<Rightarrow> string" where
  "client_bucket_of C client_id = (if trim client_id = [] then ''anon'' else short_hash C client_id)"

definition build_affinity_key ::
  "crypto \<Rightarrow> serde \<Rightarrow> (string \<Rightarrow> string) \<Rightarrow> request_decoders \<Rightarrow> string \<Rightarrow> string \<Rightarrow> string \<Rightarrow> string
     \<Rightarrow> string \<Rightarrow> string \<Rightarrow> nat \<Rightarrow> json \<Rightarrow> string" where
  "build_affinity_key C S redact R public_model upstream_model path source_client api_key_id
     client_id body_size body =
     (if body_size < (if trim source_client = ''claude-code'' then 16384 else 32768) then []
      else
        let client_bucket = client_bucket_of C client_id;
            source_bucket = normalize_bucket source_client
        in case compute_cache_identity S redact R path body upstream_model source_bucket api_key_id of
             Some (identity, _) \<Rightarrow> affinity_key_from_identity identity path client_bucket
           | None \<Rightarrow> upstream_model @ '':'' @ public_model @ '':'' @ path @ '':'' @ source_bucket
                       @ '':'' @ client_bucket)"

definition resolve_session_identity ::
  "crypto \<Rightarrow> serde \<Rightarrow> (string \<Rightarrow> string) \<Rightarrow> request_decoders \<Rightarrow> string \<Rightarrow> json \<Rightarrow> string \<Rightarrow> string
     \<Rightarrow> string \<Rightarrow> string \<Rightarrow> string \<times> string \<times> string \<times> string" where
  "resolve_session_identity C S redact R path body upstream_model source_client api_key_id client_id =
     (case compute_cache_identity S redact R path body upstream_model
             (normalize_bucket source_client) api_key_id of
        Some (identity, _) \<Rightarrow>
          (ii_usk identity, ii_icp_scope identity, hex16 (ii_prefix_32k_hash identity),
           ii_zen_session_id identity)
      | None \<Rightarrow> ([], [], [], client_bucket_of C client_id))"

section \<open>Forks of the cache\<close>

record cache_fork_shape =
  fs_ccp_prefix_32k_hash :: string
  fs_raw_body_prefix_32k_hash :: string
  fs_tools_hash :: string
  fs_roles_hash :: string
  fs_message_count :: nat
  fs_tool_count :: nat
  fs_tool_result_bytes :: nat

text \<open>The process-wide maps: the last shape per key, the last prefix per identity, warm identities.\<close>

record cache_watch =
  cw_shapes :: "(string, cache_fork_shape) hashmap"
  cw_prefixes :: "(string, string) hashmap"
  cw_warm :: "string set"

definition fork_shape_of :: "cache_forensics \<Rightarrow> cache_fork_shape" where
  "fork_shape_of t =
     \<lparr>fs_ccp_prefix_32k_hash = cf_ccp_prefix_32k_hash t,
      fs_raw_body_prefix_32k_hash = cf_raw_body_prefix_32k_hash t, fs_tools_hash = cf_tools_hash t,
      fs_roles_hash = cf_roles_hash t, fs_message_count = cf_message_count t,
      fs_tool_count = cf_tool_count t, fs_tool_result_bytes = cf_tool_result_bytes t\<rparr>"

definition classify_cache_fork :: "cache_forensics \<Rightarrow> cache_watch \<Rightarrow> string \<times> cache_watch" where
  "classify_cache_fork t w =
     (let now = fork_shape_of t;
          w' = w\<lparr>cw_shapes := AList.update (cf_fork_key t) now (cw_shapes w)\<rparr>
      in (case map_of (cw_shapes w) (cf_fork_key t) of
            None \<Rightarrow> ''baseline''
          | Some before \<Rightarrow>
              if fs_raw_body_prefix_32k_hash before = fs_raw_body_prefix_32k_hash now
              then ''raw_prefix_stable''
              else if fs_ccp_prefix_32k_hash before = fs_ccp_prefix_32k_hash now
              then ''raw_prefix_drift_with_stable_ccp_identity''
              else if fs_tools_hash before \<noteq> fs_tools_hash now
                  \<or> fs_tool_count before \<noteq> fs_tool_count now then ''tools_schema_drift''
              else if fs_roles_hash before \<noteq> fs_roles_hash now then ''message_roles_drift''
              else if fs_tool_result_bytes before \<noteq> fs_tool_result_bytes now
              then ''tool_result_payload_drift''
              else if fs_message_count before \<noteq> fs_message_count now then ''message_history_growth''
              else ''ccp_prefix_drift'',
          w'))"

definition tool_result_stats :: "serde \<Rightarrow> chat_request \<Rightarrow> nat \<times> nat" where
  "tool_result_stats S request =
     (let tools = filter (\<lambda>m. ms_role m = ''tool'') (cr_messages request);
          len = (\<lambda>m. case ms_content m of JString t \<Rightarrow> length t | other \<Rightarrow> length (to_string S other))
      in (foldl (\<lambda>n m. sat_add 64 n (len m)) 0 tools, foldl (\<lambda>n m. sat_add 64 n 1) 0 tools))"

text \<open>The format \<open>{:02x}\<close> of eight bytes.\<close>

definition hex_byte :: "char \<Rightarrow> string" where
  "hex_byte c = [hex_digit (byte_of c div 16), hex_digit (byte_of c mod 16)]"

definition hash_prefix_bytes :: "crypto \<Rightarrow> string \<Rightarrow> nat \<Rightarrow> string" where
  "hash_prefix_bytes C bytes prefix_bytes =
     concat (map hex_byte (take 8 (sha256 C (take (min (length bytes) prefix_bytes) bytes))))"

definition build_cache_forensics ::
  "crypto \<Rightarrow> serde \<Rightarrow> (string \<Rightarrow> string) \<Rightarrow> request_decoders \<Rightarrow> string \<Rightarrow> json \<Rightarrow> string \<Rightarrow> string
     \<Rightarrow> string \<Rightarrow> string \<Rightarrow> cache_watch \<Rightarrow> cache_forensics option \<times> cache_watch" where
  "build_cache_forensics C S redact R path body upstream_model source_client api_key_id client_id w =
     (case cache_identity_chat_request S redact R path body of
        None \<Rightarrow> (None, w)
      | Some request \<Rightarrow>
          (let shape = request_shape_of S request;
               raw = to_string S body;
               tools_json = (case cr_tools request of
                               Some ts \<Rightarrow> to_string S (ser_tools ts) | None \<Rightarrow> []);
               roles = join_with '','' (map ms_role (cr_messages request));
               (result_bytes, result_count) = tool_result_stats S request;
               fork_key = short_hash C (api_key_id @ '':'' @ upstream_model @ '':'' @ path @ '':''
                 @ normalize_bucket source_client @ '':'' @ client_bucket_of C client_id);
               parts = request_cache_material_split S request;
               t = \<lparr>cf_ccp_hash_algorithm = ''fnv1a64:cache_material'',
                    cf_raw_body_hash_algorithm = ''sha256:hex16'',
                    cf_raw_body_stage = ''zenproxy_upstream_body_before_kernel'',
                    cf_ccp_prompt_hash = hex16 (rs_prompt_hash shape),
                    cf_ccp_prefix_4k_hash = hex16 (rs_prefix_4k_hash shape),
                    cf_ccp_prefix_32k_hash = hex16 (rs_prefix_32k_hash shape),
                    cf_ccp_prefix_128k_hash = hex16 (rs_prefix_128k_hash shape),
                    cf_ccp_prefix_256k_hash = hex16 (rs_prefix_256k_hash shape),
                    cf_ccp_cache_material_bytes = rs_cache_material_bytes shape,
                    cf_raw_body_prefix_4k_hash = hash_prefix_bytes C raw 4096,
                    cf_raw_body_prefix_32k_hash = hash_prefix_bytes C raw 32768,
                    cf_raw_body_prefix_128k_hash = hash_prefix_bytes C raw 131072,
                    cf_raw_body_prefix_256k_hash = hash_prefix_bytes C raw 262144,
                    cf_raw_body_bytes = length raw,
                    cf_estimated_total_tokens = rs_estimated_total_tokens shape,
                    cf_message_count = rs_message_count shape, cf_tool_count = rs_tool_count shape,
                    cf_tools_hash = short_hash C tools_json, cf_roles_hash = short_hash C roles,
                    cf_tool_result_bytes = result_bytes, cf_tool_result_count = result_count,
                    cf_ccp_raw_prefix_match_32k =
                      (hex16 (rs_prefix_32k_hash shape) = hash_prefix_bytes C raw 32768),
                    cf_final_provider_body_bytes = 0, cf_final_provider_body_prefix_32k_hash = [],
                    cf_final_provider_cache_control_locations = [],
                    cf_final_provider_cache_control_block_hashes = [],
                    cf_final_provider_cache_policy_match = False,
                    cf_final_provider_cache_segment_hash = [],
                    cf_static_cache_material_bytes = cm_static_material_bytes parts,
                    cf_dynamic_cache_material_bytes = cm_dynamic_material_bytes parts,
                    cf_raw_cacheable_segment_hash = hex16 (cm_raw_cacheable_segment_hash parts),
                    cf_fork_key = fork_key, cf_fork_reason = []\<rparr>;
               (reason, w) = classify_cache_fork t w
           in (Some (t\<lparr>cf_fork_reason := reason\<rparr>), w)))"

section \<open>The watch on prefixes\<close>

record ccp_audit_snap =
  as_session_id :: string
  as_usk :: string
  as_icp_scope :: string
  as_prefix_32k_hash :: string
  as_prefix_drift :: bool
  as_prompt_cache_key :: string
  as_cache_miss_input_tokens :: nat
  as_provider_cache_observation :: string
  as_warmup_state :: string
  as_thinking_policy :: string

definition detect_prefix_drift :: "string \<Rightarrow> string \<Rightarrow> cache_watch \<Rightarrow> bool \<times> cache_watch" where
  "detect_prefix_drift usk hash w =
     (if usk = [] \<or> hash = [] then (False, w)
      else (case map_of (cw_prefixes w) usk of Some before \<Rightarrow> before \<noteq> hash | None \<Rightarrow> False,
            w\<lparr>cw_prefixes := AList.update usk hash (cw_prefixes w)\<rparr>))"

definition warmup_state_for :: "string \<Rightarrow> string \<Rightarrow> cache_watch \<Rightarrow> string \<times> cache_watch" where
  "warmup_state_for usk observation w =
     (if usk = [] then (''unknown'', w)
      else if observation = ''cache_hit'' then (''steady'', w\<lparr>cw_warm := insert usk (cw_warm w)\<rparr>)
      else (if usk \<in> cw_warm w then ''steady'' else ''cold'', w))"

definition build_ccp_audit_snap ::
  "string \<Rightarrow> string \<Rightarrow> string \<Rightarrow> string \<Rightarrow> usage_counts \<Rightarrow> string \<Rightarrow> cache_watch
     \<Rightarrow> ccp_audit_snap \<times> cache_watch" where
  "build_ccp_audit_snap session usk scope hash usage policy w =
     (let (drift, w) = detect_prefix_drift usk hash w;
          observation = provider_cache_observation usage;
          (warm, w) = warmup_state_for usk observation w
      in (\<lparr>as_session_id = session, as_usk = usk, as_icp_scope = scope, as_prefix_32k_hash = hash,
           as_prefix_drift = drift, as_prompt_cache_key = usk,
           as_cache_miss_input_tokens = cache_miss_input_tokens usage,
           as_provider_cache_observation = observation, as_warmup_state = warm,
           as_thinking_policy = policy\<rparr>, w))"

definition build_ccp_audit_snap_preflight ::
  "string \<Rightarrow> string \<Rightarrow> string \<Rightarrow> string \<Rightarrow> cache_watch \<Rightarrow> ccp_audit_snap \<times> cache_watch" where
  "build_ccp_audit_snap_preflight session usk scope hash w =
     (let (drift, w) = detect_prefix_drift usk hash w
      in (\<lparr>as_session_id = session, as_usk = usk, as_icp_scope = scope, as_prefix_32k_hash = hash,
           as_prefix_drift = drift, as_prompt_cache_key = usk, as_cache_miss_input_tokens = 0,
           as_provider_cache_observation = [],
           as_warmup_state = (if usk = [] then ''unknown'' else ''cold''),
           as_thinking_policy = []\<rparr>, w))"

text \<open>
  The snapshot before the call already files the prefix, so the snapshot of a call that succeeds
  never sees a drift, unless another request of the same identity files its own in between.
\<close>

lemma success_reports_no_drift:
  assumes "build_ccp_audit_snap_preflight session usk scope hash w = (before, w1)"
    and "map_of (cw_prefixes w2) usk = map_of (cw_prefixes w1) usk"
  shows "\<not> as_prefix_drift (fst (build_ccp_audit_snap session usk scope hash usage policy w2))"
  using assms
  by (auto simp: build_ccp_audit_snap_preflight_def build_ccp_audit_snap_def detect_prefix_drift_def
      update_conv Let_def split: prod.splits if_splits)

end
