(* ===== verification/MeteredStream.thy ===== *)
theory MeteredStream
  imports StreamMetering RequestIdentity
begin

text \<open>
  The task that forwards a stream (\<open>metered_stream_response\<close> in \<open>v4/provider.rs\<close>): it hints the
  node's latency, rewrites every chunk, and at the end files the metrics and reports the node once,
  through the guard of the node's lease.  A task that the runtime drops before its end reports the
  node through the guard's \<open>Drop\<close>.
\<close>

section \<open>Reports\<close>

text \<open>The reports and leases of nodes, in order.\<close>

datatype lease_event = Leased node_id | Reported node_id result_kind nat

type_synonym pool_log = "pool_manager \<times> lease_event list"

definition report_logged ::
  "crypto \<Rightarrow> node_id \<Rightarrow> result_kind \<Rightarrow> nat \<Rightarrow> clock \<Rightarrow> pool_log \<Rightarrow> pool_log" where
  "report_logged C i r l ck = (\<lambda>(M, log). (report C i r l ck M, log @ [Reported i r l]))"

section \<open>The guard of a lease\<close>

record lease_guard =
  lg_node_id :: node_id
  lg_released :: bool

definition guard_new :: "node_id \<Rightarrow> lease_guard" where
  "guard_new i = \<lparr>lg_node_id = i, lg_released = False\<rparr>"

definition guard_release ::
  "crypto \<Rightarrow> result_kind \<Rightarrow> nat \<Rightarrow> clock \<Rightarrow> lease_guard \<Rightarrow> pool_log \<Rightarrow> lease_guard \<times> pool_log" where
  "guard_release C r l ck g P =
     (if lg_released g \<or> lg_node_id g = [] then (g, P)
      else (g\<lparr>lg_released := True\<rparr>, report_logged C (lg_node_id g) r l ck P))"

definition guard_mark_released :: "lease_guard \<Rightarrow> lease_guard" where
  "guard_mark_released g = g\<lparr>lg_released := True\<rparr>"

definition guard_drop :: "crypto \<Rightarrow> clock \<Rightarrow> lease_guard \<Rightarrow> pool_log \<Rightarrow> pool_log" where
  "guard_drop C ck g P = snd (guard_release C ClientGone 0 ck g P)"

section \<open>The loop\<close>

datatype send_result = SendOk | SendClosed | SendTimeout

text \<open>An item with the readings of the clock at its arrival and after its rewriting.\<close>

record meter_item =
  mi_item :: body_item
  mi_seen_ms :: nat
  mi_rewritten_ms :: nat
  mi_send :: send_result

record meter_state =
  mt_manager :: pool_manager
  mt_metrics :: stream_metrics
  mt_first_chunk_ms :: nat
  mt_first_content_token_ms :: nat
  mt_first_tool_call_ms :: nat
  mt_sent :: "string list"
  mt_stream_error :: "string option"
  mt_client_gone :: "string option"

definition meter_start :: "pool_manager \<Rightarrow> usage_counts \<Rightarrow> meter_state" where
  "meter_start M fallback =
     \<lparr>mt_manager = M, mt_metrics = metrics_new fallback, mt_first_chunk_ms = 0,
      mt_first_content_token_ms = 0, mt_first_tool_call_ms = 0, mt_sent = [],
      mt_stream_error = None, mt_client_gone = None\<rparr>"

definition meter_chunk ::
  "serde \<Rightarrow> request_telemetry \<Rightarrow> string \<Rightarrow> meter_item \<Rightarrow> meter_state \<Rightarrow> meter_state \<times> bool" where
  "meter_chunk S t bytes it s =
     (let path = rt_path t; node = rt_selected_node_id t;
          s = (if mt_first_chunk_ms s = 0
               then s\<lparr>mt_first_chunk_ms := mi_seen_ms it,
                      mt_manager := pm_record_bucket_latency_hint node (rt_body_size_bucket t)
                        (mi_seen_ms it)
                        (pm_record_latency_hint node (mi_seen_ms it) (mt_manager s))\<rparr>
               else s);
          before = mt_metrics s; m = ingest S path bytes before;
          s = s\<lparr>mt_metrics := m,
                mt_first_content_token_ms :=
                  (if mt_first_content_token_ms s = 0 \<and> \<not> has_content_signal before
                      \<and> has_content_signal m
                   then mi_rewritten_ms it else mt_first_content_token_ms s),
                mt_first_tool_call_ms :=
                  (if mt_first_tool_call_ms s = 0 \<and> \<not> has_tool_signal before \<and> has_tool_signal m
                   then mi_rewritten_ms it else mt_first_tool_call_ms s)\<rparr>;
          sent = rewrite_stream_response_model S path bytes (rt_public_model t)
      in case mi_send it of
           SendOk \<Rightarrow> (s\<lparr>mt_sent := mt_sent s @ [sent]\<rparr>, True)
         | SendClosed \<Rightarrow>
             (s\<lparr>mt_client_gone := Some ''client disconnected before stream completed''\<rparr>, False)
         | SendTimeout \<Rightarrow>
             (s\<lparr>mt_client_gone := Some ''downstream stream backpressure exceeded 30s''\<rparr>, False))"

definition meter_error ::
  "serde \<Rightarrow> request_telemetry \<Rightarrow> string \<Rightarrow> meter_item \<Rightarrow> meter_state \<Rightarrow> meter_state" where
  "meter_error S t err it s =
     (let message = ''upstream stream error ('' @ classify_stream_error_message err @ ''): '' @ err;
          s = (case mi_send it of
                 SendOk \<Rightarrow> s\<lparr>mt_sent := mt_sent s @ [stream_error_frame S (rt_path t) message]\<rparr>
               | SendClosed \<Rightarrow>
                   s\<lparr>mt_client_gone := Some ''client disconnected before stream error frame''\<rparr>
               | SendTimeout \<Rightarrow>
                   s\<lparr>mt_client_gone :=
                       Some ''downstream stream backpressure exceeded 30s before error frame''\<rparr>)
      in s\<lparr>mt_stream_error := Some message\<rparr>)"

fun meter_loop ::
  "serde \<Rightarrow> request_telemetry \<Rightarrow> meter_item list \<Rightarrow> meter_state \<Rightarrow> meter_state" where
  "meter_loop S t [] s = s"
| "meter_loop S t (it # its) s =
     (case mi_item it of
        BodyChunk bytes \<Rightarrow>
          (let (s, more) = meter_chunk S t bytes it s in if more then meter_loop S t its s else s)
      | BodyError err \<Rightarrow> meter_error S t err it s)"

section \<open>The end\<close>

definition meter_telemetry ::
  "nat \<Rightarrow> meter_state \<Rightarrow> request_telemetry \<Rightarrow> cache_watch \<Rightarrow> request_telemetry \<times> cache_watch" where
  "meter_telemetry complete_ms s t w =
     (let m = mt_metrics s; u = final_usage m;
          observation = provider_cache_observation u;
          (warm, w) = warmup_state_for (rt_usk t) observation w
      in (t\<lparr>rt_bytes_received := sm_bytes_received m,
            rt_prompt_tokens := uc_prompt_tokens u, rt_completion_tokens := uc_completion_tokens u,
            rt_total_tokens := uc_total_tokens u, rt_cached_tokens := uc_cached_tokens u,
            rt_cache_creation_input_tokens := uc_cache_creation_input_tokens u,
            rt_cache_read_input_tokens := uc_cache_read_input_tokens u,
            rt_cache_miss_input_tokens := cache_miss_input_tokens u,
            rt_provider_cache_observation := observation, rt_warmup_state := warm,
            rt_latency_total_ms := complete_ms, rt_ttft_ms := mt_first_chunk_ms s,
            rt_timings := (rt_timings t)
              \<lparr>tm_first_chunk_ms := mt_first_chunk_ms s,
               tm_protocol_first_byte_ms := mt_first_chunk_ms s,
               tm_first_content_token_ms := mt_first_content_token_ms s,
               tm_first_tool_call_ms := mt_first_tool_call_ms s,
               tm_stream_complete_ms := complete_ms, tm_total_ms := complete_ms\<rparr>,
            rt_raw_tool_format := raw_tool_format m,
            rt_text_chars := sm_text_chars m mod 2 ^ 32,
            rt_reasoning_chars := sm_reasoning_chars m mod 2 ^ 32\<rparr>, w))"

definition push_attempt ::
  "nat \<Rightarrow> nat \<Rightarrow> string \<Rightarrow> string \<Rightarrow> request_telemetry \<Rightarrow> request_telemetry" where
  "push_attempt status latency outcome error_type t =
     t\<lparr>rt_retry_chain := rt_retry_chain t @
         [\<lparr>ta_attempt = rt_retry_count t, ta_node_id = rt_selected_node_id t,
           ta_node_url_redacted = rt_selected_node_url_redacted t, ta_status = status,
           ta_latency_ms = latency, ta_outcome = outcome, ta_error_type = error_type\<rparr>]\<rparr>"

definition fail_telemetry ::
  "string \<Rightarrow> string \<Rightarrow> string \<Rightarrow> request_telemetry \<Rightarrow> request_telemetry" where
  "fail_telemetry outcome kind message t =
     t\<lparr>rt_outcome := outcome, rt_failure_kind := kind, rt_failure_message := message\<rparr>"

definition clear_pin :: "string \<Rightarrow> string \<Rightarrow> pool_manager \<Rightarrow> env \<Rightarrow> pool_manager \<times> env" where
  "clear_pin model session M ev =
     (let (_, pins, ev) = pin_clear model session (pm_pins M) ev in (M\<lparr>pm_pins := pins\<rparr>, ev))"

definition clear_session_pin_for_failure ::
  "string \<Rightarrow> string \<Rightarrow> nat \<Rightarrow> string \<Rightarrow> pool_manager \<Rightarrow> env \<Rightarrow> pool_manager \<times> env" where
  "clear_session_pin_for_failure model session status error_type M ev =
     (if should_clear_session_pin_for_failure status error_type then clear_pin model session M ev
      else (M, ev))"

record meter_result =
  mr_manager :: pool_manager
  mr_env :: env
  mr_telemetry :: request_telemetry
  mr_guard :: lease_guard
  mr_log :: "lease_event list"

text \<open>How the node is reported: through the guard when the client has gone, else directly.\<close>

definition settle ::
  "crypto \<Rightarrow> result_kind \<Rightarrow> nat \<Rightarrow> clock \<Rightarrow> lease_guard \<Rightarrow> pool_manager \<Rightarrow> env
     \<Rightarrow> request_telemetry \<Rightarrow> meter_result" where
  "settle C r l ck g M ev t =
     (let (M, log) = report_logged C (rt_selected_node_id t) r l ck (M, [])
      in \<lparr>mr_manager = M, mr_env = ev, mr_telemetry = t, mr_guard = guard_mark_released g,
          mr_log = log\<rparr>)"

definition meter_finish ::
  "crypto \<Rightarrow> nat \<Rightarrow> clock \<Rightarrow> lease_guard \<Rightarrow> meter_state \<Rightarrow> env \<Rightarrow> request_telemetry
     \<Rightarrow> meter_result" where
  "meter_finish C complete_ms ck g s ev t =
     (let m = mt_metrics s; M = mt_manager s
      in case mt_client_gone s of
           Some reason \<Rightarrow>
             (let t = push_attempt 499 complete_ms ''client_gone'' ''client_gone''
                        (fail_telemetry ''client_gone'' ''client_gone'' reason t);
                  (g, M, log) = guard_release C ClientGone complete_ms ck g (M, [])
              in \<lparr>mr_manager = M, mr_env = ev, mr_telemetry = t, mr_guard = g, mr_log = log\<rparr>)
         | None \<Rightarrow>
             (case mt_stream_error s of
                Some message \<Rightarrow>
                  (let kind = classify_stream_error_message message;
                       status = (if 100 \<le> rt_status t \<and> rt_status t \<le> 999 then rt_status t else 502);
                       (M, ev) = clear_session_pin_for_failure (rt_upstream_model t)
                                   (rt_session_id t) status kind M ev;
                       t = push_attempt (rt_status t) complete_ms ''stream_error'' kind
                             (fail_telemetry ''stream_error'' kind message t);
                       r = (if kind = ''upstream_429'' then RateLimited else SoftFailure OtherError)
                   in settle C r complete_ms ck g M ev t)
              | None \<Rightarrow>
                  if has_rate_limited_error m \<and> \<not> has_assistant_output m then
                    settle C RateLimited complete_ms ck g M ev
                      (push_attempt 429 complete_ms ''rate_limited'' ''upstream_429''
                        (fail_telemetry ''rate_limited'' ''upstream_429''
                          ''upstream provider rate limited the stream before assistant output''
                          (t\<lparr>rt_status := 429\<rparr>)))
                  else if \<not> has_assistant_output m then
                    (let class = classify_empty_output_class (has_assistant_output m)
                                   (sm_reasoning_chars m) (sm_finish_reason m)
                                   (uc_completion_tokens (final_usage m));
                         (M, ev) = clear_pin (rt_upstream_model t) (rt_session_id t) M ev
                     in settle C EmptyOutput complete_ms ck g M ev
                          (push_attempt (rt_status t) complete_ms ''empty_output'' ''empty_output''
                            (fail_telemetry ''empty_output'' ''empty_output''
                              (''upstream returned no assistant content or tool call (class=''
                                 @ class @ '')'') (t\<lparr>rt_empty_output_class := class\<rparr>))))
                  else
                    (let M = (if rt_affinity_key t \<noteq> []
                              then pm_record_affinity_success (rt_affinity_key t)
                                     (rt_selected_node_id t) M
                              else M)
                     in settle C (Success (rt_status t)) complete_ms ck g M ev t)))"

text \<open>
  The task: the items up to the end of the stream or, when it is dropped, up to that moment; the
  guard goes out of scope at the end of either.
\<close>

definition metered_stream_task ::
  "crypto \<Rightarrow> serde \<Rightarrow> nat \<Rightarrow> clock \<Rightarrow> bool \<Rightarrow> meter_item list \<Rightarrow> usage_counts \<Rightarrow> request_telemetry
     \<Rightarrow> pool_manager \<Rightarrow> env \<Rightarrow> cache_watch \<Rightarrow> meter_result \<times> string list \<times> cache_watch" where
  "metered_stream_task C S complete_ms ck dropped items fallback t M ev w =
     (let g = guard_new (rt_selected_node_id t);
          s = meter_loop S t items (meter_start M fallback)
      in if dropped then
           (let (M, log) = guard_drop C ck g (mt_manager s, [])
            in (\<lparr>mr_manager = M, mr_env = ev, mr_telemetry = t, mr_guard = g, mr_log = log\<rparr>,
                mt_sent s, w))
         else
           (let (t, w) = meter_telemetry complete_ms s t w;
                r = meter_finish C complete_ms ck g s ev t;
                (M, log) = guard_drop C ck (mr_guard r) (mr_manager r, mr_log r)
            in (r\<lparr>mr_manager := M, mr_log := log\<rparr>, mt_sent s, w)))"

end
