(* ===== verification/RetryLoop.thy ===== *)
theory RetryLoop
  imports MeteredStream RequestPipeline ProxyConfig
begin

text \<open>
  The loop of calls upstream (\<open>call_with_retry\<close> in \<open>v4/provider.rs\<close>): every attempt leases a node,
  calls the client's kernel through it, judges the answer, reports the node and decides whether to
  try again.  The kernel, the clock, identifiers and the chunks of a streamed body come with the
  attempt; the log holds the leases and reports of nodes in order.
\<close>

section \<open>Answers\<close>

text \<open>
  A body as it is buffered, or the error of reading it, and as it is streamed: what it yields, with
  the milliseconds since the wait for its first output began.
\<close>

record provider_response =
  up_status :: nat
  up_headers :: headers
  up_body :: "string + string"
  up_items :: "(nat \<times> body_item) list"

datatype response_body = FullBody string | StreamedBody "string list"

record final_provider_cache_headers =
  fp_body_bytes :: nat
  fp_body_prefix_32k_hash :: string
  fp_cache_control_locations :: string
  fp_cache_control_block_hashes :: string
  fp_cache_policy_match :: bool
  fp_cache_segment_hash :: string

definition final_provider_cache_from_headers :: "headers \<Rightarrow> final_provider_cache_headers" where
  "final_provider_cache_from_headers hs =
     (let get = (\<lambda>k. unwrap_or [] (extract_header hs k))
      in \<lparr>fp_body_bytes = unwrap_or 0 (Option.bind (extract_header hs ''x-fmc-final-body-bytes'') parse_u64),
          fp_body_prefix_32k_hash = get ''x-fmc-final-body-prefix-32k-hash'',
          fp_cache_control_locations = get ''x-fmc-cache-control-locations'',
          fp_cache_control_block_hashes = get ''x-fmc-cache-control-block-hashes'',
          fp_cache_policy_match =
            (case extract_header hs ''x-fmc-cache-policy-match'' of
               Some v \<Rightarrow> to_ascii_lowercase v = ''true'' | None \<Rightarrow> False),
          fp_cache_segment_hash = get ''x-fmc-provider-cache-segment-hash''\<rparr>)"

definition apply_final_provider_cache ::
  "final_provider_cache_headers \<Rightarrow> cache_forensics \<Rightarrow> cache_forensics" where
  "apply_final_provider_cache h t =
     t\<lparr>cf_final_provider_body_bytes := fp_body_bytes h,
       cf_final_provider_body_prefix_32k_hash := fp_body_prefix_32k_hash h,
       cf_final_provider_cache_control_locations := fp_cache_control_locations h,
       cf_final_provider_cache_control_block_hashes := fp_cache_control_block_hashes h,
       cf_final_provider_cache_policy_match := fp_cache_policy_match h,
       cf_final_provider_cache_segment_hash := fp_cache_segment_hash h\<rparr>"

record call_result =
  cl_status :: nat
  cl_headers :: headers
  cl_body :: response_body
  cl_request_id :: string
  cl_selected_node_id :: node_id
  cl_node_url_redacted :: string
  cl_observed_exit_ip :: "string option"
  cl_upstream_model :: string
  cl_outcome :: string
  cl_retry_count :: nat
  cl_was_rate_limited :: bool
  cl_upstream_ms :: nat
  cl_ttft_ms :: "nat option"
  cl_timings :: request_timings
  cl_affinity_hit :: bool
  cl_affinity_node_id :: node_id
  cl_session_pin_hit :: bool
  cl_retry_chain :: "attempt_telemetry list"
  cl_body_bytes_len :: nat
  cl_usage :: usage_counts
  cl_final_provider_cache :: final_provider_cache_headers

definition after_dispatch ::
  "nat \<Rightarrow> string \<Rightarrow> nat option \<Rightarrow> string \<Rightarrow> node_id \<Rightarrow> string \<Rightarrow> string \<Rightarrow> string \<Rightarrow> nat \<Rightarrow> bool
     \<Rightarrow> nat \<Rightarrow> string \<Rightarrow> attempt_telemetry list \<Rightarrow> call_error" where
  "after_dispatch status message retry_after request_id node_id node_url upstream_model outcome
     retry_count was_rate_limited upstream_ms failure_kind chain =
     \<lparr>ce_status = status, ce_message = message, ce_retry_after_secs = retry_after,
      ce_request_id = Some request_id, ce_selected_node_id = Some node_id,
      ce_node_url_redacted = Some (redact_node_url node_url), ce_upstream_model = upstream_model,
      ce_outcome = outcome, ce_retry_count = retry_count, ce_was_rate_limited = was_rate_limited,
      ce_upstream_ms = upstream_ms, ce_failure_kind = failure_kind, ce_retry_chain = chain\<rparr>"

section \<open>Local answers to probes\<close>

definition quoted :: "string \<Rightarrow> string" where
  "quoted s = [QUOTE] @ s @ [QUOTE]"

text \<open>A field of a JSON text written by hand: the name and the text of its value.\<close>

definition jfield :: "string \<Rightarrow> string \<Rightarrow> string" where
  "jfield k v = quoted k @ '':'' @ v"

definition jobj :: "string list \<Rightarrow> string" where
  "jobj fs = ''{'' @ join_with '','' fs @ ''}''"

definition sse_named :: "string \<Rightarrow> string \<Rightarrow> string" where
  "sse_named event data = ''event: '' @ event @ [NL] @ ''data: '' @ data @ [NL, NL]"

definition anthropic_probe_ok_stream :: "nat \<Rightarrow> string \<Rightarrow> string" where
  "anthropic_probe_ok_stream ts model =
     sse_named ''message_start''
       (jobj [jfield ''type'' (quoted ''message_start''),
              jfield ''message'' (jobj
                [jfield ''id'' (quoted (''msg_'' @ show_nat ts)), jfield ''type'' (quoted ''message''),
                 jfield ''role'' (quoted ''assistant''), jfield ''model'' (quoted model),
                 jfield ''content'' ''[]'',
                 jfield ''usage'' (jobj [jfield ''input_tokens'' ''1'', jfield ''output_tokens'' ''0''])])])
     @ sse_named ''content_block_start''
       (jobj [jfield ''type'' (quoted ''content_block_start''), jfield ''index'' ''0'',
              jfield ''content_block'' (jobj [jfield ''type'' (quoted ''text''), jfield ''text'' (quoted [])])])
     @ sse_named ''content_block_delta''
       (jobj [jfield ''type'' (quoted ''content_block_delta''), jfield ''index'' ''0'',
              jfield ''delta'' (jobj [jfield ''type'' (quoted ''text_delta''), jfield ''text'' (quoted ''ok'')])])
     @ sse_named ''content_block_stop''
       (jobj [jfield ''type'' (quoted ''content_block_stop''), jfield ''index'' ''0''])
     @ sse_named ''message_delta''
       (jobj [jfield ''type'' (quoted ''message_delta''),
              jfield ''delta'' (jobj [jfield ''stop_reason'' (quoted ''end_turn'')]),
              jfield ''usage'' (jobj [jfield ''output_tokens'' ''1''])])
     @ sse_named ''message_stop'' (jobj [jfield ''type'' (quoted ''message_stop'')])"

definition openai_probe_chunk :: "string \<Rightarrow> string \<Rightarrow> string \<Rightarrow> string" where
  "openai_probe_chunk model delta finish =
     ''data: ''
     @ jobj [jfield ''id'' (quoted ''chatcmpl-probe''),
             jfield ''object'' (quoted ''chat.completion.chunk''), jfield ''model'' (quoted model),
             jfield ''choices'' (''['' @ jobj [jfield ''index'' ''0'', jfield ''delta'' delta,
               jfield ''finish_reason'' finish] @ '']'')]
     @ [NL, NL]"

definition openai_probe_ok_stream :: "string \<Rightarrow> string" where
  "openai_probe_ok_stream model =
     openai_probe_chunk model (jobj [jfield ''content'' (quoted ''ok'')]) ''null''
     @ openai_probe_chunk model ''{}'' (quoted ''stop'')
     @ ''data: [DONE]'' @ [NL, NL]"

definition build_stream_probe_local_fallback ::
  "serde \<Rightarrow> request_decoders \<Rightarrow> nat \<Rightarrow> string \<Rightarrow> json \<Rightarrow> string \<Rightarrow> string \<Rightarrow> stream_probe_class
     \<Rightarrow> string option" where
  "build_stream_probe_local_fallback S R ts path body source_client public_model c =
     (if \<not> stream_probe_has_local_fallback S R path body source_client c then None
      else if path = ''messages'' then Some (anthropic_probe_ok_stream ts public_model)
      else if path = ''chat/completions'' then Some (openai_probe_ok_stream public_model)
      else None)"

section \<open>The state of the loop\<close>

text \<open>What the configuration and the request fix for all attempts.\<close>

record call_setup =
  cu_crypto :: crypto
  cu_serde :: serde
  cu_path :: string
  cu_meta :: request_meta
  cu_public_model :: string
  cu_upstream_model :: string
  cu_kernel :: kernel_config
  cu_base_max :: nat
  cu_empty_max :: nat
  cu_budget_ms :: nat
  cu_allow_direct_fallback :: bool
  cu_probe_class :: stream_probe_class
  cu_fallback :: "nat \<Rightarrow> string option"
  cu_prepared :: prepared_request

text \<open>What the world does during an attempt.\<close>

record attempt_world =
  aw_clock :: clock
  aw_retry_clock :: clock
  aw_report_clock :: clock
  aw_dispatch_ms :: nat
  aw_request_id :: string
  aw_kernel :: "kernel_config \<Rightarrow> http_client \<Rightarrow> prepared_request \<Rightarrow> app_error + provider_response"
  aw_timed_out :: bool
  aw_latency :: nat
  aw_jitter :: rat
  aw_final_id :: string
  aw_now_ms :: nat

record call_state =
  cs_manager :: pool_manager
  cs_env :: env
  cs_log :: "lease_event list"
  cs_chain :: "attempt_telemetry list"
  cs_dispatch_wait_ms :: nat
  cs_was_rate_limited :: bool
  cs_last_status :: nat
  cs_force_direct :: bool
  cs_last_node_id :: node_id
  cs_empty_nodes :: "node_id list"
  cs_backoffs :: "rat list"

definition call_start :: "pool_manager \<Rightarrow> env \<Rightarrow> call_state" where
  "call_start M ev =
     \<lparr>cs_manager = M, cs_env = ev, cs_log = [], cs_chain = [], cs_dispatch_wait_ms = 0,
      cs_was_rate_limited = False, cs_last_status = 502, cs_force_direct = False,
      cs_last_node_id = [], cs_empty_nodes = [], cs_backoffs = []\<rparr>"

datatype call_outcome = Answered call_result | Failed call_error

section \<open>Leasing a node\<close>

definition pool_exhausted :: call_error where
  "pool_exhausted = before_dispatch_with_kind 503 ''Service temporarily unavailable; retry later''
     ''proxy_pool_exhausted''"

definition dispatch_or_wait ::
  "request_meta \<Rightarrow> nat \<Rightarrow> nat \<Rightarrow> clock \<Rightarrow> clock \<Rightarrow> pool_manager \<Rightarrow> env
     \<Rightarrow> (call_error + dispatch_result) \<times> pool_manager \<times> env" where
  "dispatch_or_wait m attempt max_attempt ck ck' M ev =
     (let (r, M, ev) = dispatch m ck M ev
      in case r of
           Inr d \<Rightarrow> (Inr d, M, ev)
         | Inl CircuitOpen \<Rightarrow> (Inl (dispatch_error_to_call_error CircuitOpen), M, ev)
         | Inl RequestTooLarge \<Rightarrow> (Inl (dispatch_error_to_call_error RequestTooLarge), M, ev)
         | Inl NoResource \<Rightarrow>
             if attempt < max_attempt then
               (let (r, M, ev) = dispatch m ck' M ev
                in case r of Inr d \<Rightarrow> (Inr d, M, ev) | Inl _ \<Rightarrow> (Inl pool_exhausted, M, ev))
             else (Inl pool_exhausted, M, ev))"

definition lease_node ::
  "call_setup \<Rightarrow> attempt_world \<Rightarrow> nat \<Rightarrow> call_state
     \<Rightarrow> (call_error + dispatch_result) \<times> pool_manager \<times> env" where
  "lease_node U W attempt s =
     (let m = cu_meta U; M = cs_manager s; ev = cs_env s; ck = aw_clock W
      in if cs_force_direct s then
           (let (r, M) = dispatch_direct M
            in (case r of
                  Inr d \<Rightarrow> Inr d
                | Inl _ \<Rightarrow> Inl (before_dispatch 503 ''direct fallback is not available''), M, ev))
         else if cs_empty_nodes s \<noteq> [] then
           (let (r, M, ev) = dispatch_excluding m (cs_empty_nodes s) ck M ev
            in case r of
                 Inr d \<Rightarrow> (Inr d, M, ev)
               | Inl _ \<Rightarrow>
                   (let (r, M, ev) = dispatch m (aw_retry_clock W) M ev
                    in (case r of
                          Inr d \<Rightarrow> Inr d | Inl e \<Rightarrow> Inl (dispatch_error_to_call_error e), M, ev)))
         else if 0 < attempt \<and> cs_last_node_id s \<noteq> [] then
           (let (r, M, ev) = dispatch_sticky m (cs_last_node_id s) ck M ev
            in case r of
                 Inr d \<Rightarrow> (Inr d, M, ev)
               | Inl _ \<Rightarrow> dispatch_or_wait m attempt (cu_empty_max U) (aw_retry_clock W)
                            (aw_retry_clock W) M ev)
         else dispatch_or_wait m attempt (cu_empty_max U) ck (aw_retry_clock W) M ev)"

text \<open>What an attempt knows once its node is leased.\<close>

record attempt_ctx =
  ax_attempt :: nat
  ax_node_id :: node_id
  ax_node_url :: string
  ax_request_id :: string
  ax_latency :: nat
  ax_dispatch :: dispatch_result
  ax_clock :: clock

definition kernel_for_node :: "kernel_config \<Rightarrow> node_id \<Rightarrow> string \<Rightarrow> kernel_config" where
  "kernel_for_node K i url =
     K\<lparr>kc_extra_headers := [(''x-zen-proxy-selected-node-id'', i),
                            (''x-zen-proxy-selected-node-url'', redact_node_url url)]\<rparr>"

definition call_report ::
  "call_setup \<Rightarrow> attempt_ctx \<Rightarrow> result_kind \<Rightarrow> call_state \<Rightarrow> call_state" where
  "call_report U X r s =
     (let (M, log) = report_logged (cu_crypto U) (ax_node_id X) r (ax_latency X) (ax_clock X)
                       (cs_manager s, cs_log s)
      in s\<lparr>cs_manager := M, cs_log := log\<rparr>)"

definition push_chain :: "attempt_ctx \<Rightarrow> nat \<Rightarrow> string \<Rightarrow> string \<Rightarrow> call_state \<Rightarrow> call_state" where
  "push_chain X status outcome error_type s =
     s\<lparr>cs_chain := cs_chain s @
         [\<lparr>ta_attempt = ax_attempt X, ta_node_id = ax_node_id X,
           ta_node_url_redacted = redact_node_url (ax_node_url X), ta_status = status,
           ta_latency_ms = ax_latency X, ta_outcome = outcome, ta_error_type = error_type\<rparr>]\<rparr>"

definition call_clear_pin :: "call_setup \<Rightarrow> call_state \<Rightarrow> call_state" where
  "call_clear_pin U s =
     (let m = cu_meta U;
          (M, ev) = clear_pin (rm_upstream_model m) (rm_session_id m) (cs_manager s) (cs_env s)
      in s\<lparr>cs_manager := M, cs_env := ev\<rparr>)"

definition call_clear_pin_for_failure ::
  "call_setup \<Rightarrow> nat \<Rightarrow> string \<Rightarrow> call_state \<Rightarrow> call_state" where
  "call_clear_pin_for_failure U status error_type s =
     (if should_clear_session_pin_for_failure status error_type then call_clear_pin U s else s)"

definition fail_attempt ::
  "call_setup \<Rightarrow> attempt_ctx \<Rightarrow> nat \<Rightarrow> string \<Rightarrow> nat option \<Rightarrow> string \<Rightarrow> bool \<Rightarrow> string
     \<Rightarrow> call_state \<Rightarrow> call_outcome" where
  "fail_attempt U X status message retry_after outcome limited failure_kind s =
     Failed (after_dispatch status message retry_after (ax_request_id X) (ax_node_id X)
       (ax_node_url X) (cu_upstream_model U) outcome (ax_attempt X) limited (ax_latency X)
       failure_kind (cs_chain s))"

definition budget_spent :: "call_setup \<Rightarrow> call_state \<Rightarrow> bool" where
  "budget_spent U s \<longleftrightarrow> 0 < cu_budget_ms U \<and> cu_budget_ms U \<le> retry_chain_latency_ms (cs_chain s)"

definition fail_on_budget ::
  "call_setup \<Rightarrow> attempt_ctx \<Rightarrow> nat \<Rightarrow> string \<Rightarrow> nat option \<Rightarrow> bool \<Rightarrow> call_state
     \<Rightarrow> call_outcome" where
  "fail_on_budget U X status category retry_after limited s =
     fail_attempt U X status
       (retry_budget_message (retry_chain_latency_ms (cs_chain s)) status category (cs_chain s))
       retry_after ''retry_budget_exhausted'' limited ''retry_budget_exhausted'' s"

section \<open>An attempt\<close>

text \<open>An attempt ends the call, is followed at once by the next, or by the end of the loop's body.\<close>

datatype attempt_end = Stop call_outcome | Again | Onwards

definition timed_out_attempt :: "call_setup \<Rightarrow> attempt_ctx \<Rightarrow> call_state \<Rightarrow> call_state \<times> attempt_end" where
  "timed_out_attempt U X s =
     (let s = call_report U X (SoftFailure Timeout) s;
          s = push_chain X 504 ''retry_budget_exhausted'' ''timeout'' s
      in (s, Stop (fail_on_budget U X 504 ''attempt_deadline'' None (cs_was_rate_limited s) s)))"

definition call_timings :: "bool \<Rightarrow> nat \<Rightarrow> nat \<Rightarrow> request_timings" where
  "call_timings stream wait latency =
     (let body_ms = (if stream then 0 else latency)
      in timings_default
           \<lparr>tm_dispatch_wait_ms := wait, tm_upstream_response_ms := latency,
            tm_first_chunk_ms := body_ms, tm_protocol_first_byte_ms := body_ms,
            tm_stream_complete_ms := body_ms, tm_total_ms := latency\<rparr>)"

definition answer_of ::
  "call_setup \<Rightarrow> attempt_ctx \<Rightarrow> provider_response \<Rightarrow> nat \<Rightarrow> headers \<Rightarrow> response_body \<Rightarrow> string
     \<Rightarrow> request_timings \<Rightarrow> nat \<Rightarrow> usage_counts \<Rightarrow> call_state \<Rightarrow> call_outcome" where
  "answer_of U X resp status hs body outcome timings len usage s =
     Answered
       \<lparr>cl_status = status, cl_headers = hs, cl_body = body, cl_request_id = ax_request_id X,
        cl_selected_node_id = ax_node_id X,
        cl_node_url_redacted = redact_node_url (ax_node_url X),
        cl_observed_exit_ip =
          (case map_of (up_headers resp) ''x-zen-observed-exit-ip'' of
             Some v \<Rightarrow> if visible_ascii v then Some v else None | None \<Rightarrow> None),
        cl_upstream_model = cu_upstream_model U, cl_outcome = outcome,
        cl_retry_count = ax_attempt X, cl_was_rate_limited = cs_was_rate_limited s,
        cl_upstream_ms = ax_latency X, cl_ttft_ms = Some (ax_latency X), cl_timings = timings,
        cl_affinity_hit = dr_affinity_hit (ax_dispatch X),
        cl_affinity_node_id = dr_affinity_node_id (ax_dispatch X),
        cl_session_pin_hit = dr_session_pin_hit (ax_dispatch X), cl_retry_chain = cs_chain s,
        cl_body_bytes_len = len, cl_usage = usage,
        cl_final_provider_cache = final_provider_cache_from_headers (up_headers resp)\<rparr>"

definition local_probe_answer ::
  "call_setup \<Rightarrow> attempt_ctx \<Rightarrow> provider_response \<Rightarrow> string \<Rightarrow> call_state
     \<Rightarrow> call_state \<times> attempt_end" where
  "local_probe_answer U X resp body s =
     (let s = call_report U X (SoftFailure OtherError) s;
          s = push_chain X 200 ''probe_local_fallback'' ''empty_output'' s;
          tokens = estimated_input_tokens (cu_meta U) mod 2 ^ 32;
          usage = usage_default\<lparr>uc_prompt_tokens := tokens, uc_completion_tokens := 1,
                    uc_total_tokens := wrap_add 32 tokens 1\<rparr>
      in (s, Stop (answer_of U X resp 200 [(''content-type'', ''text/event-stream'')] (FullBody body)
                ''probe_local_fallback'' (call_timings False (cs_dispatch_wait_ms s) (ax_latency X))
                0 usage s)))"

text \<open>An answer without output: the node is told, remembered, and the call gives up or goes on.\<close>

definition empty_attempt ::
  "call_setup \<Rightarrow> attempt_ctx \<Rightarrow> call_state \<Rightarrow> call_state \<times> attempt_end" where
  "empty_attempt U X s =
     (let m = cu_meta U; large = 100000 \<le> estimated_input_tokens m;
          s = (if estimated_input_tokens m < 50000 then call_clear_pin U s else s);
          s = (if ax_node_id X \<in> set (cs_empty_nodes s) then s
               else s\<lparr>cs_empty_nodes := cs_empty_nodes s @ [ax_node_id X]\<rparr>);
          s = call_report U X EmptyOutput s;
          s = push_chain X 502 ''empty_output'' ''empty_output'' s;
          s = s\<lparr>cs_last_status := 502\<rparr>
      in if budget_spent U s
         then (s, Stop (fail_on_budget U X 502 ''empty_output'' None (cs_was_rate_limited s) s))
         else if cu_empty_max U \<le> ax_attempt X then
           (if large \<and> list_ex (\<lambda>a. ta_error_type a = ''empty_output'') (cs_chain s)
            then (s, Stop (fail_attempt U X 429
                    ''upstream provider rate limited the request (large session empty retry guard)''
                    None ''upstream_429'' True ''upstream_429'' s))
            else (s, Stop (fail_attempt U X 502
                    ''upstream returned no assistant content or tool call''
                    None ''empty_output'' False ''empty_output'' s)))
         else if repeated_large_session_empty_attempts (cs_chain s) m
         then (s, Stop (fail_attempt U X 429
                 ''upstream provider rate limited the request (large session retry guard)''
                 None ''upstream_429'' True ''upstream_429'' s))
         else (s, Again))"

definition no_output_attempt ::
  "call_setup \<Rightarrow> attempt_world \<Rightarrow> attempt_ctx \<Rightarrow> provider_response \<Rightarrow> call_state
     \<Rightarrow> call_state \<times> attempt_end" where
  "no_output_attempt U W X resp s =
     (case cu_fallback U (aw_now_ms W) of
        Some body \<Rightarrow> local_probe_answer U X resp body s
      | None \<Rightarrow> empty_attempt U X s)"

definition output_attempt ::
  "call_setup \<Rightarrow> attempt_ctx \<Rightarrow> provider_response \<Rightarrow> response_body \<Rightarrow> nat \<Rightarrow> usage_counts
     \<Rightarrow> call_state \<Rightarrow> call_state \<times> attempt_end" where
  "output_attempt U X resp body len usage s =
     (let stream = rm_stream (cu_meta U);
          s = (if stream then s else call_report U X (Success (up_status resp)) s);
          s = push_chain X (up_status resp) ''success'' [] s
      in (s, Stop (answer_of U X resp (up_status resp) (up_headers resp) body ''success''
                (call_timings stream (cs_dispatch_wait_ms s) (ax_latency X)) len usage s)))"

definition body_read_error :: "string \<Rightarrow> call_error" where
  "body_read_error err = before_dispatch 502 (''failed to read provider response body: '' @ err)"

text \<open>A body that cannot be read ends the call at once, and nobody reports the node.\<close>

definition accepted_attempt ::
  "call_setup \<Rightarrow> attempt_world \<Rightarrow> attempt_ctx \<Rightarrow> provider_response \<Rightarrow> call_state
     \<Rightarrow> call_state \<times> attempt_end" where
  "accepted_attempt U W X resp s =
     (let S = cu_serde U; path = cu_path U
      in if rm_stream (cu_meta U) then
           (let timeout = cap_precheck_timeout_secs (stream_probe_precheck_timeout (cu_probe_class U))
                            (cu_budget_ms U) (cs_chain s) (ax_latency X);
                early = (\<lambda>(t, item). t < 1000 * timeout)
            in case precheck_stream_first_output S path (map snd (takeWhile early (up_items resp)))
                      (map snd (dropWhile early (up_items resp))) of
                 Some chunks \<Rightarrow> output_attempt U X resp (StreamedBody chunks) 0 usage_default s
               | None \<Rightarrow> no_output_attempt U W X resp s)
         else
           (case up_body resp of
              Inl err \<Rightarrow>
                (s, Stop (Failed (body_read_error err)))
            | Inr bytes \<Rightarrow>
                (let usage = extract_usage_counts S path bytes;
                     bytes = rewrite_nonstream_response_model S path bytes (cu_public_model U)
                 in if response_has_assistant_output S path bytes
                    then output_attempt U X resp (FullBody bytes) (length bytes) usage s
                    else no_output_attempt U W X resp s)))"

definition direct_allowed :: "call_setup \<Rightarrow> attempt_ctx \<Rightarrow> bool" where
  "direct_allowed U X \<longleftrightarrow>
     cu_allow_direct_fallback U \<and> rm_allow_direct_fallback (cu_meta U) \<and> ax_node_id X \<noteq> ''direct''"

text \<open>An answer whose status is no success.\<close>

definition status_attempt ::
  "call_setup \<Rightarrow> attempt_ctx \<Rightarrow> provider_response \<Rightarrow> call_state \<Rightarrow> call_state \<times> attempt_end" where
  "status_attempt U X resp s =
     (let status = up_status resp; limited = (status = 429);
          kind = (if limited then ''upstream_429'' else ''upstream_error'');
          outcome = (if limited then ''rate_limited'' else ''upstream_error'');
          s = s\<lparr>cs_last_status := status\<rparr>;
          s = call_report U X (result_kind_for_status status) s;
          s = s\<lparr>cs_was_rate_limited := (cs_was_rate_limited s \<or> limited)\<rparr>;
          s = call_clear_pin_for_failure U status kind s;
          s = push_chain X status outcome kind s;
          s = (if direct_allowed U X \<and> is_direct_fallback_status status
                  \<and> ax_attempt X < cu_base_max U
               then s\<lparr>cs_force_direct := True\<rparr> else s)
      in if cu_base_max U \<le> ax_attempt X
         then (s, Stop (fail_attempt U X status (''upstream error '' @ show_nat status)
                (case map_of (up_headers resp) ''retry-after'' of
                   Some v \<Rightarrow> if visible_ascii v then parse_u64 v else None | None \<Rightarrow> None)
                outcome (cs_was_rate_limited s) kind s))
         else (s, Onwards))"

definition retry_after_of_error :: "app_error \<Rightarrow> nat option" where
  "retry_after_of_error e =
     (case ae_upstream_headers e of
        None \<Rightarrow> None
      | Some hs \<Rightarrow>
          (case List.find (\<lambda>(k, v). to_ascii_lowercase k = ''retry-after'') hs of
             Some (k, v) \<Rightarrow> parse_u64 v | None \<Rightarrow> None))"

text \<open>What the node is told of an error of the client, and the entry of the chain.\<close>

definition report_app_error ::
  "call_setup \<Rightarrow> attempt_ctx \<Rightarrow> app_error \<Rightarrow> call_state \<Rightarrow> call_state" where
  "report_app_error U X e s =
     (let status = ae_status e
      in if is_provider_rate_limited status (ae_message e) then
           push_chain X status ''rate_limited'' ''upstream_429''
             (call_report U X RateLimited (s\<lparr>cs_was_rate_limited := True\<rparr>))
         else if is_upstream_busy status (ae_message e) then
           push_chain X status ''upstream_busy'' ''upstream_busy''
             (call_report U X (Success status) s)
         else
           (let (kind, outcome, error_type) = classify_app_error e
            in push_chain X status outcome error_type
                 (call_report U X (result_kind_for_app_error e kind error_type)
                   (call_clear_pin_for_failure U status error_type s))))"

definition final_outcome_of_error :: "app_error \<Rightarrow> string" where
  "final_outcome_of_error e =
     (let (kind, outcome, error_type) = classify_app_error e
      in if is_provider_rate_limited (ae_status e) (ae_message e) then ''rate_limited''
         else if is_upstream_busy (ae_status e) (ae_message e) then ''upstream_busy''
         else if is_empty_upstream_error e then ''empty_output''
         else if error_type = ''provider_invalid_request'' then outcome
         else if kind \<in> {Timeout, ConnectionRefused, DnsFailure, SocksHandshake, OtherError}
         then ''transport_error''
         else outcome)"

definition error_attempt ::
  "call_setup \<Rightarrow> attempt_ctx \<Rightarrow> app_error \<Rightarrow> call_state \<Rightarrow> call_state \<times> attempt_end" where
  "error_attempt U X e s =
     (let status = ae_status e; retry_after = retry_after_of_error e;
          s = report_app_error U X e (s\<lparr>cs_last_status := status\<rparr>);
          limited = (cs_was_rate_limited s \<or> is_provider_rate_limited status (ae_message e));
          max_for_error = max_retries_for_app_error e (cu_base_max U) (cu_empty_max U)
      in if budget_spent U s
         then (s, Stop (fail_on_budget U X status ''provider_error'' retry_after limited s))
         else
           (let s' = (if direct_allowed U X
                         \<and> is_transport_error_type (snd (snd (classify_app_error e)))
                         \<and> ax_attempt X < max_for_error
                      then s\<lparr>cs_force_direct := True\<rparr> else s)
            in if max_for_error \<le> ax_attempt X
               then (s', Stop (fail_attempt U X status (ae_message e) retry_after
                       (final_outcome_of_error e) limited (final_outcome_of_error e) s'))
               else (s', Onwards)))"

text \<open>The call of an attempt; the deadline is checked before and guards the kernel's answer.\<close>

definition is_success_status :: "nat \<Rightarrow> bool" where
  "is_success_status status \<longleftrightarrow> 200 \<le> status \<and> status < 300"

definition run_attempt ::
  "call_setup \<Rightarrow> attempt_world \<Rightarrow> attempt_ctx \<Rightarrow> call_state \<Rightarrow> call_state \<times> attempt_end" where
  "run_attempt U W X s =
     (let deadline = remaining_retry_budget_ms (cu_budget_ms U) (cs_chain s);
          K = kernel_for_node (cu_kernel U) (ax_node_id X) (ax_node_url X)
      in if deadline = Some 0 then
           (s, Stop (Failed (after_dispatch (cs_last_status s)
                 (retry_budget_message (retry_chain_latency_ms (cs_chain s)) (cs_last_status s)
                    ''provider_error'' (cs_chain s))
                 None (ax_request_id X) (ax_node_id X) (ax_node_url X) (cu_upstream_model U)
                 ''retry_budget_exhausted'' (ax_attempt X) (cs_was_rate_limited s) 0
                 ''retry_budget_exhausted'' (cs_chain s))))
         else if deadline \<noteq> None \<and> aw_timed_out W then timed_out_attempt U X s
         else
           case aw_kernel W K (dr_client (ax_dispatch X)) (cu_prepared U) of
             Inl e \<Rightarrow> error_attempt U X e s
           | Inr resp \<Rightarrow>
               if is_success_status (up_status resp) then accepted_attempt U W X resp s
               else status_attempt U X resp s)"

definition attempt_once ::
  "call_setup \<Rightarrow> attempt_world \<Rightarrow> nat \<Rightarrow> call_state \<Rightarrow> call_state \<times> attempt_end" where
  "attempt_once U W attempt s =
     (let (r, M, ev) = lease_node U W attempt s;
          s = s\<lparr>cs_manager := M, cs_env := ev, cs_force_direct := False\<rparr>
      in case r of
           Inl e \<Rightarrow> (s, Stop (Failed e))
         | Inr d \<Rightarrow>
             (let i = nr_id (dr_node d);
                  s = s\<lparr>cs_dispatch_wait_ms := sat_add 64 (cs_dispatch_wait_ms s) (aw_dispatch_ms W),
                        cs_last_node_id := i, cs_log := cs_log s @ [Leased i]\<rparr>;
                  X = \<lparr>ax_attempt = attempt, ax_node_id = i, ax_node_url = dr_url d,
                       ax_request_id = aw_request_id W, ax_latency = aw_latency W,
                       ax_dispatch = d, ax_clock = aw_report_clock W\<rparr>
              in run_attempt U W X s))"

text \<open>The end of the loop's body: the budget, then the wait before the next attempt.\<close>

definition loop_tail ::
  "call_setup \<Rightarrow> attempt_world \<Rightarrow> nat \<Rightarrow> call_state \<Rightarrow> call_state \<times> call_outcome option" where
  "loop_tail U W attempt s =
     (let elapsed = retry_chain_latency_ms (cs_chain s)
      in if budget_spent U s then
           (s, Some (Failed (after_dispatch (cs_last_status s)
              (retry_budget_message elapsed (cs_last_status s) ''provider_error'' (cs_chain s)) None
              (aw_final_id W) [] [] (cu_upstream_model U) ''retry_budget_exhausted'' attempt
              (cs_was_rate_limited s) elapsed ''retry_budget_exhausted'' (cs_chain s))))
         else (s\<lparr>cs_backoffs := cs_backoffs s @
                    [smart_backoff (aw_jitter W) attempt (Some (cs_last_status s))]\<rparr>, None))"

text \<open>
  The attempts still to come, each with its world; after the last the call fails with the last
  status.
\<close>

fun retry_loop ::
  "call_setup \<Rightarrow> (nat \<Rightarrow> attempt_world) \<Rightarrow> nat \<Rightarrow> nat \<Rightarrow> call_state \<Rightarrow> call_state \<times> call_outcome" where
  "retry_loop U world attempt 0 s =
     (s, Failed (before_dispatch (cs_last_status s)
            (''upstream error '' @ show_nat (cs_last_status s))))"
| "retry_loop U world attempt (Suc n) s =
     (let W = world attempt; (s, e) = attempt_once U W attempt s
      in case e of
           Stop r \<Rightarrow> (s, r)
         | Again \<Rightarrow> retry_loop U world (Suc attempt) n s
         | Onwards \<Rightarrow>
             (let (s, r) = loop_tail U W attempt s
              in case r of
                   Some r \<Rightarrow> (s, r)
                 | None \<Rightarrow> retry_loop U world (Suc attempt) n s))"

section \<open>The call\<close>

definition provider_kernel_config :: "config \<Rightarrow> kernel_config" where
  "provider_kernel_config conf =
     \<lparr>kc_zen_chat_url = chat_url conf, kc_zen_api_key = cf_upstream_api_key (cf_server conf),
      kc_extra_headers = [], kc_model_mappings = cf_model_mapping (cf_server conf),
      kc_true_first_token_frt = cf_free_model_true_first_token_frt (cf_server conf),
      kc_initial_fetch_timeout_secs =
        cf_free_model_claude_code_stream_initial_fetch_timeout_secs (cf_server conf),
      kc_slow_guard_min_input_tokens =
        cf_free_model_claude_code_stream_slow_guard_min_input_tokens (cf_server conf),
      kc_no_forwardable_retry_secs =
        cf_free_model_claude_code_stream_no_forwardable_retry_secs (cf_server conf),
      kc_reasoning_stall_retry_secs = 15, kc_reasoning_stall_window_secs = 5,
      kc_max_wait_forwardable_secs = 60\<rparr>"

record upstream_call_context =
  uk_public_model :: string
  uk_upstream_model :: string
  uk_compatibility_profile :: model_compatibility_profile
  uk_source_client :: string

definition call_setup_of ::
  "crypto \<Rightarrow> serde \<Rightarrow> request_decoders \<Rightarrow> config \<Rightarrow> string \<Rightarrow> request_meta \<Rightarrow> json
     \<Rightarrow> upstream_call_context \<Rightarrow> prepared_request \<Rightarrow> call_setup" where
  "call_setup_of C S R conf path m body x prepared =
     (let base_max = cf_pool_max_retries (cf_server conf);
          configured_empty = max (cf_v4_empty_upstream_max_retries (cf_server conf)) base_max;
          source = uk_source_client x;
          probe = stream_probe_class_of S R path m body source
      in \<lparr>cu_crypto = C, cu_serde = S, cu_path = path, cu_meta = m,
          cu_public_model = uk_public_model x, cu_upstream_model = uk_upstream_model x,
          cu_kernel = provider_kernel_config conf, cu_base_max = base_max,
          cu_empty_max =
            effective_empty_upstream_max_retries S R path m configured_empty body source,
          cu_budget_ms =
            effective_retry_budget_ms S R path m (cf_v4_retry_budget_ms (cf_server conf)) body source,
          cu_allow_direct_fallback = cf_allow_direct_fallback (cf_server conf),
          cu_probe_class = probe,
          cu_fallback = (\<lambda>now. build_stream_probe_local_fallback S R now path body source
            (uk_public_model x) probe),
          cu_prepared = prepared\<rparr>)"

definition call_with_retry ::
  "crypto \<Rightarrow> serde \<Rightarrow> request_decoders \<Rightarrow> config \<Rightarrow> string \<Rightarrow> request_meta \<Rightarrow> json
     \<Rightarrow> upstream_call_context \<Rightarrow> (nat \<Rightarrow> attempt_world) \<Rightarrow> pool_manager \<Rightarrow> env
     \<Rightarrow> call_state \<times> call_outcome" where
  "call_with_retry C S R conf path m body x world M ev =
     (case prepare_call_request R path body (uk_source_client x) (uk_compatibility_profile x) of
        Inl e \<Rightarrow> (call_start M ev, Failed e)
      | Inr prepared \<Rightarrow>
          (let U = call_setup_of C S R conf path m body x prepared
           in retry_loop U world 0 (Suc (cu_empty_max U)) (call_start M ev)))"

end
