(* ===== verification/RetryCorrect.thy ===== *)
theory RetryCorrect
  imports RetryLoop ManagerCorrect
begin

text \<open>
  The calls upstream settle what they lease: every node leased by an attempt is reported before the
  next attempt or the end of the call, except when a stream is handed on, whose task reports the
  node itself, and except when a buffered body cannot be read.
\<close>

section \<open>Settled logs\<close>

fun settled :: "lease_event list \<Rightarrow> bool" where
  "settled [] \<longleftrightarrow> True"
| "settled (Leased i # Reported j r l # rest) \<longleftrightarrow> i = j \<and> settled rest"
| "settled _ \<longleftrightarrow> False"

lemma settled_append: "settled xs \<Longrightarrow> settled ys \<Longrightarrow> settled (xs @ ys)"
  by (induction xs rule: settled.induct) auto

lemma settled_snoc: "settled xs \<Longrightarrow> settled (xs @ [Leased i, Reported i r l])"
  by (rule settled_append) auto

section \<open>What the steps leave unchanged\<close>

lemma call_report_log [frame_simps]:
  "cs_log (call_report U X r s) = cs_log s @ [Reported (ax_node_id X) r (ax_latency X)]"
  "cs_chain (call_report U X r s) = cs_chain s"
  "cs_manager (call_report U X r s) =
     report (cu_crypto U) (ax_node_id X) r (ax_latency X) (ax_clock X) (cs_manager s)"
  by (simp_all add: call_report_def report_logged_def)

lemma push_chain_log [frame_simps]:
  "cs_log (push_chain X st out err s) = cs_log s"
  "cs_manager (push_chain X st out err s) = cs_manager s"
  by (simp_all add: push_chain_def)

lemma call_clear_pin_log [frame_simps]:
  "cs_log (call_clear_pin U s) = cs_log s"
  "cs_log (call_clear_pin_for_failure U st err s) = cs_log s"
  by (simp_all add: call_clear_pin_def call_clear_pin_for_failure_def Let_def split: prod.split)

lemma call_clear_pin_wf [wf_intros]:
  "pm_wf (cs_manager s) \<Longrightarrow> pm_wf (cs_manager (call_clear_pin U s))"
  "pm_wf (cs_manager s) \<Longrightarrow> pm_wf (cs_manager (call_clear_pin_for_failure U st err s))"
  by (auto simp: call_clear_pin_def call_clear_pin_for_failure_def clear_pin_def pm_wf_def
      Let_def split: prod.split)

section \<open>One attempt\<close>

text \<open>An answer of the provider whose status is a success and whose body cannot be read.\<close>

definition body_unread :: "attempt_world \<Rightarrow> string \<Rightarrow> bool" where
  "body_unread W err \<longleftrightarrow>
     (\<exists>K client req resp. aw_kernel W K client req = Inr resp \<and> is_success_status (up_status resp)
        \<and> up_body resp = Inl err)"

text \<open>The two ways an attempt leaves its node to others: a stream handed on, a body not read.\<close>

definition hands_on :: "call_setup \<Rightarrow> attempt_world \<Rightarrow> node_id \<Rightarrow> call_outcome \<Rightarrow> bool" where
  "hands_on U W i r \<longleftrightarrow>
     (case r of
        Answered a \<Rightarrow> rm_stream (cu_meta U) \<and> cl_selected_node_id a = i
          \<and> cl_outcome a = ''success''
          \<and> (\<exists>chunks. cl_body a = StreamedBody chunks)
      | Failed e \<Rightarrow> \<not> rm_stream (cu_meta U) \<and> (\<exists>err. e = body_read_error err \<and> body_unread W err))"

lemma hands_on_answer:
  "hands_on U W i (answer_of U X resp st hs body out tm len us s) \<longleftrightarrow>
     rm_stream (cu_meta U) \<and> ax_node_id X = i \<and> out = ''success'' \<and> (\<exists>chunks. body = StreamedBody chunks)"
  by (auto simp: hands_on_def answer_of_def)

text \<open>
  The other attempts report their node.  An answer is then either a buffered one, whose node is told
  of a success, or the local answer to a probe, whose node is told of a soft failure.
\<close>

definition answers_for :: "call_setup \<Rightarrow> node_id \<Rightarrow> result_kind \<Rightarrow> call_outcome \<Rightarrow> bool" where
  "answers_for U i k r \<longleftrightarrow>
     (case r of
        Answered a \<Rightarrow>
          cl_selected_node_id a = i
          \<and> (\<exists>body. cl_body a = FullBody body
              \<and> (\<not> rm_stream (cu_meta U) \<and> cl_outcome a = ''success'' \<and> k = Success (cl_status a)
                 \<or> cl_outcome a = ''probe_local_fallback'' \<and> k = SoftFailure OtherError
                   \<and> (\<exists>now. cu_fallback U now = Some body)))
      | Failed _ \<Rightarrow> True)"

lemma answers_for_simps [simp]:
  "answers_for U i k (Failed e)"
  "answers_for U i k (fail_attempt U X st msg ra out limited kind s)"
  "answers_for U i k (fail_on_budget U X st cat ra limited s)"
  "answers_for U i k (answer_of U X resp st hs body out tm len us s) \<longleftrightarrow>
     ax_node_id X = i
     \<and> (\<exists>b. body = FullBody b
         \<and> (\<not> rm_stream (cu_meta U) \<and> out = ''success'' \<and> k = Success st
            \<or> out = ''probe_local_fallback'' \<and> k = SoftFailure OtherError
              \<and> (\<exists>now. cu_fallback U now = Some b)))"
  by (auto simp: answers_for_def fail_attempt_def fail_on_budget_def answer_of_def)

definition settles ::
  "call_setup \<Rightarrow> attempt_world \<Rightarrow> attempt_ctx \<Rightarrow> call_state \<Rightarrow> call_state \<times> attempt_end \<Rightarrow> bool" where
  "settles U W X s p \<longleftrightarrow>
     (\<exists>k. cs_log (fst p) = cs_log s @ [Reported (ax_node_id X) k (ax_latency X)]
        \<and> (\<forall>r. snd p = Stop r \<longrightarrow> answers_for U (ax_node_id X) k r))
     \<or> cs_log (fst p) = cs_log s \<and> (\<exists>r. snd p = Stop r \<and> hands_on U W (ax_node_id X) r)"

lemma timed_out_settles: "settles U W X s (timed_out_attempt U X s)"
  by (simp add: timed_out_attempt_def settles_def frame_simps Let_def)

lemma local_probe_settles:
  "cu_fallback U now = Some body \<Longrightarrow> settles U W X s (local_probe_answer U X resp body s)"
  by (auto simp: local_probe_answer_def settles_def frame_simps Let_def)

lemma empty_settles: "settles U W X s (empty_attempt U X s)"
  by (simp add: empty_attempt_def settles_def frame_simps Let_def)

lemma output_settles:
  "(case body of StreamedBody _ \<Rightarrow> rm_stream (cu_meta U) | FullBody _ \<Rightarrow> \<not> rm_stream (cu_meta U)) \<Longrightarrow>
     settles U W X s (output_attempt U X resp body len usage s)"
  by (auto simp: output_attempt_def settles_def frame_simps Let_def hands_on_answer
      split: response_body.splits)

lemma no_output_settles: "settles U W X s (no_output_attempt U W X resp s)"
  by (simp add: no_output_attempt_def local_probe_settles empty_settles split: option.split)

lemma accepted_settles:
  assumes k: "aw_kernel W K client req = Inr resp" and ok: "is_success_status (up_status resp)"
  shows "settles U W X s (accepted_attempt U W X resp s)"
proof (cases "rm_stream (cu_meta U)")
  case True
  then show ?thesis
    by (simp add: accepted_attempt_def Let_def output_settles no_output_settles split: option.split)
next
  case False
  show ?thesis
  proof (cases "up_body resp")
    case (Inl err)
    with k ok have "body_unread W err" unfolding body_unread_def by blast
    with False Inl show ?thesis by (auto simp: accepted_attempt_def settles_def hands_on_def)
  next
    case (Inr bytes)
    with False show ?thesis
      by (simp add: accepted_attempt_def Let_def output_settles no_output_settles)
  qed
qed

lemma status_settles: "settles U W X s (status_attempt U X resp s)"
  by (simp add: status_attempt_def settles_def frame_simps Let_def)

lemma report_app_error_log:
  "\<exists>r. cs_log (report_app_error U X e s) = cs_log s @ [Reported (ax_node_id X) r (ax_latency X)]"
  by (simp add: report_app_error_def frame_simps Let_def split: prod.split)

lemma error_settles: "settles U W X s (error_attempt U X e s)"
  using report_app_error_log [of U X e "s\<lparr>cs_last_status := ae_status e\<rparr>"]
  by (simp add: error_attempt_def settles_def Let_def)

lemma deadline_not_passed:
  "\<not> budget_spent U s \<Longrightarrow> remaining_retry_budget_ms (cu_budget_ms U) (cs_chain s) \<noteq> Some 0"
  by (auto simp: budget_spent_def remaining_retry_budget_ms_def)

lemma run_attempt_settles:
  "\<not> budget_spent U s \<Longrightarrow> settles U W X s (run_attempt U W X s)"
  by (simp add: run_attempt_def deadline_not_passed Let_def timed_out_settles error_settles
      accepted_settles status_settles split: sum.split)

text \<open>An attempt that is tried again has left some of the budget.\<close>

lemma again_within_budget:
  assumes "run_attempt U W X s = (s', Again)"
  shows "\<not> budget_spent U s'"
proof -
  have e: "\<not> budget_spent U t'" if "empty_attempt U X t = (t', Again)" for t t'
    using that by (auto simp: empty_attempt_def Let_def split: if_splits)
  have n: "\<not> budget_spent U t'" if "no_output_attempt U W X resp t = (t', Again)" for resp t t'
    using that e by (auto simp: no_output_attempt_def local_probe_answer_def Let_def split: option.splits)
  have a: "\<not> budget_spent U t'" if "accepted_attempt U W X resp t = (t', Again)" for resp t t'
    using that n
    by (auto simp: accepted_attempt_def output_attempt_def Let_def
        split: option.splits sum.splits if_splits)
  from assms a show ?thesis
    by (auto simp: run_attempt_def Let_def timed_out_attempt_def error_attempt_def status_attempt_def
        split: sum.splits if_splits)
qed

section \<open>The manager\<close>

definition keeps_wf :: "call_state \<Rightarrow> call_state \<times> attempt_end \<Rightarrow> bool" where
  "keeps_wf s p \<longleftrightarrow> (pm_wf (cs_manager s) \<longrightarrow> pm_wf (cs_manager (fst p)))"

lemma attempt_keeps_wf:
  "keeps_wf s (timed_out_attempt U X s)"
  "keeps_wf s (local_probe_answer U X resp body s)"
  "keeps_wf s (empty_attempt U X s)"
  "keeps_wf s (output_attempt U X resp rbody len usage s)"
  "keeps_wf s (status_attempt U X resp s)"
  "keeps_wf s (error_attempt U X e s)"
  by (simp_all add: keeps_wf_def timed_out_attempt_def local_probe_answer_def empty_attempt_def
      output_attempt_def status_attempt_def error_attempt_def report_app_error_def frame_simps
      report_wf call_clear_pin_wf Let_def split: prod.split)

lemma run_attempt_keeps_wf: "keeps_wf s (run_attempt U W X s)"
  by (auto simp: run_attempt_def accepted_attempt_def no_output_attempt_def attempt_keeps_wf Let_def
      split: sum.split option.split) (simp_all add: keeps_wf_def)

section \<open>Leasing\<close>

lemma dispatch_keeps_wf:
  assumes "pm_wf M"
  shows "dispatch m ck M ev = (r, M', ev') \<Longrightarrow> pm_wf M'"
    and "dispatch_excluding m ex ck M ev = (r, M', ev') \<Longrightarrow> pm_wf M'"
    and "dispatch_sticky m i ck M ev = (r, M', ev') \<Longrightarrow> pm_wf M'"
    and "dispatch_direct M = (r, M') \<Longrightarrow> pm_wf M'"
  using dispatch_wf [OF assms] unfolding dispatch_def dispatch_sticky_def
  by (metis fst_conv snd_conv)+

lemma dispatch_or_wait_wf:
  assumes "pm_wf M" and "dispatch_or_wait m a n ck ck' M ev = (r, M', ev')"
  shows "pm_wf M'"
proof -
  obtain r1 M1 ev1 where d: "dispatch m ck M ev = (r1, M1, ev1)" by (cases "dispatch m ck M ev")
  obtain r2 M2 ev2 where d2: "dispatch m ck' M1 ev1 = (r2, M2, ev2)" by (cases "dispatch m ck' M1 ev1")
  from dispatch_keeps_wf(1) [OF assms(1) d] have M1: "pm_wf M1" .
  from dispatch_keeps_wf(1) [OF M1 d2] have M2: "pm_wf M2" .
  from assms(2) M1 M2 show ?thesis
    by (auto simp: dispatch_or_wait_def d d2 split: sum.splits dispatch_error.splits if_splits)
qed

lemma lease_node_wf:
  assumes M: "pm_wf (cs_manager s)" and l: "lease_node U W a s = (r, M', ev')"
  shows "pm_wf M'"
proof -
  let ?m = "cu_meta U" and ?ck = "aw_clock W" and ?M = "cs_manager s" and ?ev = "cs_env s"
  obtain r1 M1 where d1: "dispatch_direct ?M = (r1, M1)" by (cases "dispatch_direct ?M")
  obtain r2 M2 ev2 where d2: "dispatch_excluding ?m (cs_empty_nodes s) ?ck ?M ?ev = (r2, M2, ev2)"
    by (cases "dispatch_excluding ?m (cs_empty_nodes s) ?ck ?M ?ev")
  obtain r3 M3 ev3 where d3: "dispatch ?m (aw_retry_clock W) M2 ev2 = (r3, M3, ev3)"
    by (cases "dispatch ?m (aw_retry_clock W) M2 ev2")
  obtain r4 M4 ev4 where d4: "dispatch_sticky ?m (cs_last_node_id s) ?ck ?M ?ev = (r4, M4, ev4)"
    by (cases "dispatch_sticky ?m (cs_last_node_id s) ?ck ?M ?ev")
  have w: "pm_wf M1" "pm_wf M2" "pm_wf M4"
    using dispatch_keeps_wf(4) [OF M d1] dispatch_keeps_wf(2) [OF M d2] dispatch_keeps_wf(3) [OF M d4]
    by auto
  have w3: "pm_wf M3" by (rule dispatch_keeps_wf(1) [OF w(2) d3])
  from l show ?thesis
    using w w3 dispatch_or_wait_wf [OF M] dispatch_or_wait_wf [OF w(3)]
    by (auto simp: lease_node_def d1 d2 d3 d4 Let_def split: if_splits sum.splits)
qed

section \<open>The loop\<close>

text \<open>The state an attempt starts from, once its node is leased.\<close>

definition leased_state ::
  "attempt_world \<Rightarrow> node_id \<Rightarrow> pool_manager \<Rightarrow> env \<Rightarrow> call_state \<Rightarrow> call_state" where
  "leased_state W i M ev s =
     s\<lparr>cs_manager := M, cs_env := ev, cs_force_direct := False,
       cs_dispatch_wait_ms := sat_add 64 (cs_dispatch_wait_ms s) (aw_dispatch_ms W),
       cs_last_node_id := i, cs_log := cs_log s @ [Leased i]\<rparr>"

lemma attempt_once_cases:
  assumes "attempt_once U W a s = (s', e)"
  obtains (refused) M ev err where "lease_node U W a s = (Inl err, M, ev)" and "e = Stop (Failed err)"
      and "s' = s\<lparr>cs_manager := M, cs_env := ev, cs_force_direct := False\<rparr>"
    | (leased) M ev d X where "lease_node U W a s = (Inr d, M, ev)"
      and "ax_node_id X = nr_id (dr_node d)" and "ax_attempt X = a"
      and "run_attempt U W X (leased_state W (nr_id (dr_node d)) M ev s) = (s', e)"
proof -
  obtain r M ev where l: "lease_node U W a s = (r, M, ev)" by (cases "lease_node U W a s")
  show ?thesis
  proof (cases r)
    case (Inl err)
    with assms l show ?thesis by (intro refused [of err M ev]) (auto simp: attempt_once_def)
  next
    case (Inr d)
    let ?X = "\<lparr>ax_attempt = a, ax_node_id = nr_id (dr_node d), ax_node_url = dr_url d,
        ax_request_id = aw_request_id W, ax_latency = aw_latency W, ax_dispatch = d,
        ax_clock = aw_report_clock W\<rparr>"
    from assms l Inr show ?thesis
      by (intro leased [of d M ev ?X]) (simp_all add: attempt_once_def leased_state_def Let_def)
  qed
qed

text \<open>How a call ends: everything settled, or one lease handed on.\<close>

definition call_settled ::
  "call_setup \<Rightarrow> (nat \<Rightarrow> attempt_world) \<Rightarrow> call_state \<times> call_outcome \<Rightarrow> bool" where
  "call_settled U world p \<longleftrightarrow>
     (case snd p of
        Failed _ \<Rightarrow> settled (cs_log (fst p))
      | Answered a \<Rightarrow>
          (\<exists>before k l. cs_log (fst p) = before @ [Leased (cl_selected_node_id a),
              Reported (cl_selected_node_id a) k l] \<and> settled before
            \<and> answers_for U (cl_selected_node_id a) k (snd p)))
     \<or> (\<exists>before i. cs_log (fst p) = before @ [Leased i] \<and> settled before
          \<and> (\<exists>n. hands_on U (world n) i (snd p)))"

lemma attempt_once_settles:
  assumes "settled (cs_log s)" and "\<not> budget_spent U s" and "attempt_once U (world n) a s = (s', e)"
  shows "(\<exists>r. e = Stop r \<and> call_settled U world (s', r)) \<or> (\<forall>r. e \<noteq> Stop r) \<and> settled (cs_log s')"
  using assms(3)
proof (cases rule: attempt_once_cases)
  case refused
  with assms(1) show ?thesis by (simp add: call_settled_def)
next
  case (leased M ev d X)
  let ?t = "leased_state (world n) (nr_id (dr_node d)) M ev s"
  have "\<not> budget_spent U ?t" using assms(2) by (simp add: budget_spent_def leased_state_def)
  from run_attempt_settles [OF this, of "world n" X] leased(4) have "settles U (world n) X ?t (s', e)" by simp
  moreover have "cs_log ?t = cs_log s @ [Leased (ax_node_id X)]"
    by (simp add: leased_state_def leased(2))
  ultimately consider (reported) k where
      "cs_log s' = cs_log s @ [Leased (ax_node_id X), Reported (ax_node_id X) k (ax_latency X)]"
      "\<forall>r. e = Stop r \<longrightarrow> answers_for U (ax_node_id X) k r"
    | (handed) r where "cs_log s' = cs_log s @ [Leased (ax_node_id X)]" "e = Stop r"
        "hands_on U (world n) (ax_node_id X) r"
    by (auto simp: settles_def)
  then show ?thesis
  proof cases
    case reported
    note snoc = settled_snoc [OF assms(1), of "ax_node_id X" k "ax_latency X"]
    show ?thesis
    proof (cases e)
      case (Stop r)
      with reported(2) have "answers_for U (ax_node_id X) k r" by simp
      with Stop reported(1) snoc assms(1) have "call_settled U world (s', r)"
        by (cases r) (auto simp: call_settled_def answers_for_def)
      with Stop show ?thesis by simp
    qed (use reported(1) snoc in simp_all)
  next
    case handed
    with assms(1) show ?thesis by (auto simp: call_settled_def)
  qed
qed

lemma attempt_once_again:
  assumes "attempt_once U W a s = (s', Again)"
  shows "\<not> budget_spent U s'"
  using assms by (cases rule: attempt_once_cases) (auto dest: again_within_budget)

lemma retry_loop_settles:
  "settled (cs_log s) \<Longrightarrow> \<not> budget_spent U s \<Longrightarrow> call_settled U world (retry_loop U world a n s)"
proof (induction n arbitrary: a s)
  case 0
  then show ?case by (simp add: call_settled_def)
next
  case (Suc n)
  obtain s' e where o: "attempt_once U (world a) a s = (s', e)"
    by (cases "attempt_once U (world a) a s")
  note step = attempt_once_settles [of s U world a a, OF Suc.prems o]
  show ?case
  proof (cases e)
    case (Stop r)
    with step have "call_settled U world (s', r)" by (auto simp: call_settled_def)
    with Stop o show ?thesis by simp
  next
    case Again
    with step o attempt_once_again Suc.IH [of s' "Suc a"] show ?thesis by auto
  next
    case Onwards
    with step have s': "settled (cs_log s')" by auto
    show ?thesis
    proof (cases "budget_spent U s'")
      case True
      with Onwards o s' show ?thesis by (simp add: loop_tail_def Let_def call_settled_def)
    next
      case False
      let ?t = "s'\<lparr>cs_backoffs := cs_backoffs s' @
          [smart_backoff (aw_jitter (world a)) a (Some (cs_last_status s'))]\<rparr>"
      from False have "\<not> budget_spent U ?t" by (simp add: budget_spent_def)
      with s' have "call_settled U world (retry_loop U world (Suc a) n ?t)" by (intro Suc.IH) simp_all
      with Onwards o False show ?thesis by (simp add: loop_tail_def Let_def)
    qed
  qed
qed

end
