(* ===== verification/ProxyHandler.thy ===== *)
theory ProxyHandler
  imports RetryLoop Health
begin

text \<open>
  The handler of a proxied request (\<open>handle_v4_proxy\<close> in \<open>v4/provider.rs\<close>): the guard, the context
  governor, the model registry, the identity of the session, the calls upstream, and what is filed
  when they end.  It composes the components the way the code does.  Instants, identifiers and the
  fate of the sends of a stream come with the request.
\<close>

section \<open>Small parts\<close>

record nonstream_guard_decision =
  nd_action :: string
  nd_prompt_tokens :: nat
  nd_max_tokens_before :: "nat option"
  nd_max_tokens_after :: "nat option"

definition nonstream_applied :: "nonstream_guard_decision \<Rightarrow> bool" where
  "nonstream_applied d \<longleftrightarrow> nd_action d \<noteq> ''pass''"

definition nonstream_trace_line :: "nonstream_guard_decision \<Rightarrow> string" where
  "nonstream_trace_line d =
     (let show_opt = (\<lambda>v. case v of Some n \<Rightarrow> show_nat n | None \<Rightarrow> ''none'')
      in ''nonstream_guard action='' @ nd_action d @ '' prompt_tokens='' @ show_nat (nd_prompt_tokens d)
         @ '' max_tokens_before='' @ show_opt (nd_max_tokens_before d)
         @ '' max_tokens_after='' @ show_opt (nd_max_tokens_after d))"

definition apply_nonstream_output_guard :: "string \<Rightarrow> json \<Rightarrow> nonstream_guard_decision" where
  "apply_nonstream_output_guard path body =
     (let streaming = unwrap_or False (Option.bind (json_get ''stream'' body) as_bool)
      in if streaming \<or> path \<notin> set [''chat/completions'', ''messages'']
         then \<lparr>nd_action = ''pass'', nd_prompt_tokens = 0, nd_max_tokens_before = None,
               nd_max_tokens_after = None\<rparr>
         else \<lparr>nd_action = ''pass'', nd_prompt_tokens = estimate_prompt_tokens path body,
               nd_max_tokens_before =
                 Option.bind (or_else (json_get ''max_tokens'' body)
                   (json_get ''max_completion_tokens'' body)) as_u64,
               nd_max_tokens_after = Option.bind (json_get ''max_tokens'' body) as_u64\<rparr>)"

text \<open>Header values hold any byte but control characters other than the tab.\<close>

definition header_value_ok :: "string \<Rightarrow> bool" where
  "header_value_ok v \<longleftrightarrow> list_all (\<lambda>c. (32 \<le> byte_of c \<and> byte_of c \<noteq> 127) \<or> byte_of c = 9) v"

definition put_header :: "string \<Rightarrow> string \<Rightarrow> headers \<Rightarrow> headers" where
  "put_header k v hs = (if header_value_ok v then AList.update k v hs else hs)"

definition insert_context_headers :: "context_telemetry \<Rightarrow> headers \<Rightarrow> headers" where
  "insert_context_headers t hs =
     (let hs = put_header ''x-zen-context-action'' (ct_action t) hs;
          hs = put_header ''x-zen-context-original-bytes'' (show_nat (ct_original_body_bytes t)) hs;
          hs = put_header ''x-zen-context-effective-bytes'' (show_nat (ct_effective_body_bytes t)) hs
      in put_header ''x-zen-context-trimmed'' (if ct_trimmed t then ''true'' else ''false'') hs)"

definition insert_nonstream_guard_headers ::
  "nonstream_guard_decision \<Rightarrow> headers \<Rightarrow> headers" where
  "insert_nonstream_guard_headers d hs =
     (let hs = put_header ''x-zen-nonstream-guard-action'' (nd_action d) hs;
          hs = put_header ''x-zen-nonstream-prompt-tokens'' (show_nat (nd_prompt_tokens d)) hs;
          hs = (case nd_max_tokens_before d of
                  Some n \<Rightarrow> put_header ''x-zen-nonstream-original-max-tokens'' (show_nat n) hs
                | None \<Rightarrow> hs)
      in case nd_max_tokens_after d of
           Some n \<Rightarrow> put_header ''x-zen-nonstream-max-tokens'' (show_nat n) hs
         | None \<Rightarrow> hs)"

definition insert_error_diagnostics_headers :: "call_error \<Rightarrow> headers \<Rightarrow> headers" where
  "insert_error_diagnostics_headers e hs =
     (let hs = put_header ''x-zen-retry-count'' (show_nat (ce_retry_count e)) hs;
          hs = (if ce_failure_kind e \<noteq> [] then put_header ''x-zen-failure-kind'' (ce_failure_kind e) hs
                else hs);
          hs = (case ce_selected_node_id e of
                  Some i \<Rightarrow> if i \<noteq> [] then put_header ''x-zen-selected-node-id'' i hs else hs
                | None \<Rightarrow> hs);
          chain = join_with '','' (map (\<lambda>a. ta_node_id a @ '':'' @ show_nat (ta_status a) @ '':''
                    @ ta_error_type a) (take 16 (ce_retry_chain e)))
      in if chain \<noteq> [] then put_header ''x-zen-retry-chain'' chain hs else hs)"

definition classify_traffic_fallback_failure :: "nat \<Rightarrow> string \<Rightarrow> string" where
  "classify_traffic_fallback_failure status message =
     (let lower = to_ascii_lowercase message
      in if contains_str lower ''no proxy resources available''
            \<or> contains_str lower ''service temporarily unavailable'' then ''proxy_pool_exhausted''
         else if contains_str lower ''circuit open'' \<or> contains_str lower ''rate limiting''
           then ''circuit_open''
         else if contains_str lower ''request exceeds proxy node budget'' then ''request_too_large''
         else ''http_'' @ show_nat status)"

definition registry_of :: "config \<Rightarrow> model_discovery_snapshot \<Rightarrow> effective_model_registry" where
  "registry_of conf models =
     with_dynamic_allowlists (cf_dynamic_model_public_mode (cf_server conf)) models
       (cf_dynamic_model_public_allowlist (cf_server conf))
       (cf_dynamic_model_claudecode_compat_allowlist (cf_server conf))"

definition record_dynamic_model_traffic ::
  "config \<Rightarrow> nat \<Rightarrow> string \<Rightarrow> nat \<Rightarrow> string \<Rightarrow> string \<Rightarrow> model_discovery_snapshot
     \<Rightarrow> model_discovery_snapshot" where
  "record_dynamic_model_traffic conf now public_model status failure_kind message models =
     (let model_id = (case effective_resolve (registry_of conf models) public_model of
                        Inr r \<Rightarrow> mr_upstream_model r | Inl _ \<Rightarrow> public_model);
          kind = (if status = 429 \<and> failure_kind = ''rate_limited'' then ''upstream_429''
                  else if trim failure_kind = [] \<and> 400 \<le> status
                  then classify_traffic_fallback_failure status message
                  else failure_kind)
      in snd (record_traffic_result now model_id status kind message models))"

definition traffic_status_for_telemetry :: "request_telemetry \<Rightarrow> nat" where
  "traffic_status_for_telemetry t = (if rt_failure_kind t = ''client_gone'' then 499 else rt_status t)"

definition record_traffic_from_telemetry ::
  "config \<Rightarrow> nat \<Rightarrow> request_telemetry \<Rightarrow> model_discovery_snapshot \<Rightarrow> model_discovery_snapshot" where
  "record_traffic_from_telemetry conf now t =
     record_dynamic_model_traffic conf now (rt_public_model t) (traffic_status_for_telemetry t)
       (rt_failure_kind t) (rt_failure_message t)"

definition merge_protocol_guard_summary ::
  "protocol_guard_telemetry option \<Rightarrow> protocol_guard_telemetry
     \<Rightarrow> protocol_guard_telemetry option" where
  "merge_protocol_guard_summary target summary =
     (if \<not> gt_applied summary \<and> \<not> gt_pre_invalid summary then target
      else Some (case target of Some t \<Rightarrow> telemetry_merge t summary | None \<Rightarrow> summary))"

section \<open>State, environment and answer\<close>

record proxy_state =
  vs_manager :: pool_manager
  vs_env :: env
  vs_watch :: cache_watch
  vs_models :: model_discovery_snapshot
  vs_health :: upstream_health
  vs_collected :: "request_telemetry list"
  vs_log :: "lease_event list"

text \<open>What code outside the program provides.\<close>

record handler_env =
  he_crypto :: crypto
  he_serde :: serde
  he_parse_error :: "string \<Rightarrow> string"
  he_decoders :: request_decoders
  he_redact :: "string \<Rightarrow> string"
  he_artifact_exists :: "string \<Rightarrow> string \<Rightarrow> bool"

text \<open>What the world does during a request; the sends of a stream are numbered.\<close>

record request_world =
  rw_guard_times :: guard_times
  rw_final_guard_times :: guard_times
  rw_attempts :: "nat \<Rightarrow> attempt_world"
  rw_latency :: nat
  rw_ts :: int
  rw_uuid :: string
  rw_now :: nat
  rw_health_now :: nat
  rw_sends :: "nat \<Rightarrow> nat \<times> nat \<times> send_result"
  rw_dropped :: bool
  rw_stream_ms :: nat
  rw_stream_clock :: clock
  rw_stream_now :: nat

record proxy_request =
  pq_path :: string
  pq_method :: string
  pq_headers :: headers
  pq_body :: string
  pq_client_id :: string

record proxy_response =
  px_status :: nat
  px_headers :: headers
  px_body :: response_body

definition proxy_error_response :: "serde \<Rightarrow> nat \<Rightarrow> string \<Rightarrow> proxy_response" where
  "proxy_error_response S status message =
     \<lparr>px_status = status, px_headers = [(''content-type'', ''application/json'')],
      px_body = FullBody (to_string S
        (json_object [(''error'', json_object [(''message'', JString message)])]))\<rparr>"

section \<open>The request before it is sent\<close>

record governed_request =
  gq_source_client :: string
  gq_body :: json
  gq_guard :: "protocol_guard_telemetry option"
  gq_context :: context_telemetry

text \<open>The guard, the governor and the guard again; an error is answered, a panic is one.\<close>

definition govern_v4_request ::
  "handler_env \<Rightarrow> config \<Rightarrow> request_world \<Rightarrow> proxy_request
     \<Rightarrow> (proxy_response + governed_request) outcome" where
  "govern_v4_request E conf W q =
     (let S = he_serde E; path = pq_path q; refuse = (\<lambda>status message. Inl (proxy_error_response S status message))
      in case from_slice S (pq_body q) of
           None \<Rightarrow> Done (refuse 400
             (''request body must be valid JSON: '' @ he_parse_error E (pq_body q)))
         | Some parsed \<Rightarrow>
             (let source = infer_source_client path (pq_headers q) parsed
              in and_then (guard_body (he_crypto E) S conf (rw_guard_times W) path parsed source
                    PreCompact (raw_body_has_tool_markers (pq_body q)))
                 (\<lambda>(verdict, parsed). case verdict of
                    Inl r \<Rightarrow> Done (refuse (pj_status r) (pj_message r))
                  | Inr summary \<Rightarrow>
                      (let guard = merge_protocol_guard_summary None summary;
                           G = \<lparr>ge_crypto = he_crypto E, ge_serde = S,
                                ge_exists = he_artifact_exists E, ge_config = conf, ge_path = path\<rparr>
                       in case govern_request G parsed (length (pq_body q)) of
                            Inl r \<Rightarrow> Done (refuse (cj_status r) (cj_message r))
                          | Inr (plan, _) \<Rightarrow>
                              (let t = plan_telemetry plan;
                                   force = ((case guard of
                                               Some g \<Rightarrow> gt_applied g \<or> gt_pre_invalid g
                                             | None \<Rightarrow> False) \<or> ct_trimmed t)
                               in and_then (guard_body (he_crypto E) S conf (rw_final_guard_times W)
                                     path (cp_body plan) source PostCompact force)
                                  (\<lambda>(verdict, body). case verdict of
                                     Inl r \<Rightarrow> Done (refuse (pj_status r) (pj_message r))
                                   | Inr summary \<Rightarrow> Done (Inr
                                       \<lparr>gq_source_client = source, gq_body = body,
                                        gq_guard = merge_protocol_guard_summary guard summary,
                                        gq_context = t\<rparr>)))))))"

record routed_request =
  rq_streaming :: bool
  rq_public_model :: string
  rq_resolved :: model_resolution
  rq_body :: json
  rq_guard_decision :: nonstream_guard_decision
  rq_context :: context_telemetry
  rq_preflight :: ccp_audit_snap
  rq_forensics :: "cache_forensics option"
  rq_thinking :: string
  rq_meta :: request_meta
  rq_fallback_usage :: usage_counts

definition is_dynamic_profile :: "model_compatibility_profile \<Rightarrow> bool" where
  "is_dynamic_profile p \<longleftrightarrow>
     p = DynamicGeneric \<or> p = DynamicClaudeCodeCompatible \<or> p = DynamicRestricted"

definition session_or_header :: "proxy_request \<Rightarrow> string \<Rightarrow> string" where
  "session_or_header q session =
     (if session \<noteq> [] then session
      else case extract_header (pq_headers q) ''x-opencode-session'' of
             Some v \<Rightarrow> v
           | None \<Rightarrow> if trim (pq_client_id q) = [] then [] else pq_client_id q)"

definition route_v4_request ::
  "handler_env \<Rightarrow> config \<Rightarrow> proxy_request \<Rightarrow> governed_request \<Rightarrow> model_discovery_snapshot
     \<Rightarrow> cache_watch \<Rightarrow> (proxy_response + routed_request) \<times> cache_watch" where
  "route_v4_request E conf q g models w =
     (let C = he_crypto E; S = he_serde E; R = he_decoders E; redact = he_redact E;
          path = pq_path q; source = gq_source_client g; client = pq_client_id q;
          streaming = unwrap_or False (Option.bind (json_get ''stream'' (gq_body g)) as_bool);
          public_model = unwrap_or [] (get_str ''model'' (gq_body g))
      in case effective_resolve (registry_of conf models) public_model of
           Inl (UnknownModel m) \<Rightarrow>
             (Inl (proxy_error_response S 400 (''unsupported V4 model: '' @ m)), w)
         | Inr resolved \<Rightarrow>
             (let upstream = mr_upstream_model resolved;
                  body = set_key ''model'' (JString upstream) (gq_body g);
                  d = apply_nonstream_output_guard path body;
                  t = gq_context g;
                  t = (if nonstream_applied d
                       then t\<lparr>ct_trace := ct_trace t @ [nonstream_trace_line d]\<rparr> else t);
                  len = length (to_string S body);
                  t = t\<lparr>ct_effective_body_bytes := len,
                        ct_trimmed := (len < ct_original_body_bytes t),
                        ct_trimmed_bytes := ct_original_body_bytes t - len\<rparr>;
                  key_id = api_key_id_for_cache (cf_upstream_api_key (cf_server conf));
                  (usk, scope, hash, session) =
                    resolve_session_identity C S redact R path body upstream source key_id client;
                  session = session_or_header q session;
                  (preflight, w) = build_ccp_audit_snap_preflight session usk scope hash w;
                  (forensics, w) =
                    build_cache_forensics C S redact R path body upstream source key_id client w;
                  m = \<lparr>rm_model = public_model, rm_upstream_model = upstream, rm_session_id = session,
                       rm_stream = streaming, rm_body_size = len,
                       rm_affinity_key = build_affinity_key C S redact R public_model upstream path
                         source key_id client len body,
                       rm_allow_direct_fallback =
                         (\<not> is_dynamic_profile (mr_profile resolved)
                          \<or> cf_dynamic_model_allow_direct_fallback (cf_server conf))\<rparr>
              in (Inr \<lparr>rq_streaming = streaming, rq_public_model = public_model,
                       rq_resolved = resolved, rq_body = body, rq_guard_decision = d,
                       rq_context = t, rq_preflight = preflight, rq_forensics = forensics,
                       rq_thinking = infer_thinking_policy body, rq_meta = m,
                       rq_fallback_usage =
                         (if streaming
                          then usage_default\<lparr>uc_prompt_tokens := estimate_prompt_tokens path body\<rparr>
                          else usage_default)\<rparr>, w)))"

section \<open>What is filed\<close>

definition protocol_of :: "string \<Rightarrow> string" where
  "protocol_of path =
     (if path = ''messages'' then ''anthropic_messages'' else ''openai_chat_completions'')"

definition success_timings :: "bool \<Rightarrow> nat \<Rightarrow> call_result \<Rightarrow> request_timings" where
  "success_timings streaming latency a =
     (let t = (cl_timings a)\<lparr>tm_total_ms := latency\<rparr>
      in if streaming then t
         else
           (let first = max (tm_first_chunk_ms t) (unwrap_or 0 (cl_ttft_ms a))
            in t\<lparr>tm_stream_complete_ms := latency, tm_first_chunk_ms := first,
                 tm_protocol_first_byte_ms := first\<rparr>))"

definition success_telemetry ::
  "request_world \<Rightarrow> proxy_request \<Rightarrow> governed_request \<Rightarrow> routed_request \<Rightarrow> call_result
     \<Rightarrow> ccp_audit_snap \<Rightarrow> request_telemetry" where
  "success_telemetry W q g r a snap =
     (let hs = pq_headers q; external = extract_external_request_id hs; tags = extract_run_tags hs;
          u = cl_usage a
      in \<lparr>rt_rid = cl_request_id a, rt_ts = rw_ts W, rt_external_request_id = external,
          rt_gateway = infer_gateway hs external,
          rt_gateway_channel_id = unwrap_or [] (extract_header hs ''x-newapi-channel-id''),
          rt_run_id = rg_run_id tags, rt_source_platform = rg_source_platform tags,
          rt_case_id = rg_case_id tags, rt_runner_model = rg_runner_model tags,
          rt_provider_id = rg_provider_id tags, rt_turn_index = rg_turn_index tags,
          rt_model = rq_public_model r, rt_public_model = rq_public_model r,
          rt_upstream_model = cl_upstream_model a, rt_protocol = protocol_of (pq_path q),
          rt_client_id = pq_client_id q, rt_path = pq_path q, rt_method = pq_method q,
          rt_is_streaming = rq_streaming r, rt_node_url = cl_node_url_redacted a,
          rt_selected_node_id = cl_selected_node_id a,
          rt_selected_node_url_redacted = cl_node_url_redacted a,
          rt_observed_exit_ip = unwrap_or [] (cl_observed_exit_ip a),
          rt_outcome = cl_outcome a, rt_pool = ''dispatch'',
          rt_exit_ip = unwrap_or [] (cl_observed_exit_ip a), rt_status = cl_status a,
          rt_rate_limited = cl_was_rate_limited a, rt_retry_count = cl_retry_count a,
          rt_latency_total_ms = rw_latency W, rt_upstream_ms = cl_upstream_ms a,
          rt_ttft_ms = unwrap_or 0 (cl_ttft_ms a),
          rt_timings = success_timings (rq_streaming r) (rw_latency W) a,
          rt_affinity_key = rm_affinity_key (rq_meta r), rt_affinity_hit = cl_affinity_hit a,
          rt_affinity_node_id = cl_affinity_node_id a,
          rt_body_size_bucket = body_size_bucket (rm_body_size (rq_meta r)),
          rt_protocol_guard = gq_guard g,
          rt_prompt_tokens = uc_prompt_tokens u, rt_completion_tokens = uc_completion_tokens u,
          rt_total_tokens = uc_total_tokens u, rt_cached_tokens = uc_cached_tokens u,
          rt_cache_creation_input_tokens = uc_cache_creation_input_tokens u,
          rt_cache_read_input_tokens = uc_cache_read_input_tokens u,
          rt_cache_miss_input_tokens = as_cache_miss_input_tokens snap,
          rt_session_id = as_session_id snap, rt_usk = as_usk snap, rt_icp_scope = as_icp_scope snap,
          rt_prefix_32k_hash = as_prefix_32k_hash snap,
          rt_cache_forensics =
            map_option (apply_final_provider_cache (cl_final_provider_cache a)) (rq_forensics r),
          rt_prefix_drift = as_prefix_drift snap, rt_session_pin_hit = cl_session_pin_hit a,
          rt_thinking_policy = as_thinking_policy snap,
          rt_prompt_cache_key = as_prompt_cache_key snap,
          rt_provider_cache_observation = as_provider_cache_observation snap,
          rt_warmup_state = as_warmup_state snap, rt_bytes_sent = rm_body_size (rq_meta r),
          rt_bytes_received = cl_body_bytes_len a, rt_failure_kind = [], rt_failure_message = [],
          rt_empty_output_class = [], rt_raw_tool_format = [], rt_text_chars = 0,
          rt_reasoning_chars = 0, rt_retry_chain = cl_retry_chain a,
          rt_context = Some (rq_context r)\<rparr>)"

definition failure_telemetry ::
  "request_world \<Rightarrow> proxy_request \<Rightarrow> governed_request \<Rightarrow> routed_request \<Rightarrow> call_error
     \<Rightarrow> request_telemetry" where
  "failure_telemetry W q g r e =
     (let hs = pq_headers q; external = extract_external_request_id hs; tags = extract_run_tags hs;
          snap = rq_preflight r; url = unwrap_or [] (ce_node_url_redacted e)
      in \<lparr>rt_rid = unwrap_or (rw_uuid W) (ce_request_id e), rt_ts = rw_ts W,
          rt_external_request_id = external, rt_gateway = infer_gateway hs external,
          rt_gateway_channel_id = unwrap_or [] (extract_header hs ''x-newapi-channel-id''),
          rt_run_id = rg_run_id tags, rt_source_platform = rg_source_platform tags,
          rt_case_id = rg_case_id tags, rt_runner_model = rg_runner_model tags,
          rt_provider_id = rg_provider_id tags, rt_turn_index = rg_turn_index tags,
          rt_model = rq_public_model r, rt_public_model = rq_public_model r,
          rt_upstream_model = ce_upstream_model e, rt_protocol = protocol_of (pq_path q),
          rt_client_id = pq_client_id q, rt_path = pq_path q, rt_method = pq_method q,
          rt_is_streaming = rq_streaming r, rt_node_url = url,
          rt_selected_node_id = unwrap_or [] (ce_selected_node_id e),
          rt_selected_node_url_redacted = url, rt_observed_exit_ip = [],
          rt_outcome = ce_outcome e, rt_pool = ''dispatch'', rt_exit_ip = [],
          rt_status = ce_status e, rt_rate_limited = ce_was_rate_limited e,
          rt_retry_count = ce_retry_count e, rt_latency_total_ms = rw_latency W,
          rt_upstream_ms = ce_upstream_ms e, rt_ttft_ms = 0,
          rt_timings = timings_default
            \<lparr>tm_upstream_response_ms := ce_upstream_ms e, tm_total_ms := rw_latency W\<rparr>,
          rt_affinity_key = rm_affinity_key (rq_meta r), rt_affinity_hit = False,
          rt_affinity_node_id = [],
          rt_body_size_bucket = body_size_bucket (rm_body_size (rq_meta r)),
          rt_protocol_guard = gq_guard g, rt_prompt_tokens = 0, rt_completion_tokens = 0,
          rt_total_tokens = 0, rt_cached_tokens = 0, rt_cache_creation_input_tokens = 0,
          rt_cache_read_input_tokens = 0, rt_cache_miss_input_tokens = 0,
          rt_session_id = as_session_id snap, rt_usk = as_usk snap, rt_icp_scope = as_icp_scope snap,
          rt_prefix_32k_hash = as_prefix_32k_hash snap, rt_cache_forensics = rq_forensics r,
          rt_prefix_drift = as_prefix_drift snap, rt_session_pin_hit = False,
          rt_thinking_policy = rq_thinking r, rt_prompt_cache_key = as_prompt_cache_key snap,
          rt_provider_cache_observation = [], rt_warmup_state = as_warmup_state snap,
          rt_bytes_sent = rm_body_size (rq_meta r), rt_bytes_received = 0,
          rt_failure_kind = ce_failure_kind e, rt_failure_message = ce_message e,
          rt_empty_output_class =
            (if ce_failure_kind e = ''empty_output'' then ''empty'' else []),
          rt_raw_tool_format = [], rt_text_chars = 0, rt_reasoning_chars = 0,
          rt_retry_chain = ce_retry_chain e, rt_context = Some (rq_context r)\<rparr>)"

section \<open>The end of a request\<close>

text \<open>The chunks of a stream with the times and the fate of their sends.\<close>

definition chunks_of_body :: "response_body \<Rightarrow> string list" where
  "chunks_of_body b = (case b of FullBody s \<Rightarrow> [s] | StreamedBody cs \<Rightarrow> cs)"

definition meter_items :: "request_world \<Rightarrow> string list \<Rightarrow> meter_item list" where
  "meter_items W chunks =
     map (\<lambda>(i, c). let (seen, rewritten, sent) = rw_sends W i
                   in \<lparr>mi_item = BodyChunk c, mi_seen_ms = seen, mi_rewritten_ms = rewritten,
                       mi_send = sent\<rparr>)
       (enumerate 0 chunks)"

definition finish_stream ::
  "handler_env \<Rightarrow> config \<Rightarrow> request_world \<Rightarrow> routed_request \<Rightarrow> call_result \<Rightarrow> request_telemetry
     \<Rightarrow> proxy_state \<Rightarrow> response_body \<times> proxy_state" where
  "finish_stream E conf W r a t s =
     (let (res, sent, w) = metered_stream_task (he_crypto E) (he_serde E) (rw_stream_ms W)
            (rw_stream_clock W) (rw_dropped W) (meter_items W (chunks_of_body (cl_body a)))
            (rq_fallback_usage r) t (vs_manager s) (vs_env s) (vs_watch s);
          s = s\<lparr>vs_manager := mr_manager res, vs_env := mr_env res, vs_watch := w,
                vs_log := vs_log s @ mr_log res\<rparr>
      in (StreamedBody sent,
          if rw_dropped W then s
          else s\<lparr>vs_models := record_traffic_from_telemetry conf (rw_stream_now W)
                   (mr_telemetry res) (vs_models s),
                 vs_collected := vs_collected s @ [mr_telemetry res]\<rparr>))"

definition finish_buffered ::
  "config \<Rightarrow> request_world \<Rightarrow> call_result \<Rightarrow> request_telemetry \<Rightarrow> proxy_state
     \<Rightarrow> response_body \<times> proxy_state" where
  "finish_buffered conf W a t s =
     (let M = vs_manager s; i = rt_selected_node_id t;
          M = (if rt_affinity_key t \<noteq> [] \<and> cl_status a < 400
               then pm_record_bucket_latency_hint i (rt_body_size_bucket t)
                      (max (rt_ttft_ms t) (cl_upstream_ms a))
                      (pm_record_affinity_success (rt_affinity_key t) i M)
               else M)
      in (cl_body a,
          s\<lparr>vs_manager := M,
            vs_models := record_traffic_from_telemetry conf (rw_now W) t (vs_models s),
            vs_collected := vs_collected s @ [t]\<rparr>))"

definition finish_success ::
  "handler_env \<Rightarrow> config \<Rightarrow> request_world \<Rightarrow> proxy_request \<Rightarrow> governed_request \<Rightarrow> routed_request
     \<Rightarrow> call_result \<Rightarrow> proxy_state \<Rightarrow> proxy_response \<times> proxy_state" where
  "finish_success E conf W q g r a s =
     (let pre = rq_preflight r;
          (snap, w) = build_ccp_audit_snap (as_session_id pre) (as_usk pre) (as_icp_scope pre)
                        (as_prefix_32k_hash pre) (cl_usage a) (rq_thinking r) (vs_watch s);
          t = success_telemetry W q g r a snap;
          s = s\<lparr>vs_watch := w, vs_health := health_record (rw_health_now W) (cl_status a) (vs_health s)\<rparr>;
          (body, s) = (if rq_streaming r then finish_stream E conf W r a t s
                       else finish_buffered conf W a t s);
          hs = put_header ''x-zen-stream-seen'' (if rq_streaming r then ''true'' else ''false'')
                 (cl_headers a);
          hs = insert_nonstream_guard_headers (rq_guard_decision r) hs
      in (\<lparr>px_status = cl_status a, px_headers = insert_context_headers (rq_context r) hs,
           px_body = body\<rparr>, s))"

definition finish_failure ::
  "handler_env \<Rightarrow> config \<Rightarrow> request_world \<Rightarrow> proxy_request \<Rightarrow> governed_request \<Rightarrow> routed_request
     \<Rightarrow> call_error \<Rightarrow> proxy_state \<Rightarrow> proxy_response \<times> proxy_state" where
  "finish_failure E conf W q g r e s =
     (let resp = proxy_error_response (he_serde E) (ce_status e) (ce_message e);
          hs = px_headers resp;
          hs = (case ce_retry_after_secs e of
                  Some n \<Rightarrow> put_header ''retry-after'' (show_nat n) hs | None \<Rightarrow> hs);
          hs = insert_error_diagnostics_headers e hs;
          hs = insert_nonstream_guard_headers (rq_guard_decision r) hs
      in (resp\<lparr>px_headers := insert_context_headers (rq_context r) hs\<rparr>,
          s\<lparr>vs_health := health_record (rw_health_now W) (ce_status e) (vs_health s),
            vs_collected := vs_collected s @ [failure_telemetry W q g r e],
            vs_models := record_dynamic_model_traffic conf (rw_now W) (rq_public_model r)
              (ce_status e) (ce_failure_kind e) (ce_message e) (vs_models s)\<rparr>))"

definition handle_v4_proxy ::
  "handler_env \<Rightarrow> config \<Rightarrow> request_world \<Rightarrow> proxy_request \<Rightarrow> proxy_state
     \<Rightarrow> (proxy_response \<times> proxy_state) outcome" where
  "handle_v4_proxy E conf W q s =
     (if pq_method q \<noteq> ''POST''
      then Done (proxy_error_response (he_serde E) 405 ''method not allowed'', s)
      else
        and_then (govern_v4_request E conf W q) (\<lambda>governed.
          case governed of
            Inl resp \<Rightarrow> Done (resp, s)
          | Inr g \<Rightarrow>
              (case route_v4_request E conf q g (vs_models s) (vs_watch s) of
                 (Inl resp, w) \<Rightarrow> Done (resp, s\<lparr>vs_watch := w\<rparr>)
               | (Inr r, w) \<Rightarrow>
                   (let x = \<lparr>uk_public_model = rq_public_model r,
                             uk_upstream_model = mr_upstream_model (rq_resolved r),
                             uk_compatibility_profile = mr_profile (rq_resolved r),
                             uk_source_client = gq_source_client g\<rparr>;
                        (c, out) = call_with_retry (he_crypto E) (he_serde E) (he_decoders E) conf
                          (pq_path q) (rq_meta r) (rq_body r) x (rw_attempts W) (vs_manager s)
                          (vs_env s);
                        s = s\<lparr>vs_watch := w, vs_manager := cs_manager c, vs_env := cs_env c,
                              vs_log := vs_log s @ cs_log c\<rparr>
                    in Done (case out of
                               Answered a \<Rightarrow> finish_success E conf W q g r a s
                             | Failed e \<Rightarrow> finish_failure E conf W q g r e s)))))"

end
