(* ===== verification/HandlerCorrect.thy ===== *)
theory HandlerCorrect
  imports RetryCorrect ProxyHandler ManagerTheorems
begin

text \<open>
  The handler of a proxied request: it keeps the invariant of the pools, and every lease a request
  takes is settled by the end of the request, with the two exceptions the code has: a buffered body
  that cannot be read leaves its node leased, and the local answer to a streamed probe has its node
  reported twice.
\<close>

section \<open>The metered stream\<close>

lemma meter_telemetry_frame [frame_simps]:
  "rt_selected_node_id (fst (meter_telemetry ms s t w)) = rt_selected_node_id t"
  by (simp add: meter_telemetry_def Let_def split: prod.split)

lemma push_attempt_frame [frame_simps]:
  "rt_selected_node_id (push_attempt st l out err t) = rt_selected_node_id t"
  "rt_selected_node_id (fail_telemetry out kind msg t) = rt_selected_node_id t"
  by (simp_all add: push_attempt_def fail_telemetry_def)

lemma settle_log [frame_simps]:
  "mr_log (settle C r l ck g M ev t) = [Reported (rt_selected_node_id t) r l]"
  "mr_guard (settle C r l ck g M ev t) = guard_mark_released g"
  "mr_manager (settle C r l ck g M ev t) = report C (rt_selected_node_id t) r l ck M"
  by (simp_all add: settle_def report_logged_def)

lemma dropped_guard_released [simp]:
  "lg_released g \<Longrightarrow> guard_drop C ck g P = P"
  by (simp add: guard_drop_def guard_release_def)

lemma guard_marked [simp]: "lg_released (guard_mark_released g)"
  by (simp add: guard_mark_released_def)

text \<open>The end of a stream reports the node once; without a node the guard keeps silent.\<close>

lemma meter_finish_log:
  assumes "r = meter_finish C ms ck (guard_new (rt_selected_node_id t)) s ev t"
  shows "(\<exists>k. mr_log r = [Reported (rt_selected_node_id t) k ms] \<and> lg_released (mr_guard r))
    \<or> rt_selected_node_id t = [] \<and> mr_log r = [] \<and> lg_node_id (mr_guard r) = []"
proof (cases "mt_client_gone s")
  case (Some reason)
  with assms show ?thesis
    by (cases "rt_selected_node_id t = []")
      (simp_all add: meter_finish_def guard_release_def guard_new_def report_logged_def Let_def)
next
  case None
  show ?thesis
  proof (cases "mt_stream_error s")
    case (Some message)
    with None assms show ?thesis
      by (auto simp: meter_finish_def frame_simps Let_def split: prod.split)
  next
    case None': None
    with None assms show ?thesis
      by (auto simp: meter_finish_def frame_simps Let_def split: prod.split)
  qed
qed

lemma metered_stream_log:
  "\<exists>k l. mr_log (fst (metered_stream_task C S ms ck dropped its fb t M ev w))
       = [Reported (rt_selected_node_id t) k l]
     \<or> rt_selected_node_id t = []
       \<and> mr_log (fst (metered_stream_task C S ms ck dropped its fb t M ev w)) = []"
proof (cases dropped)
  case True
  then show ?thesis
    by (cases "rt_selected_node_id t = []")
      (simp_all add: metered_stream_task_def guard_drop_def guard_release_def guard_new_def
        report_logged_def Let_def)
next
  case False
  let ?s = "meter_loop S t its (meter_start M fb)"
  obtain t' w' where t': "meter_telemetry ms ?s t w = (t', w')" by (cases "meter_telemetry ms ?s t w")
  have node: "rt_selected_node_id t' = rt_selected_node_id t"
    using meter_telemetry_frame [of ms ?s t w] by (simp add: t')
  let ?r = "meter_finish C ms ck (guard_new (rt_selected_node_id t)) ?s ev t'"
  from meter_finish_log [of ?r C ms ck t' ?s ev] node
  have "(\<exists>k. mr_log ?r = [Reported (rt_selected_node_id t) k ms] \<and> lg_released (mr_guard ?r))
    \<or> rt_selected_node_id t = [] \<and> mr_log ?r = [] \<and> lg_node_id (mr_guard ?r) = []" by simp
  then show ?thesis
    using False t'
    by (auto simp: metered_stream_task_def Let_def guard_drop_def guard_release_def)
qed

section \<open>The end of a request\<close>

definition handled_state ::
  "(proxy_response \<times> proxy_state) outcome \<Rightarrow> proxy_state \<Rightarrow> proxy_state" where
  "handled_state r s = (case r of Panic \<Rightarrow> s | Done (_, s') \<Rightarrow> s')"

lemma finish_failure_log [frame_simps]:
  "vs_log (snd (finish_failure E conf W q g r e s)) = vs_log s"
  "vs_manager (snd (finish_failure E conf W q g r e s)) = vs_manager s"
  by (simp_all add: finish_failure_def Let_def)

lemma finish_buffered_log [frame_simps]:
  "vs_log (snd (finish_buffered conf W a t s)) = vs_log s"
  by (simp add: finish_buffered_def Let_def)

lemma finish_stream_log:
  "\<exists>L. vs_log (snd (finish_stream E conf W r a t s)) = vs_log s @ L
     \<and> ((\<exists>k l. L = [Reported (rt_selected_node_id t) k l]) \<or> rt_selected_node_id t = [] \<and> L = [])"
  using metered_stream_log [of "he_crypto E" "he_serde E" "rw_stream_ms W" "rw_stream_clock W"
      "rw_dropped W" "meter_items W (chunks_of_body (cl_body a))" "rq_fallback_usage r" t
      "vs_manager s" "vs_env s" "vs_watch s"]
  by (auto simp: finish_stream_def Let_def split: prod.split)

lemma success_telemetry_node [frame_simps]:
  "rt_selected_node_id (success_telemetry W q g r a snap) = cl_selected_node_id a"
  by (simp add: success_telemetry_def Let_def)

lemma finish_success_log:
  "\<exists>L. vs_log (snd (finish_success E conf W q g r a s)) = vs_log s @ L
     \<and> (if rq_streaming r
        then (\<exists>k l. L = [Reported (cl_selected_node_id a) k l])
             \<or> cl_selected_node_id a = [] \<and> L = []
        else L = [])"
proof -
  let ?pre = "rq_preflight r"
  obtain snap w where b: "build_ccp_audit_snap (as_session_id ?pre) (as_usk ?pre) (as_icp_scope ?pre)
      (as_prefix_32k_hash ?pre) (cl_usage a) (rq_thinking r) (vs_watch s) = (snap, w)"
    by (cases "build_ccp_audit_snap (as_session_id ?pre) (as_usk ?pre) (as_icp_scope ?pre)
      (as_prefix_32k_hash ?pre) (cl_usage a) (rq_thinking r) (vs_watch s)")
  let ?t = "success_telemetry W q g r a snap"
  let ?s = "s\<lparr>vs_watch := w, vs_health := health_record (rw_health_now W) (cl_status a) (vs_health s)\<rparr>"
  have s: "vs_log ?s = vs_log s" by simp
  show ?thesis
  proof (cases "rq_streaming r")
    case True
    obtain body s' where f: "finish_stream E conf W r a ?t ?s = (body, s')"
      by (cases "finish_stream E conf W r a ?t ?s")
    from True f have "vs_log (snd (finish_success E conf W q g r a s)) = vs_log s'"
      by (simp add: finish_success_def b Let_def)
    moreover from finish_stream_log [of E conf W r a ?t ?s] f s obtain L where
      "vs_log s' = vs_log s @ L"
      "(\<exists>k l. L = [Reported (cl_selected_node_id a) k l]) \<or> cl_selected_node_id a = [] \<and> L = []"
      by (auto simp: frame_simps)
    ultimately show ?thesis using True by auto
  next
    case False
    obtain body s' where f: "finish_buffered conf W a ?t ?s = (body, s')"
      by (cases "finish_buffered conf W a ?t ?s")
    from False f have "vs_log (snd (finish_success E conf W q g r a s)) = vs_log s'"
      by (simp add: finish_success_def b Let_def)
    moreover have "vs_log s' = vs_log s" using finish_buffered_log [of conf W a ?t ?s] f s by simp
    ultimately show ?thesis using False by auto
  qed
qed

section \<open>The whole request\<close>

definition handled_status :: "(proxy_response \<times> proxy_state) outcome \<Rightarrow> nat option" where
  "handled_status r = (case r of Panic \<Rightarrow> None | Done (resp, _) \<Rightarrow> Some (px_status resp))"

text \<open>How a call ends, without the setup of the loop.\<close>

lemma call_start_settled: "settled (cs_log (call_start M ev))" "\<not> budget_spent U (call_start M ev)"
  by (auto simp: call_start_def budget_spent_def retry_chain_latency_ms_def)

lemma local_fallback_streams:
  "cu_fallback (call_setup_of C S R conf path m body x prepared) now = Some b \<Longrightarrow> rm_stream m"
  by (auto simp: call_setup_of_def Let_def build_stream_probe_local_fallback_def
      stream_probe_has_local_fallback_def stream_probe_class_of_def split: if_splits)

lemma call_with_retry_cases:
  assumes c: "call_with_retry C S R conf path m body x world M ev = (c, out)"
  obtains (failed) e where "out = Failed e" "settled (cs_log c)"
  | (buffered) a before b l where "out = Answered a" "settled before" "\<not> rm_stream m"
      "cl_body a = FullBody b"
      "cs_log c = before @ [Leased (cl_selected_node_id a),
         Reported (cl_selected_node_id a) (Success (cl_status a)) l]"
  | (local) a before b l where "out = Answered a" "settled before" "rm_stream m"
      "cl_body a = FullBody b" "cl_outcome a = ''probe_local_fallback''"
      "cs_log c = before @ [Leased (cl_selected_node_id a),
         Reported (cl_selected_node_id a) (SoftFailure OtherError) l]"
  | (streamed) a before chunks where "out = Answered a" "settled before" "rm_stream m"
      "cl_body a = StreamedBody chunks" "cs_log c = before @ [Leased (cl_selected_node_id a)]"
  | (unread) e n err before i where "out = Failed e" "e = body_read_error err"
      "body_unread (world n) err" "\<not> rm_stream m" "settled before" "cs_log c = before @ [Leased i]"
proof (cases "prepare_call_request R path body (uk_source_client x) (uk_compatibility_profile x)")
  case (Inl e)
  with c show ?thesis by (intro failed) (auto simp: call_with_retry_def call_start_settled)
next
  case (Inr prepared)
  let ?U = "call_setup_of C S R conf path m body x prepared"
  have m: "cu_meta ?U = m" by (simp add: call_setup_of_def Let_def)
  have "call_settled ?U world (c, out)"
    using retry_loop_settles [of "call_start M ev" ?U world 0 "Suc (cu_empty_max ?U)"] c Inr
    by (simp add: call_with_retry_def Let_def call_start_settled)
  then consider (1) e where "out = Failed e" "settled (cs_log c)"
    | (2) a before k l where "out = Answered a" "settled before"
         "cs_log c = before @ [Leased (cl_selected_node_id a), Reported (cl_selected_node_id a) k l]"
         "answers_for ?U (cl_selected_node_id a) k out"
    | (3) before i n where "cs_log c = before @ [Leased i]" "settled before"
         "hands_on ?U (world n) i out"
    unfolding call_settled_def by (cases out) auto
  then show ?thesis
  proof cases
    case (2 a before k l)
    then obtain b where b: "cl_body a = FullBody b"
      and "\<not> rm_stream m \<and> k = Success (cl_status a)
         \<or> cl_outcome a = ''probe_local_fallback'' \<and> k = SoftFailure OtherError \<and> rm_stream m"
      using local_fallback_streams by (auto simp: answers_for_def m)
    with 2 buffered [OF 2(1,2) _ b] local [OF 2(1,2) _ b] show ?thesis by auto
  next
    case (3 before i n)
    show ?thesis
    proof (cases out)
      case (Answered a)
      with 3 streamed [OF Answered 3(2)] show ?thesis by (auto simp: hands_on_def m)
    next
      case (Failed e)
      with 3 unread [OF Failed _ _ _ 3(2,1)] show ?thesis by (auto simp: hands_on_def m)
    qed
  qed (rule failed)
qed

lemma route_streaming:
  "route_v4_request E conf q g models w = (Inr r, w') \<Longrightarrow> rq_streaming r = rm_stream (rq_meta r)"
  by (auto simp: route_v4_request_def Let_def split: sum.splits model_error.splits prod.splits)

text \<open>
  How a request's call upstream ends: nothing for a request that is answered before it is sent,
  otherwise the routed request with the outcome of its call.
\<close>

definition request_call ::
  "handler_env \<Rightarrow> config \<Rightarrow> request_world \<Rightarrow> proxy_request \<Rightarrow> proxy_state
     \<Rightarrow> (routed_request \<times> call_outcome) option" where
  "request_call E conf W q s =
     (case govern_v4_request E conf W q of
        Done (Inr g) \<Rightarrow>
          (if pq_method q \<noteq> ''POST'' then None
           else case route_v4_request E conf q g (vs_models s) (vs_watch s) of
                  (Inr r, w) \<Rightarrow> Some (r, snd (call_with_retry (he_crypto E) (he_serde E) (he_decoders E)
                     conf (pq_path q) (rq_meta r) (rq_body r)
                     \<lparr>uk_public_model = rq_public_model r,
                      uk_upstream_model = mr_upstream_model (rq_resolved r),
                      uk_compatibility_profile = mr_profile (rq_resolved r),
                      uk_source_client = gq_source_client g\<rparr>
                     (rw_attempts W) (vs_manager s) (vs_env s)))
                | _ \<Rightarrow> None)
      | _ \<Rightarrow> None)"

text \<open>A request is refused before it is sent, or its call ends one way or the other.\<close>

lemma handle_cases:
  obtains (refused) "request_call E conf W q s = None"
      "vs_log (handled_state (handle_v4_proxy E conf W q s) s) = vs_log s"
      "vs_manager (handled_state (handle_v4_proxy E conf W q s) s) = vs_manager s"
  | (called) g r w c out x where
      "route_v4_request E conf q g (vs_models s) (vs_watch s) = (Inr r, w)"
      "call_with_retry (he_crypto E) (he_serde E) (he_decoders E) conf (pq_path q) (rq_meta r)
         (rq_body r) x (rw_attempts W) (vs_manager s) (vs_env s) = (c, out)"
      "handle_v4_proxy E conf W q s =
         (let t = s\<lparr>vs_watch := w, vs_manager := cs_manager c, vs_env := cs_env c,
                    vs_log := vs_log s @ cs_log c\<rparr>
          in Done (case out of
                     Answered a \<Rightarrow> finish_success E conf W q g r a t
                   | Failed e \<Rightarrow> finish_failure E conf W q g r e t))"
      "request_call E conf W q s = Some (r, out)"
proof (cases "govern_v4_request E conf W q")
  case Panic
  then show ?thesis
    by (intro refused) (simp_all add: handle_v4_proxy_def handled_state_def request_call_def)
next
  case (Done governed)
  show ?thesis
  proof (cases "pq_method q \<noteq> ''POST'' \<or> (\<exists>resp. governed = Inl resp)")
    case True
    with Done show ?thesis
      by (intro refused) (auto simp: handle_v4_proxy_def handled_state_def request_call_def
          split: sum.split)
  next
    case False
    then obtain g where g: "governed = Inr g" "pq_method q = ''POST''" by (cases governed) auto
    obtain rr w where rw: "route_v4_request E conf q g (vs_models s) (vs_watch s) = (rr, w)"
      by (cases "route_v4_request E conf q g (vs_models s) (vs_watch s)")
    show ?thesis
    proof (cases rr)
      case (Inl resp)
      with Done g rw show ?thesis
        by (intro refused) (simp_all add: handle_v4_proxy_def handled_state_def request_call_def)
    next
      case (Inr r)
      let ?x = "\<lparr>uk_public_model = rq_public_model r,
                 uk_upstream_model = mr_upstream_model (rq_resolved r),
                 uk_compatibility_profile = mr_profile (rq_resolved r),
                 uk_source_client = gq_source_client g\<rparr>"
      obtain c out where co: "call_with_retry (he_crypto E) (he_serde E) (he_decoders E) conf
          (pq_path q) (rq_meta r) (rq_body r) ?x (rw_attempts W) (vs_manager s) (vs_env s) = (c, out)"
        by (cases "call_with_retry (he_crypto E) (he_serde E) (he_decoders E) conf
          (pq_path q) (rq_meta r) (rq_body r) ?x (rw_attempts W) (vs_manager s) (vs_env s)")
      show ?thesis
        by (rule called [OF _ co, of g w])
          (use Done g rw Inr co in \<open>simp_all add: handle_v4_proxy_def request_call_def Let_def\<close>)
    qed
  qed
qed

text \<open>What the end of a request adds to the log of its call.\<close>

lemma handled_failure:
  assumes h: "handle_v4_proxy E conf W q s = Done (finish_failure E conf W q g r e t)"
  shows "vs_log (handled_state (handle_v4_proxy E conf W q s) s) = vs_log t"
    and "handled_status (handle_v4_proxy E conf W q s) = Some (ce_status e)"
proof -
  obtain resp s' where f: "finish_failure E conf W q g r e t = (resp, s')"
    by (cases "finish_failure E conf W q g r e t")
  from finish_failure_log(1) [of E conf W q g r e t] f h
  show "vs_log (handled_state (handle_v4_proxy E conf W q s) s) = vs_log t"
    by (simp add: handled_state_def)
  have "px_status resp = ce_status e"
    using f by (auto simp: finish_failure_def Let_def proxy_error_response_def)
  with f h show "handled_status (handle_v4_proxy E conf W q s) = Some (ce_status e)"
    by (simp add: handled_status_def)
qed

lemma handled_answer:
  assumes h: "handle_v4_proxy E conf W q s = Done (finish_success E conf W q g r a t)"
  obtains (metered) k l where "rq_streaming r"
      "vs_log (handled_state (handle_v4_proxy E conf W q s) s)
         = vs_log t @ [Reported (cl_selected_node_id a) k l]"
    | (silent) "rq_streaming r \<longrightarrow> cl_selected_node_id a = []"
      "vs_log (handled_state (handle_v4_proxy E conf W q s) s) = vs_log t"
proof -
  obtain resp s' where f: "finish_success E conf W q g r a t = (resp, s')"
    by (cases "finish_success E conf W q g r a t")
  with h have s': "handled_state (handle_v4_proxy E conf W q s) s = s'"
    by (simp add: handled_state_def)
  from finish_success_log [of E conf W q g r a t] f show ?thesis
    using metered silent unfolding s' by (cases "rq_streaming r") auto
qed

lemma handled_stream:
  assumes h: "handle_v4_proxy E conf W q s = Done (finish_success E conf W q g r a t)" and "rq_streaming r"
  shows "\<exists>told. vs_log (handled_state (handle_v4_proxy E conf W q s) s) = vs_log t @ told
    \<and> ((\<exists>k l. told = [Reported (cl_selected_node_id a) k l]) \<or> cl_selected_node_id a = [] \<and> told = [])"
  using assms(2) by (cases rule: handled_answer [OF h]) auto

text \<open>
  C2: Whatever a request meets, the nodes it leases are settled by its end.  A request answered
  before it is sent leases nothing.  When its call fails, the log of its leases and reports pairs
  every lease with one report of the same node before the next lease, with one exception: in a
  request that is not streamed, an attempt whose provider answered with success but whose body could
  not be read ends the call with that error and leaves its node leased.  When the call is answered,
  everything before the last lease is paired, the last lease is of the answering node, and this node
  is told of the success (buffered answers) or of the end of the stream (streamed ones; only a node
  whose name is empty can be left out), exactly once; only a probe answered locally has its node told twice,
  of a soft failure by the call and again by the meter of the local stream.
\<close>

theorem request_settles_its_leases:
  "let s' = handled_state (handle_v4_proxy E conf W q s) s
   in case request_call E conf W q s of
        None \<Rightarrow> vs_log s' = vs_log s
      | Some (r, out) \<Rightarrow> \<exists>before rest. vs_log s' = vs_log s @ before @ rest \<and> settled before
          \<and> (case out of
               Failed e \<Rightarrow> rest = []
                 \<or> (\<exists>i n err. rest = [Leased i] \<and> \<not> rq_streaming r
                      \<and> body_unread (rw_attempts W n) err \<and> e = body_read_error err)
             | Answered a \<Rightarrow>
                 (let i = cl_selected_node_id a
                  in case cl_body a of
                       StreamedBody _ \<Rightarrow> rq_streaming r
                         \<and> ((\<exists>k l. rest = [Leased i, Reported i k l]) \<or> i = [] \<and> rest = [Leased i])
                     | FullBody _ \<Rightarrow>
                         if \<not> rq_streaming r
                         then \<exists>l. rest = [Leased i, Reported i (Success (cl_status a)) l]
                         else cl_outcome a = ''probe_local_fallback''
                           \<and> (\<exists>l told. rest = [Leased i, Reported i (SoftFailure OtherError) l] @ told
                                \<and> ((\<exists>k l'. told = [Reported i k l']) \<or> i = [] \<and> told = []))))"
proof (cases rule: handle_cases [of E conf W q s])
  case refused
  then show ?thesis by (simp add: Let_def)
next
  case (called g r w c out x)
  let ?t = "s\<lparr>vs_watch := w, vs_manager := cs_manager c, vs_env := cs_env c,
      vs_log := vs_log s @ cs_log c\<rparr>"
  have fail: "handle_v4_proxy E conf W q s = Done (finish_failure E conf W q g r e ?t)"
    if "out = Failed e" for e using called(3) that by simp
  have ok: "handle_v4_proxy E conf W q s = Done (finish_success E conf W q g r a ?t)"
    if "out = Answered a" for a using called(3) that by simp
  note stream = route_streaming [OF called(1)]
  from called(2) show ?thesis
  proof (cases rule: call_with_retry_cases)
    case (failed e)
    with handled_failure [OF fail] called(4) show ?thesis
      by (simp add: Let_def) (rule exI [of _ "cs_log c"], simp)
  next
    case (unread e n err before i)
    with handled_failure [OF fail [OF unread(1)]] called(4) stream show ?thesis
      by (simp add: Let_def) (rule exI [of _ before], auto)
  next
    case (buffered a before b l)
    have "vs_log (handled_state (handle_v4_proxy E conf W q s) s) = vs_log s @ cs_log c"
      using handled_answer [OF ok [OF buffered(1)]] stream buffered(3) by auto
    with buffered called(4) stream show ?thesis
      by (simp add: Let_def) (rule exI [of _ before], auto)
  next
    case (local a before b l)
    with handled_stream [OF ok [OF local(1)]] called(4) stream show ?thesis
      by (simp add: Let_def) (rule exI [of _ before], auto)
  next
    case (streamed a before chunks)
    with handled_stream [OF ok [OF streamed(1)]] called(4) stream show ?thesis
      by (simp add: Let_def) (rule exI [of _ before], auto)
  qed
qed

section \<open>The invariant of the pools\<close>

lemma attempt_once_keeps_wf:
  assumes "attempt_once U W a s = (s', e)" and M: "pm_wf (cs_manager s)"
  shows "pm_wf (cs_manager s')"
  using assms(1)
proof (cases rule: attempt_once_cases)
  case (refused M ev err)
  with lease_node_wf [OF M] show ?thesis by simp
next
  case (leased M ev d X)
  let ?t = "leased_state W (nr_id (dr_node d)) M ev s"
  from lease_node_wf [OF M leased(1)] have "pm_wf (cs_manager ?t)" by (simp add: leased_state_def)
  with run_attempt_keeps_wf [of ?t U W X] leased(4) show ?thesis by (simp add: keeps_wf_def)
qed

lemma retry_loop_keeps_wf:
  "pm_wf (cs_manager s) \<Longrightarrow> pm_wf (cs_manager (fst (retry_loop U world a n s)))"
proof (induction n arbitrary: a s)
  case (Suc n)
  obtain s' e where o: "attempt_once U (world a) a s = (s', e)"
    by (cases "attempt_once U (world a) a s")
  from attempt_once_keeps_wf [OF o Suc.prems] have M: "pm_wf (cs_manager s')" .
  with o show ?case
    by (cases e) (simp_all add: Suc.IH loop_tail_def Let_def)
qed simp

lemma call_keeps_wf:
  assumes "pm_wf M" and "call_with_retry C S R conf path m body x world M ev = (c, out)"
  shows "pm_wf (cs_manager c)"
proof (cases "prepare_call_request R path body (uk_source_client x) (uk_compatibility_profile x)")
  case (Inl e)
  with assms show ?thesis by (auto simp: call_with_retry_def call_start_def)
next
  case (Inr prepared)
  let ?U = "call_setup_of C S R conf path m body x prepared"
  from retry_loop_keeps_wf [of "call_start M ev" ?U world 0 "Suc (cu_empty_max ?U)"] assms Inr
  show ?thesis by (simp add: call_with_retry_def Let_def call_start_def)
qed

lemma clear_pin_keeps_wf:
  "pm_wf M \<Longrightarrow> clear_pin model session M ev = (M', ev') \<Longrightarrow> pm_wf M'"
  "pm_wf M \<Longrightarrow> clear_session_pin_for_failure model session st err M ev = (M', ev') \<Longrightarrow> pm_wf M'"
  by (auto simp: clear_pin_def clear_session_pin_for_failure_def pm_wf_def
      split: prod.splits if_splits)

lemma meter_loop_keeps_wf:
  "pm_wf (mt_manager s) \<Longrightarrow> pm_wf (mt_manager (meter_loop S t its s))"
proof (induction its arbitrary: s)
  case (Cons it its)
  show ?case
  proof (cases "mi_item it")
    case (BodyChunk bytes)
    obtain s' more where c: "meter_chunk S t bytes it s = (s', more)"
      by (cases "meter_chunk S t bytes it s")
    have "mt_manager s' = mt_manager s
        \<or> mt_manager s' = pm_record_bucket_latency_hint (rt_selected_node_id t)
            (rt_body_size_bucket t) (mi_seen_ms it)
            (pm_record_latency_hint (rt_selected_node_id t) (mi_seen_ms it) (mt_manager s))"
      using c by (auto simp: meter_chunk_def Let_def split: send_result.splits if_splits)
    with Cons.prems have "pm_wf (mt_manager s')" by (auto simp: hints_wf)
    with BodyChunk c Cons.IH show ?thesis by simp
  next
    case (BodyError err)
    with Cons.prems show ?thesis by (simp add: meter_error_def Let_def split: send_result.split)
  qed
qed simp

lemma guard_release_keeps_wf:
  "pm_wf M \<Longrightarrow> guard_release C r l ck g (M, lg) = (g', M', lg') \<Longrightarrow> pm_wf M'"
  by (auto simp: guard_release_def report_logged_def report_wf split: if_splits)

lemma guard_drop_keeps_wf:
  "pm_wf M \<Longrightarrow> guard_drop C ck g (M, lg) = (M', lg') \<Longrightarrow> pm_wf M'"
  by (auto simp: guard_drop_def guard_release_def report_logged_def report_wf split: if_splits)

lemma settle_keeps_wf: "pm_wf M \<Longrightarrow> pm_wf (mr_manager (settle C r l ck g M ev t))"
  by (simp add: frame_simps report_wf)

lemma meter_finish_keeps_wf:
  assumes "pm_wf (mt_manager s)"
  shows "pm_wf (mr_manager (meter_finish C ms ck g s ev t))"
  using assms
  by (auto simp: meter_finish_def Let_def hints_wf intro!: settle_keeps_wf
      dest: guard_release_keeps_wf clear_pin_keeps_wf split: option.split prod.split)

lemma metered_stream_keeps_wf:
  assumes "pm_wf M"
  shows "pm_wf (mr_manager (fst (metered_stream_task C S ms ck dropped its fb t M ev w)))"
proof -
  let ?s = "meter_loop S t its (meter_start M fb)"
  have s: "pm_wf (mt_manager ?s)"
    by (rule meter_loop_keeps_wf) (simp add: meter_start_def assms)
  show ?thesis
    by (auto simp: metered_stream_task_def Let_def split: prod.split
        dest: guard_drop_keeps_wf [OF s] guard_drop_keeps_wf [OF meter_finish_keeps_wf [OF s]])
qed

lemma finish_stream_manager:
  "vs_manager (snd (finish_stream E conf W r a t s)) = mr_manager (fst (metered_stream_task
     (he_crypto E) (he_serde E) (rw_stream_ms W) (rw_stream_clock W) (rw_dropped W)
     (meter_items W (chunks_of_body (cl_body a))) (rq_fallback_usage r) t (vs_manager s) (vs_env s)
     (vs_watch s)))"
  by (simp add: finish_stream_def Let_def split: prod.split)

lemma finish_buffered_manager:
  "pm_wf (vs_manager s) \<Longrightarrow> pm_wf (vs_manager (snd (finish_buffered conf W a t s)))"
  by (simp add: finish_buffered_def Let_def hints_wf)

lemma finish_success_keeps_wf:
  assumes M: "pm_wf (vs_manager s)" and f: "finish_success E conf W q g r a s = (resp, s')"
  shows "pm_wf (vs_manager s')"
proof -
  let ?pre = "rq_preflight r"
  obtain snap w where b: "build_ccp_audit_snap (as_session_id ?pre) (as_usk ?pre) (as_icp_scope ?pre)
      (as_prefix_32k_hash ?pre) (cl_usage a) (rq_thinking r) (vs_watch s) = (snap, w)"
    by (cases "build_ccp_audit_snap (as_session_id ?pre) (as_usk ?pre) (as_icp_scope ?pre)
      (as_prefix_32k_hash ?pre) (cl_usage a) (rq_thinking r) (vs_watch s)")
  let ?t = "success_telemetry W q g r a snap"
  let ?s = "s\<lparr>vs_watch := w, vs_health := health_record (rw_health_now W) (cl_status a) (vs_health s)\<rparr>"
  have s: "pm_wf (vs_manager ?s)" using M by simp
  from f b have "s' = snd (finish_stream E conf W r a ?t ?s)
      \<or> s' = snd (finish_buffered conf W a ?t ?s)"
    by (auto simp: finish_success_def Let_def split: prod.splits if_splits)
  then show ?thesis
    using metered_stream_keeps_wf [OF s] finish_buffered_manager [OF s]
    by (auto simp: finish_stream_manager)
qed

text \<open>
  The handler of a request keeps the invariant of the pools, whatever the request, the
  configuration, the answers of the providers, the clocks and the fate of the client: with its
  retries, its direct fallbacks, the pins it clears, the meter of its stream and a task that is
  dropped half way, the manager it leaves behind is well-formed when the one it found was.
\<close>

lemma request_keeps_pools_wf:
  assumes M: "pm_wf (vs_manager s)"
  shows "pm_wf (vs_manager (handled_state (handle_v4_proxy E conf W q s) s))"
proof (cases rule: handle_cases [of E conf W q s])
  case refused
  with M show ?thesis by simp
next
  case (called g r w c out x)
  let ?t = "s\<lparr>vs_watch := w, vs_manager := cs_manager c, vs_env := cs_env c,
      vs_log := vs_log s @ cs_log c\<rparr>"
  from call_keeps_wf [OF M called(2)] have t: "pm_wf (vs_manager ?t)" by simp
  show ?thesis
  proof (cases out)
    case (Answered a)
    obtain resp s' where f: "finish_success E conf W q g r a ?t = (resp, s')"
      by (cases "finish_success E conf W q g r a ?t")
    with Answered called(3) finish_success_keeps_wf [OF t f] show ?thesis
      by (simp add: handled_state_def)
  next
    case (Failed e)
    obtain resp s' where f: "finish_failure E conf W q g r e ?t = (resp, s')"
      by (cases "finish_failure E conf W q g r e ?t")
    with finish_failure_log(2) [of E conf W q g r e ?t] t have "pm_wf (vs_manager s')" by simp
    with f Failed called(3) show ?thesis by (simp add: handled_state_def)
  qed
qed

definition demo_proxy_state :: proxy_state where
  "demo_proxy_state =
     \<lparr>vs_manager = demo_pm, vs_env = demo_env,
      vs_watch = \<lparr>cw_shapes = [], cw_prefixes = [], cw_warm = {}\<rparr>,
      vs_models = demo_registry, vs_health = UpstreamHealth_new 100, vs_collected = [], vs_log = []\<rparr>"

lemma request_keeps_pools_wf_witness:
  "\<forall>E conf W q.
     pm_wf (vs_manager (handled_state (handle_v4_proxy E conf W q demo_proxy_state) demo_proxy_state))"
  using request_keeps_pools_wf [of demo_proxy_state] demo_pm_wf by (simp add: demo_proxy_state_def)

section \<open>Two reports of one lease, and a failure that counts as a success\<close>

text \<open>A probe answered locally: the call reports the node, and so does the meter of the answer.\<close>

lemma local_probe_node_is_reported_twice:
  assumes "local_probe_answer U X resp body s = (s', Stop (Answered a))" and "ax_node_id X \<noteq> []"
  shows "\<exists>k l. cs_log s' @ mr_log (fst (metered_stream_task C S ms ck dropped its fb
            (success_telemetry W q g r a snap) M ev w))
        = cs_log s @ [Reported (ax_node_id X) (SoftFailure OtherError) (ax_latency X),
                      Reported (ax_node_id X) k l]"
proof -
  have "cs_log s' = cs_log s @ [Reported (ax_node_id X) (SoftFailure OtherError) (ax_latency X)]"
      "cl_selected_node_id a = ax_node_id X"
    using assms(1) by (auto simp: local_probe_answer_def answer_of_def frame_simps Let_def)
  with metered_stream_log [of C S ms ck dropped its fb "success_telemetry W q g r a snap" M ev w]
    assms(2) show ?thesis by (auto simp: frame_simps)
qed

definition ingest_all :: "serde \<Rightarrow> string \<Rightarrow> string list \<Rightarrow> stream_metrics \<Rightarrow> stream_metrics" where
  "ingest_all S path chunks m = foldl (\<lambda>m b. ingest S path b m) m chunks"

lemma meter_loop_delivered:
  assumes "map mi_item its = map BodyChunk chunks" and "\<forall>it \<in> set its. mi_send it = SendOk"
  shows "mt_metrics (meter_loop S t its s) = ingest_all S (rt_path t) chunks (mt_metrics s)
    \<and> mt_stream_error (meter_loop S t its s) = mt_stream_error s
    \<and> mt_client_gone (meter_loop S t its s) = mt_client_gone s"
  using assms
proof (induction its arbitrary: chunks s)
  case (Cons it its)
  then obtain b cs where c: "chunks = b # cs" "mi_item it = BodyChunk b" "map mi_item its = map BodyChunk cs"
    by (cases chunks) auto
  obtain s' more where m: "meter_chunk S t b it s = (s', more)" by (cases "meter_chunk S t b it s")
  have "more \<and> mt_metrics s' = ingest S (rt_path t) b (mt_metrics s)
      \<and> mt_stream_error s' = mt_stream_error s \<and> mt_client_gone s' = mt_client_gone s"
    using m Cons.prems(2) by (auto simp: meter_chunk_def Let_def split: if_splits)
  with Cons.IH [OF c(3), of s'] Cons.prems(2) c m show ?case by (simp add: ingest_all_def)
qed (simp add: ingest_all_def)

lemma precheck_peek_chunks:
  "precheck_peek S path (map BodyChunk cs) m buffered = Some (b, rest) \<Longrightarrow>
     b @ forward_rest S path (rest @ BodyError e # later)
       = buffered @ cs @ [stream_error_frame S path (''upstream stream error: '' @ e)]"
proof (induction cs arbitrary: m buffered)
  case Nil
  then show ?case by (auto split: if_splits)
next
  case (Cons c cs)
  have f: "forward_rest S path (map BodyChunk cs @ BodyError e # later)
      = cs @ [stream_error_frame S path (''upstream stream error: '' @ e)]" for cs
    by (induction cs) auto
  from Cons show ?case by (auto simp: Let_def f split: if_splits)
qed

text \<open>
  C16: A provider's stream that breaks after its first output is accepted, its error reaches the
  client as an error frame at the end of the stream, and the meter of the stream takes the frame for
  an ordinary chunk: when all chunks are delivered and there was output, the node is reported with
  success, and no failure is filed for it.
\<close>

theorem broken_stream_counts_as_success:
  assumes signal: "precheck_peek S (rt_path t) (map BodyChunk cs) (metrics_new usage_default) [] \<noteq> None"
    and its: "map mi_item its
      = map BodyChunk (cs @ [stream_error_frame S (rt_path t) (''upstream stream error: '' @ e)])"
    and sent: "\<forall>it \<in> set its. mi_send it = SendOk"
    and spoken: "has_assistant_output (ingest_all S (rt_path t)
      (cs @ [stream_error_frame S (rt_path t) (''upstream stream error: '' @ e)]) (metrics_new fb))"
  shows "precheck_stream_first_output S (rt_path t) (map BodyChunk cs) (BodyError e # later)
        = Some (cs @ [stream_error_frame S (rt_path t) (''upstream stream error: '' @ e)])
    \<and> mr_log (fst (metered_stream_task C S ms ck False its fb t M ev w))
        = [Reported (rt_selected_node_id t) (Success (rt_status t)) ms]
    \<and> rt_outcome (mr_telemetry (fst (metered_stream_task C S ms ck False its fb t M ev w)))
        = rt_outcome t"
proof (intro conjI)
  from signal show "precheck_stream_first_output S (rt_path t) (map BodyChunk cs) (BodyError e # later)
        = Some (cs @ [stream_error_frame S (rt_path t) (''upstream stream error: '' @ e)])"
    using precheck_peek_chunks [of S "rt_path t" cs]
    by (auto simp: precheck_stream_first_output_def)
  let ?s = "meter_loop S t its (meter_start M fb)"
  obtain t' w' where t': "meter_telemetry ms ?s t w = (t', w')" by (cases "meter_telemetry ms ?s t w")
  have s: "mt_client_gone ?s = None" "mt_stream_error ?s = None" "has_assistant_output (mt_metrics ?s)"
    using meter_loop_delivered [OF its sent, of S t "meter_start M fb"] spoken
    by (simp_all add: meter_start_def)
  have keep: "rt_selected_node_id t' = rt_selected_node_id t" "rt_status t' = rt_status t"
      "rt_outcome t' = rt_outcome t"
    using t' by (auto simp: meter_telemetry_def Let_def split: prod.splits)
  obtain M' where f: "meter_finish C ms ck g ?s ev t' = settle C (Success (rt_status t)) ms ck g M' ev t'"
    for g using s by (simp add: meter_finish_def Let_def keep)
  show "mr_log (fst (metered_stream_task C S ms ck False its fb t M ev w))
      = [Reported (rt_selected_node_id t) (Success (rt_status t)) ms]"
    by (simp add: metered_stream_task_def Let_def t' f frame_simps keep)
  show "rt_outcome (mr_telemetry (fst (metered_stream_task C S ms ck False its fb t M ev w)))
      = rt_outcome t"
    by (simp add: metered_stream_task_def Let_def t' f frame_simps keep settle_def report_logged_def)
qed

definition demo_telemetry :: request_telemetry where
  "demo_telemetry =
     \<lparr>rt_rid = [], rt_ts = 0, rt_external_request_id = [], rt_gateway = [],
      rt_gateway_channel_id = [], rt_run_id = [], rt_source_platform = [], rt_case_id = [],
      rt_runner_model = [], rt_provider_id = [], rt_turn_index = 0, rt_model = [],
      rt_public_model = [], rt_upstream_model = [], rt_protocol = [], rt_client_id = [],
      rt_path = ''chat/completions'', rt_method = [], rt_is_streaming = False, rt_node_url = [],
      rt_selected_node_id = ''a'', rt_selected_node_url_redacted = [], rt_observed_exit_ip = [],
      rt_outcome = [], rt_pool = [], rt_exit_ip = [], rt_status = 200, rt_rate_limited = False,
      rt_retry_count = 0, rt_latency_total_ms = 0, rt_upstream_ms = 0, rt_ttft_ms = 0,
      rt_timings = timings_default, rt_affinity_key = [], rt_affinity_hit = False,
      rt_affinity_node_id = [], rt_body_size_bucket = [], rt_protocol_guard = None,
      rt_prompt_tokens = 0, rt_completion_tokens = 0, rt_total_tokens = 0, rt_cached_tokens = 0,
      rt_cache_creation_input_tokens = 0, rt_cache_read_input_tokens = 0,
      rt_cache_miss_input_tokens = 0, rt_session_id = [], rt_usk = [], rt_icp_scope = [],
      rt_prefix_32k_hash = [], rt_cache_forensics = None, rt_prefix_drift = False,
      rt_session_pin_hit = False, rt_thinking_policy = [], rt_prompt_cache_key = [],
      rt_provider_cache_observation = [], rt_warmup_state = [], rt_bytes_sent = 0,
      rt_bytes_received = 0, rt_failure_kind = [], rt_failure_message = [],
      rt_empty_output_class = [], rt_raw_tool_format = [], rt_text_chars = 0,
      rt_reasoning_chars = 0, rt_retry_chain = [], rt_context = None\<rparr>"

definition demo_stream_serde :: serde where
  "demo_stream_serde =
     \<lparr>from_slice = (\<lambda>s. if s = ''x'' then Some (JObject [(''choices'', JArray [JObject [(''delta'',
        JObject [(''content'', JString ''hi'')])]])]) else None),
      to_string = (\<lambda>v. ''m'')\<rparr>"

lemma broken_stream_counts_as_success_witness:
  "mr_log (fst (metered_stream_task demo_crypto demo_stream_serde 7 demo_clock False
     (map (\<lambda>c. \<lparr>mi_item = BodyChunk c, mi_seen_ms = 1, mi_rewritten_ms = 2, mi_send = SendOk\<rparr>)
       [''data: x'' @ [NL, NL],
        stream_error_frame demo_stream_serde ''chat/completions'' (''upstream stream error: '' @ ''reset'')])
     usage_default demo_telemetry demo_pm demo_env
     \<lparr>cw_shapes = [], cw_prefixes = [], cw_warm = {}\<rparr>)) = [Reported ''a'' (Success 200) 7]"
proof -
  have fields: "rt_path demo_telemetry = ''chat/completions''" "rt_selected_node_id demo_telemetry = ''a''"
      "rt_status demo_telemetry = 200"
    by (simp_all add: demo_telemetry_def)
  have signal: "precheck_peek demo_stream_serde ''chat/completions'' (map BodyChunk [''data: x'' @ [NL, NL]])
      (metrics_new usage_default) [] \<noteq> None" by code_simp
  have spoken: "has_assistant_output (ingest_all demo_stream_serde ''chat/completions''
      ([''data: x'' @ [NL, NL]] @ [stream_error_frame demo_stream_serde ''chat/completions''
         (''upstream stream error: '' @ ''reset'')]) (metrics_new usage_default))" by code_simp
  show ?thesis
    using broken_stream_counts_as_success [of demo_stream_serde demo_telemetry
        "[''data: x'' @ [NL, NL]]" _ "''reset''" usage_default, unfolded fields, OF signal _ _ spoken]
    by simp
qed

end
