(* ===== verification/Spec2Isabelle.thy ===== *)
theory Spec2Isabelle
  imports ManagerTheorems ModelRegistry Lanes Health SseBuffer ProbeTheorems RequestRepair
    StreamGuard DsmlRepair MarkdownGuard ToolHistoryCorrect ZenStreamCorrect UnfinishedIntent
    RetrySanitize CompactionCorrect ContextCorrect ToolGateCorrect PipelineCorrect NonStreamCorrect
    HandlerCorrect
begin

text \<open>
  A verification of the core of two Rust crates: \<open>zen-proxy-rs\<close>, a proxy that spreads chat
  requests over a pool of upstream nodes, and \<open>free-model-client-rs\<close>, the client library that
  translates and repairs the requests and the streams it passes on.

  \<^bold>\<open>The node pools (\<open>zen-proxy-rs/src/pool\<close>).\<close>  A request asks the pool manager for a node
  (\<open>dispatch_excluding\<close>, \<open>dispatch_sticky_excluding\<close>).  The manager selects one in the dispatch
  pool (by the session's pin, by affinity, by sampling or by a sweep over the shards), counts it
  in the active pool, and hands it out.  Its outcome comes back through \<open>report\<close>, which releases
  the node and leaves it in service, buries it in the dead pool or puts it into quarantine with a
  probe of its own.  Periodic probes bring nodes back; a fuse takes all of them out.
    \<^item> \<open>PoolTypes\<close>: \<open>pool/mod.rs\<close>, and the locales \<open>node_pool\<close> and \<open>holding_pool\<close>, which state
      what the manager relies on of the traits \<open>Pool\<close>, \<open>DeadPool\<close> and \<open>RateLimitedPool\<close>.
    \<^item> \<open>NodeRegistry\<close>: \<open>node_registry.rs\<close>, \<open>transport.rs\<close>, \<open>session_pin.rs\<close>.
    \<^item> \<open>ActivePool\<close>, \<open>DeadPool\<close> (with \<open>v4/dead_probe.rs\<close>), \<open>RateLimitedPool\<close>: one pool each,
      its invariant and the interpretations of the locales.
    \<^item> \<open>NodeBudget\<close>, \<open>DispatchPool\<close>: the two halves of \<open>dispatch.rs\<close>; \<open>DispatchCorrect\<close>,
      \<open>DispatchInvariant\<close>, \<open>DispatchSelection\<close>: what a selection does to a node and to the
      pool, the invariant \<open>dp_wf\<close>, and the completeness of selection.
    \<^item> \<open>PoolManager\<close>: \<open>manager.rs\<close>; \<open>ManagerCorrect\<close>, \<open>ManagerTheorems\<close>: its invariant over every
      sequence of operations and probe completions, and what dispatch, report, fuse and probing
      promise.

  \<^bold>\<open>Lanes, health and streams (\<open>zen-proxy-rs/src\<close>).\<close>  \<open>Lanes\<close> (\<open>lanes.rs\<close>) classifies requests
  and bounds those in flight; the atomic counter is an interleaved step relation \<open>lane_step\<close>: no lane
  is oversubscribed, and only a full lane refuses.  \<open>Health\<close> (\<open>health.rs\<close>) holds the window
  statistics and the back-off of the upstream, \<open>SseBuffer\<close> (\<open>sse.rs\<close>) the line buffer of its event
  streams.  \<open>ProxyConfig\<close> (\<open>config.rs\<close>) reads the configuration from the environment.

  \<^bold>\<open>Models (\<open>zen-proxy-rs/src/v4\<close>).\<close>  Discovery polls the upstream for models, the probe engine
  decides which may be published, and the registry resolves the names clients ask for.
    \<^item> \<open>ModelDiscovery\<close>: \<open>model_discovery.rs\<close>; \<open>ModelLifecycle\<close>, \<open>LifecycleTheorems\<close>: the
      invariant of the registry through the locales \<open>model_update\<close> and \<open>unpublishing_update\<close>.  Runs
      are sequences of events (\<open>disc_apply\<close>): an operation under the write lock is one event
      (\<open>disc_exec\<close>), a poll is three (its check, its read and its write), with any events in between.
    \<^item> \<open>ModelRegistry\<close>: \<open>model.rs\<close>, the static and the effective registry.
    \<^item> \<open>ModelProbe\<close>, \<open>ProbeAdapter\<close>: \<open>model_probe.rs\<close> and \<open>model_probe_runner.rs\<close>;
      \<open>ProbeTheorems\<close>: the outcome of a probe matrix and of the stream classifiers.

  \<^bold>\<open>The requests of the proxy (\<open>zen-proxy-rs/src/v4\<close>).\<close>  A request passes the guard, the context
  governor and the guard again, gets a model and a session, is sent with retries over leased nodes,
  and its answer is metered.
    \<^item> \<open>ProtocolGuard\<close>, \<open>ProtocolGuardCorrect\<close>: \<open>protocol_guard.rs\<close>, the repair of tool calls and
      results, and that its two passes repair a request.
    \<^item> \<open>ContextGovernor\<close>, \<open>ContextCorrect\<close>: \<open>context.rs\<close>, the trimming of long conversations, and what
      it keeps.
    \<^item> \<open>RequestRepair\<close>: \<open>request_repair.rs\<close>, names for tools that have none.
    \<^item> \<open>CallPolicy\<close>, \<open>UsageWire\<close>, \<open>StreamMetering\<close>, \<open>RequestIdentity\<close>, \<open>MeteredStream\<close>, \<open>RetryLoop\<close>,
      \<open>ProxyHandler\<close>: \<open>provider.rs\<close>, in the order of its parts: the classification of errors, the
      token usage, the metrics of a stream, the identity of a session, the task that forwards a
      stream, the loop of calls and the handler \<open>handle_v4_proxy\<close>.  \<open>Telemetry\<close>: the records of
      \<open>collector/mod.rs\<close> they fill in.
    \<^item> \<open>RetryCorrect\<close>, \<open>HandlerCorrect\<close>: every lease is settled by one report, with the exceptions of
      the code, and the pools stay well-formed.  The outcome of a request's call is the ghost
      \<open>request_call\<close>.

  \<^bold>\<open>The client (\<open>free-model-client-rs/src\<close>).\<close>  A request is translated to the chat protocol, its
  history is cut, folded and made canonical, its body gets cache markers, it is sent with retries,
  and what comes back is guarded and repaired before it is answered.
    \<^item> \<open>ClientTypes\<close>: the messages and tools of \<open>protocol/types.rs\<close>.
    \<^item> \<open>ChatTranslate\<close>, \<open>RequestShape\<close>, \<open>RequestProbes\<close>, \<open>Anchors\<close>, \<open>Compaction\<close>, \<open>ToolHistory\<close>:
      \<open>protocol/translate.rs\<close>.  \<open>ToolHistoryCorrect\<close>: the contract \<open>scan_history\<close> of the upstream
      protocol, and that the canonical history of a tidy one keeps it; \<open>CompactionCorrect\<close>: what
      compaction may change.
    \<^item> \<open>CacheIdentity\<close>, \<open>Canonical\<close>, \<open>CacheControl\<close>: \<open>ccp\<close>, \<open>session\<close> and \<open>canonical\<close>, the identity,
      the frozen tools and the body of a cached request.  \<open>ClientProfile\<close>: \<open>client_profile.rs\<close>.
    \<^item> \<open>ZenStream\<close>, \<open>ZenStreamCorrect\<close>: the event stream of \<open>zen/client.rs\<close> and its collection.
    \<^item> \<open>RetryBody\<close>, \<open>RetrySanitize\<close>: \<open>error.rs\<close>, \<open>thinking_manifest.rs\<close>, \<open>proxy/mod.rs\<close>, the bodies of
      further attempts.
    \<^item> \<open>StreamGuard\<close>: \<open>proxy/dsml_guard.rs\<close>, the hold-back of leaked tool markup.  Its driver
      \<open>guard_stream\<close> feeds the chunks of a stream to \<open>take_emittable_text\<close> and ends with
      \<open>flush_holdback\<close>, as the loops of \<open>proxy/anthropic.rs\<close> do, which besides pass over emitted
      pieces that are blank; it stands for no lines of its own.
    \<^item> \<open>DsmlRepair\<close>: \<open>proxy/dsml_repair.rs\<close>, tool calls read out of leaked markup;
      \<open>MarkdownGuard\<close>: \<open>proxy/markdown.rs\<close>, code fences left open; \<open>UnfinishedIntent\<close>:
      \<open>proxy/unfinished_intent.rs\<close>.
    \<^item> \<open>ToolSynthesis\<close>, \<open>ToolGate\<close>, \<open>ToolGateCorrect\<close>: \<open>synthesis\<close> and the gate of \<open>proxy/anthropic.rs\<close>
      every tool call passes, and that a call that passes is complete.
    \<^item> \<open>RequestPipeline\<close>, \<open>PipelineCorrect\<close>, \<open>ClientAnswers\<close>, \<open>NonStream\<close>, \<open>NonStreamCorrect\<close>: both
      handlers (\<open>proxy/anthropic.rs\<close>, \<open>proxy/openai.rs\<close>) up to the upstream and their answers in one
      piece.

  \<^bold>\<open>Shared theories.\<close>  \<open>Prelude\<close> (machine arithmetic at a stated width, association lists for
  hash maps, the collections of facts), \<open>Json\<close> (the values of \<open>serde_json\<close>; objects are sorted
  by key, as without the feature \<open>preserve_order\<close>), \<open>TextLib\<close>, \<open>StrSearch\<close> and \<open>Utf8Chars\<close> (the
  operations of \<open>str\<close> on the bytes and the characters of a string).

  \<^bold>\<open>How the model relates to the code.\<close>  A struct is a record with prefixed fields, an enum a
  datatype, a \<open>String\<close> the list of its UTF-8 bytes, a \<open>HashMap\<close> or \<open>DashMap\<close> an association list
  in its iteration order.  Unsigned integers are \<open>nat\<close> with saturation and wrap-around written
  out, or words where bits matter.  Floating-point scores and rates are exact rationals.  The
  clock is read once per operation and is an argument.  Random draws and the replies of Redis are
  tapes of the environment, so a theorem over all environments holds for every draw and reply.
  Interleaving is modelled where the code takes no lock over a whole operation and it matters: the
  counter of a lane, the polls of the discovery, and the probes a report spawns, which are jobs
  whose completion is a separate step.  All other operations are one step.  Errors are the left of a
  sum, a panic is the value \<open>Panic\<close> of \<open>outcome\<close>.  The crates that are not part of the repository
  (\<open>serde_json\<close>'s parser and printer, \<open>sha2\<close>, \<open>regex\<close>, \<open>reqwest\<close>) are parameters.  A lease and a
  report of a request leave an entry in a log that only the theorems read (\<open>lease_event\<close>).

  \<^bold>\<open>Bounds.\<close>  \<open>unique_from\<close> has as fuel one more than the names in use, so a free suffix is found
  before it ends (\<open>repair_assigns_fresh_valid_names\<close>).  \<open>lane_wait\<close> polls at most once per
  interval of the wait limit (\<open>lane_wait_terminates\<close>).  \<open>retry_loop\<close> counts its attempts down from
  the configured limit, as the code's range does.  All other loops are structural or come with a
  measure.

  \<^bold>\<open>Not modelled.\<close>  The live streams of the client (\<open>handle_stream\<close>,
  \<open>handle_buffered_claude_code_huge_stream\<close>, \<open>handle_oa_stream\<close>), apart from the parts named above;
  the HTTP servers, routing and start-up of both crates; the administration API; the lines of the
  ledger and of the log, counters, files and export of the collectors; the requests of the network
  probes; and the Lua script of the shared budget, whose replies are the environment's, so that
  what holds of a dispatch under a shared budget is only what holds for every reply.
\<close>

end
